(* ===== verification/Myc_Prelude.thy ===== *)
theory Myc_Prelude
  imports Main "HOL-Library.Multiset" "HOL-Library.Word" "HOL-Library.List_Lexorder" "HOL-Library.Char_ord"
begin

text \<open>
  Shared vocabulary of the development: results with an error on the left, the checked and
  saturating integer operations of Rust that the sources use, the SQLite fragment (typed rows of
  STRICT tables, three-valued logic, guarded INSERT and UPDATE), and three interfaces as locales:
  the durable spelling of an enumeration, an UPDATE that keeps a key, and a transition system
  with an invariant.

  Numbers. A Rust \<open>u16\<close>, \<open>u32\<close>, \<open>u64\<close> or \<open>usize\<close> is a \<^typ>\<open>nat\<close>; every place where the width
  matters is written out with the bound (\<open>checked_add\<close>, \<open>try_from\<close>). An SQLite INTEGER is an
  \<^typ>\<open>int\<close>. A byte is an \<^typ>\<open>8 word\<close>, a BLOB a list of bytes, ordered lexicographically as
  SQLite's \<open>memcmp\<close> does. A Rust \<open>str\<close> is the list of its UTF-8 bytes as \<^typ>\<open>char\<close>.
\<close>

named_theorems table_simps \<open>effects of statements on the projections of a table\<close>

type_synonym byte = "8 word"
type_synonym bytes = "byte list"
type_synonym ('e, 'a) result = "'e + 'a"

section \<open>Results\<close>

definition r_bind :: "('e, 'a) result \<Rightarrow> ('a \<Rightarrow> ('e, 'b) result) \<Rightarrow> ('e, 'b) result" where
  "r_bind m f = (case m of Inl e \<Rightarrow> Inl e | Inr x \<Rightarrow> f x)"

definition ok_or :: "'e \<Rightarrow> 'a option \<Rightarrow> ('e, 'a) result" where
  "ok_or e x = (case x of None \<Rightarrow> Inl e | Some y \<Rightarrow> Inr y)"

definition ensure :: "'e \<Rightarrow> bool \<Rightarrow> ('e, unit) result" where
  "ensure e b = (if b then Inr () else Inl e)"

definition map_err :: "('e \<Rightarrow> 'f) \<Rightarrow> ('e, 'a) result \<Rightarrow> ('f, 'a) result" where
  "map_err f m = (case m of Inl e \<Rightarrow> Inl (f e) | Inr x \<Rightarrow> Inr x)"

definition ok :: "('e, 'a) result \<Rightarrow> 'a option" where
  "ok m = (case m of Inl e \<Rightarrow> None | Inr x \<Rightarrow> Some x)"

text \<open>\<open>iter().map(f).collect::<Result<Vec<_>, _>>()\<close>: the first error stops.\<close>

fun collect :: "('a \<Rightarrow> ('e, 'b) result) \<Rightarrow> 'a list \<Rightarrow> ('e, 'b list) result" where
  "collect f [] = Inr []"
| "collect f (x # xs) = r_bind (f x) (\<lambda>y. r_bind (collect f xs) (\<lambda>ys. Inr (y # ys)))"

lemma r_bind_simps [simp]: "r_bind (Inl e) f = Inl e" "r_bind (Inr x) f = f x"
  by (simp_all add: r_bind_def)

lemma r_bind_Inr_iff: "r_bind m f = Inr y \<longleftrightarrow> (\<exists>x. m = Inr x \<and> f x = Inr y)"
  by (cases m) auto

lemma r_bind_InrE:
  assumes "r_bind m f = Inr y"
  obtains x where "m = Inr x" and "f x = Inr y"
  using assms by (cases m) auto

lemma ok_or_simps [simp]: "ok_or e None = Inl e" "ok_or e (Some x) = Inr x"
  by (simp_all add: ok_or_def)

lemma ok_or_Inr_iff [simp]: "ok_or e x = Inr y \<longleftrightarrow> x = Some y"
  by (cases x) auto

lemma ensure_Inr_iff [simp]: "ensure e b = Inr u \<longleftrightarrow> b"
  by (simp add: ensure_def)

lemma ensure_True [simp]: "ensure e True = Inr ()" "ensure e False = Inl e"
  by (simp_all add: ensure_def)

lemma map_err_simps [simp]: "map_err f (Inl e) = Inl (f e)" "map_err f (Inr x) = Inr x"
  by (simp_all add: map_err_def)

lemma map_err_Inr_iff [simp]: "map_err f m = Inr x \<longleftrightarrow> m = Inr x"
  by (cases m) auto

lemma ok_simps [simp]: "ok (Inl e) = None" "ok (Inr x) = Some x"
  by (simp_all add: ok_def)

lemma collect_Inr_map:
  "(\<And>x. x \<in> set xs \<Longrightarrow> f x = Inr (g x)) \<Longrightarrow> collect f xs = Inr (map g xs)"
  by (induction xs) auto

lemma collect_Inr_length: "collect f xs = Inr ys \<Longrightarrow> length ys = length xs"
  by (induction xs arbitrary: ys) (auto elim!: r_bind_InrE)

lemma collect_Inr_list_all2: "collect f xs = Inr ys \<Longrightarrow> list_all2 (\<lambda>x y. f x = Inr y) xs ys"
  by (induction xs arbitrary: ys) (auto elim!: r_bind_InrE)

section \<open>Machine integers\<close>

definition i64_max :: nat where "i64_max = 9223372036854775807"
definition u64_max :: nat where "u64_max = 18446744073709551615"
definition u32_max :: nat where "u32_max = 4294967295"
definition u16_max :: nat where "u16_max = 65535"

definition checked_add_u64 :: "nat \<Rightarrow> nat \<Rightarrow> nat option" where
  "checked_add_u64 a b = (if a + b \<le> u64_max then Some (a + b) else None)"

definition checked_sub :: "nat \<Rightarrow> nat \<Rightarrow> nat option" where
  "checked_sub a b = (if b \<le> a then Some (a - b) else None)"

definition checked_add_u32 :: "nat \<Rightarrow> nat \<Rightarrow> nat option" where
  "checked_add_u32 a b = (if a + b \<le> u32_max then Some (a + b) else None)"

definition saturating_mul_u64 :: "nat \<Rightarrow> nat \<Rightarrow> nat" where
  "saturating_mul_u64 a b = min (a * b) u64_max"

definition saturating_add_u64 :: "nat \<Rightarrow> nat \<Rightarrow> nat" where
  "saturating_add_u64 a b = min (a + b) u64_max"

text \<open>\<open>1_u64.checked_shl(e)\<close>: None when the shift reaches the width.\<close>

definition checked_shl_1_u64 :: "nat \<Rightarrow> nat option" where
  "checked_shl_1_u64 e = (if e < 64 then Some ((2 ^ e) mod (2 ^ 64)) else None)"

text \<open>\<open>try_from\<close> between an SQLite INTEGER and the unsigned types.\<close>

definition u32_of_int :: "int \<Rightarrow> nat option" where
  "u32_of_int v = (if 0 \<le> v \<and> v \<le> int u32_max then Some (nat v) else None)"

definition u64_of_int :: "int \<Rightarrow> nat option" where
  "u64_of_int v = (if 0 \<le> v \<and> v \<le> int u64_max then Some (nat v) else None)"

definition i64_of_nat :: "nat \<Rightarrow> int option" where
  "i64_of_nat v = (if v \<le> i64_max then Some (int v) else None)"

lemmas int_width_defs = i64_max_def u64_max_def u32_max_def u16_max_def

lemma checked_add_u64_Some [simp]:
  "checked_add_u64 a b = Some c \<longleftrightarrow> c = a + b \<and> a + b \<le> u64_max"
  by (auto simp: checked_add_u64_def)

lemma checked_sub_Some [simp]: "checked_sub a b = Some c \<longleftrightarrow> b \<le> a \<and> c = a - b"
  by (auto simp: checked_sub_def)

lemma checked_add_u32_Some [simp]:
  "checked_add_u32 a b = Some c \<longleftrightarrow> c = a + b \<and> a + b \<le> u32_max"
  by (auto simp: checked_add_u32_def)

lemma u32_of_int_Some [simp]:
  "u32_of_int v = Some n \<longleftrightarrow> v = int n \<and> n \<le> u32_max"
  by (auto simp: u32_of_int_def)

lemma u64_of_int_Some [simp]:
  "u64_of_int v = Some n \<longleftrightarrow> v = int n \<and> n \<le> u64_max"
  by (auto simp: u64_of_int_def)

lemma i64_of_nat_Some [simp]: "i64_of_nat n = Some v \<longleftrightarrow> v = int n \<and> n \<le> i64_max"
  by (auto simp: i64_of_nat_def)

lemma checked_shl_1_u64_small: "e < 64 \<Longrightarrow> checked_shl_1_u64 e = Some (2 ^ e)"
proof -
  assume "e < 64"
  then have "(2::nat) ^ e < 2 ^ 64" by (intro power_strict_increasing) auto
  then have "(2::nat) ^ e mod 2 ^ 64 = 2 ^ e" by (rule mod_less)
  with \<open>e < 64\<close> show ?thesis by (simp only: checked_shl_1_u64_def if_True)
qed

section \<open>Bytes and strings\<close>

definition str_bytes :: "string \<Rightarrow> bytes" where
  "str_bytes s = map of_char s"

definition be_value :: "bytes \<Rightarrow> nat" where
  "be_value bs = foldl (\<lambda>acc b. acc * 256 + unat b) 0 bs"

fun to_be_bytes :: "nat \<Rightarrow> nat \<Rightarrow> bytes" where
  "to_be_bytes 0 n = []"
| "to_be_bytes (Suc w) n = to_be_bytes w (n div 256) @ [of_nat n]"

definition is_ascii_lowercase :: "char \<Rightarrow> bool" where
  "is_ascii_lowercase c \<longleftrightarrow> CHR ''a'' \<le> c \<and> c \<le> CHR ''z''"

definition is_ascii_uppercase :: "char \<Rightarrow> bool" where
  "is_ascii_uppercase c \<longleftrightarrow> CHR ''A'' \<le> c \<and> c \<le> CHR ''Z''"

definition is_ascii_digit :: "char \<Rightarrow> bool" where
  "is_ascii_digit c \<longleftrightarrow> CHR ''0'' \<le> c \<and> c \<le> CHR ''9''"

definition is_ascii_alphanumeric :: "char \<Rightarrow> bool" where
  "is_ascii_alphanumeric c \<longleftrightarrow> is_ascii_lowercase c \<or> is_ascii_uppercase c \<or> is_ascii_digit c"

text \<open>\<open>bytes.windows(2).any(|w| w == [a, a])\<close>.\<close>

fun has_pair :: "'a \<Rightarrow> 'a list \<Rightarrow> bool" where
  "has_pair a (x # y # zs) = ((x = a \<and> y = a) \<or> has_pair a (y # zs))"
| "has_pair a _ = False"

lemma has_pair_iff: "has_pair a xs \<longleftrightarrow> (\<exists>us vs. xs = us @ a # a # vs)"
proof (induction a xs rule: has_pair.induct)
  case (1 a x y zs)
  show ?case (is "?l \<longleftrightarrow> ?r")
  proof
    assume ?l
    with "1.IH" consider "x = a \<and> y = a" | us vs where "y # zs = us @ a # a # vs"
      by auto
    then show ?r
    proof cases
      case 1
      then have "x # y # zs = [] @ a # a # zs" by simp
      then show ?thesis by blast
    next
      case (2 us vs)
      then have "x # y # zs = (x # us) @ a # a # vs" by simp
      then show ?thesis by blast
    qed
  next
    assume ?r
    then obtain us vs where *: "x # y # zs = us @ a # a # vs" by blast
    show ?l
    proof (cases us)
      case Nil
      with * show ?thesis by simp
    next
      case (Cons u us')
      with * have "y # zs = us' @ a # a # vs" by simp
      with "1.IH" have "has_pair a (y # zs)" by blast
      then show ?thesis by simp
    qed
  qed
qed auto

lemma be_value_snoc: "be_value (bs @ [b]) = be_value bs * 256 + unat b"
  by (simp add: be_value_def)

lemma be_value_bound: "be_value bs < 256 ^ length bs"
proof (induction bs rule: rev_induct)
  case (snoc b bs)
  have "unat b < 2 ^ LENGTH(8)" by (rule unsigned_less)
  then have "unat b < 256" by simp
  with snoc show ?case by (simp add: be_value_snoc)
qed (simp add: be_value_def)

lemma length_to_be_bytes [simp]: "length (to_be_bytes w n) = w"
  by (induction w arbitrary: n) auto

lemma be_value_to_be_bytes: "be_value (to_be_bytes w n) = n mod 256 ^ w"
proof (induction w arbitrary: n)
  case (Suc w)
  have "unat (of_nat n :: byte) = n mod 256" by (simp add: unat_of_nat)
  with Suc show ?case by (simp add: be_value_snoc mod_mult2_eq)
qed (simp add: be_value_def)

section \<open>SQLite: three-valued conditions and guarded statements\<close>

text \<open>
  An SQL condition over nullable columns is true, false or NULL. A CHECK constraint rejects a row
  only when it is false; a trigger's WHEN and a statement's WHERE act only when it is true.
\<close>

type_synonym truth = "bool option"

definition sql_all :: "truth list \<Rightarrow> truth" where
  "sql_all cs = (if Some False \<in> set cs then Some False
     else if None \<in> set cs then None else Some True)"

definition sql_any :: "truth list \<Rightarrow> truth" where
  "sql_any cs = (if Some True \<in> set cs then Some True
     else if None \<in> set cs then None else Some False)"

definition sql_not :: "truth \<Rightarrow> truth" where
  "sql_not c = map_option Not c"

definition sql_eq :: "'a option \<Rightarrow> 'a option \<Rightarrow> truth" where
  "sql_eq x y = (case x of None \<Rightarrow> None
     | Some a \<Rightarrow> (case y of None \<Rightarrow> None | Some b \<Rightarrow> Some (a = b)))"

definition sql_in :: "'a option \<Rightarrow> 'a list \<Rightarrow> truth" where
  "sql_in x vs = map_option (\<lambda>a. a \<in> set vs) x"

definition check_passes :: "truth \<Rightarrow> bool" where
  "check_passes c \<longleftrightarrow> c \<noteq> Some False"

definition when_fires :: "truth \<Rightarrow> bool" where
  "when_fires c \<longleftrightarrow> c = Some True"

lemmas sql_logic = sql_all_def sql_any_def sql_not_def sql_eq_def sql_in_def
  check_passes_def when_fires_def

text \<open>Evaluation of conditions whose parts are decided, from the left.\<close>

lemma sql_eval:
  "sql_all [] = Some True" "sql_any [] = Some False"
  "sql_all (Some b # cs) = (if b then sql_all cs else Some False)"
  "sql_any (Some b # cs) = (if b then Some True else sql_any cs)"
  "sql_all (None # cs) = (if sql_all cs = Some False then Some False else None)"
  "sql_any (None # cs) = (if sql_any cs = Some True then Some True else None)"
  "sql_not (Some b) = Some (\<not> b)" "sql_not None = None"
  "sql_eq (Some x) (Some y) = Some (x = y)" "sql_eq None y' = None" "sql_eq x' None = None"
  "sql_in (Some x) vs = Some (x \<in> set vs)" "sql_in None vs = None"
  by (auto simp: sql_all_def sql_any_def sql_not_def sql_eq_def sql_in_def split: option.splits)

text \<open>
  \<open>sql_insert ok r t\<close>: append the row unless a constraint or trigger rejects it.
  \<open>sql_update whr f legal t\<close>: replace every row that satisfies the WHERE clause, unless a
  constraint or trigger rejects one of the replacements; returns the new table and the number of
  affected rows. None is the statement's failure, which leaves the table as it was.
\<close>

definition sql_insert :: "('r list \<Rightarrow> 'r \<Rightarrow> bool) \<Rightarrow> 'r \<Rightarrow> 'r list \<Rightarrow> ('r list \<times> nat) option" where
  "sql_insert legal r t = (if legal t r then Some (t @ [r], 1) else None)"

definition upd_row :: "('r \<Rightarrow> bool) \<Rightarrow> ('r \<Rightarrow> 'r) \<Rightarrow> 'r \<Rightarrow> 'r" where
  "upd_row whr f r = (if whr r then f r else r)"

definition sql_update ::
    "('r \<Rightarrow> bool) \<Rightarrow> ('r \<Rightarrow> 'r) \<Rightarrow> ('r \<Rightarrow> 'r \<Rightarrow> bool) \<Rightarrow> 'r list \<Rightarrow> ('r list \<times> nat) option" where
  "sql_update whr f legal t =
     (if list_all (\<lambda>r. whr r \<longrightarrow> legal r (f r)) t
      then Some (map (upd_row whr f) t, length (filter whr t)) else None)"

lemma sql_insert_Some [simp]:
  "sql_insert legal r t = Some (t', n) \<longleftrightarrow> legal t r \<and> t' = t @ [r] \<and> n = 1"
  by (auto simp: sql_insert_def)

lemma sql_update_SomeD:
  assumes "sql_update whr f legal t = Some (t', n)"
  shows "t' = map (upd_row whr f) t" and "n = length (filter whr t)"
    and "\<And>r. r \<in> set t \<Longrightarrow> whr r \<Longrightarrow> legal r (f r)"
  using assms by (auto simp: sql_update_def list_all_iff split: if_splits)

text \<open>
  An UPDATE that keeps a key column: the keys of the table, and every selection by key, are the
  old ones with the same function applied.
\<close>

locale keyed_update =
  fixes key :: "'r \<Rightarrow> 'k"
    and whr :: "'r \<Rightarrow> bool"
    and f :: "'r \<Rightarrow> 'r"
  assumes key_kept: "whr r \<Longrightarrow> key (f r) = key r"
begin

lemma key_upd_row [simp]: "key (upd_row whr f r) = key r"
  by (simp add: upd_row_def key_kept)

lemma keys_kept: "map key (map (upd_row whr f) t) = map key t"
  by simp

lemma select_by_key:
  "filter (\<lambda>r. P (key r)) (map (upd_row whr f) t) = map (upd_row whr f) (filter (\<lambda>r. P (key r)) t)"
  by (induction t) auto

lemma select_other_key:
  assumes "\<And>r. whr r \<Longrightarrow> \<not> P (key r)"
  shows "filter (\<lambda>r. P (key r)) (map (upd_row whr f) t) = filter (\<lambda>r. P (key r)) t"
proof -
  have "map (upd_row whr f) (filter (\<lambda>r. P (key r)) t) = filter (\<lambda>r. P (key r)) t"
    using assms by (auto simp: upd_row_def intro!: map_idI)
  then show ?thesis by (simp add: select_by_key)
qed

end

section \<open>Rows selected by key\<close>

lemma filter_unique:
  assumes "distinct (map key xs)" and "x \<in> set xs"
  shows "filter (\<lambda>r. key r = key x) xs = [x]"
  using assms by (induction xs) (auto simp: filter_empty_conv image_iff)

lemma filter_unique_conj:
  assumes "distinct (map key xs)" and "x \<in> set xs" and "P x"
  shows "filter (\<lambda>r. key r = key x \<and> P r) xs = [x]"
proof -
  have "filter (\<lambda>r. key r = key x \<and> P r) xs = filter P (filter (\<lambda>r. key r = key x) xs)"
    by (simp add: conj_commute)
  with assms filter_unique [of key xs x] show ?thesis by simp
qed

lemma distinct_key_eq:
  "distinct (map key xs) \<Longrightarrow> x \<in> set xs \<Longrightarrow> y \<in> set xs \<Longrightarrow> key x = key y \<Longrightarrow> x = y"
  by (simp add: distinct_map inj_on_def)

lemma length_filter_unique_le:
  "distinct (map key xs) \<Longrightarrow> length (filter (\<lambda>r. key r = k \<and> P r) xs) \<le> 1"
proof (induction xs)
  case (Cons x xs)
  show ?case
  proof (cases "key x = k")
    case True
    with Cons.prems have "filter (\<lambda>r. key r = k \<and> P r) xs = []"
      by (auto simp: filter_empty_conv image_iff)
    then show ?thesis by simp
  qed (use Cons in auto)
qed simp

lemma sorted_map_int_upt: "sorted (map int [m..<n])"
  by (rule sorted_iff_nth_mono [THEN iffD2]) simp

text \<open>\<open>slice.windows(2).any(|w| w[0] == w[1])\<close>.\<close>

fun adjacent_equal :: "'a list \<Rightarrow> bool" where
  "adjacent_equal (x # y # zs) = (x = y \<or> adjacent_equal (y # zs))"
| "adjacent_equal _ = False"

lemma adjacent_equal_sorted: "sorted xs \<Longrightarrow> adjacent_equal xs \<longleftrightarrow> \<not> distinct xs"
  by (induction xs rule: adjacent_equal.induct) (auto dest: antisym)

section \<open>Interfaces\<close>

text \<open>The durable spelling of a closed enumeration: \<open>as_str\<close> writes what \<open>parse\<close> reads.\<close>

locale spelling =
  fixes as_str :: "'a \<Rightarrow> string"
    and parse :: "string \<Rightarrow> 'a option"
  assumes parse_as_str: "parse (as_str x) = Some x"
    and as_str_parse: "parse s = Some x \<Longrightarrow> as_str x = s"
begin

lemma parse_Some_iff: "parse s = Some x \<longleftrightarrow> s = as_str x"
  using parse_as_str as_str_parse by blast

lemma as_str_inj: "as_str x = as_str y \<longleftrightarrow> x = y"
  by (metis parse_as_str option.inject)

end

text \<open>A transition system with an invariant: what every step keeps holds in every reached state.\<close>

locale invariant_system =
  fixes init :: "'s \<Rightarrow> bool"
    and step :: "'s \<Rightarrow> 's \<Rightarrow> bool"
    and inv :: "'s \<Rightarrow> bool"
  assumes init_inv: "init s \<Longrightarrow> inv s"
    and step_inv: "inv s \<Longrightarrow> step s t \<Longrightarrow> inv t"
begin

lemma steps_inv: "step\<^sup>*\<^sup>* s t \<Longrightarrow> inv s \<Longrightarrow> inv t"
  by (induction rule: rtranclp_induct) (auto intro: step_inv)

lemma reached_inv: "init s \<Longrightarrow> step\<^sup>*\<^sup>* s t \<Longrightarrow> inv t"
  using init_inv steps_inv by blast

text \<open>A relation between states that every step from an invariant state keeps is kept by runs.\<close>

lemma steps_preserve:
  assumes "step\<^sup>*\<^sup>* s t" and "inv s" and "\<And>u. R u u"
    and "\<And>u v. inv u \<Longrightarrow> step u v \<Longrightarrow> R u v"
    and "\<And>u v w. R u v \<Longrightarrow> R v w \<Longrightarrow> R u w"
  shows "R s t"
  using assms(1,2)
proof (induction rule: rtranclp_induct)
  case base
  show ?case by (rule assms(3))
next
  case (step u v)
  then have "inv u" using steps_inv by blast
  with step show ?case using assms(4,5) by blast
qed

end

text \<open>A length prefix makes a concatenation unambiguous.\<close>

lemma frame_inject:
  assumes "length a \<le> u64_max" "length b \<le> u64_max"
  shows "to_be_bytes 8 (length a) @ a @ x = to_be_bytes 8 (length b) @ b @ y \<longleftrightarrow> a = b \<and> x = y"
proof
  assume eq: "to_be_bytes 8 (length a) @ a @ x = to_be_bytes 8 (length b) @ b @ y"
  then have "to_be_bytes 8 (length a) = to_be_bytes 8 (length b)" by simp
  then have "length a mod 256 ^ 8 = length b mod 256 ^ 8" by (metis be_value_to_be_bytes)
  then have "length a = length b" using assms by (simp add: u64_max_def)
  then show "a = b \<and> x = y" using eq by simp
qed simp

lemma to_be_bytes_inject: "a < 256 ^ w \<Longrightarrow> b < 256 ^ w \<Longrightarrow> to_be_bytes w a = to_be_bytes w b \<longleftrightarrow> a = b"
  by (metis be_value_to_be_bytes mod_less)

lemma str_bytes_inject: "str_bytes a = str_bytes b \<longleftrightarrow> a = b"
proof -
  have unat: "unat (of_char c :: byte) = (of_char c :: nat)" for c :: char
  proof -
    have "(of_char c :: byte) = of_nat (of_char c)" by (simp add: of_nat_of_char)
    moreover have "(of_char c :: nat) < 256" by (rule nat_of_char_less_256)
    ultimately show ?thesis by (simp add: unat_of_nat take_bit_eq_mod)
  qed
  have "inj (of_char :: char \<Rightarrow> byte)"
    by (rule injI) (metis unat of_char_eq_iff)
  then show ?thesis by (simp add: str_bytes_def inj_map_eq_map)
qed

end
