(* ===== verification/State_Repository.thy ===== *)
theory State_Repository
  imports Myc_Prelude
begin

text \<open>
  The configuration binding that guards every repository transaction
  (\<^verbatim>\<open>src/src/state_repository.rs\<close>): the newest row of \<open>myc_config_bindings\<close> is decoded and
  compared with the metadata the running process expects.

  The sources declare one enumeration with the two variants \<open>Binding\<close> and \<open>Storage\<close> per module
  and convert between them variant by variant; the model has one type for all of them.
\<close>

datatype OperationError = Binding | Storage

datatype MycStateRepositoryErrorKind = RepoBinding | RepoTransaction | RepoCommitOutcomeUnknown

text \<open>
  The error a caller of a repository method sees: \<open>commit_unknown\<close> is the host's report that the
  COMMIT itself had no known outcome, \<open>operation\<close> the error the closure returned, if it ran.
\<close>

definition map_transaction_error ::
    "bool \<Rightarrow> OperationError option \<Rightarrow> MycStateRepositoryErrorKind" where
  "map_transaction_error commit_unknown operation =
     (if commit_unknown then RepoCommitOutcomeUnknown
      else case operation of Some Binding \<Rightarrow> RepoBinding | _ \<Rightarrow> RepoTransaction)"

definition MYC_STATE_SCHEMA_VERSION :: nat where "MYC_STATE_SCHEMA_VERSION = 12"

record PersistedMetadata =
  pm_normalized_config_sha256 :: bytes
  pm_transport_public_key :: string
  pm_user_public_key :: string
  pm_discovery_public_key :: "string option"
  pm_config_contract_version :: nat
  pm_state_contract_version :: nat
  pm_operator_contract_version :: nat
  pm_status_contract_version :: nat

record binding_row =
  b_generation :: int
  b_normalized_config_sha256 :: bytes
  b_transport_public_key :: string
  b_user_public_key :: string
  b_discovery_public_key :: "string option"
  b_config_contract_version :: int
  b_state_contract_version :: int
  b_operator_contract_version :: int
  b_status_contract_version :: int

definition matches_current_configuration :: "PersistedMetadata \<Rightarrow> PersistedMetadata \<Rightarrow> bool" where
  "matches_current_configuration self other \<longleftrightarrow>
     pm_normalized_config_sha256 self = pm_normalized_config_sha256 other
     \<and> pm_transport_public_key self = pm_transport_public_key other
     \<and> pm_user_public_key self = pm_user_public_key other
     \<and> pm_discovery_public_key self = pm_discovery_public_key other
     \<and> pm_config_contract_version self = pm_config_contract_version other
     \<and> (10 \<le> pm_state_contract_version self
        \<and> pm_state_contract_version self \<le> MYC_STATE_SCHEMA_VERSION)
     \<and> pm_state_contract_version other = MYC_STATE_SCHEMA_VERSION
     \<and> pm_operator_contract_version self = pm_operator_contract_version other
     \<and> pm_status_contract_version self = pm_status_contract_version other"

definition is_ascii_hexdigit :: "char \<Rightarrow> bool" where
  "is_ascii_hexdigit c \<longleftrightarrow> is_ascii_digit c \<or> (CHR ''a'' \<le> c \<and> c \<le> CHR ''f'')
     \<or> (CHR ''A'' \<le> c \<and> c \<le> CHR ''F'')"

definition bounded_public_key :: "string \<Rightarrow> (OperationError, string) result" where
  "bounded_public_key value =
     (if length value = 64 \<and> list_all is_ascii_hexdigit value
         \<and> \<not> list_ex is_ascii_uppercase value
      then Inr value else Inl Binding)"

definition bounded_version :: "int \<Rightarrow> (OperationError, nat) result" where
  "bounded_version v = (case u32_of_int v of
     Some n \<Rightarrow> if n \<noteq> 0 then Inr n else Inl Binding | None \<Rightarrow> Inl Binding)"

definition decode_metadata_row :: "binding_row \<Rightarrow> (OperationError, PersistedMetadata) result" where
  "decode_metadata_row row =
     r_bind (ensure Binding (length (b_normalized_config_sha256 row) = 32)) (\<lambda>_.
     r_bind (bounded_public_key (b_transport_public_key row)) (\<lambda>transport.
     r_bind (bounded_public_key (b_user_public_key row)) (\<lambda>user.
     r_bind (case b_discovery_public_key row of None \<Rightarrow> Inr None
             | Some k \<Rightarrow> r_bind (bounded_public_key k) (\<lambda>d. Inr (Some d))) (\<lambda>discovery.
     r_bind (bounded_version (b_config_contract_version row)) (\<lambda>config.
     r_bind (bounded_version (b_state_contract_version row)) (\<lambda>state.
     r_bind (bounded_version (b_operator_contract_version row)) (\<lambda>operator.
     r_bind (bounded_version (b_status_contract_version row)) (\<lambda>status.
     Inr \<lparr>pm_normalized_config_sha256 = b_normalized_config_sha256 row,
       pm_transport_public_key = transport, pm_user_public_key = user,
       pm_discovery_public_key = discovery, pm_config_contract_version = config,
       pm_state_contract_version = state, pm_operator_contract_version = operator,
       pm_status_contract_version = status\<rparr>))))))))"

text \<open>\<open>ORDER BY generation DESC LIMIT 1\<close>.\<close>

definition read_latest_config_binding ::
    "binding_row list \<Rightarrow> (OperationError, PersistedMetadata option) result" where
  "read_latest_config_binding bindings =
     (case take 1 (rev (sort_key b_generation bindings)) of
        [] \<Rightarrow> Inr None
      | row # _ \<Rightarrow> r_bind (decode_metadata_row row) (\<lambda>m. Inr (Some m)))"

definition require_expected_metadata ::
    "PersistedMetadata \<Rightarrow> binding_row list \<Rightarrow> (OperationError, unit) result" where
  "require_expected_metadata expected bindings =
     r_bind (read_latest_config_binding bindings) (\<lambda>latest.
       case latest of
         Some actual \<Rightarrow> if matches_current_configuration actual expected then Inr () else Inl Binding
       | None \<Rightarrow> Inl Binding)"

text \<open>A transaction is admitted exactly on a newest generation that decodes to the expected one.\<close>

lemma require_expected_metadata_Inr:
  "require_expected_metadata expected bindings = Inr () \<longleftrightarrow>
     (\<exists>row rows actual. rev (sort_key b_generation bindings) = row # rows
        \<and> decode_metadata_row row = Inr actual \<and> matches_current_configuration actual expected)"
  by (cases "rev (sort_key b_generation bindings)")
     (auto simp: require_expected_metadata_def read_latest_config_binding_def r_bind_Inr_iff
       split: option.splits if_splits)

lemma newest_binding_max:
  assumes "rev (sort_key b_generation bindings) = row # rows"
  shows "row \<in> set bindings" and "\<And>r. r \<in> set bindings \<Longrightarrow> b_generation r \<le> b_generation row"
proof -
  have sort: "sort_key b_generation bindings = rev rows @ [row]"
    using assms by (metis rev.simps(2) rev_rev_ident)
  have set: "set bindings = set (rev rows @ [row])"
    using sort by (metis set_sort)
  then show "row \<in> set bindings" by simp
  have "sorted (map b_generation (rev rows @ [row]))"
    using sorted_sort_key [of b_generation bindings] sort by simp
  then show "\<And>r. r \<in> set bindings \<Longrightarrow> b_generation r \<le> b_generation row"
    using set by (auto simp: sorted_append)
qed

end
