(* ===== verification/Delivery_Types.thy ===== *)
theory Delivery_Types
  imports State_Repository
begin

text \<open>
  The data of \<^verbatim>\<open>src/src/state_delivery.rs\<close>: identities, validated newtypes, the closed
  enumerations with their durable spelling, the delivery policy built from configuration, and the
  records the repository returns. A validated newtype is its carrier (\<^typ>\<open>nat\<close>, \<^typ>\<open>string\<close>)
  together with the constructor that checks it; the predicate \<open>valid_time\<close> or \<open>valid_relay_id\<close>
  says what the constructor lets through.
\<close>

section \<open>Validated values\<close>

definition MYC_DELIVERY_TARGET_MAX_COUNT :: nat where "MYC_DELIVERY_TARGET_MAX_COUNT = 32"
definition MYC_DELIVERY_ATTEMPT_MAX_COUNT :: nat where "MYC_DELIVERY_ATTEMPT_MAX_COUNT = 32"
definition MYC_DELIVERY_RELAY_ID_MAX_BYTES :: nat where "MYC_DELIVERY_RELAY_ID_MAX_BYTES = 64"
definition MYC_DELIVERY_RETRY_JITTER_MAX_MS :: nat where "MYC_DELIVERY_RETRY_JITTER_MAX_MS = 300000"

lemmas delivery_limits = MYC_DELIVERY_TARGET_MAX_COUNT_def MYC_DELIVERY_ATTEMPT_MAX_COUNT_def
  MYC_DELIVERY_RELAY_ID_MAX_BYTES_def MYC_DELIVERY_RETRY_JITTER_MAX_MS_def

datatype MycDeliveryStateErrorKind = InvalidTime | InvalidRelayId | InvalidPolicy | InvalidRetryJitter

definition jitter_new :: "nat \<Rightarrow> (MycDeliveryStateErrorKind, nat) result" where
  "jitter_new value_ms =
     (if MYC_DELIVERY_RETRY_JITTER_MAX_MS < value_ms then Inl InvalidRetryJitter else Inr value_ms)"

definition time_new :: "nat \<Rightarrow> (MycDeliveryStateErrorKind, nat) result" where
  "time_new value = (if value = 0 \<or> i64_of_nat value = None then Inl InvalidTime else Inr value)"

definition valid_time :: "nat \<Rightarrow> bool" where
  "valid_time t \<longleftrightarrow> 0 < t \<and> t \<le> i64_max"

definition relay_id_new :: "string \<Rightarrow> (MycDeliveryStateErrorKind, string) result" where
  "relay_id_new bs =
     (if bs \<noteq> [] \<and> length bs \<le> MYC_DELIVERY_RELAY_ID_MAX_BYTES
         \<and> is_ascii_lowercase (hd bs) \<and> is_ascii_alphanumeric (last bs)
         \<and> list_all (\<lambda>b. is_ascii_lowercase b \<or> is_ascii_digit b \<or> b = CHR ''_'') bs
         \<and> \<not> has_pair (CHR ''_'') bs
      then Inr bs else Inl InvalidRelayId)"

definition valid_relay_id :: "string \<Rightarrow> bool" where
  "valid_relay_id s \<longleftrightarrow> relay_id_new s = Inr s"

lemma time_new_Inr_iff [simp]: "time_new v = Inr t \<longleftrightarrow> t = v \<and> valid_time v"
  by (auto simp: time_new_def valid_time_def i64_of_nat_def)

lemma time_new_valid [simp]: "valid_time v \<Longrightarrow> time_new v = Inr v"
  by simp

lemma jitter_new_Inr_iff [simp]:
  "jitter_new v = Inr j \<longleftrightarrow> j = v \<and> v \<le> MYC_DELIVERY_RETRY_JITTER_MAX_MS"
  by (auto simp: jitter_new_def)

lemma relay_id_new_Inr_iff [simp]: "relay_id_new s = Inr r \<longleftrightarrow> r = s \<and> valid_relay_id s"
  by (auto simp: valid_relay_id_def relay_id_new_def split: if_splits)

lemma valid_relay_id_length: "valid_relay_id s \<Longrightarrow> 1 \<le> length s \<and> length s \<le> 64"
  by (cases s) (auto simp: valid_relay_id_def relay_id_new_def delivery_limits split: if_splits)

section \<open>Closed enumerations and their durable spelling\<close>

datatype MycDeliveryPolicyMode = AtLeastOneRequired | AllRequired | RequiredQuorum

fun policy_mode_as_str :: "MycDeliveryPolicyMode \<Rightarrow> string" where
  "policy_mode_as_str AtLeastOneRequired = ''at_least_one_required''"
| "policy_mode_as_str AllRequired = ''all_required''"
| "policy_mode_as_str RequiredQuorum = ''required_quorum''"

definition policy_mode_parse :: "string \<Rightarrow> MycDeliveryPolicyMode option" where
  "policy_mode_parse s =
     (if s = ''at_least_one_required'' then Some AtLeastOneRequired
      else if s = ''all_required'' then Some AllRequired
      else if s = ''required_quorum'' then Some RequiredQuorum else None)"

datatype MycDeliverySourceKind = SignerResponse | DiscoveryHandler

fun source_kind_as_str :: "MycDeliverySourceKind \<Rightarrow> string" where
  "source_kind_as_str SignerResponse = ''signer_response''"
| "source_kind_as_str DiscoveryHandler = ''discovery_handler''"

definition source_kind_parse :: "string \<Rightarrow> MycDeliverySourceKind option" where
  "source_kind_parse s =
     (if s = ''signer_response'' then Some SignerResponse
      else if s = ''discovery_handler'' then Some DiscoveryHandler else None)"

datatype MycDeliveryJobStatus = JobPending | JobActive | JobDelivered | JobFailed | JobUnknown

fun job_status_as_str :: "MycDeliveryJobStatus \<Rightarrow> string" where
  "job_status_as_str JobPending = ''pending''"
| "job_status_as_str JobActive = ''active''"
| "job_status_as_str JobDelivered = ''delivered''"
| "job_status_as_str JobFailed = ''failed''"
| "job_status_as_str JobUnknown = ''unknown''"

definition job_status_parse :: "string \<Rightarrow> MycDeliveryJobStatus option" where
  "job_status_parse s =
     (if s = ''pending'' then Some JobPending
      else if s = ''active'' then Some JobActive
      else if s = ''delivered'' then Some JobDelivered
      else if s = ''failed'' then Some JobFailed
      else if s = ''unknown'' then Some JobUnknown else None)"

datatype MycDeliveryTargetStatus = TargetPending | TargetLeased | TargetSubmitted
  | TargetDelivered | TargetRetryable | TargetUnknown | TargetExhausted

fun target_status_as_str :: "MycDeliveryTargetStatus \<Rightarrow> string" where
  "target_status_as_str TargetPending = ''pending''"
| "target_status_as_str TargetLeased = ''leased''"
| "target_status_as_str TargetSubmitted = ''submitted''"
| "target_status_as_str TargetDelivered = ''delivered''"
| "target_status_as_str TargetRetryable = ''retryable''"
| "target_status_as_str TargetUnknown = ''unknown''"
| "target_status_as_str TargetExhausted = ''exhausted''"

definition target_status_parse :: "string \<Rightarrow> MycDeliveryTargetStatus option" where
  "target_status_parse s =
     (if s = ''pending'' then Some TargetPending
      else if s = ''leased'' then Some TargetLeased
      else if s = ''submitted'' then Some TargetSubmitted
      else if s = ''delivered'' then Some TargetDelivered
      else if s = ''retryable'' then Some TargetRetryable
      else if s = ''unknown'' then Some TargetUnknown
      else if s = ''exhausted'' then Some TargetExhausted else None)"

datatype MycDeliveryAttemptStatus = AttemptLeased | AttemptSubmitted | AttemptDelivered
  | AttemptFailed | AttemptUnknown

fun attempt_status_as_str :: "MycDeliveryAttemptStatus \<Rightarrow> string" where
  "attempt_status_as_str AttemptLeased = ''leased''"
| "attempt_status_as_str AttemptSubmitted = ''submitted''"
| "attempt_status_as_str AttemptDelivered = ''delivered''"
| "attempt_status_as_str AttemptFailed = ''failed''"
| "attempt_status_as_str AttemptUnknown = ''unknown''"

definition attempt_status_parse :: "string \<Rightarrow> MycDeliveryAttemptStatus option" where
  "attempt_status_parse s =
     (if s = ''leased'' then Some AttemptLeased
      else if s = ''submitted'' then Some AttemptSubmitted
      else if s = ''delivered'' then Some AttemptDelivered
      else if s = ''failed'' then Some AttemptFailed
      else if s = ''unknown'' then Some AttemptUnknown else None)"

interpretation policy_mode: spelling policy_mode_as_str policy_mode_parse
  by (rule spelling.intro, rename_tac x, case_tac x) (auto simp: policy_mode_parse_def split: if_splits)

interpretation source_kind: spelling source_kind_as_str source_kind_parse
  by (rule spelling.intro, rename_tac x, case_tac x) (auto simp: source_kind_parse_def split: if_splits)

interpretation job_status: spelling job_status_as_str job_status_parse
  by (rule spelling.intro, rename_tac x, case_tac x) (auto simp: job_status_parse_def split: if_splits)

interpretation target_status: spelling target_status_as_str target_status_parse
  by (rule spelling.intro, rename_tac x, case_tac x) (auto simp: target_status_parse_def split: if_splits)

interpretation attempt_status: spelling attempt_status_as_str attempt_status_parse
  by (rule spelling.intro, rename_tac x, case_tac x) (auto simp: attempt_status_parse_def split: if_splits)

lemmas spelling_simps [simp] = policy_mode.parse_as_str source_kind.parse_as_str
  job_status.parse_as_str target_status.parse_as_str attempt_status.parse_as_str

datatype MycDeliveryAttemptOutcome = OutcomeDelivered | RelayRejected | TransportFailed
  | UnknownAcknowledgement

fun outcome_status :: "MycDeliveryAttemptOutcome \<Rightarrow> MycDeliveryAttemptStatus" where
  "outcome_status OutcomeDelivered = AttemptDelivered"
| "outcome_status RelayRejected = AttemptFailed"
| "outcome_status TransportFailed = AttemptFailed"
| "outcome_status UnknownAcknowledgement = AttemptUnknown"

fun outcome_reason :: "MycDeliveryAttemptOutcome \<Rightarrow> string" where
  "outcome_reason OutcomeDelivered = ''accepted''"
| "outcome_reason RelayRejected = ''relay_rejected''"
| "outcome_reason TransportFailed = ''transport_failed''"
| "outcome_reason UnknownAcknowledgement = ''acknowledgement_lost''"

section \<open>Policies and sources\<close>

record MycDeliveryTargetPolicy =
  tp_relay_id :: string
  tp_required :: bool

record MycDeliveryPolicies =
  dp_mode :: MycDeliveryPolicyMode
  dp_required_acknowledgements :: nat
  dp_max_attempts :: nat
  dp_initial_backoff_ms :: nat
  dp_maximum_backoff_ms :: nat
  dp_attempt_deadline_ms :: nat
  dp_outbox_maximum :: nat
  dp_targets :: "MycDeliveryTargetPolicy list"

definition policies_new ::
    "MycDeliveryPolicyMode \<Rightarrow> nat option \<Rightarrow> nat \<Rightarrow> nat \<Rightarrow> nat \<Rightarrow> nat \<Rightarrow> nat \<Rightarrow> (string \<times> bool) list
      \<Rightarrow> (MycDeliveryStateErrorKind, MycDeliveryPolicies) result" where
  "policies_new mode configured_quorum max_attempts initial_backoff_ms maximum_backoff_ms
      attempt_deadline_ms outbox_maximum targets0 =
     (let targets = sort_key fst targets0;
          required_count = length (filter snd targets);
          required_acknowledgements =
            (case mode of
               AtLeastOneRequired \<Rightarrow> 1
             | AllRequired \<Rightarrow> (if required_count \<le> u32_max then required_count else u32_max)
             | RequiredQuorum \<Rightarrow> (case configured_quorum of None \<Rightarrow> 0 | Some q \<Rightarrow> q));
          valid = (targets \<noteq> [] \<and> length targets \<le> MYC_DELIVERY_TARGET_MAX_COUNT
            \<and> \<not> adjacent_equal (map fst targets)
            \<and> required_acknowledgements \<noteq> 0
            \<and> required_acknowledgements \<le> length targets
            \<and> required_acknowledgements \<le> required_count
            \<and> 1 \<le> max_attempts \<and> max_attempts \<le> MYC_DELIVERY_ATTEMPT_MAX_COUNT
            \<and> initial_backoff_ms \<noteq> 0 \<and> initial_backoff_ms \<le> maximum_backoff_ms
            \<and> maximum_backoff_ms \<le> 300000
            \<and> attempt_deadline_ms \<noteq> 0 \<and> attempt_deadline_ms \<le> 30000
            \<and> 1 \<le> outbox_maximum \<and> outbox_maximum \<le> 65536)
      in if \<not> valid then Inl InvalidPolicy
         else Inr \<lparr>dp_mode = mode, dp_required_acknowledgements = required_acknowledgements,
           dp_max_attempts = max_attempts, dp_initial_backoff_ms = initial_backoff_ms,
           dp_maximum_backoff_ms = maximum_backoff_ms,
           dp_attempt_deadline_ms = attempt_deadline_ms, dp_outbox_maximum = outbox_maximum,
           dp_targets = map (\<lambda>(r, q). \<lparr>tp_relay_id = r, tp_required = q\<rparr>) targets\<rparr>)"

definition policies_valid :: "MycDeliveryPolicies \<Rightarrow> bool" where
  "policies_valid p \<longleftrightarrow>
     dp_targets p \<noteq> [] \<and> length (dp_targets p) \<le> 32
     \<and> distinct (map tp_relay_id (dp_targets p))
     \<and> 0 < dp_required_acknowledgements p
     \<and> dp_required_acknowledgements p \<le> length (filter tp_required (dp_targets p))
     \<and> 1 \<le> dp_max_attempts p \<and> dp_max_attempts p \<le> 32
     \<and> 0 < dp_initial_backoff_ms p \<and> dp_initial_backoff_ms p \<le> dp_maximum_backoff_ms p
     \<and> dp_maximum_backoff_ms p \<le> 300000
     \<and> 0 < dp_attempt_deadline_ms p \<and> dp_attempt_deadline_ms p \<le> 30000
     \<and> 1 \<le> dp_outbox_maximum p \<and> dp_outbox_maximum p \<le> 65536"

lemma required_filter_map:
  "filter tp_required (map (\<lambda>(r, q). \<lparr>tp_relay_id = r, tp_required = q\<rparr>) ts)
     = map (\<lambda>(r, q). \<lparr>tp_relay_id = r, tp_required = q\<rparr>) (filter snd ts)"
  by (induction ts) auto

lemma relay_map: "map tp_relay_id (map (\<lambda>(r, q). \<lparr>tp_relay_id = r, tp_required = q\<rparr>) ts) = map fst ts"
  by (induction ts) auto

text \<open>What the constructor accepts satisfies the relations the rest of the code relies on.\<close>

lemma policies_new_valid:
  assumes "policies_new mode quorum ma ib mb ad om ts = Inr p"
  shows "policies_valid p"
    and "map tp_relay_id (dp_targets p) = sort (map fst ts)"
    and "dp_max_attempts p = ma"
proof -
  let ?ts = "sort_key fst ts"
  have sorted: "map fst ?ts = sort (map fst ts)"
    by (rule properties_for_sort [symmetric]) (simp_all add: sorted_sort_key)
  note eq = assms [unfolded policies_new_def Let_def]
  show "dp_max_attempts p = ma" using eq by (auto split: if_splits)
  show "map tp_relay_id (dp_targets p) = sort (map fst ts)"
    using eq sorted by (auto simp: relay_map simp del: map_map split: if_splits)
  have "distinct (map fst ?ts)"
    using eq adjacent_equal_sorted [of "map fst ?ts"] by (auto simp: sorted split: if_splits)
  then show "policies_valid p"
    using eq unfolding policies_valid_def
    by (auto simp: relay_map required_filter_map delivery_limits simp del: map_map split: if_splits)
qed

record MycDeliverySource =
  src_kind :: MycDeliverySourceKind
  src_id :: bytes

definition source_signer_response :: "bytes \<Rightarrow> MycDeliverySource" where
  "source_signer_response operation_id = \<lparr>src_kind = SignerResponse, src_id = operation_id\<rparr>"

definition source_discovery_handler :: "bytes \<Rightarrow> MycDeliverySource" where
  "source_discovery_handler generation_id = \<lparr>src_kind = DiscoveryHandler, src_id = generation_id\<rparr>"

section \<open>Records read back from the state\<close>

record MycDeliveryTargetRecord =
  tr_index :: nat
  tr_relay_id :: string
  tr_required :: bool
  tr_attempt_count :: nat
  tr_status :: MycDeliveryTargetStatus
  tr_active_attempt_id :: "bytes option"
  tr_next_attempt_at :: "nat option"
  tr_updated_at :: nat

record MycDeliveryJobRecord =
  jr_id :: bytes
  jr_source :: MycDeliverySource
  jr_artifact_digest :: bytes
  jr_policy_mode :: MycDeliveryPolicyMode
  jr_required_acknowledgements :: nat
  jr_max_attempts :: nat
  jr_initial_backoff_ms :: nat
  jr_maximum_backoff_ms :: nat
  jr_attempt_deadline_ms :: nat
  jr_status :: MycDeliveryJobStatus
  jr_created_at :: nat
  jr_updated_at :: nat
  jr_finalized_at :: "nat option"
  jr_targets :: "MycDeliveryTargetRecord list"

record MycDeliveryAttemptRecord =
  ar_id :: bytes
  ar_number :: nat
  ar_status :: MycDeliveryAttemptStatus
  ar_leased_at :: nat
  ar_lease_expires_at :: nat
  ar_submitted_at :: "nat option"
  ar_resolved_at :: "nat option"
  ar_reason :: "string option"

definition job_operation_id :: "MycDeliveryJobRecord \<Rightarrow> bytes option" where
  "job_operation_id job = (case src_kind (jr_source job) of
     SignerResponse \<Rightarrow> Some (src_id (jr_source job)) | DiscoveryHandler \<Rightarrow> None)"

datatype MycDeliveryJobAdmission = Created MycDeliveryJobRecord | JobExactReplay MycDeliveryJobRecord

fun admission_record :: "MycDeliveryJobAdmission \<Rightarrow> MycDeliveryJobRecord" where
  "admission_record (Created job) = job"
| "admission_record (JobExactReplay job) = job"

datatype MycDeliveryClaim = Claimed MycDeliveryAttemptRecord
  | ClaimExactReplay MycDeliveryAttemptRecord | ClaimNotReady | ClaimTerminal

end
