(* ===== verification/Delivery_Schema.thy ===== *)
theory Delivery_Schema
  imports Delivery_Types
begin

text \<open>
  The delivery tables of the state catalog (\<^verbatim>\<open>src/src/state_catalog.rs\<close>) and the statements of
  \<^verbatim>\<open>src/src/state_delivery.rs\<close> that write them. The tables are STRICT, so a column of a row has the
  declared type, with an option for a nullable column. CHECK constraints, UNIQUE constraints,
  foreign keys and triggers decide whether a statement is accepted; a rejected statement is
  \<open>Storage\<close> to the code.
\<close>

record job_row =
  j_job_id :: bytes
  j_source_kind :: string
  j_source_id :: bytes
  j_artifact_sha256 :: bytes
  j_policy_mode :: string
  j_required_acknowledgements :: int
  j_max_attempts :: int
  j_initial_backoff_ms :: int
  j_maximum_backoff_ms :: int
  j_attempt_deadline_ms :: int
  j_status :: string
  j_created_at_unix_ms :: int
  j_updated_at_unix_ms :: int
  j_finalized_at_unix_ms :: "int option"

record target_row =
  t_job_id :: bytes
  t_target_index :: int
  t_relay_id :: string
  t_required :: int
  t_attempt_count :: int
  t_status :: string
  t_active_attempt_id :: "bytes option"
  t_next_attempt_at_unix_ms :: "int option"
  t_updated_at_unix_ms :: int

record attempt_row =
  a_attempt_id :: bytes
  a_job_id :: bytes
  a_target_index :: int
  a_attempt_number :: int
  a_attempt_nonce :: bytes
  a_status :: string
  a_leased_at_unix_ms :: int
  a_lease_expires_at_unix_ms :: int
  a_submitted_at_unix_ms :: "int option"
  a_resolved_at_unix_ms :: "int option"
  a_reason_code :: "string option"

text \<open>
  The part of the database that delivery reads and writes. \<open>request_operation_ids\<close> and
  \<open>desired_generation_ids\<close> are the key columns of \<open>nip46_requests\<close> and \<open>discovery_desired_state\<close>,
  which the insert trigger of \<open>delivery_jobs\<close> consults.
\<close>

record delivery_db =
  config_bindings :: "binding_row list"
  request_operation_ids :: "bytes list"
  desired_generation_ids :: "bytes list"
  delivery_jobs :: "job_row list"
  delivery_targets :: "target_row list"
  delivery_attempts :: "attempt_row list"

abbreviation sql_max :: int where "sql_max \<equiv> 9223372036854775807"

section \<open>Constraints and triggers\<close>

definition delivery_jobs_check :: "job_row \<Rightarrow> bool" where
  "delivery_jobs_check r \<longleftrightarrow>
     length (j_job_id r) = 32
     \<and> j_source_kind r \<in> {''signer_response'', ''discovery_handler''}
     \<and> length (j_source_id r) = 32
     \<and> length (j_artifact_sha256 r) = 32
     \<and> j_policy_mode r \<in> {''at_least_one_required'', ''all_required'', ''required_quorum''}
     \<and> 1 \<le> j_required_acknowledgements r \<and> j_required_acknowledgements r \<le> 32
     \<and> 1 \<le> j_max_attempts r \<and> j_max_attempts r \<le> 32
     \<and> 1 \<le> j_initial_backoff_ms r \<and> j_initial_backoff_ms r \<le> 30000
     \<and> j_initial_backoff_ms r \<le> j_maximum_backoff_ms r \<and> j_maximum_backoff_ms r \<le> 300000
     \<and> 1 \<le> j_attempt_deadline_ms r \<and> j_attempt_deadline_ms r \<le> 30000
     \<and> j_status r \<in> {''pending'', ''active'', ''delivered'', ''failed'', ''unknown''}
     \<and> 1 \<le> j_created_at_unix_ms r \<and> j_created_at_unix_ms r \<le> sql_max
     \<and> j_created_at_unix_ms r \<le> j_updated_at_unix_ms r \<and> j_updated_at_unix_ms r \<le> sql_max
     \<and> (case j_finalized_at_unix_ms r of None \<Rightarrow> True
        | Some f \<Rightarrow> j_created_at_unix_ms r \<le> f \<and> f \<le> sql_max)
     \<and> ((j_status r \<in> {''pending'', ''active''} \<and> j_finalized_at_unix_ms r = None)
        \<or> (j_status r \<in> {''delivered'', ''failed'', ''unknown''} \<and> j_finalized_at_unix_ms r \<noteq> None))"

definition delivery_targets_check :: "target_row \<Rightarrow> bool" where
  "delivery_targets_check r \<longleftrightarrow>
     length (t_job_id r) = 32
     \<and> 0 \<le> t_target_index r \<and> t_target_index r \<le> 31
     \<and> 1 \<le> length (t_relay_id r) \<and> length (t_relay_id r) \<le> 64
     \<and> t_required r \<in> {0, 1}
     \<and> 0 \<le> t_attempt_count r \<and> t_attempt_count r \<le> 32
     \<and> t_status r \<in> {''pending'', ''leased'', ''submitted'', ''delivered'', ''retryable'',
          ''unknown'', ''exhausted''}
     \<and> (case t_active_attempt_id r of None \<Rightarrow> True | Some a \<Rightarrow> length a = 32)
     \<and> (case t_next_attempt_at_unix_ms r of None \<Rightarrow> True | Some n \<Rightarrow> 1 \<le> n \<and> n \<le> sql_max)
     \<and> 1 \<le> t_updated_at_unix_ms r \<and> t_updated_at_unix_ms r \<le> sql_max
     \<and> ((t_status r \<in> {''leased'', ''submitted''} \<and> t_active_attempt_id r \<noteq> None
          \<and> t_next_attempt_at_unix_ms r = None)
        \<or> (t_status r = ''retryable'' \<and> t_active_attempt_id r = None
          \<and> t_next_attempt_at_unix_ms r \<noteq> None)
        \<or> (t_status r = ''unknown'' \<and> t_active_attempt_id r = None)
        \<or> (t_status r \<in> {''pending'', ''delivered'', ''exhausted''} \<and> t_active_attempt_id r = None
          \<and> t_next_attempt_at_unix_ms r = None))"

definition delivery_attempts_check :: "attempt_row \<Rightarrow> bool" where
  "delivery_attempts_check r \<longleftrightarrow>
     length (a_attempt_id r) = 32
     \<and> length (a_job_id r) = 32
     \<and> 0 \<le> a_target_index r \<and> a_target_index r \<le> 31
     \<and> 1 \<le> a_attempt_number r \<and> a_attempt_number r \<le> 32
     \<and> length (a_attempt_nonce r) = 32
     \<and> a_status r \<in> {''leased'', ''submitted'', ''delivered'', ''failed'', ''unknown''}
     \<and> 1 \<le> a_leased_at_unix_ms r \<and> a_leased_at_unix_ms r \<le> sql_max
     \<and> a_leased_at_unix_ms r + 1 \<le> a_lease_expires_at_unix_ms r
     \<and> a_lease_expires_at_unix_ms r \<le> sql_max
     \<and> (case a_submitted_at_unix_ms r of None \<Rightarrow> True
        | Some s \<Rightarrow> a_leased_at_unix_ms r \<le> s \<and> s \<le> a_lease_expires_at_unix_ms r)
     \<and> (case a_resolved_at_unix_ms r of None \<Rightarrow> True
        | Some s \<Rightarrow> a_leased_at_unix_ms r \<le> s \<and> s \<le> sql_max)
     \<and> (case a_reason_code r of None \<Rightarrow> True
        | Some c \<Rightarrow> c \<in> {''accepted'', ''relay_rejected'', ''transport_failed'',
            ''lease_expired_before_submit'', ''acknowledgement_lost''})
     \<and> check_passes (sql_any
         [sql_all [Some (a_status r = ''leased''), Some (a_submitted_at_unix_ms r = None),
            Some (a_resolved_at_unix_ms r = None), Some (a_reason_code r = None)],
          sql_all [Some (a_status r = ''submitted''), Some (a_submitted_at_unix_ms r \<noteq> None),
            Some (a_resolved_at_unix_ms r = None), Some (a_reason_code r = None)],
          sql_all [Some (a_status r = ''delivered''), Some (a_submitted_at_unix_ms r \<noteq> None),
            Some (a_resolved_at_unix_ms r \<noteq> None), sql_eq (a_reason_code r) (Some ''accepted'')],
          sql_all [Some (a_status r = ''failed''), Some (a_resolved_at_unix_ms r \<noteq> None),
            sql_in (a_reason_code r)
              [''relay_rejected'', ''transport_failed'', ''lease_expired_before_submit'']],
          sql_all [Some (a_status r = ''unknown''), Some (a_submitted_at_unix_ms r \<noteq> None),
            Some (a_resolved_at_unix_ms r \<noteq> None),
            sql_eq (a_reason_code r) (Some ''acknowledgement_lost'')]])"

text \<open>The triggers: true means the statement is aborted.\<close>

definition delivery_jobs_guard_update :: "job_row \<Rightarrow> job_row \<Rightarrow> bool" where
  "delivery_jobs_guard_update old new \<longleftrightarrow>
     j_job_id new \<noteq> j_job_id old
     \<or> j_source_kind new \<noteq> j_source_kind old
     \<or> j_source_id new \<noteq> j_source_id old
     \<or> j_artifact_sha256 new \<noteq> j_artifact_sha256 old
     \<or> j_policy_mode new \<noteq> j_policy_mode old
     \<or> j_required_acknowledgements new \<noteq> j_required_acknowledgements old
     \<or> j_max_attempts new \<noteq> j_max_attempts old
     \<or> j_initial_backoff_ms new \<noteq> j_initial_backoff_ms old
     \<or> j_maximum_backoff_ms new \<noteq> j_maximum_backoff_ms old
     \<or> j_attempt_deadline_ms new \<noteq> j_attempt_deadline_ms old
     \<or> j_created_at_unix_ms new \<noteq> j_created_at_unix_ms old
     \<or> j_updated_at_unix_ms new < j_updated_at_unix_ms old
     \<or> \<not> ((j_status old = ''pending'' \<and> j_status new = ''active''
            \<and> j_finalized_at_unix_ms new = None)
          \<or> (j_status old \<in> {''pending'', ''active''}
            \<and> j_status new \<in> {''delivered'', ''failed'', ''unknown''}
            \<and> j_finalized_at_unix_ms new \<noteq> None))"

definition delivery_jobs_guard_insert :: "delivery_db \<Rightarrow> job_row \<Rightarrow> bool" where
  "delivery_jobs_guard_insert db new \<longleftrightarrow>
     (j_source_kind new = ''signer_response'' \<and> j_source_id new \<notin> set (request_operation_ids db))
     \<or> (j_source_kind new = ''discovery_handler''
        \<and> j_source_id new \<notin> set (desired_generation_ids db))"

definition delivery_targets_guard_update :: "target_row \<Rightarrow> target_row \<Rightarrow> bool" where
  "delivery_targets_guard_update old new \<longleftrightarrow> when_fires (sql_any
     [Some (t_job_id new \<noteq> t_job_id old),
      Some (t_target_index new \<noteq> t_target_index old),
      Some (t_relay_id new \<noteq> t_relay_id old),
      Some (t_required new \<noteq> t_required old),
      Some (t_updated_at_unix_ms new < t_updated_at_unix_ms old),
      sql_not (sql_any
       [sql_all [Some (t_status old \<in> {''pending'', ''retryable'', ''unknown''}),
          Some (t_status new = ''leased''),
          Some (t_attempt_count new = t_attempt_count old + 1),
          Some (t_active_attempt_id new \<noteq> None), Some (t_next_attempt_at_unix_ms new = None)],
        sql_all [Some (t_status old = ''leased''), Some (t_status new = ''submitted''),
          Some (t_attempt_count new = t_attempt_count old),
          sql_eq (t_active_attempt_id new) (t_active_attempt_id old),
          Some (t_next_attempt_at_unix_ms new = None)],
        sql_all [Some (t_status old \<in> {''leased'', ''submitted''}),
          Some (t_status new \<in> {''delivered'', ''retryable'', ''unknown'', ''exhausted''}),
          Some (t_attempt_count new = t_attempt_count old),
          Some (t_active_attempt_id new = None),
          sql_any
           [sql_all [Some (t_status new = ''retryable''), Some (t_next_attempt_at_unix_ms new \<noteq> None)],
            Some (t_status new = ''unknown''),
            sql_all [Some (t_status new \<in> {''delivered'', ''exhausted''}),
              Some (t_next_attempt_at_unix_ms new = None)]]]])])"

definition delivery_attempts_guard_update :: "attempt_row \<Rightarrow> attempt_row \<Rightarrow> bool" where
  "delivery_attempts_guard_update old new \<longleftrightarrow> when_fires (sql_any
     [Some (a_attempt_id new \<noteq> a_attempt_id old),
      Some (a_job_id new \<noteq> a_job_id old),
      Some (a_target_index new \<noteq> a_target_index old),
      Some (a_attempt_number new \<noteq> a_attempt_number old),
      Some (a_attempt_nonce new \<noteq> a_attempt_nonce old),
      Some (a_leased_at_unix_ms new \<noteq> a_leased_at_unix_ms old),
      Some (a_lease_expires_at_unix_ms new \<noteq> a_lease_expires_at_unix_ms old),
      sql_not (sql_any
       [sql_all [Some (a_status old = ''leased''), Some (a_status new = ''submitted''),
          Some (a_submitted_at_unix_ms new \<noteq> None),
          Some (a_resolved_at_unix_ms new = None), Some (a_reason_code new = None)],
        sql_all [Some (a_status old = ''leased''), Some (a_status new = ''failed''),
          Some (a_submitted_at_unix_ms new = None), Some (a_resolved_at_unix_ms new \<noteq> None),
          sql_in (a_reason_code new) [''transport_failed'', ''lease_expired_before_submit'']],
        sql_all [Some (a_status old = ''submitted''),
          Some (a_status new \<in> {''delivered'', ''failed'', ''unknown''}),
          sql_eq (a_submitted_at_unix_ms new) (a_submitted_at_unix_ms old),
          Some (a_resolved_at_unix_ms new \<noteq> None),
          sql_any
           [sql_all [Some (a_status new = ''delivered''),
              sql_eq (a_reason_code new) (Some ''accepted'')],
            sql_all [Some (a_status new = ''failed''),
              sql_in (a_reason_code new) [''relay_rejected'', ''transport_failed'']],
            sql_all [Some (a_status new = ''unknown''),
              sql_eq (a_reason_code new) (Some ''acknowledgement_lost'')]]]])])"

section \<open>Which statements the tables accept\<close>

definition job_insert_legal :: "delivery_db \<Rightarrow> job_row list \<Rightarrow> job_row \<Rightarrow> bool" where
  "job_insert_legal db t r \<longleftrightarrow>
     \<not> delivery_jobs_guard_insert db r \<and> delivery_jobs_check r
     \<and> list_all (\<lambda>q. j_job_id q \<noteq> j_job_id r
          \<and> \<not> (j_source_kind q = j_source_kind r \<and> j_source_id q = j_source_id r)) t"

definition job_update_legal :: "job_row \<Rightarrow> job_row \<Rightarrow> bool" where
  "job_update_legal old new \<longleftrightarrow> \<not> delivery_jobs_guard_update old new \<and> delivery_jobs_check new"

definition target_insert_legal :: "delivery_db \<Rightarrow> target_row list \<Rightarrow> target_row \<Rightarrow> bool" where
  "target_insert_legal db t r \<longleftrightarrow>
     delivery_targets_check r
     \<and> list_ex (\<lambda>j. j_job_id j = t_job_id r) (delivery_jobs db)
     \<and> list_all (\<lambda>q. \<not> (t_job_id q = t_job_id r
          \<and> (t_target_index q = t_target_index r \<or> t_relay_id q = t_relay_id r))) t"

definition target_update_legal :: "target_row \<Rightarrow> target_row \<Rightarrow> bool" where
  "target_update_legal old new \<longleftrightarrow>
     \<not> delivery_targets_guard_update old new \<and> delivery_targets_check new"

definition attempt_insert_legal :: "delivery_db \<Rightarrow> attempt_row list \<Rightarrow> attempt_row \<Rightarrow> bool" where
  "attempt_insert_legal db t r \<longleftrightarrow>
     delivery_attempts_check r
     \<and> list_ex (\<lambda>q. t_job_id q = a_job_id r \<and> t_target_index q = a_target_index r)
          (delivery_targets db)
     \<and> list_all (\<lambda>q. a_attempt_id q \<noteq> a_attempt_id r
          \<and> \<not> (a_job_id q = a_job_id r \<and> a_target_index q = a_target_index r
             \<and> (a_attempt_number q = a_attempt_number r \<or> a_attempt_nonce q = a_attempt_nonce r))) t"

definition attempt_update_legal :: "attempt_row \<Rightarrow> attempt_row \<Rightarrow> bool" where
  "attempt_update_legal old new \<longleftrightarrow>
     \<not> delivery_attempts_guard_update old new \<and> delivery_attempts_check new"

end
