(* ===== verification/Delivery_State.thy ===== *)
theory Delivery_State
  imports Delivery_Schema
begin

text \<open>
  The operations of \<^verbatim>\<open>src/src/state_delivery.rs\<close>, each as a function from the database to an
  error or to a result with the new database. Every operation runs inside one transaction: an
  error leaves the database as it was. SHA-256 (crate \<open>sha2\<close>) is the parameter \<open>sha\<close>.
\<close>

section \<open>Statements\<close>

definition execute :: "('d \<times> nat) option \<Rightarrow> (OperationError, 'd \<times> nat) result" where
  "execute st = ok_or Storage st"

definition require_one :: "nat \<Rightarrow> (OperationError, unit) result" where
  "require_one rows = ensure Storage (rows = 1)"

text \<open>\<open>execute(..).map_err(Storage)?; require_one(rows_affected)?\<close>\<close>

definition execute_one :: "('d \<times> nat) option \<Rightarrow> (OperationError, 'd) result" where
  "execute_one st = r_bind (execute st) (\<lambda>(db, n). r_bind (require_one n) (\<lambda>_. Inr db))"

definition execute_at_most_one :: "('d \<times> nat) option \<Rightarrow> (OperationError, 'd) result" where
  "execute_at_most_one st = r_bind (execute st) (\<lambda>(db, n). if 1 < n then Inl Storage else Inr db)"

definition insert_job_sql :: "delivery_db \<Rightarrow> job_row \<Rightarrow> (delivery_db \<times> nat) option" where
  "insert_job_sql db r = map_option (\<lambda>(t, n). (db\<lparr>delivery_jobs := t\<rparr>, n))
     (sql_insert (job_insert_legal db) r (delivery_jobs db))"

definition insert_target_sql :: "delivery_db \<Rightarrow> target_row \<Rightarrow> (delivery_db \<times> nat) option" where
  "insert_target_sql db r = map_option (\<lambda>(t, n). (db\<lparr>delivery_targets := t\<rparr>, n))
     (sql_insert (target_insert_legal db) r (delivery_targets db))"

definition insert_attempt_sql :: "delivery_db \<Rightarrow> attempt_row \<Rightarrow> (delivery_db \<times> nat) option" where
  "insert_attempt_sql db r = map_option (\<lambda>(t, n). (db\<lparr>delivery_attempts := t\<rparr>, n))
     (sql_insert (attempt_insert_legal db) r (delivery_attempts db))"

definition update_jobs ::
    "delivery_db \<Rightarrow> (job_row \<Rightarrow> bool) \<Rightarrow> (job_row \<Rightarrow> job_row) \<Rightarrow> (delivery_db \<times> nat) option" where
  "update_jobs db whr f = map_option (\<lambda>(t, n). (db\<lparr>delivery_jobs := t\<rparr>, n))
     (sql_update whr f job_update_legal (delivery_jobs db))"

definition update_targets ::
    "delivery_db \<Rightarrow> (target_row \<Rightarrow> bool) \<Rightarrow> (target_row \<Rightarrow> target_row) \<Rightarrow> (delivery_db \<times> nat) option" where
  "update_targets db whr f = map_option (\<lambda>(t, n). (db\<lparr>delivery_targets := t\<rparr>, n))
     (sql_update whr f target_update_legal (delivery_targets db))"

definition update_attempts ::
    "delivery_db \<Rightarrow> (attempt_row \<Rightarrow> bool) \<Rightarrow> (attempt_row \<Rightarrow> attempt_row) \<Rightarrow> (delivery_db \<times> nat) option" where
  "update_attempts db whr f = map_option (\<lambda>(t, n). (db\<lparr>delivery_attempts := t\<rparr>, n))
     (sql_update whr f attempt_update_legal (delivery_attempts db))"

text \<open>The UPDATE statements: WHERE clause and SET clause of each.\<close>

definition claim_target_where :: "bytes \<Rightarrow> int \<Rightarrow> int \<Rightarrow> target_row \<Rightarrow> bool" where
  "claim_target_where job_id index attempts r \<longleftrightarrow>
     t_job_id r = job_id \<and> t_target_index r = index \<and> t_attempt_count r = attempts
     \<and> t_status r \<in> {''pending'', ''retryable'', ''unknown''} \<and> t_active_attempt_id r = None"

definition claim_target_set :: "int \<Rightarrow> bytes \<Rightarrow> int \<Rightarrow> target_row \<Rightarrow> target_row" where
  "claim_target_set number attempt_id at r =
     r\<lparr>t_attempt_count := number, t_status := ''leased'', t_active_attempt_id := Some attempt_id,
       t_next_attempt_at_unix_ms := None, t_updated_at_unix_ms := at\<rparr>"

definition mark_job_active_where :: "bytes \<Rightarrow> job_row \<Rightarrow> bool" where
  "mark_job_active_where job_id r \<longleftrightarrow> j_job_id r = job_id \<and> j_status r = ''pending''"

definition mark_job_active_set :: "int \<Rightarrow> job_row \<Rightarrow> job_row" where
  "mark_job_active_set at r = r\<lparr>j_status := ''active'', j_updated_at_unix_ms := at\<rparr>"

definition mark_attempt_submitted_where ::
    "bytes \<Rightarrow> bytes \<Rightarrow> int \<Rightarrow> int \<Rightarrow> attempt_row \<Rightarrow> bool" where
  "mark_attempt_submitted_where attempt_id job_id index at r \<longleftrightarrow>
     a_attempt_id r = attempt_id \<and> a_job_id r = job_id \<and> a_target_index r = index
     \<and> a_status r = ''leased'' \<and> at \<le> a_lease_expires_at_unix_ms r"

definition mark_attempt_submitted_set :: "int \<Rightarrow> attempt_row \<Rightarrow> attempt_row" where
  "mark_attempt_submitted_set at r = r\<lparr>a_status := ''submitted'', a_submitted_at_unix_ms := Some at\<rparr>"

definition mark_target_submitted_where :: "bytes \<Rightarrow> int \<Rightarrow> bytes \<Rightarrow> target_row \<Rightarrow> bool" where
  "mark_target_submitted_where job_id index attempt_id r \<longleftrightarrow>
     t_job_id r = job_id \<and> t_target_index r = index
     \<and> t_active_attempt_id r = Some attempt_id \<and> t_status r = ''leased''"

definition mark_target_submitted_set :: "int \<Rightarrow> target_row \<Rightarrow> target_row" where
  "mark_target_submitted_set at r = r\<lparr>t_status := ''submitted'', t_updated_at_unix_ms := at\<rparr>"

definition resolve_attempt_where :: "bytes \<Rightarrow> bytes \<Rightarrow> int \<Rightarrow> string \<Rightarrow> attempt_row \<Rightarrow> bool" where
  "resolve_attempt_where attempt_id job_id index prior r \<longleftrightarrow>
     a_attempt_id r = attempt_id \<and> a_job_id r = job_id \<and> a_target_index r = index
     \<and> a_status r = prior"

definition resolve_attempt_set :: "string \<Rightarrow> int \<Rightarrow> string \<Rightarrow> attempt_row \<Rightarrow> attempt_row" where
  "resolve_attempt_set status at reason r =
     r\<lparr>a_status := status, a_resolved_at_unix_ms := Some at, a_reason_code := Some reason\<rparr>"

definition resolve_target_where :: "bytes \<Rightarrow> int \<Rightarrow> bytes \<Rightarrow> string \<Rightarrow> target_row \<Rightarrow> bool" where
  "resolve_target_where job_id index attempt_id prior r \<longleftrightarrow>
     t_job_id r = job_id \<and> t_target_index r = index
     \<and> t_active_attempt_id r = Some attempt_id \<and> t_status r = prior"

definition resolve_target_set :: "string \<Rightarrow> int option \<Rightarrow> int \<Rightarrow> target_row \<Rightarrow> target_row" where
  "resolve_target_set status next_at at r =
     r\<lparr>t_status := status, t_active_attempt_id := None, t_next_attempt_at_unix_ms := next_at,
       t_updated_at_unix_ms := at\<rparr>"

definition finalize_job_where :: "bytes \<Rightarrow> job_row \<Rightarrow> bool" where
  "finalize_job_where job_id r \<longleftrightarrow> j_job_id r = job_id \<and> j_status r \<in> {''pending'', ''active''}"

definition finalize_job_set :: "string \<Rightarrow> int \<Rightarrow> job_row \<Rightarrow> job_row" where
  "finalize_job_set status at r =
     r\<lparr>j_status := status, j_updated_at_unix_ms := at, j_finalized_at_unix_ms := Some at\<rparr>"

lemmas statement_defs =
  claim_target_where_def claim_target_set_def mark_job_active_where_def mark_job_active_set_def
  mark_attempt_submitted_where_def mark_attempt_submitted_set_def mark_target_submitted_where_def
  mark_target_submitted_set_def resolve_attempt_where_def resolve_attempt_set_def
  resolve_target_where_def resolve_target_set_def finalize_job_where_def finalize_job_set_def

section \<open>Reading columns\<close>

text \<open>The SELECT lists replace a column of the wrong type or length by NULL, which is \<open>Binding\<close>.\<close>

definition text_col :: "nat \<Rightarrow> nat \<Rightarrow> string \<Rightarrow> (OperationError, string) result" where
  "text_col lo hi s = (if lo \<le> length s \<and> length s \<le> hi then Inr s else Inl Binding)"

definition blob32 :: "bytes \<Rightarrow> (OperationError, bytes) result" where
  "blob32 b = (if length b = 32 then Inr b else Inl Binding)"

definition optional_blob32 :: "bytes option \<Rightarrow> (OperationError, bytes option) result" where
  "optional_blob32 b = (case b of None \<Rightarrow> Inr None | Some x \<Rightarrow> r_bind (blob32 x) (\<lambda>y. Inr (Some y)))"

definition nonnegative_u32 :: "int \<Rightarrow> (OperationError, nat) result" where
  "nonnegative_u32 v = ok_or Binding (u32_of_int v)"

definition positive_u32 :: "int \<Rightarrow> (OperationError, nat) result" where
  "positive_u32 v = r_bind (nonnegative_u32 v) (\<lambda>n. if n \<noteq> 0 then Inr n else Inl Binding)"

definition positive_u64 :: "int \<Rightarrow> (OperationError, nat) result" where
  "positive_u64 v = (case u64_of_int v of
     Some n \<Rightarrow> if n \<noteq> 0 then Inr n else Inl Binding | None \<Rightarrow> Inl Binding)"

definition bool_value :: "int \<Rightarrow> (OperationError, bool) result" where
  "bool_value v = (if v = 0 then Inr False else if v = 1 then Inr True else Inl Binding)"

definition time_col :: "int \<Rightarrow> (OperationError, nat) result" where
  "time_col v = r_bind (positive_u64 v) (\<lambda>n. map_err (\<lambda>_. Binding) (time_new n))"

definition optional_time :: "int option \<Rightarrow> (OperationError, nat option) result" where
  "optional_time v = (case v of None \<Rightarrow> Inr None | Some x \<Rightarrow> r_bind (time_col x) (\<lambda>t. Inr (Some t)))"

definition optional_reason :: "string option \<Rightarrow> (OperationError, string option) result" where
  "optional_reason v = (case v of None \<Rightarrow> Inr None
     | Some c \<Rightarrow> if length c \<le> 32 \<and> c \<in> {''accepted'', ''relay_rejected'', ''transport_failed'',
           ''lease_expired_before_submit'', ''acknowledgement_lost''}
         then Inr (Some c) else Inl Binding)"

lemma text_col_Inr [simp]: "text_col lo hi s = Inr r \<longleftrightarrow> r = s \<and> lo \<le> length s \<and> length s \<le> hi"
  by (auto simp: text_col_def)

lemma blob32_Inr [simp]: "blob32 b = Inr r \<longleftrightarrow> r = b \<and> length b = 32"
  by (auto simp: blob32_def)

lemma optional_blob32_Inr [simp]:
  "optional_blob32 b = Inr r \<longleftrightarrow> r = b \<and> (\<forall>x. b = Some x \<longrightarrow> length x = 32)"
  by (cases b) (auto simp: optional_blob32_def r_bind_Inr_iff)

lemma nonnegative_u32_Inr [simp]: "nonnegative_u32 v = Inr n \<longleftrightarrow> v = int n \<and> n \<le> u32_max"
  by (simp add: nonnegative_u32_def)

lemma positive_u32_Inr [simp]: "positive_u32 v = Inr n \<longleftrightarrow> v = int n \<and> 0 < n \<and> n \<le> u32_max"
  by (auto simp: positive_u32_def r_bind_Inr_iff split: if_splits)

lemma positive_u64_Inr [simp]: "positive_u64 v = Inr n \<longleftrightarrow> v = int n \<and> 0 < n \<and> n \<le> u64_max"
  by (cases "u64_of_int v") (auto simp: positive_u64_def u64_of_int_def split: if_splits)

lemma bool_value_Inr [simp]: "bool_value v = Inr b \<longleftrightarrow> (v = 0 \<and> \<not> b \<or> v = 1 \<and> b)"
  by (auto simp: bool_value_def)

lemma time_col_Inr [simp]: "time_col v = Inr t \<longleftrightarrow> v = int t \<and> valid_time t"
  by (auto simp: time_col_def r_bind_Inr_iff valid_time_def int_width_defs)

lemma optional_time_Inr [simp]:
  "optional_time v = Inr r \<longleftrightarrow> v = map_option int r \<and> (\<forall>t. r = Some t \<longrightarrow> valid_time t)"
  by (cases v; cases r) (auto simp: optional_time_def r_bind_Inr_iff)

lemma optional_reason_Inr:
  "optional_reason v = Inr r \<longleftrightarrow> r = v \<and> (\<forall>c. v = Some c \<longrightarrow>
     c \<in> {''accepted'', ''relay_rejected'', ''transport_failed'',
       ''lease_expired_before_submit'', ''acknowledgement_lost''})"
  by (cases v) (auto simp: optional_reason_def)

section \<open>Reading rows\<close>

definition parse_target :: "target_row \<Rightarrow> (OperationError, MycDeliveryTargetRecord) result" where
  "parse_target row =
     r_bind (nonnegative_u32 (t_target_index row)) (\<lambda>index.
     r_bind (text_col 1 64 (t_relay_id row)) (\<lambda>relay_text.
     r_bind (map_err (\<lambda>_. Binding) (relay_id_new relay_text)) (\<lambda>relay_id.
     r_bind (bool_value (t_required row)) (\<lambda>required.
     r_bind (nonnegative_u32 (t_attempt_count row)) (\<lambda>attempt_count.
     if MYC_DELIVERY_ATTEMPT_MAX_COUNT < attempt_count then Inl Binding else
     r_bind (text_col 0 16 (t_status row)) (\<lambda>status_text.
     r_bind (ok_or Binding (target_status_parse status_text)) (\<lambda>status.
     r_bind (optional_blob32 (t_active_attempt_id row)) (\<lambda>active_attempt_id.
     r_bind (optional_time (t_next_attempt_at_unix_ms row)) (\<lambda>next_attempt_at.
     r_bind (time_col (t_updated_at_unix_ms row)) (\<lambda>updated_at.
     let active = (status \<in> {TargetLeased, TargetSubmitted});
         retryable = (status = TargetRetryable)
     in if active \<noteq> (active_attempt_id \<noteq> None)
           \<or> (retryable \<and> next_attempt_at = None)
           \<or> (\<not> retryable \<and> status \<noteq> TargetUnknown \<and> next_attempt_at \<noteq> None)
        then Inl Binding
        else Inr \<lparr>tr_index = index, tr_relay_id = relay_id, tr_required = required,
          tr_attempt_count = attempt_count, tr_status = status,
          tr_active_attempt_id = active_attempt_id, tr_next_attempt_at = next_attempt_at,
          tr_updated_at = updated_at\<rparr>))))))))))"

definition parse_attempt :: "attempt_row \<Rightarrow> (OperationError, MycDeliveryAttemptRecord) result" where
  "parse_attempt row =
     r_bind (blob32 (a_attempt_id row)) (\<lambda>id.
     r_bind (positive_u32 (a_attempt_number row)) (\<lambda>number.
     if MYC_DELIVERY_ATTEMPT_MAX_COUNT < number then Inl Binding else
     r_bind (blob32 (a_attempt_nonce row)) (\<lambda>_.
     r_bind (text_col 0 16 (a_status row)) (\<lambda>status_text.
     r_bind (ok_or Binding (attempt_status_parse status_text)) (\<lambda>status.
     r_bind (time_col (a_leased_at_unix_ms row)) (\<lambda>leased_at.
     r_bind (time_col (a_lease_expires_at_unix_ms row)) (\<lambda>lease_expires_at.
     r_bind (optional_time (a_submitted_at_unix_ms row)) (\<lambda>submitted_at.
     r_bind (optional_time (a_resolved_at_unix_ms row)) (\<lambda>resolved_at.
     r_bind (optional_reason (a_reason_code row)) (\<lambda>reason.
     let valid = (leased_at < lease_expires_at \<and>
           (case status of
              AttemptLeased \<Rightarrow> submitted_at = None \<and> resolved_at = None \<and> reason = None
            | AttemptSubmitted \<Rightarrow> submitted_at \<noteq> None \<and> resolved_at = None \<and> reason = None
            | AttemptDelivered \<Rightarrow> submitted_at \<noteq> None \<and> resolved_at \<noteq> None
                \<and> reason = Some ''accepted''
            | AttemptFailed \<Rightarrow> resolved_at \<noteq> None \<and> reason \<noteq> None
            | AttemptUnknown \<Rightarrow> submitted_at \<noteq> None \<and> resolved_at \<noteq> None
                \<and> reason = Some ''acknowledgement_lost''))
     in if valid
        then Inr \<lparr>ar_id = id, ar_number = number, ar_status = status, ar_leased_at = leased_at,
          ar_lease_expires_at = lease_expires_at, ar_submitted_at = submitted_at,
          ar_resolved_at = resolved_at, ar_reason = reason\<rparr>
        else Inl Binding))))))))))"

text \<open>\<open>READ_TARGETS_SQL\<close>, \<open>READ_ATTEMPTS_SQL\<close>: ordered, at most 33 rows, 33 being an error.\<close>

definition read_targets :: "delivery_db \<Rightarrow> bytes \<Rightarrow> (OperationError, MycDeliveryTargetRecord list) result" where
  "read_targets db job_id =
     (let rows = take 33 (sort_key t_target_index
            (filter (\<lambda>r. t_job_id r = job_id) (delivery_targets db)))
      in if MYC_DELIVERY_TARGET_MAX_COUNT < length rows then Inl Binding
         else collect parse_target rows)"

definition read_attempts ::
    "delivery_db \<Rightarrow> bytes \<Rightarrow> nat \<Rightarrow> (OperationError, MycDeliveryAttemptRecord list) result" where
  "read_attempts db job_id target_index =
     (let rows = take 33 (sort_key a_attempt_number
            (filter (\<lambda>r. a_job_id r = job_id \<and> a_target_index r = int target_index)
              (delivery_attempts db)))
      in if MYC_DELIVERY_ATTEMPT_MAX_COUNT < length rows then Inl Binding
         else collect parse_attempt rows)"

definition one_attempt :: "attempt_row list \<Rightarrow> (OperationError, MycDeliveryAttemptRecord option) result" where
  "one_attempt rows = (if 1 < length rows then Inl Binding
     else case rows of [] \<Rightarrow> Inr None | r # _ \<Rightarrow> r_bind (parse_attempt r) (\<lambda>a. Inr (Some a)))"

definition read_attempt ::
    "delivery_db \<Rightarrow> bytes \<Rightarrow> nat \<Rightarrow> bytes \<Rightarrow> (OperationError, MycDeliveryAttemptRecord option) result" where
  "read_attempt db job_id target_index attempt_id =
     one_attempt (take 2 (filter (\<lambda>r. a_job_id r = job_id \<and> a_target_index r = int target_index
       \<and> a_attempt_id r = attempt_id) (delivery_attempts db)))"

definition read_attempt_by_nonce ::
    "delivery_db \<Rightarrow> bytes \<Rightarrow> nat \<Rightarrow> bytes \<Rightarrow> (OperationError, MycDeliveryAttemptRecord option) result" where
  "read_attempt_by_nonce db job_id target_index nonce =
     one_attempt (take 2 (filter (\<lambda>r. a_job_id r = job_id \<and> a_target_index r = int target_index
       \<and> a_attempt_nonce r = nonce) (delivery_attempts db)))"

definition read_job_rows ::
    "delivery_db \<Rightarrow> job_row list \<Rightarrow> (OperationError, MycDeliveryJobRecord option) result" where
  "read_job_rows db rows =
     (if 1 < length rows then Inl Binding
      else case rows of [] \<Rightarrow> Inr None | row # _ \<Rightarrow>
     r_bind (blob32 (j_job_id row)) (\<lambda>id.
     r_bind (text_col 0 32 (j_source_kind row)) (\<lambda>kind_text.
     r_bind (ok_or Binding (source_kind_parse kind_text)) (\<lambda>source_kind.
     r_bind (blob32 (j_source_id row)) (\<lambda>source_id.
     r_bind (blob32 (j_artifact_sha256 row)) (\<lambda>artifact_digest.
     r_bind (text_col 0 32 (j_policy_mode row)) (\<lambda>mode_text.
     r_bind (ok_or Binding (policy_mode_parse mode_text)) (\<lambda>policy_mode.
     r_bind (positive_u32 (j_required_acknowledgements row)) (\<lambda>required_acknowledgements.
     r_bind (positive_u32 (j_max_attempts row)) (\<lambda>max_attempts.
     if MYC_DELIVERY_ATTEMPT_MAX_COUNT < max_attempts then Inl Binding else
     r_bind (positive_u64 (j_initial_backoff_ms row)) (\<lambda>initial_backoff_ms.
     r_bind (positive_u64 (j_maximum_backoff_ms row)) (\<lambda>maximum_backoff_ms.
     r_bind (positive_u64 (j_attempt_deadline_ms row)) (\<lambda>attempt_deadline_ms.
     if maximum_backoff_ms < initial_backoff_ms \<or> 300000 < maximum_backoff_ms
        \<or> 30000 < attempt_deadline_ms then Inl Binding else
     r_bind (text_col 0 16 (j_status row)) (\<lambda>status_text.
     r_bind (ok_or Binding (job_status_parse status_text)) (\<lambda>status.
     r_bind (time_col (j_created_at_unix_ms row)) (\<lambda>created_at.
     r_bind (time_col (j_updated_at_unix_ms row)) (\<lambda>updated_at.
     r_bind (optional_time (j_finalized_at_unix_ms row)) (\<lambda>finalized_at.
     r_bind (read_targets db id) (\<lambda>targets.
     let valid = (targets \<noteq> [] \<and> length targets \<le> MYC_DELIVERY_TARGET_MAX_COUNT
           \<and> map tr_index targets = [0..<length targets]
           \<and> (status \<in> {JobDelivered, JobFailed, JobUnknown}) = (finalized_at \<noteq> None)
           \<and> list_all (\<lambda>t. tr_status t \<noteq> TargetUnknown \<or> tr_next_attempt_at t \<noteq> None
               \<or> tr_attempt_count t = max_attempts) targets)
     in if \<not> valid then Inl Binding
        else Inr (Some \<lparr>jr_id = id, jr_source = \<lparr>src_kind = source_kind, src_id = source_id\<rparr>,
          jr_artifact_digest = artifact_digest, jr_policy_mode = policy_mode,
          jr_required_acknowledgements = required_acknowledgements, jr_max_attempts = max_attempts,
          jr_initial_backoff_ms = initial_backoff_ms, jr_maximum_backoff_ms = maximum_backoff_ms,
          jr_attempt_deadline_ms = attempt_deadline_ms, jr_status = status,
          jr_created_at = created_at, jr_updated_at = updated_at, jr_finalized_at = finalized_at,
          jr_targets = targets\<rparr>))))))))))))))))))))"

definition read_job :: "delivery_db \<Rightarrow> bytes \<Rightarrow> (OperationError, MycDeliveryJobRecord option) result" where
  "read_job db job_id =
     read_job_rows db (take 2 (filter (\<lambda>r. j_job_id r = job_id) (delivery_jobs db)))"

definition read_job_by_source ::
    "delivery_db \<Rightarrow> MycDeliverySource \<Rightarrow> (OperationError, MycDeliveryJobRecord option) result" where
  "read_job_by_source db source =
     r_bind (read_job_rows db (take 2 (filter (\<lambda>r.
         j_source_kind r = source_kind_as_str (src_kind source) \<and> j_source_id r = src_id source)
         (delivery_jobs db)))) (\<lambda>found.
       case found of
         Some job \<Rightarrow> if jr_source job = source then Inr (Some job) else Inl Binding
       | None \<Rightarrow> Inr None)"

text \<open>\<open>read_job(..)?.ok_or(Binding)?\<close> and \<open>read_attempt(..)?.ok_or(Binding)?\<close>\<close>

definition require_job :: "delivery_db \<Rightarrow> bytes \<Rightarrow> (OperationError, MycDeliveryJobRecord) result" where
  "require_job db job_id = r_bind (read_job db job_id) (ok_or Binding)"

definition require_attempt ::
    "delivery_db \<Rightarrow> bytes \<Rightarrow> nat \<Rightarrow> bytes \<Rightarrow> (OperationError, MycDeliveryAttemptRecord) result" where
  "require_attempt db job_id target_index attempt_id =
     r_bind (read_attempt db job_id target_index attempt_id) (ok_or Binding)"

definition target_by_relay ::
    "MycDeliveryJobRecord \<Rightarrow> string \<Rightarrow> (OperationError, MycDeliveryTargetRecord) result" where
  "target_by_relay job relay_id =
     ok_or Binding (List.find (\<lambda>t. tr_relay_id t = relay_id) (jr_targets job))"

section \<open>Identities\<close>

definition JOB_ID_DOMAIN :: bytes where
  "JOB_ID_DOMAIN = str_bytes ''radroots.myc.delivery_job.v1'' @ [0]"

definition ATTEMPT_ID_DOMAIN :: bytes where
  "ATTEMPT_ID_DOMAIN = str_bytes ''radroots.myc.delivery_attempt.v1'' @ [0]"

definition derive_job_id :: "(bytes \<Rightarrow> bytes) \<Rightarrow> MycDeliverySource \<Rightarrow> bytes \<Rightarrow> bytes" where
  "derive_job_id sha source artifact =
     sha (JOB_ID_DOMAIN
       @ (if src_kind source = DiscoveryHandler then str_bytes ''discovery_handler'' @ [0] else [])
       @ src_id source @ artifact)"

definition derive_attempt_id :: "(bytes \<Rightarrow> bytes) \<Rightarrow> bytes \<Rightarrow> nat \<Rightarrow> nat \<Rightarrow> bytes \<Rightarrow> bytes" where
  "derive_attempt_id sha job_id target_index attempt_number nonce =
     sha (ATTEMPT_ID_DOMAIN @ job_id @ to_be_bytes 4 target_index @ to_be_bytes 4 attempt_number
       @ nonce)"

section \<open>Job creation\<close>

definition exact_job ::
    "MycDeliveryJobRecord \<Rightarrow> MycDeliverySource \<Rightarrow> bytes \<Rightarrow> nat \<Rightarrow> MycDeliveryPolicies \<Rightarrow> bool" where
  "exact_job job source artifact_digest created_at policy \<longleftrightarrow>
     jr_source job = source
     \<and> jr_artifact_digest job = artifact_digest
     \<and> jr_policy_mode job = dp_mode policy
     \<and> jr_required_acknowledgements job = dp_required_acknowledgements policy
     \<and> jr_max_attempts job = dp_max_attempts policy
     \<and> jr_initial_backoff_ms job = dp_initial_backoff_ms policy
     \<and> jr_maximum_backoff_ms job = dp_maximum_backoff_ms policy
     \<and> jr_attempt_deadline_ms job = dp_attempt_deadline_ms policy
     \<and> jr_created_at job = created_at
     \<and> length (jr_targets job) = length (dp_targets policy)
     \<and> list_all (\<lambda>(actual, expected). tr_relay_id actual = tp_relay_id expected
          \<and> tr_required actual = tp_required expected)
          (zip (jr_targets job) (dp_targets policy))"

definition active_job_count :: "delivery_db \<Rightarrow> nat" where
  "active_job_count db =
     length (filter (\<lambda>r. j_status r \<in> {''pending'', ''active''}) (delivery_jobs db))"

definition new_target_row :: "bytes \<Rightarrow> nat \<Rightarrow> MycDeliveryTargetPolicy \<Rightarrow> nat \<Rightarrow> target_row" where
  "new_target_row job_id index target created_at =
     \<lparr>t_job_id = job_id, t_target_index = int index, t_relay_id = tp_relay_id target,
       t_required = (if tp_required target then 1 else 0), t_attempt_count = 0,
       t_status = ''pending'', t_active_attempt_id = None, t_next_attempt_at_unix_ms = None,
       t_updated_at_unix_ms = int created_at\<rparr>"

fun insert_targets ::
    "delivery_db \<Rightarrow> bytes \<Rightarrow> nat \<Rightarrow> MycDeliveryTargetPolicy list \<Rightarrow> nat
      \<Rightarrow> (OperationError, delivery_db) result" where
  "insert_targets db job_id index [] created_at = Inr db"
| "insert_targets db job_id index (target # targets) created_at =
     (if u32_max < index then Inl Binding
      else r_bind (execute_one (insert_target_sql db (new_target_row job_id index target created_at)))
        (\<lambda>db'. insert_targets db' job_id (Suc index) targets created_at))"

definition new_job_row ::
    "bytes \<Rightarrow> MycDeliverySource \<Rightarrow> bytes \<Rightarrow> nat \<Rightarrow> MycDeliveryPolicies \<Rightarrow> job_row" where
  "new_job_row job_id source artifact_digest created_at policy =
     \<lparr>j_job_id = job_id, j_source_kind = source_kind_as_str (src_kind source),
       j_source_id = src_id source, j_artifact_sha256 = artifact_digest,
       j_policy_mode = policy_mode_as_str (dp_mode policy),
       j_required_acknowledgements = int (dp_required_acknowledgements policy),
       j_max_attempts = int (dp_max_attempts policy),
       j_initial_backoff_ms = int (dp_initial_backoff_ms policy),
       j_maximum_backoff_ms = int (dp_maximum_backoff_ms policy),
       j_attempt_deadline_ms = int (dp_attempt_deadline_ms policy),
       j_status = ''pending'', j_created_at_unix_ms = int created_at,
       j_updated_at_unix_ms = int created_at, j_finalized_at_unix_ms = None\<rparr>"

definition create_job ::
    "(bytes \<Rightarrow> bytes) \<Rightarrow> delivery_db \<Rightarrow> MycDeliverySource \<Rightarrow> bytes \<Rightarrow> nat \<Rightarrow> MycDeliveryPolicies
      \<Rightarrow> (OperationError, MycDeliveryJobAdmission \<times> delivery_db) result" where
  "create_job sha db source artifact_digest created_at policy =
     r_bind (read_job_by_source db source) (\<lambda>found.
     case found of
       Some existing \<Rightarrow>
         if exact_job existing source artifact_digest created_at policy
         then Inr (JobExactReplay existing, db) else Inl Binding
     | None \<Rightarrow>
     if dp_outbox_maximum policy \<le> active_job_count db then Inl Binding else
     let job_id = derive_job_id sha source artifact_digest in
     r_bind (ok_or Binding (i64_of_nat (dp_initial_backoff_ms policy))) (\<lambda>_.
     r_bind (ok_or Binding (i64_of_nat (dp_maximum_backoff_ms policy))) (\<lambda>_.
     r_bind (ok_or Binding (i64_of_nat (dp_attempt_deadline_ms policy))) (\<lambda>_.
     r_bind (execute_one (insert_job_sql db
         (new_job_row job_id source artifact_digest created_at policy))) (\<lambda>db1.
     r_bind (insert_targets db1 job_id 0 (dp_targets policy) created_at) (\<lambda>db2.
     r_bind (require_job db2 job_id) (\<lambda>record.
     Inr (Created record, db2))))))))"

section \<open>Attempts\<close>

definition new_attempt_row ::
    "bytes \<Rightarrow> bytes \<Rightarrow> nat \<Rightarrow> nat \<Rightarrow> bytes \<Rightarrow> nat \<Rightarrow> nat \<Rightarrow> attempt_row" where
  "new_attempt_row attempt_id job_id index number nonce leased_at lease_expires =
     \<lparr>a_attempt_id = attempt_id, a_job_id = job_id, a_target_index = int index,
       a_attempt_number = int number, a_attempt_nonce = nonce, a_status = ''leased'',
       a_leased_at_unix_ms = int leased_at, a_lease_expires_at_unix_ms = int lease_expires,
       a_submitted_at_unix_ms = None, a_resolved_at_unix_ms = None, a_reason_code = None\<rparr>"

text \<open>The tail of \<open>claim_target\<close>: the lease is written, its target leased and its job activated.\<close>

definition claim_lease ::
    "(bytes \<Rightarrow> bytes) \<Rightarrow> delivery_db \<Rightarrow> MycDeliveryJobRecord \<Rightarrow> MycDeliveryTargetRecord \<Rightarrow> bytes \<Rightarrow> bytes \<Rightarrow> nat
      \<Rightarrow> (OperationError, MycDeliveryClaim \<times> delivery_db) result" where
  "claim_lease sha db job target job_id nonce claimed_at =
     (let attempt_number = (tr_attempt_count target + 1) mod 2 ^ 32 in
     r_bind (ok_or Binding (checked_add_u64 claimed_at (jr_attempt_deadline_ms job))) (\<lambda>expires_value.
     r_bind (map_err (\<lambda>_. Binding) (time_new expires_value)) (\<lambda>lease_expires.
     let attempt_id = derive_attempt_id sha job_id (tr_index target) attempt_number nonce in
     r_bind (execute_one (insert_attempt_sql db (new_attempt_row attempt_id job_id (tr_index target)
         attempt_number nonce claimed_at lease_expires))) (\<lambda>db1.
     r_bind (execute_one (update_targets db1
         (claim_target_where job_id (int (tr_index target)) (int (tr_attempt_count target)))
         (claim_target_set (int attempt_number) attempt_id (int claimed_at)))) (\<lambda>db2.
     r_bind (execute_at_most_one (update_jobs db2 (mark_job_active_where job_id)
         (mark_job_active_set (int claimed_at)))) (\<lambda>db3.
     r_bind (require_attempt db3 job_id (tr_index target) attempt_id) (\<lambda>attempt.
     Inr (Claimed attempt, db3))))))))"

definition claim_target ::
    "(bytes \<Rightarrow> bytes) \<Rightarrow> delivery_db \<Rightarrow> bytes \<Rightarrow> string \<Rightarrow> bytes \<Rightarrow> nat
      \<Rightarrow> (OperationError, MycDeliveryClaim \<times> delivery_db) result" where
  "claim_target sha db job_id relay_id nonce claimed_at =
     r_bind (require_job db job_id) (\<lambda>job.
     if jr_status job \<in> {JobDelivered, JobFailed, JobUnknown} then Inr (ClaimTerminal, db) else
     r_bind (target_by_relay job relay_id) (\<lambda>target.
     r_bind (read_attempt_by_nonce db job_id (tr_index target) nonce) (\<lambda>replay.
     case replay of Some existing \<Rightarrow> Inr (ClaimExactReplay existing, db) | None \<Rightarrow>
     if tr_active_attempt_id target \<noteq> None
        \<or> (case tr_next_attempt_at target of Some next_at \<Rightarrow> claimed_at < next_at | None \<Rightarrow> False)
     then Inr (ClaimNotReady, db)
     else if tr_status target \<in> {TargetDelivered, TargetExhausted}
        \<or> jr_max_attempts job \<le> tr_attempt_count target
     then Inr (ClaimTerminal, db)
     else claim_lease sha db job target job_id nonce claimed_at)))"

definition mark_submitted ::
    "delivery_db \<Rightarrow> bytes \<Rightarrow> string \<Rightarrow> bytes \<Rightarrow> nat
      \<Rightarrow> (OperationError, MycDeliveryAttemptRecord \<times> delivery_db) result" where
  "mark_submitted db job_id relay_id attempt_id submitted_at =
     r_bind (require_job db job_id) (\<lambda>job.
     r_bind (target_by_relay job relay_id) (\<lambda>target.
     r_bind (require_attempt db job_id (tr_index target) attempt_id) (\<lambda>attempt.
     if ar_status attempt = AttemptSubmitted
     then (if ar_submitted_at attempt = Some submitted_at then Inr (attempt, db) else Inl Binding)
     else if ar_status attempt \<noteq> AttemptLeased
        \<or> submitted_at < ar_leased_at attempt
        \<or> ar_lease_expires_at attempt < submitted_at
        \<or> tr_active_attempt_id target \<noteq> Some attempt_id
        \<or> tr_status target \<noteq> TargetLeased
     then Inl Binding else
     r_bind (execute_one (update_attempts db
         (mark_attempt_submitted_where attempt_id job_id (int (tr_index target)) (int submitted_at))
         (mark_attempt_submitted_set (int submitted_at)))) (\<lambda>db1.
     r_bind (execute_one (update_targets db1
         (mark_target_submitted_where job_id (int (tr_index target)) attempt_id)
         (mark_target_submitted_set (int submitted_at)))) (\<lambda>db2.
     r_bind (require_attempt db2 job_id (tr_index target) attempt_id) (\<lambda>result.
     Inr (result, db2)))))))"

definition maximum_delay :: "MycDeliveryJobRecord \<Rightarrow> nat \<Rightarrow> nat" where
  "maximum_delay job attempt_number =
     (let exponent = min (attempt_number - 1) 31;
          factor = (case checked_shl_1_u64 exponent of Some f \<Rightarrow> f | None \<Rightarrow> u64_max)
      in min (saturating_mul_u64 (jr_initial_backoff_ms job) factor) (jr_maximum_backoff_ms job))"

definition next_attempt_time ::
    "MycDeliveryJobRecord \<Rightarrow> nat \<Rightarrow> nat \<Rightarrow> nat \<Rightarrow> (OperationError, nat) result" where
  "next_attempt_time job attempt_number jitter observed_at =
     (if maximum_delay job attempt_number < jitter then Inl Binding
      else r_bind (ok_or Binding (checked_add_u64 observed_at jitter)) (\<lambda>value.
        map_err (\<lambda>_. Binding) (time_new value)))"

definition resolve_attempt_and_target ::
    "delivery_db \<Rightarrow> MycDeliveryJobRecord \<Rightarrow> MycDeliveryTargetRecord \<Rightarrow> MycDeliveryAttemptRecord
      \<Rightarrow> MycDeliveryAttemptStatus \<Rightarrow> MycDeliveryAttemptStatus \<Rightarrow> string \<Rightarrow> nat \<Rightarrow> nat
      \<Rightarrow> (OperationError, delivery_db) result" where
  "resolve_attempt_and_target db job target attempt prior terminal reason retry_jitter observed_at =
     r_bind (execute_one (update_attempts db
         (resolve_attempt_where (ar_id attempt) (jr_id job) (int (tr_index target))
           (attempt_status_as_str prior))
         (resolve_attempt_set (attempt_status_as_str terminal) (int observed_at) reason))) (\<lambda>db1.
     let attempts_remaining = tr_attempt_count target < jr_max_attempts job;
         schedules_retry = attempts_remaining \<and> terminal \<in> {AttemptFailed, AttemptUnknown}
     in if \<not> schedules_retry \<and> retry_jitter \<noteq> 0 then Inl Binding else
     r_bind (case terminal of
         AttemptDelivered \<Rightarrow> Inr (TargetDelivered, None)
       | AttemptFailed \<Rightarrow>
           if attempts_remaining
           then r_bind (next_attempt_time job (ar_number attempt) retry_jitter observed_at)
             (\<lambda>next_at. Inr (TargetRetryable, Some next_at))
           else Inr (TargetExhausted, None)
       | AttemptUnknown \<Rightarrow>
           if attempts_remaining
           then r_bind (next_attempt_time job (ar_number attempt) retry_jitter observed_at)
             (\<lambda>next_at. Inr (TargetUnknown, Some next_at))
           else Inr (TargetUnknown, None)
       | AttemptLeased \<Rightarrow> Inl Binding
       | AttemptSubmitted \<Rightarrow> Inl Binding) (\<lambda>(target_status, next_attempt).
     r_bind (case prior of AttemptLeased \<Rightarrow> Inr ''leased'' | AttemptSubmitted \<Rightarrow> Inr ''submitted''
         | _ \<Rightarrow> Inl Binding) (\<lambda>prior_text.
     execute_one (update_targets db1
         (resolve_target_where (jr_id job) (int (tr_index target)) (ar_id attempt) prior_text)
         (resolve_target_set (target_status_as_str target_status)
           (map_option int next_attempt) (int observed_at))))))"

section \<open>Job outcome\<close>

definition delivered_required :: "MycDeliveryJobRecord \<Rightarrow> nat" where
  "delivered_required job =
     length (filter (\<lambda>t. tr_required t \<and> tr_status t = TargetDelivered) (jr_targets job))"

definition possible_required :: "MycDeliveryJobRecord \<Rightarrow> nat" where
  "possible_required job =
     length (filter (\<lambda>t. tr_required t \<and> tr_status t \<noteq> TargetExhausted
        \<and> \<not> (tr_status t = TargetUnknown \<and> jr_max_attempts job \<le> tr_attempt_count t))
        (jr_targets job))"

definition terminal_decision :: "MycDeliveryJobRecord \<Rightarrow> MycDeliveryJobStatus option" where
  "terminal_decision job =
     (let required = jr_required_acknowledgements job;
          delivered = (case jr_policy_mode job of
              AtLeastOneRequired \<Rightarrow> required \<le> delivered_required job
            | _ \<Rightarrow> required \<le> delivered_required job);
          possible = (case jr_policy_mode job of
              AtLeastOneRequired \<Rightarrow> required \<le> possible_required job
            | _ \<Rightarrow> required \<le> possible_required job)
      in if delivered \<or> \<not> possible
         then Some (if delivered then JobDelivered
           else if list_ex (\<lambda>t. tr_required t \<and> tr_status t = TargetUnknown
                \<and> jr_max_attempts job \<le> tr_attempt_count t) (jr_targets job)
           then JobUnknown else JobFailed)
         else None)"

definition finalize_job_if_terminal ::
    "delivery_db \<Rightarrow> bytes \<Rightarrow> nat \<Rightarrow> (OperationError, MycDeliveryJobRecord \<times> delivery_db) result" where
  "finalize_job_if_terminal db job_id observed_at =
     r_bind (require_job db job_id) (\<lambda>job.
     r_bind (case terminal_decision job of
         Some terminal \<Rightarrow> execute_at_most_one (update_jobs db (finalize_job_where job_id)
           (finalize_job_set (job_status_as_str terminal) (int observed_at)))
       | None \<Rightarrow> Inr db) (\<lambda>db1.
     r_bind (require_job db1 job_id) (\<lambda>result. Inr (result, db1))))"

definition required_prior ::
    "MycDeliveryAttemptOutcome \<Rightarrow> MycDeliveryAttemptStatus \<Rightarrow> MycDeliveryAttemptStatus" where
  "required_prior outcome status = (case outcome of
       OutcomeDelivered \<Rightarrow> AttemptSubmitted
     | UnknownAcknowledgement \<Rightarrow> AttemptSubmitted
     | RelayRejected \<Rightarrow> AttemptSubmitted
     | TransportFailed \<Rightarrow> status)"

definition record_outcome ::
    "delivery_db \<Rightarrow> bytes \<Rightarrow> string \<Rightarrow> bytes \<Rightarrow> MycDeliveryAttemptOutcome \<Rightarrow> nat \<Rightarrow> nat
      \<Rightarrow> (OperationError, MycDeliveryJobRecord \<times> delivery_db) result" where
  "record_outcome db job_id relay_id attempt_id outcome retry_jitter observed_at =
     r_bind (require_job db job_id) (\<lambda>job.
     r_bind (target_by_relay job relay_id) (\<lambda>target.
     r_bind (require_attempt db job_id (tr_index target) attempt_id) (\<lambda>attempt.
     if ar_status attempt \<in> {AttemptDelivered, AttemptFailed, AttemptUnknown}
     then (if ar_status attempt = outcome_status outcome
              \<and> ar_reason attempt = Some (outcome_reason outcome)
              \<and> ar_resolved_at attempt = Some observed_at
           then Inr (job, db) else Inl Binding)
     else
     let prior = required_prior outcome (ar_status attempt)
     in if ar_status attempt \<noteq> prior
           \<or> prior \<notin> {AttemptLeased, AttemptSubmitted}
           \<or> tr_active_attempt_id target \<noteq> Some attempt_id
           \<or> observed_at < ar_leased_at attempt
           \<or> (case ar_submitted_at attempt of Some s \<Rightarrow> observed_at < s | None \<Rightarrow> False)
           \<or> ar_lease_expires_at attempt < observed_at
     then Inl Binding else
     r_bind (resolve_attempt_and_target db job target attempt prior
         (outcome_status outcome) (outcome_reason outcome) retry_jitter observed_at) (\<lambda>db1.
     finalize_job_if_terminal db1 job_id observed_at))))"

definition recover_expired ::
    "delivery_db \<Rightarrow> bytes \<Rightarrow> string \<Rightarrow> bytes \<Rightarrow> nat \<Rightarrow> nat
      \<Rightarrow> (OperationError, MycDeliveryJobRecord \<times> delivery_db) result" where
  "recover_expired db job_id relay_id attempt_id retry_jitter observed_at =
     r_bind (require_job db job_id) (\<lambda>job.
     r_bind (target_by_relay job relay_id) (\<lambda>target.
     r_bind (require_attempt db job_id (tr_index target) attempt_id) (\<lambda>attempt.
     if ar_status attempt \<in> {AttemptDelivered, AttemptFailed, AttemptUnknown}
     then Inr (job, db)
     else if observed_at \<le> ar_lease_expires_at attempt
        \<or> tr_active_attempt_id target \<noteq> Some attempt_id
     then Inl Binding else
     let (terminal, reason) =
       (if ar_status attempt = AttemptLeased then (AttemptFailed, ''lease_expired_before_submit'')
        else (AttemptUnknown, ''acknowledgement_lost''))
     in
     r_bind (resolve_attempt_and_target db job target attempt (ar_status attempt) terminal reason
         retry_jitter observed_at) (\<lambda>db1.
     finalize_job_if_terminal db1 job_id observed_at))))"

section \<open>Work selection\<close>

text \<open>\<open>READ_NEXT_READY_TARGET_SQL\<close>: the join, its WHERE clause, ORDER BY and LIMIT 1.\<close>

definition ready_pairs :: "delivery_db \<Rightarrow> nat \<Rightarrow> (target_row \<times> job_row) list" where
  "ready_pairs db observed_at =
     filter (\<lambda>(t, j). j_job_id j = t_job_id t
         \<and> j_status j \<in> {''pending'', ''active''}
         \<and> t_status t \<in> {''pending'', ''retryable'', ''unknown''}
         \<and> t_attempt_count t < j_max_attempts j
         \<and> t_active_attempt_id t = None
         \<and> (case t_next_attempt_at_unix_ms t of None \<Rightarrow> True | Some n \<Rightarrow> n \<le> int observed_at))
       (List.product (delivery_targets db) (delivery_jobs db))"

definition next_ready_delivery_target ::
    "delivery_db \<Rightarrow> nat \<Rightarrow> (OperationError, (bytes \<times> string) option) result" where
  "next_ready_delivery_target db observed_at =
     (case take 1 (sort_key (\<lambda>(t, j). j_created_at_unix_ms j)
             (sort_key (\<lambda>(t, j). t_job_id t)
               (sort_key (\<lambda>(t, j). t_target_index t) (ready_pairs db observed_at)))) of
        [] \<Rightarrow> Inr None
      | (t, j) # _ \<Rightarrow>
          r_bind (blob32 (t_job_id t)) (\<lambda>job_id.
          r_bind (text_col 1 64 (t_relay_id t)) (\<lambda>relay_text.
          r_bind (map_err (\<lambda>_. Binding) (relay_id_new relay_text)) (\<lambda>relay_id.
          Inr (Some (job_id, relay_id))))))"

section \<open>Repository methods\<close>

definition verify_metadata :: "delivery_db \<Rightarrow> PersistedMetadata \<Rightarrow> (OperationError, unit) result" where
  "verify_metadata db expected = require_expected_metadata expected (config_bindings db)"

definition claim_delivery_target ::
    "(bytes \<Rightarrow> bytes) \<Rightarrow> PersistedMetadata \<Rightarrow> delivery_db \<Rightarrow> bytes \<Rightarrow> string \<Rightarrow> bytes \<Rightarrow> nat
      \<Rightarrow> (OperationError, MycDeliveryClaim \<times> delivery_db) result" where
  "claim_delivery_target sha expected db job_id relay_id nonce claimed_at =
     r_bind (verify_metadata db expected) (\<lambda>_. claim_target sha db job_id relay_id nonce claimed_at)"

definition mark_delivery_attempt_submitted ::
    "PersistedMetadata \<Rightarrow> delivery_db \<Rightarrow> bytes \<Rightarrow> string \<Rightarrow> bytes \<Rightarrow> nat
      \<Rightarrow> (OperationError, MycDeliveryAttemptRecord \<times> delivery_db) result" where
  "mark_delivery_attempt_submitted expected db job_id relay_id attempt_id submitted_at =
     r_bind (verify_metadata db expected) (\<lambda>_. mark_submitted db job_id relay_id attempt_id submitted_at)"

definition record_delivery_attempt_outcome ::
    "PersistedMetadata \<Rightarrow> delivery_db \<Rightarrow> bytes \<Rightarrow> string \<Rightarrow> bytes \<Rightarrow> MycDeliveryAttemptOutcome \<Rightarrow> nat
      \<Rightarrow> nat \<Rightarrow> (OperationError, MycDeliveryJobRecord \<times> delivery_db) result" where
  "record_delivery_attempt_outcome expected db job_id relay_id attempt_id outcome jitter observed_at =
     r_bind (verify_metadata db expected) (\<lambda>_.
       record_outcome db job_id relay_id attempt_id outcome jitter observed_at)"

definition recover_expired_delivery_lease ::
    "PersistedMetadata \<Rightarrow> delivery_db \<Rightarrow> bytes \<Rightarrow> string \<Rightarrow> bytes \<Rightarrow> nat \<Rightarrow> nat
      \<Rightarrow> (OperationError, MycDeliveryJobRecord \<times> delivery_db) result" where
  "recover_expired_delivery_lease expected db job_id relay_id attempt_id jitter observed_at =
     r_bind (verify_metadata db expected) (\<lambda>_.
       recover_expired db job_id relay_id attempt_id jitter observed_at)"

definition read_delivery_job ::
    "PersistedMetadata \<Rightarrow> delivery_db \<Rightarrow> bytes \<Rightarrow> (OperationError, MycDeliveryJobRecord option) result" where
  "read_delivery_job expected db job_id =
     r_bind (verify_metadata db expected) (\<lambda>_. read_job db job_id)"

definition read_delivery_attempts ::
    "PersistedMetadata \<Rightarrow> delivery_db \<Rightarrow> bytes \<Rightarrow> string
      \<Rightarrow> (OperationError, MycDeliveryAttemptRecord list) result" where
  "read_delivery_attempts expected db job_id relay_id =
     r_bind (verify_metadata db expected) (\<lambda>_.
     r_bind (require_job db job_id) (\<lambda>job.
     r_bind (target_by_relay job relay_id) (\<lambda>target.
       read_attempts db job_id (tr_index target))))"

text \<open>\<open>READ_RUNTIME_OUTBOX_STATUS_SQL\<close>: counts and the creation second of the oldest open job.\<close>

definition read_runtime_outbox_status ::
    "PersistedMetadata \<Rightarrow> delivery_db \<Rightarrow> (OperationError, nat \<times> nat \<times> nat option) result" where
  "read_runtime_outbox_status expected db =
     r_bind (verify_metadata db expected) (\<lambda>_.
     let active = filter (\<lambda>r. j_status r \<in> {''pending'', ''active''}) (delivery_jobs db);
         unknown = filter (\<lambda>r. t_status r = ''unknown'') (delivery_targets db)
     in
     r_bind (if active = [] then Inr None
         else r_bind (ok_or Binding (u64_of_int (Min (set (map j_created_at_unix_ms active)))))
           (\<lambda>milliseconds. if i64_max < milliseconds div 1000 then Inl Binding
              else Inr (Some (milliseconds div 1000)))) (\<lambda>oldest.
     Inr (length active, length unknown, oldest)))"

end
