(* ===== verification/Delivery_Invariant.thy ===== *)
theory Delivery_Invariant
  imports Delivery_State
begin

text \<open>
  The invariant of the delivery tables and what it gives for reading them. A target row is a
  projection of its attempt history: its status, attempt count and active lease are determined by
  the attempts recorded for it. A job row agrees with its targets: it is open exactly while the
  required acknowledgements are still missing and still possible.
\<close>

section \<open>Projections of the tables\<close>

definition targets_of :: "delivery_db \<Rightarrow> bytes \<Rightarrow> target_row list" where
  "targets_of db job_id = filter (\<lambda>r. t_job_id r = job_id) (delivery_targets db)"

definition attempts_of :: "delivery_db \<Rightarrow> bytes \<Rightarrow> int \<Rightarrow> attempt_row list" where
  "attempts_of db job_id index =
     filter (\<lambda>r. a_job_id r = job_id \<and> a_target_index r = index) (delivery_attempts db)"

definition attempt_resolved :: "attempt_row \<Rightarrow> bool" where
  "attempt_resolved a \<longleftrightarrow> a_status a \<in> {''delivered'', ''failed'', ''unknown''}"

definition status_projection :: "int \<Rightarrow> attempt_row list \<Rightarrow> string" where
  "status_projection max_attempts hist =
     (if hist = [] then ''pending''
      else if a_status (last hist) = ''failed''
      then (if int (length hist) < max_attempts then ''retryable'' else ''exhausted'')
      else a_status (last hist))"

definition active_projection :: "attempt_row list \<Rightarrow> bytes option" where
  "active_projection hist =
     (if hist \<noteq> [] \<and> \<not> attempt_resolved (last hist) then Some (a_attempt_id (last hist)) else None)"

section \<open>The invariant\<close>

definition attempt_ok :: "attempt_row \<Rightarrow> bool" where
  "attempt_ok a \<longleftrightarrow> delivery_attempts_check a \<and> (attempt_resolved a \<longrightarrow> a_reason_code a \<noteq> None)"

definition target_ok :: "target_row \<Rightarrow> bool" where
  "target_ok t \<longleftrightarrow> delivery_targets_check t \<and> valid_relay_id (t_relay_id t)"

definition history_inv :: "attempt_row list \<Rightarrow> bool" where
  "history_inv hist \<longleftrightarrow>
     map a_attempt_number hist = map int [1..<Suc (length hist)]
     \<and> distinct (map a_attempt_nonce hist)
     \<and> list_all (\<lambda>a. a_status a \<in> {''failed'', ''unknown''}) (butlast hist)"

definition target_inv :: "int \<Rightarrow> target_row \<Rightarrow> attempt_row list \<Rightarrow> bool" where
  "target_inv max_attempts t hist \<longleftrightarrow>
     target_ok t \<and> history_inv hist
     \<and> t_attempt_count t = int (length hist) \<and> t_attempt_count t \<le> max_attempts
     \<and> t_status t = status_projection max_attempts hist
     \<and> t_active_attempt_id t = active_projection hist
     \<and> (t_status t = ''unknown'' \<longrightarrow>
          (t_next_attempt_at_unix_ms t \<noteq> None \<longleftrightarrow> t_attempt_count t < max_attempts))"

definition row_delivered :: "target_row \<Rightarrow> bool" where
  "row_delivered t \<longleftrightarrow> t_required t = 1 \<and> t_status t = ''delivered''"

definition row_possible :: "int \<Rightarrow> target_row \<Rightarrow> bool" where
  "row_possible max_attempts t \<longleftrightarrow> t_required t = 1 \<and> t_status t \<noteq> ''exhausted''
     \<and> \<not> (t_status t = ''unknown'' \<and> max_attempts \<le> t_attempt_count t)"

definition row_lost :: "int \<Rightarrow> target_row \<Rightarrow> bool" where
  "row_lost max_attempts t \<longleftrightarrow>
     t_required t = 1 \<and> t_status t = ''unknown'' \<and> max_attempts \<le> t_attempt_count t"

definition outcome_inv :: "job_row \<Rightarrow> target_row list \<Rightarrow> bool" where
  "outcome_inv j ts \<longleftrightarrow>
     (let delivered = int (length (filter row_delivered ts));
          possible = int (length (filter (row_possible (j_max_attempts j)) ts));
          needed = j_required_acknowledgements j
      in (j_status j = ''delivered'' \<longrightarrow> needed \<le> delivered)
       \<and> (j_status j \<in> {''failed'', ''unknown''} \<longrightarrow> possible < needed)
       \<and> (j_status j = ''unknown'' \<longrightarrow> list_ex (row_lost (j_max_attempts j)) ts)
       \<and> (j_status j \<in> {''pending'', ''active''} \<longrightarrow> delivered < needed \<and> needed \<le> possible))"

definition job_inv_core :: "job_row \<Rightarrow> target_row list \<Rightarrow> (int \<Rightarrow> attempt_row list) \<Rightarrow> bool" where
  "job_inv_core j ts hist \<longleftrightarrow>
     delivery_jobs_check j \<and> ts \<noteq> []
     \<and> map t_target_index ts = map int [0..<length ts]
     \<and> distinct (map t_relay_id ts)
     \<and> list_all (\<lambda>t. target_inv (j_max_attempts j) t (hist (t_target_index t))) ts"

definition tables_inv :: "delivery_db \<Rightarrow> bool" where
  "tables_inv db \<longleftrightarrow>
     distinct (map j_job_id (delivery_jobs db))
     \<and> distinct (map (\<lambda>j. (j_source_kind j, j_source_id j)) (delivery_jobs db))
     \<and> distinct (map a_attempt_id (delivery_attempts db))
     \<and> list_all attempt_ok (delivery_attempts db)
     \<and> list_all (\<lambda>t. list_ex (\<lambda>j. j_job_id j = t_job_id t) (delivery_jobs db)) (delivery_targets db)
     \<and> list_all (\<lambda>a. list_ex (\<lambda>t. t_job_id t = a_job_id a \<and> t_target_index t = a_target_index a)
          (delivery_targets db)) (delivery_attempts db)
     \<and> list_all (\<lambda>j. job_inv_core j (targets_of db (j_job_id j)) (attempts_of db (j_job_id j)))
          (delivery_jobs db)"

definition delivery_inv :: "delivery_db \<Rightarrow> bool" where
  "delivery_inv db \<longleftrightarrow> tables_inv db
     \<and> list_all (\<lambda>j. outcome_inv j (targets_of db (j_job_id j))) (delivery_jobs db)"

section \<open>Records that the rows denote\<close>

definition target_record :: "target_row \<Rightarrow> MycDeliveryTargetRecord" where
  "target_record t = \<lparr>tr_index = nat (t_target_index t), tr_relay_id = t_relay_id t,
     tr_required = (t_required t = 1), tr_attempt_count = nat (t_attempt_count t),
     tr_status = the (target_status_parse (t_status t)),
     tr_active_attempt_id = t_active_attempt_id t,
     tr_next_attempt_at = map_option nat (t_next_attempt_at_unix_ms t),
     tr_updated_at = nat (t_updated_at_unix_ms t)\<rparr>"

definition attempt_record :: "attempt_row \<Rightarrow> MycDeliveryAttemptRecord" where
  "attempt_record a = \<lparr>ar_id = a_attempt_id a, ar_number = nat (a_attempt_number a),
     ar_status = the (attempt_status_parse (a_status a)),
     ar_leased_at = nat (a_leased_at_unix_ms a),
     ar_lease_expires_at = nat (a_lease_expires_at_unix_ms a),
     ar_submitted_at = map_option nat (a_submitted_at_unix_ms a),
     ar_resolved_at = map_option nat (a_resolved_at_unix_ms a), ar_reason = a_reason_code a\<rparr>"

definition job_record :: "job_row \<Rightarrow> target_row list \<Rightarrow> MycDeliveryJobRecord" where
  "job_record j ts = \<lparr>jr_id = j_job_id j,
     jr_source = \<lparr>src_kind = the (source_kind_parse (j_source_kind j)), src_id = j_source_id j\<rparr>,
     jr_artifact_digest = j_artifact_sha256 j,
     jr_policy_mode = the (policy_mode_parse (j_policy_mode j)),
     jr_required_acknowledgements = nat (j_required_acknowledgements j),
     jr_max_attempts = nat (j_max_attempts j),
     jr_initial_backoff_ms = nat (j_initial_backoff_ms j),
     jr_maximum_backoff_ms = nat (j_maximum_backoff_ms j),
     jr_attempt_deadline_ms = nat (j_attempt_deadline_ms j),
     jr_status = the (job_status_parse (j_status j)),
     jr_created_at = nat (j_created_at_unix_ms j), jr_updated_at = nat (j_updated_at_unix_ms j),
     jr_finalized_at = map_option nat (j_finalized_at_unix_ms j),
     jr_targets = map target_record ts\<rparr>"

lemma valid_time_nat: "1 \<le> v \<Longrightarrow> v \<le> sql_max \<Longrightarrow> valid_time (nat v)"
  by (auto simp: valid_time_def int_width_defs)

lemma time_col_nat: "1 \<le> v \<Longrightarrow> v \<le> sql_max \<Longrightarrow> time_col v = Inr (nat v)"
  by (simp add: valid_time_nat)

lemma optional_time_nat:
  assumes "\<And>x. v = Some x \<Longrightarrow> 1 \<le> x \<and> x \<le> sql_max"
  shows "optional_time v = Inr (map_option nat v)"
proof (cases v)
  case (Some x)
  with assms have "1 \<le> x" "x \<le> sql_max" by auto
  with Some show ?thesis by (auto simp: valid_time_nat)
qed (auto simp: optional_time_def)

lemma parse_target_ok:
  assumes "target_ok t"
  shows "parse_target t = Inr (target_record t)"
proof -
  note c = assms [unfolded target_ok_def delivery_targets_check_def]
  have u32: "nonnegative_u32 (t_target_index t) = Inr (nat (t_target_index t))"
    "nonnegative_u32 (t_attempt_count t) = Inr (nat (t_attempt_count t))"
    using c by (auto simp: int_width_defs)
  have txt_col: "text_col 1 64 (t_relay_id t) = Inr (t_relay_id t)"
    and relay: "relay_id_new (t_relay_id t) = Inr (t_relay_id t)"
    and req: "bool_value (t_required t) = Inr (t_required t = 1)"
    and act: "optional_blob32 (t_active_attempt_id t) = Inr (t_active_attempt_id t)"
    using c by (auto split: option.splits)
  have nxt: "optional_time (t_next_attempt_at_unix_ms t)
      = Inr (map_option nat (t_next_attempt_at_unix_ms t))"
    using c by (intro optional_time_nat) auto
  have upd: "time_col (t_updated_at_unix_ms t) = Inr (nat (t_updated_at_unix_ms t))"
    using c by (intro time_col_nat) auto
  have count: "\<not> MYC_DELIVERY_ATTEMPT_MAX_COUNT < nat (t_attempt_count t)"
    using c by (auto simp: delivery_limits)
  have "t_status t \<in> {''pending'', ''leased'', ''submitted'', ''delivered'', ''retryable'',
      ''unknown'', ''exhausted''}" using c by blast
  then show ?thesis
    unfolding parse_target_def u32 txt_col relay req act nxt upd map_err_simps r_bind_simps if_not_P [OF count]
    using c by (elim insertE emptyE) (auto simp: target_record_def target_status_parse_def text_col_def)
qed

lemma attempt_ok_cases:
  assumes "attempt_ok a"
  obtains (leased) "a_status a = ''leased''" "a_submitted_at_unix_ms a = None"
      "a_resolved_at_unix_ms a = None" "a_reason_code a = None"
    | (submitted) s where "a_status a = ''submitted''" "a_submitted_at_unix_ms a = Some s"
      "a_resolved_at_unix_ms a = None" "a_reason_code a = None"
    | (delivered) s r where "a_status a = ''delivered''" "a_submitted_at_unix_ms a = Some s"
      "a_resolved_at_unix_ms a = Some r" "a_reason_code a = Some ''accepted''"
    | (failed) r c where "a_status a = ''failed''" "a_resolved_at_unix_ms a = Some r"
      "a_reason_code a = Some c"
      "c \<in> {''relay_rejected'', ''transport_failed'', ''lease_expired_before_submit''}"
    | (unknown) s r where "a_status a = ''unknown''" "a_submitted_at_unix_ms a = Some s"
      "a_resolved_at_unix_ms a = Some r" "a_reason_code a = Some ''acknowledgement_lost''"
proof -
  note c = assms [unfolded attempt_ok_def delivery_attempts_check_def attempt_resolved_def]
  have "a_status a \<in> {''leased'', ''submitted'', ''delivered'', ''failed'', ''unknown''}"
    using c by blast
  then show thesis
  proof (elim insertE emptyE)
    assume s: "a_status a = ''leased''"
    with c show thesis by (auto simp: sql_logic intro: leased split: if_splits)
  next
    assume s: "a_status a = ''submitted''"
    with c show thesis by (auto simp: sql_logic intro: submitted split: if_splits)
  next
    assume s: "a_status a = ''delivered''"
    with c show thesis by (auto simp: sql_logic intro: delivered split: if_splits)
  next
    assume s: "a_status a = ''failed''"
    with c show thesis by (auto simp: sql_logic intro: failed split: if_splits)
  next
    assume s: "a_status a = ''unknown''"
    with c show thesis by (auto simp: sql_logic intro: unknown split: if_splits)
  qed
qed

lemma parse_attempt_ok:
  assumes "attempt_ok a"
  shows "parse_attempt a = Inr (attempt_record a)"
proof -
  note c = assms [unfolded attempt_ok_def delivery_attempts_check_def]
  have ids: "blob32 (a_attempt_id a) = Inr (a_attempt_id a)"
    "blob32 (a_attempt_nonce a) = Inr (a_attempt_nonce a)"
    using c by auto
  have num: "positive_u32 (a_attempt_number a) = Inr (nat (a_attempt_number a))"
    using c by (auto simp: int_width_defs)
  have num_le: "\<not> MYC_DELIVERY_ATTEMPT_MAX_COUNT < nat (a_attempt_number a)"
    using c by (auto simp: delivery_limits)
  have lea: "time_col (a_leased_at_unix_ms a) = Inr (nat (a_leased_at_unix_ms a))"
    and exp: "time_col (a_lease_expires_at_unix_ms a) = Inr (nat (a_lease_expires_at_unix_ms a))"
    using c by (auto intro!: time_col_nat simp del: time_col_Inr)
  have sub: "optional_time (a_submitted_at_unix_ms a)
      = Inr (map_option nat (a_submitted_at_unix_ms a))"
    using c by (intro optional_time_nat) auto
  have res: "optional_time (a_resolved_at_unix_ms a)
      = Inr (map_option nat (a_resolved_at_unix_ms a))"
    using c by (intro optional_time_nat) auto
  have rea: "optional_reason (a_reason_code a) = Inr (a_reason_code a)"
    using c by (simp add: optional_reason_Inr del: insert_iff) auto
  have lt: "nat (a_leased_at_unix_ms a) < nat (a_lease_expires_at_unix_ms a)" using c by auto
  from assms show ?thesis
    unfolding parse_attempt_def ids num lea exp sub res rea r_bind_simps if_not_P [OF num_le]
    by (cases rule: attempt_ok_cases)
       (use lt in \<open>auto simp: attempt_record_def attempt_status_parse_def text_col_def Let_def\<close>)
qed


section \<open>Reading under the invariant\<close>

lemma tables_invD:
  assumes "tables_inv db"
  shows "distinct (map j_job_id (delivery_jobs db))"
    and "distinct (map (\<lambda>j. (j_source_kind j, j_source_id j)) (delivery_jobs db))"
    and "distinct (map a_attempt_id (delivery_attempts db))"
    and "\<And>a. a \<in> set (delivery_attempts db) \<Longrightarrow> attempt_ok a"
    and "\<And>t. t \<in> set (delivery_targets db) \<Longrightarrow> \<exists>j\<in>set (delivery_jobs db). j_job_id j = t_job_id t"
    and "\<And>a. a \<in> set (delivery_attempts db) \<Longrightarrow>
      \<exists>t\<in>set (delivery_targets db). t_job_id t = a_job_id a \<and> t_target_index t = a_target_index a"
    and "\<And>j. j \<in> set (delivery_jobs db) \<Longrightarrow>
      job_inv_core j (targets_of db (j_job_id j)) (attempts_of db (j_job_id j))"
  using assms unfolding tables_inv_def list_all_iff list_ex_iff by blast+

lemma job_inv_coreD:
  assumes "job_inv_core j ts hist"
  shows "delivery_jobs_check j" and "ts \<noteq> []" and "map t_target_index ts = map int [0..<length ts]"
    and "distinct (map t_relay_id ts)"
    and "\<And>t. t \<in> set ts \<Longrightarrow> target_inv (j_max_attempts j) t (hist (t_target_index t))"
  using assms by (auto simp: job_inv_core_def list_all_iff)

lemma target_invD:
  assumes "target_inv m t hist"
  shows "target_ok t" and "history_inv hist" and "t_attempt_count t = int (length hist)"
    and "t_attempt_count t \<le> m" and "t_status t = status_projection m hist"
    and "t_active_attempt_id t = active_projection hist"
    and "t_status t = ''unknown'' \<Longrightarrow> t_next_attempt_at_unix_ms t \<noteq> None \<longleftrightarrow> t_attempt_count t < m"
  using assms by (auto simp: target_inv_def)

lemma targets_distinct_index: "job_inv_core j ts hist \<Longrightarrow> distinct (map t_target_index ts)"
  using job_inv_coreD(3) [of j ts hist] by (simp add: distinct_map)

lemma target_index_range:
  assumes "job_inv_core j ts hist" and "t \<in> set ts"
  shows "0 \<le> t_target_index t" and "t_target_index t \<le> 31"
  using job_inv_coreD(5) [OF assms] by (auto simp: target_inv_def target_ok_def delivery_targets_check_def)

lemma targets_length:
  assumes "job_inv_core j ts hist"
  shows "length ts \<le> 32"
proof -
  from job_inv_coreD(2) [OF assms] have ne: "ts \<noteq> []" .
  have "t_target_index (last ts) = last (map t_target_index ts)" using ne by (simp add: last_map)
  also have "\<dots> = int (length ts - 1)"
    using job_inv_coreD(3) [OF assms] ne by (simp add: last_map last_upt)
  finally have "int (length ts - 1) \<le> 31"
    using target_index_range(2) [OF assms, of "last ts"] ne by simp
  then show ?thesis by linarith
qed

lemma job_targets_sorted:
  assumes "job_inv_core j ts hist"
  shows "sort_key t_target_index ts = ts"
  using job_inv_coreD(3) [OF assms] by (intro sort_key_id_if_sorted) (simp add: sorted_map_int_upt)

lemma read_targets_inv:
  assumes "job_inv_core j (targets_of db jid) hist"
  shows "read_targets db jid = Inr (map target_record (targets_of db jid))"
proof -
  have "length (targets_of db jid) \<le> 32" using assms by (rule targets_length)
  moreover have "collect parse_target (targets_of db jid) = Inr (map target_record (targets_of db jid))"
    using job_inv_coreD(5) [OF assms] target_invD(1) by (intro collect_Inr_map parse_target_ok) blast
  ultimately show ?thesis
    using job_targets_sorted [OF assms]
    by (simp add: read_targets_def Let_def targets_of_def [symmetric] delivery_limits)
qed

lemma target_status_texts:
  "target_ok t \<Longrightarrow> t_status t = target_status_as_str s \<longleftrightarrow> tr_status (target_record t) = s"
  unfolding target_ok_def delivery_targets_check_def
  by (cases s) (auto simp: target_record_def target_status_parse_def)

lemma job_record_valid:
  assumes "job_inv_core j ts hist"
  shows "map tr_index (map target_record ts) = [0..<length ts]"
    and "list_all (\<lambda>t. tr_status t \<noteq> TargetUnknown \<or> tr_next_attempt_at t \<noteq> None
           \<or> tr_attempt_count t = nat (j_max_attempts j)) (map target_record ts)"
proof -
  have "map tr_index (map target_record ts) = map nat (map t_target_index ts)"
    by (simp add: target_record_def)
  then show "map tr_index (map target_record ts) = [0..<length ts]"
    using job_inv_coreD(3) [OF assms] by (simp add: comp_def)
  show "list_all (\<lambda>t. tr_status t \<noteq> TargetUnknown \<or> tr_next_attempt_at t \<noteq> None
      \<or> tr_attempt_count t = nat (j_max_attempts j)) (map target_record ts)"
    unfolding list_all_iff
  proof (intro ballI)
    fix r assume "r \<in> set (map target_record ts)"
    then obtain t where t: "t \<in> set ts" "r = target_record t" by auto
    note ti = job_inv_coreD(5) [OF assms t(1)]
    show "tr_status r \<noteq> TargetUnknown \<or> tr_next_attempt_at r \<noteq> None
        \<or> tr_attempt_count r = nat (j_max_attempts j)"
      using target_status_texts [OF target_invD(1) [OF ti], of TargetUnknown]
        target_invD(4,7) [OF ti] by (auto simp: t(2) target_record_def)
  qed
qed

lemma delivery_jobs_checkD:
  assumes "delivery_jobs_check j"
  shows "length (j_job_id j) = 32" "length (j_source_id j) = 32" "length (j_artifact_sha256 j) = 32"
    and "1 \<le> j_required_acknowledgements j" "j_required_acknowledgements j \<le> 32"
    and "1 \<le> j_max_attempts j" "j_max_attempts j \<le> 32"
    and "1 \<le> j_initial_backoff_ms j" "j_initial_backoff_ms j \<le> 30000"
    and "j_initial_backoff_ms j \<le> j_maximum_backoff_ms j" "j_maximum_backoff_ms j \<le> 300000"
    and "1 \<le> j_attempt_deadline_ms j" "j_attempt_deadline_ms j \<le> 30000"
    and "1 \<le> j_created_at_unix_ms j" "j_created_at_unix_ms j \<le> sql_max"
    and "1 \<le> j_updated_at_unix_ms j" "j_updated_at_unix_ms j \<le> sql_max"
    and "\<And>f. j_finalized_at_unix_ms j = Some f \<Longrightarrow> 1 \<le> f \<and> f \<le> sql_max"
    and "j_created_at_unix_ms j \<le> j_updated_at_unix_ms j"
  using assms unfolding delivery_jobs_check_def by (simp_all split: option.splits)

lemma job_kind_cases:
  assumes "delivery_jobs_check j"
  obtains k where "j_source_kind j = source_kind_as_str k"
proof -
  have "j_source_kind j \<in> {''signer_response'', ''discovery_handler''}"
    using assms unfolding delivery_jobs_check_def by blast
  then show thesis
    using that [of SignerResponse] that [of DiscoveryHandler] by auto
qed

lemma job_mode_cases:
  assumes "delivery_jobs_check j"
  obtains m where "j_policy_mode j = policy_mode_as_str m"
proof -
  have "j_policy_mode j \<in> {''at_least_one_required'', ''all_required'', ''required_quorum''}"
    using assms unfolding delivery_jobs_check_def by blast
  then show thesis
    using that [of AtLeastOneRequired] that [of AllRequired] that [of RequiredQuorum] by auto
qed

lemma job_status_cases:
  assumes "delivery_jobs_check j"
  obtains s where "j_status j = job_status_as_str s"
    "(s \<in> {JobDelivered, JobFailed, JobUnknown}) = (j_finalized_at_unix_ms j \<noteq> None)"
proof -
  have "(j_status j \<in> {''pending'', ''active''} \<and> j_finalized_at_unix_ms j = None)
      \<or> (j_status j \<in> {''delivered'', ''failed'', ''unknown''} \<and> j_finalized_at_unix_ms j \<noteq> None)"
    using assms unfolding delivery_jobs_check_def by blast
  then show thesis
    using that [of JobPending] that [of JobActive] that [of JobDelivered] that [of JobFailed]
      that [of JobUnknown] by auto
qed

lemma text_lengths:
  "length (source_kind_as_str k) \<le> 32" "length (policy_mode_as_str m) \<le> 32"
  "length (job_status_as_str s) \<le> 16"
  by ((cases k, simp_all) [1], (cases m, simp_all) [1], (cases s, simp_all) [1])

lemma read_job_rows_inv:
  assumes core: "job_inv_core j (targets_of db (j_job_id j)) hist"
  shows "read_job_rows db [j] = Inr (Some (job_record j (targets_of db (j_job_id j))))"
proof -
  let ?ts = "targets_of db (j_job_id j)"
  note chk = job_inv_coreD(1) [OF core]
  note c = delivery_jobs_checkD [OF chk]
  obtain k where k: "j_source_kind j = source_kind_as_str k" using chk by (rule job_kind_cases)
  obtain m where m: "j_policy_mode j = policy_mode_as_str m" using chk by (rule job_mode_cases)
  obtain s where s: "j_status j = job_status_as_str s"
    and fin_iff: "(s \<in> {JobDelivered, JobFailed, JobUnknown}) = (j_finalized_at_unix_ms j \<noteq> None)"
    using chk by (rule job_status_cases)
  have u32: "positive_u32 (j_required_acknowledgements j) = Inr (nat (j_required_acknowledgements j))"
    "positive_u32 (j_max_attempts j) = Inr (nat (j_max_attempts j))"
    using c(4-7) by (simp_all add: int_width_defs)
  have u64: "positive_u64 (j_initial_backoff_ms j) = Inr (nat (j_initial_backoff_ms j))"
    "positive_u64 (j_maximum_backoff_ms j) = Inr (nat (j_maximum_backoff_ms j))"
    "positive_u64 (j_attempt_deadline_ms j) = Inr (nat (j_attempt_deadline_ms j))"
    using c(8-13) by (simp_all add: int_width_defs)
  have times: "time_col (j_created_at_unix_ms j) = Inr (nat (j_created_at_unix_ms j))"
    "time_col (j_updated_at_unix_ms j) = Inr (nat (j_updated_at_unix_ms j))"
    by (rule time_col_nat [OF c(14,15)], rule time_col_nat [OF c(16,17)])
  have fin: "optional_time (j_finalized_at_unix_ms j) = Inr (map_option nat (j_finalized_at_unix_ms j))"
    using c(18) by (rule optional_time_nat)
  have bounds: "\<not> MYC_DELIVERY_ATTEMPT_MAX_COUNT < nat (j_max_attempts j)"
    "\<not> (nat (j_maximum_backoff_ms j) < nat (j_initial_backoff_ms j)
        \<or> 300000 < nat (j_maximum_backoff_ms j) \<or> 30000 < nat (j_attempt_deadline_ms j))"
    using c(4-13) by (auto simp: delivery_limits)
  have len: "length ?ts \<le> MYC_DELIVERY_TARGET_MAX_COUNT"
    using targets_length [OF core] by (simp add: delivery_limits)
  have cols: "blob32 (j_job_id j) = Inr (j_job_id j)" "blob32 (j_source_id j) = Inr (j_source_id j)"
    "blob32 (j_artifact_sha256 j) = Inr (j_artifact_sha256 j)"
    "text_col 0 32 (j_source_kind j) = Inr (j_source_kind j)"
    "text_col 0 32 (j_policy_mode j) = Inr (j_policy_mode j)"
    "text_col 0 16 (j_status j) = Inr (j_status j)"
    using c(1-3) by (simp_all add: k m s text_lengths)
  have parse: "source_kind_parse (j_source_kind j) = Some k" "policy_mode_parse (j_policy_mode j) = Some m"
    "job_status_parse (j_status j) = Some s"
    by (simp_all add: k m s)
  have valid: "?ts \<noteq> []" "map tr_index (map target_record ?ts) = [0..<length ?ts]"
    "list_all (\<lambda>t. tr_status t \<noteq> TargetUnknown \<or> tr_next_attempt_at t \<noteq> None
       \<or> tr_attempt_count t = nat (j_max_attempts j)) (map target_record ?ts)"
    using job_inv_coreD(2) [OF core] job_record_valid [OF core] by blast+
  show ?thesis
    unfolding read_job_rows_def
    using valid fin_iff
    by (simp only: cols parse u32 u64 times fin read_targets_inv [OF core] bounds r_bind_simps
        ok_or_simps list.case list.size if_False Let_def)
       (simp add: job_record_def parse len)
qed

lemma job_rows_unique:
  "tables_inv db \<Longrightarrow> j \<in> set (delivery_jobs db) \<Longrightarrow>
     filter (\<lambda>r. j_job_id r = j_job_id j) (delivery_jobs db) = [j]"
  by (rule filter_unique [OF tables_invD(1)])

text \<open>Reading a job that exists gives its record; a job that does not exist gives None.\<close>

lemma read_job_present:
  assumes "tables_inv db" and "j \<in> set (delivery_jobs db)"
  shows "read_job db (j_job_id j) = Inr (Some (job_record j (targets_of db (j_job_id j))))"
    and "require_job db (j_job_id j) = Inr (job_record j (targets_of db (j_job_id j)))"
proof -
  show "read_job db (j_job_id j) = Inr (Some (job_record j (targets_of db (j_job_id j))))"
    using read_job_rows_inv [OF tables_invD(7) [OF assms]]
    by (simp add: read_job_def job_rows_unique [OF assms])
  then show "require_job db (j_job_id j) = Inr (job_record j (targets_of db (j_job_id j)))"
    by (simp add: require_job_def)
qed

lemma read_job_absent:
  assumes "\<And>j. j \<in> set (delivery_jobs db) \<Longrightarrow> j_job_id j \<noteq> jid"
  shows "read_job db jid = Inr None" and "require_job db jid = Inl Binding"
proof -
  have "filter (\<lambda>r. j_job_id r = jid) (delivery_jobs db) = []"
    using assms by (auto simp: filter_empty_conv)
  then show "read_job db jid = Inr None" by (simp add: read_job_def read_job_rows_def)
  then show "require_job db jid = Inl Binding" by (simp add: require_job_def)
qed

lemma require_job_Inr:
  assumes "tables_inv db" and "require_job db jid = Inr job"
  obtains j where "j \<in> set (delivery_jobs db)" "j_job_id j = jid"
    "job = job_record j (targets_of db jid)"
proof (cases "\<exists>j\<in>set (delivery_jobs db). j_job_id j = jid")
  case True
  then obtain j where "j \<in> set (delivery_jobs db)" "j_job_id j = jid" by blast
  with read_job_present [OF assms(1), of j] assms(2) show thesis by (intro that) auto
next
  case False
  then have "require_job db jid = Inl Binding" by (intro read_job_absent(2)) blast
  with assms(2) show thesis by simp
qed

lemma target_by_relay_Inr:
  assumes "target_by_relay (job_record j ts) relay = Inr target"
  obtains t where "t \<in> set ts" "t_relay_id t = relay" "target = target_record t"
proof -
  from assms have "List.find (\<lambda>t. tr_relay_id t = relay) (map target_record ts) = Some target"
    by (simp add: target_by_relay_def job_record_def)
  then have "target \<in> set (map target_record ts)" "tr_relay_id target = relay"
    by (auto simp: find_Some_iff)
  then show thesis by (auto simp: target_record_def intro: that)
qed

lemma target_by_relay_present:
  assumes "distinct (map t_relay_id ts)" and "t \<in> set ts"
  shows "target_by_relay (job_record j ts) (t_relay_id t) = Inr (target_record t)"
proof -
  have "List.find (\<lambda>r. tr_relay_id r = t_relay_id t) (map target_record ts) = Some (target_record t)"
    using assms by (induction ts) (auto simp: target_record_def)
  then show ?thesis by (simp add: target_by_relay_def job_record_def)
qed

lemma attempts_of_subset: "a \<in> set (attempts_of db jid i) \<Longrightarrow> a \<in> set (delivery_attempts db)"
  by (simp add: attempts_of_def)

lemma one_attempt_single: "attempt_ok a \<Longrightarrow> one_attempt [a] = Inr (Some (attempt_record a))"
  by (simp add: one_attempt_def parse_attempt_ok)

lemma require_attempt_present:
  assumes "tables_inv db" and "a \<in> set (attempts_of db jid (int i))"
  shows "require_attempt db jid i (a_attempt_id a) = Inr (attempt_record a)"
proof -
  have a: "a \<in> set (delivery_attempts db)" "a_job_id a = jid" "a_target_index a = int i"
    using assms(2) by (auto simp: attempts_of_def)
  have "filter (\<lambda>r. a_attempt_id r = a_attempt_id a \<and> a_job_id r = jid \<and> a_target_index r = int i)
      (delivery_attempts db) = [a]"
    using tables_invD(3) [OF assms(1)] a by (intro filter_unique_conj) auto
  then have "filter (\<lambda>r. a_job_id r = jid \<and> a_target_index r = int i \<and> a_attempt_id r = a_attempt_id a)
      (delivery_attempts db) = [a]"
    by (simp add: conj_ac cong: conj_cong)
  then show ?thesis
    using tables_invD(4) [OF assms(1) a(1)]
    by (simp add: require_attempt_def read_attempt_def one_attempt_single)
qed

lemma require_attempt_Inr:
  assumes "tables_inv db" and "require_attempt db jid i attempt_id = Inr attempt"
  obtains a where "a \<in> set (attempts_of db jid (int i))" "a_attempt_id a = attempt_id"
    "attempt = attempt_record a" "attempt_ok a"
proof (cases "\<exists>a\<in>set (attempts_of db jid (int i)). a_attempt_id a = attempt_id")
  case True
  then obtain a where a: "a \<in> set (attempts_of db jid (int i))" "a_attempt_id a = attempt_id" by blast
  with require_attempt_present [OF assms(1) a(1)] assms(2) tables_invD(4) [OF assms(1)]
  show thesis by (intro that) (auto dest: attempts_of_subset)
next
  case False
  then have "filter (\<lambda>r. a_job_id r = jid \<and> a_target_index r = int i \<and> a_attempt_id r = attempt_id)
      (delivery_attempts db) = []"
    by (auto simp: filter_empty_conv attempts_of_def)
  with assms(2) show thesis by (simp add: require_attempt_def read_attempt_def one_attempt_def)
qed

lemma history_length:
  assumes "target_inv m t hist"
  shows "length hist \<le> 32"
proof -
  have "t_attempt_count t \<le> 32"
    using target_invD(1) [OF assms] by (auto simp: target_ok_def delivery_targets_check_def)
  with target_invD(3) [OF assms] show ?thesis by linarith
qed

lemma read_attempts_inv:
  assumes "tables_inv db" and "target_inv m t (attempts_of db jid (int i))"
  shows "read_attempts db jid i = Inr (map attempt_record (attempts_of db jid (int i)))"
proof -
  let ?h = "attempts_of db jid (int i)"
  have "sorted (map a_attempt_number ?h)"
    using target_invD(2) [OF assms(2)] unfolding history_inv_def by (metis sorted_map_int_upt)
  then have "sort_key a_attempt_number ?h = ?h" by (rule sort_key_id_if_sorted)
  moreover have "collect parse_attempt ?h = Inr (map attempt_record ?h)"
    using tables_invD(4) [OF assms(1)]
    by (intro collect_Inr_map parse_attempt_ok) (auto dest: attempts_of_subset)
  ultimately show ?thesis
    using history_length [OF assms(2)]
    by (simp add: read_attempts_def Let_def attempts_of_def [symmetric] delivery_limits)
qed

end
