(* ===== verification/Delivery_Steps.thy ===== *)
theory Delivery_Steps
  imports Delivery_Invariant
begin

text \<open>
  The invariant of the delivery tables is kept by every operation. Each operation writes one
  target, its history and its job; a frame lemma carries the rest of the tables, so an operation
  only has to account for the target it writes.
\<close>

section \<open>Statements that succeed\<close>

lemma execute_one_insert_job [simp]:
  "execute_one (insert_job_sql db r) = Inr db' \<longleftrightarrow>
     job_insert_legal db (delivery_jobs db) r \<and> db' = db\<lparr>delivery_jobs := delivery_jobs db @ [r]\<rparr>"
  by (auto simp: execute_one_def execute_def require_one_def insert_job_sql_def r_bind_Inr_iff
      sql_insert_def)

lemma execute_one_insert_target [simp]:
  "execute_one (insert_target_sql db r) = Inr db' \<longleftrightarrow>
     target_insert_legal db (delivery_targets db) r
     \<and> db' = db\<lparr>delivery_targets := delivery_targets db @ [r]\<rparr>"
  by (auto simp: execute_one_def execute_def require_one_def insert_target_sql_def r_bind_Inr_iff
      sql_insert_def)

lemma execute_one_insert_attempt [simp]:
  "execute_one (insert_attempt_sql db r) = Inr db' \<longleftrightarrow>
     attempt_insert_legal db (delivery_attempts db) r
     \<and> db' = db\<lparr>delivery_attempts := delivery_attempts db @ [r]\<rparr>"
  by (auto simp: execute_one_def execute_def require_one_def insert_attempt_sql_def r_bind_Inr_iff
      sql_insert_def)

lemma execute_one_update_targets [simp]:
  "execute_one (update_targets db w f) = Inr db' \<longleftrightarrow>
     list_all (\<lambda>r. w r \<longrightarrow> target_update_legal r (f r)) (delivery_targets db)
     \<and> length (filter w (delivery_targets db)) = 1
     \<and> db' = db\<lparr>delivery_targets := map (upd_row w f) (delivery_targets db)\<rparr>"
  by (auto simp: execute_one_def execute_def require_one_def update_targets_def r_bind_Inr_iff
      sql_update_def)

lemma execute_one_update_attempts [simp]:
  "execute_one (update_attempts db w f) = Inr db' \<longleftrightarrow>
     list_all (\<lambda>r. w r \<longrightarrow> attempt_update_legal r (f r)) (delivery_attempts db)
     \<and> length (filter w (delivery_attempts db)) = 1
     \<and> db' = db\<lparr>delivery_attempts := map (upd_row w f) (delivery_attempts db)\<rparr>"
  by (auto simp: execute_one_def execute_def require_one_def update_attempts_def r_bind_Inr_iff
      sql_update_def)

lemma execute_at_most_one_update_jobs [simp]:
  "execute_at_most_one (update_jobs db w f) = Inr db' \<longleftrightarrow>
     list_all (\<lambda>r. w r \<longrightarrow> job_update_legal r (f r)) (delivery_jobs db)
     \<and> length (filter w (delivery_jobs db)) \<le> 1
     \<and> db' = db\<lparr>delivery_jobs := map (upd_row w f) (delivery_jobs db)\<rparr>"
  by (auto simp: execute_at_most_one_def execute_def update_jobs_def r_bind_Inr_iff
      sql_update_def split: if_splits)

section \<open>Columns that no statement changes\<close>

definition job_identity :: "job_row \<Rightarrow> _" where
  "job_identity j = (j_job_id j, j_source_kind j, j_source_id j, j_artifact_sha256 j,
     j_policy_mode j, j_required_acknowledgements j, j_max_attempts j, j_initial_backoff_ms j,
     j_maximum_backoff_ms j, j_attempt_deadline_ms j, j_created_at_unix_ms j)"

definition target_identity :: "target_row \<Rightarrow> _" where
  "target_identity t = (t_job_id t, t_target_index t, t_relay_id t, t_required t)"

definition attempt_identity :: "attempt_row \<Rightarrow> _" where
  "attempt_identity a = (a_attempt_id a, a_job_id a, a_target_index a, a_attempt_number a,
     a_attempt_nonce a, a_leased_at_unix_ms a, a_lease_expires_at_unix_ms a)"

lemmas identity_defs = job_identity_def target_identity_def attempt_identity_def

interpretation claim_upd: keyed_update target_identity "claim_target_where jid i n"
    "claim_target_set m aid at" for jid i n m aid at
  by unfold_locales (simp add: identity_defs statement_defs)

interpretation submit_upd: keyed_update target_identity "mark_target_submitted_where jid i aid"
    "mark_target_submitted_set at" for jid i aid at
  by unfold_locales (simp add: identity_defs statement_defs)

interpretation resolve_upd: keyed_update target_identity "resolve_target_where jid i aid prior"
    "resolve_target_set status next_at at" for jid i aid prior status next_at at
  by unfold_locales (simp add: identity_defs statement_defs)

interpretation attempt_submit_upd: keyed_update attempt_identity
    "mark_attempt_submitted_where aid jid i at" "mark_attempt_submitted_set at" for aid jid i at
  by unfold_locales (simp add: identity_defs statement_defs)

interpretation attempt_resolve_upd: keyed_update attempt_identity
    "resolve_attempt_where aid jid i prior" "resolve_attempt_set status at reason"
    for aid jid i prior status at reason
  by unfold_locales (simp add: identity_defs statement_defs)

interpretation job_active_upd: keyed_update job_identity "mark_job_active_where jid"
    "mark_job_active_set at" for jid at
  by unfold_locales (simp add: identity_defs statement_defs)

interpretation job_final_upd: keyed_update job_identity "finalize_job_where jid"
    "finalize_job_set status at" for jid status at
  by unfold_locales (simp add: identity_defs statement_defs)

section \<open>The frame of an operation\<close>

text \<open>
  Every operation on an existing job writes the row of one target \<open>(jid, i)\<close>, its history and
  possibly its job. \<open>g\<close>, \<open>h\<close> are the functions the UPDATE statements apply to the job rows and the
  target rows.
\<close>

lemma targets_of_map:
  assumes "delivery_targets db' = map h (delivery_targets db)"
    and "\<And>t. target_identity (h t) = target_identity t"
  shows "targets_of db' jid = map h (targets_of db jid)"
proof -
  have "\<And>t. t_job_id (h t) = t_job_id t" using assms(2) by (simp add: identity_defs)
  then show ?thesis by (simp add: targets_of_def assms(1) filter_map comp_def)
qed

lemma job_inv_core_map:
  assumes core: "job_inv_core j ts hist"
    and job: "job_identity j' = job_identity j" "delivery_jobs_check j'"
    and tid: "\<And>t. target_identity (h t) = target_identity t"
    and inv: "\<And>t. t \<in> set ts \<Longrightarrow> target_inv (j_max_attempts j) (h t) (hist' (t_target_index t))"
  shows "job_inv_core j' (map h ts) hist'"
proof -
  have idx: "\<And>t. t_target_index (h t) = t_target_index t" and rel: "\<And>t. t_relay_id (h t) = t_relay_id t"
    and m: "j_max_attempts j' = j_max_attempts j"
    using tid job by (simp_all add: identity_defs)
  show ?thesis
    using job_inv_coreD [OF core] job(2) inv
    by (simp add: job_inv_core_def idx rel m comp_def list_all_iff)
qed

lemma tables_inv_frame:
  assumes inv: "tables_inv db"
    and jobs: "delivery_jobs db' = map g (delivery_jobs db)"
      "\<And>j. job_identity (g j) = job_identity j"
      "\<And>j. j \<in> set (delivery_jobs db) \<Longrightarrow> delivery_jobs_check (g j)"
    and targets: "delivery_targets db' = map h (delivery_targets db)"
      "\<And>t. target_identity (h t) = target_identity t"
      "\<And>t. \<not> (t_job_id t = jid \<and> t_target_index t = i) \<Longrightarrow> h t = t"
    and attempts: "distinct (map a_attempt_id (delivery_attempts db'))"
      "\<And>a. a \<in> set (delivery_attempts db') \<Longrightarrow> attempt_ok a"
      "\<And>k l. (k, l) \<noteq> (jid, i) \<Longrightarrow> attempts_of db' k l = attempts_of db k l"
      "\<exists>t\<in>set (delivery_targets db). t_job_id t = jid \<and> t_target_index t = i"
    and changed: "\<And>j t. j \<in> set (delivery_jobs db) \<Longrightarrow> t \<in> set (targets_of db (j_job_id j)) \<Longrightarrow>
      j_job_id j = jid \<Longrightarrow> t_target_index t = i \<Longrightarrow>
      target_inv (j_max_attempts j) (h t) (attempts_of db' jid i)"
  shows "tables_inv db'"
proof -
  note D = tables_invD [OF inv]
  have jid_g: "\<And>j. j_job_id (g j) = j_job_id j"
    and src_g: "\<And>j. (j_source_kind (g j), j_source_id (g j)) = (j_source_kind j, j_source_id j)"
    using jobs(2) by (simp_all add: identity_defs)
  have tid_h: "\<And>t. t_job_id (h t) = t_job_id t" "\<And>t. t_target_index (h t) = t_target_index t"
    using targets(2) by (simp_all add: identity_defs)
  have fk: "\<exists>t\<in>set (delivery_targets db). t_job_id t = a_job_id a \<and> t_target_index t = a_target_index a"
    if "a \<in> set (delivery_attempts db')" for a
  proof (cases "(a_job_id a, a_target_index a) = (jid, i)")
    case True with attempts(4) show ?thesis by auto
  next
    case False
    have "a \<in> set (attempts_of db' (a_job_id a) (a_target_index a))"
      using that by (simp add: attempts_of_def)
    then have "a \<in> set (attempts_of db (a_job_id a) (a_target_index a))"
      using attempts(3) [OF False] by simp
    with D(6) show ?thesis by (auto simp: attempts_of_def)
  qed
  have core: "job_inv_core (g j) (targets_of db' (j_job_id j)) (attempts_of db' (j_job_id j))"
    if j: "j \<in> set (delivery_jobs db)" for j
  proof -
    have "target_inv (j_max_attempts j) (h t) (attempts_of db' (j_job_id j) (t_target_index t))"
      if t: "t \<in> set (targets_of db (j_job_id j))" for t
    proof (cases "j_job_id j = jid \<and> t_target_index t = i")
      case True
      with changed [OF j t] show ?thesis by simp
    next
      case False
      with t targets(3) have "h t = t" by (auto simp: targets_of_def)
      moreover have "attempts_of db' (j_job_id j) (t_target_index t) = attempts_of db (j_job_id j) (t_target_index t)"
        using False by (intro attempts(3)) auto
      ultimately show ?thesis using job_inv_coreD(5) [OF D(7) [OF j] t] by simp
    qed
    then show ?thesis
      unfolding targets_of_map [OF targets(1,2)]
      by (intro job_inv_core_map [OF D(7) [OF j] jobs(2) jobs(3) [OF j] targets(2)])
  qed
  show ?thesis
    unfolding tables_inv_def list_all_iff list_ex_iff jobs(1) targets(1)
    using D(1,2,5) attempts(1,2) fk core
    by (simp add: comp_def jid_g tid_h src_g [unfolded prod.inject])
qed

section \<open>The history of one target\<close>

lemma history_inv_snoc:
  "history_inv (h @ [a]) \<longleftrightarrow>
     map a_attempt_number h = map int [1..<Suc (length h)] \<and> a_attempt_number a = int (Suc (length h))
     \<and> distinct (map a_attempt_nonce h) \<and> a_attempt_nonce a \<notin> a_attempt_nonce ` set h
     \<and> list_all (\<lambda>b. a_status b \<in> {''failed'', ''unknown''}) h"
  by (auto simp: history_inv_def)

lemma history_inv_snoc_new:
  assumes "history_inv h" and "h = [] \<or> a_status (last h) \<in> {''failed'', ''unknown''}"
    and "a_attempt_number a = int (Suc (length h))" and "a_attempt_nonce a \<notin> a_attempt_nonce ` set h"
  shows "history_inv (h @ [a])"
proof -
  have "list_all (\<lambda>b. a_status b \<in> {''failed'', ''unknown''}) h"
  proof (cases h rule: rev_cases)
    case (snoc xs y)
    with assms(1,2) show ?thesis by (auto simp: history_inv_def)
  qed simp
  with assms show ?thesis unfolding history_inv_snoc unfolding history_inv_def by blast
qed

lemma history_inv_replace_last:
  assumes "history_inv (h @ [a])" and "attempt_identity a' = attempt_identity a"
  shows "history_inv (h @ [a'])"
  using assms by (simp add: history_inv_snoc identity_defs)

lemma status_projection_snoc:
  "status_projection m (h @ [a]) =
     (if a_status a = ''failed'' then (if int (Suc (length h)) < m then ''retryable'' else ''exhausted'')
      else a_status a)"
  by (simp add: status_projection_def)

lemma active_projection_snoc:
  "active_projection (h @ [a]) = (if attempt_resolved a then None else Some (a_attempt_id a))"
  by (simp add: active_projection_def)

text \<open>A target with an active attempt: that attempt ends its history and is the only unresolved one.\<close>

lemma active_target_history:
  assumes "target_inv m t hist" and "t_active_attempt_id t = Some aid"
  obtains pre a where "hist = pre @ [a]" "a_attempt_id a = aid" "\<not> attempt_resolved a"
    "t_status t = a_status a" "int (Suc (length pre)) \<le> m"
proof -
  from assms target_invD(6) have act: "active_projection hist = Some aid" by metis
  then obtain pre a where h: "hist = pre @ [a]"
    by (cases hist rule: rev_cases) (auto simp: active_projection_def)
  with act have a: "a_attempt_id a = aid" "\<not> attempt_resolved a"
    by (auto simp: active_projection_snoc split: if_splits)
  moreover have "t_status t = a_status a"
    using target_invD(5) [OF assms(1)] a(2) h by (auto simp: status_projection_snoc attempt_resolved_def)
  moreover have "int (Suc (length pre)) \<le> m"
    using target_invD(3,4) [OF assms(1)] h by simp
  ultimately show thesis using h by (intro that)
qed

text \<open>A target without an active attempt: every attempt in its history is resolved.\<close>

lemma idle_target_history:
  assumes "target_inv m t hist" and "t_active_attempt_id t = None"
    and "\<And>a. a \<in> set hist \<Longrightarrow> attempt_ok a"
  shows "t_status t \<in> {''pending'', ''delivered'', ''retryable'', ''unknown'', ''exhausted''}"
    and "t_status t \<noteq> ''delivered'' \<Longrightarrow> hist = [] \<or> a_status (last hist) \<in> {''failed'', ''unknown''}"
proof -
  show "t_status t \<in> {''pending'', ''delivered'', ''retryable'', ''unknown'', ''exhausted''}"
    using target_invD(1) [OF assms(1)] assms(2) by (auto simp: target_ok_def delivery_targets_check_def)
  assume nd: "t_status t \<noteq> ''delivered''"
  show "hist = [] \<or> a_status (last hist) \<in> {''failed'', ''unknown''}"
  proof (cases hist rule: rev_cases)
    case (snoc pre a)
    with assms(3) have "attempt_ok a" by simp
    moreover from snoc assms(2) target_invD(6) [OF assms(1)] have "attempt_resolved a"
      by (auto simp: active_projection_snoc split: if_splits)
    ultimately show ?thesis
      using snoc nd target_invD(5) [OF assms(1)]
      by (auto simp: status_projection_snoc attempt_resolved_def)
  qed simp
qed

lemma map_upd_last:
  assumes "distinct (map key (xs @ [x]))" and "\<And>y. w y \<Longrightarrow> key y = key x"
  shows "map (upd_row w f) (xs @ [x]) = xs @ [upd_row w f x]"
proof -
  have "map (upd_row w f) xs = xs"
    using assms by (intro map_idI) (auto simp: upd_row_def image_iff)
  then show ?thesis by simp
qed

lemma attempts_of_distinct:
  "distinct (map a_attempt_id (delivery_attempts db)) \<Longrightarrow> distinct (map a_attempt_id (attempts_of db k l))"
  unfolding attempts_of_def by (rule distinct_map_filter)

text \<open>An UPDATE of one attempt, by its identifier, job and target.\<close>

lemma attempts_of_update:
  assumes "delivery_attempts db' = map (upd_row w f) (delivery_attempts db)"
    and keep: "\<And>a. attempt_identity (upd_row w f a) = attempt_identity a"
    and whr: "\<forall>a. w a \<longrightarrow> a_attempt_id a = aid \<and> a_job_id a = jid \<and> a_target_index a = i"
    and dist: "distinct (map a_attempt_id (delivery_attempts db))"
  shows "\<And>k l. (k, l) \<noteq> (jid, i) \<Longrightarrow> attempts_of db' k l = attempts_of db k l"
    and "attempts_of db jid i = pre @ [a] \<Longrightarrow> a_attempt_id a = aid \<Longrightarrow>
      attempts_of db' jid i = pre @ [upd_row w f a]"
    and "distinct (map a_attempt_id (delivery_attempts db'))"
proof -
  have key: "\<And>a. a_job_id (upd_row w f a) = a_job_id a" "\<And>a. a_target_index (upd_row w f a) = a_target_index a"
    "\<And>a. a_attempt_id (upd_row w f a) = a_attempt_id a"
    using keep by (simp_all add: identity_defs)
  have sel: "attempts_of db' k l = map (upd_row w f) (attempts_of db k l)" for k l
    by (simp add: attempts_of_def assms(1) filter_map comp_def key)
  show "attempts_of db' k l = attempts_of db k l" if "(k, l) \<noteq> (jid, i)" for k l
    unfolding sel using that whr by (intro map_idI) (auto simp: attempts_of_def upd_row_def)
  show "attempts_of db' jid i = pre @ [upd_row w f a]"
    if h: "attempts_of db jid i = pre @ [a]" and a: "a_attempt_id a = aid"
    unfolding sel h using attempts_of_distinct [OF dist, of jid i] whr a
    by (intro map_upd_last [where key = a_attempt_id]) (auto simp: h)
  show "distinct (map a_attempt_id (delivery_attempts db'))"
    using dist by (simp add: assms(1) comp_def key)
qed

section \<open>One target through claim, submission and resolution\<close>

lemma claim_target_inv:
  assumes inv: "target_inv m t hist" and ok: "\<And>b. b \<in> set hist \<Longrightarrow> attempt_ok b"
    and idle: "t_active_attempt_id t = None" "t_status t \<noteq> ''delivered''" "t_attempt_count t < m"
    and chk: "delivery_targets_check (claim_target_set (t_attempt_count t + 1) aid at t)"
    and a: "a_attempt_id a = aid" "a_status a = ''leased''" "a_attempt_number a = t_attempt_count t + 1"
      "a_attempt_nonce a \<notin> a_attempt_nonce ` set hist"
  shows "target_inv m (claim_target_set (t_attempt_count t + 1) aid at t) (hist @ [a])"
proof -
  have cnt: "t_attempt_count t = int (length hist)" by (rule target_invD(3) [OF inv])
  have "history_inv (hist @ [a])"
    using target_invD(2) [OF inv] idle_target_history(2) [OF inv idle(1) ok idle(2)] a(3,4) cnt
    by (intro history_inv_snoc_new) auto
  moreover have "target_ok (claim_target_set (t_attempt_count t + 1) aid at t)"
    using chk target_invD(1) [OF inv] by (simp add: target_ok_def statement_defs)
  ultimately show ?thesis
    using idle(3) a cnt
    by (simp add: target_inv_def status_projection_snoc active_projection_snoc attempt_resolved_def
        statement_defs)
qed

lemma submit_target_inv:
  assumes inv: "target_inv m t (pre @ [a])" and act: "t_active_attempt_id t = Some (a_attempt_id a)"
    and chk: "delivery_targets_check (mark_target_submitted_set at t)"
  shows "target_inv m (mark_target_submitted_set at t) (pre @ [mark_attempt_submitted_set at a])"
proof -
  have "history_inv (pre @ [mark_attempt_submitted_set at a])"
    using target_invD(2) [OF inv]
    by (rule history_inv_replace_last) (simp add: identity_defs statement_defs)
  moreover have "target_ok (mark_target_submitted_set at t)"
    using chk target_invD(1) [OF inv] by (simp add: target_ok_def statement_defs)
  ultimately show ?thesis
    using target_invD(3,4) [OF inv] act
    by (simp add: target_inv_def status_projection_snoc active_projection_snoc attempt_resolved_def
        statement_defs)
qed

definition resolved_target_status :: "int \<Rightarrow> int \<Rightarrow> string \<Rightarrow> string" where
  "resolved_target_status m n status =
     (if status = ''failed'' then (if n < m then ''retryable'' else ''exhausted'') else status)"

lemma resolve_target_inv:
  assumes inv: "target_inv m t (pre @ [a])" and status: "status \<in> {''delivered'', ''failed'', ''unknown''}"
    and chk: "delivery_targets_check (resolve_target_set ts next_at at t)"
    and ts: "ts = resolved_target_status m (t_attempt_count t) status"
    and nxt: "ts = ''unknown'' \<Longrightarrow> next_at \<noteq> None \<longleftrightarrow> t_attempt_count t < m"
  shows "target_inv m (resolve_target_set ts next_at at t) (pre @ [resolve_attempt_set status at reason a])"
proof -
  have "history_inv (pre @ [resolve_attempt_set status at reason a])"
    using target_invD(2) [OF inv]
    by (rule history_inv_replace_last) (simp add: identity_defs statement_defs)
  moreover have "target_ok (resolve_target_set ts next_at at t)"
    using chk target_invD(1) [OF inv] by (simp add: target_ok_def statement_defs)
  ultimately show ?thesis
    using target_invD(3,4) [OF inv] status nxt
    by (auto simp: target_inv_def status_projection_snoc active_projection_snoc attempt_resolved_def
        statement_defs ts resolved_target_status_def)
qed

section \<open>Acknowledgement counts\<close>

definition required_delivered :: "target_row list \<Rightarrow> int" where
  "required_delivered ts = int (length (filter row_delivered ts))"

definition required_possible :: "int \<Rightarrow> target_row list \<Rightarrow> int" where
  "required_possible m ts = int (length (filter (row_possible m) ts))"

definition closed_outcome :: "job_row \<Rightarrow> target_row list \<Rightarrow> bool" where
  "closed_outcome j ts \<longleftrightarrow>
     (j_status j = ''delivered'' \<longrightarrow> j_required_acknowledgements j \<le> required_delivered ts)
     \<and> (j_status j \<in> {''failed'', ''unknown''} \<longrightarrow>
          required_possible (j_max_attempts j) ts < j_required_acknowledgements j)
     \<and> (j_status j = ''unknown'' \<longrightarrow> list_ex (row_lost (j_max_attempts j)) ts)"

definition open_outcome :: "job_row \<Rightarrow> target_row list \<Rightarrow> bool" where
  "open_outcome j ts \<longleftrightarrow> (j_status j \<in> {''pending'', ''active''} \<longrightarrow>
     required_delivered ts < j_required_acknowledgements j
     \<and> j_required_acknowledgements j \<le> required_possible (j_max_attempts j) ts)"

lemma outcome_inv_iff: "outcome_inv j ts \<longleftrightarrow> closed_outcome j ts \<and> open_outcome j ts"
  by (auto simp: outcome_inv_def closed_outcome_def open_outcome_def required_delivered_def
      required_possible_def Let_def)

lemma length_filter_map_mono:
  assumes "\<And>t. t \<in> set ts \<Longrightarrow> P t \<Longrightarrow> Q (h t)"
  shows "length (filter P ts) \<le> length (filter Q (map h ts))"
  using assms by (induction ts) auto

text \<open>Outcomes only move towards a decision: deliveries stay, lost targets stay lost.\<close>

definition outcome_monotone :: "int \<Rightarrow> (target_row \<Rightarrow> target_row) \<Rightarrow> target_row \<Rightarrow> bool" where
  "outcome_monotone m h t \<longleftrightarrow> (row_delivered t \<longrightarrow> row_delivered (h t))
     \<and> (row_possible m (h t) \<longrightarrow> row_possible m t) \<and> (row_lost m t \<longrightarrow> row_lost m (h t))"

lemma closed_outcome_map:
  assumes "closed_outcome j ts" and "\<And>t. t \<in> set ts \<Longrightarrow> outcome_monotone (j_max_attempts j) h t"
  shows "closed_outcome j (map h ts)"
proof -
  have "required_delivered ts \<le> required_delivered (map h ts)"
    unfolding required_delivered_def using assms(2)
    by (intro of_nat_mono length_filter_map_mono) (auto simp: outcome_monotone_def)
  moreover have "length (filter (row_possible (j_max_attempts j)) (map h ts))
      \<le> length (filter (row_possible (j_max_attempts j)) ts)"
    using assms(2) by (induction ts) (auto simp: outcome_monotone_def)
  then have "required_possible (j_max_attempts j) (map h ts) \<le> required_possible (j_max_attempts j) ts"
    by (simp add: required_possible_def)
  ultimately show ?thesis
    using assms unfolding closed_outcome_def list_ex_iff outcome_monotone_def by fastforce
qed

lemma open_outcome_map:
  assumes "open_outcome j ts"
    and "\<And>t. t \<in> set ts \<Longrightarrow> row_delivered (h t) = row_delivered t
      \<and> row_possible (j_max_attempts j) (h t) = row_possible (j_max_attempts j) t"
  shows "open_outcome j (map h ts)"
proof -
  have "length (filter row_delivered (map h ts)) = length (filter row_delivered ts)"
    "length (filter (row_possible (j_max_attempts j)) (map h ts))
      = length (filter (row_possible (j_max_attempts j)) ts)"
    using assms(2) by (induction ts) auto
  with assms(1) show ?thesis by (simp add: open_outcome_def required_delivered_def required_possible_def)
qed

section \<open>What the operations find and write\<close>

text \<open>The job, target and attempt that \<open>require_job\<close>, \<open>target_by_relay\<close> and \<open>require_attempt\<close> find.\<close>

lemma target_record_index:
  "target_ok t \<Longrightarrow> int (tr_index (target_record t)) = t_target_index t"
  by (simp add: target_record_def target_ok_def delivery_targets_check_def)

lemma job_target_found:
  assumes inv: "tables_inv db" and job: "require_job db jid = Inr job"
    and target: "target_by_relay job relay = Inr target"
  obtains j t where "j \<in> set (delivery_jobs db)" "j_job_id j = jid" "job = job_record j (targets_of db jid)"
    "t \<in> set (targets_of db jid)" "t_relay_id t = relay" "target = target_record t"
    "int (tr_index target) = t_target_index t"
    "target_inv (j_max_attempts j) t (attempts_of db jid (t_target_index t))"
proof -
  from inv job obtain j where j: "j \<in> set (delivery_jobs db)" "j_job_id j = jid"
    "job = job_record j (targets_of db jid)" by (rule require_job_Inr)
  from target [unfolded j(3)] obtain t where t: "t \<in> set (targets_of db jid)" "t_relay_id t = relay"
    "target = target_record t" by (rule target_by_relay_Inr)
  have ti: "target_inv (j_max_attempts j) t (attempts_of db jid (t_target_index t))"
    using job_inv_coreD(5) [OF tables_invD(7) [OF inv j(1)]] t(1) j(2) by blast
  with target_invD(1) target_record_index t(3) have "int (tr_index target) = t_target_index t" by blast
  with j t ti show thesis by (intro that)
qed

lemma record_fields [simp]:
  "jr_id (job_record j ts) = j_job_id j" "jr_max_attempts (job_record j ts) = nat (j_max_attempts j)"
  "jr_attempt_deadline_ms (job_record j ts) = nat (j_attempt_deadline_ms j)"
  "jr_targets (job_record j ts) = map target_record ts"
  "jr_required_acknowledgements (job_record j ts) = nat (j_required_acknowledgements j)"
  "tr_attempt_count (target_record t) = nat (t_attempt_count t)"
  "tr_active_attempt_id (target_record t) = t_active_attempt_id t"
  "tr_next_attempt_at (target_record t) = map_option nat (t_next_attempt_at_unix_ms t)"
  "tr_relay_id (target_record t) = t_relay_id t" "tr_required (target_record t) = (t_required t = 1)"
  "ar_id (attempt_record a) = a_attempt_id a" "ar_number (attempt_record a) = nat (a_attempt_number a)"
  "ar_leased_at (attempt_record a) = nat (a_leased_at_unix_ms a)"
  "ar_lease_expires_at (attempt_record a) = nat (a_lease_expires_at_unix_ms a)"
  "ar_submitted_at (attempt_record a) = map_option nat (a_submitted_at_unix_ms a)"
  "ar_resolved_at (attempt_record a) = map_option nat (a_resolved_at_unix_ms a)"
  "ar_reason (attempt_record a) = a_reason_code a"
  by (simp_all add: job_record_def target_record_def attempt_record_def)

lemma attempt_status_text:
  "attempt_ok a \<Longrightarrow> a_status a = attempt_status_as_str (ar_status (attempt_record a))"
  by (cases rule: attempt_ok_cases, assumption)
     (auto simp: attempt_record_def attempt_status_parse_def)

lemma target_status_text:
  "target_ok t \<Longrightarrow> t_status t = target_status_as_str (tr_status (target_record t))"
  using target_status_texts by blast

lemma job_status_text:
  "delivery_jobs_check j \<Longrightarrow> j_status j = job_status_as_str (jr_status (job_record j ts))"
  by (erule job_status_cases) (simp add: job_record_def)

lemma legal_update_checks:
  "job_update_legal j j' \<Longrightarrow> delivery_jobs_check j'"
  "target_update_legal t t' \<Longrightarrow> delivery_targets_check t'"
  "attempt_update_legal a a' \<Longrightarrow> delivery_attempts_check a'"
  by (simp_all add: job_update_legal_def target_update_legal_def attempt_update_legal_def)

text \<open>What an UPDATE hit: the WHERE clause selects exactly one row of one target.\<close>

lemma filter_single_hit:
  assumes "length (filter w xs) = 1"
  obtains x where "x \<in> set xs" "w x"
proof -
  from assms obtain x where "x \<in> set (filter w xs)" by (cases "filter w xs") auto
  then show thesis by (auto intro: that)
qed

lemma target_unique:
  assumes "tables_inv db" and "t \<in> set (targets_of db jid)" and "s \<in> set (targets_of db jid)"
    and "t_target_index s = t_target_index t"
  shows "s = t"
proof -
  from assms(2) have "t \<in> set (delivery_targets db)" "t_job_id t = jid" by (auto simp: targets_of_def)
  with tables_invD(5) [OF assms(1)] obtain j where j: "j \<in> set (delivery_jobs db)" "j_job_id j = jid" by metis
  have "distinct (map t_target_index (targets_of db jid))"
    using targets_distinct_index [OF tables_invD(7) [OF assms(1) j(1)]] j(2) by simp
  with assms(2-4) show ?thesis using distinct_key_eq by metis
qed

lemma attempt_unique:
  assumes "tables_inv db" and "a \<in> set (delivery_attempts db)" and "b \<in> set (delivery_attempts db)"
    and "a_attempt_id a = a_attempt_id b"
  shows "a = b"
  using distinct_key_eq [OF tables_invD(3) [OF assms(1)]] assms(2-4) by blast

text \<open>The active attempt of a target is the last of its history.\<close>

lemma active_attempt_last:
  assumes inv: "tables_inv db" and ti: "target_inv m t (attempts_of db jid i)"
    and act: "t_active_attempt_id t = Some (a_attempt_id a)" and a: "a \<in> set (attempts_of db jid i)"
  obtains pre where "attempts_of db jid i = pre @ [a]" "\<not> attempt_resolved a"
    "t_status t = a_status a" "int (Suc (length pre)) \<le> m"
proof -
  from ti act obtain pre b where h: "attempts_of db jid i = pre @ [b]" "a_attempt_id b = a_attempt_id a"
    "\<not> attempt_resolved b" "t_status t = a_status b" "int (Suc (length pre)) \<le> m"
    by (rule active_target_history)
  have "b = a"
    using attempt_unique [OF inv] a h by (metis attempts_of_subset in_set_conv_decomp)
  with h show thesis by (intro that) simp_all
qed

section \<open>Writing one attempt and its target\<close>

definition updated_db ::
    "delivery_db \<Rightarrow> (attempt_row \<Rightarrow> bool) \<Rightarrow> (attempt_row \<Rightarrow> attempt_row) \<Rightarrow> (target_row \<Rightarrow> bool)
      \<Rightarrow> (target_row \<Rightarrow> target_row) \<Rightarrow> delivery_db" where
  "updated_db db w f wt ft = db\<lparr>delivery_attempts := map (upd_row w f) (delivery_attempts db),
     delivery_targets := map (upd_row wt ft) (delivery_targets db)\<rparr>"

lemma updated_db_fields [simp]:
  "delivery_jobs (updated_db db w f wt ft) = delivery_jobs db"
  "delivery_targets (updated_db db w f wt ft) = map (upd_row wt ft) (delivery_targets db)"
  "delivery_attempts (updated_db db w f wt ft) = map (upd_row w f) (delivery_attempts db)"
  by (simp_all add: updated_db_def)

lemma attempts_ok_updated:
  assumes inv: "tables_inv db" and a: "a \<in> set (delivery_attempts db)" and ok: "attempt_ok (f a)"
    and whr: "\<And>b. w b \<Longrightarrow> a_attempt_id b = a_attempt_id a"
    and b: "b \<in> set (map (upd_row w f) (delivery_attempts db))"
  shows "attempt_ok b"
proof -
  from b obtain c where c: "c \<in> set (delivery_attempts db)" "b = upd_row w f c" by auto
  show ?thesis
  proof (cases "w c")
    case True
    with whr attempt_unique [OF inv c(1) a] have "c = a" by blast
    with True ok c(2) show ?thesis by (simp add: upd_row_def)
  next
    case False
    with c tables_invD(4) [OF inv] show ?thesis by (simp add: upd_row_def)
  qed
qed

lemma updated_db_tables:
  assumes inv: "tables_inv db" and t: "t \<in> set (targets_of db jid)"
    and h: "attempts_of db jid (t_target_index t) = pre @ [a]"
    and keep: "\<And>b. attempt_identity (upd_row w f b) = attempt_identity b"
      "\<And>s. target_identity (upd_row wt ft s) = target_identity s"
    and whr: "\<forall>b. w b \<longrightarrow> a_attempt_id b = a_attempt_id a \<and> a_job_id b = jid
        \<and> a_target_index b = t_target_index t" "w a"
      "\<And>s. wt s \<Longrightarrow> t_job_id s = jid \<and> t_target_index s = t_target_index t" "wt t"
    and ok: "attempt_ok (f a)"
      "\<And>k. k \<in> set (delivery_jobs db) \<Longrightarrow> j_job_id k = jid \<Longrightarrow>
         target_inv (j_max_attempts k) t (pre @ [a]) \<Longrightarrow> target_inv (j_max_attempts k) (ft t) (pre @ [f a])"
  shows "tables_inv (updated_db db w f wt ft)"
proof (rule tables_inv_frame [OF inv, where g = id and jid = jid and i = "t_target_index t"
      and h = "upd_row wt ft"])
  let ?db = "updated_db db w f wt ft"
  note upd = attempts_of_update [OF updated_db_fields(3) keep(1) whr(1) tables_invD(3) [OF inv]]
  have "a \<in> set (attempts_of db jid (t_target_index t))" using h by simp
  then have a: "a \<in> set (delivery_attempts db)" by (rule attempts_of_subset)
  show "distinct (map a_attempt_id (delivery_attempts ?db))" by (rule upd(3))
  show "attempts_of ?db k l = attempts_of db k l" if "(k, l) \<noteq> (jid, t_target_index t)" for k l
    using that by (rule upd(1))
  show "attempt_ok b" if "b \<in> set (delivery_attempts ?db)" for b
    using attempts_ok_updated [OF inv a, of f w b] ok(1) that whr(1)
    unfolding updated_db_fields by blast
  have hist: "attempts_of ?db jid (t_target_index t) = pre @ [f a]"
    using upd(2) [OF h refl] whr(2) by (simp add: upd_row_def)
  show "target_inv (j_max_attempts k) (upd_row wt ft s) (attempts_of ?db jid (t_target_index t))"
    if k: "k \<in> set (delivery_jobs db)" "s \<in> set (targets_of db (j_job_id k))" "j_job_id k = jid"
      "t_target_index s = t_target_index t" for k s
  proof -
    have "s = t" using target_unique [OF inv t] k by simp
    moreover have "target_inv (j_max_attempts k) t (pre @ [a])"
      using job_inv_coreD(5) [OF tables_invD(7) [OF inv k(1)]] t k(3) h by metis
    ultimately show ?thesis unfolding hist using ok(2) whr(4) k(1,3) by (simp add: upd_row_def)
  qed
  show "upd_row wt ft s = s" if "\<not> (t_job_id s = jid \<and> t_target_index s = t_target_index t)" for s
    using that whr(3) by (auto simp: upd_row_def)
qed (use t tables_invD(7) [OF inv, THEN job_inv_coreD(1)] keep(2) in \<open>auto simp: targets_of_def\<close>)

lemma updated_db_targets_of:
  assumes "\<And>s. target_identity (upd_row wt ft s) = target_identity s"
  shows "targets_of (updated_db db w f wt ft) k = map (upd_row wt ft) (targets_of db k)"
  by (rule targets_of_map [OF updated_db_fields(2) assms])

section \<open>Submission\<close>

definition submitted_db :: "delivery_db \<Rightarrow> bytes \<Rightarrow> int \<Rightarrow> bytes \<Rightarrow> int \<Rightarrow> delivery_db" where
  "submitted_db db jid i aid at = updated_db db
     (mark_attempt_submitted_where aid jid i at) (mark_attempt_submitted_set at)
     (mark_target_submitted_where jid i aid) (mark_target_submitted_set at)"

lemma mark_submitted_effect:
  assumes inv: "tables_inv db" and run: "mark_submitted db jid relay aid at = Inr (r, db')"
  obtains (replay) "db' = db" "ar_status r = AttemptSubmitted" "ar_submitted_at r = Some at"
  | (written) j t pre a where "j \<in> set (delivery_jobs db)" "j_job_id j = jid"
      "t \<in> set (targets_of db jid)" "t_relay_id t = relay"
      "target_inv (j_max_attempts j) t (pre @ [a])"
      "attempts_of db jid (t_target_index t) = pre @ [a]" "a_attempt_id a = aid"
      "a_status a = ''leased''" "int at \<le> a_lease_expires_at_unix_ms a"
      "t_active_attempt_id t = Some aid" "t_status t = ''leased''"
      "delivery_attempts_check (mark_attempt_submitted_set (int at) a)"
      "delivery_targets_check (mark_target_submitted_set (int at) t)"
      "db' = submitted_db db jid (t_target_index t) aid (int at)"
      "require_attempt db' jid (nat (t_target_index t)) aid = Inr r"
proof -
  from run [unfolded mark_submitted_def] obtain job target attempt where
    job: "require_job db jid = Inr job" and target: "target_by_relay job relay = Inr target"
    and attempt: "require_attempt db jid (tr_index target) aid = Inr attempt"
    and rest: "(if ar_status attempt = AttemptSubmitted
      then (if ar_submitted_at attempt = Some at then Inr (attempt, db) else Inl Binding)
      else if ar_status attempt \<noteq> AttemptLeased \<or> at < ar_leased_at attempt
        \<or> ar_lease_expires_at attempt < at \<or> tr_active_attempt_id target \<noteq> Some aid
        \<or> tr_status target \<noteq> TargetLeased
      then Inl Binding else
      r_bind (execute_one (update_attempts db
         (mark_attempt_submitted_where aid jid (int (tr_index target)) (int at))
         (mark_attempt_submitted_set (int at)))) (\<lambda>db1.
      r_bind (execute_one (update_targets db1
         (mark_target_submitted_where jid (int (tr_index target)) aid)
         (mark_target_submitted_set (int at)))) (\<lambda>db2.
      r_bind (require_attempt db2 jid (tr_index target) aid) (\<lambda>result. Inr (result, db2))))) = Inr (r, db')"
    by (auto elim!: r_bind_InrE)
  obtain j t where j: "j \<in> set (delivery_jobs db)" "j_job_id j = jid"
    and t: "t \<in> set (targets_of db jid)" "t_relay_id t = relay" "target = target_record t"
    and idx: "int (tr_index target) = t_target_index t"
    and ti: "target_inv (j_max_attempts j) t (attempts_of db jid (t_target_index t))"
    using job_target_found [OF inv job target] by metis
  obtain a where a: "a \<in> set (attempts_of db jid (t_target_index t))" "a_attempt_id a = aid"
    "attempt = attempt_record a" "attempt_ok a"
    using require_attempt_Inr [OF inv attempt] idx by metis
  show thesis
  proof (cases "ar_status attempt = AttemptSubmitted")
    case True
    with rest show thesis by (intro replay) (auto split: if_splits)
  next
    case False
    with rest have w: "ar_status attempt = AttemptLeased" "at \<le> ar_lease_expires_at attempt"
      "tr_active_attempt_id target = Some aid" "tr_status target = TargetLeased"
      "list_all (\<lambda>x. mark_attempt_submitted_where aid jid (t_target_index t) (int at) x \<longrightarrow>
         attempt_update_legal x (mark_attempt_submitted_set (int at) x)) (delivery_attempts db)"
      "list_all (\<lambda>x. mark_target_submitted_where jid (t_target_index t) aid x \<longrightarrow>
         target_update_legal x (mark_target_submitted_set (int at) x)) (delivery_targets db)"
      "db' = submitted_db db jid (t_target_index t) aid (int at)"
      "require_attempt db' jid (tr_index target) aid = Inr r"
      unfolding idx by (auto simp: submitted_db_def updated_db_def elim!: r_bind_InrE split: if_splits)
    have act: "t_active_attempt_id t = Some aid" using w(3) t(3) by simp
    have st: "t_status t = ''leased''" "a_status a = ''leased''"
      using target_status_text [OF target_invD(1) [OF ti]] attempt_status_text [OF a(4)] w(1,4) t(3) a(3)
      by simp_all
    from inv ti _ a(1) obtain pre where h: "attempts_of db jid (t_target_index t) = pre @ [a]"
      by (rule active_attempt_last) (simp add: act a(2))
    have exp: "int at \<le> a_lease_expires_at_unix_ms a"
      using w(2) a(3,4) by (auto simp: attempt_ok_def delivery_attempts_check_def)
    have "mark_attempt_submitted_where aid jid (t_target_index t) (int at) a"
      "a \<in> set (delivery_attempts db)"
      using a(1,2) st(2) exp by (auto simp: statement_defs attempts_of_def)
    with w(5) have ca: "delivery_attempts_check (mark_attempt_submitted_set (int at) a)"
      by (auto simp: list_all_iff intro: legal_update_checks)
    have "mark_target_submitted_where jid (t_target_index t) aid t" "t \<in> set (delivery_targets db)"
      using t(1) act st(1) by (auto simp: statement_defs targets_of_def)
    with w(6) have ct: "delivery_targets_check (mark_target_submitted_set (int at) t)"
      by (auto simp: list_all_iff intro: legal_update_checks)
    show thesis
      using j t(1,2) ti h act st exp ca ct w(7,8) a(2) idx [symmetric]
      by (intro written [of j t pre a]) auto
  qed
qed


lemma submitted_db_tables:
  assumes inv: "tables_inv db"
    and t: "t \<in> set (targets_of db jid)" "t_active_attempt_id t = Some aid" "t_status t = ''leased''"
    and h: "attempts_of db jid (t_target_index t) = pre @ [a]" "a_attempt_id a = aid"
      "a_status a = ''leased''" "at \<le> a_lease_expires_at_unix_ms a"
    and chk: "delivery_attempts_check (mark_attempt_submitted_set at a)"
      "delivery_targets_check (mark_target_submitted_set at t)"
  shows "tables_inv (submitted_db db jid (t_target_index t) aid at)"
  unfolding submitted_db_def
proof (rule updated_db_tables [OF inv t(1) h(1) attempt_submit_upd.key_upd_row submit_upd.key_upd_row])
  have "a \<in> set (attempts_of db jid (t_target_index t))" using h(1) by simp
  then show "mark_attempt_submitted_where aid jid (t_target_index t) at a"
    using h by (simp add: statement_defs attempts_of_def)
  show "mark_target_submitted_where jid (t_target_index t) aid t"
    using t by (simp add: statement_defs targets_of_def)
  show "attempt_ok (mark_attempt_submitted_set at a)"
    using chk(1) by (simp add: attempt_ok_def statement_defs attempt_resolved_def)
  show "target_inv (j_max_attempts k) (mark_target_submitted_set at t)
      (pre @ [mark_attempt_submitted_set at a])" if "target_inv (j_max_attempts k) t (pre @ [a])" for k
    using submit_target_inv [OF that _ chk(2)] t(2) h(2) by simp
qed (use h(2) in \<open>auto simp: statement_defs\<close>)

lemma submitted_row_outcome:
  "row_delivered (upd_row (mark_target_submitted_where jid i aid) (mark_target_submitted_set at) s) = row_delivered s"
  "row_possible m (upd_row (mark_target_submitted_where jid i aid) (mark_target_submitted_set at) s) = row_possible m s"
  "row_lost m (upd_row (mark_target_submitted_where jid i aid) (mark_target_submitted_set at) s) = row_lost m s"
  by (auto simp: row_delivered_def row_possible_def row_lost_def upd_row_def statement_defs)

text \<open>The decision of a job depends on its targets only through these three predicates.\<close>

lemma delivery_inv_updated:
  assumes "delivery_inv db" and "tables_inv (updated_db db w f wt ft)"
    and keep: "\<And>s. target_identity (upd_row wt ft s) = target_identity s"
    and out: "\<And>s. row_delivered (upd_row wt ft s) = row_delivered s"
      "\<And>m s. row_possible m (upd_row wt ft s) = row_possible m s"
      "\<And>m s. row_lost m (upd_row wt ft s) = row_lost m s"
  shows "delivery_inv (updated_db db w f wt ft)"
proof -
  have "outcome_inv j (map (upd_row wt ft) ts)" if "outcome_inv j ts" for j ts
    using that closed_outcome_map [of j ts "upd_row wt ft"] open_outcome_map [of j ts "upd_row wt ft"]
    by (simp add: outcome_inv_iff outcome_monotone_def out)
  with assms(1,2) show ?thesis
    by (auto simp: delivery_inv_def list_all_iff updated_db_targets_of [OF keep])
qed

lemma mark_submitted_inv:
  assumes inv: "delivery_inv db" and run: "mark_submitted db jid relay aid at = Inr (r, db')"
  shows "delivery_inv db'"
proof -
  have tab: "tables_inv db" using inv by (simp add: delivery_inv_def)
  from tab run show ?thesis
  proof (cases rule: mark_submitted_effect)
    case replay
    with inv show ?thesis by simp
  next
    case (written j t pre a)
    have "tables_inv db'" unfolding written(14)
      using tab written(3,10,11,6-9,12,13) by (rule submitted_db_tables)
    then show ?thesis
      unfolding written(14) submitted_db_def
      by (intro delivery_inv_updated [OF inv _ submit_upd.key_upd_row submitted_row_outcome])
  qed
qed

section \<open>Resolution\<close>

definition resolved_db ::
    "delivery_db \<Rightarrow> bytes \<Rightarrow> int \<Rightarrow> bytes \<Rightarrow> string \<Rightarrow> string \<Rightarrow> int \<Rightarrow> string \<Rightarrow> string \<Rightarrow> int option
      \<Rightarrow> delivery_db" where
  "resolved_db db jid i aid prior status at reason ts next_at = updated_db db
     (resolve_attempt_where aid jid i prior) (resolve_attempt_set status at reason)
     (resolve_target_where jid i aid prior) (resolve_target_set ts next_at at)"

definition retry_schedule ::
    "MycDeliveryJobRecord \<Rightarrow> bool \<Rightarrow> nat \<Rightarrow> nat \<Rightarrow> nat \<Rightarrow> nat option \<Rightarrow> bool" where
  "retry_schedule job retries number jitter at next_at \<longleftrightarrow>
     (if retries then jitter \<le> maximum_delay job number \<and> next_at = Some (at + jitter) \<and> valid_time (at + jitter)
      else jitter = 0 \<and> next_at = None)"

lemma next_attempt_time_Inr:
  "next_attempt_time job number jitter at = Inr n \<longleftrightarrow>
     jitter \<le> maximum_delay job number \<and> n = at + jitter \<and> valid_time (at + jitter)"
  by (auto simp: next_attempt_time_def r_bind_Inr_iff not_less valid_time_def int_width_defs)

lemma resolve_writes:
  assumes run: "resolve_attempt_and_target db job target attempt prior terminal reason jitter at = Inr db'"
    and idx: "int (tr_index target) = i"
  obtains ts next_at where "terminal \<in> {AttemptDelivered, AttemptFailed, AttemptUnknown}"
    "prior \<in> {AttemptLeased, AttemptSubmitted}"
    "db' = resolved_db db (jr_id job) i (ar_id attempt) (attempt_status_as_str prior)
       (attempt_status_as_str terminal) (int at) reason ts (map_option int next_at)"
    "ts = resolved_target_status (int (jr_max_attempts job)) (int (tr_attempt_count target))
       (attempt_status_as_str terminal)"
    "retry_schedule job (tr_attempt_count target < jr_max_attempts job \<and> terminal \<noteq> AttemptDelivered)
       (ar_number attempt) jitter at next_at"
    "list_all (\<lambda>x. resolve_attempt_where (ar_id attempt) (jr_id job) i (attempt_status_as_str prior) x \<longrightarrow>
       attempt_update_legal x (resolve_attempt_set (attempt_status_as_str terminal) (int at) reason x))
       (delivery_attempts db)"
    "list_all (\<lambda>x. resolve_target_where (jr_id job) i (ar_id attempt) (attempt_status_as_str prior) x \<longrightarrow>
       target_update_legal x (resolve_target_set ts (map_option int next_at) (int at) x))
       (delivery_targets db)"
proof -
  have prior: "prior \<in> {AttemptLeased, AttemptSubmitted}"
    using run by (cases prior) (auto simp: resolve_attempt_and_target_def Let_def r_bind_Inr_iff split: if_splits)
  have terminal: "terminal \<in> {AttemptDelivered, AttemptFailed, AttemptUnknown}"
    using run by (cases terminal) (auto simp: resolve_attempt_and_target_def Let_def r_bind_Inr_iff split: if_splits)
  note R = run [unfolded resolve_attempt_and_target_def Let_def idx]
  show thesis
  proof (cases "tr_attempt_count target < jr_max_attempts job \<and> terminal \<noteq> AttemptDelivered")
    case True
    with R terminal prior show thesis
      by (auto simp: r_bind_Inr_iff next_attempt_time_Inr
          intro!: that [of "resolved_target_status (int (jr_max_attempts job)) (int (tr_attempt_count target))
             (attempt_status_as_str terminal)" "Some (at + jitter)"]
          simp: retry_schedule_def resolved_db_def updated_db_def resolved_target_status_def split: if_splits)
  next
    case False
    with R terminal prior show thesis
      by (auto simp: r_bind_Inr_iff
          intro!: that [of "resolved_target_status (int (jr_max_attempts job)) (int (tr_attempt_count target))
             (attempt_status_as_str terminal)" None]
          simp: retry_schedule_def resolved_db_def updated_db_def resolved_target_status_def split: if_splits)
  qed
qed

end
