(* ===== verification/Delivery_Outcome.thy ===== *)
theory Delivery_Outcome
  imports Delivery_Steps
begin

text \<open>
  Resolving an attempt and deciding its job: \<open>resolve_attempt_and_target\<close>, \<open>finalize_job_if_terminal\<close>,
  \<open>record_outcome\<close> and \<open>recover_expired\<close> keep the invariant. The decision of a job is characterised on
  the rows: delivered when the required acknowledgements are there, failed or unknown when they are
  out of reach, open otherwise.
\<close>

section \<open>Resolution keeps the tables consistent\<close>

lemma attempt_ok_resolved:
  assumes "delivery_attempts_check (resolve_attempt_set status at reason a)"
  shows "attempt_ok (resolve_attempt_set status at reason a)"
  using assms by (simp add: attempt_ok_def resolve_attempt_set_def)

lemma resolved_db_tables:
  assumes inv: "tables_inv db" and t: "t \<in> set (targets_of db jid)" "t_active_attempt_id t = Some aid"
      "t_status t = prior"
    and h: "attempts_of db jid (t_target_index t) = pre @ [a]" "a_attempt_id a = aid" "a_status a = prior"
    and status: "status \<in> {''delivered'', ''failed'', ''unknown''}"
    and m: "\<And>k. k \<in> set (delivery_jobs db) \<Longrightarrow> j_job_id k = jid \<Longrightarrow> j_max_attempts k = m"
    and ts: "ts = resolved_target_status m (t_attempt_count t) status"
      "ts = ''unknown'' \<Longrightarrow> next_at \<noteq> None \<longleftrightarrow> t_attempt_count t < m"
    and chk: "delivery_attempts_check (resolve_attempt_set status at reason a)"
      "delivery_targets_check (resolve_target_set ts next_at at t)"
  shows "tables_inv (resolved_db db jid (t_target_index t) aid prior status at reason ts next_at)"
  unfolding resolved_db_def
proof (rule updated_db_tables [OF inv t(1) h(1) attempt_resolve_upd.key_upd_row resolve_upd.key_upd_row])
  have "a \<in> set (attempts_of db jid (t_target_index t))" using h(1) by simp
  then show "resolve_attempt_where aid jid (t_target_index t) prior a"
    using h by (simp add: statement_defs attempts_of_def)
  show "resolve_target_where jid (t_target_index t) aid prior t"
    using t by (simp add: statement_defs targets_of_def)
  show "attempt_ok (resolve_attempt_set status at reason a)" using chk(1) by (rule attempt_ok_resolved)
  show "target_inv (j_max_attempts k) (resolve_target_set ts next_at at t)
      (pre @ [resolve_attempt_set status at reason a])"
    if "k \<in> set (delivery_jobs db)" "j_job_id k = jid" "target_inv (j_max_attempts k) t (pre @ [a])" for k
    using that(3) status chk(2) ts unfolding m [OF that(1,2)] by (intro resolve_target_inv) auto
qed (use h(2) in \<open>auto simp: statement_defs\<close>)

lemma resolved_row_outcome:
  assumes "s \<in> set (targets_of db jid)" and "prior \<in> {''leased'', ''submitted''}"
    and "ts = resolved_target_status m n status" "status \<in> {''delivered'', ''failed'', ''unknown''}"
  shows "outcome_monotone m' (upd_row (resolve_target_where k i aid prior) (resolve_target_set ts next_at at)) s"
  using assms by (auto simp: outcome_monotone_def row_delivered_def row_possible_def row_lost_def
      upd_row_def statement_defs)

text \<open>
  Resolving the active attempt: the tables stay consistent, no decision of a job is undone, and
  other jobs are untouched.
\<close>

lemma resolve_effect:
  assumes inv: "tables_inv db" and j: "j \<in> set (delivery_jobs db)" "j_job_id j = jid"
    and t: "t \<in> set (targets_of db jid)"
    and ti: "target_inv (j_max_attempts j) t (attempts_of db jid (t_target_index t))"
    and a: "a \<in> set (attempts_of db jid (t_target_index t))" "attempt_ok a"
    and act: "t_active_attempt_id t = Some (a_attempt_id a)"
    and run: "resolve_attempt_and_target db (job_record j (targets_of db jid)) (target_record t)
      (attempt_record a) (ar_status (attempt_record a)) terminal reason jitter at = Inr db'"
  obtains ts next_at where "tables_inv db'"
    "terminal \<in> {AttemptDelivered, AttemptFailed, AttemptUnknown}"
    "a_status a \<in> {''leased'', ''submitted''}"
    "db' = resolved_db db jid (t_target_index t) (a_attempt_id a) (a_status a)
       (attempt_status_as_str terminal) (int at) reason ts (map_option int next_at)"
    "ts = resolved_target_status (j_max_attempts j) (t_attempt_count t) (attempt_status_as_str terminal)"
    "retry_schedule (job_record j (targets_of db jid))
       (t_attempt_count t < j_max_attempts j \<and> terminal \<noteq> AttemptDelivered)
       (nat (a_attempt_number a)) jitter at next_at"
    "t_status t = a_status a"
    "delivery_attempts_check (resolve_attempt_set (attempt_status_as_str terminal) (int at) reason a)"
proof -
  have tok: "target_ok t" using target_invD(1) [OF ti] .
  have m_pos: "0 < j_max_attempts j" "0 \<le> t_attempt_count t"
    using delivery_jobs_checkD(6) [OF job_inv_coreD(1) [OF tables_invD(7) [OF inv j(1)]]] target_invD(3) [OF ti]
    by simp_all
  from inv ti act a(1) obtain pre where h: "attempts_of db jid (t_target_index t) = pre @ [a]"
    "t_status t = a_status a" by (rule active_attempt_last)
  note sa = attempt_status_text [OF a(2)]
  from run target_record_index [OF tok] obtain ts next_at where
    w: "terminal \<in> {AttemptDelivered, AttemptFailed, AttemptUnknown}"
      "ar_status (attempt_record a) \<in> {AttemptLeased, AttemptSubmitted}"
      "db' = resolved_db db jid (t_target_index t) (a_attempt_id a) (a_status a)
         (attempt_status_as_str terminal) (int at) reason ts (map_option int next_at)"
      "ts = resolved_target_status (int (nat (j_max_attempts j))) (int (nat (t_attempt_count t)))
         (attempt_status_as_str terminal)"
      "retry_schedule (job_record j (targets_of db jid))
         (nat (t_attempt_count t) < nat (j_max_attempts j) \<and> terminal \<noteq> AttemptDelivered)
         (nat (a_attempt_number a)) jitter at next_at"
      "list_all (\<lambda>x. resolve_attempt_where (a_attempt_id a) jid (t_target_index t) (a_status a) x \<longrightarrow>
         attempt_update_legal x (resolve_attempt_set (attempt_status_as_str terminal) (int at) reason x))
         (delivery_attempts db)"
      "list_all (\<lambda>x. resolve_target_where jid (t_target_index t) (a_attempt_id a) (a_status a) x \<longrightarrow>
         target_update_legal x (resolve_target_set ts (map_option int next_at) (int at) x))
         (delivery_targets db)"
    by (rule resolve_writes) (simp only: record_fields sa j(2))
  have sched: "retry_schedule (job_record j (targets_of db jid))
       (t_attempt_count t < j_max_attempts j \<and> terminal \<noteq> AttemptDelivered)
       (nat (a_attempt_number a)) jitter at next_at"
    and ts: "ts = resolved_target_status (j_max_attempts j) (t_attempt_count t) (attempt_status_as_str terminal)"
    using w(4,5) m_pos by simp_all
  have "resolve_attempt_where (a_attempt_id a) jid (t_target_index t) (a_status a) a"
    "a \<in> set (delivery_attempts db)" "resolve_target_where jid (t_target_index t) (a_attempt_id a) (a_status a) t"
    "t \<in> set (delivery_targets db)"
    using a(1) t act h(2) by (auto simp: statement_defs attempts_of_def targets_of_def)
  with w(6,7) have chk:
    "delivery_attempts_check (resolve_attempt_set (attempt_status_as_str terminal) (int at) reason a)"
    "delivery_targets_check (resolve_target_set ts (map_option int next_at) (int at) t)"
    by (auto simp: list_all_iff intro: legal_update_checks)
  have m: "\<And>k. k \<in> set (delivery_jobs db) \<Longrightarrow> j_job_id k = jid \<Longrightarrow> j_max_attempts k = j_max_attempts j"
    using distinct_key_eq [OF tables_invD(1) [OF inv]] j by metis
  have status: "attempt_status_as_str terminal \<in> {''delivered'', ''failed'', ''unknown''}" using w(1) by auto
  have nxt: "map_option int next_at \<noteq> None \<longleftrightarrow> t_attempt_count t < j_max_attempts j" if "ts = ''unknown''"
    using that w(1) ts sched by (auto simp: resolved_target_status_def retry_schedule_def split: if_splits)
  have "tables_inv db'" unfolding w(3)
    using inv t act h(2,1) refl refl status m ts nxt chk by (rule resolved_db_tables)
  moreover have "a_status a \<in> {''leased'', ''submitted''}" using w(2) sa by auto
  ultimately show thesis using w(1,3) ts sched h(2) chk(1) by (intro that)
qed

section \<open>The decision of a job\<close>

lemma target_rows_records:
  assumes "target_ok t" and "0 < m"
  shows "row_delivered t \<longleftrightarrow> tr_required (target_record t) \<and> tr_status (target_record t) = TargetDelivered"
    and "row_possible m t \<longleftrightarrow> tr_required (target_record t) \<and> tr_status (target_record t) \<noteq> TargetExhausted
      \<and> \<not> (tr_status (target_record t) = TargetUnknown \<and> nat m \<le> tr_attempt_count (target_record t))"
    and "row_lost m t \<longleftrightarrow> tr_required (target_record t) \<and> tr_status (target_record t) = TargetUnknown
      \<and> nat m \<le> tr_attempt_count (target_record t)"
proof -
  have cnt: "nat m \<le> nat (t_attempt_count t) \<longleftrightarrow> m \<le> t_attempt_count t"
    using assms by (auto simp: target_ok_def delivery_targets_check_def)
  note st = target_status_texts [OF assms(1)]
  show "row_delivered t \<longleftrightarrow> tr_required (target_record t) \<and> tr_status (target_record t) = TargetDelivered"
    "row_possible m t \<longleftrightarrow> tr_required (target_record t) \<and> tr_status (target_record t) \<noteq> TargetExhausted
      \<and> \<not> (tr_status (target_record t) = TargetUnknown \<and> nat m \<le> tr_attempt_count (target_record t))"
    "row_lost m t \<longleftrightarrow> tr_required (target_record t) \<and> tr_status (target_record t) = TargetUnknown
      \<and> nat m \<le> tr_attempt_count (target_record t)"
    using st [of TargetDelivered] st [of TargetExhausted] st [of TargetUnknown]
    by (auto simp: row_delivered_def row_possible_def row_lost_def cnt)
qed

lemma terminal_decision_rows:
  assumes core: "job_inv_core j ts hist"
  shows "terminal_decision (job_record j ts) =
    (if j_required_acknowledgements j \<le> required_delivered ts then Some JobDelivered
     else if required_possible (j_max_attempts j) ts < j_required_acknowledgements j
     then Some (if list_ex (row_lost (j_max_attempts j)) ts then JobUnknown else JobFailed)
     else None)"
proof -
  have m: "0 < j_max_attempts j" and n: "1 \<le> j_required_acknowledgements j"
    using delivery_jobs_checkD [OF job_inv_coreD(1) [OF core]] by simp_all
  have rows: "target_ok t" if "t \<in> set ts" for t
    using target_invD(1) [OF job_inv_coreD(5) [OF core that]] .
  note R = target_rows_records [OF rows m]
  have d: "delivered_required (job_record j ts) = length (filter row_delivered ts)"
    unfolding delivered_required_def record_fields filter_map length_map comp_def
    by (rule arg_cong [where f = length], rule filter_cong) (auto simp: R)
  have p: "possible_required (job_record j ts) = length (filter (row_possible (j_max_attempts j)) ts)"
    unfolding possible_required_def record_fields filter_map length_map comp_def
    by (rule arg_cong [where f = length], rule filter_cong) (auto simp: R)
  have l: "list_ex (\<lambda>t. tr_required t \<and> tr_status t = TargetUnknown \<and> nat (j_max_attempts j) \<le> tr_attempt_count t)
      (map target_record ts) = list_ex (row_lost (j_max_attempts j)) ts"
    unfolding list_ex_iff using R by auto
  have le: "nat (j_required_acknowledgements j) \<le> k \<longleftrightarrow> j_required_acknowledgements j \<le> int k" for k
    using n by linarith
  show ?thesis
    unfolding terminal_decision_def Let_def d p record_fields l le required_delivered_def required_possible_def
    by (cases "jr_policy_mode (job_record j ts)") (auto simp: not_le)
qed

definition finalized_db :: "delivery_db \<Rightarrow> bytes \<Rightarrow> string \<Rightarrow> int \<Rightarrow> delivery_db" where
  "finalized_db db jid status at = db\<lparr>delivery_jobs :=
     map (upd_row (finalize_job_where jid) (finalize_job_set status at)) (delivery_jobs db)\<rparr>"

lemma finalized_db_projections [simp]:
  "targets_of (finalized_db db jid status at) k = targets_of db k"
  "attempts_of (finalized_db db jid status at) k l = attempts_of db k l"
  "delivery_targets (finalized_db db jid status at) = delivery_targets db"
  "delivery_attempts (finalized_db db jid status at) = delivery_attempts db"
  by (simp_all add: finalized_db_def targets_of_def attempts_of_def)

text \<open>Job rows change alone: the tables stay consistent when every new row passes its check.\<close>

lemma tables_inv_jobs:
  assumes inv: "tables_inv db" and jobs: "delivery_jobs db' = map g (delivery_jobs db)"
      "\<And>j. job_identity (g j) = job_identity j"
      "\<And>j. j \<in> set (delivery_jobs db) \<Longrightarrow> delivery_jobs_check (g j)"
    and same: "delivery_targets db' = delivery_targets db" "delivery_attempts db' = delivery_attempts db"
  shows "tables_inv db'"
proof -
  have proj: "targets_of db' = targets_of db" "attempts_of db' = attempts_of db"
    by (simp_all add: targets_of_def attempts_of_def same fun_eq_iff)
  have id: "\<And>j. j_job_id (g j) = j_job_id j" "\<And>j. j_source_kind (g j) = j_source_kind j"
    "\<And>j. j_source_id (g j) = j_source_id j"
    using jobs(2) by (simp_all add: identity_defs)
  have core: "job_inv_core (g j) (targets_of db (j_job_id j)) (attempts_of db (j_job_id j))"
    if "j \<in> set (delivery_jobs db)" for j
    using job_inv_core_map [OF tables_invD(7) [OF inv that] jobs(2) jobs(3) [OF that], where h = "\<lambda>t. t"]
      job_inv_coreD(5) [OF tables_invD(7) [OF inv that]] by simp
  show ?thesis
    using tables_invD(1-6) [OF inv] core
    by (simp add: tables_inv_def list_all_iff list_ex_iff proj jobs(1) same id comp_def)
qed

lemma finalize_job_Inr:
  assumes inv: "tables_inv db" and run: "finalize_job_if_terminal db jid at = Inr (r, db')"
  obtains (decided) j s where "j \<in> set (delivery_jobs db)" "j_job_id j = jid"
      "terminal_decision (job_record j (targets_of db jid)) = Some s"
      "db' = finalized_db db jid (job_status_as_str s) (int at)" "tables_inv db'"
      "r = job_record (upd_row (finalize_job_where jid) (finalize_job_set (job_status_as_str s) (int at)) j)
         (targets_of db jid)"
  | (undecided) j where "j \<in> set (delivery_jobs db)" "j_job_id j = jid"
      "terminal_decision (job_record j (targets_of db jid)) = None" "db' = db"
      "r = job_record j (targets_of db jid)"
proof -
  from run obtain job where job: "require_job db jid = Inr job"
    and rest: "r_bind (case terminal_decision job of
        Some terminal \<Rightarrow> execute_at_most_one (update_jobs db (finalize_job_where jid)
          (finalize_job_set (job_status_as_str terminal) (int at)))
      | None \<Rightarrow> Inr db) (\<lambda>db1. r_bind (require_job db1 jid) (\<lambda>result. Inr (result, db1))) = Inr (r, db')"
    unfolding finalize_job_if_terminal_def by (rule r_bind_InrE)
  from inv job obtain j where j: "j \<in> set (delivery_jobs db)" "j_job_id j = jid"
    "job = job_record j (targets_of db jid)" by (rule require_job_Inr)
  show thesis
  proof (cases "terminal_decision job")
    case None
    with rest job j show thesis by (intro undecided [of j]) auto
  next
    case (Some s)
    let ?g = "upd_row (finalize_job_where jid) (finalize_job_set (job_status_as_str s) (int at))"
    from Some rest have db': "db' = finalized_db db jid (job_status_as_str s) (int at)"
      and legal: "\<And>x. x \<in> set (delivery_jobs db) \<Longrightarrow> finalize_job_where jid x \<Longrightarrow>
        job_update_legal x (finalize_job_set (job_status_as_str s) (int at) x)"
      and res: "require_job db' jid = Inr r"
      by (auto simp: finalized_db_def list_all_iff elim!: r_bind_InrE)
    have "delivery_jobs_check (?g x)" if "x \<in> set (delivery_jobs db)" for x
      using legal [OF that] legal_update_checks(1) job_inv_coreD(1) [OF tables_invD(7) [OF inv that]]
      by (auto simp: upd_row_def)
    then have inv': "tables_inv db'"
      by (intro tables_inv_jobs [OF inv, of db' ?g] job_final_upd.key_upd_row) (auto simp: db' finalized_db_def)
    have id: "j_job_id (?g j) = jid" using j(2) by (simp add: upd_row_def finalize_job_set_def)
    have "?g j \<in> set (delivery_jobs db')" using j(1) by (auto simp: db' finalized_db_def)
    from read_job_present(2) [OF inv' this] res id have "r = job_record (?g j) (targets_of db jid)"
      by (simp add: db')
    with Some j db' inv' show thesis by (intro decided [of j s]) auto
  qed
qed

lemma finalized_outcome:
  assumes core: "job_inv_core j ts hist" and closed: "closed_outcome j ts"
    and dec: "terminal_decision (job_record j ts) = Some s" and jid: "j_job_id j = jid"
  shows "outcome_inv (upd_row (finalize_job_where jid) (finalize_job_set (job_status_as_str s) at) j) ts"
proof (cases "finalize_job_where jid j")
  case True
  with dec show ?thesis
    unfolding terminal_decision_rows [OF core]
    by (auto simp: outcome_inv_iff closed_outcome_def open_outcome_def upd_row_def finalize_job_set_def
        split: if_splits)
next
  case False
  with jid have "open_outcome j ts" by (auto simp: finalize_job_where_def open_outcome_def)
  with False closed show ?thesis by (simp add: outcome_inv_iff upd_row_def)
qed

lemma finalize_inv:
  assumes tab: "tables_inv db" and run: "finalize_job_if_terminal db jid at = Inr (r, db')"
    and closed: "\<And>k. k \<in> set (delivery_jobs db) \<Longrightarrow> closed_outcome k (targets_of db (j_job_id k))"
    and other: "\<And>k. k \<in> set (delivery_jobs db) \<Longrightarrow> j_job_id k \<noteq> jid \<Longrightarrow> open_outcome k (targets_of db (j_job_id k))"
  shows "delivery_inv db'"
  using tab run
proof (cases rule: finalize_job_Inr)
  case (undecided j)
  have "open_outcome k (targets_of db (j_job_id k))" if k: "k \<in> set (delivery_jobs db)" for k
  proof (cases "j_job_id k = jid")
    case True
    then have "k = j" using distinct_key_eq [OF tables_invD(1) [OF tab] k undecided(1)] undecided(2) by simp
    with undecided(2,3) terminal_decision_rows [OF tables_invD(7) [OF tab undecided(1)]] show ?thesis
      by (auto simp: open_outcome_def split: if_splits)
  qed (use other k in blast)
  with undecided(4) tab closed show ?thesis by (auto simp: delivery_inv_def outcome_inv_iff list_all_iff)
next
  case (decided j s)
  let ?g = "upd_row (finalize_job_where jid) (finalize_job_set (job_status_as_str s) (int at))"
  have "outcome_inv (?g k) (targets_of db (j_job_id k))" if k: "k \<in> set (delivery_jobs db)" for k
  proof (cases "j_job_id k = jid")
    case True
    then have "k = j" using distinct_key_eq [OF tables_invD(1) [OF tab] k decided(1)] decided(2) by simp
    with finalized_outcome [OF tables_invD(7) [OF tab k] closed [OF k]] decided(3) True show ?thesis by simp
  next
    case False
    then have "?g k = k" by (simp add: upd_row_def finalize_job_where_def)
    with closed [OF k] other [OF k False] show ?thesis by (simp add: outcome_inv_iff)
  qed
  moreover have "\<And>k. j_job_id (?g k) = j_job_id k" by (simp add: upd_row_def finalize_job_set_def)
  ultimately show ?thesis
    using decided(5) by (auto simp: delivery_inv_def list_all_iff decided(4)) (simp add: finalized_db_def, force)
qed

lemma resolved_db_targets_of:
  "targets_of (resolved_db db jid i aid prior status at reason ts next_at) k
     = map (upd_row (resolve_target_where jid i aid prior) (resolve_target_set ts next_at at)) (targets_of db k)"
  unfolding resolved_db_def by (rule updated_db_targets_of) (rule resolve_upd.key_upd_row)

lemma settle_inv:
  assumes inv: "delivery_inv db" and j: "j \<in> set (delivery_jobs db)" "j_job_id j = jid"
    and t: "t \<in> set (targets_of db jid)"
    and ti: "target_inv (j_max_attempts j) t (attempts_of db jid (t_target_index t))"
    and a: "a \<in> set (attempts_of db jid (t_target_index t))" "attempt_ok a"
    and act: "t_active_attempt_id t = Some (a_attempt_id a)"
    and run: "resolve_attempt_and_target db (job_record j (targets_of db jid)) (target_record t)
      (attempt_record a) (ar_status (attempt_record a)) terminal reason jitter at = Inr db1"
      "finalize_job_if_terminal db1 jid at = Inr (r, db')"
  shows "delivery_inv db'"
proof -
  have tab: "tables_inv db" using inv by (simp add: delivery_inv_def)
  from tab j t ti a act run(1) obtain ts next_at where tab1: "tables_inv db1"
    and trm: "terminal \<in> {AttemptDelivered, AttemptFailed, AttemptUnknown}"
    and prior: "a_status a \<in> {''leased'', ''submitted''}"
    and db1: "db1 = resolved_db db jid (t_target_index t) (a_attempt_id a) (a_status a)
       (attempt_status_as_str terminal) (int at) reason ts (map_option int next_at)"
    and ts: "ts = resolved_target_status (j_max_attempts j) (t_attempt_count t) (attempt_status_as_str terminal)"
    by (rule resolve_effect)
  let ?h = "upd_row (resolve_target_where jid (t_target_index t) (a_attempt_id a) (a_status a))
     (resolve_target_set ts (map_option int next_at) (int at))"
  have jobs1: "delivery_jobs db1 = delivery_jobs db" by (simp add: db1 resolved_db_def)
  have mono: "outcome_monotone m ?h s" if "s \<in> set (targets_of db k)" for m s k
    using resolved_row_outcome [OF that prior ts] trm by auto
  have out: "closed_outcome k (targets_of db (j_job_id k))" "open_outcome k (targets_of db (j_job_id k))"
    if "k \<in> set (delivery_jobs db)" for k
    using inv that by (auto simp: delivery_inv_def list_all_iff outcome_inv_iff)
  show ?thesis
  proof (rule finalize_inv [OF tab1 run(2)])
    show "closed_outcome k (targets_of db1 (j_job_id k))" if "k \<in> set (delivery_jobs db1)" for k
      using closed_outcome_map [OF out(1) mono] that jobs1 by (simp add: db1 resolved_db_targets_of)
    show "open_outcome k (targets_of db1 (j_job_id k))" if "k \<in> set (delivery_jobs db1)" "j_job_id k \<noteq> jid" for k
    proof -
      have "map ?h (targets_of db (j_job_id k)) = targets_of db (j_job_id k)"
        using that(2) by (intro map_idI) (auto simp: upd_row_def resolve_target_where_def targets_of_def)
      with out(2) [of k] that(1) jobs1 show ?thesis by (simp add: db1 resolved_db_targets_of)
    qed
  qed
qed

section \<open>Outcomes and expired leases\<close>

text \<open>
  \<open>settles\<close>: the active attempt of a target is resolved and the job decided, in one transaction.
\<close>

definition settles ::
    "delivery_db \<Rightarrow> job_row \<Rightarrow> target_row \<Rightarrow> attempt_row \<Rightarrow> MycDeliveryAttemptStatus \<Rightarrow> string \<Rightarrow> nat \<Rightarrow> nat
      \<Rightarrow> MycDeliveryJobRecord \<Rightarrow> delivery_db \<Rightarrow> bool" where
  "settles db j t a terminal reason jitter at r db' \<longleftrightarrow>
     j \<in> set (delivery_jobs db) \<and> t \<in> set (targets_of db (j_job_id j))
     \<and> target_inv (j_max_attempts j) t (attempts_of db (j_job_id j) (t_target_index t))
     \<and> a \<in> set (attempts_of db (j_job_id j) (t_target_index t)) \<and> attempt_ok a
     \<and> t_active_attempt_id t = Some (a_attempt_id a)
     \<and> r_bind (resolve_attempt_and_target db (job_record j (targets_of db (j_job_id j))) (target_record t)
          (attempt_record a) (ar_status (attempt_record a)) terminal reason jitter at)
         (\<lambda>db1. finalize_job_if_terminal db1 (j_job_id j) at) = Inr (r, db')"

lemma delivery_inv_tables: "delivery_inv db \<Longrightarrow> tables_inv db"
  by (simp add: delivery_inv_def)

lemma settles_inv:
  assumes "delivery_inv db" and "settles db j t a terminal reason jitter at r db'"
  shows "delivery_inv db'"
  using assms(2) settle_inv [OF assms(1), of j "j_job_id j" t a terminal reason jitter at]
  by (auto simp: settles_def elim!: r_bind_InrE)

lemma attempt_found:
  assumes inv: "tables_inv db" and job: "require_job db jid = Inr job"
    and target: "target_by_relay job relay = Inr target"
    and attempt: "require_attempt db jid (tr_index target) aid = Inr attempt"
  obtains j t a where "j \<in> set (delivery_jobs db)" "j_job_id j = jid" "job = job_record j (targets_of db jid)"
    "t \<in> set (targets_of db jid)" "t_relay_id t = relay" "target = target_record t"
    "target_inv (j_max_attempts j) t (attempts_of db jid (t_target_index t))"
    "a \<in> set (attempts_of db jid (t_target_index t))" "a_attempt_id a = aid" "attempt = attempt_record a"
    "attempt_ok a"
proof -
  from inv job target obtain j t where j: "j \<in> set (delivery_jobs db)" "j_job_id j = jid"
    "job = job_record j (targets_of db jid)"
    and t: "t \<in> set (targets_of db jid)" "t_relay_id t = relay" "target = target_record t"
    and idx: "int (tr_index target) = t_target_index t"
    and ti: "target_inv (j_max_attempts j) t (attempts_of db jid (t_target_index t))"
    by (rule job_target_found)
  from require_attempt_Inr [OF inv attempt] idx
  obtain a where a: "a \<in> set (attempts_of db jid (t_target_index t))" "a_attempt_id a = aid"
    "attempt = attempt_record a" "attempt_ok a" by metis
  from j t ti a show thesis by (rule that)
qed

lemma record_outcome_effect:
  assumes inv: "tables_inv db" and run: "record_outcome db jid relay aid outcome jitter at = Inr (r, db')"
  obtains (replay) "db' = db"
  | (settled) j t a where "j_job_id j = jid" "t_relay_id t = relay" "a_attempt_id a = aid"
      "settles db j t a (outcome_status outcome) (outcome_reason outcome) jitter at r db'"
      "int at \<le> a_lease_expires_at_unix_ms a"
      "outcome \<noteq> TransportFailed \<Longrightarrow> a_status a = ''submitted''"
proof -
  from run [unfolded record_outcome_def Let_def] obtain job target attempt where
    job: "require_job db jid = Inr job" and target: "target_by_relay job relay = Inr target"
    and attempt: "require_attempt db jid (tr_index target) aid = Inr attempt"
    and rest: "(if ar_status attempt \<in> {AttemptDelivered, AttemptFailed, AttemptUnknown}
      then (if ar_status attempt = outcome_status outcome \<and> ar_reason attempt = Some (outcome_reason outcome)
          \<and> ar_resolved_at attempt = Some at then Inr (job, db) else Inl Binding)
      else if ar_status attempt \<noteq> required_prior outcome (ar_status attempt)
        \<or> required_prior outcome (ar_status attempt) \<notin> {AttemptLeased, AttemptSubmitted}
        \<or> tr_active_attempt_id target \<noteq> Some aid \<or> at < ar_leased_at attempt
        \<or> (case ar_submitted_at attempt of Some s \<Rightarrow> at < s | None \<Rightarrow> False)
        \<or> ar_lease_expires_at attempt < at
      then Inl Binding else
      r_bind (resolve_attempt_and_target db job target attempt (required_prior outcome (ar_status attempt))
          (outcome_status outcome) (outcome_reason outcome) jitter at)
        (\<lambda>db1. finalize_job_if_terminal db1 jid at)) = Inr (r, db')"
    by (elim r_bind_InrE) iprover
  from inv job target attempt obtain j t a where f: "j \<in> set (delivery_jobs db)" "j_job_id j = jid"
      "job = job_record j (targets_of db jid)"
    "t \<in> set (targets_of db jid)" "t_relay_id t = relay" "target = target_record t"
    "target_inv (j_max_attempts j) t (attempts_of db jid (t_target_index t))"
    "a \<in> set (attempts_of db jid (t_target_index t))" "a_attempt_id a = aid" "attempt = attempt_record a"
    "attempt_ok a" by (rule attempt_found)
  show thesis
  proof (cases "ar_status attempt \<in> {AttemptDelivered, AttemptFailed, AttemptUnknown}")
    case True
    with rest show thesis by (intro replay) (auto split: if_splits)
  next
    case False
    with rest have w: "tr_active_attempt_id target = Some aid" "at \<le> ar_lease_expires_at attempt"
      "outcome \<noteq> TransportFailed \<Longrightarrow> ar_status attempt = AttemptSubmitted"
      "r_bind (resolve_attempt_and_target db job target attempt (ar_status attempt) (outcome_status outcome)
        (outcome_reason outcome) jitter at) (\<lambda>db1. finalize_job_if_terminal db1 jid at) = Inr (r, db')"
      by (auto simp: required_prior_def split: if_splits MycDeliveryAttemptOutcome.splits)
    show thesis
    proof (rule settled [of j t a])
      show "settles db j t a (outcome_status outcome) (outcome_reason outcome) jitter at r db'"
        using f w(1,4) by (simp add: settles_def)
      show "int at \<le> a_lease_expires_at_unix_ms a"
        using w(2) f(10,11) by (auto simp: attempt_ok_def delivery_attempts_check_def)
      show "a_status a = ''submitted''" if "outcome \<noteq> TransportFailed"
        using w(3) [OF that] attempt_status_text [OF f(11)] f(10) by simp
    qed (use f in auto)
  qed
qed

lemma recover_expired_effect:
  assumes inv: "tables_inv db" and run: "recover_expired db jid relay aid jitter at = Inr (r, db')"
  obtains (resolved) "db' = db"
  | (settled) j t a terminal reason where "j_job_id j = jid" "t_relay_id t = relay" "a_attempt_id a = aid"
      "settles db j t a terminal reason jitter at r db'"
      "a_lease_expires_at_unix_ms a < int at"
      "(terminal, reason) = (if a_status a = ''leased'' then (AttemptFailed, ''lease_expired_before_submit'')
         else (AttemptUnknown, ''acknowledgement_lost''))"
proof -
  from run [unfolded recover_expired_def] obtain job target attempt where
    job: "require_job db jid = Inr job" and target: "target_by_relay job relay = Inr target"
    and attempt: "require_attempt db jid (tr_index target) aid = Inr attempt"
    and rest: "(if ar_status attempt \<in> {AttemptDelivered, AttemptFailed, AttemptUnknown} then Inr (job, db)
      else if at \<le> ar_lease_expires_at attempt \<or> tr_active_attempt_id target \<noteq> Some aid then Inl Binding
      else let (terminal, reason) = (if ar_status attempt = AttemptLeased
          then (AttemptFailed, ''lease_expired_before_submit'') else (AttemptUnknown, ''acknowledgement_lost''))
        in r_bind (resolve_attempt_and_target db job target attempt (ar_status attempt) terminal reason jitter at)
          (\<lambda>db1. finalize_job_if_terminal db1 jid at)) = Inr (r, db')"
    by (elim r_bind_InrE) iprover
  from inv job target attempt obtain j t a where f: "j \<in> set (delivery_jobs db)" "j_job_id j = jid"
      "job = job_record j (targets_of db jid)"
    "t \<in> set (targets_of db jid)" "t_relay_id t = relay" "target = target_record t"
    "target_inv (j_max_attempts j) t (attempts_of db jid (t_target_index t))"
    "a \<in> set (attempts_of db jid (t_target_index t))" "a_attempt_id a = aid" "attempt = attempt_record a"
    "attempt_ok a" by (rule attempt_found)
  define tr where "tr = (if ar_status attempt = AttemptLeased
    then (AttemptFailed, ''lease_expired_before_submit'') else (AttemptUnknown, ''acknowledgement_lost''))"
  show thesis
  proof (cases "ar_status attempt \<in> {AttemptDelivered, AttemptFailed, AttemptUnknown}")
    case True
    with rest show thesis by (intro resolved) (auto split: if_splits)
  next
    case False
    with rest have w: "tr_active_attempt_id target = Some aid" "ar_lease_expires_at attempt < at"
      "r_bind (resolve_attempt_and_target db job target attempt (ar_status attempt) (fst tr) (snd tr) jitter at)
        (\<lambda>db1. finalize_job_if_terminal db1 jid at) = Inr (r, db')"
      by (auto simp: tr_def split: if_splits)
    show thesis
    proof (rule settled [of j t a "fst tr" "snd tr"])
      show "settles db j t a (fst tr) (snd tr) jitter at r db'"
        using f w(1,3) by (simp add: settles_def)
      show "a_lease_expires_at_unix_ms a < int at" using w(2) f(10) by simp
      have "a_status a = ''leased'' \<longleftrightarrow> ar_status attempt = AttemptLeased"
        using attempt_status_text [OF f(11)] f(10) by (cases "ar_status attempt") auto
      then show "(fst tr, snd tr) = (if a_status a = ''leased'' then (AttemptFailed, ''lease_expired_before_submit'')
         else (AttemptUnknown, ''acknowledgement_lost''))" by (simp add: tr_def)
    qed (use f in auto)
  qed
qed

lemma record_outcome_inv:
  assumes "delivery_inv db" and "record_outcome db jid relay aid outcome jitter at = Inr (r, db')"
  shows "delivery_inv db'"
  by (rule record_outcome_effect [OF delivery_inv_tables [OF assms(1)] assms(2)])
     (use assms(1) settles_inv in auto)

lemma recover_expired_inv:
  assumes "delivery_inv db" and "recover_expired db jid relay aid jitter at = Inr (r, db')"
  shows "delivery_inv db'"
  by (rule recover_expired_effect [OF delivery_inv_tables [OF assms(1)] assms(2)])
     (use assms(1) settles_inv in auto)

end
