(* ===== verification/Delivery_Admission.thy ===== *)
theory Delivery_Admission
  imports Delivery_Outcome
begin

text \<open>
  \<open>claim_target\<close> and \<open>create_job\<close> keep the invariant of the delivery tables: a claim appends one leased
  attempt with the next number, a creation appends one pending job with its pending targets.
\<close>

section \<open>Claims\<close>

definition claimed_db :: "delivery_db \<Rightarrow> attempt_row \<Rightarrow> int \<Rightarrow> delivery_db" where
  "claimed_db db a at = db\<lparr>
     delivery_attempts := delivery_attempts db @ [a],
     delivery_targets := map (upd_row
       (claim_target_where (a_job_id a) (a_target_index a) (a_attempt_number a - 1))
       (claim_target_set (a_attempt_number a) (a_attempt_id a) at)) (delivery_targets db),
     delivery_jobs := map (upd_row (mark_job_active_where (a_job_id a)) (mark_job_active_set at))
       (delivery_jobs db)\<rparr>"

text \<open>The attempt a claim adds: the next number, a lease of one attempt deadline.\<close>

definition claimed_attempt ::
    "(bytes \<Rightarrow> bytes) \<Rightarrow> job_row \<Rightarrow> target_row \<Rightarrow> bytes \<Rightarrow> nat \<Rightarrow> attempt_row" where
  "claimed_attempt sha j t nonce at =
     new_attempt_row (derive_attempt_id sha (j_job_id j) (nat (t_target_index t))
         (Suc (nat (t_attempt_count t))) nonce)
       (j_job_id j) (nat (t_target_index t)) (Suc (nat (t_attempt_count t))) nonce at
       (at + nat (j_attempt_deadline_ms j))"

lemma open_job_status:
  assumes "delivery_jobs_check j"
  shows "jr_status (job_record j ts) \<in> {JobDelivered, JobFailed, JobUnknown} \<longleftrightarrow>
    j_status j \<notin> {''pending'', ''active''}"
  using job_status_text [OF assms, of ts] by (cases "jr_status (job_record j ts)") auto

lemma next_attempt_number:
  assumes "target_ok t"
  shows "(nat (t_attempt_count t) + 1) mod 2 ^ 32 = Suc (nat (t_attempt_count t))"
proof -
  have "nat (t_attempt_count t) \<le> 32" using assms by (auto simp: target_ok_def delivery_targets_check_def)
  then show ?thesis by simp
qed

lemma claim_lease_effect:
  assumes j: "j_job_id j = jid" and tok: "target_ok t"
    and run: "claim_lease sha db (job_record j ts) (target_record t) jid nonce at = Inr (c, db')"
  obtains attempt where
    "attempt_insert_legal db (delivery_attempts db) (claimed_attempt sha j t nonce at)"
    "list_all (\<lambda>x. claim_target_where jid (t_target_index t) (t_attempt_count t) x \<longrightarrow> target_update_legal x
       (claim_target_set (t_attempt_count t + 1) (a_attempt_id (claimed_attempt sha j t nonce at)) (int at) x))
       (delivery_targets db)"
    "list_all (\<lambda>x. mark_job_active_where jid x \<longrightarrow> job_update_legal x (mark_job_active_set (int at) x))
       (delivery_jobs db)"
    "db' = claimed_db db (claimed_attempt sha j t nonce at) (int at)" "c = Claimed attempt"
    "require_attempt db' jid (nat (t_target_index t)) (a_attempt_id (claimed_attempt sha j t nonce at))
       = Inr attempt"
proof -
  let ?a = "claimed_attempt sha j t nonce at"
  have cnt: "0 \<le> t_attempt_count t" "0 \<le> t_target_index t"
    using tok by (auto simp: target_ok_def delivery_targets_check_def)
  have nidx: "tr_index (target_record t) = nat (t_target_index t)" by (simp add: target_record_def)
  have a: "new_attempt_row (derive_attempt_id sha jid (nat (t_target_index t)) (Suc (nat (t_attempt_count t))) nonce)
       jid (nat (t_target_index t)) (Suc (nat (t_attempt_count t))) nonce at
       (at + nat (j_attempt_deadline_ms j)) = ?a"
    and aid: "derive_attempt_id sha jid (nat (t_target_index t)) (Suc (nat (t_attempt_count t))) nonce
       = a_attempt_id ?a"
    and af: "a_job_id ?a = jid" "a_target_index ?a = t_target_index t" "a_attempt_number ?a = t_attempt_count t + 1"
    using j cnt by (simp_all add: claimed_attempt_def new_attempt_row_def)
  have num: "int (Suc (nat (t_attempt_count t))) = t_attempt_count t + 1"
    "int (nat (t_attempt_count t)) = t_attempt_count t" "int (nat (t_target_index t)) = t_target_index t"
    using cnt by simp_all
  from run show thesis
    unfolding claim_lease_def Let_def record_fields next_attempt_number [OF tok] nidx aid num
    by (elim r_bind_InrE, simp)
       (rule that, simp_all add: claimed_db_def af a [unfolded aid])
qed

lemma claim_target_effect:
  assumes inv: "tables_inv db" and run: "claim_target sha db jid relay nonce at = Inr (c, db')"
  obtains (unchanged) "db' = db" "\<And>attempt. c \<noteq> Claimed attempt"
  | (claimed) j t where "j \<in> set (delivery_jobs db)" "j_job_id j = jid"
      "j_status j \<in> {''pending'', ''active''}" "t \<in> set (targets_of db jid)" "t_relay_id t = relay"
      "target_inv (j_max_attempts j) t (attempts_of db jid (t_target_index t))"
      "t_active_attempt_id t = None" "t_status t \<in> {''pending'', ''retryable'', ''unknown''}"
      "t_attempt_count t < j_max_attempts j" "\<And>n. t_next_attempt_at_unix_ms t = Some n \<Longrightarrow> n \<le> int at"
      "claim_lease sha db (job_record j (targets_of db jid)) (target_record t) jid nonce at = Inr (c, db')"
proof (cases "db' = db \<and> (\<forall>attempt. c \<noteq> Claimed attempt)")
  case True
  then show thesis by (intro unchanged) auto
next
  case False
  with run obtain job target where job: "require_job db jid = Inr job"
    and target: "target_by_relay job relay = Inr target"
    and guards: "jr_status job \<notin> {JobDelivered, JobFailed, JobUnknown}" "tr_active_attempt_id target = None"
      "\<And>n. tr_next_attempt_at target = Some n \<Longrightarrow> n \<le> at"
      "tr_status target \<notin> {TargetDelivered, TargetExhausted}" "tr_attempt_count target < jr_max_attempts job"
      "claim_lease sha db job target jid nonce at = Inr (c, db')"
    unfolding claim_target_def
    by (elim r_bind_InrE) (force elim!: r_bind_InrE split: if_splits option.splits)
  from inv job target obtain j t where j: "j \<in> set (delivery_jobs db)" "j_job_id j = jid"
    "job = job_record j (targets_of db jid)"
    and t: "t \<in> set (targets_of db jid)" "t_relay_id t = relay" "target = target_record t"
    and ti: "target_inv (j_max_attempts j) t (attempts_of db jid (t_target_index t))"
    by (rule job_target_found)
  note tok = target_invD(1) [OF ti]
  have chk: "delivery_jobs_check j" by (rule job_inv_coreD(1) [OF tables_invD(7) [OF inv j(1)]])
  have "t_status t \<in> {''pending'', ''retryable'', ''unknown''}"
    using guards(2,4) target_status_text [OF tok] t(3) idle_target_history(1) [OF ti]
      tables_invD(4) [OF inv] by (cases "tr_status target") (auto dest: attempts_of_subset)
  moreover have "j_status j \<in> {''pending'', ''active''}"
    using open_job_status [OF chk] guards(1) j(3) by blast
  moreover have "t_attempt_count t < j_max_attempts j" using guards(5) t(3) j(3) by simp
  moreover have "n \<le> int at" if "t_next_attempt_at_unix_ms t = Some n" for n
    using guards(3) [of "nat n"] that t(3) by simp
  ultimately show thesis
    using j t ti guards(2,6) by (intro claimed [of j t]) auto
qed

lemma attempt_insert_legalD:
  assumes "attempt_insert_legal db as a"
  shows "delivery_attempts_check a" "a_attempt_id a \<notin> a_attempt_id ` set as"
    "a_attempt_nonce a \<notin> a_attempt_nonce ` set (filter (\<lambda>r. a_job_id r = a_job_id a
       \<and> a_target_index r = a_target_index a) as)"
  using assms by (fastforce simp: attempt_insert_legal_def list_all_iff)+

lemma claimed_attempt_fields:
  assumes "target_ok t"
  shows "a_job_id (claimed_attempt sha j t nonce at) = j_job_id j"
    and "a_target_index (claimed_attempt sha j t nonce at) = t_target_index t"
    and "a_attempt_number (claimed_attempt sha j t nonce at) = t_attempt_count t + 1"
    and "a_attempt_nonce (claimed_attempt sha j t nonce at) = nonce"
    and "a_status (claimed_attempt sha j t nonce at) = ''leased''"
  using assms by (auto simp: claimed_attempt_def new_attempt_row_def target_ok_def delivery_targets_check_def)

lemma claimed_db_attempts_of:
  "attempts_of (claimed_db db a at) k l =
     (if (k, l) = (a_job_id a, a_target_index a) then attempts_of db k l @ [a] else attempts_of db k l)"
  by (auto simp: claimed_db_def attempts_of_def)

lemma claimed_db_targets_of:
  "targets_of (claimed_db db a at) k = map (upd_row
     (claim_target_where (a_job_id a) (a_target_index a) (a_attempt_number a - 1))
     (claim_target_set (a_attempt_number a) (a_attempt_id a) at)) (targets_of db k)"
  by (rule targets_of_map [OF _ claim_upd.key_upd_row]) (simp add: claimed_db_def)

text \<open>Everything a successful claim establishes about the rows it found.\<close>

definition claims ::
    "(bytes \<Rightarrow> bytes) \<Rightarrow> delivery_db \<Rightarrow> job_row \<Rightarrow> target_row \<Rightarrow> bytes \<Rightarrow> nat \<Rightarrow> bool" where
  "claims sha db j t nonce at \<longleftrightarrow>
     j \<in> set (delivery_jobs db) \<and> j_status j \<in> {''pending'', ''active''}
     \<and> t \<in> set (targets_of db (j_job_id j))
     \<and> target_inv (j_max_attempts j) t (attempts_of db (j_job_id j) (t_target_index t))
     \<and> t_active_attempt_id t = None \<and> t_status t \<in> {''pending'', ''retryable'', ''unknown''}
     \<and> t_attempt_count t < j_max_attempts j
     \<and> attempt_insert_legal db (delivery_attempts db) (claimed_attempt sha j t nonce at)
     \<and> delivery_targets_check (claim_target_set (t_attempt_count t + 1)
          (a_attempt_id (claimed_attempt sha j t nonce at)) (int at) t)
     \<and> (mark_job_active_where (j_job_id j) j \<longrightarrow> delivery_jobs_check (mark_job_active_set (int at) j))"

lemma claimed_db_tables:
  assumes inv: "tables_inv db" and c: "claims sha db j t nonce at"
  shows "tables_inv (claimed_db db (claimed_attempt sha j t nonce at) (int at))"
proof -
  let ?a = "claimed_attempt sha j t nonce at"
  let ?i = "t_target_index t"
  let ?g = "upd_row (mark_job_active_where (j_job_id j)) (mark_job_active_set (int at))"
  let ?h = "upd_row (claim_target_where (j_job_id j) ?i (t_attempt_count t))
    (claim_target_set (t_attempt_count t + 1) (a_attempt_id ?a) (int at))"
  note C = c [unfolded claims_def]
  have ti: "target_inv (j_max_attempts j) t (attempts_of db (j_job_id j) ?i)"
    and t: "t \<in> set (targets_of db (j_job_id j))" and j: "j \<in> set (delivery_jobs db)"
    and legal: "attempt_insert_legal db (delivery_attempts db) ?a" using C by blast+
  note af = claimed_attempt_fields [OF target_invD(1) [OF ti], of sha j nonce at]
  note L = attempt_insert_legalD [OF legal]
  show ?thesis
  proof (rule tables_inv_frame [OF inv, where g = ?g and h = ?h and jid = "j_job_id j" and i = ?i])
    show "delivery_jobs_check (?g k)" if k: "k \<in> set (delivery_jobs db)" for k
    proof (cases "mark_job_active_where (j_job_id j) k")
      case True
      then have "k = j" using distinct_key_eq [OF tables_invD(1) [OF inv] k j]
        by (simp add: mark_job_active_where_def)
      with True C show ?thesis by (simp add: upd_row_def)
    next
      case False
      with job_inv_coreD(1) [OF tables_invD(7) [OF inv k]] show ?thesis by (simp add: upd_row_def)
    qed
    show "distinct (map a_attempt_id (delivery_attempts (claimed_db db ?a (int at))))"
      using tables_invD(3) [OF inv] L(2) by (auto simp: claimed_db_def)
    show "attempt_ok b" if "b \<in> set (delivery_attempts (claimed_db db ?a (int at)))" for b
      using that tables_invD(4) [OF inv] L(1) af(5)
      by (auto simp: claimed_db_def attempt_ok_def attempt_resolved_def)
    show "target_inv (j_max_attempts k) (?h s) (attempts_of (claimed_db db ?a (int at)) (j_job_id j) ?i)"
      if k: "k \<in> set (delivery_jobs db)" "s \<in> set (targets_of db (j_job_id k))" "j_job_id k = j_job_id j"
        "t_target_index s = ?i" for k s
    proof -
      have "k = j" using distinct_key_eq [OF tables_invD(1) [OF inv] k(1) j k(3)] .
      moreover have "s = t" using target_unique [OF inv t _ k(4)] k(2,3) by simp
      moreover have "claim_target_where (j_job_id j) ?i (t_attempt_count t) t"
        using C by (auto simp: statement_defs targets_of_def)
      moreover have "target_inv (j_max_attempts j)
          (claim_target_set (t_attempt_count t + 1) (a_attempt_id ?a) (int at) t) (attempts_of db (j_job_id j) ?i @ [?a])"
        using C L(3) af tables_invD(4) [OF inv]
        by (intro claim_target_inv) (auto simp: attempts_of_def)
      ultimately show ?thesis by (simp add: claimed_db_attempts_of af upd_row_def)
    qed
    show "?h s = s" if "\<not> (t_job_id s = j_job_id j \<and> t_target_index s = ?i)" for s
      using that by (auto simp: upd_row_def claim_target_where_def)
  qed (use t af job_active_upd.key_upd_row claim_upd.key_upd_row in
      \<open>auto simp: claimed_db_def targets_of_def claimed_db_attempts_of attempts_of_def\<close>)
qed

lemma claimed_db_inv:
  assumes inv: "delivery_inv db" and c: "claims sha db j t nonce at"
  shows "delivery_inv (claimed_db db (claimed_attempt sha j t nonce at) (int at))"
proof -
  let ?a = "claimed_attempt sha j t nonce at"
  let ?g = "upd_row (mark_job_active_where (j_job_id j)) (mark_job_active_set (int at))"
  let ?h = "upd_row (claim_target_where (j_job_id j) (t_target_index t) (t_attempt_count t))
    (claim_target_set (t_attempt_count t + 1) (a_attempt_id ?a) (int at))"
  note C = c [unfolded claims_def]
  have tab: "tables_inv db" and t: "t \<in> set (targets_of db (j_job_id j))" and j: "j \<in> set (delivery_jobs db)"
    using inv C by (auto simp: delivery_inv_def)
  note af = claimed_attempt_fields [of t sha j nonce at]
  have tok: "target_ok t" using C target_invD(1) by blast
  have out: "outcome_inv (?g k) (map ?h (targets_of db (j_job_id k)))" if k: "k \<in> set (delivery_jobs db)" for k
  proof (cases "j_job_id k = j_job_id j")
    case True
    then have "k = j" using distinct_key_eq [OF tables_invD(1) [OF tab] k j] by simp
    have same: "row_delivered (?h s) = row_delivered s
        \<and> row_possible (j_max_attempts j) (?h s) = row_possible (j_max_attempts j) s"
      if "s \<in> set (targets_of db (j_job_id j))" for s
    proof (cases "claim_target_where (j_job_id j) (t_target_index t) (t_attempt_count t) s")
      case True
      with that target_unique [OF tab t] have "s = t" by (simp add: claim_target_where_def)
      with True C show ?thesis
        by (auto simp: row_delivered_def row_possible_def upd_row_def statement_defs)
    qed (simp add: upd_row_def)
    have "open_outcome j (targets_of db (j_job_id j))"
      using inv j by (auto simp: delivery_inv_def list_all_iff outcome_inv_iff)
    then have "open_outcome j (map ?h (targets_of db (j_job_id j)))" using same by (rule open_outcome_map)
    moreover have "j_status (?g j) \<in> {''pending'', ''active''}" "j_max_attempts (?g j) = j_max_attempts j"
      "j_required_acknowledgements (?g j) = j_required_acknowledgements j" "j_status j \<in> {''pending'', ''active''}"
      using C by (auto simp: upd_row_def statement_defs)
    ultimately show ?thesis unfolding \<open>k = j\<close>
      by (auto simp: outcome_inv_iff closed_outcome_def open_outcome_def)
  next
    case False
    then have "?g k = k" "map ?h (targets_of db (j_job_id k)) = targets_of db (j_job_id k)"
      by (auto simp: upd_row_def statement_defs targets_of_def intro!: map_idI)
    with inv k show ?thesis by (simp add: delivery_inv_def list_all_iff)
  qed
  have jid: "\<And>k. j_job_id (?g k) = j_job_id k" by (simp add: upd_row_def mark_job_active_set_def)
  have jobs: "delivery_jobs (claimed_db db ?a (int at)) = map ?g (delivery_jobs db)"
    by (simp add: claimed_db_def af [OF tok])
  show ?thesis
    unfolding delivery_inv_def jobs list_all_iff
    using claimed_db_tables [OF tab c] out by (auto simp: claimed_db_targets_of af [OF tok] jid)
qed

lemma claim_target_claims:
  assumes inv: "tables_inv db" and run: "claim_target sha db jid relay nonce at = Inr (c, db')"
  obtains (unchanged) "db' = db" "\<And>attempt. c \<noteq> Claimed attempt"
  | (claimed) j t where "j_job_id j = jid" "t_relay_id t = relay" "claims sha db j t nonce at"
      "db' = claimed_db db (claimed_attempt sha j t nonce at) (int at)"
      "c = Claimed (attempt_record (claimed_attempt sha j t nonce at))"
      "\<And>n. t_next_attempt_at_unix_ms t = Some n \<Longrightarrow> n \<le> int at"
  using inv run
proof (cases rule: claim_target_effect)
  case unchanged
  then show thesis by (rule that(1))
next
  case (claimed j t)
  let ?a = "claimed_attempt sha j t nonce at"
  note tok = target_invD(1) [OF claimed(6)]
  obtain attempt where e: "attempt_insert_legal db (delivery_attempts db) ?a"
    "list_all (\<lambda>x. claim_target_where jid (t_target_index t) (t_attempt_count t) x \<longrightarrow> target_update_legal x
       (claim_target_set (t_attempt_count t + 1) (a_attempt_id ?a) (int at) x)) (delivery_targets db)"
    "list_all (\<lambda>x. mark_job_active_where jid x \<longrightarrow> job_update_legal x (mark_job_active_set (int at) x))
       (delivery_jobs db)"
    "db' = claimed_db db ?a (int at)" "c = Claimed attempt"
    "require_attempt db' jid (nat (t_target_index t)) (a_attempt_id ?a) = Inr attempt"
    using claimed(2) tok claimed(11) by (rule claim_lease_effect)
  have "claim_target_where jid (t_target_index t) (t_attempt_count t) t" "t \<in> set (delivery_targets db)"
    using claimed(4,7,8) by (auto simp: statement_defs targets_of_def)
  with e(2) have "delivery_targets_check (claim_target_set (t_attempt_count t + 1) (a_attempt_id ?a) (int at) t)"
    by (auto simp: list_all_iff intro: legal_update_checks)
  moreover have "mark_job_active_where jid j \<longrightarrow> delivery_jobs_check (mark_job_active_set (int at) j)"
    using e(3) claimed(1) by (auto simp: list_all_iff intro: legal_update_checks)
  ultimately have cl: "claims sha db j t nonce at"
    using claimed(1-9) e(1) by (simp add: claims_def)
  have tab': "tables_inv db'" unfolding e(4) by (rule claimed_db_tables [OF inv cl])
  have "?a \<in> set (attempts_of db' jid (int (nat (t_target_index t))))"
    using claimed(2) claimed_attempt_fields [OF tok, of sha j nonce at] tok
    by (simp add: e(4) claimed_db_attempts_of target_ok_def delivery_targets_check_def)
  from require_attempt_present [OF tab' this] e(6) have "attempt = attempt_record ?a" by simp
  with claimed(2,5,10) cl e(4,5) show thesis by (intro that(2)) auto
qed

lemma claim_target_inv':
  assumes "delivery_inv db" and "claim_target sha db jid relay nonce at = Inr (c, db')"
  shows "delivery_inv db'"
  by (rule claim_target_claims [OF delivery_inv_tables [OF assms(1)] assms(2)])
     (use assms(1) claimed_db_inv in auto)

section \<open>Job creation\<close>

definition created_rows :: "bytes \<Rightarrow> nat \<Rightarrow> MycDeliveryTargetPolicy list \<Rightarrow> nat \<Rightarrow> target_row list" where
  "created_rows jid k ts at = map (\<lambda>(i, p). new_target_row jid i p at) (enumerate k ts)"

lemma insert_targets_effect:
  "insert_targets db jid k ts at = Inr db' \<Longrightarrow>
     db' = db\<lparr>delivery_targets := delivery_targets db @ created_rows jid k ts at\<rparr>
     \<and> (\<forall>r\<in>set (created_rows jid k ts at). delivery_targets_check r)"
proof (induction ts arbitrary: db k)
  case (Cons p ts)
  from Cons.prems have legal: "target_insert_legal db (delivery_targets db) (new_target_row jid k p at)"
    and rec: "insert_targets (db\<lparr>delivery_targets := delivery_targets db @ [new_target_row jid k p at]\<rparr>)
      jid (Suc k) ts at = Inr db'"
    by (auto elim!: r_bind_InrE split: if_splits)
  from Cons.IH [OF rec] legal show ?case by (simp add: created_rows_def target_insert_legal_def)
qed (simp add: created_rows_def)

definition created_db :: "delivery_db \<Rightarrow> job_row \<Rightarrow> target_row list \<Rightarrow> delivery_db" where
  "created_db db j ts = db\<lparr>delivery_jobs := delivery_jobs db @ [j],
     delivery_targets := delivery_targets db @ ts\<rparr>"

lemma create_job_effect:
  assumes run: "create_job sha db source artifact at policy = Inr (c, db')"
  obtains (replay) job where "c = JobExactReplay job" "db' = db" "read_job_by_source db source = Inr (Some job)"
      "exact_job job source artifact at policy"
  | (created) job where "c = Created job" "read_job_by_source db source = Inr None"
      "active_job_count db < dp_outbox_maximum policy"
      "job_insert_legal db (delivery_jobs db)
         (new_job_row (derive_job_id sha source artifact) source artifact at policy)"
      "db' = created_db db (new_job_row (derive_job_id sha source artifact) source artifact at policy)
         (created_rows (derive_job_id sha source artifact) 0 (dp_targets policy) at)"
      "\<And>r. r \<in> set (created_rows (derive_job_id sha source artifact) 0 (dp_targets policy) at) \<Longrightarrow>
         delivery_targets_check r"
      "require_job db' (derive_job_id sha source artifact) = Inr job"
proof -
  from run [unfolded create_job_def] obtain found where found: "read_job_by_source db source = Inr found"
    by (rule r_bind_InrE)
  show thesis
  proof (cases found)
    case (Some job)
    with run found show thesis by (intro replay [of job]) (auto simp: create_job_def split: if_splits)
  next
    case None
    let ?j = "new_job_row (derive_job_id sha source artifact) source artifact at policy"
    from run found None obtain db2 job where w: "active_job_count db < dp_outbox_maximum policy"
      "job_insert_legal db (delivery_jobs db) ?j"
      "insert_targets (db\<lparr>delivery_jobs := delivery_jobs db @ [?j]\<rparr>) (derive_job_id sha source artifact) 0
         (dp_targets policy) at = Inr db2"
      "require_job db2 (derive_job_id sha source artifact) = Inr job" "c = Created job" "db' = db2"
      by (auto simp: create_job_def Let_def elim!: r_bind_InrE split: if_splits)
    from insert_targets_effect [OF w(3)] w found None show thesis
      by (intro created [of job]) (auto simp: created_db_def)
  qed
qed

lemma created_rows_map:
  "map t_target_index (created_rows jid 0 ts at) = map int [0..<length ts]"
  "map t_relay_id (created_rows jid k ts at) = map tp_relay_id ts"
  "filter row_delivered (created_rows jid k ts at) = []"
  "length (filter (row_possible m) (created_rows jid k ts at)) = length (filter tp_required ts)"
  "created_rows jid k ts at = [] \<longleftrightarrow> ts = []"
proof -
  have "map t_target_index (created_rows jid 0 ts at) = map int (map fst (enumerate 0 ts))"
    unfolding created_rows_def map_map by (rule map_cong) (auto simp: new_target_row_def)
  then show "map t_target_index (created_rows jid 0 ts at) = map int [0..<length ts]"
    by (simp only: map_fst_enumerate add_0)
  show "map t_relay_id (created_rows jid k ts at) = map tp_relay_id ts"
    by (induction ts arbitrary: k) (auto simp: created_rows_def new_target_row_def)
  show "filter row_delivered (created_rows jid k ts at) = []"
    by (auto simp: created_rows_def new_target_row_def row_delivered_def filter_empty_conv)
  show "length (filter (row_possible m) (created_rows jid k ts at)) = length (filter tp_required ts)"
    by (induction ts arbitrary: k) (auto simp: created_rows_def new_target_row_def row_possible_def)
  show "created_rows jid k ts at = [] \<longleftrightarrow> ts = []" by (cases ts) (simp_all add: created_rows_def)
qed

lemma created_row_fields:
  assumes "r \<in> set (created_rows jid k ts at)"
  shows "t_job_id r = jid" "t_status r = ''pending''" "t_attempt_count r = 0" "t_active_attempt_id r = None"
    "t_relay_id r \<in> tp_relay_id ` set ts"
  using assms by (auto simp: created_rows_def new_target_row_def enumerate_eq_zip dest: set_zip_rightD)

definition relays_valid :: "MycDeliveryPolicies \<Rightarrow> bool" where
  "relays_valid p \<longleftrightarrow> list_all (\<lambda>t. valid_relay_id (tp_relay_id t)) (dp_targets p)"

lemma fresh_target_inv:
  assumes "r \<in> set (created_rows jid k ts at)" "delivery_targets_check r" "0 \<le> m"
    and "\<And>t. t \<in> set ts \<Longrightarrow> valid_relay_id (tp_relay_id t)"
  shows "target_inv m r []"
  using assms created_row_fields [OF assms(1)]
  by (auto simp: target_inv_def target_ok_def history_inv_def status_projection_def active_projection_def)

lemma created_db_inv:
  assumes inv: "delivery_inv db" and jid: "jid = j_job_id j"
    and j: "j = new_job_row jid source artifact at policy" and pol: "policies_valid policy" "relays_valid policy"
    and legal: "job_insert_legal db (delivery_jobs db) j"
    and rows: "\<And>r. r \<in> set (created_rows jid 0 (dp_targets policy) at) \<Longrightarrow> delivery_targets_check r"
  shows "delivery_inv (created_db db j (created_rows jid 0 (dp_targets policy) at))"
proof -
  let ?ts = "created_rows jid 0 (dp_targets policy) at"
  let ?db = "created_db db j ?ts"
  have tab: "tables_inv db" using inv by (simp add: delivery_inv_def)
  note D = tables_invD [OF tab]
  have fresh: "j_job_id k \<noteq> jid" "(j_source_kind k, j_source_id k) \<noteq> (j_source_kind j, j_source_id j)"
    if "k \<in> set (delivery_jobs db)" for k
    using legal that jid by (auto simp: job_insert_legal_def list_all_iff)
  have old: "t_job_id t \<noteq> jid" if "t \<in> set (delivery_targets db)" for t using D(5) [OF that] fresh(1) by metis
  have none: "targets_of db jid = []" "attempts_of db jid l = []" for l
    using old D(6) by (fastforce simp: targets_of_def attempts_of_def filter_empty_conv)+
  have tgt: "targets_of ?db k = (if k = jid then ?ts else targets_of db k)" for k
    using none(1) created_row_fields(1) [of _ jid 0 "dp_targets policy" at]
    by (auto simp: created_db_def targets_of_def filter_empty_conv filter_id_conv)
  have att: "attempts_of ?db = attempts_of db" by (simp add: created_db_def attempts_of_def fun_eq_iff)
  have m: "j_max_attempts j = int (dp_max_attempts policy)"
    "j_required_acknowledgements j = int (dp_required_acknowledgements policy)" "j_status j = ''pending''"
    by (simp_all add: j new_job_row_def)
  have core: "job_inv_core j ?ts (attempts_of db jid)"
    unfolding job_inv_core_def list_all_iff
  proof (intro conjI ballI)
    show "delivery_jobs_check j" using legal by (simp add: job_insert_legal_def)
    show "map t_target_index ?ts = map int [0..<length ?ts]"
      using created_rows_map(1) by (metis length_map length_upt diff_zero)
    show "target_inv (j_max_attempts j) r (attempts_of db jid (t_target_index r))" if "r \<in> set ?ts" for r
      unfolding none(2) using that rows pol(2) m(1)
      by (intro fresh_target_inv) (auto simp: relays_valid_def list_all_iff)
  qed (use pol(1) in \<open>auto simp: created_rows_map policies_valid_def\<close>)
  have out: "outcome_inv j ?ts"
    using pol(1) m by (simp add: outcome_inv_def Let_def created_rows_map policies_valid_def)
  have sets: "delivery_jobs ?db = delivery_jobs db @ [j]" "delivery_targets ?db = delivery_targets db @ ?ts"
    "delivery_attempts ?db = delivery_attempts db" by (simp_all add: created_db_def)
  have "tables_inv ?db"
    unfolding tables_inv_def att list_all_iff list_ex_iff sets
  proof (intro conjI ballI)
    show "distinct (map j_job_id (delivery_jobs db @ [j]))" using D(1) fresh(1) jid by force
    show "distinct (map (\<lambda>j. (j_source_kind j, j_source_id j)) (delivery_jobs db @ [j]))"
      using D(2) fresh(2) by force
    show "\<exists>k\<in>set (delivery_jobs db @ [j]). j_job_id k = t_job_id t" if "t \<in> set (delivery_targets db @ ?ts)" for t
      using that D(5) created_row_fields(1) jid by fastforce
    show "\<exists>t\<in>set (delivery_targets db @ ?ts). t_job_id t = a_job_id a \<and> t_target_index t = a_target_index a"
      if "a \<in> set (delivery_attempts db)" for a using D(6) [OF that] by auto
    show "job_inv_core k (targets_of ?db (j_job_id k)) (attempts_of db (j_job_id k))"
      if "k \<in> set (delivery_jobs db @ [j])" for k
      unfolding tgt using that D(7) core fresh(1) jid by auto
  qed (use D in auto)
  moreover have "list_all (\<lambda>k. outcome_inv k (targets_of ?db (j_job_id k))) (delivery_jobs ?db)"
    unfolding tgt sets using inv fresh(1) out jid by (auto simp: delivery_inv_def list_all_iff)
  ultimately show ?thesis by (simp add: delivery_inv_def)
qed

lemma create_job_inv:
  assumes "delivery_inv db" and "create_job sha db source artifact at policy = Inr (c, db')"
    and "policies_valid policy" and "relays_valid policy"
  shows "delivery_inv db'"
  using assms(2)
proof (cases rule: create_job_effect)
  case (created job)
  show ?thesis unfolding created(5)
    by (rule created_db_inv [OF assms(1) _ refl assms(3,4) created(4,6)]) (simp_all add: new_job_row_def)
qed (use assms(1) in simp)

end
