(* ===== verification/Delivery_System.thy ===== *)
theory Delivery_System
  imports Delivery_Admission
begin

text \<open>
  The delivery tables as a transition system. Transitions are the committed transactions of
  \<^verbatim>\<open>src/src/state_delivery.rs\<close> in any order and interleaving; the invariant of the tables holds in
  every reachable state, the tables only grow, and decided rows are frozen.
\<close>

section \<open>The transition system\<close>

text \<open>
  Every transition is one committed transaction; a transaction that fails leaves the database as it
  was and is no transition. The last rule is the rest of the program: it writes the tables that
  delivery only reads.
\<close>

inductive delivery_step :: "(bytes \<Rightarrow> bytes) \<Rightarrow> delivery_db \<Rightarrow> delivery_db \<Rightarrow> bool" for sha where
  create: "policies_valid policy \<Longrightarrow> relays_valid policy \<Longrightarrow>
    create_job sha db source artifact at policy = Inr (admission, db') \<Longrightarrow> delivery_step sha db db'"
| claim: "claim_target sha db jid relay nonce at = Inr (claim, db') \<Longrightarrow> delivery_step sha db db'"
| submit: "mark_submitted db jid relay aid at = Inr (attempt, db') \<Longrightarrow> delivery_step sha db db'"
| outcome: "record_outcome db jid relay aid outcome jitter at = Inr (job, db') \<Longrightarrow> delivery_step sha db db'"
| expire: "recover_expired db jid relay aid jitter at = Inr (job, db') \<Longrightarrow> delivery_step sha db db'"
| other: "delivery_step sha db (db\<lparr>config_bindings := bindings, request_operation_ids := requests,
    desired_generation_ids := generations\<rparr>)"

definition delivery_init :: "delivery_db \<Rightarrow> bool" where
  "delivery_init db \<longleftrightarrow> delivery_jobs db = [] \<and> delivery_targets db = [] \<and> delivery_attempts db = []"

lemma delivery_inv_init: "delivery_init db \<Longrightarrow> delivery_inv db"
  by (simp add: delivery_init_def delivery_inv_def tables_inv_def)

lemma delivery_inv_other:
  "delivery_inv (db\<lparr>config_bindings := b, request_operation_ids := r, desired_generation_ids := g\<rparr>) = delivery_inv db"
  by (simp add: delivery_inv_def tables_inv_def targets_of_def [abs_def] attempts_of_def [abs_def])

lemma delivery_step_inv:
  assumes "delivery_inv db" and "delivery_step sha db db'"
  shows "delivery_inv db'"
  using assms(2,1)
  by (induction rule: delivery_step.induct)
     (auto intro: create_job_inv claim_target_inv' mark_submitted_inv record_outcome_inv
        recover_expired_inv simp: delivery_inv_other)

interpretation delivery: invariant_system delivery_init "delivery_step sha" delivery_inv for sha
  by unfold_locales (auto intro: delivery_inv_init delivery_step_inv)

definition delivery_reachable :: "(bytes \<Rightarrow> bytes) \<Rightarrow> delivery_db \<Rightarrow> bool" where
  "delivery_reachable sha db \<longleftrightarrow> (\<exists>db0. delivery_init db0 \<and> (delivery_step sha)\<^sup>*\<^sup>* db0 db)"

lemma reachable_inv: "delivery_reachable sha db \<Longrightarrow> delivery_inv db"
  unfolding delivery_reachable_def using delivery.reached_inv by blast

section \<open>What a transition does to the three tables\<close>

text \<open>
  \<open>rows_extend\<close>: the table keeps its rows in place and grows at the end; \<open>ident\<close> of a row never changes
  and a frozen row does not change at all.
\<close>

definition rows_extend :: "('r \<Rightarrow> 'k) \<Rightarrow> ('r \<Rightarrow> bool) \<Rightarrow> 'r list \<Rightarrow> 'r list \<Rightarrow> bool" where
  "rows_extend ident frozen xs ys \<longleftrightarrow>
     (\<exists>f zs. ys = map f xs @ zs \<and> (\<forall>x. ident (f x) = ident x) \<and> (\<forall>x. frozen x \<longrightarrow> f x = x))"

lemma rows_extend_refl [simp]: "rows_extend ident frozen xs xs"
  unfolding rows_extend_def by (intro exI [of _ id] exI [of _ "[]"]) auto

lemma rows_extend_append [simp]: "rows_extend ident frozen xs (xs @ zs)"
  unfolding rows_extend_def by (intro exI [of _ id] exI [of _ zs]) auto

lemma rows_extend_update:
  "(\<And>x. ident (upd_row w f x) = ident x) \<Longrightarrow> (\<And>x. w x \<Longrightarrow> \<not> frozen x) \<Longrightarrow>
     rows_extend ident frozen xs (map (upd_row w f) xs)"
  unfolding rows_extend_def by (intro exI [of _ "upd_row w f"] exI [of _ "[]"]) (auto simp: upd_row_def)

lemma rows_extend_trans:
  assumes "rows_extend ident frozen xs ys" and "rows_extend ident frozen ys zs"
  shows "rows_extend ident frozen xs zs"
proof -
  from assms obtain f g us vs where "ys = map f xs @ us" "zs = map g ys @ vs"
    "\<forall>x. ident (f x) = ident x" "\<forall>x. ident (g x) = ident x"
    "\<forall>x. frozen x \<longrightarrow> f x = x" "\<forall>x. frozen x \<longrightarrow> g x = x" unfolding rows_extend_def by blast
  then show ?thesis
    unfolding rows_extend_def by (intro exI [of _ "g \<circ> f"] exI [of _ "map g us @ vs"]) auto
qed

lemma rows_extend_frozen: "rows_extend ident frozen xs ys \<Longrightarrow> x \<in> set xs \<Longrightarrow> frozen x \<Longrightarrow> x \<in> set ys"
  unfolding rows_extend_def by force

lemma rows_extend_ident:
  "rows_extend ident frozen xs ys \<Longrightarrow> x \<in> set xs \<Longrightarrow> \<exists>y\<in>set ys. ident y = ident x"
  unfolding rows_extend_def by force

definition tables_extend :: "delivery_db \<Rightarrow> delivery_db \<Rightarrow> bool" where
  "tables_extend db db' \<longleftrightarrow>
     rows_extend job_identity (\<lambda>j. j_status j \<notin> {''pending'', ''active''}) (delivery_jobs db) (delivery_jobs db')
     \<and> rows_extend target_identity (\<lambda>t. t_status t \<in> {''delivered'', ''exhausted''})
          (delivery_targets db) (delivery_targets db')
     \<and> rows_extend attempt_identity attempt_resolved (delivery_attempts db) (delivery_attempts db')"

lemma tables_extend_refl: "tables_extend db db"
  by (simp add: tables_extend_def)

lemma tables_extend_trans: "tables_extend a b \<Longrightarrow> tables_extend b c \<Longrightarrow> tables_extend a c"
  unfolding tables_extend_def by (blast intro: rows_extend_trans)

lemma submitted_db_extend: "tables_extend db (submitted_db db jid i aid at)"
  unfolding tables_extend_def submitted_db_def updated_db_fields
  by (intro conjI rows_extend_refl rows_extend_update submit_upd.key_upd_row attempt_submit_upd.key_upd_row)
     (auto simp: statement_defs attempt_resolved_def)

lemma resolved_db_extend:
  assumes "prior \<in> {''leased'', ''submitted''}"
  shows "tables_extend db (resolved_db db jid i aid prior status at reason ts next_at)"
  unfolding tables_extend_def resolved_db_def updated_db_fields
  using assms
  by (intro conjI rows_extend_refl rows_extend_update resolve_upd.key_upd_row attempt_resolve_upd.key_upd_row)
     (auto simp: statement_defs attempt_resolved_def)

lemma finalized_db_extend: "tables_extend db (finalized_db db jid status at)"
  unfolding tables_extend_def finalized_db_projections
  by (simp add: finalized_db_def)
     (intro rows_extend_update job_final_upd.key_upd_row, auto simp: statement_defs)

lemma claimed_db_extend: "tables_extend db (claimed_db db a at)"
  unfolding tables_extend_def
  by (simp add: claimed_db_def)
     (intro conjI rows_extend_update job_active_upd.key_upd_row claim_upd.key_upd_row, auto simp: statement_defs)

lemma created_db_extend: "tables_extend db (created_db db j ts)"
  by (simp add: tables_extend_def created_db_def)

lemma finalize_extend:
  assumes "tables_inv db" and "finalize_job_if_terminal db jid at = Inr (r, db')"
  shows "tables_extend db db'"
  by (rule finalize_job_Inr [OF assms]) (auto intro: finalized_db_extend tables_extend_refl)

lemma settles_extend:
  assumes inv: "tables_inv db" and s: "settles db j t a terminal reason jitter at r db'"
  shows "tables_extend db db'"
proof -
  from s obtain db1 where res: "resolve_attempt_and_target db (job_record j (targets_of db (j_job_id j)))
      (target_record t) (attempt_record a) (ar_status (attempt_record a)) terminal reason jitter at = Inr db1"
    and fin: "finalize_job_if_terminal db1 (j_job_id j) at = Inr (r, db')"
    by (auto simp: settles_def elim: r_bind_InrE)
  obtain ts next_at where tab1: "tables_inv db1" and prior: "a_status a \<in> {''leased'', ''submitted''}"
    and db1: "db1 = resolved_db db (j_job_id j) (t_target_index t) (a_attempt_id a) (a_status a)
       (attempt_status_as_str terminal) (int at) reason ts (map_option int next_at)"
    using resolve_effect [OF inv _ refl _ _ _ _ _ res] s unfolding settles_def by metis
  from resolved_db_extend [OF prior] db1 finalize_extend [OF tab1 fin] show ?thesis
    using tables_extend_trans by blast
qed

lemma delivery_step_extend:
  assumes inv: "delivery_inv db" and step: "delivery_step sha db db'"
  shows "tables_extend db db'"
proof -
  have tab: "tables_inv db" using inv by (rule delivery_inv_tables)
  from step show ?thesis
  proof cases
    case (create policy source artifact at admission)
    from create(3) show ?thesis
      by (cases rule: create_job_effect) (auto intro: created_db_extend tables_extend_refl)
  next
    case (claim jid relay nonce at c)
    from tab claim show ?thesis
      by (cases rule: claim_target_claims) (auto intro: claimed_db_extend tables_extend_refl)
  next
    case (submit jid relay aid at attempt)
    from tab submit show ?thesis
      by (cases rule: mark_submitted_effect) (auto intro: submitted_db_extend tables_extend_refl)
  next
    case (outcome jid relay aid outcome jitter at job)
    from tab outcome show ?thesis
      by (cases rule: record_outcome_effect) (auto intro: settles_extend [OF tab] tables_extend_refl)
  next
    case (expire jid relay aid jitter at job)
    from tab expire show ?thesis
      by (cases rule: recover_expired_effect) (auto intro: settles_extend [OF tab] tables_extend_refl)
  next
    case (other bindings requests generations)
    then show ?thesis by (simp add: tables_extend_def)
  qed
qed

lemma delivery_steps_extend:
  assumes "delivery_inv db" and "(delivery_step sha)\<^sup>*\<^sup>* db db'"
  shows "tables_extend db db'"
  by (rule delivery.steps_preserve [OF assms(2,1), where R = tables_extend])
     (auto intro: tables_extend_refl tables_extend_trans delivery_step_extend)

section \<open>Consequences of the invariant\<close>

lemma reachable_tables: "delivery_reachable sha db \<Longrightarrow> tables_inv db"
  using reachable_inv delivery_inv_tables by blast

lemma reachable_target:
  assumes "delivery_reachable sha db" and "j \<in> set (delivery_jobs db)" and "t \<in> set (targets_of db (j_job_id j))"
  shows "target_inv (j_max_attempts j) t (attempts_of db (j_job_id j) (t_target_index t))"
  using job_inv_coreD(5) [OF tables_invD(7) [OF reachable_tables [OF assms(1)] assms(2)] assms(3)] .

lemma reachable_outcome:
  assumes "delivery_reachable sha db" and "j \<in> set (delivery_jobs db)"
  shows "outcome_inv j (targets_of db (j_job_id j))"
  using reachable_inv [OF assms(1)] assms(2) by (simp add: delivery_inv_def list_all_iff)

text \<open>The attempt that acknowledged a delivered target.\<close>

lemma delivered_target_accepted:
  assumes inv: "tables_inv db" and ti: "target_inv m t (attempts_of db jid i)"
    and d: "t_status t = ''delivered''"
  shows "\<exists>a\<in>set (attempts_of db jid i). a_status a = ''delivered'' \<and> a_reason_code a = Some ''accepted''
    \<and> a_submitted_at_unix_ms a \<noteq> None"
proof -
  from target_invD(5) [OF ti] d have "status_projection m (attempts_of db jid i) = ''delivered''" by simp
  then obtain pre a where h: "attempts_of db jid i = pre @ [a]" and a: "a_status a = ''delivered''"
    by (cases "attempts_of db jid i" rule: rev_cases) (auto simp: status_projection_def split: if_splits)
  then have mem: "a \<in> set (attempts_of db jid i)" by simp
  from tables_invD(4) [OF inv attempts_of_subset [OF mem]] have "attempt_ok a" .
  then have "a_reason_code a = Some ''accepted'' \<and> a_submitted_at_unix_ms a \<noteq> None"
    using a by (cases rule: attempt_ok_cases) auto
  with mem a show ?thesis by blast
qed

text \<open>Only the last attempt of a target can be unresolved.\<close>

lemma history_unresolved:
  assumes "history_inv hist" and "i < length hist" and "\<not> attempt_resolved (hist ! i)"
  shows "i = length hist - 1"
proof (rule ccontr)
  assume "i \<noteq> length hist - 1"
  with assms(2) have "i < length (butlast hist)" by simp
  then have "butlast hist ! i \<in> set (butlast hist)" "butlast hist ! i = hist ! i"
    by (rule nth_mem, simp add: nth_butlast)
  with assms(1,3) show False by (auto simp: history_inv_def list_all_iff attempt_resolved_def)
qed

lemma unresolved_active:
  assumes "target_inv m t hist" and "i < length hist" and "\<not> attempt_resolved (hist ! i)"
  shows "i = length hist - 1 \<and> t_active_attempt_id t = Some (a_attempt_id (hist ! i))"
proof -
  have i: "i = length hist - 1" using history_unresolved [OF target_invD(2) [OF assms(1)] assms(2,3)] .
  have ne: "hist \<noteq> []" using assms(2) by auto
  then have "hist ! i = last hist" by (simp add: i last_conv_nth)
  with ne assms i target_invD(6) [OF assms(1)] show ?thesis by (simp add: active_projection_def)
qed

end
