(* ===== verification/Delivery_Progress.thy ===== *)
theory Delivery_Progress
  imports Delivery_System
begin

text \<open>
  The operations succeed. For each operation of \<^verbatim>\<open>src/src/state_delivery.rs\<close>, the conditions on the
  rows and on the caller's input under which it commits, with what it commits: no statement of it
  is rejected by a constraint or a trigger of the schema.
\<close>

section \<open>Statements that must hit one row\<close>

lemma one_target_hit:
  assumes inv: "tables_inv db" and t: "t \<in> set (targets_of db jid)" and w: "w t"
    and key: "\<And>s. w s \<Longrightarrow> t_job_id s = jid \<and> t_target_index s = t_target_index t"
  shows "filter w (delivery_targets db) = [t]"
proof -
  from t have "t \<in> set (delivery_targets db)" "t_job_id t = jid" by (auto simp: targets_of_def)
  with tables_invD(5) [OF inv] obtain j where j: "j \<in> set (delivery_jobs db)" "j_job_id j = jid" by metis
  have d: "distinct (map t_target_index (targets_of db jid))"
    using targets_distinct_index [OF tables_invD(7) [OF inv j(1)]] j(2) by simp
  have "filter w (delivery_targets db) = filter w (targets_of db jid)"
    unfolding targets_of_def filter_filter using key by (intro filter_cong) auto
  also have "\<dots> = filter (\<lambda>s. t_target_index s = t_target_index t \<and> w s) (targets_of db jid)"
    using key by (intro filter_cong) auto
  also have "\<dots> = [t]" using d t w by (rule filter_unique_conj)
  finally show ?thesis .
qed

lemma one_attempt_hit:
  assumes inv: "tables_inv db" and a: "a \<in> set (delivery_attempts db)" and w: "w a"
    and key: "\<And>b. w b \<Longrightarrow> a_attempt_id b = a_attempt_id a"
  shows "filter w (delivery_attempts db) = [a]"
proof -
  have "filter w (delivery_attempts db) = filter (\<lambda>b. a_attempt_id b = a_attempt_id a \<and> w b) (delivery_attempts db)"
    using key by (intro filter_cong) auto
  also have "\<dots> = [a]" using tables_invD(3) [OF inv] a w by (rule filter_unique_conj)
  finally show ?thesis .
qed

lemma job_hits:
  assumes inv: "tables_inv db" and key: "\<And>k. w k \<Longrightarrow> j_job_id k = jid"
  shows "length (filter w (delivery_jobs db)) \<le> 1"
proof -
  have "filter w (delivery_jobs db) = filter (\<lambda>k. j_job_id k = jid \<and> w k) (delivery_jobs db)"
    using key by (intro filter_cong) auto
  with length_filter_unique_le [OF tables_invD(1) [OF inv], of jid w] show ?thesis by simp
qed

lemma hit_all:
  "filter w xs = [x] \<Longrightarrow> P x \<Longrightarrow> list_all (\<lambda>r. w r \<longrightarrow> P r) xs"
  by (force simp: list_all_iff dest: arg_cong [where f = set])

lemma update_targets_hit:
  assumes "filter w (delivery_targets db) = [t]" and "target_update_legal t (f t)"
  shows "execute_one (update_targets db w f)
    = Inr (db\<lparr>delivery_targets := map (upd_row w f) (delivery_targets db)\<rparr>)"
  using assms hit_all [OF assms(1), of "\<lambda>r. target_update_legal r (f r)"] by simp

lemma update_attempts_hit:
  assumes "filter w (delivery_attempts db) = [a]" and "attempt_update_legal a (f a)"
  shows "execute_one (update_attempts db w f)
    = Inr (db\<lparr>delivery_attempts := map (upd_row w f) (delivery_attempts db)\<rparr>)"
  using assms hit_all [OF assms(1), of "\<lambda>r. attempt_update_legal r (f r)"] by simp

lemma update_jobs_hit:
  assumes inv: "tables_inv db" and j: "j \<in> set (delivery_jobs db)"
    and key: "\<And>k. w k \<Longrightarrow> j_job_id k = j_job_id j" and legal: "w j \<Longrightarrow> job_update_legal j (f j)"
  shows "list_all (\<lambda>r. w r \<longrightarrow> job_update_legal r (f r)) (delivery_jobs db)"
    and "length (filter w (delivery_jobs db)) \<le> 1"
proof -
  show "list_all (\<lambda>r. w r \<longrightarrow> job_update_legal r (f r)) (delivery_jobs db)"
    unfolding list_all_iff
  proof (intro ballI impI)
    fix k assume k: "k \<in> set (delivery_jobs db)" "w k"
    then have "k = j" using distinct_key_eq [OF tables_invD(1) [OF inv] k(1) j] key by blast
    with k legal show "job_update_legal k (f k)" by blast
  qed
  show "length (filter w (delivery_jobs db)) \<le> 1" using inv key by (rule job_hits)
qed

section \<open>A ready target can be claimed\<close>

text \<open>What a caller has to bring to a claim: a fresh nonce and identifier and a clock that does not run back.\<close>

definition claim_input_ok ::
    "(bytes \<Rightarrow> bytes) \<Rightarrow> delivery_db \<Rightarrow> job_row \<Rightarrow> target_row \<Rightarrow> bytes \<Rightarrow> nat \<Rightarrow> bool" where
  "claim_input_ok sha db j t nonce at \<longleftrightarrow>
     length nonce = 32
     \<and> list_all (\<lambda>a. a_attempt_nonce a \<noteq> nonce) (attempts_of db (j_job_id j) (t_target_index t))
     \<and> (let aid = derive_attempt_id sha (j_job_id j) (nat (t_target_index t))
              (Suc (nat (t_attempt_count t))) nonce
        in length aid = 32 \<and> list_all (\<lambda>a. a_attempt_id a \<noteq> aid) (delivery_attempts db))
     \<and> 1 \<le> at \<and> at + nat (j_attempt_deadline_ms j) \<le> i64_max
     \<and> t_updated_at_unix_ms t \<le> int at \<and> j_updated_at_unix_ms j \<le> int at"

definition target_ready :: "job_row \<Rightarrow> target_row \<Rightarrow> nat \<Rightarrow> bool" where
  "target_ready j t at \<longleftrightarrow>
     j_status j \<in> {''pending'', ''active''} \<and> t_active_attempt_id t = None
     \<and> t_status t \<in> {''pending'', ''retryable'', ''unknown''} \<and> t_attempt_count t < j_max_attempts j
     \<and> (case t_next_attempt_at_unix_ms t of None \<Rightarrow> True | Some n \<Rightarrow> n \<le> int at)"

lemma ready_claims:
  assumes inv: "tables_inv db" and j: "j \<in> set (delivery_jobs db)" and t: "t \<in> set (targets_of db (j_job_id j))"
    and ready: "target_ready j t at" and input: "claim_input_ok sha db j t nonce at"
  shows "claims sha db j t nonce at"
    and "target_update_legal t (claim_target_set (t_attempt_count t + 1)
      (a_attempt_id (claimed_attempt sha j t nonce at)) (int at) t)"
    and "mark_job_active_where (j_job_id j) j \<Longrightarrow> job_update_legal j (mark_job_active_set (int at) j)"
proof -
  let ?a = "claimed_attempt sha j t nonce at"
  have ti: "target_inv (j_max_attempts j) t (attempts_of db (j_job_id j) (t_target_index t))"
    using job_inv_coreD(5) [OF tables_invD(7) [OF inv j] t] .
  note tok = target_invD(1) [OF ti] and af = claimed_attempt_fields [OF target_invD(1) [OF ti], of sha j nonce at]
  note R = ready [unfolded target_ready_def] and I = input [unfolded claim_input_ok_def Let_def]
  have jc: "delivery_jobs_check j" by (rule job_inv_coreD(1) [OF tables_invD(7) [OF inv j]])
  note jd = delivery_jobs_checkD [OF jc]
  have tc: "delivery_targets_check t" using tok by (simp add: target_ok_def)
  have cnt: "0 \<le> t_attempt_count t" "t_attempt_count t < 32"
    using tc R jd(7) by (auto simp: delivery_targets_check_def)
  have max: "int at \<le> sql_max" "int at + j_attempt_deadline_ms j \<le> sql_max"
    using I jd(12) by (auto simp: int_width_defs)
  have "delivery_attempts_check ?a"
    using I tc jd(1,12,13) cnt max
    by (auto simp: delivery_attempts_check_def claimed_attempt_def new_attempt_row_def sql_logic
        delivery_targets_check_def)
  moreover have "list_ex (\<lambda>q. t_job_id q = a_job_id ?a \<and> t_target_index q = a_target_index ?a) (delivery_targets db)"
    using t af by (auto simp: list_ex_iff targets_of_def)
  moreover have "a_attempt_number b \<noteq> t_attempt_count t + 1"
    if "b \<in> set (attempts_of db (j_job_id j) (t_target_index t))" for b
  proof -
    have "a_attempt_number b \<in> set (map a_attempt_number (attempts_of db (j_job_id j) (t_target_index t)))"
      using that by simp
    with target_invD(2,3) [OF ti] show ?thesis unfolding history_inv_def by auto
  qed
  ultimately have legal: "attempt_insert_legal db (delivery_attempts db) ?a"
    using I af by (auto simp: attempt_insert_legal_def list_all_iff attempts_of_def)
      (auto simp: claimed_attempt_def new_attempt_row_def)
  have aid: "length (a_attempt_id ?a) = 32" using I by (simp add: claimed_attempt_def new_attempt_row_def)
  have chk: "delivery_targets_check (claim_target_set (t_attempt_count t + 1) (a_attempt_id ?a) (int at) t)"
    using tc cnt max(1) I aid by (auto simp: delivery_targets_check_def statement_defs)
  then show "target_update_legal t (claim_target_set (t_attempt_count t + 1) (a_attempt_id ?a) (int at) t)"
    using R I by (auto simp: target_update_legal_def delivery_targets_guard_update_def statement_defs sql_logic)
  show jl: "job_update_legal j (mark_job_active_set (int at) j)" if "mark_job_active_where (j_job_id j) j"
    using that jc I max(1) by (auto simp: job_update_legal_def delivery_jobs_guard_update_def
        delivery_jobs_check_def statement_defs)
  show "claims sha db j t nonce at"
    using j t ti R legal chk jl legal_update_checks(1) by (auto simp: claims_def)
qed

lemma read_attempt_by_nonce_fresh:
  assumes "list_all (\<lambda>a. a_attempt_nonce a \<noteq> nonce) (attempts_of db jid (int i))"
  shows "read_attempt_by_nonce db jid i nonce = Inr None"
proof -
  have "filter (\<lambda>r. a_job_id r = jid \<and> a_target_index r = int i \<and> a_attempt_nonce r = nonce) (delivery_attempts db) = []"
    using assms by (auto simp: filter_empty_conv list_all_iff attempts_of_def)
  then show ?thesis by (simp add: read_attempt_by_nonce_def one_attempt_def)
qed

lemma claim_lease_ready:
  assumes inv: "tables_inv db" and j: "j \<in> set (delivery_jobs db)" and t: "t \<in> set (targets_of db (j_job_id j))"
    and ready: "target_ready j t at" and input: "claim_input_ok sha db j t nonce at"
  shows "claim_lease sha db (job_record j (targets_of db (j_job_id j))) (target_record t) (j_job_id j) nonce at
    = Inr (Claimed (attempt_record (claimed_attempt sha j t nonce at)),
        claimed_db db (claimed_attempt sha j t nonce at) (int at))"
proof -
  let ?a = "claimed_attempt sha j t nonce at" and ?jid = "j_job_id j" and ?i = "t_target_index t"
  let ?wt = "claim_target_where ?jid ?i (t_attempt_count t)"
  let ?ft = "claim_target_set (t_attempt_count t + 1) (a_attempt_id ?a) (int at)"
  let ?wj = "mark_job_active_where ?jid" and ?fj = "mark_job_active_set (int at)"
  note rc = ready_claims [OF inv j t ready input]
  have ti: "target_inv (j_max_attempts j) t (attempts_of db ?jid ?i)"
    using job_inv_coreD(5) [OF tables_invD(7) [OF inv j] t] .
  note tok = target_invD(1) [OF ti]
  note af = claimed_attempt_fields [OF tok, of sha j nonce at]
  have rng: "0 \<le> t_attempt_count t" "0 \<le> ?i"
    using tok by (auto simp: target_ok_def delivery_targets_check_def)
  have a: "new_attempt_row (derive_attempt_id sha ?jid (nat ?i) (Suc (nat (t_attempt_count t))) nonce)
       ?jid (nat ?i) (Suc (nat (t_attempt_count t))) nonce at (at + nat (j_attempt_deadline_ms j)) = ?a"
    and aid: "derive_attempt_id sha ?jid (nat ?i) (Suc (nat (t_attempt_count t))) nonce = a_attempt_id ?a"
    by (simp_all add: claimed_attempt_def new_attempt_row_def)
  have num: "int (Suc (nat (t_attempt_count t))) = t_attempt_count t + 1"
    "int (nat (t_attempt_count t)) = t_attempt_count t" "int (nat ?i) = ?i" using rng by simp_all
  have time: "checked_add_u64 at (nat (j_attempt_deadline_ms j)) = Some (at + nat (j_attempt_deadline_ms j))"
    "time_new (at + nat (j_attempt_deadline_ms j)) = Inr (at + nat (j_attempt_deadline_ms j))"
    using input by (auto simp: claim_input_ok_def valid_time_def int_width_defs)
  have ins: "execute_one (insert_attempt_sql db ?a) = Inr (db\<lparr>delivery_attempts := delivery_attempts db @ [?a]\<rparr>)"
    using rc(1) by (simp add: claims_def)
  have hit: "filter ?wt (delivery_targets db) = [t]"
    using ready t by (intro one_target_hit [OF inv t]) (auto simp: statement_defs target_ready_def targets_of_def)
  have upd: "execute_one (update_targets (db\<lparr>delivery_attempts := delivery_attempts db @ [?a]\<rparr>) ?wt ?ft)
     = Inr (db\<lparr>delivery_attempts := delivery_attempts db @ [?a], delivery_targets := map (upd_row ?wt ?ft) (delivery_targets db)\<rparr>)"
    using update_targets_hit [of ?wt "db\<lparr>delivery_attempts := delivery_attempts db @ [?a]\<rparr>" t ?ft] hit rc(2) by simp
  have jobs: "list_all (\<lambda>r. ?wj r \<longrightarrow> job_update_legal r (?fj r)) (delivery_jobs db)"
    "length (filter ?wj (delivery_jobs db)) \<le> 1"
    using rc(3) by (auto intro!: update_jobs_hit [OF inv j] simp: mark_job_active_where_def simp del: One_nat_def)
  have act: "execute_at_most_one (update_jobs (db\<lparr>delivery_attempts := delivery_attempts db @ [?a],
       delivery_targets := map (upd_row ?wt ?ft) (delivery_targets db)\<rparr>) ?wj ?fj) = Inr (claimed_db db ?a (int at))"
    using jobs by (simp add: claimed_db_def af)
  have tab': "tables_inv (claimed_db db ?a (int at))" by (rule claimed_db_tables [OF inv rc(1)])
  have "?a \<in> set (attempts_of (claimed_db db ?a (int at)) ?jid (int (nat ?i)))"
    using rng by (simp add: claimed_db_attempts_of af)
  then have read: "require_attempt (claimed_db db ?a (int at)) ?jid (nat ?i) (a_attempt_id ?a) = Inr (attempt_record ?a)"
    by (rule require_attempt_present [OF tab'])
  have idx: "tr_index (target_record t) = nat ?i" by (simp add: target_record_def)
  show ?thesis
    unfolding claim_lease_def Let_def record_fields next_attempt_number [OF tok] idx time ok_or_simps r_bind_simps
      map_err_simps aid a [unfolded aid] num ins upd act read ..
qed

lemma claim_target_ready:
  assumes inv: "tables_inv db" and j: "j \<in> set (delivery_jobs db)" and t: "t \<in> set (targets_of db (j_job_id j))"
    and ready: "target_ready j t at" and input: "claim_input_ok sha db j t nonce at"
  shows "claim_target sha db (j_job_id j) (t_relay_id t) nonce at
    = Inr (Claimed (attempt_record (claimed_attempt sha j t nonce at)),
        claimed_db db (claimed_attempt sha j t nonce at) (int at))"
proof -
  let ?job = "job_record j (targets_of db (j_job_id j))"
  note core = tables_invD(7) [OF inv j]
  note R = ready [unfolded target_ready_def]
  have ti: "target_inv (j_max_attempts j) t (attempts_of db (j_job_id j) (t_target_index t))"
    using job_inv_coreD(5) [OF core t] .
  have openj: "jr_status ?job \<notin> {JobDelivered, JobFailed, JobUnknown}"
    using open_job_status [OF job_inv_coreD(1) [OF core]] R by blast
  have tgt: "target_by_relay ?job (t_relay_id t) = Inr (target_record t)"
    using job_inv_coreD(4) [OF core] t by (rule target_by_relay_present)
  have nonce: "read_attempt_by_nonce db (j_job_id j) (tr_index (target_record t)) nonce = Inr None"
    using input target_record_index [OF target_invD(1) [OF ti]]
    by (intro read_attempt_by_nonce_fresh) (simp add: claim_input_ok_def)
  have status: "tr_status (target_record t) \<notin> {TargetDelivered, TargetExhausted}"
    using R target_status_text [OF target_invD(1) [OF ti]] by auto
  have count: "\<not> nat (j_max_attempts j) \<le> nat (t_attempt_count t)"
    using R target_invD(3) [OF ti] by auto
  have nxt: "\<And>n. t_next_attempt_at_unix_ms t = Some n \<Longrightarrow> \<not> at < nat n"
    using R by auto
  show ?thesis
    unfolding claim_target_def read_job_present(2) [OF inv j] r_bind_simps tgt nonce option.case if_not_P [OF openj]
    using R count status nxt claim_lease_ready [OF assms] by (simp split: option.splits)
qed

section \<open>A live lease can be submitted and resolved\<close>

lemma active_attempt_row:
  assumes inv: "tables_inv db" and j: "j \<in> set (delivery_jobs db)" and t: "t \<in> set (targets_of db (j_job_id j))"
    and a: "a \<in> set (attempts_of db (j_job_id j) (t_target_index t))"
    and act: "t_active_attempt_id t = Some (a_attempt_id a)"
  obtains pre where "attempts_of db (j_job_id j) (t_target_index t) = pre @ [a]" "t_status t = a_status a"
    "attempt_ok a" "a \<in> set (delivery_attempts db)" "a_job_id a = j_job_id j" "a_target_index a = t_target_index t"
    "a_status a \<in> {''leased'', ''submitted''}" "target_ok t" "a_attempt_number a = t_attempt_count t"
    "target_inv (j_max_attempts j) t (attempts_of db (j_job_id j) (t_target_index t))"
proof -
  have ti: "target_inv (j_max_attempts j) t (attempts_of db (j_job_id j) (t_target_index t))"
    using job_inv_coreD(5) [OF tables_invD(7) [OF inv j] t] .
  from inv ti act a obtain pre where pre: "attempts_of db (j_job_id j) (t_target_index t) = pre @ [a]"
    "\<not> attempt_resolved a" "t_status t = a_status a" by (rule active_attempt_last)
  have ok: "attempt_ok a" "a \<in> set (delivery_attempts db)"
    using tables_invD(4) [OF inv] attempts_of_subset [OF a] by auto
  moreover have "a_status a \<in> {''leased'', ''submitted''}"
    using ok(1) pre(2) by (cases rule: attempt_ok_cases) (auto simp: attempt_resolved_def)
  moreover have "a_attempt_number a = t_attempt_count t"
    using target_invD(2,3) [OF ti] pre(1) by (simp add: history_inv_snoc)
  ultimately show thesis
    using that [OF pre(1,3)] a target_invD(1) [OF ti] ti by (auto simp: attempts_of_def)
qed

lemma mark_submitted_ready:
  assumes inv: "tables_inv db" and j: "j \<in> set (delivery_jobs db)" and t: "t \<in> set (targets_of db (j_job_id j))"
    and a: "a \<in> set (attempts_of db (j_job_id j) (t_target_index t))"
    and act: "t_active_attempt_id t = Some (a_attempt_id a)" and leased: "a_status a = ''leased''"
    and time: "a_leased_at_unix_ms a \<le> int at" "int at \<le> a_lease_expires_at_unix_ms a" "t_updated_at_unix_ms t \<le> int at"
  shows "mark_submitted db (j_job_id j) (t_relay_id t) (a_attempt_id a) at
    = Inr (attempt_record (mark_attempt_submitted_set (int at) a),
        submitted_db db (j_job_id j) (t_target_index t) (a_attempt_id a) (int at))"
proof -
  let ?jid = "j_job_id j" and ?i = "t_target_index t" and ?aid = "a_attempt_id a"
  let ?wa = "mark_attempt_submitted_where ?aid ?jid ?i (int at)" and ?fa = "mark_attempt_submitted_set (int at)"
  let ?wt = "mark_target_submitted_where ?jid ?i ?aid" and ?ft = "mark_target_submitted_set (int at)"
  let ?db1 = "db\<lparr>delivery_attempts := map (upd_row ?wa ?fa) (delivery_attempts db)\<rparr>"
  let ?db2 = "submitted_db db ?jid ?i ?aid (int at)"
  from inv j t a act obtain pre where A: "attempts_of db ?jid ?i = pre @ [a]" "t_status t = a_status a"
    "attempt_ok a" "a \<in> set (delivery_attempts db)" "a_job_id a = ?jid" "a_target_index a = ?i" "target_ok t"
    by (rule active_attempt_row)
  note core = tables_invD(7) [OF inv j]
  have none: "a_submitted_at_unix_ms a = None" "a_resolved_at_unix_ms a = None" "a_reason_code a = None"
    using A(3) leased by (auto elim!: attempt_ok_cases)
  have fa: "attempt_update_legal a (?fa a)"
    using A(3) leased time none by (auto simp: attempt_ok_def attempt_update_legal_def
        delivery_attempts_guard_update_def delivery_attempts_check_def statement_defs sql_logic)
  have ft: "target_update_legal t (?ft t)"
    using A(2,3,7) leased time act by (auto simp: target_ok_def target_update_legal_def attempt_ok_def
        delivery_targets_guard_update_def delivery_targets_check_def delivery_attempts_check_def statement_defs sql_logic)
  have u1: "execute_one (update_attempts db ?wa ?fa) = Inr ?db1"
    using fa A leased time by (intro update_attempts_hit [of _ _ a] one_attempt_hit [OF inv]) (auto simp: statement_defs)
  have "filter ?wt (delivery_targets db) = [t]"
    using t A(2) leased act by (intro one_target_hit [OF inv t]) (auto simp: statement_defs targets_of_def)
  then have u2: "execute_one (update_targets ?db1 ?wt ?ft) = Inr ?db2"
    using update_targets_hit [of ?wt ?db1 t ?ft] ft by (simp add: submitted_db_def updated_db_def)
  have tab: "tables_inv ?db2"
    using inv t act A(1,2) leased time(2) legal_update_checks(2) [OF ft] legal_update_checks(3) [OF fa]
    by (intro submitted_db_tables) auto
  have "attempts_of ?db2 ?jid ?i = pre @ [upd_row ?wa ?fa a]"
    by (rule attempts_of_update(2) [OF _ attempt_submit_upd.key_upd_row _ tables_invD(3) [OF inv] A(1) refl])
       (auto simp: submitted_db_def statement_defs)
  moreover have "?wa a" using A leased time by (simp add: statement_defs)
  ultimately have "?fa a \<in> set (attempts_of ?db2 ?jid (int (tr_index (target_record t))))"
    using target_record_index [OF A(7)] by (simp add: upd_row_def)
  from require_attempt_present [OF tab this]
  have r2: "require_attempt ?db2 ?jid (tr_index (target_record t)) ?aid = Inr (attempt_record (?fa a))"
    by (simp add: statement_defs)
  have r1: "require_attempt db ?jid (tr_index (target_record t)) ?aid = Inr (attempt_record a)"
    using a target_record_index [OF A(7)] by (intro require_attempt_present [OF inv]) simp
  have st: "ar_status (attempt_record a) = AttemptLeased" "tr_status (target_record t) = TargetLeased"
    using A(2) leased by (simp_all add: attempt_record_def target_record_def attempt_status_parse_def target_status_parse_def)
  have tgt: "target_by_relay (job_record j (targets_of db ?jid)) (t_relay_id t) = Inr (target_record t)"
    using job_inv_coreD(4) [OF core] t by (rule target_by_relay_present)
  show ?thesis
    unfolding mark_submitted_def read_job_present(2) [OF inv j] r_bind_simps tgt r1 target_record_index [OF A(7)] u1 u2 r2
    using time act by (auto simp: st)
qed

text \<open>Which resolutions the schema admits, by the state of the attempt.\<close>

definition resolution_admitted :: "string \<Rightarrow> MycDeliveryAttemptStatus \<Rightarrow> string \<Rightarrow> bool" where
  "resolution_admitted prior terminal reason \<longleftrightarrow>
     (prior = ''leased'' \<and> terminal = AttemptFailed \<and> reason \<in> {''transport_failed'', ''lease_expired_before_submit''})
     \<or> (prior = ''submitted'' \<and> terminal = AttemptDelivered \<and> reason = ''accepted'')
     \<or> (prior = ''submitted'' \<and> terminal = AttemptFailed \<and> reason \<in> {''relay_rejected'', ''transport_failed''})
     \<or> (prior = ''submitted'' \<and> terminal = AttemptUnknown \<and> reason = ''acknowledgement_lost'')"

text \<open>The jitter a caller has to bring: within the backoff when a retry follows, zero otherwise.\<close>

definition jitter_fits ::
    "delivery_db \<Rightarrow> job_row \<Rightarrow> target_row \<Rightarrow> MycDeliveryAttemptStatus \<Rightarrow> nat \<Rightarrow> nat \<Rightarrow> bool" where
  "jitter_fits db j t terminal jitter at \<longleftrightarrow>
     (if t_attempt_count t < j_max_attempts j \<and> terminal \<noteq> AttemptDelivered
      then jitter \<le> maximum_delay (job_record j (targets_of db (j_job_id j))) (nat (t_attempt_count t))
        \<and> at + jitter \<le> i64_max
      else jitter = 0)"

lemma attempt_ok_base:
  assumes "attempt_ok a"
  shows "length (a_attempt_id a) = 32" "length (a_job_id a) = 32" "0 \<le> a_target_index a" "a_target_index a \<le> 31"
    "1 \<le> a_attempt_number a" "a_attempt_number a \<le> 32" "length (a_attempt_nonce a) = 32"
    "1 \<le> a_leased_at_unix_ms a" "a_leased_at_unix_ms a \<le> sql_max"
    "a_leased_at_unix_ms a + 1 \<le> a_lease_expires_at_unix_ms a" "a_lease_expires_at_unix_ms a \<le> sql_max"
    "\<And>s. a_submitted_at_unix_ms a = Some s \<Longrightarrow> a_leased_at_unix_ms a \<le> s \<and> s \<le> a_lease_expires_at_unix_ms a"
  using assms unfolding attempt_ok_def delivery_attempts_check_def by (blast+, simp only: option.case)

lemma attempt_resolution_legal:
  assumes ok: "attempt_ok a" and adm: "resolution_admitted (a_status a) terminal reason"
    and time: "a_leased_at_unix_ms a \<le> int at" "int at \<le> sql_max"
  shows "attempt_update_legal a (resolve_attempt_set (attempt_status_as_str terminal) (int at) reason a)"
proof -
  note D = attempt_update_legal_def delivery_attempts_guard_update_def delivery_attempts_check_def
    resolve_attempt_set_def check_passes_def when_fires_def sql_eval
  note base = attempt_ok_base [OF ok]
  from ok show ?thesis
  proof (cases rule: attempt_ok_cases)
    case leased
    with adm have "terminal = AttemptFailed" "reason = ''transport_failed'' \<or> reason = ''lease_expired_before_submit''"
      by (auto simp: resolution_admitted_def)
    with leased base(1-11) time show ?thesis by (elim disjE) (simp_all add: D)
  next
    case (submitted s)
    with adm have "(terminal = AttemptDelivered \<and> reason = ''accepted'')
      \<or> (terminal = AttemptFailed \<and> (reason = ''relay_rejected'' \<or> reason = ''transport_failed''))
      \<or> (terminal = AttemptUnknown \<and> reason = ''acknowledgement_lost'')"
      by (simp add: resolution_admitted_def)
    then consider "terminal = AttemptDelivered" "reason = ''accepted''"
      | "terminal = AttemptFailed" "reason = ''relay_rejected''"
      | "terminal = AttemptFailed" "reason = ''transport_failed''"
      | "terminal = AttemptUnknown" "reason = ''acknowledgement_lost''"
      by blast
    then show ?thesis by cases (use submitted base(1-11) base(12) [OF submitted(2)] time in \<open>simp_all add: D\<close>)
  qed (use adm in \<open>auto simp: resolution_admitted_def\<close>)
qed

lemma target_resolution_legal:
  assumes tok: "target_ok t" and st: "t_status t \<in> {''leased'', ''submitted''}"
    and ts: "ts = resolved_target_status m (t_attempt_count t) (attempt_status_as_str terminal)"
    and trm: "terminal \<in> {AttemptDelivered, AttemptFailed, AttemptUnknown}"
    and nx: "next_at \<noteq> None \<longleftrightarrow> t_attempt_count t < m \<and> terminal \<noteq> AttemptDelivered"
      "\<And>n. next_at = Some n \<Longrightarrow> 1 \<le> n \<and> n \<le> sql_max"
    and time: "t_updated_at_unix_ms t \<le> int at" "int at \<le> sql_max"
  shows "target_update_legal t (resolve_target_set ts next_at (int at) t)"
proof -
  note c = tok [unfolded target_ok_def delivery_targets_check_def]
  have base: "length (t_job_id t) = 32" "0 \<le> t_target_index t" "t_target_index t \<le> 31"
    "1 \<le> length (t_relay_id t)" "length (t_relay_id t) \<le> 64" "t_required t \<in> {0, 1}" "0 \<le> t_attempt_count t"
    "t_attempt_count t \<le> 32" "1 \<le> t_updated_at_unix_ms t" using c by auto
  note D = target_update_legal_def delivery_targets_guard_update_def delivery_targets_check_def
    resolve_target_set_def check_passes_def when_fires_def sql_eval
  consider "ts = ''delivered''" "next_at = None" | "ts = ''exhausted''" "next_at = None"
    | n where "ts = ''retryable''" "next_at = Some n" | "ts = ''unknown''"
    using trm ts nx(1) by (auto simp: resolved_target_status_def split: if_splits)
  then show ?thesis
  proof cases
    case (3 n)
    with base st time nx(2) [OF 3(2)] show ?thesis by (simp add: D)
  next
    case 4
    with base st time nx(2) show ?thesis by (cases next_at) (simp_all add: D)
  qed (use base st time in \<open>simp_all add: D\<close>)
qed

definition settled_db ::
    "delivery_db \<Rightarrow> job_row \<Rightarrow> target_row \<Rightarrow> attempt_row \<Rightarrow> MycDeliveryAttemptStatus \<Rightarrow> string \<Rightarrow> nat \<Rightarrow> nat \<Rightarrow> delivery_db" where
  "settled_db db j t a terminal reason jitter at =
     resolved_db db (j_job_id j) (t_target_index t) (a_attempt_id a) (a_status a)
       (attempt_status_as_str terminal) (int at) reason
       (resolved_target_status (j_max_attempts j) (t_attempt_count t) (attempt_status_as_str terminal))
       (if t_attempt_count t < j_max_attempts j \<and> terminal \<noteq> AttemptDelivered then Some (int (at + jitter)) else None)"

lemma resolve_ready:
  assumes inv: "tables_inv db" and j: "j \<in> set (delivery_jobs db)" and t: "t \<in> set (targets_of db (j_job_id j))"
    and a: "a \<in> set (attempts_of db (j_job_id j) (t_target_index t))"
    and act: "t_active_attempt_id t = Some (a_attempt_id a)"
    and res: "resolution_admitted (a_status a) terminal reason" and jit: "jitter_fits db j t terminal jitter at"
    and time: "a_leased_at_unix_ms a \<le> int at" "t_updated_at_unix_ms t \<le> int at" "at \<le> i64_max"
  shows "resolve_attempt_and_target db (job_record j (targets_of db (j_job_id j))) (target_record t)
    (attempt_record a) (ar_status (attempt_record a)) terminal reason jitter at
      = Inr (settled_db db j t a terminal reason jitter at)"
proof -
  let ?jid = "j_job_id j" and ?i = "t_target_index t" and ?aid = "a_attempt_id a" and ?p = "a_status a"
  let ?job = "job_record j (targets_of db ?jid)"
  let ?wa = "resolve_attempt_where ?aid ?jid ?i ?p" and ?fa = "resolve_attempt_set (attempt_status_as_str terminal) (int at) reason"
  let ?db1 = "db\<lparr>delivery_attempts := map (upd_row ?wa ?fa) (delivery_attempts db)\<rparr>"
  let ?retry = "t_attempt_count t < j_max_attempts j \<and> terminal \<noteq> AttemptDelivered"
  let ?ts = "resolved_target_status (j_max_attempts j) (t_attempt_count t) (attempt_status_as_str terminal)"
  let ?nx = "if ?retry then Some (at + jitter) else None"
  let ?wt = "resolve_target_where ?jid ?i ?aid ?p" and ?ft = "resolve_target_set ?ts (map_option int ?nx) (int at)"
  from inv j t a act obtain pre where A: "t_status t = ?p"
    "attempt_ok a" "a \<in> set (delivery_attempts db)" "a_job_id a = ?jid" "a_target_index a = ?i"
    "?p \<in> {''leased'', ''submitted''}" "target_ok t" "a_attempt_number a = t_attempt_count t"
    "target_inv (j_max_attempts j) t (attempts_of db ?jid ?i)" by (rule active_attempt_row)
  have trm: "terminal \<in> {AttemptDelivered, AttemptFailed, AttemptUnknown}"
    using res by (auto simp: resolution_admitted_def)
  have at: "int at \<le> sql_max" "1 \<le> int at"
    using time A(2) by (auto simp: int_width_defs attempt_ok_def delivery_attempts_check_def)
  have u1: "execute_one (update_attempts db ?wa ?fa) = Inr ?db1"
    using A attempt_resolution_legal [OF A(2) res time(1) at(1)]
    by (intro update_attempts_hit [of _ _ a] one_attempt_hit [OF inv]) (auto simp: statement_defs)
  have hit: "filter ?wt (delivery_targets ?db1) = [t]"
    using t A(1) act by simp (intro one_target_hit [OF inv t], auto simp: statement_defs targets_of_def)
  have "target_update_legal t (?ft t)"
    using A(1,6,7) trm time(2) at jit
    by (intro target_resolution_legal [where m = "j_max_attempts j"]) (auto simp: jitter_fits_def int_width_defs split: if_splits)
  with hit have u2: "execute_one (update_targets ?db1 ?wt ?ft) = Inr (?db1\<lparr>delivery_targets :=
      map (upd_row ?wt ?ft) (delivery_targets ?db1)\<rparr>)" by (rule update_targets_hit)
  have cnt: "nat (t_attempt_count t) < nat (j_max_attempts j) \<longleftrightarrow> t_attempt_count t < j_max_attempts j"
    using target_invD(3) [OF A(9)] by auto
  have nxt: "next_attempt_time ?job (nat (a_attempt_number a)) jitter at = Inr (at + jitter)" if "?retry"
    using that jit at(2) A(8) by (auto simp: next_attempt_time_Inr jitter_fits_def valid_time_def)
  have zero: "jitter = 0" if "\<not> ?retry" using that jit by (auto simp: jitter_fits_def)
  have pa: "attempt_status_as_str (ar_status (attempt_record a)) = ?p" "ar_status (attempt_record a) \<in> {AttemptLeased, AttemptSubmitted}"
    using attempt_status_text [OF A(2)] A(6) by (cases "ar_status (attempt_record a)", auto)+
  have prior: "(case ar_status (attempt_record a) of AttemptLeased \<Rightarrow> Inr ''leased'' | AttemptSubmitted \<Rightarrow> Inr ''submitted''
      | _ \<Rightarrow> Inl Binding) = (Inr ?p :: (OperationError, string) result)" using pa by auto
  have db: "settled_db db j t a terminal reason jitter at =
      ?db1\<lparr>delivery_targets := map (upd_row ?wt ?ft) (delivery_targets ?db1)\<rparr>"
    by (auto simp: settled_db_def resolved_db_def updated_db_def)
  show ?thesis
    unfolding db resolve_attempt_and_target_def Let_def record_fields pa(1) target_record_index [OF A(7)] u1 r_bind_simps
      cnt prior
    using trm u2 nxt zero
    by (cases "t_attempt_count t < j_max_attempts j") (auto simp: resolved_target_status_def)
qed

definition decided_db :: "delivery_db \<Rightarrow> job_row \<Rightarrow> nat \<Rightarrow> delivery_db" where
  "decided_db db j at = (case terminal_decision (job_record j (targets_of db (j_job_id j))) of
     None \<Rightarrow> db | Some s \<Rightarrow> finalized_db db (j_job_id j) (job_status_as_str s) (int at))"

lemma finalize_ready:
  assumes inv: "tables_inv db" and j: "j \<in> set (delivery_jobs db)"
    and time: "j_updated_at_unix_ms j \<le> int at" "at \<le> i64_max"
  shows "\<exists>r. finalize_job_if_terminal db (j_job_id j) at = Inr (r, decided_db db j at)"
proof (cases "terminal_decision (job_record j (targets_of db (j_job_id j)))")
  case None
  then show ?thesis
    by (simp add: finalize_job_if_terminal_def read_job_present(2) [OF inv j] decided_db_def)
next
  case (Some s)
  let ?w = "finalize_job_where (j_job_id j)" and ?f = "finalize_job_set (job_status_as_str s) (int at)"
  have jc: "delivery_jobs_check j" by (rule job_inv_coreD(1) [OF tables_invD(7) [OF inv j]])
  have s: "job_status_as_str s \<in> {''delivered'', ''failed'', ''unknown''}"
    using Some unfolding terminal_decision_rows [OF tables_invD(7) [OF inv j]] by (auto split: if_splits)
  have max: "int at \<le> sql_max" using time(2) by (simp add: int_width_defs)
  have "job_update_legal j (?f j)" if "?w j"
    using that s max time(1) jc delivery_jobs_checkD(19) [OF jc]
    by (simp add: job_update_legal_def delivery_jobs_guard_update_def delivery_jobs_check_def statement_defs)
  then have hit: "list_all (\<lambda>r. ?w r \<longrightarrow> job_update_legal r (?f r)) (delivery_jobs db)"
      "length (filter ?w (delivery_jobs db)) \<le> 1"
    by (auto intro!: update_jobs_hit [OF inv j] simp: finalize_job_where_def simp del: One_nat_def)
  then have upd: "execute_at_most_one (update_jobs db ?w ?f) = Inr (finalized_db db (j_job_id j) (job_status_as_str s) (int at))"
    by (simp add: finalized_db_def)
  let ?db = "finalized_db db (j_job_id j) (job_status_as_str s) (int at)"
  have "delivery_jobs_check (upd_row ?w ?f k)" if "k \<in> set (delivery_jobs db)" for k
    using hit(1) that legal_update_checks(1) job_inv_coreD(1) [OF tables_invD(7) [OF inv that]]
    by (auto simp: upd_row_def list_all_iff)
  then have tab: "tables_inv ?db"
    by (intro tables_inv_jobs [OF inv, of _ "upd_row ?w ?f"] job_final_upd.key_upd_row) (auto simp: finalized_db_def)
  have "upd_row ?w ?f j \<in> set (delivery_jobs ?db)" "j_job_id (upd_row ?w ?f j) = j_job_id j"
    using j by (auto simp: finalized_db_def upd_row_def finalize_job_set_def)
  with read_job_present(2) [OF tab this(1)] show ?thesis
    unfolding finalize_job_if_terminal_def read_job_present(2) [OF inv j] r_bind_simps Some option.case upd
      decided_db_def by simp
qed

text \<open>What a caller has to bring to a resolution besides the jitter: a clock that does not run back.\<close>

definition settle_time_ok :: "job_row \<Rightarrow> target_row \<Rightarrow> attempt_row \<Rightarrow> nat \<Rightarrow> bool" where
  "settle_time_ok j t a at \<longleftrightarrow> a_leased_at_unix_ms a \<le> int at \<and> t_updated_at_unix_ms t \<le> int at
     \<and> j_updated_at_unix_ms j \<le> int at \<and> at \<le> i64_max
     \<and> (case a_submitted_at_unix_ms a of None \<Rightarrow> True | Some s \<Rightarrow> s \<le> int at)"

lemma settle_ready:
  assumes inv: "tables_inv db" and j: "j \<in> set (delivery_jobs db)" and t: "t \<in> set (targets_of db (j_job_id j))"
    and a: "a \<in> set (attempts_of db (j_job_id j) (t_target_index t))"
    and act: "t_active_attempt_id t = Some (a_attempt_id a)"
    and res: "resolution_admitted (a_status a) terminal reason" and jit: "jitter_fits db j t terminal jitter at"
    and time: "settle_time_ok j t a at"
  shows "\<exists>r. r_bind (resolve_attempt_and_target db (job_record j (targets_of db (j_job_id j))) (target_record t)
    (attempt_record a) (ar_status (attempt_record a)) terminal reason jitter at)
    (\<lambda>db1. finalize_job_if_terminal db1 (j_job_id j) at)
      = Inr (r, decided_db (settled_db db j t a terminal reason jitter at) j at)"
proof -
  let ?db1 = "settled_db db j t a terminal reason jitter at"
  have r: "resolve_attempt_and_target db (job_record j (targets_of db (j_job_id j))) (target_record t)
    (attempt_record a) (ar_status (attempt_record a)) terminal reason jitter at = Inr ?db1"
    using resolve_ready [OF inv j t a act res jit] time by (auto simp: settle_time_ok_def)
  have ti: "target_inv (j_max_attempts j) t (attempts_of db (j_job_id j) (t_target_index t))"
    using job_inv_coreD(5) [OF tables_invD(7) [OF inv j] t] .
  have ok: "attempt_ok a" using tables_invD(4) [OF inv attempts_of_subset [OF a]] .
  have tab1: "tables_inv ?db1" using resolve_effect [OF inv j refl t ti a ok act r] by metis
  have "j \<in> set (delivery_jobs ?db1)" using j by (simp add: settled_db_def resolved_db_def)
  from finalize_ready [OF tab1 this, of at] time r show ?thesis by (simp add: settle_time_ok_def)
qed

lemma rows_found:
  assumes inv: "tables_inv db" and j: "j \<in> set (delivery_jobs db)" and t: "t \<in> set (targets_of db (j_job_id j))"
    and a: "a \<in> set (attempts_of db (j_job_id j) (t_target_index t))"
  shows "require_job db (j_job_id j) = Inr (job_record j (targets_of db (j_job_id j)))"
    and "target_by_relay (job_record j (targets_of db (j_job_id j))) (t_relay_id t) = Inr (target_record t)"
    and "require_attempt db (j_job_id j) (tr_index (target_record t)) (a_attempt_id a) = Inr (attempt_record a)"
    and "attempt_ok a"
proof -
  note core = tables_invD(7) [OF inv j]
  show "require_job db (j_job_id j) = Inr (job_record j (targets_of db (j_job_id j)))"
    by (rule read_job_present(2) [OF inv j])
  show "target_by_relay (job_record j (targets_of db (j_job_id j))) (t_relay_id t) = Inr (target_record t)"
    using job_inv_coreD(4) [OF core] t by (rule target_by_relay_present)
  show "require_attempt db (j_job_id j) (tr_index (target_record t)) (a_attempt_id a) = Inr (attempt_record a)"
    using a target_record_index [OF target_invD(1) [OF job_inv_coreD(5) [OF core t]]]
    by (intro require_attempt_present [OF inv]) simp
  show "attempt_ok a" using tables_invD(4) [OF inv attempts_of_subset [OF a]] .
qed

lemma attempt_status_record:
  assumes "attempt_ok a"
  shows "ar_status (attempt_record a) \<in> {AttemptDelivered, AttemptFailed, AttemptUnknown} \<longleftrightarrow> attempt_resolved a"
    and "ar_status (attempt_record a) = AttemptLeased \<longleftrightarrow> a_status a = ''leased''"
    and "ar_status (attempt_record a) = AttemptSubmitted \<longleftrightarrow> a_status a = ''submitted''"
  using attempt_status_text [OF assms]
  by (cases "ar_status (attempt_record a)"; simp add: attempt_resolved_def)+

lemma record_outcome_ready:
  assumes inv: "tables_inv db" and j: "j \<in> set (delivery_jobs db)" and t: "t \<in> set (targets_of db (j_job_id j))"
    and a: "a \<in> set (attempts_of db (j_job_id j) (t_target_index t))"
    and act: "t_active_attempt_id t = Some (a_attempt_id a)"
    and prior: "a_status a = ''submitted'' \<or> outcome = TransportFailed"
    and jit: "jitter_fits db j t (outcome_status outcome) jitter at"
    and time: "settle_time_ok j t a at" "int at \<le> a_lease_expires_at_unix_ms a"
  shows "\<exists>r. record_outcome db (j_job_id j) (t_relay_id t) (a_attempt_id a) outcome jitter at
    = Inr (r, decided_db (settled_db db j t a (outcome_status outcome) (outcome_reason outcome) jitter at) j at)"
proof -
  note R = rows_found [OF inv j t a] and S = attempt_status_record [OF rows_found(4) [OF inv j t a]]
  from inv j t a act have st: "a_status a \<in> {''leased'', ''submitted''}" by (rule active_attempt_row)
  have unres: "ar_status (attempt_record a) \<notin> {AttemptDelivered, AttemptFailed, AttemptUnknown}"
    using S(1) st by (auto simp: attempt_resolved_def)
  have adm: "resolution_admitted (a_status a) (outcome_status outcome) (outcome_reason outcome)"
    using st prior by (cases outcome) (auto simp: resolution_admitted_def)
  have pr: "required_prior outcome (ar_status (attempt_record a)) = ar_status (attempt_record a)"
    "ar_status (attempt_record a) \<in> {AttemptLeased, AttemptSubmitted}"
    using st prior S(2,3) by (auto simp: required_prior_def split: MycDeliveryAttemptOutcome.splits)
  have times: "\<not> at < nat (a_leased_at_unix_ms a)" "\<not> nat (a_lease_expires_at_unix_ms a) < at"
    "(case map_option nat (a_submitted_at_unix_ms a) of Some s \<Rightarrow> at < s | None \<Rightarrow> False) = False"
    using time by (auto simp: settle_time_ok_def split: option.splits)
  show ?thesis
    unfolding record_outcome_def R(1-3) r_bind_simps Let_def pr(1) if_not_P [OF unres] record_fields times(3)
    using settle_ready [OF inv j t a act adm jit time(1)] pr(2) act times(1,2) by auto
qed

lemma recover_expired_ready:
  assumes inv: "tables_inv db" and j: "j \<in> set (delivery_jobs db)" and t: "t \<in> set (targets_of db (j_job_id j))"
    and a: "a \<in> set (attempts_of db (j_job_id j) (t_target_index t))"
    and act: "t_active_attempt_id t = Some (a_attempt_id a)"
    and jit: "jitter_fits db j t (if a_status a = ''leased'' then AttemptFailed else AttemptUnknown) jitter at"
    and time: "settle_time_ok j t a at" "a_lease_expires_at_unix_ms a < int at"
  shows "\<exists>r. recover_expired db (j_job_id j) (t_relay_id t) (a_attempt_id a) jitter at
    = Inr (r, decided_db (if a_status a = ''leased''
        then settled_db db j t a AttemptFailed ''lease_expired_before_submit'' jitter at
        else settled_db db j t a AttemptUnknown ''acknowledgement_lost'' jitter at) j at)"
proof -
  note R = rows_found [OF inv j t a] and S = attempt_status_record [OF rows_found(4) [OF inv j t a]]
  from inv j t a act have st: "a_status a \<in> {''leased'', ''submitted''}" by (rule active_attempt_row)
  have unres: "ar_status (attempt_record a) \<notin> {AttemptDelivered, AttemptFailed, AttemptUnknown}"
    using S(1) st by (auto simp: attempt_resolved_def)
  have exp: "\<not> (at \<le> nat (a_lease_expires_at_unix_ms a) \<or> t_active_attempt_id t \<noteq> Some (a_attempt_id a))"
    using time(2) act attempt_ok_base(8,10) [OF R(4)] by auto
  show ?thesis
  proof (cases "a_status a = ''leased''")
    case True
    have "resolution_admitted (a_status a) AttemptFailed ''lease_expired_before_submit''"
      using True by (simp add: resolution_admitted_def)
    from settle_ready [OF inv j t a act this _ time(1)] jit True S(2) exp unres show ?thesis
      unfolding recover_expired_def R(1-3) r_bind_simps if_not_P [OF unres] record_fields if_not_P [OF exp] by simp
  next
    case False
    with st have "resolution_admitted (a_status a) AttemptUnknown ''acknowledgement_lost''"
      by (simp add: resolution_admitted_def)
    from settle_ready [OF inv j t a act this _ time(1)] jit False S(2) exp unres show ?thesis
      unfolding recover_expired_def R(1-3) r_bind_simps if_not_P [OF unres] record_fields if_not_P [OF exp] by simp
  qed
qed

section \<open>A new job can be created\<close>

definition create_input_ok ::
    "(bytes \<Rightarrow> bytes) \<Rightarrow> delivery_db \<Rightarrow> MycDeliverySource \<Rightarrow> bytes \<Rightarrow> nat \<Rightarrow> MycDeliveryPolicies \<Rightarrow> bool" where
  "create_input_ok sha db source artifact at policy \<longleftrightarrow>
     policies_valid policy \<and> relays_valid policy \<and> dp_initial_backoff_ms policy \<le> 30000
     \<and> active_job_count db < dp_outbox_maximum policy
     \<and> length (src_id source) = 32 \<and> length artifact = 32 \<and> length (derive_job_id sha source artifact) = 32
     \<and> (case src_kind source of SignerResponse \<Rightarrow> src_id source \<in> set (request_operation_ids db)
        | DiscoveryHandler \<Rightarrow> src_id source \<in> set (desired_generation_ids db))
     \<and> list_all (\<lambda>j. j_job_id j \<noteq> derive_job_id sha source artifact
          \<and> \<not> (j_source_kind j = source_kind_as_str (src_kind source) \<and> j_source_id j = src_id source)) (delivery_jobs db)
     \<and> valid_time at"

lemma created_rows_legal:
  assumes "r \<in> set (created_rows jid 0 ts at)" "length jid = 32" "length ts \<le> 32" "valid_time at"
    and "\<And>t. t \<in> set ts \<Longrightarrow> valid_relay_id (tp_relay_id t)"
  shows "delivery_targets_check r"
proof -
  from assms(1) obtain i p where ip: "(i, p) \<in> set (enumerate 0 ts)" "r = new_target_row jid i p at"
    by (auto simp: created_rows_def)
  then have "i < length ts" "p \<in> set ts" by (auto simp: in_set_enumerate_eq)
  with assms valid_relay_id_length [of "tp_relay_id p"] show ?thesis
    by (simp add: ip(2) new_target_row_def delivery_targets_check_def valid_time_def int_width_defs)
qed

lemma insert_targets_ready:
  assumes "\<And>r. r \<in> set (created_rows jid k ts at) \<Longrightarrow> delivery_targets_check r"
    and "distinct (map tp_relay_id ts)" and "k + length ts \<le> u32_max"
    and "list_ex (\<lambda>j. j_job_id j = jid) (delivery_jobs db)"
    and "\<And>q. q \<in> set (delivery_targets db) \<Longrightarrow> t_job_id q = jid \<Longrightarrow>
      t_target_index q < int k \<and> t_relay_id q \<notin> tp_relay_id ` set ts"
  shows "insert_targets db jid k ts at = Inr (db\<lparr>delivery_targets := delivery_targets db @ created_rows jid k ts at\<rparr>)"
  using assms
proof (induction ts arbitrary: db k)
  case (Cons p ts)
  let ?r = "new_target_row jid k p at"
  have rows: "created_rows jid k (p # ts) at = ?r # created_rows jid (Suc k) ts at" by (simp add: created_rows_def)
  have legal: "target_insert_legal db (delivery_targets db) ?r"
    using Cons.prems(1) [of ?r] Cons.prems(4,5) unfolding rows
    by (fastforce simp: target_insert_legal_def new_target_row_def list_all_iff)
  have "insert_targets (db\<lparr>delivery_targets := delivery_targets db @ [?r]\<rparr>) jid (Suc k) ts at
    = Inr (db\<lparr>delivery_targets := (delivery_targets db @ [?r]) @ created_rows jid (Suc k) ts at\<rparr>)"
  proof (subst Cons.IH)
    show "\<And>r. r \<in> set (created_rows jid (Suc k) ts at) \<Longrightarrow> delivery_targets_check r"
      using Cons.prems(1) unfolding rows by simp
    show "distinct (map tp_relay_id ts)" "Suc k + length ts \<le> u32_max" using Cons.prems(2,3) by simp_all
    show "list_ex (\<lambda>j. j_job_id j = jid) (delivery_jobs (db\<lparr>delivery_targets := delivery_targets db @ [?r]\<rparr>))"
      using Cons.prems(4) by simp
    show "t_target_index q < int (Suc k) \<and> t_relay_id q \<notin> tp_relay_id ` set ts"
      if q: "q \<in> set (delivery_targets (db\<lparr>delivery_targets := delivery_targets db @ [?r]\<rparr>))" "t_job_id q = jid" for q
    proof (cases "q = ?r")
      case True
      with Cons.prems(2) show ?thesis by (simp add: new_target_row_def)
    next
      case False
      with q Cons.prems(5) [of q] show ?thesis by simp
    qed
  qed simp
  moreover have "execute_one (insert_target_sql db ?r) = Inr (db\<lparr>delivery_targets := delivery_targets db @ [?r]\<rparr>)"
    using legal by simp
  moreover have "\<not> u32_max < k" using Cons.prems(3) by simp
  ultimately show ?case by (simp add: rows del: execute_one_insert_target)
qed (simp add: created_rows_def)

lemma create_job_ready:
  assumes inv: "delivery_inv db" and I: "create_input_ok sha db source artifact at policy"
    and jid: "jid = derive_job_id sha source artifact" and j: "j = new_job_row jid source artifact at policy"
    and ts: "ts = created_rows jid 0 (dp_targets policy) at"
  shows "create_job sha db source artifact at policy = Inr (Created (job_record j ts), created_db db j ts)"
proof -
  note I' = I [unfolded create_input_ok_def]
  have tab: "tables_inv db" using inv by (rule delivery_inv_tables)
  have pol: "policies_valid policy" "relays_valid policy" using I' by blast+
  have none: "filter (\<lambda>r. j_source_kind r = source_kind_as_str (src_kind source) \<and> j_source_id r = src_id source)
      (delivery_jobs db) = []"
    using I' by (auto simp: filter_empty_conv list_all_iff)
  have found: "read_job_by_source db source = Inr None"
    unfolding read_job_by_source_def none by (simp add: read_job_rows_def)
  have req: "dp_required_acknowledgements policy \<le> 32"
    using pol(1) length_filter_le [of tp_required "dp_targets policy"]
    unfolding policies_valid_def by linarith
  have "source_kind_as_str (src_kind source) \<in> {''signer_response'', ''discovery_handler''}"
    "policy_mode_as_str (dp_mode policy) \<in> {''at_least_one_required'', ''all_required'', ''required_quorum''}"
    by (cases "src_kind source", simp, simp) (cases "dp_mode policy", simp_all)
  then have "delivery_jobs_check j"
    using I' pol(1) req unfolding j jid
    by (simp add: delivery_jobs_check_def new_job_row_def policies_valid_def valid_time_def int_width_defs)
  then have legal: "job_insert_legal db (delivery_jobs db) j"
    using I' unfolding j jid
    by (cases "src_kind source") (auto simp: job_insert_legal_def delivery_jobs_guard_insert_def new_job_row_def list_all_iff)
  have chk: "delivery_targets_check r" if "r \<in> set ts" for r
    using that I' pol unfolding ts jid
    by (intro created_rows_legal) (auto simp: policies_valid_def relays_valid_def list_all_iff)
  have old: "t_job_id q \<noteq> jid" if "q \<in> set (delivery_targets db)" for q
    using tables_invD(5) [OF tab that] I' jid by (auto simp: list_all_iff)
  have jj: "j_job_id j = jid" by (simp add: j new_job_row_def)
  have ins: "insert_targets (db\<lparr>delivery_jobs := delivery_jobs db @ [j]\<rparr>) jid 0 (dp_targets policy) at = Inr (created_db db j ts)"
    using chk old pol(1) jj
    by (subst insert_targets_ready) (auto simp: ts policies_valid_def int_width_defs created_db_def)
  have inv': "delivery_inv (created_db db j ts)"
    unfolding ts by (rule created_db_inv [OF inv jj [symmetric] j pol legal]) (use chk ts in blast)
  have tgt: "targets_of (created_db db j ts) jid = ts"
    using old created_row_fields(1) [of _ jid 0 "dp_targets policy" at]
    by (auto simp: targets_of_def created_db_def ts filter_empty_conv filter_id_conv)
  have "j \<in> set (delivery_jobs (created_db db j ts))" by (simp add: created_db_def)
  from read_job_present(2) [OF delivery_inv_tables [OF inv'] this]
  have read: "require_job (created_db db j ts) jid = Inr (job_record j ts)" by (simp add: jj tgt)
  have i64: "dp_initial_backoff_ms policy \<le> i64_max" "dp_maximum_backoff_ms policy \<le> i64_max"
    "dp_attempt_deadline_ms policy \<le> i64_max"
    using pol(1) by (auto simp: policies_valid_def int_width_defs)
  have ex: "execute_one (insert_job_sql db j) = Inr (db\<lparr>delivery_jobs := delivery_jobs db @ [j]\<rparr>)"
    using legal by simp
  have "\<not> dp_outbox_maximum policy \<le> active_job_count db" using I' by simp
  then show ?thesis
    unfolding create_job_def found r_bind_simps option.case Let_def jid [symmetric] j [symmetric] ex ins read
    using i64 by (simp add: i64_of_nat_def)
qed

lemma mark_submitted_reads:
  assumes "delivery_reachable sha db" and "mark_submitted db jid relay aid at = Inr (attempt, db')"
  shows "delivery_jobs db' = delivery_jobs db \<and> (\<exists>job target. require_job db' jid = Inr job
      \<and> target_by_relay job relay = Inr target \<and> require_attempt db' jid (tr_index target) aid = Inr attempt
      \<and> ar_status attempt = AttemptSubmitted \<and> ar_submitted_at attempt = Some at)"
proof -
  note tab = reachable_tables [OF assms(1)]
  have tab': "tables_inv db'" using mark_submitted_inv [OF reachable_inv [OF assms(1)] assms(2)] by (rule delivery_inv_tables)
  show ?thesis
  proof (rule mark_submitted_effect [OF tab assms(2)])
    assume "db' = db" "ar_status attempt = AttemptSubmitted" "ar_submitted_at attempt = Some at"
    with assms(2) show ?thesis
      by (auto simp: mark_submitted_def elim!: r_bind_InrE split: if_splits)
  next
    fix j :: job_row and t :: target_row and pre :: "attempt_row list" and a :: attempt_row
    let ?h = "upd_row (mark_target_submitted_where jid (t_target_index t) aid) (mark_target_submitted_set (int at))"
    assume j: "j \<in> set (delivery_jobs db)" "j_job_id j = jid" and t: "t \<in> set (targets_of db jid)" "t_relay_id t = relay"
      and ti: "target_inv (j_max_attempts j) t (pre @ [a])" and h: "attempts_of db jid (t_target_index t) = pre @ [a]"
      and a: "a_attempt_id a = aid" "a_status a = ''leased''" "int at \<le> a_lease_expires_at_unix_ms a"
      and db': "db' = submitted_db db jid (t_target_index t) aid (int at)"
      and r: "require_attempt db' jid (nat (t_target_index t)) aid = Inr attempt"
    have j': "j \<in> set (delivery_jobs db')" using j by (simp add: db' submitted_db_def)
    have t': "?h t \<in> set (targets_of db' (j_job_id j))" "t_relay_id (?h t) = relay" "t_target_index (?h t) = t_target_index t"
      using t j(2) by (auto simp: db' submitted_db_def updated_db_targets_of [OF submit_upd.key_upd_row] upd_row_def statement_defs)
    have "a \<in> set (attempts_of db jid (t_target_index t))" using h by simp
    then have a': "mark_attempt_submitted_set (int at) a \<in> set (attempts_of db' (j_job_id j) (t_target_index (?h t)))"
      using a j(2) t'(3) by (force simp: db' submitted_db_def attempts_of_def upd_row_def statement_defs)
    note F = rows_found [OF tab' j' t'(1) a']
    have "attempt = attempt_record (mark_attempt_submitted_set (int at) a)"
      using F(3) r t'(3) j(2) a(1) by (simp add: mark_attempt_submitted_set_def target_record_def)
    moreover have "ar_status (attempt_record (mark_attempt_submitted_set (int at) a)) = AttemptSubmitted"
      "ar_submitted_at (attempt_record (mark_attempt_submitted_set (int at) a)) = Some at"
      by (simp_all add: attempt_record_def mark_attempt_submitted_set_def attempt_status_parse_def)
    moreover have "delivery_jobs db' = delivery_jobs db" by (simp add: db' submitted_db_def)
    ultimately show ?thesis using F j(2) t'(2) a(1) by (auto simp: mark_attempt_submitted_set_def)
  qed
qed

end
