(* ===== verification/Delivery_Example.thy ===== *)
theory Delivery_Example
  imports Delivery_Progress
begin

text \<open>
  A concrete run of the delivery operations, from the empty tables to a delivered job. The
  properties of the transition system are applied to its states.
\<close>

section \<open>A concrete run\<close>

text \<open>
  One job with one required relay and two attempts, used by the witnesses below. \<open>ex_sha\<close> stands for
  the hash: it keeps the last byte of its input, which is the artifact's or the nonce's, in two places.
\<close>

definition ex_id :: "byte \<Rightarrow> bytes" where "ex_id b = replicate 7 0 @ [b] @ replicate 23 0 @ [b]"

definition ex_sha :: "bytes \<Rightarrow> bytes" where "ex_sha bs = ex_id (last bs)"

definition ex_policy :: MycDeliveryPolicies where
  "ex_policy = \<lparr>dp_mode = AtLeastOneRequired, dp_required_acknowledgements = 1, dp_max_attempts = 2,
     dp_initial_backoff_ms = 100, dp_maximum_backoff_ms = 1000, dp_attempt_deadline_ms = 5000,
     dp_outbox_maximum = 4, dp_targets = [\<lparr>tp_relay_id = ''r1'', tp_required = True\<rparr>]\<rparr>"

definition ex_source :: MycDeliverySource where
  "ex_source = \<lparr>src_kind = SignerResponse, src_id = ex_id 1\<rparr>"

definition ex_metadata :: PersistedMetadata where
  "ex_metadata = \<lparr>pm_normalized_config_sha256 = ex_id 0, pm_transport_public_key = replicate 64 (CHR ''a''),
     pm_user_public_key = replicate 64 (CHR ''b''), pm_discovery_public_key = None, pm_config_contract_version = 1,
     pm_state_contract_version = 12, pm_operator_contract_version = 1, pm_status_contract_version = 1\<rparr>"

definition ex_binding :: binding_row where
  "ex_binding = \<lparr>b_generation = 1, b_normalized_config_sha256 = ex_id 0,
     b_transport_public_key = replicate 64 (CHR ''a''), b_user_public_key = replicate 64 (CHR ''b''),
     b_discovery_public_key = None, b_config_contract_version = 1, b_state_contract_version = 12,
     b_operator_contract_version = 1, b_status_contract_version = 1\<rparr>"

definition ex_db0 :: delivery_db where
  "ex_db0 = \<lparr>config_bindings = [ex_binding], request_operation_ids = [ex_id 1], desired_generation_ids = [],
     delivery_jobs = [], delivery_targets = [], delivery_attempts = []\<rparr>"

definition ex_job :: job_row where
  "ex_job = \<lparr>j_job_id = ex_id 2, j_source_kind = ''signer_response'', j_source_id = ex_id 1,
     j_artifact_sha256 = ex_id 2, j_policy_mode = ''at_least_one_required'',
     j_required_acknowledgements = 1, j_max_attempts = 2, j_initial_backoff_ms = 100,
     j_maximum_backoff_ms = 1000, j_attempt_deadline_ms = 5000, j_status = ''pending'',
     j_created_at_unix_ms = 1000, j_updated_at_unix_ms = 1000, j_finalized_at_unix_ms = None\<rparr>"

definition ex_target :: target_row where
  "ex_target = \<lparr>t_job_id = ex_id 2, t_target_index = 0, t_relay_id = ''r1'', t_required = 1,
     t_attempt_count = 0, t_status = ''pending'', t_active_attempt_id = None,
     t_next_attempt_at_unix_ms = None, t_updated_at_unix_ms = 1000\<rparr>"

definition ex_attempt :: attempt_row where
  "ex_attempt = \<lparr>a_attempt_id = ex_id 3, a_job_id = ex_id 2, a_target_index = 0, a_attempt_number = 1,
     a_attempt_nonce = ex_id 3, a_status = ''leased'', a_leased_at_unix_ms = 2000,
     a_lease_expires_at_unix_ms = 7000, a_submitted_at_unix_ms = None, a_resolved_at_unix_ms = None,
     a_reason_code = None\<rparr>"

definition ex_db1 :: delivery_db where
  "ex_db1 = ex_db0\<lparr>delivery_jobs := [ex_job], delivery_targets := [ex_target]\<rparr>"

definition ex_job2 :: job_row where
  "ex_job2 = ex_job\<lparr>j_status := ''active'', j_updated_at_unix_ms := 2000\<rparr>"

definition ex_target2 :: target_row where
  "ex_target2 = ex_target\<lparr>t_attempt_count := 1, t_status := ''leased'',
     t_active_attempt_id := Some (ex_id 3), t_updated_at_unix_ms := 2000\<rparr>"

definition ex_db2 :: delivery_db where
  "ex_db2 = ex_db1\<lparr>delivery_jobs := [ex_job2], delivery_targets := [ex_target2],
     delivery_attempts := [ex_attempt]\<rparr>"

definition ex_attempt3 :: attempt_row where
  "ex_attempt3 = ex_attempt\<lparr>a_status := ''submitted'', a_submitted_at_unix_ms := Some 3000\<rparr>"

definition ex_target3 :: target_row where
  "ex_target3 = ex_target2\<lparr>t_status := ''submitted'', t_updated_at_unix_ms := 3000\<rparr>"

definition ex_db3 :: delivery_db where
  "ex_db3 = ex_db2\<lparr>delivery_targets := [ex_target3], delivery_attempts := [ex_attempt3]\<rparr>"

definition ex_job4 :: job_row where
  "ex_job4 = ex_job2\<lparr>j_status := ''delivered'', j_updated_at_unix_ms := 4000,
     j_finalized_at_unix_ms := Some 4000\<rparr>"

definition ex_target4 :: target_row where
  "ex_target4 = ex_target3\<lparr>t_status := ''delivered'', t_active_attempt_id := None, t_updated_at_unix_ms := 4000\<rparr>"

definition ex_attempt4 :: attempt_row where
  "ex_attempt4 = ex_attempt3\<lparr>a_status := ''delivered'', a_resolved_at_unix_ms := Some 4000,
     a_reason_code := Some ''accepted''\<rparr>"

definition ex_db4 :: delivery_db where
  "ex_db4 = ex_db3\<lparr>delivery_jobs := [ex_job4], delivery_targets := [ex_target4],
     delivery_attempts := [ex_attempt4]\<rparr>"

lemma ex_id_simps [simp]: "ex_id a = ex_id b \<longleftrightarrow> a = b" "length (ex_id a) = 32" "last (ex_id a) = a" "ex_id a \<noteq> []"
  by (simp_all add: ex_id_def)

lemma ex_verify: "require_expected_metadata ex_metadata [ex_binding] = Inr ()"
proof -
  have hex: "is_ascii_hexdigit (CHR ''a'')" "is_ascii_hexdigit (CHR ''b'')"
    "\<not> is_ascii_uppercase (CHR ''a'')" "\<not> is_ascii_uppercase (CHR ''b'')" by code_simp+
  have key: "bounded_public_key (replicate 64 c) = Inr (replicate 64 c)"
    if "is_ascii_hexdigit c" "\<not> is_ascii_uppercase c" for c
    using that by (simp add: bounded_public_key_def list_all_iff list_ex_iff)
  show ?thesis
    by (simp add: require_expected_metadata_Inr ex_binding_def ex_metadata_def decode_metadata_row_def key hex
        bounded_version_def matches_current_configuration_def MYC_STATE_SCHEMA_VERSION_def int_width_defs
        u32_of_int_def)
qed

lemma ex_relay: "valid_relay_id ''r1''"
  by code_simp

lemma ex_ids:
  "derive_job_id ex_sha ex_source (ex_id 2) = ex_id 2"
  "derive_attempt_id ex_sha jid i n (ex_id b) = ex_id b"
  by (simp_all add: derive_job_id_def derive_attempt_id_def ex_sha_def ex_source_def)

lemmas ex_rows = ex_job_def ex_target_def ex_attempt_def ex_job2_def ex_target2_def ex_attempt3_def
  ex_target3_def ex_job4_def ex_target4_def ex_attempt4_def
lemmas ex_dbs = ex_db0_def ex_db1_def ex_db2_def ex_db3_def ex_db4_def

lemma ex_create:
  "create_job ex_sha ex_db0 ex_source (ex_id 2) 1000 ex_policy = Inr (Created (job_record ex_job [ex_target]), ex_db1)"
proof -
  have "delivery_inv ex_db0" by (rule delivery_inv_init) (simp add: delivery_init_def ex_db0_def)
  moreover have "create_input_ok ex_sha ex_db0 ex_source (ex_id 2) 1000 ex_policy"
    by (simp add: create_input_ok_def ex_ids ex_policy_def policies_valid_def relays_valid_def ex_relay
        ex_source_def ex_db0_def active_job_count_def valid_time_def int_width_defs)
      (simp add: ex_ids [unfolded ex_source_def])
  moreover have "ex_job = new_job_row (ex_id 2) ex_source (ex_id 2) 1000 ex_policy"
    by (simp add: new_job_row_def ex_rows ex_policy_def ex_source_def)
  moreover have "[ex_target] = created_rows (ex_id 2) 0 (dp_targets ex_policy) 1000"
    by (simp add: created_rows_def new_target_row_def ex_rows ex_policy_def)
  moreover have "ex_db1 = created_db ex_db0 ex_job [ex_target]" by (simp add: created_db_def ex_dbs)
  ultimately show ?thesis by (metis create_job_ready ex_ids(1))
qed

lemma ex_reach1: "delivery_reachable ex_sha ex_db1"
proof -
  have "policies_valid ex_policy" "relays_valid ex_policy"
    by (simp_all add: ex_policy_def policies_valid_def relays_valid_def ex_relay)
  with ex_create have "delivery_step ex_sha ex_db0 ex_db1" by (blast intro: delivery_step.create)
  then show ?thesis
    unfolding delivery_reachable_def by (intro exI [of _ ex_db0]) (simp add: delivery_init_def ex_db0_def)
qed

lemma reachable_step:
  "delivery_reachable sha db \<Longrightarrow> delivery_step sha db db' \<Longrightarrow> delivery_reachable sha db'"
  unfolding delivery_reachable_def by (meson rtranclp.rtrancl_into_rtrancl)

lemma ex_claim:
  "claim_target ex_sha ex_db1 (ex_id 2) ''r1'' (ex_id 3) 2000 = Inr (Claimed (attempt_record ex_attempt), ex_db2)"
proof -
  have "claim_input_ok ex_sha ex_db1 ex_job ex_target (ex_id 3) 2000"
    by (simp add: claim_input_ok_def attempts_of_def ex_dbs ex_rows ex_ids int_width_defs)
  moreover have "target_ready ex_job ex_target 2000" by (simp add: target_ready_def ex_rows)
  moreover have "ex_target \<in> set (targets_of ex_db1 (j_job_id ex_job))" "ex_job \<in> set (delivery_jobs ex_db1)"
    by (simp_all add: targets_of_def ex_dbs) (simp add: ex_rows)
  moreover have a: "claimed_attempt ex_sha ex_job ex_target (ex_id 3) 2000 = ex_attempt"
    by (simp add: claimed_attempt_def new_attempt_row_def ex_ids ex_rows)
  moreover have "claimed_db ex_db1 ex_attempt (int 2000) = ex_db2"
    by (simp add: claimed_db_def ex_dbs upd_row_def statement_defs) (simp add: ex_rows)
  moreover have "j_job_id ex_job = ex_id 2" "t_relay_id ex_target = ''r1''" by (simp_all add: ex_rows)
  ultimately show ?thesis
    using claim_target_ready [OF reachable_tables [OF ex_reach1], of ex_job ex_target 2000 ex_sha "ex_id 3"] by simp
qed

lemma ex_reach2: "delivery_reachable ex_sha ex_db2"
  using reachable_step [OF ex_reach1 delivery_step.claim] ex_claim by blast

lemma ex_proj2:
  "targets_of ex_db2 (ex_id 2) = [ex_target2]" "attempts_of ex_db2 (ex_id 2) 0 = [ex_attempt]"
  "delivery_jobs ex_db2 = [ex_job2]" "j_job_id ex_job2 = ex_id 2" "t_target_index ex_target2 = 0"
  "t_relay_id ex_target2 = ''r1''" "t_active_attempt_id ex_target2 = Some (ex_id 3)" "a_attempt_id ex_attempt = ex_id 3"
  by (simp_all add: targets_of_def attempts_of_def ex_dbs ex_rows)

lemma ex_submit:
  "mark_submitted ex_db2 (ex_id 2) ''r1'' (ex_id 3) 3000 = Inr (attempt_record ex_attempt3, ex_db3)"
proof -
  have "mark_submitted ex_db2 (j_job_id ex_job2) (t_relay_id ex_target2) (a_attempt_id ex_attempt) 3000
    = Inr (attempt_record (mark_attempt_submitted_set (int 3000) ex_attempt),
        submitted_db ex_db2 (j_job_id ex_job2) (t_target_index ex_target2) (a_attempt_id ex_attempt) (int 3000))"
    by (rule mark_submitted_ready [OF reachable_tables [OF ex_reach2]]) (simp_all add: ex_proj2, simp_all add: ex_rows)
  moreover have "mark_attempt_submitted_set (int 3000) ex_attempt = ex_attempt3" by (simp add: statement_defs ex_rows)
  moreover have "submitted_db ex_db2 (ex_id 2) 0 (ex_id 3) (int 3000) = ex_db3"
    by (simp add: submitted_db_def updated_db_def upd_row_def statement_defs ex_dbs) (simp add: ex_rows)
  ultimately show ?thesis by (simp add: ex_proj2)
qed

lemma ex_reach3: "delivery_reachable ex_sha ex_db3"
  using reachable_step [OF ex_reach2 delivery_step.submit] ex_submit by blast

lemma ex_proj3:
  "targets_of ex_db3 (ex_id 2) = [ex_target3]" "attempts_of ex_db3 (ex_id 2) 0 = [ex_attempt3]"
  "delivery_jobs ex_db3 = [ex_job2]" "t_target_index ex_target3 = 0"
  "t_relay_id ex_target3 = ''r1''" "t_active_attempt_id ex_target3 = Some (ex_id 3)" "a_attempt_id ex_attempt3 = ex_id 3"
  "a_status ex_attempt3 = ''submitted''"
  by (simp_all add: targets_of_def attempts_of_def ex_dbs ex_rows)

lemma ex_outcome: "\<exists>r. record_outcome ex_db3 (ex_id 2) ''r1'' (ex_id 3) OutcomeDelivered 0 4000 = Inr (r, ex_db4)"
proof -
  let ?db = "settled_db ex_db3 ex_job2 ex_target3 ex_attempt3 AttemptDelivered ''accepted'' 0 4000"
  have run: "\<exists>r. record_outcome ex_db3 (j_job_id ex_job2) (t_relay_id ex_target3) (a_attempt_id ex_attempt3)
      OutcomeDelivered 0 4000 = Inr (r, decided_db (settled_db ex_db3 ex_job2 ex_target3 ex_attempt3
        (outcome_status OutcomeDelivered) (outcome_reason OutcomeDelivered) 0 4000) ex_job2 4000)"
    by (rule record_outcome_ready [OF reachable_tables [OF ex_reach3]])
       (simp_all add: ex_proj2 ex_proj3 jitter_fits_def settle_time_ok_def, simp_all add: ex_rows int_width_defs)
  have db: "?db = ex_db3\<lparr>delivery_targets := [ex_target4], delivery_attempts := [ex_attempt4]\<rparr>"
    by (simp add: settled_db_def resolved_db_def updated_db_def upd_row_def statement_defs resolved_target_status_def ex_dbs)
       (simp add: ex_rows)
  have dec: "terminal_decision (job_record ex_job2 (targets_of ?db (ex_id 2))) = Some JobDelivered"
    unfolding db by (simp add: terminal_decision_def delivered_required_def targets_of_def target_record_def
        target_status_parse_def ex_rows split: MycDeliveryPolicyMode.split)
  have "decided_db ?db ex_job2 4000 = ex_db4"
    unfolding decided_db_def ex_proj2(4) dec option.case unfolding db
    by (simp add: finalized_db_def upd_row_def statement_defs ex_dbs) (simp add: ex_rows)
  with run show ?thesis by (simp add: ex_proj2 ex_proj3)
qed

lemma ex_reach4: "delivery_reachable ex_sha ex_db4"
  using ex_outcome reachable_step [OF ex_reach3 delivery_step.outcome] by blast

text \<open>After the delivery a second request arrives and its answer gets a job.\<close>

definition ex_db5 :: delivery_db where
  "ex_db5 = ex_db4\<lparr>config_bindings := [ex_binding], request_operation_ids := [ex_id 1, ex_id 9], desired_generation_ids := []\<rparr>"

definition ex_source2 :: MycDeliverySource where
  "ex_source2 = \<lparr>src_kind = SignerResponse, src_id = ex_id 9\<rparr>"

definition ex_db6 :: delivery_db where
  "ex_db6 = created_db ex_db5 (new_job_row (ex_id 5) ex_source2 (ex_id 5) 5000 ex_policy) (created_rows (ex_id 5) 0 (dp_targets ex_policy) 5000)"

lemma ex_reach5: "delivery_reachable ex_sha ex_db5"
  unfolding ex_db5_def by (rule reachable_step [OF ex_reach4 delivery_step.other])

lemma ex_run: "(delivery_step ex_sha)\<^sup>*\<^sup>* ex_db4 ex_db6"
proof -
  have jid: "derive_job_id ex_sha ex_source2 (ex_id 5) = ex_id 5" by (simp add: derive_job_id_def ex_sha_def)
  have pol: "policies_valid ex_policy" "relays_valid ex_policy"
    by (simp_all add: ex_policy_def policies_valid_def relays_valid_def ex_relay)
  have "create_input_ok ex_sha ex_db5 ex_source2 (ex_id 5) 5000 ex_policy"
    using pol by (simp add: create_input_ok_def jid ex_source2_def [symmetric])
      (simp add: ex_source2_def ex_db5_def ex_db4_def ex_rows active_job_count_def valid_time_def int_width_defs ex_policy_def)
  from create_job_ready [OF reachable_inv [OF ex_reach5] this jid [symmetric] refl refl]
  have "delivery_step ex_sha ex_db5 ex_db6" unfolding ex_db6_def by (rule delivery_step.create [OF pol])
  moreover have "delivery_step ex_sha ex_db4 ex_db5" unfolding ex_db5_def by (rule delivery_step.other)
  ultimately show ?thesis by simp
qed

end
