(* ===== verification/Delivery_Theorems.thy ===== *)
theory Delivery_Theorems
  imports Delivery_Example
begin

text \<open>
  The properties of delivery: safety and exactness of outcomes in every reachable state, immutability
  along every run, progress, exclusivity of leases and idempotence of every operation.
\<close>

section \<open>Every reachable state\<close>

text \<open>
  C10. In every state that delivery transactions reach from empty tables, in any interleaving, the
  invariant of the delivery tables holds: identifiers are unique, references resolve, every target
  row is the projection of its attempt history and every job row agrees with its targets.
\<close>

theorem delivery_invariant:
  assumes "delivery_reachable sha db"
  shows "delivery_inv db"
  using assms by (rule reachable_inv)

theorem delivery_invariant_witness: "delivery_reachable ex_sha ex_db4 \<and> delivery_inv ex_db4"
  using delivery_invariant [OF ex_reach4] ex_reach4 by blast

lemma delivered_le_possible:
  "required_delivered ts \<le> required_possible m ts"
proof -
  have "length (filter row_delivered ts) \<le> length (filter (row_possible m) ts)"
    by (induction ts) (auto simp: row_delivered_def row_possible_def)
  then show ?thesis by (simp add: required_delivered_def required_possible_def)
qed

lemma job_status_exact:
  assumes chk: "delivery_jobs_check j" and out: "outcome_inv j ts"
  shows "j_status j = ''delivered'' \<longleftrightarrow> j_required_acknowledgements j \<le> required_delivered ts"
    and "j_status j \<in> {''failed'', ''unknown''} \<longleftrightarrow>
      required_possible (j_max_attempts j) ts < j_required_acknowledgements j"
    and "j_status j \<in> {''pending'', ''active''} \<longleftrightarrow>
      required_delivered ts < j_required_acknowledgements j
      \<and> j_required_acknowledgements j \<le> required_possible (j_max_attempts j) ts"
proof -
  have "j_status j \<in> {''pending'', ''active'', ''delivered'', ''failed'', ''unknown''}"
    using chk by (simp add: delivery_jobs_check_def)
  then consider "j_status j \<in> {''pending'', ''active''}" | "j_status j = ''delivered''"
    | "j_status j \<in> {''failed'', ''unknown''}" by blast
  moreover note delivered_le_possible [of ts "j_max_attempts j"] out [unfolded outcome_inv_iff]
  ultimately show "j_status j = ''delivered'' \<longleftrightarrow> j_required_acknowledgements j \<le> required_delivered ts"
    and "j_status j \<in> {''failed'', ''unknown''} \<longleftrightarrow>
      required_possible (j_max_attempts j) ts < j_required_acknowledgements j"
    and "j_status j \<in> {''pending'', ''active''} \<longleftrightarrow>
      required_delivered ts < j_required_acknowledgements j
      \<and> j_required_acknowledgements j \<le> required_possible (j_max_attempts j) ts"
    by (cases; auto simp: closed_outcome_def open_outcome_def)+
qed

text \<open>
  C11. The status of a job is exactly what its targets say: it is delivered if and only if the required
  number of required relays have acknowledged, it is failed or unknown if and only if that number is
  out of reach, and it is open otherwise. An unknown job has a required relay whose last permitted
  attempt lost its acknowledgement.
\<close>

theorem job_outcome_exact:
  assumes "delivery_reachable sha db" and "j \<in> set (delivery_jobs db)"
  shows "(j_status j = ''delivered'' \<longleftrightarrow>
       j_required_acknowledgements j \<le> required_delivered (targets_of db (j_job_id j)))
     \<and> (j_status j \<in> {''failed'', ''unknown''} \<longleftrightarrow>
       required_possible (j_max_attempts j) (targets_of db (j_job_id j)) < j_required_acknowledgements j)
     \<and> (j_status j = ''unknown'' \<longrightarrow> list_ex (row_lost (j_max_attempts j)) (targets_of db (j_job_id j)))"
  using job_status_exact [OF job_inv_coreD(1) [OF tables_invD(7) [OF reachable_tables [OF assms(1)] assms(2)]]
      reachable_outcome [OF assms]] reachable_outcome [OF assms]
  by (auto simp: outcome_inv_iff closed_outcome_def)

theorem job_outcome_exact_witness:
  "delivery_reachable ex_sha ex_db4 \<and> ex_job4 \<in> set (delivery_jobs ex_db4)
   \<and> j_required_acknowledgements ex_job4 \<le> required_delivered (targets_of ex_db4 (j_job_id ex_job4))"
proof -
  have "ex_job4 \<in> set (delivery_jobs ex_db4)" by (simp add: ex_db4_def)
  with job_outcome_exact [OF ex_reach4 this] ex_reach4 show ?thesis by (simp add: ex_rows)
qed

text \<open>
  C12. A delivered job has, for at least the required number of required relays, an attempt that was
  submitted to the relay and accepted by it.
\<close>

theorem delivered_job_accepted:
  assumes "delivery_reachable sha db" and "j \<in> set (delivery_jobs db)" and "j_status j = ''delivered''"
  shows "j_required_acknowledgements j \<le> int (length (filter (\<lambda>t. t_required t = 1
     \<and> list_ex (\<lambda>a. a_status a = ''delivered'' \<and> a_reason_code a = Some ''accepted''
          \<and> a_submitted_at_unix_ms a \<noteq> None) (attempts_of db (j_job_id j) (t_target_index t)))
     (targets_of db (j_job_id j))))" (is "_ \<le> int (length (filter ?P _))")
proof -
  let ?ts = "targets_of db (j_job_id j)"
  have "?P t" if "t \<in> set ?ts" "row_delivered t" for t
    using delivered_target_accepted [OF reachable_tables [OF assms(1)] reachable_target [OF assms(1,2) that(1)]] that(2)
    by (auto simp: row_delivered_def list_ex_iff)
  then have "length (filter row_delivered ?ts) \<le> length (filter ?P ?ts)"
    using length_filter_map_mono [of ?ts row_delivered ?P "\<lambda>t. t"] by simp
  moreover have "j_required_acknowledgements j \<le> int (length (filter row_delivered ?ts))"
    using reachable_outcome [OF assms(1,2)] assms(3) by (simp add: outcome_inv_def)
  ultimately show ?thesis by linarith
qed

theorem delivered_job_accepted_witness:
  "delivery_reachable ex_sha ex_db4 \<and> ex_job4 \<in> set (delivery_jobs ex_db4) \<and> j_status ex_job4 = ''delivered''
   \<and> 1 \<le> length (filter (\<lambda>t. t_required t = 1
     \<and> list_ex (\<lambda>a. a_status a = ''delivered'' \<and> a_reason_code a = Some ''accepted''
          \<and> a_submitted_at_unix_ms a \<noteq> None) (attempts_of ex_db4 (j_job_id ex_job4) (t_target_index t)))
     (targets_of ex_db4 (j_job_id ex_job4)))"
proof -
  have "ex_job4 \<in> set (delivery_jobs ex_db4)" "j_status ex_job4 = ''delivered''" "j_required_acknowledgements ex_job4 = 1"
    by (simp_all add: ex_db4_def ex_rows)
  with delivered_job_accepted [OF ex_reach4 this(1,2)] ex_reach4 show ?thesis by linarith
qed

text \<open>
  C13. A target never has more attempts than its job permits, its attempts are numbered from one without
  gaps, and at most one of them is unresolved: the last one, which is then the target's active attempt.
\<close>

theorem one_active_attempt:
  assumes "delivery_reachable sha db" and "j \<in> set (delivery_jobs db)" and "t \<in> set (targets_of db (j_job_id j))"
    and "hist = attempts_of db (j_job_id j) (t_target_index t)"
  shows "int (length hist) \<le> j_max_attempts j \<and> map a_attempt_number hist = map int [1..<Suc (length hist)]
    \<and> t_attempt_count t = int (length hist)
    \<and> (\<forall>i < length hist. \<not> attempt_resolved (hist ! i) \<longrightarrow>
         i = length hist - 1 \<and> t_active_attempt_id t = Some (a_attempt_id (hist ! i)))"
proof -
  have ti: "target_inv (j_max_attempts j) t hist" using reachable_target [OF assms(1-3)] assms(4) by simp
  note T = target_invD [OF ti]
  have "i = length hist - 1 \<and> t_active_attempt_id t = Some (a_attempt_id (hist ! i))"
    if "i < length hist" "\<not> attempt_resolved (hist ! i)" for i
    using ti that by (rule unresolved_active)
  moreover have "map a_attempt_number hist = map int [1..<Suc (length hist)]"
    using T(2) unfolding history_inv_def by blast
  ultimately show ?thesis using T(3,4) by auto
qed

theorem one_active_attempt_witness:
  "delivery_reachable ex_sha ex_db2 \<and> ex_job2 \<in> set (delivery_jobs ex_db2)
   \<and> ex_target2 \<in> set (targets_of ex_db2 (j_job_id ex_job2))
   \<and> int (length (attempts_of ex_db2 (j_job_id ex_job2) (t_target_index ex_target2))) \<le> j_max_attempts ex_job2"
  using one_active_attempt [OF ex_reach2, of ex_job2 ex_target2] ex_reach2 by (simp add: ex_proj2)

section \<open>Along every run\<close>

text \<open>
  C14. What is decided stays decided: along every run, the row of a job that is no longer open, of a target
  that is delivered or exhausted and of an attempt that is resolved is never changed and never deleted.
\<close>

theorem decided_rows_frozen:
  assumes "delivery_reachable sha db" and "(delivery_step sha)\<^sup>*\<^sup>* db db'"
  shows "(\<forall>j\<in>set (delivery_jobs db). j_status j \<notin> {''pending'', ''active''} \<longrightarrow> j \<in> set (delivery_jobs db'))
     \<and> (\<forall>t\<in>set (delivery_targets db). t_status t \<in> {''delivered'', ''exhausted''} \<longrightarrow> t \<in> set (delivery_targets db'))
     \<and> (\<forall>a\<in>set (delivery_attempts db). attempt_resolved a \<longrightarrow> a \<in> set (delivery_attempts db'))"
proof -
  have E: "tables_extend db db'"
    using delivery_steps_extend [OF reachable_inv [OF assms(1)] assms(2)] .
  from E [unfolded tables_extend_def, THEN conjunct1, THEN rows_extend_frozen]
    E [unfolded tables_extend_def, THEN conjunct2, THEN conjunct1, THEN rows_extend_frozen]
    E [unfolded tables_extend_def, THEN conjunct2, THEN conjunct2, THEN rows_extend_frozen]
  show ?thesis by blast
qed

theorem decided_rows_frozen_witness:
  "ex_job4 \<in> set (delivery_jobs ex_db4) \<and> j_status ex_job4 = ''delivered'' \<and> ex_job4 \<in> set (delivery_jobs ex_db6)
   \<and> length (delivery_jobs ex_db6) = 2"
proof -
  have "ex_job4 \<in> set (delivery_jobs ex_db4)" "j_status ex_job4 = ''delivered''" by (simp_all add: ex_db4_def ex_rows)
  moreover from this have "ex_job4 \<in> set (delivery_jobs ex_db6)" using decided_rows_frozen [OF ex_reach4 ex_run] by simp
  ultimately show ?thesis by (simp add: ex_db6_def created_db_def ex_db5_def ex_db4_def)
qed

text \<open>The relays of a job are those it was created with.\<close>

definition relays_fixed :: "delivery_db \<Rightarrow> delivery_db \<Rightarrow> bool" where
  "relays_fixed db db' \<longleftrightarrow> list_all (\<lambda>j. map target_identity (targets_of db' (j_job_id j))
     = map target_identity (targets_of db (j_job_id j))) (delivery_jobs db)"

lemma relays_fixed_refl: "relays_fixed db db"
  by (simp add: relays_fixed_def list_all_iff)

lemma relays_fixed_trans:
  assumes "relays_fixed a b" and "tables_extend a b" and "relays_fixed b c"
  shows "relays_fixed a c"
  unfolding relays_fixed_def list_all_iff
proof
  fix j assume j: "j \<in> set (delivery_jobs a)"
  from assms(2) [unfolded tables_extend_def, THEN conjunct1, THEN rows_extend_ident, OF j]
  obtain k where "k \<in> set (delivery_jobs b)" "j_job_id k = j_job_id j" by (auto simp: identity_defs)
  with assms(1,3) j show "map target_identity (targets_of c (j_job_id j)) = map target_identity (targets_of a (j_job_id j))"
    unfolding relays_fixed_def list_all_iff by metis
qed

lemma relays_fixed_map:
  assumes "delivery_targets db' = map h (delivery_targets db)" and "\<And>t. target_identity (h t) = target_identity t"
  shows "relays_fixed db db'"
  by (simp add: relays_fixed_def list_all_iff targets_of_map [OF assms] assms(2))

lemma relays_fixed_finalize:
  assumes "tables_inv db" and "finalize_job_if_terminal db jid at = Inr (r, db')"
  shows "delivery_targets db' = delivery_targets db"
  by (rule finalize_job_Inr [OF assms]) auto

lemma relays_fixed_settles:
  assumes inv: "tables_inv db" and s: "settles db j t a terminal reason jitter at r db'"
  shows "relays_fixed db db'"
proof -
  from s obtain db1 where res: "resolve_attempt_and_target db (job_record j (targets_of db (j_job_id j)))
      (target_record t) (attempt_record a) (ar_status (attempt_record a)) terminal reason jitter at = Inr db1"
    and fin: "finalize_job_if_terminal db1 (j_job_id j) at = Inr (r, db')"
    by (auto simp: settles_def elim: r_bind_InrE)
  obtain ts next_at where tab1: "tables_inv db1"
    and db1: "db1 = resolved_db db (j_job_id j) (t_target_index t) (a_attempt_id a) (a_status a)
       (attempt_status_as_str terminal) (int at) reason ts (map_option int next_at)"
    using resolve_effect [OF inv _ refl _ _ _ _ _ res] s unfolding settles_def by metis
  have "delivery_targets db' = map (upd_row (resolve_target_where (j_job_id j) (t_target_index t) (a_attempt_id a)
      (a_status a)) (resolve_target_set ts (map_option int next_at) (int at))) (delivery_targets db)"
    by (simp add: relays_fixed_finalize [OF tab1 fin] db1 resolved_db_def)
  then show ?thesis by (rule relays_fixed_map [OF _ resolve_upd.key_upd_row])
qed

lemma relays_fixed_created:
  assumes inv: "tables_inv db" and legal: "job_insert_legal db (delivery_jobs db) j"
    and rows: "\<And>r. r \<in> set ts \<Longrightarrow> t_job_id r = j_job_id j"
  shows "relays_fixed db (created_db db j ts)"
proof -
  have "filter (\<lambda>r. t_job_id r = j_job_id k) ts = []" if "k \<in> set (delivery_jobs db)" for k
    using legal rows that by (auto simp: filter_empty_conv job_insert_legal_def list_all_iff)
  then show ?thesis by (simp add: relays_fixed_def list_all_iff targets_of_def created_db_def)
qed

lemma delivery_step_relays:
  assumes inv: "delivery_inv db" and step: "delivery_step sha db db'"
  shows "relays_fixed db db'"
proof -
  have tab: "tables_inv db" using inv by (rule delivery_inv_tables)
  from step show ?thesis
  proof cases
    case (create policy source artifact at admission)
    from create(3) show ?thesis
      by (cases rule: create_job_effect)
         (auto intro!: relays_fixed_created [OF tab] relays_fixed_refl dest: created_row_fields(1) simp: new_job_row_def)
  next
    case (claim jid relay nonce at c)
    from tab claim show ?thesis
      by (cases rule: claim_target_claims)
         (auto intro: relays_fixed_refl relays_fixed_map [OF _ claim_upd.key_upd_row] simp: claimed_db_def)
  next
    case (submit jid relay aid at attempt)
    from tab submit show ?thesis
      by (cases rule: mark_submitted_effect)
         (auto intro: relays_fixed_refl relays_fixed_map [OF _ submit_upd.key_upd_row] simp: submitted_db_def)
  next
    case (outcome jid relay aid outcome jitter at job)
    from tab outcome show ?thesis
      by (cases rule: record_outcome_effect) (auto intro: relays_fixed_settles [OF tab] relays_fixed_refl)
  next
    case (expire jid relay aid jitter at job)
    from tab expire show ?thesis
      by (cases rule: recover_expired_effect) (auto intro: relays_fixed_settles [OF tab] relays_fixed_refl)
  next
    case (other bindings requests generations)
    then show ?thesis by (simp add: relays_fixed_def list_all_iff targets_of_def)
  qed
qed

lemma delivery_steps_relays:
  assumes "delivery_inv db" and "(delivery_step sha)\<^sup>*\<^sup>* db db'"
  shows "tables_extend db db' \<and> relays_fixed db db'"
  by (rule delivery.steps_preserve [OF assms(2,1), where R = "\<lambda>u v. tables_extend u v \<and> relays_fixed u v"])
     (auto intro: tables_extend_refl tables_extend_trans delivery_step_extend relays_fixed_refl
        relays_fixed_trans delivery_step_relays)

text \<open>
  What a job delivers, to whom and under which policy never changes: along every run the job keeps its
  source, artifact digest, policy and creation time, and its target relays with their required flags are
  those it was created with, in the same order.
\<close>

theorem job_payload_fixed:
  assumes "delivery_reachable sha db" and "(delivery_step sha)\<^sup>*\<^sup>* db db'" and "j \<in> set (delivery_jobs db)"
  shows "list_ex (\<lambda>k. job_identity k = job_identity j) (delivery_jobs db')
     \<and> map target_identity (targets_of db' (j_job_id j)) = map target_identity (targets_of db (j_job_id j))"
proof -
  have E: "tables_extend db db'" "relays_fixed db db'"
    using delivery_steps_relays [OF reachable_inv [OF assms(1)] assms(2)] by blast+
  from E(1) [unfolded tables_extend_def, THEN conjunct1, THEN rows_extend_ident, OF assms(3)] E(2) assms(3)
  show ?thesis by (auto simp: list_ex_iff relays_fixed_def list_all_iff)
qed

theorem job_payload_fixed_witness:
  "(delivery_step ex_sha)\<^sup>*\<^sup>* ex_db1 ex_db2 \<and> ex_job \<in> set (delivery_jobs ex_db1)
   \<and> map target_identity (targets_of ex_db2 (j_job_id ex_job)) = map target_identity (targets_of ex_db1 (j_job_id ex_job))"
proof -
  have "(delivery_step ex_sha)\<^sup>*\<^sup>* ex_db1 ex_db2"
    using delivery_step.claim [OF ex_claim] by (rule r_into_rtranclp)
  moreover have "ex_job \<in> set (delivery_jobs ex_db1)" by (simp add: ex_db1_def)
  ultimately show ?thesis using job_payload_fixed [OF ex_reach1] by blast
qed

section \<open>Progress\<close>

text \<open>
  A ready target can be claimed: when its job is open, it has no active attempt, attempts remain and
  its retry time has come, a claim with a fresh nonce and identifier and a clock that does not run back
  is granted, and it adds exactly the lease of the next attempt number, for one attempt deadline.
\<close>

theorem ready_target_claimed:
  assumes "delivery_reachable sha db" and "j \<in> set (delivery_jobs db)" and "t \<in> set (targets_of db (j_job_id j))"
    and "target_ready j t at" and "claim_input_ok sha db j t nonce at"
  shows "claim_target sha db (j_job_id j) (t_relay_id t) nonce at
    = Inr (Claimed (attempt_record (claimed_attempt sha j t nonce at)),
        claimed_db db (claimed_attempt sha j t nonce at) (int at))"
  using claim_target_ready [OF reachable_tables [OF assms(1)] assms(2-5)] .

theorem ready_target_claimed_witness:
  "\<exists>r db'. claim_target ex_sha ex_db1 (j_job_id ex_job) (t_relay_id ex_target) (ex_id 3) 2000 = Inr (Claimed r, db')"
proof -
  have "claim_input_ok ex_sha ex_db1 ex_job ex_target (ex_id 3) 2000" "target_ready ex_job ex_target 2000"
    "ex_target \<in> set (targets_of ex_db1 (j_job_id ex_job))" "ex_job \<in> set (delivery_jobs ex_db1)"
    by (simp_all add: claim_input_ok_def attempts_of_def targets_of_def target_ready_def ex_dbs ex_rows ex_ids
        int_width_defs)
  with ready_target_claimed [OF ex_reach1, of ex_job ex_target 2000 "ex_id 3"] show ?thesis by blast
qed

lemma idle_possible_target_ready:
  assumes ti: "target_inv m t hist" and p: "row_possible m t" "\<not> row_delivered t" and m: "0 < m"
    and idle: "t_active_attempt_id t = None" and ok: "\<And>a. a \<in> set hist \<Longrightarrow> attempt_ok a"
  shows "t_status t \<in> {''pending'', ''retryable'', ''unknown''} \<and> t_attempt_count t < m"
proof -
  have "t_status t \<in> {''pending'', ''retryable'', ''unknown'', ''delivered'', ''exhausted''}"
    using target_invD(1) [OF ti] idle by (auto simp: target_ok_def delivery_targets_check_def)
  moreover have "t_status t \<noteq> ''delivered''" "t_status t \<noteq> ''exhausted''"
    using p by (auto simp: row_possible_def row_delivered_def)
  moreover have "t_attempt_count t < m" if "t_status t \<in> {''pending'', ''retryable''}"
  proof (cases hist rule: rev_cases)
    case Nil
    then show ?thesis using target_invD(3) [OF ti] m by simp
  next
    case (snoc pre a)
    then have "attempt_ok a" using ok by simp
    then have "a_status a \<in> {''leased'', ''submitted'', ''delivered'', ''failed'', ''unknown''}"
      by (auto elim: attempt_ok_cases)
    then show ?thesis
      using that snoc target_invD(3,5) [OF ti] by (auto simp: status_projection_snoc split: if_splits)
  qed
  moreover have "t_attempt_count t < m" if "t_status t = ''unknown''"
    using that p(1) by (auto simp: row_possible_def)
  ultimately show ?thesis by blast
qed

text \<open>
  C15. No open job is stuck: it always has a required relay, not yet delivered, that either holds an active
  lease or is ready to be claimed from some time on.
\<close>

theorem open_job_not_stuck:
  assumes "delivery_reachable sha db" and "j \<in> set (delivery_jobs db)" and "j_status j \<in> {''pending'', ''active''}"
  shows "\<exists>t\<in>set (targets_of db (j_job_id j)). t_required t = 1 \<and> t_status t \<noteq> ''delivered''
    \<and> (t_active_attempt_id t \<noteq> None \<or> (\<exists>at0. \<forall>at\<ge>at0. target_ready j t at))"
proof -
  let ?ts = "targets_of db (j_job_id j)"
  have "required_delivered ?ts < required_possible (j_max_attempts j) ?ts"
    using reachable_outcome [OF assms(1,2)] assms(3) by (auto simp: outcome_inv_iff open_outcome_def)
  then have "\<not> length (filter (row_possible (j_max_attempts j)) ?ts) \<le> length (filter row_delivered ?ts)"
    by (simp add: required_delivered_def required_possible_def)
  then obtain t where t: "t \<in> set ?ts" "row_possible (j_max_attempts j) t" "\<not> row_delivered t"
    using length_filter_map_mono [of ?ts "row_possible (j_max_attempts j)" row_delivered "\<lambda>t. t"] by auto
  have ti: "target_inv (j_max_attempts j) t (attempts_of db (j_job_id j) (t_target_index t))"
    using reachable_target [OF assms(1,2) t(1)] .
  have m: "0 < j_max_attempts j"
    using delivery_jobs_checkD(6) [OF job_inv_coreD(1) [OF tables_invD(7) [OF reachable_tables [OF assms(1)] assms(2)]]]
    by simp
  have ok: "\<And>a. a \<in> set (attempts_of db (j_job_id j) (t_target_index t)) \<Longrightarrow> attempt_ok a"
    using tables_invD(4) [OF reachable_tables [OF assms(1)]] attempts_of_subset by blast
  have "\<exists>at0. \<forall>at\<ge>at0. target_ready j t at" if idle: "t_active_attempt_id t = None"
  proof (intro exI [of _ "case t_next_attempt_at_unix_ms t of None \<Rightarrow> 0 | Some n \<Rightarrow> nat n"] allI impI)
    fix at assume "(case t_next_attempt_at_unix_ms t of None \<Rightarrow> 0 | Some n \<Rightarrow> nat n) \<le> at"
    with idle_possible_target_ready [OF ti t(2,3) m idle ok] assms(3) idle show "target_ready j t at"
      by (auto simp: target_ready_def split: option.splits)
  qed
  with t show ?thesis by (auto simp: row_possible_def row_delivered_def)
qed

theorem open_job_not_stuck_witness:
  "delivery_reachable ex_sha ex_db1 \<and> (\<exists>t\<in>set (targets_of ex_db1 (j_job_id ex_job)). t_required t = 1
    \<and> (t_active_attempt_id t \<noteq> None \<or> (\<exists>at0. \<forall>at\<ge>at0. target_ready ex_job t at)))"
  using open_job_not_stuck [OF ex_reach1, of ex_job] ex_reach1 by (auto simp: ex_db1_def ex_job_def)

lemma sort_key_hd:
  assumes "sort_key f xs = y # ys"
  shows "y \<in> set xs \<and> (\<forall>x\<in>set xs. f y \<le> f x)"
proof -
  have "set (y # ys) = set xs" "sorted (map f (y # ys))"
    using assms set_sort [of f xs] sorted_sort_key [of f xs] by auto
  then show ?thesis by (auto simp: order.refl)
qed

lemma ready_pairs_iff:
  assumes "tables_inv db"
  shows "(t, j) \<in> set (ready_pairs db at) \<longleftrightarrow>
    j \<in> set (delivery_jobs db) \<and> t \<in> set (targets_of db (j_job_id j)) \<and> target_ready j t at"
  by (auto simp: ready_pairs_def target_ready_def targets_of_def)

text \<open>
  Work selection is exact: it never fails; when it finds nothing, no target of any open job is ready;
  when it returns a job and relay, that target is ready, and no ready target belongs to an older job.
\<close>

theorem next_ready_exact:
  assumes "delivery_reachable sha db"
  shows "case next_ready_delivery_target db at of
      Inl e \<Rightarrow> False
    | Inr None \<Rightarrow> \<not> (\<exists>j\<in>set (delivery_jobs db). \<exists>t\<in>set (targets_of db (j_job_id j)). target_ready j t at)
    | Inr (Some (jid, relay)) \<Rightarrow> \<exists>j\<in>set (delivery_jobs db). \<exists>t\<in>set (targets_of db (j_job_id j)).
        j_job_id j = jid \<and> t_relay_id t = relay \<and> target_ready j t at
        \<and> (\<forall>j'\<in>set (delivery_jobs db). \<forall>t'\<in>set (targets_of db (j_job_id j')).
             target_ready j' t' at \<longrightarrow> j_created_at_unix_ms j \<le> j_created_at_unix_ms j')"
proof -
  note inv = reachable_tables [OF assms] and pairs = ready_pairs_iff [OF reachable_tables [OF assms]]
  let ?xs = "sort_key (\<lambda>(t, j). t_job_id t) (sort_key (\<lambda>(t, j). t_target_index t) (ready_pairs db at))"
  let ?s = "sort_key (\<lambda>(t, j). j_created_at_unix_ms j) ?xs"
  have set: "set ?s = set (ready_pairs db at)" "set ?xs = set (ready_pairs db at)" by simp_all
  show ?thesis
  proof (cases ?s)
    case Nil
    with set(1) have "set (ready_pairs db at) = {}" by (metis empty_set)
    then have "\<not> (\<exists>j\<in>set (delivery_jobs db). \<exists>t\<in>set (targets_of db (j_job_id j)). target_ready j t at)"
      using pairs by (metis empty_iff)
    then show ?thesis using Nil by (simp add: next_ready_delivery_target_def)
  next
    case (Cons p rest)
    obtain t j where p: "p = (t, j)" by (cases p)
    from sort_key_hd [OF Cons] set(2) p have mem: "(t, j) \<in> set (ready_pairs db at)"
      and least: "\<And>t' j'. (t', j') \<in> set (ready_pairs db at) \<Longrightarrow> j_created_at_unix_ms j \<le> j_created_at_unix_ms j'"
      by fastforce+
    from mem have j: "j \<in> set (delivery_jobs db)" and t: "t \<in> set (targets_of db (j_job_id j))" "target_ready j t at"
      using pairs by blast+
    have "target_ok t" using target_invD(1) [OF reachable_target [OF assms j t(1)]] .
    then have ok: "length (t_job_id t) = 32" "valid_relay_id (t_relay_id t)" "1 \<le> length (t_relay_id t)"
      "length (t_relay_id t) \<le> 64"
      by (auto simp: target_ok_def delivery_targets_check_def)
    then have "next_ready_delivery_target db at = Inr (Some (t_job_id t, t_relay_id t))"
      by (simp add: next_ready_delivery_target_def Cons p blob32_def text_col_def)
         (simp add: map_err_def relay_id_new_Inr_iff [THEN iffD2, of _ "t_relay_id t"])
    moreover have "t_job_id t = j_job_id j" using t(1) by (simp add: targets_of_def)
    ultimately show ?thesis using j t least pairs by auto
  qed
qed

theorem next_ready_exact_witness:
  "delivery_reachable ex_sha ex_db1 \<and> next_ready_delivery_target ex_db1 2000 \<noteq> Inr None"
proof -
  have "ex_job \<in> set (delivery_jobs ex_db1)" "ex_target \<in> set (targets_of ex_db1 (j_job_id ex_job))"
    "target_ready ex_job ex_target 2000"
    by (simp_all add: targets_of_def target_ready_def ex_dbs ex_rows)
  with next_ready_exact [OF ex_reach1, of 2000] ex_reach1 show ?thesis by auto
qed

section \<open>Leases\<close>

text \<open>
  C16. The holder of a live lease can always record the outcome of its attempt: for a submitted attempt (any
  outcome) or a leased one (transport failure), before the lease expires, with a jitter that fits the backoff,
  the transaction commits; it resolves the attempt and its target and decides the job from the new rows.
\<close>

theorem live_lease_resolves:
  assumes "delivery_reachable sha db" and "j \<in> set (delivery_jobs db)" and "t \<in> set (targets_of db (j_job_id j))"
    and "a \<in> set (attempts_of db (j_job_id j) (t_target_index t))"
    and "t_active_attempt_id t = Some (a_attempt_id a)"
    and "a_status a = ''submitted'' \<or> outcome = TransportFailed"
    and "jitter_fits db j t (outcome_status outcome) jitter at"
    and "settle_time_ok j t a at" and "int at \<le> a_lease_expires_at_unix_ms a"
  shows "\<exists>r. record_outcome db (j_job_id j) (t_relay_id t) (a_attempt_id a) outcome jitter at
    = Inr (r, decided_db (settled_db db j t a (outcome_status outcome) (outcome_reason outcome) jitter at) j at)"
  using record_outcome_ready [OF reachable_tables [OF assms(1)] assms(2-9)] .

theorem live_lease_resolves_witness:
  "\<exists>r db'. record_outcome ex_db3 (j_job_id ex_job2) (t_relay_id ex_target3) (a_attempt_id ex_attempt3)
     RelayRejected 100 4000 = Inr (r, db')"
proof -
  have "jitter_fits ex_db3 ex_job2 ex_target3 (outcome_status RelayRejected) 100 4000"
    by (simp add: jitter_fits_def maximum_delay_def job_record_def checked_shl_1_u64_def saturating_mul_u64_def
        ex_rows int_width_defs)
  moreover have "settle_time_ok ex_job2 ex_target3 ex_attempt3 4000" "int 4000 \<le> a_lease_expires_at_unix_ms ex_attempt3"
    by (simp_all add: settle_time_ok_def ex_rows int_width_defs)
  moreover have "ex_job2 \<in> set (delivery_jobs ex_db3)" "ex_target3 \<in> set (targets_of ex_db3 (j_job_id ex_job2))"
    "ex_attempt3 \<in> set (attempts_of ex_db3 (j_job_id ex_job2) (t_target_index ex_target3))"
    "t_active_attempt_id ex_target3 = Some (a_attempt_id ex_attempt3)"
    "a_status ex_attempt3 = ''submitted'' \<or> RelayRejected = TransportFailed"
    by (simp_all add: ex_proj2 ex_proj3)
  ultimately show ?thesis
    using live_lease_resolves [OF ex_reach3, of ex_job2 ex_target3 ex_attempt3 RelayRejected 100 4000] by blast
qed

text \<open>
  An unresolved attempt belongs to its holder until the lease expires and to recovery afterwards, never to
  both: up to the expiry time recovery of the lease is refused, after it every outcome is refused.
\<close>

theorem lease_window_exclusive:
  assumes "delivery_reachable sha db" and "j \<in> set (delivery_jobs db)" and "t \<in> set (targets_of db (j_job_id j))"
    and "a \<in> set (attempts_of db (j_job_id j) (t_target_index t))" and "\<not> attempt_resolved a"
  shows "(int at \<le> a_lease_expires_at_unix_ms a \<longrightarrow>
       recover_expired db (j_job_id j) (t_relay_id t) (a_attempt_id a) jitter at = Inl Binding)
     \<and> (a_lease_expires_at_unix_ms a < int at \<longrightarrow>
       record_outcome db (j_job_id j) (t_relay_id t) (a_attempt_id a) outcome jitter at = Inl Binding)"
proof -
  note R = rows_found [OF reachable_tables [OF assms(1)] assms(2-4)]
  note S = attempt_status_record [OF R(4)]
  have unres: "ar_status (attempt_record a) \<notin> {AttemptDelivered, AttemptFailed, AttemptUnknown}"
    using S(1) assms(5) by blast
  have e: "1 \<le> a_lease_expires_at_unix_ms a" using attempt_ok_base(8,10) [OF R(4)] by linarith
  have "recover_expired db (j_job_id j) (t_relay_id t) (a_attempt_id a) jitter at = Inl Binding"
    if "int at \<le> a_lease_expires_at_unix_ms a"
  proof -
    have "at \<le> nat (a_lease_expires_at_unix_ms a)" using that by linarith
    then show ?thesis unfolding recover_expired_def R(1-3) r_bind_simps if_not_P [OF unres] record_fields by simp
  qed
  moreover have "record_outcome db (j_job_id j) (t_relay_id t) (a_attempt_id a) outcome jitter at = Inl Binding"
    if "a_lease_expires_at_unix_ms a < int at"
  proof -
    have "nat (a_lease_expires_at_unix_ms a) < at" using that e by linarith
    then show ?thesis
      unfolding record_outcome_def R(1-3) r_bind_simps if_not_P [OF unres] record_fields Let_def by simp
  qed
  ultimately show ?thesis by blast
qed

theorem lease_window_exclusive_witness:
  "recover_expired ex_db3 (j_job_id ex_job2) (t_relay_id ex_target3) (a_attempt_id ex_attempt3) 0 7000 = Inl Binding
   \<and> record_outcome ex_db3 (j_job_id ex_job2) (t_relay_id ex_target3) (a_attempt_id ex_attempt3) OutcomeDelivered 0 7001
     = Inl Binding"
proof -
  have "\<not> attempt_resolved ex_attempt3" "a_lease_expires_at_unix_ms ex_attempt3 = 7000"
    by (simp_all add: attempt_resolved_def ex_rows)
  then show ?thesis
    using lease_window_exclusive [OF ex_reach3, of ex_job2 ex_target3 ex_attempt3 7000 0]
      lease_window_exclusive [OF ex_reach3, of ex_job2 ex_target3 ex_attempt3 7001 0 OutcomeDelivered]
    by (simp add: ex_proj2 ex_proj3)
qed

section \<open>Replays\<close>

text \<open>The rows a resolution leaves behind.\<close>

lemma finalize_result:
  assumes "tables_inv db" and "finalize_job_if_terminal db jid at = Inr (r, db')"
  obtains j where "tables_inv db'" "j \<in> set (delivery_jobs db')" "j_job_id j = jid"
    "r = job_record j (targets_of db' jid)" "targets_of db' = targets_of db" "attempts_of db' = attempts_of db"
proof (rule finalize_job_Inr [OF assms])
  fix j s
  let ?g = "upd_row (finalize_job_where jid) (finalize_job_set (job_status_as_str s) (int at))"
  assume j: "j \<in> set (delivery_jobs db)" "j_job_id j = jid"
    and db': "db' = finalized_db db jid (job_status_as_str s) (int at)" "tables_inv db'"
    and r: "r = job_record (?g j) (targets_of db jid)"
  show thesis
    using j db' r by (intro that [of "?g j"])
      (auto simp: finalized_db_def upd_row_def finalize_job_set_def targets_of_def attempts_of_def fun_eq_iff)
next
  fix j assume "j \<in> set (delivery_jobs db)" "j_job_id j = jid" "db' = db" "r = job_record j (targets_of db jid)"
  with assms(1) show thesis by (intro that) auto
qed

lemma settles_rows:
  assumes inv: "tables_inv db" and s: "settles db j t a terminal reason jitter at r db'"
  obtains k t' a' next_at where "tables_inv db'" "k \<in> set (delivery_jobs db')" "j_job_id k = j_job_id j"
    "r = job_record k (targets_of db' (j_job_id j))" "t' \<in> set (targets_of db' (j_job_id j))"
    "t' = resolve_target_set (resolved_target_status (j_max_attempts j) (t_attempt_count t) (attempt_status_as_str terminal))
       (map_option int next_at) (int at) t"
    "a' = resolve_attempt_set (attempt_status_as_str terminal) (int at) reason a"
    "a' \<in> set (attempts_of db' (j_job_id j) (t_target_index t))"
    "terminal \<in> {AttemptDelivered, AttemptFailed, AttemptUnknown}"
    "retry_schedule (job_record j (targets_of db (j_job_id j)))
       (t_attempt_count t < j_max_attempts j \<and> terminal \<noteq> AttemptDelivered) (nat (a_attempt_number a)) jitter at next_at"
proof -
  note S = s [unfolded settles_def]
  from S obtain db1 where res: "resolve_attempt_and_target db (job_record j (targets_of db (j_job_id j)))
      (target_record t) (attempt_record a) (ar_status (attempt_record a)) terminal reason jitter at = Inr db1"
    and fin: "finalize_job_if_terminal db1 (j_job_id j) at = Inr (r, db')"
    by (auto elim: r_bind_InrE)
  from S have t: "t \<in> set (targets_of db (j_job_id j))" and a: "a \<in> set (attempts_of db (j_job_id j) (t_target_index t))"
    and act: "t_active_attempt_id t = Some (a_attempt_id a)" by blast+
  obtain ts next_at where e: "tables_inv db1" "terminal \<in> {AttemptDelivered, AttemptFailed, AttemptUnknown}"
    "db1 = resolved_db db (j_job_id j) (t_target_index t) (a_attempt_id a) (a_status a)
       (attempt_status_as_str terminal) (int at) reason ts (map_option int next_at)"
    "ts = resolved_target_status (j_max_attempts j) (t_attempt_count t) (attempt_status_as_str terminal)"
    "retry_schedule (job_record j (targets_of db (j_job_id j)))
       (t_attempt_count t < j_max_attempts j \<and> terminal \<noteq> AttemptDelivered) (nat (a_attempt_number a)) jitter at next_at"
    "t_status t = a_status a"
    using resolve_effect [OF inv _ refl _ _ _ _ _ res] S by metis
  obtain k where k: "tables_inv db'" "k \<in> set (delivery_jobs db')" "j_job_id k = j_job_id j"
    "r = job_record k (targets_of db' (j_job_id j))" "targets_of db' = targets_of db1" "attempts_of db' = attempts_of db1"
    using finalize_result [OF e(1) fin] by metis
  have a': "resolve_attempt_set (attempt_status_as_str terminal) (int at) reason a
      \<in> set (attempts_of db1 (j_job_id j) (t_target_index t))"
    using a by (force simp: e(3) resolved_db_def attempts_of_def upd_row_def statement_defs)
  have t': "resolve_target_set ts (map_option int next_at) (int at) t \<in> set (targets_of db1 (j_job_id j))"
  proof -
    have "resolve_target_where (j_job_id j) (t_target_index t) (a_attempt_id a) (a_status a) t"
      using t act e(6) by (simp add: statement_defs targets_of_def)
    then have "upd_row (resolve_target_where (j_job_id j) (t_target_index t) (a_attempt_id a) (a_status a))
        (resolve_target_set ts (map_option int next_at) (int at)) t
      = resolve_target_set ts (map_option int next_at) (int at) t" by (simp add: upd_row_def)
    with t show ?thesis unfolding e(3) resolved_db_targets_of by (metis imageI list.set_map)
  qed
  from k(1-4) t' a' e(2,4,5) show thesis unfolding k(5,6) [symmetric]
    by (intro that [OF k(1-4) _ refl refl]) auto
qed

text \<open>
  Recording an outcome is idempotent: repeating a transaction that committed returns the same job and
  changes nothing.
\<close>

theorem record_outcome_replay:
  assumes "delivery_reachable sha db" and "record_outcome db jid relay aid outcome jitter at = Inr (job, db')"
  shows "record_outcome db' jid relay aid outcome jitter at = Inr (job, db')"
proof (rule record_outcome_effect [OF reachable_tables [OF assms(1)] assms(2)])
  assume "db' = db"
  with assms(2) show ?thesis by simp
next
  fix j t a
  assume id: "j_job_id j = jid" "t_relay_id t = relay" "a_attempt_id a = aid"
    and s: "settles db j t a (outcome_status outcome) (outcome_reason outcome) jitter at job db'"
  from reachable_tables [OF assms(1)] s
  obtain k t' a' next_at where R: "tables_inv db'" "k \<in> set (delivery_jobs db')" "j_job_id k = j_job_id j"
    "job = job_record k (targets_of db' (j_job_id j))" "t' \<in> set (targets_of db' (j_job_id j))"
    and t': "t' = resolve_target_set (resolved_target_status (j_max_attempts j) (t_attempt_count t)
        (attempt_status_as_str (outcome_status outcome))) (map_option int next_at) (int at) t"
    and a': "a' = resolve_attempt_set (attempt_status_as_str (outcome_status outcome)) (int at) (outcome_reason outcome) a"
      "a' \<in> set (attempts_of db' (j_job_id j) (t_target_index t))"
    by (rule settles_rows)
  have "t_relay_id t' = t_relay_id t" "t_target_index t' = t_target_index t"
    by (simp_all add: t' resolve_target_set_def)
  then have F: "require_job db' jid = Inr job" "target_by_relay job relay = Inr (target_record t')"
    "require_attempt db' jid (tr_index (target_record t')) aid = Inr (attempt_record a')"
    using rows_found [OF R(1,2), of t' a'] R a' id by (simp_all add: resolve_attempt_set_def)
  have "ar_status (attempt_record a') = outcome_status outcome" "ar_reason (attempt_record a') = Some (outcome_reason outcome)"
    "ar_resolved_at (attempt_record a') = Some at"
    by (simp_all add: a'(1) resolve_attempt_set_def attempt_record_def)
  moreover have "outcome_status outcome \<in> {AttemptDelivered, AttemptFailed, AttemptUnknown}" by (cases outcome) auto
  ultimately show ?thesis unfolding record_outcome_def F r_bind_simps by simp
qed

theorem record_outcome_replay_witness:
  "\<exists>job. record_outcome ex_db4 (ex_id 2) ''r1'' (ex_id 3) OutcomeDelivered 0 4000 = Inr (job, ex_db4)"
  using ex_outcome record_outcome_replay [OF ex_reach3] by blast

text \<open>
  Creating a job is idempotent: repeating a creation that committed reports an exact replay of the same
  job and changes nothing.
\<close>

theorem create_job_replay:
  assumes "delivery_reachable sha db" and "policies_valid policy" and "relays_valid policy"
    and "create_job sha db source artifact at policy = Inr (Created job, db')"
  shows "create_job sha db' source artifact at policy = Inr (JobExactReplay job, db')"
  using assms(4)
proof (cases rule: create_job_effect)
  case (created job')
  let ?jid = "derive_job_id sha source artifact"
  let ?j = "new_job_row ?jid source artifact at policy" and ?ts = "created_rows ?jid 0 (dp_targets policy) at"
  have inv: "delivery_inv db'" using create_job_inv [OF reachable_inv [OF assms(1)] assms(4,2,3)] .
  then have tab: "tables_inv db'" by (rule delivery_inv_tables)
  have j: "?j \<in> set (delivery_jobs db')" "j_job_id ?j = ?jid" by (simp_all add: created(5) created_db_def new_job_row_def)
  have job: "job = job_record ?j (targets_of db' ?jid)"
    using read_job_present(2) [OF tab j(1)] created(1,7) j(2) by simp
  have "filter (\<lambda>r. (j_source_kind r, j_source_id r) = (j_source_kind ?j, j_source_id ?j)) (delivery_jobs db') = [?j]"
    using filter_unique [OF tables_invD(2) [OF tab] j(1)] by simp
  then have rows: "filter (\<lambda>r. j_source_kind r = source_kind_as_str (src_kind source) \<and> j_source_id r = src_id source)
      (delivery_jobs db') = [?j]" by (simp add: new_job_row_def)
  have src: "jr_source job = source" by (simp add: job job_record_def new_job_row_def)
  have read: "read_job_by_source db' source = Inr (Some job)"
    using read_job_rows_inv [OF tables_invD(7) [OF tab j(1)]] src
    by (simp add: read_job_by_source_def rows job j(2))
  have tgt: "targets_of db' ?jid = ?ts"
  proof -
    have old: "t_job_id q \<noteq> ?jid" if "q \<in> set (delivery_targets db)" for q
      using tables_invD(5) [OF reachable_tables [OF assms(1)] that] created(4)
      by (auto simp: job_insert_legal_def list_all_iff new_job_row_def)
    then show ?thesis
      using created_row_fields(1) [of _ ?jid 0 "dp_targets policy" at]
      by (auto simp: targets_of_def created(5) created_db_def filter_empty_conv filter_id_conv)
  qed
  have "list_all (\<lambda>(actual, expected). tr_relay_id actual = tp_relay_id expected \<and> tr_required actual = tp_required expected)
      (zip (map target_record (created_rows jid k ps at)) ps)" for jid k ps
    by (induction ps arbitrary: k) (auto simp: created_rows_def new_target_row_def target_record_def)
  moreover have "length ?ts = length (dp_targets policy)" by (simp add: created_rows_def)
  ultimately have "exact_job job source artifact at policy"
    by (simp add: exact_job_def src) (simp add: job tgt job_record_def new_job_row_def)
  then show ?thesis by (simp add: create_job_def read)
qed simp

theorem create_job_replay_witness:
  "create_job ex_sha ex_db1 ex_source (ex_id 2) 1000 ex_policy = Inr (JobExactReplay (job_record ex_job [ex_target]), ex_db1)"
proof -
  have "delivery_reachable ex_sha ex_db0"
    unfolding delivery_reachable_def by (intro exI [of _ ex_db0]) (simp add: delivery_init_def ex_db0_def)
  moreover have "policies_valid ex_policy" "relays_valid ex_policy"
    by (simp_all add: ex_policy_def policies_valid_def relays_valid_def ex_relay)
  ultimately show ?thesis using create_job_replay ex_create by blast
qed

lemma read_attempt_by_nonce_present:
  assumes inv: "tables_inv db" and ti: "target_inv m t (attempts_of db jid (int i))" and a: "a \<in> set (attempts_of db jid (int i))"
  shows "read_attempt_by_nonce db jid i (a_attempt_nonce a) = Inr (Some (attempt_record a))"
proof -
  have "distinct (map a_attempt_nonce (attempts_of db jid (int i)))" using target_invD(2) [OF ti] by (simp add: history_inv_def)
  from filter_unique [OF this a]
  have "filter (\<lambda>r. a_job_id r = jid \<and> a_target_index r = int i \<and> a_attempt_nonce r = a_attempt_nonce a) (delivery_attempts db) = [a]"
    by (simp add: attempts_of_def conj_assoc conj_commute conj_left_commute)
  then show ?thesis
    using one_attempt_single [OF tables_invD(4) [OF inv attempts_of_subset [OF a]]] by (simp add: read_attempt_by_nonce_def)
qed

text \<open>
  Claiming is idempotent: repeating a granted claim with the same nonce returns the same lease as an exact
  replay and changes nothing, so a crash between commit and reply does not consume a second attempt.
\<close>

theorem claim_replay:
  assumes "delivery_reachable sha db" and "claim_target sha db jid relay nonce at = Inr (Claimed attempt, db')"
  shows "claim_target sha db' jid relay nonce at' = Inr (ClaimExactReplay attempt, db')"
proof (rule claim_target_claims [OF reachable_tables [OF assms(1)] assms(2)])
  fix j t
  let ?a = "claimed_attempt sha j t nonce at"
  let ?g = "upd_row (mark_job_active_where (j_job_id j)) (mark_job_active_set (int at))"
  let ?h = "upd_row (claim_target_where (j_job_id j) (t_target_index t) (t_attempt_count t))
    (claim_target_set (t_attempt_count t + 1) (a_attempt_id ?a) (int at))"
  assume id: "j_job_id j = jid" "t_relay_id t = relay" and c: "claims sha db j t nonce at"
    and db': "db' = claimed_db db ?a (int at)" and at: "Claimed attempt = Claimed (attempt_record ?a)"
  note C = c [unfolded claims_def]
  have tok: "target_ok t" using C target_invD(1) by blast
  note af = claimed_attempt_fields [OF tok, of sha j nonce at]
  have tab: "tables_inv db'" unfolding db' by (rule claimed_db_tables [OF reachable_tables [OF assms(1)] c])
  have j: "?g j \<in> set (delivery_jobs db')" "j_job_id (?g j) = jid" "j_status (?g j) \<in> {''pending'', ''active''}"
    using C id(1) by (auto simp: db' claimed_db_def af upd_row_def statement_defs)
  have t: "?h t \<in> set (targets_of db' jid)" "t_relay_id (?h t) = relay" "t_target_index (?h t) = t_target_index t"
    using C id by (auto simp: db' claimed_db_targets_of af upd_row_def statement_defs)
  have a: "?a \<in> set (attempts_of db' jid (t_target_index t))" using id(1) by (simp add: db' claimed_db_attempts_of af)
  have ti: "target_inv (j_max_attempts (?g j)) (?h t) (attempts_of db' jid (t_target_index t))"
    using job_inv_coreD(5) [OF tables_invD(7) [OF tab j(1)]] t(1,3) j(2) by metis
  have F: "require_job db' jid = Inr (job_record (?g j) (targets_of db' jid))"
    "target_by_relay (job_record (?g j) (targets_of db' jid)) relay = Inr (target_record (?h t))"
    using rows_found(1,2) [OF tab j(1), of "?h t" ?a] t a j(2) by simp_all
  have idx: "int (tr_index (target_record (?h t))) = t_target_index t"
    using target_record_index [OF target_invD(1) [OF ti]] t(3) by simp
  have nonce: "read_attempt_by_nonce db' jid (tr_index (target_record (?h t))) nonce = Inr (Some (attempt_record ?a))"
    using read_attempt_by_nonce_present [OF tab, of "j_max_attempts (?g j)" "?h t" jid
        "tr_index (target_record (?h t))" ?a] ti a af(4) unfolding idx by simp
  have openj: "jr_status (job_record (?g j) (targets_of db' jid)) \<notin> {JobDelivered, JobFailed, JobUnknown}"
    using open_job_status [OF job_inv_coreD(1) [OF tables_invD(7) [OF tab j(1)]]] j(3) by blast
  show ?thesis
    unfolding claim_target_def F r_bind_simps if_not_P [OF openj] nonce option.case using at by simp
qed auto

theorem claim_replay_witness:
  "claim_target ex_sha ex_db2 (ex_id 2) ''r1'' (ex_id 3) 9000 = Inr (ClaimExactReplay (attempt_record ex_attempt), ex_db2)"
  using claim_replay [OF ex_reach1 ex_claim] .

text \<open>
  Marking an attempt submitted is idempotent: repeating it with the same time returns the same attempt and
  changes nothing; any other time is refused.
\<close>

theorem mark_submitted_replay:
  assumes "delivery_reachable sha db" and "mark_submitted db jid relay aid at = Inr (attempt, db')"
  shows "mark_submitted db' jid relay aid at' = (if at' = at then Inr (attempt, db') else Inl Binding)"
  using mark_submitted_reads [OF assms] by (auto simp: mark_submitted_def)

theorem mark_submitted_replay_witness:
  "mark_submitted ex_db3 (ex_id 2) ''r1'' (ex_id 3) 3000 = Inr (attempt_record ex_attempt3, ex_db3)
   \<and> mark_submitted ex_db3 (ex_id 2) ''r1'' (ex_id 3) 3001 = Inl Binding"
  using mark_submitted_replay [OF ex_reach2 ex_submit, of 3000] mark_submitted_replay [OF ex_reach2 ex_submit, of 3001]
  by simp

end
