(* ===== verification/Delivery_Recovery.thy ===== *)
theory Delivery_Recovery
  imports Delivery_Example
begin

text \<open>
  The restart recovery of \<^verbatim>\<open>src/src/state_recovery.rs\<close> for the delivery tables: the integrity check of
  the attempt histories, the deterministic jitter, the recovery of expired leases of one job, the
  classification of its targets and the report. The pagination over jobs and the checks of the
  retained artifacts belong to the response and discovery state and are not modelled here.
\<close>

section \<open>Report\<close>

record MycDeliveryRecoveryReport =
  rr_examined_jobs :: nat
  rr_recovered_expired_attempts :: nat
  rr_finalized_jobs :: nat
  rr_promoted_discovery_generations :: nat
  rr_ready_targets :: nat
  rr_scheduled_targets :: nat
  rr_active_targets :: nat
  rr_continuation :: "bytes option"

definition increment :: "nat \<Rightarrow> (OperationError, nat) result" where
  "increment value = ok_or Binding (checked_add_u32 value 1)"

definition add_counts :: "nat \<Rightarrow> nat \<Rightarrow> (OperationError, nat) result" where
  "add_counts left right = ok_or Binding (checked_add_u32 left right)"

definition report_empty :: MycDeliveryRecoveryReport where
  "report_empty = \<lparr>rr_examined_jobs = 0, rr_recovered_expired_attempts = 0, rr_finalized_jobs = 0,
     rr_promoted_discovery_generations = 0, rr_ready_targets = 0, rr_scheduled_targets = 0,
     rr_active_targets = 0, rr_continuation = None\<rparr>"

definition report_merge ::
    "MycDeliveryRecoveryReport \<Rightarrow> MycDeliveryRecoveryReport
      \<Rightarrow> (OperationError, MycDeliveryRecoveryReport) result" where
  "report_merge self batch =
     r_bind (add_counts (rr_examined_jobs self) (rr_examined_jobs batch)) (\<lambda>examined_jobs.
     r_bind (add_counts (rr_recovered_expired_attempts self) (rr_recovered_expired_attempts batch)) (\<lambda>recovered.
     r_bind (add_counts (rr_finalized_jobs self) (rr_finalized_jobs batch)) (\<lambda>finalized_jobs.
     r_bind (add_counts (rr_promoted_discovery_generations self) (rr_promoted_discovery_generations batch)) (\<lambda>promoted.
     r_bind (add_counts (rr_ready_targets self) (rr_ready_targets batch)) (\<lambda>ready_targets.
     r_bind (add_counts (rr_scheduled_targets self) (rr_scheduled_targets batch)) (\<lambda>scheduled_targets.
     r_bind (add_counts (rr_active_targets self) (rr_active_targets batch)) (\<lambda>active_targets.
     Inr \<lparr>rr_examined_jobs = examined_jobs, rr_recovered_expired_attempts = recovered,
       rr_finalized_jobs = finalized_jobs, rr_promoted_discovery_generations = promoted,
       rr_ready_targets = ready_targets, rr_scheduled_targets = scheduled_targets,
       rr_active_targets = active_targets, rr_continuation = rr_continuation batch\<rparr>)))))))"

definition is_terminal :: "MycDeliveryJobStatus \<Rightarrow> bool" where
  "is_terminal status \<longleftrightarrow> status \<in> {JobDelivered, JobFailed, JobUnknown}"

fun classify_targets ::
    "MycDeliveryTargetRecord list \<Rightarrow> nat \<Rightarrow> MycDeliveryRecoveryReport
      \<Rightarrow> (OperationError, MycDeliveryRecoveryReport) result" where
  "classify_targets [] observed_at report = Inr report"
| "classify_targets (target # targets) observed_at report =
     r_bind (case tr_status target of
         TargetPending \<Rightarrow>
           r_bind (increment (rr_ready_targets report)) (\<lambda>n. Inr (report\<lparr>rr_ready_targets := n\<rparr>))
       | TargetLeased \<Rightarrow>
           r_bind (increment (rr_active_targets report)) (\<lambda>n. Inr (report\<lparr>rr_active_targets := n\<rparr>))
       | TargetSubmitted \<Rightarrow>
           r_bind (increment (rr_active_targets report)) (\<lambda>n. Inr (report\<lparr>rr_active_targets := n\<rparr>))
       | TargetDelivered \<Rightarrow> Inr report
       | TargetExhausted \<Rightarrow> Inr report
       | _ \<Rightarrow> (case tr_next_attempt_at target of
             Some next_at \<Rightarrow>
               if observed_at < next_at
               then r_bind (increment (rr_scheduled_targets report)) (\<lambda>n. Inr (report\<lparr>rr_scheduled_targets := n\<rparr>))
               else r_bind (increment (rr_ready_targets report)) (\<lambda>n. Inr (report\<lparr>rr_ready_targets := n\<rparr>))
           | None \<Rightarrow> Inr report))
     (classify_targets targets observed_at)"

section \<open>Integrity of the attempt histories\<close>

fun validate_targets ::
    "delivery_db \<Rightarrow> bytes \<Rightarrow> MycDeliveryTargetRecord list \<Rightarrow> (OperationError, unit) result" where
  "validate_targets db job_id [] = Inr ()"
| "validate_targets db job_id (target # targets) =
     r_bind (read_attempts db job_id (tr_index target)) (\<lambda>attempts.
     if tr_attempt_count target \<noteq> length attempts
        \<or> list_ex (\<lambda>(index, attempt). ar_number attempt \<noteq> index + 1) (enumerate 0 attempts)
     then Inl Binding
     else if tr_status target \<in> {TargetLeased, TargetSubmitted}
     then (if attempts = [] then Inl Binding
       else if tr_active_attempt_id target \<noteq> Some (ar_id (last attempts))
          \<or> ar_status (last attempts)
              \<noteq> (if tr_status target = TargetLeased then AttemptLeased else AttemptSubmitted)
       then Inl Binding else validate_targets db job_id targets)
     else if attempts \<noteq> [] \<and> ar_status (last attempts) \<in> {AttemptLeased, AttemptSubmitted}
     then Inl Binding else validate_targets db job_id targets)"

definition validate_attempt_histories ::
    "delivery_db \<Rightarrow> MycDeliveryJobRecord \<Rightarrow> (OperationError, unit) result" where
  "validate_attempt_histories db job = validate_targets db (jr_id job) (jr_targets job)"

section \<open>Expired leases of one job\<close>

definition RECOVERY_JITTER_DOMAIN :: bytes where
  "RECOVERY_JITTER_DOMAIN = str_bytes ''radroots.myc.delivery_recovery_jitter.v1'' @ [0]"

definition recovery_jitter ::
    "(bytes \<Rightarrow> bytes) \<Rightarrow> MycDeliveryJobRecord \<Rightarrow> bytes \<Rightarrow> nat \<Rightarrow> bytes \<Rightarrow> (OperationError, nat) result" where
  "recovery_jitter sha job attempt_id attempt_number entropy =
     (let exponent = min (attempt_number - 1) 31;
          factor = (case checked_shl_1_u64 exponent of Some f \<Rightarrow> f | None \<Rightarrow> u64_max);
          maximum = min (saturating_mul_u64 (jr_initial_backoff_ms job) factor) (jr_maximum_backoff_ms job);
          raw = be_value (take 8 (sha (RECOVERY_JITTER_DOMAIN @ entropy @ attempt_id)))
      in r_bind (ok_or Binding (checked_add_u64 maximum 1)) (\<lambda>modulus.
         map_err (\<lambda>_. Binding) (jitter_new (raw mod modulus))))"

text \<open>The loop over the targets of a job: \<open>before\<close> is the job as first read, \<open>current\<close> as last returned.\<close>

fun recover_targets ::
    "(bytes \<Rightarrow> bytes) \<Rightarrow> bytes \<Rightarrow> nat \<Rightarrow> MycDeliveryJobRecord \<Rightarrow> MycDeliveryTargetRecord list
      \<Rightarrow> delivery_db \<Rightarrow> MycDeliveryJobRecord \<Rightarrow> MycDeliveryRecoveryReport
      \<Rightarrow> (OperationError, MycDeliveryRecoveryReport \<times> delivery_db) result" where
  "recover_targets sha entropy observed_at before [] db current report = Inr (report, db)"
| "recover_targets sha entropy observed_at before (target # targets) db current report =
     (case tr_active_attempt_id target of
        None \<Rightarrow> recover_targets sha entropy observed_at before targets db current report
      | Some attempt_id \<Rightarrow>
          r_bind (read_attempts db (jr_id before) (tr_index target)) (\<lambda>attempts.
          if attempts = [] \<or> ar_id (last attempts) \<noteq> attempt_id then Inl Binding
          else if ar_lease_expires_at (last attempts) < observed_at
          then r_bind (recovery_jitter sha current (ar_id (last attempts)) (ar_number (last attempts)) entropy) (\<lambda>jitter.
            r_bind (recover_expired db (jr_id before) (tr_relay_id target) (ar_id (last attempts)) jitter observed_at)
              (\<lambda>(current', db').
            r_bind (increment (rr_recovered_expired_attempts report)) (\<lambda>n.
              recover_targets sha entropy observed_at before targets db' current'
                (report\<lparr>rr_recovered_expired_attempts := n\<rparr>))))
          else recover_targets sha entropy observed_at before targets db current report))"

section \<open>What recovery relies on\<close>

lemma history_numbers:
  assumes "map a_attempt_number hist = map int [1..<Suc (length hist)]"
  shows "\<not> list_ex (\<lambda>(index, attempt). ar_number attempt \<noteq> index + 1) (enumerate 0 (map attempt_record hist))"
proof -
  have "a_attempt_number (hist ! i) = int (Suc i)" if "i < length hist" for i
    using arg_cong [OF assms, of "\<lambda>xs. xs ! i"] that by (simp del: upt_Suc)
  then show ?thesis by (auto simp: list_ex_iff in_set_enumerate_eq)
qed

lemma validate_target_step:
  assumes inv: "tables_inv db" and ti: "target_inv m t (attempts_of db jid (t_target_index t))"
  shows "validate_targets db jid (target_record t # rest) = validate_targets db jid rest"
proof -
  let ?h = "attempts_of db jid (t_target_index t)"
  note T = target_invD [OF ti]
  have idx: "int (tr_index (target_record t)) = t_target_index t" using target_record_index [OF T(1)] .
  have read: "read_attempts db jid (tr_index (target_record t)) = Inr (map attempt_record ?h)"
    using read_attempts_inv [OF inv, of m t jid "tr_index (target_record t)"] ti idx by simp
  have cnt: "tr_attempt_count (target_record t) = length (map attempt_record ?h)" using T(3) by simp
  have num: "\<not> list_ex (\<lambda>(index, attempt). ar_number attempt \<noteq> index + 1) (enumerate 0 (map attempt_record ?h))"
    using T(2) history_numbers unfolding history_inv_def by blast
  show ?thesis
  proof (cases "t_active_attempt_id t")
    case None
    have "tr_status (target_record t) \<notin> {TargetLeased, TargetSubmitted}"
      using target_status_text [OF T(1)] T(1) None by (auto simp: target_ok_def delivery_targets_check_def)
    moreover have "\<not> (?h \<noteq> [] \<and> ar_status (attempt_record (last ?h)) \<in> {AttemptLeased, AttemptSubmitted})"
    proof (cases ?h rule: rev_cases)
      case (snoc pre a)
      then have "a \<in> set ?h" by simp
      then have "attempt_ok a" using tables_invD(4) [OF inv] attempts_of_subset by blast
      moreover have "attempt_resolved a"
        using T(6) None snoc by (auto simp: active_projection_snoc split: if_splits)
      ultimately show ?thesis using snoc attempt_status_record [of a] by (auto simp: attempt_resolved_def)
    qed simp
    ultimately show ?thesis using read cnt num by (auto simp: last_map)
  next
    case (Some aid)
    from ti Some obtain pre a where h: "?h = pre @ [a]" "a_attempt_id a = aid" "\<not> attempt_resolved a"
      "t_status t = a_status a" by (rule active_target_history)
    then have "a \<in> set ?h" by simp
    then have ok: "attempt_ok a" using tables_invD(4) [OF inv] attempts_of_subset by blast
    then have st: "a_status a \<in> {''leased'', ''submitted''}"
      using h(3) by (cases rule: attempt_ok_cases) (auto simp: attempt_resolved_def)
    have "tr_status (target_record t) = TargetLeased \<and> ar_status (attempt_record a) = AttemptLeased
      \<or> tr_status (target_record t) = TargetSubmitted \<and> ar_status (attempt_record a) = AttemptSubmitted"
      using st h(4) target_status_texts [OF T(1), of TargetLeased] target_status_texts [OF T(1), of TargetSubmitted]
        attempt_status_record(2,3) [OF ok] by auto
    then show ?thesis using read cnt num h Some by auto
  qed
qed

lemma validate_targets_ok:
  assumes "tables_inv db" and "\<And>t. t \<in> set ts \<Longrightarrow> target_inv m t (attempts_of db jid (t_target_index t))"
  shows "validate_targets db jid (map target_record ts) = Inr ()"
  using assms(2)
proof (induction ts)
  case (Cons t ts)
  then show ?case using validate_target_step [OF assms(1), of m t jid] by simp
qed simp

text \<open>
  C17. The integrity check of restart recovery never rejects a state the program itself produced: in every
  reachable state the attempt histories of every stored job are accepted.
\<close>

theorem reachable_histories_valid:
  assumes "delivery_reachable sha db" and "read_job db jid = Inr (Some job)"
  shows "validate_attempt_histories db job = Inr ()"
proof -
  have "require_job db jid = Inr job" using assms(2) by (simp add: require_job_def)
  with reachable_tables [OF assms(1)] obtain j where j: "j \<in> set (delivery_jobs db)" "j_job_id j = jid"
    "job = job_record j (targets_of db jid)" by (rule require_job_Inr)
  then show ?thesis
    using validate_targets_ok [OF reachable_tables [OF assms(1)], of "targets_of db jid" "j_max_attempts j" jid]
      reachable_target [OF assms(1) j(1)] by (simp add: validate_attempt_histories_def)
qed

theorem reachable_histories_valid_witness:
  "read_job ex_db2 (ex_id 2) = Inr (Some (job_record ex_job2 [ex_target2]))
   \<and> validate_attempt_histories ex_db2 (job_record ex_job2 [ex_target2]) = Inr ()"
proof -
  have "read_job ex_db2 (ex_id 2) = Inr (Some (job_record ex_job2 [ex_target2]))"
    using read_job_present(1) [OF reachable_tables [OF ex_reach2], of ex_job2] by (simp add: ex_proj2)
  with reachable_histories_valid [OF ex_reach2 this] show ?thesis by blast
qed

lemma mod_succ_le: "x mod (m + 1) \<le> (m :: nat)"
  using mod_less_divisor [of "m + 1" x] by linarith

lemma recovery_jitter_value:
  assumes "jr_maximum_backoff_ms job \<le> 300000"
  shows "recovery_jitter sha job aid n entropy
    = Inr (be_value (take 8 (sha (RECOVERY_JITTER_DOMAIN @ entropy @ aid))) mod (maximum_delay job n + 1))"
proof -
  let ?m = "maximum_delay job n"
  have m: "?m \<le> 300000" using assms by (simp add: maximum_delay_def Let_def min_le_iff_disj)
  then have add: "checked_add_u64 ?m 1 = Some (?m + 1)" by (simp add: int_width_defs)
  have "x mod (?m + 1) \<le> 300000" for x using m mod_succ_le [of x ?m] by linarith
  then have j: "jitter_new (x mod (?m + 1)) = Inr (x mod (?m + 1))" for x by (simp add: delivery_limits)
  show ?thesis
    unfolding recovery_jitter_def Let_def maximum_delay_def [unfolded Let_def, symmetric] add ok_or_simps r_bind_simps j
    by simp
qed

lemma reachable_backoff:
  assumes "tables_inv db" and "j \<in> set (delivery_jobs db)"
  shows "jr_maximum_backoff_ms (job_record j ts) \<le> 300000"
  using delivery_jobs_checkD(11) [OF job_inv_coreD(1) [OF tables_invD(7) [OF assms]]] by (simp add: job_record_def)

text \<open>
  The jitter of restart recovery is always defined and never exceeds the exponential backoff of the attempt,
  the bound that the retry schedule enforces.
\<close>

theorem recovery_jitter_bounded:
  assumes "delivery_reachable sha' db" and "read_job db jid = Inr (Some job)"
  shows "\<exists>jitter. recovery_jitter sha job aid n entropy = Inr jitter \<and> jitter \<le> maximum_delay job n"
proof -
  have "require_job db jid = Inr job" using assms(2) by (simp add: require_job_def)
  with reachable_tables [OF assms(1)] obtain j where "j \<in> set (delivery_jobs db)"
    "job = job_record j (targets_of db jid)" by (rule require_job_Inr)
  with reachable_backoff [OF reachable_tables [OF assms(1)]] have "jr_maximum_backoff_ms job \<le> 300000" by simp
  then show ?thesis using recovery_jitter_value mod_succ_le by blast
qed

theorem recovery_jitter_bounded_witness:
  "\<exists>jitter. recovery_jitter ex_sha (job_record ex_job2 [ex_target2]) (ex_id 3) 1 (ex_id 9) = Inr jitter
     \<and> jitter \<le> maximum_delay (job_record ex_job2 [ex_target2]) 1"
proof -
  have "read_job ex_db2 (ex_id 2) = Inr (Some (job_record ex_job2 [ex_target2]))"
    using read_job_present(1) [OF reachable_tables [OF ex_reach2], of ex_job2] by (simp add: ex_proj2)
  from recovery_jitter_bounded [OF ex_reach2 this] show ?thesis by blast
qed

section \<open>The last permitted attempt\<close>

lemma resolve_last_attempt:
  assumes "jr_max_attempts job \<le> tr_attempt_count target" and "jitter \<noteq> 0"
  shows "resolve_attempt_and_target db job target attempt prior terminal reason jitter at \<noteq> Inr db'"
proof
  assume "resolve_attempt_and_target db job target attempt prior terminal reason jitter at = Inr db'"
  then show False
    by (rule resolve_writes [OF _ refl]) (use assms in \<open>auto simp: retry_schedule_def\<close>)
qed

lemma recover_expired_last_attempt:
  assumes inv: "tables_inv db" and j: "j \<in> set (delivery_jobs db)" and t: "t \<in> set (targets_of db (j_job_id j))"
    and a: "a \<in> set (attempts_of db (j_job_id j) (t_target_index t))" "\<not> attempt_resolved a"
    and last: "j_max_attempts j \<le> t_attempt_count t" and jit: "jitter \<noteq> 0"
  shows "\<exists>e. recover_expired db (j_job_id j) (t_relay_id t) (a_attempt_id a) jitter at = Inl e"
proof (cases "recover_expired db (j_job_id j) (t_relay_id t) (a_attempt_id a) jitter at")
  case (Inr x)
  note R = rows_found [OF inv j t a(1)]
  have unres: "ar_status (attempt_record a) \<notin> {AttemptDelivered, AttemptFailed, AttemptUnknown}"
    using attempt_status_record(1) [OF R(4)] a(2) by blast
  have max: "jr_max_attempts (job_record j (targets_of db (j_job_id j))) \<le> tr_attempt_count (target_record t)"
    using last by simp
  from Inr show ?thesis
    unfolding recover_expired_def R(1-3) r_bind_simps if_not_P [OF unres]
    using resolve_last_attempt [OF max jit] by (auto elim!: r_bind_InrE split: if_splits)
qed simp

lemma read_last_attempt:
  assumes inv: "tables_inv db" and j: "j \<in> set (delivery_jobs db)" and t: "t \<in> set (targets_of db (j_job_id j))"
    and a: "a \<in> set (attempts_of db (j_job_id j) (t_target_index t))"
    and act: "t_active_attempt_id t = Some (a_attempt_id a)"
  shows "\<exists>as. read_attempts db (j_job_id j) (tr_index (target_record t)) = Inr (as @ [attempt_record a])"
proof -
  from inv j t a act obtain pre where A: "attempts_of db (j_job_id j) (t_target_index t) = pre @ [a]" "target_ok t"
    "target_inv (j_max_attempts j) t (attempts_of db (j_job_id j) (t_target_index t))" by (rule active_attempt_row)
  then show ?thesis
    using read_attempts_inv [OF inv, of "j_max_attempts j" t "j_job_id j" "tr_index (target_record t)"]
      target_record_index [OF A(2)] by auto
qed

text \<open>
  C18. Restart recovery fails on an expired lease of the last permitted attempt whenever its jitter is not zero.
  \<open>recovery_jitter\<close> does not look at the number of permitted attempts, unlike \<open>delivery_retry_jitter\<close> of the
  worker, and \<open>resolve_attempt_and_target\<close> refuses a jitter when no retry follows. The jitter is uniform over
  the backoff, so it is almost never zero, and the failure aborts the whole recovery transaction.
\<close>

theorem recovery_of_last_attempt_fails:
  assumes "delivery_reachable sha db" and "j \<in> set (delivery_jobs db)" and "t \<in> set (targets_of db (j_job_id j))"
    and "a \<in> set (attempts_of db (j_job_id j) (t_target_index t))"
    and "t_active_attempt_id t = Some (a_attempt_id a)" and "t_attempt_count t = j_max_attempts j"
    and "a_lease_expires_at_unix_ms a < int at"
    and "recovery_jitter sha (job_record j (targets_of db (j_job_id j))) (a_attempt_id a)
      (nat (a_attempt_number a)) entropy = Inr jitter" and "jitter \<noteq> 0"
  shows "\<exists>e. recover_targets sha entropy at (job_record j (targets_of db (j_job_id j)))
    (target_record t # rest) db (job_record j (targets_of db (j_job_id j))) report = Inl e"
proof -
  note inv = reachable_tables [OF assms(1)]
  from inv assms(2-5) have st: "a_status a \<in> {''leased'', ''submitted''}" and ok: "attempt_ok a"
    by (rule active_attempt_row, blast)+
  then have unres: "\<not> attempt_resolved a" by (auto simp: attempt_resolved_def)
  obtain as where read: "read_attempts db (j_job_id j) (tr_index (target_record t)) = Inr (as @ [attempt_record a])"
    using read_last_attempt [OF inv assms(2-5)] by blast
  obtain e where "recover_expired db (j_job_id j) (t_relay_id t) (a_attempt_id a) jitter at = Inl e"
    using recover_expired_last_attempt [OF inv assms(2-4) unres _ assms(9)] assms(6) by auto
  moreover have "nat (a_lease_expires_at_unix_ms a) < at"
    using assms(7) attempt_ok_base(8,10) [OF ok] by linarith
  ultimately show ?thesis using assms(5,8) read by simp
qed

text \<open>The run of the example with a single permitted attempt.\<close>

definition exl_policy :: MycDeliveryPolicies where "exl_policy = ex_policy\<lparr>dp_max_attempts := 1\<rparr>"
definition exl_job :: job_row where "exl_job = ex_job\<lparr>j_max_attempts := 1\<rparr>"
definition exl_job2 :: job_row where "exl_job2 = ex_job2\<lparr>j_max_attempts := 1\<rparr>"
definition exl_db1 :: delivery_db where "exl_db1 = ex_db1\<lparr>delivery_jobs := [exl_job]\<rparr>"
definition exl_db2 :: delivery_db where "exl_db2 = ex_db2\<lparr>delivery_jobs := [exl_job2]\<rparr>"

lemmas exl_defs = exl_policy_def exl_job_def exl_job2_def exl_db1_def exl_db2_def

lemma exl_reach1: "delivery_reachable ex_sha exl_db1"
proof -
  have ok: "policies_valid exl_policy" "relays_valid exl_policy"
    by (simp_all add: exl_defs ex_policy_def policies_valid_def relays_valid_def ex_relay)
  have "delivery_inv ex_db0" by (rule delivery_inv_init) (simp add: delivery_init_def ex_db0_def)
  moreover have "create_input_ok ex_sha ex_db0 ex_source (ex_id 2) 1000 exl_policy"
    using ok by (simp add: create_input_ok_def ex_ids)
      (simp add: exl_defs ex_policy_def ex_source_def ex_db0_def active_job_count_def valid_time_def int_width_defs)
  moreover have "exl_job = new_job_row (ex_id 2) ex_source (ex_id 2) 1000 exl_policy"
    by (simp add: new_job_row_def exl_defs ex_rows ex_policy_def ex_source_def)
  moreover have "[ex_target] = created_rows (ex_id 2) 0 (dp_targets exl_policy) 1000"
    by (simp add: created_rows_def new_target_row_def exl_defs ex_rows ex_policy_def)
  moreover have "exl_db1 = created_db ex_db0 exl_job [ex_target]" by (simp add: created_db_def ex_dbs exl_defs)
  ultimately have "create_job ex_sha ex_db0 ex_source (ex_id 2) 1000 exl_policy
    = Inr (Created (job_record exl_job [ex_target]), exl_db1)"
    by (metis create_job_ready ex_ids(1))
  with ok have "delivery_step ex_sha ex_db0 exl_db1" by (blast intro: delivery_step.create)
  then show ?thesis
    unfolding delivery_reachable_def by (intro exI [of _ ex_db0]) (simp add: delivery_init_def ex_db0_def)
qed

lemma exl_reach2: "delivery_reachable ex_sha exl_db2"
proof -
  have "claim_input_ok ex_sha exl_db1 exl_job ex_target (ex_id 3) 2000"
    by (simp add: claim_input_ok_def attempts_of_def ex_dbs ex_rows exl_defs ex_ids int_width_defs)
  moreover have "target_ready exl_job ex_target 2000" by (simp add: target_ready_def ex_rows exl_defs)
  moreover have "ex_target \<in> set (targets_of exl_db1 (j_job_id exl_job))" "exl_job \<in> set (delivery_jobs exl_db1)"
    by (simp_all add: targets_of_def ex_dbs exl_db1_def) (simp add: ex_rows exl_defs)
  moreover have a: "claimed_attempt ex_sha exl_job ex_target (ex_id 3) 2000 = ex_attempt"
    by (simp add: claimed_attempt_def new_attempt_row_def ex_ids ex_rows exl_defs)
  moreover have "claimed_db exl_db1 ex_attempt (int 2000) = exl_db2"
    by (simp add: claimed_db_def exl_db1_def exl_db2_def ex_dbs upd_row_def statement_defs) (simp add: ex_rows exl_defs)
  ultimately have "claim_target ex_sha exl_db1 (j_job_id exl_job) (t_relay_id ex_target) (ex_id 3) 2000
      = Inr (Claimed (attempt_record ex_attempt), exl_db2)"
    using claim_target_ready [OF reachable_tables [OF exl_reach1], of exl_job ex_target 2000 ex_sha "ex_id 3"] by simp
  then show ?thesis using reachable_step [OF exl_reach1 delivery_step.claim] by blast
qed

lemma exl_jitter: "recovery_jitter ex_sha (job_record exl_job2 ts) (ex_id 3) 1 entropy = Inr 3"
proof -
  have sha: "ex_sha (RECOVERY_JITTER_DOMAIN @ entropy @ ex_id 3) = ex_id 3" by (simp add: ex_sha_def)
  have "take 8 (ex_id 3) = replicate 7 0 @ [3]" by (simp add: ex_id_def)
  moreover have "be_value (replicate n 0) = 0" for n by (induction n) (simp_all add: be_value_def)
  ultimately have "be_value (take 8 (ex_id 3)) = 3" by (simp only: be_value_snoc) simp
  moreover have "maximum_delay (job_record exl_job2 ts) 1 = 100"
    by (simp add: maximum_delay_def job_record_def exl_defs ex_rows checked_shl_1_u64_def saturating_mul_u64_def int_width_defs)
  moreover have "jr_maximum_backoff_ms (job_record exl_job2 ts) \<le> 300000" by (simp add: job_record_def exl_defs ex_rows)
  ultimately show ?thesis by (simp add: recovery_jitter_value sha)
qed

theorem recovery_of_last_attempt_fails_witness:
  "\<exists>e. recover_targets ex_sha (ex_id 9) 8000 (job_record exl_job2 (targets_of exl_db2 (j_job_id exl_job2)))
    [target_record ex_target2] exl_db2 (job_record exl_job2 (targets_of exl_db2 (j_job_id exl_job2))) report_empty = Inl e"
proof (rule recovery_of_last_attempt_fails [OF exl_reach2])
  show "recovery_jitter ex_sha (job_record exl_job2 (targets_of exl_db2 (j_job_id exl_job2))) (a_attempt_id ex_attempt)
      (nat (a_attempt_number ex_attempt)) (ex_id 9) = Inr 3"
    using exl_jitter by (simp add: ex_proj2) (simp add: ex_rows)
qed (simp_all add: targets_of_def attempts_of_def exl_db2_def ex_dbs, simp_all add: ex_rows exl_defs)

end
