(* ===== verification/Delivery_Worker.thy ===== *)
theory Delivery_Worker
  imports Delivery_Recovery
begin

text \<open>
  The delivery worker of \<^verbatim>\<open>src/src/delivery_worker.rs\<close>: claim a target, check the retained bytes, prepare,
  mark submitted, send, record the outcome. What the worker calls outside the delivery state are
  parameters: the retained bytes of a job (\<open>read_nip46_response\<close> and \<open>read_discovery_document_for_job\<close>),
  the relay adapter (\<open>prepare\<close>, \<open>execute\<close>), the hash, hexadecimal encoding (crate \<open>hex\<close>) and what the
  cancellation token shows at its two tests. Each repository call is one transaction.
\<close>

datatype MycDeliveryWorkerErrorKind = WorkerConfiguration | WorkerState | WorkerArtifact

datatype MycDeliveryWorkerResult = WorkerCompleted MycDeliveryJobRecord | WorkerExactReplay
  | WorkerNotReady | WorkerTerminal

datatype MycRelayExecutionOutcome = RelayAccepted | RelayExecutionRejected | RelayTransportFailed
  | RelayUnknownAcknowledgement

record MycDeliveryExecutionEvidence =
  claimed_at :: nat
  submitted_at :: nat
  observed_at :: nat
  retry_entropy :: bytes

definition delivery_retry_jitter ::
    "MycDeliveryJobRecord \<Rightarrow> nat \<Rightarrow> MycDeliveryAttemptOutcome \<Rightarrow> bytes
      \<Rightarrow> (MycDeliveryWorkerErrorKind, nat) result" where
  "delivery_retry_jitter job attempt_number outcome entropy =
     (if outcome = OutcomeDelivered \<or> jr_max_attempts job \<le> attempt_number
      then map_err (\<lambda>_. WorkerState) (jitter_new 0)
      else
        let exponent = min (attempt_number - 1) 31;
            factor = (case checked_shl_1_u64 exponent of Some f \<Rightarrow> f | None \<Rightarrow> u64_max);
            maximum = min (saturating_mul_u64 (jr_initial_backoff_ms job) factor) (jr_maximum_backoff_ms job);
            jitter = be_value entropy mod ((maximum + 1) mod 2 ^ 64)
        in map_err (\<lambda>_. WorkerState) (jitter_new jitter))"

definition request_id :: "(bytes \<Rightarrow> string) \<Rightarrow> bytes \<Rightarrow> bytes \<Rightarrow> string" where
  "request_id hex job_id attempt_id = hex job_id @ '':'' @ hex attempt_id"

text \<open>
  \<open>stored\<close> is what the repository returns for the job: an error, nothing, or the retained bytes. Its properties here hold for
  every such function; \<open>retained_bytes\<close> of \<open>Response_State\<close> is the one the worker uses.
\<close>

definition read_exact_event ::
    "(bytes \<Rightarrow> bytes) \<Rightarrow> (OperationError, bytes option) result \<Rightarrow> MycDeliveryJobRecord
      \<Rightarrow> (MycDeliveryWorkerErrorKind, bytes) result" where
  "read_exact_event sha stored job =
     r_bind (map_err (\<lambda>_. WorkerState) stored) (\<lambda>found.
     r_bind (ok_or WorkerArtifact found) (\<lambda>content.
     if sha content \<noteq> jr_artifact_digest job then Inl WorkerArtifact else Inr content))"

definition relay_outcome :: "MycRelayExecutionOutcome \<Rightarrow> MycDeliveryAttemptOutcome" where
  "relay_outcome outcome = (case outcome of
       RelayAccepted \<Rightarrow> OutcomeDelivered
     | RelayExecutionRejected \<Rightarrow> RelayRejected
     | RelayTransportFailed \<Rightarrow> TransportFailed
     | RelayUnknownAcknowledgement \<Rightarrow> UnknownAcknowledgement)"

text \<open>
  What a run does: its result, the database it leaves, and what the adapter executed, with the database
  at that moment.
\<close>

record worker_run =
  run_result :: "(MycDeliveryWorkerErrorKind, MycDeliveryWorkerResult) result"
  run_db :: delivery_db
  run_sent :: "(string \<times> bytes \<times> delivery_db) option"

definition persist_outcome ::
    "PersistedMetadata \<Rightarrow> delivery_db \<Rightarrow> string \<Rightarrow> MycDeliveryAttemptOutcome \<Rightarrow> MycDeliveryJobRecord
      \<Rightarrow> MycDeliveryAttemptRecord \<Rightarrow> MycDeliveryExecutionEvidence \<Rightarrow> (string \<times> bytes \<times> delivery_db) option
      \<Rightarrow> worker_run" where
  "persist_outcome expected db relay_id outcome job attempt evidence sent =
     (case delivery_retry_jitter job (ar_number attempt) outcome (retry_entropy evidence) of
        Inl e \<Rightarrow> \<lparr>run_result = Inl e, run_db = db, run_sent = sent\<rparr>
      | Inr jitter \<Rightarrow>
          (case record_delivery_attempt_outcome expected db (jr_id job) relay_id (ar_id attempt) outcome
              jitter (observed_at evidence) of
             Inl _ \<Rightarrow> \<lparr>run_result = Inl WorkerState, run_db = db, run_sent = sent\<rparr>
           | Inr (record, db') \<Rightarrow>
               \<lparr>run_result = Inr (WorkerCompleted record), run_db = db', run_sent = sent\<rparr>))"

definition run_with_adapter ::
    "(bytes \<Rightarrow> bytes) \<Rightarrow> (bytes \<Rightarrow> string) \<Rightarrow> (bytes \<Rightarrow> (OperationError, bytes option) result)
      \<Rightarrow> (string \<Rightarrow> string \<Rightarrow> bytes \<Rightarrow> nat \<Rightarrow> bool) \<Rightarrow> (string \<Rightarrow> bytes \<Rightarrow> MycRelayExecutionOutcome option)
      \<Rightarrow> PersistedMetadata \<Rightarrow> delivery_db \<Rightarrow> bytes \<Rightarrow> string \<Rightarrow> bytes \<Rightarrow> MycDeliveryExecutionEvidence
      \<Rightarrow> bool \<times> bool \<Rightarrow> worker_run" where
  "run_with_adapter sha hex stored prepare execute_send expected db job_id relay_id nonce evidence cancelled =
     (if fst cancelled then \<lparr>run_result = Inr WorkerNotReady, run_db = db, run_sent = None\<rparr> else
      case claim_delivery_target sha expected db job_id relay_id nonce (claimed_at evidence) of
        Inl _ \<Rightarrow> \<lparr>run_result = Inl WorkerState, run_db = db, run_sent = None\<rparr>
      | Inr (ClaimExactReplay _, db1) \<Rightarrow> \<lparr>run_result = Inr WorkerExactReplay, run_db = db1, run_sent = None\<rparr>
      | Inr (ClaimNotReady, db1) \<Rightarrow> \<lparr>run_result = Inr WorkerNotReady, run_db = db1, run_sent = None\<rparr>
      | Inr (ClaimTerminal, db1) \<Rightarrow> \<lparr>run_result = Inr WorkerTerminal, run_db = db1, run_sent = None\<rparr>
      | Inr (Claimed attempt, db1) \<Rightarrow>
     (case r_bind (map_err (\<lambda>_. WorkerState) (read_delivery_job expected db1 job_id)) (ok_or WorkerArtifact) of
        Inl e \<Rightarrow> \<lparr>run_result = Inl e, run_db = db1, run_sent = None\<rparr>
      | Inr job \<Rightarrow>
     (case read_exact_event sha (stored (jr_id job)) job of
        Inl e \<Rightarrow> \<lparr>run_result = Inl e, run_db = db1, run_sent = None\<rparr>
      | Inr content \<Rightarrow>
     if \<not> prepare relay_id (request_id hex job_id (ar_id attempt)) content (ar_lease_expires_at attempt)
     then persist_outcome expected db1 relay_id TransportFailed job attempt evidence None
     else if snd cancelled
     then persist_outcome expected db1 relay_id TransportFailed job attempt evidence None
     else (case mark_delivery_attempt_submitted expected db1 job_id relay_id (ar_id attempt) (submitted_at evidence) of
        Inl _ \<Rightarrow> \<lparr>run_result = Inl WorkerState, run_db = db1, run_sent = None\<rparr>
      | Inr (_, db2) \<Rightarrow>
          persist_outcome expected db2 relay_id
            (relay_outcome (case execute_send relay_id content of
               Some outcome \<Rightarrow> outcome | None \<Rightarrow> RelayUnknownAcknowledgement))
            job attempt evidence (Some (relay_id, content, db2))))))"

section \<open>The jitter the worker draws\<close>

lemma worker_jitter_value:
  assumes "jr_maximum_backoff_ms job \<le> 300000"
  shows "delivery_retry_jitter job n outcome entropy =
    Inr (if outcome = OutcomeDelivered \<or> jr_max_attempts job \<le> n then 0
      else be_value entropy mod (maximum_delay job n + 1))"
proof -
  let ?m = "maximum_delay job n"
  have m: "?m \<le> 300000" using assms by (simp add: maximum_delay_def Let_def min_le_iff_disj)
  then have w: "(?m + 1) mod 2 ^ 64 = ?m + 1" by simp
  have "x mod (?m + 1) \<le> 300000" for x using m mod_succ_le [of x ?m] by linarith
  then have j: "jitter_new (x mod (?m + 1)) = Inr (x mod (?m + 1))" for x by (simp add: delivery_limits)
  have z: "jitter_new 0 = Inr 0" by (simp add: delivery_limits)
  show ?thesis
    unfolding delivery_retry_jitter_def Let_def maximum_delay_def [unfolded Let_def, symmetric] w j z by simp
qed

text \<open>
  The worker always draws a jitter that recording the outcome accepts: zero when no retry follows (delivered,
  or the last permitted attempt), within the exponential backoff otherwise.
\<close>

theorem worker_jitter_fits:
  assumes "delivery_reachable sha db" and "j \<in> set (delivery_jobs db)" and "t \<in> set (targets_of db (j_job_id j))"
    and "a \<in> set (attempts_of db (j_job_id j) (t_target_index t))"
    and "t_active_attempt_id t = Some (a_attempt_id a)" and "at + 300000 \<le> i64_max"
  shows "\<exists>jitter. delivery_retry_jitter (job_record j (targets_of db (j_job_id j))) (nat (a_attempt_number a))
      outcome entropy = Inr jitter \<and> jitter_fits db j t (outcome_status outcome) jitter at"
proof -
  let ?job = "job_record j (targets_of db (j_job_id j))"
  note inv = reachable_tables [OF assms(1)]
  have b: "jr_maximum_backoff_ms ?job \<le> 300000" using reachable_backoff [OF inv assms(2)] .
  from inv assms(2-5) have n: "a_attempt_number a = t_attempt_count t" by (rule active_attempt_row)
  have m: "0 \<le> j_max_attempts j" "0 \<le> t_attempt_count t"
    using delivery_jobs_checkD(6) [OF job_inv_coreD(1) [OF tables_invD(7) [OF inv assms(2)]]]
      target_invD(3) [OF reachable_target [OF assms(1-3)]] by simp_all
  have d: "outcome_status outcome = AttemptDelivered \<longleftrightarrow> outcome = OutcomeDelivered" by (cases outcome) auto
  have le1: "x mod (maximum_delay ?job k + 1) \<le> maximum_delay ?job k" for x k by (rule mod_succ_le)
  have le2: "maximum_delay ?job k \<le> 300000" for k
    using b by (simp add: maximum_delay_def Let_def min_le_iff_disj)
  have le3: "x mod (maximum_delay ?job k + 1) \<le> 300000" for x k using le1 [of x k] le2 [of k] by linarith
  show ?thesis
  proof (cases "t_attempt_count t < j_max_attempts j \<and> outcome \<noteq> OutcomeDelivered")
    case True
    then have "\<not> nat (j_max_attempts j) \<le> nat (t_attempt_count t)" using m by linarith
    then show ?thesis
      using True le1 [of "be_value entropy" "nat (t_attempt_count t)"] le3 [of "be_value entropy" "nat (t_attempt_count t)"] assms(6)
      by (simp add: worker_jitter_value [OF b] n jitter_fits_def d)
  next
    case False
    then have "outcome = OutcomeDelivered \<or> nat (j_max_attempts j) \<le> nat (t_attempt_count t)" by auto
    then show ?thesis using False by (auto simp: worker_jitter_value [OF b] n jitter_fits_def d)
  qed
qed

theorem worker_jitter_fits_witness:
  "\<exists>jitter. delivery_retry_jitter (job_record ex_job2 (targets_of ex_db3 (j_job_id ex_job2)))
      (nat (a_attempt_number ex_attempt3)) RelayRejected (ex_id 9) = Inr jitter
    \<and> jitter_fits ex_db3 ex_job2 ex_target3 (outcome_status RelayRejected) jitter 4000"
  by (rule worker_jitter_fits [OF ex_reach3]) (simp_all add: ex_proj2 ex_proj3 int_width_defs)

section \<open>What the worker sends\<close>

lemma read_delivery_job_Inr:
  "read_delivery_job expected db jid = Inr (Some job) \<Longrightarrow> require_job db jid = Inr job"
  by (auto simp: read_delivery_job_def require_job_def elim!: r_bind_InrE)

lemma persist_outcome_sent: "run_sent (persist_outcome expected db relay outcome job attempt evidence sent) = sent"
  by (simp add: persist_outcome_def split: sum.splits prod.splits)

lemma run_with_adapter_sent:
  assumes "run_sent (run_with_adapter sha hex stored prepare execute_send expected db job_id relay_id nonce evidence cancelled)
    = Some (relay, content, db2)"
  obtains attempt db1 job r where "relay = relay_id"
    "claim_target sha db job_id relay_id nonce (claimed_at evidence) = Inr (Claimed attempt, db1)"
    "require_job db1 job_id = Inr job" "sha content = jr_artifact_digest job"
    "mark_submitted db1 job_id relay_id (ar_id attempt) (submitted_at evidence) = Inr (r, db2)"
  using assms unfolding run_with_adapter_def
  by (auto simp: persist_outcome_sent claim_delivery_target_def mark_delivery_attempt_submitted_def read_exact_event_def
      elim!: r_bind_InrE dest!: read_delivery_job_Inr split: if_splits sum.splits prod.splits MycDeliveryClaim.splits)

text \<open>
  C19. The relay adapter is handed an event only after the send is durable: at that moment the database is a
  reachable state in which the attempt of this run is submitted, inside its lease, and the active attempt of
  the requested relay's target, and the bytes handed over hash to the artifact digest fixed at admission.
\<close>

theorem send_only_after_durable_submission:
  assumes "delivery_reachable sha db"
    and "run_sent (run_with_adapter sha hex stored prepare execute_send expected db job_id relay_id nonce evidence cancelled)
      = Some (relay, content, db2)"
  shows "relay = relay_id \<and> delivery_reachable sha db2
    \<and> (\<exists>j t a. j \<in> set (delivery_jobs db2) \<and> j_job_id j = job_id \<and> j_artifact_sha256 j = sha content
        \<and> t \<in> set (targets_of db2 job_id) \<and> t_relay_id t = relay_id \<and> t_active_attempt_id t = Some (a_attempt_id a)
        \<and> a \<in> set (attempts_of db2 job_id (t_target_index t)) \<and> a_status a = ''submitted''
        \<and> a_submitted_at_unix_ms a = Some (int (submitted_at evidence))
        \<and> a_leased_at_unix_ms a \<le> int (submitted_at evidence)
        \<and> int (submitted_at evidence) \<le> a_lease_expires_at_unix_ms a)"
proof -
  obtain attempt db1 job r where R: "relay = relay_id"
    "claim_target sha db job_id relay_id nonce (claimed_at evidence) = Inr (Claimed attempt, db1)"
    "require_job db1 job_id = Inr job" "sha content = jr_artifact_digest job"
    "mark_submitted db1 job_id relay_id (ar_id attempt) (submitted_at evidence) = Inr (r, db2)"
    using assms(2) by (rule run_with_adapter_sent)
  have r1: "delivery_reachable sha db1" by (rule reachable_step [OF assms(1) delivery_step.claim [OF R(2)]])
  have r2: "delivery_reachable sha db2" by (rule reachable_step [OF r1 delivery_step.submit [OF R(5)]])
  note tab = reachable_tables [OF r2]
  from mark_submitted_reads [OF r1 R(5)] obtain job2 target where M: "delivery_jobs db2 = delivery_jobs db1"
    "require_job db2 job_id = Inr job2" "target_by_relay job2 relay_id = Inr target"
    "require_attempt db2 job_id (tr_index target) (ar_id attempt) = Inr r"
    "ar_status r = AttemptSubmitted" "ar_submitted_at r = Some (submitted_at evidence)" by blast
  obtain j t where j: "j \<in> set (delivery_jobs db2)" "j_job_id j = job_id"
    and t: "t \<in> set (targets_of db2 job_id)" "t_relay_id t = relay_id"
    and idx: "int (tr_index target) = t_target_index t"
    and ti: "target_inv (j_max_attempts j) t (attempts_of db2 job_id (t_target_index t))"
    using job_target_found [OF tab M(2,3)] by metis
  obtain a where a: "a \<in> set (attempts_of db2 job_id (t_target_index t))" "r = attempt_record a" "attempt_ok a"
    using require_attempt_Inr [OF tab M(4)] idx by metis
  have st: "a_status a = ''submitted''" using attempt_status_text [OF a(3)] M(5) a(2) by simp
  obtain j1 where j1: "j1 \<in> set (delivery_jobs db1)" "j_job_id j1 = job_id" "job = job_record j1 (targets_of db1 job_id)"
    using reachable_tables [OF r1] R(3) by (rule require_job_Inr)
  have "j1 = j" using tables_invD(1) [OF tab] j j1(1,2) M(1) by (auto simp: distinct_map dest: inj_onD)
  with j1(3) R(4) have dig: "j_artifact_sha256 j = sha content" by (simp add: job_record_def)
  have "\<not> attempt_resolved a" using st by (simp add: attempt_resolved_def)
  with a(1) have act: "t_active_attempt_id t = Some (a_attempt_id a)"
    using unresolved_active [OF ti] by (auto simp: in_set_conv_nth)
  have "a_submitted_at_unix_ms a = Some (int (submitted_at evidence)) \<and> a_leased_at_unix_ms a \<le> int (submitted_at evidence)
      \<and> int (submitted_at evidence) \<le> a_lease_expires_at_unix_ms a"
    using M(6) a(2,3) st by (auto simp: attempt_record_def attempt_ok_def delivery_attempts_check_def)
  with R(1) r2 j t a(1) st dig act show ?thesis by blast
qed

theorem send_only_after_durable_submission_witness:
  "let run = run_with_adapter ex_sha (\<lambda>_. []) (\<lambda>_. Inr (Some (ex_id 2))) (\<lambda>_ _ _ _. True) (\<lambda>_ _. Some RelayAccepted)
      ex_metadata ex_db1 (ex_id 2) ''r1'' (ex_id 3)
      \<lparr>claimed_at = 2000, submitted_at = 3000, observed_at = 4000, retry_entropy = []\<rparr> (False, False)
   in delivery_reachable ex_sha ex_db1 \<and> run_sent run = Some (''r1'', ex_id 2, ex_db3)
    \<and> (\<exists>j. j \<in> set (delivery_jobs ex_db3) \<and> j_job_id j = ex_id 2 \<and> j_artifact_sha256 j = ex_sha (ex_id 2))"
proof -
  let ?run = "run_with_adapter ex_sha (\<lambda>_. []) (\<lambda>_. Inr (Some (ex_id 2))) (\<lambda>_ _ _ _. True) (\<lambda>_ _. Some RelayAccepted)
      ex_metadata ex_db1 (ex_id 2) ''r1'' (ex_id 3)
      \<lparr>claimed_at = 2000, submitted_at = 3000, observed_at = 4000, retry_entropy = []\<rparr> (False, False)"
  have v: "verify_metadata db ex_metadata = Inr ()" if "config_bindings db = [ex_binding]" for db
    using that ex_verify by (simp add: verify_metadata_def)
  have b: "config_bindings ex_db1 = [ex_binding]" "config_bindings ex_db2 = [ex_binding]" by (simp_all add: ex_dbs)
  have job: "read_delivery_job ex_metadata ex_db2 (ex_id 2) = Inr (Some (job_record ex_job2 [ex_target2]))"
    using read_job_present(1) [OF reachable_tables [OF ex_reach2], of ex_job2] v [OF b(2)]
    by (simp add: ex_proj2 read_delivery_job_def)
  have digest: "jr_artifact_digest (job_record ex_job2 [ex_target2]) = ex_sha (ex_id 2)" by (simp add: job_record_def ex_rows ex_sha_def)
  have sent: "run_sent ?run = Some (''r1'', ex_id 2, ex_db3)"
    using ex_claim ex_submit v [OF b(1)] v [OF b(2)] job digest
    by (simp add: run_with_adapter_def claim_delivery_target_def mark_delivery_attempt_submitted_def persist_outcome_sent
        read_exact_event_def attempt_record_def [of ex_attempt] ex_proj2)
  show ?thesis
    using send_only_after_durable_submission [OF ex_reach1 sent] sent ex_reach1 unfolding Let_def by blast
qed

end
