(* ===== verification/Governance_State.thy ===== *)
theory Governance_State
  imports State_Repository "HOL-Library.Product_Lexorder"
begin

text \<open>
  Audit trail and rate windows (\<^verbatim>\<open>src/src/state_governance.rs\<close>) and their tables
  (\<^verbatim>\<open>src/src/state_catalog.rs\<close>). Every operation runs inside one transaction, as a function from
  the database to an error or a result with the new database. SHA-256 is the parameter \<open>sha\<close>. The
  tables are STRICT and foreign keys are enforced.
\<close>

section \<open>Limits, policies and closed enumerations\<close>

definition MYC_RATE_WINDOW_MAX_MS :: nat where "MYC_RATE_WINDOW_MAX_MS = 86400000"
definition MYC_RATE_MAX_ATTEMPTS :: nat where "MYC_RATE_MAX_ATTEMPTS = 10000"
definition MYC_RATE_RETENTION_MAX_MS :: nat where "MYC_RATE_RETENTION_MAX_MS = 2592000000"
definition MYC_RATE_MAX_TRACKED_SUBJECTS :: nat where "MYC_RATE_MAX_TRACKED_SUBJECTS = 65536"
definition MYC_AUDIT_RETENTION_MAX_MS :: nat where "MYC_AUDIT_RETENTION_MAX_MS = 31536000000"
definition MYC_AUDIT_PAGE_MAX_ITEMS :: nat where "MYC_AUDIT_PAGE_MAX_ITEMS = 200"
definition MYC_COMPACTION_MAX_ROWS :: nat where "MYC_COMPACTION_MAX_ROWS = 4096"
definition MYC_RATE_RELAY_ID_MAX_BYTES :: nat where "MYC_RATE_RELAY_ID_MAX_BYTES = 64"

lemmas governance_limits = MYC_RATE_WINDOW_MAX_MS_def MYC_RATE_MAX_ATTEMPTS_def MYC_RATE_RETENTION_MAX_MS_def
  MYC_RATE_MAX_TRACKED_SUBJECTS_def MYC_AUDIT_RETENTION_MAX_MS_def MYC_AUDIT_PAGE_MAX_ITEMS_def
  MYC_COMPACTION_MAX_ROWS_def MYC_RATE_RELAY_ID_MAX_BYTES_def

datatype MycGovernanceStateErrorKind = InvalidRatePolicy | InvalidRateRelayId | InvalidPageLimit
  | InvalidCompactionPolicy

datatype MycRateLimitClass = RateConnectionAdmission | RateChallengeCreation | RateChallengeAuthorization

fun rate_class_as_str :: "MycRateLimitClass \<Rightarrow> string" where
  "rate_class_as_str RateConnectionAdmission = ''connection_admission''"
| "rate_class_as_str RateChallengeCreation = ''challenge_creation''"
| "rate_class_as_str RateChallengeAuthorization = ''challenge_authorization''"

record MycRateLimitPolicy =
  rl_class :: MycRateLimitClass
  rl_window_ms :: nat
  rl_max_attempts :: nat
  rl_retention_ms :: nat
  rl_maximum_tracked_subjects :: nat

definition rate_policy_new ::
    "MycRateLimitClass \<Rightarrow> nat \<Rightarrow> nat \<Rightarrow> nat \<Rightarrow> nat \<Rightarrow> (MycGovernanceStateErrorKind, MycRateLimitPolicy) result" where
  "rate_policy_new class window_ms max_attempts retention_ms maximum_tracked_subjects =
     (if window_ms = 0 \<or> MYC_RATE_WINDOW_MAX_MS < window_ms
         \<or> max_attempts = 0 \<or> MYC_RATE_MAX_ATTEMPTS < max_attempts
         \<or> retention_ms < window_ms \<or> MYC_RATE_RETENTION_MAX_MS < retention_ms
         \<or> maximum_tracked_subjects = 0 \<or> MYC_RATE_MAX_TRACKED_SUBJECTS < maximum_tracked_subjects
      then Inl InvalidRatePolicy
      else Inr \<lparr>rl_class = class, rl_window_ms = window_ms, rl_max_attempts = max_attempts,
        rl_retention_ms = retention_ms, rl_maximum_tracked_subjects = maximum_tracked_subjects\<rparr>)"

definition rate_relay_id_new :: "string \<Rightarrow> (MycGovernanceStateErrorKind, string) result" where
  "rate_relay_id_new bs =
     (if bs = [] \<or> MYC_RATE_RELAY_ID_MAX_BYTES < length bs
         \<or> \<not> is_ascii_lowercase (hd bs) \<or> \<not> is_ascii_alphanumeric (last bs)
         \<or> has_pair (CHR ''_'') bs
         \<or> \<not> list_all (\<lambda>b. is_ascii_lowercase b \<or> is_ascii_digit b \<or> b = CHR ''_'') bs
      then Inl InvalidRateRelayId else Inr bs)"

record MycGovernancePolicies =
  gp_connection_admission :: MycRateLimitPolicy
  gp_challenge_creation :: MycRateLimitPolicy
  gp_challenge_authorization :: MycRateLimitPolicy
  gp_audit_retention_ms :: nat
  gp_relays :: "string list"

definition governance_policies_new ::
    "MycRateLimitPolicy \<Rightarrow> MycRateLimitPolicy \<Rightarrow> MycRateLimitPolicy \<Rightarrow> nat \<Rightarrow> string list
      \<Rightarrow> (MycGovernanceStateErrorKind, MycGovernancePolicies) result" where
  "governance_policies_new connection_admission challenge_creation challenge_authorization
      audit_retention_ms relays =
     (if rl_class connection_admission \<noteq> RateConnectionAdmission
         \<or> rl_class challenge_creation \<noteq> RateChallengeCreation
         \<or> rl_class challenge_authorization \<noteq> RateChallengeAuthorization
         \<or> audit_retention_ms = 0 \<or> MYC_AUDIT_RETENTION_MAX_MS < audit_retention_ms
         \<or> relays = []
      then Inl InvalidRatePolicy
      else Inr \<lparr>gp_connection_admission = connection_admission, gp_challenge_creation = challenge_creation,
        gp_challenge_authorization = challenge_authorization, gp_audit_retention_ms = audit_retention_ms,
        gp_relays = relays\<rparr>)"

fun rate_policy :: "MycGovernancePolicies \<Rightarrow> MycRateLimitClass \<Rightarrow> MycRateLimitPolicy" where
  "rate_policy self RateConnectionAdmission = gp_connection_admission self"
| "rate_policy self RateChallengeCreation = gp_challenge_creation self"
| "rate_policy self RateChallengeAuthorization = gp_challenge_authorization self"

definition admits_relay :: "MycGovernancePolicies \<Rightarrow> string \<Rightarrow> bool" where
  "admits_relay self relay \<longleftrightarrow> list_ex (\<lambda>configured. configured = relay) (gp_relays self)"

datatype MycAuditKind = AuditConnectionAdmission | AuditConnectionOperatorDecision | AuditConnectionExpiry
  | AuditChallengeCreation | AuditChallengeAuthorization | AuditGovernanceCompaction

fun audit_kind_as_str :: "MycAuditKind \<Rightarrow> string" where
  "audit_kind_as_str AuditConnectionAdmission = ''connection_admission''"
| "audit_kind_as_str AuditConnectionOperatorDecision = ''connection_operator_decision''"
| "audit_kind_as_str AuditConnectionExpiry = ''connection_expiry''"
| "audit_kind_as_str AuditChallengeCreation = ''challenge_creation''"
| "audit_kind_as_str AuditChallengeAuthorization = ''challenge_authorization''"
| "audit_kind_as_str AuditGovernanceCompaction = ''governance_compaction''"

definition audit_kind_parse :: "string \<Rightarrow> MycAuditKind option" where
  "audit_kind_parse s =
     (if s = ''connection_admission'' then Some AuditConnectionAdmission
      else if s = ''connection_operator_decision'' then Some AuditConnectionOperatorDecision
      else if s = ''connection_expiry'' then Some AuditConnectionExpiry
      else if s = ''challenge_creation'' then Some AuditChallengeCreation
      else if s = ''challenge_authorization'' then Some AuditChallengeAuthorization
      else if s = ''governance_compaction'' then Some AuditGovernanceCompaction else None)"

datatype MycAuditOutcome = AuditSucceeded | AuditRejected | AuditFailed

fun audit_outcome_as_str :: "MycAuditOutcome \<Rightarrow> string" where
  "audit_outcome_as_str AuditSucceeded = ''succeeded''"
| "audit_outcome_as_str AuditRejected = ''rejected''"
| "audit_outcome_as_str AuditFailed = ''failed''"

definition audit_outcome_parse :: "string \<Rightarrow> MycAuditOutcome option" where
  "audit_outcome_parse s =
     (if s = ''succeeded'' then Some AuditSucceeded
      else if s = ''rejected'' then Some AuditRejected
      else if s = ''failed'' then Some AuditFailed else None)"

datatype MycAuditReasonCode = ReasonTrusted | ReasonApprovalRequired | ReasonPolicyDenied | ReasonOperatorApproved
  | ReasonOperatorDenied | ReasonConnectionExpired | ReasonChallengeRequired | ReasonChallengeAuthorized
  | ReasonChallengeExpired | ReasonRateLimited | ReasonCompacted

fun audit_reason_as_str :: "MycAuditReasonCode \<Rightarrow> string" where
  "audit_reason_as_str ReasonTrusted = ''trusted''"
| "audit_reason_as_str ReasonApprovalRequired = ''approval_required''"
| "audit_reason_as_str ReasonPolicyDenied = ''policy_denied''"
| "audit_reason_as_str ReasonOperatorApproved = ''operator_approved''"
| "audit_reason_as_str ReasonOperatorDenied = ''operator_denied''"
| "audit_reason_as_str ReasonConnectionExpired = ''connection_expired''"
| "audit_reason_as_str ReasonChallengeRequired = ''challenge_required''"
| "audit_reason_as_str ReasonChallengeAuthorized = ''challenge_authorized''"
| "audit_reason_as_str ReasonChallengeExpired = ''challenge_expired''"
| "audit_reason_as_str ReasonRateLimited = ''rate_limited''"
| "audit_reason_as_str ReasonCompacted = ''compacted''"

definition audit_reason_parse :: "string \<Rightarrow> MycAuditReasonCode option" where
  "audit_reason_parse s =
     (if s = ''trusted'' then Some ReasonTrusted
      else if s = ''approval_required'' then Some ReasonApprovalRequired
      else if s = ''policy_denied'' then Some ReasonPolicyDenied
      else if s = ''operator_approved'' then Some ReasonOperatorApproved
      else if s = ''operator_denied'' then Some ReasonOperatorDenied
      else if s = ''connection_expired'' then Some ReasonConnectionExpired
      else if s = ''challenge_required'' then Some ReasonChallengeRequired
      else if s = ''challenge_authorized'' then Some ReasonChallengeAuthorized
      else if s = ''challenge_expired'' then Some ReasonChallengeExpired
      else if s = ''rate_limited'' then Some ReasonRateLimited
      else if s = ''compacted'' then Some ReasonCompacted else None)"

interpretation audit_kind: spelling audit_kind_as_str audit_kind_parse
proof
  show "audit_kind_parse (audit_kind_as_str x) = Some x" for x
    by (cases x) (simp_all add: audit_kind_parse_def)
  show "audit_kind_parse s = Some x \<Longrightarrow> audit_kind_as_str x = s" for s x
    by (auto simp: audit_kind_parse_def split: if_splits)
qed

interpretation audit_outcome: spelling audit_outcome_as_str audit_outcome_parse
proof
  show "audit_outcome_parse (audit_outcome_as_str x) = Some x" for x
    by (cases x) (simp_all add: audit_outcome_parse_def)
  show "audit_outcome_parse s = Some x \<Longrightarrow> audit_outcome_as_str x = s" for s x
    by (auto simp: audit_outcome_parse_def split: if_splits)
qed

interpretation audit_reason: spelling audit_reason_as_str audit_reason_parse
proof
  show "audit_reason_parse (audit_reason_as_str x) = Some x" for x
    by (cases x) (simp_all add: audit_reason_parse_def)
  show "audit_reason_parse s = Some x \<Longrightarrow> audit_reason_as_str x = s" for s x
    by (auto simp: audit_reason_parse_def split: if_splits)
qed

section \<open>Records\<close>

record MycAuditRecord =
  au_sequence :: nat
  au_correlation_id :: bytes
  au_operation_id :: "bytes option"
  au_kind :: MycAuditKind
  au_outcome :: MycAuditOutcome
  au_reason :: MycAuditReasonCode
  au_occurred_at :: nat

record MycAuditPage =
  pg_snapshot_sequence :: nat
  pg_items :: "MycAuditRecord list"
  pg_next_before_sequence :: "nat option"

definition audit_page_limit_new :: "nat \<Rightarrow> (MycGovernanceStateErrorKind, nat) result" where
  "audit_page_limit_new value =
     ok_or InvalidPageLimit (if value \<noteq> 0 \<and> value \<le> MYC_AUDIT_PAGE_MAX_ITEMS then Some value else None)"

record MycAdminAuditQuery =
  q_limit :: nat
  q_snapshot_sequence :: "nat option"
  q_before_sequence :: "nat option"
  q_from_unix_ms :: "nat option"
  q_to_unix_ms :: "nat option"
  q_kind :: "MycAuditKind option"
  q_outcome :: "MycAuditOutcome option"

definition admin_audit_query_new ::
    "nat \<Rightarrow> nat option \<Rightarrow> nat option \<Rightarrow> nat option \<Rightarrow> nat option \<Rightarrow> MycAuditKind option
      \<Rightarrow> MycAuditOutcome option \<Rightarrow> (MycStateRepositoryErrorKind, MycAdminAuditQuery) result" where
  "admin_audit_query_new limit snapshot_sequence before_sequence from_unix_ms to_unix_ms kind outcome =
     (let is_some_and = (\<lambda>x P. case x of None \<Rightarrow> False | Some v \<Rightarrow> P v)
      in if is_some_and from_unix_ms (\<lambda>from. is_some_and to_unix_ms (\<lambda>to. to < from))
          \<or> is_some_and from_unix_ms (\<lambda>v. i64_of_nat v = None)
          \<or> is_some_and to_unix_ms (\<lambda>v. i64_of_nat v = None)
         then Inl RepoBinding
         else Inr \<lparr>q_limit = limit, q_snapshot_sequence = snapshot_sequence, q_before_sequence = before_sequence,
           q_from_unix_ms = from_unix_ms, q_to_unix_ms = to_unix_ms, q_kind = kind, q_outcome = outcome\<rparr>)"

record MycGovernanceCompactionPolicy =
  cp_audit_retention_ms :: nat
  cp_maximum_rows_per_class :: nat

definition compaction_policy_new ::
    "nat \<Rightarrow> nat \<Rightarrow> (MycGovernanceStateErrorKind, MycGovernanceCompactionPolicy) result" where
  "compaction_policy_new audit_retention_ms maximum_rows_per_class =
     (if audit_retention_ms = 0 \<or> MYC_AUDIT_RETENTION_MAX_MS < audit_retention_ms
         \<or> maximum_rows_per_class = 0 \<or> MYC_COMPACTION_MAX_ROWS < maximum_rows_per_class
      then Inl InvalidCompactionPolicy
      else Inr \<lparr>cp_audit_retention_ms = audit_retention_ms, cp_maximum_rows_per_class = maximum_rows_per_class\<rparr>)"

record MycGovernanceCompactionOutcome =
  co_removed_audit_records :: nat
  co_removed_rate_subjects :: nat

record AuditEvidence =
  ev_correlation :: bytes
  ev_occurred_at :: nat
  ev_operation_id :: "bytes option"

datatype RateSubject = SubjectGlobal | SubjectRelay bytes | SubjectConnection bytes

section \<open>Tables\<close>

record audit_state_row =
  s_singleton :: int
  s_next_sequence :: int

record audit_row =
  o_audit_sequence :: int
  o_audit_id :: bytes
  o_correlation_id :: bytes
  o_audit_kind :: string
  o_outcome :: string
  o_reason_code :: string
  o_occurred_at_unix_ms :: int

record request_audit_row =
  l_operation_id :: bytes
  l_audit_kind :: string
  l_audit_sequence :: int

record rate_row =
  w_rate_kind :: string
  w_subject_scope :: string
  w_subject_sha256 :: bytes
  w_window_started_at_unix_ms :: int
  w_window_ends_at_unix_ms :: int
  w_accepted_count :: int
  w_rejected_count :: int
  w_lifetime_accepted_count :: int
  w_lifetime_rejected_count :: int
  w_last_observed_at_unix_ms :: int
  w_retention_expires_at_unix_ms :: int

text \<open>\<open>requests\<close> are the two columns of \<open>nip46_requests\<close> that the audit joins: \<open>operation_id\<close> and \<open>correlation_id\<close>.\<close>

record request_key_row =
  k_operation_id :: bytes
  k_correlation_id :: bytes

record governance_db =
  g_bindings :: "binding_row list"
  g_requests :: "request_key_row list"
  g_audit_state :: "audit_state_row list"
  g_audits :: "audit_row list"
  g_links :: "request_audit_row list"
  g_rates :: "rate_row list"

abbreviation sql_int_max :: int where "sql_int_max \<equiv> 9223372036854775807"

definition myc_audit_state_check :: "audit_state_row \<Rightarrow> bool" where
  "myc_audit_state_check r \<longleftrightarrow> s_singleton r = 1 \<and> 0 \<le> s_next_sequence r \<and> s_next_sequence r \<le> sql_int_max"

definition operation_audit_check :: "audit_row \<Rightarrow> bool" where
  "operation_audit_check r \<longleftrightarrow>
     1 \<le> o_audit_sequence r \<and> o_audit_sequence r \<le> sql_int_max
     \<and> length (o_audit_id r) = 32 \<and> length (o_correlation_id r) = 32
     \<and> o_audit_kind r \<in> {''connection_admission'', ''connection_operator_decision'', ''connection_expiry'',
          ''challenge_creation'', ''challenge_authorization'', ''governance_compaction''}
     \<and> o_outcome r \<in> {''succeeded'', ''rejected'', ''failed''}
     \<and> o_reason_code r \<in> {''trusted'', ''approval_required'', ''policy_denied'', ''operator_approved'',
          ''operator_denied'', ''connection_expired'', ''challenge_required'', ''challenge_authorized'',
          ''challenge_expired'', ''rate_limited'', ''compacted''}
     \<and> 1 \<le> o_occurred_at_unix_ms r \<and> o_occurred_at_unix_ms r \<le> sql_int_max"

definition nip46_request_audit_check :: "request_audit_row \<Rightarrow> bool" where
  "nip46_request_audit_check r \<longleftrightarrow>
     length (l_operation_id r) = 32
     \<and> l_audit_kind r \<in> {''connection_admission'', ''challenge_creation'', ''challenge_authorization''}
     \<and> 1 \<le> l_audit_sequence r \<and> l_audit_sequence r \<le> sql_int_max"

definition connection_rate_windows_check :: "rate_row \<Rightarrow> bool" where
  "connection_rate_windows_check r \<longleftrightarrow>
     w_rate_kind r \<in> {''connection_admission'', ''challenge_creation'', ''challenge_authorization''}
     \<and> w_subject_scope r \<in> {''global'', ''relay'', ''connection''}
     \<and> length (w_subject_sha256 r) = 32
     \<and> 1 \<le> w_window_started_at_unix_ms r \<and> w_window_started_at_unix_ms r \<le> sql_int_max
     \<and> w_window_started_at_unix_ms r \<le> w_window_ends_at_unix_ms r \<and> w_window_ends_at_unix_ms r \<le> sql_int_max
     \<and> 0 \<le> w_accepted_count r \<and> w_accepted_count r \<le> 10000
     \<and> 0 \<le> w_rejected_count r \<and> w_rejected_count r \<le> sql_int_max
     \<and> w_accepted_count r \<le> w_lifetime_accepted_count r \<and> w_lifetime_accepted_count r \<le> sql_int_max
     \<and> w_rejected_count r \<le> w_lifetime_rejected_count r \<and> w_lifetime_rejected_count r \<le> sql_int_max
     \<and> w_window_started_at_unix_ms r \<le> w_last_observed_at_unix_ms r
     \<and> w_last_observed_at_unix_ms r \<le> sql_int_max
     \<and> w_last_observed_at_unix_ms r \<le> w_retention_expires_at_unix_ms r
     \<and> w_retention_expires_at_unix_ms r \<le> sql_int_max
     \<and> ((w_rate_kind r = ''connection_admission'' \<and> w_subject_scope r \<in> {''global'', ''relay''})
        \<or> (w_rate_kind r \<in> {''challenge_creation'', ''challenge_authorization''}
           \<and> w_subject_scope r = ''connection''))"

text \<open>The triggers: true means the statement is aborted.\<close>

definition myc_audit_state_guard_update :: "audit_state_row \<Rightarrow> audit_state_row \<Rightarrow> bool" where
  "myc_audit_state_guard_update old new \<longleftrightarrow>
     s_singleton new \<noteq> s_singleton old
     \<or> s_next_sequence old = sql_int_max
     \<or> s_next_sequence new \<noteq> s_next_sequence old + 1"

definition connection_rate_windows_guard_update :: "rate_row \<Rightarrow> rate_row \<Rightarrow> bool" where
  "connection_rate_windows_guard_update old new \<longleftrightarrow>
     w_rate_kind new \<noteq> w_rate_kind old
     \<or> w_subject_scope new \<noteq> w_subject_scope old
     \<or> w_subject_sha256 new \<noteq> w_subject_sha256 old
     \<or> w_window_started_at_unix_ms new < w_window_started_at_unix_ms old
     \<or> w_window_ends_at_unix_ms new < w_window_started_at_unix_ms new
     \<or> w_lifetime_accepted_count new < w_lifetime_accepted_count old
     \<or> w_lifetime_rejected_count new < w_lifetime_rejected_count old
     \<or> w_last_observed_at_unix_ms new < w_last_observed_at_unix_ms old
     \<or> w_retention_expires_at_unix_ms new < w_last_observed_at_unix_ms new
     \<or> \<not> ((w_window_started_at_unix_ms new = w_window_started_at_unix_ms old
            \<and> w_window_ends_at_unix_ms new = w_window_ends_at_unix_ms old
            \<and> ((w_accepted_count new = w_accepted_count old + 1
                 \<and> w_rejected_count new = w_rejected_count old
                 \<and> w_lifetime_accepted_count new = w_lifetime_accepted_count old + 1
                 \<and> w_lifetime_rejected_count new = w_lifetime_rejected_count old)
               \<or> (w_accepted_count new = w_accepted_count old
                 \<and> w_rejected_count new = w_rejected_count old + 1
                 \<and> w_lifetime_accepted_count new = w_lifetime_accepted_count old
                 \<and> w_lifetime_rejected_count new = w_lifetime_rejected_count old + 1)))
          \<or> (w_window_ends_at_unix_ms old < w_window_started_at_unix_ms new
            \<and> w_window_started_at_unix_ms new < w_window_ends_at_unix_ms new
            \<and> ((w_accepted_count new = 1 \<and> w_rejected_count new = 0)
               \<or> (w_accepted_count new = 0 \<and> w_rejected_count new = 1))
            \<and> w_lifetime_accepted_count new = w_lifetime_accepted_count old + w_accepted_count new
            \<and> w_lifetime_rejected_count new = w_lifetime_rejected_count old + w_rejected_count new))"

definition audit_insert_legal :: "audit_row list \<Rightarrow> audit_row \<Rightarrow> bool" where
  "audit_insert_legal t r \<longleftrightarrow> operation_audit_check r
     \<and> list_all (\<lambda>q. o_audit_sequence q \<noteq> o_audit_sequence r \<and> o_audit_id q \<noteq> o_audit_id r
          \<and> \<not> (o_correlation_id q = o_correlation_id r \<and> o_audit_kind q = o_audit_kind r)) t"

definition link_insert_legal :: "governance_db \<Rightarrow> request_audit_row list \<Rightarrow> request_audit_row \<Rightarrow> bool" where
  "link_insert_legal db t r \<longleftrightarrow> nip46_request_audit_check r
     \<and> list_ex (\<lambda>q. k_operation_id q = l_operation_id r) (g_requests db)
     \<and> list_ex (\<lambda>q. o_audit_sequence q = l_audit_sequence r) (g_audits db)
     \<and> list_all (\<lambda>q. l_audit_sequence q \<noteq> l_audit_sequence r
          \<and> \<not> (l_operation_id q = l_operation_id r \<and> l_audit_kind q = l_audit_kind r)) t"

definition rate_insert_legal :: "rate_row list \<Rightarrow> rate_row \<Rightarrow> bool" where
  "rate_insert_legal t r \<longleftrightarrow> connection_rate_windows_check r
     \<and> list_all (\<lambda>q. \<not> (w_rate_kind q = w_rate_kind r \<and> w_subject_scope q = w_subject_scope r
          \<and> w_subject_sha256 q = w_subject_sha256 r)) t"

definition rate_update_legal :: "rate_row \<Rightarrow> rate_row \<Rightarrow> bool" where
  "rate_update_legal old new \<longleftrightarrow>
     \<not> connection_rate_windows_guard_update old new \<and> connection_rate_windows_check new"

definition audit_state_update_legal :: "audit_state_row \<Rightarrow> audit_state_row \<Rightarrow> bool" where
  "audit_state_update_legal old new \<longleftrightarrow> \<not> myc_audit_state_guard_update old new \<and> myc_audit_state_check new"

section \<open>Statements\<close>

definition g_require_one :: "nat \<Rightarrow> (OperationError, unit) result" where
  "g_require_one rows = ensure Binding (rows = 1)"

definition g_execute_one :: "('d \<times> nat) option \<Rightarrow> (OperationError, 'd) result" where
  "g_execute_one st = r_bind (ok_or Storage st) (\<lambda>(db, n). r_bind (g_require_one n) (\<lambda>_. Inr db))"

definition advance_audit_state :: "int \<Rightarrow> int \<Rightarrow> governance_db \<Rightarrow> (governance_db \<times> nat) option" where
  "advance_audit_state sequence current db = map_option (\<lambda>(t, n). (db\<lparr>g_audit_state := t\<rparr>, n))
     (sql_update (\<lambda>r. s_singleton r = 1 \<and> s_next_sequence r = current) (\<lambda>r. r\<lparr>s_next_sequence := sequence\<rparr>)
       audit_state_update_legal (g_audit_state db))"

definition insert_audit :: "audit_row \<Rightarrow> governance_db \<Rightarrow> (governance_db \<times> nat) option" where
  "insert_audit r db = map_option (\<lambda>(t, n). (db\<lparr>g_audits := t\<rparr>, n)) (sql_insert audit_insert_legal r (g_audits db))"

definition insert_request_audit :: "request_audit_row \<Rightarrow> governance_db \<Rightarrow> (governance_db \<times> nat) option" where
  "insert_request_audit r db = map_option (\<lambda>(t, n). (db\<lparr>g_links := t\<rparr>, n))
     (sql_insert (link_insert_legal db) r (g_links db))"

definition insert_rate :: "rate_row \<Rightarrow> governance_db \<Rightarrow> (governance_db \<times> nat) option" where
  "insert_rate r db = map_option (\<lambda>(t, n). (db\<lparr>g_rates := t\<rparr>, n)) (sql_insert rate_insert_legal r (g_rates db))"

definition rate_key :: "rate_row \<Rightarrow> string \<times> string \<times> bytes" where
  "rate_key r = (w_rate_kind r, w_subject_scope r, w_subject_sha256 r)"

definition update_rate_where :: "string \<times> string \<times> bytes \<Rightarrow> int \<Rightarrow> rate_row \<Rightarrow> bool" where
  "update_rate_where key prior r \<longleftrightarrow> rate_key r = key \<and> w_last_observed_at_unix_ms r = prior"

definition update_rate_set :: "rate_row \<Rightarrow> rate_row \<Rightarrow> rate_row" where
  "update_rate_set new r = r\<lparr>w_window_started_at_unix_ms := w_window_started_at_unix_ms new,
     w_window_ends_at_unix_ms := w_window_ends_at_unix_ms new, w_accepted_count := w_accepted_count new,
     w_rejected_count := w_rejected_count new, w_lifetime_accepted_count := w_lifetime_accepted_count new,
     w_lifetime_rejected_count := w_lifetime_rejected_count new,
     w_last_observed_at_unix_ms := w_last_observed_at_unix_ms new,
     w_retention_expires_at_unix_ms := w_retention_expires_at_unix_ms new\<rparr>"

definition update_rate :: "rate_row \<Rightarrow> int \<Rightarrow> governance_db \<Rightarrow> (governance_db \<times> nat) option" where
  "update_rate new prior db = map_option (\<lambda>(t, n). (db\<lparr>g_rates := t\<rparr>, n))
     (sql_update (update_rate_where (rate_key new) prior) (update_rate_set new) rate_update_legal (g_rates db))"

section \<open>Reading\<close>

definition to_i64 :: "nat \<Rightarrow> (OperationError, int) result" where
  "to_i64 value = ok_or Binding (i64_of_nat value)"

definition checked_time_add :: "nat \<Rightarrow> nat \<Rightarrow> (OperationError, nat) result" where
  "checked_time_add left right = ok_or Binding
     (case checked_add_u64 left right of None \<Rightarrow> None | Some v \<Rightarrow> if v \<le> i64_max then Some v else None)"

definition bounded_i64 :: "int \<Rightarrow> (OperationError, nat) result" where
  "bounded_i64 value = ok_or Binding (u64_of_int value)"

definition bounded_digest :: "bytes option \<Rightarrow> (OperationError, bytes) result" where
  "bounded_digest value = r_bind (ok_or Binding value) (\<lambda>b. if length b = 32 then Inr b else Inl Binding)"

definition bounded_text :: "string option \<Rightarrow> (OperationError, string) result" where
  "bounded_text value = ok_or Binding value"

definition optional_digest :: "bytes option \<Rightarrow> (OperationError, bytes option) result" where
  "optional_digest value = (case value of None \<Rightarrow> Inr None
     | Some b \<Rightarrow> if length b = 32 then Inr (Some b) else Inl Binding)"

definition connection_time_new :: "nat \<Rightarrow> (OperationError, nat) result" where
  "connection_time_new value = (if value = 0 \<or> i64_of_nat value = None then Inl Binding else Inr value)"

text \<open>A column the SELECT list replaces by NULL when it has the wrong length.\<close>

definition only_if :: "bool \<Rightarrow> 'a \<Rightarrow> 'a option" where
  "only_if b v = (if b then Some v else None)"

definition AUDIT_ID_DOMAIN :: bytes where
  "AUDIT_ID_DOMAIN = str_bytes ''radroots.myc.operation_audit.v1'' @ [0]"

definition GLOBAL_SUBJECT_DOMAIN :: bytes where
  "GLOBAL_SUBJECT_DOMAIN = str_bytes ''radroots.myc.rate_subject.global.v1'' @ [0]"

definition RELAY_SUBJECT_DOMAIN :: bytes where
  "RELAY_SUBJECT_DOMAIN = str_bytes ''radroots.myc.rate_subject.relay.v1'' @ [0]"

definition CONNECTION_SUBJECT_DOMAIN :: bytes where
  "CONNECTION_SUBJECT_DOMAIN = str_bytes ''radroots.myc.rate_subject.connection.v1'' @ [0]"

definition derive_audit_id :: "(bytes \<Rightarrow> bytes) \<Rightarrow> bytes \<Rightarrow> MycAuditKind \<Rightarrow> bytes" where
  "derive_audit_id sha correlation kind =
     sha (AUDIT_ID_DOMAIN @ correlation @ to_be_bytes 8 (length (audit_kind_as_str kind))
       @ str_bytes (audit_kind_as_str kind))"

definition hash_framed :: "(bytes \<Rightarrow> bytes) \<Rightarrow> bytes \<Rightarrow> bytes \<Rightarrow> bytes" where
  "hash_framed sha domain value = sha (domain @ to_be_bytes 8 (length value) @ value)"

definition relay_subject :: "(bytes \<Rightarrow> bytes) \<Rightarrow> string \<Rightarrow> RateSubject" where
  "relay_subject sha relay = SubjectRelay (hash_framed sha RELAY_SUBJECT_DOMAIN (str_bytes relay))"

fun subject_parts :: "(bytes \<Rightarrow> bytes) \<Rightarrow> RateSubject \<Rightarrow> string \<times> bytes" where
  "subject_parts sha SubjectGlobal = (''global'', hash_framed sha GLOBAL_SUBJECT_DOMAIN (str_bytes ''global''))"
| "subject_parts sha (SubjectRelay digest) = (''relay'', digest)"
| "subject_parts sha (SubjectConnection connection) =
     (''connection'', hash_framed sha CONNECTION_SUBJECT_DOMAIN connection)"

definition read_audit_state :: "governance_db \<Rightarrow> (OperationError, nat) result" where
  "read_audit_state db = (case take 2 (filter (\<lambda>r. s_singleton r = 1) (g_audit_state db)) of
     [row] \<Rightarrow> bounded_i64 (s_next_sequence row) | _ \<Rightarrow> Inl Binding)"

text \<open>The two LEFT JOINs of \<open>READ_AUDIT_BY_ID_SQL\<close>.\<close>

definition join_requests ::
    "governance_db \<Rightarrow> request_audit_row \<Rightarrow> (request_audit_row option \<times> request_key_row option) list" where
  "join_requests db l = (case filter (\<lambda>q. k_operation_id q = l_operation_id l) (g_requests db) of
     [] \<Rightarrow> [(Some l, None)] | qs \<Rightarrow> map (\<lambda>q. (Some l, Some q)) qs)"

definition join_links ::
    "governance_db \<Rightarrow> audit_row \<Rightarrow> (audit_row \<times> request_audit_row option \<times> request_key_row option) list" where
  "join_links db a = (case filter (\<lambda>l. l_audit_sequence l = o_audit_sequence a) (g_links db) of
     [] \<Rightarrow> [(a, None, None)] | ls \<Rightarrow> map (Pair a) (concat (map (join_requests db) ls)))"

definition decode_audit ::
    "audit_row \<times> request_audit_row option \<times> request_key_row option \<Rightarrow> (OperationError, MycAuditRecord) result" where
  "decode_audit row = (case row of (a, link, request) \<Rightarrow>
     r_bind (bounded_digest (only_if (length (o_correlation_id a) = 32) (o_correlation_id a))) (\<lambda>correlation_id.
     r_bind (r_bind (bounded_text (only_if (length (o_audit_kind a) \<le> 40) (o_audit_kind a)))
       (\<lambda>value. ok_or Binding (audit_kind_parse value))) (\<lambda>kind.
     r_bind (r_bind (bounded_text (only_if (length (o_outcome a) \<le> 16) (o_outcome a)))
       (\<lambda>value. ok_or Binding (audit_outcome_parse value))) (\<lambda>outcome.
     r_bind (r_bind (bounded_text (only_if (length (o_reason_code a) \<le> 48) (o_reason_code a)))
       (\<lambda>value. ok_or Binding (audit_reason_parse value))) (\<lambda>reason.
     r_bind (optional_digest (Option.bind link (\<lambda>l. only_if (length (l_operation_id l) = 32) (l_operation_id l))))
       (\<lambda>operation_id.
     let request_audit_kind = Option.bind link (\<lambda>l. only_if (length (l_audit_kind l) \<le> 40) (l_audit_kind l)) in
     r_bind (optional_digest (Option.bind request
         (\<lambda>q. only_if (length (k_correlation_id q) = 32) (k_correlation_id q)))) (\<lambda>request_correlation_id.
     let request_bound =
       kind \<in> {AuditConnectionAdmission, AuditChallengeCreation, AuditChallengeAuthorization}
     in if request_bound \<noteq> (operation_id \<noteq> None \<and> request_audit_kind = Some (audit_kind_as_str kind)
               \<and> request_correlation_id = Some correlation_id)
           \<or> (\<not> request_bound \<and> (operation_id \<noteq> None \<or> request_audit_kind \<noteq> None
               \<or> request_correlation_id \<noteq> None))
        then Inl Binding else
     r_bind (bounded_i64 (o_audit_sequence a)) (\<lambda>sequence.
     r_bind (r_bind (bounded_i64 (o_occurred_at_unix_ms a)) connection_time_new) (\<lambda>occurred_at.
     Inr \<lparr>au_sequence = sequence, au_correlation_id = correlation_id, au_operation_id = operation_id,
       au_kind = kind, au_outcome = outcome, au_reason = reason, au_occurred_at = occurred_at\<rparr>)))))))))"

definition read_audit_by_id ::
    "governance_db \<Rightarrow> bytes \<Rightarrow> (OperationError, MycAuditRecord option) result" where
  "read_audit_by_id db audit_id =
     (case take 2 (concat (map (join_links db) (filter (\<lambda>a. o_audit_id a = audit_id) (g_audits db)))) of
        [] \<Rightarrow> Inr None
      | [row] \<Rightarrow> r_bind (decode_audit row) (\<lambda>r. Inr (Some r))
      | _ \<Rightarrow> Inl Binding)"

section \<open>Writing the audit trail\<close>

definition record_audit ::
    "(bytes \<Rightarrow> bytes) \<Rightarrow> governance_db \<Rightarrow> AuditEvidence \<Rightarrow> MycAuditKind \<Rightarrow> MycAuditOutcome \<Rightarrow> MycAuditReasonCode
      \<Rightarrow> (OperationError, MycAuditRecord \<times> governance_db) result" where
  "record_audit sha db evidence kind outcome reason =
     (let audit_id = derive_audit_id sha (ev_correlation evidence) kind in
     r_bind (read_audit_by_id db audit_id) (\<lambda>found. case found of
       Some existing \<Rightarrow>
         if au_correlation_id existing = ev_correlation evidence
            \<and> au_operation_id existing = ev_operation_id evidence
            \<and> au_kind existing = kind \<and> au_outcome existing = outcome \<and> au_reason existing = reason
            \<and> au_occurred_at existing = ev_occurred_at evidence
         then Inr (existing, db) else Inl Binding
     | None \<Rightarrow>
     r_bind (read_audit_state db) (\<lambda>current.
     r_bind (checked_time_add current 1) (\<lambda>sequence.
     r_bind (to_i64 sequence) (\<lambda>sequence_i.
     r_bind (to_i64 current) (\<lambda>current_i.
     r_bind (g_execute_one (advance_audit_state sequence_i current_i db)) (\<lambda>db1.
     r_bind (to_i64 (ev_occurred_at evidence)) (\<lambda>occurred_at.
     r_bind (g_execute_one (insert_audit \<lparr>o_audit_sequence = sequence_i, o_audit_id = audit_id,
         o_correlation_id = ev_correlation evidence, o_audit_kind = audit_kind_as_str kind,
         o_outcome = audit_outcome_as_str outcome, o_reason_code = audit_reason_as_str reason,
         o_occurred_at_unix_ms = occurred_at\<rparr> db1)) (\<lambda>db2.
     r_bind (case ev_operation_id evidence of
         None \<Rightarrow> Inr db2
       | Some operation_id \<Rightarrow> g_execute_one (insert_request_audit \<lparr>l_operation_id = operation_id,
           l_audit_kind = audit_kind_as_str kind, l_audit_sequence = sequence_i\<rparr> db2)) (\<lambda>db3.
     Inr (\<lparr>au_sequence = sequence, au_correlation_id = ev_correlation evidence,
       au_operation_id = ev_operation_id evidence, au_kind = kind, au_outcome = outcome, au_reason = reason,
       au_occurred_at = ev_occurred_at evidence\<rparr>, db3)))))))))))"

section \<open>Rate windows\<close>

record RateState =
  rs_subject :: RateSubject
  rs_existing_last :: "nat option"
  rs_window_started :: nat
  rs_window_ends :: nat
  rs_accepted :: nat
  rs_rejected :: nat
  rs_lifetime_accepted :: nat
  rs_lifetime_rejected :: nat

definition can_accept :: "RateState \<Rightarrow> MycRateLimitPolicy \<Rightarrow> bool" where
  "can_accept self policy \<longleftrightarrow> rs_accepted self < rl_max_attempts policy"

definition policy_key :: "(bytes \<Rightarrow> bytes) \<Rightarrow> MycRateLimitPolicy \<Rightarrow> RateSubject \<Rightarrow> string \<times> string \<times> bytes" where
  "policy_key sha policy subject = (rate_class_as_str (rl_class policy), subject_parts sha subject)"

definition load_new_rate_state ::
    "(bytes \<Rightarrow> bytes) \<Rightarrow> governance_db \<Rightarrow> MycRateLimitPolicy \<Rightarrow> RateSubject \<Rightarrow> nat
      \<Rightarrow> (OperationError, RateState) result" where
  "load_new_rate_state sha db policy subject now =
     (let scope = fst (subject_parts sha subject) in
     r_bind (if scope \<noteq> ''global''
       then let count = length (filter (\<lambda>r. w_rate_kind r = rate_class_as_str (rl_class policy)
                \<and> w_subject_scope r = scope) (g_rates db))
            in if rl_maximum_tracked_subjects policy \<le> count then Inl Binding else Inr ()
       else Inr ()) (\<lambda>_.
     r_bind (checked_time_add now (rl_window_ms policy)) (\<lambda>window_ends.
     Inr \<lparr>rs_subject = subject, rs_existing_last = None, rs_window_started = now, rs_window_ends = window_ends,
       rs_accepted = 0, rs_rejected = 0, rs_lifetime_accepted = 0, rs_lifetime_rejected = 0\<rparr>)))"

definition load_stored_rate_state ::
    "MycRateLimitPolicy \<Rightarrow> RateSubject \<Rightarrow> nat \<Rightarrow> rate_row \<Rightarrow> (OperationError, RateState) result" where
  "load_stored_rate_state policy subject now row =
     r_bind (bounded_i64 (w_last_observed_at_unix_ms row)) (\<lambda>last_observed.
     r_bind (bounded_i64 (w_window_started_at_unix_ms row)) (\<lambda>window_started.
     r_bind (bounded_i64 (w_window_ends_at_unix_ms row)) (\<lambda>window_ends.
     r_bind (bounded_i64 (w_accepted_count row)) (\<lambda>accepted.
     r_bind (bounded_i64 (w_rejected_count row)) (\<lambda>rejected.
     r_bind (bounded_i64 (w_lifetime_accepted_count row)) (\<lambda>lifetime_accepted.
     r_bind (bounded_i64 (w_lifetime_rejected_count row)) (\<lambda>lifetime_rejected.
     r_bind (bounded_i64 (w_retention_expires_at_unix_ms row)) (\<lambda>retention_expires.
     if now < last_observed \<or> last_observed < window_started \<or> window_ends < last_observed
        \<or> retention_expires < last_observed
        \<or> rl_max_attempts policy < accepted
     then Inl Binding
     else
       let state = \<lparr>rs_subject = subject, rs_existing_last = Some last_observed, rs_window_started = window_started,
         rs_window_ends = window_ends, rs_accepted = accepted, rs_rejected = rejected,
         rs_lifetime_accepted = lifetime_accepted, rs_lifetime_rejected = lifetime_rejected\<rparr>
       in if window_ends < now
          then r_bind (checked_time_add now (rl_window_ms policy)) (\<lambda>ends.
            Inr (state\<lparr>rs_window_started := now, rs_window_ends := ends, rs_accepted := 0, rs_rejected := 0\<rparr>))
          else Inr state))))))))"

definition load_rate_state ::
    "(bytes \<Rightarrow> bytes) \<Rightarrow> governance_db \<Rightarrow> MycRateLimitPolicy \<Rightarrow> nat \<Rightarrow> RateSubject
      \<Rightarrow> (OperationError, RateState) result" where
  "load_rate_state sha db policy now subject =
     (case take 2 (filter (\<lambda>r. rate_key r = policy_key sha policy subject) (g_rates db)) of
        [] \<Rightarrow> load_new_rate_state sha db policy subject now
      | [row] \<Rightarrow> load_stored_rate_state policy subject now row
      | _ \<Rightarrow> Inl Binding)"

definition persist_rate_state ::
    "(bytes \<Rightarrow> bytes) \<Rightarrow> MycRateLimitPolicy \<Rightarrow> nat \<Rightarrow> bool \<Rightarrow> RateState \<Rightarrow> governance_db
      \<Rightarrow> (OperationError, governance_db) result" where
  "persist_rate_state sha policy observed_at admitted state db =
     (let accepted = rs_accepted state + of_bool admitted;
          rejected = rs_rejected state + of_bool (\<not> admitted);
          lifetime_accepted = rs_lifetime_accepted state + of_bool admitted;
          lifetime_rejected = rs_lifetime_rejected state + of_bool (\<not> admitted)
      in if list_ex (\<lambda>value. i64_max < value) [accepted, rejected, lifetime_accepted, lifetime_rejected]
         then Inl Binding else
     r_bind (checked_time_add observed_at (rl_retention_ms policy)) (\<lambda>retention_expires.
     r_bind (to_i64 (rs_window_started state)) (\<lambda>window_started_i.
     r_bind (to_i64 (rs_window_ends state)) (\<lambda>window_ends_i.
     r_bind (to_i64 accepted) (\<lambda>accepted_i.
     r_bind (to_i64 rejected) (\<lambda>rejected_i.
     r_bind (to_i64 lifetime_accepted) (\<lambda>lifetime_accepted_i.
     r_bind (to_i64 lifetime_rejected) (\<lambda>lifetime_rejected_i.
     r_bind (to_i64 observed_at) (\<lambda>observed_at_i.
     r_bind (to_i64 retention_expires) (\<lambda>retention_expires_i.
     let row = \<lparr>w_rate_kind = rate_class_as_str (rl_class policy),
           w_subject_scope = fst (subject_parts sha (rs_subject state)),
           w_subject_sha256 = snd (subject_parts sha (rs_subject state)),
           w_window_started_at_unix_ms = window_started_i, w_window_ends_at_unix_ms = window_ends_i,
           w_accepted_count = accepted_i, w_rejected_count = rejected_i,
           w_lifetime_accepted_count = lifetime_accepted_i, w_lifetime_rejected_count = lifetime_rejected_i,
           w_last_observed_at_unix_ms = observed_at_i, w_retention_expires_at_unix_ms = retention_expires_i\<rparr>
     in case rs_existing_last state of
          Some prior \<Rightarrow> r_bind (to_i64 prior) (\<lambda>prior_i. g_execute_one (update_rate row prior_i db))
        | None \<Rightarrow> g_execute_one (insert_rate row db)))))))))))"

fun persist_rate_states ::
    "(bytes \<Rightarrow> bytes) \<Rightarrow> MycRateLimitPolicy \<Rightarrow> nat \<Rightarrow> bool \<Rightarrow> RateState list \<Rightarrow> governance_db
      \<Rightarrow> (OperationError, governance_db) result" where
  "persist_rate_states sha policy observed_at admitted [] db = Inr db"
| "persist_rate_states sha policy observed_at admitted (state # states) db =
     r_bind (persist_rate_state sha policy observed_at admitted state db)
       (persist_rate_states sha policy observed_at admitted states)"

definition govern_rate_attempt ::
    "(bytes \<Rightarrow> bytes) \<Rightarrow> governance_db \<Rightarrow> MycRateLimitPolicy \<Rightarrow> MycRateLimitClass \<Rightarrow> RateSubject list \<Rightarrow> AuditEvidence
      \<Rightarrow> MycAuditKind \<Rightarrow> (OperationError, bool \<times> governance_db) result" where
  "govern_rate_attempt sha db policy expected_class subjects evidence audit_kind =
     (if rl_class policy \<noteq> expected_class \<or> subjects = [] \<or> 2 < length subjects then Inl Binding else
     r_bind (read_audit_by_id db (derive_audit_id sha (ev_correlation evidence) audit_kind)) (\<lambda>found. case found of
       Some existing \<Rightarrow>
         if au_correlation_id existing = ev_correlation evidence
            \<and> au_operation_id existing = ev_operation_id evidence
            \<and> au_kind existing = audit_kind \<and> au_outcome existing = AuditRejected
            \<and> au_reason existing = ReasonRateLimited
         then Inr (False, db) else Inl Binding
     | None \<Rightarrow>
     r_bind (collect (load_rate_state sha db policy (ev_occurred_at evidence)) subjects) (\<lambda>states.
     let admitted = list_all (\<lambda>state. can_accept state policy) states in
     r_bind (persist_rate_states sha policy (ev_occurred_at evidence) admitted states db) (\<lambda>db1.
     r_bind (if \<not> admitted
       then r_bind (record_audit sha db1 evidence audit_kind AuditRejected ReasonRateLimited) (\<lambda>(_, db2). Inr db2)
       else Inr db1) (\<lambda>db2. Inr (admitted, db2))))))"

section \<open>Pages of the audit trail\<close>

definition audit_page ::
    "governance_db \<Rightarrow> nat \<Rightarrow> nat option \<Rightarrow> nat option \<Rightarrow> (audit_row \<Rightarrow> bool) \<Rightarrow> (OperationError, MycAuditPage) result" where
  "audit_page db limit requested_snapshot before selected =
     r_bind (read_audit_state db) (\<lambda>high_water.
     let snapshot = (case requested_snapshot of None \<Rightarrow> high_water | Some s \<Rightarrow> s) in
     if high_water < snapshot
        \<or> (case before of None \<Rightarrow> False | Some v \<Rightarrow> v = 0 \<or> saturating_add_u64 snapshot 1 < v)
     then Inl Binding else
     let before = (case before of None \<Rightarrow> saturating_add_u64 snapshot 1 | Some v \<Rightarrow> v);
         fetch_limit = limit + 1 in
     r_bind (to_i64 snapshot) (\<lambda>snapshot_i.
     r_bind (to_i64 before) (\<lambda>before_i.
     let rows = take fetch_limit (rev (sort_key o_audit_sequence (filter (\<lambda>a. o_audit_sequence a \<le> snapshot_i
           \<and> o_audit_sequence a < before_i \<and> selected a) (g_audits db))));
         has_more = (limit < length rows) in
     r_bind (collect (\<lambda>row. r_bind (bounded_digest (Some (o_audit_id row))) (\<lambda>audit_id.
         r_bind (read_audit_by_id db audit_id) (ok_or Binding))) (take limit rows)) (\<lambda>items.
     Inr \<lparr>pg_snapshot_sequence = snapshot, pg_items = items,
       pg_next_before_sequence =
         (if has_more then (if items = [] then None else Some (au_sequence (last items))) else None)\<rparr>))))"

definition read_audit_page ::
    "governance_db \<Rightarrow> nat \<Rightarrow> nat option \<Rightarrow> nat option \<Rightarrow> (OperationError, MycAuditPage) result" where
  "read_audit_page db limit requested_snapshot before =
     audit_page db limit requested_snapshot before (\<lambda>_. True)"

definition admin_audit_filter ::
    "int option \<Rightarrow> int option \<Rightarrow> string option \<Rightarrow> string option \<Rightarrow> audit_row \<Rightarrow> bool" where
  "admin_audit_filter from_ms to_ms kind outcome a \<longleftrightarrow>
     (case from_ms of None \<Rightarrow> True | Some v \<Rightarrow> v \<le> o_occurred_at_unix_ms a)
     \<and> (case to_ms of None \<Rightarrow> True | Some v \<Rightarrow> o_occurred_at_unix_ms a \<le> v)
     \<and> (case kind of None \<Rightarrow> True | Some v \<Rightarrow> o_audit_kind a = v)
     \<and> (case outcome of None \<Rightarrow> True | Some v \<Rightarrow> o_outcome a = v)"

definition optional_i64 :: "nat option \<Rightarrow> (OperationError, int option) result" where
  "optional_i64 value = (case value of None \<Rightarrow> Inr None | Some v \<Rightarrow> r_bind (to_i64 v) (\<lambda>i. Inr (Some i)))"

definition read_admin_audit_page ::
    "governance_db \<Rightarrow> MycAdminAuditQuery \<Rightarrow> (OperationError, MycAuditPage) result" where
  "read_admin_audit_page db query =
     r_bind (optional_i64 (q_from_unix_ms query)) (\<lambda>from_ms.
     r_bind (optional_i64 (q_to_unix_ms query)) (\<lambda>to_ms.
     audit_page db (q_limit query) (q_snapshot_sequence query) (q_before_sequence query)
       (admin_audit_filter from_ms to_ms (map_option audit_kind_as_str (q_kind query))
         (map_option audit_outcome_as_str (q_outcome query)))))"

section \<open>Compaction\<close>

text \<open>
  \<open>DELETE .. WHERE .. IN (SELECT .. ORDER BY .. LIMIT ..)\<close>. Deleting an audit row that a request
  link still references violates the foreign key.
\<close>

definition expired_audits :: "governance_db \<Rightarrow> int \<Rightarrow> nat \<Rightarrow> int list" where
  "expired_audits db cutoff limit =
     map o_audit_sequence (take limit (sort_key o_audit_sequence
       (filter (\<lambda>a. o_occurred_at_unix_ms a < cutoff) (g_audits db))))"

definition delete_links :: "int \<Rightarrow> nat \<Rightarrow> governance_db \<Rightarrow> governance_db" where
  "delete_links cutoff limit db =
     db\<lparr>g_links := filter (\<lambda>l. l_audit_sequence l \<notin> set (expired_audits db cutoff limit)) (g_links db)\<rparr>"

definition delete_audits :: "int \<Rightarrow> nat \<Rightarrow> governance_db \<Rightarrow> (governance_db \<times> nat) option" where
  "delete_audits cutoff limit db =
     (let doomed = (\<lambda>a. o_audit_sequence a \<in> set (expired_audits db cutoff limit))
      in if list_ex (\<lambda>a. doomed a \<and> list_ex (\<lambda>l. l_audit_sequence l = o_audit_sequence a) (g_links db)) (g_audits db)
         then None
         else Some (db\<lparr>g_audits := filter (\<lambda>a. \<not> doomed a) (g_audits db)\<rparr>, length (filter doomed (g_audits db))))"

definition expired_rates :: "governance_db \<Rightarrow> int \<Rightarrow> nat \<Rightarrow> rate_row list" where
  "expired_rates db now limit =
     take limit (sort_key (\<lambda>r. (w_retention_expires_at_unix_ms r, rate_key r))
       (filter (\<lambda>r. w_retention_expires_at_unix_ms r < now) (g_rates db)))"

definition delete_rates :: "int \<Rightarrow> nat \<Rightarrow> governance_db \<Rightarrow> governance_db \<times> nat" where
  "delete_rates now limit db =
     (let doomed = (\<lambda>r. r \<in> set (expired_rates db now limit))
      in (db\<lparr>g_rates := filter (\<lambda>r. \<not> doomed r) (g_rates db)\<rparr>, length (filter doomed (g_rates db))))"

definition u16_count :: "nat \<Rightarrow> (OperationError, nat) result" where
  "u16_count n = (if n \<le> u16_max then Inr n else Inl Binding)"

definition compact_governance ::
    "(bytes \<Rightarrow> bytes) \<Rightarrow> governance_db \<Rightarrow> nat \<Rightarrow> MycGovernanceCompactionPolicy \<Rightarrow> bytes
      \<Rightarrow> (OperationError, MycGovernanceCompactionOutcome \<times> governance_db) result" where
  "compact_governance sha db observed_at policy correlation =
     r_bind (read_audit_by_id db (derive_audit_id sha correlation AuditGovernanceCompaction)) (\<lambda>found. case found of
       Some existing \<Rightarrow>
         if au_correlation_id existing = correlation \<and> au_operation_id existing = None
            \<and> au_kind existing = AuditGovernanceCompaction \<and> au_outcome existing = AuditSucceeded
            \<and> au_reason existing = ReasonCompacted \<and> au_occurred_at existing = observed_at
         then Inr (\<lparr>co_removed_audit_records = 0, co_removed_rate_subjects = 0\<rparr>, db) else Inl Binding
     | None \<Rightarrow>
     let cutoff = observed_at - cp_audit_retention_ms policy;
         limit = cp_maximum_rows_per_class policy in
     r_bind (to_i64 cutoff) (\<lambda>cutoff_i.
     let db1 = delete_links cutoff_i limit db in
     r_bind (ok_or Storage (delete_audits cutoff_i limit db1)) (\<lambda>(db2, removed_audits).
     r_bind (to_i64 observed_at) (\<lambda>observed_i.
     let (db3, removed_rates) = delete_rates observed_i limit db2 in
     r_bind (u16_count removed_audits) (\<lambda>removed_audit_records.
     r_bind (u16_count removed_rates) (\<lambda>removed_rate_subjects.
     r_bind (record_audit sha db3 \<lparr>ev_correlation = correlation, ev_occurred_at = observed_at, ev_operation_id = None\<rparr>
         AuditGovernanceCompaction AuditSucceeded ReasonCompacted) (\<lambda>(_, db4).
     Inr (\<lparr>co_removed_audit_records = removed_audit_records, co_removed_rate_subjects = removed_rate_subjects\<rparr>,
       db4))))))))"

definition governance_verify_metadata :: "governance_db \<Rightarrow> PersistedMetadata \<Rightarrow> (OperationError, unit) result" where
  "governance_verify_metadata db expected = require_expected_metadata expected (g_bindings db)"

definition compact_governance_evidence ::
    "(bytes \<Rightarrow> bytes) \<Rightarrow> PersistedMetadata \<Rightarrow> nat \<Rightarrow> governance_db \<Rightarrow> nat \<Rightarrow> MycGovernanceCompactionPolicy \<Rightarrow> bytes
      \<Rightarrow> (OperationError, MycGovernanceCompactionOutcome \<times> governance_db) result" where
  "compact_governance_evidence sha expected governance_audit_retention_ms db observed_at policy correlation =
     (if cp_audit_retention_ms policy \<noteq> governance_audit_retention_ms then Inl Binding else
     r_bind (governance_verify_metadata db expected) (\<lambda>_.
     compact_governance sha db observed_at policy correlation))"

end
