(* ===== verification/Governance_Invariant.thy ===== *)
theory Governance_Invariant
  imports Governance_State
begin

text \<open>
  The invariant of the audit and rate tables, the effect of each operation on a database that has
  it, and its preservation.
\<close>

section \<open>Reading lemmas\<close>

lemma to_i64_Inr [simp]: "to_i64 v = Inr i \<longleftrightarrow> i = int v \<and> v \<le> i64_max"
  by (simp add: to_i64_def)

lemma bounded_i64_Inr [simp]: "bounded_i64 v = Inr n \<longleftrightarrow> v = int n \<and> n \<le> u64_max"
  by (simp add: bounded_i64_def)

lemma checked_time_add_Inr [simp]: "checked_time_add a b = Inr c \<longleftrightarrow> c = a + b \<and> a + b \<le> i64_max"
  by (auto simp: checked_time_add_def checked_add_u64_def int_width_defs)

lemma bounded_digest_Inr [simp]: "bounded_digest v = Inr b \<longleftrightarrow> v = Some b \<and> length b = 32"
  by (auto simp: bounded_digest_def r_bind_Inr_iff split: if_splits)

lemma bounded_text_Inr [simp]: "bounded_text v = Inr s \<longleftrightarrow> v = Some s"
  by (simp add: bounded_text_def)

lemma only_if_Some [simp]: "only_if b v = Some w \<longleftrightarrow> b \<and> w = v"
  by (auto simp: only_if_def)

lemma optional_digest_Inr [simp]:
  "optional_digest v = Inr r \<longleftrightarrow> r = v \<and> (\<forall>b. v = Some b \<longrightarrow> length b = 32)"
  by (cases v) (auto simp: optional_digest_def)

lemma connection_time_new_Inr [simp]:
  "connection_time_new v = Inr t \<longleftrightarrow> t = v \<and> 0 < v \<and> v \<le> i64_max"
  by (auto simp: connection_time_new_def i64_of_nat_def)

lemma g_execute_one_Inr: "g_execute_one st = Inr db \<longleftrightarrow> st = Some (db, 1)"
  by (auto simp: g_execute_one_def g_require_one_def r_bind_Inr_iff)

lemmas row_checks = operation_audit_check_def nip46_request_audit_check_def connection_rate_windows_check_def
  myc_audit_state_check_def

section \<open>The invariant\<close>

definition bound_kinds :: "string set" where
  "bound_kinds = {''connection_admission'', ''challenge_creation'', ''challenge_authorization''}"

definition audit_linked :: "request_key_row list \<Rightarrow> request_audit_row list \<Rightarrow> audit_row \<Rightarrow> bool" where
  "audit_linked requests links a \<longleftrightarrow>
     (let ls = filter (\<lambda>l. l_audit_sequence l = o_audit_sequence a) links
      in if o_audit_kind a \<in> bound_kinds
         then \<exists>l q. ls = [l] \<and> length (l_operation_id l) = 32 \<and> l_audit_kind l = o_audit_kind a
           \<and> q \<in> set requests \<and> k_operation_id q = l_operation_id l \<and> k_correlation_id q = o_correlation_id a
         else ls = [])"

definition trail_inv :: "governance_db \<Rightarrow> bool" where
  "trail_inv db \<longleftrightarrow>
     (\<exists>n. g_audit_state db = [\<lparr>s_singleton = 1, s_next_sequence = n\<rparr>] \<and> 0 \<le> n \<and> n \<le> sql_int_max
        \<and> (\<forall>a\<in>set (g_audits db). o_audit_sequence a \<le> n))
     \<and> (\<forall>a\<in>set (g_audits db). operation_audit_check a \<and> audit_linked (g_requests db) (g_links db) a)
     \<and> distinct (map o_audit_sequence (g_audits db)) \<and> distinct (map o_audit_id (g_audits db))
     \<and> distinct (map k_operation_id (g_requests db))
     \<and> (\<forall>l\<in>set (g_links db). \<exists>a\<in>set (g_audits db). o_audit_sequence a = l_audit_sequence l)"

definition rate_ok :: "rate_row \<Rightarrow> bool" where
  "rate_ok r \<longleftrightarrow> connection_rate_windows_check r \<and> w_last_observed_at_unix_ms r \<le> w_window_ends_at_unix_ms r"

definition rates_inv :: "rate_row list \<Rightarrow> bool" where
  "rates_inv rates \<longleftrightarrow> distinct (map rate_key rates) \<and> (\<forall>r\<in>set rates. rate_ok r)"

definition governance_inv :: "governance_db \<Rightarrow> bool" where
  "governance_inv db \<longleftrightarrow> trail_inv db \<and> rates_inv (g_rates db)"

definition audit_record :: "governance_db \<Rightarrow> audit_row \<Rightarrow> MycAuditRecord" where
  "audit_record db a = \<lparr>au_sequence = nat (o_audit_sequence a), au_correlation_id = o_correlation_id a,
     au_operation_id = (case filter (\<lambda>l. l_audit_sequence l = o_audit_sequence a) (g_links db) of
        [] \<Rightarrow> None | l # _ \<Rightarrow> Some (l_operation_id l)),
     au_kind = the (audit_kind_parse (o_audit_kind a)), au_outcome = the (audit_outcome_parse (o_outcome a)),
     au_reason = the (audit_reason_parse (o_reason_code a)), au_occurred_at = nat (o_occurred_at_unix_ms a)\<rparr>"

lemma trail_invD:
  assumes "trail_inv db"
  shows "\<exists>n. g_audit_state db = [\<lparr>s_singleton = 1, s_next_sequence = n\<rparr>] \<and> 0 \<le> n \<and> n \<le> sql_int_max
        \<and> (\<forall>a\<in>set (g_audits db). o_audit_sequence a \<le> n)"
    and "\<And>a. a \<in> set (g_audits db) \<Longrightarrow> operation_audit_check a"
    and "\<And>a. a \<in> set (g_audits db) \<Longrightarrow> audit_linked (g_requests db) (g_links db) a"
    and "distinct (map o_audit_sequence (g_audits db))" and "distinct (map o_audit_id (g_audits db))"
    and "distinct (map k_operation_id (g_requests db))"
    and "\<And>l. l \<in> set (g_links db) \<Longrightarrow> \<exists>a\<in>set (g_audits db). o_audit_sequence a = l_audit_sequence l"
  using assms by (auto simp: trail_inv_def)

lemma kind_in_bound:
  "audit_kind_as_str kind \<in> bound_kinds \<longleftrightarrow>
     kind \<in> {AuditConnectionAdmission, AuditChallengeCreation, AuditChallengeAuthorization}"
  by (cases kind) (simp_all add: bound_kinds_def)

section \<open>Every stored audit record is readable\<close>

lemma operation_audit_checkD:
  assumes "operation_audit_check a"
  shows "1 \<le> o_audit_sequence a" and "o_audit_sequence a \<le> sql_int_max" and "length (o_audit_id a) = 32"
    and "length (o_correlation_id a) = 32"
    and "1 \<le> o_occurred_at_unix_ms a" and "o_occurred_at_unix_ms a \<le> sql_int_max"
    and "\<exists>kind. audit_kind_parse (o_audit_kind a) = Some kind"
    and "\<exists>outcome. audit_outcome_parse (o_outcome a) = Some outcome"
    and "\<exists>reason. audit_reason_parse (o_reason_code a) = Some reason"
proof -
  note c = assms [unfolded operation_audit_check_def]
  show "1 \<le> o_audit_sequence a" "o_audit_sequence a \<le> sql_int_max" "length (o_audit_id a) = 32"
    "length (o_correlation_id a) = 32" "1 \<le> o_occurred_at_unix_ms a" "o_occurred_at_unix_ms a \<le> sql_int_max"
    using c by blast+
  show "\<exists>kind. audit_kind_parse (o_audit_kind a) = Some kind"
    using c [THEN conjunct2, THEN conjunct2, THEN conjunct2, THEN conjunct2, THEN conjunct1]
    by (auto simp: audit_kind_parse_def)
  show "\<exists>outcome. audit_outcome_parse (o_outcome a) = Some outcome"
    using c [THEN conjunct2, THEN conjunct2, THEN conjunct2, THEN conjunct2, THEN conjunct2, THEN conjunct1]
    by (auto simp: audit_outcome_parse_def)
  show "\<exists>reason. audit_reason_parse (o_reason_code a) = Some reason"
    using c [THEN conjunct2, THEN conjunct2, THEN conjunct2, THEN conjunct2, THEN conjunct2, THEN conjunct2, THEN conjunct1]
    by (auto simp: audit_reason_parse_def)
qed

lemma audit_spelled:
  assumes "operation_audit_check a"
  obtains kind outcome reason where "o_audit_kind a = audit_kind_as_str kind"
    "o_outcome a = audit_outcome_as_str outcome" "o_reason_code a = audit_reason_as_str reason"
  using operation_audit_checkD(7-9) [OF assms] that
  by (metis audit_kind.as_str_parse audit_outcome.as_str_parse audit_reason.as_str_parse)

lemma spelled_lengths:
  "length (audit_kind_as_str kind) \<le> 40" "length (audit_outcome_as_str outcome) \<le> 16"
  "length (audit_reason_as_str reason) \<le> 48"
proof -
  show "length (audit_kind_as_str kind) \<le> 40" by (cases kind) simp_all
  show "length (audit_outcome_as_str outcome) \<le> 16" by (cases outcome) simp_all
  show "length (audit_reason_as_str reason) \<le> 48" by (cases reason) simp_all
qed

lemma decode_audit_ok:
  assumes "operation_audit_check a"
    and "o_audit_kind a \<in> bound_kinds \<Longrightarrow> link = Some l \<and> request = Some q \<and> length (l_operation_id l) = 32
      \<and> l_audit_kind l = o_audit_kind a \<and> k_correlation_id q = o_correlation_id a"
    and "o_audit_kind a \<notin> bound_kinds \<Longrightarrow> link = None \<and> request = None"
  shows "decode_audit (a, link, request) = Inr \<lparr>au_sequence = nat (o_audit_sequence a),
     au_correlation_id = o_correlation_id a, au_operation_id = map_option l_operation_id link,
     au_kind = the (audit_kind_parse (o_audit_kind a)), au_outcome = the (audit_outcome_parse (o_outcome a)),
     au_reason = the (audit_reason_parse (o_reason_code a)), au_occurred_at = nat (o_occurred_at_unix_ms a)\<rparr>"
proof -
  obtain kind outcome reason where sp: "o_audit_kind a = audit_kind_as_str kind"
    "o_outcome a = audit_outcome_as_str outcome" "o_reason_code a = audit_reason_as_str reason"
    using assms(1) by (rule audit_spelled)
  have len: "length (o_correlation_id a) = 32" using assms(1) by (rule operation_audit_checkD)
  have seq: "bounded_i64 (o_audit_sequence a) = Inr (nat (o_audit_sequence a))"
    using operation_audit_checkD(1,2) [OF assms(1)] by (simp add: int_width_defs nat_le_iff)
  have occ: "r_bind (bounded_i64 (o_occurred_at_unix_ms a)) connection_time_new = Inr (nat (o_occurred_at_unix_ms a))"
    using operation_audit_checkD(5,6) [OF assms(1)] by (simp add: r_bind_Inr_iff int_width_defs nat_le_iff)
  have c: "bounded_digest (Some (o_correlation_id a)) = Inr (o_correlation_id a)" using len by simp
  have t: "bounded_text (Some s) = Inr s" for s by simp
  show ?thesis
  proof (cases "o_audit_kind a \<in> bound_kinds")
    case True
    note B = assms(2) [OF True]
    have d: "optional_digest (Some (l_operation_id l)) = Inr (Some (l_operation_id l))"
      "optional_digest (Some (o_correlation_id a)) = Inr (Some (o_correlation_id a))" using B len by simp_all
    have k: "kind \<in> {AuditConnectionAdmission, AuditChallengeCreation, AuditChallengeAuthorization}"
      using True sp(1) kind_in_bound by simp
    show ?thesis
      using B k len sp
      by (simp add: decode_audit_def t c d seq occ audit_kind.parse_as_str audit_outcome.parse_as_str
          audit_reason.parse_as_str spelled_lengths only_if_def)
  next
    case False
    note B = assms(3) [OF False]
    have d: "optional_digest None = Inr None" by simp
    have k: "kind \<notin> {AuditConnectionAdmission, AuditChallengeCreation, AuditChallengeAuthorization}"
      using False sp(1) kind_in_bound by simp
    show ?thesis
      using B k len sp
      by (simp add: decode_audit_def t c d seq occ audit_kind.parse_as_str audit_outcome.parse_as_str
          audit_reason.parse_as_str spelled_lengths only_if_def)
  qed
qed


lemma join_links_ok:
  assumes "trail_inv db" and "a \<in> set (g_audits db)"
  obtains (bound) l q where "o_audit_kind a \<in> bound_kinds" "join_links db a = [(a, Some l, Some q)]"
      "filter (\<lambda>l. l_audit_sequence l = o_audit_sequence a) (g_links db) = [l]" "length (l_operation_id l) = 32"
      "l_audit_kind l = o_audit_kind a" "k_correlation_id q = o_correlation_id a"
  | (free) "o_audit_kind a \<notin> bound_kinds" "join_links db a = [(a, None, None)]"
      "filter (\<lambda>l. l_audit_sequence l = o_audit_sequence a) (g_links db) = []"
proof (cases "o_audit_kind a \<in> bound_kinds")
  case True
  with trail_invD(3) [OF assms] obtain l q where l: "filter (\<lambda>l. l_audit_sequence l = o_audit_sequence a) (g_links db) = [l]"
    "length (l_operation_id l) = 32" "l_audit_kind l = o_audit_kind a"
    and q: "q \<in> set (g_requests db)" "k_operation_id q = l_operation_id l" "k_correlation_id q = o_correlation_id a"
    unfolding audit_linked_def Let_def by auto
  have "filter (\<lambda>r. k_operation_id r = l_operation_id l) (g_requests db) = [q]"
    using filter_unique [OF trail_invD(6) [OF assms(1)] q(1)] q(2) by simp
  then have "join_links db a = [(a, Some l, Some q)]" using l(1) by (simp add: join_links_def join_requests_def)
  with True l q show thesis by (intro bound) auto
next
  case False
  then have "filter (\<lambda>l. l_audit_sequence l = o_audit_sequence a) (g_links db) = []"
    using trail_invD(3) [OF assms] unfolding audit_linked_def Let_def by auto
  with False show thesis by (intro free) (simp_all add: join_links_def)
qed

lemma read_audit_present:
  assumes "trail_inv db" and "a \<in> set (g_audits db)"
  shows "read_audit_by_id db (o_audit_id a) = Inr (Some (audit_record db a))"
proof -
  have f: "filter (\<lambda>r. o_audit_id r = o_audit_id a) (g_audits db) = [a]"
    using trail_invD(5) [OF assms(1)] assms(2) by (rule filter_unique)
  note chk = trail_invD(2) [OF assms]
  from assms show ?thesis
  proof (cases rule: join_links_ok)
    case (bound l q)
    have "decode_audit (a, Some l, Some q) = Inr (audit_record db a)"
      using decode_audit_ok [OF chk, of "Some l" l "Some q" q] bound by (simp add: audit_record_def)
    then show ?thesis using bound(2) by (simp add: read_audit_by_id_def f)
  next
    case free
    have "decode_audit (a, None, None) = Inr (audit_record db a)"
      using decode_audit_ok [OF chk, of None _ None] free by (simp add: audit_record_def)
    then show ?thesis using free(2) by (simp add: read_audit_by_id_def f)
  qed
qed

lemma read_audit_absent:
  "\<forall>a\<in>set (g_audits db). o_audit_id a \<noteq> audit_id \<Longrightarrow> read_audit_by_id db audit_id = Inr None"
proof -
  assume "\<forall>a\<in>set (g_audits db). o_audit_id a \<noteq> audit_id"
  then have "filter (\<lambda>a. o_audit_id a = audit_id) (g_audits db) = []" by (simp add: filter_empty_conv)
  then show ?thesis by (simp add: read_audit_by_id_def)
qed

lemma read_audit_cases:
  assumes "trail_inv db"
  obtains (absent) "\<forall>a\<in>set (g_audits db). o_audit_id a \<noteq> audit_id" "read_audit_by_id db audit_id = Inr None"
  | (present) a where "a \<in> set (g_audits db)" "o_audit_id a = audit_id"
      "read_audit_by_id db audit_id = Inr (Some (audit_record db a))"
proof (cases "\<exists>a\<in>set (g_audits db). o_audit_id a = audit_id")
  case True
  then show thesis using read_audit_present [OF assms] present by blast
next
  case False
  then show thesis using read_audit_absent absent by blast
qed

lemma read_audit_state_ok:
  "g_audit_state db = [\<lparr>s_singleton = 1, s_next_sequence = n\<rparr>] \<Longrightarrow> 0 \<le> n \<Longrightarrow> n \<le> sql_int_max \<Longrightarrow>
     read_audit_state db = Inr (nat n)"
  by (simp add: read_audit_state_def int_width_defs nat_le_iff)

section \<open>Recording an audit event\<close>

text \<open>
  What the callers in \<^verbatim>\<open>src/src/state_connection.rs\<close> pass as evidence: request-bound kinds carry the
  operation and correlation of a stored request (read by \<open>read_request_binding\<close>), the others no operation.
\<close>

definition evidence_ok :: "governance_db \<Rightarrow> AuditEvidence \<Rightarrow> MycAuditKind \<Rightarrow> bool" where
  "evidence_ok db ev kind \<longleftrightarrow>
     0 < ev_occurred_at ev \<and> ev_occurred_at ev \<le> i64_max \<and> length (ev_correlation ev) = 32
     \<and> (if audit_kind_as_str kind \<in> bound_kinds
        then \<exists>q\<in>set (g_requests db). ev_operation_id ev = Some (k_operation_id q)
          \<and> k_correlation_id q = ev_correlation ev \<and> length (k_operation_id q) = 32
        else ev_operation_id ev = None)"

definition new_audit :: "(bytes \<Rightarrow> bytes) \<Rightarrow> int \<Rightarrow> AuditEvidence \<Rightarrow> MycAuditKind \<Rightarrow> MycAuditOutcome \<Rightarrow> MycAuditReasonCode \<Rightarrow> audit_row" where
  "new_audit sha sequence ev kind outcome reason = \<lparr>o_audit_sequence = sequence,
     o_audit_id = derive_audit_id sha (ev_correlation ev) kind, o_correlation_id = ev_correlation ev,
     o_audit_kind = audit_kind_as_str kind, o_outcome = audit_outcome_as_str outcome,
     o_reason_code = audit_reason_as_str reason, o_occurred_at_unix_ms = int (ev_occurred_at ev)\<rparr>"

definition new_links :: "int \<Rightarrow> AuditEvidence \<Rightarrow> MycAuditKind \<Rightarrow> request_audit_row list" where
  "new_links sequence ev kind = (case ev_operation_id ev of None \<Rightarrow> []
     | Some operation_id \<Rightarrow> [\<lparr>l_operation_id = operation_id, l_audit_kind = audit_kind_as_str kind,
         l_audit_sequence = sequence\<rparr>])"

definition audited_db :: "governance_db \<Rightarrow> audit_row \<Rightarrow> request_audit_row list \<Rightarrow> governance_db" where
  "audited_db db a ls = db\<lparr>g_audit_state := [\<lparr>s_singleton = 1, s_next_sequence = o_audit_sequence a\<rparr>],
     g_audits := g_audits db @ [a], g_links := g_links db @ ls\<rparr>"

lemma audited_db_simps [simp]:
  "g_bindings (audited_db db a ls) = g_bindings db" "g_requests (audited_db db a ls) = g_requests db"
  "g_rates (audited_db db a ls) = g_rates db" "g_audits (audited_db db a ls) = g_audits db @ [a]"
  "g_links (audited_db db a ls) = g_links db @ ls"
  "g_audit_state (audited_db db a ls) = [\<lparr>s_singleton = 1, s_next_sequence = o_audit_sequence a\<rparr>]"
  by (simp_all add: audited_db_def)

lemma record_audit_effect:
  assumes inv: "trail_inv db" and run: "record_audit sha db ev kind outcome reason = Inr (r, db')"
  obtains (replay) "db' = db" "\<exists>a\<in>set (g_audits db). r = audit_record db a
      \<and> o_audit_id a = derive_audit_id sha (ev_correlation ev) kind"
  | (written) n where "g_audit_state db = [\<lparr>s_singleton = 1, s_next_sequence = n\<rparr>]" "0 \<le> n" "n < sql_int_max"
      "\<forall>a\<in>set (g_audits db). o_audit_sequence a \<le> n"
      "\<forall>a\<in>set (g_audits db). o_audit_id a \<noteq> derive_audit_id sha (ev_correlation ev) kind"
      "operation_audit_check (new_audit sha (n + 1) ev kind outcome reason)"
      "db' = audited_db db (new_audit sha (n + 1) ev kind outcome reason) (new_links (n + 1) ev kind)"
      "au_sequence r = nat (n + 1)"
  using inv
proof (cases rule: read_audit_cases [where audit_id = "derive_audit_id sha (ev_correlation ev) kind"])
  case (present a)
  with run have "db' = db" "r = audit_record db a" by (auto simp: record_audit_def split: if_splits)
  with present show thesis by (intro replay) auto
next
  case absent
  obtain n where n: "g_audit_state db = [\<lparr>s_singleton = 1, s_next_sequence = n\<rparr>]" "0 \<le> n" "n \<le> sql_int_max"
    "\<forall>a\<in>set (g_audits db). o_audit_sequence a \<le> n" using trail_invD(1) [OF inv] by blast
  define db1 where "db1 = db\<lparr>g_audit_state := [\<lparr>s_singleton = 1, s_next_sequence = n + 1\<rparr>]\<rparr>"
  let ?a = "new_audit sha (n + 1) ev kind outcome reason"
  have adv: "advance_audit_state (1 + n) n db = Some (db1, 1)"
    if "n < sql_int_max"
    using that n by (simp add: advance_audit_state_def sql_update_def audit_state_update_legal_def
        myc_audit_state_guard_update_def myc_audit_state_check_def upd_row_def db1_def add.commute)
  from run absent(2) n have lt: "n < sql_int_max"
    by (auto simp: record_audit_def read_audit_state_ok [OF n(1-3)] int_width_defs elim!: r_bind_InrE)
  have row: "\<lparr>o_audit_sequence = 1 + n, o_audit_id = derive_audit_id sha (ev_correlation ev) kind,
      o_correlation_id = ev_correlation ev, o_audit_kind = audit_kind_as_str kind,
      o_outcome = audit_outcome_as_str outcome, o_reason_code = audit_reason_as_str reason,
      o_occurred_at_unix_ms = int (ev_occurred_at ev)\<rparr> = ?a" by (simp add: new_audit_def add.commute)
  have seq: "1 + n = n + 1" by simp
  from run absent(2) obtain db2 where ins: "g_execute_one (insert_audit ?a db1) = Inr db2"
    and lnk: "(case ev_operation_id ev of None \<Rightarrow> Inr db2 | Some operation_id \<Rightarrow> g_execute_one (insert_request_audit
        \<lparr>l_operation_id = operation_id, l_audit_kind = audit_kind_as_str kind, l_audit_sequence = 1 + n\<rparr> db2)) = Inr db'"
    and r: "au_sequence r = nat n + 1"
    using n(2) adv [OF lt]
    by (auto simp: record_audit_def read_audit_state_ok [OF n(1-3)] g_execute_one_Inr row elim!: r_bind_InrE)
  from ins have chk: "operation_audit_check ?a" and db2: "db2 = db1\<lparr>g_audits := g_audits db @ [?a]\<rparr>"
    by (auto simp: g_execute_one_Inr insert_audit_def audit_insert_legal_def db1_def)
  have "db' = audited_db db ?a (new_links (n + 1) ev kind)"
    using lnk unfolding db2 db1_def seq
    by (auto simp: new_links_def audited_db_def g_execute_one_Inr insert_request_audit_def new_audit_def split: option.splits)
  with n lt absent(1) chk r show thesis by (intro written [of n]) auto
qed


lemma audit_linked_requests:
  "audit_linked requests links a \<Longrightarrow> set requests \<subseteq> set requests' \<Longrightarrow> audit_linked requests' links a"
  unfolding audit_linked_def Let_def by (auto split: if_splits)

lemma new_audit_linked:
  assumes "evidence_ok db ev kind" and "\<forall>l\<in>set links. l_audit_sequence l \<noteq> n"
  shows "audit_linked (g_requests db) (links @ new_links n ev kind) (new_audit sha n ev kind outcome reason)"
proof -
  have "filter (\<lambda>l. l_audit_sequence l = n) links = []" using assms(2) by (simp add: filter_empty_conv)
  then show ?thesis
    using assms(1)
    by (auto simp: audit_linked_def Let_def new_links_def new_audit_def evidence_ok_def split: if_splits)
qed

lemma audited_inv:
  assumes inv: "trail_inv db" and n: "0 \<le> n" "n < sql_int_max" "\<forall>a\<in>set (g_audits db). o_audit_sequence a \<le> n"
    and fresh: "\<forall>a\<in>set (g_audits db). o_audit_id a \<noteq> derive_audit_id sha (ev_correlation ev) kind"
    and chk: "operation_audit_check (new_audit sha (n + 1) ev kind outcome reason)" and ev: "evidence_ok db ev kind"
  shows "trail_inv (audited_db db (new_audit sha (n + 1) ev kind outcome reason) (new_links (n + 1) ev kind))"
proof -
  let ?a = "new_audit sha (n + 1) ev kind outcome reason" and ?ls = "new_links (n + 1) ev kind"
  have a: "o_audit_sequence ?a = n + 1" "o_audit_id ?a = derive_audit_id sha (ev_correlation ev) kind"
    by (simp_all add: new_audit_def)
  have ls: "l_audit_sequence l = n + 1" if "l \<in> set ?ls" for l
    using that by (auto simp: new_links_def split: option.splits)
  have old_links: "\<forall>l\<in>set (g_links db). l_audit_sequence l \<noteq> n + 1" using trail_invD(7) [OF inv] n(3) by fastforce
  have linked: "audit_linked (g_requests db) (g_links db @ ?ls) b" if b: "b \<in> set (g_audits db)" for b
  proof -
    have "filter (\<lambda>l. l_audit_sequence l = o_audit_sequence b) ?ls = []"
      using ls n(3) b by (force simp: filter_empty_conv)
    then show ?thesis using trail_invD(3) [OF inv b] by (simp add: audit_linked_def)
  qed
  have 1: "\<exists>m. g_audit_state (audited_db db ?a ?ls) = [\<lparr>s_singleton = 1, s_next_sequence = m\<rparr>] \<and> 0 \<le> m \<and> m \<le> sql_int_max
      \<and> (\<forall>b\<in>set (g_audits (audited_db db ?a ?ls)). o_audit_sequence b \<le> m)"
    using n by (intro exI [of _ "n + 1"]) (auto simp: a)
  have 2: "\<forall>b\<in>set (g_audits (audited_db db ?a ?ls)). operation_audit_check b
      \<and> audit_linked (g_requests (audited_db db ?a ?ls)) (g_links (audited_db db ?a ?ls)) b"
    using trail_invD(2) [OF inv] chk linked new_audit_linked [OF ev old_links] by simp
  have 3: "distinct (map o_audit_sequence (g_audits (audited_db db ?a ?ls)))"
    using trail_invD(4) [OF inv] n(3) by (auto simp: a(1))
  have 4: "distinct (map o_audit_id (g_audits (audited_db db ?a ?ls)))"
    using trail_invD(5) [OF inv] fresh by (auto simp: a(2))
  have 5: "distinct (map k_operation_id (g_requests (audited_db db ?a ?ls)))" using trail_invD(6) [OF inv] by simp
  have 6: "\<forall>l\<in>set (g_links (audited_db db ?a ?ls)). \<exists>b\<in>set (g_audits (audited_db db ?a ?ls)). o_audit_sequence b = l_audit_sequence l"
    using trail_invD(7) [OF inv] ls a(1) by auto
  show ?thesis unfolding trail_inv_def using 1 2 3 4 5 6 by blast
qed

lemma record_audit_inv:
  assumes "trail_inv db" and "evidence_ok db ev kind" and "record_audit sha db ev kind outcome reason = Inr (r, db')"
  shows "trail_inv db'" and "g_rates db' = g_rates db" and "g_requests db' = g_requests db"
  using assms(1,3)
  by (cases rule: record_audit_effect; use assms(1,2) in \<open>simp add: audited_inv\<close>)+

section \<open>Rate windows as a map\<close>

definition rate_lookup :: "rate_row list \<Rightarrow> string \<times> string \<times> bytes \<Rightarrow> rate_row option" where
  "rate_lookup rates key = find (\<lambda>r. rate_key r = key) rates"

definition put_rate :: "rate_row list \<Rightarrow> rate_row \<Rightarrow> rate_row list" where
  "put_rate rates row = (if rate_lookup rates (rate_key row) = None then rates @ [row]
     else map (\<lambda>r. if rate_key r = rate_key row then row else r) rates)"

lemma rate_lookup_None: "rate_lookup rates key = None \<longleftrightarrow> (\<forall>r\<in>set rates. rate_key r \<noteq> key)"
  by (auto simp: rate_lookup_def find_None_iff)

lemma rate_lookup_SomeD: "rate_lookup rates key = Some r \<Longrightarrow> r \<in> set rates \<and> rate_key r = key"
  unfolding rate_lookup_def find_Some_iff by auto

lemma rate_lookup_Some:
  assumes "rates_inv rates"
  shows "rate_lookup rates key = Some r \<longleftrightarrow> r \<in> set rates \<and> rate_key r = key"
proof
  assume r: "r \<in> set rates \<and> rate_key r = key"
  then obtain q where q: "rate_lookup rates key = Some q" using rate_lookup_None [of rates key] by fastforce
  then have "q = r" using r rate_lookup_SomeD [OF q] assms distinct_key_eq [of rate_key rates q r] by (auto simp: rates_inv_def)
  with q show "rate_lookup rates key = Some r" by simp
qed (rule rate_lookup_SomeD)

lemma rate_filter:
  assumes "rates_inv rates"
  shows "filter (\<lambda>r. rate_key r = key) rates = (case rate_lookup rates key of None \<Rightarrow> [] | Some r \<Rightarrow> [r])"
proof (cases "rate_lookup rates key")
  case None
  then have "filter (\<lambda>r. rate_key r = key) rates = []" by (simp add: rate_lookup_None filter_empty_conv)
  with None show ?thesis by simp
next
  case (Some r)
  then have "r \<in> set rates" "rate_key r = key" using rate_lookup_SomeD by auto
  then show ?thesis using filter_unique [of rate_key rates r] assms Some by (simp add: rates_inv_def)
qed

lemma put_rate_inv:
  assumes inv: "rates_inv rates" and row: "rate_ok row"
  shows "rates_inv (put_rate rates row)"
    and "rate_lookup (put_rate rates row) k = (if k = rate_key row then Some row else rate_lookup rates k)"
proof -
  let ?u = "\<lambda>r. if rate_key r = rate_key row then row else r"
  have key: "rate_key (?u r) = rate_key r" for r by simp
  show inv': "rates_inv (put_rate rates row)"
  proof (cases "rate_lookup rates (rate_key row) = None")
    case True
    then show ?thesis using inv row by (auto simp: put_rate_def rates_inv_def rate_lookup_None)
  next
    case False
    have "map rate_key (map ?u rates) = map rate_key rates" by simp
    then have "distinct (map rate_key (map ?u rates))" using inv by (simp only: rates_inv_def)
    moreover have "\<forall>r\<in>set (map ?u rates). rate_ok r" using inv row by (auto simp: rates_inv_def)
    ultimately show ?thesis using False unfolding put_rate_def rates_inv_def by (simp only: if_False)
  qed
  show "rate_lookup (put_rate rates row) k = (if k = rate_key row then Some row else rate_lookup rates k)"
  proof (cases "k = rate_key row")
    case True
    have "row \<in> set (put_rate rates row)"
      by (force simp: put_rate_def rate_lookup_None image_iff)
    with True show ?thesis by (simp add: rate_lookup_Some [OF inv'])
  next
    case False
    have "find (\<lambda>r. rate_key r = k) (put_rate rates row) = find (\<lambda>r. rate_key r = k) rates"
    proof (cases "rate_lookup rates (rate_key row) = None")
      case True
      have "find (\<lambda>r. rate_key r = k) (rates @ [row]) = find (\<lambda>r. rate_key r = k) rates"
        using False by (induction rates) auto
      with True show ?thesis by (simp add: put_rate_def)
    next
      case fnd: False
      have "find (\<lambda>r. rate_key r = k) (map ?u rates) = find (\<lambda>r. rate_key r = k) rates"
        using False by (induction rates) auto
      then show ?thesis using fnd by (auto simp: put_rate_def)
    qed
    with False show ?thesis by (simp add: rate_lookup_def)
  qed
qed

end
