(* ===== verification/Governance_Windows.thy ===== *)
theory Governance_Windows
  imports Governance_Invariant
begin

text \<open>
  Loading and persisting rate windows, as exact equations on the map from subjects to windows.
\<close>

section \<open>One attempt on one window\<close>

definition window_state :: "MycRateLimitPolicy \<Rightarrow> RateSubject \<Rightarrow> nat \<Rightarrow> rate_row option \<Rightarrow> RateState" where
  "window_state policy subject now found = (case found of
     None \<Rightarrow> \<lparr>rs_subject = subject, rs_existing_last = None, rs_window_started = now,
       rs_window_ends = now + rl_window_ms policy, rs_accepted = 0, rs_rejected = 0,
       rs_lifetime_accepted = 0, rs_lifetime_rejected = 0\<rparr>
   | Some r \<Rightarrow>
       let rolled = w_window_ends_at_unix_ms r < int now
       in \<lparr>rs_subject = subject, rs_existing_last = Some (nat (w_last_observed_at_unix_ms r)),
         rs_window_started = (if rolled then now else nat (w_window_started_at_unix_ms r)),
         rs_window_ends = (if rolled then now + rl_window_ms policy else nat (w_window_ends_at_unix_ms r)),
         rs_accepted = (if rolled then 0 else nat (w_accepted_count r)),
         rs_rejected = (if rolled then 0 else nat (w_rejected_count r)),
         rs_lifetime_accepted = nat (w_lifetime_accepted_count r),
         rs_lifetime_rejected = nat (w_lifetime_rejected_count r)\<rparr>)"

definition window_loads ::
    "(bytes \<Rightarrow> bytes) \<Rightarrow> rate_row list \<Rightarrow> MycRateLimitPolicy \<Rightarrow> nat \<Rightarrow> RateSubject \<Rightarrow> bool" where
  "window_loads sha rates policy now subject \<longleftrightarrow>
     (case rate_lookup rates (policy_key sha policy subject) of
        None \<Rightarrow> now + rl_window_ms policy \<le> i64_max
          \<and> (subject = SubjectGlobal \<or> length (filter (\<lambda>r. w_rate_kind r = rate_class_as_str (rl_class policy)
              \<and> w_subject_scope r = fst (subject_parts sha subject)) rates) < rl_maximum_tracked_subjects policy)
      | Some r \<Rightarrow> w_last_observed_at_unix_ms r \<le> int now \<and> w_accepted_count r \<le> int (rl_max_attempts policy)
          \<and> (w_window_ends_at_unix_ms r < int now \<longrightarrow> now + rl_window_ms policy \<le> i64_max))"

lemma rate_okD:
  assumes "rate_ok r"
  shows "1 \<le> w_window_started_at_unix_ms r" "w_window_started_at_unix_ms r \<le> w_last_observed_at_unix_ms r"
    "w_last_observed_at_unix_ms r \<le> w_window_ends_at_unix_ms r" "w_window_ends_at_unix_ms r \<le> sql_int_max"
    "0 \<le> w_accepted_count r" "w_accepted_count r \<le> 10000" "0 \<le> w_rejected_count r" "w_rejected_count r \<le> sql_int_max"
    "w_accepted_count r \<le> w_lifetime_accepted_count r" "w_lifetime_accepted_count r \<le> sql_int_max"
    "w_rejected_count r \<le> w_lifetime_rejected_count r" "w_lifetime_rejected_count r \<le> sql_int_max"
    "w_last_observed_at_unix_ms r \<le> sql_int_max"
    "w_last_observed_at_unix_ms r \<le> w_retention_expires_at_unix_ms r" "w_retention_expires_at_unix_ms r \<le> sql_int_max"
  using assms unfolding rate_ok_def connection_rate_windows_check_def by blast+

lemma bounded_i64_ok: "0 \<le> v \<Longrightarrow> v \<le> sql_int_max \<Longrightarrow> bounded_i64 v = Inr (nat v)"
  by (simp add: int_width_defs nat_le_iff)

lemma load_stored_iff:
  assumes ok: "rate_ok r"
  shows "load_stored_rate_state policy subject now r = Inr st \<longleftrightarrow>
     st = window_state policy subject now (Some r) \<and> w_last_observed_at_unix_ms r \<le> int now
     \<and> w_accepted_count r \<le> int (rl_max_attempts policy)
     \<and> (w_window_ends_at_unix_ms r < int now \<longrightarrow> now + rl_window_ms policy \<le> i64_max)"
proof -
  note R = rate_okD [OF ok]
  have b: "bounded_i64 (w_last_observed_at_unix_ms r) = Inr (nat (w_last_observed_at_unix_ms r))"
    "bounded_i64 (w_window_started_at_unix_ms r) = Inr (nat (w_window_started_at_unix_ms r))"
    "bounded_i64 (w_window_ends_at_unix_ms r) = Inr (nat (w_window_ends_at_unix_ms r))"
    "bounded_i64 (w_accepted_count r) = Inr (nat (w_accepted_count r))"
    "bounded_i64 (w_rejected_count r) = Inr (nat (w_rejected_count r))"
    "bounded_i64 (w_lifetime_accepted_count r) = Inr (nat (w_lifetime_accepted_count r))"
    "bounded_i64 (w_lifetime_rejected_count r) = Inr (nat (w_lifetime_rejected_count r))"
    "bounded_i64 (w_retention_expires_at_unix_ms r) = Inr (nat (w_retention_expires_at_unix_ms r))"
    using R by (intro bounded_i64_ok; linarith)+
  have g: "(now < nat (w_last_observed_at_unix_ms r) \<or> nat (w_last_observed_at_unix_ms r) < nat (w_window_started_at_unix_ms r)
      \<or> nat (w_window_ends_at_unix_ms r) < nat (w_last_observed_at_unix_ms r)
      \<or> nat (w_retention_expires_at_unix_ms r) < nat (w_last_observed_at_unix_ms r)
      \<or> rl_max_attempts policy < nat (w_accepted_count r)) \<longleftrightarrow>
      \<not> (w_last_observed_at_unix_ms r \<le> int now \<and> w_accepted_count r \<le> int (rl_max_attempts policy))"
    using R by linarith
  have e: "nat (w_window_ends_at_unix_ms r) < now \<longleftrightarrow> w_window_ends_at_unix_ms r < int now" using R by linarith
  show ?thesis
    unfolding load_stored_rate_state_def b r_bind_simps g e Let_def window_state_def option.case
    by (auto simp: r_bind_Inr_iff)
qed

lemma load_rate_state_iff:
  assumes inv: "rates_inv (g_rates db)"
  shows "load_rate_state sha db policy now subject = Inr st \<longleftrightarrow>
     window_loads sha (g_rates db) policy now subject
     \<and> st = window_state policy subject now (rate_lookup (g_rates db) (policy_key sha policy subject))"
proof (cases "rate_lookup (g_rates db) (policy_key sha policy subject)")
  case None
  have scope: "fst (subject_parts sha subject) = ''global'' \<longleftrightarrow> subject = SubjectGlobal" by (cases subject) auto
  show ?thesis
    using None
    by (auto simp: load_rate_state_def rate_filter [OF inv] load_new_rate_state_def Let_def window_loads_def scope
        window_state_def r_bind_Inr_iff not_le)
next
  case (Some r)
  then have "rate_ok r" using inv rate_lookup_SomeD by (fastforce simp: rates_inv_def)
  from load_stored_iff [OF this] Some show ?thesis
    by (auto simp: load_rate_state_def rate_filter [OF inv] window_loads_def)
qed

definition rate_after ::
    "(bytes \<Rightarrow> bytes) \<Rightarrow> MycRateLimitPolicy \<Rightarrow> RateSubject \<Rightarrow> nat \<Rightarrow> bool \<Rightarrow> rate_row option \<Rightarrow> rate_row" where
  "rate_after sha policy subject now admitted found =
     (let st = window_state policy subject now found
      in \<lparr>w_rate_kind = rate_class_as_str (rl_class policy), w_subject_scope = fst (subject_parts sha subject),
        w_subject_sha256 = snd (subject_parts sha subject),
        w_window_started_at_unix_ms = int (rs_window_started st), w_window_ends_at_unix_ms = int (rs_window_ends st),
        w_accepted_count = int (rs_accepted st) + of_bool admitted,
        w_rejected_count = int (rs_rejected st) + of_bool (\<not> admitted),
        w_lifetime_accepted_count = int (rs_lifetime_accepted st) + of_bool admitted,
        w_lifetime_rejected_count = int (rs_lifetime_rejected st) + of_bool (\<not> admitted),
        w_last_observed_at_unix_ms = int now,
        w_retention_expires_at_unix_ms = int now + int (rl_retention_ms policy)\<rparr>)"

lemma rate_after_key [simp]: "rate_key (rate_after sha policy subject now admitted found) = policy_key sha policy subject"
  by (simp add: rate_after_def Let_def rate_key_def policy_key_def)

lemma rate_after_guard:
  assumes "rate_ok r" and "rate_key r = policy_key sha policy subject" and "w_last_observed_at_unix_ms r \<le> int now"
    and "0 < rl_window_ms policy"
  shows "\<not> connection_rate_windows_guard_update r (rate_after sha policy subject now admitted (Some r))"
proof -
  note R = rate_okD [OF assms(1)]
  have k: "w_rate_kind r = rate_class_as_str (rl_class policy)" "w_subject_scope r = fst (subject_parts sha subject)"
    "w_subject_sha256 r = snd (subject_parts sha subject)"
    using assms(2) by (cases "subject_parts sha subject"; simp add: rate_key_def policy_key_def)+
  show ?thesis
  proof (cases "w_window_ends_at_unix_ms r < int now")
    case True
    then show ?thesis
      using R assms(3,4) k
      by (cases admitted) (simp_all add: connection_rate_windows_guard_update_def rate_after_def window_state_def)
  next
    case False
    then show ?thesis
      using R assms(3,4) k
      by (cases admitted) (simp_all add: connection_rate_windows_guard_update_def rate_after_def window_state_def)
  qed
qed

lemma window_state_bounds:
  assumes "\<And>r. found = Some r \<Longrightarrow> rate_ok r"
  shows "rs_accepted (window_state policy subject now found) \<le> 10000"
  using assms rate_okD(5,6) by (fastforce simp: window_state_def Let_def split: option.splits)

lemma rate_after_fits:
  assumes "connection_rate_windows_check (rate_after sha policy subject now admitted found)"
  shows "now + rl_retention_ms policy \<le> i64_max" "now \<le> i64_max"
    "rs_window_started (window_state policy subject now found) \<le> i64_max"
    "rs_window_ends (window_state policy subject now found) \<le> i64_max"
    "rs_accepted (window_state policy subject now found) + of_bool admitted \<le> i64_max"
    "rs_rejected (window_state policy subject now found) + of_bool (\<not> admitted) \<le> i64_max"
    "rs_lifetime_accepted (window_state policy subject now found) + of_bool admitted \<le> i64_max"
    "rs_lifetime_rejected (window_state policy subject now found) + of_bool (\<not> admitted) \<le> i64_max"
proof -
  have c: "int now + int (rl_retention_ms policy) \<le> sql_int_max" "int now \<le> sql_int_max"
    "int (rs_window_started (window_state policy subject now found)) \<le> sql_int_max"
    "int (rs_window_ends (window_state policy subject now found)) \<le> sql_int_max"
    "int (rs_accepted (window_state policy subject now found)) + of_bool admitted \<le> 10000"
    "int (rs_rejected (window_state policy subject now found)) + of_bool (\<not> admitted) \<le> sql_int_max"
    "int (rs_lifetime_accepted (window_state policy subject now found)) + of_bool admitted \<le> sql_int_max"
    "int (rs_lifetime_rejected (window_state policy subject now found)) + of_bool (\<not> admitted) \<le> sql_int_max"
    using assms unfolding connection_rate_windows_check_def rate_after_def Let_def rate_row.simps by blast+
  show "now + rl_retention_ms policy \<le> i64_max" "now \<le> i64_max"
    "rs_window_started (window_state policy subject now found) \<le> i64_max"
    "rs_window_ends (window_state policy subject now found) \<le> i64_max"
    using c by (simp_all add: int_width_defs)
  show "rs_accepted (window_state policy subject now found) + of_bool admitted \<le> i64_max"
    "rs_rejected (window_state policy subject now found) + of_bool (\<not> admitted) \<le> i64_max"
    "rs_lifetime_accepted (window_state policy subject now found) + of_bool admitted \<le> i64_max"
    "rs_lifetime_rejected (window_state policy subject now found) + of_bool (\<not> admitted) \<le> i64_max"
    using c by (cases admitted; simp add: int_width_defs)+
qed

lemma update_rate_iff:
  assumes inv: "rates_inv (g_rates db)" and found: "rate_lookup (g_rates db) (rate_key row) = Some r"
    and guard: "\<not> connection_rate_windows_guard_update r row"
  shows "g_execute_one (update_rate row (w_last_observed_at_unix_ms r) db) = Inr db' \<longleftrightarrow>
     connection_rate_windows_check row \<and> db' = db\<lparr>g_rates := put_rate (g_rates db) row\<rparr>"
proof -
  let ?w = "update_rate_where (rate_key row) (w_last_observed_at_unix_ms r)"
  have w: "?w q \<longleftrightarrow> q = r" if "q \<in> set (g_rates db)" for q
    using that found by (auto simp: update_rate_where_def rate_lookup_Some [OF inv] dest: rate_lookup_SomeD
        intro: distinct_key_eq [of rate_key "g_rates db"] inv [unfolded rates_inv_def, THEN conjunct1])
  have row: "update_rate_set row r = row"
    using rate_lookup_SomeD [OF found] by (cases row; cases r) (simp add: update_rate_set_def rate_key_def)
  have r: "r \<in> set (g_rates db)" "rate_key r = rate_key row" using rate_lookup_SomeD [OF found] by auto
  have "filter ?w (g_rates db) = filter (\<lambda>q. q = r) (g_rates db)" using w by (auto intro: filter_cong)
  also have "\<dots> = filter (\<lambda>q. rate_key q = rate_key r) (g_rates db)"
    using inv r by (intro filter_cong) (auto simp: rates_inv_def intro: distinct_key_eq)
  also have "\<dots> = [r]" using inv r by (intro filter_unique) (simp_all add: rates_inv_def)
  finally have len: "length (filter ?w (g_rates db)) = 1" by simp
  have map: "map (upd_row ?w (update_rate_set row)) (g_rates db) = put_rate (g_rates db) row"
    unfolding put_rate_def found using w row r inv
    by (auto simp: upd_row_def rates_inv_def intro!: map_cong dest: distinct_key_eq)
  have legal: "list_all (\<lambda>q. ?w q \<longrightarrow> rate_update_legal q (update_rate_set row q)) (g_rates db)
      \<longleftrightarrow> connection_rate_windows_check row"
    using w r row guard by (auto simp: list_all_iff rate_update_legal_def)
  show ?thesis
    by (auto simp: g_execute_one_Inr update_rate_def sql_update_def legal map len split: if_splits)
qed

lemma insert_rate_iff:
  assumes "rate_lookup (g_rates db) (rate_key row) = None"
  shows "g_execute_one (insert_rate row db) = Inr db' \<longleftrightarrow>
     connection_rate_windows_check row \<and> db' = db\<lparr>g_rates := put_rate (g_rates db) row\<rparr>"
  using assms
  by (auto simp: g_execute_one_Inr insert_rate_def rate_insert_legal_def put_rate_def rate_lookup_None list_all_iff
      rate_key_def)

lemma persist_rate_state_iff:
  assumes inv: "rates_inv (g_rates db)" and found: "found = rate_lookup (g_rates db) (policy_key sha policy subject)"
    and now: "\<And>r. found = Some r \<Longrightarrow> w_last_observed_at_unix_ms r \<le> int now" and pos: "0 < rl_window_ms policy"
  shows "persist_rate_state sha policy now admitted (window_state policy subject now found) db = Inr db' \<longleftrightarrow>
     connection_rate_windows_check (rate_after sha policy subject now admitted found)
     \<and> db' = db\<lparr>g_rates := put_rate (g_rates db) (rate_after sha policy subject now admitted found)\<rparr>"
    (is "?run = Inr db' \<longleftrightarrow> ?ok \<and> ?eq")
proof -
  let ?st = "window_state policy subject now found" and ?row = "rate_after sha policy subject now admitted found"
  have sub: "rs_subject ?st = subject" by (simp add: window_state_def Let_def split: option.splits)
  have row: "\<lparr>w_rate_kind = rate_class_as_str (rl_class policy), w_subject_scope = fst (subject_parts sha subject),
      w_subject_sha256 = snd (subject_parts sha subject), w_window_started_at_unix_ms = int (rs_window_started ?st),
      w_window_ends_at_unix_ms = int (rs_window_ends ?st), w_accepted_count = int (rs_accepted ?st + of_bool admitted),
      w_rejected_count = int (rs_rejected ?st + of_bool (\<not> admitted)),
      w_lifetime_accepted_count = int (rs_lifetime_accepted ?st + of_bool admitted),
      w_lifetime_rejected_count = int (rs_lifetime_rejected ?st + of_bool (\<not> admitted)),
      w_last_observed_at_unix_ms = int now,
      w_retention_expires_at_unix_ms = int (now + rl_retention_ms policy)\<rparr> = ?row"
    by (simp add: rate_after_def Let_def)
  define stmt where "stmt = (case rs_existing_last ?st of
      Some prior \<Rightarrow> r_bind (to_i64 prior) (\<lambda>prior_i. g_execute_one (update_rate ?row prior_i db))
    | None \<Rightarrow> g_execute_one (insert_rate ?row db))"
  have stmt: "stmt = Inr db' \<longleftrightarrow> ?ok \<and> ?eq"
  proof (cases found)
    case None
    have "rate_lookup (g_rates db) (rate_key ?row) = None" using None found by simp
    from insert_rate_iff [OF this] show ?thesis by (simp add: stmt_def window_state_def None)
  next
    case (Some r)
    have r: "rate_lookup (g_rates db) (rate_key ?row) = Some r" using Some found by simp
    have ok: "rate_ok r" using rate_lookup_SomeD [OF r] inv by (auto simp: rates_inv_def)
    have g: "\<not> connection_rate_windows_guard_update r ?row"
      using rate_after_guard [OF ok _ now [OF Some] pos] rate_lookup_SomeD [OF r] Some by simp
    have l: "to_i64 (nat (w_last_observed_at_unix_ms r)) = Inr (w_last_observed_at_unix_ms r)"
      using rate_okD(1,2,13) [OF ok] by (simp add: int_width_defs nat_le_iff)
    show ?thesis using update_rate_iff [OF inv r g] by (simp add: stmt_def Some window_state_def Let_def l)
  qed
  show ?thesis
  proof (cases "?ok")
    case True
    note F = rate_after_fits [OF True]
    have i: "to_i64 v = Inr (int v)" "\<not> i64_max < v" if "v \<le> i64_max" for v using that by simp_all
    have t: "checked_time_add now (rl_retention_ms policy) = Inr (now + rl_retention_ms policy)" using F(1) by simp
    have "?run = stmt"
      unfolding persist_rate_state_def Let_def sub t r_bind_simps
      by (simp only: i(1) [OF F(1)] i(1) [OF F(2)] i(1) [OF F(3)] i(1) [OF F(4)] i(1) [OF F(5)] i(1) [OF F(6)]
          i(1) [OF F(7)] i(1) [OF F(8)] i(2) [OF F(5)] i(2) [OF F(6)] i(2) [OF F(7)] i(2) [OF F(8)] r_bind_simps
          list_ex_Nil_iff list_ex_Cons_iff if_False simp_thms row stmt_def)
    with stmt show ?thesis by simp
  next
    case False
    have "?run \<noteq> Inr db'"
    proof
      assume "?run = Inr db'"
      then have "stmt = Inr db'"
        unfolding persist_rate_state_def Let_def sub
        by (auto simp only: to_i64_Inr checked_time_add_Inr row stmt_def elim!: r_bind_InrE split: if_splits)
      with stmt False show False by simp
    qed
    with False show ?thesis by simp
  qed
qed

section \<open>One attempt on its windows\<close>

lemma rate_after_ok:
  assumes "connection_rate_windows_check (rate_after sha policy subject now admitted found)"
    and "\<And>r. found = Some r \<Longrightarrow> rate_ok r"
  shows "rate_ok (rate_after sha policy subject now admitted found)"
proof -
  have "int now \<le> int (rs_window_ends (window_state policy subject now found))"
    using assms(2) rate_okD(1-3) by (fastforce simp: window_state_def Let_def split: option.splits)
  then show ?thesis using assms(1) by (simp add: rate_ok_def) (simp add: rate_after_def Let_def)
qed

definition attempt_admitted ::
    "(bytes \<Rightarrow> bytes) \<Rightarrow> rate_row list \<Rightarrow> MycRateLimitPolicy \<Rightarrow> nat \<Rightarrow> RateSubject list \<Rightarrow> bool" where
  "attempt_admitted sha rates policy now subjects \<longleftrightarrow>
     list_all (\<lambda>s. can_accept (window_state policy s now (rate_lookup rates (policy_key sha policy s))) policy) subjects"

fun rates_after ::
    "(bytes \<Rightarrow> bytes) \<Rightarrow> MycRateLimitPolicy \<Rightarrow> nat \<Rightarrow> bool \<Rightarrow> RateSubject list \<Rightarrow> rate_row list \<Rightarrow> rate_row list" where
  "rates_after sha policy now admitted [] rates = rates"
| "rates_after sha policy now admitted (s # ss) rates = rates_after sha policy now admitted ss
     (put_rate rates (rate_after sha policy s now admitted (rate_lookup rates (policy_key sha policy s))))"

definition windows_fit ::
    "(bytes \<Rightarrow> bytes) \<Rightarrow> MycRateLimitPolicy \<Rightarrow> nat \<Rightarrow> bool \<Rightarrow> RateSubject list \<Rightarrow> rate_row list \<Rightarrow> bool" where
  "windows_fit sha policy now admitted subjects rates \<longleftrightarrow> (\<forall>s\<in>set subjects.
     connection_rate_windows_check (rate_after sha policy s now admitted (rate_lookup rates (policy_key sha policy s))))"

definition observed_before :: "(bytes \<Rightarrow> bytes) \<Rightarrow> MycRateLimitPolicy \<Rightarrow> nat \<Rightarrow> RateSubject list \<Rightarrow> rate_row list \<Rightarrow> bool" where
  "observed_before sha policy now subjects rates \<longleftrightarrow> (\<forall>s\<in>set subjects. \<forall>r.
     rate_lookup rates (policy_key sha policy s) = Some r \<longrightarrow> w_last_observed_at_unix_ms r \<le> int now)"

abbreviation subject_keys :: "(bytes \<Rightarrow> bytes) \<Rightarrow> MycRateLimitPolicy \<Rightarrow> RateSubject list \<Rightarrow> (string \<times> string \<times> bytes) list" where
  "subject_keys sha policy subjects \<equiv> map (policy_key sha policy) subjects"

lemma distinct_map_ConsD: "distinct (map f (x # xs)) \<Longrightarrow> y \<in> set xs \<Longrightarrow> f y \<noteq> f x"
  by (metis distinct.simps(2) image_eqI list.map(2) list.set_map)

lemma lookup_rate_ok: "rates_inv rates \<Longrightarrow> rate_lookup rates k = Some r \<Longrightarrow> rate_ok r"
  using rate_lookup_SomeD by (fastforce simp: rates_inv_def)

lemma put_rate_step:
  assumes inv: "rates_inv rates" and fit: "windows_fit sha policy now admitted (s # ss) rates"
    and dist: "distinct (subject_keys sha policy (s # ss))"
  defines "rates' \<equiv> put_rate rates (rate_after sha policy s now admitted (rate_lookup rates (policy_key sha policy s)))"
  shows "rates_inv rates'" and "\<And>k. rate_lookup rates' k = (if k = policy_key sha policy s
      then Some (rate_after sha policy s now admitted (rate_lookup rates k)) else rate_lookup rates k)"
    and "\<And>t. t \<in> set ss \<Longrightarrow> rate_lookup rates' (policy_key sha policy t) = rate_lookup rates (policy_key sha policy t)"
    and "windows_fit sha policy now admitted ss rates'"
proof -
  have ok: "rate_ok (rate_after sha policy s now admitted (rate_lookup rates (policy_key sha policy s)))"
    using fit lookup_rate_ok [OF inv] by (intro rate_after_ok) (auto simp: windows_fit_def)
  show "rates_inv rates'" unfolding rates'_def by (rule put_rate_inv(1) [OF inv ok])
  show look: "rate_lookup rates' k = (if k = policy_key sha policy s
      then Some (rate_after sha policy s now admitted (rate_lookup rates k)) else rate_lookup rates k)" for k
    unfolding rates'_def put_rate_inv(2) [OF inv ok] by simp
  show other: "rate_lookup rates' (policy_key sha policy t) = rate_lookup rates (policy_key sha policy t)" if "t \<in> set ss" for t
  proof -
    have "policy_key sha policy t \<noteq> policy_key sha policy s" using distinct_map_ConsD [OF dist that] .
    then show ?thesis by (simp add: look)
  qed
  show "windows_fit sha policy now admitted ss rates'" using fit other by (simp add: windows_fit_def)
qed

lemma rates_after_inv:
  assumes "rates_inv rates" and "windows_fit sha policy now admitted subjects rates"
    and "distinct (subject_keys sha policy subjects)"
  shows "rates_inv (rates_after sha policy now admitted subjects rates)
    \<and> (\<forall>s\<in>set subjects. rate_lookup (rates_after sha policy now admitted subjects rates) (policy_key sha policy s)
         = Some (rate_after sha policy s now admitted (rate_lookup rates (policy_key sha policy s))))
    \<and> (\<forall>k. k \<notin> set (subject_keys sha policy subjects) \<longrightarrow>
         rate_lookup (rates_after sha policy now admitted subjects rates) k = rate_lookup rates k)"
  using assms
proof (induction subjects arbitrary: rates)
  case (Cons s ss)
  let ?rates' = "put_rate rates (rate_after sha policy s now admitted (rate_lookup rates (policy_key sha policy s)))"
  note P = put_rate_step [OF Cons.prems]
  have dist: "distinct (subject_keys sha policy ss)" "policy_key sha policy s \<notin> set (subject_keys sha policy ss)"
    using Cons.prems(3) by auto
  note IH = Cons.IH [OF P(1) P(4) dist(1)]
  note IH2 = IH [THEN conjunct2, THEN conjunct1, rule_format] and IH3 = IH [THEN conjunct2, THEN conjunct2, rule_format]
  have 1: "rate_lookup (rates_after sha policy now admitted ss ?rates') (policy_key sha policy s)
      = Some (rate_after sha policy s now admitted (rate_lookup rates (policy_key sha policy s)))"
    unfolding IH3 [OF dist(2)] P(2) by simp
  have 2: "rate_lookup (rates_after sha policy now admitted ss ?rates') (policy_key sha policy t)
      = Some (rate_after sha policy t now admitted (rate_lookup rates (policy_key sha policy t)))" if "t \<in> set ss" for t
    unfolding IH2 [OF that] P(3) [OF that] ..
  have 3: "rate_lookup (rates_after sha policy now admitted ss ?rates') k = rate_lookup rates k"
    if "k \<notin> set (subject_keys sha policy (s # ss))" for k
  proof -
    have k: "k \<notin> set (subject_keys sha policy ss)" "k \<noteq> policy_key sha policy s" using that by auto
    show ?thesis unfolding IH3 [OF k(1)] P(2) using k(2) by simp
  qed
  show ?case unfolding rates_after.simps using IH [THEN conjunct1] 1 2 3 by (simp only: list.set ball_simps) blast
qed simp

lemma persist_rate_states_iff:
  assumes "rates_inv (g_rates db)" and "distinct (subject_keys sha policy subjects)"
    and "observed_before sha policy now subjects (g_rates db)" and pos: "0 < rl_window_ms policy"
    and "states = map (\<lambda>s. window_state policy s now (rate_lookup (g_rates db) (policy_key sha policy s))) subjects"
  shows "persist_rate_states sha policy now admitted states db = Inr db' \<longleftrightarrow>
     windows_fit sha policy now admitted subjects (g_rates db)
     \<and> db' = db\<lparr>g_rates := rates_after sha policy now admitted subjects (g_rates db)\<rparr>"
  using assms(1-3,5)
proof (induction subjects arbitrary: db states)
  case (Cons s ss)
  let ?found = "rate_lookup (g_rates db) (policy_key sha policy s)"
  let ?row = "rate_after sha policy s now admitted ?found"
  let ?db1 = "db\<lparr>g_rates := put_rate (g_rates db) ?row\<rparr>"
  let ?rest = "map (\<lambda>s. window_state policy s now (rate_lookup (g_rates db) (policy_key sha policy s))) ss"
  have one: "persist_rate_state sha policy now admitted (window_state policy s now ?found) db = Inr d \<longleftrightarrow>
      connection_rate_windows_check ?row \<and> d = ?db1" for d
    using Cons.prems(3) pos by (intro persist_rate_state_iff [OF Cons.prems(1) refl]) (auto simp: observed_before_def)
  show ?case
  proof (cases "connection_rate_windows_check ?row")
    case True
    have ok: "rate_ok ?row" using rate_after_ok [OF True] lookup_rate_ok [OF Cons.prems(1)] by blast
    have look: "rate_lookup (g_rates ?db1) (policy_key sha policy t) = rate_lookup (g_rates db) (policy_key sha policy t)"
      if "t \<in> set ss" for t
    proof -
      have "policy_key sha policy t \<noteq> policy_key sha policy s" using distinct_map_ConsD [OF Cons.prems(2) that] .
      then show ?thesis by (simp add: put_rate_inv(2) [OF Cons.prems(1) ok])
    qed
    have "persist_rate_states sha policy now admitted ?rest ?db1 = Inr db' \<longleftrightarrow>
        windows_fit sha policy now admitted ss (g_rates ?db1)
        \<and> db' = ?db1\<lparr>g_rates := rates_after sha policy now admitted ss (g_rates ?db1)\<rparr>"
    proof (rule Cons.IH)
      show "rates_inv (g_rates ?db1)" using put_rate_inv(1) [OF Cons.prems(1) ok] by simp
      show "distinct (subject_keys sha policy ss)" using Cons.prems(2) by simp
      show "observed_before sha policy now ss (g_rates ?db1)" using Cons.prems(3) look by (simp add: observed_before_def)
      show "?rest = map (\<lambda>s. window_state policy s now (rate_lookup (g_rates ?db1) (policy_key sha policy s))) ss"
        using look by (intro map_cong) simp_all
    qed
    moreover have "windows_fit sha policy now admitted ss (g_rates ?db1) = windows_fit sha policy now admitted ss (g_rates db)"
      using look unfolding windows_fit_def by (metis (no_types, lifting))
    ultimately show ?thesis using True one [of ?db1] Cons.prems(4) by (simp add: windows_fit_def)
  next
    case False
    then have "persist_rate_states sha policy now admitted states db \<noteq> Inr db'"
      using one Cons.prems(4) by (auto elim!: r_bind_InrE)
    with False show ?thesis by (auto simp: windows_fit_def)
  qed
qed (auto simp: windows_fit_def)

end
