(* ===== verification/Governance_System.thy ===== *)
theory Governance_System
  imports Governance_Windows
begin

text \<open>
  Governed attempts, compaction and the audit trail as one transition system: the effect of every event on a
  database with the invariant, and preservation of the invariant by every run.
\<close>

lemma collect_Inr_iff:
  assumes "\<And>x y. f x = Inr y \<longleftrightarrow> P x \<and> y = g x"
  shows "collect f xs = Inr ys \<longleftrightarrow> (\<forall>x\<in>set xs. P x) \<and> ys = map g xs"
  by (induction xs arbitrary: ys) (auto simp: r_bind_Inr_iff assms)

section \<open>A governed attempt\<close>

lemma collect_load_iff:
  assumes "rates_inv (g_rates db)"
  shows "collect (load_rate_state sha db policy now) subjects = Inr states \<longleftrightarrow>
     (\<forall>s\<in>set subjects. window_loads sha (g_rates db) policy now s)
     \<and> states = map (\<lambda>s. window_state policy s now (rate_lookup (g_rates db) (policy_key sha policy s))) subjects"
  by (rule collect_Inr_iff) (rule load_rate_state_iff [OF assms])

lemma window_loads_observed:
  "\<forall>s\<in>set subjects. window_loads sha rates policy now s \<Longrightarrow> observed_before sha policy now subjects rates"
  by (auto simp: window_loads_def observed_before_def)

lemma govern_effect:
  assumes inv: "governance_inv db" and dist: "distinct (subject_keys sha policy subjects)" and pos: "0 < rl_window_ms policy"
    and run: "govern_rate_attempt sha db policy class subjects ev kind = Inr (admitted, db')"
  obtains (replay) a where "\<not> admitted" "db' = db" "a \<in> set (g_audits db)"
      "o_audit_id a = derive_audit_id sha (ev_correlation ev) kind"
  | (counted) db1 where "\<forall>a\<in>set (g_audits db). o_audit_id a \<noteq> derive_audit_id sha (ev_correlation ev) kind"
      "\<forall>s\<in>set subjects. window_loads sha (g_rates db) policy (ev_occurred_at ev) s"
      "admitted = attempt_admitted sha (g_rates db) policy (ev_occurred_at ev) subjects"
      "windows_fit sha policy (ev_occurred_at ev) admitted subjects (g_rates db)"
      "db1 = db\<lparr>g_rates := rates_after sha policy (ev_occurred_at ev) admitted subjects (g_rates db)\<rparr>"
      "admitted \<Longrightarrow> db' = db1"
      "\<not> admitted \<Longrightarrow> \<exists>r. record_audit sha db1 ev kind AuditRejected ReasonRateLimited = Inr (r, db')"
proof -
  have trail: "trail_inv db" and rates: "rates_inv (g_rates db)" using inv by (auto simp: governance_inv_def)
  let ?now = "ev_occurred_at ev"
  from trail show thesis
  proof (cases rule: read_audit_cases [where audit_id = "derive_audit_id sha (ev_correlation ev) kind"])
    case (present a)
    with run have "\<not> admitted" "db' = db" by (auto simp: govern_rate_attempt_def split: if_splits)
    with present show thesis by (intro replay) auto
  next
    case absent
    from run absent(2) obtain states db1 where
      c: "collect (load_rate_state sha db policy ?now) subjects = Inr states"
      and adm: "admitted = list_all (\<lambda>state. can_accept state policy) states"
      and ps: "persist_rate_states sha policy ?now admitted states db = Inr db1"
      and fin: "(if \<not> admitted then r_bind (record_audit sha db1 ev kind AuditRejected ReasonRateLimited) (\<lambda>(_, db2). Inr db2)
          else Inr db1) = Inr db'"
      by (auto simp: govern_rate_attempt_def Let_def elim!: r_bind_InrE split: if_splits)
    from c have L: "\<forall>s\<in>set subjects. window_loads sha (g_rates db) policy ?now s"
      and st: "states = map (\<lambda>s. window_state policy s ?now (rate_lookup (g_rates db) (policy_key sha policy s))) subjects"
      unfolding collect_load_iff [OF rates] by auto
    have P: "windows_fit sha policy ?now admitted subjects (g_rates db)"
      "db1 = db\<lparr>g_rates := rates_after sha policy ?now admitted subjects (g_rates db)\<rparr>"
      using ps persist_rate_states_iff [OF rates dist window_loads_observed [OF L] pos st] by auto
    have A: "admitted = attempt_admitted sha (g_rates db) policy ?now subjects"
      unfolding adm st attempt_admitted_def by (simp add: list_all_iff)
    show thesis
      using fin by (intro counted [OF absent(1) L A P]) (auto elim!: r_bind_InrE split: if_splits)
  qed
qed

lemma trail_inv_rates [simp]: "trail_inv (db\<lparr>g_rates := rates\<rparr>) = trail_inv db"
  by (simp add: trail_inv_def)

lemma evidence_ok_rates [simp]: "evidence_ok (db\<lparr>g_rates := rates\<rparr>) ev kind = evidence_ok db ev kind"
  by (simp add: evidence_ok_def)

lemma govern_inv:
  assumes inv: "governance_inv db" and dist: "distinct (subject_keys sha policy subjects)" and pos: "0 < rl_window_ms policy"
    and ev: "evidence_ok db ev kind" and run: "govern_rate_attempt sha db policy class subjects ev kind = Inr (admitted, db')"
  shows "governance_inv db'" and "g_requests db' = g_requests db"
proof -
  have "governance_inv db' \<and> g_requests db' = g_requests db"
    using inv dist pos run
  proof (cases rule: govern_effect)
    case replay
    then show ?thesis using inv by simp
  next
    case (counted db1)
    have rates: "rates_inv (g_rates db1)"
      using rates_after_inv [OF _ counted(4) dist] inv counted(5) by (simp add: governance_inv_def)
    have trail: "trail_inv db1" using inv counted(5) by (simp add: governance_inv_def)
    show ?thesis
    proof (cases admitted)
      case True
      then show ?thesis using counted(5,6) rates trail by (simp add: governance_inv_def)
    next
      case False
      then obtain r where r: "record_audit sha db1 ev kind AuditRejected ReasonRateLimited = Inr (r, db')" using counted(7) by blast
      have "evidence_ok db1 ev kind" using ev counted(5) by simp
      from record_audit_inv [OF trail this r] show ?thesis using rates counted(5) by (simp add: governance_inv_def)
    qed
  qed
  then show "governance_inv db'" and "g_requests db' = g_requests db" by auto
qed

section \<open>Compaction\<close>

definition kept_audits :: "governance_db \<Rightarrow> int \<Rightarrow> nat \<Rightarrow> audit_row list" where
  "kept_audits db cutoff limit = filter (\<lambda>a. o_audit_sequence a \<notin> set (expired_audits db cutoff limit)) (g_audits db)"

definition kept_rates :: "governance_db \<Rightarrow> int \<Rightarrow> nat \<Rightarrow> rate_row list" where
  "kept_rates db now limit = filter (\<lambda>r. r \<notin> set (expired_rates db now limit)) (g_rates db)"

definition compacted_db :: "governance_db \<Rightarrow> int \<Rightarrow> int \<Rightarrow> nat \<Rightarrow> governance_db" where
  "compacted_db db cutoff now limit =
     db\<lparr>g_links := filter (\<lambda>l. l_audit_sequence l \<notin> set (expired_audits db cutoff limit)) (g_links db),
       g_audits := kept_audits db cutoff limit, g_rates := kept_rates db now limit\<rparr>"

lemma expired_audits_links: "expired_audits (db\<lparr>g_links := ls\<rparr>) cutoff limit = expired_audits db cutoff limit"
  by (simp add: expired_audits_def)

lemma delete_audits_links:
  "delete_audits cutoff limit (delete_links cutoff limit db) =
     Some (db\<lparr>g_links := filter (\<lambda>l. l_audit_sequence l \<notin> set (expired_audits db cutoff limit)) (g_links db),
        g_audits := kept_audits db cutoff limit\<rparr>,
       length (filter (\<lambda>a. o_audit_sequence a \<in> set (expired_audits db cutoff limit)) (g_audits db)))"
  by (auto simp: delete_audits_def delete_links_def expired_audits_links list_ex_iff kept_audits_def)

lemma delete_rates_eq:
  "delete_rates now limit db = (db\<lparr>g_rates := kept_rates db now limit\<rparr>,
     length (filter (\<lambda>r. r \<in> set (expired_rates db now limit)) (g_rates db)))"
  by (simp add: delete_rates_def kept_rates_def)

lemma expired_rates_frame:
  "expired_rates (db\<lparr>g_links := ls, g_audits := as\<rparr>) now limit = expired_rates db now limit"
  "kept_rates (db\<lparr>g_links := ls, g_audits := as\<rparr>) now limit = kept_rates db now limit"
  by (simp_all add: expired_rates_def kept_rates_def)

lemma compacted_trail_inv:
  assumes inv: "trail_inv db"
  shows "trail_inv (compacted_db db cutoff now limit)"
proof -
  let ?E = "set (expired_audits db cutoff limit)"
  have linked: "audit_linked (g_requests db) (filter (\<lambda>l. l_audit_sequence l \<notin> ?E) (g_links db)) a"
    if "a \<in> set (kept_audits db cutoff limit)" for a
  proof -
    have a: "a \<in> set (g_audits db)" "o_audit_sequence a \<notin> ?E" using that by (auto simp: kept_audits_def)
    have "filter (\<lambda>l. l_audit_sequence l = o_audit_sequence a) (filter (\<lambda>l. l_audit_sequence l \<notin> ?E) (g_links db))
        = filter (\<lambda>l. l_audit_sequence l = o_audit_sequence a) (g_links db)"
      using a(2) by (auto intro: filter_cong)
    then show ?thesis using trail_invD(3) [OF inv a(1)] by (simp add: audit_linked_def)
  qed
  obtain n where n: "g_audit_state db = [\<lparr>s_singleton = 1, s_next_sequence = n\<rparr>]" "0 \<le> n" "n \<le> sql_int_max"
    "\<forall>a\<in>set (g_audits db). o_audit_sequence a \<le> n" using trail_invD(1) [OF inv] by blast
  have d: "distinct (map o_audit_sequence (kept_audits db cutoff limit))" "distinct (map o_audit_id (kept_audits db cutoff limit))"
    using trail_invD(4,5) [OF inv] by (simp_all add: kept_audits_def distinct_map_filter)
  have l: "\<exists>a\<in>set (kept_audits db cutoff limit). o_audit_sequence a = l_audit_sequence l"
    if "l \<in> set (g_links db)" "l_audit_sequence l \<notin> ?E" for l
    using trail_invD(7) [OF inv that(1)] that(2) by (auto simp: kept_audits_def)
  have "set (kept_audits db cutoff limit) \<subseteq> set (g_audits db)" by (auto simp: kept_audits_def)
  with n d l linked trail_invD(2,6) [OF inv] show ?thesis
    unfolding trail_inv_def compacted_db_def by (auto simp: subset_iff)
qed

lemma kept_rates_inv: "rates_inv (g_rates db) \<Longrightarrow> rates_inv (kept_rates db now limit)"
  by (simp add: rates_inv_def kept_rates_def distinct_map_filter)

lemma compact_effect:
  assumes inv: "governance_inv db" and run: "compact_governance sha db observed_at policy correlation = Inr (outcome, db')"
  obtains (replay) a where "db' = db" "a \<in> set (g_audits db)"
      "o_audit_id a = derive_audit_id sha correlation AuditGovernanceCompaction"
      "outcome = \<lparr>co_removed_audit_records = 0, co_removed_rate_subjects = 0\<rparr>"
  | (compacted) r cutoff where "cutoff = int (observed_at - cp_audit_retention_ms policy)"
      "record_audit sha (compacted_db db cutoff (int observed_at) (cp_maximum_rows_per_class policy))
        \<lparr>ev_correlation = correlation, ev_occurred_at = observed_at, ev_operation_id = None\<rparr>
        AuditGovernanceCompaction AuditSucceeded ReasonCompacted = Inr (r, db')"
      "co_removed_audit_records outcome = length (filter (\<lambda>a. o_audit_sequence a
         \<in> set (expired_audits db cutoff (cp_maximum_rows_per_class policy))) (g_audits db))"
      "co_removed_rate_subjects outcome = length (filter (\<lambda>q. q
         \<in> set (expired_rates db (int observed_at) (cp_maximum_rows_per_class policy))) (g_rates db))"
proof -
  have trail: "trail_inv db" using inv by (simp add: governance_inv_def)
  then show thesis
  proof (cases rule: read_audit_cases [where audit_id = "derive_audit_id sha correlation AuditGovernanceCompaction"])
    case (present a)
    with run show thesis by (intro replay [of a]) (auto simp: compact_governance_def split: if_splits)
  next
    case absent
    let ?cutoff = "int (observed_at - cp_audit_retention_ms policy)" and ?limit = "cp_maximum_rows_per_class policy"
    from absent run obtain r where
      "record_audit sha (compacted_db db ?cutoff (int observed_at) ?limit)
        \<lparr>ev_correlation = correlation, ev_occurred_at = observed_at, ev_operation_id = None\<rparr>
        AuditGovernanceCompaction AuditSucceeded ReasonCompacted = Inr (r, db')"
      "co_removed_audit_records outcome = length (filter (\<lambda>a. o_audit_sequence a \<in> set (expired_audits db ?cutoff ?limit)) (g_audits db))"
      "co_removed_rate_subjects outcome = length (filter (\<lambda>q. q \<in> set (expired_rates db (int observed_at) ?limit)) (g_rates db))"
      by (auto simp: compact_governance_def Let_def delete_audits_links delete_rates_eq expired_rates_frame u16_count_def
           compacted_db_def elim!: r_bind_InrE split: if_splits)
    then show thesis by (rule compacted [OF refl])
  qed
qed

lemma compact_inv:
  assumes inv: "governance_inv db" and run: "compact_governance sha db observed_at policy correlation = Inr (outcome, db')"
    and ok: "0 < observed_at" "observed_at \<le> i64_max" "length correlation = 32"
  shows "governance_inv db'" and "g_requests db' = g_requests db"
proof -
  have "governance_inv db' \<and> g_requests db' = g_requests db"
    using inv run
  proof (cases rule: compact_effect)
    case replay
    then show ?thesis using inv by simp
  next
    case (compacted r cutoff)
    let ?db = "compacted_db db cutoff (int observed_at) (cp_maximum_rows_per_class policy)"
    have trail: "trail_inv ?db" using inv by (simp add: governance_inv_def compacted_trail_inv)
    have ev: "evidence_ok ?db \<lparr>ev_correlation = correlation, ev_occurred_at = observed_at, ev_operation_id = None\<rparr>
        AuditGovernanceCompaction" using ok by (simp add: evidence_ok_def bound_kinds_def)
    have rates: "rates_inv (g_rates ?db)" using inv by (simp add: governance_inv_def compacted_db_def kept_rates_inv)
    from record_audit_inv [OF trail ev compacted(2)] rates show ?thesis by (simp add: governance_inv_def compacted_db_def)
  qed
  then show "governance_inv db'" and "g_requests db' = g_requests db" by auto
qed

section \<open>Runs\<close>

datatype governance_event =
    AttemptEvent MycRateLimitPolicy "RateSubject list" AuditEvidence MycAuditKind
  | AuditEvent AuditEvidence MycAuditKind MycAuditOutcome MycAuditReasonCode
  | CompactEvent nat MycGovernanceCompactionPolicy bytes
  | RequestEvent request_key_row

text \<open>A transaction that fails is rolled back; the flag says whether a rate attempt was admitted.\<close>

definition committed :: "'d \<Rightarrow> (OperationError, bool \<times> 'd) result \<Rightarrow> bool \<times> 'd" where
  "committed db run = (case run of Inl _ \<Rightarrow> (False, db) | Inr r \<Rightarrow> r)"

fun apply_event :: "(bytes \<Rightarrow> bytes) \<Rightarrow> governance_event \<Rightarrow> governance_db \<Rightarrow> bool \<times> governance_db" where
  "apply_event sha (AttemptEvent policy subjects ev kind) db =
     committed db (govern_rate_attempt sha db policy (rl_class policy) subjects ev kind)"
| "apply_event sha (AuditEvent ev kind outcome reason) db =
     committed db (r_bind (record_audit sha db ev kind outcome reason) (\<lambda>(_, db'). Inr (False, db')))"
| "apply_event sha (CompactEvent observed_at policy correlation) db =
     committed db (r_bind (compact_governance sha db observed_at policy correlation) (\<lambda>(_, db'). Inr (False, db')))"
| "apply_event sha (RequestEvent q) db = (False, db\<lparr>g_requests := g_requests db @ [q]\<rparr>)"

definition policy_ok :: "MycRateLimitPolicy \<Rightarrow> bool" where
  "policy_ok p \<longleftrightarrow> rate_policy_new (rl_class p) (rl_window_ms p) (rl_max_attempts p) (rl_retention_ms p)
     (rl_maximum_tracked_subjects p) = Inr p"

fun event_ok :: "(bytes \<Rightarrow> bytes) \<Rightarrow> governance_db \<Rightarrow> governance_event \<Rightarrow> bool" where
  "event_ok sha db (AttemptEvent policy subjects ev kind) \<longleftrightarrow>
     policy_ok policy \<and> distinct (subject_keys sha policy subjects) \<and> evidence_ok db ev kind"
| "event_ok sha db (AuditEvent ev kind outcome reason) \<longleftrightarrow> evidence_ok db ev kind"
| "event_ok sha db (CompactEvent observed_at policy correlation) \<longleftrightarrow>
     0 < observed_at \<and> observed_at \<le> i64_max \<and> length correlation = 32"
| "event_ok sha db (RequestEvent q) \<longleftrightarrow> k_operation_id q \<notin> set (map k_operation_id (g_requests db))"

inductive governance_step :: "(bytes \<Rightarrow> bytes) \<Rightarrow> governance_db \<Rightarrow> governance_db \<Rightarrow> bool" for sha where
  event: "event_ok sha db e \<Longrightarrow> governance_step sha db (snd (apply_event sha e db))"
| binding: "governance_step sha db (db\<lparr>g_bindings := bindings\<rparr>)"

definition governance_init :: "governance_db \<Rightarrow> bool" where
  "governance_init db \<longleftrightarrow> g_audit_state db = [\<lparr>s_singleton = 1, s_next_sequence = 0\<rparr>] \<and> g_audits db = []
     \<and> g_links db = [] \<and> g_rates db = [] \<and> g_requests db = []"

definition governance_reachable :: "(bytes \<Rightarrow> bytes) \<Rightarrow> governance_db \<Rightarrow> bool" where
  "governance_reachable sha db \<longleftrightarrow> (\<exists>db0. governance_init db0 \<and> (governance_step sha)\<^sup>*\<^sup>* db0 db)"

lemma committed_Inl [simp]: "committed db (Inl e) = (False, db)"
  and committed_Inr [simp]: "committed db (Inr r) = r"
  by (simp_all add: committed_def)

lemma policy_okD:
  assumes "policy_ok p"
  shows "0 < rl_window_ms p" "0 < rl_max_attempts p" "rl_max_attempts p \<le> 10000" "rl_window_ms p \<le> rl_retention_ms p"
    "rl_retention_ms p \<le> 2592000000"
  using assms by (auto simp: policy_ok_def rate_policy_new_def governance_limits split: if_splits)

lemma request_inv:
  assumes "governance_inv db" and "k_operation_id q \<notin> set (map k_operation_id (g_requests db))"
  shows "governance_inv (db\<lparr>g_requests := g_requests db @ [q]\<rparr>)"
proof -
  have "audit_linked (g_requests db @ [q]) (g_links db) a" if "a \<in> set (g_audits db)" for a
    using trail_invD(3) [OF assms(1) [unfolded governance_inv_def, THEN conjunct1] that]
    by (rule audit_linked_requests) auto
  with assms show ?thesis unfolding governance_inv_def trail_inv_def by (simp del: set_map)
qed

lemma apply_event_inv:
  assumes "governance_inv db" and "event_ok sha db e"
  shows "governance_inv (snd (apply_event sha e db))"
proof (cases e)
  case (AttemptEvent policy subjects ev kind)
  have P: "policy_ok policy" "distinct (subject_keys sha policy subjects)" "evidence_ok db ev kind"
    using assms(2) AttemptEvent by auto
  show ?thesis
  proof (cases "govern_rate_attempt sha db policy (rl_class policy) subjects ev kind")
    case (Inr r)
    then show ?thesis
      using govern_inv(1) [OF assms(1) P(2) policy_okD(1) [OF P(1)] P(3), of "rl_class policy" "fst r" "snd r"] AttemptEvent
      by simp
  qed (use assms(1) AttemptEvent in simp)
next
  case (AuditEvent ev kind outcome reason)
  then show ?thesis
    using assms record_audit_inv [of db ev kind sha outcome reason]
    by (cases "record_audit sha db ev kind outcome reason") (auto simp: governance_inv_def)
next
  case (CompactEvent observed_at policy correlation)
  then show ?thesis
    using assms compact_inv(1) [OF assms(1)] by (cases "compact_governance sha db observed_at policy correlation") auto
next
  case (RequestEvent q)
  then show ?thesis using assms request_inv by simp
qed

lemma governance_inv_init: "governance_init db \<Longrightarrow> governance_inv db"
  by (auto simp: governance_init_def governance_inv_def trail_inv_def rates_inv_def)

lemma governance_inv_bindings: "governance_inv (db\<lparr>g_bindings := bindings\<rparr>) = governance_inv db"
  by (simp add: governance_inv_def trail_inv_def)

lemma governance_step_inv: "governance_inv db \<Longrightarrow> governance_step sha db db' \<Longrightarrow> governance_inv db'"
  by (erule governance_step.cases) (auto intro: apply_event_inv simp: governance_inv_bindings)

interpretation governance: invariant_system governance_init "governance_step sha" governance_inv for sha
  by unfold_locales (auto intro: governance_inv_init governance_step_inv)

lemma governance_reachable_inv: "governance_reachable sha db \<Longrightarrow> governance_inv db"
  unfolding governance_reachable_def using governance.reached_inv by blast

end
