(* ===== verification/Governance_Limits.thy ===== *)
theory Governance_Limits
  imports Governance_System
begin

text \<open>
  Rate limiting along runs: what an event does to the window of one subject, the bound on admissions in any
  stretch of one window length, the abstract limiter the windows implement, and attempts that cannot fail.
\<close>

section \<open>Effect of an event on one window\<close>

fun event_keys :: "(bytes \<Rightarrow> bytes) \<Rightarrow> governance_event \<Rightarrow> (string \<times> string \<times> bytes) set" where
  "event_keys sha (AttemptEvent policy subjects ev kind) = set (subject_keys sha policy subjects)"
| "event_keys sha _ = {}"

fun event_time :: "governance_event \<Rightarrow> nat option" where
  "event_time (AttemptEvent policy subjects ev kind) = Some (ev_occurred_at ev)"
| "event_time (AuditEvent ev kind outcome reason) = Some (ev_occurred_at ev)"
| "event_time (CompactEvent observed_at policy correlation) = Some observed_at"
| "event_time (RequestEvent q) = None"

lemma kept_rate_lookup:
  assumes "rates_inv (g_rates db)"
  shows "rate_lookup (kept_rates db now limit) key = rate_lookup (g_rates db) key
    \<or> rate_lookup (kept_rates db now limit) key = None
      \<and> (\<exists>r. rate_lookup (g_rates db) key = Some r \<and> w_retention_expires_at_unix_ms r < now)"
proof (cases "rate_lookup (g_rates db) key")
  case None
  then have "rate_lookup (kept_rates db now limit) key = None"
    unfolding rate_lookup_None kept_rates_def by simp
  with None show ?thesis by simp
next
  case (Some r)
  note inv' = kept_rates_inv [OF assms, of now limit]
  have r: "r \<in> set (g_rates db)" "rate_key r = key" using rate_lookup_SomeD [OF Some] by auto
  show ?thesis
  proof (cases "r \<in> set (expired_rates db now limit)")
    case True
    then have "w_retention_expires_at_unix_ms r < now"
      by (auto simp: expired_rates_def dest!: in_set_takeD)
    moreover have "rate_lookup (kept_rates db now limit) key = None"
    proof -
      have "q = r" if "q \<in> set (g_rates db)" "rate_key q = key" for q
        using assms that r distinct_key_eq [of rate_key "g_rates db" q r] by (simp add: rates_inv_def)
      with True show ?thesis unfolding rate_lookup_None kept_rates_def by auto
    qed
    ultimately show ?thesis using Some by simp
  next
    case False
    then have "r \<in> set (kept_rates db now limit)" using r by (simp add: kept_rates_def)
    then show ?thesis using r Some rate_lookup_Some [OF inv', of key r] by simp
  qed
qed

lemma record_audit_rates: "trail_inv db \<Longrightarrow> record_audit sha db ev kind outcome reason = Inr (r, db') \<Longrightarrow> g_rates db' = g_rates db"
  by (cases rule: record_audit_effect, assumption+) auto

text \<open>
  Seen from one subject, an event counts an attempt in the subject's window, removes a window whose
  retention has expired, or does nothing.
\<close>

lemma event_window:
  assumes inv: "governance_inv db" and ok: "event_ok sha db e" and run: "apply_event sha e db = (admitted, db')"
  obtains (same) "rate_lookup (g_rates db') key = rate_lookup (g_rates db) key" "key \<in> event_keys sha e \<Longrightarrow> \<not> admitted"
  | (removed) r t where "rate_lookup (g_rates db) key = Some r" "rate_lookup (g_rates db') key = None"
      "event_time e = Some t" "w_retention_expires_at_unix_ms r < int t" "key \<notin> event_keys sha e"
  | (counted) policy subjects ev kind s where "e = AttemptEvent policy subjects ev kind" "s \<in> set subjects"
      "policy_key sha policy s = key" "policy_ok policy"
      "window_loads sha (g_rates db) policy (ev_occurred_at ev) s"
      "admitted \<Longrightarrow> can_accept (window_state policy s (ev_occurred_at ev) (rate_lookup (g_rates db) key)) policy"
      "rate_lookup (g_rates db') key = Some (rate_after sha policy s (ev_occurred_at ev) admitted (rate_lookup (g_rates db) key))"
proof (cases e)
  case (AttemptEvent policy subjects ev kind)
  have P: "policy_ok policy" "distinct (subject_keys sha policy subjects)" using ok AttemptEvent by auto
  show thesis
  proof (cases "govern_rate_attempt sha db policy (rl_class policy) subjects ev kind")
    case (Inl err)
    then show thesis using run AttemptEvent by (intro same) auto
  next
    case (Inr res)
    then have g: "govern_rate_attempt sha db policy (rl_class policy) subjects ev kind = Inr (admitted, db')"
      using run AttemptEvent by simp
    from inv P(2) policy_okD(1) [OF P(1)] g show thesis
    proof (cases rule: govern_effect)
      case replay
      then show thesis by (intro same) auto
    next
      case (counted db1)
      have rates: "g_rates db' = rates_after sha policy (ev_occurred_at ev) admitted subjects (g_rates db)"
      proof (cases admitted)
        case True
        then show ?thesis using counted(5,6) by simp
      next
        case False
        then obtain r where r: "record_audit sha db1 ev kind AuditRejected ReasonRateLimited = Inr (r, db')" using counted(7) by blast
        have "trail_inv db1" using inv counted(5) by (simp add: governance_inv_def)
        from record_audit_rates [OF this r] show ?thesis using counted(5) by simp
      qed
      have R: "rates_inv (g_rates db)" using inv by (simp add: governance_inv_def)
      note A = rates_after_inv [OF R counted(4) P(2)]
      show thesis
      proof (cases "key \<in> set (subject_keys sha policy subjects)")
        case True
        then obtain s where s: "s \<in> set subjects" "policy_key sha policy s = key" by auto
        show thesis
        proof (rule that(3) [OF AttemptEvent s P(1)])
          show "window_loads sha (g_rates db) policy (ev_occurred_at ev) s" using counted(2) s(1) by blast
          show "can_accept (window_state policy s (ev_occurred_at ev) (rate_lookup (g_rates db) key)) policy" if admitted
            using that counted(3) s by (auto simp: attempt_admitted_def list_all_iff)
          show "rate_lookup (g_rates db') key = Some (rate_after sha policy s (ev_occurred_at ev) admitted (rate_lookup (g_rates db) key))"
            unfolding rates using A [THEN conjunct2, THEN conjunct1, rule_format, OF s(1)] s(2) by simp
        qed
      next
        case False
        then show thesis
          using AttemptEvent A [THEN conjunct2, THEN conjunct2, rule_format, OF False] by (intro same) (simp_all add: rates)
      qed
    qed
  qed
next
  case (AuditEvent ev kind outcome reason)
  have "g_rates db' = g_rates db"
    using run AuditEvent inv record_audit_rates [of db sha ev kind outcome reason]
    by (cases "record_audit sha db ev kind outcome reason") (auto simp: governance_inv_def)
  with AuditEvent show thesis by (intro same) auto
next
  case (CompactEvent observed_at policy correlation)
  show thesis
  proof (cases "compact_governance sha db observed_at policy correlation")
    case (Inl err)
    then show thesis using run CompactEvent by (intro same) auto
  next
    case (Inr res)
    then obtain outcome where c: "compact_governance sha db observed_at policy correlation = Inr (outcome, db')"
      using run CompactEvent by (cases res) auto
    from inv c show thesis
    proof (cases rule: compact_effect)
      case replay
      then show thesis using CompactEvent by (intro same) auto
    next
      case (compacted r cutoff)
      let ?db = "compacted_db db cutoff (int observed_at) (cp_maximum_rows_per_class policy)"
      have "trail_inv ?db" using inv by (simp add: governance_inv_def compacted_trail_inv)
      from record_audit_rates [OF this compacted(2)]
      have rates: "g_rates db' = kept_rates db (int observed_at) (cp_maximum_rows_per_class policy)"
        by (simp add: compacted_db_def)
      have R: "rates_inv (g_rates db)" using inv by (simp add: governance_inv_def)
      from kept_rate_lookup [OF R, of "int observed_at" "cp_maximum_rows_per_class policy" key] show thesis
        unfolding rates [symmetric]
      proof (elim disjE conjE exE)
        assume "rate_lookup (g_rates db') key = rate_lookup (g_rates db) key"
        then show thesis using CompactEvent by (intro same) auto
      next
        fix q assume "rate_lookup (g_rates db') key = None" "rate_lookup (g_rates db) key = Some q"
          "w_retention_expires_at_unix_ms q < int observed_at"
        then show thesis using CompactEvent by (intro removed) auto
      qed
    qed
  qed
next
  case (RequestEvent q)
  then show thesis using run by (intro same) auto
qed

section \<open>The rate bound\<close>

fun admissions ::
    "(bytes \<Rightarrow> bytes) \<Rightarrow> string \<times> string \<times> bytes \<Rightarrow> governance_event list \<Rightarrow> governance_db \<Rightarrow> nat" where
  "admissions sha key [] db = 0"
| "admissions sha key (e # es) db =
     (if fst (apply_event sha e db) \<and> key \<in> event_keys sha e then 1 else 0)
     + admissions sha key es (snd (apply_event sha e db))"

fun run_ok :: "(bytes \<Rightarrow> bytes) \<Rightarrow> governance_event list \<Rightarrow> governance_db \<Rightarrow> bool" where
  "run_ok sha [] db \<longleftrightarrow> True"
| "run_ok sha (e # es) db \<longleftrightarrow> event_ok sha db e \<and> run_ok sha es (snd (apply_event sha e db))"

fun same_policy :: "MycRateLimitPolicy \<Rightarrow> governance_event \<Rightarrow> bool" where
  "same_policy policy (AttemptEvent p subjects ev kind) \<longleftrightarrow> (rl_class p = rl_class policy \<longrightarrow> p = policy)"
| "same_policy policy _ \<longleftrightarrow> True"

text \<open>
  After \<open>k\<close> admissions since \<open>t0\<close>: all are in the current window, or the current window began after \<open>t0\<close>
  and the others are in the one before.
\<close>

definition admitted_so_far :: "MycRateLimitPolicy \<Rightarrow> nat \<Rightarrow> nat \<Rightarrow> rate_row option \<Rightarrow> bool" where
  "admitted_so_far policy t0 k found \<longleftrightarrow> k = 0 \<or> (\<exists>r. found = Some r
     \<and> int t0 + int (rl_window_ms policy) \<le> w_retention_expires_at_unix_ms r
     \<and> w_accepted_count r \<le> int (rl_max_attempts policy)
     \<and> (int k \<le> w_accepted_count r
        \<or> int k \<le> int (rl_max_attempts policy) + w_accepted_count r
          \<and> int t0 + int (rl_window_ms policy) \<le> w_window_ends_at_unix_ms r))"

lemma rate_after_accepted:
  assumes "\<And>r. found = Some r \<Longrightarrow> rate_ok r"
  shows "w_accepted_count (rate_after sha policy s now admitted found) =
      int (rs_accepted (window_state policy s now found)) + of_bool admitted"
    and "w_retention_expires_at_unix_ms (rate_after sha policy s now admitted found) = int now + int (rl_retention_ms policy)"
    and "\<And>r. found = Some r \<Longrightarrow> int now \<le> w_window_ends_at_unix_ms r \<Longrightarrow>
      int (rs_accepted (window_state policy s now found)) = w_accepted_count r
      \<and> w_window_ends_at_unix_ms (rate_after sha policy s now admitted found) = w_window_ends_at_unix_ms r"
    and "found = None \<or> (\<exists>r. found = Some r \<and> w_window_ends_at_unix_ms r < int now) \<Longrightarrow>
      rs_accepted (window_state policy s now found) = 0
      \<and> w_window_ends_at_unix_ms (rate_after sha policy s now admitted found) = int now + int (rl_window_ms policy)"
  using assms rate_okD(1-3,5)
  by (force simp: rate_after_def window_state_def Let_def split: option.splits)+

lemma admitted_step:
  assumes ok: "\<And>r. found = Some r \<Longrightarrow> rate_ok r" and I: "admitted_so_far policy t0 k found" and P: "policy_ok policy"
    and t: "t0 \<le> now" "now \<le> t0 + rl_window_ms policy"
    and acc: "admitted \<Longrightarrow> can_accept (window_state policy s now found) policy"
    and load: "\<And>r. found = Some r \<Longrightarrow> w_accepted_count r \<le> int (rl_max_attempts policy)"
  shows "admitted_so_far policy t0 (k + of_bool admitted) (Some (rate_after sha policy s now admitted found))"
proof -
  let ?r = "rate_after sha policy s now admitted found" and ?a = "rs_accepted (window_state policy s now found)"
  have A: "w_accepted_count ?r = int ?a + of_bool admitted" using ok by (rule rate_after_accepted(1))
  have ret: "int t0 + int (rl_window_ms policy) \<le> w_retention_expires_at_unix_ms ?r"
  proof -
    have "w_retention_expires_at_unix_ms ?r = int now + int (rl_retention_ms policy)"
      using ok by (rule rate_after_accepted(2))
    then show ?thesis using policy_okD(4) [OF P] t(1) by linarith
  qed
  have le: "?a \<le> rl_max_attempts policy"
    using load ok rate_okD(5) by (fastforce simp: window_state_def Let_def split: option.splits)
  have cap: "w_accepted_count ?r \<le> int (rl_max_attempts policy)"
    using A le acc by (cases admitted) (auto simp: can_accept_def)
  consider (fresh) "found = None" | (rolled) r where "found = Some r" "w_window_ends_at_unix_ms r < int now"
    | (open_window) r where "found = Some r" "int now \<le> w_window_ends_at_unix_ms r" by (cases found) force+
  then have "k + of_bool admitted = 0 \<or> int (k + of_bool admitted) \<le> w_accepted_count ?r
      \<or> int (k + of_bool admitted) \<le> int (rl_max_attempts policy) + w_accepted_count ?r
          \<and> int t0 + int (rl_window_ms policy) \<le> w_window_ends_at_unix_ms ?r"
  proof cases
    case fresh
    then have "k = 0" using I by (simp add: admitted_so_far_def)
    with A show ?thesis by simp
  next
    case (rolled r)
    have "?a = 0 \<and> w_window_ends_at_unix_ms ?r = int now + int (rl_window_ms policy)"
      by (rule rate_after_accepted(4)) (use ok rolled in auto)
    then have W: "?a = 0" "w_window_ends_at_unix_ms ?r = int now + int (rl_window_ms policy)" by auto
    show ?thesis
    proof (cases "k = 0")
      case True
      then show ?thesis using A W by simp
    next
      case False
      with I rolled have "int k \<le> int (rl_max_attempts policy)"
        using t by (auto simp: admitted_so_far_def)
      then show ?thesis using A W t(1) by (cases admitted) auto
    qed
  next
    case (open_window r)
    have "int ?a = w_accepted_count r \<and> w_window_ends_at_unix_ms ?r = w_window_ends_at_unix_ms r"
      by (rule rate_after_accepted(3)) (use ok open_window in auto)
    then have W: "int ?a = w_accepted_count r" "w_window_ends_at_unix_ms ?r = w_window_ends_at_unix_ms r" by auto
    show ?thesis using I open_window A W by (cases admitted) (auto simp: admitted_so_far_def)
  qed
  with ret cap show ?thesis by (auto simp: admitted_so_far_def)
qed

lemma admissions_bound:
  assumes "governance_inv db" and "run_ok sha events db" and "\<forall>e\<in>set events. same_policy policy e"
    and "\<forall>e\<in>set events. \<forall>t. event_time e = Some t \<longrightarrow> t0 \<le> t \<and> t \<le> t0 + rl_window_ms policy"
    and "admitted_so_far policy t0 k (rate_lookup (g_rates db) (policy_key sha policy subject))" and P: "policy_ok policy"
  shows "k + admissions sha (policy_key sha policy subject) events db \<le> 2 * rl_max_attempts policy"
  using assms(1-5)
proof (induction events arbitrary: db k)
  case Nil
  then show ?case using rate_okD(5) by (auto simp: admitted_so_far_def)
next
  case (Cons e es)
  let ?key = "policy_key sha policy subject"
  obtain admitted db' where run: "apply_event sha e db = (admitted, db')" by (cases "apply_event sha e db")
  have ok: "event_ok sha db e" and rest: "run_ok sha es db'" using Cons.prems(2) run by auto
  have inv': "governance_inv db'" using apply_event_inv [OF Cons.prems(1) ok] run by simp
  have R: "\<And>r. rate_lookup (g_rates db) ?key = Some r \<Longrightarrow> rate_ok r"
    using Cons.prems(1) by (auto simp: governance_inv_def intro: lookup_rate_ok)
  have IH: "k' + admissions sha ?key es db' \<le> 2 * rl_max_attempts policy"
    if "admitted_so_far policy t0 k' (rate_lookup (g_rates db') ?key)" for k'
    using that Cons.prems(3,4) by (intro Cons.IH [OF inv' rest]) auto
  from Cons.prems(1) ok run show ?case
  proof (cases rule: event_window [where key = ?key])
    case same
    have "admitted_so_far policy t0 k (rate_lookup (g_rates db') ?key)" unfolding same(1) by (rule Cons.prems(5))
    from IH [OF this] same(2) show ?thesis by (auto simp: run)
  next
    case (removed r t)
    have "t \<le> t0 + rl_window_ms policy" using Cons.prems(4) removed(3) by auto
    with Cons.prems(5) removed(1,4) have "k = 0" by (auto simp: admitted_so_far_def)
    with IH [of 0] removed(5) show ?thesis by (simp add: run admitted_so_far_def)
  next
    case (counted p subjects ev kind s)
    have "rate_class_as_str (rl_class p) = rate_class_as_str (rl_class policy)"
      using counted(3) by (simp add: policy_key_def)
    then have "rl_class p = rl_class policy" by (cases "rl_class p"; cases "rl_class policy") auto
    then have p: "p = policy" using Cons.prems(3) counted(1) by auto
    have t: "t0 \<le> ev_occurred_at ev" "ev_occurred_at ev \<le> t0 + rl_window_ms policy" using Cons.prems(4) counted(1) by auto
    have so: "admitted_so_far policy t0 (k + of_bool admitted) (rate_lookup (g_rates db') ?key)"
      unfolding counted(7) p
      using R counted(5,6) p counted(3)
      by (intro admitted_step [OF _ Cons.prems(5) P t]) (auto simp: window_loads_def split: option.splits)
    have "?key \<in> event_keys sha e" 
      unfolding counted(1) event_keys.simps set_map counted(3) [symmetric] using counted(2) by (rule imageI)
    then show ?thesis using IH [OF so] by (cases admitted) (auto simp: run)
  qed
qed

section \<open>The abstract limiter\<close>

text \<open>
  What the rate windows promise: a map from subjects to the end of the current window and the attempts
  admitted in it. A window that has ended counts nothing; an attempt is admitted iff every subject has room,
  and is counted for all of them or none.
\<close>

type_synonym limiter = "string \<times> string \<times> bytes \<Rightarrow> (int \<times> int) option"

definition limiter_count :: "limiter \<Rightarrow> nat \<Rightarrow> string \<times> string \<times> bytes \<Rightarrow> int" where
  "limiter_count m now k = (case m k of None \<Rightarrow> 0 | Some (ends, n) \<Rightarrow> if ends < int now then 0 else n)"

definition limiter_end :: "MycRateLimitPolicy \<Rightarrow> limiter \<Rightarrow> nat \<Rightarrow> string \<times> string \<times> bytes \<Rightarrow> int" where
  "limiter_end policy m now k = (case m k of
     None \<Rightarrow> int now + int (rl_window_ms policy)
   | Some (ends, n) \<Rightarrow> if ends < int now then int now + int (rl_window_ms policy) else ends)"

definition limiter_attempt ::
    "MycRateLimitPolicy \<Rightarrow> nat \<Rightarrow> (string \<times> string \<times> bytes) list \<Rightarrow> limiter \<Rightarrow> bool \<times> limiter" where
  "limiter_attempt policy now keys m =
     (let admitted = list_all (\<lambda>k. limiter_count m now k < int (rl_max_attempts policy)) keys
      in (admitted, \<lambda>k. if k \<in> set keys
          then Some (limiter_end policy m now k, limiter_count m now k + of_bool admitted) else m k))"

definition limiter_of :: "governance_db \<Rightarrow> limiter" where
  "limiter_of db k = map_option (\<lambda>r. (w_window_ends_at_unix_ms r, w_accepted_count r)) (rate_lookup (g_rates db) k)"

lemma window_state_limiter:
  assumes "rates_inv (g_rates db)"
  shows "int (rs_accepted (window_state policy s now (rate_lookup (g_rates db) k))) = limiter_count (limiter_of db) now k"
    and "int (rs_window_ends (window_state policy s now (rate_lookup (g_rates db) k))) = limiter_end policy (limiter_of db) now k"
proof -
  have "int (rs_accepted (window_state policy s now (rate_lookup (g_rates db) k))) = limiter_count (limiter_of db) now k
    \<and> int (rs_window_ends (window_state policy s now (rate_lookup (g_rates db) k))) = limiter_end policy (limiter_of db) now k"
  proof (cases "rate_lookup (g_rates db) k")
    case (Some r)
    note R = rate_okD [OF lookup_rate_ok [OF assms Some]]
    show ?thesis using R(1-3,5) by (simp add: Some window_state_def limiter_count_def limiter_end_def limiter_of_def Let_def)
  qed (simp add: window_state_def limiter_count_def limiter_end_def limiter_of_def)
  then show "int (rs_accepted (window_state policy s now (rate_lookup (g_rates db) k))) = limiter_count (limiter_of db) now k"
    and "int (rs_window_ends (window_state policy s now (rate_lookup (g_rates db) k))) = limiter_end policy (limiter_of db) now k"
    by auto
qed

lemma counted_rates:
  assumes inv: "governance_inv db" and dist: "distinct (subject_keys sha policy subjects)" and pos: "0 < rl_window_ms policy"
    and fresh: "\<forall>a\<in>set (g_audits db). o_audit_id a \<noteq> derive_audit_id sha (ev_correlation ev) kind"
    and run: "govern_rate_attempt sha db policy class subjects ev kind = Inr (admitted, db')"
  shows "admitted = attempt_admitted sha (g_rates db) policy (ev_occurred_at ev) subjects"
    and "windows_fit sha policy (ev_occurred_at ev) admitted subjects (g_rates db)"
    and "g_rates db' = rates_after sha policy (ev_occurred_at ev) admitted subjects (g_rates db)"
proof -
  have "admitted = attempt_admitted sha (g_rates db) policy (ev_occurred_at ev) subjects
    \<and> windows_fit sha policy (ev_occurred_at ev) admitted subjects (g_rates db)
    \<and> g_rates db' = rates_after sha policy (ev_occurred_at ev) admitted subjects (g_rates db)"
    using inv dist pos run
  proof (cases rule: govern_effect)
    case (replay a)
    then show ?thesis using fresh by blast
  next
    case (counted db1)
    have "trail_inv db1" using inv counted(5) by (simp add: governance_inv_def)
    then have "g_rates db' = g_rates db1" using counted(6,7) record_audit_rates by (cases admitted) blast+
    with counted show ?thesis by simp
  qed
  then show "admitted = attempt_admitted sha (g_rates db) policy (ev_occurred_at ev) subjects"
    and "windows_fit sha policy (ev_occurred_at ev) admitted subjects (g_rates db)"
    and "g_rates db' = rates_after sha policy (ev_occurred_at ev) admitted subjects (g_rates db)" by auto
qed

lemma rates_after_limiter:
  assumes rates: "rates_inv (g_rates db)" and dist: "distinct (subject_keys sha policy subjects)"
    and fit: "windows_fit sha policy now admitted subjects (g_rates db)"
    and db': "g_rates db' = rates_after sha policy now admitted subjects (g_rates db)"
  shows "limiter_of db' k = (if k \<in> set (subject_keys sha policy subjects)
      then Some (limiter_end policy (limiter_of db) now k, limiter_count (limiter_of db) now k + of_bool admitted)
      else limiter_of db k)"
proof (cases "k \<in> set (subject_keys sha policy subjects)")
  case True
  then obtain s where s: "s \<in> set subjects" "policy_key sha policy s = k" by auto
  have "rate_lookup (g_rates db') k = Some (rate_after sha policy s now admitted (rate_lookup (g_rates db) k))"
    using rates_after_inv [OF rates fit dist, THEN conjunct2, THEN conjunct1, rule_format, OF s(1)] s(2) db' by simp
  with True show ?thesis
    using window_state_limiter [OF rates, of policy s now k] by (simp add: limiter_of_def rate_after_def Let_def)
next
  case False
  then show ?thesis
    using rates_after_inv [OF rates fit dist, THEN conjunct2, THEN conjunct2, rule_format, OF False] db'
    by (simp add: limiter_of_def)
qed

lemma attempt_admitted_limiter:
  assumes "rates_inv (g_rates db)"
  shows "attempt_admitted sha (g_rates db) policy now subjects \<longleftrightarrow>
     fst (limiter_attempt policy now (subject_keys sha policy subjects) (limiter_of db))"
proof -
  have "can_accept (window_state policy s now (rate_lookup (g_rates db) k)) policy
      \<longleftrightarrow> limiter_count (limiter_of db) now k < int (rl_max_attempts policy)" for s k
    by (simp add: can_accept_def window_state_limiter(1) [OF assms, of policy s now k, symmetric])
  then show ?thesis by (simp add: attempt_admitted_def limiter_attempt_def Let_def list_all_iff)
qed

section \<open>Attempts that cannot fail\<close>

definition attempt_input_ok ::
    "(bytes \<Rightarrow> bytes) \<Rightarrow> governance_db \<Rightarrow> MycRateLimitPolicy \<Rightarrow> nat \<Rightarrow> RateSubject \<Rightarrow> bool" where
  "attempt_input_ok sha db policy now s \<longleftrightarrow>
     (rl_class policy = RateConnectionAdmission) = (fst (subject_parts sha s) \<in> {''global'', ''relay''})
     \<and> length (snd (subject_parts sha s)) = 32
     \<and> (case rate_lookup (g_rates db) (policy_key sha policy s) of
          None \<Rightarrow> s = SubjectGlobal \<or> length (filter (\<lambda>r. w_rate_kind r = rate_class_as_str (rl_class policy)
              \<and> w_subject_scope r = fst (subject_parts sha s)) (g_rates db)) < rl_maximum_tracked_subjects policy
        | Some r \<Rightarrow> w_last_observed_at_unix_ms r \<le> int now \<and> w_accepted_count r \<le> int (rl_max_attempts policy)
            \<and> w_lifetime_accepted_count r < sql_int_max \<and> w_lifetime_rejected_count r < sql_int_max)"

lemma attempt_loads:
  assumes "attempt_input_ok sha db policy now s" and "now + rl_retention_ms policy \<le> i64_max" and "policy_ok policy"
  shows "window_loads sha (g_rates db) policy now s"
  using assms policy_okD(4) [OF assms(3)] by (auto simp: attempt_input_ok_def window_loads_def split: option.splits)

lemma rate_after_check:
  assumes rates: "rates_inv (g_rates db)" and inp: "attempt_input_ok sha db policy now s" and P: "policy_ok policy"
    and now: "0 < now" "now + rl_retention_ms policy \<le> i64_max"
    and acc: "admitted \<Longrightarrow> can_accept (window_state policy s now (rate_lookup (g_rates db) (policy_key sha policy s))) policy"
  shows "connection_rate_windows_check (rate_after sha policy s now admitted (rate_lookup (g_rates db) (policy_key sha policy s)))"
proof -
  let ?found = "rate_lookup (g_rates db) (policy_key sha policy s)"
  let ?st = "window_state policy s now ?found"
  have kind: "rate_class_as_str (rl_class policy) \<in> {''connection_admission'', ''challenge_creation'', ''challenge_authorization''}"
    by (cases "rl_class policy") simp_all
  have scope: "fst (subject_parts sha s) \<in> {''global'', ''relay'', ''connection''}" by (cases s) simp_all
  have pair: "(rate_class_as_str (rl_class policy) = ''connection_admission'' \<and> fst (subject_parts sha s) \<in> {''global'', ''relay''})
      \<or> (rate_class_as_str (rl_class policy) \<in> {''challenge_creation'', ''challenge_authorization''}
         \<and> fst (subject_parts sha s) = ''connection'')"
    using inp scope by (cases "rl_class policy") (auto simp: attempt_input_ok_def)
  have B: "1 \<le> rs_window_started ?st \<and> rs_window_started ?st \<le> now \<and> now \<le> rs_window_ends ?st
      \<and> rs_window_ends ?st \<le> i64_max \<and> rs_accepted ?st \<le> rs_lifetime_accepted ?st \<and> rs_accepted ?st \<le> 10000
      \<and> rs_rejected ?st \<le> rs_lifetime_rejected ?st
      \<and> rs_lifetime_accepted ?st < i64_max \<and> rs_lifetime_rejected ?st < i64_max"
  proof (cases ?found)
    case None
    then show ?thesis using now policy_okD(4) [OF P] by (simp add: window_state_def int_width_defs)
  next
    case (Some r)
    note R = rate_okD [OF lookup_rate_ok [OF rates Some]]
    have i: "w_last_observed_at_unix_ms r \<le> int now" "w_lifetime_accepted_count r < sql_int_max" "w_lifetime_rejected_count r < sql_int_max"
      using inp Some by (auto simp: attempt_input_ok_def)
    show ?thesis unfolding Some using R i now policy_okD(4) [OF P]
      by (cases "w_window_ends_at_unix_ms r < int now") (simp_all add: window_state_def int_width_defs nat_le_iff le_nat_iff nat_less_iff nat_mono)
  qed
  have A: "rs_accepted ?st + of_bool admitted \<le> 10000"
    using B acc policy_okD(3) [OF P] by (cases admitted) (auto simp: can_accept_def)
  have len: "length (snd (subject_parts sha s)) = 32" using inp by (simp add: attempt_input_ok_def)
  have n: "int now + int (rl_retention_ms policy) \<le> sql_int_max" using now(2) by (simp add: int_width_defs)
  show ?thesis
    unfolding connection_rate_windows_check_def rate_after_def Let_def rate_row.simps
    using kind scope pair len n B A by (cases admitted) (auto simp: int_width_defs)
qed

end
