(* ===== verification/Governance_Trail.thy ===== *)
theory Governance_Trail
  imports Governance_Limits
begin

text \<open>
  The audit trail along runs: recording on a fresh identity always succeeds, identities are derived from
  correlation and kind, records are only appended or removed, and pages enumerate the trail.
\<close>

section \<open>Recording never fails on a fresh event\<close>

lemma link_audit:
  assumes inv: "trail_inv db" and l: "l \<in> set (g_links db)"
  obtains a q where "a \<in> set (g_audits db)" "o_audit_sequence a = l_audit_sequence l" "l_audit_kind l = o_audit_kind a"
    "q \<in> set (g_requests db)" "k_operation_id q = l_operation_id l" "k_correlation_id q = o_correlation_id a"
proof -
  obtain a where a: "a \<in> set (g_audits db)" "o_audit_sequence a = l_audit_sequence l" using trail_invD(7) [OF inv l] by blast
  have mem: "l \<in> set (filter (\<lambda>l. l_audit_sequence l = o_audit_sequence a) (g_links db))" using l a(2) by simp
  from trail_invD(3) [OF inv a(1)] obtain m q where m: "filter (\<lambda>l. l_audit_sequence l = o_audit_sequence a) (g_links db) = [m]"
    and q: "l_audit_kind m = o_audit_kind a" "q \<in> set (g_requests db)" "k_operation_id q = l_operation_id m"
    "k_correlation_id q = o_correlation_id a"
    using mem unfolding audit_linked_def Let_def by (auto simp: filter_empty_conv split: if_splits)
  have "m = l" using mem unfolding m by simp
  with q a show thesis by (intro that [of a q]) auto
qed

definition audit_fresh :: "(bytes \<Rightarrow> bytes) \<Rightarrow> governance_db \<Rightarrow> AuditEvidence \<Rightarrow> MycAuditKind \<Rightarrow> bool" where
  "audit_fresh sha db ev kind \<longleftrightarrow>
     (\<forall>a\<in>set (g_audits db). o_audit_id a \<noteq> derive_audit_id sha (ev_correlation ev) kind
        \<and> \<not> (o_correlation_id a = ev_correlation ev \<and> o_audit_kind a = audit_kind_as_str kind))"

lemma new_audit_check:
  assumes "evidence_ok db ev kind" and "length (derive_audit_id sha (ev_correlation ev) kind) = 32" and "0 \<le> n" "n < sql_int_max"
  shows "operation_audit_check (new_audit sha (n + 1) ev kind outcome reason)"
proof -
  have k: "audit_kind_as_str kind \<in> {''connection_admission'', ''connection_operator_decision'', ''connection_expiry'',
      ''challenge_creation'', ''challenge_authorization'', ''governance_compaction''}" by (cases kind) simp_all
  have o: "audit_outcome_as_str outcome \<in> {''succeeded'', ''rejected'', ''failed''}" by (cases outcome) simp_all
  have r: "audit_reason_as_str reason \<in> {''trusted'', ''approval_required'', ''policy_denied'', ''operator_approved'',
      ''operator_denied'', ''connection_expired'', ''challenge_required'', ''challenge_authorized'',
      ''challenge_expired'', ''rate_limited'', ''compacted''}" by (cases reason) simp_all
  have e: "0 < ev_occurred_at ev" "ev_occurred_at ev \<le> i64_max" "length (ev_correlation ev) = 32"
    using assms(1) by (auto simp: evidence_ok_def)
  show ?thesis
    unfolding operation_audit_check_def new_audit_def audit_row.simps
    using k o r e assms(2-4) by (simp add: int_width_defs)
qed

lemma record_audit_ready:
  assumes inv: "trail_inv db" and n: "g_audit_state db = [\<lparr>s_singleton = 1, s_next_sequence = n\<rparr>]" "n < sql_int_max"
    and ev: "evidence_ok db ev kind" and fresh: "audit_fresh sha db ev kind"
    and len: "length (derive_audit_id sha (ev_correlation ev) kind) = 32"
  shows "\<exists>r. record_audit sha db ev kind outcome reason
    = Inr (r, audited_db db (new_audit sha (n + 1) ev kind outcome reason) (new_links (n + 1) ev kind))"
proof -
  obtain m where "g_audit_state db = [\<lparr>s_singleton = 1, s_next_sequence = m\<rparr>]" "0 \<le> m" "\<forall>a\<in>set (g_audits db). o_audit_sequence a \<le> m"
    using trail_invD(1) [OF inv] by blast
  with n have n0: "0 \<le> n" and top: "\<forall>a\<in>set (g_audits db). o_audit_sequence a \<le> n" by auto
  let ?a = "new_audit sha (n + 1) ev kind outcome reason"
  let ?id = "derive_audit_id sha (ev_correlation ev) kind"
  define db1 where "db1 = db\<lparr>g_audit_state := [\<lparr>s_singleton = 1, s_next_sequence = n + 1\<rparr>]\<rparr>"
  define db2 where "db2 = db1\<lparr>g_audits := g_audits db @ [?a]\<rparr>"
  have absent: "read_audit_by_id db ?id = Inr None" using fresh by (intro read_audit_absent) (auto simp: audit_fresh_def)
  have t: "ev_occurred_at ev \<le> i64_max" using ev by (simp add: evidence_ok_def)
  have i: "to_i64 (nat n + 1) = Inr (n + 1)" "to_i64 (nat n) = Inr n" "checked_time_add (nat n) 1 = Inr (nat n + 1)"
    "to_i64 (ev_occurred_at ev) = Inr (int (ev_occurred_at ev))"
    using n0 n(2) t by (auto simp: int_width_defs)
  have adv: "g_execute_one (advance_audit_state (n + 1) n db) = Inr db1"
    using n n0 by (simp add: g_execute_one_Inr advance_audit_state_def sql_update_def audit_state_update_legal_def
        myc_audit_state_guard_update_def myc_audit_state_check_def upd_row_def db1_def)
  have ins: "g_execute_one (insert_audit ?a db1) = Inr db2"
    using new_audit_check [OF ev len n0 n(2)] top fresh
    by (auto simp: g_execute_one_Inr insert_audit_def audit_insert_legal_def db1_def db2_def list_all_iff audit_fresh_def new_audit_def)
  have links: "g_execute_one (insert_request_audit \<lparr>l_operation_id = operation_id, l_audit_kind = audit_kind_as_str kind,
      l_audit_sequence = n + 1\<rparr> db2) = Inr (audited_db db ?a (new_links (n + 1) ev kind))"
    if op: "ev_operation_id ev = Some operation_id" for operation_id
  proof -
    obtain q where q: "q \<in> set (g_requests db)" "operation_id = k_operation_id q" "k_correlation_id q = ev_correlation ev"
      "length (k_operation_id q) = 32" and b: "audit_kind_as_str kind \<in> bound_kinds"
      using ev op by (auto simp: evidence_ok_def split: if_splits)
    have "l_audit_sequence l \<noteq> n + 1 \<and> \<not> (l_operation_id l = operation_id \<and> l_audit_kind l = audit_kind_as_str kind)"
      if l: "l \<in> set (g_links db)" for l
    proof -
      from inv l obtain a p where a: "a \<in> set (g_audits db)" "o_audit_sequence a = l_audit_sequence l" "l_audit_kind l = o_audit_kind a"
        "p \<in> set (g_requests db)" "k_operation_id p = l_operation_id l" "k_correlation_id p = o_correlation_id a" by (rule link_audit)
      have "p = q" if "l_operation_id l = operation_id"
        using distinct_key_eq [OF trail_invD(6) [OF inv] a(4) q(1)] a(5) q(2) that by simp
      with a q(3) fresh top show ?thesis by (fastforce simp: audit_fresh_def)
    qed
    with q b n0 n(2) show ?thesis
      by (auto simp: g_execute_one_Inr insert_request_audit_def link_insert_legal_def list_all_iff list_ex_iff db2_def db1_def
          nip46_request_audit_check_def new_links_def op audited_db_def new_audit_def bound_kinds_def)
  qed
  have row: "\<lparr>o_audit_sequence = n + 1, o_audit_id = ?id, o_correlation_id = ev_correlation ev, o_audit_kind = audit_kind_as_str kind,
      o_outcome = audit_outcome_as_str outcome, o_reason_code = audit_reason_as_str reason,
      o_occurred_at_unix_ms = int (ev_occurred_at ev)\<rparr> = ?a" by (simp add: new_audit_def)
  have none: "db2 = audited_db db ?a (new_links (n + 1) ev kind)" if "ev_operation_id ev = None"
    using that by (simp add: db2_def db1_def audited_db_def new_links_def new_audit_def)
  have last: "(case ev_operation_id ev of None \<Rightarrow> Inr db2 | Some operation_id \<Rightarrow> g_execute_one (insert_request_audit
      \<lparr>l_operation_id = operation_id, l_audit_kind = audit_kind_as_str kind, l_audit_sequence = n + 1\<rparr> db2))
      = Inr (audited_db db ?a (new_links (n + 1) ev kind))"
    using none links by (cases "ev_operation_id ev") simp_all
  show ?thesis
    unfolding record_audit_def Let_def absent r_bind_simps option.case read_audit_state_ok [OF n(1) n0 less_imp_le [OF n(2)]]
      i adv row ins last by blast
qed

text \<open>Audit identities are derived from correlation and kind.\<close>

definition ids_derived :: "(bytes \<Rightarrow> bytes) \<Rightarrow> governance_db \<Rightarrow> bool" where
  "ids_derived sha db \<longleftrightarrow> (\<forall>a\<in>set (g_audits db). \<forall>kind. o_audit_kind a = audit_kind_as_str kind \<longrightarrow>
     o_audit_id a = derive_audit_id sha (o_correlation_id a) kind)"

lemma audit_fresh_iff:
  assumes "ids_derived sha db"
  shows "audit_fresh sha db ev kind \<longleftrightarrow> (\<forall>a\<in>set (g_audits db). o_audit_id a \<noteq> derive_audit_id sha (ev_correlation ev) kind)"
  using assms unfolding audit_fresh_def ids_derived_def by auto

lemma new_audit_derived:
  assumes "ids_derived sha db"
  shows "ids_derived sha (audited_db db (new_audit sha n ev kind outcome reason) ls)"
  using assms by (auto simp: ids_derived_def new_audit_def audit_kind.as_str_inj)

text \<open>
  Seen from the audit trail, an event appends one record after the high-water mark, or changes nothing,
  after possibly removing old records.
\<close>

definition high_water :: "governance_db \<Rightarrow> int" where
  "high_water db = (case g_audit_state db of [] \<Rightarrow> 0 | r # _ \<Rightarrow> s_next_sequence r)"

definition trail_extends :: "governance_db \<Rightarrow> governance_db \<Rightarrow> bool" where
  "trail_extends db db' \<longleftrightarrow> high_water db \<le> high_water db'
     \<and> (\<forall>a\<in>set (g_audits db'). a \<in> set (g_audits db) \<or> high_water db < o_audit_sequence a)"

lemma trail_extends_refl: "trail_extends db db"
  by (simp add: trail_extends_def)

lemma trail_extends_trans: "trail_extends u v \<Longrightarrow> trail_extends v w \<Longrightarrow> trail_extends u w"
  unfolding trail_extends_def by fastforce

lemma new_audit_sequence [simp]: "o_audit_sequence (new_audit sha n ev kind outcome reason) = n"
  by (simp add: new_audit_def)

lemma record_audit_extends:
  assumes "trail_inv db" and "ids_derived sha db" and "record_audit sha db ev kind outcome reason = Inr (r, db')"
  shows "ids_derived sha db' \<and> trail_extends db db'"
  using assms(1,3)
proof (cases rule: record_audit_effect)
  case replay
  then show ?thesis using assms(2) trail_extends_refl by simp
next
  case (written n)
  then show ?thesis using assms(2) by (auto simp: trail_extends_def high_water_def new_audit_derived)
qed

lemma ids_derived_rates [simp]: "ids_derived sha (db\<lparr>g_rates := rates\<rparr>) = ids_derived sha db"
  and trail_extends_rates [simp]: "trail_extends (db\<lparr>g_rates := rates\<rparr>) = trail_extends db"
  by (auto simp: ids_derived_def trail_extends_def high_water_def fun_eq_iff)

lemma govern_extends:
  assumes inv: "governance_inv db" and dist: "distinct (subject_keys sha policy subjects)" and pos: "0 < rl_window_ms policy"
    and ids: "ids_derived sha db" and run: "govern_rate_attempt sha db policy class subjects ev kind = Inr (admitted, db')"
  shows "ids_derived sha db' \<and> trail_extends db db'"
  using inv dist pos run
proof (cases rule: govern_effect)
  case replay
  then show ?thesis using ids trail_extends_refl by simp
next
  case (counted db1)
  show ?thesis
  proof (cases admitted)
    case True
    then show ?thesis using counted(5,6) ids by (simp add: trail_extends_def high_water_def)
  next
    case False
    then obtain r where r: "record_audit sha db1 ev kind AuditRejected ReasonRateLimited = Inr (r, db')" using counted(7) by blast
    have "trail_inv db1" "ids_derived sha db1" using inv counted(5) ids by (simp_all add: governance_inv_def)
    from record_audit_extends [OF this r] show ?thesis using counted(5) by simp
  qed
qed

lemma compacted_extends: "trail_extends db (compacted_db db cutoff now limit)"
  and compacted_ids: "ids_derived sha db \<Longrightarrow> ids_derived sha (compacted_db db cutoff now limit)"
  by (auto simp: compacted_db_def trail_extends_def high_water_def kept_audits_def ids_derived_def)

lemma compact_extends:
  assumes inv: "governance_inv db" and ids: "ids_derived sha db"
    and run: "compact_governance sha db observed_at policy correlation = Inr (outcome, db')"
  shows "ids_derived sha db' \<and> trail_extends db db'"
  using inv run
proof (cases rule: compact_effect)
  case replay
  then show ?thesis using ids trail_extends_refl by simp
next
  case (compacted r cutoff)
  have "trail_inv (compacted_db db cutoff (int observed_at) (cp_maximum_rows_per_class policy))"
    using inv by (simp add: governance_inv_def compacted_trail_inv)
  from record_audit_extends [OF this compacted_ids [OF ids] compacted(2)]
  show ?thesis using trail_extends_trans compacted_extends by blast
qed

lemma apply_event_extends:
  assumes inv: "governance_inv db" and ids: "ids_derived sha db" and ok: "event_ok sha db e"
  shows "ids_derived sha (snd (apply_event sha e db)) \<and> trail_extends db (snd (apply_event sha e db))"
proof (cases e)
  case (AttemptEvent policy subjects ev kind)
  have P: "policy_ok policy" "distinct (subject_keys sha policy subjects)" using ok AttemptEvent by auto
  show ?thesis
  proof (cases "govern_rate_attempt sha db policy (rl_class policy) subjects ev kind")
    case (Inr r)
    then show ?thesis
      using govern_extends [OF inv P(2) policy_okD(1) [OF P(1)] ids, of "rl_class policy" ev kind "fst r" "snd r"] AttemptEvent
      by simp
  qed (use ids trail_extends_refl AttemptEvent in simp)
next
  case (AuditEvent ev kind outcome reason)
  then show ?thesis
    using inv ids trail_extends_refl record_audit_extends [of db sha ev kind outcome reason]
    by (cases "record_audit sha db ev kind outcome reason") (auto simp: governance_inv_def)
next
  case (CompactEvent observed_at policy correlation)
  then show ?thesis
    using ids trail_extends_refl compact_extends [OF inv ids, of observed_at policy correlation]
    by (cases "compact_governance sha db observed_at policy correlation") auto
next
  case (RequestEvent q)
  then show ?thesis using ids by (simp add: ids_derived_def trail_extends_def high_water_def)
qed

lemma step_extends:
  assumes "governance_inv db \<and> ids_derived sha db" and "governance_step sha db db'"
  shows "ids_derived sha db' \<and> trail_extends db db'"
  using assms(2)
proof cases
  case (event e)
  then show ?thesis using assms(1) apply_event_extends by blast
next
  case (binding bindings)
  then show ?thesis using assms(1) by (simp add: ids_derived_def trail_extends_def high_water_def)
qed

interpretation trail: invariant_system governance_init "governance_step sha" "\<lambda>db. governance_inv db \<and> ids_derived sha db" for sha
proof unfold_locales
  show "governance_init s \<Longrightarrow> governance_inv s \<and> ids_derived sha s" for s
    using governance_inv_init by (auto simp: governance_init_def ids_derived_def)
  show "governance_inv s \<and> ids_derived sha s \<Longrightarrow> governance_step sha s t \<Longrightarrow> governance_inv t \<and> ids_derived sha t" for s t
    using governance_step_inv step_extends by blast
qed

lemma reachable_trail: "governance_reachable sha db \<Longrightarrow> governance_inv db \<and> ids_derived sha db"
  unfolding governance_reachable_def using trail.reached_inv by blast

lemma steps_extend:
  assumes "governance_reachable sha db" and "(governance_step sha)\<^sup>*\<^sup>* db db'"
  shows "trail_extends db db'"
  using assms(2) reachable_trail [OF assms(1)] trail_extends_refl
  by (rule trail.steps_preserve) (use step_extends trail_extends_trans in blast)+

section \<open>Pages\<close>

lemma filter_rev_sort_key: "filter P (rev (sort_key f xs)) = rev (sort_key f (filter P xs))"
  by (metis filter_sort rev_filter)

lemma descending_filter:
  assumes "sorted_wrt (\<lambda>x y. f y < (f x :: int)) xs" and "n < length xs"
  shows "filter (\<lambda>x. f x < f (xs ! n)) xs = drop (Suc n) xs"
  using assms
proof (induction xs arbitrary: n)
  case (Cons x xs)
  show ?case
  proof (cases n)
    case 0
    then show ?thesis using Cons.prems by (auto intro: filter_True)
  next
    case (Suc m)
    have m: "m < length xs" using Cons.prems(2) Suc by simp
    have "f (xs ! m) < f x" using Cons.prems(1) m by (auto simp: nth_mem)
    then show ?thesis using Cons.IH [OF _ m] Cons.prems(1) Suc by simp
  qed
qed simp

definition newest_first :: "governance_db \<Rightarrow> audit_row list" where
  "newest_first db = rev (sort_key o_audit_sequence (g_audits db))"

lemma newest_first_descending:
  assumes "trail_inv db"
  shows "sorted_wrt (\<lambda>a b. o_audit_sequence b < o_audit_sequence a) (newest_first db)"
proof -
  let ?xs = "sort_key o_audit_sequence (g_audits db)"
  have "distinct (map o_audit_sequence ?xs)"
  proof -
    have "mset (map o_audit_sequence ?xs) = mset (map o_audit_sequence (g_audits db))" by simp
    then show ?thesis using trail_invD(4) [OF assms] mset_eq_imp_distinct_iff by blast
  qed
  then have "sorted_wrt (<) (map o_audit_sequence ?xs)" using sorted_sort_key strict_sorted_iff by blast
  then show ?thesis unfolding newest_first_def sorted_wrt_rev sorted_wrt_map by simp
qed

text \<open>A page is the next \<open>limit\<close> records below the cursor, and its cursor leads to the ones after them.\<close>

lemma audit_page_eq:
  assumes inv: "trail_inv db" and n: "g_audit_state db = [\<lparr>s_singleton = 1, s_next_sequence = n\<rparr>]" "n < sql_int_max"
    and snap: "int snapshot \<le> n" and before: "0 < before" "before \<le> snapshot + 1" and limit: "0 < limit"
    and rest_def: "rest = filter (\<lambda>a. o_audit_sequence a \<le> int snapshot \<and> o_audit_sequence a < int before \<and> sel a) (newest_first db)"
  shows "audit_page db limit (Some snapshot) (Some before) sel =
    Inr \<lparr>pg_snapshot_sequence = snapshot, pg_items = map (audit_record db) (take limit rest),
      pg_next_before_sequence = (if limit < length rest then Some (nat (o_audit_sequence (rest ! (limit - 1)))) else None)\<rparr>"
proof -
  have n0: "0 \<le> n" using snap by linarith
  have state: "read_audit_state db = Inr (nat n)" by (rule read_audit_state_ok [OF n(1) n0 less_imp_le [OF n(2)]])
  have sat: "saturating_add_u64 snapshot 1 = snapshot + 1" using snap n(2) by (simp add: saturating_add_u64_def int_width_defs)
  have i: "to_i64 snapshot = Inr (int snapshot)" "to_i64 before = Inr (int before)"
    using snap before n(2) by (simp_all add: int_width_defs)
  have guard: "\<not> (nat n < snapshot \<or> before = 0 \<or> snapshot + 1 < before)" using snap before by linarith
  have rows: "rev (sort_key o_audit_sequence (filter (\<lambda>a. o_audit_sequence a \<le> int snapshot \<and> o_audit_sequence a < int before \<and> sel a)
      (g_audits db))) = rest" by (simp add: rest_def newest_first_def filter_rev_sort_key)
  have mem: "a \<in> set (g_audits db)" if "a \<in> set rest" for a using that by (auto simp: rest_def newest_first_def)
  have items: "collect (\<lambda>row. r_bind (bounded_digest (Some (o_audit_id row))) (\<lambda>audit_id.
      r_bind (read_audit_by_id db audit_id) (ok_or Binding))) (take limit (take (limit + 1) rest))
      = Inr (map (audit_record db) (take limit rest))"
  proof -
    have "take limit (take (limit + 1) rest) = take limit rest" by (simp add: min_def)
    moreover have "collect (\<lambda>row. r_bind (bounded_digest (Some (o_audit_id row))) (\<lambda>audit_id.
        r_bind (read_audit_by_id db audit_id) (ok_or Binding))) (take limit rest) = Inr (map (audit_record db) (take limit rest))"
    proof (rule collect_Inr_map)
      fix a assume "a \<in> set (take limit rest)"
      then have a: "a \<in> set (g_audits db)" using mem in_set_takeD by fast
      then have d: "bounded_digest (Some (o_audit_id a)) = Inr (o_audit_id a)"
        using operation_audit_checkD(3) [OF trail_invD(2) [OF inv a]] by simp
      show "r_bind (bounded_digest (Some (o_audit_id a))) (\<lambda>audit_id. r_bind (read_audit_by_id db audit_id) (ok_or Binding))
          = Inr (audit_record db a)" by (simp add: d read_audit_present [OF inv a])
    qed
    ultimately show ?thesis by simp
  qed
  have "au_sequence (last (map (audit_record db) (take limit rest))) = nat (o_audit_sequence (rest ! (limit - 1)))"
    "map (audit_record db) (take limit rest) \<noteq> []" if "limit < length rest"
  proof -
    have l: "length (take limit rest) = limit" using that by simp
    then have ne: "take limit rest \<noteq> []" using limit by auto
    then show "map (audit_record db) (take limit rest) \<noteq> []" by simp
    have "last (take limit rest) = rest ! (limit - 1)" using last_conv_nth [OF ne] l limit that by simp
    with ne show "au_sequence (last (map (audit_record db) (take limit rest))) = nat (o_audit_sequence (rest ! (limit - 1)))"
      by (simp add: last_map audit_record_def)
  qed
  moreover have "(limit < length (take (limit + 1) rest)) = (limit < length rest)" by auto
  ultimately show ?thesis
    unfolding audit_page_def state r_bind_simps Let_def option.case sat i rows items using guard by auto
qed

text \<open>A client that follows the cursor of every page until there is none.\<close>

fun read_all_pages :: "nat \<Rightarrow> governance_db \<Rightarrow> nat \<Rightarrow> nat \<Rightarrow> nat \<Rightarrow> MycAuditRecord list option" where
  "read_all_pages 0 db limit snapshot before = None"
| "read_all_pages (Suc fuel) db limit snapshot before =
     (case read_audit_page db limit (Some snapshot) (Some before) of
        Inl _ \<Rightarrow> None
      | Inr page \<Rightarrow> (case pg_next_before_sequence page of
          None \<Rightarrow> Some (pg_items page)
        | Some next_before \<Rightarrow> map_option (\<lambda>rest. pg_items page @ rest) (read_all_pages fuel db limit snapshot next_before)))"

lemma read_all_pages_eq:
  assumes inv: "trail_inv db" and n: "g_audit_state db = [\<lparr>s_singleton = 1, s_next_sequence = n\<rparr>]" "n < sql_int_max"
    and snap: "int snapshot \<le> n" and limit: "0 < limit"
    and "0 < before" "before \<le> snapshot + 1"
    and "rest = filter (\<lambda>a. o_audit_sequence a < int before) (newest_first db)" and "length rest < fuel"
  shows "read_all_pages fuel db limit snapshot before = Some (map (audit_record db) rest)"
  using assms(6-9)
proof (induction fuel arbitrary: before rest)
  case (Suc fuel)
  let ?page = "\<lparr>pg_snapshot_sequence = snapshot, pg_items = map (audit_record db) (take limit rest),
      pg_next_before_sequence = (if limit < length rest then Some (nat (o_audit_sequence (rest ! (limit - 1)))) else None)\<rparr>"
  have "filter (\<lambda>a. o_audit_sequence a \<le> int snapshot \<and> o_audit_sequence a < int before \<and> True) (newest_first db) = rest"
    using Suc.prems(2,3) by (auto intro: filter_cong)
  then have page: "read_audit_page db limit (Some snapshot) (Some before) = Inr ?page"
    using audit_page_eq [OF inv n snap Suc.prems(1,2) limit, of rest "\<lambda>_. True"] by (simp add: read_audit_page_def)
  show ?case
  proof (cases "limit < length rest")
    case False
    then show ?thesis by (simp add: page)
  next
    case True
    let ?b = "o_audit_sequence (rest ! (limit - 1))"
    have desc: "sorted_wrt (\<lambda>a b. o_audit_sequence b < o_audit_sequence a) rest"
      unfolding Suc.prems(3) by (rule sorted_wrt_filter [OF newest_first_descending [OF inv]])
    have mem: "rest ! (limit - 1) \<in> set rest" using True by (intro nth_mem) simp
    then have b: "1 \<le> ?b" "?b < int before"
      using Suc.prems(3) operation_audit_checkD(1) [OF trail_invD(2) [OF inv]] by (auto simp: newest_first_def)
    have "filter (\<lambda>a. o_audit_sequence a < int (nat ?b)) (newest_first db) = filter (\<lambda>a. o_audit_sequence a < ?b) rest"
    proof -
      have "filter (\<lambda>a. o_audit_sequence a < c) rest = filter (\<lambda>a. o_audit_sequence a < c) (newest_first db)"
        if "c < int before" for c
        unfolding Suc.prems(3) filter_filter using that by (intro filter_cong) auto
      with b show ?thesis by simp
    qed
    also have "\<dots> = drop limit rest" using descending_filter [OF desc, of "limit - 1"] True limit by simp
    finally have "drop limit rest = filter (\<lambda>a. o_audit_sequence a < int (nat ?b)) (newest_first db)" ..
    then have "read_all_pages fuel db limit snapshot (nat ?b) = Some (map (audit_record db) (drop limit rest))"
    proof (rule Suc.IH [rotated 2])
      show "length (drop limit rest) < fuel" using Suc.prems(4) limit True by simp
    qed (use b Suc.prems(2) in auto)
    then show ?thesis using True by (simp add: page flip: map_append)
  qed
qed simp

end
