(* ===== verification/Governance_Theorems.thy ===== *)
theory Governance_Theorems
  imports Governance_Trail
begin

text \<open>
  The properties of rate limiting, auditing and compaction, with a concrete run as witness: one request, one admitted
  and one refused attempt.
\<close>

section \<open>A governed attempt returns\<close>

lemma attempt_ready:
  assumes inv: "governance_inv db" and P: "policy_ok policy" and cls: "rl_class policy = class"
    and subjects: "subjects \<noteq> []" "length subjects \<le> 2" "distinct (subject_keys sha policy subjects)"
    and inp: "\<forall>s\<in>set subjects. attempt_input_ok sha db policy (ev_occurred_at ev) s"
    and ev: "evidence_ok db ev kind" and time: "ev_occurred_at ev + rl_retention_ms policy \<le> i64_max"
    and fresh: "audit_fresh sha db ev kind" and n: "g_audit_state db = [\<lparr>s_singleton = 1, s_next_sequence = n\<rparr>]" "n < sql_int_max"
    and len: "length (derive_audit_id sha (ev_correlation ev) kind) = 32"
    and adm: "admitted = attempt_admitted sha (g_rates db) policy (ev_occurred_at ev) subjects"
    and db1: "db1 = db\<lparr>g_rates := rates_after sha policy (ev_occurred_at ev) admitted subjects (g_rates db)\<rparr>"
  shows "govern_rate_attempt sha db policy class subjects ev kind = Inr (admitted, if admitted then db1
    else audited_db db1 (new_audit sha (n + 1) ev kind AuditRejected ReasonRateLimited) (new_links (n + 1) ev kind))"
proof -
  let ?now = "ev_occurred_at ev"
  let ?states = "map (\<lambda>s. window_state policy s ?now (rate_lookup (g_rates db) (policy_key sha policy s))) subjects"
  have trail: "trail_inv db" and rates: "rates_inv (g_rates db)" using inv by (auto simp: governance_inv_def)
  have absent: "read_audit_by_id db (derive_audit_id sha (ev_correlation ev) kind) = Inr None"
    using fresh by (intro read_audit_absent) (auto simp: audit_fresh_def)
  have loads: "\<forall>s\<in>set subjects. window_loads sha (g_rates db) policy ?now s"
    using inp time P attempt_loads by blast
  have c: "collect (load_rate_state sha db policy ?now) subjects = Inr ?states"
    unfolding collect_load_iff [OF rates] using loads by simp
  have a: "list_all (\<lambda>state. can_accept state policy) ?states = admitted"
    unfolding adm attempt_admitted_def by (simp add: list_all_iff)
  have fit: "windows_fit sha policy ?now admitted subjects (g_rates db)"
    unfolding windows_fit_def
  proof
    fix s assume s: "s \<in> set subjects"
    show "connection_rate_windows_check (rate_after sha policy s ?now admitted (rate_lookup (g_rates db) (policy_key sha policy s)))"
      using inp s ev time adm by (intro rate_after_check [OF rates _ P]) (auto simp: evidence_ok_def attempt_admitted_def list_all_iff)
  qed
  have p: "persist_rate_states sha policy ?now admitted ?states db = Inr db1"
    using persist_rate_states_iff [OF rates subjects(3) window_loads_observed [OF loads] policy_okD(1) [OF P] refl] fit db1 by blast
  have n1: "g_audit_state db1 = [\<lparr>s_singleton = 1, s_next_sequence = n\<rparr>]" using n(1) db1 by simp
  have "trail_inv db1" "evidence_ok db1 ev kind" "audit_fresh sha db1 ev kind"
    using trail ev fresh db1 by (simp_all add: audit_fresh_def)
  from record_audit_ready [OF this(1) n1 n(2) this(2,3) len] obtain r where
    r: "record_audit sha db1 ev kind AuditRejected ReasonRateLimited
      = Inr (r, audited_db db1 (new_audit sha (n + 1) ev kind AuditRejected ReasonRateLimited) (new_links (n + 1) ev kind))" by blast
  have g: "\<not> (rl_class policy \<noteq> class \<or> subjects = [] \<or> 2 < length subjects)" using cls subjects by auto
  show ?thesis
    unfolding govern_rate_attempt_def if_not_P [OF g] absent r_bind_simps option.case c Let_def a p
    using r by simp
qed

section \<open>Example\<close>

definition gx_sha :: "bytes \<Rightarrow> bytes" where "gx_sha bs = take 32 (rev bs @ replicate 32 0)"

definition gx_policy :: MycRateLimitPolicy where
  "gx_policy = \<lparr>rl_class = RateConnectionAdmission, rl_window_ms = 1000, rl_max_attempts = 1, rl_retention_ms = 2000,
     rl_maximum_tracked_subjects = 4\<rparr>"

definition gx_request :: request_key_row where
  "gx_request = \<lparr>k_operation_id = replicate 32 1, k_correlation_id = replicate 32 2\<rparr>"

definition gx_ev :: "nat \<Rightarrow> AuditEvidence" where
  "gx_ev t = \<lparr>ev_correlation = replicate 32 2, ev_occurred_at = t, ev_operation_id = Some (replicate 32 1)\<rparr>"

definition gx_db0 :: governance_db where
  "gx_db0 = \<lparr>g_bindings = [], g_requests = [], g_audit_state = [\<lparr>s_singleton = 1, s_next_sequence = 0\<rparr>],
     g_audits = [], g_links = [], g_rates = []\<rparr>"

definition gx_db1 :: governance_db where "gx_db1 = gx_db0\<lparr>g_requests := [gx_request]\<rparr>"

definition gx_row :: rate_row where "gx_row = rate_after gx_sha gx_policy SubjectGlobal 5000 True None"

definition gx_db2 :: governance_db where "gx_db2 = gx_db1\<lparr>g_rates := [gx_row]\<rparr>"

definition gx_db3 :: governance_db where
  "gx_db3 = audited_db (gx_db2\<lparr>g_rates := [rate_after gx_sha gx_policy SubjectGlobal 5500 False (Some gx_row)]\<rparr>)
     (new_audit gx_sha 1 (gx_ev 5500) AuditConnectionAdmission AuditRejected ReasonRateLimited)
     (new_links 1 (gx_ev 5500) AuditConnectionAdmission)"

lemma gx_sha_length [simp]: "length (gx_sha bs) = 32"
  by (simp add: gx_sha_def)

lemma gx_policy_ok: "policy_ok gx_policy"
  by (simp add: policy_ok_def gx_policy_def rate_policy_new_def governance_limits)

lemma gx_evidence: "0 < t \<Longrightarrow> t \<le> i64_max \<Longrightarrow> gx_request \<in> set (g_requests db) \<Longrightarrow> evidence_ok db (gx_ev t) AuditConnectionAdmission"
  unfolding evidence_ok_def by (simp add: gx_ev_def bound_kinds_def) (rule bexI [of _ gx_request], simp_all add: gx_request_def)

lemma gx_step:
  assumes "governance_reachable sha db" and "event_ok sha db e" and "snd (apply_event sha e db) = db'"
  shows "governance_reachable sha db'"
  using assms governance_step.event [OF assms(2)] unfolding governance_reachable_def by (metis rtranclp.rtrancl_into_rtrancl)

lemma gx_reach0: "governance_reachable gx_sha gx_db0"
  unfolding governance_reachable_def by (intro exI [of _ gx_db0]) (simp add: governance_init_def gx_db0_def)

lemma gx_reach1: "governance_reachable gx_sha gx_db1"
  by (rule gx_step [OF gx_reach0, of "RequestEvent gx_request"]) (simp_all add: gx_db0_def gx_db1_def)

lemma gx_input:
  "attempt_input_ok gx_sha gx_db1 gx_policy 5000 SubjectGlobal" "attempt_input_ok gx_sha gx_db2 gx_policy 5500 SubjectGlobal"
  by (simp_all add: attempt_input_ok_def gx_policy_def gx_db1_def gx_db0_def gx_db2_def rate_lookup_def hash_framed_def
      gx_row_def rate_after_def window_state_def rate_key_def policy_key_def)

lemma gx_lookup: "rate_lookup (g_rates gx_db2) (policy_key gx_sha gx_policy SubjectGlobal) = Some gx_row"
  by (simp add: gx_db2_def rate_lookup_def gx_row_def)

lemma gx_attempt1:
  "govern_rate_attempt gx_sha gx_db1 gx_policy RateConnectionAdmission [SubjectGlobal] (gx_ev 5000) AuditConnectionAdmission
    = Inr (True, gx_db2)"
proof -
  have a: "attempt_admitted gx_sha (g_rates gx_db1) gx_policy (ev_occurred_at (gx_ev 5000)) [SubjectGlobal]"
    by (simp add: attempt_admitted_def gx_db1_def gx_db0_def rate_lookup_def window_state_def can_accept_def gx_policy_def)
  have db: "gx_db2 = gx_db1\<lparr>g_rates := rates_after gx_sha gx_policy (ev_occurred_at (gx_ev 5000)) True [SubjectGlobal] (g_rates gx_db1)\<rparr>"
    by (simp add: gx_db2_def gx_db1_def gx_db0_def put_rate_def rate_lookup_def gx_row_def gx_ev_def)
  have "govern_rate_attempt gx_sha gx_db1 gx_policy RateConnectionAdmission [SubjectGlobal] (gx_ev 5000) AuditConnectionAdmission
    = Inr (True, if True then gx_db2 else audited_db gx_db2 (new_audit gx_sha (0 + 1) (gx_ev 5000) AuditConnectionAdmission
        AuditRejected ReasonRateLimited) (new_links (0 + 1) (gx_ev 5000) AuditConnectionAdmission))"
    by (rule attempt_ready [OF governance_reachable_inv [OF gx_reach1] gx_policy_ok _ _ _ _ _ gx_evidence _ _ _ _ _ _ db])
       (use a gx_input(1) in \<open>simp_all add: gx_policy_def gx_ev_def int_width_defs audit_fresh_def gx_db1_def gx_db0_def derive_audit_id_def\<close>)
  then show ?thesis by simp
qed

lemma gx_reach2: "governance_reachable gx_sha gx_db2"
proof (rule gx_step [OF gx_reach1])
  show "event_ok gx_sha gx_db1 (AttemptEvent gx_policy [SubjectGlobal] (gx_ev 5000) AuditConnectionAdmission)"
    using gx_policy_ok by (auto intro!: gx_evidence simp: int_width_defs gx_db1_def)
  show "snd (apply_event gx_sha (AttemptEvent gx_policy [SubjectGlobal] (gx_ev 5000) AuditConnectionAdmission) gx_db1) = gx_db2"
    using gx_attempt1 by (simp add: gx_policy_def)
qed

lemma gx_attempt2:
  "govern_rate_attempt gx_sha gx_db2 gx_policy RateConnectionAdmission [SubjectGlobal] (gx_ev 5500) AuditConnectionAdmission
    = Inr (False, gx_db3)"
proof -
  let ?row = "rate_after gx_sha gx_policy SubjectGlobal 5500 False (Some gx_row)"
  have a: "\<not> attempt_admitted gx_sha (g_rates gx_db2) gx_policy (ev_occurred_at (gx_ev 5500)) [SubjectGlobal]"
    by (simp add: attempt_admitted_def gx_lookup can_accept_def)
       (simp add: window_state_def gx_row_def rate_after_def gx_policy_def gx_ev_def)
  have key: "rate_key gx_row = policy_key gx_sha gx_policy SubjectGlobal" by (simp add: gx_row_def)
  have db: "gx_db2\<lparr>g_rates := [?row]\<rparr> = gx_db2\<lparr>g_rates := rates_after gx_sha gx_policy (ev_occurred_at (gx_ev 5500)) False [SubjectGlobal] (g_rates gx_db2)\<rparr>"
    by (simp add: gx_lookup put_rate_def gx_ev_def) (simp add: gx_db2_def key)
  have "govern_rate_attempt gx_sha gx_db2 gx_policy RateConnectionAdmission [SubjectGlobal] (gx_ev 5500) AuditConnectionAdmission
    = Inr (False, if False then gx_db2\<lparr>g_rates := [?row]\<rparr> else audited_db (gx_db2\<lparr>g_rates := [?row]\<rparr>)
        (new_audit gx_sha (0 + 1) (gx_ev 5500) AuditConnectionAdmission AuditRejected ReasonRateLimited)
        (new_links (0 + 1) (gx_ev 5500) AuditConnectionAdmission))"
    by (rule attempt_ready [OF governance_reachable_inv [OF gx_reach2] gx_policy_ok _ _ _ _ _ gx_evidence _ _ _ _ _ _ db])
       (use a gx_input(2) in \<open>simp_all add: gx_policy_def gx_ev_def int_width_defs audit_fresh_def gx_db2_def gx_db1_def gx_db0_def derive_audit_id_def\<close>)
  then show ?thesis by (simp add: gx_db3_def)
qed

lemma gx_reach3: "governance_reachable gx_sha gx_db3"
proof (rule gx_step [OF gx_reach2])
  show "event_ok gx_sha gx_db2 (AttemptEvent gx_policy [SubjectGlobal] (gx_ev 5500) AuditConnectionAdmission)"
    using gx_policy_ok by (auto intro!: gx_evidence simp: int_width_defs gx_db1_def gx_db2_def)
  show "snd (apply_event gx_sha (AttemptEvent gx_policy [SubjectGlobal] (gx_ev 5500) AuditConnectionAdmission) gx_db2) = gx_db3"
    using gx_attempt2 by (simp add: gx_policy_def)
qed

section \<open>Properties\<close>

text \<open>
  C20. In every state the service can reach by any interleaving of rate attempts, audit records, compactions and
  new requests, the audit trail and the rate windows are consistent: sequence numbers are unique and at most
  the high-water mark, request-bound records are linked to exactly one stored request with the same
  correlation, no link dangles, every window has one row per subject and ends no earlier than its last attempt.
\<close>

theorem governance_invariant:
  assumes "governance_reachable sha db"
  shows "governance_inv db"
  using assms by (rule governance_reachable_inv)

theorem governance_invariant_witness:
  "governance_reachable gx_sha gx_db3 \<and> length (g_audits gx_db3) = 1 \<and> length (g_links gx_db3) = 1 \<and> governance_inv gx_db3"
  using governance_invariant [OF gx_reach3] gx_reach3
  by (simp add: gx_db3_def gx_db2_def gx_db1_def gx_db0_def new_links_def gx_ev_def)

text \<open>
  C21. Rate limiting bounds bursts: in any stretch of time no longer than one window, at most twice
  \<open>max_attempts\<close> attempts are admitted for one subject, whatever other attempts, failed transactions, audit
  records and compactions are interleaved.
\<close>

theorem burst_bound:
  assumes "governance_reachable sha db" and "run_ok sha events db" and "policy_ok policy"
    and "\<forall>e\<in>set events. same_policy policy e"
    and "\<forall>e\<in>set events. \<forall>t. event_time e = Some t \<longrightarrow> start \<le> t \<and> t \<le> start + rl_window_ms policy"
  shows "admissions sha (policy_key sha policy subject) events db \<le> 2 * rl_max_attempts policy"
  using admissions_bound [OF governance_reachable_inv [OF assms(1)] assms(2,4,5) _ assms(3), of 0]
  by (simp add: admitted_so_far_def)

theorem burst_bound_witness:
  "let events = [AttemptEvent gx_policy [SubjectGlobal] (gx_ev 5000) AuditConnectionAdmission,
      AttemptEvent gx_policy [SubjectGlobal] (gx_ev 5500) AuditConnectionAdmission]
   in run_ok gx_sha events gx_db1 \<and> admissions gx_sha (policy_key gx_sha gx_policy SubjectGlobal) events gx_db1 = 1
     \<and> admissions gx_sha (policy_key gx_sha gx_policy SubjectGlobal) events gx_db1 \<le> 2 * rl_max_attempts gx_policy"
proof -
  let ?e1 = "AttemptEvent gx_policy [SubjectGlobal] (gx_ev 5000) AuditConnectionAdmission"
  let ?e2 = "AttemptEvent gx_policy [SubjectGlobal] (gx_ev 5500) AuditConnectionAdmission"
  have r: "apply_event gx_sha ?e1 gx_db1 = (True, gx_db2)" "apply_event gx_sha ?e2 gx_db2 = (False, gx_db3)"
    using gx_attempt1 gx_attempt2 by (simp_all add: gx_policy_def)
  have ok: "run_ok gx_sha [?e1, ?e2] gx_db1"
    using r gx_policy_ok by (auto intro!: gx_evidence simp: int_width_defs gx_db1_def gx_db2_def simp del: apply_event.simps)
  have "admissions gx_sha (policy_key gx_sha gx_policy SubjectGlobal) [?e1, ?e2] gx_db1 \<le> 2 * rl_max_attempts gx_policy"
    by (rule burst_bound [OF gx_reach1 ok gx_policy_ok, where start = 5000]) (auto simp: gx_ev_def gx_policy_def)
  moreover have "admissions gx_sha (policy_key gx_sha gx_policy SubjectGlobal) [?e1, ?e2] gx_db1 = 1"
    by (simp add: r del: apply_event.simps)
  ultimately show ?thesis using ok unfolding Let_def by blast
qed

text \<open>
  C22. The stored windows implement the abstract limiter: a committed attempt with a new audit identity decides
  as the limiter decides on the windows read as a map, and leaves the map the limiter leaves. The attempt is
  counted for all its subjects or none, and no other subject is touched.
\<close>

theorem attempt_refines_limiter:
  assumes "governance_reachable sha db" and "policy_ok policy" and "distinct (subject_keys sha policy subjects)"
    and "\<forall>a\<in>set (g_audits db). o_audit_id a \<noteq> derive_audit_id sha (ev_correlation ev) kind"
    and "govern_rate_attempt sha db policy class subjects ev kind = Inr (admitted, db')"
  shows "(admitted, limiter_of db') = limiter_attempt policy (ev_occurred_at ev) (subject_keys sha policy subjects) (limiter_of db)"
proof -
  note inv = governance_reachable_inv [OF assms(1)]
  have rates: "rates_inv (g_rates db)" using inv by (simp add: governance_inv_def)
  note C = counted_rates [OF inv assms(3) policy_okD(1) [OF assms(2)] assms(4,5)]
  have adm: "admitted = fst (limiter_attempt policy (ev_occurred_at ev) (subject_keys sha policy subjects) (limiter_of db))"
    using C(1) attempt_admitted_limiter [OF rates] by simp
  have "limiter_of db' = snd (limiter_attempt policy (ev_occurred_at ev) (subject_keys sha policy subjects) (limiter_of db))"
    using rates_after_limiter [OF rates assms(3) C(2,3)] adm
    by (intro ext) (simp add: limiter_attempt_def Let_def)
  with adm show ?thesis by (simp add: prod_eq_iff)
qed

theorem attempt_refines_limiter_witness:
  "(True, limiter_of gx_db2) = limiter_attempt gx_policy 5000 (subject_keys gx_sha gx_policy [SubjectGlobal]) (limiter_of gx_db1)"
  using attempt_refines_limiter [OF gx_reach1 gx_policy_ok _ _ gx_attempt1]
  by (simp add: gx_db1_def gx_db0_def) (simp add: gx_ev_def)

text \<open>
  A governed attempt is always decided: with a clock that has not gone back, room for the subject and a new
  audit identity, the transaction commits, without an integrity error, a trigger abort or a constraint
  violation, and its answer is the limiter's.
\<close>

theorem attempt_decided:
  assumes "governance_reachable sha db" and "policy_ok policy" and "rl_class policy = class"
    and "subjects \<noteq> []" and "length subjects \<le> 2" and "distinct (subject_keys sha policy subjects)"
    and "\<forall>s\<in>set subjects. attempt_input_ok sha db policy (ev_occurred_at ev) s"
    and "evidence_ok db ev kind" and "ev_occurred_at ev + rl_retention_ms policy \<le> i64_max"
    and "\<forall>a\<in>set (g_audits db). o_audit_id a \<noteq> derive_audit_id sha (ev_correlation ev) kind"
    and "high_water db < int i64_max" and "length (derive_audit_id sha (ev_correlation ev) kind) = 32"
  shows "\<exists>db'. govern_rate_attempt sha db policy class subjects ev kind =
    Inr (fst (limiter_attempt policy (ev_occurred_at ev) (subject_keys sha policy subjects) (limiter_of db)), db')"
proof -
  have inv: "governance_inv db" and ids: "ids_derived sha db" using reachable_trail [OF assms(1)] by auto
  obtain n where n: "g_audit_state db = [\<lparr>s_singleton = 1, s_next_sequence = n\<rparr>]"
    using trail_invD(1) inv by (auto simp: governance_inv_def)
  have lt: "n < sql_int_max" using assms(11) n by (simp add: high_water_def int_width_defs)
  have rates: "rates_inv (g_rates db)" using inv by (simp add: governance_inv_def)
  have fresh: "audit_fresh sha db ev kind" using assms(10) audit_fresh_iff [OF ids] by blast
  from attempt_ready [OF inv assms(2-9) fresh n lt assms(12) refl refl] show ?thesis
    unfolding attempt_admitted_limiter [OF rates] by blast
qed

theorem attempt_decided_witness:
  "\<exists>db'. govern_rate_attempt gx_sha gx_db2 gx_policy RateConnectionAdmission [SubjectGlobal] (gx_ev 5500) AuditConnectionAdmission
    = Inr (fst (limiter_attempt gx_policy 5500 [policy_key gx_sha gx_policy SubjectGlobal] (limiter_of gx_db2)), db')"
  using attempt_decided [OF gx_reach2 gx_policy_ok, of RateConnectionAdmission "[SubjectGlobal]" "gx_ev 5500" AuditConnectionAdmission]
    gx_input(2) gx_evidence [of 5500 gx_db2]
  by (simp add: gx_ev_def derive_audit_id_def gx_policy_def high_water_def gx_db2_def gx_db1_def gx_db0_def int_width_defs)

lemma new_record_read:
  assumes inv: "trail_inv db" and ev: "evidence_ok db ev kind"
    and run: "record_audit sha db ev kind outcome reason = Inr (r, db')"
  shows "read_audit_by_id db' (derive_audit_id sha (ev_correlation ev) kind) = Inr (Some r)
    \<and> au_correlation_id r = ev_correlation ev \<and> au_operation_id r = ev_operation_id ev \<and> au_kind r = kind
    \<and> au_outcome r = outcome \<and> au_reason r = reason \<and> au_occurred_at r = ev_occurred_at ev"
  using inv run
proof (cases rule: record_audit_effect)
  case replay
  then obtain a where a: "a \<in> set (g_audits db)" "r = audit_record db a" "o_audit_id a = derive_audit_id sha (ev_correlation ev) kind" by blast
  have "read_audit_by_id db (derive_audit_id sha (ev_correlation ev) kind) = Inr (Some r)"
    using read_audit_present [OF inv a(1)] a by simp
  with run replay(1) show ?thesis by (auto simp: record_audit_def split: if_splits)
next
  case (written n)
  let ?a = "new_audit sha (n + 1) ev kind outcome reason" and ?ls = "new_links (n + 1) ev kind"
  have inv': "trail_inv db'" using record_audit_inv(1) [OF inv ev run] .
  have mem: "?a \<in> set (g_audits db')" using written(7) by simp
  have "filter (\<lambda>l. l_audit_sequence l = n + 1) (g_links db) = []"
    using trail_invD(7) [OF inv] written(4) by (force simp: filter_empty_conv)
  then have rec: "audit_record db' ?a = \<lparr>au_sequence = nat (n + 1), au_correlation_id = ev_correlation ev,
      au_operation_id = ev_operation_id ev, au_kind = kind, au_outcome = outcome, au_reason = reason, au_occurred_at = ev_occurred_at ev\<rparr>"
    using written(7)
    by (simp add: audit_record_def new_links_def audit_kind.parse_as_str audit_outcome.parse_as_str audit_reason.parse_as_str
        split: option.splits) (simp_all add: new_audit_def audit_kind.parse_as_str audit_outcome.parse_as_str audit_reason.parse_as_str)
  have "read_audit_by_id db (derive_audit_id sha (ev_correlation ev) kind) = Inr None" using written(5) by (rule read_audit_absent)
  then have "r = audit_record db' ?a" unfolding rec using run written(8)
    by (auto simp: record_audit_def Let_def elim!: r_bind_InrE)
  then show ?thesis using read_audit_present [OF inv' mem] rec by (simp add: new_audit_def)
qed

text \<open>
  C23. Recording is a round trip and idempotent: the record an operation returns is the record the trail then holds
  under its identity, with the evidence it was given; recording the same evidence again returns it and changes
  nothing, and the same identity with other evidence is refused.
\<close>

theorem record_audit_roundtrip:
  assumes "governance_reachable sha db" and "evidence_ok db ev kind"
    and "record_audit sha db ev kind outcome reason = Inr (r, db')"
  shows "read_audit_by_id db' (derive_audit_id sha (ev_correlation ev) kind) = Inr (Some r)
    \<and> au_correlation_id r = ev_correlation ev \<and> au_operation_id r = ev_operation_id ev \<and> au_kind r = kind
    \<and> au_outcome r = outcome \<and> au_reason r = reason \<and> au_occurred_at r = ev_occurred_at ev
    \<and> (ev_correlation ev' = ev_correlation ev \<longrightarrow> record_audit sha db' ev' kind outcome' reason' =
        (if ev_operation_id ev' = ev_operation_id ev \<and> ev_occurred_at ev' = ev_occurred_at ev
            \<and> outcome' = outcome \<and> reason' = reason then Inr (r, db') else Inl Binding))"
proof -
  have "trail_inv db" using governance_reachable_inv [OF assms(1)] by (simp add: governance_inv_def)
  note R = new_record_read [OF this assms(2,3)]
  then show ?thesis by (auto simp: record_audit_def Let_def)
qed

theorem record_audit_roundtrip_witness:
  "\<exists>r db'. record_audit gx_sha gx_db1 (gx_ev 7) AuditConnectionAdmission AuditSucceeded ReasonTrusted = Inr (r, db')
    \<and> read_audit_by_id db' (derive_audit_id gx_sha (replicate 32 2) AuditConnectionAdmission) = Inr (Some r)
    \<and> record_audit gx_sha db' (gx_ev 7) AuditConnectionAdmission AuditSucceeded ReasonTrusted = Inr (r, db')"
proof -
  have ev: "evidence_ok gx_db1 (gx_ev 7) AuditConnectionAdmission" by (rule gx_evidence) (simp_all add: int_width_defs gx_db1_def)
  have "trail_inv gx_db1" using governance_reachable_inv [OF gx_reach1] by (simp add: governance_inv_def)
  then obtain r where r: "record_audit gx_sha gx_db1 (gx_ev 7) AuditConnectionAdmission AuditSucceeded ReasonTrusted
      = Inr (r, audited_db gx_db1 (new_audit gx_sha (0 + 1) (gx_ev 7) AuditConnectionAdmission AuditSucceeded ReasonTrusted)
          (new_links (0 + 1) (gx_ev 7) AuditConnectionAdmission))" (is "_ = Inr (r, ?db)")
    using record_audit_ready [of gx_db1 0 "gx_ev 7" AuditConnectionAdmission gx_sha] ev
    by (fastforce simp: audit_fresh_def derive_audit_id_def gx_db1_def gx_db0_def)
  have c: "ev_correlation (gx_ev 7) = replicate 32 2" by (simp add: gx_ev_def)
  show ?thesis
    using r record_audit_roundtrip [OF gx_reach1 ev r, of "gx_ev 7" AuditSucceeded ReasonTrusted] unfolding c by auto
qed

text \<open>
  A rate-limited request stays rate limited: repeating the attempt for the same request, at any later time and
  under any policy of the class, is answered with the recorded refusal, and neither counts nor writes anything.
\<close>

theorem rate_limited_replay:
  assumes "governance_reachable sha db" and "policy_ok policy" and "distinct (subject_keys sha policy subjects)"
    and "evidence_ok db ev kind" and "\<forall>a\<in>set (g_audits db). o_audit_id a \<noteq> derive_audit_id sha (ev_correlation ev) kind"
    and "govern_rate_attempt sha db policy class subjects ev kind = Inr (False, db')"
    and "ev_correlation ev' = ev_correlation ev" and "ev_operation_id ev' = ev_operation_id ev"
    and "rl_class policy' = class'" and "subjects' \<noteq> []" and "length subjects' \<le> 2"
  shows "govern_rate_attempt sha db' policy' class' subjects' ev' kind = Inr (False, db')"
proof -
  note inv = governance_reachable_inv [OF assms(1)]
  from inv assms(3) policy_okD(1) [OF assms(2)] assms(6) show ?thesis
  proof (cases rule: govern_effect)
    case (replay a)
    then show ?thesis using assms(5) by blast
  next
    case (counted db1)
    from counted(7) obtain r where r: "record_audit sha db1 ev kind AuditRejected ReasonRateLimited = Inr (r, db')" by blast
    have "trail_inv db1" "evidence_ok db1 ev kind" using inv assms(4) counted(5) by (simp_all add: governance_inv_def)
    from new_record_read [OF this r] assms(7-11) show ?thesis by (auto simp: govern_rate_attempt_def)
  qed
qed

theorem rate_limited_replay_witness:
  "govern_rate_attempt gx_sha gx_db3 gx_policy RateConnectionAdmission [SubjectGlobal] (gx_ev 90000) AuditConnectionAdmission
    = Inr (False, gx_db3)"
  by (rule rate_limited_replay [OF gx_reach2 gx_policy_ok _ gx_evidence _ gx_attempt2])
     (simp_all add: gx_db2_def gx_db1_def gx_db0_def gx_policy_def gx_ev_def int_width_defs)

lemma take_doomed:
  fixes f :: "'a \<Rightarrow> 'b" and g :: "'a \<Rightarrow> 'c :: linorder"
  assumes "distinct (map f xs)" and ys: "ys = take n (sort_key g (filter P xs))"
  shows "length (filter (\<lambda>x. f x \<in> f ` set ys) xs) = length ys"
    and "\<And>x. x \<in> set xs \<Longrightarrow> f x \<in> f ` set ys \<Longrightarrow> P x"
    and "\<And>x. length ys < n \<Longrightarrow> x \<in> set xs \<Longrightarrow> P x \<Longrightarrow> f x \<in> f ` set ys"
proof -
  have sub: "y \<in> set xs \<and> P y" if "y \<in> set ys" for y using that in_set_takeD [of y n] unfolding ys by force
  have inj: "f x \<in> f ` set ys \<longleftrightarrow> x \<in> set ys" if "x \<in> set xs" for x
    using assms(1) that sub by (auto simp: distinct_map inj_on_def)
  have d: "distinct xs" "distinct ys" using assms(1) unfolding ys by (simp_all add: distinct_map)
  have "filter (\<lambda>x. f x \<in> f ` set ys) xs = filter (\<lambda>x. x \<in> set ys) xs" using inj by (intro filter_cong) auto
  moreover have "set (filter (\<lambda>x. x \<in> set ys) xs) = set ys" using sub by auto
  ultimately show "length (filter (\<lambda>x. f x \<in> f ` set ys) xs) = length ys"
    using d by (metis distinct_card distinct_filter)
  show "x \<in> set xs \<Longrightarrow> f x \<in> f ` set ys \<Longrightarrow> P x" for x using inj sub by blast
  show "length ys < n \<Longrightarrow> x \<in> set xs \<Longrightarrow> P x \<Longrightarrow> f x \<in> f ` set ys" for x unfolding ys by auto
qed

lemma kept_audits_exact:
  assumes "trail_inv db"
  shows "length (filter (\<lambda>a. o_audit_sequence a \<in> set (expired_audits db cutoff n)) (g_audits db)) = length (expired_audits db cutoff n)"
    and "\<And>a. a \<in> set (g_audits db) \<Longrightarrow> a \<notin> set (kept_audits db cutoff n) \<Longrightarrow> o_occurred_at_unix_ms a < cutoff"
    and "\<And>a. length (expired_audits db cutoff n) < n \<Longrightarrow> a \<in> set (kept_audits db cutoff n) \<Longrightarrow> cutoff \<le> o_occurred_at_unix_ms a"
proof -
  let ?as = "take n (sort_key o_audit_sequence (filter (\<lambda>a. o_occurred_at_unix_ms a < cutoff) (g_audits db)))"
  have ea: "expired_audits db cutoff n = map o_audit_sequence ?as" by (simp add: expired_audits_def take_map)
  note A = take_doomed [OF trail_invD(4) [OF assms], of ?as n o_audit_sequence "\<lambda>a. o_occurred_at_unix_ms a < cutoff", OF refl]
  show "length (filter (\<lambda>a. o_audit_sequence a \<in> set (expired_audits db cutoff n)) (g_audits db)) = length (expired_audits db cutoff n)"
    using A(1) by (simp add: ea)
  show "a \<in> set (g_audits db) \<Longrightarrow> a \<notin> set (kept_audits db cutoff n) \<Longrightarrow> o_occurred_at_unix_ms a < cutoff" for a
    using A(2) [of a] by (auto simp: kept_audits_def ea)
  show "length (expired_audits db cutoff n) < n \<Longrightarrow> a \<in> set (kept_audits db cutoff n) \<Longrightarrow> cutoff \<le> o_occurred_at_unix_ms a" for a
    using A(3) [of a] by (fastforce simp: kept_audits_def ea)
qed

lemma kept_rates_exact:
  assumes "rates_inv (g_rates db)"
  shows "length (filter (\<lambda>r. r \<in> set (expired_rates db observed n)) (g_rates db)) = length (expired_rates db observed n)"
    and "\<And>r. r \<in> set (g_rates db) \<Longrightarrow> r \<notin> set (kept_rates db observed n) \<Longrightarrow> w_retention_expires_at_unix_ms r < observed"
    and "\<And>r. length (expired_rates db observed n) < n \<Longrightarrow> r \<in> set (kept_rates db observed n) \<Longrightarrow> observed \<le> w_retention_expires_at_unix_ms r"
proof -
  have "distinct (map (\<lambda>r. r) (g_rates db))" using assms by (simp add: rates_inv_def distinct_map)
  note B = take_doomed [OF this, of "expired_rates db observed n" n
      "\<lambda>r. (w_retention_expires_at_unix_ms r, rate_key r)" "\<lambda>r. w_retention_expires_at_unix_ms r < observed",
      OF expired_rates_def]
  show "length (filter (\<lambda>r. r \<in> set (expired_rates db observed n)) (g_rates db)) = length (expired_rates db observed n)"
    using B(1) by simp
  show "r \<in> set (g_rates db) \<Longrightarrow> r \<notin> set (kept_rates db observed n) \<Longrightarrow> w_retention_expires_at_unix_ms r < observed" for r
    using B(2) [of r] by (auto simp: kept_rates_def)
  show "length (expired_rates db observed n) < n \<Longrightarrow> r \<in> set (kept_rates db observed n) \<Longrightarrow> observed \<le> w_retention_expires_at_unix_ms r" for r
    using B(3) [of r] by (force simp: kept_rates_def)
qed

lemma compact_appends:
  assumes trail: "trail_inv db"
    and rec: "record_audit sha (compacted_db db cutoff now n) ev AuditGovernanceCompaction AuditSucceeded ReasonCompacted = Inr (r, db')"
    and fresh: "\<forall>a\<in>set (g_audits db). o_audit_id a \<noteq> derive_audit_id sha (ev_correlation ev) AuditGovernanceCompaction"
  obtains new where "g_audits db' = kept_audits db cutoff n @ [new]" "o_audit_kind new = ''governance_compaction''"
    "new \<notin> set (g_audits db)" "g_rates db' = kept_rates db now n"
proof -
  have T: "trail_inv (compacted_db db cutoff now n)" using trail by (rule compacted_trail_inv)
  have R: "g_rates db' = kept_rates db now n" using record_audit_rates [OF T rec] by (simp add: compacted_db_def)
  from T rec show thesis
  proof (cases rule: record_audit_effect)
    case replay
    then show thesis using fresh by (auto simp: compacted_db_def kept_audits_def)
  next
    case (written k)
    have "\<forall>a\<in>set (g_audits db). o_audit_sequence a \<le> k"
      using trail_invD(1) [OF trail] written(1) by (auto simp: compacted_db_def)
    then have "new_audit sha (k + 1) ev AuditGovernanceCompaction AuditSucceeded ReasonCompacted \<notin> set (g_audits db)"
      by (force simp: new_audit_def)
    then show thesis using written(7) R by (intro that) (simp_all add: compacted_db_def new_audit_def)
  qed
qed

text \<open>
  C24. Compaction removes expired evidence only, within its limit, and reports what it removed: an audit record goes only
  when it is older than the retention, a window only when its retention has passed; when fewer than the limit
  were removed, no expired one is left; nothing else is added but the record of the compaction.
\<close>

theorem compaction_exact:
  assumes "governance_reachable sha db" and "compact_governance sha db observed_at policy correlation = Inr (outcome, db')"
    and "\<forall>a\<in>set (g_audits db). o_audit_id a \<noteq> derive_audit_id sha correlation AuditGovernanceCompaction"
  shows "(\<forall>a\<in>set (g_audits db). a \<notin> set (g_audits db') \<longrightarrow>
        o_occurred_at_unix_ms a < int (observed_at - cp_audit_retention_ms policy))
    \<and> (\<forall>r\<in>set (g_rates db). r \<notin> set (g_rates db') \<longrightarrow> w_retention_expires_at_unix_ms r < int observed_at)
    \<and> set (g_rates db') \<subseteq> set (g_rates db)
    \<and> (\<forall>a\<in>set (g_audits db') - set (g_audits db). o_audit_kind a = ''governance_compaction'')
    \<and> co_removed_audit_records outcome \<le> cp_maximum_rows_per_class policy
    \<and> co_removed_rate_subjects outcome \<le> cp_maximum_rows_per_class policy
    \<and> (co_removed_audit_records outcome < cp_maximum_rows_per_class policy \<longrightarrow>
        (\<forall>a\<in>set (g_audits db) \<inter> set (g_audits db'). int (observed_at - cp_audit_retention_ms policy) \<le> o_occurred_at_unix_ms a))
    \<and> (co_removed_rate_subjects outcome < cp_maximum_rows_per_class policy \<longrightarrow>
        (\<forall>r\<in>set (g_rates db'). int observed_at \<le> w_retention_expires_at_unix_ms r))"
proof -
  let ?cutoff = "int (observed_at - cp_audit_retention_ms policy)" and ?limit = "cp_maximum_rows_per_class policy"
  have trail: "trail_inv db" and rates: "rates_inv (g_rates db)"
    using governance_reachable_inv [OF assms(1)] by (auto simp: governance_inv_def)
  from governance_reachable_inv [OF assms(1)] assms(2) show ?thesis
  proof (cases rule: compact_effect)
    case (replay a)
    then show ?thesis using assms(3) by blast
  next
    case (compacted r cutoff)
    note A = kept_audits_exact [OF trail, where cutoff = ?cutoff and n = ?limit]
      and B = kept_rates_exact [OF rates, where observed = "int observed_at" and n = ?limit]
    obtain new where N: "g_audits db' = kept_audits db ?cutoff ?limit @ [new]" "o_audit_kind new = ''governance_compaction''"
      "new \<notin> set (g_audits db)" "g_rates db' = kept_rates db (int observed_at) ?limit"
      using assms(3) by (elim compact_appends [OF trail compacted(2) [unfolded compacted(1)], simplified])
    have counts: "co_removed_audit_records outcome = length (expired_audits db ?cutoff ?limit)"
      "co_removed_rate_subjects outcome = length (expired_rates db (int observed_at) ?limit)"
      using A(1) B(1) by (simp_all add: compacted(1,3,4))
    have le: "length (expired_audits db ?cutoff ?limit) \<le> ?limit" "length (expired_rates db (int observed_at) ?limit) \<le> ?limit"
      by (simp_all add: expired_audits_def expired_rates_def)
    have sub: "set (kept_audits db ?cutoff ?limit) \<subseteq> set (g_audits db)" "set (kept_rates db (int observed_at) ?limit) \<subseteq> set (g_rates db)"
      by (auto simp: kept_audits_def kept_rates_def)
    show ?thesis unfolding N(1,4) counts using A(2,3) B(2,3) N(2,3) le sub by auto
  qed
qed

theorem compaction_exact_witness:
  "\<exists>outcome db'. compact_governance gx_sha gx_db3 9000 \<lparr>cp_audit_retention_ms = 1000, cp_maximum_rows_per_class = 10\<rparr> (replicate 32 7)
      = Inr (outcome, db') \<and> co_removed_audit_records outcome = 1 \<and> co_removed_rate_subjects outcome = 1
    \<and> (\<forall>r\<in>set (g_rates db'). int 9000 \<le> w_retention_expires_at_unix_ms r)"
proof -
  let ?policy = "\<lparr>cp_audit_retention_ms = 1000, cp_maximum_rows_per_class = 10\<rparr>"
  let ?ev = "\<lparr>ev_correlation = replicate 32 7, ev_occurred_at = 9000, ev_operation_id = None\<rparr>"
  let ?id = "derive_audit_id gx_sha (replicate 32 7) AuditGovernanceCompaction"
  let ?row = "rate_after gx_sha gx_policy SubjectGlobal 5500 False (Some gx_row)"
  let ?a = "new_audit gx_sha 1 (gx_ev 5500) AuditConnectionAdmission AuditRejected ReasonRateLimited"
  have db3: "g_audits gx_db3 = [?a]" "g_rates gx_db3 = [?row]" "g_audit_state gx_db3 = [\<lparr>s_singleton = 1, s_next_sequence = 1\<rparr>]"
    by (simp_all add: gx_db3_def gx_db2_def gx_db1_def gx_db0_def)
  have ne: "o_audit_id ?a \<noteq> ?id"
    by (simp add: new_audit_def derive_audit_id_def gx_sha_def gx_ev_def AUDIT_ID_DOMAIN_def str_bytes_def)
  have old: "o_occurred_at_unix_ms ?a < 8000" "w_retention_expires_at_unix_ms ?row < 9000"
    by (simp_all add: new_audit_def gx_ev_def rate_after_def Let_def gx_policy_def)
  have ex: "expired_audits gx_db3 8000 10 = [1]" "expired_rates gx_db3 9000 10 = [?row]"
    using old by (simp_all add: expired_audits_def expired_rates_def db3)
  have trail: "trail_inv gx_db3" using governance_reachable_inv [OF gx_reach3] by (simp add: governance_inv_def)
  let ?db = "compacted_db gx_db3 8000 9000 10"
  have "evidence_ok ?db ?ev AuditGovernanceCompaction" by (simp add: evidence_ok_def bound_kinds_def int_width_defs)
  moreover have "audit_fresh gx_sha ?db ?ev AuditGovernanceCompaction"
    by (simp add: audit_fresh_def compacted_db_def kept_audits_def ex db3)
  moreover have "g_audit_state ?db = [\<lparr>s_singleton = 1, s_next_sequence = 1\<rparr>]" by (simp add: compacted_db_def db3)
  ultimately obtain r db' where r: "record_audit gx_sha ?db ?ev AuditGovernanceCompaction AuditSucceeded ReasonCompacted = Inr (r, db')"
    using record_audit_ready [OF compacted_trail_inv [OF trail], of 8000 9000 10 1 ?ev AuditGovernanceCompaction gx_sha]
    by (fastforce simp: derive_audit_id_def)
  have none: "read_audit_by_id gx_db3 ?id = Inr None" using ne by (intro read_audit_absent) (simp add: db3)
  have run: "compact_governance gx_sha gx_db3 9000 ?policy (replicate 32 7)
      = Inr (\<lparr>co_removed_audit_records = 1, co_removed_rate_subjects = 1\<rparr>, db')"
    using r by (simp add: compact_governance_def none Let_def delete_audits_links delete_rates_eq expired_rates_frame ex db3
        compacted_db_def u16_count_def to_i64_def i64_of_nat_def int_width_defs)
  have "\<forall>q\<in>set (g_rates db'). int 9000 \<le> w_retention_expires_at_unix_ms q"
    using compaction_exact [OF gx_reach3 run] ne by (simp add: db3)
  with run show ?thesis by (intro exI [of _ "\<lparr>co_removed_audit_records = 1, co_removed_rate_subjects = 1\<rparr>"] exI [of _ db']) simp
qed

text \<open>
  The audit trail is append-only between compactions: along every run the high-water mark never falls, a
  record at or below an earlier mark is a record that was already there, unchanged, and sequence numbers are
  never given out twice.
\<close>

theorem audit_trail_append_only:
  assumes "governance_reachable sha db" and "(governance_step sha)\<^sup>*\<^sup>* db db'"
  shows "high_water db \<le> high_water db'
    \<and> (\<forall>a\<in>set (g_audits db'). o_audit_sequence a \<le> high_water db \<longrightarrow> a \<in> set (g_audits db))
    \<and> (\<forall>a\<in>set (g_audits db'). o_audit_sequence a \<le> high_water db')"
proof -
  have "trail_extends db db'" using assms by (rule steps_extend)
  moreover have "governance_reachable sha db'"
    using assms unfolding governance_reachable_def by (meson rtranclp_trans)
  then have "trail_inv db'" using governance_reachable_inv by (auto simp: governance_inv_def)
  then have "\<forall>a\<in>set (g_audits db'). o_audit_sequence a \<le> high_water db'"
    using trail_invD(1) [of db'] by (auto simp: high_water_def)
  ultimately show ?thesis by (auto simp: trail_extends_def)
qed

theorem audit_trail_append_only_witness:
  "high_water gx_db2 = 0 \<and> high_water gx_db3 = 1 \<and> high_water gx_db2 \<le> high_water gx_db3
   \<and> set (filter (\<lambda>a. o_audit_sequence a \<le> high_water gx_db2) (g_audits gx_db3)) \<subseteq> set (g_audits gx_db2)"
proof -
  have ok: "event_ok gx_sha gx_db2 (AttemptEvent gx_policy [SubjectGlobal] (gx_ev 5500) AuditConnectionAdmission)"
    using gx_policy_ok by (auto intro!: gx_evidence simp: int_width_defs gx_db1_def gx_db2_def)
  have "snd (apply_event gx_sha (AttemptEvent gx_policy [SubjectGlobal] (gx_ev 5500) AuditConnectionAdmission) gx_db2) = gx_db3"
    using gx_attempt2 by (simp add: gx_policy_def)
  with governance_step.event [OF ok] have "(governance_step gx_sha)\<^sup>*\<^sup>* gx_db2 gx_db3" by (metis r_into_rtranclp)
  note run = audit_trail_append_only [OF gx_reach2 this]
  have "high_water gx_db2 = 0" "high_water gx_db3 = 1"
    by (simp_all add: high_water_def gx_db3_def gx_db2_def gx_db1_def gx_db0_def)
  with run show ?thesis by auto
qed

text \<open>
  C25. Paging through the audit trail terminates and is exact: a client that starts at the high-water mark and follows the
  cursor of every page receives every record once, newest first, with any page limit, in at most one page
  more than there are records.
\<close>

theorem audit_pages_complete:
  assumes "governance_reachable sha db" and "high_water db < int i64_max" and "0 < limit"
  shows "read_all_pages (length (g_audits db) + 1) db limit (nat (high_water db)) (nat (high_water db) + 1)
    = Some (map (audit_record db) (rev (sort_key o_audit_sequence (g_audits db))))"
proof -
  have inv: "trail_inv db" using governance_reachable_inv [OF assms(1)] by (simp add: governance_inv_def)
  obtain n where n: "g_audit_state db = [\<lparr>s_singleton = 1, s_next_sequence = n\<rparr>]" "0 \<le> n"
    "\<forall>a\<in>set (g_audits db). o_audit_sequence a \<le> n" using trail_invD(1) [OF inv] by blast
  have h: "high_water db = n" using n by (simp add: high_water_def)
  have lt: "n < sql_int_max" using assms(2) h by (simp add: int_width_defs)
  have all: "newest_first db = filter (\<lambda>a. o_audit_sequence a < int (nat n + 1)) (newest_first db)"
    using n(2,3) by (intro filter_True [symmetric]) (auto simp: newest_first_def)
  have "read_all_pages (length (g_audits db) + 1) db limit (nat n) (nat n + 1) = Some (map (audit_record db) (newest_first db))"
    by (rule read_all_pages_eq [OF inv n(1) lt _ assms(3) _ _ all]) (use n(2) in \<open>simp_all add: newest_first_def\<close>)
  then show ?thesis by (simp add: h newest_first_def)
qed

theorem audit_pages_complete_witness:
  "\<exists>r. read_all_pages 2 gx_db3 5 1 2 = Some [r] \<and> au_sequence r = 1 \<and> au_reason r = ReasonRateLimited"
proof -
  have h: "high_water gx_db3 = 1" "length (g_audits gx_db3) = 1"
    by (simp_all add: high_water_def gx_db3_def gx_db2_def gx_db1_def gx_db0_def)
  have a: "g_audits gx_db3 = [new_audit gx_sha 1 (gx_ev 5500) AuditConnectionAdmission AuditRejected ReasonRateLimited]"
    by (simp add: gx_db3_def gx_db2_def gx_db1_def gx_db0_def)
  have lt: "high_water gx_db3 < int i64_max" by (simp add: h int_width_defs)
  have e: "length [x] + 1 = 2" "nat 1 + 1 = 2" "(1 :: nat) + 1 = 2" "nat 1 = 1" for x :: audit_row by simp_all
  have srt: "rev (sort_key o_audit_sequence [x]) = [x]" for x by simp
  have "read_all_pages 2 gx_db3 5 1 2 = Some [audit_record gx_db3
      (new_audit gx_sha 1 (gx_ev 5500) AuditConnectionAdmission AuditRejected ReasonRateLimited)]"
    using audit_pages_complete [OF gx_reach3 lt zero_less_numeral, of "num.Bit1 (num.Bit0 num.One)"] unfolding h e a srt list.map .
  then show ?thesis
    by (intro exI conjI) (assumption, simp_all add: audit_record_def, simp add: new_audit_def audit_reason_parse_def)
qed

text \<open>
  C26. Lowering a rate limit can lock a subject out: once a stored window has counted more attempts than a new, lower
  \<open>max_attempts\<close>, every attempt on that subject with a new audit identity fails, whatever the time, also
  long after that window has ended, because the stored count is checked before the window is rolled over.
\<close>

theorem lowered_limit_locks_out:
  assumes "governance_reachable sha db" and "s \<in> set subjects"
    and "rate_lookup (g_rates db) (policy_key sha policy s) = Some r" and "int (rl_max_attempts policy) < w_accepted_count r"
    and "\<forall>a\<in>set (g_audits db). o_audit_id a \<noteq> derive_audit_id sha (ev_correlation ev) kind"
  shows "\<exists>e. govern_rate_attempt sha db policy class subjects ev kind = Inl e"
proof -
  have rates: "rates_inv (g_rates db)" using governance_reachable_inv [OF assms(1)] by (simp add: governance_inv_def)
  have "\<not> window_loads sha (g_rates db) policy (ev_occurred_at ev) s" using assms(3,4) by (simp add: window_loads_def)
  then have "collect (load_rate_state sha db policy (ev_occurred_at ev)) subjects \<noteq> Inr states" for states
    using assms(2) unfolding collect_load_iff [OF rates] by blast
  then obtain e where e: "collect (load_rate_state sha db policy (ev_occurred_at ev)) subjects = Inl e"
    by (cases "collect (load_rate_state sha db policy (ev_occurred_at ev)) subjects") auto
  show ?thesis using e read_audit_absent [OF assms(5)] by (simp add: govern_rate_attempt_def)
qed

definition gx_policy2 :: MycRateLimitPolicy where "gx_policy2 = gx_policy\<lparr>rl_max_attempts := 2\<rparr>"

definition gx_row2 :: rate_row where "gx_row2 = rate_after gx_sha gx_policy2 SubjectGlobal 5500 True (Some gx_row)"

definition gx_db4 :: governance_db where "gx_db4 = gx_db2\<lparr>g_rates := [gx_row2]\<rparr>"

lemma gx_key2: "policy_key gx_sha gx_policy2 SubjectGlobal = policy_key gx_sha gx_policy SubjectGlobal"
  by (simp add: policy_key_def gx_policy2_def)

lemma gx_reach4: "governance_reachable gx_sha gx_db4"
proof (rule gx_step [OF gx_reach2])
  have ok: "policy_ok gx_policy2" by (simp add: policy_ok_def gx_policy2_def gx_policy_def rate_policy_new_def governance_limits)
  then show "event_ok gx_sha gx_db2 (AttemptEvent gx_policy2 [SubjectGlobal] (gx_ev 5500) AuditConnectionAdmission)"
    by (auto intro!: gx_evidence simp: int_width_defs gx_db1_def gx_db2_def)
  have a: "attempt_admitted gx_sha (g_rates gx_db2) gx_policy2 (ev_occurred_at (gx_ev 5500)) [SubjectGlobal]"
    by (simp add: attempt_admitted_def gx_key2 gx_lookup can_accept_def)
       (simp add: window_state_def gx_row_def rate_after_def gx_policy_def gx_policy2_def gx_ev_def)
  have key: "rate_key gx_row = policy_key gx_sha gx_policy SubjectGlobal" by (simp add: gx_row_def)
  have db: "gx_db4 = gx_db2\<lparr>g_rates := rates_after gx_sha gx_policy2 (ev_occurred_at (gx_ev 5500)) True [SubjectGlobal] (g_rates gx_db2)\<rparr>"
    by (simp add: gx_key2 gx_lookup put_rate_def gx_ev_def) (simp add: gx_db2_def gx_db4_def key gx_row2_def)
  have inp: "attempt_input_ok gx_sha gx_db2 gx_policy2 5500 SubjectGlobal"
    by (simp add: attempt_input_ok_def gx_key2 gx_lookup)
       (simp add: gx_policy2_def gx_policy_def hash_framed_def gx_row_def rate_after_def window_state_def)
  have "govern_rate_attempt gx_sha gx_db2 gx_policy2 RateConnectionAdmission [SubjectGlobal] (gx_ev 5500) AuditConnectionAdmission
    = Inr (True, if True then gx_db4 else audited_db gx_db4 (new_audit gx_sha (0 + 1) (gx_ev 5500) AuditConnectionAdmission
        AuditRejected ReasonRateLimited) (new_links (0 + 1) (gx_ev 5500) AuditConnectionAdmission))"
    by (rule attempt_ready [OF governance_reachable_inv [OF gx_reach2] ok _ _ _ _ _ gx_evidence _ _ _ _ _ _ db])
       (use a inp in \<open>simp_all add: gx_policy2_def gx_policy_def gx_ev_def int_width_defs audit_fresh_def gx_db2_def gx_db1_def gx_db0_def derive_audit_id_def\<close>)
  then show "snd (apply_event gx_sha (AttemptEvent gx_policy2 [SubjectGlobal] (gx_ev 5500) AuditConnectionAdmission) gx_db2) = gx_db4"
    by (simp add: gx_policy2_def gx_policy_def)
qed

theorem lowered_limit_locks_out_witness:
  "w_window_ends_at_unix_ms gx_row2 < 1000000
   \<and> (\<exists>e. govern_rate_attempt gx_sha gx_db4 gx_policy RateConnectionAdmission [SubjectGlobal] (gx_ev 1000000) AuditConnectionAdmission = Inl e)"
proof -
  have l: "rate_lookup (g_rates gx_db4) (policy_key gx_sha gx_policy SubjectGlobal) = Some gx_row2"
    by (simp add: gx_db4_def rate_lookup_def gx_row2_def gx_key2)
  have r: "w_accepted_count gx_row2 = 2" "w_window_ends_at_unix_ms gx_row2 = 6000"
    by (simp_all add: gx_row2_def rate_after_def window_state_def gx_row_def gx_policy2_def gx_policy_def)
  have "\<exists>e. govern_rate_attempt gx_sha gx_db4 gx_policy RateConnectionAdmission [SubjectGlobal] (gx_ev 1000000) AuditConnectionAdmission = Inl e"
    by (rule lowered_limit_locks_out [OF gx_reach4 _ l]) (simp_all add: r gx_policy_def gx_db4_def gx_db2_def gx_db1_def gx_db0_def)
  with r show ?thesis by simp
qed

end
