(* ===== verification/Connection_Types.thy ===== *)
theory Connection_Types
  imports Governance_Trail
begin

text \<open>
  Values of the connection authority (\<^verbatim>\<open>src/src/state_connection.rs\<close>): permissions with their spelling and order,
  sealed permission sets, closed enumerations, challenge URLs, admission and challenge requests, records; the request
  methods and client keys of \<^verbatim>\<open>src/src/state_request.rs\<close>; and the configured policies of
  \<^verbatim>\<open>src/src/nip46_authorization.rs\<close>.

  Third-party code is a parameter, collected in \<open>crates\<close>: SHA-256 (crate \<open>sha2\<close>), the hexadecimal form of a public
  key that \<open>PublicKey::from_hex\<close> accepts and whether it is a valid x-only key (\<open>PublicKey::xonly\<close>, crate \<open>nostr\<close>), and \<open>Url::parse\<close> (crate \<open>url\<close>).
\<close>

section \<open>Third-party code\<close>

datatype url_host = HostDomain string | HostIpv4 "byte list" | HostIpv6 "byte list"

record parsed_url =
  u_scheme :: string
  u_host :: "url_host option"
  u_username :: string
  u_password :: "string option"
  u_fragment :: "string option"
  u_as_str :: string

record crates =
  sha256 :: "bytes \<Rightarrow> bytes"
  key_hex :: "string \<Rightarrow> string option"
  key_xonly :: "string \<Rightarrow> bool"
  url_parse :: "string \<Rightarrow> parsed_url option"

section \<open>Decimal numbers and binary search of the standard library\<close>

text \<open>\<open>u32::to_string\<close> and \<open>str::parse::<u32>\<close>, which accepts a leading plus sign and leading zeros.\<close>

definition digit_char :: "nat \<Rightarrow> char" where
  "digit_char d = char_of (48 + d)"

definition char_digit :: "char \<Rightarrow> nat" where
  "char_digit c = of_char c - 48"

fun u32_to_string :: "nat \<Rightarrow> string" where
  "u32_to_string n = (if n < 10 then [digit_char n] else u32_to_string (n div 10) @ [digit_char (n mod 10)])"

declare u32_to_string.simps [simp del]

definition decimal_value :: "string \<Rightarrow> nat" where
  "decimal_value ds = foldl (\<lambda>acc c. acc * 10 + char_digit c) 0 ds"

definition parse_u32 :: "string \<Rightarrow> nat option" where
  "parse_u32 s =
     (let ds = (case s of [] \<Rightarrow> [] | c # cs \<Rightarrow> if c = CHR ''+'' then cs else s)
      in if ds = [] \<or> \<not> list_all is_ascii_digit ds \<or> u32_max < decimal_value ds then None
         else Some (decimal_value ds))"

text \<open>\<open>slice.binary_search(x).is_ok()\<close> between two bounds.\<close>

function bisect :: "'a :: linorder list \<Rightarrow> 'a \<Rightarrow> nat \<Rightarrow> nat \<Rightarrow> bool" where
  "bisect xs x lo hi =
     (if hi \<le> lo then False
      else let mid = (lo + hi) div 2
           in if xs ! mid = x then True
              else if xs ! mid < x then bisect xs x (mid + 1) hi
              else bisect xs x lo mid)"
  by pat_completeness auto
termination by (relation "measure (\<lambda>(xs, x, lo, hi). hi - lo)") auto

declare bisect.simps [simp del]

definition binary_search_ok :: "'a :: linorder list \<Rightarrow> 'a \<Rightarrow> bool" where
  "binary_search_ok xs x = bisect xs x 0 (length xs)"

lemma bisect_sorted:
  assumes "sorted xs" and "hi \<le> length xs"
  shows "bisect xs x lo hi \<longleftrightarrow> (\<exists>i. lo \<le> i \<and> i < hi \<and> xs ! i = x)"
  using assms
proof (induction xs x lo hi rule: bisect.induct)
  case (1 xs x lo hi)
  show ?case
  proof (cases "hi \<le> lo")
    case True
    then show ?thesis by (subst bisect.simps) auto
  next
    case False
    define mid where "mid = (lo + hi) div 2"
    have mid: "lo \<le> mid" "mid < hi" using False by (auto simp: mid_def)
    have mono: "i \<le> j \<Longrightarrow> j < hi \<Longrightarrow> xs ! i \<le> xs ! j" for i j
      using 1(3,4) by (auto intro: sorted_nth_mono)
    consider (hit) "xs ! mid = x" | (less) "xs ! mid < x" | (greater) "x < xs ! mid" by fastforce
    then show ?thesis
    proof cases
      case hit
      then show ?thesis using False mid by (subst bisect.simps) (auto simp: mid_def Let_def)
    next
      case less
      have IH: "bisect xs x (mid + 1) hi \<longleftrightarrow> (\<exists>i. mid + 1 \<le> i \<and> i < hi \<and> xs ! i = x)"
        using "1.IH"(1) [OF False mid_def] less 1(3,4) by simp
      have no: "i < hi \<Longrightarrow> xs ! i = x \<Longrightarrow> mid + 1 \<le> i" for i
        using less mono [of i mid] mid by (cases "i \<le> mid") auto
      have "bisect xs x lo hi = bisect xs x (mid + 1) hi"
        using False less by (subst bisect.simps) (auto simp: mid_def Let_def)
      then have "bisect xs x lo hi \<longleftrightarrow> (\<exists>i. mid + 1 \<le> i \<and> i < hi \<and> xs ! i = x)" using IH by simp
      then show ?thesis using no mid by (metis add_leD1 order.trans)
    next
      case greater
      have IH: "bisect xs x lo mid \<longleftrightarrow> (\<exists>i. lo \<le> i \<and> i < mid \<and> xs ! i = x)"
        using "1.IH"(2) [OF False mid_def] greater 1(3,4) mid by simp
      have no: "i < hi \<Longrightarrow> xs ! i = x \<Longrightarrow> i < mid" for i
        using greater mono [of mid i] by (cases "mid \<le> i") auto
      have "bisect xs x lo hi = bisect xs x lo mid"
        using False greater by (subst bisect.simps) (auto simp: mid_def Let_def)
      then have "bisect xs x lo hi \<longleftrightarrow> (\<exists>i. lo \<le> i \<and> i < mid \<and> xs ! i = x)" using IH by simp
      then show ?thesis using no mid by (metis order_less_trans)
    qed
  qed
qed

lemma binary_search_ok_sorted: "sorted xs \<Longrightarrow> binary_search_ok xs x \<longleftrightarrow> x \<in> set xs"
  by (auto simp: binary_search_ok_def bisect_sorted in_set_conv_nth)

lemma char_digit_char: "d < 10 \<Longrightarrow> char_digit (digit_char d) = d"
  by (simp add: char_digit_def digit_char_def)

lemma digit_char_digit: "d < 10 \<Longrightarrow> is_ascii_digit (digit_char d)"
  by (simp add: is_ascii_digit_def digit_char_def less_eq_char_def)

lemma u32_to_string_digits: "list_all is_ascii_digit (u32_to_string n) \<and> u32_to_string n \<noteq> []"
  by (induction n rule: u32_to_string.induct) (subst (1 2) u32_to_string.simps, auto intro: digit_char_digit)

lemma decimal_value_to_string: "decimal_value (u32_to_string n) = n"
proof (induction n rule: u32_to_string.induct)
  case (1 n)
  show ?case
  proof (cases "n < 10")
    case True
    then show ?thesis by (subst u32_to_string.simps) (simp add: decimal_value_def char_digit_char)
  next
    case False
    then have "decimal_value (u32_to_string (n div 10)) = n div 10" using 1 by simp
    then show ?thesis using False by (subst u32_to_string.simps) (simp add: decimal_value_def char_digit_char)
  qed
qed

lemma parse_u32_to_string:
  assumes "n \<le> u32_max"
  shows "parse_u32 (u32_to_string n) = Some n"
proof -
  obtain c cs where s: "u32_to_string n = c # cs" "is_ascii_digit c"
    using u32_to_string_digits [of n] by (cases "u32_to_string n") auto
  then have "c \<noteq> CHR ''+''" by (auto simp: is_ascii_digit_def less_eq_char_def)
  with s u32_to_string_digits [of n] decimal_value_to_string [of n] assms show ?thesis by (simp add: parse_u32_def Let_def)
qed

section \<open>Permissions\<close>

definition MYC_CONNECTION_PERMISSION_MAX_COUNT :: nat where "MYC_CONNECTION_PERMISSION_MAX_COUNT = 64"
definition MYC_AUTHORIZATION_CHALLENGE_URL_MAX_BYTES :: nat where "MYC_AUTHORIZATION_CHALLENGE_URL_MAX_BYTES = 2048"

lemmas connection_limits = MYC_CONNECTION_PERMISSION_MAX_COUNT_def MYC_AUTHORIZATION_CHALLENGE_URL_MAX_BYTES_def

datatype MycConnectionStateErrorKind = InvalidPermissionSet | InvalidPolicyGeneration | InvalidConnectionTime
  | InvalidChallengeUrl | InvalidChallengeLifetime

datatype MycConnectionPermission = PermGetPublicKey | PermGetSessionCapability | PermSignEvent "32 word"
  | PermNip04Encrypt | PermNip04Decrypt | PermNip44Encrypt | PermNip44Decrypt | PermPing | PermSwitchRelays | PermLogout

text \<open>The derived order: by position of the variant, then by the event kind.\<close>

fun permission_rank :: "MycConnectionPermission \<Rightarrow> nat \<times> 32 word" where
  "permission_rank PermGetPublicKey = (0, 0)"
| "permission_rank PermGetSessionCapability = (1, 0)"
| "permission_rank (PermSignEvent kind) = (2, kind)"
| "permission_rank PermNip04Encrypt = (3, 0)"
| "permission_rank PermNip04Decrypt = (4, 0)"
| "permission_rank PermNip44Encrypt = (5, 0)"
| "permission_rank PermNip44Decrypt = (6, 0)"
| "permission_rank PermPing = (7, 0)"
| "permission_rank PermSwitchRelays = (8, 0)"
| "permission_rank PermLogout = (9, 0)"

lemma permission_rank_inj: "permission_rank x = permission_rank y \<Longrightarrow> x = y"
  by (cases x; cases y) auto

instantiation MycConnectionPermission :: linorder
begin

definition less_eq_MycConnectionPermission :: "MycConnectionPermission \<Rightarrow> MycConnectionPermission \<Rightarrow> bool" where
  "x \<le> y \<longleftrightarrow> permission_rank x \<le> permission_rank y"

definition less_MycConnectionPermission :: "MycConnectionPermission \<Rightarrow> MycConnectionPermission \<Rightarrow> bool" where
  "x < y \<longleftrightarrow> permission_rank x < permission_rank y"

instance
  by standard (auto simp: less_eq_MycConnectionPermission_def less_MycConnectionPermission_def
    simp del: less_eq_prod_simp less_prod_simp intro: permission_rank_inj)

end

fun permission_code :: "MycConnectionPermission \<Rightarrow> string" where
  "permission_code PermGetPublicKey = ''get_public_key''"
| "permission_code PermGetSessionCapability = ''get_session_capability''"
| "permission_code (PermSignEvent kind) = ''sign_event:kind:'' @ u32_to_string (unat kind)"
| "permission_code PermNip04Encrypt = ''nip04_encrypt''"
| "permission_code PermNip04Decrypt = ''nip04_decrypt''"
| "permission_code PermNip44Encrypt = ''nip44_encrypt''"
| "permission_code PermNip44Decrypt = ''nip44_decrypt''"
| "permission_code PermPing = ''ping''"
| "permission_code PermSwitchRelays = ''switch_relays''"
| "permission_code PermLogout = ''logout''"

definition strip_prefix :: "string \<Rightarrow> string \<Rightarrow> string option" where
  "strip_prefix prefix s = (if take (length prefix) s = prefix then Some (drop (length prefix) s) else None)"

definition permission_parse :: "string \<Rightarrow> MycConnectionPermission option" where
  "permission_parse value =
     (if value = ''get_public_key'' then Some PermGetPublicKey
      else if value = ''get_session_capability'' then Some PermGetSessionCapability
      else if value = ''nip04_encrypt'' then Some PermNip04Encrypt
      else if value = ''nip04_decrypt'' then Some PermNip04Decrypt
      else if value = ''nip44_encrypt'' then Some PermNip44Encrypt
      else if value = ''nip44_decrypt'' then Some PermNip44Decrypt
      else if value = ''ping'' then Some PermPing
      else if value = ''switch_relays'' then Some PermSwitchRelays
      else if value = ''logout'' then Some PermLogout
      else (case strip_prefix ''sign_event:kind:'' value of
          None \<Rightarrow> None
        | Some kind \<Rightarrow> (case parse_u32 kind of
            None \<Rightarrow> None
          | Some parsed \<Rightarrow> if kind = u32_to_string parsed then Some (PermSignEvent (of_nat parsed)) else None)))"

lemma strip_prefix_Some: "strip_prefix prefix s = Some r \<Longrightarrow> s = prefix @ r"
  by (auto simp: strip_prefix_def split: if_splits) (metis append_take_drop_id)

lemma unat_u32_max: "unat (k :: 32 word) \<le> u32_max"
proof -
  have "unat k < 2 ^ LENGTH(32)" by (rule unsigned_less)
  then show ?thesis by (simp add: u32_max_def)
qed

lemma permission_parse_code: "permission_parse (permission_code p) = Some p"
  by (cases p) (simp_all add: permission_parse_def strip_prefix_def parse_u32_to_string unat_u32_max)

lemma permission_code_parse: "permission_parse s = Some p \<Longrightarrow> permission_code p = s"
proof -
  assume parsed: "permission_parse s = Some p"
  have sign: "permission_code (PermSignEvent (of_nat n)) = s"
    if "strip_prefix ''sign_event:kind:'' s = Some kind" "parse_u32 kind = Some n" "kind = u32_to_string n" for kind n
  proof -
    have "n \<le> u32_max" using that(2) by (auto simp: parse_u32_def Let_def split: if_splits)
    then have "unat (of_nat n :: 32 word) = n" by (simp add: u32_max_def unat_of_nat)
    moreover have "s = ''sign_event:kind:'' @ kind"
      using that(1) by (rule strip_prefix_Some)
    ultimately show ?thesis using that(3) by simp
  qed
  show ?thesis
    using parsed sign unfolding permission_parse_def by (auto split: if_splits option.splits simp del: permission_code.simps(3))
qed

interpretation permission: spelling permission_code permission_parse
  by unfold_locales (auto intro: permission_parse_code permission_code_parse)

section \<open>Permission sets\<close>

record MycConnectionPermissionSet =
  ps_permissions :: "MycConnectionPermission list"
  ps_digest :: bytes

definition PERMISSION_SET_DOMAIN :: bytes where
  "PERMISSION_SET_DOMAIN = str_bytes ''radroots.myc.connection_permissions.v1'' @ [0]"

definition permission_digest :: "(bytes \<Rightarrow> bytes) \<Rightarrow> MycConnectionPermission list \<Rightarrow> bytes" where
  "permission_digest sha permissions = sha (PERMISSION_SET_DOMAIN @ to_be_bytes 8 (length permissions)
     @ concat (map (\<lambda>permission. to_be_bytes 8 (length (permission_code permission)) @ str_bytes (permission_code permission))
         permissions))"

definition permission_set_new ::
    "(bytes \<Rightarrow> bytes) \<Rightarrow> MycConnectionPermission list \<Rightarrow> (MycConnectionStateErrorKind, MycConnectionPermissionSet) result" where
  "permission_set_new sha permissions =
     (if MYC_CONNECTION_PERMISSION_MAX_COUNT < length permissions then Inl InvalidPermissionSet
      else let normalized = sort permissions
           in if adjacent_equal normalized then Inl InvalidPermissionSet
              else Inr \<lparr>ps_permissions = normalized, ps_digest = permission_digest sha normalized\<rparr>)"

definition is_subset_of :: "MycConnectionPermissionSet \<Rightarrow> MycConnectionPermissionSet \<Rightarrow> bool" where
  "is_subset_of self other = list_all (\<lambda>permission. binary_search_ok (ps_permissions other) permission) (ps_permissions self)"

definition permission_set_contains :: "MycConnectionPermissionSet \<Rightarrow> MycConnectionPermission \<Rightarrow> bool" where
  "permission_set_contains self permission = binary_search_ok (ps_permissions self) permission"

text \<open>What the constructor seals: sorted, without repetition, bounded, with its own digest.\<close>

definition permission_set_ok :: "(bytes \<Rightarrow> bytes) \<Rightarrow> MycConnectionPermissionSet \<Rightarrow> bool" where
  "permission_set_ok sha s \<longleftrightarrow> sorted (ps_permissions s) \<and> distinct (ps_permissions s)
     \<and> length (ps_permissions s) \<le> MYC_CONNECTION_PERMISSION_MAX_COUNT
     \<and> ps_digest s = permission_digest sha (ps_permissions s)"

lemma permission_set_new_Inr:
  "permission_set_new sha permissions = Inr s \<longleftrightarrow>
     length permissions \<le> MYC_CONNECTION_PERMISSION_MAX_COUNT \<and> distinct permissions
     \<and> s = \<lparr>ps_permissions = sort permissions, ps_digest = permission_digest sha (sort permissions)\<rparr>"
  by (auto simp: permission_set_new_def Let_def adjacent_equal_sorted)

lemma permission_set_new_ok: "permission_set_new sha permissions = Inr s \<Longrightarrow> permission_set_ok sha s"
  by (simp add: permission_set_new_Inr permission_set_ok_def)

lemma permission_set_again:
  assumes "permission_set_ok sha s" and "mset permissions = mset (ps_permissions s)"
  shows "permission_set_new sha permissions = Inr s"
proof -
  have "sort permissions = ps_permissions s"
    using assms by (intro properties_for_sort) (auto simp: permission_set_ok_def)
  moreover have "distinct permissions" "length permissions = length (ps_permissions s)"
    using assms mset_eq_length mset_eq_imp_distinct_iff unfolding permission_set_ok_def by metis+
  ultimately show ?thesis using assms(1) by (auto simp: permission_set_new_Inr permission_set_ok_def)
qed

lemma is_subset_of_ok:
  "permission_set_ok sha other \<Longrightarrow> is_subset_of self other \<longleftrightarrow> set (ps_permissions self) \<subseteq> set (ps_permissions other)"
  by (auto simp: is_subset_of_def permission_set_ok_def binary_search_ok_sorted list_all_iff)

lemma permission_set_eq:
  "permission_set_ok sha s \<Longrightarrow> permission_set_ok sha t \<Longrightarrow> set (ps_permissions s) = set (ps_permissions t) \<Longrightarrow> s = t"
  using sorted_distinct_set_unique [of "ps_permissions s" "ps_permissions t"]
  by (simp add: permission_set_ok_def MycConnectionPermissionSet.equality)

section \<open>Closed enumerations\<close>

datatype MycConnectionAdmissionPolicy = PolicyTrusted | PolicyExplicitApproval | PolicyDenied

datatype MycConnectionDecision = DecisionPendingApproval | DecisionChallenged | DecisionAllowed | DecisionDenied

fun admission_decision :: "MycConnectionAdmissionPolicy \<Rightarrow> MycConnectionDecision" where
  "admission_decision PolicyTrusted = DecisionAllowed"
| "admission_decision PolicyExplicitApproval = DecisionPendingApproval"
| "admission_decision PolicyDenied = DecisionDenied"

fun decision_as_str :: "MycConnectionDecision \<Rightarrow> string" where
  "decision_as_str DecisionPendingApproval = ''pending_approval''"
| "decision_as_str DecisionChallenged = ''challenged''"
| "decision_as_str DecisionAllowed = ''allowed''"
| "decision_as_str DecisionDenied = ''denied''"

fun decision_reason :: "MycConnectionDecision \<Rightarrow> MycConnectionAdmissionPolicy \<Rightarrow> string" where
  "decision_reason DecisionPendingApproval policy = ''explicit_approval_required''"
| "decision_reason DecisionAllowed policy = ''trusted_client''"
| "decision_reason DecisionDenied policy = ''policy_denied''"
| "decision_reason DecisionChallenged policy = ''authorization_challenge_required''"

definition decision_parse :: "string \<Rightarrow> MycConnectionDecision option" where
  "decision_parse value =
     (if value = ''pending_approval'' then Some DecisionPendingApproval
      else if value = ''challenged'' then Some DecisionChallenged
      else if value = ''allowed'' then Some DecisionAllowed
      else if value = ''denied'' then Some DecisionDenied else None)"

datatype MycConnectionStatus = ConnectionPending | ConnectionActive | ConnectionDenied | ConnectionExpired

fun connection_status_as_str :: "MycConnectionStatus \<Rightarrow> string" where
  "connection_status_as_str ConnectionPending = ''pending''"
| "connection_status_as_str ConnectionActive = ''active''"
| "connection_status_as_str ConnectionDenied = ''denied''"
| "connection_status_as_str ConnectionExpired = ''expired''"

definition connection_status_parse :: "string \<Rightarrow> MycConnectionStatus option" where
  "connection_status_parse value =
     (if value = ''pending'' then Some ConnectionPending
      else if value = ''active'' then Some ConnectionActive
      else if value = ''denied'' then Some ConnectionDenied
      else if value = ''expired'' then Some ConnectionExpired else None)"

datatype MycAuthorizationChallengeState = ChallengePending | ChallengeAuthorized | ChallengeExpired

fun challenge_state_as_str :: "MycAuthorizationChallengeState \<Rightarrow> string" where
  "challenge_state_as_str ChallengePending = ''pending''"
| "challenge_state_as_str ChallengeAuthorized = ''authorized''"
| "challenge_state_as_str ChallengeExpired = ''expired''"

definition challenge_state_parse :: "string \<Rightarrow> MycAuthorizationChallengeState option" where
  "challenge_state_parse value =
     (if value = ''pending'' then Some ChallengePending
      else if value = ''authorized'' then Some ChallengeAuthorized
      else if value = ''expired'' then Some ChallengeExpired else None)"

datatype MycSignerRequestMethod = MethodConnect | MethodGetPublicKey | MethodGetSessionCapability | MethodSignEvent
  | MethodNip04Encrypt | MethodNip04Decrypt | MethodNip44Encrypt | MethodNip44Decrypt | MethodPing | MethodSwitchRelays
  | MethodLogout

fun method_as_str :: "MycSignerRequestMethod \<Rightarrow> string" where
  "method_as_str MethodConnect = ''connect''"
| "method_as_str MethodGetPublicKey = ''get_public_key''"
| "method_as_str MethodGetSessionCapability = ''get_session_capability''"
| "method_as_str MethodSignEvent = ''sign_event''"
| "method_as_str MethodNip04Encrypt = ''nip04_encrypt''"
| "method_as_str MethodNip04Decrypt = ''nip04_decrypt''"
| "method_as_str MethodNip44Encrypt = ''nip44_encrypt''"
| "method_as_str MethodNip44Decrypt = ''nip44_decrypt''"
| "method_as_str MethodPing = ''ping''"
| "method_as_str MethodSwitchRelays = ''switch_relays''"
| "method_as_str MethodLogout = ''logout''"

definition method_parse :: "string \<Rightarrow> MycSignerRequestMethod option" where
  "method_parse value =
     (if value = ''connect'' then Some MethodConnect
      else if value = ''get_public_key'' then Some MethodGetPublicKey
      else if value = ''get_session_capability'' then Some MethodGetSessionCapability
      else if value = ''sign_event'' then Some MethodSignEvent
      else if value = ''nip04_encrypt'' then Some MethodNip04Encrypt
      else if value = ''nip04_decrypt'' then Some MethodNip04Decrypt
      else if value = ''nip44_encrypt'' then Some MethodNip44Encrypt
      else if value = ''nip44_decrypt'' then Some MethodNip44Decrypt
      else if value = ''ping'' then Some MethodPing
      else if value = ''switch_relays'' then Some MethodSwitchRelays
      else if value = ''logout'' then Some MethodLogout else None)"

interpretation decision: spelling decision_as_str decision_parse
  by (rule spelling.intro, rename_tac x, case_tac x) (auto simp: decision_parse_def split: if_splits)

interpretation connection_status: spelling connection_status_as_str connection_status_parse
  by (rule spelling.intro, rename_tac x, case_tac x) (auto simp: connection_status_parse_def split: if_splits)

interpretation challenge_state: spelling challenge_state_as_str challenge_state_parse
  by (rule spelling.intro, rename_tac x, case_tac x) (auto simp: challenge_state_parse_def split: if_splits)

interpretation signer_method: spelling method_as_str method_parse
  by (rule spelling.intro, rename_tac x, case_tac x) (auto simp: method_parse_def split: if_splits)

section \<open>Validated values\<close>

text \<open>The errors of \<open>state_request.rs\<close>; a reader of stored rows maps them away.\<close>

datatype MycSignerRequestErrorKind = InvalidRequestId | InvalidClientIdentity | InvalidCanonicalRequest | InvalidReceivedAt

definition client_public_key_new ::
    "crates \<Rightarrow> string \<Rightarrow> (MycSignerRequestErrorKind, string) result" where
  "client_public_key_new cr value =
     (if length value \<noteq> 64 \<or> list_ex (\<lambda>c. \<not> is_ascii_hexdigit c \<or> is_ascii_uppercase c) value
      then Inl InvalidClientIdentity
      else r_bind (ok_or InvalidClientIdentity (key_hex cr value)) (\<lambda>hex.
        if hex \<noteq> value then Inl InvalidClientIdentity else Inr value))"

definition policy_generation_new :: "nat \<Rightarrow> (MycConnectionStateErrorKind, nat) result" where
  "policy_generation_new value = (if value = 0 \<or> i64_of_nat value = None then Inl InvalidPolicyGeneration else Inr value)"

fun ip_is_loopback :: "url_host \<Rightarrow> bool" where
  "ip_is_loopback (HostDomain d) = (d = ''localhost'')"
| "ip_is_loopback (HostIpv4 octets) = (length octets = 4 \<and> hd octets = 127)"
| "ip_is_loopback (HostIpv6 octets) = (octets = replicate 15 0 @ [1])"

definition challenge_url_new :: "crates \<Rightarrow> string \<Rightarrow> (MycConnectionStateErrorKind, string) result" where
  "challenge_url_new cr value =
     (if value = [] \<or> MYC_AUTHORIZATION_CHALLENGE_URL_MAX_BYTES < length value then Inl InvalidChallengeUrl
      else r_bind (ok_or InvalidChallengeUrl (url_parse cr value)) (\<lambda>parsed.
        let loopback_http = (u_scheme parsed = ''http''
              \<and> (case u_host parsed of Some host \<Rightarrow> ip_is_loopback host | None \<Rightarrow> False))
        in if (u_scheme parsed \<noteq> ''https'' \<and> \<not> loopback_http)
              \<or> u_username parsed \<noteq> [] \<or> u_password parsed \<noteq> None \<or> u_fragment parsed \<noteq> None
              \<or> u_as_str parsed \<noteq> value
           then Inl InvalidChallengeUrl else Inr value))"

lemma client_public_key_new_Inr: "client_public_key_new cr value = Inr k \<Longrightarrow> k = value \<and> length value = 64"
  by (auto simp: client_public_key_new_def elim!: r_bind_InrE split: if_splits)

lemma challenge_url_new_Inr:
  "challenge_url_new cr value = Inr u \<Longrightarrow> u = value \<and> value \<noteq> [] \<and> length value \<le> 2048"
  by (auto simp: challenge_url_new_def connection_limits Let_def elim!: r_bind_InrE split: if_splits)

section \<open>Requests and records\<close>

record MycConnectionAdmissionRequest =
  car_operation_id :: bytes
  car_client_public_key :: string
  car_requested_permissions :: MycConnectionPermissionSet
  car_policy_generation :: nat
  car_nonce :: bytes
  car_observed_at :: nat
  car_authorized_until :: "nat option"
  car_policy :: MycConnectionAdmissionPolicy
  car_relay_id :: string

definition admission_request_new ::
    "bytes \<Rightarrow> string \<Rightarrow> MycConnectionPermissionSet \<Rightarrow> nat \<Rightarrow> bytes \<Rightarrow> nat \<Rightarrow> nat option
      \<Rightarrow> MycConnectionAdmissionPolicy \<Rightarrow> string
      \<Rightarrow> (MycConnectionStateErrorKind, MycConnectionAdmissionRequest) result" where
  "admission_request_new operation_id client_public_key requested_permissions policy_generation nonce observed_at
       authorized_until policy relay_id =
     (if (policy = PolicyTrusted \<and> (case authorized_until of Some until \<Rightarrow> until \<le> observed_at | None \<Rightarrow> False))
         \<or> (policy \<noteq> PolicyTrusted \<and> authorized_until \<noteq> None)
      then Inl InvalidConnectionTime
      else Inr \<lparr>car_operation_id = operation_id, car_client_public_key = client_public_key,
        car_requested_permissions = requested_permissions, car_policy_generation = policy_generation, car_nonce = nonce,
        car_observed_at = observed_at, car_authorized_until = authorized_until, car_policy = policy,
        car_relay_id = relay_id\<rparr>)"

record MycConnectionRecord =
  cr_id :: bytes
  cr_client_public_key :: string
  cr_requested_permissions :: MycConnectionPermissionSet
  cr_granted_permissions :: MycConnectionPermissionSet
  cr_policy_generation :: nat
  cr_status :: MycConnectionStatus
  cr_created_at :: nat
  cr_updated_at :: nat
  cr_authorized_until :: "nat option"

record MycConnectionDecisionRecord =
  cd_operation_id :: bytes
  cd_connection :: "MycConnectionRecord option"
  cd_decision :: MycConnectionDecision
  cd_policy_generation :: nat
  cd_decided_at :: nat

datatype MycConnectionAdmission = Admitted MycConnectionDecisionRecord | AdmissionExactReplay MycConnectionDecisionRecord
  | AdmissionRateLimited

fun connection_admission_record :: "MycConnectionAdmission \<Rightarrow> MycConnectionDecisionRecord option" where
  "connection_admission_record (Admitted record) = Some record"
| "connection_admission_record (AdmissionExactReplay record) = Some record"
| "connection_admission_record AdmissionRateLimited = None"

datatype MycConnectionOperatorDecision = OperatorApprove MycConnectionPermissionSet "nat option" | OperatorDeny

datatype MycAdminConnectionAction = AdminApprove MycConnectionPermissionSet "nat option" | AdminReject | AdminRevoke

record MycAuthorizationChallengeRequest =
  acr_operation_id :: bytes
  acr_connection_id :: bytes
  acr_policy_generation :: nat
  acr_url :: string
  acr_nonce :: bytes
  acr_issued_at :: nat
  acr_expires_at :: nat

definition challenge_request_new ::
    "bytes \<Rightarrow> bytes \<Rightarrow> nat \<Rightarrow> string \<Rightarrow> bytes \<Rightarrow> nat \<Rightarrow> nat
      \<Rightarrow> (MycConnectionStateErrorKind, MycAuthorizationChallengeRequest) result" where
  "challenge_request_new operation_id connection_id policy_generation url nonce issued_at expires_at =
     (if expires_at \<le> issued_at then Inl InvalidChallengeLifetime
      else Inr \<lparr>acr_operation_id = operation_id, acr_connection_id = connection_id,
        acr_policy_generation = policy_generation, acr_url = url, acr_nonce = nonce, acr_issued_at = issued_at,
        acr_expires_at = expires_at\<rparr>)"

record MycAuthorizationChallengeRecord =
  ch_id :: bytes
  ch_operation_id :: bytes
  ch_connection_id :: bytes
  ch_policy_generation :: nat
  ch_url :: string
  ch_state :: MycAuthorizationChallengeState
  ch_issued_at :: nat
  ch_expires_at :: nat
  ch_resolved_at :: "nat option"

datatype MycAuthorizationChallengeAdmission = ChallengeCreated MycAuthorizationChallengeRecord
  | ChallengeExactReplay MycAuthorizationChallengeRecord | ChallengeRateLimited

datatype MycAuthorizationChallengeAuthorization = AuthorizationResolved MycAuthorizationChallengeRecord
  | AuthorizationExactReplay MycAuthorizationChallengeRecord | AuthorizationRateLimited

fun authorization_record :: "MycAuthorizationChallengeAuthorization \<Rightarrow> MycAuthorizationChallengeRecord option" where
  "authorization_record (AuthorizationResolved record) = Some record"
| "authorization_record (AuthorizationExactReplay record) = Some record"
| "authorization_record AuthorizationRateLimited = None"

end
