(* ===== verification/Nip46_Authorization.thy ===== *)
theory Nip46_Authorization
  imports Connection_Types
begin

text \<open>
  The configured connection and challenge policy (\<^verbatim>\<open>src/src/nip46_authorization.rs\<close>): who is trusted, who is
  denied, which permissions may be granted at all, how long a challenge and a grant live. The normalized configuration
  document is a third-party JSON value: \<open>document\<close> is what \<open>Value::pointer\<close> returns for each path.
\<close>

section \<open>Configuration\<close>

datatype json_value = JsonString string | JsonBool bool | JsonUint nat | JsonArray "json_value list"
  | JsonObject "(string \<times> json_value) list" | JsonOther

type_synonym json_document = "string \<Rightarrow> json_value option"

definition as_str :: "json_value \<Rightarrow> string option" where
  "as_str v = (case v of JsonString s \<Rightarrow> Some s | _ \<Rightarrow> None)"

definition as_bool :: "json_value \<Rightarrow> bool option" where
  "as_bool v = (case v of JsonBool b \<Rightarrow> Some b | _ \<Rightarrow> None)"

definition as_u64 :: "json_value \<Rightarrow> nat option" where
  "as_u64 v = (case v of JsonUint n \<Rightarrow> (if n \<le> u64_max then Some n else None) | _ \<Rightarrow> None)"

definition as_array :: "json_value \<Rightarrow> json_value list option" where
  "as_array v = (case v of JsonArray vs \<Rightarrow> Some vs | _ \<Rightarrow> None)"

record MycChallengePolicy =
  chp_url :: string
  chp_pending_lifetime_ms :: nat
  chp_authorized_lifetime_ms :: nat

record MycAuthorizationRetentionPolicy =
  ret_terminal_connections_ms :: nat
  ret_terminal_challenges_ms :: nat
  ret_request_dedup_ms :: nat
  ret_completed_outbox_ms :: nat

record MycConnectionPolicies =
  trusted_clients :: "string list"
  denied_clients :: "string list"
  permission_ceiling :: MycConnectionPermissionSet
  challenge_policy :: "MycChallengePolicy option"
  retention_policy :: MycAuthorizationRetentionPolicy

definition config_strings :: "json_document \<Rightarrow> string \<Rightarrow> (unit, string list) result" where
  "config_strings document pointer =
     r_bind (ok_or () (Option.bind (document pointer) as_array)) (collect (\<lambda>value. ok_or () (as_str value)))"

definition config_clients :: "crates \<Rightarrow> json_document \<Rightarrow> string \<Rightarrow> (unit, string list) result" where
  "config_clients cr document pointer =
     r_bind (config_strings document pointer) (collect (\<lambda>value. map_err (\<lambda>_. ()) (client_public_key_new cr value)))"

definition config_integer :: "json_document \<Rightarrow> string \<Rightarrow> (unit, nat) result" where
  "config_integer document pointer =
     ok_or () (case Option.bind (document pointer) as_u64 of
         Some value \<Rightarrow> if 0 < value \<and> i64_of_nat value \<noteq> None then Some value else None
       | None \<Rightarrow> None)"

definition config_challenge :: "crates \<Rightarrow> json_document \<Rightarrow> (unit, MycChallengePolicy option) result" where
  "config_challenge cr document =
     r_bind (ok_or () (Option.bind (document ''/policy/challenges/enabled'') as_bool)) (\<lambda>enabled.
     if \<not> enabled then Inr None else
     r_bind (ok_or () (Option.bind (document ''/policy/challenges/url'') as_str)) (\<lambda>value.
     r_bind (map_err (\<lambda>_. ()) (challenge_url_new cr value)) (\<lambda>url.
     r_bind (config_integer document ''/policy/challenges/pending_lifetime_ms'') (\<lambda>pending_lifetime_ms.
     r_bind (config_integer document ''/policy/challenges/authorized_lifetime_ms'') (\<lambda>authorized_lifetime_ms.
     if authorized_lifetime_ms < pending_lifetime_ms then Inl ()
     else Inr (Some \<lparr>chp_url = url, chp_pending_lifetime_ms = pending_lifetime_ms,
       chp_authorized_lifetime_ms = authorized_lifetime_ms\<rparr>))))))"

definition config_retention :: "json_document \<Rightarrow> (unit, MycAuthorizationRetentionPolicy) result" where
  "config_retention document =
     r_bind (config_integer document ''/policy/retention/terminal_connections_ms'') (\<lambda>terminal_connections_ms.
     r_bind (config_integer document ''/policy/retention/terminal_challenges_ms'') (\<lambda>terminal_challenges_ms.
     r_bind (config_integer document ''/policy/retention/request_dedup_ms'') (\<lambda>request_dedup_ms.
     r_bind (config_integer document ''/policy/retention/completed_outbox_ms'') (\<lambda>completed_outbox_ms.
     Inr \<lparr>ret_terminal_connections_ms = terminal_connections_ms, ret_terminal_challenges_ms = terminal_challenges_ms,
       ret_request_dedup_ms = request_dedup_ms, ret_completed_outbox_ms = completed_outbox_ms\<rparr>))))"

definition from_normalized :: "crates \<Rightarrow> json_document \<Rightarrow> (unit, MycConnectionPolicies) result" where
  "from_normalized cr document =
     r_bind (config_clients cr document ''/policy/trusted_clients'') (\<lambda>trusted.
     r_bind (config_clients cr document ''/policy/denied_clients'') (\<lambda>denied.
     if list_ex (\<lambda>client. client \<in> set denied) trusted then Inl () else
     r_bind (config_strings document ''/policy/permission_ceiling'') (\<lambda>values.
     r_bind (collect (\<lambda>value. ok_or () (permission_parse value)) values) (\<lambda>permissions.
     r_bind (map_err (\<lambda>_. ()) (permission_set_new (sha256 cr) permissions)) (\<lambda>ceiling.
     r_bind (config_challenge cr document) (\<lambda>challenge.
     r_bind (config_retention document) (\<lambda>retention.
     Inr \<lparr>trusted_clients = trusted, denied_clients = denied, permission_ceiling = ceiling,
       challenge_policy = challenge, retention_policy = retention\<rparr>)))))))"

section \<open>Decisions\<close>

definition expected_admission :: "MycConnectionPolicies \<Rightarrow> string \<Rightarrow> MycConnectionAdmissionPolicy" where
  "expected_admission self client =
     (if client \<in> set (denied_clients self) then PolicyDenied
      else if client \<in> set (trusted_clients self) then PolicyTrusted
      else PolicyExplicitApproval)"

definition admits_authorized_until :: "MycConnectionPolicies \<Rightarrow> nat \<Rightarrow> nat option \<Rightarrow> bool" where
  "admits_authorized_until self observed_at authorized_until =
     (case (challenge_policy self, authorized_until) of
        (None, None) \<Rightarrow> True
      | (Some policy, Some until) \<Rightarrow>
          (case checked_sub until observed_at of
             Some lifetime \<Rightarrow> 0 < lifetime \<and> lifetime \<le> chp_authorized_lifetime_ms policy
           | None \<Rightarrow> False)
      | _ \<Rightarrow> False)"

definition admits_connection_request :: "MycConnectionPolicies \<Rightarrow> MycConnectionAdmissionRequest \<Rightarrow> bool" where
  "admits_connection_request self request =
     (let expected = expected_admission self (car_client_public_key request)
      in if car_policy request \<noteq> expected then False
         else if expected = PolicyDenied then True
         else if \<not> is_subset_of (car_requested_permissions request) (permission_ceiling self) then False
         else (case expected of
             PolicyTrusted \<Rightarrow> admits_authorized_until self (car_observed_at request) (car_authorized_until request)
           | PolicyExplicitApproval \<Rightarrow> car_authorized_until request = None
           | PolicyDenied \<Rightarrow> True))"

definition admits_operator_decision ::
    "MycConnectionPolicies \<Rightarrow> nat \<Rightarrow> MycConnectionOperatorDecision \<Rightarrow> bool" where
  "admits_operator_decision self observed_at decision =
     (case decision of
        OperatorApprove granted_permissions authorized_until \<Rightarrow>
          is_subset_of granted_permissions (permission_ceiling self)
          \<and> admits_authorized_until self observed_at authorized_until
      | OperatorDeny \<Rightarrow> True)"

definition admits_challenge_request :: "MycConnectionPolicies \<Rightarrow> MycAuthorizationChallengeRequest \<Rightarrow> bool" where
  "admits_challenge_request self request =
     (case challenge_policy self of
        None \<Rightarrow> False
      | Some policy \<Rightarrow> acr_url request = chp_url policy
          \<and> (case checked_sub (acr_expires_at request) (acr_issued_at request) of
               Some lifetime \<Rightarrow> lifetime \<le> chp_pending_lifetime_ms policy
             | None \<Rightarrow> False))"

definition challenge_is_current :: "MycConnectionPolicies \<Rightarrow> MycAuthorizationChallengeRecord \<Rightarrow> nat \<Rightarrow> bool" where
  "challenge_is_current self record observed_at =
     (case challenge_policy self of
        None \<Rightarrow> False
      | Some policy \<Rightarrow> ch_state record = ChallengeAuthorized
          \<and> (case ch_resolved_at record of
               Some resolved \<Rightarrow> resolved \<le> observed_at
                 \<and> (case checked_sub observed_at resolved of
                      Some age \<Rightarrow> age \<le> chp_authorized_lifetime_ms policy
                    | None \<Rightarrow> False)
             | None \<Rightarrow> False))"

definition retention_is_bounded :: "MycConnectionPolicies \<Rightarrow> bool" where
  "retention_is_bounded self \<longleftrightarrow>
     0 < ret_terminal_connections_ms (retention_policy self) \<and> 0 < ret_terminal_challenges_ms (retention_policy self)
     \<and> 0 < ret_request_dedup_ms (retention_policy self) \<and> 0 < ret_completed_outbox_ms (retention_policy self)"

section \<open>What the configuration guarantees\<close>

lemma from_normalized_ok:
  assumes "from_normalized cr document = Inr self"
  shows "permission_set_ok (sha256 cr) (permission_ceiling self)"
    and "set (trusted_clients self) \<inter> set (denied_clients self) = {}" and "retention_is_bounded self"
  using assms
  by (auto simp: from_normalized_def config_retention_def config_integer_def retention_is_bounded_def list_ex_iff
    elim!: r_bind_InrE dest!: permission_set_new_ok split: if_splits option.splits)

end
