(* ===== verification/Connection_Schema.thy ===== *)
theory Connection_Schema
  imports Nip46_Authorization
begin

text \<open>
  The tables of the connection authority with their CHECK constraints, keys, foreign keys and update triggers
  (\<^verbatim>\<open>src/src/state_catalog.rs\<close>): stored requests, connections, permissions, request decisions and authorization
  challenges. Rows of these tables are never deleted (their \<open>no_delete\<close> triggers), permissions and requests never
  updated. Every condition here is two-valued: nullable columns are tested with IS NULL first.
\<close>

section \<open>Rows\<close>

record request_row =
  q_operation_id :: bytes
  q_correlation_id :: bytes
  q_operation_nonce :: bytes
  q_request_identity_sha256 :: bytes
  q_client_public_key :: string
  q_request_id :: string
  q_first_event_id :: bytes
  q_method :: string
  q_request_sha256 :: bytes
  q_received_at_unix_ms :: int

record connection_row =
  c_connection_id :: bytes
  c_connection_nonce :: bytes
  c_client_public_key :: string
  c_requested_permissions_sha256 :: bytes
  c_policy_generation :: int
  c_status :: string
  c_created_at_unix_ms :: int
  c_updated_at_unix_ms :: int
  c_authorized_until_unix_ms :: "int option"

record permission_row =
  p_connection_id :: bytes
  p_permission_scope :: string
  p_permission_code :: string

record decision_row =
  d_operation_id :: bytes
  d_connection_id :: "bytes option"
  d_decision :: string
  d_reason_code :: string
  d_policy_generation :: int
  d_requested_permissions_sha256 :: bytes
  d_challenge_id :: "bytes option"
  d_decided_at_unix_ms :: int

record challenge_row =
  h_challenge_id :: bytes
  h_challenge_nonce :: bytes
  h_connection_id :: bytes
  h_operation_id :: bytes
  h_policy_generation :: int
  h_challenge_url :: string
  h_state :: string
  h_issued_at_unix_ms :: int
  h_expires_at_unix_ms :: int
  h_resolved_at_unix_ms :: "int option"

text \<open>The governance tables are \<open>n_gov\<close>; its request keys are those of \<open>n_requests\<close> (\<open>nip46_requests\<close> is one table).\<close>

record connection_db =
  n_gov :: governance_db
  n_requests :: "request_row list"
  n_connections :: "connection_row list"
  n_permissions :: "permission_row list"
  n_decisions :: "decision_row list"
  n_challenges :: "challenge_row list"

definition request_key :: "request_row \<Rightarrow> request_key_row" where
  "request_key q = \<lparr>k_operation_id = q_operation_id q, k_correlation_id = q_correlation_id q\<rparr>"

section \<open>CHECK constraints\<close>

definition sql_time :: "int \<Rightarrow> bool" where
  "sql_time v \<longleftrightarrow> 1 \<le> v \<and> v \<le> sql_int_max"

definition lower_hex :: "string \<Rightarrow> bool" where
  "lower_hex s \<longleftrightarrow> list_all (\<lambda>c. is_ascii_digit c \<or> (CHR ''a'' \<le> c \<and> c \<le> CHR ''f'')) s"

definition nip46_requests_check :: "request_row \<Rightarrow> bool" where
  "nip46_requests_check r \<longleftrightarrow>
     length (q_operation_id r) = 32 \<and> length (q_correlation_id r) = 32 \<and> length (q_operation_nonce r) = 32
     \<and> length (q_request_identity_sha256 r) = 32
     \<and> length (q_client_public_key r) = 64 \<and> lower_hex (q_client_public_key r)
     \<and> 1 \<le> length (q_request_id r) \<and> length (q_request_id r) \<le> 128
     \<and> length (q_first_event_id r) = 32
     \<and> q_method r \<in> {''connect'', ''get_public_key'', ''get_session_capability'', ''sign_event'', ''nip04_encrypt'',
         ''nip04_decrypt'', ''nip44_encrypt'', ''nip44_decrypt'', ''ping'', ''switch_relays'', ''logout''}
     \<and> length (q_request_sha256 r) = 32 \<and> sql_time (q_received_at_unix_ms r)"

definition connections_check :: "connection_row \<Rightarrow> bool" where
  "connections_check r \<longleftrightarrow>
     length (c_connection_id r) = 32 \<and> length (c_connection_nonce r) = 32
     \<and> length (c_client_public_key r) = 64 \<and> lower_hex (c_client_public_key r)
     \<and> length (c_requested_permissions_sha256 r) = 32 \<and> sql_time (c_policy_generation r)
     \<and> c_status r \<in> {''pending'', ''active'', ''denied'', ''expired''}
     \<and> sql_time (c_created_at_unix_ms r)
     \<and> c_created_at_unix_ms r \<le> c_updated_at_unix_ms r \<and> c_updated_at_unix_ms r \<le> sql_int_max
     \<and> (case c_authorized_until_unix_ms r of None \<Rightarrow> True
        | Some until \<Rightarrow> c_created_at_unix_ms r + 1 \<le> until \<and> until \<le> sql_int_max)
     \<and> (c_status r = ''active'' \<or> c_authorized_until_unix_ms r = None)"

definition connection_permissions_check :: "permission_row \<Rightarrow> bool" where
  "connection_permissions_check r \<longleftrightarrow>
     length (p_connection_id r) = 32 \<and> p_permission_scope r \<in> {''requested'', ''granted''}
     \<and> 1 \<le> length (p_permission_code r) \<and> length (p_permission_code r) \<le> 64"

definition decision_shape :: "string \<Rightarrow> string \<Rightarrow> bool \<Rightarrow> bool \<Rightarrow> bool" where
  "decision_shape decision reason has_connection has_challenge \<longleftrightarrow>
     (decision = ''denied'' \<and> reason = ''policy_denied'' \<and> \<not> has_connection \<and> \<not> has_challenge)
     \<or> (decision = ''pending_approval'' \<and> reason = ''explicit_approval_required'' \<and> has_connection \<and> \<not> has_challenge)
     \<or> (decision = ''allowed'' \<and> reason \<in> {''trusted_client'', ''operator_approved''} \<and> has_connection \<and> \<not> has_challenge)
     \<or> (decision = ''denied'' \<and> reason = ''operator_denied'' \<and> has_connection \<and> \<not> has_challenge)
     \<or> (decision = ''challenged'' \<and> reason = ''authorization_challenge_required'' \<and> has_connection \<and> has_challenge)
     \<or> (decision = ''allowed'' \<and> reason = ''authorization_challenge_authorized'' \<and> has_connection \<and> has_challenge)
     \<or> (decision = ''denied'' \<and> reason = ''authorization_challenge_expired'' \<and> has_connection \<and> has_challenge)"

definition nip46_request_decisions_check :: "decision_row \<Rightarrow> bool" where
  "nip46_request_decisions_check r \<longleftrightarrow>
     length (d_operation_id r) = 32
     \<and> (case d_connection_id r of None \<Rightarrow> True | Some c \<Rightarrow> length c = 32)
     \<and> d_decision r \<in> {''pending_approval'', ''challenged'', ''allowed'', ''denied''}
     \<and> d_reason_code r \<in> {''explicit_approval_required'', ''trusted_client'', ''policy_denied'', ''operator_approved'',
         ''operator_denied'', ''authorization_challenge_required'', ''authorization_challenge_authorized'',
         ''authorization_challenge_expired''}
     \<and> sql_time (d_policy_generation r) \<and> length (d_requested_permissions_sha256 r) = 32
     \<and> (case d_challenge_id r of None \<Rightarrow> True | Some c \<Rightarrow> length c = 32)
     \<and> sql_time (d_decided_at_unix_ms r)
     \<and> decision_shape (d_decision r) (d_reason_code r) (d_connection_id r \<noteq> None) (d_challenge_id r \<noteq> None)"

definition connection_auth_challenges_check :: "challenge_row \<Rightarrow> bool" where
  "connection_auth_challenges_check r \<longleftrightarrow>
     length (h_challenge_id r) = 32 \<and> length (h_challenge_nonce r) = 32 \<and> length (h_connection_id r) = 32
     \<and> length (h_operation_id r) = 32 \<and> sql_time (h_policy_generation r)
     \<and> 1 \<le> length (h_challenge_url r) \<and> length (h_challenge_url r) \<le> 2048
     \<and> h_state r \<in> {''pending'', ''authorized'', ''expired''} \<and> sql_time (h_issued_at_unix_ms r)
     \<and> h_issued_at_unix_ms r + 1 \<le> h_expires_at_unix_ms r \<and> h_expires_at_unix_ms r \<le> sql_int_max
     \<and> (case h_resolved_at_unix_ms r of None \<Rightarrow> True
        | Some resolved \<Rightarrow> h_issued_at_unix_ms r \<le> resolved \<and> resolved \<le> sql_int_max)
     \<and> ((h_state r = ''pending'' \<and> h_resolved_at_unix_ms r = None)
        \<or> (h_state r \<in> {''authorized'', ''expired''} \<and> h_resolved_at_unix_ms r \<noteq> None))"

section \<open>Triggers\<close>

definition connections_guard_update :: "connection_row \<Rightarrow> connection_row \<Rightarrow> bool" where
  "connections_guard_update old new \<longleftrightarrow>
     c_connection_id new \<noteq> c_connection_id old \<or> c_connection_nonce new \<noteq> c_connection_nonce old
     \<or> c_client_public_key new \<noteq> c_client_public_key old
     \<or> c_requested_permissions_sha256 new \<noteq> c_requested_permissions_sha256 old
     \<or> c_policy_generation new \<noteq> c_policy_generation old \<or> c_created_at_unix_ms new \<noteq> c_created_at_unix_ms old
     \<or> c_updated_at_unix_ms new < c_updated_at_unix_ms old
     \<or> \<not> ((c_status old = ''pending'' \<and> c_status new = ''active''
            \<and> (case c_authorized_until_unix_ms new of None \<Rightarrow> True | Some until \<Rightarrow> c_updated_at_unix_ms new < until))
          \<or> (c_status old = ''pending'' \<and> c_status new = ''denied'' \<and> c_authorized_until_unix_ms new = None)
          \<or> (c_status old = ''active'' \<and> c_status new = ''expired'' \<and> c_authorized_until_unix_ms new = None))"

definition nip46_request_decisions_guard_update :: "decision_row \<Rightarrow> decision_row \<Rightarrow> bool" where
  "nip46_request_decisions_guard_update old new \<longleftrightarrow>
     d_operation_id new \<noteq> d_operation_id old \<or> d_connection_id new \<noteq> d_connection_id old
     \<or> d_policy_generation new \<noteq> d_policy_generation old
     \<or> d_requested_permissions_sha256 new \<noteq> d_requested_permissions_sha256 old
     \<or> d_challenge_id new \<noteq> d_challenge_id old \<or> d_decided_at_unix_ms new < d_decided_at_unix_ms old
     \<or> \<not> ((d_decision old = ''pending_approval'' \<and> d_decision new = ''allowed'' \<and> d_reason_code new = ''operator_approved'')
          \<or> (d_decision old = ''pending_approval'' \<and> d_decision new = ''denied'' \<and> d_reason_code new = ''operator_denied'')
          \<or> (d_decision old = ''challenged'' \<and> d_decision new = ''allowed''
             \<and> d_reason_code new = ''authorization_challenge_authorized'')
          \<or> (d_decision old = ''challenged'' \<and> d_decision new = ''denied''
             \<and> d_reason_code new = ''authorization_challenge_expired''))"

definition connection_auth_challenges_guard_update :: "challenge_row \<Rightarrow> challenge_row \<Rightarrow> bool" where
  "connection_auth_challenges_guard_update old new \<longleftrightarrow>
     h_challenge_id new \<noteq> h_challenge_id old \<or> h_challenge_nonce new \<noteq> h_challenge_nonce old
     \<or> h_connection_id new \<noteq> h_connection_id old \<or> h_operation_id new \<noteq> h_operation_id old
     \<or> h_policy_generation new \<noteq> h_policy_generation old \<or> h_challenge_url new \<noteq> h_challenge_url old
     \<or> h_issued_at_unix_ms new \<noteq> h_issued_at_unix_ms old \<or> h_expires_at_unix_ms new \<noteq> h_expires_at_unix_ms old
     \<or> \<not> (h_state old = ''pending'' \<and> h_state new \<in> {''authorized'', ''expired''}
          \<and> (case h_resolved_at_unix_ms new of None \<Rightarrow> False | Some resolved \<Rightarrow> h_issued_at_unix_ms old \<le> resolved))"

section \<open>Legal inserts and updates\<close>

definition request_insert_legal :: "request_row list \<Rightarrow> request_row \<Rightarrow> bool" where
  "request_insert_legal t r \<longleftrightarrow> nip46_requests_check r
     \<and> list_all (\<lambda>q. q_operation_id q \<noteq> q_operation_id r \<and> q_correlation_id q \<noteq> q_correlation_id r
          \<and> q_request_identity_sha256 q \<noteq> q_request_identity_sha256 r) t"

definition connection_insert_legal :: "connection_row list \<Rightarrow> connection_row \<Rightarrow> bool" where
  "connection_insert_legal t r \<longleftrightarrow> connections_check r \<and> list_all (\<lambda>q. c_connection_id q \<noteq> c_connection_id r) t"

definition permission_insert_legal :: "connection_row list \<Rightarrow> permission_row list \<Rightarrow> permission_row \<Rightarrow> bool" where
  "permission_insert_legal cs t r \<longleftrightarrow> connection_permissions_check r
     \<and> list_ex (\<lambda>c. c_connection_id c = p_connection_id r) cs \<and> r \<notin> set t"

definition decision_insert_legal :: "connection_db \<Rightarrow> decision_row list \<Rightarrow> decision_row \<Rightarrow> bool" where
  "decision_insert_legal db t r \<longleftrightarrow> nip46_request_decisions_check r
     \<and> list_ex (\<lambda>q. q_operation_id q = d_operation_id r) (n_requests db)
     \<and> (case d_connection_id r of None \<Rightarrow> True | Some c \<Rightarrow> list_ex (\<lambda>q. c_connection_id q = c) (n_connections db))
     \<and> (case d_challenge_id r of None \<Rightarrow> True | Some c \<Rightarrow> list_ex (\<lambda>q. h_challenge_id q = c) (n_challenges db))
     \<and> list_all (\<lambda>q. d_operation_id q \<noteq> d_operation_id r
          \<and> (d_challenge_id r = None \<or> d_challenge_id q \<noteq> d_challenge_id r)) t"

definition challenge_insert_legal :: "connection_db \<Rightarrow> challenge_row list \<Rightarrow> challenge_row \<Rightarrow> bool" where
  "challenge_insert_legal db t r \<longleftrightarrow> connection_auth_challenges_check r
     \<and> list_ex (\<lambda>q. c_connection_id q = h_connection_id r) (n_connections db)
     \<and> list_ex (\<lambda>q. q_operation_id q = h_operation_id r) (n_requests db)
     \<and> list_all (\<lambda>q. h_challenge_id q \<noteq> h_challenge_id r \<and> h_operation_id q \<noteq> h_operation_id r) t"

definition connection_update_legal :: "connection_row \<Rightarrow> connection_row \<Rightarrow> bool" where
  "connection_update_legal old new \<longleftrightarrow> \<not> connections_guard_update old new \<and> connections_check new"

definition decision_update_legal :: "decision_row \<Rightarrow> decision_row \<Rightarrow> bool" where
  "decision_update_legal old new \<longleftrightarrow>
     \<not> nip46_request_decisions_guard_update old new \<and> nip46_request_decisions_check new"

definition challenge_update_legal :: "challenge_row \<Rightarrow> challenge_row \<Rightarrow> bool" where
  "challenge_update_legal old new \<longleftrightarrow>
     \<not> connection_auth_challenges_guard_update old new \<and> connection_auth_challenges_check new"

end
