(* ===== verification/Connection_State.thy ===== *)
theory Connection_State
  imports Connection_Schema
begin

text \<open>
  The connection authority (\<^verbatim>\<open>src/src/state_connection.rs\<close>). Each operation is a function from the database to an
  error or a result with the new database: the transaction body. A body that fails is rolled back by the caller, so
  an \<open>Inl\<close> carries no database. \<open>govern_rate_attempt\<close> and \<open>record_audit\<close> run on the governance tables of the same
  database; their two error classes map to the same two classes here (\<open>map_governance_error\<close>).
\<close>

section \<open>Columns\<close>

definition exact_digest :: "bytes option \<Rightarrow> (OperationError, bytes) result" where
  "exact_digest column = r_bind (ok_or Binding column) (\<lambda>b. if length b = 32 then Inr b else Inl Binding)"

definition nullable_digest :: "bytes option \<Rightarrow> (OperationError, bytes option) result" where
  "nullable_digest column = (case column of None \<Rightarrow> Inr None
     | Some b \<Rightarrow> r_bind (exact_digest (only_if (length b = 32) b)) (\<lambda>d. Inr (Some d)))"

definition connection_text :: "string option \<Rightarrow> (OperationError, string) result" where
  "connection_text column = ok_or Binding column"

definition generation :: "int \<Rightarrow> (OperationError, nat) result" where
  "generation column = r_bind (ok_or Binding (u64_of_int column)) (\<lambda>value.
     map_err (\<lambda>_. Binding) (policy_generation_new value))"

definition connection_time :: "int \<Rightarrow> (OperationError, nat) result" where
  "connection_time column = r_bind (ok_or Binding (u64_of_int column)) connection_time_new"

definition nullable_time :: "int option \<Rightarrow> (OperationError, nat option) result" where
  "nullable_time column = (case column of None \<Rightarrow> Inr None
     | Some v \<Rightarrow> r_bind (connection_time v) (\<lambda>t. Inr (Some t)))"

definition connection_require_one :: "nat \<Rightarrow> (OperationError, unit) result" where
  "connection_require_one rows = ensure Storage (rows = 1)"

definition connection_execute_one :: "('d \<times> nat) option \<Rightarrow> (OperationError, 'd) result" where
  "connection_execute_one st = r_bind (ok_or Storage st) (\<lambda>(db, n). r_bind (connection_require_one n) (\<lambda>_. Inr db))"

definition on_governance ::
    "connection_db \<Rightarrow> (OperationError, 'a \<times> governance_db) result \<Rightarrow> (OperationError, 'a \<times> connection_db) result" where
  "on_governance db run = r_bind run (\<lambda>(x, g). Inr (x, db\<lparr>n_gov := g\<rparr>))"

section \<open>Identities\<close>

definition CONNECTION_ID_DOMAIN :: bytes where
  "CONNECTION_ID_DOMAIN = str_bytes ''radroots.myc.connection.v1'' @ [0]"

definition CHALLENGE_ID_DOMAIN :: bytes where
  "CHALLENGE_ID_DOMAIN = str_bytes ''radroots.myc.authorization_challenge.v1'' @ [0]"

definition derive_connection_id :: "(bytes \<Rightarrow> bytes) \<Rightarrow> string \<Rightarrow> bytes \<Rightarrow> bytes" where
  "derive_connection_id sha client nonce = sha (CONNECTION_ID_DOMAIN @ str_bytes client @ nonce)"

definition derive_challenge_id :: "(bytes \<Rightarrow> bytes) \<Rightarrow> bytes \<Rightarrow> bytes \<Rightarrow> bytes \<Rightarrow> bytes" where
  "derive_challenge_id sha operation_id connection_id nonce = sha (CHALLENGE_ID_DOMAIN @ operation_id @ connection_id @ nonce)"

section \<open>Reading\<close>

record RequestBinding =
  rb_correlation :: bytes
  rb_client_public_key :: string
  rb_method :: MycSignerRequestMethod
  rb_received_at :: nat

definition client_column :: "crates \<Rightarrow> string \<Rightarrow> (OperationError, string) result" where
  "client_column cr column = r_bind (connection_text (only_if (length column = 64) column)) (\<lambda>value.
     map_err (\<lambda>_. Binding) (client_public_key_new cr value))"

definition read_request_binding :: "crates \<Rightarrow> connection_db \<Rightarrow> bytes \<Rightarrow> (OperationError, RequestBinding) result" where
  "read_request_binding cr db operation_id =
     (let rows = take 2 (filter (\<lambda>q. q_operation_id q = operation_id) (n_requests db))
      in if length rows \<noteq> 1 then Inl Binding else
     let row = hd rows in
     r_bind (exact_digest (only_if (length (q_correlation_id row) = 32) (q_correlation_id row))) (\<lambda>correlation.
     r_bind (client_column cr (q_client_public_key row)) (\<lambda>client.
     r_bind (ok_or Binding (Option.bind
         (only_if (1 \<le> length (q_method row) \<and> length (q_method row) \<le> 32) (q_method row)) method_parse)) (\<lambda>request_method.
     r_bind (connection_time (q_received_at_unix_ms row)) (\<lambda>received_at.
     Inr \<lparr>rb_correlation = correlation, rb_client_public_key = client, rb_method = request_method,
       rb_received_at = received_at\<rparr>)))))"

record PersistedDecision =
  pd_connection_id :: "bytes option"
  pd_decision :: MycConnectionDecision
  pd_policy_generation :: nat
  pd_requested_permissions_sha256 :: bytes
  pd_challenge_id :: "bytes option"
  pd_decided_at :: nat
  pd_admission_policy :: "MycConnectionAdmissionPolicy option"

definition parse_admission_policy :: "string \<Rightarrow> (OperationError, MycConnectionAdmissionPolicy option) result" where
  "parse_admission_policy reason =
     (if reason = ''trusted_client'' then Inr (Some PolicyTrusted)
      else if reason \<in> {''explicit_approval_required'', ''operator_approved'', ''operator_denied''}
      then Inr (Some PolicyExplicitApproval)
      else if reason = ''policy_denied'' then Inr (Some PolicyDenied)
      else if reason \<in> {''authorization_challenge_required'', ''authorization_challenge_authorized'',
        ''authorization_challenge_expired''} then Inr None
      else Inl Binding)"

text \<open>The combinations of decision, reason, connection and challenge that the reader accepts.\<close>

definition parsed_shape :: "MycConnectionDecision \<Rightarrow> string \<Rightarrow> bytes option \<Rightarrow> bytes option \<Rightarrow> bool" where
  "parsed_shape decision reason connection challenge \<longleftrightarrow>
     (decision, reason, connection \<noteq> None, challenge \<noteq> None) \<in>
       {(DecisionDenied, ''policy_denied'', False, False),
        (DecisionPendingApproval, ''explicit_approval_required'', True, False),
        (DecisionAllowed, ''trusted_client'', True, False),
        (DecisionAllowed, ''operator_approved'', True, False),
        (DecisionDenied, ''operator_denied'', True, False),
        (DecisionChallenged, ''authorization_challenge_required'', True, True),
        (DecisionAllowed, ''authorization_challenge_authorized'', True, True),
        (DecisionDenied, ''authorization_challenge_expired'', True, True)}"

definition parse_decision :: "decision_row \<Rightarrow> (OperationError, PersistedDecision) result" where
  "parse_decision row =
     r_bind (nullable_digest (d_connection_id row)) (\<lambda>connection_id.
     r_bind (nullable_digest (d_challenge_id row)) (\<lambda>challenge_id.
     r_bind (r_bind (connection_text (only_if (length (d_decision row) \<le> 32) (d_decision row)))
       (\<lambda>value. ok_or Binding (decision_parse value))) (\<lambda>decision.
     r_bind (connection_text (only_if (length (d_reason_code row) \<le> 40) (d_reason_code row))) (\<lambda>reason.
     if \<not> parsed_shape decision reason connection_id challenge_id then Inl Binding else
     r_bind (parse_admission_policy reason) (\<lambda>admission_policy.
     r_bind (generation (d_policy_generation row)) (\<lambda>policy_generation.
     r_bind (exact_digest (only_if (length (d_requested_permissions_sha256 row) = 32) (d_requested_permissions_sha256 row))) (\<lambda>digest.
     r_bind (connection_time (d_decided_at_unix_ms row)) (\<lambda>decided_at.
     Inr \<lparr>pd_connection_id = connection_id, pd_decision = decision, pd_policy_generation = policy_generation,
       pd_requested_permissions_sha256 = digest, pd_challenge_id = challenge_id, pd_decided_at = decided_at,
       pd_admission_policy = admission_policy\<rparr>))))))))"

definition read_decision :: "connection_db \<Rightarrow> bytes \<Rightarrow> (OperationError, PersistedDecision option) result" where
  "read_decision db operation_id =
     (case take 2 (filter (\<lambda>d. d_operation_id d = operation_id) (n_decisions db)) of
        [] \<Rightarrow> Inr None
      | [row] \<Rightarrow> r_bind (parse_decision row) (\<lambda>d. Inr (Some d))
      | _ \<Rightarrow> Inl Binding)"

definition read_permissions ::
    "crates \<Rightarrow> connection_db \<Rightarrow> bytes \<Rightarrow> string \<Rightarrow> (OperationError, MycConnectionPermissionSet) result" where
  "read_permissions cr db connection_id scope =
     (let rows = take 65 (filter (\<lambda>p. p_connection_id p = connection_id \<and> p_permission_scope p = scope) (n_permissions db))
      in if MYC_CONNECTION_PERMISSION_MAX_COUNT < length rows then Inl Binding else
     r_bind (collect (\<lambda>row. r_bind (connection_text (only_if (1 \<le> length (p_permission_code row)
           \<and> length (p_permission_code row) \<le> 64) (p_permission_code row)))
         (\<lambda>value. ok_or Binding (permission_parse value))) rows) (\<lambda>permissions.
     map_err (\<lambda>_. Binding) (permission_set_new (sha256 cr) permissions)))"

definition read_connection :: "crates \<Rightarrow> connection_db \<Rightarrow> bytes \<Rightarrow> (OperationError, MycConnectionRecord) result" where
  "read_connection cr db connection_id =
     (let rows = take 2 (filter (\<lambda>c. c_connection_id c = connection_id) (n_connections db))
      in if length rows \<noteq> 1 then Inl Binding else
     let row = hd rows in
     r_bind (exact_digest (only_if (length (c_connection_id row) = 32) (c_connection_id row))) (\<lambda>actual_id.
     r_bind (exact_digest (only_if (length (c_connection_nonce row) = 32) (c_connection_nonce row))) (\<lambda>nonce.
     r_bind (client_column cr (c_client_public_key row)) (\<lambda>client.
     r_bind (read_permissions cr db connection_id ''requested'') (\<lambda>requested.
     r_bind (read_permissions cr db connection_id ''granted'') (\<lambda>granted.
     r_bind (exact_digest (only_if (length (c_requested_permissions_sha256 row) = 32) (c_requested_permissions_sha256 row))) (\<lambda>digest.
     r_bind (generation (c_policy_generation row)) (\<lambda>policy_generation.
     r_bind (r_bind (connection_text (only_if (length (c_status row) \<le> 16) (c_status row)))
       (\<lambda>value. ok_or Binding (connection_status_parse value))) (\<lambda>status.
     r_bind (connection_time (c_created_at_unix_ms row)) (\<lambda>created_at.
     r_bind (connection_time (c_updated_at_unix_ms row)) (\<lambda>updated_at.
     r_bind (nullable_time (c_authorized_until_unix_ms row)) (\<lambda>authorized_until.
     if actual_id \<noteq> connection_id
        \<or> derive_connection_id (sha256 cr) client nonce \<noteq> connection_id
        \<or> ps_digest requested \<noteq> digest
        \<or> \<not> is_subset_of granted requested
        \<or> updated_at < created_at
        \<or> (status \<in> {ConnectionPending, ConnectionDenied} \<and> ps_permissions granted \<noteq> [])
        \<or> (status = ConnectionActive \<and> (case authorized_until of Some until \<Rightarrow> until \<le> updated_at | None \<Rightarrow> False))
        \<or> (status \<in> {ConnectionDenied, ConnectionExpired} \<and> authorized_until \<noteq> None)
     then Inl Binding
     else Inr \<lparr>cr_id = connection_id, cr_client_public_key = client, cr_requested_permissions = requested,
       cr_granted_permissions = granted, cr_policy_generation = policy_generation, cr_status = status,
       cr_created_at = created_at, cr_updated_at = updated_at, cr_authorized_until = authorized_until\<rparr>))))))))))))"

definition decision_state_matches ::
    "MycConnectionAdmissionPolicy option \<Rightarrow> MycConnectionDecision \<Rightarrow> MycConnectionRecord option \<Rightarrow> bool" where
  "decision_state_matches policy decision connection =
     (case (policy, decision, connection) of
        (Some PolicyDenied, DecisionDenied, None) \<Rightarrow> True
      | (Some PolicyTrusted, DecisionAllowed, Some c) \<Rightarrow> cr_status c \<in> {ConnectionActive, ConnectionExpired}
      | (Some PolicyExplicitApproval, DecisionPendingApproval, Some c) \<Rightarrow> cr_status c = ConnectionPending
      | (Some PolicyExplicitApproval, DecisionAllowed, Some c) \<Rightarrow> cr_status c \<in> {ConnectionActive, ConnectionExpired}
      | (Some PolicyExplicitApproval, DecisionDenied, Some c) \<Rightarrow> cr_status c = ConnectionDenied
      | _ \<Rightarrow> False)"

definition decision_record ::
    "crates \<Rightarrow> connection_db \<Rightarrow> bytes \<Rightarrow> PersistedDecision \<Rightarrow> (OperationError, MycConnectionDecisionRecord) result" where
  "decision_record cr db operation_id decision =
     r_bind (case pd_connection_id decision of
         Some connection_id \<Rightarrow> r_bind (read_connection cr db connection_id) (\<lambda>c. Inr (Some c))
       | None \<Rightarrow> Inr None) (\<lambda>connection.
     if (case connection of
           Some value \<Rightarrow> ps_digest (cr_requested_permissions value) \<noteq> pd_requested_permissions_sha256 decision
         | None \<Rightarrow> False) \<or> pd_challenge_id decision \<noteq> None
     then Inl Binding
     else if \<not> decision_state_matches (pd_admission_policy decision) (pd_decision decision) connection
     then Inl Binding
     else Inr \<lparr>cd_operation_id = operation_id, cd_connection = connection, cd_decision = pd_decision decision,
       cd_policy_generation = pd_policy_generation decision, cd_decided_at = pd_decided_at decision\<rparr>)"

definition parse_challenge ::
    "crates \<Rightarrow> challenge_row \<Rightarrow> (OperationError, MycAuthorizationChallengeRecord) result" where
  "parse_challenge cr row =
     r_bind (exact_digest (only_if (length (h_challenge_id row) = 32) (h_challenge_id row))) (\<lambda>id.
     r_bind (exact_digest (only_if (length (h_challenge_nonce row) = 32) (h_challenge_nonce row))) (\<lambda>nonce.
     r_bind (exact_digest (only_if (length (h_connection_id row) = 32) (h_connection_id row))) (\<lambda>connection_id.
     r_bind (exact_digest (only_if (length (h_operation_id row) = 32) (h_operation_id row))) (\<lambda>operation_id.
     r_bind (generation (h_policy_generation row)) (\<lambda>policy_generation.
     r_bind (r_bind (connection_text (only_if (1 \<le> length (h_challenge_url row) \<and> length (h_challenge_url row) \<le> 2048)
         (h_challenge_url row))) (\<lambda>value. map_err (\<lambda>_. Binding) (challenge_url_new cr value))) (\<lambda>url.
     r_bind (r_bind (connection_text (only_if (length (h_state row) \<le> 16) (h_state row)))
       (\<lambda>value. ok_or Binding (challenge_state_parse value))) (\<lambda>state.
     r_bind (connection_time (h_issued_at_unix_ms row)) (\<lambda>issued_at.
     r_bind (connection_time (h_expires_at_unix_ms row)) (\<lambda>expires_at.
     r_bind (nullable_time (h_resolved_at_unix_ms row)) (\<lambda>resolved_at.
     if derive_challenge_id (sha256 cr) operation_id connection_id nonce \<noteq> id
        \<or> expires_at \<le> issued_at
        \<or> (state = ChallengePending \<and> resolved_at \<noteq> None)
        \<or> (state \<noteq> ChallengePending \<and> (case resolved_at of None \<Rightarrow> True | Some resolved \<Rightarrow> resolved < issued_at))
     then Inl Binding
     else Inr \<lparr>ch_id = id, ch_operation_id = operation_id, ch_connection_id = connection_id,
       ch_policy_generation = policy_generation, ch_url = url, ch_state = state, ch_issued_at = issued_at,
       ch_expires_at = expires_at, ch_resolved_at = resolved_at\<rparr>))))))))))"

definition read_challenge ::
    "crates \<Rightarrow> connection_db \<Rightarrow> bytes \<Rightarrow> (OperationError, MycAuthorizationChallengeRecord option) result" where
  "read_challenge cr db operation_id =
     (case take 2 (filter (\<lambda>h. h_operation_id h = operation_id) (n_challenges db)) of
        [] \<Rightarrow> Inr None
      | [row] \<Rightarrow> r_bind (parse_challenge cr row) (\<lambda>h. Inr (Some h))
      | _ \<Rightarrow> Inl Binding)"

end
