(* ===== verification/Connection_Operations.thy ===== *)
theory Connection_Operations
  imports Connection_State
begin

text \<open>
  The operations of the connection authority (\<^verbatim>\<open>src/src/state_connection.rs\<close>): admission, operator decision, expiry,
  revocation, challenges; then the methods of \<open>MycStateRepository\<close>, which check the configured policy, open the
  transaction and verify the stored binding first.
\<close>

section \<open>Statements\<close>

definition insert_connection_sql :: "connection_row \<Rightarrow> connection_db \<Rightarrow> (connection_db \<times> nat) option" where
  "insert_connection_sql r db = map_option (\<lambda>(t, n). (db\<lparr>n_connections := t\<rparr>, n))
     (sql_insert connection_insert_legal r (n_connections db))"

definition insert_permission_sql :: "permission_row \<Rightarrow> connection_db \<Rightarrow> (connection_db \<times> nat) option" where
  "insert_permission_sql r db = map_option (\<lambda>(t, n). (db\<lparr>n_permissions := t\<rparr>, n))
     (sql_insert (permission_insert_legal (n_connections db)) r (n_permissions db))"

definition insert_decision_sql :: "decision_row \<Rightarrow> connection_db \<Rightarrow> (connection_db \<times> nat) option" where
  "insert_decision_sql r db = map_option (\<lambda>(t, n). (db\<lparr>n_decisions := t\<rparr>, n))
     (sql_insert (decision_insert_legal db) r (n_decisions db))"

definition insert_challenge_sql :: "challenge_row \<Rightarrow> connection_db \<Rightarrow> (connection_db \<times> nat) option" where
  "insert_challenge_sql r db = map_option (\<lambda>(t, n). (db\<lparr>n_challenges := t\<rparr>, n))
     (sql_insert (challenge_insert_legal db) r (n_challenges db))"

definition update_connections ::
    "(connection_row \<Rightarrow> bool) \<Rightarrow> (connection_row \<Rightarrow> connection_row) \<Rightarrow> connection_db \<Rightarrow> (connection_db \<times> nat) option" where
  "update_connections whr f db = map_option (\<lambda>(t, n). (db\<lparr>n_connections := t\<rparr>, n))
     (sql_update whr f connection_update_legal (n_connections db))"

definition update_decisions ::
    "(decision_row \<Rightarrow> bool) \<Rightarrow> (decision_row \<Rightarrow> decision_row) \<Rightarrow> connection_db \<Rightarrow> (connection_db \<times> nat) option" where
  "update_decisions whr f db = map_option (\<lambda>(t, n). (db\<lparr>n_decisions := t\<rparr>, n))
     (sql_update whr f decision_update_legal (n_decisions db))"

definition update_challenges ::
    "(challenge_row \<Rightarrow> bool) \<Rightarrow> (challenge_row \<Rightarrow> challenge_row) \<Rightarrow> connection_db \<Rightarrow> (connection_db \<times> nat) option" where
  "update_challenges whr f db = map_option (\<lambda>(t, n). (db\<lparr>n_challenges := t\<rparr>, n))
     (sql_update whr f challenge_update_legal (n_challenges db))"

definition approve_connection_where :: "bytes \<Rightarrow> int \<Rightarrow> connection_row \<Rightarrow> bool" where
  "approve_connection_where connection_id policy_generation r \<longleftrightarrow>
     c_connection_id r = connection_id \<and> c_status r = ''pending'' \<and> c_policy_generation r = policy_generation"

definition approve_connection_set :: "int \<Rightarrow> int option \<Rightarrow> connection_row \<Rightarrow> connection_row" where
  "approve_connection_set observed_at authorized_until r = r\<lparr>c_status := ''active'', c_updated_at_unix_ms := observed_at,
     c_authorized_until_unix_ms := authorized_until\<rparr>"

definition deny_connection_set :: "int \<Rightarrow> connection_row \<Rightarrow> connection_row" where
  "deny_connection_set observed_at r = r\<lparr>c_status := ''denied'', c_updated_at_unix_ms := observed_at,
     c_authorized_until_unix_ms := None\<rparr>"

definition expire_connection_where :: "bytes \<Rightarrow> int \<Rightarrow> int \<Rightarrow> connection_row \<Rightarrow> bool" where
  "expire_connection_where connection_id policy_generation observed_at r \<longleftrightarrow>
     c_connection_id r = connection_id \<and> c_status r = ''active'' \<and> c_policy_generation r = policy_generation
     \<and> (case c_authorized_until_unix_ms r of None \<Rightarrow> False | Some until \<Rightarrow> until < observed_at)"

definition expire_connection_set :: "int \<Rightarrow> connection_row \<Rightarrow> connection_row" where
  "expire_connection_set observed_at r = r\<lparr>c_status := ''expired'', c_updated_at_unix_ms := observed_at,
     c_authorized_until_unix_ms := None\<rparr>"

definition revoke_connection_where :: "bytes \<Rightarrow> int \<Rightarrow> connection_row \<Rightarrow> bool" where
  "revoke_connection_where connection_id policy_generation r \<longleftrightarrow>
     c_connection_id r = connection_id \<and> c_status r = ''active'' \<and> c_policy_generation r = policy_generation"

definition update_decision_set :: "string \<Rightarrow> string \<Rightarrow> int \<Rightarrow> decision_row \<Rightarrow> decision_row" where
  "update_decision_set decision reason decided_at r = r\<lparr>d_decision := decision, d_reason_code := reason,
     d_decided_at_unix_ms := decided_at\<rparr>"

definition update_approval_where :: "bytes \<Rightarrow> bytes \<Rightarrow> int \<Rightarrow> decision_row \<Rightarrow> bool" where
  "update_approval_where operation_id connection_id policy_generation r \<longleftrightarrow>
     d_operation_id r = operation_id \<and> d_connection_id r = Some connection_id \<and> d_decision r = ''pending_approval''
     \<and> d_policy_generation r = policy_generation"

definition update_challenge_decision_where :: "bytes \<Rightarrow> bytes \<Rightarrow> bytes \<Rightarrow> int \<Rightarrow> decision_row \<Rightarrow> bool" where
  "update_challenge_decision_where operation_id connection_id challenge_id policy_generation r \<longleftrightarrow>
     d_operation_id r = operation_id \<and> d_connection_id r = Some connection_id \<and> d_challenge_id r = Some challenge_id
     \<and> d_policy_generation r = policy_generation \<and> d_decision r = ''challenged''"

definition resolve_challenge_where :: "bytes \<Rightarrow> bytes \<Rightarrow> bytes \<Rightarrow> int \<Rightarrow> challenge_row \<Rightarrow> bool" where
  "resolve_challenge_where challenge_id connection_id operation_id policy_generation r \<longleftrightarrow>
     h_challenge_id r = challenge_id \<and> h_connection_id r = connection_id \<and> h_operation_id r = operation_id
     \<and> h_policy_generation r = policy_generation \<and> h_state r = ''pending''"

definition resolve_challenge_set :: "string \<Rightarrow> int \<Rightarrow> challenge_row \<Rightarrow> challenge_row" where
  "resolve_challenge_set state observed_at r = r\<lparr>h_state := state, h_resolved_at_unix_ms := Some observed_at\<rparr>"

section \<open>Shared parts\<close>

fun insert_permission_list ::
    "bytes \<Rightarrow> string \<Rightarrow> MycConnectionPermission list \<Rightarrow> connection_db \<Rightarrow> (OperationError, connection_db) result" where
  "insert_permission_list connection_id scope [] db = Inr db"
| "insert_permission_list connection_id scope (permission # permissions) db =
     r_bind (connection_execute_one (insert_permission_sql \<lparr>p_connection_id = connection_id,
         p_permission_scope = scope, p_permission_code = permission_code permission\<rparr> db))
       (insert_permission_list connection_id scope permissions)"

definition insert_permissions ::
    "bytes \<Rightarrow> string \<Rightarrow> MycConnectionPermissionSet \<Rightarrow> connection_db \<Rightarrow> (OperationError, connection_db) result" where
  "insert_permissions connection_id scope permissions db =
     insert_permission_list connection_id scope (ps_permissions permissions) db"

definition insert_connection ::
    "MycConnectionAdmissionRequest \<Rightarrow> bytes \<Rightarrow> connection_db \<Rightarrow> (OperationError, connection_db) result" where
  "insert_connection request connection_id db =
     r_bind (case car_policy request of
         PolicyTrusted \<Rightarrow> Inr ConnectionActive
       | PolicyExplicitApproval \<Rightarrow> Inr ConnectionPending
       | PolicyDenied \<Rightarrow> Inl Binding) (\<lambda>status.
     r_bind (connection_execute_one (insert_connection_sql
         \<lparr>c_connection_id = connection_id, c_connection_nonce = car_nonce request,
          c_client_public_key = car_client_public_key request,
          c_requested_permissions_sha256 = ps_digest (car_requested_permissions request),
          c_policy_generation = int (car_policy_generation request), c_status = connection_status_as_str status,
          c_created_at_unix_ms = int (car_observed_at request), c_updated_at_unix_ms = int (car_observed_at request),
          c_authorized_until_unix_ms = map_option int (car_authorized_until request)\<rparr> db)) (\<lambda>db1.
     r_bind (insert_permissions connection_id ''requested'' (car_requested_permissions request) db1) (\<lambda>db2.
     if status = ConnectionActive
     then insert_permissions connection_id ''granted'' (car_requested_permissions request) db2
     else Inr db2)))"

definition insert_decision ::
    "bytes \<Rightarrow> bytes option \<Rightarrow> MycConnectionDecision \<Rightarrow> string \<Rightarrow> nat \<Rightarrow> bytes \<Rightarrow> bytes option \<Rightarrow> nat \<Rightarrow> connection_db
      \<Rightarrow> (OperationError, connection_db) result" where
  "insert_decision operation_id connection_id decision reason policy_generation permissions_digest challenge_id decided_at db =
     connection_execute_one (insert_decision_sql
       \<lparr>d_operation_id = operation_id, d_connection_id = connection_id, d_decision = decision_as_str decision,
        d_reason_code = reason, d_policy_generation = int policy_generation,
        d_requested_permissions_sha256 = permissions_digest, d_challenge_id = challenge_id,
        d_decided_at_unix_ms = int decided_at\<rparr> db)"

definition record_connection_audit ::
    "crates \<Rightarrow> connection_db \<Rightarrow> AuditEvidence \<Rightarrow> MycAuditKind \<Rightarrow> MycAuditOutcome \<Rightarrow> MycAuditReasonCode
      \<Rightarrow> (OperationError, connection_db) result" where
  "record_connection_audit cr db evidence kind outcome reason =
     r_bind (on_governance db (record_audit (sha256 cr) (n_gov db) evidence kind outcome reason)) (\<lambda>(_, db1). Inr db1)"

definition record_connection_expiry_audit ::
    "crates \<Rightarrow> connection_db \<Rightarrow> bytes \<Rightarrow> nat \<Rightarrow> (OperationError, connection_db) result" where
  "record_connection_expiry_audit cr db correlation occurred_at =
     record_connection_audit cr db \<lparr>ev_correlation = correlation, ev_occurred_at = occurred_at, ev_operation_id = None\<rparr>
       AuditConnectionExpiry AuditSucceeded ReasonConnectionExpired"

definition record_operator_audit ::
    "crates \<Rightarrow> connection_db \<Rightarrow> bytes \<Rightarrow> nat \<Rightarrow> MycAuditOutcome \<Rightarrow> MycAuditReasonCode \<Rightarrow> (OperationError, connection_db) result" where
  "record_operator_audit cr db correlation occurred_at outcome reason =
     record_connection_audit cr db \<lparr>ev_correlation = correlation, ev_occurred_at = occurred_at, ev_operation_id = None\<rparr>
       AuditConnectionOperatorDecision outcome reason"

definition update_approval_decision ::
    "connection_db \<Rightarrow> bytes \<Rightarrow> bytes \<Rightarrow> nat \<Rightarrow> nat \<Rightarrow> MycConnectionDecision \<Rightarrow> string \<Rightarrow> (OperationError, connection_db) result" where
  "update_approval_decision db operation_id connection_id policy_generation observed_at decision reason =
     connection_execute_one (update_decisions (update_approval_where operation_id connection_id (int policy_generation))
       (update_decision_set (decision_as_str decision) reason (int observed_at)) db)"

section \<open>Admission\<close>

fun admission_audit :: "MycConnectionAdmissionPolicy \<Rightarrow> MycAuditOutcome \<times> MycAuditReasonCode" where
  "admission_audit PolicyTrusted = (AuditSucceeded, ReasonTrusted)"
| "admission_audit PolicyExplicitApproval = (AuditSucceeded, ReasonApprovalRequired)"
| "admission_audit PolicyDenied = (AuditRejected, ReasonPolicyDenied)"

text \<open>The first part of \<open>admit_connection\<close>: a stored decision is replayed.\<close>

definition admit_replay ::
    "crates \<Rightarrow> connection_db \<Rightarrow> MycConnectionAdmissionRequest \<Rightarrow> PersistedDecision
      \<Rightarrow> (OperationError, MycConnectionAdmission \<times> connection_db) result" where
  "admit_replay cr db request existing =
     (if pd_policy_generation existing \<noteq> car_policy_generation request
         \<or> pd_admission_policy existing \<noteq> Some (car_policy request)
         \<or> pd_requested_permissions_sha256 existing \<noteq> ps_digest (car_requested_permissions request)
      then Inl Binding else
      r_bind (decision_record cr db (car_operation_id request) existing) (\<lambda>record.
      if (case cd_connection record of
            Some connection \<Rightarrow> cr_client_public_key connection \<noteq> car_client_public_key request | None \<Rightarrow> False)
      then Inl Binding else Inr (AdmissionExactReplay record, db)))"

text \<open>The last part: the new connection, its decision and its audit record.\<close>

definition admit_new ::
    "crates \<Rightarrow> connection_db \<Rightarrow> MycConnectionAdmissionRequest \<Rightarrow> AuditEvidence
      \<Rightarrow> (OperationError, MycConnectionAdmission \<times> connection_db) result" where
  "admit_new cr db request evidence =
     r_bind (if car_policy request = PolicyDenied then Inr (None, db)
       else let connection_id = derive_connection_id (sha256 cr) (car_client_public_key request) (car_nonce request)
            in r_bind (insert_connection request connection_id db) (\<lambda>db1. Inr (Some connection_id, db1))) (\<lambda>(connection_id, db1).
     r_bind (insert_decision (car_operation_id request) connection_id (admission_decision (car_policy request))
         (decision_reason (admission_decision (car_policy request)) (car_policy request)) (car_policy_generation request)
         (ps_digest (car_requested_permissions request)) None (car_observed_at request) db1) (\<lambda>db2.
     r_bind (r_bind (read_decision db2 (car_operation_id request)) (ok_or Binding)) (\<lambda>persisted.
     r_bind (decision_record cr db2 (car_operation_id request) persisted) (\<lambda>record.
     r_bind (record_connection_audit cr db2 evidence AuditConnectionAdmission (fst (admission_audit (car_policy request)))
         (snd (admission_audit (car_policy request)))) (\<lambda>db3.
     Inr (Admitted record, db3))))))"

definition admit_connection ::
    "crates \<Rightarrow> connection_db \<Rightarrow> MycConnectionAdmissionRequest \<Rightarrow> MycRateLimitPolicy option
      \<Rightarrow> (OperationError, MycConnectionAdmission \<times> connection_db) result" where
  "admit_connection cr db request governed =
     r_bind (read_request_binding cr db (car_operation_id request)) (\<lambda>binding.
     if rb_client_public_key binding \<noteq> car_client_public_key request
        \<or> rb_method binding \<noteq> MethodConnect
        \<or> car_observed_at request < rb_received_at binding
     then Inl Binding else
     r_bind (read_decision db (car_operation_id request)) (\<lambda>found. case found of
       Some existing \<Rightarrow> admit_replay cr db request existing
     | None \<Rightarrow>
     let evidence = \<lparr>ev_correlation = rb_correlation binding, ev_occurred_at = car_observed_at request,
       ev_operation_id = Some (car_operation_id request)\<rparr> in
     r_bind (case governed of
         Some policy \<Rightarrow> on_governance db (govern_rate_attempt (sha256 cr) (n_gov db) policy RateConnectionAdmission
           [SubjectGlobal, relay_subject (sha256 cr) (car_relay_id request)] evidence AuditConnectionAdmission)
       | None \<Rightarrow> Inr (True, db)) (\<lambda>(admitted, db1).
     if \<not> admitted then Inr (AdmissionRateLimited, db1) else admit_new cr db1 request evidence)))"

section \<open>Operator decisions, expiry and revocation\<close>

definition approve_pending ::
    "crates \<Rightarrow> connection_db \<Rightarrow> bytes \<Rightarrow> bytes \<Rightarrow> nat \<Rightarrow> nat \<Rightarrow> bytes \<Rightarrow> MycConnectionPermissionSet \<Rightarrow> nat option
      \<Rightarrow> (OperationError, MycConnectionRecord \<times> connection_db) result" where
  "approve_pending cr db operation_id connection_id policy_generation observed_at audit_correlation granted_permissions
       authorized_until =
     r_bind (insert_permissions connection_id ''granted'' granted_permissions db) (\<lambda>db1.
     r_bind (connection_execute_one (update_connections (approve_connection_where connection_id (int policy_generation))
         (approve_connection_set (int observed_at) (map_option int authorized_until)) db1)) (\<lambda>db2.
     r_bind (update_approval_decision db2 operation_id connection_id policy_generation observed_at DecisionAllowed
         ''operator_approved'') (\<lambda>db3.
     r_bind (read_connection cr db3 connection_id) (\<lambda>record.
     r_bind (record_operator_audit cr db3 audit_correlation observed_at AuditSucceeded ReasonOperatorApproved) (\<lambda>db4.
     Inr (record, db4))))))"

definition deny_pending ::
    "crates \<Rightarrow> connection_db \<Rightarrow> bytes \<Rightarrow> bytes \<Rightarrow> nat \<Rightarrow> nat \<Rightarrow> bytes
      \<Rightarrow> (OperationError, MycConnectionRecord \<times> connection_db) result" where
  "deny_pending cr db operation_id connection_id policy_generation observed_at audit_correlation =
     r_bind (connection_execute_one (update_connections (approve_connection_where connection_id (int policy_generation))
         (deny_connection_set (int observed_at)) db)) (\<lambda>db2.
     r_bind (update_approval_decision db2 operation_id connection_id policy_generation observed_at DecisionDenied
         ''operator_denied'') (\<lambda>db3.
     r_bind (read_connection cr db3 connection_id) (\<lambda>record.
     r_bind (record_operator_audit cr db3 audit_correlation observed_at AuditRejected ReasonOperatorDenied) (\<lambda>db4.
     Inr (record, db4)))))"

definition decide_connection ::
    "crates \<Rightarrow> connection_db \<Rightarrow> bytes \<Rightarrow> bytes \<Rightarrow> nat \<Rightarrow> nat \<Rightarrow> bytes \<Rightarrow> MycConnectionOperatorDecision
      \<Rightarrow> (OperationError, MycConnectionRecord \<times> connection_db) result" where
  "decide_connection cr db operation_id connection_id policy_generation observed_at audit_correlation decision =
     r_bind (r_bind (read_decision db operation_id) (ok_or Binding)) (\<lambda>existing.
     if pd_connection_id existing \<noteq> Some connection_id \<or> pd_policy_generation existing \<noteq> policy_generation
     then Inl Binding else
     r_bind (read_connection cr db connection_id) (\<lambda>connection.
     if cr_policy_generation connection \<noteq> policy_generation then Inl Binding else
     case decision of
       OperatorApprove granted_permissions authorized_until \<Rightarrow>
         if \<not> is_subset_of granted_permissions (cr_requested_permissions connection)
            \<or> (case authorized_until of Some until \<Rightarrow> until \<le> observed_at | None \<Rightarrow> False)
         then Inl Binding
         else if cr_status connection = ConnectionActive \<and> pd_decision existing = DecisionAllowed
         then (if cr_granted_permissions connection = granted_permissions
                  \<and> cr_authorized_until connection = authorized_until
               then r_bind (record_operator_audit cr db audit_correlation (cr_updated_at connection) AuditSucceeded
                   ReasonOperatorApproved) (\<lambda>db1. Inr (connection, db1))
               else Inl Binding)
         else if cr_status connection \<noteq> ConnectionPending \<or> pd_decision existing \<noteq> DecisionPendingApproval
            \<or> observed_at < cr_updated_at connection
         then Inl Binding
         else approve_pending cr db operation_id connection_id policy_generation observed_at audit_correlation
           granted_permissions authorized_until
     | OperatorDeny \<Rightarrow>
         if cr_status connection = ConnectionDenied \<and> pd_decision existing = DecisionDenied
         then r_bind (record_operator_audit cr db audit_correlation (cr_updated_at connection) AuditRejected
             ReasonOperatorDenied) (\<lambda>db1. Inr (connection, db1))
         else if cr_status connection \<noteq> ConnectionPending \<or> pd_decision existing \<noteq> DecisionPendingApproval
            \<or> observed_at < cr_updated_at connection
         then Inl Binding
         else deny_pending cr db operation_id connection_id policy_generation observed_at audit_correlation))"

definition expire_connection ::
    "crates \<Rightarrow> connection_db \<Rightarrow> bytes \<Rightarrow> nat \<Rightarrow> nat \<Rightarrow> bytes \<Rightarrow> (OperationError, MycConnectionRecord \<times> connection_db) result" where
  "expire_connection cr db connection_id policy_generation observed_at audit_correlation =
     r_bind (read_connection cr db connection_id) (\<lambda>before.
     if cr_policy_generation before \<noteq> policy_generation then Inl Binding
     else if cr_status before = ConnectionExpired
     then r_bind (record_connection_expiry_audit cr db audit_correlation (cr_updated_at before)) (\<lambda>db1. Inr (before, db1))
     else if cr_status before \<noteq> ConnectionActive
        \<or> (case cr_authorized_until before of None \<Rightarrow> True | Some until \<Rightarrow> observed_at \<le> until)
     then Inl Binding else
     r_bind (connection_execute_one (update_connections
         (expire_connection_where connection_id (int policy_generation) (int observed_at))
         (expire_connection_set (int observed_at)) db)) (\<lambda>db1.
     r_bind (read_connection cr db1 connection_id) (\<lambda>record.
     r_bind (record_connection_expiry_audit cr db1 audit_correlation observed_at) (\<lambda>db2.
     Inr (record, db2)))))"

datatype AdminJournalOperationError = AdminInvalidInput | AdminConflict | AdminOutcomeUnknown | AdminResourceExhausted
  | AdminBinding | AdminStorage

fun admin_error :: "OperationError \<Rightarrow> AdminJournalOperationError" where
  "admin_error Binding = AdminBinding"
| "admin_error Storage = AdminStorage"

definition read_pending_decision_operation :: "connection_db \<Rightarrow> bytes \<Rightarrow> nat \<Rightarrow> (OperationError, bytes) result" where
  "read_pending_decision_operation db connection_id policy_generation =
     (case take 2 (filter (\<lambda>d. d_connection_id d = Some connection_id \<and> d_decision d = ''pending_approval''
         \<and> d_policy_generation d = int policy_generation) (n_decisions db)) of
        [row] \<Rightarrow> exact_digest (only_if (length (d_operation_id row) = 32) (d_operation_id row))
      | _ \<Rightarrow> Inl Binding)"

definition revoke_connection ::
    "crates \<Rightarrow> connection_db \<Rightarrow> MycConnectionRecord \<Rightarrow> bytes \<Rightarrow> nat \<Rightarrow> nat \<Rightarrow> bytes
      \<Rightarrow> (AdminJournalOperationError, MycConnectionRecord \<times> connection_db) result" where
  "revoke_connection cr db before connection_id policy_generation observed_at audit_correlation =
     (if cr_status before = ConnectionExpired then Inr (before, db)
      else if cr_status before \<noteq> ConnectionActive \<or> observed_at < cr_updated_at before then Inl AdminConflict
      else map_err admin_error (
        r_bind (connection_execute_one (update_connections
            (revoke_connection_where connection_id (int policy_generation)) (expire_connection_set (int observed_at)) db)) (\<lambda>db1.
        r_bind (read_connection cr db1 connection_id) (\<lambda>record.
        r_bind (record_operator_audit cr db1 audit_correlation observed_at AuditSucceeded ReasonConnectionExpired) (\<lambda>db2.
        Inr (record, db2))))))"

definition apply_admin_connection_mutation ::
    "crates \<Rightarrow> connection_db \<Rightarrow> bytes \<Rightarrow> nat \<Rightarrow> nat \<Rightarrow> bytes \<Rightarrow> MycAdminConnectionAction
      \<Rightarrow> (AdminJournalOperationError, (MycConnectionRecord \<times> MycConnectionRecord) \<times> connection_db) result" where
  "apply_admin_connection_mutation cr db connection_id policy_generation observed_at audit_correlation action =
     r_bind (map_err admin_error (read_connection cr db connection_id)) (\<lambda>before.
     if cr_policy_generation before \<noteq> policy_generation then Inl AdminConflict else
     r_bind (case action of
         AdminApprove permissions authorized_until \<Rightarrow> map_err admin_error (
           r_bind (read_pending_decision_operation db connection_id policy_generation) (\<lambda>operation_id.
           decide_connection cr db operation_id connection_id policy_generation observed_at audit_correlation
             (OperatorApprove permissions authorized_until)))
       | AdminReject \<Rightarrow> map_err admin_error (
           r_bind (read_pending_decision_operation db connection_id policy_generation) (\<lambda>operation_id.
           decide_connection cr db operation_id connection_id policy_generation observed_at audit_correlation OperatorDeny))
       | AdminRevoke \<Rightarrow>
           revoke_connection cr db before connection_id policy_generation observed_at audit_correlation) (\<lambda>(after, db1).
     Inr ((before, after), db1)))"

section \<open>Authorization challenges\<close>

definition issue_new ::
    "crates \<Rightarrow> connection_db \<Rightarrow> MycAuthorizationChallengeRequest \<Rightarrow> MycConnectionRecord \<Rightarrow> AuditEvidence
      \<Rightarrow> (OperationError, MycAuthorizationChallengeAdmission \<times> connection_db) result" where
  "issue_new cr db request connection evidence =
     (let challenge_id = derive_challenge_id (sha256 cr) (acr_operation_id request) (acr_connection_id request) (acr_nonce request) in
     r_bind (connection_execute_one (insert_challenge_sql
         \<lparr>h_challenge_id = challenge_id, h_challenge_nonce = acr_nonce request, h_connection_id = acr_connection_id request,
          h_operation_id = acr_operation_id request, h_policy_generation = int (acr_policy_generation request),
          h_challenge_url = acr_url request, h_state = ''pending'', h_issued_at_unix_ms = int (acr_issued_at request),
          h_expires_at_unix_ms = int (acr_expires_at request), h_resolved_at_unix_ms = None\<rparr> db)) (\<lambda>db1.
     r_bind (insert_decision (acr_operation_id request) (Some (acr_connection_id request)) DecisionChallenged
         ''authorization_challenge_required'' (acr_policy_generation request)
         (ps_digest (cr_requested_permissions connection)) (Some challenge_id) (acr_issued_at request) db1) (\<lambda>db2.
     r_bind (r_bind (read_challenge cr db2 (acr_operation_id request)) (ok_or Binding)) (\<lambda>record.
     r_bind (record_connection_audit cr db2 evidence AuditChallengeCreation AuditSucceeded ReasonChallengeRequired) (\<lambda>db3.
     Inr (ChallengeCreated record, db3))))))"

definition issue_challenge ::
    "crates \<Rightarrow> connection_db \<Rightarrow> MycAuthorizationChallengeRequest \<Rightarrow> MycRateLimitPolicy
      \<Rightarrow> (OperationError, MycAuthorizationChallengeAdmission \<times> connection_db) result" where
  "issue_challenge cr db request policy =
     r_bind (read_request_binding cr db (acr_operation_id request)) (\<lambda>binding.
     if rb_method binding = MethodConnect then Inl Binding else
     r_bind (read_connection cr db (acr_connection_id request)) (\<lambda>connection.
     if cr_client_public_key connection \<noteq> rb_client_public_key binding
        \<or> cr_policy_generation connection \<noteq> acr_policy_generation request
     then Inl Binding else
     r_bind (read_challenge cr db (acr_operation_id request)) (\<lambda>found. case found of
       Some existing \<Rightarrow>
         if ch_connection_id existing \<noteq> acr_connection_id request
            \<or> ch_policy_generation existing \<noteq> acr_policy_generation request
            \<or> ch_url existing \<noteq> acr_url request
            \<or> ch_issued_at existing \<noteq> acr_issued_at request
            \<or> ch_expires_at existing \<noteq> acr_expires_at request
         then Inl Binding else Inr (ChallengeExactReplay existing, db)
     | None \<Rightarrow>
     if acr_issued_at request < rb_received_at binding
        \<or> acr_issued_at request < cr_updated_at connection
        \<or> cr_status connection \<noteq> ConnectionActive
        \<or> (case cr_authorized_until connection of Some until \<Rightarrow> until < acr_issued_at request | None \<Rightarrow> False)
     then Inl Binding else
     r_bind (read_decision db (acr_operation_id request)) (\<lambda>decision.
     if decision \<noteq> None then Inl Binding else
     let evidence = \<lparr>ev_correlation = rb_correlation binding, ev_occurred_at = acr_issued_at request,
       ev_operation_id = Some (acr_operation_id request)\<rparr> in
     r_bind (on_governance db (govern_rate_attempt (sha256 cr) (n_gov db) policy RateChallengeCreation
         [SubjectConnection (acr_connection_id request)] evidence AuditChallengeCreation)) (\<lambda>(admitted, db1).
     if \<not> admitted then Inr (ChallengeRateLimited, db1)
     else issue_new cr db1 request connection evidence)))))"

definition challenge_expired :: "MycAuthorizationChallengeRecord \<Rightarrow> MycConnectionRecord \<Rightarrow> nat \<Rightarrow> bool" where
  "challenge_expired before connection observed_at \<longleftrightarrow>
     ch_expires_at before < observed_at
     \<or> cr_status connection \<noteq> ConnectionActive
     \<or> (case cr_authorized_until connection of Some until \<Rightarrow> until < observed_at | None \<Rightarrow> False)"

fun challenge_audit :: "MycAuthorizationChallengeState \<Rightarrow> (OperationError, MycAuditOutcome \<times> MycAuditReasonCode) result" where
  "challenge_audit ChallengeAuthorized = Inr (AuditSucceeded, ReasonChallengeAuthorized)"
| "challenge_audit ChallengeExpired = Inr (AuditRejected, ReasonChallengeExpired)"
| "challenge_audit ChallengePending = Inl Binding"

definition resolve_pending ::
    "crates \<Rightarrow> connection_db \<Rightarrow> bytes \<Rightarrow> bytes \<Rightarrow> bytes \<Rightarrow> nat \<Rightarrow> nat \<Rightarrow> bool \<Rightarrow> AuditEvidence
      \<Rightarrow> (OperationError, MycAuthorizationChallengeAuthorization \<times> connection_db) result" where
  "resolve_pending cr db challenge_id connection_id operation_id policy_generation observed_at expired evidence =
     (let (state, decision, reason) =
        (if expired then (ChallengeExpired, DecisionDenied, ''authorization_challenge_expired'')
         else (ChallengeAuthorized, DecisionAllowed, ''authorization_challenge_authorized'')) in
     r_bind (connection_execute_one (update_challenges
         (resolve_challenge_where challenge_id connection_id operation_id (int policy_generation))
         (resolve_challenge_set (challenge_state_as_str state) (int observed_at)) db)) (\<lambda>db1.
     r_bind (connection_execute_one (update_decisions
         (update_challenge_decision_where operation_id connection_id challenge_id (int policy_generation))
         (update_decision_set (decision_as_str decision) reason (int observed_at)) db1)) (\<lambda>db2.
     r_bind (r_bind (read_challenge cr db2 operation_id) (ok_or Binding)) (\<lambda>record.
     r_bind (challenge_audit state) (\<lambda>(outcome, audit_reason).
     r_bind (record_connection_audit cr db2 evidence AuditChallengeAuthorization outcome audit_reason) (\<lambda>db3.
     Inr (AuthorizationResolved record, db3)))))))"

definition authorize_challenge ::
    "crates \<Rightarrow> connection_db \<Rightarrow> bytes \<Rightarrow> bytes \<Rightarrow> bytes \<Rightarrow> nat \<Rightarrow> nat \<Rightarrow> MycRateLimitPolicy
      \<Rightarrow> (OperationError, MycAuthorizationChallengeAuthorization \<times> connection_db) result" where
  "authorize_challenge cr db challenge_id connection_id operation_id policy_generation observed_at policy =
     r_bind (r_bind (read_challenge cr db operation_id) (ok_or Binding)) (\<lambda>before.
     if ch_id before \<noteq> challenge_id \<or> ch_connection_id before \<noteq> connection_id
        \<or> ch_operation_id before \<noteq> operation_id \<or> ch_policy_generation before \<noteq> policy_generation
     then Inl Binding else
     r_bind (read_request_binding cr db operation_id) (\<lambda>request_binding.
     r_bind (read_connection cr db connection_id) (\<lambda>connection.
     if rb_method request_binding = MethodConnect
        \<or> rb_client_public_key request_binding \<noteq> cr_client_public_key connection
        \<or> cr_policy_generation connection \<noteq> policy_generation
        \<or> observed_at < ch_issued_at before
     then Inl Binding
     else if ch_state before \<noteq> ChallengePending then Inr (AuthorizationExactReplay before, db) else
     let evidence = \<lparr>ev_correlation = rb_correlation request_binding, ev_occurred_at = observed_at,
       ev_operation_id = Some operation_id\<rparr> in
     r_bind (on_governance db (govern_rate_attempt (sha256 cr) (n_gov db) policy RateChallengeAuthorization
         [SubjectConnection connection_id] evidence AuditChallengeAuthorization)) (\<lambda>(admitted, db1).
     if \<not> admitted then Inr (AuthorizationRateLimited, db1)
     else resolve_pending cr db1 challenge_id connection_id operation_id policy_generation observed_at
       (challenge_expired before connection observed_at) evidence))))"

definition apply_admin_challenge_require ::
    "crates \<Rightarrow> connection_db \<Rightarrow> MycAuthorizationChallengeRequest \<Rightarrow> MycRateLimitPolicy
      \<Rightarrow> (AdminJournalOperationError, MycAuthorizationChallengeRecord \<times> connection_db) result" where
  "apply_admin_challenge_require cr db request policy =
     r_bind (map_err admin_error (issue_challenge cr db request policy)) (\<lambda>(admission, db1).
     case admission of
       ChallengeCreated record \<Rightarrow> Inr (record, db1)
     | ChallengeExactReplay record \<Rightarrow> Inr (record, db1)
     | ChallengeRateLimited \<Rightarrow> Inl AdminResourceExhausted)"

definition apply_admin_challenge_authorize ::
    "crates \<Rightarrow> connection_db \<Rightarrow> bytes \<Rightarrow> nat \<Rightarrow> nat \<Rightarrow> MycRateLimitPolicy
      \<Rightarrow> (AdminJournalOperationError, MycAuthorizationChallengeRecord \<times> connection_db) result" where
  "apply_admin_challenge_authorize cr db challenge_id policy_generation observed_at policy =
     r_bind (case take 2 (filter (\<lambda>h. h_challenge_id h = challenge_id) (n_challenges db)) of
         [row] \<Rightarrow> map_err admin_error (exact_digest (only_if (length (h_operation_id row) = 32) (h_operation_id row)))
       | _ \<Rightarrow> Inl AdminBinding) (\<lambda>operation_id.
     r_bind (r_bind (map_err admin_error (read_challenge cr db operation_id)) (ok_or AdminBinding)) (\<lambda>before.
     if ch_policy_generation before \<noteq> policy_generation then Inl AdminConflict else
     r_bind (map_err admin_error (authorize_challenge cr db challenge_id (ch_connection_id before) (ch_operation_id before)
         policy_generation observed_at policy)) (\<lambda>(authorization, db1).
     case authorization of
       AuthorizationResolved record \<Rightarrow> Inr (record, db1)
     | AuthorizationExactReplay record \<Rightarrow> Inr (record, db1)
     | AuthorizationRateLimited \<Rightarrow> Inl AdminResourceExhausted)))"

section \<open>The repository\<close>

text \<open>What the repository expects (\<open>MycStateMetadata\<close>): the stored binding and the configured policies.\<close>

record MycStateMetadata =
  sm_binding :: PersistedMetadata
  sm_governance :: MycGovernancePolicies
  sm_authorization :: MycConnectionPolicies

definition in_transaction ::
    "MycStateMetadata \<Rightarrow> connection_db \<Rightarrow> (OperationError, 'a \<times> connection_db) result
      \<Rightarrow> (OperationError, 'a \<times> connection_db) result" where
  "in_transaction expected db body = r_bind (governance_verify_metadata (n_gov db) (sm_binding expected)) (\<lambda>_. body)"

definition repository_admit_connection ::
    "crates \<Rightarrow> MycStateMetadata \<Rightarrow> connection_db \<Rightarrow> MycConnectionAdmissionRequest
      \<Rightarrow> (OperationError, MycConnectionAdmission \<times> connection_db) result" where
  "repository_admit_connection cr expected db request =
     (if \<not> admits_relay (sm_governance expected) (car_relay_id request)
         \<or> \<not> admits_connection_request (sm_authorization expected) request
      then Inl Binding
      else in_transaction expected db (admit_connection cr db request
        (if car_policy request \<noteq> PolicyDenied
         then Some (rate_policy (sm_governance expected) RateConnectionAdmission) else None)))"

definition decide_pending_connection ::
    "crates \<Rightarrow> MycStateMetadata \<Rightarrow> connection_db \<Rightarrow> bytes \<Rightarrow> bytes \<Rightarrow> nat \<Rightarrow> nat \<Rightarrow> bytes
      \<Rightarrow> MycConnectionOperatorDecision \<Rightarrow> (OperationError, MycConnectionRecord \<times> connection_db) result" where
  "decide_pending_connection cr expected db operation_id connection_id policy_generation observed_at audit_correlation decision =
     (if \<not> admits_operator_decision (sm_authorization expected) observed_at decision then Inl Binding
      else in_transaction expected db
        (decide_connection cr db operation_id connection_id policy_generation observed_at audit_correlation decision))"

definition repository_expire_connection ::
    "crates \<Rightarrow> MycStateMetadata \<Rightarrow> connection_db \<Rightarrow> bytes \<Rightarrow> nat \<Rightarrow> nat \<Rightarrow> bytes
      \<Rightarrow> (OperationError, MycConnectionRecord \<times> connection_db) result" where
  "repository_expire_connection cr expected db connection_id policy_generation observed_at audit_correlation =
     in_transaction expected db (expire_connection cr db connection_id policy_generation observed_at audit_correlation)"

definition issue_authorization_challenge ::
    "crates \<Rightarrow> MycStateMetadata \<Rightarrow> connection_db \<Rightarrow> MycAuthorizationChallengeRequest
      \<Rightarrow> (OperationError, MycAuthorizationChallengeAdmission \<times> connection_db) result" where
  "issue_authorization_challenge cr expected db request =
     (if \<not> admits_challenge_request (sm_authorization expected) request then Inl Binding
      else in_transaction expected db
        (issue_challenge cr db request (rate_policy (sm_governance expected) RateChallengeCreation)))"

text \<open>
  The check of the result comes after the commit, so an error of it does not undo the transaction: the operation
  returns its answer and the database it leaves.
\<close>

definition repository_authorize_challenge ::
    "crates \<Rightarrow> MycStateMetadata \<Rightarrow> connection_db \<Rightarrow> bytes \<Rightarrow> bytes \<Rightarrow> bytes \<Rightarrow> nat \<Rightarrow> nat
      \<Rightarrow> (OperationError, MycAuthorizationChallengeAuthorization) result \<times> connection_db" where
  "repository_authorize_challenge cr expected db challenge_id connection_id operation_id policy_generation observed_at =
     (case in_transaction expected db (authorize_challenge cr db challenge_id connection_id operation_id policy_generation
         observed_at (rate_policy (sm_governance expected) RateChallengeAuthorization)) of
        Inl e \<Rightarrow> (Inl e, db)
      | Inr (result, db1) \<Rightarrow>
          if (case authorization_record result of
                Some record \<Rightarrow> ch_state record = ChallengeAuthorized
                  \<and> \<not> challenge_is_current (sm_authorization expected) record observed_at
              | None \<Rightarrow> False)
          then (Inl Binding, db1) else (Inr result, db1))"

definition read_active_connection_for_client ::
    "crates \<Rightarrow> MycStateMetadata \<Rightarrow> connection_db \<Rightarrow> string \<Rightarrow> nat \<Rightarrow> (OperationError, MycConnectionRecord option) result" where
  "read_active_connection_for_client cr expected db client observed_at =
     r_bind (governance_verify_metadata (n_gov db) (sm_binding expected)) (\<lambda>_.
     case take 2 (sort_key (\<lambda>c. (- c_updated_at_unix_ms c, c_connection_id c)) (filter (\<lambda>c. c_client_public_key c = client
         \<and> c_status c = ''active''
         \<and> (case c_authorized_until_unix_ms c of None \<Rightarrow> True | Some until \<Rightarrow> int observed_at \<le> until)) (n_connections db))) of
       [] \<Rightarrow> Inr None
     | [row] \<Rightarrow> r_bind (exact_digest (only_if (length (c_connection_id row) = 32) (c_connection_id row))) (\<lambda>connection_id.
         r_bind (read_connection cr db connection_id) (\<lambda>c. Inr (Some c)))
     | _ \<Rightarrow> Inl Binding)"

definition read_connection_decision ::
    "crates \<Rightarrow> MycStateMetadata \<Rightarrow> connection_db \<Rightarrow> bytes \<Rightarrow> (OperationError, MycConnectionDecisionRecord) result" where
  "read_connection_decision cr expected db operation_id =
     r_bind (governance_verify_metadata (n_gov db) (sm_binding expected)) (\<lambda>_.
     r_bind (r_bind (read_decision db operation_id) (ok_or Binding)) (decision_record cr db operation_id))"

end
