(* ===== verification/Connection_Invariant.thy ===== *)
theory Connection_Invariant
  imports Connection_Operations
begin

text \<open>
  The invariant of the connection tables, and what the readers of \<^verbatim>\<open>src/src/state_connection.rs\<close> return in a state that
  satisfies it: every stored connection, decision and challenge is read back without an error.
\<close>

section \<open>Stored permissions\<close>

definition codes_of :: "permission_row list \<Rightarrow> bytes \<Rightarrow> string \<Rightarrow> string list" where
  "codes_of ps connection_id scope =
     map p_permission_code (filter (\<lambda>p. p_connection_id p = connection_id \<and> p_permission_scope p = scope) ps)"

definition stored_permissions :: "permission_row list \<Rightarrow> bytes \<Rightarrow> string \<Rightarrow> MycConnectionPermission list" where
  "stored_permissions ps connection_id scope = map (\<lambda>code. the (permission_parse code)) (codes_of ps connection_id scope)"

definition seal :: "(bytes \<Rightarrow> bytes) \<Rightarrow> MycConnectionPermission list \<Rightarrow> MycConnectionPermissionSet" where
  "seal sha permissions = \<lparr>ps_permissions = permissions, ps_digest = permission_digest sha permissions\<rparr>"

definition permissions_ok :: "permission_row list \<Rightarrow> bytes \<Rightarrow> string \<Rightarrow> bool" where
  "permissions_ok ps connection_id scope \<longleftrightarrow>
     codes_of ps connection_id scope = map permission_code (stored_permissions ps connection_id scope)
     \<and> sorted (stored_permissions ps connection_id scope) \<and> distinct (stored_permissions ps connection_id scope)
     \<and> length (stored_permissions ps connection_id scope) \<le> 64"

definition permission_rows :: "bytes \<Rightarrow> string \<Rightarrow> MycConnectionPermission list \<Rightarrow> permission_row list" where
  "permission_rows connection_id scope permissions = map (\<lambda>permission. \<lparr>p_connection_id = connection_id,
     p_permission_scope = scope, p_permission_code = permission_code permission\<rparr>) permissions"

lemma codes_of_append: "codes_of (ps @ qs) i scope = codes_of ps i scope @ codes_of qs i scope"
  by (simp add: codes_of_def)

lemma codes_of_rows:
  "codes_of (permission_rows i scope permissions) j scope' =
     (if i = j \<and> scope = scope' then map permission_code permissions else [])"
  by (induction permissions) (auto simp: codes_of_def permission_rows_def)

lemma codes_of_other: "(\<And>p. p \<in> set ps \<Longrightarrow> p_connection_id p \<noteq> i) \<Longrightarrow> codes_of ps i scope = []"
  by (auto simp: codes_of_def filter_empty_conv)

lemma stored_codes:
  "codes_of ps i scope = map permission_code permissions \<Longrightarrow> stored_permissions ps i scope = permissions"
  by (simp add: stored_permissions_def permission.parse_as_str comp_def)

lemma permissions_ok_codes:
  assumes "codes_of ps i scope = map permission_code (ps_permissions s)" and "permission_set_ok sha s"
  shows "permissions_ok ps i scope" and "seal sha (stored_permissions ps i scope) = s"
  using assms by (simp_all add: permissions_ok_def stored_codes permission_set_ok_def connection_limits seal_def)

lemma seal_ok: "permissions_ok ps i scope \<Longrightarrow> permission_set_ok sha (seal sha (stored_permissions ps i scope))"
  by (simp add: permissions_ok_def permission_set_ok_def seal_def connection_limits)

lemma length_u32_to_string: "n < 10 ^ Suc k \<Longrightarrow> length (u32_to_string n) \<le> Suc k"
proof (induction k arbitrary: n)
  case (Suc k)
  then have "n div 10 < 10 ^ Suc k" by (simp add: less_mult_imp_div_less mult.commute)
  with Suc.IH show ?case by (subst u32_to_string.simps) simp
qed (subst u32_to_string.simps, simp)

lemma permission_code_length: "1 \<le> length (permission_code p) \<and> length (permission_code p) \<le> 64"
proof (cases p)
  case (PermSignEvent kind)
  have "unat kind < 10 ^ Suc 9" using unat_u32_max [of kind] by (simp add: u32_max_def)
  then have "length (u32_to_string (unat kind)) \<le> 10" using length_u32_to_string by fastforce
  with PermSignEvent show ?thesis by simp
qed simp_all

section \<open>Columns that are well formed are read\<close>

lemma exact_digest_32 [simp]: "length b = 32 \<Longrightarrow> exact_digest (only_if True b) = Inr b"
  by (simp add: exact_digest_def only_if_def)

lemma nullable_digest_32: "(\<And>b. column = Some b \<Longrightarrow> length b = 32) \<Longrightarrow> nullable_digest column = Inr column"
  by (cases column) (auto simp: nullable_digest_def)

lemma connection_time_ok: "sql_time v \<Longrightarrow> connection_time v = Inr (nat v)"
  by (auto simp: connection_time_def sql_time_def connection_time_new_def i64_of_nat_def u64_of_int_def int_width_defs)

lemma generation_ok: "sql_time v \<Longrightarrow> generation v = Inr (nat v)"
  by (auto simp: generation_def sql_time_def policy_generation_new_def i64_of_nat_def u64_of_int_def int_width_defs)

lemma nullable_time_ok: "(\<And>v. column = Some v \<Longrightarrow> sql_time v) \<Longrightarrow> nullable_time column = Inr (map_option nat column)"
  by (cases column) (auto simp: nullable_time_def connection_time_ok)

lemma client_column_ok: "client_public_key_new cr k = Inr k \<Longrightarrow> client_column cr k = Inr k"
  using client_public_key_new_Inr [of cr k k] by (simp add: client_column_def only_if_def connection_text_def)

lemma connection_text_ok [simp]: "b \<Longrightarrow> connection_text (only_if b s) = Inr s"
  by (simp add: connection_text_def only_if_def)

lemma read_permissions_ok:
  assumes "permissions_ok (n_permissions db) i scope"
  shows "read_permissions cr db i scope = Inr (seal (sha256 cr) (stored_permissions (n_permissions db) i scope))"
proof -
  let ?rows = "filter (\<lambda>p. p_connection_id p = i \<and> p_permission_scope p = scope) (n_permissions db)"
  let ?perms = "stored_permissions (n_permissions db) i scope"
  let ?f = "\<lambda>row. r_bind (connection_text (only_if (1 \<le> length (p_permission_code row)
           \<and> length (p_permission_code row) \<le> 64) (p_permission_code row)))
         (\<lambda>value. ok_or Binding (permission_parse value))"
  have codes: "map p_permission_code ?rows = map permission_code ?perms"
    using assms by (simp add: permissions_ok_def codes_of_def)
  then have len: "length ?rows = length ?perms" by (metis length_map)
  have "?f row = Inr (the (permission_parse (p_permission_code row)))" if "row \<in> set ?rows" for row
  proof -
    from that have "p_permission_code row \<in> set (map permission_code ?perms)" unfolding codes [symmetric] by simp
    then obtain p where "p_permission_code row = permission_code p" by auto
    then show ?thesis using permission_code_length [of p] by (simp add: permission.parse_as_str)
  qed
  then have "collect ?f ?rows = Inr (map (\<lambda>row. the (permission_parse (p_permission_code row))) ?rows)"
    by (rule collect_Inr_map)
  moreover have "map (\<lambda>row. the (permission_parse (p_permission_code row))) ?rows = ?perms"
    by (simp add: stored_permissions_def codes_of_def)
  moreover have "permission_set_new (sha256 cr) ?perms = Inr (seal (sha256 cr) ?perms)"
    using permission_set_again [OF seal_ok [OF assms, of "sha256 cr"]] by (simp add: seal_def)
  ultimately show ?thesis
    using len assms by (simp add: read_permissions_def Let_def permissions_ok_def connection_limits)
qed

section \<open>The invariant\<close>

definition connection_ok :: "crates \<Rightarrow> permission_row list \<Rightarrow> connection_row \<Rightarrow> bool" where
  "connection_ok cr ps c \<longleftrightarrow>
     connections_check c
     \<and> client_public_key_new cr (c_client_public_key c) = Inr (c_client_public_key c)
     \<and> derive_connection_id (sha256 cr) (c_client_public_key c) (c_connection_nonce c) = c_connection_id c
     \<and> permissions_ok ps (c_connection_id c) ''requested'' \<and> permissions_ok ps (c_connection_id c) ''granted''
     \<and> c_requested_permissions_sha256 c = permission_digest (sha256 cr) (stored_permissions ps (c_connection_id c) ''requested'')
     \<and> set (stored_permissions ps (c_connection_id c) ''granted'') \<subseteq> set (stored_permissions ps (c_connection_id c) ''requested'')
     \<and> (c_status c \<in> {''pending'', ''denied''} \<longrightarrow> codes_of ps (c_connection_id c) ''granted'' = [])
     \<and> (\<forall>until. c_authorized_until_unix_ms c = Some until \<longrightarrow> c_updated_at_unix_ms c < until)"

text \<open>How the status of a connection goes with the reason of the decision that admitted it.\<close>

definition admission_matches :: "string \<Rightarrow> string \<Rightarrow> bool" where
  "admission_matches reason status \<longleftrightarrow>
     (reason \<in> {''trusted_client'', ''operator_approved''} \<and> status \<in> {''active'', ''expired''})
     \<or> (reason = ''explicit_approval_required'' \<and> status \<in> {''pending'', ''denied''})
     \<or> (reason = ''operator_denied'' \<and> status = ''denied'')"

definition challenge_matches :: "string \<Rightarrow> string \<Rightarrow> bool" where
  "challenge_matches decision state \<longleftrightarrow>
     (decision = ''challenged'' \<and> state \<in> {''pending'', ''expired''})
     \<or> (decision = ''allowed'' \<and> state = ''authorized'') \<or> (decision = ''denied'' \<and> state = ''expired'')"

definition decision_ok :: "connection_db \<Rightarrow> decision_row \<Rightarrow> bool" where
  "decision_ok db d \<longleftrightarrow>
     nip46_request_decisions_check d
     \<and> (\<forall>i. d_connection_id d = Some i \<longrightarrow> (\<exists>c\<in>set (n_connections db). c_connection_id c = i
          \<and> c_policy_generation c = d_policy_generation d
          \<and> c_requested_permissions_sha256 c = d_requested_permissions_sha256 d
          \<and> (d_challenge_id d = None \<longrightarrow> admission_matches (d_reason_code d) (c_status c))))
     \<and> (\<forall>i. d_challenge_id d = Some i \<longrightarrow> (\<exists>h\<in>set (n_challenges db). h_challenge_id h = i
          \<and> h_operation_id h = d_operation_id d \<and> Some (h_connection_id h) = d_connection_id d
          \<and> challenge_matches (d_decision d) (h_state h)))"

definition challenge_ok :: "crates \<Rightarrow> connection_db \<Rightarrow> challenge_row \<Rightarrow> bool" where
  "challenge_ok cr db h \<longleftrightarrow>
     connection_auth_challenges_check h
     \<and> derive_challenge_id (sha256 cr) (h_operation_id h) (h_connection_id h) (h_challenge_nonce h) = h_challenge_id h
     \<and> challenge_url_new cr (h_challenge_url h) = Inr (h_challenge_url h)
     \<and> (h_state h = ''authorized'' \<longrightarrow> (\<exists>r. h_resolved_at_unix_ms h = Some r \<and> r \<le> h_expires_at_unix_ms h))
     \<and> (\<exists>c\<in>set (n_connections db). \<exists>q\<in>set (n_requests db). c_connection_id c = h_connection_id h
          \<and> q_operation_id q = h_operation_id h \<and> c_policy_generation c = h_policy_generation h
          \<and> q_method q \<noteq> ''connect'' \<and> q_client_public_key q = c_client_public_key c)
     \<and> (\<exists>d\<in>set (n_decisions db). d_operation_id d = h_operation_id h \<and> d_challenge_id d = Some (h_challenge_id h))"

definition admission_decision_of :: "decision_row \<Rightarrow> bool" where
  "admission_decision_of d \<longleftrightarrow> d_connection_id d \<noteq> None \<and> d_challenge_id d = None"

definition request_ok :: "crates \<Rightarrow> request_row \<Rightarrow> bool" where
  "request_ok cr q \<longleftrightarrow> nip46_requests_check q \<and> client_public_key_new cr (q_client_public_key q) = Inr (q_client_public_key q)"

definition connection_inv :: "crates \<Rightarrow> connection_db \<Rightarrow> bool" where
  "connection_inv cr db \<longleftrightarrow>
     governance_inv (n_gov db) \<and> g_requests (n_gov db) = map request_key (n_requests db)
     \<and> (\<forall>q\<in>set (n_requests db). request_ok cr q) \<and> distinct (map q_operation_id (n_requests db))
     \<and> (\<forall>c\<in>set (n_connections db). connection_ok cr (n_permissions db) c) \<and> distinct (map c_connection_id (n_connections db))
     \<and> (\<forall>p\<in>set (n_permissions db). p_connection_id p \<in> c_connection_id ` set (n_connections db))
     \<and> (\<forall>d\<in>set (n_decisions db). decision_ok db d) \<and> distinct (map d_operation_id (n_decisions db))
     \<and> distinct (map d_connection_id (filter admission_decision_of (n_decisions db)))
     \<and> (\<forall>c\<in>set (n_connections db). \<exists>d\<in>set (n_decisions db). admission_decision_of d \<and> d_connection_id d = Some (c_connection_id c))
     \<and> (\<forall>h\<in>set (n_challenges db). challenge_ok cr db h) \<and> distinct (map h_operation_id (n_challenges db))
     \<and> distinct (map h_challenge_id (n_challenges db))"

lemma connection_invD:
  assumes "connection_inv cr db"
  shows "governance_inv (n_gov db)" and "g_requests (n_gov db) = map request_key (n_requests db)"
    and "\<And>q. q \<in> set (n_requests db) \<Longrightarrow> request_ok cr q" and "distinct (map q_operation_id (n_requests db))"
    and "\<And>c. c \<in> set (n_connections db) \<Longrightarrow> connection_ok cr (n_permissions db) c"
    and "distinct (map c_connection_id (n_connections db))"
    and "\<And>p. p \<in> set (n_permissions db) \<Longrightarrow> p_connection_id p \<in> c_connection_id ` set (n_connections db)"
    and "\<And>d. d \<in> set (n_decisions db) \<Longrightarrow> decision_ok db d" and "distinct (map d_operation_id (n_decisions db))"
    and "distinct (map d_connection_id (filter admission_decision_of (n_decisions db)))"
    and "\<And>c. c \<in> set (n_connections db) \<Longrightarrow>
      \<exists>d\<in>set (n_decisions db). admission_decision_of d \<and> d_connection_id d = Some (c_connection_id c)"
    and "\<And>h. h \<in> set (n_challenges db) \<Longrightarrow> challenge_ok cr db h" and "distinct (map h_operation_id (n_challenges db))"
    and "distinct (map h_challenge_id (n_challenges db))"
  using assms by (simp_all add: connection_inv_def)

section \<open>What is read\<close>

definition connection_record :: "crates \<Rightarrow> permission_row list \<Rightarrow> connection_row \<Rightarrow> MycConnectionRecord" where
  "connection_record cr ps c = \<lparr>cr_id = c_connection_id c, cr_client_public_key = c_client_public_key c,
     cr_requested_permissions = seal (sha256 cr) (stored_permissions ps (c_connection_id c) ''requested''),
     cr_granted_permissions = seal (sha256 cr) (stored_permissions ps (c_connection_id c) ''granted''),
     cr_policy_generation = nat (c_policy_generation c), cr_status = the (connection_status_parse (c_status c)),
     cr_created_at = nat (c_created_at_unix_ms c), cr_updated_at = nat (c_updated_at_unix_ms c),
     cr_authorized_until = map_option nat (c_authorized_until_unix_ms c)\<rparr>"

lemma take_filter_unique:
  "distinct (map key xs) \<Longrightarrow> x \<in> set xs \<Longrightarrow> take (Suc (Suc n)) (filter (\<lambda>r. key r = key x) xs) = [x]"
  by (simp add: filter_unique)

lemma connection_status_cases:
  assumes "c_status c \<in> {''pending'', ''active'', ''denied'', ''expired''}"
  shows "\<exists>s. c_status c = connection_status_as_str s \<and> connection_status_parse (c_status c) = Some s \<and> length (c_status c) \<le> 16"
  using assms by (auto simp: connection_status_parse_def
    intro: exI [of _ ConnectionPending] exI [of _ ConnectionActive] exI [of _ ConnectionDenied] exI [of _ ConnectionExpired])

lemma read_connection_row:
  assumes ok: "connection_ok cr (n_permissions db) c" and in_db: "c \<in> set (n_connections db)"
    and distinct: "distinct (map c_connection_id (n_connections db))"
  shows "read_connection cr db (c_connection_id c) = Inr (connection_record cr (n_permissions db) c)"
proof -
  have rows: "take 2 (filter (\<lambda>q. c_connection_id q = c_connection_id c) (n_connections db)) = [c]"
    using take_filter_unique [OF distinct in_db, of 0] by (simp add: numeral_2_eq_2)
  have ck: "connections_check c" using ok by (simp add: connection_ok_def)
  obtain s where s: "c_status c = connection_status_as_str s" "connection_status_parse (c_status c) = Some s" "length (c_status c) \<le> 16"
    using connection_status_cases [of c] ck by (auto simp: connections_check_def)
  have t: "sql_time (c_policy_generation c)" "sql_time (c_created_at_unix_ms c)" "sql_time (c_updated_at_unix_ms c)"
    "\<And>v. c_authorized_until_unix_ms c = Some v \<Longrightarrow> sql_time v"
    using ck by (auto simp: connections_check_def sql_time_def)
  have R: "permissions_ok (n_permissions db) (c_connection_id c) ''requested''" "permissions_ok (n_permissions db) (c_connection_id c) ''granted''"
    using ok by (simp_all add: connection_ok_def)
  have sub: "is_subset_of (seal (sha256 cr) (stored_permissions (n_permissions db) (c_connection_id c) ''granted''))
      (seal (sha256 cr) (stored_permissions (n_permissions db) (c_connection_id c) ''requested''))"
    using ok is_subset_of_ok [OF seal_ok [OF R(1)]] by (simp add: connection_ok_def seal_def)
  have granted: "\<not> ((s = ConnectionPending \<or> s = ConnectionDenied)
      \<and> ps_permissions (seal (sha256 cr) (stored_permissions (n_permissions db) (c_connection_id c) ''granted'')) \<noteq> [])"
    using ok s(1) by (auto simp: connection_ok_def stored_permissions_def seal_def)
  have until: "\<not> (case map_option nat (c_authorized_until_unix_ms c) of Some u \<Rightarrow> u \<le> nat (c_updated_at_unix_ms c) | None \<Rightarrow> False)"
    using ok t(3,4) by (cases "c_authorized_until_unix_ms c") (auto simp: connection_ok_def sql_time_def)
  have late: "\<not> ((s = ConnectionDenied \<or> s = ConnectionExpired) \<and> c_authorized_until_unix_ms c \<noteq> None)"
    using ck s(1) by (auto simp: connections_check_def)
  have upd: "\<not> nat (c_updated_at_unix_ms c) < nat (c_created_at_unix_ms c)" using ck by (auto simp: connections_check_def)
  have lens: "length (c_connection_id c) = 32" "length (c_connection_nonce c) = 32" "length (c_requested_permissions_sha256 c) = 32"
    using ck by (simp_all add: connections_check_def)
  have key: "client_column cr (c_client_public_key c) = Inr (c_client_public_key c)"
    "derive_connection_id (sha256 cr) (c_client_public_key c) (c_connection_nonce c) = c_connection_id c"
    "ps_digest (seal (sha256 cr) (stored_permissions (n_permissions db) (c_connection_id c) ''requested'')) = c_requested_permissions_sha256 c"
    using ok by (simp_all add: connection_ok_def client_column_ok seal_def)
  show ?thesis
    using granted until late upd sub
    by (simp add: read_connection_def rows Let_def lens key s(2,3) read_permissions_ok [OF R(1)] read_permissions_ok [OF R(2)]
      generation_ok t(1) connection_time_ok t(2,3) nullable_time_ok [OF t(4)] connection_record_def)
qed

lemma read_connection_inv:
  assumes "connection_inv cr db" and "c \<in> set (n_connections db)"
  shows "read_connection cr db (c_connection_id c) = Inr (connection_record cr (n_permissions db) c)"
  using read_connection_row [OF connection_invD(5) [OF assms] assms(2) connection_invD(6) [OF assms(1)]] .

lemma read_connection_Inr:
  assumes "connection_inv cr db" and "read_connection cr db i = Inr r"
  obtains c where "c \<in> set (n_connections db)" "c_connection_id c = i" "r = connection_record cr (n_permissions db) c"
proof -
  have "filter (\<lambda>c. c_connection_id c = i) (n_connections db) \<noteq> []"
    using assms(2) by (auto simp: read_connection_def Let_def split: if_splits)
  then obtain c where c: "c \<in> set (n_connections db)" "c_connection_id c = i" by (auto simp: filter_empty_conv)
  with read_connection_inv [OF assms(1) c(1)] assms(2) that show thesis by auto
qed

lemma method_cases:
  assumes "nip46_requests_check q"
  obtains m where "q_method q = method_as_str m" "method_parse (q_method q) = Some m" "1 \<le> length (q_method q)" "length (q_method q) \<le> 32"
proof -
  have "method_parse (q_method q) \<noteq> None" "1 \<le> length (q_method q)" "length (q_method q) \<le> 32"
    using assms by (auto simp: nip46_requests_check_def method_parse_def)
  then show thesis using that signer_method.as_str_parse by (metis option.exhaust)
qed

definition request_binding_of :: "request_row \<Rightarrow> RequestBinding" where
  "request_binding_of q = \<lparr>rb_correlation = q_correlation_id q, rb_client_public_key = q_client_public_key q,
     rb_method = the (method_parse (q_method q)), rb_received_at = nat (q_received_at_unix_ms q)\<rparr>"

lemma read_request_binding_inv:
  assumes "connection_inv cr db" and "q \<in> set (n_requests db)"
  shows "read_request_binding cr db (q_operation_id q) = Inr (request_binding_of q)"
proof -
  have rows: "take 2 (filter (\<lambda>r. q_operation_id r = q_operation_id q) (n_requests db)) = [q]"
    using take_filter_unique [OF connection_invD(4) [OF assms(1)] assms(2), of 0] by (simp add: numeral_2_eq_2)
  have ck: "nip46_requests_check q" "client_public_key_new cr (q_client_public_key q) = Inr (q_client_public_key q)"
    using connection_invD(3) [OF assms] by (simp_all add: request_ok_def)
  have "length (q_correlation_id q) = 32" "sql_time (q_received_at_unix_ms q)" using ck(1) by (simp_all add: nip46_requests_check_def)
  moreover obtain m where "method_parse (q_method q) = Some m" "1 \<le> length (q_method q)" "length (q_method q) \<le> 32"
    using ck(1) by (rule method_cases)
  ultimately show ?thesis
    by (simp add: read_request_binding_def rows Let_def client_column_ok ck(2) connection_time_ok request_binding_of_def only_if_def
      exact_digest_def)
qed

lemma read_request_binding_Inr:
  assumes "connection_inv cr db" and "read_request_binding cr db i = Inr b"
  obtains q where "q \<in> set (n_requests db)" "q_operation_id q = i" "b = request_binding_of q"
proof -
  have "filter (\<lambda>q. q_operation_id q = i) (n_requests db) \<noteq> []"
    using assms(2) by (auto simp: read_request_binding_def Let_def split: if_splits)
  then obtain q where q: "q \<in> set (n_requests db)" "q_operation_id q = i" by (auto simp: filter_empty_conv)
  with read_request_binding_inv [OF assms(1) q(1)] assms(2) that show thesis by auto
qed

definition persisted_decision :: "decision_row \<Rightarrow> PersistedDecision" where
  "persisted_decision d = \<lparr>pd_connection_id = d_connection_id d, pd_decision = the (decision_parse (d_decision d)),
     pd_policy_generation = nat (d_policy_generation d), pd_requested_permissions_sha256 = d_requested_permissions_sha256 d,
     pd_challenge_id = d_challenge_id d, pd_decided_at = nat (d_decided_at_unix_ms d),
     pd_admission_policy = (if d_reason_code d = ''trusted_client'' then Some PolicyTrusted
       else if d_reason_code d = ''policy_denied'' then Some PolicyDenied
       else if d_challenge_id d = None then Some PolicyExplicitApproval else None)\<rparr>"

lemma decision_spelled:
  assumes "nip46_request_decisions_check d"
  shows "connection_text (only_if (length (d_decision d) \<le> 32) (d_decision d)) = Inr (d_decision d)"
    and "connection_text (only_if (length (d_reason_code d) \<le> 40) (d_reason_code d)) = Inr (d_reason_code d)"
    and "\<exists>x. decision_parse (d_decision d) = Some x
      \<and> parsed_shape x (d_reason_code d) (d_connection_id d) (d_challenge_id d)"
    and "parse_admission_policy (d_reason_code d) = Inr (pd_admission_policy (persisted_decision d))"
proof -
  have "length (d_decision d) \<le> 32" "length (d_reason_code d) \<le> 40"
    using assms by (auto simp: nip46_request_decisions_check_def)
  then show "connection_text (only_if (length (d_decision d) \<le> 32) (d_decision d)) = Inr (d_decision d)"
    and "connection_text (only_if (length (d_reason_code d) \<le> 40) (d_reason_code d)) = Inr (d_reason_code d)" by simp_all
  have shape: "decision_shape (d_decision d) (d_reason_code d) (d_connection_id d \<noteq> None) (d_challenge_id d \<noteq> None)"
    using assms by (simp add: nip46_request_decisions_check_def)
  then show "\<exists>x. decision_parse (d_decision d) = Some x
      \<and> parsed_shape x (d_reason_code d) (d_connection_id d) (d_challenge_id d)"
    by (auto simp: decision_shape_def decision_parse_def parsed_shape_def)
  show "parse_admission_policy (d_reason_code d) = Inr (pd_admission_policy (persisted_decision d))"
    using shape by (auto simp: decision_shape_def parse_admission_policy_def persisted_decision_def)
qed

lemma parse_decision_ok:
  assumes "nip46_request_decisions_check d"
  shows "parse_decision d = Inr (persisted_decision d)"
proof -
  note spelled = decision_spelled [OF assms]
  obtain x where x: "decision_parse (d_decision d) = Some x" "parsed_shape x (d_reason_code d) (d_connection_id d) (d_challenge_id d)"
    using spelled(3) by blast
  have D: "nullable_digest (d_connection_id d) = Inr (d_connection_id d)" "nullable_digest (d_challenge_id d) = Inr (d_challenge_id d)"
    using assms by (auto simp: nip46_request_decisions_check_def intro!: nullable_digest_32)
  have T: "sql_time (d_policy_generation d)" "sql_time (d_decided_at_unix_ms d)" "length (d_requested_permissions_sha256 d) = 32"
    using assms by (simp_all add: nip46_request_decisions_check_def)
  show ?thesis
    unfolding parse_decision_def D r_bind_simps spelled(1,2) x(1) ok_or_simps spelled(4)
    by (simp add: x T generation_ok connection_time_ok persisted_decision_def)
qed

lemma read_decision_present:
  assumes "connection_inv cr db" and "d \<in> set (n_decisions db)"
  shows "read_decision db (d_operation_id d) = Inr (Some (persisted_decision d))"
proof -
  have "take 2 (filter (\<lambda>r. d_operation_id r = d_operation_id d) (n_decisions db)) = [d]"
    using take_filter_unique [OF connection_invD(9) [OF assms(1)] assms(2), of 0] by (simp add: numeral_2_eq_2)
  moreover have "nip46_request_decisions_check d" using connection_invD(8) [OF assms] by (simp add: decision_ok_def)
  ultimately show ?thesis by (simp add: read_decision_def parse_decision_ok)
qed

lemma read_decision_absent:
  "\<forall>d\<in>set (n_decisions db). d_operation_id d \<noteq> i \<Longrightarrow> read_decision db i = Inr None"
  by (simp add: read_decision_def filter_empty_conv [THEN iffD2])

lemma read_decision_cases:
  assumes "connection_inv cr db"
  obtains (present) d where "d \<in> set (n_decisions db)" "d_operation_id d = i" "read_decision db i = Inr (Some (persisted_decision d))"
  | (absent) "\<forall>d\<in>set (n_decisions db). d_operation_id d \<noteq> i" "read_decision db i = Inr None"
  using read_decision_present [OF assms] read_decision_absent [of db i] by blast

definition challenge_record :: "challenge_row \<Rightarrow> MycAuthorizationChallengeRecord" where
  "challenge_record h = \<lparr>ch_id = h_challenge_id h, ch_operation_id = h_operation_id h, ch_connection_id = h_connection_id h,
     ch_policy_generation = nat (h_policy_generation h), ch_url = h_challenge_url h,
     ch_state = the (challenge_state_parse (h_state h)), ch_issued_at = nat (h_issued_at_unix_ms h),
     ch_expires_at = nat (h_expires_at_unix_ms h), ch_resolved_at = map_option nat (h_resolved_at_unix_ms h)\<rparr>"

lemma parse_challenge_ok:
  assumes ck: "connection_auth_challenges_check h"
    and "derive_challenge_id (sha256 cr) (h_operation_id h) (h_connection_id h) (h_challenge_nonce h) = h_challenge_id h"
    and "challenge_url_new cr (h_challenge_url h) = Inr (h_challenge_url h)"
  shows "parse_challenge cr h = Inr (challenge_record h)"
proof -
  have L: "length (h_challenge_id h) = 32" "length (h_challenge_nonce h) = 32" "length (h_connection_id h) = 32"
    "length (h_operation_id h) = 32" "Suc 0 \<le> length (h_challenge_url h)" "length (h_challenge_url h) \<le> 2048"
    using ck by (simp_all add: connection_auth_challenges_check_def)
  have T: "sql_time (h_policy_generation h)" "sql_time (h_issued_at_unix_ms h)" "sql_time (h_expires_at_unix_ms h)"
    "\<And>v. h_resolved_at_unix_ms h = Some v \<Longrightarrow> sql_time v"
    using ck by (auto simp: connection_auth_challenges_check_def sql_time_def)
  have O: "\<not> nat (h_expires_at_unix_ms h) \<le> nat (h_issued_at_unix_ms h)"
    "\<And>v. h_resolved_at_unix_ms h = Some v \<Longrightarrow> \<not> nat v < nat (h_issued_at_unix_ms h)"
    using ck by (auto simp: connection_auth_challenges_check_def sql_time_def)
  have "h_state h \<in> {''pending'', ''authorized'', ''expired''}" using ck by (simp add: connection_auth_challenges_check_def)
  then obtain s where s: "challenge_state_parse (h_state h) = Some s" "length (h_state h) \<le> 16"
    "(s = ChallengePending) = (h_state h = ''pending'')" by (auto simp: challenge_state_parse_def)
  have "\<not> (s = ChallengePending \<and> map_option nat (h_resolved_at_unix_ms h) \<noteq> None)"
    "\<not> (s \<noteq> ChallengePending \<and> (case map_option nat (h_resolved_at_unix_ms h) of None \<Rightarrow> True | Some r \<Rightarrow> r < nat (h_issued_at_unix_ms h)))"
    using ck s(3) O(2) by (auto simp: connection_auth_challenges_check_def split: option.splits)
  then show ?thesis
    using O(1) by (simp add: parse_challenge_def L T(1,2,3) nullable_time_ok [OF T(4)] generation_ok connection_time_ok s(1,2) assms(2,3)
      challenge_record_def)
qed

lemma read_challenge_present:
  assumes "connection_inv cr db" and "h \<in> set (n_challenges db)"
  shows "read_challenge cr db (h_operation_id h) = Inr (Some (challenge_record h))"
proof -
  have "take 2 (filter (\<lambda>r. h_operation_id r = h_operation_id h) (n_challenges db)) = [h]"
    using take_filter_unique [OF connection_invD(13) [OF assms(1)] assms(2), of 0] by (simp add: numeral_2_eq_2)
  moreover have "parse_challenge cr h = Inr (challenge_record h)"
    using connection_invD(12) [OF assms] by (intro parse_challenge_ok) (auto simp: challenge_ok_def)
  ultimately show ?thesis by (simp add: read_challenge_def)
qed

lemma read_challenge_absent:
  "\<forall>h\<in>set (n_challenges db). h_operation_id h \<noteq> i \<Longrightarrow> read_challenge cr db i = Inr None"
  by (simp add: read_challenge_def filter_empty_conv [THEN iffD2])

lemma read_challenge_cases:
  assumes "connection_inv cr db"
  obtains (present) h where "h \<in> set (n_challenges db)" "h_operation_id h = i" "read_challenge cr db i = Inr (Some (challenge_record h))"
  | (absent) "\<forall>h\<in>set (n_challenges db). h_operation_id h \<noteq> i" "read_challenge cr db i = Inr None"
  using read_challenge_present [OF assms] read_challenge_absent [of db i cr] by blast

end
