(* ===== verification/Connection_Effects.thy ===== *)
theory Connection_Effects
  imports Connection_Invariant
begin

text \<open>
  What each operation of the connection authority leaves behind when it commits: the tables after it, written out, and
  the governance tables after a run of governance transitions (a rate attempt, an audit record).
\<close>

section \<open>Statements that succeed\<close>

lemma guard_Inr: "(if b then Inl e else x) = Inr y \<longleftrightarrow> \<not> b \<and> x = Inr y"
  by simp

definition swap_row :: "'r \<Rightarrow> 'r \<Rightarrow> 'r list \<Rightarrow> 'r list" where
  "swap_row old new t = map (\<lambda>r. if r = old then new else r) t"

lemma in_swap_row: "r \<in> set (swap_row old new t) \<longleftrightarrow> (r = new \<and> old \<in> set t) \<or> (r \<in> set t \<and> r \<noteq> old)"
  by (auto simp: swap_row_def)

lemma swap_row_keys: "key new = key old \<Longrightarrow> map key (swap_row old new t) = map key t"
  by (auto simp: swap_row_def)

lemma filter_swap_row:
  "(P new \<longleftrightarrow> P old) \<Longrightarrow> filter P (swap_row old new t) = swap_row old new (filter P t)"
  by (induction t) (auto simp: swap_row_def)

lemma one_hit:
  assumes "length (filter whr t) = 1" and "c \<in> set t" and "whr c" and "r \<in> set t"
  shows "whr r \<longleftrightarrow> r = c"
proof -
  obtain x where "filter whr t = [x]" using assms(1) by (cases "filter whr t") auto
  then have "set (filter whr t) = {x}" by simp
  then have "\<And>y. y \<in> set t \<Longrightarrow> whr y \<longleftrightarrow> y = x" by auto
  with assms show ?thesis by blast
qed

lemma upd_row_one_hit:
  assumes "length (filter whr t) = 1" and "c \<in> set t" and "whr c"
  shows "map (upd_row whr f) t = swap_row c (f c) t"
  unfolding swap_row_def upd_row_def using one_hit [OF assms] by (intro map_cong) auto

lemma execute_insert:
  "connection_execute_one (insert_connection_sql r db) = Inr db' \<longleftrightarrow>
     connection_insert_legal (n_connections db) r \<and> db' = db\<lparr>n_connections := n_connections db @ [r]\<rparr>"
  "connection_execute_one (insert_permission_sql p db) = Inr db' \<longleftrightarrow>
     permission_insert_legal (n_connections db) (n_permissions db) p \<and> db' = db\<lparr>n_permissions := n_permissions db @ [p]\<rparr>"
  "connection_execute_one (insert_decision_sql d db) = Inr db' \<longleftrightarrow>
     decision_insert_legal db (n_decisions db) d \<and> db' = db\<lparr>n_decisions := n_decisions db @ [d]\<rparr>"
  "connection_execute_one (insert_challenge_sql h db) = Inr db' \<longleftrightarrow>
     challenge_insert_legal db (n_challenges db) h \<and> db' = db\<lparr>n_challenges := n_challenges db @ [h]\<rparr>"
  by (auto simp: connection_execute_one_def connection_require_one_def insert_connection_sql_def insert_permission_sql_def
    insert_decision_sql_def insert_challenge_sql_def r_bind_Inr_iff)

lemma execute_update_connections:
  assumes "connection_execute_one (update_connections whr f db) = Inr db'"
  obtains c where "c \<in> set (n_connections db)" "whr c" "connection_update_legal c (f c)"
    "db' = db\<lparr>n_connections := swap_row c (f c) (n_connections db)\<rparr>"
proof -
  obtain t n where u: "sql_update whr f connection_update_legal (n_connections db) = Some (t, n)" "n = 1" "db' = db\<lparr>n_connections := t\<rparr>"
    using assms by (auto simp: connection_execute_one_def connection_require_one_def update_connections_def r_bind_Inr_iff)
  note D = sql_update_SomeD [OF u(1)]
  obtain c where c: "c \<in> set (n_connections db)" "whr c"
    using D(2) u(2) by (metis filter_empty_conv length_0_conv zero_neq_one)
  with D u show thesis by (intro that [OF c]) (simp_all add: upd_row_one_hit)
qed

lemma execute_update_decisions:
  assumes "connection_execute_one (update_decisions whr f db) = Inr db'"
  obtains d where "d \<in> set (n_decisions db)" "whr d" "decision_update_legal d (f d)"
    "db' = db\<lparr>n_decisions := swap_row d (f d) (n_decisions db)\<rparr>"
proof -
  obtain t n where u: "sql_update whr f decision_update_legal (n_decisions db) = Some (t, n)" "n = 1" "db' = db\<lparr>n_decisions := t\<rparr>"
    using assms by (auto simp: connection_execute_one_def connection_require_one_def update_decisions_def r_bind_Inr_iff)
  note D = sql_update_SomeD [OF u(1)]
  obtain d where d: "d \<in> set (n_decisions db)" "whr d"
    using D(2) u(2) by (metis filter_empty_conv length_0_conv zero_neq_one)
  with D u show thesis by (intro that [OF d]) (simp_all add: upd_row_one_hit)
qed

lemma execute_update_challenges:
  assumes "connection_execute_one (update_challenges whr f db) = Inr db'"
  obtains h where "h \<in> set (n_challenges db)" "whr h" "challenge_update_legal h (f h)"
    "db' = db\<lparr>n_challenges := swap_row h (f h) (n_challenges db)\<rparr>"
proof -
  obtain t n where u: "sql_update whr f challenge_update_legal (n_challenges db) = Some (t, n)" "n = 1" "db' = db\<lparr>n_challenges := t\<rparr>"
    using assms by (auto simp: connection_execute_one_def connection_require_one_def update_challenges_def r_bind_Inr_iff)
  note D = sql_update_SomeD [OF u(1)]
  obtain h where h: "h \<in> set (n_challenges db)" "whr h"
    using D(2) u(2) by (metis filter_empty_conv length_0_conv zero_neq_one)
  with D u show thesis by (intro that [OF h]) (simp_all add: upd_row_one_hit)
qed

lemma insert_permission_list_Inr:
  "insert_permission_list i scope permissions db = Inr db' \<Longrightarrow>
     db' = db\<lparr>n_permissions := n_permissions db @ permission_rows i scope permissions\<rparr>"
proof (induction permissions arbitrary: db)
  case (Cons p permissions)
  let ?r = "\<lparr>p_connection_id = i, p_permission_scope = scope, p_permission_code = permission_code p\<rparr>"
  from Cons.prems have "insert_permission_list i scope permissions (db\<lparr>n_permissions := n_permissions db @ [?r]\<rparr>) = Inr db'"
    by (auto simp: r_bind_Inr_iff execute_insert)
  from Cons.IH [OF this] show ?case by (simp add: permission_rows_def)
qed (simp add: permission_rows_def)

section \<open>Governance runs\<close>

text \<open>Every governance call of a connection operation is a governance transition that leaves the stored requests alone.\<close>

definition gov_run :: "crates \<Rightarrow> governance_db \<Rightarrow> governance_db \<Rightarrow> bool" where
  "gov_run cr g g' \<longleftrightarrow> (governance_step (sha256 cr))\<^sup>*\<^sup>* g g' \<and> g_requests g' = g_requests g"

lemma gov_run_refl: "gov_run cr g g"
  by (simp add: gov_run_def)

lemma gov_run_trans: "gov_run cr g g' \<Longrightarrow> gov_run cr g' g'' \<Longrightarrow> gov_run cr g g''"
  by (auto simp: gov_run_def)

lemma gov_run_inv: "gov_run cr g g' \<Longrightarrow> governance_inv g \<Longrightarrow> governance_inv g'"
  using governance.steps_inv by (auto simp: gov_run_def)

lemma record_audit_run:
  assumes "governance_inv g" and "evidence_ok g ev kind" and "record_audit (sha256 cr) g ev kind outcome reason = Inr (r, g')"
  shows "gov_run cr g g'"
proof -
  have "governance_step (sha256 cr) g (snd (apply_event (sha256 cr) (AuditEvent ev kind outcome reason) g))"
    using assms(2) by (intro governance_step.event) simp
  then show ?thesis
    using assms record_audit_inv(3) [of g ev kind "sha256 cr" outcome reason r g'] by (simp add: gov_run_def governance_inv_def)
qed

lemma govern_run:
  assumes "governance_inv g" and "evidence_ok g ev kind" and "policy_ok policy" and "distinct (subject_keys (sha256 cr) policy subjects)"
    and run: "govern_rate_attempt (sha256 cr) g policy class subjects ev kind = Inr (admitted, g')"
  shows "gov_run cr g g'"
proof -
  have "class = rl_class policy" using run by (auto simp: govern_rate_attempt_def split: if_splits)
  moreover have "governance_step (sha256 cr) g (snd (apply_event (sha256 cr) (AttemptEvent policy subjects ev kind) g))"
    using assms(2,3,4) by (intro governance_step.event) simp
  ultimately have "governance_step (sha256 cr) g g'" using run by simp
  then show ?thesis
    using govern_inv(2) [OF assms(1,4) policy_okD(1) [OF assms(3)] assms(2) run] by (simp add: gov_run_def)
qed

lemma reads_gov [simp]:
  "read_connection cr (db\<lparr>n_gov := g\<rparr>) = read_connection cr db" "read_decision (db\<lparr>n_gov := g\<rparr>) = read_decision db"
  "read_challenge cr (db\<lparr>n_gov := g\<rparr>) = read_challenge cr db"
  "decision_record cr (db\<lparr>n_gov := g\<rparr>) = decision_record cr db"
proof -
  have frame: "n_connections (db\<lparr>n_gov := g\<rparr>) = n_connections db" "n_permissions (db\<lparr>n_gov := g\<rparr>) = n_permissions db"
    "n_decisions (db\<lparr>n_gov := g\<rparr>) = n_decisions db" "n_challenges (db\<lparr>n_gov := g\<rparr>) = n_challenges db" by simp_all
  show rc: "read_connection cr (db\<lparr>n_gov := g\<rparr>) = read_connection cr db"
    by (rule ext) (simp only: read_connection_def read_permissions_def frame)
  show "read_decision (db\<lparr>n_gov := g\<rparr>) = read_decision db" "read_challenge cr (db\<lparr>n_gov := g\<rparr>) = read_challenge cr db"
    by (rule ext, simp only: read_decision_def read_challenge_def frame)+
  show "decision_record cr (db\<lparr>n_gov := g\<rparr>) = decision_record cr db" by (rule ext)+ (simp only: decision_record_def rc)
qed

lemma on_governance_Inr:
  "on_governance db run = Inr (x, db') \<longleftrightarrow> (\<exists>g. run = Inr (x, g) \<and> db' = db\<lparr>n_gov := g\<rparr>)"
  by (auto simp: on_governance_def r_bind_Inr_iff)

lemma request_evidence:
  assumes "connection_inv cr db" and "q \<in> set (n_requests db)" and "0 < t" and "t \<le> i64_max"
    and "audit_kind_as_str kind \<in> bound_kinds"
  shows "evidence_ok (n_gov db) \<lparr>ev_correlation = q_correlation_id q, ev_occurred_at = t, ev_operation_id = Some (q_operation_id q)\<rparr> kind"
proof -
  have "request_key q \<in> set (g_requests (n_gov db))" using connection_invD(2) [OF assms(1)] assms(2) by simp
  moreover have "length (q_correlation_id q) = 32" "length (q_operation_id q) = 32"
    using connection_invD(3) [OF assms(1,2)] by (simp_all add: request_ok_def nip46_requests_check_def)
  ultimately show ?thesis using assms(3,4,5) by (force simp: evidence_ok_def request_key_def)
qed

lemma operator_evidence:
  assumes "0 < t" and "t \<le> i64_max" and "length correlation = 32" and "audit_kind_as_str kind \<notin> bound_kinds"
  shows "evidence_ok g \<lparr>ev_correlation = correlation, ev_occurred_at = t, ev_operation_id = None\<rparr> kind"
  using assms by (simp add: evidence_ok_def)

lemma record_connection_audit_Inr:
  assumes "governance_inv (n_gov db)" and "evidence_ok (n_gov db) ev kind"
    and "record_connection_audit cr db ev kind outcome reason = Inr db'"
  obtains g where "gov_run cr (n_gov db) g" "db' = db\<lparr>n_gov := g\<rparr>"
proof -
  obtain r g where "record_audit (sha256 cr) (n_gov db) ev kind outcome reason = Inr (r, g)" "db' = db\<lparr>n_gov := g\<rparr>"
    using assms(3) by (auto simp: record_connection_audit_def r_bind_Inr_iff on_governance_Inr)
  with record_audit_run [OF assms(1,2)] that show thesis by blast
qed

section \<open>Inputs\<close>

text \<open>What the types of the arguments guarantee: the constructors of Rust's newtypes have run.\<close>

definition time_ok :: "nat \<Rightarrow> bool" where
  "time_ok t \<longleftrightarrow> 0 < t \<and> t \<le> i64_max"

definition admission_request_ok :: "crates \<Rightarrow> MycConnectionAdmissionRequest \<Rightarrow> bool" where
  "admission_request_ok cr r \<longleftrightarrow>
     length (car_operation_id r) = 32 \<and> length (car_nonce r) = 32
     \<and> client_public_key_new cr (car_client_public_key r) = Inr (car_client_public_key r)
     \<and> permission_set_ok (sha256 cr) (car_requested_permissions r)
     \<and> time_ok (car_policy_generation r) \<and> time_ok (car_observed_at r) \<and> (\<forall>u. car_authorized_until r = Some u \<longrightarrow> time_ok u)
     \<and> admission_request_new (car_operation_id r) (car_client_public_key r) (car_requested_permissions r)
         (car_policy_generation r) (car_nonce r) (car_observed_at r) (car_authorized_until r) (car_policy r) (car_relay_id r) = Inr r"

definition challenge_request_ok :: "crates \<Rightarrow> MycAuthorizationChallengeRequest \<Rightarrow> bool" where
  "challenge_request_ok cr r \<longleftrightarrow>
     length (acr_operation_id r) = 32 \<and> length (acr_connection_id r) = 32 \<and> length (acr_nonce r) = 32
     \<and> challenge_url_new cr (acr_url r) = Inr (acr_url r)
     \<and> time_ok (acr_policy_generation r) \<and> time_ok (acr_issued_at r) \<and> time_ok (acr_expires_at r)
     \<and> acr_issued_at r < acr_expires_at r"

lemma admission_request_okD:
  assumes "admission_request_ok cr r"
  shows "car_policy r \<noteq> PolicyTrusted \<Longrightarrow> car_authorized_until r = None"
    and "car_authorized_until r = Some u \<Longrightarrow> car_observed_at r < u"
    and "time_ok (car_observed_at r)" "permission_set_ok (sha256 cr) (car_requested_permissions r)"
    "client_public_key_new cr (car_client_public_key r) = Inr (car_client_public_key r)"
  using assms by (auto simp: admission_request_ok_def admission_request_new_def split: if_splits option.splits)

section \<open>Admission\<close>

definition new_connection :: "crates \<Rightarrow> MycConnectionAdmissionRequest \<Rightarrow> connection_row" where
  "new_connection cr r = \<lparr>c_connection_id = derive_connection_id (sha256 cr) (car_client_public_key r) (car_nonce r),
     c_connection_nonce = car_nonce r, c_client_public_key = car_client_public_key r,
     c_requested_permissions_sha256 = ps_digest (car_requested_permissions r),
     c_policy_generation = int (car_policy_generation r),
     c_status = (if car_policy r = PolicyTrusted then ''active'' else ''pending''),
     c_created_at_unix_ms = int (car_observed_at r), c_updated_at_unix_ms = int (car_observed_at r),
     c_authorized_until_unix_ms = map_option int (car_authorized_until r)\<rparr>"

definition new_permissions :: "crates \<Rightarrow> MycConnectionAdmissionRequest \<Rightarrow> permission_row list" where
  "new_permissions cr r =
     permission_rows (c_connection_id (new_connection cr r)) ''requested'' (ps_permissions (car_requested_permissions r))
     @ (if car_policy r = PolicyTrusted
        then permission_rows (c_connection_id (new_connection cr r)) ''granted'' (ps_permissions (car_requested_permissions r))
        else [])"

definition new_admission_decision :: "crates \<Rightarrow> MycConnectionAdmissionRequest \<Rightarrow> decision_row" where
  "new_admission_decision cr r = \<lparr>d_operation_id = car_operation_id r,
     d_connection_id = (if car_policy r = PolicyDenied then None else Some (c_connection_id (new_connection cr r))),
     d_decision = decision_as_str (admission_decision (car_policy r)),
     d_reason_code = decision_reason (admission_decision (car_policy r)) (car_policy r),
     d_policy_generation = int (car_policy_generation r),
     d_requested_permissions_sha256 = ps_digest (car_requested_permissions r), d_challenge_id = None,
     d_decided_at_unix_ms = int (car_observed_at r)\<rparr>"

definition admitted_db :: "crates \<Rightarrow> connection_db \<Rightarrow> MycConnectionAdmissionRequest \<Rightarrow> connection_db" where
  "admitted_db cr db r =
     (if car_policy r = PolicyDenied then db\<lparr>n_decisions := n_decisions db @ [new_admission_decision cr r]\<rparr>
      else db\<lparr>n_connections := n_connections db @ [new_connection cr r],
        n_permissions := n_permissions db @ new_permissions cr r,
        n_decisions := n_decisions db @ [new_admission_decision cr r]\<rparr>)"

lemma insert_connection_Inr:
  assumes "insert_connection r (derive_connection_id (sha256 cr) (car_client_public_key r) (car_nonce r)) db = Inr db'"
  shows "car_policy r \<noteq> PolicyDenied" and "connection_insert_legal (n_connections db) (new_connection cr r)"
    and "db' = db\<lparr>n_connections := n_connections db @ [new_connection cr r], n_permissions := n_permissions db @ new_permissions cr r\<rparr>"
  using assms
  by (cases "car_policy r"; auto simp: insert_connection_def r_bind_Inr_iff execute_insert insert_permissions_def new_connection_def
    new_permissions_def dest!: insert_permission_list_Inr)+

lemma admit_new_Inr:
  assumes "admit_new cr db r ev = Inr (a, db')"
  obtains rec db2 where "a = Admitted rec"
    "db2 = admitted_db cr db r"
    "nip46_request_decisions_check (new_admission_decision cr r)" "\<forall>d\<in>set (n_decisions db). d_operation_id d \<noteq> car_operation_id r"
    "car_policy r \<noteq> PolicyDenied \<Longrightarrow> connection_insert_legal (n_connections db) (new_connection cr r)"
    "decision_record cr db2 (car_operation_id r) (persisted_decision (new_admission_decision cr r)) = Inr rec"
    "record_connection_audit cr db2 ev AuditConnectionAdmission (fst (admission_audit (car_policy r)))
       (snd (admission_audit (car_policy r))) = Inr db'"
proof -
  let ?i = "derive_connection_id (sha256 cr) (car_client_public_key r) (car_nonce r)"
  let ?d = "new_admission_decision cr r"
  have d: "?d = \<lparr>d_operation_id = car_operation_id r, d_connection_id = (if car_policy r = PolicyDenied then None else Some ?i),
      d_decision = decision_as_str (admission_decision (car_policy r)),
      d_reason_code = decision_reason (admission_decision (car_policy r)) (car_policy r),
      d_policy_generation = int (car_policy_generation r), d_requested_permissions_sha256 = ps_digest (car_requested_permissions r),
      d_challenge_id = None, d_decided_at_unix_ms = int (car_observed_at r)\<rparr>"
    by (simp add: new_admission_decision_def new_connection_def)
  obtain db1 db2 persisted rec where
    one: "(if car_policy r = PolicyDenied then db1 = db else insert_connection r ?i db = Inr db1)"
    and two: "decision_insert_legal db1 (n_decisions db1) ?d" "db2 = db1\<lparr>n_decisions := n_decisions db1 @ [?d]\<rparr>"
    and three: "read_decision db2 (car_operation_id r) = Inr (Some persisted)"
    and four: "decision_record cr db2 (car_operation_id r) persisted = Inr rec" "a = Admitted rec"
    and five: "record_connection_audit cr db2 ev AuditConnectionAdmission (fst (admission_audit (car_policy r)))
       (snd (admission_audit (car_policy r))) = Inr db'"
    using assms unfolding d
    by (auto simp: admit_new_def r_bind_Inr_iff insert_decision_def execute_insert Let_def split: if_splits)
  have db2: "db2 = admitted_db cr db r"
    using one two(2) insert_connection_Inr(3) [of r cr db db1] by (auto simp: admitted_db_def split: if_splits)
  have same: "n_decisions db1 = n_decisions db" using one insert_connection_Inr(3) [of r cr db db1] by (auto split: if_splits)
  have ck: "nip46_request_decisions_check ?d" "\<forall>q\<in>set (n_decisions db). d_operation_id q \<noteq> car_operation_id r"
    using two(1) by (auto simp: decision_insert_legal_def list_all_iff same d)
  have "persisted = persisted_decision ?d"
  proof -
    have "filter (\<lambda>q. d_operation_id q = car_operation_id r) (n_decisions db2) = [?d]"
      using ck(2) by (simp add: two(2) same d filter_empty_conv)
    then show ?thesis using three by (simp add: read_decision_def parse_decision_ok [OF ck(1)])
  qed
  with that [OF four(2) db2 ck _ _ five] four(1) one insert_connection_Inr(2) [of r cr db db1] show thesis by (auto split: if_splits)
qed

lemma admitted_db_simps [simp]:
  "n_gov (admitted_db cr db r) = n_gov db" "n_requests (admitted_db cr db r) = n_requests db"
  "n_challenges (admitted_db cr db r) = n_challenges db"
  "n_decisions (admitted_db cr db r) = n_decisions db @ [new_admission_decision cr r]"
  by (simp_all add: admitted_db_def)

lemma admitted_db_gov: "admitted_db cr (db\<lparr>n_gov := g\<rparr>) r = (admitted_db cr db r)\<lparr>n_gov := g\<rparr>"
  by (simp add: admitted_db_def)

lemma governed_run:
  assumes inv: "connection_inv cr db" and q: "q \<in> set (n_requests db)" and t: "time_ok t"
    and kind: "audit_kind_as_str kind \<in> bound_kinds" and policy: "policy_ok policy"
    and dist: "distinct (subject_keys (sha256 cr) policy subjects)"
    and run: "on_governance db (govern_rate_attempt (sha256 cr) (n_gov db) policy class subjects
      \<lparr>ev_correlation = q_correlation_id q, ev_occurred_at = t, ev_operation_id = Some (q_operation_id q)\<rparr> kind) = Inr (admitted, db')"
  obtains g where "gov_run cr (n_gov db) g" "db' = db\<lparr>n_gov := g\<rparr>"
proof -
  have ev: "evidence_ok (n_gov db) \<lparr>ev_correlation = q_correlation_id q, ev_occurred_at = t, ev_operation_id = Some (q_operation_id q)\<rparr> kind"
    using request_evidence [OF inv q _ _ kind] t by (simp add: time_ok_def)
  from run obtain g where g: "govern_rate_attempt (sha256 cr) (n_gov db) policy class subjects
      \<lparr>ev_correlation = q_correlation_id q, ev_occurred_at = t, ev_operation_id = Some (q_operation_id q)\<rparr> kind = Inr (admitted, g)"
    "db' = db\<lparr>n_gov := g\<rparr>" by (auto simp: on_governance_Inr)
  show thesis using that [OF govern_run [OF connection_invD(1) [OF inv] ev policy dist g(1)] g(2)] .
qed

lemma gov_evidence: "gov_run cr g g' \<Longrightarrow> evidence_ok g ev kind \<Longrightarrow> evidence_ok g' ev kind"
  by (simp add: gov_run_def evidence_ok_def)

lemma request_method:
  assumes "connection_inv cr db" and "q \<in> set (n_requests db)"
  shows "rb_method (request_binding_of q) = MethodConnect \<longleftrightarrow> q_method q = ''connect''"
proof -
  have "nip46_requests_check q" using connection_invD(3) [OF assms] by (simp add: request_ok_def)
  then obtain m where "q_method q = method_as_str m" "method_parse (q_method q) = Some m" by (rule method_cases)
  then show ?thesis using signer_method.as_str_inj [of m MethodConnect] by (simp add: request_binding_of_def)
qed

lemma admit_connection_Inr:
  assumes inv: "connection_inv cr db" and ok: "admission_request_ok cr r" and policies: "\<And>p. governed = Some p \<Longrightarrow> policy_ok p"
    and run: "admit_connection cr db r governed = Inr (a, db')"
  obtains (replay) d rec where "a = AdmissionExactReplay rec" "db' = db" "d \<in> set (n_decisions db)"
      "d_operation_id d = car_operation_id r" "admit_replay cr db r (persisted_decision d) = Inr (a, db')"
  | (limited) g where "a = AdmissionRateLimited" "gov_run cr (n_gov db) g" "db' = db\<lparr>n_gov := g\<rparr>"
      "\<forall>d\<in>set (n_decisions db). d_operation_id d \<noteq> car_operation_id r"
  | (admitted) g rec q where "a = Admitted rec" "q \<in> set (n_requests db)" "q_operation_id q = car_operation_id r"
      "q_client_public_key q = car_client_public_key r" "q_method q = ''connect''"
      "gov_run cr (n_gov db) g" "db' = (admitted_db cr db r)\<lparr>n_gov := g\<rparr>"
      "nip46_request_decisions_check (new_admission_decision cr r)" "\<forall>d\<in>set (n_decisions db). d_operation_id d \<noteq> car_operation_id r"
      "car_policy r \<noteq> PolicyDenied \<Longrightarrow> connection_insert_legal (n_connections db) (new_connection cr r)"
      "\<And>g. decision_record cr ((admitted_db cr db r)\<lparr>n_gov := g\<rparr>) (car_operation_id r)
         (persisted_decision (new_admission_decision cr r)) = Inr rec"
proof -
  from run obtain b where b: "read_request_binding cr db (car_operation_id r) = Inr b" by (auto simp: admit_connection_def r_bind_Inr_iff)
  obtain q where q: "q \<in> set (n_requests db)" "q_operation_id q = car_operation_id r" "b = request_binding_of q"
    using read_request_binding_Inr [OF inv b] .
  have bound: "q_client_public_key q = car_client_public_key r" "q_method q = ''connect''"
    using run b q request_method [OF inv q(1)] by (auto simp: admit_connection_def request_binding_of_def split: if_splits)
  have tt: "time_ok (car_observed_at r)" using admission_request_okD(3) [OF ok] .
  from inv show thesis
  proof (cases rule: read_decision_cases [where i = "car_operation_id r"])
    case (present d)
    then have "admit_replay cr db r (persisted_decision d) = Inr (a, db')"
      using run b by (auto simp: admit_connection_def split: if_splits)
    moreover from this obtain rec where "a = AdmissionExactReplay rec" "db' = db"
      by (auto simp: admit_replay_def r_bind_Inr_iff split: if_splits)
    ultimately show thesis using present replay by blast
  next
    case absent
    define ev where "ev = \<lparr>ev_correlation = q_correlation_id q, ev_occurred_at = car_observed_at r, ev_operation_id = Some (q_operation_id q)\<rparr>"
    have bound_kind: "audit_kind_as_str AuditConnectionAdmission \<in> bound_kinds" by (simp add: bound_kinds_def)
    have evidence: "evidence_ok (n_gov db) ev AuditConnectionAdmission"
      unfolding ev_def using tt request_evidence [OF inv q(1) _ _ bound_kind] by (simp add: time_ok_def)
    from run b absent(2) obtain admitted db1 where
      one: "(case governed of
         Some policy \<Rightarrow> on_governance db (govern_rate_attempt (sha256 cr) (n_gov db) policy RateConnectionAdmission
           [SubjectGlobal, relay_subject (sha256 cr) (car_relay_id r)] ev AuditConnectionAdmission)
       | None \<Rightarrow> Inr (True, db)) = Inr (admitted, db1)"
      and two: "(if \<not> admitted then Inr (AdmissionRateLimited, db1) else admit_new cr db1 r ev) = Inr (a, db')"
      unfolding admit_connection_def ev_def q(2) by (auto simp: r_bind_Inr_iff q(3) request_binding_of_def Let_def split: if_splits)
    have dist: "distinct (subject_keys (sha256 cr) policy [SubjectGlobal, relay_subject (sha256 cr) (car_relay_id r)])" for policy
      by (simp add: policy_key_def relay_subject_def)
    obtain g1 where g1: "gov_run cr (n_gov db) g1" "db1 = db\<lparr>n_gov := g1\<rparr>"
    proof (cases governed)
      case None
      then show thesis using that [of "n_gov db"] one gov_run_refl by auto
    next
      case (Some policy)
      then show thesis
        using governed_run [OF inv q(1) tt bound_kind policies [OF Some] dist] one that unfolding ev_def by auto
    qed
    show thesis
    proof (cases admitted)
      case False
      then show thesis using two g1 absent(1) limited by auto
    next
      case True
      with two have new: "admit_new cr (db\<lparr>n_gov := g1\<rparr>) r ev = Inr (a, db')" using g1(2) by simp
      from new obtain rec where R: "a = Admitted rec"
        "nip46_request_decisions_check (new_admission_decision cr r)"
        "car_policy r \<noteq> PolicyDenied \<Longrightarrow> connection_insert_legal (n_connections db) (new_connection cr r)"
        "decision_record cr ((admitted_db cr db r)\<lparr>n_gov := g1\<rparr>) (car_operation_id r) (persisted_decision (new_admission_decision cr r)) = Inr rec"
        "record_connection_audit cr ((admitted_db cr db r)\<lparr>n_gov := g1\<rparr>) ev AuditConnectionAdmission
           (fst (admission_audit (car_policy r))) (snd (admission_audit (car_policy r))) = Inr db'"
        by (rule admit_new_Inr) (auto simp: admitted_db_gov)
      obtain g2 where g2: "gov_run cr g1 g2" "db' = (admitted_db cr db r)\<lparr>n_gov := g2\<rparr>"
        using record_connection_audit_Inr [OF _ _ R(5)] gov_run_inv [OF g1(1) connection_invD(1) [OF inv]]
          gov_evidence [OF g1(1) evidence] by auto
      have "decision_record cr ((admitted_db cr db r)\<lparr>n_gov := g\<rparr>) (car_operation_id r) (persisted_decision (new_admission_decision cr r)) = Inr rec" for g
        using R(4) by simp
      then show thesis
        using admitted [OF R(1) q(1,2) bound gov_run_trans [OF g1(1) g2(1)] g2(2) R(2) absent(1) R(3)] by blast
    qed
  qed
qed

section \<open>Operator decisions, expiry and revocation\<close>

definition approved_db ::
    "connection_db \<Rightarrow> connection_row \<Rightarrow> decision_row \<Rightarrow> MycConnectionPermissionSet \<Rightarrow> nat \<Rightarrow> nat option \<Rightarrow> connection_db" where
  "approved_db db c d granted observed_at authorized_until = db\<lparr>
     n_permissions := n_permissions db @ permission_rows (c_connection_id c) ''granted'' (ps_permissions granted),
     n_connections := swap_row c (approve_connection_set (int observed_at) (map_option int authorized_until) c) (n_connections db),
     n_decisions := swap_row d (update_decision_set ''allowed'' ''operator_approved'' (int observed_at) d) (n_decisions db)\<rparr>"

definition denied_db :: "connection_db \<Rightarrow> connection_row \<Rightarrow> decision_row \<Rightarrow> nat \<Rightarrow> connection_db" where
  "denied_db db c d observed_at = db\<lparr>
     n_connections := swap_row c (deny_connection_set (int observed_at) c) (n_connections db),
     n_decisions := swap_row d (update_decision_set ''denied'' ''operator_denied'' (int observed_at) d) (n_decisions db)\<rparr>"

definition expired_db :: "connection_db \<Rightarrow> connection_row \<Rightarrow> nat \<Rightarrow> connection_db" where
  "expired_db db c observed_at = db\<lparr>n_connections := swap_row c (expire_connection_set (int observed_at) c) (n_connections db)\<rparr>"

definition operator_decision_ok :: "crates \<Rightarrow> MycConnectionOperatorDecision \<Rightarrow> bool" where
  "operator_decision_ok cr decision = (case decision of
     OperatorApprove granted authorized_until \<Rightarrow> permission_set_ok (sha256 cr) granted \<and> (\<forall>u. authorized_until = Some u \<longrightarrow> time_ok u)
   | OperatorDeny \<Rightarrow> True)"

lemma connection_update_time:
  assumes "connection_inv cr db" and "c \<in> set (n_connections db)"
  shows "time_ok (nat (c_updated_at_unix_ms c))"
  using connection_invD(5) [OF assms] by (auto simp: connection_ok_def connections_check_def sql_time_def time_ok_def i64_max_def)

lemma record_operator_audit_Inr:
  assumes "governance_inv (n_gov db)" and "time_ok t" and "length correlation = 32"
    and "record_operator_audit cr db correlation t outcome reason = Inr db'"
  obtains g where "gov_run cr (n_gov db) g" "db' = db\<lparr>n_gov := g\<rparr>"
proof -
  have "evidence_ok (n_gov db) \<lparr>ev_correlation = correlation, ev_occurred_at = t, ev_operation_id = None\<rparr> AuditConnectionOperatorDecision"
    using assms(2,3) by (intro operator_evidence) (simp_all add: time_ok_def bound_kinds_def)
  from record_connection_audit_Inr [OF assms(1) this assms(4) [unfolded record_operator_audit_def]] that show thesis by blast
qed

lemma approve_pending_Inr:
  assumes gov: "governance_inv (n_gov db)" and t: "time_ok observed_at" "length correlation = 32"
    and run: "approve_pending cr db operation_id i gen observed_at correlation granted authorized_until = Inr (rec, db')"
  obtains g c d where "gov_run cr (n_gov db) g" "c \<in> set (n_connections db)" "c_connection_id c = i" "c_status c = ''pending''"
    "d \<in> set (n_decisions db)" "d_operation_id d = operation_id" "d_connection_id d = Some i" "d_decision d = ''pending_approval''"
    "connection_update_legal c (approve_connection_set (int observed_at) (map_option int authorized_until) c)"
    "decision_update_legal d (update_decision_set ''allowed'' ''operator_approved'' (int observed_at) d)"
    "db' = (approved_db db c d granted observed_at authorized_until)\<lparr>n_gov := g\<rparr>"
    "read_connection cr (approved_db db c d granted observed_at authorized_until) i = Inr rec"
proof -
  from run obtain db1 db2 db3 where
    one: "insert_permission_list i ''granted'' (ps_permissions granted) db = Inr db1"
    and two: "connection_execute_one (update_connections (approve_connection_where i (int gen))
         (approve_connection_set (int observed_at) (map_option int authorized_until)) db1) = Inr db2"
    and three: "connection_execute_one (update_decisions (update_approval_where operation_id i (int gen))
       (update_decision_set ''allowed'' ''operator_approved'' (int observed_at)) db2) = Inr db3"
    and four: "read_connection cr db3 i = Inr rec"
    and five: "record_operator_audit cr db3 correlation observed_at AuditSucceeded ReasonOperatorApproved = Inr db'"
    by (auto simp: approve_pending_def insert_permissions_def update_approval_decision_def r_bind_Inr_iff)
  note db1 = insert_permission_list_Inr [OF one]
  from two obtain c where c: "c \<in> set (n_connections db1)" "approve_connection_where i (int gen) c"
    "connection_update_legal c (approve_connection_set (int observed_at) (map_option int authorized_until) c)"
    "db2 = db1\<lparr>n_connections := swap_row c (approve_connection_set (int observed_at) (map_option int authorized_until) c) (n_connections db1)\<rparr>"
    by (rule execute_update_connections)
  from three obtain d where d: "d \<in> set (n_decisions db2)" "update_approval_where operation_id i (int gen) d"
    "decision_update_legal d (update_decision_set ''allowed'' ''operator_approved'' (int observed_at) d)"
    "db3 = db2\<lparr>n_decisions := swap_row d (update_decision_set ''allowed'' ''operator_approved'' (int observed_at) d) (n_decisions db2)\<rparr>"
    by (rule execute_update_decisions)
  have db3: "db3 = approved_db db c d granted observed_at authorized_until"
    using c(2) by (simp add: d(4) c(4) db1 approved_db_def approve_connection_where_def)
  have "n_gov db3 = n_gov db" by (simp add: db3 approved_db_def)
  with five gov t obtain g where "gov_run cr (n_gov db) g" "db' = db3\<lparr>n_gov := g\<rparr>" by (metis record_operator_audit_Inr)
  with c d db1 four that show thesis by (auto simp: db3 approve_connection_where_def update_approval_where_def)
qed

lemma deny_pending_Inr:
  assumes gov: "governance_inv (n_gov db)" and t: "time_ok observed_at" "length correlation = 32"
    and run: "deny_pending cr db operation_id i gen observed_at correlation = Inr (rec, db')"
  obtains g c d where "gov_run cr (n_gov db) g" "c \<in> set (n_connections db)" "c_connection_id c = i" "c_status c = ''pending''"
    "d \<in> set (n_decisions db)" "d_operation_id d = operation_id" "d_connection_id d = Some i" "d_decision d = ''pending_approval''"
    "connection_update_legal c (deny_connection_set (int observed_at) c)"
    "decision_update_legal d (update_decision_set ''denied'' ''operator_denied'' (int observed_at) d)"
    "db' = (denied_db db c d observed_at)\<lparr>n_gov := g\<rparr>" "read_connection cr (denied_db db c d observed_at) i = Inr rec"
proof -
  from run obtain db2 db3 where
    two: "connection_execute_one (update_connections (approve_connection_where i (int gen))
         (deny_connection_set (int observed_at)) db) = Inr db2"
    and three: "connection_execute_one (update_decisions (update_approval_where operation_id i (int gen))
       (update_decision_set ''denied'' ''operator_denied'' (int observed_at)) db2) = Inr db3"
    and four: "read_connection cr db3 i = Inr rec"
    and five: "record_operator_audit cr db3 correlation observed_at AuditRejected ReasonOperatorDenied = Inr db'"
    by (auto simp: deny_pending_def update_approval_decision_def r_bind_Inr_iff)
  from two obtain c where c: "c \<in> set (n_connections db)" "approve_connection_where i (int gen) c"
    "connection_update_legal c (deny_connection_set (int observed_at) c)"
    "db2 = db\<lparr>n_connections := swap_row c (deny_connection_set (int observed_at) c) (n_connections db)\<rparr>"
    by (rule execute_update_connections)
  from three obtain d where d: "d \<in> set (n_decisions db2)" "update_approval_where operation_id i (int gen) d"
    "decision_update_legal d (update_decision_set ''denied'' ''operator_denied'' (int observed_at) d)"
    "db3 = db2\<lparr>n_decisions := swap_row d (update_decision_set ''denied'' ''operator_denied'' (int observed_at) d) (n_decisions db2)\<rparr>"
    by (rule execute_update_decisions)
  have db3: "db3 = denied_db db c d observed_at" by (simp add: d(4) c(4) denied_db_def)
  have "n_gov db3 = n_gov db" by (simp add: db3 denied_db_def)
  with five gov t obtain g where "gov_run cr (n_gov db) g" "db' = db3\<lparr>n_gov := g\<rparr>" by (metis record_operator_audit_Inr)
  with c d four that show thesis by (auto simp: db3 approve_connection_where_def update_approval_where_def)
qed

lemma decide_connection_Inr:
  assumes inv: "connection_inv cr db" and t: "time_ok observed_at" "length correlation = 32"
    and run: "decide_connection cr db operation_id i gen observed_at correlation decision = Inr (rec, db')"
  obtains (replay) g c where "gov_run cr (n_gov db) g" "db' = db\<lparr>n_gov := g\<rparr>" "c \<in> set (n_connections db)" "c_connection_id c = i"
      "rec = connection_record cr (n_permissions db) c"
  | (approved) granted authorized_until c where "decision = OperatorApprove granted authorized_until"
      "c \<in> set (n_connections db)" "c_connection_id c = i"
      "is_subset_of granted (cr_requested_permissions (connection_record cr (n_permissions db) c))"
      "case authorized_until of Some u \<Rightarrow> observed_at < u | None \<Rightarrow> True"
      "approve_pending cr db operation_id i gen observed_at correlation granted authorized_until = Inr (rec, db')"
  | (denied) "decision = OperatorDeny"
      "deny_pending cr db operation_id i gen observed_at correlation = Inr (rec, db')"
proof -
  from run obtain c0 existing where c0: "read_connection cr db i = Inr c0"
    and d0: "read_decision db operation_id = Inr (Some existing)"
    by (auto simp: decide_connection_def r_bind_Inr_iff split: if_splits)
  obtain c where c: "c \<in> set (n_connections db)" "c_connection_id c = i" "c0 = connection_record cr (n_permissions db) c"
    using read_connection_Inr [OF inv c0] .
  have gov: "governance_inv (n_gov db)" using inv by (rule connection_invD)
  have upd: "time_ok (cr_updated_at c0)" using connection_update_time [OF inv c(1)] by (simp add: c(3) connection_record_def)
  have audit: thesis if "record_operator_audit cr db correlation (cr_updated_at c0) outcome reason = Inr db'" "rec = c0" for outcome reason
    using record_operator_audit_Inr [OF gov upd t(2) that(1)] replay c that(2) by metis
  show thesis
  proof (cases decision)
    case (OperatorApprove granted authorized_until)
    have body: "\<not> (\<not> is_subset_of granted (cr_requested_permissions c0)
          \<or> (case authorized_until of Some u \<Rightarrow> u \<le> observed_at | None \<Rightarrow> False))
      \<and> (if cr_status c0 = ConnectionActive \<and> pd_decision existing = DecisionAllowed
        then (if cr_granted_permissions c0 = granted \<and> cr_authorized_until c0 = authorized_until
              then r_bind (record_operator_audit cr db correlation (cr_updated_at c0) AuditSucceeded ReasonOperatorApproved)
                (\<lambda>db1. Inr (c0, db1)) else Inl Binding)
        else if cr_status c0 \<noteq> ConnectionPending \<or> pd_decision existing \<noteq> DecisionPendingApproval \<or> observed_at < cr_updated_at c0
        then Inl Binding
        else approve_pending cr db operation_id i gen observed_at correlation granted authorized_until) = Inr (rec, db')"
      using run unfolding decide_connection_def c0 d0 OperatorApprove r_bind_simps ok_or_simps guard_Inr
        MycConnectionOperatorDecision.case by blast
    then have sub: "is_subset_of granted (cr_requested_permissions c0)" "case authorized_until of Some u \<Rightarrow> observed_at < u | None \<Rightarrow> True"
      by (auto split: option.splits)
    show thesis
    proof (cases "cr_status c0 = ConnectionActive \<and> pd_decision existing = DecisionAllowed")
      case True
      with body have "record_operator_audit cr db correlation (cr_updated_at c0) AuditSucceeded ReasonOperatorApproved = Inr db'" "rec = c0"
        by (auto simp: r_bind_Inr_iff split: if_splits)
      then show thesis by (rule audit)
    next
      case False
      with body have "approve_pending cr db operation_id i gen observed_at correlation granted authorized_until = Inr (rec, db')"
        by (simp split: if_splits)
      from approved [OF OperatorApprove c(1,2) sub(1) [unfolded c(3)] sub(2) this] show thesis .
    qed
  next
    case OperatorDeny
    have body: "(if cr_status c0 = ConnectionDenied \<and> pd_decision existing = DecisionDenied
        then r_bind (record_operator_audit cr db correlation (cr_updated_at c0) AuditRejected ReasonOperatorDenied) (\<lambda>db1. Inr (c0, db1))
        else if cr_status c0 \<noteq> ConnectionPending \<or> pd_decision existing \<noteq> DecisionPendingApproval \<or> observed_at < cr_updated_at c0
        then Inl Binding
        else deny_pending cr db operation_id i gen observed_at correlation) = Inr (rec, db')"
      using run unfolding decide_connection_def c0 d0 OperatorDeny r_bind_simps ok_or_simps guard_Inr
        MycConnectionOperatorDecision.case by (simp only: simp_thms)
    show thesis
    proof (cases "cr_status c0 = ConnectionDenied \<and> pd_decision existing = DecisionDenied")
      case True
      with body have "record_operator_audit cr db correlation (cr_updated_at c0) AuditRejected ReasonOperatorDenied = Inr db'" "rec = c0"
        by (auto simp: r_bind_Inr_iff)
      then show thesis by (rule audit)
    next
      case False
      with body have "deny_pending cr db operation_id i gen observed_at correlation = Inr (rec, db')" by (simp split: if_splits)
      from denied [OF OperatorDeny this] show thesis .
    qed
  qed
qed

lemma expire_connection_Inr:
  assumes inv: "connection_inv cr db" and t: "time_ok observed_at" "length correlation = 32"
    and run: "expire_connection cr db i gen observed_at correlation = Inr (rec, db')"
  obtains (replay) g where "gov_run cr (n_gov db) g" "db' = db\<lparr>n_gov := g\<rparr>"
  | (expired) g c until where "gov_run cr (n_gov db) g" "c \<in> set (n_connections db)" "c_connection_id c = i" "c_status c = ''active''"
      "c_authorized_until_unix_ms c = Some until" "until < int observed_at"
      "connection_update_legal c (expire_connection_set (int observed_at) c)" "db' = (expired_db db c observed_at)\<lparr>n_gov := g\<rparr>"
proof -
  from run obtain c0 where c0: "read_connection cr db i = Inr c0" by (auto simp: expire_connection_def r_bind_Inr_iff)
  obtain c where c: "c \<in> set (n_connections db)" "c_connection_id c = i" "c0 = connection_record cr (n_permissions db) c"
    using read_connection_Inr [OF inv c0] .
  have gov: "governance_inv (n_gov db)" using inv by (rule connection_invD)
  have audit: "\<exists>g. gov_run cr (n_gov db0) g \<and> db' = db0\<lparr>n_gov := g\<rparr>"
    if "governance_inv (n_gov db0)" "time_ok v" "record_connection_expiry_audit cr db0 correlation v = Inr db'" for db0 v
  proof -
    have "evidence_ok (n_gov db0) \<lparr>ev_correlation = correlation, ev_occurred_at = v, ev_operation_id = None\<rparr> AuditConnectionExpiry"
      using that(2) t(2) by (intro operator_evidence) (simp_all add: time_ok_def bound_kinds_def)
    from record_connection_audit_Inr [OF that(1) this that(3) [unfolded record_connection_expiry_audit_def]] show ?thesis by blast
  qed
  show thesis
  proof (cases "cr_status c0 = ConnectionExpired")
    case True
    with run c0 have "record_connection_expiry_audit cr db correlation (cr_updated_at c0) = Inr db'"
      by (auto simp: expire_connection_def r_bind_Inr_iff split: if_splits)
    from audit [OF gov _ this] connection_update_time [OF inv c(1)] replay show thesis by (auto simp: c(3) connection_record_def)
  next
    case False
    from run c0 False obtain db1 where
      one: "connection_execute_one (update_connections (expire_connection_where i (int gen) (int observed_at))
         (expire_connection_set (int observed_at)) db) = Inr db1"
      and two: "record_connection_expiry_audit cr db1 correlation observed_at = Inr db'"
      unfolding expire_connection_def c0 r_bind_simps by (auto simp only: guard_Inr r_bind_Inr_iff if_False Inr_inject prod.inject)
    from one obtain e where e: "e \<in> set (n_connections db)" "expire_connection_where i (int gen) (int observed_at) e"
      "connection_update_legal e (expire_connection_set (int observed_at) e)"
      "db1 = db\<lparr>n_connections := swap_row e (expire_connection_set (int observed_at) e) (n_connections db)\<rparr>"
      by (rule execute_update_connections)
    have db1: "db1 = expired_db db e observed_at" by (simp add: e(4) expired_db_def)
    have "governance_inv (n_gov db1)" "n_gov db1 = n_gov db" using gov by (simp_all add: db1 expired_db_def)
    with audit [OF _ t(1) two] obtain g where "gov_run cr (n_gov db) g" "db' = db1\<lparr>n_gov := g\<rparr>" by auto
    moreover from e(2) obtain until where "c_connection_id e = i" "c_status e = ''active''" "c_authorized_until_unix_ms e = Some until"
      "until < int observed_at" by (auto simp: expire_connection_where_def split: option.splits)
    ultimately show thesis using e(1,3) by (intro expired [of g e until]) (simp_all add: db1)
  qed
qed

lemma revoke_connection_Inr:
  assumes inv: "connection_inv cr db" and t: "time_ok observed_at" "length correlation = 32"
    and run: "revoke_connection cr db before i gen observed_at correlation = Inr (rec, db')"
  obtains (replay) "db' = db" "rec = before"
  | (revoked) g c where "gov_run cr (n_gov db) g" "c \<in> set (n_connections db)" "c_connection_id c = i" "c_status c = ''active''"
      "connection_update_legal c (expire_connection_set (int observed_at) c)" "db' = (expired_db db c observed_at)\<lparr>n_gov := g\<rparr>"
proof (cases "cr_status before = ConnectionExpired")
  case True
  with run replay show thesis by (simp add: revoke_connection_def)
next
  case False
  from run False obtain db1 where
    one: "connection_execute_one (update_connections (revoke_connection_where i (int gen)) (expire_connection_set (int observed_at)) db) = Inr db1"
    and two: "record_operator_audit cr db1 correlation observed_at AuditSucceeded ReasonConnectionExpired = Inr db'"
    unfolding revoke_connection_def by (auto simp: r_bind_Inr_iff split: if_splits)
  from one obtain e where e: "e \<in> set (n_connections db)" "revoke_connection_where i (int gen) e"
    "connection_update_legal e (expire_connection_set (int observed_at) e)"
    "db1 = db\<lparr>n_connections := swap_row e (expire_connection_set (int observed_at) e) (n_connections db)\<rparr>"
    by (rule execute_update_connections)
  have db1: "db1 = expired_db db e observed_at" by (simp add: e(4) expired_db_def)
  have gov: "n_gov db1 = n_gov db" "governance_inv (n_gov db1)" using connection_invD(1) [OF inv] by (simp_all add: db1 expired_db_def)
  obtain g where "gov_run cr (n_gov db1) g" "db' = db1\<lparr>n_gov := g\<rparr>" using record_operator_audit_Inr [OF gov(2) t two] .
  with e gov(1) show thesis by (intro revoked [of g e]) (simp_all add: db1 revoke_connection_where_def)
qed

text \<open>The operator's action on one connection, through the repository or through the admin journal.\<close>

definition admin_action_ok :: "crates \<Rightarrow> MycAdminConnectionAction \<Rightarrow> bool" where
  "admin_action_ok cr action = (case action of
     AdminApprove granted authorized_until \<Rightarrow> operator_decision_ok cr (OperatorApprove granted authorized_until)
   | _ \<Rightarrow> True)"

lemma admin_mutation_Inr:
  assumes run: "apply_admin_connection_mutation cr db i gen observed_at correlation action = Inr ((before, after), db')"
  obtains (decided) operation_id decision where
      "decide_connection cr db operation_id i gen observed_at correlation decision = Inr (after, db')"
      "action = AdminReject \<and> decision = OperatorDeny
       \<or> (\<exists>granted until. action = AdminApprove granted until \<and> decision = OperatorApprove granted until)"
  | (revoked) "action = AdminRevoke" "revoke_connection cr db before i gen observed_at correlation = Inr (after, db')"
proof (cases action)
  case (AdminApprove granted until)
  with run obtain operation_id where
    "decide_connection cr db operation_id i gen observed_at correlation (OperatorApprove granted until) = Inr (after, db')"
    by (auto simp: apply_admin_connection_mutation_def r_bind_Inr_iff split: if_splits)
  then show thesis using AdminApprove by (intro decided) auto
next
  case AdminReject
  with run obtain operation_id where "decide_connection cr db operation_id i gen observed_at correlation OperatorDeny = Inr (after, db')"
    by (auto simp: apply_admin_connection_mutation_def r_bind_Inr_iff split: if_splits)
  then show thesis using AdminReject by (intro decided) auto
next
  case AdminRevoke
  with run show thesis
    by (intro revoked) (auto simp: apply_admin_connection_mutation_def r_bind_Inr_iff split: if_splits)
qed

end
