(* ===== verification/Challenge_Effects.thy ===== *)
theory Challenge_Effects
  imports Connection_Effects
begin

text \<open>What issuing and resolving an authorization challenge leave behind when they commit.\<close>

definition new_challenge :: "crates \<Rightarrow> MycAuthorizationChallengeRequest \<Rightarrow> challenge_row" where
  "new_challenge cr r = \<lparr>h_challenge_id = derive_challenge_id (sha256 cr) (acr_operation_id r) (acr_connection_id r) (acr_nonce r),
     h_challenge_nonce = acr_nonce r, h_connection_id = acr_connection_id r, h_operation_id = acr_operation_id r,
     h_policy_generation = int (acr_policy_generation r), h_challenge_url = acr_url r, h_state = ''pending'',
     h_issued_at_unix_ms = int (acr_issued_at r), h_expires_at_unix_ms = int (acr_expires_at r), h_resolved_at_unix_ms = None\<rparr>"

definition new_challenge_decision :: "crates \<Rightarrow> MycAuthorizationChallengeRequest \<Rightarrow> connection_row \<Rightarrow> decision_row" where
  "new_challenge_decision cr r c = \<lparr>d_operation_id = acr_operation_id r, d_connection_id = Some (acr_connection_id r),
     d_decision = ''challenged'', d_reason_code = ''authorization_challenge_required'',
     d_policy_generation = int (acr_policy_generation r), d_requested_permissions_sha256 = c_requested_permissions_sha256 c,
     d_challenge_id = Some (h_challenge_id (new_challenge cr r)), d_decided_at_unix_ms = int (acr_issued_at r)\<rparr>"

definition challenged_db :: "crates \<Rightarrow> connection_db \<Rightarrow> MycAuthorizationChallengeRequest \<Rightarrow> connection_row \<Rightarrow> connection_db" where
  "challenged_db cr db r c = db\<lparr>n_challenges := n_challenges db @ [new_challenge cr r],
     n_decisions := n_decisions db @ [new_challenge_decision cr r c]\<rparr>"

definition resolved_challenge :: "bool \<Rightarrow> nat \<Rightarrow> challenge_row \<Rightarrow> challenge_row" where
  "resolved_challenge expired observed_at h =
     resolve_challenge_set (if expired then ''expired'' else ''authorized'') (int observed_at) h"

definition resolved_decision :: "bool \<Rightarrow> nat \<Rightarrow> decision_row \<Rightarrow> decision_row" where
  "resolved_decision expired observed_at d =
     update_decision_set (if expired then ''denied'' else ''allowed'')
       (if expired then ''authorization_challenge_expired'' else ''authorization_challenge_authorized'') (int observed_at) d"

definition resolved_db :: "connection_db \<Rightarrow> challenge_row \<Rightarrow> decision_row \<Rightarrow> bool \<Rightarrow> nat \<Rightarrow> connection_db" where
  "resolved_db db h d expired observed_at = db\<lparr>
     n_challenges := swap_row h (resolved_challenge expired observed_at h) (n_challenges db),
     n_decisions := swap_row d (resolved_decision expired observed_at d) (n_decisions db)\<rparr>"

text \<open>When an authorization comes too late: the challenge or the connection has expired.\<close>

definition too_late :: "challenge_row \<Rightarrow> connection_row \<Rightarrow> nat \<Rightarrow> bool" where
  "too_late h c observed_at \<longleftrightarrow> h_expires_at_unix_ms h < int observed_at \<or> c_status c \<noteq> ''active''
     \<or> (\<exists>until. c_authorized_until_unix_ms c = Some until \<and> until < int observed_at)"

lemma connection_status_record:
  assumes "connection_inv cr db" and "c \<in> set (n_connections db)"
  shows "cr_status (connection_record cr (n_permissions db) c) = s \<longleftrightarrow> c_status c = connection_status_as_str s"
proof -
  have "c_status c \<in> {''pending'', ''active'', ''denied'', ''expired''}"
    using connection_invD(5) [OF assms] by (simp add: connection_ok_def connections_check_def)
  then obtain x where "c_status c = connection_status_as_str x" "connection_status_parse (c_status c) = Some x"
    using connection_status_cases by blast
  then show ?thesis using connection_status.as_str_inj by (auto simp: connection_record_def)
qed

lemma issue_new_Inr:
  assumes inv: "connection_inv cr db" and gov: "governance_inv g1"
    and c: "c \<in> set (n_connections db)" and ok: "challenge_request_ok cr r" and ev: "evidence_ok g1 ev AuditChallengeCreation"
    and run: "issue_new cr (db\<lparr>n_gov := g1\<rparr>) r (connection_record cr (n_permissions db) c) ev = Inr (a, db')"
  obtains g rec where "a = ChallengeCreated rec" "rec = challenge_record (new_challenge cr r)" "gov_run cr g1 g"
    "db' = (challenged_db cr db r c)\<lparr>n_gov := g\<rparr>"
    "challenge_insert_legal db (n_challenges db) (new_challenge cr r)"
    "nip46_request_decisions_check (new_challenge_decision cr r c)" "\<forall>d\<in>set (n_decisions db). d_operation_id d \<noteq> acr_operation_id r"
proof -
  let ?h = "new_challenge cr r" and ?d = "new_challenge_decision cr r c"
  let ?i = "derive_challenge_id (sha256 cr) (acr_operation_id r) (acr_connection_id r) (acr_nonce r)"
  have dig: "ps_digest (cr_requested_permissions (connection_record cr (n_permissions db) c)) = c_requested_permissions_sha256 c"
    using connection_invD(5) [OF inv c] by (simp add: connection_ok_def connection_record_def seal_def)
  have h: "?h = \<lparr>h_challenge_id = ?i, h_challenge_nonce = acr_nonce r, h_connection_id = acr_connection_id r,
          h_operation_id = acr_operation_id r, h_policy_generation = int (acr_policy_generation r),
          h_challenge_url = acr_url r, h_state = ''pending'', h_issued_at_unix_ms = int (acr_issued_at r),
          h_expires_at_unix_ms = int (acr_expires_at r), h_resolved_at_unix_ms = None\<rparr>" by (simp add: new_challenge_def)
  have d: "?d = \<lparr>d_operation_id = acr_operation_id r, d_connection_id = Some (acr_connection_id r),
        d_decision = decision_as_str DecisionChallenged, d_reason_code = ''authorization_challenge_required'',
        d_policy_generation = int (acr_policy_generation r), d_requested_permissions_sha256 = c_requested_permissions_sha256 c,
        d_challenge_id = Some ?i, d_decided_at_unix_ms = int (acr_issued_at r)\<rparr>"
    by (simp add: new_challenge_decision_def new_challenge_def)
  from run obtain db2 db3 rec where
    one: "connection_execute_one (insert_challenge_sql ?h (db\<lparr>n_gov := g1\<rparr>)) = Inr db2"
    and two: "connection_execute_one (insert_decision_sql ?d db2) = Inr db3"
    and three: "read_challenge cr db3 (acr_operation_id r) = Inr (Some rec)" "a = ChallengeCreated rec"
    and four: "record_connection_audit cr db3 ev AuditChallengeCreation AuditSucceeded ReasonChallengeRequired = Inr db'"
    unfolding h d issue_new_def insert_decision_def dig Let_def
    by (auto simp only: r_bind_Inr_iff ok_or_Inr_iff Inr_inject prod.inject)
  have legal: "challenge_insert_legal db (n_challenges db) ?h" "db2 = db\<lparr>n_gov := g1, n_challenges := n_challenges db @ [?h]\<rparr>"
    using one by (simp_all add: execute_insert challenge_insert_legal_def)
  have legal2: "nip46_request_decisions_check ?d" "\<forall>q\<in>set (n_decisions db). d_operation_id q \<noteq> acr_operation_id r"
    "db3 = (challenged_db cr db r c)\<lparr>n_gov := g1\<rparr>"
    using two by (auto simp: execute_insert decision_insert_legal_def legal(2) list_all_iff d challenged_db_def)
  have "filter (\<lambda>q. h_operation_id q = acr_operation_id r) (n_challenges db3) = [?h]"
    using legal(1) by (simp add: legal2(3) challenged_db_def challenge_insert_legal_def list_all_iff filter_empty_conv h)
  moreover have "parse_challenge cr ?h = Inr (challenge_record ?h)"
    using legal(1) ok by (intro parse_challenge_ok) (simp_all add: challenge_insert_legal_def new_challenge_def challenge_request_ok_def)
  ultimately have "rec = challenge_record ?h" using three(1) by (simp add: read_challenge_def)
  moreover obtain g where "gov_run cr g1 g" "db' = db3\<lparr>n_gov := g\<rparr>"
    using record_connection_audit_Inr [OF _ _ four] gov ev legal2(3) by auto
  ultimately show thesis using that three(2) legal legal2 by simp
qed

lemma issue_challenge_Inr:
  assumes inv: "connection_inv cr db" and ok: "challenge_request_ok cr r" and policy: "policy_ok policy"
    and run: "issue_challenge cr db r policy = Inr (a, db')"
  obtains (replay) h where "a = ChallengeExactReplay (challenge_record h)" "db' = db" "h \<in> set (n_challenges db)" "h_operation_id h = acr_operation_id r"
  | (limited) g where "a = ChallengeRateLimited" "gov_run cr (n_gov db) g" "db' = db\<lparr>n_gov := g\<rparr>"
  | (created) g c q where "a = ChallengeCreated (challenge_record (new_challenge cr r))" "gov_run cr (n_gov db) g"
      "c \<in> set (n_connections db)" "c_connection_id c = acr_connection_id r" "c_status c = ''active''"
      "c_policy_generation c = int (acr_policy_generation r)"
      "q \<in> set (n_requests db)" "q_operation_id q = acr_operation_id r" "q_method q \<noteq> ''connect''" "q_client_public_key q = c_client_public_key c"
      "db' = (challenged_db cr db r c)\<lparr>n_gov := g\<rparr>"
      "challenge_insert_legal db (n_challenges db) (new_challenge cr r)"
      "nip46_request_decisions_check (new_challenge_decision cr r c)" "\<forall>d\<in>set (n_decisions db). d_operation_id d \<noteq> acr_operation_id r"
proof -
  from run obtain b c0 found where b: "read_request_binding cr db (acr_operation_id r) = Inr b"
    and c0: "read_connection cr db (acr_connection_id r) = Inr c0" and found: "read_challenge cr db (acr_operation_id r) = Inr found"
    unfolding issue_challenge_def by (auto simp only: r_bind_Inr_iff guard_Inr)
  obtain q where q: "q \<in> set (n_requests db)" "q_operation_id q = acr_operation_id r" "b = request_binding_of q"
    using read_request_binding_Inr [OF inv b] .
  obtain c where c: "c \<in> set (n_connections db)" "c_connection_id c = acr_connection_id r" "c0 = connection_record cr (n_permissions db) c"
    using read_connection_Inr [OF inv c0] .
  note run1 = run [unfolded issue_challenge_def b c0 found r_bind_simps guard_Inr]
  have bound: "q_method q \<noteq> ''connect''" "q_client_public_key q = c_client_public_key c" "c_policy_generation c = int (acr_policy_generation r)"
  proof -
    show "q_method q \<noteq> ''connect''" using run1 request_method [OF inv q(1)] q(3) by auto
    show "q_client_public_key q = c_client_public_key c" using run1 by (auto simp: q(3) c(3) request_binding_of_def connection_record_def)
    have "cr_policy_generation c0 = acr_policy_generation r" using run1 by auto
    then show "c_policy_generation c = int (acr_policy_generation r)"
      using connection_invD(5) [OF inv c(1)] by (auto simp: c(3) connection_record_def connection_ok_def connections_check_def sql_time_def)
  qed
  from inv show thesis
  proof (cases rule: read_challenge_cases [where i = "acr_operation_id r"])
    case (present h)
    have "a = ChallengeExactReplay (challenge_record h)" "db' = db"
      using run1 present(3) unfolding found by (auto split: if_splits)
    with present show thesis by (intro replay) auto
  next
    case absent
    then have none: "found = None" using found by simp
    define ev where "ev = \<lparr>ev_correlation = q_correlation_id q, ev_occurred_at = acr_issued_at r, ev_operation_id = Some (q_operation_id q)\<rparr>"
    note run2 = run1 [unfolded none option.case guard_Inr Let_def, THEN conjunct2, THEN conjunct2]
    have cb: "rb_correlation b = q_correlation_id q" by (simp add: q(3) request_binding_of_def)
    from run2 [unfolded cb] obtain decision admitted db1 where
      act: "cr_status c0 = ConnectionActive"
      and gv: "on_governance db (govern_rate_attempt (sha256 cr) (n_gov db) policy RateChallengeCreation
         [SubjectConnection (acr_connection_id r)] ev AuditChallengeCreation) = Inr (admitted, db1)"
      and fin: "(if \<not> admitted then Inr (ChallengeRateLimited, db1) else issue_new cr db1 r c0 ev) = Inr (a, db')"
      unfolding ev_def q(2) by (auto simp only: r_bind_Inr_iff guard_Inr Inr_inject prod.inject split_paired_Ex case_prod_conv)
    have tt: "time_ok (acr_issued_at r)" using ok by (simp add: challenge_request_ok_def)
    have kind: "audit_kind_as_str AuditChallengeCreation \<in> bound_kinds" by (simp add: bound_kinds_def)
    obtain g1 where g1: "gov_run cr (n_gov db) g1" "db1 = db\<lparr>n_gov := g1\<rparr>"
      using governed_run [OF inv q(1) tt kind policy _ gv [unfolded ev_def]] by auto
    have ev: "evidence_ok g1 ev AuditChallengeCreation"
      unfolding ev_def using gov_evidence [OF g1(1) request_evidence [OF inv q(1) _ _ kind]] tt by (simp add: time_ok_def)
    show thesis
    proof (cases admitted)
      case False
      with fin g1 limited show thesis by auto
    next
      case True
      with fin have new: "issue_new cr (db\<lparr>n_gov := g1\<rparr>) r (connection_record cr (n_permissions db) c) ev = Inr (a, db')" by (simp add: g1(2) c(3))
      have "c_status c = ''active''" using act connection_status_record [OF inv c(1), of ConnectionActive] by (simp add: c(3))
      with issue_new_Inr [OF inv gov_run_inv [OF g1(1) connection_invD(1) [OF inv]] c(1) ok ev new] show thesis
        using created [OF _ _ c(1,2) _ bound(3) q(1,2) bound(1,2)] gov_run_trans [OF g1(1)] by metis
    qed
  qed
qed


section \<open>Resolving a challenge\<close>

lemma challenge_state_record:
  assumes "connection_inv cr db" and "h \<in> set (n_challenges db)"
  shows "ch_state (challenge_record h) = s \<longleftrightarrow> h_state h = challenge_state_as_str s"
proof -
  have "h_state h \<in> {''pending'', ''authorized'', ''expired''}"
    using connection_invD(12) [OF assms] by (simp add: challenge_ok_def connection_auth_challenges_check_def)
  then have "\<exists>x. challenge_state_parse (h_state h) = Some x" by (auto simp: challenge_state_parse_def)
  then obtain x where "h_state h = challenge_state_as_str x" "challenge_state_parse (h_state h) = Some x"
    using challenge_state.as_str_parse by metis
  then show ?thesis using challenge_state.as_str_inj by (auto simp: challenge_record_def)
qed

lemma challenge_expired_too_late:
  assumes inv: "connection_inv cr db" and c: "c \<in> set (n_connections db)" and h: "h \<in> set (n_challenges db)"
  shows "challenge_expired (challenge_record h) (connection_record cr (n_permissions db) c) observed_at \<longleftrightarrow> too_late h c observed_at"
proof -
  have "0 < h_expires_at_unix_ms h"
    using connection_invD(12) [OF inv h] by (auto simp: challenge_ok_def connection_auth_challenges_check_def sql_time_def)
  moreover have "0 < until" if "c_authorized_until_unix_ms c = Some until" for until
    using connection_invD(5) [OF inv c] that by (auto simp: connection_ok_def connections_check_def sql_time_def)
  moreover have "(cr_status (connection_record cr (n_permissions db) c) \<noteq> ConnectionActive) = (c_status c \<noteq> ''active'')"
    using connection_status_record [OF inv c, of ConnectionActive] by simp
  ultimately show ?thesis
    by (cases "c_authorized_until_unix_ms c")
      (simp_all add: challenge_expired_def too_late_def challenge_record_def connection_record_def nat_less_iff)
qed

lemma resolve_pending_Inr:
  assumes inv: "connection_inv cr db" and gov: "governance_inv g1" and ev: "evidence_ok g1 ev AuditChallengeAuthorization"
    and run: "resolve_pending cr (db\<lparr>n_gov := g1\<rparr>) ci i op gen observed_at expired ev = Inr (a, db')"
  obtains g h d where "a = AuthorizationResolved (challenge_record (resolved_challenge expired observed_at h))" "gov_run cr g1 g"
    "h \<in> set (n_challenges db)" "h_challenge_id h = ci" "h_operation_id h = op" "h_connection_id h = i" "h_state h = ''pending''"
    "d \<in> set (n_decisions db)" "d_operation_id d = op" "d_challenge_id d = Some ci" "d_decision d = ''challenged''"
    "challenge_update_legal h (resolved_challenge expired observed_at h)"
    "decision_update_legal d (resolved_decision expired observed_at d)"
    "db' = (resolved_db db h d expired observed_at)\<lparr>n_gov := g\<rparr>"
proof -
  let ?state = "if expired then ''expired'' else ''authorized''"
  have sets: "resolve_challenge_set ?state (int observed_at) = resolved_challenge expired observed_at"
    "update_decision_set (if expired then ''denied'' else ''allowed'')
       (if expired then ''authorization_challenge_expired'' else ''authorization_challenge_authorized'') (int observed_at)
     = resolved_decision expired observed_at" by (simp_all add: fun_eq_iff resolved_challenge_def resolved_decision_def)
  from run obtain db1 db2 rec outcome reason where
    one: "connection_execute_one (update_challenges (resolve_challenge_where ci i op (int gen))
         (resolved_challenge expired observed_at) (db\<lparr>n_gov := g1\<rparr>)) = Inr db1"
    and two: "connection_execute_one (update_decisions (update_challenge_decision_where op i ci (int gen))
         (resolved_decision expired observed_at) db1) = Inr db2"
    and three: "read_challenge cr db2 op = Inr (Some rec)" "a = AuthorizationResolved rec"
    and four: "record_connection_audit cr db2 ev AuditChallengeAuthorization outcome reason = Inr db'"
    unfolding resolve_pending_def sets [symmetric]
    by (cases expired) (auto simp add: r_bind_Inr_iff Let_def)
  from one obtain h where h: "h \<in> set (n_challenges db)" "resolve_challenge_where ci i op (int gen) h"
    "challenge_update_legal h (resolved_challenge expired observed_at h)"
    "db1 = db\<lparr>n_gov := g1, n_challenges := swap_row h (resolved_challenge expired observed_at h) (n_challenges db)\<rparr>"
    by (rule execute_update_challenges) simp
  from two obtain d where d: "d \<in> set (n_decisions db1)" "update_challenge_decision_where op i ci (int gen) d"
    "decision_update_legal d (resolved_decision expired observed_at d)"
    "db2 = db1\<lparr>n_decisions := swap_row d (resolved_decision expired observed_at d) (n_decisions db1)\<rparr>"
    by (rule execute_update_decisions)
  have db2: "db2 = (resolved_db db h d expired observed_at)\<lparr>n_gov := g1\<rparr>" by (simp add: d(4) h(4) resolved_db_def)
  let ?h = "resolved_challenge expired observed_at h"
  have keys: "h_operation_id ?h = h_operation_id h" "h_challenge_id ?h = h_challenge_id h" "h_connection_id ?h = h_connection_id h"
    "h_challenge_nonce ?h = h_challenge_nonce h" "h_challenge_url ?h = h_challenge_url h"
    by (simp_all add: resolved_challenge_def resolve_challenge_set_def)
  have op: "h_operation_id h = op" using h(2) by (simp add: resolve_challenge_where_def)
  have "filter (\<lambda>q. h_operation_id q = op) (n_challenges db) = [h]"
    using filter_unique [OF connection_invD(13) [OF inv] h(1)] by (simp add: op)
  then have "filter (\<lambda>q. h_operation_id q = op) (n_challenges db2) = [?h]"
    by (simp add: db2 resolved_db_def filter_swap_row keys) (simp add: swap_row_def)
  moreover have "parse_challenge cr ?h = Inr (challenge_record ?h)"
    using h(3) connection_invD(12) [OF inv h(1)] by (intro parse_challenge_ok) (simp_all add: challenge_update_legal_def keys challenge_ok_def)
  ultimately have "rec = challenge_record ?h" using three(1) by (simp add: read_challenge_def)
  moreover obtain g where "gov_run cr g1 g" "db' = db2\<lparr>n_gov := g\<rparr>"
    using record_connection_audit_Inr [OF _ _ four] gov ev db2 by auto
  ultimately show thesis
    using h d three(2) by (intro that [of h g d]) (simp_all add: db2 resolve_challenge_where_def update_challenge_decision_where_def)
qed

lemma authorize_challenge_Inr:
  assumes inv: "connection_inv cr db" and policy: "policy_ok policy" and tt: "time_ok observed_at"
    and run: "authorize_challenge cr db ci i op gen observed_at policy = Inr (a, db')"
  obtains (replay) h where "a = AuthorizationExactReplay (challenge_record h)" "db' = db" "h \<in> set (n_challenges db)"
      "h_challenge_id h = ci" "h_state h \<noteq> ''pending''" "h_issued_at_unix_ms h \<le> int observed_at"
  | (limited) g where "a = AuthorizationRateLimited" "gov_run cr (n_gov db) g" "db' = db\<lparr>n_gov := g\<rparr>"
  | (resolved) g h d c where "a = AuthorizationResolved (challenge_record (resolved_challenge (too_late h c observed_at) observed_at h))"
      "gov_run cr (n_gov db) g" "h \<in> set (n_challenges db)" "h_challenge_id h = ci" "h_state h = ''pending''"
      "h_issued_at_unix_ms h \<le> int observed_at"
      "c \<in> set (n_connections db)" "c_connection_id c = h_connection_id h"
      "d \<in> set (n_decisions db)" "d_operation_id d = h_operation_id h" "d_challenge_id d = Some ci" "d_decision d = ''challenged''"
      "challenge_update_legal h (resolved_challenge (too_late h c observed_at) observed_at h)"
      "decision_update_legal d (resolved_decision (too_late h c observed_at) observed_at d)"
      "db' = (resolved_db db h d (too_late h c observed_at) observed_at)\<lparr>n_gov := g\<rparr>"
proof -
  from run obtain b c0 h0 where h0: "read_challenge cr db op = Inr (Some h0)" and b: "read_request_binding cr db op = Inr b"
    and c0: "read_connection cr db i = Inr c0"
    unfolding authorize_challenge_def by (auto simp only: r_bind_Inr_iff ok_or_Inr_iff guard_Inr)
  obtain q where q: "q \<in> set (n_requests db)" "q_operation_id q = op" "b = request_binding_of q"
    using read_request_binding_Inr [OF inv b] .
  obtain c where c: "c \<in> set (n_connections db)" "c_connection_id c = i" "c0 = connection_record cr (n_permissions db) c"
    using read_connection_Inr [OF inv c0] .
  obtain h where h: "h \<in> set (n_challenges db)" "h_operation_id h = op" "h0 = challenge_record h"
    using h0 by (cases rule: read_challenge_cases [OF inv, of op]) auto
  have cb: "rb_correlation b = q_correlation_id q" by (simp add: q(3) request_binding_of_def)
  note run1 = run [unfolded authorize_challenge_def h0 b c0 r_bind_simps ok_or_simps guard_Inr Let_def cb]
  have ids: "h_challenge_id h = ci" "h_connection_id h = i" using run1 by (simp_all add: h(3) challenge_record_def)
  have issued: "h_issued_at_unix_ms h \<le> int observed_at" using run1 by (auto simp: h(3) challenge_record_def)
  show thesis
  proof (cases "h_state h = ''pending''")
    case False
    with run1 have "a = AuthorizationExactReplay h0" "db' = db"
      using challenge_state_record [OF inv h(1), of ChallengePending] by (simp_all add: h(3))
    with h ids issued False show thesis by (intro replay) auto
  next
    case True
    then have pend: "ch_state h0 = ChallengePending" using challenge_state_record [OF inv h(1), of ChallengePending] by (simp add: h(3))
    define ev where "ev = \<lparr>ev_correlation = q_correlation_id q, ev_occurred_at = observed_at, ev_operation_id = Some (q_operation_id q)\<rparr>"
    note run2 = run1 [THEN conjunct2, THEN conjunct2, unfolded pend simp_thms if_False]
    from run2 obtain admitted db1 where
      gv: "on_governance db (govern_rate_attempt (sha256 cr) (n_gov db) policy RateChallengeAuthorization
         [SubjectConnection i] ev AuditChallengeAuthorization) = Inr (admitted, db1)"
      and fin: "(if \<not> admitted then Inr (AuthorizationRateLimited, db1)
         else resolve_pending cr db1 ci i op gen observed_at (challenge_expired h0 c0 observed_at) ev) = Inr (a, db')"
      unfolding ev_def q(2) by (auto simp only: r_bind_Inr_iff split_paired_Ex case_prod_conv)
    have kind: "audit_kind_as_str AuditChallengeAuthorization \<in> bound_kinds" by (simp add: bound_kinds_def)
    obtain g1 where g1: "gov_run cr (n_gov db) g1" "db1 = db\<lparr>n_gov := g1\<rparr>"
      using governed_run [OF inv q(1) tt kind policy _ gv [unfolded ev_def]] by auto
    have ev: "evidence_ok g1 ev AuditChallengeAuthorization"
      unfolding ev_def using gov_evidence [OF g1(1) request_evidence [OF inv q(1) _ _ kind]] tt by (simp add: time_ok_def)
    show thesis
    proof (cases admitted)
      case False
      with fin g1 limited show thesis by auto
    next
      case True
      with fin have new: "resolve_pending cr (db\<lparr>n_gov := g1\<rparr>) ci i op gen observed_at (too_late h c observed_at) ev = Inr (a, db')"
        using challenge_expired_too_late [OF inv c(1) h(1)] by (simp add: g1(2) c(3) h(3))
      obtain g e d where R: "a = AuthorizationResolved (challenge_record (resolved_challenge (too_late h c observed_at) observed_at e))"
        "gov_run cr g1 g" "e \<in> set (n_challenges db)" "h_challenge_id e = ci" "h_operation_id e = op" "h_state e = ''pending''"
        "d \<in> set (n_decisions db)" "d_operation_id d = op" "d_challenge_id d = Some ci" "d_decision d = ''challenged''"
        "challenge_update_legal e (resolved_challenge (too_late h c observed_at) observed_at e)"
        "decision_update_legal d (resolved_decision (too_late h c observed_at) observed_at d)"
        "db' = (resolved_db db e d (too_late h c observed_at) observed_at)\<lparr>n_gov := g\<rparr>"
        using new by (rule resolve_pending_Inr [OF inv gov_run_inv [OF g1(1) connection_invD(1) [OF inv]] ev])
      have "e = h" using inj_on_eq_iff [OF distinct_map [THEN iffD1, OF connection_invD(14) [OF inv], THEN conjunct2]] R(3,4) h(1) ids(1) by blast
      then show thesis
        using R gov_run_trans [OF g1(1) R(2)] h ids issued c by (intro resolved [of h c g d]) auto
    qed
  qed
qed

end
