(* ===== verification/Connection_Preservation.thy ===== *)
theory Connection_Preservation
  imports Challenge_Effects
begin

text \<open>
  The connection invariant is kept by every change the operations make: rows that evolve in place (one lemma for all of
  them), and the three kinds of insertion.
\<close>

section \<open>Rows that evolve in place\<close>

definition same_connection :: "connection_row \<Rightarrow> connection_row \<Rightarrow> bool" where
  "same_connection old new \<longleftrightarrow> c_connection_id new = c_connection_id old \<and> c_connection_nonce new = c_connection_nonce old
     \<and> c_client_public_key new = c_client_public_key old \<and> c_requested_permissions_sha256 new = c_requested_permissions_sha256 old
     \<and> c_policy_generation new = c_policy_generation old \<and> c_created_at_unix_ms new = c_created_at_unix_ms old"

definition same_decision :: "decision_row \<Rightarrow> decision_row \<Rightarrow> bool" where
  "same_decision old new \<longleftrightarrow> d_operation_id new = d_operation_id old \<and> d_connection_id new = d_connection_id old
     \<and> d_policy_generation new = d_policy_generation old
     \<and> d_requested_permissions_sha256 new = d_requested_permissions_sha256 old \<and> d_challenge_id new = d_challenge_id old"

definition same_challenge :: "challenge_row \<Rightarrow> challenge_row \<Rightarrow> bool" where
  "same_challenge old new \<longleftrightarrow> h_challenge_id new = h_challenge_id old \<and> h_challenge_nonce new = h_challenge_nonce old
     \<and> h_connection_id new = h_connection_id old \<and> h_operation_id new = h_operation_id old
     \<and> h_policy_generation new = h_policy_generation old \<and> h_challenge_url new = h_challenge_url old
     \<and> h_issued_at_unix_ms new = h_issued_at_unix_ms old \<and> h_expires_at_unix_ms new = h_expires_at_unix_ms old"

lemma same_rows_refl [simp]: "same_connection c c" "same_decision d d" "same_challenge h h"
  by (simp_all add: same_connection_def same_decision_def same_challenge_def)

lemma update_legal_same:
  "connection_update_legal c c' \<Longrightarrow> same_connection c c'" "decision_update_legal d d' \<Longrightarrow> same_decision d d'"
  "challenge_update_legal h h' \<Longrightarrow> same_challenge h h'"
  by (auto simp: connection_update_legal_def connections_guard_update_def same_connection_def
    decision_update_legal_def nip46_request_decisions_guard_update_def same_decision_def
    challenge_update_legal_def connection_auth_challenges_guard_update_def same_challenge_def)

text \<open>The parts of the invariant that speak of the evolving columns.\<close>

definition decision_agrees :: "connection_row list \<Rightarrow> challenge_row list \<Rightarrow> decision_row \<Rightarrow> bool" where
  "decision_agrees cs hs d \<longleftrightarrow> nip46_request_decisions_check d
     \<and> (\<forall>c\<in>set cs. d_connection_id d = Some (c_connection_id c) \<longrightarrow> d_challenge_id d = None
          \<longrightarrow> admission_matches (d_reason_code d) (c_status c))
     \<and> (\<forall>h\<in>set hs. d_challenge_id d = Some (h_challenge_id h) \<longrightarrow> challenge_matches (d_decision d) (h_state h))"

definition challenge_sound :: "challenge_row \<Rightarrow> bool" where
  "challenge_sound h \<longleftrightarrow> connection_auth_challenges_check h
     \<and> (h_state h = ''authorized'' \<longrightarrow> (\<exists>r. h_resolved_at_unix_ms h = Some r \<and> r \<le> h_expires_at_unix_ms h))"

lemma unique_by_key: "distinct (map key xs) \<Longrightarrow> x \<in> set xs \<Longrightarrow> y \<in> set xs \<Longrightarrow> key x = key y \<Longrightarrow> x = y"
  by (auto simp: distinct_map inj_on_def)

lemma decision_agrees_inv:
  assumes "connection_inv cr db" and "d \<in> set (n_decisions db)"
  shows "decision_agrees (n_connections db) (n_challenges db) d"
proof -
  have ok: "decision_ok db d" using connection_invD(8) [OF assms] .
  have "admission_matches (d_reason_code d) (c_status c)"
    if "c \<in> set (n_connections db)" "d_connection_id d = Some (c_connection_id c)" "d_challenge_id d = None" for c
    using ok that unique_by_key [OF connection_invD(6) [OF assms(1)] that(1)] by (force simp: decision_ok_def)
  moreover have "challenge_matches (d_decision d) (h_state h)"
    if "h \<in> set (n_challenges db)" "d_challenge_id d = Some (h_challenge_id h)" for h
    using ok that unique_by_key [OF connection_invD(14) [OF assms(1)] that(1)] by (force simp: decision_ok_def)
  ultimately show ?thesis using ok by (simp add: decision_agrees_def decision_ok_def)
qed

lemma challenge_sound_inv: "connection_inv cr db \<Longrightarrow> h \<in> set (n_challenges db) \<Longrightarrow> challenge_sound h"
  using connection_invD(12) [of cr db h] by (simp add: challenge_sound_def challenge_ok_def)

lemma decision_ok_evolve:
  assumes ok: "decision_ok db d" and d: "same_decision d d'" and cs: "\<And>c. c \<in> set (n_connections db) \<Longrightarrow> same_connection c (f c)"
    and hs: "\<And>h. h \<in> set (n_challenges db) \<Longrightarrow> same_challenge h (k h)"
    and db': "n_connections db' = map f (n_connections db)" "n_challenges db' = map k (n_challenges db)"
    and agrees: "decision_agrees (n_connections db') (n_challenges db') d'"
  shows "decision_ok db' d'"
  unfolding decision_ok_def
proof (intro conjI allI impI)
  show "nip46_request_decisions_check d'" using agrees by (simp add: decision_agrees_def)
  fix i
  show "\<exists>c\<in>set (n_connections db'). c_connection_id c = i \<and> c_policy_generation c = d_policy_generation d'
      \<and> c_requested_permissions_sha256 c = d_requested_permissions_sha256 d'
      \<and> (d_challenge_id d' = None \<longrightarrow> admission_matches (d_reason_code d') (c_status c))" if i: "d_connection_id d' = Some i"
  proof -
    have "d_connection_id d = Some i" using i d by (simp add: same_decision_def)
    with ok obtain c where c: "c \<in> set (n_connections db)" "c_connection_id c = i" "c_policy_generation c = d_policy_generation d"
      "c_requested_permissions_sha256 c = d_requested_permissions_sha256 d" unfolding decision_ok_def by blast
    have fc: "f c \<in> set (n_connections db')" using c(1) db' by simp
    with c cs [OF c(1)] d i agrees show ?thesis
      by (intro bexI [OF _ fc]) (auto simp: same_connection_def same_decision_def decision_agrees_def)
  qed
  show "\<exists>h\<in>set (n_challenges db'). h_challenge_id h = i \<and> h_operation_id h = d_operation_id d'
      \<and> Some (h_connection_id h) = d_connection_id d' \<and> challenge_matches (d_decision d') (h_state h)" if i: "d_challenge_id d' = Some i"
  proof -
    have "d_challenge_id d = Some i" using i d by (simp add: same_decision_def)
    with ok obtain h where h: "h \<in> set (n_challenges db)" "h_challenge_id h = i" "h_operation_id h = d_operation_id d"
      "Some (h_connection_id h) = d_connection_id d" unfolding decision_ok_def by blast
    have kh: "k h \<in> set (n_challenges db')" using h(1) db' by simp
    with h hs [OF h(1)] d i agrees show ?thesis
      by (intro bexI [OF _ kh]) (auto simp: same_challenge_def same_decision_def decision_agrees_def)
  qed
qed

lemma challenge_ok_evolve:
  assumes ok: "challenge_ok cr db h" and h: "same_challenge h h'" "challenge_sound h'"
    and cs: "\<And>c. c \<in> set (n_connections db) \<Longrightarrow> same_connection c (f c)" and ds: "\<And>d. d \<in> set (n_decisions db) \<Longrightarrow> same_decision d (e d)"
    and db': "n_connections db' = map f (n_connections db)" "n_decisions db' = map e (n_decisions db)" "n_requests db' = n_requests db"
  shows "challenge_ok cr db' h'"
proof -
  from ok obtain c q d where c: "c \<in> set (n_connections db)" "c_connection_id c = h_connection_id h" "c_policy_generation c = h_policy_generation h"
    and q: "q \<in> set (n_requests db)" "q_operation_id q = h_operation_id h" "q_method q \<noteq> ''connect''" "q_client_public_key q = c_client_public_key c"
    and d: "d \<in> set (n_decisions db)" "d_operation_id d = h_operation_id h" "d_challenge_id d = Some (h_challenge_id h)"
    by (auto simp: challenge_ok_def)
  have "\<exists>c\<in>set (n_connections db'). \<exists>q\<in>set (n_requests db'). c_connection_id c = h_connection_id h'
      \<and> q_operation_id q = h_operation_id h' \<and> c_policy_generation c = h_policy_generation h'
      \<and> q_method q \<noteq> ''connect'' \<and> q_client_public_key q = c_client_public_key c"
    using c q cs [OF c(1)] h(1) db' by (auto simp: same_connection_def same_challenge_def intro!: bexI [of _ c] bexI [of _ q])
  moreover have "\<exists>d\<in>set (n_decisions db'). d_operation_id d = h_operation_id h' \<and> d_challenge_id d = Some (h_challenge_id h')"
    using d ds [OF d(1)] h(1) db' by (auto simp: same_decision_def same_challenge_def intro!: bexI [of _ d])
  ultimately show ?thesis using ok h by (simp add: challenge_ok_def same_challenge_def challenge_sound_def)
qed

lemma map_same_key: "(\<And>x. x \<in> set xs \<Longrightarrow> key (f x) = key x) \<Longrightarrow> map key (map f xs) = map key xs"
  by simp

lemma connection_inv_evolve:
  assumes inv: "connection_inv cr db"
    and db': "n_gov db' = n_gov db" "n_requests db' = n_requests db" "n_connections db' = map f (n_connections db)"
      "n_decisions db' = map e (n_decisions db)" "n_challenges db' = map k (n_challenges db)"
    and cs: "\<And>c. c \<in> set (n_connections db) \<Longrightarrow> same_connection c (f c) \<and> connection_ok cr (n_permissions db') (f c)"
    and ps: "\<And>p. p \<in> set (n_permissions db') \<Longrightarrow> p_connection_id p \<in> c_connection_id ` set (n_connections db)"
    and ds: "\<And>d. d \<in> set (n_decisions db) \<Longrightarrow> same_decision d (e d) \<and> decision_agrees (n_connections db') (n_challenges db') (e d)"
    and hs: "\<And>h. h \<in> set (n_challenges db) \<Longrightarrow> same_challenge h (k h) \<and> challenge_sound (k h)"
  shows "connection_inv cr db'"
proof -
  note D = connection_invD [OF inv]
  have ids: "map c_connection_id (n_connections db') = map c_connection_id (n_connections db)"
    "map d_operation_id (n_decisions db') = map d_operation_id (n_decisions db)"
    "map h_operation_id (n_challenges db') = map h_operation_id (n_challenges db)"
    "map h_challenge_id (n_challenges db') = map h_challenge_id (n_challenges db)"
    using cs ds hs by (simp_all add: db' same_connection_def same_decision_def same_challenge_def)
  have adm: "map d_connection_id (filter admission_decision_of (n_decisions db')) = map d_connection_id (filter admission_decision_of (n_decisions db))"
  proof -
    have "filter (admission_decision_of \<circ> e) (n_decisions db) = filter admission_decision_of (n_decisions db)"
      using ds by (intro filter_cong) (auto simp: admission_decision_of_def same_decision_def)
    then show ?thesis using ds by (auto simp: db' filter_map same_decision_def)
  qed
  have ids_set: "c_connection_id ` set (n_connections db') = c_connection_id ` set (n_connections db)" using arg_cong [OF ids(1), of set] by simp
  have "\<exists>d\<in>set (n_decisions db'). admission_decision_of d \<and> d_connection_id d = Some (c_connection_id c)"
    if "c \<in> set (n_connections db')" for c
  proof -
    from that obtain x where x: "x \<in> set (n_connections db)" "c = f x" by (auto simp: db')
    with D(11) obtain d where "d \<in> set (n_decisions db)" "admission_decision_of d" "d_connection_id d = Some (c_connection_id x)" by blast
    with cs [OF x(1)] x(2) ds show ?thesis
      by (auto simp: db' admission_decision_of_def same_decision_def same_connection_def intro!: bexI [of _ d])
  qed
  moreover have "decision_ok db' d" if "d \<in> set (n_decisions db')" for d
  proof -
    from that obtain x where x: "x \<in> set (n_decisions db)" "d = e x" by (auto simp: db')
    with decision_ok_evolve [OF D(8) [OF x(1)], where d' = "e x" and f = f and k = k and db' = db'] ds cs hs db' show ?thesis by blast
  qed
  moreover have "challenge_ok cr db' h" if "h \<in> set (n_challenges db')" for h
  proof -
    from that obtain x where x: "x \<in> set (n_challenges db)" "h = k x" by (auto simp: db')
    with challenge_ok_evolve [OF D(12) [OF x(1)], where h' = "k x" and f = f and e = e and db' = db'] ds cs hs db' show ?thesis by blast
  qed
  ultimately show ?thesis
    using D(1,2,3,4,6,9,10,13,14) cs ps unfolding connection_inv_def ids adm ids_set by (auto simp: db')
qed


section \<open>Updates\<close>

lemma connection_update_moves:
  assumes "connection_update_legal c c'"
  obtains (approved) "c_status c = ''pending''" "c_status c' = ''active''"
      "\<And>until. c_authorized_until_unix_ms c' = Some until \<Longrightarrow> c_updated_at_unix_ms c' < until"
  | (denied) "c_status c = ''pending''" "c_status c' = ''denied''" "c_authorized_until_unix_ms c' = None"
  | (expired) "c_status c = ''active''" "c_status c' = ''expired''" "c_authorized_until_unix_ms c' = None"
proof -
  have "\<not> connections_guard_update c c'" using assms by (simp add: connection_update_legal_def)
  then have "(c_status c = ''pending'' \<and> c_status c' = ''active''
      \<and> (case c_authorized_until_unix_ms c' of None \<Rightarrow> True | Some until \<Rightarrow> c_updated_at_unix_ms c' < until))
    \<or> (c_status c = ''pending'' \<and> c_status c' = ''denied'' \<and> c_authorized_until_unix_ms c' = None)
    \<or> (c_status c = ''active'' \<and> c_status c' = ''expired'' \<and> c_authorized_until_unix_ms c' = None)"
    unfolding connections_guard_update_def by blast
  then show thesis
  proof (elim disjE conjE)
    assume a: "c_status c = ''pending''" "c_status c' = ''active''"
      "case c_authorized_until_unix_ms c' of None \<Rightarrow> True | Some until \<Rightarrow> c_updated_at_unix_ms c' < until"
    from a(3) have "\<And>until. c_authorized_until_unix_ms c' = Some until \<Longrightarrow> c_updated_at_unix_ms c' < until" by simp
    with a(1,2) show thesis by (rule approved)
  qed (rule denied expired; assumption)+
qed

lemma connection_ok_update:
  assumes "connection_ok cr ps c" and "connection_update_legal c c'"
  shows "connection_ok cr ps c'"
proof -
  have same: "same_connection c c'" using assms(2) by (rule update_legal_same)
  have ck: "connections_check c'" using assms(2) by (simp add: connection_update_legal_def)
  from assms(2) have "(c_status c' \<in> {''pending'', ''denied''} \<longrightarrow> codes_of ps (c_connection_id c) ''granted'' = [])
    \<and> (\<forall>until. c_authorized_until_unix_ms c' = Some until \<longrightarrow> c_updated_at_unix_ms c' < until)"
    using assms(1) by (cases rule: connection_update_moves) (simp_all add: connection_ok_def)
  then show ?thesis using same assms(1) ck by (simp add: connection_ok_def same_connection_def)
qed

lemma admission_matches_ends:
  assumes "connection_update_legal c c'" and "c_status c' \<noteq> ''active''" and "admission_matches reason (c_status c)"
  shows "admission_matches reason (c_status c')"
  using assms(1) by (cases rule: connection_update_moves) (use assms(2,3) in \<open>auto simp: admission_matches_def\<close>)

lemma challenge_update_moves:
  assumes "challenge_update_legal h h'"
  shows "h_state h = ''pending''" "h_state h' \<in> {''authorized'', ''expired''}"
proof -
  have "\<not> connection_auth_challenges_guard_update h h'" using assms by (simp add: challenge_update_legal_def)
  then show "h_state h = ''pending''" "h_state h' \<in> {''authorized'', ''expired''}"
    unfolding connection_auth_challenges_guard_update_def by blast+
qed

lemma challenge_matches_ends:
  assumes "challenge_update_legal h h'" and "h_state h' = ''expired''" and "challenge_matches decision (h_state h)"
  shows "challenge_matches decision (h_state h')"
  using challenge_update_moves [OF assms(1)] assms(2,3) by (simp add: challenge_matches_def)

text \<open>Connections that end and challenges that expire leave every decision in agreement.\<close>

lemma connection_inv_ends:
  assumes inv: "connection_inv cr db"
    and cs: "\<And>c. c \<in> set (n_connections db) \<Longrightarrow> f c = c \<or> (connection_update_legal c (f c) \<and> c_status (f c) \<noteq> ''active'')"
    and hs: "\<And>h. h \<in> set (n_challenges db) \<Longrightarrow> k h = h \<or> (challenge_update_legal h (k h) \<and> h_state (k h) = ''expired'')"
  shows "connection_inv cr (db\<lparr>n_connections := map f (n_connections db), n_challenges := map k (n_challenges db)\<rparr>)"
proof (rule connection_inv_evolve [OF inv, where f = f and k = k and e = "\<lambda>d. d"])
  show "same_connection c (f c) \<and> connection_ok cr (n_permissions (db\<lparr>n_connections := map f (n_connections db),
      n_challenges := map k (n_challenges db)\<rparr>)) (f c)" if "c \<in> set (n_connections db)" for c
    using cs [OF that] connection_invD(5) [OF inv that] connection_ok_update update_legal_same(1) [of c "f c"] by auto
  show "same_challenge h (k h) \<and> challenge_sound (k h)" if "h \<in> set (n_challenges db)" for h
    using hs [OF that] challenge_sound_inv [OF inv that] update_legal_same(3) [of h "k h"]
    by (auto simp: challenge_sound_def challenge_update_legal_def)
  fix d assume d: "d \<in> set (n_decisions db)"
  have D: "decision_agrees (n_connections db) (n_challenges db) d" using decision_agrees_inv [OF inv d] .
  have "admission_matches (d_reason_code d) (c_status (f c))"
    if "c \<in> set (n_connections db)" "d_connection_id d = Some (c_connection_id (f c))" "d_challenge_id d = None" for c
  proof -
    have "c_connection_id (f c) = c_connection_id c" using cs [OF that(1)] update_legal_same(1) [of c "f c"] by (auto simp: same_connection_def)
    then have "admission_matches (d_reason_code d) (c_status c)" using D that by (simp add: decision_agrees_def)
    then show ?thesis using cs [OF that(1)] admission_matches_ends [of c "f c"] by auto
  qed
  moreover have "challenge_matches (d_decision d) (h_state (k h))"
    if "h \<in> set (n_challenges db)" "d_challenge_id d = Some (h_challenge_id (k h))" for h
  proof -
    have "h_challenge_id (k h) = h_challenge_id h" using hs [OF that(1)] update_legal_same(3) [of h "k h"] by (auto simp: same_challenge_def)
    then have "challenge_matches (d_decision d) (h_state h)" using D that by (simp add: decision_agrees_def)
    then show ?thesis using hs [OF that(1)] challenge_matches_ends [of h "k h"] by auto
  qed
  ultimately show "same_decision d d \<and> decision_agrees (n_connections (db\<lparr>n_connections := map f (n_connections db),
      n_challenges := map k (n_challenges db)\<rparr>)) (n_challenges (db\<lparr>n_connections := map f (n_connections db),
      n_challenges := map k (n_challenges db)\<rparr>)) d" using D by (simp add: decision_agrees_def)
qed (simp_all add: connection_invD(7) [OF inv])

lemma expired_db_inv:
  assumes "connection_inv cr db" and "connection_update_legal c (expire_connection_set (int observed_at) c)"
  shows "connection_inv cr (expired_db db c observed_at)"
proof -
  let ?f = "\<lambda>r. if r = c then expire_connection_set (int observed_at) c else r"
  have "connection_inv cr (db\<lparr>n_connections := map ?f (n_connections db), n_challenges := map (\<lambda>h. h) (n_challenges db)\<rparr>)"
    using assms(2) by (intro connection_inv_ends [OF assms(1)]) (auto simp: expire_connection_set_def)
  then show ?thesis by (simp add: expired_db_def swap_row_def)
qed

text \<open>The operator's decision on a pending connection: the connection and its admission decision change together.\<close>

lemma operator_decided_inv:
  assumes inv: "connection_inv cr db" and c: "c \<in> set (n_connections db)" "connection_update_legal c c'"
    and d: "d \<in> set (n_decisions db)" "d_connection_id d = Some (c_connection_id c)" "d_challenge_id d = None" "decision_update_legal d d'"
    and match: "admission_matches (d_reason_code d') (c_status c')"
    and ps: "connection_ok cr ps c'" "\<And>x. x \<in> set (n_connections db) \<Longrightarrow> x \<noteq> c \<Longrightarrow> connection_ok cr ps x"
      "\<And>p. p \<in> set ps \<Longrightarrow> p_connection_id p \<in> c_connection_id ` set (n_connections db)"
    and db': "db' = db\<lparr>n_permissions := ps, n_connections := swap_row c c' (n_connections db), n_decisions := swap_row d d' (n_decisions db)\<rparr>"
  shows "connection_inv cr db'"
proof (rule connection_inv_evolve [OF inv, where f = "\<lambda>r. if r = c then c' else r" and e = "\<lambda>r. if r = d then d' else r" and k = "\<lambda>h. h"])
  show "same_connection x (if x = c then c' else x) \<and> connection_ok cr (n_permissions db') (if x = c then c' else x)"
    if "x \<in> set (n_connections db)" for x
    using ps(1) ps(2) [of x] that update_legal_same(1) [OF c(2)] by (simp add: db')
  show "same_challenge h h \<and> challenge_sound h" if "h \<in> set (n_challenges db)" for h
    using challenge_sound_inv [OF inv that] by simp
  have id': "c_connection_id c' = c_connection_id c" using update_legal_same(1) [OF c(2)] by (simp add: same_connection_def)
  have same: "same_decision d d'" using update_legal_same(2) [OF d(4)] .
  fix x assume x: "x \<in> set (n_decisions db)"
  have X: "decision_agrees (n_connections db) (n_challenges db) x" using decision_agrees_inv [OF inv x] .
  show "same_decision x (if x = d then d' else x) \<and> decision_agrees (n_connections db') (n_challenges db') (if x = d then d' else x)"
  proof (cases "x = d")
    case True
    have "z = c" if "z \<in> set (n_connections db)" "c_connection_id z = c_connection_id c" for z
      using unique_by_key [OF connection_invD(6) [OF inv] that(1) c(1) that(2)] .
    then have "\<forall>z\<in>set (n_connections db'). d_connection_id d' = Some (c_connection_id z) \<longrightarrow> admission_matches (d_reason_code d') (c_status z)"
      using same d(2) match id' by (auto simp: db' in_swap_row same_decision_def)
    then show ?thesis using True same d(3,4) by (simp add: decision_agrees_def decision_update_legal_def same_decision_def)
  next
    case False
    have "\<not> (d_connection_id x = Some (c_connection_id c) \<and> d_challenge_id x = None)"
    proof
      assume a: "d_connection_id x = Some (c_connection_id c) \<and> d_challenge_id x = None"
      have "x \<in> set (filter admission_decision_of (n_decisions db))" "d \<in> set (filter admission_decision_of (n_decisions db))"
        using a x d(1,2,3) by (simp_all add: admission_decision_of_def)
      from unique_by_key [OF connection_invD(10) [OF inv] this] a d(2) False show False by simp
    qed
    then show ?thesis using False X id' by (auto simp: db' decision_agrees_def in_swap_row)
  qed
qed (use ps(3) in \<open>auto simp: db' swap_row_def\<close>)


lemma pending_admission:
  assumes "connection_inv cr db" and "d \<in> set (n_decisions db)" and "d_decision d = ''pending_approval''"
  shows "d_challenge_id d = None"
  using connection_invD(8) [OF assms(1,2)] assms(3)
  by (auto simp: decision_ok_def nip46_request_decisions_check_def decision_shape_def)

lemma denied_db_inv:
  assumes inv: "connection_inv cr db" and c: "c \<in> set (n_connections db)" "connection_update_legal c (deny_connection_set (int t) c)"
    and d: "d \<in> set (n_decisions db)" "d_connection_id d = Some (c_connection_id c)" "d_decision d = ''pending_approval''"
      "decision_update_legal d (update_decision_set ''denied'' ''operator_denied'' (int t) d)"
  shows "connection_inv cr (denied_db db c d t)"
proof (rule operator_decided_inv [OF inv c d(1,2) pending_admission [OF inv d(1,3)] d(4), where ps = "n_permissions db"])
  show "connection_ok cr (n_permissions db) (deny_connection_set (int t) c)"
    using connection_ok_update [OF connection_invD(5) [OF inv c(1)] c(2)] .
qed (auto simp: denied_db_def update_decision_set_def deny_connection_set_def admission_matches_def connection_invD(5,7) [OF inv])

lemma codes_of_granted:
  assumes "i = j"
  shows "codes_of (ps @ permission_rows i ''granted'' permissions) j ''granted'' = codes_of ps j ''granted'' @ map permission_code permissions"
  using assms by (simp add: codes_of_append codes_of_rows)

lemma connection_ok_perms:
  assumes "\<And>scope. codes_of ps' (c_connection_id c) scope = codes_of ps (c_connection_id c) scope"
  shows "connection_ok cr ps' c = connection_ok cr ps c"
  using assms by (simp add: connection_ok_def permissions_ok_def stored_permissions_def)

lemma approved_db_inv:
  assumes inv: "connection_inv cr db" and c: "c \<in> set (n_connections db)" "c_status c = ''pending''"
      "connection_update_legal c (approve_connection_set (int t) (map_option int until) c)"
    and d: "d \<in> set (n_decisions db)" "d_connection_id d = Some (c_connection_id c)" "d_decision d = ''pending_approval''"
      "decision_update_legal d (update_decision_set ''allowed'' ''operator_approved'' (int t) d)"
    and granted: "permission_set_ok (sha256 cr) granted" "is_subset_of granted (cr_requested_permissions (connection_record cr (n_permissions db) c))"
  shows "connection_inv cr (approved_db db c d granted t until)"
proof -
  let ?ps = "n_permissions db @ permission_rows (c_connection_id c) ''granted'' (ps_permissions granted)"
  let ?c = "approve_connection_set (int t) (map_option int until) c"
  have ok: "connection_ok cr (n_permissions db) c" using connection_invD(5) [OF inv c(1)] .
  have ok': "connection_ok cr (n_permissions db) ?c" using connection_ok_update [OF ok c(3)] .
  have id': "c_connection_id ?c = c_connection_id c" by (simp add: approve_connection_set_def)
  have codes: "codes_of ?ps (c_connection_id c) ''granted'' = map permission_code (ps_permissions granted)"
    "codes_of ?ps (c_connection_id c) ''requested'' = codes_of (n_permissions db) (c_connection_id c) ''requested''"
    using ok c(2) by (simp_all add: codes_of_append codes_of_rows connection_ok_def)
  have req: "stored_permissions ?ps (c_connection_id c) ''requested'' = stored_permissions (n_permissions db) (c_connection_id c) ''requested''"
    "permissions_ok ?ps (c_connection_id c) ''requested''"
    using codes(2) ok by (simp_all add: stored_permissions_def permissions_ok_def connection_ok_def)
  have "set (ps_permissions granted) \<subseteq> set (stored_permissions (n_permissions db) (c_connection_id c) ''requested'')"
  proof -
    have "permissions_ok (n_permissions db) (c_connection_id c) ''requested''" using ok by (simp add: connection_ok_def)
    from is_subset_of_ok [OF seal_ok [OF this, of "sha256 cr"], of granted] granted(2) show ?thesis
      by (simp add: connection_record_def seal_def)
  qed
  then have "connection_ok cr ?ps ?c"
    using ok' c(2) req permissions_ok_codes(1) [OF codes(1) granted(1)] stored_codes [OF codes(1)] unfolding connection_ok_def id'
    by (simp add: approve_connection_set_def)
  moreover have "connection_ok cr ?ps x" if "x \<in> set (n_connections db)" "x \<noteq> c" for x
  proof -
    have "c_connection_id x \<noteq> c_connection_id c" using unique_by_key [OF connection_invD(6) [OF inv] that(1) c(1)] that(2) by blast
    then have "codes_of ?ps (c_connection_id x) scope = codes_of (n_permissions db) (c_connection_id x) scope" for scope
      by (simp add: codes_of_append codes_of_rows)
    then show ?thesis using connection_ok_perms connection_invD(5) [OF inv that(1)] by blast
  qed
  moreover have "p_connection_id p \<in> c_connection_id ` set (n_connections db)" if "p \<in> set ?ps" for p
    using that c(1) connection_invD(7) [OF inv] by (auto simp: permission_rows_def)
  ultimately show ?thesis
    by (intro operator_decided_inv [OF inv c(1,3) d(1,2) pending_admission [OF inv d(1,3)] d(4), where ps = ?ps])
      (auto simp: approved_db_def update_decision_set_def approve_connection_set_def admission_matches_def)
qed

lemma resolved_db_inv:
  assumes inv: "connection_inv cr db" and h: "h \<in> set (n_challenges db)" "challenge_update_legal h (resolved_challenge late t h)"
    and late: "\<not> late \<Longrightarrow> int t \<le> h_expires_at_unix_ms h"
    and d: "d \<in> set (n_decisions db)" "d_challenge_id d = Some (h_challenge_id h)" "decision_update_legal d (resolved_decision late t d)"
  shows "connection_inv cr (resolved_db db h d late t)"
proof (rule connection_inv_evolve [OF inv, where f = "\<lambda>c. c" and e = "\<lambda>r. if r = d then resolved_decision late t d else r"
      and k = "\<lambda>r. if r = h then resolved_challenge late t h else r"])
  let ?h = "resolved_challenge late t h" and ?d = "resolved_decision late t d" and ?db = "resolved_db db h d late t"
  show "same_connection c c \<and> connection_ok cr (n_permissions ?db) c" if "c \<in> set (n_connections db)" for c
    using connection_invD(5) [OF inv that] by (simp add: resolved_db_def)
  have hid: "h_challenge_id ?h = h_challenge_id h" by (simp add: resolved_challenge_def resolve_challenge_set_def)
  have uniq: "x = h" if "x \<in> set (n_challenges db)" "h_challenge_id x = h_challenge_id h" for x
    using unique_by_key [OF connection_invD(14) [OF inv] that(1) h(1) that(2)] .
  show "same_challenge x (if x = h then ?h else x) \<and> challenge_sound (if x = h then ?h else x)" if "x \<in> set (n_challenges db)" for x
    using challenge_sound_inv [OF inv that] update_legal_same(3) [OF h(2)] h(2) late
    by (auto simp: challenge_sound_def challenge_update_legal_def resolved_challenge_def resolve_challenge_set_def)
  fix x assume x: "x \<in> set (n_decisions db)"
  have X: "decision_agrees (n_connections db) (n_challenges db) x" using decision_agrees_inv [OF inv x] .
  show "same_decision x (if x = d then ?d else x) \<and> decision_agrees (n_connections ?db) (n_challenges ?db) (if x = d then ?d else x)"
  proof (cases "x = d")
    case True
    have did: "d_challenge_id ?d = Some (h_challenge_id h)" using d(2) by (simp add: resolved_decision_def update_decision_set_def)
    have m: "challenge_matches (d_decision ?d) (h_state ?h)"
      by (simp add: resolved_decision_def update_decision_set_def resolved_challenge_def resolve_challenge_set_def challenge_matches_def)
    have "z = ?h" if "z \<in> set (n_challenges ?db)" "d_challenge_id ?d = Some (h_challenge_id z)" for z
      using that uniq [of z] did unfolding resolved_db_def by (auto simp: in_swap_row)
    then have "\<forall>z\<in>set (n_challenges ?db). d_challenge_id ?d = Some (h_challenge_id z) \<longrightarrow> challenge_matches (d_decision ?d) (h_state z)"
      using m by blast
    moreover have "nip46_request_decisions_check ?d" using d(3) by (simp add: decision_update_legal_def)
    ultimately show ?thesis using True update_legal_same(2) [OF d(3)] did unfolding decision_agrees_def by simp
  next
    case False
    have "d_challenge_id x \<noteq> Some (h_challenge_id h)"
    proof
      assume a: "d_challenge_id x = Some (h_challenge_id h)"
      obtain y where y: "y \<in> set (n_challenges db)" "h_challenge_id y = h_challenge_id h" "h_operation_id y = d_operation_id x"
        using connection_invD(8) [OF inv x] a unfolding decision_ok_def by blast
      obtain z where z: "z \<in> set (n_challenges db)" "h_challenge_id z = h_challenge_id h" "h_operation_id z = d_operation_id d"
        using connection_invD(8) [OF inv d(1)] d(2) unfolding decision_ok_def by blast
      have "d_operation_id x = d_operation_id d" using y z uniq by metis
      with unique_by_key [OF connection_invD(9) [OF inv] x d(1)] False show False by blast
    qed
    then show ?thesis using False X hid by (auto simp: resolved_db_def decision_agrees_def in_swap_row)
  qed
qed (use connection_invD(7) [OF inv] in \<open>auto simp: resolved_db_def swap_row_def\<close>)


section \<open>Insertions\<close>

lemma decision_ok_more:
  assumes "decision_ok db d" and "set (n_connections db) \<subseteq> set (n_connections db')" and "set (n_challenges db) \<subseteq> set (n_challenges db')"
  shows "decision_ok db' d"
  using assms unfolding decision_ok_def by blast

lemma challenge_ok_more:
  assumes "challenge_ok cr db h" and "set (n_connections db) \<subseteq> set (n_connections db')"
    and "set (n_requests db) \<subseteq> set (n_requests db')" and "set (n_decisions db) \<subseteq> set (n_decisions db')"
  shows "challenge_ok cr db' h"
  using assms unfolding challenge_ok_def by blast

lemma connection_inv_gov:
  assumes inv: "connection_inv cr db" and "gov_run cr (n_gov db) g"
  shows "connection_inv cr (db\<lparr>n_gov := g\<rparr>)"
proof -
  have "decision_ok (db\<lparr>n_gov := g\<rparr>) d = decision_ok db d" "challenge_ok cr (db\<lparr>n_gov := g\<rparr>) h = challenge_ok cr db h" for d h
    by (simp_all add: decision_ok_def challenge_ok_def)
  moreover have "governance_inv g" using gov_run_inv [OF assms(2) connection_invD(1) [OF inv]] .
  moreover have "g_requests g = g_requests (n_gov db)" using assms(2) by (simp add: gov_run_def)
  ultimately show ?thesis using inv by (simp add: connection_inv_def)
qed

lemma request_stored_inv:
  assumes inv: "connection_inv cr db" and q: "request_insert_legal (n_requests db) q"
    "client_public_key_new cr (q_client_public_key q) = Inr (q_client_public_key q)"
    and gov: "governance_inv g" "g_requests g = g_requests (n_gov db) @ [request_key q]"
  shows "connection_inv cr (db\<lparr>n_gov := g, n_requests := n_requests db @ [q]\<rparr>)" (is "connection_inv cr ?db")
proof -
  have ck: "nip46_requests_check q" "\<forall>r\<in>set (n_requests db). q_operation_id r \<noteq> q_operation_id q"
    using q(1) by (auto simp: request_insert_legal_def list_all_iff)
  have "decision_ok ?db d" if "d \<in> set (n_decisions db)" for d
    using connection_invD(8) [OF inv that] by (rule decision_ok_more) simp_all
  moreover have "challenge_ok cr ?db h" if "h \<in> set (n_challenges db)" for h
    using connection_invD(12) [OF inv that] by (rule challenge_ok_more) auto
  ultimately show ?thesis
    using inv ck q(2) gov by (auto simp: connection_inv_def request_ok_def)
qed

lemma challenged_db_inv:
  assumes inv: "connection_inv cr db" and c: "c \<in> set (n_connections db)" "c_connection_id c = acr_connection_id r"
      "c_policy_generation c = int (acr_policy_generation r)"
    and q: "q \<in> set (n_requests db)" "q_operation_id q = acr_operation_id r" "q_method q \<noteq> ''connect''" "q_client_public_key q = c_client_public_key c"
    and ok: "challenge_request_ok cr r"
    and h: "challenge_insert_legal db (n_challenges db) (new_challenge cr r)"
    and d: "nip46_request_decisions_check (new_challenge_decision cr r c)" "\<forall>d\<in>set (n_decisions db). d_operation_id d \<noteq> acr_operation_id r"
  shows "connection_inv cr (challenged_db cr db r c)" (is "connection_inv cr ?db")
proof -
  let ?h = "new_challenge cr r" and ?d = "new_challenge_decision cr r c"
  have tables: "n_gov ?db = n_gov db" "n_requests ?db = n_requests db" "n_connections ?db = n_connections db" "n_permissions ?db = n_permissions db"
    "n_decisions ?db = n_decisions db @ [?d]" "n_challenges ?db = n_challenges db @ [?h]" by (simp_all add: challenged_db_def)
  have dok: "decision_ok ?db ?d"
    unfolding decision_ok_def
  proof (intro conjI allI impI)
    show "nip46_request_decisions_check ?d" by (fact d(1))
    show "\<exists>c\<in>set (n_connections ?db). c_connection_id c = i \<and> c_policy_generation c = d_policy_generation ?d
        \<and> c_requested_permissions_sha256 c = d_requested_permissions_sha256 ?d
        \<and> (d_challenge_id ?d = None \<longrightarrow> admission_matches (d_reason_code ?d) (c_status c))" if "d_connection_id ?d = Some i" for i
      using that c by (intro bexI [of _ c]) (auto simp: tables new_challenge_decision_def)
    show "\<exists>h\<in>set (n_challenges ?db). h_challenge_id h = i \<and> h_operation_id h = d_operation_id ?d
        \<and> Some (h_connection_id h) = d_connection_id ?d \<and> challenge_matches (d_decision ?d) (h_state h)" if "d_challenge_id ?d = Some i" for i
      using that by (intro bexI [of _ ?h]) (auto simp: tables new_challenge_decision_def new_challenge_def challenge_matches_def)
  qed
  have hok: "challenge_ok cr ?db ?h"
    unfolding challenge_ok_def
  proof (intro conjI)
    show "connection_auth_challenges_check ?h" using h by (simp add: challenge_insert_legal_def)
    show "challenge_url_new cr (h_challenge_url ?h) = Inr (h_challenge_url ?h)" using ok by (simp add: challenge_request_ok_def new_challenge_def)
    show "\<exists>c\<in>set (n_connections ?db). \<exists>q\<in>set (n_requests ?db). c_connection_id c = h_connection_id ?h
          \<and> q_operation_id q = h_operation_id ?h \<and> c_policy_generation c = h_policy_generation ?h
          \<and> q_method q \<noteq> ''connect'' \<and> q_client_public_key q = c_client_public_key c"
      using c q by (intro bexI [of _ c] bexI [of _ q]) (auto simp: tables new_challenge_def)
    show "\<exists>d\<in>set (n_decisions ?db). d_operation_id d = h_operation_id ?h \<and> d_challenge_id d = Some (h_challenge_id ?h)"
      by (intro bexI [of _ ?d]) (auto simp: tables new_challenge_decision_def new_challenge_def)
  qed (simp_all add: new_challenge_def)
  have "decision_ok ?db x" if "x \<in> set (n_decisions db)" for x
    using connection_invD(8) [OF inv that] by (rule decision_ok_more) (auto simp: tables)
  moreover have "challenge_ok cr ?db x" if "x \<in> set (n_challenges db)" for x
    using connection_invD(12) [OF inv that] by (rule challenge_ok_more) (auto simp: tables)
  moreover have "\<not> admission_decision_of ?d" by (simp add: admission_decision_of_def new_challenge_decision_def)
  moreover have "d_operation_id ?d = acr_operation_id r" "h_operation_id ?h = acr_operation_id r"
    by (simp_all add: new_challenge_decision_def new_challenge_def)
  moreover have "\<forall>x\<in>set (n_challenges db). h_challenge_id x \<noteq> h_challenge_id ?h \<and> h_operation_id x \<noteq> h_operation_id ?h"
    using h by (simp add: challenge_insert_legal_def list_all_iff)
  ultimately show ?thesis
    using inv dok hok d(2) unfolding connection_inv_def tables by auto
qed


lemma new_connection_ok:
  assumes ok: "admission_request_ok cr r" and ins: "connections_check (new_connection cr r)"
    and fresh: "\<And>p. p \<in> set ps \<Longrightarrow> p_connection_id p \<noteq> c_connection_id (new_connection cr r)"
  shows "connection_ok cr (ps @ new_permissions cr r) (new_connection cr r)"
proof -
  let ?c = "new_connection cr r" and ?ps = "ps @ new_permissions cr r"
  let ?i = "c_connection_id ?c" and ?perms = "ps_permissions (car_requested_permissions r)"
  have set_ok: "permission_set_ok (sha256 cr) (car_requested_permissions r)" using admission_request_okD(4) [OF ok] .
  have old: "codes_of ps ?i scope = []" for scope using fresh by (rule codes_of_other)
  have codes: "codes_of ?ps ?i ''requested'' = map permission_code ?perms"
    "codes_of ?ps ?i ''granted'' = (if car_policy r = PolicyTrusted then map permission_code ?perms else [])"
    using old by (simp_all add: codes_of_append codes_of_rows new_permissions_def) (simp_all add: codes_of_def)
  have req: "permissions_ok ?ps ?i ''requested''" "stored_permissions ?ps ?i ''requested'' = ?perms"
    "ps_digest (car_requested_permissions r) = permission_digest (sha256 cr) ?perms"
    using permissions_ok_codes(1) [OF codes(1) set_ok] stored_codes [OF codes(1)] set_ok by (simp_all add: permission_set_ok_def)
  have "permissions_ok ?ps ?i ''granted'' \<and> set (stored_permissions ?ps ?i ''granted'') \<subseteq> set ?perms
      \<and> (c_status ?c \<in> {''pending'', ''denied''} \<longrightarrow> codes_of ?ps ?i ''granted'' = [])"
  proof (cases "car_policy r = PolicyTrusted")
    case True
    then have "codes_of ?ps ?i ''granted'' = map permission_code ?perms" using codes(2) by simp
    then show ?thesis using permissions_ok_codes(1) [OF _ set_ok] stored_codes True by (simp add: new_connection_def)
  next
    case False
    then have "codes_of ?ps ?i ''granted'' = []" using codes(2) by simp
    then show ?thesis by (simp add: permissions_ok_def stored_permissions_def)
  qed
  moreover have "\<forall>until. c_authorized_until_unix_ms ?c = Some until \<longrightarrow> c_updated_at_unix_ms ?c < until"
    using admission_request_okD(2) [OF ok] by (auto simp: new_connection_def)
  moreover have "client_public_key_new cr (c_client_public_key ?c) = Inr (c_client_public_key ?c)"
    "derive_connection_id (sha256 cr) (c_client_public_key ?c) (c_connection_nonce ?c) = ?i"
    "c_requested_permissions_sha256 ?c = permission_digest (sha256 cr) ?perms"
    using admission_request_okD(5) [OF ok] req(3) by (simp_all add: new_connection_def)
  ultimately show ?thesis using ins req by (simp add: connection_ok_def)
qed

lemma denied_admission_inv:
  assumes inv: "connection_inv cr db" and policy: "car_policy r = PolicyDenied"
    and d: "nip46_request_decisions_check (new_admission_decision cr r)" "\<forall>d\<in>set (n_decisions db). d_operation_id d \<noteq> car_operation_id r"
  shows "connection_inv cr (admitted_db cr db r)" (is "connection_inv cr ?db")
proof -
  let ?d = "new_admission_decision cr r"
  have tables: "n_connections ?db = n_connections db" "n_permissions ?db = n_permissions db" using policy by (simp_all add: admitted_db_def)
  have fields: "d_connection_id ?d = None" "d_challenge_id ?d = None" "d_operation_id ?d = car_operation_id r"
    using policy by (simp_all add: new_admission_decision_def)
  then have "decision_ok ?db ?d" "\<not> admission_decision_of ?d" using d(1) by (simp_all add: decision_ok_def admission_decision_of_def)
  moreover have "decision_ok ?db x" if "x \<in> set (n_decisions db)" for x
    using connection_invD(8) [OF inv that] by (rule decision_ok_more) (auto simp: tables)
  moreover have "challenge_ok cr ?db x" if "x \<in> set (n_challenges db)" for x
    using connection_invD(12) [OF inv that] by (rule challenge_ok_more) (auto simp: tables)
  ultimately show ?thesis
    using inv d(2) fields(3) unfolding connection_inv_def tables admitted_db_simps by auto
qed

lemma granted_admission_inv:
  assumes inv: "connection_inv cr db" and policy: "car_policy r \<noteq> PolicyDenied" and ok: "admission_request_ok cr r"
    and c: "connection_insert_legal (n_connections db) (new_connection cr r)"
    and d: "nip46_request_decisions_check (new_admission_decision cr r)" "\<forall>d\<in>set (n_decisions db). d_operation_id d \<noteq> car_operation_id r"
  shows "connection_inv cr (admitted_db cr db r)" (is "connection_inv cr ?db")
proof -
  let ?d = "new_admission_decision cr r" and ?c = "new_connection cr r"
  have tables: "n_connections ?db = n_connections db @ [?c]" "n_permissions ?db = n_permissions db @ new_permissions cr r"
    using policy by (simp_all add: admitted_db_def)
  have fresh: "\<forall>x\<in>set (n_connections db). c_connection_id x \<noteq> c_connection_id ?c" "connections_check ?c"
    using c by (auto simp: connection_insert_legal_def list_all_iff)
  have fields: "d_connection_id ?d = Some (c_connection_id ?c)" "d_challenge_id ?d = None" "d_operation_id ?d = car_operation_id r"
    using policy by (simp_all add: new_admission_decision_def)
  then have adm: "admission_decision_of ?d" by (simp add: admission_decision_of_def)
  have new_perm: "p_connection_id p = c_connection_id ?c" if "p \<in> set (new_permissions cr r)" for p
    using that by (auto simp: new_permissions_def permission_rows_def split: if_splits)
  have cok: "connection_ok cr (n_permissions ?db) ?c"
    unfolding tables using connection_invD(7) [OF inv] fresh(1) by (intro new_connection_ok [OF ok fresh(2)]) (metis imageE)
  have "connection_ok cr (n_permissions ?db) x" if x: "x \<in> set (n_connections db)" for x
  proof -
    have "codes_of (new_permissions cr r) (c_connection_id x) scope = []" for scope
      using new_perm fresh(1) x by (intro codes_of_other) metis
    then have "codes_of (n_permissions ?db) (c_connection_id x) scope = codes_of (n_permissions db) (c_connection_id x) scope" for scope
      by (simp add: tables codes_of_append)
    then show ?thesis using connection_ok_perms connection_invD(5) [OF inv x] by blast
  qed
  moreover have "decision_ok ?db ?d"
  proof -
    have "admission_matches (d_reason_code ?d) (c_status ?c)"
      using policy by (cases "car_policy r") (simp_all add: new_admission_decision_def new_connection_def admission_matches_def)
    moreover have "c_policy_generation ?c = d_policy_generation ?d" "c_requested_permissions_sha256 ?c = d_requested_permissions_sha256 ?d"
      by (simp_all add: new_admission_decision_def new_connection_def)
    ultimately show ?thesis using d(1) fields by (auto simp: decision_ok_def tables intro!: bexI [of _ ?c])
  qed
  moreover have "decision_ok ?db x" if "x \<in> set (n_decisions db)" for x
    using connection_invD(8) [OF inv that] by (rule decision_ok_more) (auto simp: tables)
  moreover have "challenge_ok cr ?db x" if "x \<in> set (n_challenges db)" for x
    using connection_invD(12) [OF inv that] by (rule challenge_ok_more) (auto simp: tables)
  moreover have "distinct (map d_connection_id (filter admission_decision_of (n_decisions db @ [?d])))"
  proof -
    have "d_connection_id x \<noteq> Some (c_connection_id ?c)" if "x \<in> set (n_decisions db)" for x
      using connection_invD(8) [OF inv that] fresh(1) unfolding decision_ok_def by metis
    then have "Some (c_connection_id ?c) \<notin> d_connection_id ` set (filter admission_decision_of (n_decisions db))" by (auto simp: image_iff) metis
    then show ?thesis using connection_invD(10) [OF inv] adm fields(1) by simp
  qed
  moreover have "\<exists>y\<in>set (n_decisions db). admission_decision_of y \<and> d_connection_id y = Some (c_connection_id x)" if "x \<in> set (n_connections db)" for x
    using connection_invD(11) [OF inv that] .
  ultimately show ?thesis
    using connection_invD(1,2,3,4,6,7,9,13,14) [OF inv] cok adm d(2) fields fresh(1) new_perm
    unfolding connection_inv_def tables admitted_db_simps by auto
qed

end
