(* ===== verification/Config_Apply.thy ===== *)
theory Config_Apply
  imports Connection_Preservation Delivery_Schema
begin

text \<open>
  The offline configuration change (\<^verbatim>\<open>src/src/state_config.rs\<close>): a new configuration generation is appended to the
  history, and the connections and challenges that the new configuration no longer supports are ended in the same
  transaction. It touches the tables of three components: the binding history that guards every transaction, the
  delivery jobs that may still need a relay, and the connections.
\<close>

section \<open>Configuration documents\<close>

datatype MycConfigProfile = Production | RepoLocal

record MycConfigDocumentV1 =
  doc_profile :: MycConfigProfile
  doc_schema_version :: nat
  doc_provider_bindings :: nat
  doc_normalized :: json_document

definition MYC_OPERATOR_CONTRACT_VERSION :: nat where "MYC_OPERATOR_CONTRACT_VERSION = 1"
definition MYC_SIGNER_STATUS_CONTRACT_VERSION :: nat where "MYC_SIGNER_STATUS_CONTRACT_VERSION = 1"
definition MYC_PROVIDER_CONTRACT_VERSION :: nat where "MYC_PROVIDER_CONTRACT_VERSION = 1"
definition MYC_CONFIG_BINDING_MAX_GENERATIONS :: nat where "MYC_CONFIG_BINDING_MAX_GENERATIONS = 1024"

lemmas config_limits = MYC_OPERATOR_CONTRACT_VERSION_def MYC_SIGNER_STATUS_CONTRACT_VERSION_def MYC_PROVIDER_CONTRACT_VERSION_def
  MYC_CONFIG_BINDING_MAX_GENERATIONS_def

definition NORMALIZED_CONFIG_DIGEST_DOMAIN :: bytes where
  "NORMALIZED_CONFIG_DIGEST_DOMAIN = str_bytes ''radroots.myc.normalized_config.v1'' @ [0]"

text \<open>\<open>to_vec\<close> is \<open>serde_json::to_vec\<close>, a library function.\<close>

definition normalized_config_digest ::
    "crates \<Rightarrow> (json_document \<Rightarrow> bytes option) \<Rightarrow> MycConfigProfile \<Rightarrow> json_document \<Rightarrow> bytes option" where
  "normalized_config_digest cr to_vec profile normalized =
     Option.bind (to_vec normalized) (\<lambda>bytes.
       if length bytes \<le> u64_max
       then Some (sha256 cr (NORMALIZED_CONFIG_DIGEST_DOMAIN @ [case profile of Production \<Rightarrow> 0 | RepoLocal \<Rightarrow> 1]
         @ to_be_bytes 8 (length bytes) @ bytes))
       else None)"

definition identity_from_hex :: "crates \<Rightarrow> string \<Rightarrow> string option" where
  "identity_from_hex cr value = Option.bind (key_hex cr value) (\<lambda>canonical.
     if \<not> key_xonly cr value \<or> canonical \<noteq> value then None else Some canonical)"

record MycExpectedIdentities =
  id_transport :: string
  id_user :: string
  id_discovery :: "string option"

definition config_identity :: "crates \<Rightarrow> json_document \<Rightarrow> string \<Rightarrow> string option" where
  "config_identity cr normalized pointer = Option.bind (Option.bind (normalized pointer) as_str) (identity_from_hex cr)"

definition expected_identities :: "crates \<Rightarrow> json_document \<Rightarrow> MycExpectedIdentities option" where
  "expected_identities cr normalized =
     Option.bind (Option.bind (normalized ''/identity/discovery/enabled'') as_bool) (\<lambda>discovery_enabled.
     Option.bind (config_identity cr normalized ''/identity/transport/expected_public_key'') (\<lambda>transport.
     Option.bind (config_identity cr normalized ''/identity/user/expected_public_key'') (\<lambda>user.
     Option.bind (if discovery_enabled
         then map_option Some (config_identity cr normalized ''/identity/discovery/binding/expected_public_key'')
         else Some None) (\<lambda>discovery.
     Some \<lparr>id_transport = transport, id_user = user, id_discovery = discovery\<rparr>))))"

definition from_configuration ::
    "crates \<Rightarrow> (json_document \<Rightarrow> bytes option) \<Rightarrow> MycConfigDocumentV1 \<Rightarrow> (OperationError, PersistedMetadata) result" where
  "from_configuration cr to_vec configuration =
     r_bind (ok_or Binding (expected_identities cr (doc_normalized configuration))) (\<lambda>identities.
     r_bind (ok_or Binding (normalized_config_digest cr to_vec (doc_profile configuration) (doc_normalized configuration))) (\<lambda>digest.
     Inr \<lparr>pm_normalized_config_sha256 = digest, pm_transport_public_key = id_transport identities,
       pm_user_public_key = id_user identities, pm_discovery_public_key = id_discovery identities,
       pm_config_contract_version = doc_schema_version configuration,
       pm_state_contract_version = MYC_STATE_SCHEMA_VERSION,
       pm_operator_contract_version = MYC_OPERATOR_CONTRACT_VERSION,
       pm_status_contract_version = MYC_SIGNER_STATUS_CONTRACT_VERSION\<rparr>))"

section \<open>What changes between two configurations\<close>

datatype MycConfigApplyErrorKind = ApplyInvalidMode | ApplyInvalidInput | ApplyBinding | ApplyPolicyConflict
  | ApplyResourceExhausted | ApplyTransaction | ApplyCommitOutcomeUnknown

record MigrationBuildIdentity =
  mb_service_version :: string
  mb_service_commit :: string
  mb_lib_revision :: string
  mb_rust_version :: string
  mb_target :: string
  mb_feature_profile :: string
  mb_config_contract_version :: nat
  mb_state_contract_version :: nat
  mb_admin_contract_version :: nat
  mb_status_contract_version :: nat
  mb_provider_contract_version :: nat

definition valid_build :: "MycConfigDocumentV1 \<Rightarrow> MigrationBuildIdentity \<Rightarrow> bool" where
  "valid_build configuration build \<longleftrightarrow>
     mb_config_contract_version build = doc_schema_version configuration
     \<and> mb_state_contract_version build = MYC_STATE_SCHEMA_VERSION
     \<and> mb_admin_contract_version build = MYC_OPERATOR_CONTRACT_VERSION
     \<and> mb_status_contract_version build = MYC_SIGNER_STATUS_CONTRACT_VERSION
     \<and> mb_provider_contract_version build = MYC_PROVIDER_CONTRACT_VERSION"

definition identities_changed :: "PersistedMetadata \<Rightarrow> PersistedMetadata \<Rightarrow> bool" where
  "identities_changed current candidate \<longleftrightarrow>
     pm_transport_public_key current \<noteq> pm_transport_public_key candidate
     \<or> pm_user_public_key current \<noteq> pm_user_public_key candidate
     \<or> pm_discovery_public_key current \<noteq> pm_discovery_public_key candidate"

record RelayBinding =
  rel_url :: string
  rel_read :: bool
  rel_write :: bool
  rel_required :: bool
  rel_authentication :: string

definition json_field :: "string \<Rightarrow> json_value \<Rightarrow> json_value option" where
  "json_field key v = (case v of JsonObject members \<Rightarrow> map_of members key | _ \<Rightarrow> None)"

definition relay_binding :: "json_value \<Rightarrow> (MycConfigApplyErrorKind, string \<times> RelayBinding) result" where
  "relay_binding relay =
     r_bind (ok_or ApplyInvalidInput (Option.bind (json_field ''id'' relay) as_str)) (\<lambda>relay_id.
     r_bind (ok_or ApplyInvalidInput (Option.bind (json_field ''url'' relay) as_str)) (\<lambda>url.
     r_bind (ok_or ApplyInvalidInput (Option.bind (json_field ''read'' relay) as_bool)) (\<lambda>read.
     r_bind (ok_or ApplyInvalidInput (Option.bind (json_field ''write'' relay) as_bool)) (\<lambda>write.
     r_bind (ok_or ApplyInvalidInput (Option.bind (json_field ''required'' relay) as_bool)) (\<lambda>required.
     r_bind (ok_or ApplyInvalidInput (Option.bind (json_field ''authentication'' relay) as_str)) (\<lambda>authentication.
     Inr (relay_id, \<lparr>rel_url = url, rel_read = read, rel_write = write, rel_required = required,
       rel_authentication = authentication\<rparr>)))))))"

text \<open>Collecting into a \<open>BTreeMap\<close> keeps the last binding of a relay: the list of pairs is read from its end.\<close>

definition relay_bindings :: "MycConfigDocumentV1 \<Rightarrow> (MycConfigApplyErrorKind, (string \<times> RelayBinding) list) result" where
  "relay_bindings configuration =
     r_bind (ok_or ApplyInvalidInput (Option.bind (doc_normalized configuration ''/relays'') as_array)) (collect relay_binding)"

definition relay_lookup :: "(string \<times> RelayBinding) list \<Rightarrow> string \<rightharpoonup> RelayBinding" where
  "relay_lookup bindings = map_of (rev bindings)"

definition changed_existing_relays ::
    "MycConfigDocumentV1 \<Rightarrow> MycConfigDocumentV1 \<Rightarrow> (MycConfigApplyErrorKind, string list) result" where
  "changed_existing_relays current candidate =
     r_bind (relay_bindings current) (\<lambda>before.
     r_bind (relay_bindings candidate) (\<lambda>after.
     Inr (filter (\<lambda>relay_id. relay_lookup after relay_id \<noteq> relay_lookup before relay_id) (remdups (map fst before)))))"

definition ceiling_of :: "MycConfigDocumentV1 \<Rightarrow> (MycConfigApplyErrorKind, string list) result" where
  "ceiling_of configuration =
     r_bind (ok_or ApplyInvalidInput (Option.bind (doc_normalized configuration ''/policy/permission_ceiling'') as_array))
       (collect (\<lambda>permission. ok_or ApplyInvalidInput (as_str permission)))"

section \<open>The history of configurations\<close>

record config_row = binding_row +
  b_applied_at_unix_s :: int
  b_build :: MigrationBuildIdentity
  b_provider_contract_version :: int

definition binding_of :: "config_row \<Rightarrow> binding_row" where
  "binding_of r = binding_row.truncate r"

text \<open>The database of the process: the history is the one table \<open>myc_config_bindings\<close> that every component reads.\<close>

record state_db =
  y_history :: "config_row list"
  y_delivery :: delivery_db
  y_connection :: connection_db

definition with_history :: "config_row list \<Rightarrow> state_db \<Rightarrow> state_db" where
  "with_history h s = s\<lparr>y_history := h, y_delivery := (y_delivery s)\<lparr>config_bindings := map binding_of h\<rparr>,
     y_connection := (y_connection s)\<lparr>n_gov := (n_gov (y_connection s))\<lparr>g_bindings := map binding_of h\<rparr>\<rparr>\<rparr>"

definition text_between :: "nat \<Rightarrow> nat \<Rightarrow> string \<Rightarrow> bool" where
  "text_between lo hi s \<longleftrightarrow> lo \<le> length s \<and> length s \<le> hi"

definition u32_column :: "int \<Rightarrow> bool" where
  "u32_column v \<longleftrightarrow> 1 \<le> v \<and> v \<le> 4294967295"

definition myc_config_bindings_check :: "config_row \<Rightarrow> bool" where
  "myc_config_bindings_check r \<longleftrightarrow>
     1 \<le> b_generation r \<and> b_generation r \<le> 1024 \<and> length (b_normalized_config_sha256 r) = 32
     \<and> length (b_transport_public_key r) = 64 \<and> lower_hex (b_transport_public_key r)
     \<and> length (b_user_public_key r) = 64 \<and> lower_hex (b_user_public_key r)
     \<and> (case b_discovery_public_key r of None \<Rightarrow> True | Some k \<Rightarrow> length k = 64 \<and> lower_hex k)
     \<and> u32_column (b_config_contract_version r) \<and> u32_column (b_state_contract_version r)
     \<and> u32_column (b_operator_contract_version r) \<and> u32_column (b_status_contract_version r)
     \<and> 0 \<le> b_applied_at_unix_s r \<and> b_applied_at_unix_s r \<le> sql_int_max
     \<and> text_between 1 128 (mb_service_version (b_build r)) \<and> text_between 40 40 (mb_service_commit (b_build r))
     \<and> text_between 40 40 (mb_lib_revision (b_build r)) \<and> text_between 1 128 (mb_rust_version (b_build r))
     \<and> text_between 1 128 (mb_target (b_build r)) \<and> text_between 1 128 (mb_feature_profile (b_build r))
     \<and> u32_column (b_provider_contract_version r)"

definition max_or :: "int \<Rightarrow> int list \<Rightarrow> int" where
  "max_or d xs = (if xs = [] then d else foldr max xs (hd xs))"

definition myc_config_bindings_guard_insert :: "config_row list \<Rightarrow> config_row \<Rightarrow> bool" where
  "myc_config_bindings_guard_insert t r \<longleftrightarrow>
     b_generation r \<noteq> (if t = [] then 1 else max_or 0 (map b_generation t) + 1)
     \<or> 1024 \<le> length t
     \<or> b_applied_at_unix_s r < max_or 0 (map b_applied_at_unix_s t)"

definition config_insert_legal :: "config_row list \<Rightarrow> config_row \<Rightarrow> bool" where
  "config_insert_legal t r \<longleftrightarrow> myc_config_bindings_check r \<and> \<not> myc_config_bindings_guard_insert t r
     \<and> list_all (\<lambda>q. b_generation q \<noteq> b_generation r) t"

definition read_latest_header :: "config_row list \<Rightarrow> (MycConfigApplyErrorKind, nat \<times> nat) result" where
  "read_latest_header history =
     (case take 1 (rev (sort_key b_generation history)) of
        [row] \<Rightarrow>
          r_bind (ok_or ApplyBinding (case u64_of_int (b_generation row) of
              Some value \<Rightarrow> if 1 \<le> value \<and> value \<le> MYC_CONFIG_BINDING_MAX_GENERATIONS then Some value else None
            | None \<Rightarrow> None)) (\<lambda>latest.
          r_bind (ok_or ApplyBinding (u64_of_int (b_applied_at_unix_s row))) (\<lambda>applied_at. Inr (latest, applied_at)))
      | _ \<Rightarrow> Inl ApplyBinding)"

definition relay_has_nonterminal_job :: "delivery_db \<Rightarrow> string \<Rightarrow> bool" where
  "relay_has_nonterminal_job db relay_id \<longleftrightarrow>
     list_ex (\<lambda>target. t_relay_id target = relay_id
       \<and> list_ex (\<lambda>job. j_job_id job = t_job_id target \<and> j_status job \<in> {''pending'', ''active''}) (delivery_jobs db))
       (delivery_targets db)"

section \<open>Revocation\<close>

definition end_connection_set :: "string \<Rightarrow> int \<Rightarrow> connection_row \<Rightarrow> connection_row" where
  "end_connection_set status observed_at r = r\<lparr>c_status := status,
     c_updated_at_unix_ms := max (c_updated_at_unix_ms r) observed_at, c_authorized_until_unix_ms := None\<rparr>"

definition expire_challenge_set :: "int \<Rightarrow> challenge_row \<Rightarrow> challenge_row" where
  "expire_challenge_set observed_at r = r\<lparr>h_state := ''expired'',
     h_resolved_at_unix_ms := Some (max (h_issued_at_unix_ms r) observed_at)\<rparr>"

definition config_execute :: "('d \<times> nat) option \<Rightarrow> (MycConfigApplyErrorKind, 'd \<times> nat) result" where
  "config_execute st = ok_or ApplyTransaction st"

definition revoke_for_identity_change ::
    "connection_db \<Rightarrow> int \<Rightarrow> (MycConfigApplyErrorKind, (nat \<times> nat) \<times> connection_db) result" where
  "revoke_for_identity_change db observed_at =
     r_bind (config_execute (update_connections (\<lambda>c. c_status c = ''active'') (end_connection_set ''expired'' observed_at) db)) (\<lambda>(db1, active).
     r_bind (config_execute (update_connections (\<lambda>c. c_status c = ''pending'') (end_connection_set ''denied'' observed_at) db1)) (\<lambda>(db2, pending).
     r_bind (config_execute (update_challenges (\<lambda>h. h_state h = ''pending'') (expire_challenge_set observed_at) db2)) (\<lambda>(db3, challenges).
     Inr ((active + pending, challenges), db3))))"

text \<open>
  The \<open>NOT IN\<close> test: with an empty ceiling \<open>push_not_in\<close> adds no condition, so every permission is outside it.
\<close>

definition outside_ceiling :: "permission_row list \<Rightarrow> string list \<Rightarrow> bytes \<Rightarrow> string \<Rightarrow> bool" where
  "outside_ceiling ps permissions connection_id scope \<longleftrightarrow>
     list_ex (\<lambda>p. p_connection_id p = connection_id \<and> p_permission_scope p = scope
       \<and> (permissions = [] \<or> p_permission_code p \<notin> set permissions)) ps"

definition revoke_for_permission_narrowing ::
    "connection_db \<Rightarrow> int \<Rightarrow> string list \<Rightarrow> (MycConfigApplyErrorKind, (nat \<times> nat) \<times> connection_db) result" where
  "revoke_for_permission_narrowing db observed_at permissions =
     r_bind (config_execute (update_connections
         (\<lambda>c. c_status c = ''active'' \<and> outside_ceiling (n_permissions db) permissions (c_connection_id c) ''granted'')
         (end_connection_set ''expired'' observed_at) db)) (\<lambda>(db1, connections).
     r_bind (config_execute (update_challenges
         (\<lambda>h. h_state h = ''pending'' \<and> outside_ceiling (n_permissions db) permissions (h_connection_id h) ''requested'')
         (expire_challenge_set observed_at) db1)) (\<lambda>(db2, challenges).
     Inr ((connections, challenges), db2)))"

section \<open>Applying a configuration\<close>

record MycConfigApplyOutcome =
  ao_generation :: nat
  ao_revoked_connections :: nat
  ao_revoked_challenges :: nat

definition new_binding :: "nat \<Rightarrow> PersistedMetadata \<Rightarrow> nat \<Rightarrow> MigrationBuildIdentity \<Rightarrow> config_row" where
  "new_binding number m applied_at build = \<lparr>b_generation = int number,
     b_normalized_config_sha256 = pm_normalized_config_sha256 m, b_transport_public_key = pm_transport_public_key m,
     b_user_public_key = pm_user_public_key m, b_discovery_public_key = pm_discovery_public_key m,
     b_config_contract_version = int (pm_config_contract_version m), b_state_contract_version = int (pm_state_contract_version m),
     b_operator_contract_version = int (pm_operator_contract_version m),
     b_status_contract_version = int (pm_status_contract_version m), b_applied_at_unix_s = int applied_at,
     b_build = build, b_provider_contract_version = int (mb_provider_contract_version build)\<rparr>"

definition insert_binding ::
    "config_row list \<Rightarrow> nat \<Rightarrow> PersistedMetadata \<Rightarrow> nat \<Rightarrow> MigrationBuildIdentity \<Rightarrow> (MycConfigApplyErrorKind, config_row list) result" where
  "insert_binding history number m applied_at build =
     r_bind (ok_or ApplyInvalidInput (i64_of_nat applied_at)) (\<lambda>_.
     r_bind (ok_or ApplyTransaction (sql_insert config_insert_legal (new_binding number m applied_at build) history)) (\<lambda>(t, n).
     r_bind (ensure ApplyTransaction (n = 1)) (\<lambda>_. Inr t)))"

fun config_error :: "OperationError \<Rightarrow> MycConfigApplyErrorKind" where
  "config_error Binding = ApplyBinding"
| "config_error Storage = ApplyTransaction"

definition saturating_ms :: "nat \<Rightarrow> int" where
  "saturating_ms seconds = (let ms = min (seconds * 1000) u64_max in if ms \<le> i64_max then int ms else int i64_max)"

text \<open>The body of the transaction.\<close>

definition apply_in_transaction ::
    "state_db \<Rightarrow> PersistedMetadata \<Rightarrow> PersistedMetadata \<Rightarrow> string list \<Rightarrow> string list \<Rightarrow> bool \<Rightarrow> nat \<Rightarrow> MigrationBuildIdentity
      \<Rightarrow> (MycConfigApplyErrorKind, MycConfigApplyOutcome \<times> state_db) result" where
  "apply_in_transaction s current_binding candidate_binding changed_relays candidate_permissions permissions_narrowed applied_at build =
     r_bind (map_err config_error (require_expected_metadata current_binding (map binding_of (y_history s)))) (\<lambda>_.
     r_bind (read_latest_header (y_history s)) (\<lambda>(number, latest_applied_at).
     if candidate_binding = current_binding
     then Inr (\<lparr>ao_generation = number, ao_revoked_connections = 0, ao_revoked_challenges = 0\<rparr>, s)
     else if MYC_CONFIG_BINDING_MAX_GENERATIONS \<le> number then Inl ApplyResourceExhausted
     else if applied_at < latest_applied_at then Inl ApplyInvalidInput
     else if list_ex (relay_has_nonterminal_job (y_delivery s)) changed_relays then Inl ApplyPolicyConflict
     else
     r_bind (if identities_changed current_binding candidate_binding
         then revoke_for_identity_change (y_connection s) (saturating_ms applied_at)
         else if permissions_narrowed
         then revoke_for_permission_narrowing (y_connection s) (saturating_ms applied_at) candidate_permissions
         else Inr ((0, 0), y_connection s)) (\<lambda>((connections, challenges), db).
     r_bind (insert_binding (y_history s) (number + 1) candidate_binding applied_at build) (\<lambda>history.
     r_bind (map_err config_error (read_latest_config_binding (map binding_of history))) (\<lambda>actual.
     if actual \<noteq> Some candidate_binding then Inl ApplyBinding else
     r_bind (read_latest_header history) (\<lambda>(actual_number, actual_applied_at).
     if actual_number \<noteq> number + 1 \<or> actual_applied_at \<noteq> applied_at then Inl ApplyBinding
     else Inr (\<lparr>ao_generation = number + 1, ao_revoked_connections = connections, ao_revoked_challenges = challenges\<rparr>,
       with_history history (s\<lparr>y_connection := db\<rparr>))))))))"

definition apply_configuration ::
    "crates \<Rightarrow> (json_document \<Rightarrow> bytes option) \<Rightarrow> bool \<Rightarrow> PersistedMetadata \<Rightarrow> state_db \<Rightarrow> MycConfigDocumentV1 \<Rightarrow> MycConfigDocumentV1
      \<Rightarrow> nat \<Rightarrow> MigrationBuildIdentity \<Rightarrow> (MycConfigApplyErrorKind, MycConfigApplyOutcome \<times> state_db) result" where
  "apply_configuration cr to_vec writable expected s current candidate applied_at build =
     (if \<not> writable then Inl ApplyInvalidMode
      else if doc_profile current \<noteq> doc_profile candidate \<or> doc_provider_bindings candidate = 0 \<or> \<not> valid_build candidate build
      then Inl ApplyInvalidInput else
     r_bind (map_err (\<lambda>_. ApplyInvalidInput) (from_configuration cr to_vec current)) (\<lambda>current_binding.
     if current_binding \<noteq> expected then Inl ApplyBinding else
     r_bind (map_err (\<lambda>_. ApplyInvalidInput) (from_configuration cr to_vec candidate)) (\<lambda>candidate_binding.
     r_bind (changed_existing_relays current candidate) (\<lambda>changed_relays.
     r_bind (ceiling_of candidate) (\<lambda>candidate_permissions.
     r_bind (ceiling_of current) (\<lambda>current_permissions.
     apply_in_transaction s current_binding candidate_binding changed_relays candidate_permissions
       (list_ex (\<lambda>permission. permission \<notin> set candidate_permissions) current_permissions) applied_at build))))))"

end
