(* ===== verification/Connection_System.thy ===== *)
theory Connection_System
  imports Config_Apply
begin

text \<open>
  The connection authority as a transition system: every operation that changes its tables is a step, and every step has
  one of eight effects, whatever the operation. The invariant holds in every reachable state.
\<close>

section \<open>Configuration changes end connections and challenges\<close>

definition ended_connection :: "connection_row \<Rightarrow> connection_row \<Rightarrow> bool" where
  "ended_connection c c' \<longleftrightarrow> c' = c \<or> (connection_update_legal c c' \<and> c_status c' \<noteq> ''active'')"

definition ended_challenge :: "challenge_row \<Rightarrow> challenge_row \<Rightarrow> bool" where
  "ended_challenge h h' \<longleftrightarrow> h' = h \<or> (challenge_update_legal h h' \<and> h_state h' = ''expired'')"

definition ended_db :: "(connection_row \<Rightarrow> connection_row) \<Rightarrow> (challenge_row \<Rightarrow> challenge_row) \<Rightarrow> connection_db \<Rightarrow> connection_db" where
  "ended_db f k db = db\<lparr>n_connections := map f (n_connections db), n_challenges := map k (n_challenges db)\<rparr>"

lemma config_update_connections:
  assumes "config_execute (update_connections whr f db) = Inr (db', n)"
  shows "db' = db\<lparr>n_connections := map (upd_row whr f) (n_connections db)\<rparr>" "n = length (filter whr (n_connections db))"
    and "\<And>c. c \<in> set (n_connections db) \<Longrightarrow> whr c \<Longrightarrow> connection_update_legal c (f c)"
proof -
  obtain t where t: "sql_update whr f connection_update_legal (n_connections db) = Some (t, n)" "db' = db\<lparr>n_connections := t\<rparr>"
    using assms by (auto simp: config_execute_def update_connections_def ok_or_Inr_iff)
  show "db' = db\<lparr>n_connections := map (upd_row whr f) (n_connections db)\<rparr>" "n = length (filter whr (n_connections db))"
    and "\<And>c. c \<in> set (n_connections db) \<Longrightarrow> whr c \<Longrightarrow> connection_update_legal c (f c)"
    using sql_update_SomeD [OF t(1)] t(2) by simp_all
qed

lemma config_update_challenges:
  assumes "config_execute (update_challenges whr f db) = Inr (db', n)"
  shows "db' = db\<lparr>n_challenges := map (upd_row whr f) (n_challenges db)\<rparr>" "n = length (filter whr (n_challenges db))"
    and "\<And>h. h \<in> set (n_challenges db) \<Longrightarrow> whr h \<Longrightarrow> challenge_update_legal h (f h)"
proof -
  obtain t where t: "sql_update whr f challenge_update_legal (n_challenges db) = Some (t, n)" "db' = db\<lparr>n_challenges := t\<rparr>"
    using assms by (auto simp: config_execute_def update_challenges_def ok_or_Inr_iff)
  show "db' = db\<lparr>n_challenges := map (upd_row whr f) (n_challenges db)\<rparr>" "n = length (filter whr (n_challenges db))"
    and "\<And>h. h \<in> set (n_challenges db) \<Longrightarrow> whr h \<Longrightarrow> challenge_update_legal h (f h)"
    using sql_update_SomeD [OF t(1)] t(2) by simp_all
qed

definition identity_end :: "int \<Rightarrow> connection_row \<Rightarrow> connection_row" where
  "identity_end t c = (if c_status c = ''active'' then end_connection_set ''expired'' t c
     else if c_status c = ''pending'' then end_connection_set ''denied'' t c else c)"

definition pending_end :: "int \<Rightarrow> challenge_row \<Rightarrow> challenge_row" where
  "pending_end t h = (if h_state h = ''pending'' then expire_challenge_set t h else h)"

lemma revoke_for_identity_change_Inr:
  assumes "revoke_for_identity_change db t = Inr ((n, m), db')"
  shows "db' = ended_db (identity_end t) (pending_end t) db"
    and "\<And>c. c \<in> set (n_connections db) \<Longrightarrow> ended_connection c (identity_end t c)"
    and "\<And>h. h \<in> set (n_challenges db) \<Longrightarrow> ended_challenge h (pending_end t h)"
proof -
  let ?A = "upd_row (\<lambda>c. c_status c = ''active'') (end_connection_set ''expired'' t)"
  let ?P = "upd_row (\<lambda>c. c_status c = ''pending'') (end_connection_set ''denied'' t)"
  let ?H = "upd_row (\<lambda>h. h_state h = ''pending'') (expire_challenge_set t)"
  from assms obtain db1 db2 a p where
    one: "config_execute (update_connections (\<lambda>c. c_status c = ''active'') (end_connection_set ''expired'' t) db) = Inr (db1, a)"
    and two: "config_execute (update_connections (\<lambda>c. c_status c = ''pending'') (end_connection_set ''denied'' t) db1) = Inr (db2, p)"
    and three: "config_execute (update_challenges (\<lambda>h. h_state h = ''pending'') (expire_challenge_set t) db2) = Inr (db', m)"
    unfolding revoke_for_identity_change_def by (auto simp: r_bind_Inr_iff)
  note A = config_update_connections [OF one] and P = config_update_connections [OF two] and H = config_update_challenges [OF three]
  have comp: "?P (?A c) = identity_end t c" for c by (simp add: upd_row_def identity_end_def end_connection_set_def)
  have chal: "?H h = pending_end t h" for h by (simp add: upd_row_def pending_end_def)
  have "map ?P (map ?A (n_connections db)) = map (identity_end t) (n_connections db)" by (simp add: comp)
  moreover have "map ?H (n_challenges db) = map (pending_end t) (n_challenges db)" by (simp add: chal)
  ultimately show "db' = ended_db (identity_end t) (pending_end t) db" by (simp add: H(1) P(1) A(1) ended_db_def)
  show "ended_connection c (identity_end t c)" if c: "c \<in> set (n_connections db)" for c
  proof (cases "c_status c = ''pending''")
    case True
    then have "?A c = c" by (simp add: upd_row_def)
    then have "c \<in> set (n_connections db1)" using c by (force simp: A(1))
    from P(3) [OF this True] show ?thesis using True by (simp add: ended_connection_def identity_end_def end_connection_set_def)
  next
    case False
    then show ?thesis using A(3) [OF c] by (auto simp: ended_connection_def identity_end_def end_connection_set_def)
  qed
  show "ended_challenge h (pending_end t h)" if h: "h \<in> set (n_challenges db)" for h
    using H(3) [of h] h by (auto simp: P(1) A(1) ended_challenge_def pending_end_def expire_challenge_set_def)
qed

definition narrowing_end :: "permission_row list \<Rightarrow> string list \<Rightarrow> int \<Rightarrow> connection_row \<Rightarrow> connection_row" where
  "narrowing_end ps permissions t c = (if c_status c = ''active'' \<and> outside_ceiling ps permissions (c_connection_id c) ''granted''
     then end_connection_set ''expired'' t c else c)"

definition narrowing_challenge_end :: "permission_row list \<Rightarrow> string list \<Rightarrow> int \<Rightarrow> challenge_row \<Rightarrow> challenge_row" where
  "narrowing_challenge_end ps permissions t h =
     (if h_state h = ''pending'' \<and> outside_ceiling ps permissions (h_connection_id h) ''requested''
      then expire_challenge_set t h else h)"

lemma revoke_for_permission_narrowing_Inr:
  assumes "revoke_for_permission_narrowing db t permissions = Inr ((n, m), db')"
  shows "db' = ended_db (narrowing_end (n_permissions db) permissions t) (narrowing_challenge_end (n_permissions db) permissions t) db"
    and "\<And>c. c \<in> set (n_connections db) \<Longrightarrow> ended_connection c (narrowing_end (n_permissions db) permissions t c)"
    and "\<And>h. h \<in> set (n_challenges db) \<Longrightarrow> ended_challenge h (narrowing_challenge_end (n_permissions db) permissions t h)"
proof -
  let ?C = "\<lambda>c. c_status c = ''active'' \<and> outside_ceiling (n_permissions db) permissions (c_connection_id c) ''granted''"
  let ?H = "\<lambda>h. h_state h = ''pending'' \<and> outside_ceiling (n_permissions db) permissions (h_connection_id h) ''requested''"
  from assms obtain db1 where
    one: "config_execute (update_connections ?C (end_connection_set ''expired'' t) db) = Inr (db1, n)"
    and two: "config_execute (update_challenges ?H (expire_challenge_set t) db1) = Inr (db', m)"
    unfolding revoke_for_permission_narrowing_def by (auto simp: r_bind_Inr_iff)
  note C = config_update_connections [OF one] and H = config_update_challenges [OF two]
  have ends: "upd_row ?C (end_connection_set ''expired'' t) = narrowing_end (n_permissions db) permissions t"
    "upd_row ?H (expire_challenge_set t) = narrowing_challenge_end (n_permissions db) permissions t"
    by (simp_all add: fun_eq_iff upd_row_def narrowing_end_def narrowing_challenge_end_def)
  show "db' = ended_db (narrowing_end (n_permissions db) permissions t) (narrowing_challenge_end (n_permissions db) permissions t) db"
    unfolding H(1) C(1) ends by (simp add: ended_db_def)
  show "ended_connection c (narrowing_end (n_permissions db) permissions t c)" if "c \<in> set (n_connections db)" for c
    using C(3) [OF that] by (auto simp: ended_connection_def narrowing_end_def end_connection_set_def)
  show "ended_challenge h (narrowing_challenge_end (n_permissions db) permissions t h)" if "h \<in> set (n_challenges db)" for h
    using H(3) [of h] that by (auto simp: C(1) ended_challenge_def narrowing_challenge_end_def expire_challenge_set_def)
qed

lemma ended_db_inv:
  assumes "connection_inv cr db" and "\<And>c. c \<in> set (n_connections db) \<Longrightarrow> ended_connection c (f c)"
    and "\<And>h. h \<in> set (n_challenges db) \<Longrightarrow> ended_challenge h (k h)"
  shows "connection_inv cr (ended_db f k db)"
  unfolding ended_db_def using assms by (intro connection_inv_ends) (auto simp: ended_connection_def ended_challenge_def)


section \<open>Effects\<close>

inductive connection_effect :: "crates \<Rightarrow> connection_db \<Rightarrow> connection_db \<Rightarrow> bool" for cr db where
  quiet: "gov_run cr (n_gov db) g \<Longrightarrow> connection_effect cr db (db\<lparr>n_gov := g\<rparr>)"
| request: "request_insert_legal (n_requests db) q \<Longrightarrow> client_public_key_new cr (q_client_public_key q) = Inr (q_client_public_key q)
    \<Longrightarrow> connection_effect cr db (db\<lparr>n_gov := (n_gov db)\<lparr>g_requests := g_requests (n_gov db) @ [request_key q]\<rparr>,
      n_requests := n_requests db @ [q]\<rparr>)"
| admitted: "admission_request_ok cr r \<Longrightarrow> q \<in> set (n_requests db) \<Longrightarrow> q_operation_id q = car_operation_id r
    \<Longrightarrow> q_client_public_key q = car_client_public_key r \<Longrightarrow> q_method q = ''connect''
    \<Longrightarrow> nip46_request_decisions_check (new_admission_decision cr r)
    \<Longrightarrow> \<forall>d\<in>set (n_decisions db). d_operation_id d \<noteq> car_operation_id r
    \<Longrightarrow> (car_policy r \<noteq> PolicyDenied \<longrightarrow> connection_insert_legal (n_connections db) (new_connection cr r))
    \<Longrightarrow> gov_run cr (n_gov db) g \<Longrightarrow> connection_effect cr db ((admitted_db cr db r)\<lparr>n_gov := g\<rparr>)"
| approved: "c \<in> set (n_connections db) \<Longrightarrow> c_status c = ''pending''
    \<Longrightarrow> connection_update_legal c (approve_connection_set (int t) (map_option int until) c)
    \<Longrightarrow> d \<in> set (n_decisions db) \<Longrightarrow> d_connection_id d = Some (c_connection_id c) \<Longrightarrow> d_decision d = ''pending_approval''
    \<Longrightarrow> decision_update_legal d (update_decision_set ''allowed'' ''operator_approved'' (int t) d)
    \<Longrightarrow> permission_set_ok (sha256 cr) granted
    \<Longrightarrow> is_subset_of granted (cr_requested_permissions (connection_record cr (n_permissions db) c))
    \<Longrightarrow> gov_run cr (n_gov db) g \<Longrightarrow> connection_effect cr db ((approved_db db c d granted t until)\<lparr>n_gov := g\<rparr>)"
| denied: "c \<in> set (n_connections db) \<Longrightarrow> connection_update_legal c (deny_connection_set (int t) c)
    \<Longrightarrow> d \<in> set (n_decisions db) \<Longrightarrow> d_connection_id d = Some (c_connection_id c) \<Longrightarrow> d_decision d = ''pending_approval''
    \<Longrightarrow> decision_update_legal d (update_decision_set ''denied'' ''operator_denied'' (int t) d)
    \<Longrightarrow> gov_run cr (n_gov db) g \<Longrightarrow> connection_effect cr db ((denied_db db c d t)\<lparr>n_gov := g\<rparr>)"
| expired: "c \<in> set (n_connections db) \<Longrightarrow> connection_update_legal c (expire_connection_set (int t) c)
    \<Longrightarrow> gov_run cr (n_gov db) g \<Longrightarrow> connection_effect cr db ((expired_db db c t)\<lparr>n_gov := g\<rparr>)"
| challenged: "challenge_request_ok cr r \<Longrightarrow> c \<in> set (n_connections db) \<Longrightarrow> c_connection_id c = acr_connection_id r
    \<Longrightarrow> c_status c = ''active'' \<Longrightarrow> c_policy_generation c = int (acr_policy_generation r)
    \<Longrightarrow> q \<in> set (n_requests db) \<Longrightarrow> q_operation_id q = acr_operation_id r \<Longrightarrow> q_method q \<noteq> ''connect''
    \<Longrightarrow> q_client_public_key q = c_client_public_key c
    \<Longrightarrow> challenge_insert_legal db (n_challenges db) (new_challenge cr r)
    \<Longrightarrow> nip46_request_decisions_check (new_challenge_decision cr r c)
    \<Longrightarrow> \<forall>d\<in>set (n_decisions db). d_operation_id d \<noteq> acr_operation_id r
    \<Longrightarrow> gov_run cr (n_gov db) g \<Longrightarrow> connection_effect cr db ((challenged_db cr db r c)\<lparr>n_gov := g\<rparr>)"
| resolved: "h \<in> set (n_challenges db) \<Longrightarrow> c \<in> set (n_connections db) \<Longrightarrow> c_connection_id c = h_connection_id h
    \<Longrightarrow> h_issued_at_unix_ms h \<le> int t
    \<Longrightarrow> challenge_update_legal h (resolved_challenge (too_late h c t) t h)
    \<Longrightarrow> d \<in> set (n_decisions db) \<Longrightarrow> d_challenge_id d = Some (h_challenge_id h)
    \<Longrightarrow> decision_update_legal d (resolved_decision (too_late h c t) t d)
    \<Longrightarrow> gov_run cr (n_gov db) g \<Longrightarrow> connection_effect cr db ((resolved_db db h d (too_late h c t) t)\<lparr>n_gov := g\<rparr>)"
| ended: "(\<And>c. c \<in> set (n_connections db) \<Longrightarrow> ended_connection c (f c))
    \<Longrightarrow> (\<And>h. h \<in> set (n_challenges db) \<Longrightarrow> ended_challenge h (k h))
    \<Longrightarrow> connection_effect cr db (ended_db f k db)"

lemma connection_effect_inv:
  assumes "connection_effect cr db db'" and inv: "connection_inv cr db"
  shows "connection_inv cr db'"
  using assms(1)
proof cases
  case (quiet g)
  then show ?thesis using connection_inv_gov [OF inv] by simp
next
  case (request q)
  let ?g = "(n_gov db)\<lparr>g_requests := g_requests (n_gov db) @ [request_key q]\<rparr>"
  have "k_operation_id (request_key q) \<notin> set (map k_operation_id (g_requests (n_gov db)))"
    using request(2) by (auto simp: connection_invD(2) [OF inv] request_key_def request_insert_legal_def list_all_iff)
  then have "governance_inv ?g" by (rule request_inv [OF connection_invD(1) [OF inv]])
  then show ?thesis unfolding request(1) by (intro request_stored_inv [OF inv request(2,3)]) simp_all
next
  case (admitted r q g)
  have "connection_inv cr (admitted_db cr db r)"
    using denied_admission_inv [OF inv _ admitted(7,8)] granted_admission_inv [OF inv _ admitted(2) _ admitted(7,8)] admitted(9) by blast
  then show ?thesis unfolding admitted(1) using admitted(10) by (intro connection_inv_gov) simp_all
next
  case (approved c t until d granted g)
  have "connection_inv cr (approved_db db c d granted t until)" by (rule approved_db_inv [OF inv approved(2,3,4,5,6,7,8,9,10)])
  then show ?thesis unfolding approved(1) using approved(11) by (intro connection_inv_gov) (simp_all add: approved_db_def)
next
  case (denied c t d g)
  have "connection_inv cr (denied_db db c d t)" by (rule denied_db_inv [OF inv denied(2,3,4,5,6,7)])
  then show ?thesis unfolding denied(1) using denied(8) by (intro connection_inv_gov) (simp_all add: denied_db_def)
next
  case (expired c t g)
  have "connection_inv cr (expired_db db c t)" by (rule expired_db_inv [OF inv expired(3)])
  then show ?thesis unfolding expired(1) using expired(4) by (intro connection_inv_gov) (simp_all add: expired_db_def)
next
  case (challenged r c q g)
  have "connection_inv cr (challenged_db cr db r c)"
    by (rule challenged_db_inv [OF inv challenged(3,4,6,7,8,9,10,2,11,12,13)])
  then show ?thesis unfolding challenged(1) using challenged(14) by (intro connection_inv_gov) (simp_all add: challenged_db_def)
next
  case (resolved h c t d g)
  have "connection_inv cr (resolved_db db h d (too_late h c t) t)"
    by (rule resolved_db_inv [OF inv resolved(2,6) _ resolved(7,8,9)]) (simp add: too_late_def)
  then show ?thesis unfolding resolved(1) using resolved(10) by (intro connection_inv_gov) (simp_all add: resolved_db_def)
next
  case (ended f k)
  then show ?thesis using ended_db_inv [OF inv] by blast
qed

section \<open>Steps\<close>

text \<open>
  Every operation that opens a transaction on these tables, with the arguments its Rust types allow. \<open>stored\<close> is the
  insertion of a verified request, \<open>governed\<close> any governance transition of another component, \<open>identity\<close> and
  \<open>narrowed\<close> the revocations of a configuration change.
\<close>

definition policies_ok :: "MycStateMetadata \<Rightarrow> bool" where
  "policies_ok expected \<longleftrightarrow> policy_ok (gp_connection_admission (sm_governance expected))
     \<and> policy_ok (gp_challenge_creation (sm_governance expected)) \<and> policy_ok (gp_challenge_authorization (sm_governance expected))"

inductive connection_step :: "crates \<Rightarrow> connection_db \<Rightarrow> connection_db \<Rightarrow> bool" for cr where
  stored: "request_insert_legal (n_requests db) q \<Longrightarrow> client_public_key_new cr (q_client_public_key q) = Inr (q_client_public_key q)
    \<Longrightarrow> connection_step cr db (db\<lparr>n_gov := (n_gov db)\<lparr>g_requests := g_requests (n_gov db) @ [request_key q]\<rparr>,
      n_requests := n_requests db @ [q]\<rparr>)"
| governed: "gov_run cr (n_gov db) g \<Longrightarrow> connection_step cr db (db\<lparr>n_gov := g\<rparr>)"
| admit: "policies_ok expected \<Longrightarrow> admission_request_ok cr r \<Longrightarrow> repository_admit_connection cr expected db r = Inr (a, db')
    \<Longrightarrow> connection_step cr db db'"
| decide: "time_ok observed_at \<Longrightarrow> length correlation = 32 \<Longrightarrow> operator_decision_ok cr decision
    \<Longrightarrow> decide_pending_connection cr expected db operation_id connection_id policy_generation observed_at correlation decision = Inr (rec, db')
    \<Longrightarrow> connection_step cr db db'"
| expire: "time_ok observed_at \<Longrightarrow> length correlation = 32
    \<Longrightarrow> repository_expire_connection cr expected db connection_id policy_generation observed_at correlation = Inr (rec, db')
    \<Longrightarrow> connection_step cr db db'"
| admin: "time_ok observed_at \<Longrightarrow> length correlation = 32 \<Longrightarrow> admin_action_ok cr action
    \<Longrightarrow> apply_admin_connection_mutation cr db connection_id policy_generation observed_at correlation action = Inr ((before, after), db')
    \<Longrightarrow> connection_step cr db db'"
| issue: "policies_ok expected \<Longrightarrow> challenge_request_ok cr creq \<Longrightarrow> issue_authorization_challenge cr expected db creq = Inr (i, db')
    \<Longrightarrow> connection_step cr db db'"
| admin_issue: "policy_ok policy \<Longrightarrow> challenge_request_ok cr creq \<Longrightarrow> apply_admin_challenge_require cr db creq policy = Inr (ch, db')
    \<Longrightarrow> connection_step cr db db'"
| authorize: "policies_ok expected \<Longrightarrow> time_ok observed_at
    \<Longrightarrow> repository_authorize_challenge cr expected db challenge_id connection_id operation_id policy_generation observed_at = (answer, db')
    \<Longrightarrow> connection_step cr db db'"
| admin_authorize: "policy_ok policy \<Longrightarrow> time_ok observed_at
    \<Longrightarrow> apply_admin_challenge_authorize cr db challenge_id policy_generation observed_at policy = Inr (ch, db')
    \<Longrightarrow> connection_step cr db db'"
| identity: "revoke_for_identity_change db t = Inr (counts, db') \<Longrightarrow> connection_step cr db db'"
| narrowed: "revoke_for_permission_narrowing db t permissions = Inr (counts, db') \<Longrightarrow> connection_step cr db db'"

lemma in_transaction_Inr: "in_transaction expected db body = Inr x \<Longrightarrow> body = Inr x"
  by (auto simp: in_transaction_def r_bind_Inr_iff)

lemma admit_effect:
  assumes inv: "connection_inv cr db" and ok: "admission_request_ok cr r" and policies: "\<And>p. governed = Some p \<Longrightarrow> policy_ok p"
    and run: "admit_connection cr db r governed = Inr (a, db')"
  shows "connection_effect cr db db'"
proof (rule admit_connection_Inr [OF inv ok policies run])
  fix d rec assume "db' = db"
  then show ?thesis using connection_effect.quiet [OF gov_run_refl, of cr db] by simp
next
  fix g assume "gov_run cr (n_gov db) g" "db' = db\<lparr>n_gov := g\<rparr>"
  then show ?thesis using connection_effect.quiet by blast
next
  fix g rec q
  assume a: "q \<in> set (n_requests db)" "q_operation_id q = car_operation_id r" "q_client_public_key q = car_client_public_key r"
    "q_method q = ''connect''" "gov_run cr (n_gov db) g" "db' = (admitted_db cr db r)\<lparr>n_gov := g\<rparr>"
    "nip46_request_decisions_check (new_admission_decision cr r)" "\<forall>d\<in>set (n_decisions db). d_operation_id d \<noteq> car_operation_id r"
    "car_policy r \<noteq> PolicyDenied \<Longrightarrow> connection_insert_legal (n_connections db) (new_connection cr r)"
  show ?thesis unfolding a(6) by (rule connection_effect.admitted [OF ok a(1,2,3,4,7,8) _ a(5)]) (use a(9) in blast)
qed

lemma decide_effect:
  assumes inv: "connection_inv cr db" and t: "time_ok observed_at" "length correlation = 32" and ok: "operator_decision_ok cr decision"
    and run: "decide_connection cr db operation_id i gen observed_at correlation decision = Inr (rec, db')"
  shows "connection_effect cr db db'"
proof (rule decide_connection_Inr [OF inv t run])
  fix g c assume "gov_run cr (n_gov db) g" "db' = db\<lparr>n_gov := g\<rparr>"
  then show ?thesis using connection_effect.quiet by blast
next
  fix granted until x
  assume a: "decision = OperatorApprove granted until" "x \<in> set (n_connections db)" "c_connection_id x = i"
    "is_subset_of granted (cr_requested_permissions (connection_record cr (n_permissions db) x))"
    "approve_pending cr db operation_id i gen observed_at correlation granted until = Inr (rec, db')"
  have set_ok: "permission_set_ok (sha256 cr) granted" using ok a(1) by (simp add: operator_decision_ok_def)
  show ?thesis
  proof (rule approve_pending_Inr [OF connection_invD(1) [OF inv] t a(5)])
    fix g c d
    assume b: "gov_run cr (n_gov db) g" "c \<in> set (n_connections db)" "c_connection_id c = i" "c_status c = ''pending''"
      "d \<in> set (n_decisions db)" "d_connection_id d = Some i" "d_decision d = ''pending_approval''"
      "connection_update_legal c (approve_connection_set (int observed_at) (map_option int until) c)"
      "decision_update_legal d (update_decision_set ''allowed'' ''operator_approved'' (int observed_at) d)"
      "db' = (approved_db db c d granted observed_at until)\<lparr>n_gov := g\<rparr>"
    have "x = c" using unique_by_key [OF connection_invD(6) [OF inv] a(2) b(2)] a(3) b(3) by simp
    with a(4) have sub: "is_subset_of granted (cr_requested_permissions (connection_record cr (n_permissions db) c))" by simp
    have "d_connection_id d = Some (c_connection_id c)" using b(3,6) by simp
    from connection_effect.approved [OF b(2,4,8,5) this b(7,9) set_ok sub b(1)] show ?thesis unfolding b(10) .
  qed
next
  assume a: "deny_pending cr db operation_id i gen observed_at correlation = Inr (rec, db')"
  show ?thesis
  proof (rule deny_pending_Inr [OF connection_invD(1) [OF inv] t a])
    fix g c d
    assume b: "gov_run cr (n_gov db) g" "c \<in> set (n_connections db)" "c_connection_id c = i"
      "d \<in> set (n_decisions db)" "d_connection_id d = Some i" "d_decision d = ''pending_approval''"
      "connection_update_legal c (deny_connection_set (int observed_at) c)"
      "decision_update_legal d (update_decision_set ''denied'' ''operator_denied'' (int observed_at) d)"
      "db' = (denied_db db c d observed_at)\<lparr>n_gov := g\<rparr>"
    have "d_connection_id d = Some (c_connection_id c)" using b(3,5) by simp
    from connection_effect.denied [OF b(2,7,4) this b(6,8,1)] show ?thesis unfolding b(9) .
  qed
qed

lemma expire_effect:
  assumes "connection_inv cr db" and "time_ok observed_at" "length correlation = 32"
    and "expire_connection cr db i gen observed_at correlation = Inr (rec, db')"
  shows "connection_effect cr db db'"
  by (rule expire_connection_Inr [OF assms]) (auto intro: connection_effect.quiet connection_effect.expired)

lemma revoke_effect:
  assumes "connection_inv cr db" and "time_ok observed_at" "length correlation = 32"
    and "revoke_connection cr db before i gen observed_at correlation = Inr (rec, db')"
  shows "connection_effect cr db db'"
proof (rule revoke_connection_Inr [OF assms])
  assume "db' = db"
  then show ?thesis using connection_effect.quiet [OF gov_run_refl, of cr db] by simp
qed (auto intro: connection_effect.expired)

lemma issue_effect:
  assumes inv: "connection_inv cr db" and ok: "challenge_request_ok cr r" and policy: "policy_ok policy"
    and run: "issue_challenge cr db r policy = Inr (a, db')"
  shows "connection_effect cr db db'"
proof (rule issue_challenge_Inr [OF inv ok policy run])
  fix h assume "db' = db"
  then show ?thesis using connection_effect.quiet [OF gov_run_refl, of cr db] by simp
next
  fix g assume "gov_run cr (n_gov db) g" "db' = db\<lparr>n_gov := g\<rparr>"
  then show ?thesis using connection_effect.quiet by blast
next
  fix g c q
  assume a: "gov_run cr (n_gov db) g" "c \<in> set (n_connections db)" "c_connection_id c = acr_connection_id r" "c_status c = ''active''"
      "c_policy_generation c = int (acr_policy_generation r)" "q \<in> set (n_requests db)" "q_operation_id q = acr_operation_id r"
      "q_method q \<noteq> ''connect''" "q_client_public_key q = c_client_public_key c" "db' = (challenged_db cr db r c)\<lparr>n_gov := g\<rparr>"
      "challenge_insert_legal db (n_challenges db) (new_challenge cr r)"
      "nip46_request_decisions_check (new_challenge_decision cr r c)" "\<forall>d\<in>set (n_decisions db). d_operation_id d \<noteq> acr_operation_id r"
  show ?thesis unfolding a(10) by (rule connection_effect.challenged [OF ok a(2,3,4,5,6,7,8,9,11,12,13,1)])
qed

lemma authorize_effect:
  assumes inv: "connection_inv cr db" and policy: "policy_ok policy" and tt: "time_ok observed_at"
    and run: "authorize_challenge cr db ci i op gen observed_at policy = Inr (a, db')"
  shows "connection_effect cr db db'"
proof (rule authorize_challenge_Inr [OF inv policy tt run])
  fix h assume "db' = db"
  then show ?thesis using connection_effect.quiet [OF gov_run_refl, of cr db] by simp
next
  fix g assume "gov_run cr (n_gov db) g" "db' = db\<lparr>n_gov := g\<rparr>"
  then show ?thesis using connection_effect.quiet by blast
next
  fix g h d c
  assume a: "gov_run cr (n_gov db) g" "h \<in> set (n_challenges db)" "h_challenge_id h = ci" "h_issued_at_unix_ms h \<le> int observed_at"
    "c \<in> set (n_connections db)" "c_connection_id c = h_connection_id h"
    "d \<in> set (n_decisions db)" "d_challenge_id d = Some ci"
    "challenge_update_legal h (resolved_challenge (too_late h c observed_at) observed_at h)"
    "decision_update_legal d (resolved_decision (too_late h c observed_at) observed_at d)"
    "db' = (resolved_db db h d (too_late h c observed_at) observed_at)\<lparr>n_gov := g\<rparr>"
  have "d_challenge_id d = Some (h_challenge_id h)" using a(3,8) by simp
  from connection_effect.resolved [OF a(2,5,6,4,9,7) this a(10,1)] show ?thesis unfolding a(11) .
qed


lemma admin_effect:
  assumes inv: "connection_inv cr db" and t: "time_ok observed_at" "length correlation = 32" and ok: "admin_action_ok cr action"
    and run: "apply_admin_connection_mutation cr db i gen observed_at correlation action = Inr ((before, after), db')"
  shows "connection_effect cr db db'"
  using run
proof (cases rule: admin_mutation_Inr)
  case (decided operation_id decision)
  then have "operator_decision_ok cr decision" using ok by (auto simp: admin_action_ok_def operator_decision_ok_def)
  with decided(1) show ?thesis using decide_effect [OF inv t] by blast
next
  case revoked
  then show ?thesis using revoke_effect [OF inv t] by blast
qed

lemma repository_authorize_effect:
  assumes inv: "connection_inv cr db" and policies: "policies_ok expected" and tt: "time_ok observed_at"
    and run: "repository_authorize_challenge cr expected db ci i op gen observed_at = (answer, db')"
  shows "connection_effect cr db db'"
proof (cases "in_transaction expected db (authorize_challenge cr db ci i op gen observed_at (rate_policy (sm_governance expected) RateChallengeAuthorization))")
  case (Inl e)
  then have "db' = db" using run by (simp add: repository_authorize_challenge_def)
  then show ?thesis using connection_effect.quiet [OF gov_run_refl, of cr db] by simp
next
  case (Inr r)
  then obtain a where "authorize_challenge cr db ci i op gen observed_at (rate_policy (sm_governance expected) RateChallengeAuthorization) = Inr (a, db')"
    using run by (cases r) (auto simp: repository_authorize_challenge_def dest: in_transaction_Inr split: if_splits)
  then show ?thesis by (rule authorize_effect [OF inv _ tt, rotated]) (use policies in \<open>simp add: policies_ok_def\<close>)
qed

lemma connection_step_effect:
  assumes "connection_step cr db db'" and inv: "connection_inv cr db"
  shows "connection_effect cr db db'"
  using assms(1)
proof cases
  case (stored q)
  then show ?thesis using connection_effect.request by blast
next
  case (governed g)
  then show ?thesis using connection_effect.quiet by blast
next
  case (admit expected r a)
  let ?governed = "if car_policy r \<noteq> PolicyDenied then Some (rate_policy (sm_governance expected) RateConnectionAdmission) else None"
  from admit(3) have "admit_connection cr db r ?governed = Inr (a, db')"
    unfolding repository_admit_connection_def by (auto dest: in_transaction_Inr split: if_splits)
  then show ?thesis by (rule admit_effect [OF inv admit(2), rotated]) (use admit(1) in \<open>auto simp: policies_ok_def split: if_splits\<close>)
next
  case (decide observed_at correlation decision expected operation_id connection_id policy_generation rec)
  from decide(4) have "decide_connection cr db operation_id connection_id policy_generation observed_at correlation decision = Inr (rec, db')"
    unfolding decide_pending_connection_def by (auto dest: in_transaction_Inr split: if_splits)
  then show ?thesis by (rule decide_effect [OF inv decide(1,2,3)])
next
  case (expire observed_at correlation expected connection_id policy_generation rec)
  from expire(3) have "expire_connection cr db connection_id policy_generation observed_at correlation = Inr (rec, db')"
    unfolding repository_expire_connection_def by (rule in_transaction_Inr)
  then show ?thesis by (rule expire_effect [OF inv expire(1,2)])
next
  case (admin observed_at correlation action connection_id policy_generation before after)
  then show ?thesis using admin_effect [OF inv] by blast
next
  case (issue expected creq i)
  from issue(3) have "issue_challenge cr db creq (rate_policy (sm_governance expected) RateChallengeCreation) = Inr (i, db')"
    unfolding issue_authorization_challenge_def by (auto dest: in_transaction_Inr split: if_splits)
  then show ?thesis by (rule issue_effect [OF inv issue(2), rotated]) (use issue(1) in \<open>simp add: policies_ok_def\<close>)
next
  case (admin_issue policy creq ch)
  from admin_issue(3) obtain a db1 where a: "issue_challenge cr db creq policy = Inr (a, db1)"
    and "(case a of ChallengeCreated record \<Rightarrow> Inr (record, db1) | ChallengeExactReplay record \<Rightarrow> Inr (record, db1)
      | ChallengeRateLimited \<Rightarrow> Inl AdminResourceExhausted) = Inr (ch, db')"
    unfolding apply_admin_challenge_require_def by (auto simp: r_bind_Inr_iff map_err_Inr_iff)
  then have "db1 = db'" by (cases a) auto
  with a have "issue_challenge cr db creq policy = Inr (a, db')" by simp
  then show ?thesis using issue_effect [OF inv admin_issue(2,1)] by blast
next
  case (authorize expected observed_at challenge_id connection_id operation_id policy_generation answer)
  then show ?thesis using repository_authorize_effect [OF inv] by blast
next
  case (admin_authorize policy observed_at challenge_id policy_generation ch)
  from admin_authorize(3) obtain a i op db1 where a: "authorize_challenge cr db challenge_id i op policy_generation observed_at policy = Inr (a, db1)"
    and "(case a of AuthorizationResolved record \<Rightarrow> Inr (record, db1) | AuthorizationExactReplay record \<Rightarrow> Inr (record, db1)
      | AuthorizationRateLimited \<Rightarrow> Inl AdminResourceExhausted) = Inr (ch, db')"
    unfolding apply_admin_challenge_authorize_def by (auto simp: r_bind_Inr_iff map_err_Inr_iff guard_Inr)
  then have "db1 = db'" by (cases a) auto
  with a have "authorize_challenge cr db challenge_id i op policy_generation observed_at policy = Inr (a, db')" by simp
  then show ?thesis using authorize_effect [OF inv admin_authorize(1,2)] by blast
next
  case (identity t counts)
  obtain n m where c: "counts = (n, m)" by (cases counts)
  note R = revoke_for_identity_change_Inr [OF identity [unfolded c]]
  show ?thesis unfolding R(1) using R(2,3) by (rule connection_effect.ended)
next
  case (narrowed t permissions counts)
  obtain n m where c: "counts = (n, m)" by (cases counts)
  note R = revoke_for_permission_narrowing_Inr [OF narrowed [unfolded c]]
  show ?thesis unfolding R(1) using R(2,3) by (rule connection_effect.ended)
qed

definition connection_init :: "connection_db \<Rightarrow> bool" where
  "connection_init db \<longleftrightarrow> governance_init (n_gov db) \<and> n_requests db = [] \<and> n_connections db = [] \<and> n_permissions db = []
     \<and> n_decisions db = [] \<and> n_challenges db = []"

definition connection_reachable :: "crates \<Rightarrow> connection_db \<Rightarrow> bool" where
  "connection_reachable cr db \<longleftrightarrow> (\<exists>db0. connection_init db0 \<and> (connection_step cr)\<^sup>*\<^sup>* db0 db)"

interpretation connection: invariant_system connection_init "connection_step cr" "connection_inv cr" for cr
proof
  fix db assume "connection_init db"
  then show "connection_inv cr db"
    using governance_inv_init by (simp add: connection_init_def connection_inv_def governance_init_def)
next
  fix db db' assume "connection_inv cr db" "connection_step cr db db'"
  then show "connection_inv cr db'" using connection_effect_inv [OF connection_step_effect] by blast
qed

lemma connection_reachable_inv: "connection_reachable cr db \<Longrightarrow> connection_inv cr db"
  unfolding connection_reachable_def using connection.reached_inv by blast

end
