(* ===== verification/Connection_Progress.thy ===== *)
theory Connection_Progress
  imports Connection_System
begin

text \<open>
  Operations of the connection authority that succeed: in a state that satisfies the invariant, an admission, an operator's
  approval, a new challenge and the resolution of a challenge commit with exactly the effect described by the
  corresponding tables of \<open>Connection_Effects\<close> and \<open>Challenge_Effects\<close>, once the rate limiter and the audit trail accept.
\<close>

section \<open>Reading an admission decision\<close>

definition decision_answer :: "crates \<Rightarrow> connection_db \<Rightarrow> decision_row \<Rightarrow> MycConnectionDecisionRecord" where
  "decision_answer cr db d = \<lparr>cd_operation_id = d_operation_id d,
     cd_connection = map_option (\<lambda>i. connection_record cr (n_permissions db) (hd (filter (\<lambda>c. c_connection_id c = i) (n_connections db))))
       (d_connection_id d),
     cd_decision = the (decision_parse (d_decision d)), cd_policy_generation = nat (d_policy_generation d),
     cd_decided_at = nat (d_decided_at_unix_ms d)\<rparr>"

text \<open>
  A decision whose connection was denied while the decision was still pending: the two tables disagree, and every reader
  of the decision refuses.
\<close>

definition orphaned :: "connection_db \<Rightarrow> decision_row \<Rightarrow> bool" where
  "orphaned db d \<longleftrightarrow> d_decision d = ''pending_approval''
     \<and> (\<exists>c\<in>set (n_connections db). d_connection_id d = Some (c_connection_id c) \<and> c_status c \<noteq> ''pending'')"

lemma admission_shape:
  assumes "nip46_request_decisions_check d" and "d_challenge_id d = None" and "admission_matches (d_reason_code d) status"
    and "d_connection_id d \<noteq> None"
  obtains (trusted) "d_decision d = ''allowed''" "d_reason_code d = ''trusted_client''" "status \<in> {''active'', ''expired''}"
  | (approved) "d_decision d = ''allowed''" "d_reason_code d = ''operator_approved''" "status \<in> {''active'', ''expired''}"
  | (pending) "d_decision d = ''pending_approval''" "d_reason_code d = ''explicit_approval_required''" "status \<in> {''pending'', ''denied''}"
  | (denied) "d_decision d = ''denied''" "d_reason_code d = ''operator_denied''" "status = ''denied''"
proof -
  have "decision_shape (d_decision d) (d_reason_code d) True False" using assms by (auto simp: nip46_request_decisions_check_def)
  then have "(d_decision d = ''allowed'' \<and> d_reason_code d = ''trusted_client'' \<and> status \<in> {''active'', ''expired''})
    \<or> (d_decision d = ''allowed'' \<and> d_reason_code d = ''operator_approved'' \<and> status \<in> {''active'', ''expired''})
    \<or> (d_decision d = ''pending_approval'' \<and> d_reason_code d = ''explicit_approval_required'' \<and> status \<in> {''pending'', ''denied''})
    \<or> (d_decision d = ''denied'' \<and> d_reason_code d = ''operator_denied'' \<and> status = ''denied'')"
    using assms(3) unfolding decision_shape_def admission_matches_def by (elim disjE conjE) simp_all
  then show thesis
    by (elim disjE conjE) (rule trusted approved pending denied; assumption)+
qed

lemma decision_record_row:
  assumes inv: "connection_inv cr db" and d: "d \<in> set (n_decisions db)" "d_challenge_id d = None"
  shows "decision_record cr db (d_operation_id d) (persisted_decision d) = (if orphaned db d then Inl Binding else Inr (decision_answer cr db d))"
proof -
  have ok: "decision_ok db d" using connection_invD(8) [OF inv d(1)] .
  have ck: "nip46_request_decisions_check d" using ok by (simp add: decision_ok_def)
  show ?thesis
  proof (cases "d_connection_id d")
    case None
    then have shape: "d_decision d = ''denied''" "d_reason_code d = ''policy_denied''"
      using ck d(2) by (auto simp: nip46_request_decisions_check_def decision_shape_def)
    then show ?thesis using None d(2)
      by (simp add: decision_record_def persisted_decision_def decision_state_matches_def decision_parse_def orphaned_def decision_answer_def)
  next
    case (Some i)
    with ok d(2) obtain c where c: "c \<in> set (n_connections db)" "c_connection_id c = i"
      "c_requested_permissions_sha256 c = d_requested_permissions_sha256 d" "admission_matches (d_reason_code d) (c_status c)"
      unfolding decision_ok_def by blast
    have hd: "hd (filter (\<lambda>x. c_connection_id x = i) (n_connections db)) = c"
      using filter_unique [OF connection_invD(6) [OF inv] c(1)] c(2) by simp
    have r: "read_connection cr db i = Inr (connection_record cr (n_permissions db) c)"
      using read_connection_inv [OF inv c(1)] c(2) by simp
    have dig: "ps_digest (cr_requested_permissions (connection_record cr (n_permissions db) c)) = d_requested_permissions_sha256 d"
      using connection_invD(5) [OF inv c(1)] c(3) by (simp add: connection_ok_def connection_record_def seal_def)
    have orph: "orphaned db d \<longleftrightarrow> d_decision d = ''pending_approval'' \<and> c_status c \<noteq> ''pending''"
    proof -
      have "x = c" if "x \<in> set (n_connections db)" "d_connection_id d = Some (c_connection_id x)" for x
        using unique_by_key [OF connection_invD(6) [OF inv] that(1) c(1)] that(2) c(2) Some by simp
      then show ?thesis unfolding orphaned_def using c(1,2) Some by blast
    qed
    have st: "cr_status (connection_record cr (n_permissions db) c) = s \<longleftrightarrow> c_status c = connection_status_as_str s" for s
      using connection_status_record [OF inv c(1)] .
    have match: "decision_state_matches (pd_admission_policy (persisted_decision d)) (pd_decision (persisted_decision d))
        (Some (connection_record cr (n_permissions db) c)) \<longleftrightarrow> \<not> orphaned db d"
      unfolding orph
    proof (rule admission_shape [OF ck d(2) c(4)])
      show "d_connection_id d \<noteq> None" using Some by simp
    qed (auto simp: persisted_decision_def decision_parse_def decision_state_matches_def st d(2))
    show ?thesis
      using dig match d(2) by (simp add: decision_record_def persisted_decision_def Some r decision_answer_def hd)
  qed
qed


section \<open>Admission\<close>

lemma permission_row_legal:
  assumes "i \<in> c_connection_id ` set cs" and "length i = 32" and "scope \<in> {''requested'', ''granted''}"
    and "\<lparr>p_connection_id = i, p_permission_scope = scope, p_permission_code = permission_code p\<rparr> \<notin> set ps"
  shows "permission_insert_legal cs ps \<lparr>p_connection_id = i, p_permission_scope = scope, p_permission_code = permission_code p\<rparr>"
  using assms permission_code_length [of p] by (auto simp: permission_insert_legal_def connection_permissions_check_def list_ex_iff)

lemma insert_permission_list_ready:
  assumes "i \<in> c_connection_id ` set (n_connections db)" and "length i = 32" and "scope \<in> {''requested'', ''granted''}" and "distinct permissions"
    and "\<And>p. p \<in> set permissions \<Longrightarrow> \<lparr>p_connection_id = i, p_permission_scope = scope, p_permission_code = permission_code p\<rparr> \<notin> set (n_permissions db)"
  shows "insert_permission_list i scope permissions db = Inr (db\<lparr>n_permissions := n_permissions db @ permission_rows i scope permissions\<rparr>)"
  using assms
proof (induction permissions arbitrary: db)
  case (Cons p permissions)
  let ?r = "\<lparr>p_connection_id = i, p_permission_scope = scope, p_permission_code = permission_code p\<rparr>"
  have "permission_insert_legal (n_connections db) (n_permissions db) ?r" using Cons.prems(1,2,3,5) by (intro permission_row_legal) auto
  then have one: "connection_execute_one (insert_permission_sql ?r db) = Inr (db\<lparr>n_permissions := n_permissions db @ [?r]\<rparr>)"
    by (simp add: execute_insert)
  have "insert_permission_list i scope permissions (db\<lparr>n_permissions := n_permissions db @ [?r]\<rparr>)
      = Inr (db\<lparr>n_permissions := (n_permissions db @ [?r]) @ permission_rows i scope permissions\<rparr>)"
    using Cons.IH [of "db\<lparr>n_permissions := n_permissions db @ [?r]\<rparr>"] Cons.prems permission.as_str_inj by auto
  then show ?case by (simp add: one permission_rows_def)
qed (simp add: permission_rows_def)

lemma insert_connection_ready:
  assumes "car_policy r \<noteq> PolicyDenied" and legal: "connection_insert_legal (n_connections db) (new_connection cr r)"
    and perms: "distinct (ps_permissions (car_requested_permissions r))"
    and fresh: "\<And>p. p \<in> set (n_permissions db) \<Longrightarrow> p_connection_id p \<noteq> c_connection_id (new_connection cr r)"
  shows "insert_connection r (derive_connection_id (sha256 cr) (car_client_public_key r) (car_nonce r)) db
    = Inr (db\<lparr>n_connections := n_connections db @ [new_connection cr r], n_permissions := n_permissions db @ new_permissions cr r\<rparr>)"
proof -
  let ?i = "derive_connection_id (sha256 cr) (car_client_public_key r) (car_nonce r)"
  let ?perms = "ps_permissions (car_requested_permissions r)"
  let ?db1 = "db\<lparr>n_connections := n_connections db @ [new_connection cr r]\<rparr>"
  let ?db2 = "?db1\<lparr>n_permissions := n_permissions db @ permission_rows ?i ''requested'' ?perms\<rparr>"
  have i: "c_connection_id (new_connection cr r) = ?i" by (simp add: new_connection_def)
  have len: "length ?i = 32" using legal by (simp add: connection_insert_legal_def connections_check_def i)
  have one: "connection_execute_one (insert_connection_sql (new_connection cr r) db) = Inr ?db1" using legal by (simp add: execute_insert)
  have two: "insert_permission_list ?i ''requested'' ?perms ?db1 = Inr ?db2"
    using insert_permission_list_ready [of ?i ?db1 "''requested''" ?perms] len perms fresh i by force
  have three: "insert_permission_list ?i ''granted'' ?perms ?db2
      = Inr (?db2\<lparr>n_permissions := n_permissions ?db2 @ permission_rows ?i ''granted'' ?perms\<rparr>)"
  proof (rule insert_permission_list_ready)
    have "p_connection_id x \<noteq> ?i \<or> p_permission_scope x = ''requested''" if "x \<in> set (n_permissions ?db2)" for x
      using that fresh [of x] i by (auto simp: permission_rows_def)
    then show "\<lparr>p_connection_id = ?i, p_permission_scope = ''granted'', p_permission_code = permission_code p\<rparr> \<notin> set (n_permissions ?db2)" for p
      by fastforce
  qed (use len perms i in simp_all)
  show ?thesis
  proof (cases "car_policy r")
    case PolicyTrusted
    then have "new_connection cr r = \<lparr>c_connection_id = ?i, c_connection_nonce = car_nonce r, c_client_public_key = car_client_public_key r,
        c_requested_permissions_sha256 = ps_digest (car_requested_permissions r), c_policy_generation = int (car_policy_generation r),
        c_status = connection_status_as_str ConnectionActive, c_created_at_unix_ms = int (car_observed_at r),
        c_updated_at_unix_ms = int (car_observed_at r), c_authorized_until_unix_ms = map_option int (car_authorized_until r)\<rparr>"
      by (simp add: new_connection_def)
    with PolicyTrusted show ?thesis
      using one two three by (simp add: insert_connection_def insert_permissions_def new_permissions_def new_connection_def)
  next
    case PolicyExplicitApproval
    with one two show ?thesis
      by (simp add: insert_connection_def insert_permissions_def new_permissions_def new_connection_def)
  qed (use assms(1) in simp)
qed

lemma decision_insert_ready:
  assumes "nip46_request_decisions_check d" and "d_operation_id d \<in> q_operation_id ` set (n_requests db)"
    and "\<And>i. d_connection_id d = Some i \<Longrightarrow> i \<in> c_connection_id ` set (n_connections db)" and "d_challenge_id d = None"
    and "\<forall>x\<in>set (n_decisions db). d_operation_id x \<noteq> d_operation_id d"
  shows "decision_insert_legal db (n_decisions db) d"
  using assms by (force simp: decision_insert_legal_def list_ex_iff list_all_iff split: option.splits)

definition admission_possible :: "crates \<Rightarrow> connection_db \<Rightarrow> MycConnectionAdmissionRequest \<Rightarrow> bool" where
  "admission_possible cr db r \<longleftrightarrow>
     list_ex (\<lambda>q. q_operation_id q = car_operation_id r \<and> q_client_public_key q = car_client_public_key r \<and> q_method q = ''connect''
       \<and> q_received_at_unix_ms q \<le> int (car_observed_at r)) (n_requests db)
     \<and> list_all (\<lambda>d. d_operation_id d \<noteq> car_operation_id r) (n_decisions db)
     \<and> (car_policy r \<noteq> PolicyDenied \<longrightarrow>
          list_all (\<lambda>c. c_connection_id c \<noteq> c_connection_id (new_connection cr r)) (n_connections db))"

lemma client_public_key_lower:
  assumes "client_public_key_new cr v = Inr k"
  shows "lower_hex v"
proof -
  have "is_ascii_digit c \<or> (CHR ''a'' \<le> c \<and> c \<le> CHR ''f'')" if "is_ascii_hexdigit c" "\<not> is_ascii_uppercase c" for c
  proof -
    have "CHR ''F'' \<le> CHR ''Z''" by (simp add: less_eq_char_def)
    from order_trans [OF _ this, of c] that show ?thesis unfolding is_ascii_hexdigit_def is_ascii_uppercase_def by blast
  qed
  with assms show ?thesis by (auto simp: client_public_key_new_def lower_hex_def list_ex_iff list_all_iff split: if_splits)
qed

lemma new_rows_checked:
  assumes ok: "admission_request_ok cr r" and sha: "\<And>b. length (sha256 cr b) = 32"
  shows "connections_check (new_connection cr r)" and "nip46_request_decisions_check (new_admission_decision cr r)"
proof -
  have key: "length (car_client_public_key r) = 64" "lower_hex (car_client_public_key r)"
    using client_public_key_new_Inr [OF admission_request_okD(5) [OF ok]] client_public_key_lower [OF admission_request_okD(5) [OF ok]]
    by simp_all
  have dig: "length (ps_digest (car_requested_permissions r)) = 32"
    using admission_request_okD(4) [OF ok] sha by (simp add: permission_set_ok_def permission_digest_def)
  have R: "length (car_operation_id r) = 32" "length (car_nonce r) = 32" "time_ok (car_policy_generation r)" "time_ok (car_observed_at r)"
    "\<And>u. car_authorized_until r = Some u \<Longrightarrow> time_ok u" using ok by (auto simp: admission_request_ok_def)
  show "connections_check (new_connection cr r)"
    using key dig R sha admission_request_okD(1,2) [OF ok]
    by (auto simp: connections_check_def new_connection_def sql_time_def time_ok_def i64_max_def derive_connection_id_def split: option.splits)
  show "nip46_request_decisions_check (new_admission_decision cr r)"
    using R dig sha by (cases "car_policy r") (auto simp: nip46_request_decisions_check_def new_admission_decision_def new_connection_def
      derive_connection_id_def sql_time_def time_ok_def i64_max_def decision_shape_def)
qed

text \<open>What the tables hold after the admission, and the record that is read back.\<close>

lemma admitted_db_state:
  assumes inv: "connection_inv cr db" and ok: "admission_request_ok cr r" and sha: "\<And>b. length (sha256 cr b) = 32"
    and possible: "admission_possible cr db r"
  shows "connection_inv cr (admitted_db cr db r)" and "\<not> orphaned (admitted_db cr db r) (new_admission_decision cr r)"
    and "car_policy r \<noteq> PolicyDenied \<Longrightarrow> connection_insert_legal (n_connections db) (new_connection cr r)"
proof -
  note new = new_rows_checked [OF ok sha]
  show legal: "car_policy r \<noteq> PolicyDenied \<Longrightarrow> connection_insert_legal (n_connections db) (new_connection cr r)"
    using possible new(1) by (simp add: admission_possible_def connection_insert_legal_def)
  have fresh: "\<forall>d\<in>set (n_decisions db). d_operation_id d \<noteq> car_operation_id r"
    using possible by (simp add: admission_possible_def list_all_iff)
  show inv': "connection_inv cr (admitted_db cr db r)"
    using denied_admission_inv [OF inv _ new(2) fresh] granted_admission_inv [OF inv _ ok legal new(2) fresh] by blast
  show "\<not> orphaned (admitted_db cr db r) (new_admission_decision cr r)"
  proof
    assume "orphaned (admitted_db cr db r) (new_admission_decision cr r)"
    then obtain c where c: "d_decision (new_admission_decision cr r) = ''pending_approval''" "c \<in> set (n_connections (admitted_db cr db r))"
      "d_connection_id (new_admission_decision cr r) = Some (c_connection_id c)" "c_status c \<noteq> ''pending''"
      unfolding orphaned_def by blast
    then have p: "car_policy r = PolicyExplicitApproval" by (cases "car_policy r") (simp_all add: new_admission_decision_def)
    then have "new_connection cr r \<in> set (n_connections (admitted_db cr db r))" by (simp add: admitted_db_def)
    with c p have "c = new_connection cr r"
      using unique_by_key [OF connection_invD(6) [OF inv'], of c "new_connection cr r"] by (simp add: new_admission_decision_def)
    with c(4) p show False by (simp add: new_connection_def)
  qed
qed

lemma admit_new_ready:
  assumes inv: "connection_inv cr db" and ok: "admission_request_ok cr r" and sha: "\<And>b. length (sha256 cr b) = 32"
    and possible: "admission_possible cr db r"
    and audit: "record_audit (sha256 cr) (n_gov db) ev AuditConnectionAdmission (fst (admission_audit (car_policy r)))
        (snd (admission_audit (car_policy r))) = Inr (x, g)"
  shows "admit_new cr db r ev = Inr (Admitted (decision_answer cr (admitted_db cr db r) (new_admission_decision cr r)),
      (admitted_db cr db r)\<lparr>n_gov := g\<rparr>)"
proof -
  let ?db = "admitted_db cr db r" and ?d = "new_admission_decision cr r"
  let ?id = "if car_policy r = PolicyDenied then None else Some (c_connection_id (new_connection cr r))"
  let ?db1 = "if car_policy r = PolicyDenied then db
      else db\<lparr>n_connections := n_connections db @ [new_connection cr r], n_permissions := n_permissions db @ new_permissions cr r\<rparr>"
  note st = admitted_db_state [OF inv ok sha possible]
  have fresh: "p_connection_id p \<noteq> c_connection_id (new_connection cr r)" if "car_policy r \<noteq> PolicyDenied" "p \<in> set (n_permissions db)" for p
    using connection_invD(7) [OF inv that(2)] possible that(1) by (auto simp: admission_possible_def list_all_iff)
  have dist: "distinct (ps_permissions (car_requested_permissions r))"
    using admission_request_okD(4) [OF ok] by (simp add: permission_set_ok_def)
  have ins: "(if car_policy r = PolicyDenied then Inr (None, db)
       else let connection_id = derive_connection_id (sha256 cr) (car_client_public_key r) (car_nonce r)
            in r_bind (insert_connection r connection_id db) (\<lambda>db1. Inr (Some connection_id, db1))) = Inr (?id, ?db1)"
    using insert_connection_ready [OF _ st(3) dist fresh] by (simp add: Let_def new_connection_def)
  have d: "?d \<in> set (n_decisions ?db)" "d_challenge_id ?d = None" "d_operation_id ?d = car_operation_id r"
    by (simp_all add: new_admission_decision_def)
  have "car_operation_id r \<in> q_operation_id ` set (n_requests db)" "\<forall>x\<in>set (n_decisions db). d_operation_id x \<noteq> car_operation_id r"
    using possible by (force simp: admission_possible_def list_ex_iff, simp add: admission_possible_def list_all_iff)
  then have legal: "decision_insert_legal ?db1 (n_decisions ?db1) ?d"
    using d(3) by (intro decision_insert_ready [OF new_rows_checked(2) [OF ok sha] _ _ d(2)])
      (auto simp: new_admission_decision_def split: if_splits)
  have dec: "insert_decision (car_operation_id r) ?id (admission_decision (car_policy r))
         (decision_reason (admission_decision (car_policy r)) (car_policy r)) (car_policy_generation r)
         (ps_digest (car_requested_permissions r)) None (car_observed_at r) ?db1 = Inr ?db"
  proof -
    have "connection_execute_one (insert_decision_sql ?d ?db1) = Inr ?db"
      unfolding execute_insert using legal by (simp add: admitted_db_def)
    then show ?thesis by (simp add: insert_decision_def new_admission_decision_def)
  qed
  have rd: "read_decision ?db (car_operation_id r) = Inr (Some (persisted_decision ?d))"
    using read_decision_present [OF st(1) d(1)] d(3) by simp
  have rec: "decision_record cr ?db (car_operation_id r) (persisted_decision ?d) = Inr (decision_answer cr ?db ?d)"
    using decision_record_row [OF st(1) d(1,2)] st(2) d(3) by simp
  have aud: "record_connection_audit cr ?db ev AuditConnectionAdmission (fst (admission_audit (car_policy r)))
         (snd (admission_audit (car_policy r))) = Inr (?db\<lparr>n_gov := g\<rparr>)"
    using audit by (simp add: record_connection_audit_def on_governance_def)
  show ?thesis unfolding admit_new_def ins by (simp add: dec rd rec aud)
qed

lemma admit_ready:
  assumes inv: "connection_inv cr db" and ok: "admission_request_ok cr r" and sha: "\<And>b. length (sha256 cr b) = 32"
    and possible: "admission_possible cr db r"
    and q: "q \<in> set (n_requests db)" "q_operation_id q = car_operation_id r"
    and ev: "ev = \<lparr>ev_correlation = q_correlation_id q, ev_occurred_at = car_observed_at r, ev_operation_id = Some (car_operation_id r)\<rparr>"
    and governed: "case governed of None \<Rightarrow> g1 = n_gov db | Some policy \<Rightarrow> policy_ok policy \<and>
        distinct (subject_keys (sha256 cr) policy [SubjectGlobal, relay_subject (sha256 cr) (car_relay_id r)]) \<and>
        govern_rate_attempt (sha256 cr) (n_gov db) policy RateConnectionAdmission
          [SubjectGlobal, relay_subject (sha256 cr) (car_relay_id r)] ev AuditConnectionAdmission = Inr (True, g1)"
    and audit: "record_audit (sha256 cr) g1 ev AuditConnectionAdmission (fst (admission_audit (car_policy r)))
        (snd (admission_audit (car_policy r))) = Inr (x, g2)"
  shows "admit_connection cr db r governed
    = Inr (Admitted (decision_answer cr (admitted_db cr db r) (new_admission_decision cr r)), (admitted_db cr db r)\<lparr>n_gov := g2\<rparr>)"
proof -
  obtain q' where q': "q' \<in> set (n_requests db)" "q_operation_id q' = car_operation_id r" "q_client_public_key q' = car_client_public_key r"
    "q_method q' = ''connect''" "q_received_at_unix_ms q' \<le> int (car_observed_at r)"
    using possible by (auto simp: admission_possible_def list_ex_iff)
  have "q' = q" using unique_by_key [OF connection_invD(4) [OF inv] q'(1) q(1)] q' q by simp
  note q' = q' [unfolded this]
  have rb: "read_request_binding cr db (car_operation_id r) = Inr (request_binding_of q)"
    using read_request_binding_inv [OF inv q(1)] q(2) by simp
  have guard: "rb_client_public_key (request_binding_of q) = car_client_public_key r" "rb_method (request_binding_of q) = MethodConnect"
    "\<not> car_observed_at r < rb_received_at (request_binding_of q)" "rb_correlation (request_binding_of q) = q_correlation_id q"
    using q' request_method [OF inv q(1)] by (auto simp: request_binding_of_def)
  have none: "read_decision db (car_operation_id r) = Inr None"
    by (rule read_decision_absent) (use possible in \<open>simp add: admission_possible_def list_all_iff\<close>)
  have run: "gov_run cr (n_gov db) g1"
  proof (cases governed)
    case (Some policy)
    have "evidence_ok (n_gov db) ev AuditConnectionAdmission" unfolding ev q(2) [symmetric]
      by (rule request_evidence [OF inv q(1)]) (use admission_request_okD(3) [OF ok] in \<open>auto simp: time_ok_def bound_kinds_def\<close>)
    from govern_run [OF connection_invD(1) [OF inv] this] show ?thesis using governed unfolding Some option.case by blast
  qed (use governed gov_run_refl in simp)
  have g1: "connection_inv cr (db\<lparr>n_gov := g1\<rparr>)" using connection_inv_gov [OF inv run] .
  have p1: "admission_possible cr (db\<lparr>n_gov := g1\<rparr>) r" using possible by (simp add: admission_possible_def)
  have rec: "decision_answer cr (admitted_db cr (db\<lparr>n_gov := g1\<rparr>) r) = decision_answer cr (admitted_db cr db r)"
    by (rule ext) (simp add: decision_answer_def admitted_db_gov)
  have new: "admit_new cr (db\<lparr>n_gov := g1\<rparr>) r ev
      = Inr (Admitted (decision_answer cr (admitted_db cr db r) (new_admission_decision cr r)), (admitted_db cr db r)\<lparr>n_gov := g2\<rparr>)"
    using admit_new_ready [OF g1 ok sha p1] audit rec by (simp add: admitted_db_gov)
  show ?thesis
    using new governed by (cases governed) (simp_all add: admit_connection_def rb guard none Let_def ev [symmetric] on_governance_def)
qed

end
