(* ===== verification/Challenge_Progress.thy ===== *)
theory Challenge_Progress
  imports Connection_Progress
begin

text \<open>
  The operator's approval and the challenges succeed too: each of them commits with the effect on the tables that
  \<open>Connection_Effects\<close> and \<open>Challenge_Effects\<close> describe, and answers with the record it leaves.
\<close>

section \<open>Updates of one row\<close>

lemma sql_update_ready:
  assumes dist: "distinct (map key t)" and x: "x \<in> set t" "whr x" "legal x (f x)" and keys: "\<And>r. whr r \<Longrightarrow> key r = key x"
  shows "sql_update whr f legal t = Some (swap_row x (f x) t, 1)"
proof -
  have hit: "whr r \<longleftrightarrow> r = x" if "r \<in> set t" for r
    using unique_by_key [OF dist that x(1)] keys x(2) by blast
  have "filter whr t = filter (\<lambda>r. key r = key x) t"
    by (rule filter_cong [OF refl]) (use hit unique_by_key [OF dist _ x(1)] in blast)
  then have one: "filter whr t = [x]" using filter_unique [OF dist x(1)] by simp
  have "map (upd_row whr f) t = swap_row x (f x) t" using upd_row_one_hit [of whr t x f] one x by simp
  moreover have "list_all (\<lambda>r. whr r \<longrightarrow> legal r (f r)) t" using hit x(3) by (simp add: list_all_iff)
  ultimately show ?thesis using one by (simp add: sql_update_def)
qed

lemma update_connections_ready:
  assumes "distinct (map c_connection_id (n_connections db))" and "c \<in> set (n_connections db)" and "whr c" and "connection_update_legal c (f c)"
    and "\<And>r. whr r \<Longrightarrow> c_connection_id r = c_connection_id c"
  shows "connection_execute_one (update_connections whr f db) = Inr (db\<lparr>n_connections := swap_row c (f c) (n_connections db)\<rparr>)"
proof -
  have "sql_update whr f connection_update_legal (n_connections db) = Some (swap_row c (f c) (n_connections db), 1)"
    using assms by (rule sql_update_ready)
  then show ?thesis by (simp add: connection_execute_one_def connection_require_one_def update_connections_def)
qed

lemma update_decisions_ready:
  assumes "distinct (map d_operation_id (n_decisions db))" and "d \<in> set (n_decisions db)" and "whr d" and "decision_update_legal d (f d)"
    and "\<And>r. whr r \<Longrightarrow> d_operation_id r = d_operation_id d"
  shows "connection_execute_one (update_decisions whr f db) = Inr (db\<lparr>n_decisions := swap_row d (f d) (n_decisions db)\<rparr>)"
proof -
  have "sql_update whr f decision_update_legal (n_decisions db) = Some (swap_row d (f d) (n_decisions db), 1)"
    using assms by (rule sql_update_ready)
  then show ?thesis by (simp add: connection_execute_one_def connection_require_one_def update_decisions_def)
qed

lemma update_challenges_ready:
  assumes "distinct (map h_challenge_id (n_challenges db))" and "h \<in> set (n_challenges db)" and "whr h" and "challenge_update_legal h (f h)"
    and "\<And>r. whr r \<Longrightarrow> h_challenge_id r = h_challenge_id h"
  shows "connection_execute_one (update_challenges whr f db) = Inr (db\<lparr>n_challenges := swap_row h (f h) (n_challenges db)\<rparr>)"
proof -
  have "sql_update whr f challenge_update_legal (n_challenges db) = Some (swap_row h (f h) (n_challenges db), 1)"
    using assms by (rule sql_update_ready)
  then show ?thesis by (simp add: connection_execute_one_def connection_require_one_def update_challenges_def)
qed

section \<open>Approval\<close>

text \<open>A pending connection with its pending decision, and an approval that comes after both.\<close>

definition approvable :: "connection_db \<Rightarrow> connection_row \<Rightarrow> decision_row \<Rightarrow> nat \<Rightarrow> nat option \<Rightarrow> bool" where
  "approvable db c d t until \<longleftrightarrow> c \<in> set (n_connections db) \<and> c_status c = ''pending'' \<and> c_updated_at_unix_ms c \<le> int t
     \<and> d \<in> set (n_decisions db) \<and> d_connection_id d = Some (c_connection_id c) \<and> d_decision d = ''pending_approval''
     \<and> d_decided_at_unix_ms d \<le> int t \<and> time_ok t \<and> (\<forall>u. until = Some u \<longrightarrow> t < u \<and> time_ok u)"

lemma approval_legal:
  assumes inv: "connection_inv cr db" and a: "approvable db c d t until"
  shows "connection_update_legal c (approve_connection_set (int t) (map_option int until) c)"
    and "decision_update_legal d (update_decision_set ''allowed'' ''operator_approved'' (int t) d)"
    and "d_policy_generation d = c_policy_generation c"
proof -
  have c: "connections_check c" "c \<in> set (n_connections db)"
    using connection_invD(5) [OF inv, of c] a by (simp_all add: connection_ok_def approvable_def)
  then show "connection_update_legal c (approve_connection_set (int t) (map_option int until) c)"
    using a by (auto simp: approvable_def connection_update_legal_def connections_guard_update_def connections_check_def
      approve_connection_set_def sql_time_def time_ok_def i64_max_def split: option.splits)
  have d: "decision_ok db d" using connection_invD(8) [OF inv, of d] a by (simp add: approvable_def)
  then have ck: "nip46_request_decisions_check d" by (simp add: decision_ok_def)
  have "d_challenge_id d = None" using pending_admission [OF inv, of d] a by (simp add: approvable_def)
  with ck a show "decision_update_legal d (update_decision_set ''allowed'' ''operator_approved'' (int t) d)"
    by (auto simp: approvable_def decision_update_legal_def nip46_request_decisions_guard_update_def nip46_request_decisions_check_def
      update_decision_set_def sql_time_def time_ok_def i64_max_def decision_shape_def)
  obtain c' where "c' \<in> set (n_connections db)" "c_connection_id c' = c_connection_id c" "c_policy_generation c' = d_policy_generation d"
    using d a unfolding decision_ok_def approvable_def by blast
  then show "d_policy_generation d = c_policy_generation c"
    using unique_by_key [OF connection_invD(6) [OF inv] _ c(2), of c'] by simp
qed

lemma approve_pending_ready:
  assumes inv: "connection_inv cr db" and a: "approvable db c d t until"
    and granted: "permission_set_ok (sha256 cr) granted" "is_subset_of granted (cr_requested_permissions (connection_record cr (n_permissions db) c))"
    and gen: "c_policy_generation c = int gen"
    and audit: "record_audit (sha256 cr) (n_gov db) \<lparr>ev_correlation = correlation, ev_occurred_at = t, ev_operation_id = None\<rparr>
        AuditConnectionOperatorDecision AuditSucceeded ReasonOperatorApproved = Inr (x, g)"
  shows "\<exists>rec. approve_pending cr db (d_operation_id d) (c_connection_id c) gen t correlation granted until
    = Inr (rec, (approved_db db c d granted t until)\<lparr>n_gov := g\<rparr>)"
proof -
  let ?i = "c_connection_id c" and ?ps = "permission_rows (c_connection_id c) ''granted'' (ps_permissions granted)"
  let ?c = "approve_connection_set (int t) (map_option int until) c" and ?db = "approved_db db c d granted t until"
  note legal = approval_legal [OF inv a]
  have A: "c \<in> set (n_connections db)" "c_status c = ''pending''" "d \<in> set (n_decisions db)" "d_connection_id d = Some ?i"
    "d_decision d = ''pending_approval''" using a by (simp_all add: approvable_def)
  have ok: "connection_ok cr (n_permissions db) c" using connection_invD(5) [OF inv A(1)] .
  have inv': "connection_inv cr ?db" using approved_db_inv [OF inv A(1,2) legal(1) A(3,4,5) legal(2) granted] .
  have len: "length ?i = 32" using ok by (simp add: connection_ok_def connections_check_def)
  have none: "p_connection_id p \<noteq> ?i \<or> p_permission_scope p \<noteq> ''granted''" if "p \<in> set (n_permissions db)" for p
    using ok A(2) that by (auto simp: connection_ok_def codes_of_def filter_empty_conv)
  have one: "insert_permissions ?i ''granted'' granted db = Inr (db\<lparr>n_permissions := n_permissions db @ ?ps\<rparr>)"
    unfolding insert_permissions_def
  proof (rule insert_permission_list_ready)
    show "\<lparr>p_connection_id = ?i, p_permission_scope = ''granted'', p_permission_code = permission_code p\<rparr> \<notin> set (n_permissions db)" for p
      using none by fastforce
  qed (use A(1) len granted(1) in \<open>simp_all add: permission_set_ok_def\<close>)
  let ?db1 = "db\<lparr>n_permissions := n_permissions db @ ?ps\<rparr>"
  let ?db2 = "?db1\<lparr>n_connections := swap_row c ?c (n_connections ?db1)\<rparr>"
  have two: "connection_execute_one (update_connections (approve_connection_where ?i (int gen))
         (approve_connection_set (int t) (map_option int until)) ?db1) = Inr ?db2"
    by (rule update_connections_ready) (use connection_invD(6) [OF inv] A(1,2) gen legal(1) in \<open>simp_all add: approve_connection_where_def\<close>)
  have up: "connection_execute_one (update_decisions (update_approval_where (d_operation_id d) ?i (int gen))
      (update_decision_set ''allowed'' ''operator_approved'' (int t)) ?db2)
    = Inr (?db2\<lparr>n_decisions := swap_row d (update_decision_set ''allowed'' ''operator_approved'' (int t) d) (n_decisions ?db2)\<rparr>)"
    by (rule update_decisions_ready) (use connection_invD(9) [OF inv] A(3,4,5) gen legal(2,3) in \<open>simp_all add: update_approval_where_def\<close>)
  have three: "update_approval_decision ?db2 (d_operation_id d) ?i gen t DecisionAllowed ''operator_approved'' = Inr ?db"
    unfolding update_approval_decision_def decision_as_str.simps up by (simp add: approved_db_def)
  have c': "?c \<in> set (n_connections ?db)" "c_connection_id ?c = ?i"
    using A(1) by (simp_all add: approved_db_def in_swap_row approve_connection_set_def)
  have four: "read_connection cr ?db ?i = Inr (connection_record cr (n_permissions ?db) ?c)"
    using read_connection_inv [OF inv' c'(1)] c'(2) by simp
  have "n_gov ?db = n_gov db" by (simp add: approved_db_def)
  then have five: "record_operator_audit cr ?db correlation t AuditSucceeded ReasonOperatorApproved = Inr (?db\<lparr>n_gov := g\<rparr>)"
    using audit by (simp add: record_operator_audit_def record_connection_audit_def on_governance_def)
  show ?thesis unfolding approve_pending_def one r_bind_simps two three four five by blast
qed

lemma approve_ready:
  assumes inv: "connection_inv cr db" and a: "approvable db c d t until"
    and granted: "permission_set_ok (sha256 cr) granted" "is_subset_of granted (cr_requested_permissions (connection_record cr (n_permissions db) c))"
    and gen: "c_policy_generation c = int gen"
    and audit: "record_audit (sha256 cr) (n_gov db) \<lparr>ev_correlation = correlation, ev_occurred_at = t, ev_operation_id = None\<rparr>
        AuditConnectionOperatorDecision AuditSucceeded ReasonOperatorApproved = Inr (x, g)"
  shows "\<exists>rec. decide_connection cr db (d_operation_id d) (c_connection_id c) gen t correlation (OperatorApprove granted until)
    = Inr (rec, (approved_db db c d granted t until)\<lparr>n_gov := g\<rparr>)"
proof -
  obtain rec where run: "approve_pending cr db (d_operation_id d) (c_connection_id c) gen t correlation granted until
    = Inr (rec, (approved_db db c d granted t until)\<lparr>n_gov := g\<rparr>)" using approve_pending_ready [OF assms] by blast
  have A: "c \<in> set (n_connections db)" "c_status c = ''pending''" "d \<in> set (n_decisions db)" "d_connection_id d = Some (c_connection_id c)"
    "d_decision d = ''pending_approval''" "c_updated_at_unix_ms c \<le> int t" using a by (simp_all add: approvable_def)
  have rd: "read_decision db (d_operation_id d) = Inr (Some (persisted_decision d))" using read_decision_present [OF inv A(3)] .
  have rc: "read_connection cr db (c_connection_id c) = Inr (connection_record cr (n_permissions db) c)" using read_connection_inv [OF inv A(1)] .
  have pd: "pd_connection_id (persisted_decision d) = Some (c_connection_id c)" "pd_policy_generation (persisted_decision d) = gen"
    "pd_decision (persisted_decision d) = DecisionPendingApproval"
    using A(4,5) gen approval_legal(3) [OF inv a] by (simp_all add: persisted_decision_def decision_parse_def)
  have st: "cr_status (connection_record cr (n_permissions db) c) = ConnectionPending"
    using connection_status_record [OF inv A(1), of ConnectionPending] A(2) by simp
  have rest: "cr_policy_generation (connection_record cr (n_permissions db) c) = gen"
    "\<not> t < cr_updated_at (connection_record cr (n_permissions db) c)" using gen A(6) by (auto simp: connection_record_def)
  have u: "\<not> (case until of Some u \<Rightarrow> u \<le> t | None \<Rightarrow> False)" using a by (auto simp: approvable_def split: option.splits)
  show ?thesis using run granted(2) u by (simp add: decide_connection_def rd rc pd st rest)
qed

lemma admin_approve_ready:
  assumes inv: "connection_inv cr db" and a: "approvable db c d t until"
    and granted: "permission_set_ok (sha256 cr) granted" "is_subset_of granted (cr_requested_permissions (connection_record cr (n_permissions db) c))"
    and gen: "c_policy_generation c = int gen"
    and audit: "record_audit (sha256 cr) (n_gov db) \<lparr>ev_correlation = correlation, ev_occurred_at = t, ev_operation_id = None\<rparr>
        AuditConnectionOperatorDecision AuditSucceeded ReasonOperatorApproved = Inr (x, g)"
  shows "\<exists>rec. apply_admin_connection_mutation cr db (c_connection_id c) gen t correlation (AdminApprove granted until)
    = Inr (rec, (approved_db db c d granted t until)\<lparr>n_gov := g\<rparr>)"
proof -
  obtain rec where run: "decide_connection cr db (d_operation_id d) (c_connection_id c) gen t correlation (OperatorApprove granted until)
    = Inr (rec, (approved_db db c d granted t until)\<lparr>n_gov := g\<rparr>)" using approve_ready [OF assms] by blast
  have A: "c \<in> set (n_connections db)" "d \<in> set (n_decisions db)" "d_connection_id d = Some (c_connection_id c)"
    "d_decision d = ''pending_approval''" using a by (simp_all add: approvable_def)
  have rc: "read_connection cr db (c_connection_id c) = Inr (connection_record cr (n_permissions db) c)" using read_connection_inv [OF inv A(1)] .
  have adm: "admission_decision_of x" if "x \<in> set (n_decisions db)" "d_connection_id x = Some (c_connection_id c)" "d_decision x = ''pending_approval''" for x
    using pending_admission [OF inv that(1,3)] that(2) by (simp add: admission_decision_of_def)
  have "filter (\<lambda>x. d_connection_id x = Some (c_connection_id c) \<and> d_decision x = ''pending_approval'' \<and> d_policy_generation x = int gen) (n_decisions db)
      = filter (\<lambda>x. d_operation_id x = d_operation_id d) (n_decisions db)"
  proof (rule filter_cong [OF refl])
    fix x assume x: "x \<in> set (n_decisions db)"
    have "x = d" if "d_connection_id x = Some (c_connection_id c)" "d_decision x = ''pending_approval''"
      using unique_by_key [OF connection_invD(10) [OF inv], of x d] adm [OF x that] adm [OF A(2,3,4)] x A(2,3) that(1) by simp
    moreover have "x = d" if "d_operation_id x = d_operation_id d" using unique_by_key [OF connection_invD(9) [OF inv] x A(2) that] .
    ultimately show "(d_connection_id x = Some (c_connection_id c) \<and> d_decision x = ''pending_approval'' \<and> d_policy_generation x = int gen)
        = (d_operation_id x = d_operation_id d)"
      using A(3,4) approval_legal(3) [OF inv a] gen by metis
  qed
  then have "take 2 (filter (\<lambda>x. d_connection_id x = Some (c_connection_id c) \<and> d_decision x = ''pending_approval'' \<and> d_policy_generation x = int gen)
      (n_decisions db)) = [d]"
    using filter_unique [OF connection_invD(9) [OF inv] A(2)] by simp
  moreover have "length (d_operation_id d) = 32"
    using connection_invD(8) [OF inv A(2)] by (simp add: decision_ok_def nip46_request_decisions_check_def)
  ultimately have op: "read_pending_decision_operation db (c_connection_id c) gen = Inr (d_operation_id d)"
    by (simp add: read_pending_decision_operation_def)
  have "cr_policy_generation (connection_record cr (n_permissions db) c) = gen" using gen by (simp add: connection_record_def)
  then show ?thesis using run by (simp add: apply_admin_connection_mutation_def rc op)
qed

section \<open>A new challenge\<close>

definition challenge_possible ::
    "crates \<Rightarrow> connection_db \<Rightarrow> MycAuthorizationChallengeRequest \<Rightarrow> connection_row \<Rightarrow> request_row \<Rightarrow> bool" where
  "challenge_possible cr db r c q \<longleftrightarrow>
     c \<in> set (n_connections db) \<and> c_connection_id c = acr_connection_id r \<and> c_status c = ''active''
     \<and> c_policy_generation c = int (acr_policy_generation r) \<and> c_updated_at_unix_ms c \<le> int (acr_issued_at r)
     \<and> (case c_authorized_until_unix_ms c of None \<Rightarrow> True | Some until \<Rightarrow> int (acr_issued_at r) \<le> until)
     \<and> q \<in> set (n_requests db) \<and> q_operation_id q = acr_operation_id r \<and> q_method q \<noteq> ''connect''
     \<and> q_client_public_key q = c_client_public_key c \<and> q_received_at_unix_ms q \<le> int (acr_issued_at r)
     \<and> list_all (\<lambda>d. d_operation_id d \<noteq> acr_operation_id r) (n_decisions db)
     \<and> list_all (\<lambda>h. h_operation_id h \<noteq> acr_operation_id r \<and> h_challenge_id h \<noteq> h_challenge_id (new_challenge cr r)) (n_challenges db)"

lemma new_challenge_legal:
  assumes inv: "connection_inv cr db" and ok: "challenge_request_ok cr r" and sha: "\<And>b. length (sha256 cr b) = 32"
    and possible: "challenge_possible cr db r c q"
  shows "challenge_insert_legal db (n_challenges db) (new_challenge cr r)"
    and "nip46_request_decisions_check (new_challenge_decision cr r c)"
    and "decision_insert_legal (db\<lparr>n_challenges := n_challenges db @ [new_challenge cr r]\<rparr>) (n_decisions db) (new_challenge_decision cr r c)"
proof -
  have c: "connections_check c" using connection_invD(5) [OF inv, of c] possible by (simp add: connection_ok_def challenge_possible_def)
  have hits: "list_ex (\<lambda>x. c_connection_id x = acr_connection_id r) (n_connections db)"
    "list_ex (\<lambda>x. q_operation_id x = acr_operation_id r) (n_requests db)"
    using possible by (auto simp: challenge_possible_def list_ex_iff)
  have "connection_auth_challenges_check (new_challenge cr r)"
    using ok challenge_url_new_Inr [of cr "acr_url r"] sha
    by (auto simp: challenge_request_ok_def connection_auth_challenges_check_def new_challenge_def derive_challenge_id_def sql_time_def
      time_ok_def i64_max_def Suc_le_eq)
  then show "challenge_insert_legal db (n_challenges db) (new_challenge cr r)"
    using possible hits by (auto simp: challenge_insert_legal_def challenge_possible_def new_challenge_def list_all_iff)
  show ck: "nip46_request_decisions_check (new_challenge_decision cr r c)"
    using ok c sha by (auto simp: challenge_request_ok_def nip46_request_decisions_check_def new_challenge_decision_def new_challenge_def
      derive_challenge_id_def connections_check_def sql_time_def time_ok_def i64_max_def decision_shape_def)
  have "d_challenge_id d \<noteq> Some (h_challenge_id (new_challenge cr r))" if "d \<in> set (n_decisions db)" for d
    using connection_invD(8) [OF inv that] possible unfolding decision_ok_def challenge_possible_def list_all_iff by blast
  then show "decision_insert_legal (db\<lparr>n_challenges := n_challenges db @ [new_challenge cr r]\<rparr>) (n_decisions db) (new_challenge_decision cr r c)"
    using possible ck hits by (simp add: decision_insert_legal_def challenge_possible_def new_challenge_decision_def list_all_iff)
qed

lemma issue_new_ready:
  assumes inv: "connection_inv cr db" and ok: "challenge_request_ok cr r" and sha: "\<And>b. length (sha256 cr b) = 32"
    and possible: "challenge_possible cr db r c q"
    and audit: "record_audit (sha256 cr) (n_gov db) ev AuditChallengeCreation AuditSucceeded ReasonChallengeRequired = Inr (x, g)"
  shows "issue_new cr db r (connection_record cr (n_permissions db) c) ev
    = Inr (ChallengeCreated (challenge_record (new_challenge cr r)), (challenged_db cr db r c)\<lparr>n_gov := g\<rparr>)"
proof -
  let ?h = "new_challenge cr r" and ?d = "new_challenge_decision cr r c" and ?db = "challenged_db cr db r c"
  let ?i = "derive_challenge_id (sha256 cr) (acr_operation_id r) (acr_connection_id r) (acr_nonce r)"
  note legal = new_challenge_legal [OF inv ok sha possible]
  have P: "c \<in> set (n_connections db)" "c_connection_id c = acr_connection_id r" "c_policy_generation c = int (acr_policy_generation r)"
    "q \<in> set (n_requests db)" "q_operation_id q = acr_operation_id r" "q_method q \<noteq> ''connect''" "q_client_public_key q = c_client_public_key c"
    "\<forall>d\<in>set (n_decisions db). d_operation_id d \<noteq> acr_operation_id r"
    using possible by (simp_all add: challenge_possible_def list_all_iff)
  have inv': "connection_inv cr ?db" using challenged_db_inv [OF inv P(1-7) ok legal(1,2) P(8)] .
  have one: "connection_execute_one (insert_challenge_sql ?h db) = Inr (db\<lparr>n_challenges := n_challenges db @ [?h]\<rparr>)"
    unfolding execute_insert using legal(1) by simp
  have "connection_execute_one (insert_decision_sql ?d (db\<lparr>n_challenges := n_challenges db @ [?h]\<rparr>)) = Inr ?db"
    unfolding execute_insert using legal(3) by (simp add: challenged_db_def)
  moreover have "ps_digest (cr_requested_permissions (connection_record cr (n_permissions db) c)) = c_requested_permissions_sha256 c"
    using connection_invD(5) [OF inv P(1)] by (simp add: connection_ok_def connection_record_def seal_def)
  ultimately have two: "insert_decision (acr_operation_id r) (Some (acr_connection_id r)) DecisionChallenged
         ''authorization_challenge_required'' (acr_policy_generation r)
         (ps_digest (cr_requested_permissions (connection_record cr (n_permissions db) c))) (Some ?i) (acr_issued_at r)
         (db\<lparr>n_challenges := n_challenges db @ [?h]\<rparr>) = Inr ?db"
    unfolding insert_decision_def by (simp add: new_challenge_decision_def new_challenge_def)
  have h: "?h \<in> set (n_challenges ?db)" "h_operation_id ?h = acr_operation_id r" by (simp_all add: challenged_db_def new_challenge_def)
  have three: "read_challenge cr ?db (acr_operation_id r) = Inr (Some (challenge_record ?h))"
    using read_challenge_present [OF inv' h(1)] h(2) by simp
  have "n_gov ?db = n_gov db" by (simp add: challenged_db_def)
  then have four: "record_connection_audit cr ?db ev AuditChallengeCreation AuditSucceeded ReasonChallengeRequired = Inr (?db\<lparr>n_gov := g\<rparr>)"
    using audit by (simp add: record_connection_audit_def on_governance_def)
  show ?thesis
    unfolding issue_new_def Let_def new_challenge_def [of cr r, symmetric] one r_bind_simps two three ok_or_simps four by simp
qed

lemma issue_ready:
  assumes inv: "connection_inv cr db" and ok: "challenge_request_ok cr r" and sha: "\<And>b. length (sha256 cr b) = 32"
    and possible: "challenge_possible cr db r c q" and policy: "policy_ok policy"
    and ev: "ev = \<lparr>ev_correlation = q_correlation_id q, ev_occurred_at = acr_issued_at r, ev_operation_id = Some (acr_operation_id r)\<rparr>"
    and governed: "govern_rate_attempt (sha256 cr) (n_gov db) policy RateChallengeCreation [SubjectConnection (acr_connection_id r)]
        ev AuditChallengeCreation = Inr (True, g1)"
    and audit: "record_audit (sha256 cr) g1 ev AuditChallengeCreation AuditSucceeded ReasonChallengeRequired = Inr (x, g2)"
  shows "issue_challenge cr db r policy
    = Inr (ChallengeCreated (challenge_record (new_challenge cr r)), (challenged_db cr db r c)\<lparr>n_gov := g2\<rparr>)"
proof -
  let ?c = "connection_record cr (n_permissions db) c"
  have P: "c \<in> set (n_connections db)" "c_connection_id c = acr_connection_id r" "c_status c = ''active''"
    "c_policy_generation c = int (acr_policy_generation r)" "c_updated_at_unix_ms c \<le> int (acr_issued_at r)"
    "q \<in> set (n_requests db)" "q_operation_id q = acr_operation_id r" "q_method q \<noteq> ''connect''" "q_client_public_key q = c_client_public_key c"
    "q_received_at_unix_ms q \<le> int (acr_issued_at r)" using possible by (simp_all add: challenge_possible_def)
  have rb: "read_request_binding cr db (acr_operation_id r) = Inr (request_binding_of q)"
    using read_request_binding_inv [OF inv P(6)] P(7) by simp
  have m: "rb_method (request_binding_of q) \<noteq> MethodConnect" using request_method [OF inv P(6)] P(8) by simp
  have rc: "read_connection cr db (acr_connection_id r) = Inr ?c" using read_connection_inv [OF inv P(1)] P(2) by simp
  have rh: "read_challenge cr db (acr_operation_id r) = Inr None"
    by (rule read_challenge_absent) (use possible in \<open>simp add: challenge_possible_def list_all_iff\<close>)
  have rd: "read_decision db (acr_operation_id r) = Inr None"
    by (rule read_decision_absent) (use possible in \<open>simp add: challenge_possible_def list_all_iff\<close>)
  have st: "cr_status ?c = ConnectionActive" using connection_status_record [OF inv P(1), of ConnectionActive] P(3) by simp
  have guard: "cr_client_public_key ?c = rb_client_public_key (request_binding_of q)" "cr_policy_generation ?c = acr_policy_generation r"
    "\<not> acr_issued_at r < rb_received_at (request_binding_of q)" "\<not> acr_issued_at r < cr_updated_at ?c"
    "rb_correlation (request_binding_of q) = q_correlation_id q"
    using P(4,5,9,10) by (auto simp: connection_record_def request_binding_of_def)
  have until: "\<not> (case cr_authorized_until ?c of Some until \<Rightarrow> until < acr_issued_at r | None \<Rightarrow> False)"
    using possible by (auto simp: challenge_possible_def connection_record_def split: option.splits)
  have t: "time_ok (acr_issued_at r)" using ok by (simp add: challenge_request_ok_def)
  have "evidence_ok (n_gov db) ev AuditChallengeCreation" unfolding ev P(7) [symmetric]
    by (rule request_evidence [OF inv P(6)]) (use t in \<open>auto simp: time_ok_def bound_kinds_def\<close>)
  from govern_run [OF connection_invD(1) [OF inv] this policy _ governed] have "gov_run cr (n_gov db) g1" by simp
  from connection_inv_gov [OF inv this] have inv1: "connection_inv cr (db\<lparr>n_gov := g1\<rparr>)" .
  have p1: "challenge_possible cr (db\<lparr>n_gov := g1\<rparr>) r c q" using possible by (simp add: challenge_possible_def)
  have new: "issue_new cr (db\<lparr>n_gov := g1\<rparr>) r ?c ev
      = Inr (ChallengeCreated (challenge_record (new_challenge cr r)), (challenged_db cr db r c)\<lparr>n_gov := g2\<rparr>)"
    using issue_new_ready [OF inv1 ok sha p1] audit by (simp add: challenged_db_def)
  show ?thesis
    using new governed until by (simp add: issue_challenge_def rb m rc rh rd st guard Let_def ev [symmetric] on_governance_def)
qed

section \<open>Resolution of a challenge\<close>

text \<open>A pending challenge \<open>h\<close> with its decision \<open>d\<close> and its connection \<open>c\<close>, authorized at \<open>t\<close>.\<close>

definition resolvable :: "connection_db \<Rightarrow> challenge_row \<Rightarrow> decision_row \<Rightarrow> connection_row \<Rightarrow> nat \<Rightarrow> bool" where
  "resolvable db h d c t \<longleftrightarrow> h \<in> set (n_challenges db) \<and> h_state h = ''pending'' \<and> h_issued_at_unix_ms h \<le> int t
     \<and> d \<in> set (n_decisions db) \<and> d_operation_id d = h_operation_id h \<and> d_decided_at_unix_ms d \<le> int t
     \<and> c \<in> set (n_connections db) \<and> c_connection_id c = h_connection_id h \<and> time_ok t"

lemma resolution_legal:
  assumes inv: "connection_inv cr db" and a: "resolvable db h d c t"
  shows "d_challenge_id d = Some (h_challenge_id h)" "d_connection_id d = Some (h_connection_id h)" "d_decision d = ''challenged''"
    "d_policy_generation d = h_policy_generation h"
    and "challenge_update_legal h (resolved_challenge late t h)" and "decision_update_legal d (resolved_decision late t d)"
proof -
  have A: "h \<in> set (n_challenges db)" "h_state h = ''pending''" "d \<in> set (n_decisions db)" "d_operation_id d = h_operation_id h"
    "c \<in> set (n_connections db)" "c_connection_id c = h_connection_id h" using a by (simp_all add: resolvable_def)
  have hok: "challenge_ok cr db h" and dok: "decision_ok db d" using connection_invD(12) [OF inv A(1)] connection_invD(8) [OF inv A(3)] .
  obtain e where "e \<in> set (n_decisions db)" "d_operation_id e = h_operation_id h" "d_challenge_id e = Some (h_challenge_id h)"
    using hok unfolding challenge_ok_def by blast
  then show hid: "d_challenge_id d = Some (h_challenge_id h)"
    using unique_by_key [OF connection_invD(9) [OF inv] _ A(3), of e] A(4) by simp
  from dok hid obtain k where k: "k \<in> set (n_challenges db)" "h_challenge_id k = h_challenge_id h" "Some (h_connection_id k) = d_connection_id d"
    "challenge_matches (d_decision d) (h_state k)" unfolding decision_ok_def by blast
  have "k = h" using unique_by_key [OF connection_invD(14) [OF inv] k(1) A(1) k(2)] .
  with k A(2) show cid: "d_connection_id d = Some (h_connection_id h)" and dec: "d_decision d = ''challenged''"
    by (simp_all add: challenge_matches_def)
  obtain c1 where c1: "c1 \<in> set (n_connections db)" "c_connection_id c1 = h_connection_id h" "c_policy_generation c1 = d_policy_generation d"
    using dok cid unfolding decision_ok_def by blast
  obtain c2 where c2: "c2 \<in> set (n_connections db)" "c_connection_id c2 = h_connection_id h" "c_policy_generation c2 = h_policy_generation h"
    using hok unfolding challenge_ok_def by blast
  show "d_policy_generation d = h_policy_generation h"
    using unique_by_key [OF connection_invD(6) [OF inv] c1(1) c2(1)] c1 c2 by simp
  have ck: "connection_auth_challenges_check h" using hok by (simp add: challenge_ok_def)
  then show "challenge_update_legal h (resolved_challenge late t h)"
    using a by (auto simp: resolvable_def challenge_update_legal_def connection_auth_challenges_guard_update_def
      connection_auth_challenges_check_def resolved_challenge_def resolve_challenge_set_def time_ok_def i64_max_def)
  have "nip46_request_decisions_check d" using dok by (simp add: decision_ok_def)
  then show "decision_update_legal d (resolved_decision late t d)"
    using a hid cid dec by (auto simp: resolvable_def decision_update_legal_def nip46_request_decisions_guard_update_def
      nip46_request_decisions_check_def resolved_decision_def update_decision_set_def sql_time_def time_ok_def i64_max_def decision_shape_def)
qed

lemma resolve_pending_ready:
  assumes inv: "connection_inv cr db" and a: "resolvable db h d c t" and late: "\<not> late \<Longrightarrow> int t \<le> h_expires_at_unix_ms h"
    and gen: "h_policy_generation h = int gen"
    and audit: "record_audit (sha256 cr) (n_gov db) ev AuditChallengeAuthorization (if late then AuditRejected else AuditSucceeded)
        (if late then ReasonChallengeExpired else ReasonChallengeAuthorized) = Inr (x, g)"
  shows "resolve_pending cr db (h_challenge_id h) (h_connection_id h) (h_operation_id h) gen t late ev
    = Inr (AuthorizationResolved (challenge_record (resolved_challenge late t h)), (resolved_db db h d late t)\<lparr>n_gov := g\<rparr>)"
proof -
  let ?db = "resolved_db db h d late t" and ?h = "resolved_challenge late t h"
  let ?db1 = "db\<lparr>n_challenges := swap_row h ?h (n_challenges db)\<rparr>"
  note L = resolution_legal [OF inv a]
  have A: "h \<in> set (n_challenges db)" "h_state h = ''pending''" "d \<in> set (n_decisions db)" "d_operation_id d = h_operation_id h"
    using a by (simp_all add: resolvable_def)
  have inv': "connection_inv cr ?db" using resolved_db_inv [OF inv A(1) L(5) late A(3) L(1,6)] .
  have one: "connection_execute_one (update_challenges (resolve_challenge_where (h_challenge_id h) (h_connection_id h) (h_operation_id h) (int gen))
      (resolved_challenge late t) db) = Inr ?db1"
    by (rule update_challenges_ready) (use connection_invD(14) [OF inv] A(1,2) gen L(5) in \<open>simp_all add: resolve_challenge_where_def\<close>)
  have "connection_execute_one (update_decisions (update_challenge_decision_where (h_operation_id h) (h_connection_id h) (h_challenge_id h) (int gen))
      (resolved_decision late t) ?db1) = Inr (?db1\<lparr>n_decisions := swap_row d (resolved_decision late t d) (n_decisions ?db1)\<rparr>)"
    by (rule update_decisions_ready)
      (use connection_invD(9) [OF inv] A(3,4) gen L in \<open>simp_all add: update_challenge_decision_where_def\<close>)
  then have two: "connection_execute_one (update_decisions (update_challenge_decision_where (h_operation_id h) (h_connection_id h) (h_challenge_id h)
      (int gen)) (resolved_decision late t) ?db1) = Inr ?db" by (simp add: resolved_db_def)
  have h': "?h \<in> set (n_challenges ?db)" "h_operation_id ?h = h_operation_id h"
    using A(1) by (simp_all add: resolved_db_def in_swap_row resolved_challenge_def resolve_challenge_set_def)
  have three: "read_challenge cr ?db (h_operation_id h) = Inr (Some (challenge_record ?h))"
    using read_challenge_present [OF inv' h'(1)] h'(2) by simp
  have gov: "n_gov ?db = n_gov db" by (simp add: resolved_db_def)
  have sets: "resolve_challenge_set (if late then ''expired'' else ''authorized'') (int t) = resolved_challenge late t"
    "update_decision_set (if late then ''denied'' else ''allowed'')
       (if late then ''authorization_challenge_expired'' else ''authorization_challenge_authorized'') (int t) = resolved_decision late t"
    by (simp_all add: fun_eq_iff resolved_challenge_def resolved_decision_def)
  show ?thesis
    by (cases late) (use sets one two three gov audit in \<open>simp_all add: resolve_pending_def record_connection_audit_def on_governance_def\<close>)
qed

lemma authorize_ready:
  assumes inv: "connection_inv cr db" and a: "resolvable db h d c t" and gen: "h_policy_generation h = int gen" and policy: "policy_ok policy"
    and q: "q \<in> set (n_requests db)" "q_operation_id q = h_operation_id h" and late: "late = too_late h c t"
    and ev: "ev = \<lparr>ev_correlation = q_correlation_id q, ev_occurred_at = t, ev_operation_id = Some (h_operation_id h)\<rparr>"
    and governed: "govern_rate_attempt (sha256 cr) (n_gov db) policy RateChallengeAuthorization [SubjectConnection (h_connection_id h)]
        ev AuditChallengeAuthorization = Inr (True, g1)"
    and audit: "record_audit (sha256 cr) g1 ev AuditChallengeAuthorization (if late then AuditRejected else AuditSucceeded)
        (if late then ReasonChallengeExpired else ReasonChallengeAuthorized) = Inr (x, g2)"
  shows "authorize_challenge cr db (h_challenge_id h) (h_connection_id h) (h_operation_id h) gen t policy
    = Inr (AuthorizationResolved (challenge_record (resolved_challenge late t h)), (resolved_db db h d late t)\<lparr>n_gov := g2\<rparr>)"
proof -
  let ?c = "connection_record cr (n_permissions db) c" and ?h = "challenge_record h"
  have A: "h \<in> set (n_challenges db)" "h_state h = ''pending''" "c \<in> set (n_connections db)" "c_connection_id c = h_connection_id h"
    "h_issued_at_unix_ms h \<le> int t" "time_ok t" using a by (simp_all add: resolvable_def)
  obtain c' q' where cq: "c' \<in> set (n_connections db)" "q' \<in> set (n_requests db)" "c_connection_id c' = h_connection_id h"
    "q_operation_id q' = h_operation_id h" "c_policy_generation c' = h_policy_generation h" "q_method q' \<noteq> ''connect''"
    "q_client_public_key q' = c_client_public_key c'" using connection_invD(12) [OF inv A(1)] unfolding challenge_ok_def by blast
  have same: "c' = c" "q' = q"
    using unique_by_key [OF connection_invD(6) [OF inv] cq(1) A(3)] unique_by_key [OF connection_invD(4) [OF inv] cq(2) q(1)] cq A(4) q(2) by simp_all
  note cq = cq [unfolded same]
  have rh: "read_challenge cr db (h_operation_id h) = Inr (Some ?h)" using read_challenge_present [OF inv A(1)] .
  have rb: "read_request_binding cr db (h_operation_id h) = Inr (request_binding_of q)" using read_request_binding_inv [OF inv q(1)] q(2) by simp
  have rc: "read_connection cr db (h_connection_id h) = Inr ?c" using read_connection_inv [OF inv A(3)] A(4) by simp
  have m: "rb_method (request_binding_of q) \<noteq> MethodConnect" using request_method [OF inv q(1)] cq(6) by simp
  have st: "ch_state ?h = ChallengePending" using challenge_state_record [OF inv A(1), of ChallengePending] A(2) by simp
  have guard: "ch_id ?h = h_challenge_id h" "ch_connection_id ?h = h_connection_id h" "ch_operation_id ?h = h_operation_id h"
    "ch_policy_generation ?h = gen" "rb_client_public_key (request_binding_of q) = cr_client_public_key ?c" "cr_policy_generation ?c = gen"
    "\<not> t < ch_issued_at ?h" "rb_correlation (request_binding_of q) = q_correlation_id q"
    using gen cq(5,7) A(5) by (auto simp: challenge_record_def connection_record_def request_binding_of_def)
  have lt: "challenge_expired ?h ?c t = late" unfolding late using challenge_expired_too_late [OF inv A(3,1)] .
  have "evidence_ok (n_gov db) ev AuditChallengeAuthorization" unfolding ev q(2) [symmetric]
    by (rule request_evidence [OF inv q(1)]) (use A(6) in \<open>auto simp: time_ok_def bound_kinds_def\<close>)
  from govern_run [OF connection_invD(1) [OF inv] this policy _ governed] have "gov_run cr (n_gov db) g1" by simp
  from connection_inv_gov [OF inv this] have inv1: "connection_inv cr (db\<lparr>n_gov := g1\<rparr>)" .
  have a1: "resolvable (db\<lparr>n_gov := g1\<rparr>) h d c t" using a by (simp add: resolvable_def)
  have intime: "\<not> late \<Longrightarrow> int t \<le> h_expires_at_unix_ms h" by (simp add: late too_late_def)
  have new: "resolve_pending cr (db\<lparr>n_gov := g1\<rparr>) (h_challenge_id h) (h_connection_id h) (h_operation_id h) gen t late ev
      = Inr (AuthorizationResolved (challenge_record (resolved_challenge late t h)), (resolved_db db h d late t)\<lparr>n_gov := g2\<rparr>)"
    using resolve_pending_ready [OF inv1 a1 intime gen] audit by (simp add: resolved_db_def)
  show ?thesis
    using new governed by (simp add: authorize_challenge_def rh rb rc m st guard lt Let_def ev [symmetric] on_governance_def)
qed

section \<open>Revocation by a new configuration\<close>

lemma end_connection_legal:
  assumes inv: "connection_inv cr db" and c: "c \<in> set (n_connections db)" and t: "t \<le> sql_int_max"
  shows "c_status c = ''active'' \<Longrightarrow> connection_update_legal c (end_connection_set ''expired'' t c)"
    and "c_status c = ''pending'' \<Longrightarrow> connection_update_legal c (end_connection_set ''denied'' t c)"
  using connection_invD(5) [OF inv c] t
  by (auto simp: connection_ok_def connection_update_legal_def connections_guard_update_def connections_check_def end_connection_set_def)

lemma expire_challenge_legal:
  assumes inv: "connection_inv cr db" and h: "h \<in> set (n_challenges db)" "h_state h = ''pending''" and t: "t \<le> sql_int_max"
  shows "challenge_update_legal h (expire_challenge_set t h)"
  using connection_invD(12) [OF inv h(1)] h(2) t
  by (auto simp: challenge_ok_def challenge_update_legal_def connection_auth_challenges_guard_update_def
    connection_auth_challenges_check_def expire_challenge_set_def)

lemma config_update_ready:
  "(\<And>c. c \<in> set (n_connections db) \<Longrightarrow> whr c \<Longrightarrow> connection_update_legal c (f c)) \<Longrightarrow>
     config_execute (update_connections whr f db)
       = Inr (db\<lparr>n_connections := map (upd_row whr f) (n_connections db)\<rparr>, length (filter whr (n_connections db)))"
  "(\<And>h. h \<in> set (n_challenges db) \<Longrightarrow> whr' h \<Longrightarrow> challenge_update_legal h (f' h)) \<Longrightarrow>
     config_execute (update_challenges whr' f' db)
       = Inr (db\<lparr>n_challenges := map (upd_row whr' f') (n_challenges db)\<rparr>, length (filter whr' (n_challenges db)))"
  by (simp_all add: config_execute_def update_connections_def update_challenges_def sql_update_def list_all_iff)

lemma length_filter_or: "\<forall>x\<in>set xs. \<not> (P x \<and> Q x) \<Longrightarrow> length (filter (\<lambda>x. P x \<or> Q x) xs) = length (filter P xs) + length (filter Q xs)"
  by (induction xs) auto

lemma identity_revocation_ready:
  assumes inv: "connection_inv cr db" and t: "t \<le> sql_int_max"
  shows "revoke_for_identity_change db t
    = Inr ((length (filter (\<lambda>c. c_status c \<in> {''active'', ''pending''}) (n_connections db)),
         length (filter (\<lambda>h. h_state h = ''pending'') (n_challenges db))), ended_db (identity_end t) (pending_end t) db)"
proof -
  let ?A = "upd_row (\<lambda>c. c_status c = ''active'') (end_connection_set ''expired'' t)"
  let ?P = "upd_row (\<lambda>c. c_status c = ''pending'') (end_connection_set ''denied'' t)"
  let ?db1 = "db\<lparr>n_connections := map ?A (n_connections db)\<rparr>"
  have one: "config_execute (update_connections (\<lambda>c. c_status c = ''active'') (end_connection_set ''expired'' t) db)
      = Inr (?db1, length (filter (\<lambda>c. c_status c = ''active'') (n_connections db)))"
    by (rule config_update_ready) (rule end_connection_legal(1) [OF inv _ t])
  have still: "c \<in> set (n_connections db)" if "c \<in> set (n_connections ?db1)" "c_status c = ''pending''" for c
    using that by (auto simp: upd_row_def end_connection_set_def split: if_splits)
  have two: "config_execute (update_connections (\<lambda>c. c_status c = ''pending'') (end_connection_set ''denied'' t) ?db1)
      = Inr (?db1\<lparr>n_connections := map ?P (n_connections ?db1)\<rparr>, length (filter (\<lambda>c. c_status c = ''pending'') (n_connections ?db1)))"
    by (rule config_update_ready) (rule end_connection_legal(2) [OF inv still t])
  let ?db2 = "?db1\<lparr>n_connections := map ?P (n_connections ?db1)\<rparr>"
  have three: "config_execute (update_challenges (\<lambda>h. h_state h = ''pending'') (expire_challenge_set t) ?db2)
      = Inr (?db2\<lparr>n_challenges := map (upd_row (\<lambda>h. h_state h = ''pending'') (expire_challenge_set t)) (n_challenges ?db2)\<rparr>,
          length (filter (\<lambda>h. h_state h = ''pending'') (n_challenges ?db2)))"
    by (rule config_update_ready) (rule expire_challenge_legal [OF inv _ _ t], simp_all)
  have count: "length (filter (\<lambda>c. c_status c = ''pending'') (map ?A xs)) = length (filter (\<lambda>c. c_status c = ''pending'') xs)" for xs
    by (induction xs) (simp_all add: upd_row_def end_connection_set_def)
  have "length (filter (\<lambda>c. c_status c = ''active'' \<or> c_status c = ''pending'') (n_connections db))
      = length (filter (\<lambda>c. c_status c = ''active'') (n_connections db)) + length (filter (\<lambda>c. c_status c = ''pending'') (n_connections ?db1))"
    using count [of "n_connections db"] by (subst length_filter_or) simp_all
  then have run: "\<exists>db'. revoke_for_identity_change db t
    = Inr ((length (filter (\<lambda>c. c_status c \<in> {''active'', ''pending''}) (n_connections db)),
         length (filter (\<lambda>h. h_state h = ''pending'') (n_challenges db))), db')"
    unfolding revoke_for_identity_change_def one r_bind_simps prod.case two three by simp
  then show ?thesis using revoke_for_identity_change_Inr(1) by blast
qed

lemma narrowing_revocation_ready:
  assumes inv: "connection_inv cr db" and t: "t \<le> sql_int_max"
  shows "\<exists>n m. revoke_for_permission_narrowing db t permissions
    = Inr ((n, m), ended_db (narrowing_end (n_permissions db) permissions t) (narrowing_challenge_end (n_permissions db) permissions t) db)"
proof -
  let ?C = "\<lambda>c. c_status c = ''active'' \<and> outside_ceiling (n_permissions db) permissions (c_connection_id c) ''granted''"
  let ?db1 = "db\<lparr>n_connections := map (upd_row ?C (end_connection_set ''expired'' t)) (n_connections db)\<rparr>"
  have one: "config_execute (update_connections ?C (end_connection_set ''expired'' t) db) = Inr (?db1, length (filter ?C (n_connections db)))"
    by (rule config_update_ready) (rule end_connection_legal(1) [OF inv _ t], simp_all)
  have two: "config_execute (update_challenges (\<lambda>h. h_state h = ''pending'' \<and> outside_ceiling (n_permissions db) permissions (h_connection_id h) ''requested'')
      (expire_challenge_set t) ?db1)
    = Inr (?db1\<lparr>n_challenges := map (upd_row (\<lambda>h. h_state h = ''pending''
          \<and> outside_ceiling (n_permissions db) permissions (h_connection_id h) ''requested'') (expire_challenge_set t)) (n_challenges ?db1)\<rparr>,
        length (filter (\<lambda>h. h_state h = ''pending''
          \<and> outside_ceiling (n_permissions db) permissions (h_connection_id h) ''requested'') (n_challenges ?db1)))"
    by (rule config_update_ready) (rule expire_challenge_legal [OF inv _ _ t], simp_all)
  have "\<exists>n m db'. revoke_for_permission_narrowing db t permissions = Inr ((n, m), db')"
    unfolding revoke_for_permission_narrowing_def one r_bind_simps prod.case two by blast
  then show ?thesis using revoke_for_permission_narrowing_Inr(1) by blast
qed

end
