(* ===== verification/Connection_Example.thy ===== *)
theory Connection_Example
  imports Challenge_Progress Governance_Theorems
begin

text \<open>
  A concrete run of the connection authority, used by the witnesses of the properties: a client asks for a connection,
  the operator approves it, a request is challenged, and the challenge is authorized. \<open>cx_sha\<close> stands for the hash: it
  depends on the length of its input only, which tells the inputs of this run apart.
\<close>

definition cx_id :: "byte \<Rightarrow> bytes" where "cx_id b = replicate 32 b"

definition cx_sha :: "bytes \<Rightarrow> bytes" where "cx_sha bs = cx_id (of_nat (length bs))"

definition cx_key :: string where "cx_key = replicate 64 (CHR ''a'')"

definition cx_crates :: crates where
  "cx_crates = \<lparr>sha256 = cx_sha, key_hex = Some, key_xonly = (\<lambda>_. True),
     url_parse = (\<lambda>s. Some \<lparr>u_scheme = ''https'', u_host = Some (HostDomain ''a''), u_username = [], u_password = None,
       u_fragment = None, u_as_str = s\<rparr>)\<rparr>"

definition cx_policy :: "MycRateLimitClass \<Rightarrow> MycRateLimitPolicy" where
  "cx_policy class = \<lparr>rl_class = class, rl_window_ms = 1000, rl_max_attempts = 5, rl_retention_ms = 2000,
     rl_maximum_tracked_subjects = 8\<rparr>"

definition cx_permissions :: MycConnectionPermissionSet where
  "cx_permissions = seal cx_sha [PermGetPublicKey, PermPing]"

definition cx_metadata :: PersistedMetadata where
  "cx_metadata = \<lparr>pm_normalized_config_sha256 = cx_id 0, pm_transport_public_key = cx_key, pm_user_public_key = cx_key,
     pm_discovery_public_key = None, pm_config_contract_version = 1, pm_state_contract_version = 12,
     pm_operator_contract_version = 1, pm_status_contract_version = 1\<rparr>"

definition cx_binding :: binding_row where
  "cx_binding = \<lparr>b_generation = 1, b_normalized_config_sha256 = cx_id 0, b_transport_public_key = cx_key,
     b_user_public_key = cx_key, b_discovery_public_key = None, b_config_contract_version = 1, b_state_contract_version = 12,
     b_operator_contract_version = 1, b_status_contract_version = 1\<rparr>"

definition cx_expected :: MycStateMetadata where
  "cx_expected = \<lparr>sm_binding = cx_metadata,
     sm_governance = \<lparr>gp_connection_admission = cx_policy RateConnectionAdmission,
       gp_challenge_creation = cx_policy RateChallengeCreation, gp_challenge_authorization = cx_policy RateChallengeAuthorization,
       gp_audit_retention_ms = 1000, gp_relays = [''r1'']\<rparr>,
     sm_authorization = \<lparr>trusted_clients = [], denied_clients = [], permission_ceiling = cx_permissions,
       challenge_policy = Some \<lparr>chp_url = ''u'', chp_pending_lifetime_ms = 500, chp_authorized_lifetime_ms = 1000\<rparr>,
       retention_policy = \<lparr>ret_terminal_connections_ms = 1, ret_terminal_challenges_ms = 1, ret_request_dedup_ms = 1,
         ret_completed_outbox_ms = 1\<rparr>\<rparr>\<rparr>"

definition cx_request :: "byte \<Rightarrow> string \<Rightarrow> request_row" where
  "cx_request b m = \<lparr>q_operation_id = cx_id b, q_correlation_id = cx_id b, q_operation_nonce = cx_id b,
     q_request_identity_sha256 = cx_id b, q_client_public_key = cx_key, q_request_id = ''r'', q_first_event_id = cx_id b,
     q_method = m, q_request_sha256 = cx_id b, q_received_at_unix_ms = 1000\<rparr>"

definition cx_store :: "request_row \<Rightarrow> connection_db \<Rightarrow> connection_db" where
  "cx_store q db = db\<lparr>n_gov := (n_gov db)\<lparr>g_requests := g_requests (n_gov db) @ [request_key q]\<rparr>,
     n_requests := n_requests db @ [q]\<rparr>"

definition cx_ev :: "byte \<Rightarrow> nat \<Rightarrow> AuditEvidence" where
  "cx_ev b t = \<lparr>ev_correlation = cx_id b, ev_occurred_at = t, ev_operation_id = Some (cx_id b)\<rparr>"

definition cx_audited :: "int \<Rightarrow> AuditEvidence \<Rightarrow> MycAuditKind \<Rightarrow> MycAuditReasonCode \<Rightarrow> governance_db \<Rightarrow> governance_db" where
  "cx_audited n ev kind reason g = audited_db g (new_audit cx_sha n ev kind AuditSucceeded reason) (new_links n ev kind)"

definition cx_counted :: "MycRateLimitClass \<Rightarrow> nat \<Rightarrow> RateSubject list \<Rightarrow> governance_db \<Rightarrow> governance_db" where
  "cx_counted class t subjects g = g\<lparr>g_rates := rates_after cx_sha (cx_policy class) t True subjects (g_rates g)\<rparr>"

lemma cx_id_simps [simp]: "length (cx_id b) = 32" "cx_id a = cx_id b \<longleftrightarrow> a = b" "length (cx_sha bs) = 32"
  by (simp_all add: cx_id_def cx_sha_def)

section \<open>Governance along the run\<close>

text \<open>The governance tables are kept as constants: each is the one before with an attempt counted or an audit appended.\<close>

lemma cx_governed:
  assumes inv: "governance_inv g" and ev: "evidence_ok g ev kind" and subjects: "length subjects \<le> 2" "subjects \<noteq> []"
      "distinct (subject_keys cx_sha (cx_policy class) subjects)"
    and none: "\<forall>s\<in>set subjects. rate_lookup (g_rates g) (policy_key cx_sha (cx_policy class) s) = None"
    and parts: "\<forall>s\<in>set subjects. length (snd (subject_parts cx_sha s)) = 32
      \<and> (class = RateConnectionAdmission) = (fst (subject_parts cx_sha s) \<in> {''global'', ''relay''})"
    and few: "length (g_rates g) < 8" and t: "ev_occurred_at ev \<le> 10000" and fresh: "audit_fresh cx_sha g ev kind"
    and n: "g_audit_state g = [\<lparr>s_singleton = 1, s_next_sequence = n\<rparr>]" "n < 100"
  shows "govern_rate_attempt cx_sha g (cx_policy class) class subjects ev kind = Inr (True, cx_counted class (ev_occurred_at ev) subjects g)"
    and "governance_inv (cx_counted class (ev_occurred_at ev) subjects g)"
proof -
  have P: "policy_ok (cx_policy class)" by (simp add: policy_ok_def cx_policy_def rate_policy_new_def governance_limits)
  have adm: "True = attempt_admitted cx_sha (g_rates g) (cx_policy class) (ev_occurred_at ev) subjects"
    using none by (simp add: attempt_admitted_def list_all_iff window_state_def can_accept_def cx_policy_def)
  have "length (filter f (g_rates g)) < 8" for f using few length_filter_le [of f "g_rates g"] by linarith
  then have inp: "\<forall>s\<in>set subjects. attempt_input_ok cx_sha g (cx_policy class) (ev_occurred_at ev) s"
    using none parts by (simp add: attempt_input_ok_def) (simp add: cx_policy_def)
  show run: "govern_rate_attempt cx_sha g (cx_policy class) class subjects ev kind = Inr (True, cx_counted class (ev_occurred_at ev) subjects g)"
    using attempt_ready [OF inv P _ subjects(2,1,3) inp ev _ fresh n(1) _ _ adm refl] t n(2)
    by (simp add: cx_counted_def cx_policy_def int_width_defs derive_audit_id_def)
  show "governance_inv (cx_counted class (ev_occurred_at ev) subjects g)"
    using govern_inv(1) [OF inv subjects(3) policy_okD(1) [OF P] ev run] .
qed

lemma cx_recorded:
  assumes inv: "governance_inv g" and ev: "evidence_ok g ev kind" and fresh: "audit_fresh cx_sha g ev kind"
    and n: "g_audit_state g = [\<lparr>s_singleton = 1, s_next_sequence = n\<rparr>]" "n < 100"
  shows "\<exists>r. record_audit cx_sha g ev kind AuditSucceeded reason = Inr (r, cx_audited (n + 1) ev kind reason g)"
    and "governance_inv (cx_audited (n + 1) ev kind reason g)"
proof -
  have "trail_inv g" using inv by (simp add: governance_inv_def)
  then show *: "\<exists>r. record_audit cx_sha g ev kind AuditSucceeded reason = Inr (r, cx_audited (n + 1) ev kind reason g)"
    unfolding cx_audited_def using n(2) by (intro record_audit_ready [OF _ n(1) _ ev fresh]) (simp_all add: derive_audit_id_def)
  from * obtain r where "record_audit cx_sha g ev kind AuditSucceeded reason = Inr (r, cx_audited (n + 1) ev kind reason g)" by blast
  from record_audit_run [of g ev kind cx_crates, simplified cx_crates_def, simplified, OF inv ev this] gov_run_inv [OF _ inv]
  show "governance_inv (cx_audited (n + 1) ev kind reason g)" by blast
qed

definition cx_g0 :: governance_db where
  "cx_g0 = \<lparr>g_bindings = [cx_binding], g_requests = [], g_audit_state = [\<lparr>s_singleton = 1, s_next_sequence = 0\<rparr>],
     g_audits = [], g_links = [], g_rates = []\<rparr>"

definition cx_g1 :: governance_db where "cx_g1 = cx_g0\<lparr>g_requests := [request_key (cx_request 1 ''connect'')]\<rparr>"

definition cx_g1a :: governance_db where
  "cx_g1a = cx_counted RateConnectionAdmission 2000 [SubjectGlobal, relay_subject cx_sha ''r1''] cx_g1"

definition cx_g2 :: governance_db where
  "cx_g2 = cx_audited 1 (cx_ev 1 2000) AuditConnectionAdmission ReasonApprovalRequired cx_g1a"

definition cx_operator :: AuditEvidence where
  "cx_operator = \<lparr>ev_correlation = cx_id 9, ev_occurred_at = 3000, ev_operation_id = None\<rparr>"

definition cx_g3 :: governance_db where
  "cx_g3 = cx_audited 2 cx_operator AuditConnectionOperatorDecision ReasonOperatorApproved cx_g2"

definition cx_g4 :: governance_db where "cx_g4 = cx_g3\<lparr>g_requests := g_requests cx_g3 @ [request_key (cx_request 2 ''sign_event'')]\<rparr>"

definition cx_g4a :: governance_db where
  "cx_g4a = cx_counted RateChallengeCreation 3100 [SubjectConnection (cx_id 123)] cx_g4"

definition cx_g5 :: governance_db where
  "cx_g5 = cx_audited 3 (cx_ev 2 3100) AuditChallengeCreation ReasonChallengeRequired cx_g4a"

definition cx_g5a :: governance_db where
  "cx_g5a = cx_counted RateChallengeAuthorization 3150 [SubjectConnection (cx_id 123)] cx_g5"

definition cx_g6 :: governance_db where
  "cx_g6 = cx_audited 4 (cx_ev 2 3150) AuditChallengeAuthorization ReasonChallengeAuthorized cx_g5a"

lemma cx_keys [simp]: "request_key (cx_request b m) = \<lparr>k_operation_id = cx_id b, k_correlation_id = cx_id b\<rparr>"
  by (simp add: request_key_def cx_request_def)

lemma cx_evidence:
  assumes "\<lparr>k_operation_id = cx_id b, k_correlation_id = cx_id b\<rparr> \<in> set (g_requests g)" and "0 < t" "t \<le> 10000"
    and "audit_kind_as_str kind \<in> bound_kinds"
  shows "evidence_ok g (cx_ev b t) kind"
  using assms by (auto simp: evidence_ok_def cx_ev_def int_width_defs intro!: bexI [of _ "\<lparr>k_operation_id = cx_id b, k_correlation_id = cx_id b\<rparr>"])

lemma cx_counted_simps [simp]:
  "g_requests (cx_counted class t subjects g) = g_requests g" "g_audit_state (cx_counted class t subjects g) = g_audit_state g"
  "g_audits (cx_counted class t subjects g) = g_audits g" "g_bindings (cx_counted class t subjects g) = g_bindings g"
  "g_rates (cx_counted class t subjects g) = rates_after cx_sha (cx_policy class) t True subjects (g_rates g)"
  by (simp_all add: cx_counted_def)

lemma cx_audited_simps [simp]:
  "g_requests (cx_audited n ev kind reason g) = g_requests g" "g_rates (cx_audited n ev kind reason g) = g_rates g"
  "g_bindings (cx_audited n ev kind reason g) = g_bindings g"
  "g_audits (cx_audited n ev kind reason g) = g_audits g @ [new_audit cx_sha n ev kind AuditSucceeded reason]"
  "g_audit_state (cx_audited n ev kind reason g) = [\<lparr>s_singleton = 1, s_next_sequence = n\<rparr>]"
  by (simp_all add: cx_audited_def new_audit_def)

lemmas cx_audit_defs = audit_fresh_def new_audit_def derive_audit_id_def cx_sha_def cx_ev_def cx_operator_def AUDIT_ID_DOMAIN_def str_bytes_def

lemma cx_inv1: "governance_inv cx_g1"
proof -
  have "governance_inv cx_g0" by (rule governance_inv_init) (simp add: governance_init_def cx_g0_def)
  from request_inv [OF this, of "request_key (cx_request 1 ''connect'')"] show ?thesis by (simp add: cx_g1_def cx_g0_def)
qed

lemma cx_attempt1:
  "govern_rate_attempt cx_sha cx_g1 (cx_policy RateConnectionAdmission) RateConnectionAdmission
     [SubjectGlobal, relay_subject cx_sha ''r1''] (cx_ev 1 2000) AuditConnectionAdmission = Inr (True, cx_g1a)"
  and cx_inv1a: "governance_inv cx_g1a"
proof -
  have ev: "evidence_ok cx_g1 (cx_ev 1 2000) AuditConnectionAdmission"
    by (rule cx_evidence) (simp_all add: cx_g1_def bound_kinds_def)
  note R = cx_governed [OF cx_inv1 ev, of "[SubjectGlobal, relay_subject cx_sha ''r1'']" RateConnectionAdmission 0]
  show "govern_rate_attempt cx_sha cx_g1 (cx_policy RateConnectionAdmission) RateConnectionAdmission
     [SubjectGlobal, relay_subject cx_sha ''r1''] (cx_ev 1 2000) AuditConnectionAdmission = Inr (True, cx_g1a)" "governance_inv cx_g1a"
    using R by (simp_all add: cx_g1_def cx_g0_def cx_g1a_def audit_fresh_def cx_ev_def policy_key_def relay_subject_def hash_framed_def
      rate_lookup_def)
qed


lemmas cx_g_defs = cx_g6_def cx_g5a_def cx_g5_def cx_g4a_def cx_g4_def cx_g3_def cx_g2_def cx_g1a_def cx_g1_def cx_g0_def

lemma cx_fields [simp]:
  "g_audit_state cx_g1 = [\<lparr>s_singleton = 1, s_next_sequence = 0\<rparr>]" "g_audit_state cx_g1a = [\<lparr>s_singleton = 1, s_next_sequence = 0\<rparr>]"
  "g_audit_state cx_g2 = [\<lparr>s_singleton = 1, s_next_sequence = 1\<rparr>]" "g_audit_state cx_g4 = [\<lparr>s_singleton = 1, s_next_sequence = 2\<rparr>]"
  "g_audit_state cx_g4a = [\<lparr>s_singleton = 1, s_next_sequence = 2\<rparr>]" "g_audit_state cx_g5 = [\<lparr>s_singleton = 1, s_next_sequence = 3\<rparr>]"
  "g_audit_state cx_g5a = [\<lparr>s_singleton = 1, s_next_sequence = 3\<rparr>]"
  by (simp_all add: cx_g_defs)

lemma cx_audit2:
  "\<exists>r. record_audit cx_sha cx_g1a (cx_ev 1 2000) AuditConnectionAdmission AuditSucceeded ReasonApprovalRequired = Inr (r, cx_g2)"
  and cx_inv2: "governance_inv cx_g2"
proof -
  have ev: "evidence_ok cx_g1a (cx_ev 1 2000) AuditConnectionAdmission"
    by (rule cx_evidence) (simp_all add: cx_g1a_def cx_g1_def bound_kinds_def)
  have "audit_fresh cx_sha cx_g1a (cx_ev 1 2000) AuditConnectionAdmission" by (simp add: cx_g_defs audit_fresh_def)
  note R = cx_recorded [OF cx_inv1a ev this, of 0 ReasonApprovalRequired]
  show "\<exists>r. record_audit cx_sha cx_g1a (cx_ev 1 2000) AuditConnectionAdmission AuditSucceeded ReasonApprovalRequired = Inr (r, cx_g2)"
    "governance_inv cx_g2" using R by (simp_all add: cx_g2_def)
qed

lemma cx_audit3:
  "\<exists>r. record_audit cx_sha cx_g2 cx_operator AuditConnectionOperatorDecision AuditSucceeded ReasonOperatorApproved = Inr (r, cx_g3)"
  and cx_inv3: "governance_inv cx_g3"
proof -
  have ev: "evidence_ok cx_g2 cx_operator AuditConnectionOperatorDecision"
    unfolding cx_operator_def by (rule operator_evidence) (simp_all add: bound_kinds_def int_width_defs)
  have "audit_fresh cx_sha cx_g2 cx_operator AuditConnectionOperatorDecision" by (simp add: cx_g_defs cx_audit_defs)
  note R = cx_recorded [OF cx_inv2 ev this, of 1 ReasonOperatorApproved]
  show "\<exists>r. record_audit cx_sha cx_g2 cx_operator AuditConnectionOperatorDecision AuditSucceeded ReasonOperatorApproved = Inr (r, cx_g3)"
    "governance_inv cx_g3" using R by (simp_all add: cx_g3_def)
qed

lemma cx_inv4: "governance_inv cx_g4"
  using request_inv [OF cx_inv3, of "request_key (cx_request 2 ''sign_event'')"] by (simp add: cx_g4_def cx_g3_def cx_g2_def cx_g1a_def cx_g1_def)

lemma put_rate_rows: "set (put_rate rates row) \<subseteq> insert row (set rates)" "length (put_rate rates row) \<le> Suc (length rates)"
  by (auto simp: put_rate_def)

lemma cx_rates_after:
  assumes "\<forall>r\<in>set rates. fst (rate_key r) \<in> K" and "rate_class_as_str (rl_class p) \<in> K"
  shows "\<forall>r\<in>set (rates_after sha p t a ss rates). fst (rate_key r) \<in> K"
    and "length (rates_after sha p t a ss rates) \<le> length rates + length ss"
  using assms(1)
proof (induction ss arbitrary: rates)
  case (Cons s ss)
  let ?row = "\<lambda>rates. rate_after sha p s t a (rate_lookup rates (policy_key sha p s))"
  have new: "fst (rate_key (?row rates)) \<in> K" for rates using assms(2) by (simp add: policy_key_def)
  have step: "\<forall>r\<in>set (put_rate rates (?row rates)). fst (rate_key r) \<in> K" if "\<forall>r\<in>set rates. fst (rate_key r) \<in> K" for rates
    using put_rate_rows(1) [of rates "?row rates"] new [of rates] that by blast
  { case (1 rates) show ?case using Cons(1) [OF step [OF 1]] by simp }
  { case (2 rates) show ?case using Cons(2) [OF step [OF 2]] put_rate_rows(2) [of rates "?row rates"] by simp }
qed simp_all

lemma cx_rates4: "\<forall>r\<in>set (g_rates cx_g4). fst (rate_key r) \<in> {''connection_admission''}" "length (g_rates cx_g4) \<le> 2"
proof -
  have g: "g_rates cx_g4 = rates_after cx_sha (cx_policy RateConnectionAdmission) 2000 True [SubjectGlobal, relay_subject cx_sha ''r1''] []"
    by (simp add: cx_g4_def cx_g3_def cx_g2_def cx_g1a_def cx_g1_def cx_g0_def del: rates_after.simps)
  show "\<forall>r\<in>set (g_rates cx_g4). fst (rate_key r) \<in> {''connection_admission''}"
    unfolding g by (rule cx_rates_after) (simp_all add: cx_policy_def)
  show "length (g_rates cx_g4) \<le> 2"
    unfolding g using cx_rates_after(2) [of "[]" UNIV "cx_policy RateConnectionAdmission" cx_sha 2000 True
      "[SubjectGlobal, relay_subject cx_sha ''r1'']"] by (simp del: rates_after.simps)
qed

lemma cx_rates5:
  "\<forall>r\<in>set (g_rates cx_g5). fst (rate_key r) \<in> {''connection_admission'', ''challenge_creation''}" "length (g_rates cx_g5) \<le> 3"
proof -
  have g: "g_rates cx_g5 = rates_after cx_sha (cx_policy RateChallengeCreation) 3100 True [SubjectConnection (cx_id 123)] (g_rates cx_g4)"
    by (simp add: cx_g5_def cx_g4a_def del: rates_after.simps)
  show "\<forall>r\<in>set (g_rates cx_g5). fst (rate_key r) \<in> {''connection_admission'', ''challenge_creation''}"
    unfolding g using cx_rates4(1) by (intro cx_rates_after) (simp_all add: cx_policy_def)
  have "length (g_rates cx_g5) \<le> length (g_rates cx_g4) + length [SubjectConnection (cx_id 123)]"
    unfolding g by (rule cx_rates_after(2) [of _ UNIV]) simp_all
  then show "length (g_rates cx_g5) \<le> 3" using cx_rates4(2) by simp
qed

lemma cx_attempt4:
  "govern_rate_attempt cx_sha cx_g4 (cx_policy RateChallengeCreation) RateChallengeCreation [SubjectConnection (cx_id 123)]
     (cx_ev 2 3100) AuditChallengeCreation = Inr (True, cx_g4a)"
  and cx_inv4a: "governance_inv cx_g4a"
proof -
  have ev: "evidence_ok cx_g4 (cx_ev 2 3100) AuditChallengeCreation" by (rule cx_evidence) (simp_all add: cx_g4_def bound_kinds_def)
  have fresh: "audit_fresh cx_sha cx_g4 (cx_ev 2 3100) AuditChallengeCreation" by (simp add: cx_g_defs cx_audit_defs)
  have none: "rate_lookup (g_rates cx_g4) (policy_key cx_sha (cx_policy RateChallengeCreation) (SubjectConnection (cx_id 123))) = None"
    "length (g_rates cx_g4) < 8"
    using cx_rates4 by (auto simp: rate_lookup_def find_None_iff policy_key_def cx_policy_def)
  note R = cx_governed [OF cx_inv4 ev, of "[SubjectConnection (cx_id 123)]" RateChallengeCreation 2]
  show "govern_rate_attempt cx_sha cx_g4 (cx_policy RateChallengeCreation) RateChallengeCreation [SubjectConnection (cx_id 123)]
     (cx_ev 2 3100) AuditChallengeCreation = Inr (True, cx_g4a)" "governance_inv cx_g4a"
    using R none fresh by (simp_all add: cx_g4a_def cx_ev_def hash_framed_def)
qed

lemma cx_audit5:
  "\<exists>r. record_audit cx_sha cx_g4a (cx_ev 2 3100) AuditChallengeCreation AuditSucceeded ReasonChallengeRequired = Inr (r, cx_g5)"
  and cx_inv5: "governance_inv cx_g5"
proof -
  have ev: "evidence_ok cx_g4a (cx_ev 2 3100) AuditChallengeCreation" by (rule cx_evidence) (simp_all add: cx_g4a_def cx_g4_def bound_kinds_def)
  have "audit_fresh cx_sha cx_g4a (cx_ev 2 3100) AuditChallengeCreation" by (simp add: cx_g_defs cx_audit_defs)
  note R = cx_recorded [OF cx_inv4a ev this, of 2 ReasonChallengeRequired]
  show "\<exists>r. record_audit cx_sha cx_g4a (cx_ev 2 3100) AuditChallengeCreation AuditSucceeded ReasonChallengeRequired = Inr (r, cx_g5)"
    "governance_inv cx_g5" using R by (simp_all add: cx_g5_def)
qed

lemma cx_attempt5:
  "govern_rate_attempt cx_sha cx_g5 (cx_policy RateChallengeAuthorization) RateChallengeAuthorization [SubjectConnection (cx_id 123)]
     (cx_ev 2 3150) AuditChallengeAuthorization = Inr (True, cx_g5a)"
  and cx_inv5a: "governance_inv cx_g5a"
proof -
  have ev: "evidence_ok cx_g5 (cx_ev 2 3150) AuditChallengeAuthorization"
    by (rule cx_evidence) (simp_all add: cx_g5_def cx_g4a_def cx_g4_def bound_kinds_def)
  have fresh: "audit_fresh cx_sha cx_g5 (cx_ev 2 3150) AuditChallengeAuthorization" by (simp add: cx_g_defs cx_audit_defs)
  have none: "rate_lookup (g_rates cx_g5) (policy_key cx_sha (cx_policy RateChallengeAuthorization) (SubjectConnection (cx_id 123))) = None"
    "length (g_rates cx_g5) < 8"
    using cx_rates5 by (auto simp: rate_lookup_def find_None_iff policy_key_def cx_policy_def)
  note R = cx_governed [OF cx_inv5 ev, of "[SubjectConnection (cx_id 123)]" RateChallengeAuthorization 3]
  show "govern_rate_attempt cx_sha cx_g5 (cx_policy RateChallengeAuthorization) RateChallengeAuthorization [SubjectConnection (cx_id 123)]
     (cx_ev 2 3150) AuditChallengeAuthorization = Inr (True, cx_g5a)" "governance_inv cx_g5a"
    using R none fresh by (simp_all add: cx_g5a_def cx_ev_def hash_framed_def)
qed

lemma cx_audit6:
  "\<exists>r. record_audit cx_sha cx_g5a (cx_ev 2 3150) AuditChallengeAuthorization AuditSucceeded ReasonChallengeAuthorized = Inr (r, cx_g6)"
proof -
  have ev: "evidence_ok cx_g5a (cx_ev 2 3150) AuditChallengeAuthorization"
    by (rule cx_evidence) (simp_all add: cx_g5a_def cx_g5_def cx_g4a_def cx_g4_def bound_kinds_def)
  have "audit_fresh cx_sha cx_g5a (cx_ev 2 3150) AuditChallengeAuthorization" by (simp add: cx_g_defs cx_audit_defs)
  note R = cx_recorded(1) [OF cx_inv5a ev this, of 3 ReasonChallengeAuthorized]
  show ?thesis using R by (simp add: cx_g6_def)
qed


section \<open>The states\<close>

lemma cx_key_ok [simp]: "length cx_key = 64" "lower_hex cx_key" "client_public_key_new cx_crates cx_key = Inr cx_key"
  "bounded_public_key cx_key = Inr cx_key" "client_column cx_crates cx_key = Inr cx_key"
proof -
  show "length cx_key = 64" "lower_hex cx_key" and k: "client_public_key_new cx_crates cx_key = Inr cx_key"
    and "bounded_public_key cx_key = Inr cx_key"
    by (simp_all add: cx_key_def lower_hex_def client_public_key_new_def cx_crates_def bounded_public_key_def list_all_iff list_ex_iff
      is_ascii_hexdigit_def is_ascii_digit_def is_ascii_uppercase_def)
  from k show "client_column cx_crates cx_key = Inr cx_key" by (rule client_column_ok)
qed

lemma cx_sha_crates [simp]: "sha256 cx_crates = cx_sha"
  by (simp add: cx_crates_def)

lemma cx_verify: "g_bindings g = [cx_binding] \<Longrightarrow> governance_verify_metadata g cx_metadata = Inr ()"
  by (simp add: governance_verify_metadata_def require_expected_metadata_def read_latest_config_binding_def cx_binding_def cx_metadata_def
    decode_metadata_row_def bounded_version_def u32_of_int_def int_width_defs matches_current_configuration_def MYC_STATE_SCHEMA_VERSION_def)

definition cx_db0 :: connection_db where
  "cx_db0 = \<lparr>n_gov = cx_g0, n_requests = [], n_connections = [], n_permissions = [], n_decisions = [], n_challenges = []\<rparr>"

definition cx_db1 :: connection_db where "cx_db1 = cx_db0\<lparr>n_gov := cx_g1, n_requests := [cx_request 1 ''connect'']\<rparr>"

definition cx_admission :: MycConnectionAdmissionRequest where
  "cx_admission = \<lparr>car_operation_id = cx_id 1, car_client_public_key = cx_key, car_requested_permissions = cx_permissions,
     car_policy_generation = 1, car_nonce = cx_id 7, car_observed_at = 2000, car_authorized_until = None,
     car_policy = PolicyExplicitApproval, car_relay_id = ''r1''\<rparr>"

definition cx_db2 :: connection_db where "cx_db2 = (admitted_db cx_crates cx_db1 cx_admission)\<lparr>n_gov := cx_g2\<rparr>"

lemma cx_reach1: "connection_reachable cx_crates cx_db1"
proof -
  have init: "connection_init cx_db0" by (simp add: connection_init_def cx_db0_def governance_init_def cx_g0_def)
  have "connection_step cx_crates cx_db0 (cx_db0\<lparr>n_gov := (n_gov cx_db0)\<lparr>g_requests := g_requests (n_gov cx_db0) @ [request_key (cx_request 1 ''connect'')]\<rparr>,
      n_requests := n_requests cx_db0 @ [cx_request 1 ''connect'']\<rparr>)"
    by (rule connection_step.stored)
      (simp_all add: request_insert_legal_def cx_db0_def nip46_requests_check_def cx_request_def sql_time_def)
  moreover have "\<dots> = cx_db1" by (simp add: cx_db1_def cx_db0_def cx_g1_def cx_g0_def)
  ultimately have "connection_step cx_crates cx_db0 cx_db1" by simp
  with init show ?thesis unfolding connection_reachable_def by blast
qed

lemma connection_reachable_step: "connection_reachable cr db \<Longrightarrow> connection_step cr db db' \<Longrightarrow> connection_reachable cr db'"
  unfolding connection_reachable_def by (meson rtranclp.rtrancl_into_rtrancl)

lemma cx_permissions_ok: "permission_set_ok cx_sha cx_permissions" "ps_permissions cx_permissions = [PermGetPublicKey, PermPing]"
  by (simp_all add: permission_set_ok_def cx_permissions_def seal_def connection_limits less_eq_MycConnectionPermission_def)

lemma cx_subset: "is_subset_of cx_permissions cx_permissions"
  using is_subset_of_ok [OF cx_permissions_ok(1)] by simp


lemma cx_request_ok: "admission_request_ok cx_crates cx_admission"
  by (simp add: admission_request_ok_def cx_admission_def cx_permissions_ok time_ok_def int_width_defs admission_request_new_def)

lemma cx_policies: "policies_ok cx_expected"
  by (simp add: policies_ok_def cx_expected_def cx_policy_def policy_ok_def rate_policy_new_def governance_limits)

lemma cx_policies_of [simp]: "gp_connection_admission (sm_governance cx_expected) = cx_policy RateConnectionAdmission"
  "gp_challenge_creation (sm_governance cx_expected) = cx_policy RateChallengeCreation"
  "gp_challenge_authorization (sm_governance cx_expected) = cx_policy RateChallengeAuthorization"
  by (simp_all add: cx_expected_def)

lemma cx_admission_fields [simp]: "car_policy cx_admission = PolicyExplicitApproval" "car_requested_permissions cx_admission = cx_permissions"
  by (simp_all add: cx_admission_def)

lemma cx_policy_ok: "policy_ok (cx_policy class)"
  by (simp add: policy_ok_def cx_policy_def rate_policy_new_def governance_limits)

section \<open>The run\<close>

lemma cx_in_transaction: "g_bindings (n_gov db) = [cx_binding] \<Longrightarrow> in_transaction cx_expected db body = body"
  by (simp add: in_transaction_def cx_expected_def cx_verify)

lemma cx_admitted:
  "repository_admit_connection cx_crates cx_expected cx_db1 cx_admission
     = Inr (Admitted (decision_answer cx_crates (admitted_db cx_crates cx_db1 cx_admission) (new_admission_decision cx_crates cx_admission)), cx_db2)"
proof -
  obtain x where a: "record_audit cx_sha cx_g1a (cx_ev 1 2000) AuditConnectionAdmission AuditSucceeded ReasonApprovalRequired = Inr (x, cx_g2)"
    using cx_audit2 by blast
  have gate: "admits_relay (sm_governance cx_expected) (car_relay_id cx_admission)"
    "admits_connection_request (sm_authorization cx_expected) cx_admission"
    by (simp_all add: admits_relay_def admits_connection_request_def cx_expected_def cx_admission_def expected_admission_def cx_subset)
  have possible: "admission_possible cx_crates cx_db1 cx_admission"
    by (simp add: admission_possible_def cx_db1_def cx_db0_def cx_admission_def cx_request_def)
  have q: "cx_request 1 ''connect'' \<in> set (n_requests cx_db1)" "q_operation_id (cx_request 1 ''connect'') = car_operation_id cx_admission"
    by (simp_all add: cx_db1_def cx_request_def cx_admission_def)
  have ev: "cx_ev 1 2000 = \<lparr>ev_correlation = q_correlation_id (cx_request 1 ''connect''), ev_occurred_at = car_observed_at cx_admission,
      ev_operation_id = Some (car_operation_id cx_admission)\<rparr>"
    by (simp add: cx_ev_def cx_request_def cx_admission_def)
  have g: "case Some (cx_policy RateConnectionAdmission) of None \<Rightarrow> cx_g1a = n_gov cx_db1 | Some policy \<Rightarrow> policy_ok policy \<and>
        distinct (subject_keys (sha256 cx_crates) policy [SubjectGlobal, relay_subject (sha256 cx_crates) (car_relay_id cx_admission)]) \<and>
        govern_rate_attempt (sha256 cx_crates) (n_gov cx_db1) policy RateConnectionAdmission
          [SubjectGlobal, relay_subject (sha256 cx_crates) (car_relay_id cx_admission)] (cx_ev 1 2000) AuditConnectionAdmission = Inr (True, cx_g1a)"
    using cx_attempt1 by (simp add: cx_policy_ok cx_db1_def cx_admission_def policy_key_def relay_subject_def)
  have run: "admit_connection cx_crates cx_db1 cx_admission (Some (cx_policy RateConnectionAdmission))
      = Inr (Admitted (decision_answer cx_crates (admitted_db cx_crates cx_db1 cx_admission) (new_admission_decision cx_crates cx_admission)), cx_db2)"
    unfolding cx_db2_def
    by (rule admit_ready [OF connection_reachable_inv [OF cx_reach1] cx_request_ok _ possible q ev g]) (use a in \<open>simp_all add: cx_admission_def\<close>)
  have "g_bindings (n_gov cx_db1) = [cx_binding]" by (simp add: cx_db1_def cx_g1_def cx_g0_def)
  then show ?thesis using gate run by (simp add: repository_admit_connection_def cx_in_transaction)
qed

lemma cx_reach2: "connection_reachable cx_crates cx_db2"
  using connection_reachable_step [OF cx_reach1 connection_step.admit [OF cx_policies cx_request_ok cx_admitted]] .

definition cx_connection :: connection_row where "cx_connection = new_connection cx_crates cx_admission"

definition cx_decision :: decision_row where "cx_decision = new_admission_decision cx_crates cx_admission"

lemma cx_connection_fields: "c_connection_id cx_connection = cx_id 123" "c_status cx_connection = ''pending''" "c_policy_generation cx_connection = 1"
  "c_updated_at_unix_ms cx_connection = 2000" "c_client_public_key cx_connection = cx_key"
  "d_operation_id cx_decision = cx_id 1" "d_connection_id cx_decision = Some (cx_id 123)" "d_decision cx_decision = ''pending_approval''"
  "d_decided_at_unix_ms cx_decision = 2000" "d_challenge_id cx_decision = None" "d_reason_code cx_decision = ''explicit_approval_required''"
  by (simp_all add: cx_connection_def cx_decision_def new_connection_def new_admission_decision_def cx_admission_def derive_connection_id_def
    cx_sha_def CONNECTION_ID_DOMAIN_def str_bytes_def)

lemma cx_db2_simps: "n_gov cx_db2 = cx_g2" "n_requests cx_db2 = [cx_request 1 ''connect'']" "n_connections cx_db2 = [cx_connection]"
  "n_permissions cx_db2 = new_permissions cx_crates cx_admission" "n_decisions cx_db2 = [cx_decision]" "n_challenges cx_db2 = []"
  by (simp_all add: cx_db2_def admitted_db_def cx_admission_def cx_connection_def cx_decision_def cx_db1_def cx_db0_def)

text \<open>The operator approves the connection.\<close>

definition cx_db3 :: connection_db where
  "cx_db3 = (approved_db cx_db2 cx_connection cx_decision cx_permissions 3000 (Some 3500))\<lparr>n_gov := cx_g3\<rparr>"

lemma cx_requested: "cr_requested_permissions (connection_record cx_crates (n_permissions cx_db2) cx_connection) = cx_permissions"
proof -
  have "codes_of (n_permissions cx_db2) (c_connection_id cx_connection) ''requested'' = map permission_code (ps_permissions cx_permissions)"
    by (simp add: cx_db2_simps new_permissions_def cx_connection_def [symmetric] codes_of_append codes_of_rows)
  from permissions_ok_codes(2) [OF this cx_permissions_ok(1)] show ?thesis by (simp add: connection_record_def)
qed

lemma cx_approvable: "approvable cx_db2 cx_connection cx_decision 3000 (Some 3500)"
  by (simp add: approvable_def cx_db2_simps cx_connection_fields time_ok_def int_width_defs)

lemma cx_approved:
  obtains rec where "apply_admin_connection_mutation cx_crates cx_db2 (cx_id 123) 1 3000 (cx_id 9) (AdminApprove cx_permissions (Some 3500))
    = Inr (rec, cx_db3)"
proof -
  obtain x where "record_audit cx_sha cx_g2 cx_operator AuditConnectionOperatorDecision AuditSucceeded ReasonOperatorApproved = Inr (x, cx_g3)"
    using cx_audit3 by blast
  then have a: "record_audit (sha256 cx_crates) (n_gov cx_db2) \<lparr>ev_correlation = cx_id 9, ev_occurred_at = 3000, ev_operation_id = None\<rparr>
      AuditConnectionOperatorDecision AuditSucceeded ReasonOperatorApproved = Inr (x, cx_g3)" by (simp add: cx_db2_simps cx_operator_def)
  have s: "permission_set_ok (sha256 cx_crates) cx_permissions"
    "is_subset_of cx_permissions (cr_requested_permissions (connection_record cx_crates (n_permissions cx_db2) cx_connection))"
    by (simp_all add: cx_permissions_ok cx_requested cx_subset)
  have "\<exists>rec. apply_admin_connection_mutation cx_crates cx_db2 (c_connection_id cx_connection) 1 3000 (cx_id 9) (AdminApprove cx_permissions (Some 3500))
    = Inr (rec, cx_db3)"
    unfolding cx_db3_def
    by (rule admin_approve_ready [OF connection_reachable_inv [OF cx_reach2] cx_approvable s _ a]) (simp add: cx_connection_fields)
  then show thesis using that by (auto simp: cx_connection_fields)
qed

lemma cx_reach3: "connection_reachable cx_crates cx_db3"
proof -
  obtain rec where r: "apply_admin_connection_mutation cx_crates cx_db2 (cx_id 123) 1 3000 (cx_id 9) (AdminApprove cx_permissions (Some 3500))
    = Inr (rec, cx_db3)" by (rule cx_approved)
  obtain before after where "rec = (before, after)" by (cases rec)
  then have "connection_step cx_crates cx_db2 cx_db3"
    using r by (intro connection_step.admin [where correlation = "cx_id 9" and observed_at = 3000])
      (auto simp: admin_action_ok_def operator_decision_ok_def cx_permissions_ok time_ok_def int_width_defs)
  then show ?thesis using connection_reachable_step [OF cx_reach2] by blast
qed

text \<open>A request is stored, challenged, and the challenge is authorized in time.\<close>

definition cx_active :: connection_row where "cx_active = approve_connection_set 3000 (Some 3500) cx_connection"

definition cx_allowed :: decision_row where "cx_allowed = update_decision_set ''allowed'' ''operator_approved'' 3000 cx_decision"

lemma cx_active_fields: "c_connection_id cx_active = cx_id 123" "c_status cx_active = ''active''" "c_policy_generation cx_active = 1"
  "c_updated_at_unix_ms cx_active = 3000" "c_client_public_key cx_active = cx_key" "c_authorized_until_unix_ms cx_active = Some 3500"
  "d_operation_id cx_allowed = cx_id 1" "d_challenge_id cx_allowed = None"
  by (simp_all add: cx_active_def cx_allowed_def approve_connection_set_def update_decision_set_def cx_connection_fields)

lemma cx_db3_simps: "n_gov cx_db3 = cx_g3" "n_requests cx_db3 = [cx_request 1 ''connect'']" "n_connections cx_db3 = [cx_active]"
  "n_decisions cx_db3 = [cx_allowed]" "n_challenges cx_db3 = []"
  by (simp_all add: cx_db3_def approved_db_def cx_db2_simps swap_row_def cx_active_def cx_allowed_def)

definition cx_db4 :: connection_db where
  "cx_db4 = cx_db3\<lparr>n_gov := cx_g4, n_requests := [cx_request 1 ''connect'', cx_request 2 ''sign_event'']\<rparr>"

lemma cx_reach4: "connection_reachable cx_crates cx_db4"
proof -
  have "connection_step cx_crates cx_db3 (cx_db3\<lparr>n_gov := (n_gov cx_db3)\<lparr>g_requests := g_requests (n_gov cx_db3) @ [request_key (cx_request 2 ''sign_event'')]\<rparr>,
      n_requests := n_requests cx_db3 @ [cx_request 2 ''sign_event'']\<rparr>)"
    by (rule connection_step.stored) (simp_all add: request_insert_legal_def cx_db3_simps nip46_requests_check_def cx_request_def sql_time_def)
  moreover have "\<dots> = cx_db4" by (simp add: cx_db4_def cx_db3_simps cx_g4_def)
  ultimately show ?thesis using connection_reachable_step [OF cx_reach3] by simp
qed

definition cx_challenge_request :: MycAuthorizationChallengeRequest where
  "cx_challenge_request = \<lparr>acr_operation_id = cx_id 2, acr_connection_id = cx_id 123, acr_policy_generation = 1,
     acr_url = ''u'', acr_nonce = cx_id 8, acr_issued_at = 3100, acr_expires_at = 3200\<rparr>"

definition cx_db5 :: connection_db where
  "cx_db5 = (challenged_db cx_crates cx_db4 cx_challenge_request cx_active)\<lparr>n_gov := cx_g5\<rparr>"

lemma cx_challenge_request_ok: "challenge_request_ok cx_crates cx_challenge_request"
  by (simp add: challenge_request_ok_def cx_challenge_request_def challenge_url_new_def cx_crates_def time_ok_def int_width_defs
    connection_limits Let_def)

lemma cx_issue:
  "issue_challenge cx_crates cx_db4 cx_challenge_request (cx_policy RateChallengeCreation)
     = Inr (ChallengeCreated (challenge_record (new_challenge cx_crates cx_challenge_request)), cx_db5)"
proof -
  obtain x where a: "record_audit cx_sha cx_g4a (cx_ev 2 3100) AuditChallengeCreation AuditSucceeded ReasonChallengeRequired = Inr (x, cx_g5)"
    using cx_audit5 by blast
  have possible: "challenge_possible cx_crates cx_db4 cx_challenge_request cx_active (cx_request 2 ''sign_event'')"
    by (simp add: challenge_possible_def cx_db4_def cx_db3_simps cx_active_fields cx_challenge_request_def cx_request_def)
  have ev: "cx_ev 2 3100 = \<lparr>ev_correlation = q_correlation_id (cx_request 2 ''sign_event''), ev_occurred_at = acr_issued_at cx_challenge_request,
      ev_operation_id = Some (acr_operation_id cx_challenge_request)\<rparr>"
    by (simp add: cx_ev_def cx_request_def cx_challenge_request_def)
  have g: "govern_rate_attempt (sha256 cx_crates) (n_gov cx_db4) (cx_policy RateChallengeCreation) RateChallengeCreation
      [SubjectConnection (acr_connection_id cx_challenge_request)] (cx_ev 2 3100) AuditChallengeCreation = Inr (True, cx_g4a)"
    using cx_attempt4 by (simp add: cx_db4_def cx_challenge_request_def)
  show ?thesis
    unfolding cx_db5_def
    by (rule issue_ready [OF connection_reachable_inv [OF cx_reach4] cx_challenge_request_ok _ possible cx_policy_ok ev g]) (use a in simp_all)
qed

lemma cx_issued:
  "apply_admin_challenge_require cx_crates cx_db4 cx_challenge_request (cx_policy RateChallengeCreation)
     = Inr (challenge_record (new_challenge cx_crates cx_challenge_request), cx_db5)"
  by (simp add: apply_admin_challenge_require_def cx_issue)

lemma cx_reach5: "connection_reachable cx_crates cx_db5"
  using connection_reachable_step [OF cx_reach4 connection_step.admin_issue [OF cx_policy_ok cx_challenge_request_ok cx_issued]] .

definition cx_challenge :: challenge_row where "cx_challenge = new_challenge cx_crates cx_challenge_request"

definition cx_challenged :: decision_row where "cx_challenged = new_challenge_decision cx_crates cx_challenge_request cx_active"

lemma cx_challenge_fields: "h_challenge_id cx_challenge = cx_id 136" "h_connection_id cx_challenge = cx_id 123" "h_operation_id cx_challenge = cx_id 2"
  "h_policy_generation cx_challenge = 1" "h_state cx_challenge = ''pending''" "h_issued_at_unix_ms cx_challenge = 3100"
  "h_expires_at_unix_ms cx_challenge = 3200" "d_operation_id cx_challenged = cx_id 2" "d_decided_at_unix_ms cx_challenged = 3100"
  by (simp_all add: cx_challenge_def cx_challenged_def new_challenge_def new_challenge_decision_def cx_challenge_request_def
    derive_challenge_id_def cx_sha_def CHALLENGE_ID_DOMAIN_def str_bytes_def)

lemma cx_db5_simps: "n_gov cx_db5 = cx_g5" "n_requests cx_db5 = [cx_request 1 ''connect'', cx_request 2 ''sign_event'']"
  "n_connections cx_db5 = [cx_active]" "n_decisions cx_db5 = [cx_allowed, cx_challenged]" "n_challenges cx_db5 = [cx_challenge]"
  by (simp_all add: cx_db5_def challenged_db_def cx_db4_def cx_db3_simps cx_challenge_def cx_challenged_def)

definition cx_db6 :: connection_db where
  "cx_db6 = (resolved_db cx_db5 cx_challenge cx_challenged False 3150)\<lparr>n_gov := cx_g6\<rparr>"

lemma cx_resolved:
  "authorize_challenge cx_crates cx_db5 (cx_id 136) (cx_id 123) (cx_id 2) 1 3150 (cx_policy RateChallengeAuthorization)
     = Inr (AuthorizationResolved (challenge_record (resolved_challenge False 3150 cx_challenge)), cx_db6)"
proof -
  obtain x where a: "record_audit cx_sha cx_g5a (cx_ev 2 3150) AuditChallengeAuthorization AuditSucceeded ReasonChallengeAuthorized = Inr (x, cx_g6)"
    using cx_audit6 by blast
  have r: "resolvable cx_db5 cx_challenge cx_challenged cx_active 3150"
    by (simp add: resolvable_def cx_db5_simps cx_challenge_fields cx_active_fields time_ok_def int_width_defs)
  have q: "cx_request 2 ''sign_event'' \<in> set (n_requests cx_db5)" "q_operation_id (cx_request 2 ''sign_event'') = h_operation_id cx_challenge"
    by (simp_all add: cx_db5_simps cx_challenge_fields cx_request_def)
  have late: "False = too_late cx_challenge cx_active 3150" by (simp add: too_late_def cx_challenge_fields cx_active_fields)
  have ev: "cx_ev 2 3150 = \<lparr>ev_correlation = q_correlation_id (cx_request 2 ''sign_event''), ev_occurred_at = 3150,
      ev_operation_id = Some (h_operation_id cx_challenge)\<rparr>" by (simp add: cx_ev_def cx_request_def cx_challenge_fields)
  have g: "govern_rate_attempt (sha256 cx_crates) (n_gov cx_db5) (cx_policy RateChallengeAuthorization) RateChallengeAuthorization
      [SubjectConnection (h_connection_id cx_challenge)] (cx_ev 2 3150) AuditChallengeAuthorization = Inr (True, cx_g5a)"
    using cx_attempt5 by (simp add: cx_db5_simps cx_challenge_fields)
  have "authorize_challenge cx_crates cx_db5 (h_challenge_id cx_challenge) (h_connection_id cx_challenge) (h_operation_id cx_challenge) 1 3150
      (cx_policy RateChallengeAuthorization)
    = Inr (AuthorizationResolved (challenge_record (resolved_challenge False 3150 cx_challenge)), cx_db6)"
    unfolding cx_db6_def
    by (rule authorize_ready [OF connection_reachable_inv [OF cx_reach5] r _ cx_policy_ok q late ev g])
      (use a in \<open>simp_all add: cx_challenge_fields\<close>)
  then show ?thesis by (simp add: cx_challenge_fields)
qed

lemma cx_reach6: "connection_reachable cx_crates cx_db6"
proof -
  have row: "take 2 (filter (\<lambda>h. h_challenge_id h = cx_id 136) (n_challenges cx_db5)) = [cx_challenge]"
    by (simp add: cx_db5_simps cx_challenge_fields)
  have rh: "read_challenge cx_crates cx_db5 (cx_id 2) = Inr (Some (challenge_record cx_challenge))"
    using read_challenge_present [OF connection_reachable_inv [OF cx_reach5], of cx_challenge] by (simp add: cx_db5_simps cx_challenge_fields)
  have "apply_admin_challenge_authorize cx_crates cx_db5 (cx_id 136) 1 3150 (cx_policy RateChallengeAuthorization)
      = Inr (challenge_record (resolved_challenge False 3150 cx_challenge), cx_db6)"
    using cx_resolved by (simp add: apply_admin_challenge_authorize_def row rh cx_challenge_fields) (simp add: challenge_record_def cx_challenge_fields)
  from connection_step.admin_authorize [OF cx_policy_ok _ this] have "connection_step cx_crates cx_db5 cx_db6"
    by (simp add: time_ok_def int_width_defs)
  then show ?thesis using connection_reachable_step [OF cx_reach5] by blast
qed

lemma cx_db6_simps: "n_challenges cx_db6 = [resolved_challenge False 3150 cx_challenge]" "n_connections cx_db6 = [cx_active]"
  "n_requests cx_db6 = [cx_request 1 ''connect'', cx_request 2 ''sign_event'']"
  "n_decisions cx_db6 = [cx_allowed, resolved_decision False 3150 cx_challenged]"
  using cx_challenge_fields(8) cx_active_fields(7)
  by (auto simp: cx_db6_def resolved_db_def cx_db5_simps swap_row_def)

text \<open>Instead, the identities change while the connection is pending.\<close>

definition cx_db7 :: connection_db where "cx_db7 = ended_db (identity_end 2500) (pending_end 2500) cx_db2"

lemma cx_identity_change: "revoke_for_identity_change cx_db2 2500 = Inr ((1, 0), cx_db7)"
  using identity_revocation_ready [OF connection_reachable_inv [OF cx_reach2], of 2500]
  by (simp add: cx_db7_def cx_db2_simps cx_connection_fields)

lemma cx_reach7: "connection_reachable cx_crates cx_db7"
  using connection_reachable_step [OF cx_reach2 connection_step.identity [OF cx_identity_change]] .

end
