(* ===== verification/Connection_Lifecycle.thy ===== *)
theory Connection_Lifecycle
  imports Challenge_Progress
begin

text \<open>
  How a stored connection may change along a run: a simulation relation between two states of the connection tables
  that every step refines and that composes.
\<close>

definition status_after :: "string \<Rightarrow> string \<Rightarrow> bool" where
  "status_after old new \<longleftrightarrow> new = old \<or> old = ''pending'' \<and> new \<in> {''active'', ''denied'', ''expired''} \<or> old = ''active'' \<and> new = ''expired''"

definition connection_evolves :: "permission_row list \<Rightarrow> connection_row \<Rightarrow> permission_row list \<Rightarrow> connection_row \<Rightarrow> bool" where
  "connection_evolves ps c ps' c' \<longleftrightarrow>
     same_connection c c' \<and> c_updated_at_unix_ms c \<le> c_updated_at_unix_ms c' \<and> status_after (c_status c) (c_status c')
     \<and> codes_of ps' (c_connection_id c) ''requested'' = codes_of ps (c_connection_id c) ''requested''
     \<and> (c_status c = ''pending'' \<or> codes_of ps' (c_connection_id c) ''granted'' = codes_of ps (c_connection_id c) ''granted'')"

definition connections_evolve :: "connection_db \<Rightarrow> connection_db \<Rightarrow> bool" where
  "connections_evolve db db' \<longleftrightarrow> (\<forall>c\<in>set (n_connections db). \<exists>c'\<in>set (n_connections db').
     connection_evolves (n_permissions db) c (n_permissions db') c')"

lemma connection_evolves_refl: "(\<And>scope. codes_of ps' (c_connection_id c) scope = codes_of ps (c_connection_id c) scope) \<Longrightarrow> connection_evolves ps c ps' c"
  by (simp add: connection_evolves_def same_connection_def status_after_def)

lemma connection_evolves_trans:
  assumes "connection_evolves ps c ps' c'" and "connection_evolves ps' c' ps'' c''"
  shows "connection_evolves ps c ps'' c''"
proof -
  have ids: "c_connection_id c' = c_connection_id c" using assms(1) by (simp add: connection_evolves_def same_connection_def)
  have "status_after (c_status c) (c_status c'')" using assms by (auto simp: connection_evolves_def status_after_def)
  moreover have "c_status c = ''pending'' \<or> c_status c' \<noteq> ''pending''" using assms(1) by (auto simp: connection_evolves_def status_after_def)
  ultimately show ?thesis
    using assms ids unfolding connection_evolves_def same_connection_def by auto
qed

lemma connections_evolve_trans: "connections_evolve u v \<Longrightarrow> connections_evolve v w \<Longrightarrow> connections_evolve u w"
  unfolding connections_evolve_def using connection_evolves_trans by blast

lemma connection_update_evolves:
  assumes "connection_update_legal c c'" and "\<And>scope. scope = ''requested'' \<or> c_status c \<noteq> ''pending''
      \<Longrightarrow> codes_of ps' (c_connection_id c) scope = codes_of ps (c_connection_id c) scope"
  shows "connection_evolves ps c ps' c'"
  using update_legal_same(1) [OF assms(1)] assms
  by (auto simp: connection_evolves_def connection_update_legal_def connections_guard_update_def status_after_def)

lemma evolve_frame:
  assumes "n_connections db' = n_connections db" and "n_permissions db' = n_permissions db"
  shows "connections_evolve db db'"
  using assms connection_evolves_refl by (auto simp: connections_evolve_def)

lemma evolve_swap:
  assumes "connection_update_legal c c'" and "n_connections db' = swap_row c c' (n_connections db)" and c: "c \<in> set (n_connections db)"
    and same: "\<And>i scope. i \<noteq> c_connection_id c \<or> scope = ''requested'' \<or> c_status c \<noteq> ''pending''
      \<Longrightarrow> codes_of (n_permissions db') i scope = codes_of (n_permissions db) i scope"
    and dist: "distinct (map c_connection_id (n_connections db))"
  shows "connections_evolve db db'"
  unfolding connections_evolve_def
proof
  fix x assume x: "x \<in> set (n_connections db)"
  show "\<exists>x'\<in>set (n_connections db'). connection_evolves (n_permissions db) x (n_permissions db') x'"
  proof (cases "x = c")
    case True
    have "connection_evolves (n_permissions db) c (n_permissions db') c'" using connection_update_evolves [OF assms(1)] same by blast
    with True c show ?thesis by (auto simp: assms(2) in_swap_row)
  next
    case False
    then have "c_connection_id x \<noteq> c_connection_id c" using unique_by_key [OF dist x c] by blast
    then have "connection_evolves (n_permissions db) x (n_permissions db') x" using same by (intro connection_evolves_refl) blast
    with False x show ?thesis by (auto simp: assms(2) in_swap_row)
  qed
qed

lemma connection_effect_evolves:
  assumes "connection_effect cr db db'" and inv: "connection_inv cr db"
  shows "connections_evolve db db'"
  using assms(1)
proof cases
  case (admitted r q g)
  have codes: "codes_of (new_permissions cr r) i scope = []" if "i \<noteq> c_connection_id (new_connection cr r)" for i scope
    using that by (intro codes_of_other) (auto simp: new_permissions_def permission_rows_def split: if_splits)
  show ?thesis
  proof (cases "car_policy r = PolicyDenied")
    case True
    then show ?thesis unfolding admitted(1) by (intro evolve_frame) (simp_all add: admitted_db_def)
  next
    case False
    then have fresh: "\<forall>x\<in>set (n_connections db). c_connection_id x \<noteq> c_connection_id (new_connection cr r)"
      using admitted(9) by (simp add: connection_insert_legal_def list_all_iff)
    have "connection_evolves (n_permissions db) x (n_permissions db') x" if "x \<in> set (n_connections db)" for x
      using fresh that codes False unfolding admitted(1)
      by (intro connection_evolves_refl) (simp add: admitted_db_def codes_of_append)
    moreover have "set (n_connections db) \<subseteq> set (n_connections db')" using False unfolding admitted(1) by (auto simp: admitted_db_def)
    ultimately show ?thesis unfolding connections_evolve_def by blast
  qed
next
  case (approved c t until d granted g)
  show ?thesis
    by (rule evolve_swap [OF approved(4) _ approved(2) _ connection_invD(6) [OF inv]])
      (use approved(3) in \<open>auto simp: approved(1) approved_db_def codes_of_append codes_of_rows\<close>)
next
  case (denied c t d g)
  show ?thesis
    by (rule evolve_swap [OF denied(3) _ denied(2) _ connection_invD(6) [OF inv]]) (simp_all add: denied(1) denied_db_def)
next
  case (expired c t g)
  show ?thesis
    by (rule evolve_swap [OF expired(3) _ expired(2) _ connection_invD(6) [OF inv]]) (simp_all add: expired(1) expired_db_def)
next
  case (ended f k)
  have "connection_evolves (n_permissions db) c (n_permissions db) (f c)" if "c \<in> set (n_connections db)" for c
    using ended(2) [OF that] connection_evolves_refl connection_update_evolves unfolding ended_connection_def by metis
  then show ?thesis unfolding connections_evolve_def ended(1) by (auto simp: ended_db_def)
qed (auto intro!: evolve_frame simp: challenged_db_def resolved_db_def)

lemma connection_run_evolves:
  assumes "connection_inv cr db" and "(connection_step cr)\<^sup>*\<^sup>* db db'"
  shows "connections_evolve db db'"
proof (rule connection.steps_preserve [OF assms(2,1)])
  show "connections_evolve u u" for u by (rule evolve_frame) simp_all
  show "connections_evolve u v" if "connection_inv cr u" "connection_step cr u v" for u v
    using connection_effect_evolves [OF connection_step_effect] that by blast
qed (rule connections_evolve_trans)

end
