(* ===== verification/Connection_Theorems.thy ===== *)
theory Connection_Theorems
  imports Connection_Example Connection_Lifecycle
begin

text \<open>
  The properties of the connection authority (\<^verbatim>\<open>src/src/state_connection.rs\<close>), each with a witness on the run of
  \<open>Connection_Example\<close>.
\<close>

section \<open>Reachable states\<close>

text \<open>
  C27. Every state of the connection tables that the repository's operations can reach satisfies the invariant: each
  stored connection hashes to its identifier, its granted permissions are a subset of the requested ones and empty
  before approval, exactly one admission decision belongs to it and agrees with its status, each challenge belongs to a
  decision, an active-or-past connection and a request of the same client, and the audit trail and the rate windows of
  the same database keep theirs.
\<close>

theorem connection_invariant: "connection_reachable cr db \<Longrightarrow> connection_inv cr db"
  by (rule connection_reachable_inv)

theorem connection_invariant_witness: "connection_inv cx_crates cx_db6"
  by (rule connection_invariant [OF cx_reach6])

text \<open>
  In a reachable state no reader meets a malformed row: every stored connection is read back under its identifier
  as a well-formed record. Both permission sets are sorted, duplicate-free and within the limit, the granted ones are
  requested ones, a pending or denied connection has none, and only an active connection has an end of its
  authorization, later than its last change.
\<close>

theorem connections_read_back:
  assumes "connection_reachable cr db" and "c \<in> set (n_connections db)"
  shows "\<exists>rec. read_connection cr db (c_connection_id c) = Inr rec \<and> cr_id rec = c_connection_id c
    \<and> cr_client_public_key rec = c_client_public_key c
    \<and> permission_set_ok (sha256 cr) (cr_requested_permissions rec) \<and> permission_set_ok (sha256 cr) (cr_granted_permissions rec)
    \<and> is_subset_of (cr_granted_permissions rec) (cr_requested_permissions rec)
    \<and> (cr_status rec \<in> {ConnectionPending, ConnectionDenied} \<longrightarrow> ps_permissions (cr_granted_permissions rec) = [])
    \<and> (\<forall>until. cr_authorized_until rec = Some until \<longrightarrow> cr_status rec = ConnectionActive \<and> cr_updated_at rec < until)"
proof -
  have inv: "connection_inv cr db" using assms(1) by (rule connection_reachable_inv)
  let ?r = "connection_record cr (n_permissions db) c"
  have ok: "connection_ok cr (n_permissions db) c" using connection_invD(5) [OF inv assms(2)] .
  have st: "cr_status ?r = s \<longleftrightarrow> c_status c = connection_status_as_str s" for s using connection_status_record [OF inv assms(2)] .
  have sets: "permission_set_ok (sha256 cr) (cr_requested_permissions ?r)" "permission_set_ok (sha256 cr) (cr_granted_permissions ?r)"
    using ok seal_ok by (auto simp: connection_ok_def connection_record_def)
  have sub: "is_subset_of (cr_granted_permissions ?r) (cr_requested_permissions ?r)"
    using is_subset_of_ok [OF sets(1)] ok by (simp add: connection_ok_def connection_record_def seal_def)
  have none: "ps_permissions (cr_granted_permissions ?r) = []" if "cr_status ?r \<in> {ConnectionPending, ConnectionDenied}"
    using ok that unfolding insert_iff st by (auto simp: connection_ok_def connection_record_def seal_def stored_permissions_def)
  have until: "cr_status ?r = ConnectionActive \<and> cr_updated_at ?r < u" if u: "cr_authorized_until ?r = Some u" for u
  proof -
    obtain v where v: "c_authorized_until_unix_ms c = Some v" "u = nat v"
      by (cases "c_authorized_until_unix_ms c") (use u in \<open>simp_all add: connection_record_def\<close>)
    then have "c_updated_at_unix_ms c < v" "0 \<le> c_updated_at_unix_ms c" "c_status c = ''active''"
      using ok by (auto simp: connection_ok_def connections_check_def sql_time_def)
    moreover from this have "cr_status ?r = ConnectionActive" by (simp only: st connection_status_as_str.simps)
    ultimately show ?thesis using v(2) by (simp add: connection_record_def nat_less_iff)
  qed
  show ?thesis
    using read_connection_inv [OF inv assms(2)] sets sub none until
    by (intro exI [of _ ?r]) (simp add: connection_record_def)
qed

theorem connections_read_back_witness:
  "\<exists>rec. read_connection cx_crates cx_db6 (cx_id 123) = Inr rec \<and> cr_id rec = cx_id 123 \<and> cr_client_public_key rec = cx_key"
  using connections_read_back [OF cx_reach6, of cx_active] by (auto simp: cx_db6_simps cx_active_fields)

text \<open>
  C28. Along any run a connection never disappears and never goes back: its identifier, nonce, client, requested
  permissions, policy generation and creation time are fixed, its change time does not decrease, a pending connection
  may become active, denied or (after being active) expired, an active one only expired, and the granted permissions
  are written once, when the connection leaves the pending state.
\<close>

theorem connection_lifecycle:
  assumes "connection_reachable cr db" and "(connection_step cr)\<^sup>*\<^sup>* db db'" and "c \<in> set (n_connections db)"
  shows "\<exists>c'\<in>set (n_connections db'). same_connection c c' \<and> c_updated_at_unix_ms c \<le> c_updated_at_unix_ms c'
    \<and> (c_status c' = c_status c \<or> c_status c = ''pending'' \<and> c_status c' \<in> {''active'', ''denied'', ''expired''}
       \<or> c_status c = ''active'' \<and> c_status c' = ''expired'')
    \<and> codes_of (n_permissions db') (c_connection_id c) ''requested'' = codes_of (n_permissions db) (c_connection_id c) ''requested''
    \<and> (c_status c = ''pending''
       \<or> codes_of (n_permissions db') (c_connection_id c) ''granted'' = codes_of (n_permissions db) (c_connection_id c) ''granted'')"
  using connection_run_evolves [OF connection_reachable_inv [OF assms(1)] assms(2)] assms(3)
  unfolding connections_evolve_def connection_evolves_def status_after_def by blast

theorem connection_lifecycle_witness:
  "\<exists>c'\<in>set (n_connections cx_db7). same_connection cx_connection c' \<and> c_updated_at_unix_ms cx_connection \<le> c_updated_at_unix_ms c'"
  using connection_lifecycle [OF cx_reach2 _, of cx_db7 cx_connection] connection_step.identity [OF cx_identity_change]
  by (auto simp: cx_db2_simps)

text \<open>The admission decision of a connection is one row, whatever it says.\<close>

lemma admission_decision_row:
  assumes inv: "connection_inv cr db" and "c \<in> set (n_connections db)"
  obtains d where "filter (\<lambda>d. d_connection_id d = Some (c_connection_id c) \<and> d_challenge_id d = None) (n_decisions db) = [d]"
    and "d \<in> set (n_decisions db)" and "admission_decision_of d" and "d_connection_id d = Some (c_connection_id c)"
proof -
  obtain d where d: "d \<in> set (n_decisions db)" "admission_decision_of d" "d_connection_id d = Some (c_connection_id c)"
    using connection_invD(11) [OF inv assms(2)] by blast
  let ?as = "filter admission_decision_of (n_decisions db)"
  have "filter (\<lambda>x. d_connection_id x = d_connection_id d) ?as = [d]"
    using filter_unique [OF connection_invD(10) [OF inv]] d(1,2) by simp
  moreover have "filter (\<lambda>d. d_connection_id d = Some (c_connection_id c) \<and> d_challenge_id d = None) (n_decisions db)
      = filter (\<lambda>x. d_connection_id x = d_connection_id d) ?as"
    unfolding filter_filter by (rule filter_cong) (auto simp: admission_decision_of_def d(3))
  ultimately show thesis using d that by simp
qed

lemma positive_decision:
  assumes inv: "connection_inv cr db" and "c \<in> set (n_connections db)"
    and "c_status c = ''active'' \<or> codes_of (n_permissions db) (c_connection_id c) ''granted'' \<noteq> []"
  shows "\<exists>d. filter (\<lambda>d. d_connection_id d = Some (c_connection_id c) \<and> d_challenge_id d = None) (n_decisions db) = [d]
      \<and> d_decision d = ''allowed'' \<and> d_reason_code d \<in> {''trusted_client'', ''operator_approved''}"
proof -
  obtain d where one: "filter (\<lambda>d. d_connection_id d = Some (c_connection_id c) \<and> d_challenge_id d = None) (n_decisions db) = [d]"
    and d: "d \<in> set (n_decisions db)" "admission_decision_of d" "d_connection_id d = Some (c_connection_id c)"
    by (rule admission_decision_row [OF inv assms(2)])
  have dok: "decision_ok db d" using connection_invD(8) [OF inv d(1)] .
  obtain c' where c': "c' \<in> set (n_connections db)" "c_connection_id c' = c_connection_id c" "admission_matches (d_reason_code d) (c_status c')"
    using dok d(2,3) unfolding decision_ok_def admission_decision_of_def by blast
  have "c' = c" using unique_by_key [OF connection_invD(6) [OF inv] c'(1) assms(2) c'(2)] .
  have "c_status c \<notin> {''pending'', ''denied''}"
    using assms(3) connection_invD(5) [OF inv assms(2)] by (auto simp: connection_ok_def)
  with c'(3) \<open>c' = c\<close> have "d_reason_code d \<in> {''trusted_client'', ''operator_approved''}" by (auto simp: admission_matches_def)
  moreover from this have "d_decision d = ''allowed''"
    using dok by (auto simp: decision_ok_def nip46_request_decisions_check_def decision_shape_def)
  ultimately show ?thesis using one by blast
qed

text \<open>
  C29. Nobody holds a permission without a positive decision: for a connection that is active, or that has a granted
  permission stored, the table of decisions has exactly one row of its admission (a row of that connection without a
  challenge), whatever the rows say; that row is allowed, because the client is trusted or because the operator approved.
  A second admission decision of the connection, denied or pending, does not exist.
\<close>

theorem grants_are_decided:
  assumes "connection_reachable cr db" and "c \<in> set (n_connections db)"
    and "c_status c = ''active'' \<or> codes_of (n_permissions db) (c_connection_id c) ''granted'' \<noteq> []"
  shows "\<exists>d. filter (\<lambda>d. d_connection_id d = Some (c_connection_id c) \<and> d_challenge_id d = None) (n_decisions db) = [d]
      \<and> d_decision d = ''allowed'' \<and> d_reason_code d \<in> {''trusted_client'', ''operator_approved''}"
  by (rule positive_decision [OF connection_reachable_inv [OF assms(1)] assms(2,3)])

theorem grants_are_decided_witness:
  "\<exists>d. filter (\<lambda>d. d_connection_id d = Some (cx_id 123) \<and> d_challenge_id d = None) (n_decisions cx_db6) = [d]
      \<and> d_decision d = ''allowed'' \<and> d_reason_code d \<in> {''trusted_client'', ''operator_approved''}"
  using grants_are_decided [OF cx_reach6, of cx_active] by (simp add: cx_db6_simps cx_active_fields)

text \<open>
  C30. An authorized challenge was authorized in time and for the right request: it was resolved between its issue and
  its expiry, the decision of its request is allowed because of it, and that request is not a connect request and comes
  from the client of the challenged connection, under the same policy generation.
\<close>

theorem authorized_challenge_sound:
  assumes "connection_reachable cr db" and "h \<in> set (n_challenges db)" and "h_state h = ''authorized''"
  shows "(\<exists>r. h_resolved_at_unix_ms h = Some r \<and> h_issued_at_unix_ms h \<le> r \<and> r \<le> h_expires_at_unix_ms h)
    \<and> (\<exists>d\<in>set (n_decisions db). d_operation_id d = h_operation_id h \<and> d_challenge_id d = Some (h_challenge_id h)
        \<and> d_decision d = ''allowed'' \<and> d_reason_code d = ''authorization_challenge_authorized'')
    \<and> (\<exists>c\<in>set (n_connections db). \<exists>q\<in>set (n_requests db). c_connection_id c = h_connection_id h \<and> q_operation_id q = h_operation_id h
        \<and> c_policy_generation c = h_policy_generation h \<and> q_method q \<noteq> ''connect'' \<and> q_client_public_key q = c_client_public_key c)"
proof -
  have inv: "connection_inv cr db" using assms(1) by (rule connection_reachable_inv)
  have hok: "challenge_ok cr db h" using connection_invD(12) [OF inv assms(2)] .
  obtain r where r: "h_resolved_at_unix_ms h = Some r" "r \<le> h_expires_at_unix_ms h" using hok assms(3) unfolding challenge_ok_def by blast
  have "h_issued_at_unix_ms h \<le> r" using hok r(1) by (simp add: challenge_ok_def connection_auth_challenges_check_def)
  obtain d where d: "d \<in> set (n_decisions db)" "d_operation_id d = h_operation_id h" "d_challenge_id d = Some (h_challenge_id h)"
    using hok unfolding challenge_ok_def by blast
  have dok: "decision_ok db d" using connection_invD(8) [OF inv d(1)] .
  obtain k where k: "k \<in> set (n_challenges db)" "h_challenge_id k = h_challenge_id h" "challenge_matches (d_decision d) (h_state k)"
    using dok d(3) unfolding decision_ok_def by blast
  have "k = h" using unique_by_key [OF connection_invD(14) [OF inv] k(1) assms(2) k(2)] .
  with k(3) assms(3) have "d_decision d = ''allowed''" by (auto simp: challenge_matches_def)
  moreover from this have "d_reason_code d = ''authorization_challenge_authorized''"
    using dok d(3) by (auto simp: decision_ok_def nip46_request_decisions_check_def decision_shape_def)
  moreover have "\<exists>c\<in>set (n_connections db). \<exists>q\<in>set (n_requests db). c_connection_id c = h_connection_id h \<and> q_operation_id q = h_operation_id h
        \<and> c_policy_generation c = h_policy_generation h \<and> q_method q \<noteq> ''connect'' \<and> q_client_public_key q = c_client_public_key c"
    using hok unfolding challenge_ok_def by blast
  ultimately show ?thesis using r \<open>h_issued_at_unix_ms h \<le> r\<close> d by blast
qed

theorem authorized_challenge_sound_witness:
  "\<exists>r. h_resolved_at_unix_ms (resolved_challenge False 3150 cx_challenge) = Some r \<and> 3100 \<le> r \<and> r \<le> 3200"
  using authorized_challenge_sound [OF cx_reach6, of "resolved_challenge False 3150 cx_challenge"]
  by (simp add: cx_db6_simps resolved_challenge_def resolve_challenge_set_def cx_challenge_fields)

section \<open>Replays\<close>

lemma decision_record_connection:
  assumes "decision_record cr db op p = Inr rec" and "cd_connection rec = Some c"
  shows "\<exists>i. pd_connection_id p = Some i \<and> read_connection cr db i = Inr c"
proof -
  obtain x where x: "(case pd_connection_id p of Some i \<Rightarrow> r_bind (read_connection cr db i) (\<lambda>c. Inr (Some c)) | None \<Rightarrow> Inr None) = Inr x"
    "cd_connection rec = x"
    using assms(1) unfolding decision_record_def by (auto simp: r_bind_Inr_iff simp del: not_None_eq split: if_splits)
  then show ?thesis using assms(2) by (auto simp: r_bind_Inr_iff split: option.splits)
qed

text \<open>
  An admission is idempotent: once an admission has committed, the same request asked again (at any later rate
  budget, under any policy setting) answers with the very record the first answer carried and changes nothing, not even
  the rate windows or the audit trail.
\<close>

theorem admission_replay:
  assumes inv: "connection_inv cr db" and ok: "admission_request_ok cr r" and policies: "\<And>p. governed = Some p \<Longrightarrow> policy_ok p"
    and run: "admit_connection cr db r governed = Inr (Admitted rec, db')"
  shows "admit_connection cr db' r governed' = Inr (AdmissionExactReplay rec, db')"
proof -
  let ?d = "new_admission_decision cr r"
  have "connection_effect cr db db'" using admit_effect [OF inv ok policies run] .
  then have inv': "connection_inv cr db'" using connection_effect_inv inv by blast
  obtain g q where A: "q \<in> set (n_requests db)" "q_operation_id q = car_operation_id r" "q_client_public_key q = car_client_public_key r"
    "q_method q = ''connect''" "db' = (admitted_db cr db r)\<lparr>n_gov := g\<rparr>"
    and rec: "decision_record cr db' (car_operation_id r) (persisted_decision ?d) = Inr rec"
    by (rule admit_connection_Inr [OF inv ok policies run]) auto
  have q: "q \<in> set (n_requests db')" using A(1,5) by simp
  have rb: "read_request_binding cr db' (car_operation_id r) = Inr (request_binding_of q)" "read_request_binding cr db (car_operation_id r) = Inr (request_binding_of q)"
    using read_request_binding_inv [OF inv' q] read_request_binding_inv [OF inv A(1)] A(2) by simp_all
  have time: "\<not> car_observed_at r < rb_received_at (request_binding_of q)"
    using run unfolding admit_connection_def rb(2) by (auto split: if_splits)
  have m: "rb_method (request_binding_of q) = MethodConnect" "rb_client_public_key (request_binding_of q) = car_client_public_key r"
    using request_method [OF inv A(1)] A(3,4) by (simp_all add: request_binding_of_def)
  have d: "?d \<in> set (n_decisions db')" "d_operation_id ?d = car_operation_id r" using A(5) by (simp_all add: new_admission_decision_def)
  have rd: "read_decision db' (car_operation_id r) = Inr (Some (persisted_decision ?d))" using read_decision_present [OF inv' d(1)] d(2) by simp
  have pd: "pd_policy_generation (persisted_decision ?d) = car_policy_generation r" "pd_admission_policy (persisted_decision ?d) = Some (car_policy r)"
    "pd_requested_permissions_sha256 (persisted_decision ?d) = ps_digest (car_requested_permissions r)"
    by (cases "car_policy r"; simp add: persisted_decision_def new_admission_decision_def)+
  have client: "cr_client_public_key c = car_client_public_key r" if some: "cd_connection rec = Some c" for c
  proof -
    obtain i where i: "pd_connection_id (persisted_decision ?d) = Some i" "read_connection cr db' i = Inr c"
      using decision_record_connection [OF rec some] by blast
    then have p: "car_policy r \<noteq> PolicyDenied" "i = c_connection_id (new_connection cr r)"
      by (auto simp: persisted_decision_def new_admission_decision_def split: if_splits)
    then have "new_connection cr r \<in> set (n_connections db')" using A(5) by (simp add: admitted_db_def)
    from read_connection_inv [OF inv' this] i(2) p(2) have "c = connection_record cr (n_permissions db') (new_connection cr r)" by simp
    then show ?thesis by (simp add: connection_record_def new_connection_def)
  qed
  have "admit_replay cr db' r (persisted_decision ?d) = Inr (AdmissionExactReplay rec, db')"
    using client by (cases "cd_connection rec") (simp_all add: admit_replay_def pd rec)
  then show ?thesis by (simp add: admit_connection_def rb(1) time m rd)
qed

theorem admission_replay_witness:
  "\<exists>rec. admit_connection cx_crates cx_db2 cx_admission None = Inr (AdmissionExactReplay rec, cx_db2)"
proof -
  have run: "admit_connection cx_crates cx_db1 cx_admission (Some (cx_policy RateConnectionAdmission)) = Inr (Admitted
      (decision_answer cx_crates (admitted_db cx_crates cx_db1 cx_admission) (new_admission_decision cx_crates cx_admission)), cx_db2)"
    using cx_admitted by (simp add: repository_admit_connection_def in_transaction_def r_bind_Inr_iff split: if_splits)
  from admission_replay [OF connection_reachable_inv [OF cx_reach1] cx_request_ok _ run] show ?thesis using cx_policy_ok by blast
qed

lemma challenge_bound:
  assumes inv: "connection_inv cr db" and h: "h \<in> set (n_challenges db)"
  obtains c q where "c \<in> set (n_connections db)" "read_connection cr db (h_connection_id h) = Inr (connection_record cr (n_permissions db) c)"
    "read_request_binding cr db (h_operation_id h) = Inr (request_binding_of q)" "rb_method (request_binding_of q) \<noteq> MethodConnect"
    "rb_client_public_key (request_binding_of q) = cr_client_public_key (connection_record cr (n_permissions db) c)"
    "cr_policy_generation (connection_record cr (n_permissions db) c) = nat (h_policy_generation h)"
proof -
  obtain c q where cq: "c \<in> set (n_connections db)" "q \<in> set (n_requests db)" "c_connection_id c = h_connection_id h"
    "q_operation_id q = h_operation_id h" "c_policy_generation c = h_policy_generation h" "q_method q \<noteq> ''connect''"
    "q_client_public_key q = c_client_public_key c" using connection_invD(12) [OF inv h] unfolding challenge_ok_def by blast
  show thesis
    using that [of c q] cq read_connection_inv [OF inv cq(1)] read_request_binding_inv [OF inv cq(2)] request_method [OF inv cq(2)]
    by (simp add: connection_record_def request_binding_of_def)
qed

lemma issue_stored:
  assumes inv: "connection_inv cr db" and h: "h \<in> set (n_challenges db)" "h_operation_id h = acr_operation_id r"
      "h_connection_id h = acr_connection_id r" "h_policy_generation h = int (acr_policy_generation r)" "h_challenge_url h = acr_url r"
      "h_issued_at_unix_ms h = int (acr_issued_at r)" "h_expires_at_unix_ms h = int (acr_expires_at r)"
  shows "issue_challenge cr db r policy = Inr (ChallengeExactReplay (challenge_record h), db)"
proof (rule challenge_bound [OF inv h(1)])
  fix c q
  assume "read_connection cr db (h_connection_id h) = Inr (connection_record cr (n_permissions db) c)"
    "read_request_binding cr db (h_operation_id h) = Inr (request_binding_of q)" "rb_method (request_binding_of q) \<noteq> MethodConnect"
    "rb_client_public_key (request_binding_of q) = cr_client_public_key (connection_record cr (n_permissions db) c)"
    "cr_policy_generation (connection_record cr (n_permissions db) c) = nat (h_policy_generation h)"
  then show ?thesis
    using h read_challenge_present [OF inv h(1)] by (simp add: issue_challenge_def) (simp add: challenge_record_def)
qed

lemma authorize_stored:
  assumes inv: "connection_inv cr db" and h: "h \<in> set (n_challenges db)" "h_state h \<noteq> ''pending''" "h_issued_at_unix_ms h \<le> int t"
  shows "authorize_challenge cr db (h_challenge_id h) (h_connection_id h) (h_operation_id h) (nat (h_policy_generation h)) t policy
    = Inr (AuthorizationExactReplay (challenge_record h), db)"
proof (rule challenge_bound [OF inv h(1)])
  fix c q
  assume a: "read_connection cr db (h_connection_id h) = Inr (connection_record cr (n_permissions db) c)"
    "read_request_binding cr db (h_operation_id h) = Inr (request_binding_of q)" "rb_method (request_binding_of q) \<noteq> MethodConnect"
    "rb_client_public_key (request_binding_of q) = cr_client_public_key (connection_record cr (n_permissions db) c)"
    "cr_policy_generation (connection_record cr (n_permissions db) c) = nat (h_policy_generation h)"
  have st: "ch_state (challenge_record h) \<noteq> ChallengePending" using challenge_state_record [OF inv h(1), of ChallengePending] h(2) by simp
  have f: "ch_id (challenge_record h) = h_challenge_id h" "ch_connection_id (challenge_record h) = h_connection_id h"
    "ch_operation_id (challenge_record h) = h_operation_id h" "ch_policy_generation (challenge_record h) = nat (h_policy_generation h)"
    "\<not> t < ch_issued_at (challenge_record h)" using h(3) by (auto simp: challenge_record_def)
  show ?thesis using a st f read_challenge_present [OF inv h(1)] by (simp add: authorize_challenge_def)
qed

text \<open>
  A challenge is idempotent at every stage: after it was created, issuing it again with the same terms answers with
  the created record and changes nothing; after it was resolved, authorizing it again at any time not before its issue
  and issuing it again both answer with the resolved record, whichever way it was resolved, and change nothing.
\<close>

theorem challenge_replay:
  assumes inv: "connection_inv cr db" and ok: "challenge_request_ok cr r" and policies: "policy_ok p" "policy_ok p2" and t: "time_ok t"
    and issued: "issue_challenge cr db r p = Inr (ChallengeCreated rec, db1)"
    and resolved: "authorize_challenge cr db1 (ch_id rec) (acr_connection_id r) (acr_operation_id r) (acr_policy_generation r) t p2
        = Inr (AuthorizationResolved rec2, db2)"
    and later: "acr_issued_at r \<le> t'"
  shows "issue_challenge cr db1 r p' = Inr (ChallengeExactReplay rec, db1)
    \<and> authorize_challenge cr db2 (ch_id rec) (acr_connection_id r) (acr_operation_id r) (acr_policy_generation r) t' p'
        = Inr (AuthorizationExactReplay rec2, db2)
    \<and> issue_challenge cr db2 r p' = Inr (ChallengeExactReplay rec2, db2)"
proof -
  let ?h = "new_challenge cr r"
  have inv1: "connection_inv cr db1" using connection_effect_inv [OF issue_effect [OF inv ok policies(1) issued] inv] .
  have inv2: "connection_inv cr db2" using connection_effect_inv [OF authorize_effect [OF inv1 policies(2) t resolved] inv1] .
  obtain g c where A: "rec = challenge_record ?h" "db1 = (challenged_db cr db r c)\<lparr>n_gov := g\<rparr>"
    by (rule issue_challenge_Inr [OF inv ok policies(1) issued]) auto
  have h: "?h \<in> set (n_challenges db1)" by (simp add: A(2) challenged_db_def)
  have one: "issue_challenge cr db1 r p' = Inr (ChallengeExactReplay rec, db1)"
    unfolding A(1) by (rule issue_stored [OF inv1 h]) (simp_all add: new_challenge_def)
  obtain g2 k d e where B: "rec2 = challenge_record (resolved_challenge (too_late k e t) t k)" "k \<in> set (n_challenges db1)"
    "h_challenge_id k = ch_id rec" "db2 = (resolved_db db1 k d (too_late k e t) t)\<lparr>n_gov := g2\<rparr>"
    by (rule authorize_challenge_Inr [OF inv1 policies(2) t resolved]) auto
  have "k = ?h" using unique_by_key [OF connection_invD(14) [OF inv1] B(2) h] B(3) A(1) by (simp add: challenge_record_def)
  let ?k = "resolved_challenge (too_late k e t) t k"
  have k: "?k \<in> set (n_challenges db2)" "h_state ?k \<noteq> ''pending''" "h_challenge_id ?k = ch_id rec"
    "h_operation_id ?k = acr_operation_id r" "h_connection_id ?k = acr_connection_id r" "h_policy_generation ?k = int (acr_policy_generation r)"
    "h_challenge_url ?k = acr_url r" "h_issued_at_unix_ms ?k = int (acr_issued_at r)" "h_expires_at_unix_ms ?k = int (acr_expires_at r)"
    using B(2,3) by (auto simp: B(4) resolved_db_def in_swap_row resolved_challenge_def resolve_challenge_set_def \<open>k = ?h\<close> new_challenge_def)
  have two: "authorize_challenge cr db2 (ch_id rec) (acr_connection_id r) (acr_operation_id r) (acr_policy_generation r) t' p'
        = Inr (AuthorizationExactReplay rec2, db2)"
    using authorize_stored [OF inv2 k(1,2), of t' p'] k later by (simp add: B(1))
  have three: "issue_challenge cr db2 r p' = Inr (ChallengeExactReplay rec2, db2)"
    unfolding B(1) by (rule issue_stored [OF inv2 k(1,4-9)])
  show ?thesis using one two three by blast
qed

theorem challenge_replay_witness:
  "authorize_challenge cx_crates cx_db6 (cx_id 136) (cx_id 123) (cx_id 2) 1 9000 (cx_policy RateChallengeAuthorization)
     = Inr (AuthorizationExactReplay (challenge_record (resolved_challenge False 3150 cx_challenge)), cx_db6)"
proof -
  have i: "issue_challenge cx_crates cx_db4 cx_challenge_request (cx_policy RateChallengeCreation) = Inr (ChallengeCreated (challenge_record cx_challenge), cx_db5)"
    by (simp add: cx_issue cx_challenge_def)
  have id: "ch_id (challenge_record cx_challenge) = cx_id 136" by (simp add: challenge_record_def cx_challenge_fields)
  have f: "acr_connection_id cx_challenge_request = cx_id 123" "acr_operation_id cx_challenge_request = cx_id 2"
    "acr_policy_generation cx_challenge_request = 1" "acr_issued_at cx_challenge_request = 3100" by (simp_all add: cx_challenge_request_def)
  have r: "authorize_challenge cx_crates cx_db5 (ch_id (challenge_record cx_challenge)) (acr_connection_id cx_challenge_request)
      (acr_operation_id cx_challenge_request) (acr_policy_generation cx_challenge_request) 3150 (cx_policy RateChallengeAuthorization)
    = Inr (AuthorizationResolved (challenge_record (resolved_challenge False 3150 cx_challenge)), cx_db6)"
    unfolding id f by (rule cx_resolved)
  have t: "time_ok 3150" by (simp add: time_ok_def int_width_defs)
  from challenge_replay [OF connection_reachable_inv [OF cx_reach4] cx_challenge_request_ok cx_policy_ok cx_policy_ok t i r, of 9000
      "cx_policy RateChallengeAuthorization"] show ?thesis unfolding id f by simp
qed

end
