(* ===== verification/Config_Theorems.thy ===== *)
theory Config_Theorems
  imports Connection_Theorems
begin

text \<open>
  The properties of a configuration change (\<^verbatim>\<open>src/src/state_config.rs\<close>), which spans the binding history, the delivery
  tables and the connection tables.
\<close>

section \<open>Revocation\<close>

lemma identity_end_status: "c_status (identity_end t c) = ''active'' \<longleftrightarrow> False" "c_status (identity_end t c) = ''pending'' \<longleftrightarrow> False"
  "h_state (pending_end t h) = ''pending'' \<longleftrightarrow> False"
  by (simp_all add: identity_end_def end_connection_set_def pending_end_def expire_challenge_set_def)

lemma narrowing_within:
  assumes "c_status (narrowing_end ps permissions t c) = ''active''" and "code \<in> set (codes_of ps (c_connection_id c) ''granted'')"
  shows "code \<in> set permissions"
  using assms by (auto simp: narrowing_end_def end_connection_set_def outside_ceiling_def list_ex_iff codes_of_def split: if_splits)

text \<open>
  C31. Revocation always succeeds and is complete. After a change of identities no connection is active or pending and
  no challenge is pending, and the two counts reported are the numbers of those that were. After a narrowing of the
  permission ceiling every code still granted to an active connection is within the new ceiling. No connection is
  removed either way.
\<close>

theorem revocation_complete:
  assumes "connection_reachable cr db" and "t \<le> sql_int_max"
  shows "(\<exists>db'. revoke_for_identity_change db t = Inr ((length (filter (\<lambda>c. c_status c \<in> {''active'', ''pending''}) (n_connections db)),
           length (filter (\<lambda>h. h_state h = ''pending'') (n_challenges db))), db')
         \<and> (\<forall>c\<in>set (n_connections db'). c_status c \<notin> {''active'', ''pending''}) \<and> (\<forall>h\<in>set (n_challenges db'). h_state h \<noteq> ''pending'')
         \<and> map c_connection_id (n_connections db') = map c_connection_id (n_connections db))
    \<and> (\<forall>permissions. \<exists>n m db'. revoke_for_permission_narrowing db t permissions = Inr ((n, m), db')
         \<and> (\<forall>c\<in>set (n_connections db'). c_status c = ''active''
              \<longrightarrow> set (codes_of (n_permissions db') (c_connection_id c) ''granted'') \<subseteq> set permissions)
         \<and> map c_connection_id (n_connections db') = map c_connection_id (n_connections db))"
proof (intro conjI allI)
  have inv: "connection_inv cr db" using assms(1) by (rule connection_reachable_inv)
  have ids: "c_connection_id (identity_end t c) = c_connection_id c" "c_connection_id (narrowing_end ps permissions t c) = c_connection_id c" for c ps permissions
    by (simp_all add: identity_end_def narrowing_end_def end_connection_set_def)
  show "\<exists>db'. revoke_for_identity_change db t = Inr ((length (filter (\<lambda>c. c_status c \<in> {''active'', ''pending''}) (n_connections db)),
           length (filter (\<lambda>h. h_state h = ''pending'') (n_challenges db))), db')
         \<and> (\<forall>c\<in>set (n_connections db'). c_status c \<notin> {''active'', ''pending''}) \<and> (\<forall>h\<in>set (n_challenges db'). h_state h \<noteq> ''pending'')
         \<and> map c_connection_id (n_connections db') = map c_connection_id (n_connections db)"
    using identity_revocation_ready [OF inv assms(2)]
    by (intro exI [of _ "ended_db (identity_end t) (pending_end t) db"]) (auto simp: ended_db_def identity_end_status ids)
  fix permissions
  let ?db = "ended_db (narrowing_end (n_permissions db) permissions t) (narrowing_challenge_end (n_permissions db) permissions t) db"
  obtain n m where "revoke_for_permission_narrowing db t permissions = Inr ((n, m), ?db)"
    using narrowing_revocation_ready [OF inv assms(2)] by blast
  moreover have "set (codes_of (n_permissions ?db) (c_connection_id c) ''granted'') \<subseteq> set permissions"
    if "c \<in> set (n_connections ?db)" "c_status c = ''active''" for c
    using that narrowing_within [of "n_permissions db" permissions t] by (auto simp: ended_db_def ids)
  moreover have "map c_connection_id (n_connections ?db) = map c_connection_id (n_connections db)" by (simp add: ended_db_def ids)
  ultimately show "\<exists>n m db'. revoke_for_permission_narrowing db t permissions = Inr ((n, m), db')
         \<and> (\<forall>c\<in>set (n_connections db'). c_status c = ''active''
              \<longrightarrow> set (codes_of (n_permissions db') (c_connection_id c) ''granted'') \<subseteq> set permissions)
         \<and> map c_connection_id (n_connections db') = map c_connection_id (n_connections db)" by blast
qed

theorem revocation_complete_witness:
  "\<exists>db'. revoke_for_identity_change cx_db6 4000 = Inr ((1, 0), db') \<and> (\<forall>c\<in>set (n_connections db'). c_status c \<notin> {''active'', ''pending''})"
proof -
  have "(4000 :: int) \<le> sql_int_max" by simp
  from revocation_complete [OF cx_reach6 this, THEN conjunct1] show ?thesis
    by (auto simp: cx_db6_simps cx_active_fields resolved_challenge_def resolve_challenge_set_def)
qed

section \<open>A configuration change\<close>

lemma from_configuration_versions:
  assumes "from_configuration cr to_vec doc = Inr m"
  shows "pm_state_contract_version m = MYC_STATE_SCHEMA_VERSION" and "pm_operator_contract_version m = 1" and "pm_status_contract_version m = 1"
  using assms by (auto simp: from_configuration_def r_bind_Inr_iff config_limits)

lemma connection_inv_bindings:
  assumes "connection_inv cr db"
  shows "connection_inv cr (db\<lparr>n_gov := (n_gov db)\<lparr>g_bindings := bs\<rparr>\<rparr>)"
proof -
  have "governance_inv ((n_gov db)\<lparr>g_bindings := bs\<rparr>) = governance_inv (n_gov db)"
    by (simp add: governance_inv_def trail_inv_def)
  then show ?thesis using assms by (simp add: connection_inv_def decision_ok_def challenge_ok_def)
qed

lemma saturating_ms_bound: "saturating_ms s \<le> sql_int_max"
  by (simp add: saturating_ms_def Let_def i64_max_def)

lemma revocation_effect:
  assumes "connection_inv cr db"
    and "(if a then revoke_for_identity_change db t else if b then revoke_for_permission_narrowing db t permissions else Inr ((0, 0), db))
      = Inr ((n, m), db')"
  shows "connection_inv cr db'" "n_gov db' = n_gov db" "a \<Longrightarrow> \<forall>c\<in>set (n_connections db'). c_status c \<notin> {''active'', ''pending''}"
proof -
  consider (identity) "a" "db' = ended_db (identity_end t) (pending_end t) db" "connection_effect cr db db'"
    | (narrowing) "\<not> a" "\<exists>f k. db' = ended_db f k db" "connection_effect cr db db'" | (none) "\<not> a" "db' = db"
    using assms(2) revoke_for_identity_change_Inr [of db t n m db'] revoke_for_permission_narrowing_Inr [of db t permissions n m db']
      connection_effect.ended [of db _ _ cr] by (auto split: if_splits)
  note cs = this
  show "connection_inv cr db'" using cs connection_effect_inv assms(1) by cases auto
  show "n_gov db' = n_gov db" using cs by cases (auto simp: ended_db_def)
  show "\<forall>c\<in>set (n_connections db'). c_status c \<notin> {''active'', ''pending''}" if a
    using cs that by cases (auto simp: ended_db_def identity_end_status)
qed

text \<open>What a transaction that changes the configuration has done.\<close>

lemma apply_in_transaction_Inr:
  assumes tx: "apply_in_transaction s expected new changed permissions narrowed applied_at build = Inr (out, s')" and "new \<noteq> expected"
  obtains number n m db history where
    "(if identities_changed expected new then revoke_for_identity_change (y_connection s) (saturating_ms applied_at)
      else if narrowed then revoke_for_permission_narrowing (y_connection s) (saturating_ms applied_at) permissions
      else Inr ((0, 0), y_connection s)) = Inr ((n, m), db)"
    "insert_binding (y_history s) (number + 1) new applied_at build = Inr history"
    "read_latest_config_binding (map binding_of history) = Inr (Some new)"
    "ao_generation out = number + 1" "s' = with_history history (s\<lparr>y_connection := db\<rparr>)"
proof -
  let ?rev = "if identities_changed expected new then revoke_for_identity_change (y_connection s) (saturating_ms applied_at)
      else if narrowed then revoke_for_permission_narrowing (y_connection s) (saturating_ms applied_at) permissions
      else Inr ((0, 0), y_connection s)"
  from tx obtain u number last_applied where meta: "map_err config_error (require_expected_metadata expected (map binding_of (y_history s))) = Inr u"
    and hdr: "read_latest_header (y_history s) = Inr (number, last_applied)"
    unfolding apply_in_transaction_def by (elim r_bind_InrE) force
  have one: "r_bind ?rev (\<lambda>((connections, challenges), db).
     r_bind (insert_binding (y_history s) (number + 1) new applied_at build) (\<lambda>history.
     r_bind (map_err config_error (read_latest_config_binding (map binding_of history))) (\<lambda>actual.
     if actual \<noteq> Some new then Inl ApplyBinding else
     r_bind (read_latest_header history) (\<lambda>(actual_number, actual_applied_at).
     if actual_number \<noteq> number + 1 \<or> actual_applied_at \<noteq> applied_at then Inl ApplyBinding
     else Inr (\<lparr>ao_generation = number + 1, ao_revoked_connections = connections, ao_revoked_challenges = challenges\<rparr>,
       with_history history (s\<lparr>y_connection := db\<rparr>)))))) = Inr (out, s')"
    using tx unfolding apply_in_transaction_def meta hdr r_bind_simps prod.case if_not_P [OF assms(2)] guard_Inr by (elim conjE)
  obtain x where x: "?rev = Inr x" using one by (elim r_bind_InrE) blast
  obtain n m db where "x = ((n, m), db)" by (metis prod.exhaust)
  note x = x [unfolded this]
  note two = one [unfolded x r_bind_simps prod.case]
  from two obtain history where h: "insert_binding (y_history s) (number + 1) new applied_at build = Inr history" by (elim r_bind_InrE) blast
  note three = two [unfolded h r_bind_simps]
  from three obtain actual where "map_err config_error (read_latest_config_binding (map binding_of history)) = Inr actual" "actual = Some new"
    by (elim r_bind_InrE) (simp only: guard_Inr simp_thms)
  moreover from this three have "ao_generation out = number + 1" "s' = with_history history (s\<lparr>y_connection := db\<rparr>)"
    by (auto simp: r_bind_Inr_iff split: if_splits)
  ultimately show thesis using that x h by (simp only: map_err_Inr_iff)
qed

text \<open>
  C32. An accepted configuration change is one consistent step of the whole database. Either the configuration is the
  one already bound and nothing changes, or exactly one generation is appended to the history, numbered one above the
  latest and at most 1024; every component then sees the same history, whose newest entry is the candidate, so a
  repository opened for the previous configuration fails its check in every further transaction. The connection tables keep
  their invariant, the delivery tables are untouched, and when an identity changed no connection is active or pending.
\<close>

theorem configuration_change:
  assumes inv: "connection_inv cr (y_connection s)"
    and run: "apply_configuration cr to_vec writable expected s current candidate applied_at build = Inr (out, s')"
    and bound: "from_configuration cr to_vec candidate = Inr new"
  shows "connection_inv cr (y_connection s') \<and> y_delivery s' = (y_delivery s)\<lparr>config_bindings := config_bindings (y_delivery s')\<rparr>
    \<and> (if new = expected then s' = s else
         (\<exists>row. y_history s' = y_history s @ [row] \<and> b_generation row = int (ao_generation out)
            \<and> myc_config_bindings_check row \<and> \<not> myc_config_bindings_guard_insert (y_history s) row \<and> ao_generation out \<le> 1024)
         \<and> g_bindings (n_gov (y_connection s')) = map binding_of (y_history s') \<and> config_bindings (y_delivery s') = map binding_of (y_history s')
         \<and> read_latest_config_binding (map binding_of (y_history s')) = Inr (Some new)
         \<and> governance_verify_metadata (n_gov (y_connection s')) expected = Inl Binding
         \<and> (identities_changed expected new \<longrightarrow> (\<forall>c\<in>set (n_connections (y_connection s')). c_status c \<notin> {''active'', ''pending''})))"
proof -
  from run bound obtain changed permissions narrowed where cur: "from_configuration cr to_vec current = Inr expected"
    and tx: "apply_in_transaction s expected new changed permissions narrowed applied_at build = Inr (out, s')"
    by (auto simp: apply_configuration_def r_bind_Inr_iff split: if_splits)
  show ?thesis
  proof (cases "new = expected")
    case True
    with tx have "s' = s" by (auto simp: apply_in_transaction_def r_bind_Inr_iff split: if_splits)
    with True inv show ?thesis by simp
  next
    case False
    obtain number n m db history where
      rev: "(if identities_changed expected new then revoke_for_identity_change (y_connection s) (saturating_ms applied_at)
          else if narrowed then revoke_for_permission_narrowing (y_connection s) (saturating_ms applied_at) permissions
          else Inr ((0, 0), y_connection s)) = Inr ((n, m), db)"
      and ins: "insert_binding (y_history s) (number + 1) new applied_at build = Inr history"
      and latest: "read_latest_config_binding (map binding_of history) = Inr (Some new)"
      and out: "ao_generation out = number + 1" "s' = with_history history (s\<lparr>y_connection := db\<rparr>)"
      using tx False by (rule apply_in_transaction_Inr)
    note R = revocation_effect [OF inv rev]
    have row: "config_insert_legal (y_history s) (new_binding (number + 1) new applied_at build)"
      "history = y_history s @ [new_binding (number + 1) new applied_at build]"
      using ins by (auto simp: insert_binding_def r_bind_Inr_iff ok_or_Inr_iff)
    have "\<not> matches_current_configuration new expected"
      using False from_configuration_versions [OF cur] from_configuration_versions [OF bound] by (auto simp: matches_current_configuration_def)
    then have refused: "governance_verify_metadata (n_gov (y_connection s')) expected = Inl Binding"
      by (simp add: governance_verify_metadata_def require_expected_metadata_def out(2) with_history_def latest)
    have "connection_inv cr (y_connection s')" using connection_inv_bindings [OF R(1)] by (simp add: out(2) with_history_def)
    moreover have "\<exists>row. y_history s' = y_history s @ [row] \<and> b_generation row = int (ao_generation out)
            \<and> myc_config_bindings_check row \<and> \<not> myc_config_bindings_guard_insert (y_history s) row \<and> ao_generation out \<le> 1024"
      using row out by (intro exI [of _ "new_binding (number + 1) new applied_at build"])
        (auto simp: config_insert_legal_def with_history_def new_binding_def myc_config_bindings_check_def)
    ultimately show ?thesis using False refused latest R(3) by (simp add: out(2) with_history_def)
  qed
qed

text \<open>A change of the transport identity, while a connection is pending.\<close>

definition cx_other_key :: string where "cx_other_key = replicate 64 (CHR ''b'')"

definition cx_document :: "string \<Rightarrow> MycConfigDocumentV1" where
  "cx_document transport = \<lparr>doc_profile = Production, doc_schema_version = 1, doc_provider_bindings = 2,
     doc_normalized = map_of [(''/identity/discovery/enabled'', JsonBool False),
       (''/identity/transport/expected_public_key'', JsonString transport), (''/identity/user/expected_public_key'', JsonString cx_key),
       (''/relays'', JsonArray []), (''/policy/permission_ceiling'', JsonArray [])]\<rparr>"

definition cx_to_vec :: "json_document \<Rightarrow> bytes option" where "cx_to_vec _ = Some (replicate 213 0)"

definition cx_build :: MigrationBuildIdentity where
  "cx_build = \<lparr>mb_service_version = ''1'', mb_service_commit = replicate 40 (CHR ''a''), mb_lib_revision = replicate 40 (CHR ''a''),
     mb_rust_version = ''1'', mb_target = ''t'', mb_feature_profile = ''f'', mb_config_contract_version = 1, mb_state_contract_version = 12,
     mb_admin_contract_version = 1, mb_status_contract_version = 1, mb_provider_contract_version = 1\<rparr>"

definition cx_bound :: "string \<Rightarrow> PersistedMetadata" where "cx_bound transport = cx_metadata\<lparr>pm_transport_public_key := transport\<rparr>"

definition cx_state :: state_db where
  "cx_state = \<lparr>y_history = [new_binding 1 cx_metadata 0 cx_build],
     y_delivery = \<lparr>config_bindings = [cx_binding], request_operation_ids = [], desired_generation_ids = [], delivery_jobs = [], delivery_targets = [], delivery_attempts = []\<rparr>, y_connection = cx_db2\<rparr>"

lemma cx_from_configuration: "from_configuration cx_crates cx_to_vec (cx_document k) = Inr (cx_bound k)"
proof -
  have wrap: "(256 :: byte) = 0" by simp
  show ?thesis by (simp add: from_configuration_def expected_identities_def cx_document_def config_identity_def identity_from_hex_def
    cx_crates_def as_bool_def as_str_def wrap normalized_config_digest_def cx_to_vec_def cx_sha_def NORMALIZED_CONFIG_DIGEST_DOMAIN_def str_bytes_def cx_bound_def cx_metadata_def
    int_width_defs config_limits MYC_STATE_SCHEMA_VERSION_def)
qed

definition cx_row :: config_row where "cx_row = new_binding 1 cx_metadata 0 cx_build"

definition cx_next :: config_row where "cx_next = new_binding 2 (cx_bound cx_other_key) 3 cx_build"

lemma cx_rows: "b_generation cx_row = 1" "b_applied_at_unix_s cx_row = 0" "b_generation cx_next = 2" "b_applied_at_unix_s cx_next = 3"
  "b_generation (binding_of cx_row) = 1" "b_generation (binding_of cx_next) = 2"
  by (simp_all add: cx_row_def cx_next_def new_binding_def binding_of_def binding_row.truncate_def)

lemma cx_decoded: "decode_metadata_row (binding_of cx_row) = Inr cx_metadata" "decode_metadata_row (binding_of cx_next) = Inr (cx_bound cx_other_key)"
proof -
  have other: "length cx_other_key = 64" "bounded_public_key cx_other_key = Inr cx_other_key"
    by (simp_all add: cx_other_key_def bounded_public_key_def list_all_iff list_ex_iff is_ascii_hexdigit_def is_ascii_digit_def is_ascii_uppercase_def)
  show "decode_metadata_row (binding_of cx_row) = Inr cx_metadata" "decode_metadata_row (binding_of cx_next) = Inr (cx_bound cx_other_key)"
    using other by (simp_all add: cx_row_def cx_next_def new_binding_def binding_of_def binding_row.truncate_def decode_metadata_row_def bounded_version_def
      u32_of_int_def int_width_defs cx_metadata_def cx_bound_def)
qed

lemma cx_legal: "config_insert_legal [cx_row] cx_next"
  by (simp add: config_insert_legal_def myc_config_bindings_guard_insert_def cx_rows max_or_def)
    (simp add: cx_next_def new_binding_def myc_config_bindings_check_def cx_bound_def cx_metadata_def cx_other_key_def cx_key_def lower_hex_def list_all_iff
      is_ascii_digit_def u32_column_def text_between_def cx_build_def)

lemma cx_apply:
  "\<exists>out s'. apply_configuration cx_crates cx_to_vec True cx_metadata cx_state (cx_document cx_key) (cx_document cx_other_key) 3 cx_build = Inr (out, s')"
proof -
  have docs: "cx_bound cx_key = cx_metadata" by (simp add: cx_bound_def cx_metadata_def)
  have relays: "changed_existing_relays (cx_document cx_key) (cx_document cx_other_key) = Inr []" "ceiling_of (cx_document k) = Inr []" for k
    by (simp_all add: changed_existing_relays_def relay_bindings_def ceiling_of_def cx_document_def as_array_def)
  have keys: "cx_other_key \<noteq> cx_key" by (simp add: cx_other_key_def cx_key_def)
  have changed: "identities_changed cx_metadata (cx_bound cx_other_key)" "cx_bound cx_other_key \<noteq> cx_metadata"
    using keys by (auto simp: identities_changed_def cx_bound_def cx_metadata_def)
  have req: "require_expected_metadata cx_metadata [binding_of cx_row] = Inr ()"
    by (simp add: require_expected_metadata_def read_latest_config_binding_def cx_decoded matches_current_configuration_def)
      (simp add: cx_metadata_def MYC_STATE_SCHEMA_VERSION_def)
  have hdr: "read_latest_header [cx_row] = Inr (1, 0)" "read_latest_header [cx_row, cx_next] = Inr (2, 3)"
    by (simp_all add: read_latest_header_def cx_rows u64_of_int_def int_width_defs config_limits)
  have rev: "revoke_for_identity_change cx_db2 3000 = Inr ((1, 0), ended_db (identity_end 3000) (pending_end 3000) cx_db2)"
    using identity_revocation_ready [OF connection_reachable_inv [OF cx_reach2], of 3000] by (simp add: cx_db2_simps cx_connection_fields)
  have ins: "insert_binding [cx_row] 2 (cx_bound cx_other_key) 3 cx_build = Inr [cx_row, cx_next]"
    using cx_legal by (simp add: insert_binding_def sql_insert_def cx_next_def i64_of_nat_def int_width_defs)
  have latest: "read_latest_config_binding [binding_of cx_row, binding_of cx_next] = Inr (Some (cx_bound cx_other_key))"
    by (simp add: read_latest_config_binding_def cx_rows cx_decoded)
  have s: "y_history cx_state = [cx_row]" "y_connection cx_state = cx_db2" by (simp_all add: cx_state_def cx_row_def)
  have ms: "saturating_ms 3 = 3000" by (simp add: saturating_ms_def int_width_defs)
  have build: "valid_build (cx_document cx_other_key) cx_build" "doc_profile (cx_document k) = Production" "doc_provider_bindings (cx_document k) = 2" for k
    by (simp_all add: valid_build_def cx_document_def cx_build_def config_limits MYC_STATE_SCHEMA_VERSION_def)
  have tx: "\<exists>out s'. apply_in_transaction cx_state cx_metadata (cx_bound cx_other_key) [] [] narrowed 3 cx_build = Inr (out, s')" for narrowed
    using changed by (simp add: apply_in_transaction_def s req hdr ms rev ins latest config_limits numeral_2_eq_2 [symmetric])
  show ?thesis
    unfolding apply_configuration_def cx_from_configuration docs using tx by (simp add: build relays)
qed

theorem configuration_change_witness:
  "\<exists>s' :: state_db. connection_inv cx_crates (y_connection s') \<and> length (y_history s') = 2
     \<and> governance_verify_metadata (n_gov (y_connection s')) cx_metadata = Inl Binding
     \<and> (\<forall>c\<in>set (n_connections (y_connection s')). c_status c \<notin> {''active'', ''pending''})"
proof -
  obtain out s' where run: "apply_configuration cx_crates cx_to_vec True cx_metadata cx_state (cx_document cx_key) (cx_document cx_other_key) 3 cx_build
    = Inr (out, s')" using cx_apply by blast
  have inv: "connection_inv cx_crates (y_connection cx_state)" using connection_reachable_inv [OF cx_reach2] by (simp add: cx_state_def)
  have "cx_other_key \<noteq> cx_key" by (simp add: cx_other_key_def cx_key_def)
  then have changed: "identities_changed cx_metadata (cx_bound cx_other_key)" "cx_bound cx_other_key \<noteq> cx_metadata"
    by (auto simp: identities_changed_def cx_bound_def cx_metadata_def)
  note R = configuration_change [OF inv run cx_from_configuration, unfolded if_not_P [OF changed(2)]]
  have "length (y_history s') = 2" using R by (auto simp: cx_state_def)
  then show ?thesis using R changed(1) by (intro exI [of _ s'] conjI) simp_all
qed

section \<open>Two flaws of the code\<close>

text \<open>
  C33. A change of identities denies the pending connections and leaves their decisions pending. The two tables
  disagree from then on: every reader of such a decision reports a corrupt binding, and the client's connect request
  can neither be answered nor replayed again, whatever the configuration.
\<close>

theorem identity_change_orphans_decisions:
  assumes "connection_reachable cr db" and d: "d \<in> set (n_decisions db)" "d_decision d = ''pending_approval''"
    and run: "revoke_for_identity_change db t = Inr (counts, db')"
  shows "d \<in> set (n_decisions db') \<and> decision_record cr db' (d_operation_id d) (persisted_decision d) = Inl Binding
    \<and> (\<forall>expected. governance_verify_metadata (n_gov db') (sm_binding expected) = Inr ()
         \<longrightarrow> read_connection_decision cr expected db' (d_operation_id d) = Inl Binding)
    \<and> (\<forall>r governed answer. car_operation_id r = d_operation_id d \<longrightarrow> admit_connection cr db' r governed \<noteq> Inr answer)"
proof -
  have reach: "connection_reachable cr db'" using connection_reachable_step [OF assms(1) connection_step.identity [OF run]] .
  have inv: "connection_inv cr db" and inv': "connection_inv cr db'"
    using connection_reachable_inv [OF assms(1)] connection_reachable_inv [OF reach] .
  obtain n m where "counts = (n, m)" by (cases counts)
  note db' = revoke_for_identity_change_Inr(1) [OF run [unfolded this]]
  have none: "d_challenge_id d = None" using pending_admission [OF inv d] .
  have d': "d \<in> set (n_decisions db')" using d(1) by (simp add: db' ended_db_def)
  have "nip46_request_decisions_check d" using connection_invD(8) [OF inv d(1)] by (simp add: decision_ok_def)
  then obtain i where i: "d_connection_id d = Some i" using d(2) by (auto simp: nip46_request_decisions_check_def decision_shape_def)
  then obtain c where c: "c \<in> set (n_connections db)" "c_connection_id c = i"
    using connection_invD(8) [OF inv d(1)] unfolding decision_ok_def by blast
  have e: "identity_end t c \<in> set (n_connections db')" "c_connection_id (identity_end t c) = i" "c_status (identity_end t c) \<noteq> ''pending''"
    using c by (auto simp: db' ended_db_def identity_end_status) (auto simp: identity_end_def end_connection_set_def)
  then have "orphaned db' d" using d(2) i by (auto simp: orphaned_def)
  then have rec: "decision_record cr db' (d_operation_id d) (persisted_decision d) = Inl Binding"
    using decision_record_row [OF inv' d' none] by simp
  have rd: "read_decision db' (d_operation_id d) = Inr (Some (persisted_decision d))" using read_decision_present [OF inv' d'] .
  have "admit_connection cr db' r governed \<noteq> Inr answer" if "car_operation_id r = d_operation_id d" for r governed answer
    using rd rec that by (auto simp: admit_connection_def admit_replay_def r_bind_Inr_iff split: if_splits)
  then show ?thesis using d' rec rd by (simp add: read_connection_decision_def)
qed

theorem identity_change_orphans_decisions_witness:
  "decision_record cx_crates cx_db7 (cx_id 1) (persisted_decision cx_decision) = Inl Binding"
  using identity_change_orphans_decisions [OF cx_reach2 _ _ cx_identity_change, of cx_decision] by (simp add: cx_db2_simps cx_connection_fields)

text \<open>
  The approval that comes through the admin interface is not held to the configured permission ceiling, and a narrowing of the
  ceiling leaves pending connections alone. So a permission that the ceiling no longer contains can still be granted,
  although the repository's own decision refuses the same approval.
\<close>

lemma admin_approval_ignores_ceiling:
  "\<exists>ceiling counts rec. permission_set_ok cx_sha ceiling
     \<and> revoke_for_permission_narrowing cx_db2 2500 (map permission_code (ps_permissions ceiling)) = Inr (counts, cx_db2)
     \<and> apply_admin_connection_mutation cx_crates cx_db2 (cx_id 123) 1 3000 (cx_id 9) (AdminApprove cx_permissions (Some 3500)) = Inr (rec, cx_db3)
     \<and> \<not> is_subset_of cx_permissions ceiling
     \<and> (\<forall>expected. permission_ceiling (sm_authorization expected) = ceiling
          \<longrightarrow> decide_pending_connection cx_crates expected cx_db2 (cx_id 1) (cx_id 123) 1 3000 (cx_id 9) (OperatorApprove cx_permissions (Some 3500)) = Inl Binding)"
proof -
  let ?ceiling = "seal cx_sha [PermPing]"
  have ok: "permission_set_ok cx_sha ?ceiling" by (simp add: permission_set_ok_def seal_def connection_limits)
  have outside: "\<not> is_subset_of cx_permissions ?ceiling" using is_subset_of_ok [OF ok] by (simp add: cx_permissions_ok seal_def)
  have run: "revoke_for_permission_narrowing cx_db2 2500 codes = Inr ((0, 0), cx_db2)" for codes
    by (simp add: revoke_for_permission_narrowing_def config_execute_def update_connections_def update_challenges_def sql_update_def upd_row_def
      cx_db2_simps cx_connection_fields)
  obtain rec where "apply_admin_connection_mutation cx_crates cx_db2 (cx_id 123) 1 3000 (cx_id 9) (AdminApprove cx_permissions (Some 3500)) = Inr (rec, cx_db3)"
    by (rule cx_approved)
  moreover have "decide_pending_connection cx_crates expected cx_db2 (cx_id 1) (cx_id 123) 1 3000 (cx_id 9) (OperatorApprove cx_permissions (Some 3500)) = Inl Binding"
    if "permission_ceiling (sm_authorization expected) = ?ceiling" for expected
    using that outside by (simp add: decide_pending_connection_def admits_operator_decision_def)
  ultimately show ?thesis using ok outside run by blast
qed

end
