(* ===== verification/Nip46_Input.thy ===== *)
theory Nip46_Input
  imports Config_Apply "HOL-Library.Sublist"
begin

text \<open>
  Structural admission of inbound bytes (\<^verbatim>\<open>src/src/nip46_admission.rs\<close>): a scanner that measures a JSON string without
  decoding it, bounded counts of tags and parameters, and the admission of an encrypted event and of a plaintext request.

  The JSON parser (crate \<open>serde_json\<close>) is a parameter, collected in \<open>json_crate\<close>: the fields of an object as the raw text of
  their values, the elements of an array as raw texts, numbers and strings, and the rendered error for a value that is not an
  array (\<open>json_seq_error\<close>, with the text of \<open>Visitor::expecting\<close>), which may quote the value. A raw value is the text of one well-formed
  JSON value, so a deserializer on it has nothing left after that value. \<open>connect_limits\<close> holds the constants of the crate
  \<open>radroots_nostr_connect\<close>. A raw text is a Rust \<open>str\<close>, a list of UTF-8 bytes.
\<close>

section \<open>Third-party code\<close>

record raw_event =
  re_id :: "nat list"
  re_pubkey :: "nat list"
  re_created_at :: "nat list"
  re_kind :: "nat list"
  re_tags :: "nat list"
  re_content :: "nat list"
  re_sig :: "nat list"

record raw_request =
  rr_id :: "nat list"
  rr_method :: "nat list"
  rr_params :: "nat list"

record json_crate =
  json_event :: "nat list \<Rightarrow> raw_event option"
  json_request :: "nat list \<Rightarrow> raw_request option"
  json_elements :: "nat list \<Rightarrow> nat list list option"
  json_seq_error :: "string \<Rightarrow> nat list \<Rightarrow> string"
  json_u64 :: "nat list \<Rightarrow> nat option"
  json_string :: "nat list \<Rightarrow> string option"

record connect_limits =
  REQUEST_ID_MAX_BYTES :: nat
  REQUEST_PARAM_COUNT_MAX :: nat
  REQUEST_PARAM_MAX_BYTES :: nat
  REQUEST_PARAMS_MAX_BYTES :: nat
  METHOD_MAX_BYTES :: nat

section \<open>UTF-8\<close>

text \<open>\<open>str::from_utf8\<close>: the validity of a byte sequence by its lead bytes, without overlong forms, surrogates or values above U+10FFFF.\<close>

abbreviation continuation :: "nat \<Rightarrow> bool" where
  "continuation b \<equiv> 0x80 \<le> b \<and> b \<le> 0xBF"

fun utf8_check :: "nat list \<Rightarrow> bool" where
  "utf8_check [] = True"
| "utf8_check (a # s) =
     (if a < 0x80 then utf8_check s
      else if 0xC2 \<le> a \<and> a \<le> 0xDF then (case s of b # s' \<Rightarrow> continuation b \<and> utf8_check s' | _ \<Rightarrow> False)
      else if 0xE0 \<le> a \<and> a \<le> 0xEF then (case s of b # c # s' \<Rightarrow>
          (if a = 0xE0 then 0xA0 \<le> b \<and> b \<le> 0xBF else if a = 0xED then 0x80 \<le> b \<and> b \<le> 0x9F else continuation b)
          \<and> continuation c \<and> utf8_check s' | _ \<Rightarrow> False)
      else if 0xF0 \<le> a \<and> a \<le> 0xF4 then (case s of b # c # d # s' \<Rightarrow>
          (if a = 0xF0 then 0x90 \<le> b \<and> b \<le> 0xBF else if a = 0xF4 then 0x80 \<le> b \<and> b \<le> 0x8F else continuation b)
          \<and> continuation c \<and> continuation d \<and> utf8_check s' | _ \<Rightarrow> False)
      else False)"

definition from_utf8 :: "bytes \<Rightarrow> nat list option" where
  "from_utf8 bs = (let ns = map unat bs in if utf8_check ns then Some ns else None)"

section \<open>The scanner of JSON strings\<close>

definition byte_at :: "nat list \<Rightarrow> nat \<Rightarrow> nat option" where
  "byte_at bs i = (if i < length bs then Some (bs ! i) else None)"

definition byte_range :: "nat list \<Rightarrow> nat \<Rightarrow> nat \<Rightarrow> nat list option" where
  "byte_range bs a b = (if a \<le> b \<and> b \<le> length bs then Some (take (b - a) (drop a bs)) else None)"

definition hex_digit :: "nat \<Rightarrow> nat option" where
  "hex_digit b = (if 48 \<le> b \<and> b \<le> 57 then Some (b - 48) else if 97 \<le> b \<and> b \<le> 102 then Some (b - 97 + 10)
     else if 65 \<le> b \<and> b \<le> 70 then Some (b - 65 + 10) else None)"

fun hex_fold :: "nat \<Rightarrow> nat list \<Rightarrow> nat option" where
  "hex_fold value [] = Some value"
| "hex_fold value (b # bs) = (case hex_digit b of None \<Rightarrow> None | Some digit \<Rightarrow>
     if value * 16 \<le> u16_max \<and> value * 16 + digit \<le> u16_max then hex_fold (value * 16 + digit) bs else None)"

definition parse_hex_u16 :: "nat list \<Rightarrow> nat option" where
  "parse_hex_u16 bs = (if length bs \<noteq> 4 then None else hex_fold 0 bs)"

definition is_scalar :: "nat \<Rightarrow> bool" where
  "is_scalar c \<longleftrightarrow> c < 0xD800 \<or> (0xE000 \<le> c \<and> c \<le> 0x10FFFF)"

definition len_utf8 :: "nat \<Rightarrow> nat" where
  "len_utf8 c = (if c < 0x80 then 1 else if c < 0x800 then 2 else if c < 0x10000 then 3 else 4)"

text \<open>\<open>raw.get(index..end)?.chars().next()?.len_utf8()\<close> on valid UTF-8: None inside a character, else its width.\<close>

definition char_width_at :: "nat \<Rightarrow> nat option" where
  "char_width_at b = (if 128 \<le> b \<and> b < 192 then None else if b < 128 then Some 1 else if b < 224 then Some 2
     else if b < 240 then Some 3 else Some 4)"

definition surrogate_scalar :: "nat \<Rightarrow> nat \<Rightarrow> nat" where
  "surrogate_scalar first second = 0x10000 + (first - 0xD800) * 1024 + (second - 0xDC00)"

text \<open>A unicode escape: the text after \<open>\u\<close> at \<open>index\<close>; the new index and the scalar.\<close>

definition unicode_escape :: "nat list \<Rightarrow> nat \<Rightarrow> (nat \<times> nat) option" where
  "unicode_escape bs index =
     Option.bind (Option.bind (byte_range bs (index + 1) (index + 5)) parse_hex_u16) (\<lambda>first.
     if 0xD800 \<le> first \<and> first \<le> 0xDBFF then
       (if byte_range bs (index + 5) (index + 7) \<noteq> Some [92, 117] then None else
        Option.bind (Option.bind (byte_range bs (index + 7) (index + 11)) parse_hex_u16) (\<lambda>second.
        if \<not> (0xDC00 \<le> second \<and> second \<le> 0xDFFF) then None
        else Some (index + 11, surrogate_scalar first second)))
     else if 0xDC00 \<le> first \<and> first \<le> 0xDFFF then None
     else Some (index + 5, first))"

text \<open>One iteration of the loop: the new index and length.\<close>

definition scan_step :: "nat list \<Rightarrow> nat \<Rightarrow> nat \<Rightarrow> (nat \<times> nat) option" where
  "scan_step bs index len =
     (let byte = bs ! index in
      if byte = 92 then
        Option.bind (byte_at bs (index + 1)) (\<lambda>escaped.
        if escaped \<in> {34, 92, 47, 98, 102, 110, 114, 116} then
          Option.bind (checked_add_u64 len 1) (\<lambda>len'. Some (index + 2, len'))
        else if escaped = 117 then
          Option.bind (unicode_escape bs (index + 1)) (\<lambda>(index', scalar).
          if \<not> is_scalar scalar then None else Option.bind (checked_add_u64 len (len_utf8 scalar)) (\<lambda>len'. Some (index', len')))
        else None)
      else if byte < 128 then
        (if byte < 32 \<or> byte = 34 then None else Option.bind (checked_add_u64 len 1) (\<lambda>len'. Some (index + 1, len')))
      else Option.bind (char_width_at byte) (\<lambda>width. Option.bind (checked_add_u64 len width) (\<lambda>len'. Some (index + width, len'))))"

lemma scan_step_advances: "scan_step bs index len = Some (index', len') \<Longrightarrow> index < index'"
  by (auto simp: scan_step_def Let_def unicode_escape_def char_width_at_def bind_eq_Some_conv split: if_splits)

function scan_loop :: "nat list \<Rightarrow> nat \<Rightarrow> nat \<Rightarrow> nat option" where
  "scan_loop bs index len =
     (if index < length bs - 1 then
        (case scan_step bs index len of None \<Rightarrow> None | Some (index', len') \<Rightarrow> scan_loop bs index' len')
      else if index = length bs - 1 then Some len else None)"
  by pat_completeness auto
termination
  by (relation "measure (\<lambda>(bs, index, len). length bs - index)") (auto dest: scan_step_advances)

declare scan_loop.simps [simp del]

definition decoded_json_string_utf8_bytes :: "nat list \<Rightarrow> nat option" where
  "decoded_json_string_utf8_bytes bs =
     (if length bs < 2 \<or> byte_at bs 0 \<noteq> Some 34 \<or> byte_at bs (length bs - 1) \<noteq> Some 34 then None
      else scan_loop bs 1 0)"

section \<open>Limits and errors\<close>

definition MYC_NIP46_EVENT_ID_MAX_BYTES :: nat where "MYC_NIP46_EVENT_ID_MAX_BYTES = 64"
definition MYC_NIP46_PUBLIC_KEY_MAX_BYTES :: nat where "MYC_NIP46_PUBLIC_KEY_MAX_BYTES = 64"
definition MYC_NIP46_SIGNATURE_MAX_BYTES :: nat where "MYC_NIP46_SIGNATURE_MAX_BYTES = 128"

record MycNip46AdmissionLimits =
  event_wire_bytes :: nat
  event_content_bytes :: nat
  event_tag_count :: nat
  event_tag_total_elements :: nat
  event_tag_element_bytes :: nat
  event_tag_total_bytes :: nat
  decrypted_plaintext_bytes :: nat

datatype MycNip46AdmissionErrorKind = InvalidLimits | EmptyEvent | EventTooLarge | InvalidEventUtf8 | AdmissionMalformedEvent
  | EventIdentifierTooLarge | EventContentTooLarge | TooManyTags | TooManyTagElements | TagElementTooLarge | TagsTooLarge
  | EmptyPlaintext | PlaintextTooLarge | InvalidPlaintextUtf8 | MalformedRequest | RequestIdentifierTooLarge
  | RequestMethodTooLarge | TooManyRequestParameters | RequestParameterTooLarge | RequestParametersTooLarge

text \<open>\<open>Value::as_u64\<close> of the value at a pointer, if it is positive.\<close>

definition config_limit :: "(string \<Rightarrow> nat option) \<Rightarrow> string \<Rightarrow> (MycNip46AdmissionErrorKind, nat) result" where
  "config_limit u64_at pointer = (case u64_at pointer of None \<Rightarrow> Inl InvalidLimits
     | Some value \<Rightarrow> if 0 < value \<and> value \<le> u64_max then Inr value else Inl InvalidLimits)"

definition limits_from_config :: "(string \<Rightarrow> nat option) \<Rightarrow> (MycNip46AdmissionErrorKind, MycNip46AdmissionLimits) result" where
  "limits_from_config u64_at =
     r_bind (config_limit u64_at ''/resource_limits/events/wire_bytes'') (\<lambda>wire.
     r_bind (config_limit u64_at ''/resource_limits/events/content_bytes'') (\<lambda>content.
     r_bind (config_limit u64_at ''/resource_limits/events/tag_count'') (\<lambda>count.
     r_bind (config_limit u64_at ''/resource_limits/events/tag_total_elements'') (\<lambda>elements.
     r_bind (config_limit u64_at ''/resource_limits/events/tag_element_bytes'') (\<lambda>element_bytes.
     r_bind (config_limit u64_at ''/resource_limits/events/tag_total_bytes'') (\<lambda>total_bytes.
     r_bind (config_limit u64_at ''/resource_limits/events/decrypted_plaintext_bytes'') (\<lambda>plaintext.
     Inr \<lparr>event_wire_bytes = wire, event_content_bytes = content, event_tag_count = count, event_tag_total_elements = elements,
       event_tag_element_bytes = element_bytes, event_tag_total_bytes = total_bytes, decrypted_plaintext_bytes = plaintext\<rparr>)))))))"

section \<open>Measuring arrays\<close>

record Measurement =
  ms_count :: nat
  ms_elements :: nat
  ms_bytes :: nat

text \<open>
  An error of the deserializer is its rendered text: the sentinel of \<open>de::Error::custom\<close>, or what \<open>serde_json\<close> renders. The
  position that \<open>serde_json\<close> appends (line and column) is left out: it has a space and digits, a sentinel has neither.
  The classifiers look for the sentinels in the text, in this order.
\<close>

type_synonym DeError = string

definition TAG_COUNT_SENTINEL :: string where "TAG_COUNT_SENTINEL = ''myc-tag-count-limit''"
definition TAG_ELEMENT_COUNT_SENTINEL :: string where "TAG_ELEMENT_COUNT_SENTINEL = ''myc-tag-element-count-limit''"
definition TAG_ELEMENT_BYTES_SENTINEL :: string where "TAG_ELEMENT_BYTES_SENTINEL = ''myc-tag-element-bytes-limit''"
definition TAG_TOTAL_BYTES_SENTINEL :: string where "TAG_TOTAL_BYTES_SENTINEL = ''myc-tag-total-bytes-limit''"
definition PARAM_COUNT_SENTINEL :: string where "PARAM_COUNT_SENTINEL = ''myc-param-count-limit''"
definition PARAM_BYTES_SENTINEL :: string where "PARAM_BYTES_SENTINEL = ''myc-param-bytes-limit''"
definition PARAM_TOTAL_BYTES_SENTINEL :: string where "PARAM_TOTAL_BYTES_SENTINEL = ''myc-param-total-bytes-limit''"

definition classify_tag_error :: "DeError \<Rightarrow> MycNip46AdmissionErrorKind" where
  "classify_tag_error rendered =
     (if sublist TAG_COUNT_SENTINEL rendered then TooManyTags
      else if sublist TAG_ELEMENT_COUNT_SENTINEL rendered then TooManyTagElements
      else if sublist TAG_ELEMENT_BYTES_SENTINEL rendered then TagElementTooLarge
      else if sublist TAG_TOTAL_BYTES_SENTINEL rendered then TagsTooLarge
      else AdmissionMalformedEvent)"

definition classify_param_error :: "DeError \<Rightarrow> MycNip46AdmissionErrorKind" where
  "classify_param_error rendered =
     (if sublist PARAM_COUNT_SENTINEL rendered then TooManyRequestParameters
      else if sublist PARAM_BYTES_SENTINEL rendered then RequestParameterTooLarge
      else if sublist PARAM_TOTAL_BYTES_SENTINEL rendered then RequestParametersTooLarge
      else MalformedRequest)"

text \<open>\<open>de::Error::invalid_type\<close> of \<open>StringLengthSeed\<close>.\<close>

definition NON_STRING_ERROR :: DeError where "NON_STRING_ERROR = ''invalid type: non-string, expected a JSON string''"

definition string_length_seed :: "nat \<Rightarrow> DeError \<Rightarrow> nat list \<Rightarrow> (DeError, nat) result" where
  "string_length_seed maximum sentinel raw = r_bind (ok_or NON_STRING_ERROR (decoded_json_string_utf8_bytes raw)) (\<lambda>len.
     if maximum < len then Inl sentinel else Inr len)"

text \<open>\<open>TagVisitor::visit_seq\<close>: the elements still to come are the rest of the list.\<close>

fun visit_tag :: "nat \<Rightarrow> nat \<Rightarrow> Measurement \<Rightarrow> nat list list \<Rightarrow> (DeError, Measurement) result" where
  "visit_tag maximum_elements maximum_element_bytes m [] = Inr m"
| "visit_tag maximum_elements maximum_element_bytes m (raw # rest) =
     (if ms_elements m < maximum_elements then
        r_bind (string_length_seed maximum_element_bytes TAG_ELEMENT_BYTES_SENTINEL raw) (\<lambda>len.
        r_bind (ok_or TAG_TOTAL_BYTES_SENTINEL (checked_add_u64 (ms_bytes m) len)) (\<lambda>total.
        visit_tag maximum_elements maximum_element_bytes (m\<lparr>ms_elements := ms_elements m + 1, ms_bytes := total\<rparr>) rest))
      else Inl TAG_ELEMENT_COUNT_SENTINEL)"

definition tag_seed :: "json_crate \<Rightarrow> nat \<Rightarrow> nat \<Rightarrow> nat list \<Rightarrow> (DeError, Measurement) result" where
  "tag_seed js maximum_elements maximum_element_bytes raw =
     r_bind (ok_or (json_seq_error js ''a bounded Nostr tag'' raw) (json_elements js raw)) (\<lambda>elements.
     visit_tag maximum_elements maximum_element_bytes \<lparr>ms_count = 1, ms_elements = 0, ms_bytes = 0\<rparr> elements)"

fun visit_tags :: "json_crate \<Rightarrow> MycNip46AdmissionLimits \<Rightarrow> Measurement \<Rightarrow> nat list list \<Rightarrow> (DeError, Measurement) result" where
  "visit_tags js limits m [] =
     (if ms_count m < event_tag_count limits \<and> checked_sub (event_tag_total_elements limits) (ms_elements m) = None
      then Inl TAG_ELEMENT_COUNT_SENTINEL else Inr m)"
| "visit_tags js limits m (raw # rest) =
     (if ms_count m < event_tag_count limits then
        r_bind (ok_or TAG_ELEMENT_COUNT_SENTINEL (checked_sub (event_tag_total_elements limits) (ms_elements m))) (\<lambda>remaining.
        r_bind (tag_seed js remaining (event_tag_element_bytes limits) raw) (\<lambda>tag.
        r_bind (ok_or TAG_ELEMENT_COUNT_SENTINEL (checked_add_u64 (ms_elements m) (ms_elements tag))) (\<lambda>elements.
        r_bind (ok_or TAG_TOTAL_BYTES_SENTINEL (checked_add_u64 (ms_bytes m) (ms_bytes tag))) (\<lambda>total.
        if event_tag_total_bytes limits < total then Inl TAG_TOTAL_BYTES_SENTINEL
        else visit_tags js limits \<lparr>ms_count = ms_count m + 1, ms_elements = elements, ms_bytes = total\<rparr> rest))))
      else Inl TAG_COUNT_SENTINEL)"

definition measure_tags :: "json_crate \<Rightarrow> nat list \<Rightarrow> MycNip46AdmissionLimits \<Rightarrow> (MycNip46AdmissionErrorKind, Measurement) result" where
  "measure_tags js raw limits = map_err classify_tag_error
     (r_bind (ok_or (json_seq_error js ''a bounded array of Nostr tags'' raw) (json_elements js raw)) (\<lambda>tags.
        visit_tags js limits \<lparr>ms_count = 0, ms_elements = 0, ms_bytes = 0\<rparr> tags))"

fun visit_strings :: "nat \<Rightarrow> nat \<Rightarrow> nat \<Rightarrow> Measurement \<Rightarrow> nat list list \<Rightarrow> (DeError, Measurement) result" where
  "visit_strings maximum_count maximum_element_bytes maximum_total_bytes m [] = Inr m"
| "visit_strings maximum_count maximum_element_bytes maximum_total_bytes m (raw # rest) =
     (if ms_count m < maximum_count then
        r_bind (string_length_seed maximum_element_bytes PARAM_BYTES_SENTINEL raw) (\<lambda>len.
        r_bind (ok_or PARAM_TOTAL_BYTES_SENTINEL (checked_add_u64 (ms_bytes m) len)) (\<lambda>total.
        if maximum_total_bytes < total then Inl PARAM_TOTAL_BYTES_SENTINEL
        else visit_strings maximum_count maximum_element_bytes maximum_total_bytes
          \<lparr>ms_count = ms_count m + 1, ms_elements = ms_count m + 1, ms_bytes = total\<rparr> rest))
      else Inl PARAM_COUNT_SENTINEL)"

definition measure_parameters :: "json_crate \<Rightarrow> connect_limits \<Rightarrow> nat list \<Rightarrow> (MycNip46AdmissionErrorKind, Measurement) result" where
  "measure_parameters js cl raw = map_err classify_param_error
     (r_bind (ok_or (json_seq_error js ''a bounded array of strings'' raw) (json_elements js raw)) (\<lambda>params.
        visit_strings (REQUEST_PARAM_COUNT_MAX cl) (REQUEST_PARAM_MAX_BYTES cl) (REQUEST_PARAMS_MAX_BYTES cl)
          \<lparr>ms_count = 0, ms_elements = 0, ms_bytes = 0\<rparr> params))"

section \<open>Admission\<close>

definition validate_bounded_string ::
    "nat list \<Rightarrow> nat \<Rightarrow> MycNip46AdmissionErrorKind \<Rightarrow> MycNip46AdmissionErrorKind \<Rightarrow> (MycNip46AdmissionErrorKind, nat) result" where
  "validate_bounded_string raw maximum too_large malformed =
     r_bind (ok_or malformed (decoded_json_string_utf8_bytes raw)) (\<lambda>len. if maximum < len then Inl too_large else Inr len)"

definition decode_bounded_string ::
    "json_crate \<Rightarrow> nat list \<Rightarrow> nat \<Rightarrow> MycNip46AdmissionErrorKind \<Rightarrow> MycNip46AdmissionErrorKind \<Rightarrow> (MycNip46AdmissionErrorKind, string) result" where
  "decode_bounded_string js raw maximum too_large malformed =
     r_bind (validate_bounded_string raw maximum too_large malformed) (\<lambda>_. ok_or malformed (json_string js raw))"

record MycBoundedNip46Event =
  be_original :: bytes
  be_encrypted_content :: string
  be_tag_count :: nat
  be_tag_element_count :: nat
  be_tag_bytes :: nat

record MycBoundedNip46Request =
  br_plaintext :: bytes
  br_request_id_bytes :: nat
  br_method_bytes :: nat
  br_parameter_count :: nat
  br_parameter_bytes :: nat

definition admit_myc_nip46_event ::
    "json_crate \<Rightarrow> MycNip46AdmissionLimits \<Rightarrow> bytes \<Rightarrow> (MycNip46AdmissionErrorKind, MycBoundedNip46Event) result" where
  "admit_myc_nip46_event js limits original =
     (if original = [] then Inl EmptyEvent
      else if event_wire_bytes limits < length original then Inl EventTooLarge else
     r_bind (ok_or InvalidEventUtf8 (from_utf8 original)) (\<lambda>source.
     r_bind (ok_or AdmissionMalformedEvent (json_event js source)) (\<lambda>raw.
     r_bind (validate_bounded_string (re_id raw) MYC_NIP46_EVENT_ID_MAX_BYTES EventIdentifierTooLarge AdmissionMalformedEvent) (\<lambda>_.
     r_bind (validate_bounded_string (re_pubkey raw) MYC_NIP46_PUBLIC_KEY_MAX_BYTES EventIdentifierTooLarge AdmissionMalformedEvent) (\<lambda>_.
     r_bind (validate_bounded_string (re_sig raw) MYC_NIP46_SIGNATURE_MAX_BYTES EventIdentifierTooLarge AdmissionMalformedEvent) (\<lambda>_.
     r_bind (ok_or AdmissionMalformedEvent (json_u64 js (re_created_at raw))) (\<lambda>_.
     r_bind (ok_or AdmissionMalformedEvent (json_u64 js (re_kind raw))) (\<lambda>_.
     r_bind (decode_bounded_string js (re_content raw) (event_content_bytes limits) EventContentTooLarge AdmissionMalformedEvent) (\<lambda>encrypted_content.
     r_bind (measure_tags js (re_tags raw) limits) (\<lambda>tags.
     Inr \<lparr>be_original = original, be_encrypted_content = encrypted_content, be_tag_count = ms_count tags,
       be_tag_element_count = ms_elements tags, be_tag_bytes = ms_bytes tags\<rparr>))))))))))"

definition admit_myc_nip46_request ::
    "json_crate \<Rightarrow> connect_limits \<Rightarrow> MycNip46AdmissionLimits \<Rightarrow> bytes \<Rightarrow> (MycNip46AdmissionErrorKind, MycBoundedNip46Request) result" where
  "admit_myc_nip46_request js cl limits plaintext =
     (if plaintext = [] then Inl EmptyPlaintext
      else if decrypted_plaintext_bytes limits < length plaintext then Inl PlaintextTooLarge else
     r_bind (ok_or InvalidPlaintextUtf8 (from_utf8 plaintext)) (\<lambda>source.
     r_bind (ok_or MalformedRequest (json_request js source)) (\<lambda>raw.
     r_bind (validate_bounded_string (rr_id raw) (REQUEST_ID_MAX_BYTES cl) RequestIdentifierTooLarge MalformedRequest) (\<lambda>request_id_bytes.
     r_bind (validate_bounded_string (rr_method raw) (METHOD_MAX_BYTES cl) RequestMethodTooLarge MalformedRequest) (\<lambda>method_bytes.
     r_bind (measure_parameters js cl (rr_params raw)) (\<lambda>parameters.
     Inr \<lparr>br_plaintext = plaintext, br_request_id_bytes = request_id_bytes, br_method_bytes = method_bytes,
       br_parameter_count = ms_count parameters, br_parameter_bytes = ms_bytes parameters\<rparr>))))))"

end
