(* ===== verification/Nip46_Scanner.thy ===== *)
theory Nip46_Scanner
  imports Nip46_Input
begin

text \<open>
  The scanner of JSON strings against the grammar of RFC 8259: a string is a quote, a sequence of items (a plain
  character, a short escape, a unicode escape, a pair of surrogate escapes) and a quote. The grammar shares nothing with the
  scanner: hexadecimal digits are a table, scalars and surrogates are those of the Unicode standard. On the UTF-8 bytes of any
  text the index loop accepts exactly the strings of the grammar and returns the UTF-8 length of what they denote.
\<close>

section \<open>UTF-8\<close>

definition utf8_encode :: "nat \<Rightarrow> nat list" where
  "utf8_encode c = (if c < 0x80 then [c]
     else if c < 0x800 then [192 + c div 64, 128 + c mod 64]
     else if c < 0x10000 then [224 + c div 4096, 128 + c div 64 mod 64, 128 + c mod 64]
     else [240 + c div 262144, 128 + c div 4096 mod 64, 128 + c div 64 mod 64, 128 + c mod 64])"

abbreviation utf8 :: "nat list \<Rightarrow> nat list" where
  "utf8 cs \<equiv> concat (map utf8_encode cs)"

lemma utf8_encode_length: "length (utf8_encode c) = len_utf8 c"
  by (simp add: utf8_encode_def len_utf8_def)

lemma utf8_encode_ascii: "c < 128 \<Longrightarrow> utf8_encode c = [c]"
  by (simp add: utf8_encode_def)

lemma utf8_encode_head:
  assumes "is_scalar c" "128 \<le> c"
  obtains b bs where "utf8_encode c = b # bs" "192 \<le> b" "char_width_at b = Some (len_utf8 c)"
proof -
  consider (two) "c < 0x800" | (three) "0x800 \<le> c" "c < 0x10000" | (four) "0x10000 \<le> c" by linarith
  then show ?thesis
  proof cases
    case two
    then have "c div 64 < 32" by simp
    with two assms(2) show ?thesis by (intro that) (auto simp: utf8_encode_def len_utf8_def char_width_at_def)
  next
    case three
    then have "c div 4096 < 16" by simp
    with three show ?thesis by (intro that) (auto simp: utf8_encode_def len_utf8_def char_width_at_def)
  next
    case four
    then show ?thesis by (intro that) (auto simp: utf8_encode_def len_utf8_def char_width_at_def)
  qed
qed

lemma utf8_encode_bytes: "is_scalar c \<Longrightarrow> 128 \<le> c \<Longrightarrow> b \<in> set (utf8_encode c) \<Longrightarrow> 128 \<le> b"
  by (auto simp: utf8_encode_def split: if_splits)

section \<open>The grammar\<close>

text \<open>The hexadecimal digits of either case with their values, and four of them.\<close>

definition hex_value :: "nat \<Rightarrow> nat option" where
  "hex_value = map_of (zip (map of_char ''0123456789abcdefABCDEF'') ([0..<16] @ [10..<16]))"

fun hex_quad :: "nat list \<Rightarrow> nat option" where
  "hex_quad [a, b, c, d] = (case (hex_value a, hex_value b, hex_value c, hex_value d) of
     (Some w, Some x, Some y, Some z) \<Rightarrow> Some (0x1000 * w + 0x100 * x + 0x10 * y + z) | _ \<Rightarrow> None)"
| "hex_quad ds = None"

definition unicode_scalar :: "nat \<Rightarrow> bool" where
  "unicode_scalar c \<longleftrightarrow> c \<le> 0x10FFFF \<and> \<not> (0xD800 \<le> c \<and> c \<le> 0xDFFF)"

datatype json_item = Plain nat | Escaped nat | Unicode "nat list" | Surrogates "nat list" "nat list"

fun item_text :: "json_item \<Rightarrow> nat list" where
  "item_text (Plain c) = [c]"
| "item_text (Escaped e) = [92, e]"
| "item_text (Unicode ds) = 92 # 117 # ds"
| "item_text (Surrogates ds es) = 92 # 117 # ds @ 92 # 117 # es"

fun item_ok :: "json_item \<Rightarrow> bool" where
  "item_ok (Plain c) = (32 \<le> c \<and> c \<noteq> 34 \<and> c \<noteq> 92)"
| "item_ok (Escaped e) = (e \<in> {34, 92, 47, 98, 102, 110, 114, 116})"
| "item_ok (Unicode ds) = (case hex_quad ds of None \<Rightarrow> False | Some v \<Rightarrow> unicode_scalar v)"
| "item_ok (Surrogates ds es) = (case (hex_quad ds, hex_quad es) of
     (Some v, Some w) \<Rightarrow> 0xD800 \<le> v \<and> v \<le> 0xDBFF \<and> 0xDC00 \<le> w \<and> w \<le> 0xDFFF | _ \<Rightarrow> False)"

definition json_string_of :: "json_item list \<Rightarrow> nat list" where
  "json_string_of items = 34 # concat (map item_text items) @ [34]"

section \<open>The scanner's digits are those of the grammar\<close>

lemma unicode_scalar_eq: "unicode_scalar c \<longleftrightarrow> is_scalar c"
  by (auto simp: unicode_scalar_def is_scalar_def)

lemma hex_digit_value: "hex_digit d = hex_value d"
proof (cases "d < 103")
  case True
  have "\<forall>d\<in>set [0..<103]. hex_digit d = hex_value d" by code_simp
  with True show ?thesis by simp
next
  case False
  then have "d \<notin> set (map of_char ''0123456789abcdefABCDEF'')" by simp
  then have "hex_value d = None" unfolding hex_value_def by (subst map_of_zip_is_None) simp_all
  with False show ?thesis by (simp add: hex_digit_def)
qed

lemma hex_digit_bound: "hex_digit d = Some x \<Longrightarrow> x < 16"
  by (auto simp: hex_digit_def split: if_splits)

lemma parse_hex_quad: "parse_hex_u16 ds = hex_quad ds"
proof (cases "length ds = 4")
  case True
  then obtain a b c d where ds: "ds = [a, b, c, d]" by (auto simp: length_Suc_conv numeral_eq_Suc)
  show ?thesis
    unfolding ds hex_quad.simps hex_digit_value [symmetric]
    by (auto simp: parse_hex_u16_def u16_max_def split: option.splits dest!: hex_digit_bound)
next
  case False
  then show ?thesis by (cases ds rule: hex_quad.cases) (simp_all add: parse_hex_u16_def)
qed

text \<open>The items in terms of the scanner, and the width the scanner counts for them.\<close>

lemma item_ok_scanner:
  "item_ok (Unicode ds) \<longleftrightarrow> (\<exists>v. parse_hex_u16 ds = Some v \<and> is_scalar v)"
  "item_ok (Surrogates ds es) \<longleftrightarrow> (\<exists>v w. parse_hex_u16 ds = Some v \<and> parse_hex_u16 es = Some w
     \<and> 0xD800 \<le> v \<and> v \<le> 0xDBFF \<and> 0xDC00 \<le> w \<and> w \<le> 0xDFFF)"
  by (auto simp: parse_hex_quad unicode_scalar_eq split: option.splits)

declare item_ok.simps(3,4) [simp del] item_ok_scanner [simp]

fun item_width :: "json_item \<Rightarrow> nat" where
  "item_width (Plain c) = len_utf8 c"
| "item_width (Escaped e) = 1"
| "item_width (Unicode ds) = len_utf8 (the (parse_hex_u16 ds))"
| "item_width (Surrogates ds es) = 4"

lemma parse_hex_u16_bound: "parse_hex_u16 ds = Some v \<Longrightarrow> v \<le> 0xFFFF \<and> length ds = 4 \<and> (\<forall>d\<in>set ds. d < 128)"
proof -
  have "hex_fold a ds = Some v \<Longrightarrow> (a \<le> u16_max \<longrightarrow> v \<le> u16_max) \<and> (\<forall>d\<in>set ds. d < 128)" for a
    by (induction a ds rule: hex_fold.induct) (auto simp: hex_digit_def split: option.splits if_splits)
  from this [of 0] show "parse_hex_u16 ds = Some v \<Longrightarrow> v \<le> 0xFFFF \<and> length ds = 4 \<and> (\<forall>d\<in>set ds. d < 128)"
    by (auto simp: parse_hex_u16_def u16_max_def split: if_splits)
qed

section \<open>A scanner on characters\<close>

text \<open>The characters after the opening quote, up to and including the closing one.\<close>

function chars_scan :: "nat list \<Rightarrow> nat option" where
  "chars_scan [] = None"
| "chars_scan (c # cs) =
     (if cs = [] then (if c = 34 then Some 0 else None)
      else if c = 92 then
        (if hd cs \<in> {34, 92, 47, 98, 102, 110, 114, 116} then map_option (\<lambda>n. n + 1) (chars_scan (drop 1 cs))
         else if hd cs = 117 then
           Option.bind (parse_hex_u16 (take 4 (drop 1 cs))) (\<lambda>v.
           if 0xD800 \<le> v \<and> v \<le> 0xDBFF then
             (if take 2 (drop 5 cs) \<noteq> [92, 117] then None else
              Option.bind (parse_hex_u16 (take 4 (drop 7 cs))) (\<lambda>w.
              if 0xDC00 \<le> w \<and> w \<le> 0xDFFF then map_option (\<lambda>n. n + 4) (chars_scan (drop 11 cs)) else None))
           else if is_scalar v then map_option (\<lambda>n. n + len_utf8 v) (chars_scan (drop 5 cs)) else None)
         else None)
      else if c < 32 \<or> c = 34 then None
      else map_option (\<lambda>n. n + len_utf8 c) (chars_scan cs))"
  by pat_completeness auto
termination by (relation "measure length") auto

declare chars_scan.simps(2) [simp del]

lemma chars_scan_one: "chars_scan [c] = (if c = 34 then Some 0 else None)"
  by (simp add: chars_scan.simps)

lemma chars_scan_items: "\<forall>i\<in>set items. item_ok i \<Longrightarrow>
    chars_scan (concat (map item_text items) @ [34]) = Some (sum_list (map item_width items))"
proof (induction items)
  case Nil
  show ?case by (simp add: chars_scan_one)
next
  case (Cons i items)
  let ?rest = "concat (map item_text items) @ [34]"
  have IH: "chars_scan ?rest = Some (sum_list (map item_width items))" using Cons by simp
  have ok: "item_ok i" using Cons.prems by simp
  show ?case
  proof (cases i)
    case (Unicode ds)
    then obtain v where v: "parse_hex_u16 ds = Some v" "is_scalar v" using ok by auto
    have "length ds = 4" using parse_hex_u16_bound [OF v(1)] by simp
    moreover have "\<not> (0xD800 \<le> v \<and> v \<le> 0xDBFF)" using v(2) by (auto simp: is_scalar_def)
    ultimately show ?thesis using v IH Unicode by (auto simp: chars_scan.simps)
  next
    case (Surrogates ds es)
    then obtain v w where v: "parse_hex_u16 ds = Some v" "parse_hex_u16 es = Some w" "0xD800 \<le> v" "v \<le> 0xDBFF" "0xDC00 \<le> w" "w \<le> 0xDFFF"
      using ok by auto
    have "length ds = 4" "length es = 4" using parse_hex_u16_bound v(1,2) by blast+
    then show ?thesis using v IH Surrogates by (simp add: chars_scan.simps)
  qed (use ok IH in \<open>auto simp: chars_scan.simps\<close>)
qed

lemma split_three: "take m xs @ take n (drop m xs) @ drop (m + n) xs = xs"
  by (metis append_take_drop_id drop_drop add.commute)

lemma chars_scan_grammar:
  "chars_scan cs = Some n \<Longrightarrow> \<exists>items. (\<forall>i\<in>set items. item_ok i) \<and> cs = concat (map item_text items) @ [34] \<and> n = sum_list (map item_width items)"
proof (induction cs arbitrary: n rule: chars_scan.induct)
  case 1
  then show ?case by simp
next
  case (2 c cs)
  have extend: "\<exists>items. (\<forall>i\<in>set items. item_ok i) \<and> c # cs = concat (map item_text items) @ [34] \<and> n = sum_list (map item_width items)"
    if a: "item_ok i" "c # cs = item_text i @ rest" "n = m + item_width i"
      "\<exists>items. (\<forall>i\<in>set items. item_ok i) \<and> rest = concat (map item_text items) @ [34] \<and> m = sum_list (map item_width items)" for i rest m
  proof -
    obtain items where "\<forall>i\<in>set items. item_ok i" "rest = concat (map item_text items) @ [34]" "m = sum_list (map item_width items)"
      using a(4) by blast
    then show ?thesis using a(1-3) by (intro exI [of _ "i # items"]) simp
  qed
  consider (last) "cs = []" | (short) "cs \<noteq> []" "c = 92" "hd cs \<in> {34, 92, 47, 98, 102, 110, 114, 116}"
    | (uni) "cs \<noteq> []" "c = 92" "hd cs = 117" | (bad) "cs \<noteq> []" "c = 92" "hd cs \<notin> {34, 92, 47, 98, 102, 110, 114, 116}" "hd cs \<noteq> 117"
    | (plain) "cs \<noteq> []" "c \<noteq> 92" by blast
  then show ?case
  proof cases
    case last
    then show ?thesis using "2.prems" by (intro exI [of _ "[]"]) (auto simp: chars_scan_one split: if_splits)
  next
    case short
    then obtain m where m: "chars_scan (drop 1 cs) = Some m" "n = m + 1" using "2.prems" by (auto simp: chars_scan.simps)
    have "c # cs = item_text (Escaped (hd cs)) @ drop 1 cs" using short by (cases cs) auto
    then show ?thesis using extend [of "Escaped (hd cs)" "drop 1 cs" m] "2.IH"(1) [OF short m(1)] short m(2) by simp
  next
    case uni
    have h: "hd cs \<notin> {34, 92, 47, 98, 102, 110, 114, 116}" using uni(3) by simp
    obtain v where v: "parse_hex_u16 (take 4 (drop 1 cs)) = Some v"
      using "2.prems" uni by (auto simp: chars_scan.simps bind_eq_Some_conv split: if_splits)
    have l: "length (take 4 (drop 1 cs)) = 4" using parse_hex_u16_bound [OF v] by simp
    have cs: "cs = 117 # take 4 (drop 1 cs) @ drop 5 cs"
      using uni(1,3) split_three [of 1 cs 4] by (cases cs) simp_all
    have body: "chars_scan (c # cs) = (if 0xD800 \<le> v \<and> v \<le> 0xDBFF then
             (if take 2 (drop 5 cs) \<noteq> [92, 117] then None else
              Option.bind (parse_hex_u16 (take 4 (drop 7 cs))) (\<lambda>w.
              if 0xDC00 \<le> w \<and> w \<le> 0xDFFF then map_option (\<lambda>n. n + 4) (chars_scan (drop 11 cs)) else None))
           else if is_scalar v then map_option (\<lambda>n. n + len_utf8 v) (chars_scan (drop 5 cs)) else None)"
      using uni v by (simp add: chars_scan.simps)
    show ?thesis
    proof (cases "0xD800 \<le> v \<and> v \<le> 0xDBFF")
      case True
      then obtain w m where w: "take 2 (drop 5 cs) = [92, 117]" "parse_hex_u16 (take 4 (drop 7 cs)) = Some w" "0xDC00 \<le> w" "w \<le> 0xDFFF"
          "chars_scan (drop 11 cs) = Some m" "n = m + 4"
        using "2.prems" body by (auto simp: bind_eq_Some_conv split: if_splits)
      have "drop 5 cs = take 2 (drop 5 cs) @ take 4 (drop 7 cs) @ drop 11 cs"
        using split_three [of 2 "drop 5 cs" 4] by simp
      then have "c # cs = item_text (Surrogates (take 4 (drop 1 cs)) (take 4 (drop 7 cs))) @ drop 11 cs"
        using cs w(1) uni(2) by simp
      moreover have "\<exists>items. (\<forall>i\<in>set items. item_ok i) \<and> drop 11 cs = concat (map item_text items) @ [34] \<and> m = sum_list (map item_width items)"
        using "2.IH"(2) [OF uni(1,2) h uni(3) _ True _ _ _ w(5)] w v by blast
      ultimately show ?thesis using extend [of "Surrogates (take 4 (drop 1 cs)) (take 4 (drop 7 cs))" "drop 11 cs" m] v w True by auto
    next
      case False
      then obtain m where m: "is_scalar v" "chars_scan (drop 5 cs) = Some m" "n = m + len_utf8 v"
        using "2.prems" body by (auto split: if_splits)
      have "\<exists>items. (\<forall>i\<in>set items. item_ok i) \<and> drop 5 cs = concat (map item_text items) @ [34] \<and> m = sum_list (map item_width items)"
        using "2.IH"(3) [OF uni(1,2) h uni(3) _ False m(1,2)] v by blast
      then show ?thesis using extend [of "Unicode (take 4 (drop 1 cs))" "drop 5 cs" m] m v cs uni(2) by simp
    qed
  next
    case bad
    then show ?thesis using "2.prems" by (simp add: chars_scan.simps)
  next
    case plain
    then obtain m where m: "chars_scan cs = Some m" "n = m + len_utf8 c" "\<not> (c < 32 \<or> c = 34)"
      using "2.prems" by (auto simp: chars_scan.simps split: if_splits)
    then show ?thesis using extend [of "Plain c" cs m] "2.IH"(4) [OF plain m(3,1)] plain(2) by simp
  qed
qed

section \<open>The index loop scans characters\<close>

lemma ascii_prefix_utf8:
  assumes "\<forall>c\<in>set (take n xs). c < 128" "length (take n xs) = n"
  shows "take n (utf8 xs) = take n xs" "drop n (utf8 xs) = utf8 (drop n xs)"
proof -
  have "utf8 ds = ds" if "\<forall>c\<in>set ds. c < 128" for ds using that by (induction ds) (simp_all add: utf8_encode_ascii)
  then have "utf8 xs = take n xs @ utf8 (drop n xs)"
    using assms(1) by (metis append_take_drop_id concat_append map_append)
  then show "take n (utf8 xs) = take n xs" "drop n (utf8 xs) = utf8 (drop n xs)" using assms(2) by auto
qed

lemma ascii_prefix_chars:
  "\<forall>c\<in>set xs. is_scalar c \<Longrightarrow> length (take n (utf8 xs)) = n \<Longrightarrow> \<forall>b\<in>set (take n (utf8 xs)). b < 128 \<Longrightarrow> take n xs = take n (utf8 xs)"
proof (induction n arbitrary: xs)
  case (Suc n)
  then obtain c ys where xs: "xs = c # ys" by (cases xs) auto
  show ?case
  proof (cases "c < 128")
    case True
    have "take n ys = take n (utf8 ys)"
      using Suc.prems True unfolding xs by (intro Suc.IH) (simp_all add: utf8_encode_ascii)
    then show ?thesis unfolding xs using True by (simp add: utf8_encode_ascii)
  next
    case False
    then obtain b bs where "utf8_encode c = b # bs" "192 \<le> b"
      using utf8_encode_head [of c thesis] Suc.prems(1) xs by simp
    then show ?thesis using Suc.prems(3) xs by auto
  qed
qed simp

lemma hex_prefix:
  assumes "\<forall>c\<in>set xs. is_scalar c"
  shows "parse_hex_u16 (take 4 (utf8 xs)) = parse_hex_u16 (take 4 xs)"
    and "parse_hex_u16 (take 4 xs) = Some v \<Longrightarrow> drop 4 (utf8 xs) = utf8 (drop 4 xs)"
proof -
  have bytes: "take 4 xs = take 4 (utf8 xs)" if "parse_hex_u16 (take 4 (utf8 xs)) = Some w" for w
    using ascii_prefix_chars [OF assms, of 4] parse_hex_u16_bound [OF that] by blast
  have chars: "take 4 (utf8 xs) = take 4 xs" "drop 4 (utf8 xs) = utf8 (drop 4 xs)" if "parse_hex_u16 (take 4 xs) = Some w" for w
    using ascii_prefix_utf8 [of 4 xs] parse_hex_u16_bound [OF that] by blast+
  show "parse_hex_u16 (take 4 (utf8 xs)) = parse_hex_u16 (take 4 xs)"
  proof (cases "parse_hex_u16 (take 4 (utf8 xs))")
    case None
    show ?thesis
    proof (cases "parse_hex_u16 (take 4 xs)")
      case (Some w)
      from chars(1) [OF this] show ?thesis by simp
    qed (use None in simp)
  next
    case (Some w)
    from bytes [OF this] show ?thesis by simp
  qed
  show "parse_hex_u16 (take 4 xs) = Some v \<Longrightarrow> drop 4 (utf8 xs) = utf8 (drop 4 xs)" by (rule chars(2))
qed

lemma pair_prefix:
  assumes "\<forall>c\<in>set xs. is_scalar c"
  shows "take 2 (utf8 xs) = [92, 117] \<longleftrightarrow> take 2 xs = [92, 117]"
    and "take 2 xs = [92, 117] \<Longrightarrow> drop 2 (utf8 xs) = utf8 (drop 2 xs)"
proof -
  show "take 2 xs = [92, 117] \<Longrightarrow> drop 2 (utf8 xs) = utf8 (drop 2 xs)" using ascii_prefix_utf8(2) [of 2 xs] by simp
  show "take 2 (utf8 xs) = [92, 117] \<longleftrightarrow> take 2 xs = [92, 117]"
  proof
    assume "take 2 (utf8 xs) = [92, 117]"
    moreover from this have "take 2 xs = take 2 (utf8 xs)" by (intro ascii_prefix_chars [OF assms]) simp_all
    ultimately show "take 2 xs = [92, 117]" by simp
  next
    assume "take 2 xs = [92, 117]"
    then show "take 2 (utf8 xs) = [92, 117]" using ascii_prefix_utf8(1) [of 2 xs] by simp
  qed
qed

lemma range_drop:
  "length bs = i + length rest \<Longrightarrow> drop i bs = rest \<Longrightarrow>
    byte_range bs (i + a) (i + b) = (if a \<le> b \<and> b \<le> length rest then Some (take (b - a) (drop a rest)) else None)"
  by (auto simp: byte_range_def add.commute)

lemma range_hex:
  "Option.bind (byte_range bs (i + a) (i + (a + 4))) parse_hex_u16 = parse_hex_u16 (take 4 (drop (i + a) bs))"
  by (auto simp: byte_range_def parse_hex_u16_def)

lemma range_pair:
  "byte_range bs (i + a) (i + (a + 2)) = Some [92, 117] \<longleftrightarrow> take 2 (drop (i + a) bs) = [92, 117]"
proof
  assume *: "take 2 (drop (i + a) bs) = [92, 117]"
  then have "length (take 2 (drop (i + a) bs)) = 2" by simp
  then have "i + (a + 2) \<le> length bs" by simp
  then show "byte_range bs (i + a) (i + (a + 2)) = Some [92, 117]" using * by (simp add: byte_range_def)
qed (auto simp: byte_range_def split: if_splits)

text \<open>The unicode escape at a backslash, on characters.\<close>

lemma unicode_escape_chars:
  assumes sc: "\<forall>c\<in>set xs. is_scalar c" and d: "drop (index + 1) bs = utf8 xs"
  shows "unicode_escape bs index = Option.bind (parse_hex_u16 (take 4 xs)) (\<lambda>v.
      if 0xD800 \<le> v \<and> v \<le> 0xDBFF then
        (if take 2 (drop 4 xs) \<noteq> [92, 117] then None else Option.bind (parse_hex_u16 (take 4 (drop 6 xs))) (\<lambda>w.
           if 0xDC00 \<le> w \<and> w \<le> 0xDFFF then Some (index + 11, surrogate_scalar v w) else None))
      else if is_scalar v then Some (index + 5, v) else None)"
proof (cases "parse_hex_u16 (take 4 xs)")
  case None
  then have "Option.bind (byte_range bs (index + 1) (index + 5)) parse_hex_u16 = None"
    using range_hex [of bs index 1] hex_prefix(1) [OF sc] d by simp
  then show ?thesis using None by (simp add: unicode_escape_def)
next
  case (Some v)
  have first: "Option.bind (byte_range bs (index + 1) (index + 5)) parse_hex_u16 = Some v"
    using range_hex [of bs index 1] hex_prefix(1) [OF sc] d Some by simp
  have d5: "drop (index + 5) bs = utf8 (drop 4 xs)"
  proof -
    have "drop (index + 5) bs = drop 4 (drop (index + 1) bs)" by (simp add: add.commute)
    then show ?thesis unfolding d hex_prefix(2) [OF sc Some] .
  qed
  have sc4: "\<forall>c\<in>set (drop 4 xs). is_scalar c" using sc by (meson in_set_dropD)
  have pair: "byte_range bs (index + 5) (index + 7) = Some [92, 117] \<longleftrightarrow> take 2 (drop 4 xs) = [92, 117]"
    using range_pair [of bs index 5] pair_prefix(1) [OF sc4] d5 by simp
  have second: "Option.bind (byte_range bs (index + 7) (index + 11)) parse_hex_u16 = parse_hex_u16 (take 4 (drop 6 xs))"
    if "take 2 (drop 4 xs) = [92, 117]"
  proof -
    have "drop (index + 7) bs = drop 2 (drop (index + 5) bs)" by (simp add: add.commute)
    also have "\<dots> = utf8 (drop 6 xs)" using pair_prefix(2) [OF sc4 that] by (simp add: d5)
    finally have d7: "drop (index + 7) bs = utf8 (drop 6 xs)" .
    have "\<forall>c\<in>set (drop 6 xs). is_scalar c" using sc by (meson in_set_dropD)
    then show ?thesis using range_hex [of bs index 7] hex_prefix(1) d7 by simp
  qed
  have "is_scalar v \<longleftrightarrow> \<not> (0xD800 \<le> v \<and> v \<le> 0xDBFF) \<and> \<not> (0xDC00 \<le> v \<and> v \<le> 0xDFFF)"
    using parse_hex_u16_bound [OF Some] by (auto simp: is_scalar_def)
  then show ?thesis
    unfolding unicode_escape_def first Some bind.bind_lunit
    by (cases "take 2 (drop 4 xs) = [92, 117]") (simp_all add: pair second cong: if_cong, (auto split: bind_splits)?)
qed

lemma len_utf8_bounds: "1 \<le> len_utf8 c" "len_utf8 c \<le> 4"
  by (simp_all add: len_utf8_def)

text \<open>One item at the front of the characters: how many characters it takes and the width of what it denotes.\<close>

definition unicode_next :: "nat list \<Rightarrow> (nat \<times> nat) option" where
  "unicode_next xs = Option.bind (parse_hex_u16 (take 4 xs)) (\<lambda>v.
     if 0xD800 \<le> v \<and> v \<le> 0xDBFF then
       (if take 2 (drop 4 xs) \<noteq> [92, 117] then None else Option.bind (parse_hex_u16 (take 4 (drop 6 xs))) (\<lambda>w.
          if 0xDC00 \<le> w \<and> w \<le> 0xDFFF then Some (12, 4) else None))
     else if is_scalar v then Some (6, len_utf8 v) else None)"

definition chars_next :: "nat \<Rightarrow> nat list \<Rightarrow> (nat \<times> nat) option" where
  "chars_next c cs =
     (if c = 92 then
        (if hd cs \<in> {34, 92, 47, 98, 102, 110, 114, 116} then Some (2, 1) else if hd cs = 117 then unicode_next (drop 1 cs) else None)
      else if c < 32 \<or> c = 34 then None else Some (1, len_utf8 c))"

lemma chars_scan_next:
  "cs \<noteq> [] \<Longrightarrow> chars_scan (c # cs) = Option.bind (chars_next c cs) (\<lambda>(j, w). map_option (\<lambda>n. n + w) (chars_scan (drop j (c # cs))))"
  by (cases cs) (auto simp: chars_scan.simps chars_next_def unicode_next_def split: bind_splits)

lemma unicode_next_bytes:
  assumes "unicode_next xs = Some (j, w)"
  shows "length (utf8 (take j (92 # 117 # xs))) = j" "w \<le> j" "0 < j"
proof -
  have ascii: "length (utf8 ds) = length ds" if "\<forall>d\<in>set ds. d < 128" for ds
    using that by (induction ds) (simp_all add: utf8_encode_ascii)
  have hex: "\<forall>d\<in>set ds. d < 128" "length ds = 4" if "parse_hex_u16 ds = Some v" for ds v
    using parse_hex_u16_bound [OF that] by simp_all
  show "w \<le> j" "0 < j" using assms by (auto simp: unicode_next_def bind_eq_Some_conv split: if_splits intro: order.trans [OF len_utf8_bounds(2)])
  obtain v where v: "parse_hex_u16 (take 4 xs) = Some v" using assms by (auto simp: unicode_next_def bind_eq_Some_conv)
  note H = hex [OF v]
  consider (six) "j = 6" | (twelve) u where "j = 12" "take 2 (drop 4 xs) = [92, 117]" "parse_hex_u16 (take 4 (drop 6 xs)) = Some u"
    using assms v by (auto simp: unicode_next_def bind_eq_Some_conv split: if_splits)
  then show "length (utf8 (take j (92 # 117 # xs))) = j"
  proof cases
    case six
    then show ?thesis using H ascii [OF H(1)] by (simp add: utf8_encode_ascii)
  next
    case twelve
    note K = hex [OF twelve(3)]
    have "take 10 xs = take 4 xs @ take 2 (drop 4 xs) @ take 4 (drop 6 xs)"
      using take_add [of 4 6 xs] take_add [of 2 4 "drop 4 xs"] by simp
    then have "length (utf8 (take 10 xs)) = 10" using twelve(2) H K ascii [OF H(1)] ascii [OF K(1)] by (simp add: utf8_encode_ascii)
    then show ?thesis using twelve(1) by (simp add: utf8_encode_ascii)
  qed
qed

text \<open>The escape read at the bytes is the item at the characters.\<close>

lemma unicode_step:
  assumes "\<forall>c\<in>set xs. is_scalar c" "drop (i + 2) bs = utf8 xs"
  shows "Option.bind (unicode_escape bs (i + 1)) (\<lambda>(index', scalar).
      if \<not> is_scalar scalar then None else Option.bind (checked_add_u64 len (len_utf8 scalar)) (\<lambda>len'. Some (index', len')))
    = Option.bind (unicode_next xs) (\<lambda>(j, w). Option.bind (checked_add_u64 len w) (\<lambda>len'. Some (i + j, len')))"
proof -
  have d: "drop (i + 1 + 1) bs = utf8 xs" using assms(2) by simp
  have wide: "is_scalar (surrogate_scalar v w)" "len_utf8 (surrogate_scalar v w) = 4"
    if "v \<le> 0xDBFF" "w \<le> 0xDFFF" for v w using that by (auto simp: is_scalar_def len_utf8_def surrogate_scalar_def)
  show ?thesis unfolding unicode_escape_chars [OF assms(1) d] unicode_next_def
    by (cases "parse_hex_u16 (take 4 xs)"; cases "parse_hex_u16 (take 4 (drop 6 xs))") (auto simp: wide ac_simps)
qed

text \<open>A character above ASCII is none of the characters the scanner looks for.\<close>

lemma drop_more: "drop i bs = xs \<Longrightarrow> drop (i + k) bs = drop k xs"
  by (metis add.commute drop_drop)

lemma drop_head: "drop i bs = b # ys \<Longrightarrow> i < length bs \<and> bs ! i = b"
  by (metis drop_eq_Nil hd_drop_conv_nth leI list.distinct(1) list.sel(1))

lemma second_byte:
  assumes "drop i bs = utf8 (92 # x # xs)" "is_scalar x"
  obtains b where "byte_at bs (i + 1) = Some b" "if x < 128 then b = x else 128 \<le> b"
proof -
  obtain b ys where b: "utf8_encode x = b # ys" "if x < 128 then b = x else 128 \<le> b"
  proof (cases "x < 128")
    case False
    then show thesis using utf8_encode_head [of x thesis] assms(2) that by simp
  qed (use that utf8_encode_ascii in auto)
  have "drop (i + 1) bs = b # ys @ utf8 xs" using drop_more [OF assms(1), of 1] b(1) by (simp add: utf8_encode_ascii)
  then have "byte_at bs (i + 1) = Some b" using drop_head by (fastforce simp: byte_at_def)
  then show ?thesis using that b(2) by blast
qed

lemma scan_step_escape:
  assumes "drop i bs = utf8 (92 # cs)" "cs \<noteq> []" "\<forall>c\<in>set cs. is_scalar c"
  shows "scan_step bs i len = Option.bind (chars_next 92 cs) (\<lambda>(j, w). Option.bind (checked_add_u64 len w) (\<lambda>len'. Some (i + j, len')))"
proof -
  obtain x xs where cs: "cs = x # xs" using assms(2) by (cases cs) auto
  have bi: "bs ! i = 92" using drop_head [of i bs 92] assms(1) by (simp add: utf8_encode_ascii)
  obtain b where b: "byte_at bs (i + 1) = Some b" "if x < 128 then b = x else 128 \<le> b"
    using second_byte [OF assms(1) [unfolded cs], of thesis] assms(3) cs by simp
  have next2: "drop (i + 2) bs = utf8 xs" if "x < 128"
    using drop_more [OF assms(1), of 2] cs that by (simp add: utf8_encode_ascii)
  have member: "b \<in> {34, 92, 47, 98, 102, 110, 114, 116} \<longleftrightarrow> x \<in> {34, 92, 47, 98, 102, 110, 114, 116}" "b = 117 \<longleftrightarrow> x = 117"
    using b(2) by (auto split: if_splits)
  show ?thesis
  proof (cases "x = 117")
    case True
    then show ?thesis using bi b(1) member unicode_step [OF _ next2] assms(3) cs by (simp add: scan_step_def Let_def chars_next_def)
  next
    case False
    then show ?thesis using bi b(1) member cs by (simp add: scan_step_def Let_def chars_next_def)
  qed
qed

lemma scan_step_plain:
  assumes "drop i bs = utf8 (c # cs)" "c \<noteq> 92" "is_scalar c"
  shows "scan_step bs i len = Option.bind (chars_next c cs) (\<lambda>(j, w). Option.bind (checked_add_u64 len w) (\<lambda>len'. Some (i + len_utf8 c, len')))"
proof (cases "c < 128")
  case True
  then have "bs ! i = c" using drop_head [of i bs c] assms(1) by (simp add: utf8_encode_ascii)
  then show ?thesis using True assms(2) by (simp add: scan_step_def Let_def chars_next_def len_utf8_def)
next
  case False
  obtain b ys where b: "utf8_encode c = b # ys" "192 \<le> b" "char_width_at b = Some (len_utf8 c)"
    using utf8_encode_head [of c thesis] assms(3) False by simp
  then have "bs ! i = b" using drop_head [of i bs b] assms(1) by simp
  then show ?thesis using b False assms(2) by (simp add: scan_step_def Let_def chars_next_def)
qed

lemma scan_step_chars:
  assumes "drop i bs = utf8 (c # cs)" "cs \<noteq> []" "\<forall>x\<in>set (c # cs). is_scalar x"
  shows "scan_step bs i len = Option.bind (chars_next c cs) (\<lambda>(j, w). Option.bind (checked_add_u64 len w)
      (\<lambda>len'. Some (i + length (utf8 (take j (c # cs))), len')))"
    and "chars_next c cs = Some (j, w) \<Longrightarrow> 0 < j \<and> w \<le> length (utf8 (take j (c # cs)))"
proof -
  obtain x xs where cs: "cs = x # xs" using assms(2) by (cases cs) auto
  have esc: "length (utf8 (take j (92 # cs))) = j \<and> w \<le> j \<and> 0 < j" if "chars_next 92 cs = Some (j, w)" for j w
    using that cs unicode_next_bytes [of xs j w] by (auto simp: chars_next_def utf8_encode_ascii split: if_splits)
  have plain: "length (utf8 (take j (c # cs))) = len_utf8 c \<and> w = len_utf8 c \<and> 0 < j" if "c \<noteq> 92" "chars_next c cs = Some (j, w)" for j w
    using that by (auto simp: chars_next_def utf8_encode_length split: if_splits)
  show "chars_next c cs = Some (j, w) \<Longrightarrow> 0 < j \<and> w \<le> length (utf8 (take j (c # cs)))"
    using esc plain by (cases "c = 92") auto
  show "scan_step bs i len = Option.bind (chars_next c cs) (\<lambda>(j, w). Option.bind (checked_add_u64 len w)
      (\<lambda>len'. Some (i + length (utf8 (take j (c # cs))), len')))"
  proof (cases "c = 92")
    case True
    then show ?thesis using scan_step_escape [of i bs cs len] assms esc by (cases "chars_next 92 cs") auto
  next
    case False
    then show ?thesis using scan_step_plain [of i bs c cs len] assms plain by (cases "chars_next c cs") auto
  qed
qed

lemma scan_loop_chars:
  assumes "2 \<le> length bs" "length bs \<le> u64_max" "i \<le> length bs" "len \<le> i"
    and "drop i bs = utf8 cs" "\<forall>c\<in>set cs. is_scalar c" "cs \<noteq> [] \<Longrightarrow> last cs = 34"
  shows "scan_loop bs i len = map_option (\<lambda>n. len + n) (chars_scan cs)"
  using assms
proof (induction "length cs" arbitrary: cs i len rule: less_induct)
  case less
  note prem = less.prems
  have lenb: "length bs = i + length (utf8 cs)" using prem(3,5) by (metis add_diff_inverse_nat length_drop not_less)
  consider (none) "cs = []" | (one) c where "cs = [c]" | (more) c rest where "cs = c # rest" "rest \<noteq> []" by (cases cs) auto
  then show ?case
  proof cases
    case none
    then show ?thesis using prem(1) lenb by (subst scan_loop.simps) auto
  next
    case one
    then have "c = 34" using prem(7) by simp
    then show ?thesis using one prem(1) lenb by (subst scan_loop.simps) (auto simp: utf8_encode_ascii chars_scan_one)
  next
    case more
    obtain x xs where rest: "rest = x # xs" using more(2) by (cases rest) auto
    have "2 \<le> length (utf8 cs)" using more rest len_utf8_bounds(1) [of c] len_utf8_bounds(1) [of x] by (simp add: utf8_encode_length)
    then have "i < length bs - 1" using lenb by linarith
    then have loop: "scan_loop bs i len = (case scan_step bs i len of None \<Rightarrow> None | Some (i', len') \<Rightarrow> scan_loop bs i' len')"
      by (subst scan_loop.simps) simp
    note S = scan_step_chars [OF prem(5) [unfolded more(1)] more(2) prem(6) [unfolded more(1)]]
    show ?thesis
    proof (cases "chars_next c rest")
      case None
      then show ?thesis unfolding loop S(1) more(1) chars_scan_next [OF more(2)] by simp
    next
      case (Some jw)
      obtain j w where jw: "jw = (j, w)" by (cases jw)
      let ?k = "length (utf8 (take j cs))"
      have k: "0 < j" "w \<le> ?k" using S(2) Some jw more(1) by simp_all
      have split: "utf8 cs = utf8 (take j cs) @ utf8 (drop j cs)" by (metis append_take_drop_id concat_append map_append)
      have le: "?k \<le> length (utf8 cs)" using split by (metis le_add1 length_append)
      have "drop (i + ?k) bs = utf8 (drop j cs)" using drop_more [OF prem(5), of ?k] split by simp
      moreover have "\<forall>c\<in>set (drop j cs). is_scalar c" using prem(6) by (meson in_set_dropD)
      moreover have "last (drop j cs) = 34" if "drop j cs \<noteq> []" using prem(7) that by (metis drop_Nil last_drop drop_eq_Nil leI)
      moreover have "length (drop j cs) < length cs" using k(1) more(1) by simp
      ultimately have "scan_loop bs (i + ?k) (len + w) = map_option (\<lambda>n. len + w + n) (chars_scan (drop j cs))"
        using less.hyps [of "drop j cs" "i + ?k" "len + w"] prem(1,2,4) lenb k(2) le by simp
      moreover have "checked_add_u64 len w = Some (len + w)" using prem(2,4) lenb k(2) le by (simp add: checked_add_u64_def)
      ultimately show ?thesis
        using Some jw unfolding loop S(1) more(1) chars_scan_next [OF more(2)]
        by (simp add: option.map_comp comp_def ac_simps checked_add_u64_def)
    qed
  qed
qed

section \<open>The scanner and the grammar\<close>

text \<open>The bytes of a text that starts and ends with a quote.\<close>

lemma quoted_text:
  assumes "\<forall>c\<in>set cs. is_scalar c"
  shows "(2 \<le> length (utf8 cs) \<and> byte_at (utf8 cs) 0 = Some 34 \<and> byte_at (utf8 cs) (length (utf8 cs) - 1) = Some 34)
    \<longleftrightarrow> (\<exists>ds. cs = 34 # ds \<and> ds \<noteq> [] \<and> last ds = 34)"
proof
  assume q: "2 \<le> length (utf8 cs) \<and> byte_at (utf8 cs) 0 = Some 34 \<and> byte_at (utf8 cs) (length (utf8 cs) - 1) = Some 34"
  have high: "34 \<notin> set (utf8_encode c)" if "c \<in> set cs" "c \<noteq> 34" for c
    using that assms utf8_encode_bytes [of c 34] by (cases "c < 128") (auto simp: utf8_encode_ascii)
  have ne: "utf8_encode c \<noteq> []" for c by (simp add: utf8_encode_def)
  obtain c ds where cs: "cs = c # ds" using q by (cases cs) auto
  have "hd (utf8_encode c) = 34" using q cs ne [of c] by (cases "utf8_encode c") (auto simp: byte_at_def)
  then have c: "c = 34" using high [of c] cs ne [of c] hd_in_set by fastforce
  then have "ds \<noteq> []" using q cs by (auto simp: utf8_encode_ascii)
  then obtain es d where ds: "ds = es @ [d]" by (metis append_butlast_last_id)
  have "last (utf8 cs) = 34" using q by (auto simp: byte_at_def last_conv_nth split: if_splits)
  then have "last (utf8_encode d) = 34" using cs ds ne [of d] by (simp add: last_append)
  then have "d = 34" using high [of d] cs ds ne [of d] last_in_set by fastforce
  then show "\<exists>ds. cs = 34 # ds \<and> ds \<noteq> [] \<and> last ds = 34" using cs c ds by simp
next
  assume "\<exists>ds. cs = 34 # ds \<and> ds \<noteq> [] \<and> last ds = 34"
  then obtain es where cs: "cs = 34 # es @ [34]" by (metis append_butlast_last_id)
  then show "2 \<le> length (utf8 cs) \<and> byte_at (utf8 cs) 0 = Some 34 \<and> byte_at (utf8 cs) (length (utf8 cs) - 1) = Some 34"
    by (simp add: byte_at_def utf8_encode_ascii nth_append)
qed

lemma decoded_chars:
  assumes sc: "\<forall>c\<in>set cs. is_scalar c" and len: "length (utf8 cs) \<le> u64_max"
  shows "decoded_json_string_utf8_bytes (utf8 cs) =
    (if \<exists>ds. cs = 34 # ds \<and> ds \<noteq> [] \<and> last ds = 34 then chars_scan (tl cs) else None)"
proof (cases "\<exists>ds. cs = 34 # ds \<and> ds \<noteq> [] \<and> last ds = 34")
  case True
  then obtain ds where ds: "cs = 34 # ds" "ds \<noteq> []" "last ds = 34" by blast
  note Q = quoted_text [OF sc, THEN iffD2, OF True]
  have "scan_loop (utf8 cs) 1 0 = map_option (\<lambda>n. 0 + n) (chars_scan ds)"
    using Q len ds sc by (intro scan_loop_chars) (simp_all add: utf8_encode_ascii)
  then have "scan_loop (utf8 cs) 1 0 = chars_scan ds" by (simp add: option.map_ident)
  then show ?thesis using Q True ds(1) by (simp add: decoded_json_string_utf8_bytes_def)
next
  case False
  then show ?thesis using quoted_text [OF sc] by (auto simp: decoded_json_string_utf8_bytes_def not_less)
qed

end
