(* ===== verification/Nip46_Measure.thy ===== *)
theory Nip46_Measure
  imports Nip46_Scanner
begin

text \<open>
  What the bounded visitors accept: an array of JSON strings, or of arrays of JSON strings, within the limits, measured
  exactly. The loops stop at the first excess; the lemmas say that they accept if and only if there is none.
\<close>

section \<open>Arrays of strings\<close>

definition strings_of :: "nat list list \<Rightarrow> nat list \<Rightarrow> bool" where
  "strings_of raws lens \<longleftrightarrow> map decoded_json_string_utf8_bytes raws = map Some lens"

definition tags_of :: "json_crate \<Rightarrow> nat list list \<Rightarrow> nat list list \<Rightarrow> bool" where
  "tags_of js raws lenss \<longleftrightarrow> list_all2 (\<lambda>raw lens. \<exists>els. json_elements js raw = Some els \<and> strings_of els lens) raws lenss"

lemma strings_of_simps [simp]: "strings_of [] lens \<longleftrightarrow> lens = []"
  "strings_of (raw # raws) lens \<longleftrightarrow> (\<exists>l ls. lens = l # ls \<and> decoded_json_string_utf8_bytes raw = Some l \<and> strings_of raws ls)"
  by (auto simp: strings_of_def)

lemma string_length_seed_Inr: "string_length_seed maximum sentinel raw = Inr len \<longleftrightarrow> decoded_json_string_utf8_bytes raw = Some len \<and> len \<le> maximum"
  by (cases "decoded_json_string_utf8_bytes raw") (auto simp: string_length_seed_def)

lemma visit_strings_exact:
  assumes "T \<le> u64_max" "ms_count m \<le> N" "ms_bytes m \<le> T" "ms_elements m = ms_count m"
  shows "visit_strings N E T m raws = Inr m' \<longleftrightarrow> (\<exists>lens. strings_of raws lens \<and> (\<forall>l\<in>set lens. l \<le> E)
    \<and> ms_count m + length lens \<le> N \<and> ms_bytes m + sum_list lens \<le> T
    \<and> m' = \<lparr>ms_count = ms_count m + length lens, ms_elements = ms_count m + length lens, ms_bytes = ms_bytes m + sum_list lens\<rparr>)"
  using assms
proof (induction raws arbitrary: m)
  case Nil
  then show ?case by auto
next
  case (Cons raw raws)
  let ?m = "\<lambda>l. \<lparr>ms_count = ms_count m + 1, ms_elements = ms_count m + 1, ms_bytes = ms_bytes m + l\<rparr>"
  have step: "visit_strings N E T m (raw # raws) = Inr m' \<longleftrightarrow> ms_count m < N \<and> (\<exists>l. decoded_json_string_utf8_bytes raw = Some l \<and> l \<le> E
      \<and> ms_bytes m + l \<le> T \<and> visit_strings N E T (?m l) raws = Inr m')"
    using Cons.prems(1) by (cases "decoded_json_string_utf8_bytes raw") (auto simp: string_length_seed_def checked_add_u64_def not_less)
  have IH: "visit_strings N E T (?m l) raws = Inr m' \<longleftrightarrow> (\<exists>lens. strings_of raws lens \<and> (\<forall>l\<in>set lens. l \<le> E)
      \<and> Suc (ms_count m + length lens) \<le> N \<and> ms_bytes m + l + sum_list lens \<le> T
      \<and> m' = \<lparr>ms_count = Suc (ms_count m + length lens), ms_elements = Suc (ms_count m + length lens), ms_bytes = ms_bytes m + l + sum_list lens\<rparr>)"
    if "ms_count m < N" "ms_bytes m + l \<le> T" for l
    using Cons.IH [of "?m l"] that Cons.prems(1) by simp
  show ?case (is "?L \<longleftrightarrow> ?R")
  proof
    assume ?L
    then obtain l where l: "ms_count m < N" "decoded_json_string_utf8_bytes raw = Some l" "l \<le> E" "ms_bytes m + l \<le> T"
      "visit_strings N E T (?m l) raws = Inr m'" using step by blast
    from l(5) [unfolded IH [OF l(1,4)]] obtain lens where "strings_of raws lens" "\<forall>l\<in>set lens. l \<le> E"
      "Suc (ms_count m + length lens) \<le> N" "ms_bytes m + l + sum_list lens \<le> T"
      "m' = \<lparr>ms_count = Suc (ms_count m + length lens), ms_elements = Suc (ms_count m + length lens), ms_bytes = ms_bytes m + l + sum_list lens\<rparr>" by blast
    then show ?R using l by (intro exI [of _ "l # lens"]) (simp add: add.assoc)
  next
    assume ?R
    then obtain l ls where l: "decoded_json_string_utf8_bytes raw = Some l" "strings_of raws ls" "l \<le> E" "\<forall>l\<in>set ls. l \<le> E"
      "Suc (ms_count m + length ls) \<le> N" "ms_bytes m + (l + sum_list ls) \<le> T"
      "m' = \<lparr>ms_count = Suc (ms_count m + length ls), ms_elements = Suc (ms_count m + length ls), ms_bytes = ms_bytes m + (l + sum_list ls)\<rparr>"
      by auto
    then have b: "ms_count m < N" "ms_bytes m + l \<le> T" by simp_all
    then have "visit_strings N E T (?m l) raws = Inr m'" unfolding IH [OF b] using l by (intro exI [of _ ls]) (simp add: add.assoc)
    then show ?L using step l b by blast
  qed
qed

section \<open>Arrays of tags\<close>

lemma visit_tag_exact:
  assumes "ms_elements m \<le> N" "ms_bytes m \<le> u64_max"
  shows "visit_tag N E m raws = Inr m' \<longleftrightarrow> (\<exists>lens. strings_of raws lens \<and> (\<forall>l\<in>set lens. l \<le> E)
    \<and> ms_elements m + length lens \<le> N \<and> ms_bytes m + sum_list lens \<le> u64_max
    \<and> m' = m\<lparr>ms_elements := ms_elements m + length lens, ms_bytes := ms_bytes m + sum_list lens\<rparr>)"
  using assms
proof (induction raws arbitrary: m)
  case Nil
  then show ?case by auto
next
  case (Cons raw raws)
  let ?m = "\<lambda>l. m\<lparr>ms_elements := ms_elements m + 1, ms_bytes := ms_bytes m + l\<rparr>"
  have step: "visit_tag N E m (raw # raws) = Inr m' \<longleftrightarrow> ms_elements m < N \<and> (\<exists>l. decoded_json_string_utf8_bytes raw = Some l \<and> l \<le> E
      \<and> ms_bytes m + l \<le> u64_max \<and> visit_tag N E (?m l) raws = Inr m')"
    by (auto simp: r_bind_Inr_iff string_length_seed_Inr)
  have IH: "visit_tag N E (?m l) raws = Inr m' \<longleftrightarrow> (\<exists>lens. strings_of raws lens \<and> (\<forall>l\<in>set lens. l \<le> E)
      \<and> Suc (ms_elements m + length lens) \<le> N \<and> ms_bytes m + l + sum_list lens \<le> u64_max
      \<and> m' = m\<lparr>ms_elements := Suc (ms_elements m + length lens), ms_bytes := ms_bytes m + l + sum_list lens\<rparr>)"
    if "ms_elements m < N" "ms_bytes m + l \<le> u64_max" for l
    using Cons.IH [of "?m l"] that by simp
  show ?case (is "?L \<longleftrightarrow> ?R")
  proof
    assume ?L
    then obtain l where l: "ms_elements m < N" "decoded_json_string_utf8_bytes raw = Some l" "l \<le> E" "ms_bytes m + l \<le> u64_max"
      "visit_tag N E (?m l) raws = Inr m'" using step by blast
    from l(5) [unfolded IH [OF l(1,4)]] obtain lens where "strings_of raws lens" "\<forall>l\<in>set lens. l \<le> E"
      "Suc (ms_elements m + length lens) \<le> N" "ms_bytes m + l + sum_list lens \<le> u64_max"
      "m' = m\<lparr>ms_elements := Suc (ms_elements m + length lens), ms_bytes := ms_bytes m + l + sum_list lens\<rparr>" by blast
    then show ?R using l by (intro exI [of _ "l # lens"]) (simp add: add.assoc)
  next
    assume ?R
    then obtain l ls where l: "decoded_json_string_utf8_bytes raw = Some l" "strings_of raws ls" "l \<le> E" "\<forall>l\<in>set ls. l \<le> E"
      "Suc (ms_elements m + length ls) \<le> N" "ms_bytes m + (l + sum_list ls) \<le> u64_max"
      "m' = m\<lparr>ms_elements := Suc (ms_elements m + length ls), ms_bytes := ms_bytes m + (l + sum_list ls)\<rparr>" by auto
    then have b: "ms_elements m < N" "ms_bytes m + l \<le> u64_max" by simp_all
    then have "visit_tag N E (?m l) raws = Inr m'" unfolding IH [OF b] using l by (intro exI [of _ ls]) (simp add: add.assoc)
    then show ?L using step l b by blast
  qed
qed

lemma tag_seed_exact:
  "tag_seed js N E raw = Inr tag \<longleftrightarrow> (\<exists>els lens. json_elements js raw = Some els \<and> strings_of els lens \<and> (\<forall>l\<in>set lens. l \<le> E)
    \<and> length lens \<le> N \<and> sum_list lens \<le> u64_max \<and> tag = \<lparr>ms_count = 1, ms_elements = length lens, ms_bytes = sum_list lens\<rparr>)"
  by (auto simp: tag_seed_def r_bind_Inr_iff visit_tag_exact)

definition total_elements :: "nat list list \<Rightarrow> nat" where
  "total_elements lenss = sum_list (map length lenss)"

definition total_bytes :: "nat list list \<Rightarrow> nat" where
  "total_bytes lenss = sum_list (map sum_list lenss)"

text \<open>The limits are machine words.\<close>

definition limits_ok :: "MycNip46AdmissionLimits \<Rightarrow> bool" where
  "limits_ok limits \<longleftrightarrow> event_tag_total_elements limits \<le> u64_max \<and> event_tag_total_bytes limits \<le> u64_max"

definition tags_within :: "MycNip46AdmissionLimits \<Rightarrow> Measurement \<Rightarrow> nat list list \<Rightarrow> bool" where
  "tags_within limits m lenss \<longleftrightarrow> ms_count m + length lenss \<le> event_tag_count limits
     \<and> ms_elements m + total_elements lenss \<le> event_tag_total_elements limits
     \<and> ms_bytes m + total_bytes lenss \<le> event_tag_total_bytes limits \<and> (\<forall>lens\<in>set lenss. \<forall>l\<in>set lens. l \<le> event_tag_element_bytes limits)"

definition measured :: "Measurement \<Rightarrow> nat list list \<Rightarrow> Measurement" where
  "measured m lenss = \<lparr>ms_count = ms_count m + length lenss, ms_elements = ms_elements m + total_elements lenss,
     ms_bytes = ms_bytes m + total_bytes lenss\<rparr>"

lemma tags_of_Cons: "tags_of js (raw # raws) lenss \<longleftrightarrow>
    (\<exists>els lens rest. lenss = lens # rest \<and> json_elements js raw = Some els \<and> strings_of els lens \<and> tags_of js raws rest)"
  by (auto simp: tags_of_def list_all2_Cons1)

lemma visit_tags_step:
  assumes ok: "limits_ok limits" and m: "ms_elements m \<le> event_tag_total_elements limits" "ms_bytes m \<le> event_tag_total_bytes limits"
  shows "visit_tags js limits m (raw # raws) = Inr m' \<longleftrightarrow> ms_count m < event_tag_count limits
    \<and> (\<exists>els lens. json_elements js raw = Some els \<and> strings_of els lens \<and> (\<forall>l\<in>set lens. l \<le> event_tag_element_bytes limits)
      \<and> ms_elements m + length lens \<le> event_tag_total_elements limits \<and> ms_bytes m + sum_list lens \<le> event_tag_total_bytes limits
      \<and> visit_tags js limits (measured m [lens]) raws = Inr m')"
proof -
  have sums: "sum_list lens \<le> u64_max \<and> ms_bytes m + sum_list lens \<le> u64_max \<and> ms_elements m + length lens \<le> u64_max"
    if "ms_elements m + length lens \<le> event_tag_total_elements limits" "ms_bytes m + sum_list lens \<le> event_tag_total_bytes limits" for lens
    using that ok by (simp add: limits_ok_def)
  have next_m: "\<lparr>ms_count = Suc (ms_count m), ms_elements = ms_elements m + length lens, ms_bytes = ms_bytes m + sum_list lens\<rparr> = measured m [lens]" for lens
    by (simp add: measured_def total_elements_def total_bytes_def)
  show ?thesis
  proof
    assume "visit_tags js limits m (raw # raws) = Inr m'"
    then obtain els lens where l: "ms_count m < event_tag_count limits" "json_elements js raw = Some els" "strings_of els lens"
      "\<forall>l\<in>set lens. l \<le> event_tag_element_bytes limits" "length lens \<le> event_tag_total_elements limits - ms_elements m"
      "ms_bytes m + sum_list lens \<le> event_tag_total_bytes limits" "visit_tags js limits (measured m [lens]) raws = Inr m'"
      by (auto simp: r_bind_Inr_iff tag_seed_exact next_m not_less split: if_splits)
    have "ms_elements m + length lens \<le> event_tag_total_elements limits" using l(5) m(1) by linarith
    then show "ms_count m < event_tag_count limits
    \<and> (\<exists>els lens. json_elements js raw = Some els \<and> strings_of els lens \<and> (\<forall>l\<in>set lens. l \<le> event_tag_element_bytes limits)
      \<and> ms_elements m + length lens \<le> event_tag_total_elements limits \<and> ms_bytes m + sum_list lens \<le> event_tag_total_bytes limits
      \<and> visit_tags js limits (measured m [lens]) raws = Inr m')" using l by blast
  next
    assume "ms_count m < event_tag_count limits
    \<and> (\<exists>els lens. json_elements js raw = Some els \<and> strings_of els lens \<and> (\<forall>l\<in>set lens. l \<le> event_tag_element_bytes limits)
      \<and> ms_elements m + length lens \<le> event_tag_total_elements limits \<and> ms_bytes m + sum_list lens \<le> event_tag_total_bytes limits
      \<and> visit_tags js limits (measured m [lens]) raws = Inr m')"
    then obtain els lens where l: "ms_count m < event_tag_count limits" "json_elements js raw = Some els" "strings_of els lens"
      "\<forall>l\<in>set lens. l \<le> event_tag_element_bytes limits" "ms_elements m + length lens \<le> event_tag_total_elements limits"
      "ms_bytes m + sum_list lens \<le> event_tag_total_bytes limits" "visit_tags js limits (measured m [lens]) raws = Inr m'" by blast
    have "tag_seed js (event_tag_total_elements limits - ms_elements m) (event_tag_element_bytes limits) raw
        = Inr \<lparr>ms_count = 1, ms_elements = length lens, ms_bytes = sum_list lens\<rparr>"
      using l sums [OF l(5,6)] unfolding tag_seed_exact by auto
    then show "visit_tags js limits m (raw # raws) = Inr m'"
      using l m(1) sums [OF l(5,6)] by (auto simp: checked_sub_def checked_add_u64_def next_m)
  qed
qed

lemma visit_tags_exact:
  assumes ok: "limits_ok limits"
    and "ms_count m \<le> event_tag_count limits" "ms_elements m \<le> event_tag_total_elements limits" "ms_bytes m \<le> event_tag_total_bytes limits"
  shows "visit_tags js limits m raws = Inr m' \<longleftrightarrow> (\<exists>lenss. tags_of js raws lenss \<and> tags_within limits m lenss \<and> m' = measured m lenss)"
  using assms(2-4)
proof (induction raws arbitrary: m)
  case Nil
  then show ?case by (auto simp: tags_of_def tags_within_def measured_def total_elements_def total_bytes_def checked_sub_def)
next
  case (Cons raw raws)
  have within: "tags_within limits m (lens # rest) \<longleftrightarrow> ms_count m < event_tag_count limits \<and> (\<forall>l\<in>set lens. l \<le> event_tag_element_bytes limits)
      \<and> ms_elements m + length lens \<le> event_tag_total_elements limits \<and> ms_bytes m + sum_list lens \<le> event_tag_total_bytes limits
      \<and> tags_within limits (measured m [lens]) rest" for lens rest
    by (auto simp: tags_within_def measured_def total_elements_def total_bytes_def)
  have again: "measured (measured m [lens]) rest = measured m (lens # rest)" for lens rest
    by (simp add: measured_def total_elements_def total_bytes_def)
  have IH: "visit_tags js limits (measured m [lens]) raws = Inr m' \<longleftrightarrow>
      (\<exists>rest. tags_of js raws rest \<and> tags_within limits (measured m [lens]) rest \<and> m' = measured (measured m [lens]) rest)"
    if "ms_count m < event_tag_count limits" "ms_elements m + length lens \<le> event_tag_total_elements limits"
      "ms_bytes m + sum_list lens \<le> event_tag_total_bytes limits" for lens
    using that by (intro Cons.IH) (simp_all add: measured_def total_elements_def total_bytes_def)
  show ?case
    unfolding visit_tags_step [OF ok Cons.prems(2,3)] tags_of_Cons using IH within again by metis
qed

end
