(* ===== verification/Request_State.thy ===== *)
theory Request_State
  imports Connection_System
begin

text \<open>
  The request authority (\<^verbatim>\<open>src/src/state_request.rs\<close>): validated NIP-46 requests, their derived identities, and the
  idempotent admission of a request. The table \<open>nip46_requests\<close> is the one of the connection authority; the table
  \<open>nip46_request_dedup\<close> holds, for each logical request and for each signed event, the operation it belongs to and how
  often it was seen again.
\<close>

section \<open>Characters of a string\<close>

text \<open>
  A \<open>str\<close> is its UTF-8 bytes; \<open>chars()\<close> decodes them as the standard library does for valid UTF-8. Since the encoding is
  injective, \<open>trim()\<close> is compared on the characters.
\<close>

fun utf8_chars :: "nat list \<Rightarrow> nat list" where
  "utf8_chars [] = []"
| "utf8_chars (x # xs) =
     (if x < 128 then x # utf8_chars xs
      else if x < 224 then (x mod 32 * 64 + sum_list (take 1 xs) mod 64) # utf8_chars (drop 1 xs)
      else if x < 240
      then (x mod 16 * 4096 + sum_list (take 1 xs) mod 64 * 64 + sum_list (take 1 (drop 1 xs)) mod 64) # utf8_chars (drop 2 xs)
      else (x mod 8 * 262144 + sum_list (take 1 xs) mod 64 * 4096 + sum_list (take 1 (drop 1 xs)) mod 64 * 64
             + sum_list (take 1 (drop 2 xs)) mod 64) # utf8_chars (drop 3 xs))"

definition str_chars :: "string \<Rightarrow> nat list" where
  "str_chars s = utf8_chars (map of_char s)"

definition char_is_whitespace :: "nat \<Rightarrow> bool" where
  "char_is_whitespace c \<longleftrightarrow> (9 \<le> c \<and> c \<le> 13) \<or> c \<in> {0x20, 0x85, 0xA0, 0x1680, 0x2028, 0x2029, 0x202F, 0x205F, 0x3000}
     \<or> (0x2000 \<le> c \<and> c \<le> 0x200A)"

definition char_is_control :: "nat \<Rightarrow> bool" where
  "char_is_control c \<longleftrightarrow> c \<le> 0x1F \<or> (0x7F \<le> c \<and> c \<le> 0x9F)"

definition trim_chars :: "nat list \<Rightarrow> nat list" where
  "trim_chars cs = rev (dropWhile char_is_whitespace (rev (dropWhile char_is_whitespace cs)))"

section \<open>Validated values\<close>

definition MYC_NIP46_REQUEST_ID_MAX_UTF8_BYTES :: nat where "MYC_NIP46_REQUEST_ID_MAX_UTF8_BYTES = 128"
definition MYC_NIP46_CANONICAL_REQUEST_MAX_BYTES :: nat where "MYC_NIP46_CANONICAL_REQUEST_MAX_BYTES = 262144"

definition REQUEST_DIGEST_DOMAIN :: bytes where
  "REQUEST_DIGEST_DOMAIN = str_bytes ''radroots.myc.nip46.request.v1'' @ [0]"
definition REQUEST_IDENTITY_DOMAIN :: bytes where
  "REQUEST_IDENTITY_DOMAIN = str_bytes ''radroots.myc.nip46.request_identity.v1'' @ [0]"
definition OPERATION_ID_DOMAIN :: bytes where
  "OPERATION_ID_DOMAIN = str_bytes ''radroots.myc.nip46.operation.v1'' @ [0]"
definition CORRELATION_ID_DOMAIN :: bytes where
  "CORRELATION_ID_DOMAIN = str_bytes ''radroots.myc.nip46.correlation.v1'' @ [0]"

definition request_id_new :: "string \<Rightarrow> (MycSignerRequestErrorKind, string) result" where
  "request_id_new value =
     (if value = [] \<or> MYC_NIP46_REQUEST_ID_MAX_UTF8_BYTES < length value
         \<or> trim_chars (str_chars value) \<noteq> str_chars value
         \<or> list_ex char_is_control (str_chars value)
      then Inl InvalidRequestId else Inr value)"

definition for_canonical_request :: "(bytes \<Rightarrow> bytes) \<Rightarrow> bytes \<Rightarrow> (MycSignerRequestErrorKind, bytes) result" where
  "for_canonical_request sha bs =
     (if bs = [] \<or> MYC_NIP46_CANONICAL_REQUEST_MAX_BYTES < length bs then Inl InvalidCanonicalRequest
      else Inr (sha (REQUEST_DIGEST_DOMAIN @ to_be_bytes 8 (length bs) @ bs)))"

definition received_at_new :: "nat \<Rightarrow> (MycSignerRequestErrorKind, nat) result" where
  "received_at_new value = (if value = 0 \<or> i64_of_nat value = None then Inl InvalidReceivedAt else Inr value)"

section \<open>Derived identities\<close>

definition length_prefixed :: "bytes \<Rightarrow> bytes" where
  "length_prefixed value = to_be_bytes 8 (length value) @ value"

definition derive_request_identity :: "(bytes \<Rightarrow> bytes) \<Rightarrow> string \<Rightarrow> string \<Rightarrow> bytes" where
  "derive_request_identity sha client_public_key request_id =
     sha (REQUEST_IDENTITY_DOMAIN @ length_prefixed (str_bytes client_public_key) @ length_prefixed (str_bytes request_id))"

definition derive_digest :: "(bytes \<Rightarrow> bytes) \<Rightarrow> bytes \<Rightarrow> bytes \<Rightarrow> bytes" where
  "derive_digest sha domain value = sha (domain @ value)"

definition derive_operation_id :: "(bytes \<Rightarrow> bytes) \<Rightarrow> bytes \<Rightarrow> bytes \<Rightarrow> bytes" where
  "derive_operation_id sha request_identity nonce = sha (OPERATION_ID_DOMAIN @ request_identity @ nonce)"

section \<open>Requests and records\<close>

record MycSignerRequest =
  sr_client_public_key :: string
  sr_request_id :: string
  sr_event_id :: bytes
  sr_method :: MycSignerRequestMethod
  sr_request_digest :: bytes
  sr_request_identity :: bytes
  sr_operation_nonce :: bytes
  sr_received_at :: nat

definition signer_request_new ::
    "(bytes \<Rightarrow> bytes) \<Rightarrow> string \<Rightarrow> string \<Rightarrow> bytes \<Rightarrow> MycSignerRequestMethod \<Rightarrow> bytes \<Rightarrow> bytes \<Rightarrow> nat \<Rightarrow> MycSignerRequest" where
  "signer_request_new sha client_public_key request_id event_id request_method request_digest operation_nonce received_at =
     \<lparr>sr_client_public_key = client_public_key, sr_request_id = request_id, sr_event_id = event_id,
       sr_method = request_method, sr_request_digest = request_digest,
       sr_request_identity = derive_request_identity sha client_public_key request_id,
       sr_operation_nonce = operation_nonce, sr_received_at = received_at\<rparr>"

definition derived_operation_id :: "(bytes \<Rightarrow> bytes) \<Rightarrow> MycSignerRequest \<Rightarrow> bytes" where
  "derived_operation_id sha r = derive_operation_id sha (sr_request_identity r) (sr_operation_nonce r)"

definition derived_correlation_id :: "(bytes \<Rightarrow> bytes) \<Rightarrow> MycSignerRequest \<Rightarrow> bytes" where
  "derived_correlation_id sha r = derive_digest sha CORRELATION_ID_DOMAIN (derived_operation_id sha r)"

record MycSignerRequestRecord =
  srr_operation_id :: bytes
  srr_correlation_id :: bytes
  srr_client_public_key :: string
  srr_request_id :: string
  srr_first_event_id :: bytes
  srr_method :: MycSignerRequestMethod
  srr_request_digest :: bytes
  srr_received_at :: nat
  srr_replay_count :: nat
  srr_conflict_count :: nat
  srr_last_seen_at :: nat

definition matches_request :: "(bytes \<Rightarrow> bytes) \<Rightarrow> MycSignerRequestRecord \<Rightarrow> MycSignerRequest \<Rightarrow> bool" where
  "matches_request sha self r \<longleftrightarrow>
     srr_operation_id self = derived_operation_id sha r \<and> srr_correlation_id self = derived_correlation_id sha r
     \<and> srr_client_public_key self = sr_client_public_key r \<and> srr_request_id self = sr_request_id r
     \<and> srr_first_event_id self = sr_event_id r \<and> srr_method self = sr_method r
     \<and> srr_request_digest self = sr_request_digest r \<and> srr_received_at self = sr_received_at r"

datatype MycSignerRequestAdmission = RequestAdmitted MycSignerRequestRecord | RequestExactReplay MycSignerRequestRecord
  | RequestConflictingReuse MycSignerRequestRecord

fun request_admission_record :: "MycSignerRequestAdmission \<Rightarrow> MycSignerRequestRecord" where
  "request_admission_record (RequestAdmitted r) = r"
| "request_admission_record (RequestExactReplay r) = r"
| "request_admission_record (RequestConflictingReuse r) = r"

datatype DedupKind = DedupRequest | DedupEvent

fun dedup_kind_as_str :: "DedupKind \<Rightarrow> string" where
  "dedup_kind_as_str DedupRequest = ''request''"
| "dedup_kind_as_str DedupEvent = ''event''"

section \<open>The table of seen requests and events\<close>

record dedup_row =
  dd_dedup_kind :: string
  dd_identity_sha256 :: bytes
  dd_request_sha256 :: bytes
  dd_operation_id :: bytes
  dd_replay_count :: int
  dd_conflict_count :: int
  dd_first_seen_at_unix_ms :: int
  dd_last_seen_at_unix_ms :: int

record request_db =
  rq_connections :: connection_db
  rq_dedup :: "dedup_row list"

abbreviation rq_requests :: "request_db \<Rightarrow> request_row list" where
  "rq_requests db \<equiv> n_requests (rq_connections db)"

definition nip46_request_dedup_check :: "dedup_row \<Rightarrow> bool" where
  "nip46_request_dedup_check r \<longleftrightarrow>
     dd_dedup_kind r \<in> {''request'', ''event''} \<and> length (dd_identity_sha256 r) = 32 \<and> length (dd_request_sha256 r) = 32
     \<and> length (dd_operation_id r) = 32
     \<and> 0 \<le> dd_replay_count r \<and> dd_replay_count r \<le> sql_int_max
     \<and> 0 \<le> dd_conflict_count r \<and> dd_conflict_count r \<le> sql_int_max
     \<and> sql_time (dd_first_seen_at_unix_ms r)
     \<and> dd_first_seen_at_unix_ms r \<le> dd_last_seen_at_unix_ms r \<and> dd_last_seen_at_unix_ms r \<le> sql_int_max"

definition nip46_request_dedup_guard_update :: "dedup_row \<Rightarrow> dedup_row \<Rightarrow> bool" where
  "nip46_request_dedup_guard_update old new \<longleftrightarrow>
     dd_dedup_kind new \<noteq> dd_dedup_kind old \<or> dd_identity_sha256 new \<noteq> dd_identity_sha256 old
     \<or> dd_request_sha256 new \<noteq> dd_request_sha256 old \<or> dd_operation_id new \<noteq> dd_operation_id old
     \<or> dd_first_seen_at_unix_ms new \<noteq> dd_first_seen_at_unix_ms old
     \<or> dd_last_seen_at_unix_ms new < dd_last_seen_at_unix_ms old
     \<or> \<not> ((dd_replay_count old < sql_int_max \<and> dd_replay_count new = dd_replay_count old + 1
            \<and> dd_conflict_count new = dd_conflict_count old)
          \<or> (dd_conflict_count old < sql_int_max \<and> dd_conflict_count new = dd_conflict_count old + 1
            \<and> dd_replay_count new = dd_replay_count old))"

definition dedup_insert_legal :: "request_row list \<Rightarrow> dedup_row list \<Rightarrow> dedup_row \<Rightarrow> bool" where
  "dedup_insert_legal qs t r \<longleftrightarrow> nip46_request_dedup_check r
     \<and> list_ex (\<lambda>q. q_operation_id q = dd_operation_id r) qs
     \<and> list_all (\<lambda>d. (dd_dedup_kind d, dd_identity_sha256 d) \<noteq> (dd_dedup_kind r, dd_identity_sha256 r)) t"

definition dedup_update_legal :: "dedup_row \<Rightarrow> dedup_row \<Rightarrow> bool" where
  "dedup_update_legal old new \<longleftrightarrow> \<not> nip46_request_dedup_guard_update old new \<and> nip46_request_dedup_check new"

section \<open>Reading\<close>

definition bounded_time :: "int option \<Rightarrow> (OperationError, nat) result" where
  "bounded_time column = r_bind (ok_or Binding column) (\<lambda>v. r_bind (ok_or Binding (u64_of_int v)) (\<lambda>value.
     map_err (\<lambda>_. Binding) (received_at_new value)))"

definition bounded_count :: "int option \<Rightarrow> (OperationError, nat) result" where
  "bounded_count column = r_bind (ok_or Binding column) (\<lambda>v. ok_or Binding (u64_of_int v))"

definition digest_column :: "bytes \<Rightarrow> bytes option" where
  "digest_column b = only_if (length b = 32) b"

definition integer_column :: "int \<Rightarrow> int \<Rightarrow> int option" where
  "integer_column low v = only_if (low \<le> v \<and> v \<le> sql_int_max) v"

text \<open>
  A row of the join: the selected entry, its request, and the entry of that request. The CASE expressions of the
  statement read an ill-sized column as NULL.
\<close>

definition parse_record ::
    "crates \<Rightarrow> dedup_row \<times> request_row \<times> dedup_row \<Rightarrow> DedupKind \<Rightarrow> bytes \<Rightarrow> (OperationError, MycSignerRequestRecord) result" where
  "parse_record cr row selected_kind selected_identity = (case row of (selected, r, request_dedup) \<Rightarrow>
     r_bind (exact_digest (digest_column (q_operation_id r))) (\<lambda>operation_id.
     r_bind (exact_digest (digest_column (q_correlation_id r))) (\<lambda>correlation_id.
     r_bind (exact_digest (digest_column (q_operation_nonce r))) (\<lambda>operation_nonce.
     r_bind (exact_digest (digest_column (q_request_identity_sha256 r))) (\<lambda>request_identity.
     r_bind (exact_digest (digest_column (dd_request_sha256 selected))) (\<lambda>selected_request_digest.
     r_bind (exact_digest (digest_column (dd_request_sha256 request_dedup))) (\<lambda>logical_request_digest.
     r_bind (exact_digest (digest_column (dd_operation_id request_dedup))) (\<lambda>logical_operation_id.
     r_bind (exact_digest (digest_column (q_request_sha256 r))) (\<lambda>request_digest.
     r_bind (client_column cr (q_client_public_key r)) (\<lambda>client_public_key.
     r_bind (r_bind (connection_text (only_if (1 \<le> length (q_request_id r) \<and> length (q_request_id r) \<le> 128) (q_request_id r)))
       (\<lambda>value. map_err (\<lambda>_. Binding) (request_id_new value))) (\<lambda>request_id.
     if (selected_kind = DedupRequest \<and> selected_identity \<noteq> request_identity)
        \<or> selected_request_digest \<noteq> request_digest
        \<or> logical_request_digest \<noteq> request_digest
        \<or> logical_operation_id \<noteq> operation_id
        \<or> derive_request_identity (sha256 cr) client_public_key request_id \<noteq> request_identity
        \<or> derive_operation_id (sha256 cr) request_identity operation_nonce \<noteq> operation_id
        \<or> derive_digest (sha256 cr) CORRELATION_ID_DOMAIN operation_id \<noteq> correlation_id
     then Inl Binding else
     r_bind (r_bind (connection_text (only_if (1 \<le> length (q_method r) \<and> length (q_method r) \<le> 64) (q_method r)))
       (\<lambda>value. ok_or Binding (method_parse value))) (\<lambda>request_method.
     r_bind (bounded_time (integer_column 1 (q_received_at_unix_ms r))) (\<lambda>received_at.
     r_bind (bounded_time (integer_column 1 (dd_last_seen_at_unix_ms request_dedup))) (\<lambda>last_seen_at.
     if last_seen_at < received_at then Inl Binding else
     r_bind (exact_digest (digest_column (q_first_event_id r))) (\<lambda>first_event_id.
     r_bind (bounded_count (integer_column 0 (dd_replay_count request_dedup))) (\<lambda>replay_count.
     r_bind (bounded_count (integer_column 0 (dd_conflict_count request_dedup))) (\<lambda>conflict_count.
     Inr \<lparr>srr_operation_id = operation_id, srr_correlation_id = correlation_id, srr_client_public_key = client_public_key,
       srr_request_id = request_id, srr_first_event_id = first_event_id, srr_method = request_method,
       srr_request_digest = request_digest, srr_received_at = received_at, srr_replay_count = replay_count,
       srr_conflict_count = conflict_count, srr_last_seen_at = last_seen_at\<rparr>)))))))))))))))))"

definition dedup_join :: "request_db \<Rightarrow> DedupKind \<Rightarrow> bytes \<Rightarrow> (dedup_row \<times> request_row \<times> dedup_row) list" where
  "dedup_join db kind identity =
     [(selected, r, request_dedup).
        selected \<leftarrow> filter (\<lambda>d. dd_dedup_kind d = dedup_kind_as_str kind \<and> dd_identity_sha256 d = identity) (rq_dedup db),
        r \<leftarrow> filter (\<lambda>q. q_operation_id q = dd_operation_id selected) (rq_requests db),
        request_dedup \<leftarrow> filter (\<lambda>d. dd_dedup_kind d = ''request'' \<and> dd_identity_sha256 d = q_request_identity_sha256 r)
          (rq_dedup db)]"

definition read_by_dedup ::
    "crates \<Rightarrow> request_db \<Rightarrow> DedupKind \<Rightarrow> bytes \<Rightarrow> (OperationError, MycSignerRequestRecord option) result" where
  "read_by_dedup cr db kind identity =
     (case take 2 (dedup_join db kind identity) of
        [] \<Rightarrow> Inr None
      | [row] \<Rightarrow> r_bind (parse_record cr row kind identity) (\<lambda>r. Inr (Some r))
      | _ \<Rightarrow> Inl Binding)"

definition read_outcome ::
    "crates \<Rightarrow> request_db \<Rightarrow> DedupKind \<Rightarrow> bytes \<Rightarrow> (MycSignerRequestRecord \<Rightarrow> MycSignerRequestAdmission)
      \<Rightarrow> (OperationError, MycSignerRequestAdmission) result" where
  "read_outcome cr db kind identity outcome =
     r_bind (read_by_dedup cr db kind identity) (\<lambda>r. ok_or Binding (map_option outcome r))"

section \<open>Writing\<close>

definition store_request :: "request_row \<Rightarrow> connection_db \<Rightarrow> connection_db" where
  "store_request q db = db\<lparr>n_gov := (n_gov db)\<lparr>g_requests := g_requests (n_gov db) @ [request_key q]\<rparr>,
     n_requests := n_requests db @ [q]\<rparr>"

text \<open>\<open>nip46_requests\<close> is one table, kept whole in \<open>n_requests\<close> and by its keys in \<open>n_gov\<close>.\<close>

definition insert_request :: "request_db \<Rightarrow> request_row \<Rightarrow> (request_db \<times> nat) option" where
  "insert_request db q = map_option (\<lambda>(t, n). (db\<lparr>rq_connections := store_request q (rq_connections db)\<rparr>, n))
     (sql_insert request_insert_legal q (rq_requests db))"

definition insert_dedup ::
    "request_db \<Rightarrow> DedupKind \<Rightarrow> bytes \<Rightarrow> bytes \<Rightarrow> bytes \<Rightarrow> int \<Rightarrow> nat \<Rightarrow> (OperationError, request_db) result" where
  "insert_dedup db kind identity request_digest operation_id replay_count received_at =
     connection_execute_one (map_option (\<lambda>(t, n). (db\<lparr>rq_dedup := t\<rparr>, n))
       (sql_insert (dedup_insert_legal (rq_requests db))
         \<lparr>dd_dedup_kind = dedup_kind_as_str kind, dd_identity_sha256 = identity, dd_request_sha256 = request_digest,
           dd_operation_id = operation_id, dd_replay_count = replay_count, dd_conflict_count = 0,
           dd_first_seen_at_unix_ms = int received_at, dd_last_seen_at_unix_ms = int received_at\<rparr> (rq_dedup db)))"

definition record_replay_set :: "nat \<Rightarrow> dedup_row \<Rightarrow> dedup_row" where
  "record_replay_set received_at d = d\<lparr>dd_replay_count := dd_replay_count d + 1,
     dd_last_seen_at_unix_ms := max (dd_last_seen_at_unix_ms d) (int received_at)\<rparr>"

definition record_conflict_set :: "nat \<Rightarrow> dedup_row \<Rightarrow> dedup_row" where
  "record_conflict_set received_at d = d\<lparr>dd_conflict_count := dd_conflict_count d + 1,
     dd_last_seen_at_unix_ms := max (dd_last_seen_at_unix_ms d) (int received_at)\<rparr>"

text \<open>The statement's SET clause and its bound on the counter are the arguments \<open>assign\<close> and \<open>counter\<close>.\<close>

definition update_counter ::
    "request_db \<Rightarrow> (nat \<Rightarrow> dedup_row \<Rightarrow> dedup_row) \<Rightarrow> (dedup_row \<Rightarrow> int) \<Rightarrow> DedupKind \<Rightarrow> bytes \<Rightarrow> nat
      \<Rightarrow> (OperationError, request_db) result" where
  "update_counter db assign counter kind identity received_at =
     connection_execute_one (map_option (\<lambda>(t, n). (db\<lparr>rq_dedup := t\<rparr>, n))
       (sql_update (\<lambda>d. dd_dedup_kind d = dedup_kind_as_str kind \<and> dd_identity_sha256 d = identity \<and> counter d < sql_int_max)
         (assign received_at) dedup_update_legal (rq_dedup db)))"

definition record_replay :: "request_db \<Rightarrow> DedupKind \<Rightarrow> bytes \<Rightarrow> nat \<Rightarrow> (OperationError, request_db) result" where
  "record_replay db = update_counter db record_replay_set dd_replay_count"

definition record_conflict :: "request_db \<Rightarrow> DedupKind \<Rightarrow> bytes \<Rightarrow> nat \<Rightarrow> (OperationError, request_db) result" where
  "record_conflict db = update_counter db record_conflict_set dd_conflict_count"

section \<open>Admission\<close>

definition new_request_row :: "(bytes \<Rightarrow> bytes) \<Rightarrow> MycSignerRequest \<Rightarrow> request_row" where
  "new_request_row sha r =
     \<lparr>q_operation_id = derived_operation_id sha r, q_correlation_id = derived_correlation_id sha r,
       q_operation_nonce = sr_operation_nonce r, q_request_identity_sha256 = sr_request_identity r,
       q_client_public_key = sr_client_public_key r, q_request_id = sr_request_id r, q_first_event_id = sr_event_id r,
       q_method = method_as_str (sr_method r), q_request_sha256 = sr_request_digest r,
       q_received_at_unix_ms = int (sr_received_at r)\<rparr>"

definition insert_new_request ::
    "crates \<Rightarrow> request_db \<Rightarrow> MycSignerRequest \<Rightarrow> (OperationError, MycSignerRequestAdmission \<times> request_db) result" where
  "insert_new_request cr db r =
     (let operation_id = derived_operation_id (sha256 cr) r in
     r_bind (connection_execute_one (insert_request db (new_request_row (sha256 cr) r))) (\<lambda>db1.
     r_bind (insert_dedup db1 DedupRequest (sr_request_identity r) (sr_request_digest r) operation_id 0 (sr_received_at r)) (\<lambda>db2.
     r_bind (insert_dedup db2 DedupEvent (sr_event_id r) (sr_request_digest r) operation_id 0 (sr_received_at r)) (\<lambda>db3.
     r_bind (read_outcome cr db3 DedupRequest (sr_request_identity r) RequestAdmitted) (\<lambda>outcome. Inr (outcome, db3))))))"

definition exact_request :: "MycSignerRequestRecord \<Rightarrow> MycSignerRequest \<Rightarrow> bool" where
  "exact_request existing r \<longleftrightarrow>
     srr_client_public_key existing = sr_client_public_key r \<and> srr_request_id existing = sr_request_id r
     \<and> srr_method existing = sr_method r \<and> srr_request_digest existing = sr_request_digest r"

text \<open>A conflict with a logical request, and a replay of one.\<close>

definition conflicting_request ::
    "crates \<Rightarrow> request_db \<Rightarrow> MycSignerRequest \<Rightarrow> (OperationError, MycSignerRequestAdmission \<times> request_db) result" where
  "conflicting_request cr db r =
     r_bind (record_conflict db DedupRequest (sr_request_identity r) (sr_received_at r)) (\<lambda>db1.
     r_bind (read_outcome cr db1 DedupRequest (sr_request_identity r) RequestConflictingReuse) (\<lambda>outcome. Inr (outcome, db1)))"

definition admit_request ::
    "crates \<Rightarrow> request_db \<Rightarrow> MycSignerRequest \<Rightarrow> (OperationError, MycSignerRequestAdmission \<times> request_db) result" where
  "admit_request cr db r =
     r_bind (read_by_dedup cr db DedupRequest (sr_request_identity r)) (\<lambda>request_match.
     r_bind (read_by_dedup cr db DedupEvent (sr_event_id r)) (\<lambda>event_match.
     case (request_match, event_match) of
       (None, None) \<Rightarrow> insert_new_request cr db r
     | (Some existing, event) \<Rightarrow>
         if exact_request existing r then
           (let replayed = (\<lambda>db1.
              r_bind (record_replay db1 DedupRequest (sr_request_identity r) (sr_received_at r)) (\<lambda>db2.
              r_bind (read_outcome cr db2 DedupRequest (sr_request_identity r) RequestExactReplay) (\<lambda>outcome. Inr (outcome, db2))))
            in case event of
                 Some event \<Rightarrow>
                   if srr_operation_id event \<noteq> srr_operation_id existing then conflicting_request cr db r
                   else r_bind (record_replay db DedupEvent (sr_event_id r) (sr_received_at r)) replayed
               | None \<Rightarrow> r_bind (insert_dedup db DedupEvent (sr_event_id r) (sr_request_digest r) (srr_operation_id existing) 0
                     (sr_received_at r)) replayed)
         else conflicting_request cr db r
     | (None, Some _) \<Rightarrow>
         r_bind (record_conflict db DedupEvent (sr_event_id r) (sr_received_at r)) (\<lambda>db1.
         r_bind (read_by_dedup cr db1 DedupEvent (sr_event_id r)) (\<lambda>found.
         r_bind (ok_or Binding found) (\<lambda>found_record. Inr (RequestConflictingReuse found_record, db1))))))"

definition admit_signer_request ::
    "crates \<Rightarrow> PersistedMetadata \<Rightarrow> request_db \<Rightarrow> MycSignerRequest
      \<Rightarrow> (OperationError, MycSignerRequestAdmission \<times> request_db) result" where
  "admit_signer_request cr expected db r =
     r_bind (governance_verify_metadata (n_gov (rq_connections db)) expected) (\<lambda>_. admit_request cr db r)"

end
