(* ===== verification/Provider_Contract.thy ===== *)
theory Provider_Contract
  imports Config_Apply
begin

unbundle bit_operations_syntax

text \<open>
  The signer-provider contract (\<^verbatim>\<open>src/src/provider_contract.rs\<close>): the bindings of the identity roles from the
  configuration, capability sets as bit masks, bounded operation inputs, and operations bound to one provider. The check of a
  credential name (crate \<open>radroots_runtime_paths\<close>) is a parameter.
\<close>

section \<open>Limits and errors\<close>

definition MYC_PROVIDER_INPUT_MAX_BYTES :: nat where "MYC_PROVIDER_INPUT_MAX_BYTES = 262144"
definition MYC_PROVIDER_OUTPUT_MAX_BYTES :: nat where "MYC_PROVIDER_OUTPUT_MAX_BYTES = 1048576"
definition MYC_PROVIDER_NIP44_PLAINTEXT_MAX_BYTES :: nat where "MYC_PROVIDER_NIP44_PLAINTEXT_MAX_BYTES = 65536 - 128"
definition MYC_PROVIDER_REQUEST_DEADLINE_MAX_MS :: nat where "MYC_PROVIDER_REQUEST_DEADLINE_MAX_MS = 30000"
definition MYC_PROVIDER_REQUEST_MAX_BYTES :: nat where "MYC_PROVIDER_REQUEST_MAX_BYTES = 65536"
definition MYC_PROVIDER_RESPONSE_MAX_BYTES :: nat where "MYC_PROVIDER_RESPONSE_MAX_BYTES = 1048576"
definition MYC_PROVIDER_CONCURRENCY_MAX :: nat where "MYC_PROVIDER_CONCURRENCY_MAX = 64"

lemmas provider_limits = MYC_PROVIDER_INPUT_MAX_BYTES_def MYC_PROVIDER_OUTPUT_MAX_BYTES_def MYC_PROVIDER_NIP44_PLAINTEXT_MAX_BYTES_def
  MYC_PROVIDER_REQUEST_DEADLINE_MAX_MS_def MYC_PROVIDER_REQUEST_MAX_BYTES_def MYC_PROVIDER_RESPONSE_MAX_BYTES_def
  MYC_PROVIDER_CONCURRENCY_MAX_def

datatype MycProviderContractErrorKind = ProviderInvalidConfiguration | ProviderInvalidIdentity | ProviderInvalidCredentialReference
  | ProviderInvalidLimits | ProviderInvalidCapabilitySet | ProviderInvalidDeadline | ProviderInvalidInput | ProviderInvalidOutput
  | ProviderUnsupportedOperation

section \<open>Roles, kinds and capabilities\<close>

datatype MycProviderRole = RoleTransport | RoleUser | RoleDiscovery

fun role_as_str :: "MycProviderRole \<Rightarrow> string" where
  "role_as_str RoleTransport = ''transport''"
| "role_as_str RoleUser = ''user''"
| "role_as_str RoleDiscovery = ''discovery''"

fun config_pointer :: "MycProviderRole \<Rightarrow> string" where
  "config_pointer RoleTransport = ''/identity/transport''"
| "config_pointer RoleUser = ''/identity/user''"
| "config_pointer RoleDiscovery = ''/identity/discovery/binding''"

datatype MycProviderKind = KindEncryptedFile | KindLocalSigner

fun kind_as_str :: "MycProviderKind \<Rightarrow> string" where
  "kind_as_str KindEncryptedFile = ''encrypted_file''"
| "kind_as_str KindLocalSigner = ''local_signer''"

datatype MycProviderCapability = CapDescribe | CapPublicIdentity | CapSignEvent | CapNip04Encrypt | CapNip04Decrypt
  | CapNip44Encrypt | CapNip44Decrypt

definition capability_ALL :: "MycProviderCapability list" where
  "capability_ALL = [CapDescribe, CapPublicIdentity, CapSignEvent, CapNip04Encrypt, CapNip04Decrypt, CapNip44Encrypt, CapNip44Decrypt]"

fun capability_as_str :: "MycProviderCapability \<Rightarrow> string" where
  "capability_as_str CapDescribe = ''describe''"
| "capability_as_str CapPublicIdentity = ''public_identity''"
| "capability_as_str CapSignEvent = ''sign_event''"
| "capability_as_str CapNip04Encrypt = ''nip04_encrypt''"
| "capability_as_str CapNip04Decrypt = ''nip04_decrypt''"
| "capability_as_str CapNip44Encrypt = ''nip44_encrypt''"
| "capability_as_str CapNip44Decrypt = ''nip44_decrypt''"

fun capability_bit :: "MycProviderCapability \<Rightarrow> 8 word" where
  "capability_bit CapDescribe = push_bit 0 1"
| "capability_bit CapPublicIdentity = push_bit 1 1"
| "capability_bit CapSignEvent = push_bit 2 1"
| "capability_bit CapNip04Encrypt = push_bit 3 1"
| "capability_bit CapNip04Decrypt = push_bit 4 1"
| "capability_bit CapNip44Encrypt = push_bit 5 1"
| "capability_bit CapNip44Decrypt = push_bit 6 1"

type_synonym MycProviderCapabilitySet = "8 word"

fun collect_capabilities ::
    "8 word \<Rightarrow> MycProviderCapability list \<Rightarrow> (MycProviderContractErrorKind, MycProviderCapabilitySet) result" where
  "collect_capabilities bits [] = Inr bits"
| "collect_capabilities bits (capability # rest) =
     (if bits AND capability_bit capability \<noteq> 0 then Inl ProviderInvalidCapabilitySet
      else collect_capabilities (bits OR capability_bit capability) rest)"

definition capability_set_new ::
    "MycProviderCapability list \<Rightarrow> (MycProviderContractErrorKind, MycProviderCapabilitySet) result" where
  "capability_set_new capabilities =
     (if capabilities = [] \<or> length capability_ALL < length capabilities then Inl ProviderInvalidCapabilitySet
      else collect_capabilities 0 capabilities)"

definition capabilities_for_role :: "MycProviderRole \<Rightarrow> MycProviderCapabilitySet" where
  "capabilities_for_role role =
     (let common = capability_bit CapDescribe OR capability_bit CapPublicIdentity in
      case role of
        RoleTransport \<Rightarrow> common OR capability_bit CapSignEvent OR capability_bit CapNip04Encrypt OR capability_bit CapNip04Decrypt
          OR capability_bit CapNip44Encrypt OR capability_bit CapNip44Decrypt
      | RoleUser \<Rightarrow> common OR capability_bit CapSignEvent OR capability_bit CapNip04Encrypt OR capability_bit CapNip04Decrypt
          OR capability_bit CapNip44Encrypt OR capability_bit CapNip44Decrypt
      | RoleDiscovery \<Rightarrow> common OR capability_bit CapSignEvent)"

definition capability_set_contains :: "MycProviderCapabilitySet \<Rightarrow> MycProviderCapability \<Rightarrow> bool" where
  "capability_set_contains self capability \<longleftrightarrow> self AND capability_bit capability \<noteq> 0"

definition capability_set_len :: "MycProviderCapabilitySet \<Rightarrow> nat" where
  "capability_set_len self = length (filter (bit self) [0..<8])"

definition capability_set_is_empty :: "MycProviderCapabilitySet \<Rightarrow> bool" where
  "capability_set_is_empty self \<longleftrightarrow> self = 0"

definition capability_set_iter :: "MycProviderCapabilitySet \<Rightarrow> MycProviderCapability list" where
  "capability_set_iter self = filter (capability_set_contains self) capability_ALL"

datatype MycProviderInstanceId = InstanceTransport | InstanceUser | InstanceDiscovery

fun instance_as_str :: "MycProviderInstanceId \<Rightarrow> string" where
  "instance_as_str InstanceTransport = ''transport''"
| "instance_as_str InstanceUser = ''user''"
| "instance_as_str InstanceDiscovery = ''discovery''"

fun instance_from :: "MycProviderRole \<Rightarrow> MycProviderInstanceId" where
  "instance_from RoleTransport = InstanceTransport"
| "instance_from RoleUser = InstanceUser"
| "instance_from RoleDiscovery = InstanceDiscovery"

section \<open>Bindings\<close>

definition public_identity_new :: "crates \<Rightarrow> string \<Rightarrow> (MycProviderContractErrorKind, string) result" where
  "public_identity_new cr value =
     (if length value \<noteq> 64 \<or> list_ex (\<lambda>c. \<not> is_ascii_hexdigit c \<or> is_ascii_uppercase c) value then Inl ProviderInvalidIdentity else
     r_bind (ok_or ProviderInvalidIdentity (key_hex cr value)) (\<lambda>hex.
     if \<not> key_xonly cr value then Inl ProviderInvalidIdentity
     else if hex \<noteq> value then Inl ProviderInvalidIdentity else Inr value))"

definition credential_reference_new :: "(string \<Rightarrow> bool) \<Rightarrow> string \<Rightarrow> (MycProviderContractErrorKind, string) result" where
  "credential_reference_new artifact_name value = (if artifact_name value then Inr value else Inl ProviderInvalidCredentialReference)"

record MycLocalSignerLimits =
  ls_request_deadline_ms :: nat
  ls_request_max_bytes :: nat
  ls_response_max_bytes :: nat
  ls_concurrency :: nat

definition local_signer_limits_new :: "nat \<Rightarrow> nat \<Rightarrow> nat \<Rightarrow> nat \<Rightarrow> (MycProviderContractErrorKind, MycLocalSignerLimits) result" where
  "local_signer_limits_new request_deadline_ms request_max_bytes response_max_bytes concurrency =
     (if \<not> (1 \<le> request_deadline_ms \<and> request_deadline_ms \<le> MYC_PROVIDER_REQUEST_DEADLINE_MAX_MS)
         \<or> \<not> (1 \<le> request_max_bytes \<and> request_max_bytes \<le> MYC_PROVIDER_REQUEST_MAX_BYTES)
         \<or> \<not> (1 \<le> response_max_bytes \<and> response_max_bytes \<le> MYC_PROVIDER_RESPONSE_MAX_BYTES)
         \<or> \<not> (1 \<le> concurrency \<and> concurrency \<le> MYC_PROVIDER_CONCURRENCY_MAX)
      then Inl ProviderInvalidLimits
      else Inr \<lparr>ls_request_deadline_ms = request_deadline_ms, ls_request_max_bytes = request_max_bytes,
        ls_response_max_bytes = response_max_bytes, ls_concurrency = concurrency\<rparr>)"

datatype ProviderLocation = EncryptedFileAt string string | LocalSignerAt string MycLocalSignerLimits

record MycProviderBinding =
  pb_role :: MycProviderRole
  pb_instance :: MycProviderInstanceId
  pb_kind :: MycProviderKind
  pb_expected_identity :: string
  pb_required_capabilities :: MycProviderCapabilitySet
  pb_location :: ProviderLocation

definition binding_credential_reference :: "MycProviderBinding \<Rightarrow> string option" where
  "binding_credential_reference self = (case pb_location self of EncryptedFileAt _ reference \<Rightarrow> Some reference | LocalSignerAt _ _ \<Rightarrow> None)"

definition binding_local_signer_limits :: "MycProviderBinding \<Rightarrow> MycLocalSignerLimits option" where
  "binding_local_signer_limits self = (case pb_location self of EncryptedFileAt _ _ \<Rightarrow> None | LocalSignerAt _ limits \<Rightarrow> Some limits)"

definition encrypted_envelope_path :: "MycProviderBinding \<Rightarrow> string option" where
  "encrypted_envelope_path self = (case pb_location self of EncryptedFileAt path _ \<Rightarrow> Some path | LocalSignerAt _ _ \<Rightarrow> None)"

definition local_signer_socket_path :: "MycProviderBinding \<Rightarrow> string option" where
  "local_signer_socket_path self = (case pb_location self of LocalSignerAt path _ \<Rightarrow> Some path | EncryptedFileAt _ _ \<Rightarrow> None)"

text \<open>\<open>Path::is_absolute\<close> on Unix.\<close>

definition path_is_absolute :: "string \<Rightarrow> bool" where
  "path_is_absolute path \<longleftrightarrow> take 1 path = ''/''"

definition location_is_valid :: "MycProviderBinding \<Rightarrow> bool" where
  "location_is_valid self = (case pb_location self of
     EncryptedFileAt path reference \<Rightarrow> path_is_absolute path \<and> reference \<noteq> []
   | LocalSignerAt path limits \<Rightarrow> path_is_absolute path \<and> 0 < ls_concurrency limits)"

definition document_string :: "json_document \<Rightarrow> string \<Rightarrow> (MycProviderContractErrorKind, string) result" where
  "document_string document pointer = ok_or ProviderInvalidConfiguration (Option.bind (document pointer) as_str)"

definition document_u64 :: "json_document \<Rightarrow> string \<Rightarrow> (MycProviderContractErrorKind, nat) result" where
  "document_u64 document pointer = ok_or ProviderInvalidConfiguration (Option.bind (document pointer) as_u64)"

definition document_bool :: "json_document \<Rightarrow> string \<Rightarrow> (MycProviderContractErrorKind, bool) result" where
  "document_bool document pointer = ok_or ProviderInvalidConfiguration (Option.bind (document pointer) as_bool)"

definition encrypted_file_location ::
    "(string \<Rightarrow> bool) \<Rightarrow> json_document \<Rightarrow> string \<Rightarrow> (MycProviderContractErrorKind, MycProviderKind \<times> ProviderLocation) result" where
  "encrypted_file_location artifact_name document prefix =
     r_bind (document_string document (prefix @ ''/envelope_path'')) (\<lambda>envelope_path.
     if \<not> path_is_absolute envelope_path then Inl ProviderInvalidConfiguration else
     r_bind (r_bind (document_string document (prefix @ ''/credential_reference'')) (credential_reference_new artifact_name)) (\<lambda>reference.
     Inr (KindEncryptedFile, EncryptedFileAt envelope_path reference)))"

definition local_signer_location ::
    "json_document \<Rightarrow> string \<Rightarrow> (MycProviderContractErrorKind, MycProviderKind \<times> ProviderLocation) result" where
  "local_signer_location document prefix =
     r_bind (document_string document (prefix @ ''/socket_path'')) (\<lambda>socket_path.
     if \<not> path_is_absolute socket_path then Inl ProviderInvalidConfiguration else
     r_bind (document_u64 document (prefix @ ''/request_deadline_ms'')) (\<lambda>deadline.
     r_bind (document_u64 document (prefix @ ''/request_max_bytes'')) (\<lambda>request_max.
     r_bind (document_u64 document (prefix @ ''/response_max_bytes'')) (\<lambda>response_max.
     r_bind (document_u64 document (prefix @ ''/concurrency'')) (\<lambda>concurrency.
     if u32_max < concurrency then Inl ProviderInvalidLimits else
     r_bind (local_signer_limits_new deadline request_max response_max concurrency) (\<lambda>limits.
     Inr (KindLocalSigner, LocalSignerAt socket_path limits)))))))"

definition binding_from_config ::
    "crates \<Rightarrow> (string \<Rightarrow> bool) \<Rightarrow> json_document \<Rightarrow> MycProviderRole \<Rightarrow> (MycProviderContractErrorKind, MycProviderBinding) result" where
  "binding_from_config cr artifact_name document role =
     (let prefix = config_pointer role in
     r_bind (document_string document (prefix @ ''/provider'')) (\<lambda>provider.
     r_bind (r_bind (document_string document (prefix @ ''/expected_public_key'')) (public_identity_new cr)) (\<lambda>expected_identity.
     r_bind (if provider = ''encrypted_file'' then encrypted_file_location artifact_name document prefix
             else if provider = ''local_signer'' then local_signer_location document prefix
             else Inl ProviderInvalidConfiguration) (\<lambda>(kind, location).
     Inr \<lparr>pb_role = role, pb_instance = instance_from role, pb_kind = kind, pb_expected_identity = expected_identity,
       pb_required_capabilities = capabilities_for_role role, pb_location = location\<rparr>))))"

type_synonym MycProviderContract = "MycProviderBinding list"

definition provider_contract_from_normalized ::
    "crates \<Rightarrow> (string \<Rightarrow> bool) \<Rightarrow> json_document \<Rightarrow> (MycProviderContractErrorKind, MycProviderContract) result" where
  "provider_contract_from_normalized cr artifact_name document =
     r_bind (binding_from_config cr artifact_name document RoleTransport) (\<lambda>transport.
     r_bind (binding_from_config cr artifact_name document RoleUser) (\<lambda>user.
     r_bind (document_bool document ''/identity/discovery/enabled'') (\<lambda>enabled.
     r_bind (if enabled then r_bind (binding_from_config cr artifact_name document RoleDiscovery) (\<lambda>discovery. Inr [transport, user, discovery])
             else Inr [transport, user]) (\<lambda>bindings.
     if \<not> distinct (map pb_expected_identity bindings) then Inl ProviderInvalidIdentity else Inr bindings))))"

definition contract_binding :: "MycProviderContract \<Rightarrow> MycProviderRole \<Rightarrow> MycProviderBinding option" where
  "contract_binding self role = find (\<lambda>binding. pb_role binding = role) self"

section \<open>Operations\<close>

definition provider_deadline_new :: "nat \<Rightarrow> (MycProviderContractErrorKind, nat) result" where
  "provider_deadline_new value = (if value = 0 \<or> i64_of_nat value = None then Inl ProviderInvalidDeadline else Inr value)"

datatype MycProviderNip44Version = ProviderV2

fun nip44_version_as_u8 :: "MycProviderNip44Version \<Rightarrow> byte" where
  "nip44_version_as_u8 ProviderV2 = 2"

datatype MycProviderOperationInput = InputDescribe | InputPublicIdentity | InputSignEvent bytes
  | InputNip04Encrypt string bytes | InputNip04Decrypt string bytes
  | InputNip44Encrypt string MycProviderNip44Version bytes | InputNip44Decrypt string MycProviderNip44Version bytes

definition copy_input :: "bytes \<Rightarrow> bool \<Rightarrow> (MycProviderContractErrorKind, bytes) result" where
  "copy_input bs empty_allowed =
     (if (\<not> empty_allowed \<and> bs = []) \<or> MYC_PROVIDER_INPUT_MAX_BYTES < length bs then Inl ProviderInvalidInput else Inr bs)"

definition input_sign_event :: "bytes \<Rightarrow> (MycProviderContractErrorKind, MycProviderOperationInput) result" where
  "input_sign_event event = r_bind (copy_input event False) (\<lambda>bs. Inr (InputSignEvent bs))"

definition input_nip04_encrypt :: "string \<Rightarrow> bytes \<Rightarrow> (MycProviderContractErrorKind, MycProviderOperationInput) result" where
  "input_nip04_encrypt peer plaintext = r_bind (copy_input plaintext True) (\<lambda>bs. Inr (InputNip04Encrypt peer bs))"

definition input_nip04_decrypt :: "string \<Rightarrow> bytes \<Rightarrow> (MycProviderContractErrorKind, MycProviderOperationInput) result" where
  "input_nip04_decrypt peer ciphertext = r_bind (copy_input ciphertext False) (\<lambda>bs. Inr (InputNip04Decrypt peer bs))"

definition input_nip44_encrypt ::
    "string \<Rightarrow> MycProviderNip44Version \<Rightarrow> bytes \<Rightarrow> (MycProviderContractErrorKind, MycProviderOperationInput) result" where
  "input_nip44_encrypt peer version plaintext =
     (if MYC_PROVIDER_NIP44_PLAINTEXT_MAX_BYTES < length plaintext then Inl ProviderInvalidInput
      else r_bind (copy_input plaintext False) (\<lambda>bs. Inr (InputNip44Encrypt peer version bs)))"

definition input_nip44_decrypt ::
    "string \<Rightarrow> MycProviderNip44Version \<Rightarrow> bytes \<Rightarrow> (MycProviderContractErrorKind, MycProviderOperationInput) result" where
  "input_nip44_decrypt peer version ciphertext = r_bind (copy_input ciphertext False) (\<lambda>bs. Inr (InputNip44Decrypt peer version bs))"

fun input_capability :: "MycProviderOperationInput \<Rightarrow> MycProviderCapability" where
  "input_capability InputDescribe = CapDescribe"
| "input_capability InputPublicIdentity = CapPublicIdentity"
| "input_capability (InputSignEvent _) = CapSignEvent"
| "input_capability (InputNip04Encrypt _ _) = CapNip04Encrypt"
| "input_capability (InputNip04Decrypt _ _) = CapNip04Decrypt"
| "input_capability (InputNip44Encrypt _ _ _) = CapNip44Encrypt"
| "input_capability (InputNip44Decrypt _ _ _) = CapNip44Decrypt"

fun input_peer :: "MycProviderOperationInput \<Rightarrow> string option" where
  "input_peer (InputNip04Encrypt peer _) = Some peer"
| "input_peer (InputNip04Decrypt peer _) = Some peer"
| "input_peer (InputNip44Encrypt peer _ _) = Some peer"
| "input_peer (InputNip44Decrypt peer _ _) = Some peer"
| "input_peer _ = None"

fun input_bytes :: "MycProviderOperationInput \<Rightarrow> bytes option" where
  "input_bytes (InputSignEvent bs) = Some bs"
| "input_bytes (InputNip04Encrypt _ bs) = Some bs"
| "input_bytes (InputNip04Decrypt _ bs) = Some bs"
| "input_bytes (InputNip44Encrypt _ _ bs) = Some bs"
| "input_bytes (InputNip44Decrypt _ _ bs) = Some bs"
| "input_bytes _ = None"

fun input_nip44_version :: "MycProviderOperationInput \<Rightarrow> MycProviderNip44Version option" where
  "input_nip44_version (InputNip44Encrypt _ version _) = Some version"
| "input_nip44_version (InputNip44Decrypt _ version _) = Some version"
| "input_nip44_version _ = None"

record MycProviderOperation =
  po_role :: MycProviderRole
  po_instance :: MycProviderInstanceId
  po_provider :: MycProviderKind
  po_operation_id :: bytes
  po_correlation_id :: bytes
  po_deadline :: nat
  po_expected_identity :: string
  po_input :: MycProviderOperationInput

definition provider_operation_new ::
    "MycProviderBinding \<Rightarrow> bytes \<Rightarrow> bytes \<Rightarrow> nat \<Rightarrow> MycProviderOperationInput \<Rightarrow> (MycProviderContractErrorKind, MycProviderOperation) result" where
  "provider_operation_new binding operation_id correlation_id deadline input =
     (if \<not> capability_set_contains (pb_required_capabilities binding) (input_capability input) then Inl ProviderUnsupportedOperation
      else Inr \<lparr>po_role = pb_role binding, po_instance = pb_instance binding, po_provider = pb_kind binding,
        po_operation_id = operation_id, po_correlation_id = correlation_id, po_deadline = deadline,
        po_expected_identity = pb_expected_identity binding, po_input = input\<rparr>)"

definition framed :: "bytes \<Rightarrow> bytes" where
  "framed value = to_be_bytes 8 (min (length value) u64_max) @ value"

definition OPERATION_BINDING_DOMAIN :: bytes where
  "OPERATION_BINDING_DOMAIN = str_bytes ''radroots.myc.provider.operation_binding.v1'' @ [0]"

definition operation_preimage :: "MycProviderOperation \<Rightarrow> bytes" where
  "operation_preimage self = OPERATION_BINDING_DOMAIN
     @ framed (str_bytes (role_as_str (po_role self))) @ framed (str_bytes (instance_as_str (po_instance self)))
     @ framed (str_bytes (kind_as_str (po_provider self))) @ po_operation_id self @ po_correlation_id self
     @ to_be_bytes 8 (po_deadline self) @ framed (str_bytes (po_expected_identity self))
     @ framed (str_bytes (capability_as_str (input_capability (po_input self))))
     @ framed (str_bytes (case input_peer (po_input self) of None \<Rightarrow> [] | Some peer \<Rightarrow> peer))
     @ [case input_nip44_version (po_input self) of None \<Rightarrow> 0 | Some version \<Rightarrow> nip44_version_as_u8 version]
     @ framed (case input_bytes (po_input self) of None \<Rightarrow> [] | Some bs \<Rightarrow> bs)"

definition binding_digest :: "(bytes \<Rightarrow> bytes) \<Rightarrow> MycProviderOperation \<Rightarrow> bytes" where
  "binding_digest sha self = sha (operation_preimage self)"

definition untrusted_output_new :: "bytes \<Rightarrow> (MycProviderContractErrorKind, bytes) result" where
  "untrusted_output_new bs = (if MYC_PROVIDER_OUTPUT_MAX_BYTES < length bs then Inl ProviderInvalidOutput else Inr bs)"

end
