(* ===== verification/Nip46_Verification.thy ===== *)
theory Nip46_Verification
  imports Nip46_Input Request_State Provider_Contract
begin

text \<open>
  Verification of admitted input (\<^verbatim>\<open>src/src/nip46_verification.rs\<close>) and the replay identities derived from it
  (\<^verbatim>\<open>src/src/nip46_replay.rs\<close>). Third-party code is a parameter, collected in \<open>event_crates\<close>: the JSON decoding of an event,
  its identifier and signature checks (crate \<open>nostr\<close>), base64, and the typed request (crate \<open>radroots_nostr_connect\<close>). A kind
  is compared by its number, as the \<open>nostr\<close> crate does.
\<close>

section \<open>Third-party code\<close>

record canonical_fields =
  cf_id :: string
  cf_pubkey :: string
  cf_created_at :: nat
  cf_kind :: nat
  cf_content :: string
  cf_sig :: string

record nostr_event =
  ne_id :: bytes
  ne_id_hex :: string
  ne_pubkey_hex :: string
  ne_sig :: string
  ne_created_at :: nat
  ne_kind :: nat
  ne_tags :: "string list list"
  ne_content :: string

record connect_permission =
  cp_method :: string
  cp_parameter :: "string option"

text \<open>
  The request of a message. Public keys are their hex text, an unsigned event is its JSON text; the metadata of a connect
  request is ignored by this code.
\<close>

datatype Request = ReqConnect string "string option" "connect_permission list" | ReqGetPublicKey | ReqGetSessionCapability
  | ReqSignEvent string | ReqNip04Encrypt string string | ReqNip04Decrypt string string | ReqNip44Encrypt string string
  | ReqNip44Decrypt string string | ReqPing | ReqSwitchRelays | ReqLogout | ReqCustom

record request_message =
  rm_request_id :: "string option"
  rm_method :: string
  rm_canonical :: "bytes option"
  rm_request :: Request

record event_crates =
  canonical_event :: "bytes \<Rightarrow> canonical_fields option"
  nostr_event_parse :: "bytes \<Rightarrow> nostr_event option"
  verify_id :: "nostr_event \<Rightarrow> bool"
  verify_signature :: "nostr_event \<Rightarrow> bool"
  base64_decode :: "string \<Rightarrow> bytes option"
  base64_encode :: "bytes \<Rightarrow> string"
  request_message_parse :: "bytes \<Rightarrow> request_message option"
  RPC_KIND :: nat

section \<open>Values\<close>

definition NIP04_IV_BYTES :: nat where "NIP04_IV_BYTES = 16"
definition NIP04_BLOCK_BYTES :: nat where "NIP04_BLOCK_BYTES = 16"
definition NIP44_VERSION_V2 :: byte where "NIP44_VERSION_V2 = 2"
definition NIP44_NONCE_BYTES :: nat where "NIP44_NONCE_BYTES = 32"
definition NIP44_LENGTH_PREFIX_BYTES :: nat where "NIP44_LENGTH_PREFIX_BYTES = 2"
definition NIP44_HMAC_BYTES :: nat where "NIP44_HMAC_BYTES = 32"
definition NIP44_MIN_PADDED_BYTES :: nat where "NIP44_MIN_PADDED_BYTES = 32"
definition NIP44_MAX_PADDED_BYTES :: nat where "NIP44_MAX_PADDED_BYTES = 65536"

lemmas nip44_sizes = NIP04_IV_BYTES_def NIP04_BLOCK_BYTES_def NIP44_NONCE_BYTES_def NIP44_LENGTH_PREFIX_BYTES_def NIP44_HMAC_BYTES_def
  NIP44_MIN_PADDED_BYTES_def NIP44_MAX_PADDED_BYTES_def

datatype MycNip46EncryptionContext = Nip04 | Nip44V2

datatype MycNip46VerificationErrorKind = InvalidObservationTime | InvalidTimePolicy | InvalidTransportBinding | MalformedEvent
  | NonCanonicalEvent | InvalidKind | InvalidSender | InvalidReceiver | InvalidEventId | InvalidSignature | AuthoredTimeRejected
  | InvalidNip04Envelope | InvalidNip44Envelope | InvalidTypedRequest

definition observed_at_new :: "nat \<Rightarrow> (MycNip46VerificationErrorKind, nat) result" where
  "observed_at_new value = (if value = 0 \<or> i64_of_nat value = None then Inl InvalidObservationTime else Inr value)"

record MycNip46AuthoredTimePolicy =
  maximum_past_seconds :: nat
  maximum_future_seconds :: nat

definition authored_time_policy_new :: "nat \<Rightarrow> nat \<Rightarrow> (MycNip46VerificationErrorKind, MycNip46AuthoredTimePolicy) result" where
  "authored_time_policy_new past future =
     (if i64_of_nat past = None \<or> i64_of_nat future = None then Inl InvalidTimePolicy
      else Inr \<lparr>maximum_past_seconds = past, maximum_future_seconds = future\<rparr>)"

definition verify_authored_time :: "nat \<Rightarrow> nat \<Rightarrow> MycNip46AuthoredTimePolicy \<Rightarrow> (MycNip46VerificationErrorKind, unit) result" where
  "verify_authored_time authored_at observed_at policy =
     (let earliest = observed_at - maximum_past_seconds policy;
          latest = saturating_add_u64 observed_at (maximum_future_seconds policy)
      in if \<not> (earliest \<le> authored_at \<and> authored_at \<le> latest) then Inl AuthoredTimeRejected else Inr ())"

section \<open>Envelopes\<close>

text \<open>\<open>split_once\<close> and \<open>contains\<close> of the standard library.\<close>

fun split_once :: "string \<Rightarrow> string \<Rightarrow> (string \<times> string) option" where
  "split_once pat [] = (if pat = [] then Some ([], []) else None)"
| "split_once pat (c # s) = (if take (length pat) (c # s) = pat then Some ([], drop (length pat) (c # s))
     else map_option (\<lambda>(a, b). (c # a, b)) (split_once pat s))"

definition str_contains :: "string \<Rightarrow> string \<Rightarrow> bool" where
  "str_contains s pat \<longleftrightarrow> split_once pat s \<noteq> None"

text \<open>\<open>usize::checked_next_power_of_two\<close>: one more than the bit mask that covers \<open>n - 1\<close>.\<close>

fun bit_length :: "nat \<Rightarrow> nat" where
  "bit_length n = (if n = 0 then 0 else Suc (bit_length (n div 2)))"

declare bit_length.simps [simp del]

definition checked_next_power_of_two :: "nat \<Rightarrow> nat option" where
  "checked_next_power_of_two n = (if 2 ^ bit_length (n - 1) \<le> u64_max then Some (2 ^ bit_length (n - 1)) else None)"

definition is_valid_nip44_padding_length :: "nat \<Rightarrow> bool" where
  "is_valid_nip44_padding_length len =
     (if \<not> (NIP44_MIN_PADDED_BYTES \<le> len \<and> len \<le> NIP44_MAX_PADDED_BYTES) then False
      else if len \<le> 256 then 32 dvd len
      else case checked_next_power_of_two len of None \<Rightarrow> False | Some next_power \<Rightarrow> (next_power div 8) dvd len)"

definition decode_canonical_base64 ::
    "event_crates \<Rightarrow> string \<Rightarrow> MycNip46VerificationErrorKind \<Rightarrow> (MycNip46VerificationErrorKind, bytes) result" where
  "decode_canonical_base64 ec encoded kind =
     r_bind (ok_or kind (base64_decode ec encoded)) (\<lambda>decoded.
     if base64_encode ec decoded \<noteq> encoded then Inl kind else Inr decoded)"

definition verify_nip04_envelope :: "event_crates \<Rightarrow> string \<Rightarrow> (MycNip46VerificationErrorKind, unit) result" where
  "verify_nip04_envelope ec ciphertext =
     r_bind (ok_or InvalidNip04Envelope (split_once ''?iv='' ciphertext)) (\<lambda>(encrypted, iv).
     if encrypted = [] \<or> iv = [] \<or> str_contains iv ''?iv='' then Inl InvalidNip04Envelope else
     r_bind (decode_canonical_base64 ec encrypted InvalidNip04Envelope) (\<lambda>encrypted_bytes.
     r_bind (decode_canonical_base64 ec iv InvalidNip04Envelope) (\<lambda>iv_bytes.
     if encrypted_bytes = [] \<or> \<not> NIP04_BLOCK_BYTES dvd length encrypted_bytes \<or> length iv_bytes \<noteq> NIP04_IV_BYTES
     then Inl InvalidNip04Envelope else Inr ())))"

definition verify_nip44_envelope :: "event_crates \<Rightarrow> string \<Rightarrow> (MycNip46VerificationErrorKind, unit) result" where
  "verify_nip44_envelope ec ciphertext =
     r_bind (decode_canonical_base64 ec ciphertext InvalidNip44Envelope) (\<lambda>decoded.
     if take 1 decoded \<noteq> [NIP44_VERSION_V2] then Inl InvalidNip44Envelope else
     let overhead = 1 + NIP44_NONCE_BYTES + NIP44_LENGTH_PREFIX_BYTES + NIP44_HMAC_BYTES in
     r_bind (ok_or InvalidNip44Envelope (checked_sub (length decoded) overhead)) (\<lambda>padded.
     if \<not> is_valid_nip44_padding_length padded then Inl InvalidNip44Envelope else Inr ()))"

definition verify_encryption_context :: "event_crates \<Rightarrow> string \<Rightarrow> (MycNip46VerificationErrorKind, MycNip46EncryptionContext) result" where
  "verify_encryption_context ec ciphertext =
     (if str_contains ciphertext ''?iv='' then r_bind (verify_nip04_envelope ec ciphertext) (\<lambda>_. Inr Nip04)
      else r_bind (verify_nip44_envelope ec ciphertext) (\<lambda>_. Inr Nip44V2))"

section \<open>Events and requests\<close>

record MycVerifiedNip46Event =
  ve_original :: bytes
  ve_encrypted_content :: string
  ve_event_id :: bytes
  ve_client_public_key :: string
  ve_receiver_public_key :: string
  ve_authored_at_unix_seconds :: nat
  ve_encryption_context :: MycNip46EncryptionContext

record MycVerifiedNip46Request =
  vr_request_id :: string
  vr_method :: string
  vr_canonical_request :: bytes
  vr_parameter_count :: nat
  vr_parameter_bytes :: nat

definition event_is_canonical :: "canonical_fields \<Rightarrow> nostr_event \<Rightarrow> bool" where
  "event_is_canonical canonical event \<longleftrightarrow> cf_id canonical = ne_id_hex event \<and> cf_pubkey canonical = ne_pubkey_hex event
     \<and> cf_sig canonical = ne_sig event \<and> cf_created_at canonical = ne_created_at event \<and> cf_kind canonical = ne_kind event
     \<and> cf_content canonical = ne_content event"

definition verify_myc_nip46_event ::
    "crates \<Rightarrow> event_crates \<Rightarrow> MycBoundedNip46Event \<Rightarrow> MycProviderBinding \<Rightarrow> nat \<Rightarrow> MycNip46AuthoredTimePolicy
      \<Rightarrow> (MycNip46VerificationErrorKind, MycVerifiedNip46Event) result" where
  "verify_myc_nip46_event cr ec bounded expected_transport observed_at policy =
     (if pb_role expected_transport \<noteq> RoleTransport then Inl InvalidTransportBinding else
     let expected_receiver = pb_expected_identity expected_transport; original = be_original bounded; encrypted_content = be_encrypted_content bounded in
     r_bind (ok_or MalformedEvent (canonical_event ec original)) (\<lambda>canonical.
     r_bind (ok_or MalformedEvent (nostr_event_parse ec original)) (\<lambda>event.
     if \<not> event_is_canonical canonical event then Inl NonCanonicalEvent
     else if ne_kind event \<noteq> RPC_KIND ec then Inl InvalidKind else
     r_bind (map_err (\<lambda>_. InvalidSender) (client_public_key_new cr (ne_pubkey_hex event))) (\<lambda>client_public_key.
     if ne_pubkey_hex event = expected_receiver then Inl InvalidSender
     else if ne_tags event \<noteq> [[''p'', expected_receiver]] then Inl InvalidReceiver
     else if \<not> verify_id ec event then Inl InvalidEventId
     else if \<not> verify_signature ec event then Inl InvalidSignature else
     r_bind (verify_authored_time (ne_created_at event) observed_at policy) (\<lambda>_.
     r_bind (verify_encryption_context ec encrypted_content) (\<lambda>encryption_context.
     Inr \<lparr>ve_original = original, ve_encrypted_content = encrypted_content, ve_event_id = ne_id event,
       ve_client_public_key = client_public_key, ve_receiver_public_key = expected_receiver,
       ve_authored_at_unix_seconds = ne_created_at event, ve_encryption_context = encryption_context\<rparr>))))))"

definition verify_myc_nip46_request ::
    "event_crates \<Rightarrow> connect_limits \<Rightarrow> MycBoundedNip46Request \<Rightarrow> (MycNip46VerificationErrorKind, MycVerifiedNip46Request) result" where
  "verify_myc_nip46_request ec cl bounded =
     r_bind (ok_or InvalidTypedRequest (request_message_parse ec (br_plaintext bounded))) (\<lambda>message.
     r_bind (ok_or InvalidTypedRequest (rm_request_id message)) (\<lambda>id_text.
     r_bind (map_err (\<lambda>_. InvalidTypedRequest) (request_id_new id_text)) (\<lambda>request_id.
     if rm_method message = [] \<or> METHOD_MAX_BYTES cl < length (rm_method message) then Inl InvalidTypedRequest else
     r_bind (ok_or InvalidTypedRequest (rm_canonical message)) (\<lambda>canonical_request.
     Inr \<lparr>vr_request_id = request_id, vr_method = rm_method message, vr_canonical_request = canonical_request,
       vr_parameter_count = br_parameter_count bounded, vr_parameter_bytes = br_parameter_bytes bounded\<rparr>))))"

section \<open>Replay identities\<close>

definition CONNECTION_IDENTITY_DOMAIN :: bytes where
  "CONNECTION_IDENTITY_DOMAIN = str_bytes ''radroots.myc.nip46.connection_identity.v1'' @ [0]"

definition derive_connection_identity :: "(bytes \<Rightarrow> bytes) \<Rightarrow> string \<Rightarrow> string \<Rightarrow> bytes" where
  "derive_connection_identity sha receiver_public_key client_public_key =
     sha (CONNECTION_IDENTITY_DOMAIN @ length_prefixed (str_bytes receiver_public_key) @ length_prefixed (str_bytes client_public_key))"

datatype MycNip46ReplayDisposition = DistinctRequest | DuplicateEvent | ExactRequestReplay | ConflictingRequestReuse | ConflictingEventReuse

record MycNip46ReplayKey =
  rk_event_id :: bytes
  rk_connection_identity :: bytes
  rk_request_identity :: bytes
  rk_request_digest :: bytes

record MycReplayBoundNip46Request =
  rb_event :: MycVerifiedNip46Event
  rb_request :: MycVerifiedNip46Request
  rb_connection_identity :: bytes
  rb_request_identity :: bytes
  rb_request_digest :: bytes

definition replay_key :: "MycReplayBoundNip46Request \<Rightarrow> MycNip46ReplayKey" where
  "replay_key self = \<lparr>rk_event_id = ve_event_id (rb_event self), rk_connection_identity = rb_connection_identity self,
     rk_request_identity = rb_request_identity self, rk_request_digest = rb_request_digest self\<rparr>"

definition classify_against :: "MycReplayBoundNip46Request \<Rightarrow> MycNip46ReplayKey \<Rightarrow> MycNip46ReplayDisposition" where
  "classify_against self retained =
     (let same_event = (ve_event_id (rb_event self) = rk_event_id retained);
          same_connection = (rb_connection_identity self = rk_connection_identity retained);
          same_request_identity = (rb_request_identity self = rk_request_identity retained);
          same_request_bytes = (rb_request_digest self = rk_request_digest retained)
      in if same_event then
           (if same_connection \<and> same_request_identity \<and> same_request_bytes then DuplicateEvent else ConflictingEventReuse)
         else if same_connection \<and> same_request_identity then
           (if same_request_bytes then ExactRequestReplay else ConflictingRequestReuse)
         else DistinctRequest)"

definition bind_myc_nip46_replay ::
    "(bytes \<Rightarrow> bytes) \<Rightarrow> MycVerifiedNip46Event \<Rightarrow> MycVerifiedNip46Request \<Rightarrow> (MycSignerRequestErrorKind, MycReplayBoundNip46Request) result" where
  "bind_myc_nip46_replay sha event request =
     (let connection_identity = derive_connection_identity sha (ve_receiver_public_key event) (ve_client_public_key event);
          request_identity = derive_request_identity sha (ve_client_public_key event) (vr_request_id request) in
     r_bind (for_canonical_request sha (vr_canonical_request request)) (\<lambda>request_digest.
     Inr \<lparr>rb_event = event, rb_request = request, rb_connection_identity = connection_identity,
       rb_request_identity = request_identity, rb_request_digest = request_digest\<rparr>))"

end
