(* ===== verification/Nip46_Utf8.thy ===== *)
theory Nip46_Utf8
  imports Nip46_Scanner
begin

text \<open>The byte sequences that \<open>from_utf8\<close> accepts are the encodings of sequences of Unicode scalar values.\<close>

lemma digit64: "(r :: nat) < 64 \<Longrightarrow> (x * 64 + r) div 64 = x" "(r :: nat) < 64 \<Longrightarrow> (x * 64 + r) mod 64 = r"
  by simp_all

lemma div_powers: "(x :: nat) div 4096 = x div 64 div 64" "(x :: nat) div 262144 = x div 64 div 64 div 64"
  by (simp_all add: div_mult2_eq [symmetric])

lemma utf8_check_encode:
  assumes "is_scalar c"
  shows "utf8_check (utf8_encode c @ rest) = utf8_check rest"
proof -
  consider (one) "c < 0x80" | (two) "0x80 \<le> c" "c < 0x800" | (three) "0x800 \<le> c" "c < 0x10000" | (four) "0x10000 \<le> c" "c \<le> 0x10FFFF"
    using assms unfolding is_scalar_def by linarith
  then show ?thesis
  proof cases
    case one
    then show ?thesis by (simp add: utf8_encode_def)
  next
    case two
    then have "2 \<le> c div 64" "c div 64 \<le> 31" by auto
    moreover have "c mod 64 \<le> 63" using mod_less_divisor [of 64 c] by linarith
    ultimately show ?thesis using two by (simp add: utf8_encode_def)
  next
    case three
    define p where "p = c div 4096"
    define q where "q = c div 64 mod 64"
    define r where "r = c mod 64"
    have "c div 64 = p * 64 + q" "c = c div 64 * 64 + r" by (simp_all add: p_def q_def r_def div_powers)
    then have c: "c = p * 4096 + q * 64 + r" "q < 64" "r < 64" by (linarith, simp_all add: q_def r_def)
    have "p \<le> 15" "p = 0 \<longrightarrow> 32 \<le> q" using c three by auto
    moreover have "p = 13 \<longrightarrow> q < 32" using c assms three unfolding is_scalar_def by auto
    moreover have "utf8_encode c = [224 + p, 128 + q, 128 + r]" using three by (simp add: utf8_encode_def p_def q_def r_def)
    ultimately show ?thesis using c(2,3) by auto
  next
    case four
    define p where "p = c div 262144"
    define q where "q = c div 4096 mod 64"
    define r where "r = c div 64 mod 64"
    define s where "s = c mod 64"
    have "c div 4096 = p * 64 + q" "c div 64 = c div 4096 * 64 + r" "c = c div 64 * 64 + s"
      by (simp_all add: p_def q_def r_def s_def div_powers)
    then have c: "c = p * 262144 + q * 4096 + r * 64 + s" "q < 64" "r < 64" "s < 64" by (linarith, simp_all add: q_def r_def s_def)
    have "p \<le> 4" "p = 0 \<longrightarrow> 16 \<le> q" "p = 4 \<longrightarrow> q \<le> 15" using c four by auto
    moreover have "utf8_encode c = [240 + p, 128 + q, 128 + r, 128 + s]" using four by (simp add: utf8_encode_def p_def q_def r_def s_def)
    ultimately show ?thesis using c(2-4) by auto
  qed
qed

lemma decode_two:
  assumes "0xC2 \<le> a" "a \<le> 0xDF" "continuation b"
  shows "\<exists>c. is_scalar c \<and> utf8_encode c = [a, b]"
proof -
  obtain p q where "a = 194 + p" "b = 128 + q" using assms by (metis le_Suc_ex)
  moreover from this have "q < 64" using assms by simp
  moreover note digit64 [OF this, of "2 + p"]
  ultimately show ?thesis using assms by (intro exI [of _ "(2 + p) * 64 + q"]) (simp add: is_scalar_def utf8_encode_def del: add_2_eq_Suc add_2_eq_Suc')
qed

lemma decode_three:
  assumes "0xE0 \<le> a" "a \<le> 0xEF" "continuation c"
    and "if a = 0xE0 then 0xA0 \<le> b \<and> b \<le> 0xBF else if a = 0xED then 0x80 \<le> b \<and> b \<le> 0x9F else continuation b"
  shows "\<exists>x. is_scalar x \<and> utf8_encode x = [a, b, c]"
proof -
  have "0x80 \<le> b" "b \<le> 0xBF" using assms(4) by (auto split: if_splits)
  then obtain p q r where pqr: "a = 224 + p" "b = 128 + q" "c = 128 + r" using assms by (metis le_Suc_ex)
  define x where "x = (p * 64 + q) * 64 + r"
  have q: "q < 64" "r < 64" using pqr \<open>b \<le> 0xBF\<close> assms(3) by simp_all
  then have "x div 4096 = p" "x div 64 mod 64 = q" "x mod 64 = r" by (simp_all only: x_def div_powers digit64)
  moreover have "0x800 \<le> x" "x < 0x10000" "is_scalar x"
    using assms pqr q by (auto simp: x_def is_scalar_def split: if_splits)
  ultimately show ?thesis using pqr by (intro exI [of _ x]) (simp add: utf8_encode_def)
qed

lemma decode_four:
  assumes "0xF0 \<le> a" "a \<le> 0xF4" "continuation c" "continuation d"
    and "if a = 0xF0 then 0x90 \<le> b \<and> b \<le> 0xBF else if a = 0xF4 then 0x80 \<le> b \<and> b \<le> 0x8F else continuation b"
  shows "\<exists>x. is_scalar x \<and> utf8_encode x = [a, b, c, d]"
proof -
  have "0x80 \<le> b" "b \<le> 0xBF" using assms(5) by (auto split: if_splits)
  then obtain p q r s where pqr: "a = 240 + p" "b = 128 + q" "c = 128 + r" "d = 128 + s" using assms by (metis le_Suc_ex)
  define x where "x = ((p * 64 + q) * 64 + r) * 64 + s"
  have q: "q < 64" "r < 64" "s < 64" using pqr \<open>b \<le> 0xBF\<close> assms(3,4) by simp_all
  then have "x div 262144 = p" "x div 4096 mod 64 = q" "x div 64 mod 64 = r" "x mod 64 = s" by (simp_all only: x_def div_powers digit64)
  moreover have "0x10000 \<le> x" "x \<le> 0x10FFFF" using assms pqr q by (auto simp: x_def split: if_splits)
  ultimately show ?thesis using pqr by (intro exI [of _ x]) (simp add: utf8_encode_def is_scalar_def)
qed

lemma utf8_check_decode: "utf8_check ns \<Longrightarrow> \<exists>cs. (\<forall>c\<in>set cs. is_scalar c) \<and> ns = utf8 cs"
proof (induction ns rule: utf8_check.induct)
  case 1
  show ?case by (intro exI [of _ "[]"]) simp
next
  case (2 a s)
  have more: "\<exists>cs. (\<forall>c\<in>set cs. is_scalar c) \<and> a # s = utf8 cs"
    if x: "is_scalar x" "utf8_encode x = a # u" "s = u @ v" and v: "\<exists>cs. (\<forall>c\<in>set cs. is_scalar c) \<and> v = utf8 cs" for x u v
  proof -
    obtain cs where "\<forall>c\<in>set cs. is_scalar c" "v = utf8 cs" using v by blast
    then show ?thesis using x by (intro exI [of _ "x # cs"]) simp
  qed
  consider "a < 0x80" "utf8_check s"
    | b s' where "0xC2 \<le> a" "a \<le> 0xDF" "s = b # s'" "continuation b" "utf8_check s'"
    | b c s' where "0xE0 \<le> a" "a \<le> 0xEF" "s = b # c # s'" "continuation c" "utf8_check s'"
        "if a = 0xE0 then 0xA0 \<le> b \<and> b \<le> 0xBF else if a = 0xED then 0x80 \<le> b \<and> b \<le> 0x9F else continuation b"
    | b c d s' where "0xF0 \<le> a" "a \<le> 0xF4" "s = b # c # d # s'" "continuation c" "continuation d" "utf8_check s'"
        "if a = 0xF0 then 0x90 \<le> b \<and> b \<le> 0xBF else if a = 0xF4 then 0x80 \<le> b \<and> b \<le> 0x8F else continuation b"
    using "2.prems" by (simp split: if_split_asm list.split_asm)
  then show ?case
  proof cases
    case 1
    have "is_scalar a" "utf8_encode a = a # []" using 1 by (simp_all add: is_scalar_def utf8_encode_def)
    then show ?thesis using more [of a "[]" s] "2.IH"(1) 1 by simp
  next
    case 2
    then show ?thesis using decode_two [of a b] more [of _ "[b]" s'] "2.IH"(2) by auto
  next
    case 3
    then show ?thesis using decode_three [of a c b] more [of _ "[b, c]" s'] "2.IH"(3) by auto
  next
    case 4
    then show ?thesis using decode_four [of a c d b] more [of _ "[b, c, d]" s'] "2.IH"(4) by auto
  qed
qed

lemma utf8_check_exact: "utf8_check ns \<longleftrightarrow> (\<exists>cs. (\<forall>c\<in>set cs. is_scalar c) \<and> ns = utf8 cs)"
proof
  assume "\<exists>cs. (\<forall>c\<in>set cs. is_scalar c) \<and> ns = utf8 cs"
  then obtain cs where "\<forall>c\<in>set cs. is_scalar c" "ns = utf8 cs" by blast
  then show "utf8_check ns" by (induction cs arbitrary: ns) (simp_all add: utf8_check_encode)
qed (rule utf8_check_decode)

end
