(* ===== verification/Nip46_Theorems.thy ===== *)
theory Nip46_Theorems
  imports Nip46_Measure Nip46_Verification Nip46_Utf8
begin

text \<open>
  The properties of inbound NIP-46 input: the JSON string scanner, the bounded measurement of tags, and the replay
  identities.
\<close>

section \<open>The string a scanned text denotes\<close>

fun item_value :: "json_item \<Rightarrow> nat" where
  "item_value (Plain c) = c"
| "item_value (Escaped e) = (if e = 98 then 8 else if e = 102 then 12 else if e = 110 then 10 else if e = 114 then 13
     else if e = 116 then 9 else e)"
| "item_value (Unicode ds) = the (hex_quad ds)"
| "item_value (Surrogates ds es) = 0x10000 + the (hex_quad ds) mod 0x400 * 0x400 + the (hex_quad es) mod 0x400"

lemma item_width_value: "item_ok i \<Longrightarrow> item_width i = len_utf8 (item_value i)"
  by (cases i) (auto simp: len_utf8_def parse_hex_quad)

lemma items_width: "\<forall>i\<in>set items. item_ok i \<Longrightarrow> sum_list (map item_width items) = length (utf8 (map item_value items))"
  by (induction items) (simp_all add: item_width_value utf8_encode_length)

lemma json_string_of_ends: "json_string_of items = 34 # ds \<Longrightarrow> ds \<noteq> [] \<and> last ds = 34"
  by (auto simp: json_string_of_def)

section \<open>Length-prefixed frames\<close>

lemma length_prefixed_inject:
  assumes "length a \<le> u64_max" "length b \<le> u64_max"
  shows "length_prefixed a @ x = length_prefixed b @ y \<longleftrightarrow> a = b \<and> x = y"
  using frame_inject [OF assms] by (simp add: length_prefixed_def)

text \<open>What is hashed for the connection identity, the request identity and the request digest of a request.\<close>

definition replay_preimages :: "MycVerifiedNip46Event \<Rightarrow> MycVerifiedNip46Request \<Rightarrow> bytes set" where
  "replay_preimages e r =
     {CONNECTION_IDENTITY_DOMAIN @ length_prefixed (str_bytes (ve_receiver_public_key e)) @ length_prefixed (str_bytes (ve_client_public_key e)),
      REQUEST_IDENTITY_DOMAIN @ length_prefixed (str_bytes (ve_client_public_key e)) @ length_prefixed (str_bytes (vr_request_id r)),
      REQUEST_DIGEST_DOMAIN @ length_prefixed (vr_canonical_request r)}"

text \<open>The strings of a request have machine lengths.\<close>

definition replay_sized :: "MycVerifiedNip46Event \<Rightarrow> MycVerifiedNip46Request \<Rightarrow> bool" where
  "replay_sized e r \<longleftrightarrow> length (ve_receiver_public_key e) \<le> u64_max \<and> length (ve_client_public_key e) \<le> u64_max
     \<and> length (vr_request_id r) \<le> u64_max \<and> length (vr_canonical_request r) \<le> u64_max"

definition same_logical_input ::
    "MycVerifiedNip46Event \<Rightarrow> MycVerifiedNip46Request \<Rightarrow> MycVerifiedNip46Event \<Rightarrow> MycVerifiedNip46Request \<Rightarrow> bool" where
  "same_logical_input e r e' r' \<longleftrightarrow> ve_receiver_public_key e = ve_receiver_public_key e'
     \<and> ve_client_public_key e = ve_client_public_key e' \<and> vr_request_id r = vr_request_id r'"

lemma bind_replay_Inr:
  assumes "bind_myc_nip46_replay sha e r = Inr b"
  shows "rb_event b = e" "rb_request b = r"
    "rb_connection_identity b = derive_connection_identity sha (ve_receiver_public_key e) (ve_client_public_key e)"
    "rb_request_identity b = derive_request_identity sha (ve_client_public_key e) (vr_request_id r)"
    "rb_request_digest b = sha (REQUEST_DIGEST_DOMAIN @ length_prefixed (vr_canonical_request r))"
  using assms by (auto simp: bind_myc_nip46_replay_def for_canonical_request_def length_prefixed_def split: if_splits)

lemma pair_frames_inject:
  assumes "length a \<le> u64_max" "length b \<le> u64_max" "length c \<le> u64_max" "length d \<le> u64_max"
  shows "length_prefixed (str_bytes a) @ length_prefixed (str_bytes b) = length_prefixed (str_bytes c) @ length_prefixed (str_bytes d)
    \<longleftrightarrow> a = c \<and> b = d"
  using assms length_prefixed_inject [of "str_bytes a" "str_bytes c"] length_prefixed_inject [of "str_bytes b" "str_bytes d" "[]" "[]"]
  by (simp add: str_bytes_inject) (simp add: str_bytes_def)

section \<open>Concrete input\<close>

text \<open>The JSON text of one tag with the element \<open>p\<close>, and two requests of one client under one identifier.\<close>

definition nx_json :: json_crate where
  "nx_json = \<lparr>json_event = (\<lambda>_. None), json_request = (\<lambda>_. None),
     json_elements = (\<lambda>raw. if raw = [91, 91, 34, 112, 34, 93, 93] then Some [[91, 34, 112, 34, 93]]
       else if raw = [91, 34, 112, 34, 93] then Some [[34, 112, 34]] else None),
     json_seq_error = (\<lambda>_ _. ''invalid type''), json_u64 = (\<lambda>_. None), json_string = (\<lambda>_. None)\<rparr>"

definition nx_limits :: MycNip46AdmissionLimits where
  "nx_limits = \<lparr>event_wire_bytes = 64, event_content_bytes = 64, event_tag_count = 1, event_tag_total_elements = 1,
     event_tag_element_bytes = 1, event_tag_total_bytes = 1, decrypted_plaintext_bytes = 64\<rparr>"

definition nx_event :: "byte \<Rightarrow> MycVerifiedNip46Event" where
  "nx_event n = \<lparr>ve_original = [n], ve_encrypted_content = ''c'', ve_event_id = [n], ve_client_public_key = ''a'',
     ve_receiver_public_key = ''b'', ve_authored_at_unix_seconds = 1, ve_encryption_context = Nip44V2\<rparr>"

definition nx_request :: "byte \<Rightarrow> MycVerifiedNip46Request" where
  "nx_request n = \<lparr>vr_request_id = ''id'', vr_method = ''ping'', vr_canonical_request = [n], vr_parameter_count = 0, vr_parameter_bytes = 0\<rparr>"

section \<open>Properties\<close>

lemma scan_scalars:
  assumes "\<forall>c\<in>set cs. is_scalar c" "length (utf8 cs) \<le> u64_max"
  shows "decoded_json_string_utf8_bytes (utf8 cs) = Some n \<longleftrightarrow>
    (\<exists>items. (\<forall>i\<in>set items. item_ok i) \<and> cs = json_string_of items \<and> n = length (utf8 (map item_value items)))"
proof
  assume "decoded_json_string_utf8_bytes (utf8 cs) = Some n"
  then obtain ds where ds: "cs = 34 # ds" "chars_scan ds = Some n"
    using decoded_chars [OF assms] by (auto split: if_splits)
  then show "\<exists>items. (\<forall>i\<in>set items. item_ok i) \<and> cs = json_string_of items \<and> n = length (utf8 (map item_value items))"
    using chars_scan_grammar [OF ds(2)] items_width by (auto simp: json_string_of_def)
next
  assume "\<exists>items. (\<forall>i\<in>set items. item_ok i) \<and> cs = json_string_of items \<and> n = length (utf8 (map item_value items))"
  then obtain items where i: "\<forall>i\<in>set items. item_ok i" "cs = json_string_of items" "n = length (utf8 (map item_value items))" by blast
  then show "decoded_json_string_utf8_bytes (utf8 cs) = Some n"
    using decoded_chars [OF assms] chars_scan_items [OF i(1)] items_width [OF i(1)] by (auto simp: json_string_of_def)
qed

text \<open>
  C38. On valid UTF-8 the scanner accepts the text of a JSON string and nothing else, and returns the number of UTF-8 bytes of
  the string it denotes, escapes with hexadecimal digits of either case and surrogate pairs included. It works on bytes and
  never leaves a character half read. The grammar on the right is stated on its own: digits by a table of the 22 hexadecimal
  characters, scalars and surrogate pairs as in the Unicode standard.
\<close>

theorem json_string_scan_exact:
  assumes "utf8_check bs" "length bs \<le> u64_max"
  shows "decoded_json_string_utf8_bytes bs = Some n \<longleftrightarrow>
    (\<exists>items. (\<forall>i\<in>set items. item_ok i) \<and> (\<forall>c\<in>set (json_string_of items). unicode_scalar c)
      \<and> bs = utf8 (json_string_of items) \<and> n = length (utf8 (map item_value items)))"
  unfolding unicode_scalar_eq
proof
  obtain cs where cs: "\<forall>c\<in>set cs. is_scalar c" "bs = utf8 cs" using assms(1) utf8_check_exact by blast
  assume "decoded_json_string_utf8_bytes bs = Some n"
  then show "\<exists>items. (\<forall>i\<in>set items. item_ok i) \<and> (\<forall>c\<in>set (json_string_of items). is_scalar c)
      \<and> bs = utf8 (json_string_of items) \<and> n = length (utf8 (map item_value items))"
    using scan_scalars [of cs n] assms(2) cs by blast
next
  assume "\<exists>items. (\<forall>i\<in>set items. item_ok i) \<and> (\<forall>c\<in>set (json_string_of items). is_scalar c)
      \<and> bs = utf8 (json_string_of items) \<and> n = length (utf8 (map item_value items))"
  then show "decoded_json_string_utf8_bytes bs = Some n" using scan_scalars assms(2) by blast
qed

text \<open>A letter, an escape with an upper case digit and an escaped surrogate pair: one byte, two and four.\<close>

theorem json_string_scan_exact_witness:
  "decoded_json_string_utf8_bytes (utf8 (json_string_of
     [Plain 97, Unicode (map of_char ''00E9''), Surrogates (map of_char ''d83d'') (map of_char ''DE00'')])) = Some 7"
proof -
  let ?items = "[Plain 97, Unicode (map of_char ''00E9''), Surrogates (map of_char ''d83d'') (map of_char ''DE00'')]"
  have sc: "\<forall>c\<in>set (json_string_of ?items). unicode_scalar c" by (simp add: json_string_of_def unicode_scalar_def)
  then have "utf8_check (utf8 (json_string_of ?items))" using utf8_check_exact unfolding unicode_scalar_eq by blast
  moreover have "length (utf8 (json_string_of ?items)) \<le> u64_max" by (simp add: json_string_of_def utf8_encode_def u64_max_def)
  moreover have hex: "hex_quad (map of_char ''00E9'') = Some 0xE9" "hex_quad (map of_char ''d83d'') = Some 0xD83D"
    "hex_quad (map of_char ''DE00'') = Some 0xDE00"
    unfolding parse_hex_quad [symmetric] by (simp_all add: parse_hex_u16_def hex_digit_def u16_max_def)
  then have "(\<forall>i\<in>set ?items. item_ok i) \<and> (7 :: nat) = length (utf8 (map item_value ?items))"
    by (simp add: parse_hex_quad is_scalar_def utf8_encode_def)
  ultimately show ?thesis using json_string_scan_exact [of "utf8 (json_string_of ?items)" 7] sc by blast
qed

text \<open>Every limit that a visitor reports is classified as that limit.\<close>

lemma sentinels_classified:
  "map classify_tag_error [TAG_COUNT_SENTINEL, TAG_ELEMENT_COUNT_SENTINEL, TAG_ELEMENT_BYTES_SENTINEL, TAG_TOTAL_BYTES_SENTINEL, NON_STRING_ERROR]
     = [TooManyTags, TooManyTagElements, TagElementTooLarge, TagsTooLarge, AdmissionMalformedEvent]"
  "map classify_param_error [PARAM_COUNT_SENTINEL, PARAM_BYTES_SENTINEL, PARAM_TOTAL_BYTES_SENTINEL, NON_STRING_ERROR]
     = [TooManyRequestParameters, RequestParameterTooLarge, RequestParametersTooLarge, MalformedRequest]"
  by code_simp+

text \<open>
  The sentinel may also come from the input: tags that are no array at all are reported as too many when the rendered error
  quotes a value with the sentinel in it.
\<close>

lemma quoted_sentinel_classified:
  assumes "json_elements js raw = None" and "sublist TAG_COUNT_SENTINEL (json_seq_error js ''a bounded array of Nostr tags'' raw)"
  shows "measure_tags js raw limits = Inl TooManyTags"
  using assms by (simp add: measure_tags_def classify_tag_error_def)

text \<open>
  C39. Tags are measured exactly: the measurement succeeds if and only if the value is an array of arrays of JSON strings
  whose number, total element count, element sizes and total size are within the limits, and then it returns these numbers. No
  intermediate sum wraps.
\<close>

theorem tag_measurement_exact:
  assumes "limits_ok limits"
  shows "measure_tags js raw limits = Inr m \<longleftrightarrow> (\<exists>tags lenss. json_elements js raw = Some tags \<and> tags_of js tags lenss
    \<and> length lenss \<le> event_tag_count limits \<and> total_elements lenss \<le> event_tag_total_elements limits
    \<and> total_bytes lenss \<le> event_tag_total_bytes limits \<and> (\<forall>lens\<in>set lenss. \<forall>l\<in>set lens. l \<le> event_tag_element_bytes limits)
    \<and> m = \<lparr>ms_count = length lenss, ms_elements = total_elements lenss, ms_bytes = total_bytes lenss\<rparr>)"
proof -
  have "measure_tags js raw limits = Inr m \<longleftrightarrow> (\<exists>tags. json_elements js raw = Some tags
      \<and> visit_tags js limits \<lparr>ms_count = 0, ms_elements = 0, ms_bytes = 0\<rparr> tags = Inr m)"
    by (auto simp: measure_tags_def r_bind_Inr_iff)
  then show ?thesis by (simp add: visit_tags_exact [OF assms] tags_within_def measured_def)
qed

theorem tag_measurement_exact_witness:
  "measure_tags nx_json [91, 91, 34, 112, 34, 93, 93] nx_limits = Inr \<lparr>ms_count = 1, ms_elements = 1, ms_bytes = 1\<rparr>"
proof -
  have "limits_ok nx_limits" by (simp add: limits_ok_def nx_limits_def u64_max_def)
  moreover have "decoded_json_string_utf8_bytes [34, 112, 34] = Some 1"
    by (simp add: decoded_json_string_utf8_bytes_def byte_at_def scan_loop.simps scan_step_def Let_def checked_add_u64_def u64_max_def)
  then have "tags_of nx_json [[91, 34, 112, 34, 93]] [[1]]" by (simp add: tags_of_def nx_json_def)
  moreover have "json_elements nx_json [91, 91, 34, 112, 34, 93, 93] = Some [[91, 34, 112, 34, 93]]" by (simp add: nx_json_def)
  ultimately show ?thesis
    unfolding tag_measurement_exact [OF \<open>limits_ok nx_limits\<close>]
    by (intro exI [of _ "[[91, 34, 112, 34, 93]]"] exI [of _ "[[1]]"]) (simp add: nx_limits_def total_elements_def total_bytes_def)
qed

text \<open>
  C40. Replay classification compares the requests themselves: with no digest collision between two bound requests, the
  disposition is decided by the event identifiers, by receiver, client and request identifier together, and by the canonical
  request. The length prefixes make the hashed texts unambiguous.
\<close>

theorem replay_classification_exact:
  assumes "bind_myc_nip46_replay sha e r = Inr b" "bind_myc_nip46_replay sha e' r' = Inr b'"
    and "inj_on sha (replay_preimages e r \<union> replay_preimages e' r')" "replay_sized e r" "replay_sized e' r'"
  shows "classify_against b (replay_key b') =
    (if ve_event_id e = ve_event_id e' then
       (if same_logical_input e r e' r' \<and> vr_canonical_request r = vr_canonical_request r' then DuplicateEvent else ConflictingEventReuse)
     else if same_logical_input e r e' r' then
       (if vr_canonical_request r = vr_canonical_request r' then ExactRequestReplay else ConflictingRequestReuse)
     else DistinctRequest)"
proof -
  note B = bind_replay_Inr [OF assms(1)] and B' = bind_replay_Inr [OF assms(2)]
  note S = assms(4,5) [unfolded replay_sized_def]
  note hash = inj_on_eq_iff [OF assms(3)]
  have "rb_connection_identity b = rb_connection_identity b' \<longleftrightarrow>
      ve_receiver_public_key e = ve_receiver_public_key e' \<and> ve_client_public_key e = ve_client_public_key e'"
    using S pair_frames_inject unfolding B B' derive_connection_identity_def by (subst hash) (simp_all add: replay_preimages_def)
  moreover have "rb_request_identity b = rb_request_identity b' \<longleftrightarrow>
      ve_client_public_key e = ve_client_public_key e' \<and> vr_request_id r = vr_request_id r'"
    using S pair_frames_inject unfolding B B' derive_request_identity_def by (subst hash) (simp_all add: replay_preimages_def)
  moreover have "rb_request_digest b = rb_request_digest b' \<longleftrightarrow> vr_canonical_request r = vr_canonical_request r'"
    using S length_prefixed_inject [of "vr_canonical_request r" "vr_canonical_request r'" "[]" "[]"] unfolding B B'
    by (subst hash) (simp_all add: replay_preimages_def)
  ultimately show ?thesis by (auto simp: classify_against_def replay_key_def same_logical_input_def B B' Let_def)
qed

text \<open>The digest of the witness keeps its whole input: it has no collisions.\<close>

theorem replay_classification_exact_witness:
  "\<exists>b b'. bind_myc_nip46_replay (\<lambda>x. x) (nx_event 1) (nx_request 1) = Inr b \<and> bind_myc_nip46_replay (\<lambda>x. x) (nx_event 2) (nx_request 2) = Inr b'
    \<and> classify_against b (replay_key b') = ConflictingRequestReuse"
proof -
  have bound: "\<exists>b. bind_myc_nip46_replay (\<lambda>x. x) (nx_event n) (nx_request n) = Inr b" for n
    by (simp add: bind_myc_nip46_replay_def for_canonical_request_def nx_request_def MYC_NIP46_CANONICAL_REQUEST_MAX_BYTES_def)
  obtain b b' where b: "bind_myc_nip46_replay (\<lambda>x. x) (nx_event 1) (nx_request 1) = Inr b"
    "bind_myc_nip46_replay (\<lambda>x. x) (nx_event 2) (nx_request 2) = Inr b'" using bound [of 1] bound [of 2] by blast
  have "replay_sized (nx_event n) (nx_request n)" for n by (simp add: replay_sized_def nx_event_def nx_request_def u64_max_def)
  then have "classify_against b (replay_key b') = ConflictingRequestReuse"
    using replay_classification_exact [OF b] by (simp add: same_logical_input_def nx_event_def nx_request_def)
  then show ?thesis using b by blast
qed

end
