(* ===== verification/Provider_Verification.thy ===== *)
theory Provider_Verification
  imports Nip46_Verification
begin

text \<open>
  Verification of untrusted provider responses (\<^verbatim>\<open>src/src/provider_verification.rs\<close>) and the wire types of the local
  signer (\<^verbatim>\<open>src/src/provider_local_signer.rs\<close>). Third-party code is a parameter, collected in \<open>provider_crates\<close>: hex,
  base64, and the decoding, encoding and checks of signed and unsigned events (crate \<open>nostr\<close>). A Rust \<open>String\<close> of hex digits
  behind \<open>ProtectedWireHex\<close> is a string.
\<close>

section \<open>Third-party code\<close>

record unsigned_event =
  un_pubkey_hex :: string
  un_created_at :: nat
  un_kind :: nat
  un_tags :: "string list list"
  un_content :: string

record provider_crates =
  hex_encode :: "bytes \<Rightarrow> string"
  hex_decode :: "string \<Rightarrow> bytes option"
  unsigned_parse :: "bytes \<Rightarrow> unsigned_event option"
  unsigned_to_vec :: "unsigned_event \<Rightarrow> bytes option"
  unsigned_verify_id :: "unsigned_event \<Rightarrow> bool"
  unsigned_id :: "unsigned_event \<Rightarrow> bytes"
  signed_parse :: "bytes \<Rightarrow> nostr_event option"
  signed_to_vec :: "nostr_event \<Rightarrow> bytes option"
  signed_verify :: "nostr_event \<Rightarrow> bool"

section \<open>The wire\<close>

definition MYC_LOCAL_SIGNER_TRANSPORT_CONTRACT_VERSION :: nat where "MYC_LOCAL_SIGNER_TRANSPORT_CONTRACT_VERSION = 1"
definition PROTECTED_WIRE_HEX_MAX_UTF8_BYTES :: nat where "PROTECTED_WIRE_HEX_MAX_UTF8_BYTES = MYC_PROVIDER_OUTPUT_MAX_BYTES * 2"

datatype WireRole = WireRoleTransport | WireRoleUser | WireRoleDiscovery

fun wire_role :: "MycProviderRole \<Rightarrow> WireRole" where
  "wire_role RoleTransport = WireRoleTransport"
| "wire_role RoleUser = WireRoleUser"
| "wire_role RoleDiscovery = WireRoleDiscovery"

datatype WireProviderInstance = WireInstanceTransport | WireInstanceUser | WireInstanceDiscovery

fun wire_instance :: "MycProviderInstanceId \<Rightarrow> WireProviderInstance" where
  "wire_instance InstanceTransport = WireInstanceTransport"
| "wire_instance InstanceUser = WireInstanceUser"
| "wire_instance InstanceDiscovery = WireInstanceDiscovery"

datatype WireCapability = WireDescribe | WirePublicIdentity | WireSignEvent | WireNip04Encrypt | WireNip04Decrypt
  | WireNip44Encrypt | WireNip44Decrypt

fun wire_capability :: "MycProviderCapability \<Rightarrow> WireCapability" where
  "wire_capability CapDescribe = WireDescribe"
| "wire_capability CapPublicIdentity = WirePublicIdentity"
| "wire_capability CapSignEvent = WireSignEvent"
| "wire_capability CapNip04Encrypt = WireNip04Encrypt"
| "wire_capability CapNip04Decrypt = WireNip04Decrypt"
| "wire_capability CapNip44Encrypt = WireNip44Encrypt"
| "wire_capability CapNip44Decrypt = WireNip44Decrypt"

fun capability_of_wire :: "WireCapability \<Rightarrow> MycProviderCapability" where
  "capability_of_wire WireDescribe = CapDescribe"
| "capability_of_wire WirePublicIdentity = CapPublicIdentity"
| "capability_of_wire WireSignEvent = CapSignEvent"
| "capability_of_wire WireNip04Encrypt = CapNip04Encrypt"
| "capability_of_wire WireNip04Decrypt = CapNip04Decrypt"
| "capability_of_wire WireNip44Encrypt = CapNip44Encrypt"
| "capability_of_wire WireNip44Decrypt = CapNip44Decrypt"

datatype WireProviderInput = SendDescribe | SendPublicIdentity | SendSignEvent string | SendNip04Encrypt string string
  | SendNip04Decrypt string string | SendNip44Encrypt string byte string | SendNip44Decrypt string byte string

datatype WireProviderResult = GotDescribe string nat "WireCapability list" nat | GotPublicIdentity string | GotSignEvent string
  | GotNip04Encrypt string string | GotNip04Decrypt string string | GotNip44Encrypt string byte string | GotNip44Decrypt string byte string

record LocalSignerRequest =
  lq_contract_version :: nat
  lq_provider_instance :: WireProviderInstance
  lq_role :: WireRole
  lq_operation_id :: string
  lq_correlation_id :: string
  lq_absolute_deadline_unix_ms :: nat
  lq_expected_identity :: string
  lq_capability :: WireCapability
  lq_input :: WireProviderInput

record LocalSignerResponse =
  lp_contract_version :: nat
  lp_provider_instance :: WireProviderInstance
  lp_role :: WireRole
  lp_operation_id :: string
  lp_correlation_id :: string
  lp_absolute_deadline_unix_ms :: nat
  lp_expected_identity :: string
  lp_capability :: WireCapability
  lp_result :: WireProviderResult

record LocalSignerUntrustedParts =
  ut_outer_correlation_id :: string
  ut_response :: LocalSignerResponse

datatype MycLocalSignerTransportErrorKind = TransportInvalidBinding | TransportInvalidOperation | TransportInvalidLimits
  | TransportRequestEncoding | TransportRequestLimit | TransportTransport | TransportDeadline | TransportResponse
  | TransportRemoteFailure | TransportUnsupportedPlatform

definition protected_wire_hex_from_string :: "string \<Rightarrow> (MycLocalSignerTransportErrorKind, string) result" where
  "protected_wire_hex_from_string value =
     (if PROTECTED_WIRE_HEX_MAX_UTF8_BYTES < length value \<or> \<not> 2 dvd length value
         \<or> list_ex (\<lambda>c. \<not> (is_ascii_digit c \<or> (CHR ''a'' \<le> c \<and> c \<le> CHR ''f''))) value
      then Inl TransportResponse else Inr value)"

definition wire_input_from_operation ::
    "provider_crates \<Rightarrow> MycProviderOperation \<Rightarrow> (MycLocalSignerTransportErrorKind, WireProviderInput) result" where
  "wire_input_from_operation pc operation =
     (let input = po_input operation;
          protected = ok_or TransportInvalidOperation (map_option (hex_encode pc) (input_bytes input));
          peer = ok_or TransportInvalidOperation (input_peer input);
          version = ok_or TransportInvalidOperation (map_option nip44_version_as_u8 (input_nip44_version input)) in
      case input_capability input of
        CapDescribe \<Rightarrow> Inr SendDescribe
      | CapPublicIdentity \<Rightarrow> Inr SendPublicIdentity
      | CapSignEvent \<Rightarrow> r_bind protected (\<lambda>payload. Inr (SendSignEvent payload))
      | CapNip04Encrypt \<Rightarrow> r_bind peer (\<lambda>p. r_bind protected (\<lambda>payload. Inr (SendNip04Encrypt p payload)))
      | CapNip04Decrypt \<Rightarrow> r_bind peer (\<lambda>p. r_bind protected (\<lambda>payload. Inr (SendNip04Decrypt p payload)))
      | CapNip44Encrypt \<Rightarrow> r_bind peer (\<lambda>p. r_bind version (\<lambda>v. r_bind protected (\<lambda>payload. Inr (SendNip44Encrypt p v payload))))
      | CapNip44Decrypt \<Rightarrow> r_bind peer (\<lambda>p. r_bind version (\<lambda>v. r_bind protected (\<lambda>payload. Inr (SendNip44Decrypt p v payload)))))"

definition local_signer_request_from_operation ::
    "provider_crates \<Rightarrow> MycProviderOperation \<Rightarrow> (MycLocalSignerTransportErrorKind, LocalSignerRequest) result" where
  "local_signer_request_from_operation pc operation =
     r_bind (wire_input_from_operation pc operation) (\<lambda>input.
     Inr \<lparr>lq_contract_version = MYC_LOCAL_SIGNER_TRANSPORT_CONTRACT_VERSION, lq_provider_instance = wire_instance (po_instance operation),
       lq_role = wire_role (po_role operation), lq_operation_id = hex_encode pc (po_operation_id operation),
       lq_correlation_id = hex_encode pc (po_correlation_id operation), lq_absolute_deadline_unix_ms = po_deadline operation,
       lq_expected_identity = po_expected_identity operation, lq_capability = wire_capability (input_capability (po_input operation)),
       lq_input = input\<rparr>)"

section \<open>Values\<close>

definition NIP44_V2_VERSION :: byte where "NIP44_V2_VERSION = 2"
definition NIP44_V2_FIXED_PAYLOAD_BYTES :: nat where "NIP44_V2_FIXED_PAYLOAD_BYTES = 67"

datatype MycProviderVerificationErrorKind = VerifyInvalidObservationTime | VerifyInvalidBinding | VerifyLateResponse
  | VerifyResponseBinding | VerifyResultShape | VerifyIdentity | VerifyCapability | VerifySize | VerifyEvent | VerifyNip04 | VerifyNip44

definition response_observed_at_new :: "nat \<Rightarrow> (MycProviderVerificationErrorKind, nat) result" where
  "response_observed_at_new value = (if value = 0 \<or> i64_of_nat value = None then Inl VerifyInvalidObservationTime else Inr value)"

datatype VerifiedProviderResult = VerifiedDescribe string nat MycProviderCapabilitySet nat | VerifiedPublicIdentity string
  | VerifiedSignedEvent bytes | VerifiedProtected bytes "MycProviderNip44Version option"

record MycVerifiedProviderResponse =
  vp_operation_id :: bytes
  vp_correlation_id :: bytes
  vp_instance :: MycProviderInstanceId
  vp_role :: MycProviderRole
  vp_capability :: MycProviderCapability
  vp_operation_binding :: bytes
  vp_result :: VerifiedProviderResult

definition matches_operation :: "(bytes \<Rightarrow> bytes) \<Rightarrow> MycVerifiedProviderResponse \<Rightarrow> MycProviderOperation \<Rightarrow> bool" where
  "matches_operation sha self operation \<longleftrightarrow> vp_operation_binding self = binding_digest sha operation"

definition response_public_identity :: "MycVerifiedProviderResponse \<Rightarrow> string option" where
  "response_public_identity self = (case vp_result self of VerifiedDescribe i _ _ _ \<Rightarrow> Some i | VerifiedPublicIdentity i \<Rightarrow> Some i | _ \<Rightarrow> None)"

definition response_protocol_version :: "MycVerifiedProviderResponse \<Rightarrow> nat option" where
  "response_protocol_version self = (case vp_result self of VerifiedDescribe _ v _ _ \<Rightarrow> Some v | _ \<Rightarrow> None)"

definition response_capabilities :: "MycVerifiedProviderResponse \<Rightarrow> MycProviderCapabilitySet option" where
  "response_capabilities self = (case vp_result self of VerifiedDescribe _ _ c _ \<Rightarrow> Some c | _ \<Rightarrow> None)"

definition response_maximum_request_bytes :: "MycVerifiedProviderResponse \<Rightarrow> nat option" where
  "response_maximum_request_bytes self = (case vp_result self of VerifiedDescribe _ _ _ m \<Rightarrow> Some m | _ \<Rightarrow> None)"

definition signed_event_bytes :: "MycVerifiedProviderResponse \<Rightarrow> bytes option" where
  "signed_event_bytes self = (case vp_result self of VerifiedSignedEvent bs \<Rightarrow> Some bs | _ \<Rightarrow> None)"

definition protected_payload :: "MycVerifiedProviderResponse \<Rightarrow> bytes option" where
  "protected_payload self = (case vp_result self of VerifiedProtected payload _ \<Rightarrow> Some payload | _ \<Rightarrow> None)"

definition response_nip44_version :: "MycVerifiedProviderResponse \<Rightarrow> MycProviderNip44Version option" where
  "response_nip44_version self = (case vp_result self of VerifiedProtected _ version \<Rightarrow> version | _ \<Rightarrow> None)"

section \<open>Ciphertexts\<close>

text \<open>A \<open>str\<close> from valid UTF-8 bytes.\<close>

definition str_from_utf8 :: "bytes \<Rightarrow> string option" where
  "str_from_utf8 bs = map_option (map char_of) (from_utf8 bs)"

definition checked_mul_u64 :: "nat \<Rightarrow> nat \<Rightarrow> nat option" where
  "checked_mul_u64 a b = (if a * b \<le> u64_max then Some (a * b) else None)"

definition response_canonical_base64 ::
    "event_crates \<Rightarrow> string \<Rightarrow> MycProviderVerificationErrorKind \<Rightarrow> (MycProviderVerificationErrorKind, bytes) result" where
  "response_canonical_base64 ec value kind =
     r_bind (ok_or kind (base64_decode ec value)) (\<lambda>decoded. if base64_encode ec decoded \<noteq> value then Inl kind else Inr decoded)"

definition verify_nip04_ciphertext ::
    "event_crates \<Rightarrow> bytes \<Rightarrow> nat option \<Rightarrow> (MycProviderVerificationErrorKind, nat) result" where
  "verify_nip04_ciphertext ec payload plaintext_length =
     r_bind (ok_or VerifyNip04 (str_from_utf8 payload)) (\<lambda>rendered.
     r_bind (ok_or VerifyNip04 (split_once ''?iv='' rendered)) (\<lambda>(ciphertext_text, iv_text).
     if ciphertext_text = [] \<or> iv_text = [] \<or> str_contains iv_text ''?iv='' then Inl VerifyNip04 else
     r_bind (response_canonical_base64 ec ciphertext_text VerifyNip04) (\<lambda>ciphertext.
     r_bind (response_canonical_base64 ec iv_text VerifyNip04) (\<lambda>iv.
     if length iv \<noteq> 16 \<or> ciphertext = [] \<or> \<not> 16 dvd length ciphertext then Inl VerifyNip04 else
     case plaintext_length of
       None \<Rightarrow> Inr (length ciphertext)
     | Some len \<Rightarrow>
         r_bind (ok_or VerifySize (Option.bind (checked_add_u64 (len div 16) 1) (\<lambda>blocks. checked_mul_u64 blocks 16))) (\<lambda>expected.
         if length ciphertext \<noteq> expected then Inl VerifyNip04 else Inr (length ciphertext))))))"

definition nip44_padding_length :: "nat \<Rightarrow> nat option" where
  "nip44_padding_length len =
     (if len = 0 \<or> MYC_PROVIDER_NIP44_PLAINTEXT_MAX_BYTES < len then None
      else if len \<le> 32 then Some 32 else
      Option.bind (checked_next_power_of_two len) (\<lambda>next_power.
      let chunk = (if next_power \<le> 256 then 32 else next_power div 8) in
      Option.bind (checked_sub len 1) (\<lambda>below.
      Option.bind (checked_add_u64 (below div chunk) 1) (\<lambda>chunks. checked_mul_u64 chunk chunks))))"

definition response_padding_valid :: "nat \<Rightarrow> bool" where
  "response_padding_valid padded =
     (if \<not> (32 \<le> padded \<and> padded \<le> 65536) then False
      else if padded \<le> 256 then 32 dvd padded
      else case checked_next_power_of_two padded of None \<Rightarrow> False
      | Some next_power \<Rightarrow> (let chunk = next_power div 8 in chunk dvd padded))"

definition verify_nip44_ciphertext ::
    "event_crates \<Rightarrow> bytes \<Rightarrow> nat option \<Rightarrow> MycProviderNip44Version \<Rightarrow> (MycProviderVerificationErrorKind, nat) result" where
  "verify_nip44_ciphertext ec payload plaintext_length version =
     r_bind (ok_or VerifyNip44 (str_from_utf8 payload)) (\<lambda>rendered.
     r_bind (response_canonical_base64 ec rendered VerifyNip44) (\<lambda>decoded.
     if nip44_version_as_u8 version \<noteq> NIP44_V2_VERSION \<or> take 1 decoded \<noteq> [nip44_version_as_u8 version]
        \<or> length decoded < NIP44_V2_FIXED_PAYLOAD_BYTES + 32 then Inl VerifyNip44 else
     r_bind (ok_or VerifyNip44 (checked_sub (length decoded) NIP44_V2_FIXED_PAYLOAD_BYTES)) (\<lambda>padded.
     case plaintext_length of
       Some len \<Rightarrow>
         r_bind (ok_or VerifyNip44 (Option.bind (nip44_padding_length len) (checked_add_u64 NIP44_V2_FIXED_PAYLOAD_BYTES))) (\<lambda>expected.
         if length decoded \<noteq> expected then Inl VerifyNip44 else Inr padded)
     | None \<Rightarrow> if \<not> response_padding_valid padded then Inl VerifyNip44 else Inr padded)))"

section \<open>Results\<close>

definition verify_identity :: "string \<Rightarrow> string \<Rightarrow> (MycProviderVerificationErrorKind, unit) result" where
  "verify_identity expected actual = (if actual \<noteq> expected then Inl VerifyIdentity else Inr ())"

definition verify_peer :: "MycProviderOperation \<Rightarrow> string \<Rightarrow> (MycProviderVerificationErrorKind, unit) result" where
  "verify_peer operation actual = (if input_peer (po_input operation) \<noteq> Some actual then Inl VerifyResponseBinding else Inr ())"

definition decode_payload :: "provider_crates \<Rightarrow> string \<Rightarrow> (MycProviderVerificationErrorKind, bytes) result" where
  "decode_payload pc payload_hex =
     r_bind (ok_or VerifyResultShape (hex_decode pc payload_hex)) (\<lambda>payload.
     if payload = [] \<or> MYC_PROVIDER_OUTPUT_MAX_BYTES < length payload then Inl VerifySize else Inr payload)"

definition decode_payload_allow_empty :: "provider_crates \<Rightarrow> string \<Rightarrow> (MycProviderVerificationErrorKind, bytes) result" where
  "decode_payload_allow_empty pc payload_hex =
     r_bind (ok_or VerifyResultShape (hex_decode pc payload_hex)) (\<lambda>payload.
     if MYC_PROVIDER_OUTPUT_MAX_BYTES < length payload then Inl VerifySize else Inr payload)"

definition verify_nip04_decrypt_result ::
    "event_crates \<Rightarrow> MycProviderOperation \<Rightarrow> bytes \<Rightarrow> (MycProviderVerificationErrorKind, VerifiedProviderResult) result" where
  "verify_nip04_decrypt_result ec operation payload =
     r_bind (ok_or VerifyResultShape (input_bytes (po_input operation))) (\<lambda>input.
     r_bind (verify_nip04_ciphertext ec input None) (\<lambda>ciphertext_length.
     if ciphertext_length \<le> length payload then Inl VerifyNip04 else Inr (VerifiedProtected payload None)))"

definition verify_nip44_decrypt_result ::
    "event_crates \<Rightarrow> MycProviderOperation \<Rightarrow> bytes \<Rightarrow> (MycProviderVerificationErrorKind, VerifiedProviderResult) result" where
  "verify_nip44_decrypt_result ec operation payload =
     r_bind (ok_or VerifyResultShape (input_nip44_version (po_input operation))) (\<lambda>requested_version.
     r_bind (ok_or VerifyResultShape (input_bytes (po_input operation))) (\<lambda>input.
     r_bind (verify_nip44_ciphertext ec input None requested_version) (\<lambda>padded_length.
     if padded_length < length payload \<or> MYC_PROVIDER_NIP44_PLAINTEXT_MAX_BYTES < length payload then Inl VerifyNip44
     else Inr (VerifiedProtected payload (Some requested_version)))))"

definition verify_describe ::
    "MycProviderBinding \<Rightarrow> string \<Rightarrow> nat \<Rightarrow> WireCapability list \<Rightarrow> nat \<Rightarrow> (MycProviderVerificationErrorKind, VerifiedProviderResult) result" where
  "verify_describe binding public_identity protocol_version capabilities maximum_request_bytes =
     r_bind (verify_identity (pb_expected_identity binding) public_identity) (\<lambda>_.
     if protocol_version \<noteq> MYC_LOCAL_SIGNER_TRANSPORT_CONTRACT_VERSION then Inl VerifyResponseBinding
     else if capabilities = [] \<or> 7 < length capabilities then Inl VerifyCapability else
     r_bind (map_err (\<lambda>_. VerifyCapability) (capability_set_new (map capability_of_wire capabilities))) (\<lambda>capability_set.
     if list_ex (\<lambda>capability. \<not> capability_set_contains capability_set capability) (capability_set_iter (pb_required_capabilities binding))
     then Inl VerifyCapability else
     r_bind (case pb_kind binding of KindEncryptedFile \<Rightarrow> Inr MYC_PROVIDER_INPUT_MAX_BYTES
             | KindLocalSigner \<Rightarrow> r_bind (ok_or VerifyInvalidBinding (binding_local_signer_limits binding)) (\<lambda>limits. Inr (ls_request_max_bytes limits)))
       (\<lambda>expected_maximum.
     if maximum_request_bytes \<noteq> expected_maximum then Inl VerifySize
     else Inr (VerifiedDescribe (pb_expected_identity binding) protocol_version capability_set maximum_request_bytes))))"

definition event_of_unsigned :: "provider_crates \<Rightarrow> unsigned_event \<Rightarrow> nostr_event \<Rightarrow> bool" where
  "event_of_unsigned pc draft event \<longleftrightarrow> ne_pubkey_hex event = un_pubkey_hex draft \<and> ne_created_at event = un_created_at draft
     \<and> ne_kind event = un_kind draft \<and> ne_tags event = un_tags draft \<and> ne_content event = un_content draft
     \<and> ne_id event = unsigned_id pc draft"

definition verify_signed_event ::
    "provider_crates \<Rightarrow> MycProviderOperation \<Rightarrow> bytes \<Rightarrow> (MycProviderVerificationErrorKind, VerifiedProviderResult) result" where
  "verify_signed_event pc operation payload =
     r_bind (ok_or VerifyResultShape (input_bytes (po_input operation))) (\<lambda>unsigned_bytes.
     r_bind (ok_or VerifyEvent (unsigned_parse pc unsigned_bytes)) (\<lambda>draft.
     r_bind (ok_or VerifyEvent (unsigned_to_vec pc draft)) (\<lambda>canonical_unsigned.
     if canonical_unsigned \<noteq> unsigned_bytes \<or> \<not> unsigned_verify_id pc draft \<or> un_pubkey_hex draft \<noteq> po_expected_identity operation
     then Inl VerifyEvent else
     r_bind (ok_or VerifyEvent (signed_parse pc payload)) (\<lambda>event.
     r_bind (ok_or VerifyEvent (signed_to_vec pc event)) (\<lambda>canonical_signed.
     if canonical_signed \<noteq> payload \<or> \<not> event_of_unsigned pc draft event \<or> \<not> signed_verify pc event then Inl VerifyEvent
     else Inr (VerifiedSignedEvent payload))))))"

fun verify_result ::
    "event_crates \<Rightarrow> provider_crates \<Rightarrow> MycProviderBinding \<Rightarrow> MycProviderOperation \<Rightarrow> MycProviderCapability \<Rightarrow> WireProviderResult
      \<Rightarrow> (MycProviderVerificationErrorKind, VerifiedProviderResult) result" where
  "verify_result ec pc binding operation CapDescribe (GotDescribe public_identity protocol_version capabilities maximum) =
     verify_describe binding public_identity protocol_version capabilities maximum"
| "verify_result ec pc binding operation CapPublicIdentity (GotPublicIdentity public_identity) =
     r_bind (verify_identity (po_expected_identity operation) public_identity) (\<lambda>_. Inr (VerifiedPublicIdentity (po_expected_identity operation)))"
| "verify_result ec pc binding operation CapSignEvent (GotSignEvent payload_hex) =
     r_bind (decode_payload pc payload_hex) (verify_signed_event pc operation)"
| "verify_result ec pc binding operation CapNip04Encrypt (GotNip04Encrypt peer payload_hex) =
     r_bind (verify_peer operation peer) (\<lambda>_.
     r_bind (decode_payload pc payload_hex) (\<lambda>payload.
     r_bind (ok_or VerifyResultShape (input_bytes (po_input operation))) (\<lambda>expected_plaintext.
     r_bind (verify_nip04_ciphertext ec payload (Some (length expected_plaintext))) (\<lambda>_.
     Inr (VerifiedProtected payload None)))))"
| "verify_result ec pc binding operation CapNip04Decrypt (GotNip04Decrypt peer payload_hex) =
     r_bind (verify_peer operation peer) (\<lambda>_.
     r_bind (decode_payload_allow_empty pc payload_hex) (verify_nip04_decrypt_result ec operation))"
| "verify_result ec pc binding operation CapNip44Encrypt (GotNip44Encrypt peer version payload_hex) =
     r_bind (verify_peer operation peer) (\<lambda>_.
     r_bind (ok_or VerifyResultShape (input_nip44_version (po_input operation))) (\<lambda>requested_version.
     if version \<noteq> nip44_version_as_u8 requested_version then Inl VerifyNip44 else
     r_bind (ok_or VerifyResultShape (input_bytes (po_input operation))) (\<lambda>plaintext.
     r_bind (decode_payload pc payload_hex) (\<lambda>payload.
     r_bind (verify_nip44_ciphertext ec payload (Some (length plaintext)) requested_version) (\<lambda>_.
     Inr (VerifiedProtected payload (Some requested_version)))))))"
| "verify_result ec pc binding operation CapNip44Decrypt (GotNip44Decrypt peer version payload_hex) =
     r_bind (verify_peer operation peer) (\<lambda>_.
     r_bind (ok_or VerifyResultShape (input_nip44_version (po_input operation))) (\<lambda>requested_version.
     if version \<noteq> nip44_version_as_u8 requested_version then Inl VerifyNip44 else
     r_bind (decode_payload pc payload_hex) (verify_nip44_decrypt_result ec operation)))"
| "verify_result ec pc binding operation _ _ = Inl VerifyResultShape"

section \<open>Responses\<close>

definition verify_call_binding ::
    "MycProviderKind \<Rightarrow> MycProviderBinding \<Rightarrow> MycProviderOperation \<Rightarrow> nat \<Rightarrow> (MycProviderVerificationErrorKind, unit) result" where
  "verify_call_binding kind binding operation observed_at =
     (if pb_kind binding \<noteq> kind \<or> po_provider operation \<noteq> kind \<or> po_role operation \<noteq> pb_role binding
         \<or> po_instance operation \<noteq> pb_instance binding \<or> po_expected_identity operation \<noteq> pb_expected_identity binding
         \<or> \<not> capability_set_contains (pb_required_capabilities binding) (input_capability (po_input operation))
      then Inl VerifyInvalidBinding
      else if po_deadline operation < observed_at then Inl VerifyLateResponse else Inr ())"

definition verified_response :: "(bytes \<Rightarrow> bytes) \<Rightarrow> MycProviderOperation \<Rightarrow> VerifiedProviderResult \<Rightarrow> MycVerifiedProviderResponse" where
  "verified_response sha operation result =
     \<lparr>vp_operation_id = po_operation_id operation, vp_correlation_id = po_correlation_id operation, vp_instance = po_instance operation,
       vp_role = po_role operation, vp_capability = input_capability (po_input operation),
       vp_operation_binding = binding_digest sha operation, vp_result = result\<rparr>"

definition verify_encrypted_provider_response ::
    "(bytes \<Rightarrow> bytes) \<Rightarrow> event_crates \<Rightarrow> provider_crates \<Rightarrow> MycProviderBinding \<Rightarrow> MycProviderOperation \<Rightarrow> nat \<Rightarrow> WireProviderResult
      \<Rightarrow> (MycProviderVerificationErrorKind, MycVerifiedProviderResponse) result" where
  "verify_encrypted_provider_response sha ec pc binding operation observed_at result =
     r_bind (verify_call_binding KindEncryptedFile binding operation observed_at) (\<lambda>_.
     r_bind (verify_result ec pc binding operation (input_capability (po_input operation)) result) (\<lambda>verified.
     Inr (verified_response sha operation verified)))"

definition response_is_bound :: "provider_crates \<Rightarrow> MycProviderOperation \<Rightarrow> LocalSignerUntrustedParts \<Rightarrow> bool" where
  "response_is_bound pc operation parts \<longleftrightarrow> (let response = ut_response parts in
     lp_contract_version response = MYC_LOCAL_SIGNER_TRANSPORT_CONTRACT_VERSION
     \<and> lp_provider_instance response = wire_instance (po_instance operation)
     \<and> lp_role response = wire_role (po_role operation)
     \<and> lp_operation_id response = hex_encode pc (po_operation_id operation)
     \<and> lp_correlation_id response = hex_encode pc (po_correlation_id operation)
     \<and> ut_outer_correlation_id parts = hex_encode pc (po_correlation_id operation)
     \<and> lp_absolute_deadline_unix_ms response = po_deadline operation
     \<and> lp_expected_identity response = po_expected_identity operation
     \<and> lp_capability response = wire_capability (input_capability (po_input operation)))"

definition verify_response ::
    "(bytes \<Rightarrow> bytes) \<Rightarrow> event_crates \<Rightarrow> provider_crates \<Rightarrow> MycProviderBinding \<Rightarrow> MycProviderOperation \<Rightarrow> nat \<Rightarrow> LocalSignerUntrustedParts
      \<Rightarrow> (MycProviderVerificationErrorKind, MycVerifiedProviderResponse) result" where
  "verify_response sha ec pc binding operation observed_at parts =
     r_bind (verify_call_binding KindLocalSigner binding operation observed_at) (\<lambda>_.
     if \<not> response_is_bound pc operation parts then Inl VerifyResponseBinding else
     r_bind (verify_result ec pc binding operation (input_capability (po_input operation)) (lp_result (ut_response parts))) (\<lambda>verified.
     Inr (verified_response sha operation verified)))"

end
