(* ===== verification/Nip46_Work.thy ===== *)
theory Nip46_Work
  imports Provider_Verification Connection_State
begin

text \<open>
  The work of a request (\<^verbatim>\<open>src/src/nip46_work.rs\<close>): decryption of a verified event by the transport provider, the request
  prepared for durable admission, and the work that an admitted request permits. \<open>required_permission\<close> of the crate
  \<open>radroots_nostr_connect\<close>, as its text, is a parameter.
\<close>

section \<open>Decryption\<close>

datatype MycNip46WorkErrorKind = WorkInvalidBinding | WorkDecryptionRejected | WorkUnsupportedMethod | WorkPermissionDenied
  | WorkConnectionExpired | WorkProviderWorkRejected

definition DECRYPT_OPERATION_ID_DOMAIN :: bytes where
  "DECRYPT_OPERATION_ID_DOMAIN = str_bytes ''radroots.myc.nip46.decrypt.operation.v1'' @ [0]"

definition DECRYPT_CORRELATION_ID_DOMAIN :: bytes where
  "DECRYPT_CORRELATION_ID_DOMAIN = str_bytes ''radroots.myc.nip46.decrypt.correlation.v1'' @ [0]"

definition derive_decrypt_identity :: "(bytes \<Rightarrow> bytes) \<Rightarrow> bytes \<Rightarrow> bytes \<Rightarrow> bytes" where
  "derive_decrypt_identity sha domain event_id = sha (domain @ event_id)"

record MycNip46DecryptWork =
  dw_event :: MycVerifiedNip46Event
  dw_operation :: MycProviderOperation

definition prepare_myc_nip46_decrypt_work ::
    "crates \<Rightarrow> MycVerifiedNip46Event \<Rightarrow> MycProviderBinding \<Rightarrow> nat \<Rightarrow> (MycNip46WorkErrorKind, MycNip46DecryptWork) result" where
  "prepare_myc_nip46_decrypt_work cr event transport deadline =
     (if pb_role transport \<noteq> RoleTransport \<or> pb_expected_identity transport \<noteq> ve_receiver_public_key event then Inl WorkInvalidBinding else
     let operation_id = derive_decrypt_identity (sha256 cr) DECRYPT_OPERATION_ID_DOMAIN (ve_event_id event);
         correlation_id = derive_decrypt_identity (sha256 cr) DECRYPT_CORRELATION_ID_DOMAIN (ve_event_id event);
         content = str_bytes (ve_encrypted_content event) in
     r_bind (map_err (\<lambda>_. WorkInvalidBinding) (public_identity_new cr (ve_client_public_key event))) (\<lambda>peer.
     r_bind (map_err (\<lambda>_. WorkProviderWorkRejected) (case ve_encryption_context event of
         Nip04 \<Rightarrow> input_nip04_decrypt peer content | Nip44V2 \<Rightarrow> input_nip44_decrypt peer ProviderV2 content)) (\<lambda>input.
     r_bind (map_err (\<lambda>_. WorkProviderWorkRejected) (provider_operation_new transport operation_id correlation_id deadline input)) (\<lambda>operation.
     Inr \<lparr>dw_event = event, dw_operation = operation\<rparr>))))"

definition complete_decrypt_work ::
    "(bytes \<Rightarrow> bytes) \<Rightarrow> event_crates \<Rightarrow> json_crate \<Rightarrow> connect_limits \<Rightarrow> MycNip46DecryptWork \<Rightarrow> MycVerifiedProviderResponse \<Rightarrow> MycNip46AdmissionLimits
      \<Rightarrow> (MycNip46WorkErrorKind, MycReplayBoundNip46Request) result" where
  "complete_decrypt_work sha ec js cl self response limits =
     (let operation = dw_operation self; expected_capability = input_capability (po_input operation) in
      if vp_operation_id response \<noteq> po_operation_id operation \<or> vp_correlation_id response \<noteq> po_correlation_id operation
         \<or> vp_instance response \<noteq> po_instance operation \<or> vp_role response \<noteq> RoleTransport
         \<or> vp_capability response \<noteq> expected_capability
         \<or> response_nip44_version response \<noteq> input_nip44_version (po_input operation)
         \<or> \<not> matches_operation sha response operation
      then Inl WorkInvalidBinding else
      r_bind (ok_or WorkDecryptionRejected (protected_payload response)) (\<lambda>plaintext.
      r_bind (map_err (\<lambda>_. WorkDecryptionRejected) (admit_myc_nip46_request js cl limits plaintext)) (\<lambda>bounded.
      r_bind (map_err (\<lambda>_. WorkDecryptionRejected) (verify_myc_nip46_request ec cl bounded)) (\<lambda>request.
      map_err (\<lambda>_. WorkDecryptionRejected) (bind_myc_nip46_replay sha (dw_event self) request)))))"

section \<open>Preparation\<close>

record MycPreparedNip46Request =
  pr_signer_request :: MycSignerRequest
  pr_request :: Request
  pr_encryption_context :: MycNip46EncryptionContext

definition prepare_myc_nip46_request ::
    "(bytes \<Rightarrow> bytes) \<Rightarrow> event_crates \<Rightarrow> MycReplayBoundNip46Request \<Rightarrow> bytes \<Rightarrow> nat \<Rightarrow> (MycNip46WorkErrorKind, MycPreparedNip46Request) result" where
  "prepare_myc_nip46_request sha ec replay nonce received_at =
     r_bind (ok_or WorkUnsupportedMethod (method_parse (vr_method (rb_request replay)))) (\<lambda>request_method.
     r_bind (ok_or WorkInvalidBinding (request_message_parse ec (vr_canonical_request (rb_request replay)))) (\<lambda>message.
     if rm_method message \<noteq> method_as_str request_method \<or> rm_request_id message \<noteq> Some (vr_request_id (rb_request replay))
     then Inl WorkInvalidBinding else
     Inr \<lparr>pr_signer_request = signer_request_new sha (ve_client_public_key (rb_event replay)) (vr_request_id (rb_request replay))
           (ve_event_id (rb_event replay)) request_method (rb_request_digest replay) nonce received_at,
         pr_request = rm_request message, pr_encryption_context = ve_encryption_context (rb_event replay)\<rparr>))"

section \<open>Permissions of a connect request\<close>

definition protocol_permission :: "string \<Rightarrow> (MycNip46WorkErrorKind, MycConnectionPermission) result" where
  "protocol_permission value = ok_or WorkUnsupportedMethod (permission_parse value)"

definition connect_permission_of :: "connect_permission \<Rightarrow> (MycNip46WorkErrorKind, MycConnectionPermission) result" where
  "connect_permission_of permission =
     (if cp_method permission = ''sign_event'' then
        r_bind (ok_or WorkPermissionDenied (cp_parameter permission)) (\<lambda>parameter.
        let kind = (case strip_prefix ''kind:'' parameter of None \<Rightarrow> parameter | Some rest \<Rightarrow> rest) in
        case parse_u32 kind of None \<Rightarrow> Inl WorkPermissionDenied
        | Some parsed \<Rightarrow> if kind = u32_to_string parsed then Inr (PermSignEvent (of_nat parsed)) else Inl WorkPermissionDenied)
      else if cp_parameter permission \<noteq> None then Inl WorkPermissionDenied
      else protocol_permission (cp_method permission))"

fun connectable :: "MycConnectionPermission \<Rightarrow> bool" where
  "connectable (PermSignEvent _) = True"
| "connectable PermNip04Encrypt = True"
| "connectable PermNip04Decrypt = True"
| "connectable PermNip44Encrypt = True"
| "connectable PermNip44Decrypt = True"
| "connectable PermSwitchRelays = True"
| "connectable _ = False"

definition connect_permissions ::
    "(bytes \<Rightarrow> bytes) \<Rightarrow> connect_permission list \<Rightarrow> (MycNip46WorkErrorKind, MycConnectionPermissionSet) result" where
  "connect_permissions sha permissions =
     r_bind (collect connect_permission_of permissions) (\<lambda>parsed.
     if list_ex (\<lambda>permission. \<not> connectable permission) parsed then Inl WorkPermissionDenied
     else map_err (\<lambda>_. WorkPermissionDenied) (permission_set_new sha parsed))"

section \<open>Provider work\<close>

datatype Nip46WorkPayload = WorkConnect string MycConnectionPermissionSet | WorkLocal | WorkProvider MycProviderOperation

record MycNip46Work =
  mw_request :: MycSignerRequestRecord
  mw_connection :: "MycConnectionRecord option"
  mw_method :: MycSignerRequestMethod
  mw_encryption_context :: MycNip46EncryptionContext
  mw_payload :: Nip46WorkPayload

datatype MycNip46WorkKind = KindConnect | KindLocal | KindProvider

definition work_kind :: "MycNip46Work \<Rightarrow> MycNip46WorkKind" where
  "work_kind self = (case mw_payload self of WorkConnect _ _ \<Rightarrow> KindConnect | WorkLocal \<Rightarrow> KindLocal | WorkProvider _ \<Rightarrow> KindProvider)"

definition work_provider_operation :: "MycNip46Work \<Rightarrow> MycProviderOperation option" where
  "work_provider_operation self = (case mw_payload self of WorkProvider operation \<Rightarrow> Some operation | _ \<Rightarrow> None)"

definition connection_admission_request ::
    "MycNip46Work \<Rightarrow> nat \<Rightarrow> bytes \<Rightarrow> nat \<Rightarrow> nat option \<Rightarrow> MycConnectionAdmissionPolicy \<Rightarrow> string
      \<Rightarrow> (MycNip46WorkErrorKind, MycConnectionAdmissionRequest) result" where
  "connection_admission_request self policy_generation nonce observed_at authorized_until policy relay_id =
     (case mw_payload self of
        WorkConnect client permissions \<Rightarrow> map_err (\<lambda>_. WorkInvalidBinding)
          (admission_request_new (srr_operation_id (mw_request self)) client permissions policy_generation nonce observed_at
            authorized_until policy relay_id)
      | _ \<Rightarrow> Inl WorkInvalidBinding)"

definition user_binding :: "MycProviderContract \<Rightarrow> (MycNip46WorkErrorKind, MycProviderBinding) result" where
  "user_binding providers = ok_or WorkInvalidBinding (contract_binding providers RoleUser)"

definition transport_binding :: "MycProviderContract \<Rightarrow> (MycNip46WorkErrorKind, MycProviderBinding) result" where
  "transport_binding providers = ok_or WorkInvalidBinding (contract_binding providers RoleTransport)"

definition provider_identity :: "crates \<Rightarrow> string \<Rightarrow> (MycNip46WorkErrorKind, string) result" where
  "provider_identity cr value = map_err (\<lambda>_. WorkProviderWorkRejected) (public_identity_new cr value)"

definition provider_work ::
    "MycProviderContract \<Rightarrow> MycSignerRequestRecord \<Rightarrow> nat \<Rightarrow> nat option \<Rightarrow> (MycProviderContractErrorKind, MycProviderOperationInput) result
      \<Rightarrow> (MycNip46WorkErrorKind, Nip46WorkPayload) result" where
  "provider_work providers record observed_at deadline input =
     r_bind (ok_or WorkInvalidBinding deadline) (\<lambda>deadline_at.
     if deadline_at \<le> observed_at then Inl WorkProviderWorkRejected else
     r_bind (map_err (\<lambda>_. WorkProviderWorkRejected) input) (\<lambda>operation_input.
     r_bind (user_binding providers) (\<lambda>binding.
     r_bind (map_err (\<lambda>_. WorkProviderWorkRejected)
       (provider_operation_new binding (srr_operation_id record) (srr_correlation_id record) deadline_at operation_input)) (\<lambda>operation.
     Inr (WorkProvider operation)))))"

definition sign_event_input ::
    "provider_crates \<Rightarrow> string \<Rightarrow> MycProviderContract \<Rightarrow> (MycNip46WorkErrorKind, MycProviderOperationInput) result" where
  "sign_event_input pc canonical providers =
     r_bind (ok_or WorkProviderWorkRejected (unsigned_parse pc (str_bytes canonical))) (\<lambda>draft.
     r_bind (ok_or WorkProviderWorkRejected (unsigned_to_vec pc draft)) (\<lambda>reencoded.
     if reencoded \<noteq> str_bytes canonical \<or> \<not> unsigned_verify_id pc draft then Inl WorkProviderWorkRejected else
     r_bind (user_binding providers) (\<lambda>binding.
     if un_pubkey_hex draft \<noteq> pb_expected_identity binding then Inl WorkProviderWorkRejected
     else map_err (\<lambda>_. WorkProviderWorkRejected) (input_sign_event (str_bytes canonical)))))"

definition request_payload ::
    "crates \<Rightarrow> provider_crates \<Rightarrow> Request \<Rightarrow> MycProviderContract \<Rightarrow> MycSignerRequestRecord \<Rightarrow> nat \<Rightarrow> nat option
      \<Rightarrow> (MycNip46WorkErrorKind, Nip46WorkPayload) result" where
  "request_payload cr pc request providers record observed_at deadline =
     (let local = (if deadline \<noteq> None then Inl WorkInvalidBinding else Inr WorkLocal);
          crypto = (\<lambda>public_key make. r_bind (provider_identity cr public_key) (\<lambda>peer.
            provider_work providers record observed_at deadline (make peer))) in
      case request of
        ReqGetPublicKey \<Rightarrow> local | ReqGetSessionCapability \<Rightarrow> local | ReqPing \<Rightarrow> local | ReqSwitchRelays \<Rightarrow> local | ReqLogout \<Rightarrow> local
      | ReqSignEvent event \<Rightarrow> r_bind (sign_event_input pc event providers) (\<lambda>input.
          provider_work providers record observed_at deadline (Inr input))
      | ReqNip04Encrypt public_key plaintext \<Rightarrow> crypto public_key (\<lambda>peer. input_nip04_encrypt peer (str_bytes plaintext))
      | ReqNip04Decrypt public_key ciphertext \<Rightarrow> crypto public_key (\<lambda>peer. input_nip04_decrypt peer (str_bytes ciphertext))
      | ReqNip44Encrypt public_key plaintext \<Rightarrow> crypto public_key (\<lambda>peer. input_nip44_encrypt peer ProviderV2 (str_bytes plaintext))
      | ReqNip44Decrypt public_key ciphertext \<Rightarrow> crypto public_key (\<lambda>peer. input_nip44_decrypt peer ProviderV2 (str_bytes ciphertext))
      | ReqConnect _ _ _ \<Rightarrow> Inl WorkUnsupportedMethod
      | ReqCustom \<Rightarrow> Inl WorkUnsupportedMethod)"

definition prepare_connect_work ::
    "crates \<Rightarrow> MycPreparedNip46Request \<Rightarrow> MycSignerRequestRecord \<Rightarrow> MycConnectionRecord option \<Rightarrow> MycProviderContract \<Rightarrow> nat option
      \<Rightarrow> string \<Rightarrow> string option \<Rightarrow> connect_permission list \<Rightarrow> (MycNip46WorkErrorKind, MycNip46Work) result" where
  "prepare_connect_work cr prepared record connection providers deadline remote_signer secret requested =
     (if connection \<noteq> None \<or> deadline \<noteq> None \<or> secret \<noteq> None then Inl WorkInvalidBinding else
     r_bind (transport_binding providers) (\<lambda>transport.
     if remote_signer \<noteq> pb_expected_identity transport then Inl WorkInvalidBinding else
     r_bind (connect_permissions (sha256 cr) requested) (\<lambda>permissions.
     Inr \<lparr>mw_request = record, mw_connection = None, mw_method = sr_method (pr_signer_request prepared),
       mw_encryption_context = pr_encryption_context prepared,
       mw_payload = WorkConnect (sr_client_public_key (pr_signer_request prepared)) permissions\<rparr>)))"

definition permission_check ::
    "(Request \<Rightarrow> string option) \<Rightarrow> Request \<Rightarrow> MycConnectionRecord \<Rightarrow> (MycNip46WorkErrorKind, unit) result" where
  "permission_check required_permission request connection = (case required_permission request of
     None \<Rightarrow> Inr ()
   | Some rendered \<Rightarrow> r_bind (protocol_permission rendered) (\<lambda>permission.
       if \<not> permission_set_contains (cr_granted_permissions connection) permission then Inl WorkPermissionDenied else Inr ()))"

definition prepare_myc_nip46_work ::
    "crates \<Rightarrow> provider_crates \<Rightarrow> (Request \<Rightarrow> string option) \<Rightarrow> MycPreparedNip46Request \<Rightarrow> MycSignerRequestRecord \<Rightarrow> MycConnectionRecord option
      \<Rightarrow> MycProviderContract \<Rightarrow> nat \<Rightarrow> nat option \<Rightarrow> (MycNip46WorkErrorKind, MycNip46Work) result" where
  "prepare_myc_nip46_work cr pc required_permission prepared record connection providers observed_at deadline =
     (let signer_request = pr_signer_request prepared; request = pr_request prepared in
      if \<not> matches_request (sha256 cr) record signer_request \<or> observed_at < srr_received_at record then Inl WorkInvalidBinding else
      case request of
        ReqConnect remote_signer secret requested \<Rightarrow>
          prepare_connect_work cr prepared record connection providers deadline remote_signer secret requested
      | ReqCustom \<Rightarrow> Inl WorkUnsupportedMethod
      | _ \<Rightarrow>
        r_bind (ok_or WorkInvalidBinding connection) (\<lambda>active.
        if cr_client_public_key active \<noteq> sr_client_public_key signer_request then Inl WorkInvalidBinding
        else if cr_status active \<noteq> ConnectionActive
          \<or> (case cr_authorized_until active of None \<Rightarrow> False | Some until \<Rightarrow> until < observed_at) then Inl WorkConnectionExpired else
        r_bind (permission_check required_permission request active) (\<lambda>_.
        r_bind (request_payload cr pc request providers record observed_at deadline) (\<lambda>payload.
        Inr \<lparr>mw_request = record, mw_connection = Some active, mw_method = sr_method signer_request,
          mw_encryption_context = pr_encryption_context prepared, mw_payload = payload\<rparr>))))"

end
