(* ===== verification/Nip46_Padding.thy ===== *)
theory Nip46_Padding
  imports Nip46_Verification
begin

text \<open>
  The padded lengths that \<open>is_valid_nip44_padding_length\<close> of \<^verbatim>\<open>src/src/nip46_verification.rs\<close> accepts are the lengths
  the NIP-44 protocol pads a plaintext to.
\<close>

text \<open>The padded length of a plaintext of \<open>m\<close> bytes, as the protocol defines it.\<close>

definition nip44_padded_length :: "nat \<Rightarrow> nat" where
  "nip44_padded_length m = (if m \<le> 32 then 32
     else let next_power = 2 ^ bit_length (m - 1); chunk = (if next_power \<le> 256 then 32 else next_power div 8)
          in chunk * ((m - 1) div chunk + 1))"

lemma bit_length_upper: "n < 2 ^ bit_length n"
proof (induction n rule: bit_length.induct)
  case (1 n)
  show ?case
  proof (cases "n = 0")
    case False
    then have "n div 2 < 2 ^ bit_length (n div 2)" using 1 by simp
    then show ?thesis using False by (subst bit_length.simps) auto
  qed (simp add: bit_length.simps)
qed

lemma bit_length_unique: "2 ^ k \<le> n \<Longrightarrow> n < 2 ^ Suc k \<Longrightarrow> bit_length n = Suc k"
proof (induction k arbitrary: n)
  case 0
  then have "n = 1" by simp
  then show ?case by (simp add: bit_length.simps)
next
  case (Suc k)
  then have "2 ^ k \<le> n div 2" "n div 2 < 2 ^ Suc k" by auto
  then have "bit_length (n div 2) = Suc k" by (rule Suc.IH)
  moreover have "n \<noteq> 0" using Suc.prems(1) by (metis not_less zero_less_numeral zero_less_power)
  ultimately show ?case by (subst bit_length.simps) simp
qed

lemma bit_length_lower: "0 < n \<Longrightarrow> 2 ^ (bit_length n - 1) \<le> n"
proof (induction n rule: bit_length.induct)
  case (1 n)
  show ?case
  proof (cases "n div 2 = 0")
    case True
    then have "n = 1" using 1(2) by auto
    then show ?thesis by (simp add: bit_length.simps)
  next
    case False
    then have "2 ^ (bit_length (n div 2) - 1) \<le> n div 2" "bit_length (n div 2) \<noteq> 0"
      using 1 by (auto simp: bit_length.simps [of "n div 2"])
    then have "2 ^ bit_length (n div 2) \<le> n" by (cases "bit_length (n div 2)") auto
    then show ?thesis using 1(2) by (subst bit_length.simps) simp
  qed
qed

text \<open>Above 256 the power of two is \<open>8 c\<close> for a chunk \<open>c\<close> of at least 64, and \<open>n - 1\<close> is in the upper half.\<close>

lemma large_chunk:
  assumes "256 < n" "n \<le> 65536"
  obtains k where "(2 :: nat) ^ bit_length (n - 1) = 8 * 2 ^ (k + 6)" "bit_length (n - 1) = k + 9" "4 * 2 ^ (k + 6) \<le> n - 1" "n - 1 < 8 * 2 ^ (k + 6)" "k \<le> 7"
proof -
  let ?b = "bit_length (n - 1)"
  have up: "n - 1 < 2 ^ ?b" by (rule bit_length_upper)
  have low: "2 ^ (?b - 1) \<le> n - 1" using assms(1) by (intro bit_length_lower) simp
  have "8 < ?b"
  proof (rule ccontr)
    assume "\<not> 8 < ?b"
    then have "2 ^ ?b \<le> (2 ^ 8 :: nat)" by (intro power_increasing) simp_all
    then show False using up assms(1) by simp
  qed
  then obtain k where k: "?b = k + 9" by (metis add.commute le_Suc_ex Suc_leI numeral_nat(1) eval_nat_numeral)
  have "k \<le> 7"
  proof (rule ccontr)
    assume "\<not> k \<le> 7"
    then have "(2 ^ 16 :: nat) \<le> 2 ^ (?b - 1)" using k by (intro power_increasing) simp_all
    then show False using low assms(2) by simp
  qed
  then show ?thesis using that [of k] k up low by (simp add: power_add)
qed

lemma valid_large:
  assumes "256 < n" "n \<le> 65536" "2 ^ bit_length (n - 1) = 8 * c" "c \<le> 8192"
  shows "is_valid_nip44_padding_length n \<longleftrightarrow> c dvd n"
  using assms by (simp add: is_valid_nip44_padding_length_def nip44_sizes checked_next_power_of_two_def u64_max_def)

lemma padded_large:
  assumes "256 < m" "2 ^ bit_length (m - 1) = 8 * c" "64 \<le> c"
  shows "nip44_padded_length m = c * ((m - 1) div c + 1)"
  using assms by (simp add: nip44_padded_length_def Let_def)

lemma padded_valid_large:
  assumes m: "256 < m" "m \<le> 65536"
  shows "is_valid_nip44_padding_length (nip44_padded_length m)"
proof -
  obtain k where k: "(2 :: nat) ^ bit_length (m - 1) = 8 * 2 ^ (k + 6)" "bit_length (m - 1) = k + 9" "4 * 2 ^ (k + 6) \<le> m - 1" "m - 1 < 8 * 2 ^ (k + 6)" "k \<le> 7"
    by (rule large_chunk [OF m])
  define c where "c = (2 :: nat) ^ (k + 6)"
  have c: "64 \<le> c" "c \<le> 8192"
    using power_increasing [of 6 "k + 6" "2 :: nat"] power_increasing [of "k + 6" 13 "2 :: nat"] k(5) by (simp_all add: c_def)
  define n where "n = c * ((m - 1) div c + 1)"
  have "(m - 1) div c < 8" using k(4) c(1) by (simp add: c_def [symmetric] less_mult_imp_div_less mult.commute)
  then have "n \<le> c * 8" unfolding n_def by (intro mult_le_mono) simp_all
  moreover have "m - 1 < n"
    using dividend_less_times_div [of c "m - 1"] c(1) by (simp add: n_def distrib_left)
  ultimately have range: "4 * c \<le> n - 1" "n - 1 < 8 * c" "256 < n" "n \<le> 65536" using k(3) c m(1) by (auto simp: c_def)
  have "bit_length (n - 1) = Suc (k + 8)"
    using range(1,2) by (intro bit_length_unique) (simp_all add: c_def power_add)
  then have "2 ^ bit_length (n - 1) = 8 * c" by (simp add: c_def power_add)
  then have "is_valid_nip44_padding_length n \<longleftrightarrow> c dvd n" using range c by (intro valid_large) (simp_all add: u64_max_def)
  moreover have "nip44_padded_length m = n" using padded_large [OF m(1) _ c(1)] k(1) by (simp add: n_def c_def)
  ultimately show ?thesis by (simp add: n_def)
qed

lemma valid_padded_large:
  assumes n: "256 < n" "n \<le> 65536" "is_valid_nip44_padding_length n"
  shows "nip44_padded_length (n - 1) = n"
proof -
  obtain k where k: "(2 :: nat) ^ bit_length (n - 1) = 8 * 2 ^ (k + 6)" "4 * 2 ^ (k + 6) \<le> n - 1" "n - 1 < 8 * 2 ^ (k + 6)" "k \<le> 7"
    by (rule large_chunk [OF n(1,2)])
  define c where "c = (2 :: nat) ^ (k + 6)"
  have c: "64 \<le> c" "c \<le> 8192"
    using power_increasing [of 6 "k + 6" "2 :: nat"] power_increasing [of "k + 6" 13 "2 :: nat"] k(4) by (simp_all add: c_def)
  have "c dvd n" using valid_large [OF n(1,2), of c] n(3) k(1) c by (simp add: c_def u64_max_def)
  then obtain q where q: "n = c * q" by (auto elim: dvdE)
  have "4 < q"
  proof (rule ccontr)
    assume "\<not> 4 < q"
    then have "n \<le> c * 4" unfolding q by (intro mult_le_mono) simp_all
    then show False using k(2) n(1) unfolding c_def [symmetric] by linarith
  qed
  then obtain p where p: "q = p + 5" using le_Suc_ex [of 5 q] by (auto simp: add.commute)
  have n2: "n - 2 = c * (p + 4) + (c - 2)" using q p c(1) by (simp add: algebra_simps)
  have "4 * c \<le> n - 2" using n2 by (simp add: algebra_simps)
  moreover have "n - 2 < 8 * c" using k(3) by (simp add: c_def)
  ultimately have "bit_length (n - 2) = Suc (k + 8)" by (intro bit_length_unique) (simp_all add: c_def power_add)
  moreover have less: "n - 1 - 1 = n - 2" by simp
  ultimately have "2 ^ bit_length (n - 1 - 1) = 8 * c" by (simp only: less) (simp add: c_def power_add)
  moreover have "256 < n - 1" using n2 c(1) by (simp add: algebra_simps)
  ultimately have "nip44_padded_length (n - 1) = c * ((n - 1 - 1) div c + 1)" using padded_large c(1) by blast
  moreover have "(c * (p + 4) + (c - 2)) div c = p + 4" using c(1) by (subst div_mult_self4) simp_all
  moreover have "c * (p + 4 + 1) = n" using q p by simp
  ultimately show ?thesis by (simp only: less n2)
qed

text \<open>Up to 256 the chunk is 32.\<close>

lemma padded_small:
  assumes "1 \<le> m" "m \<le> 256"
  shows "nip44_padded_length m = 32 * ((m - 1) div 32 + 1)"
proof (cases "m \<le> 32")
  case True
  then have "(m - 1) div 32 = 0" by (intro div_less) simp
  then show ?thesis using True by (simp add: nip44_padded_length_def)
next
  case False
  let ?b = "bit_length (m - 1)"
  have "2 ^ (?b - 1) < (2 ^ 8 :: nat)" using bit_length_lower [of "m - 1"] assms False by simp
  then have "?b - 1 < 8" by (rule power_less_imp_less_exp [rotated]) simp
  then have "2 ^ ?b \<le> (2 ^ 8 :: nat)" by (intro power_increasing) simp_all
  then show ?thesis using False by (simp add: nip44_padded_length_def Let_def)
qed

lemma valid_small: "n \<le> 256 \<Longrightarrow> is_valid_nip44_padding_length n \<longleftrightarrow> 32 \<le> n \<and> 32 dvd n"
  by (simp add: is_valid_nip44_padding_length_def nip44_sizes)

lemma padded_valid: "1 \<le> m \<Longrightarrow> m \<le> 65536 \<Longrightarrow> is_valid_nip44_padding_length (nip44_padded_length m)"
proof (cases "m \<le> 256")
  case True
  assume "1 \<le> m"
  moreover have "(m - 1) div 32 \<le> 255 div 32" using True by (intro div_le_mono) simp
  ultimately show ?thesis using True by (simp add: padded_small valid_small)
qed (simp add: padded_valid_large)

lemma valid_padded:
  assumes "is_valid_nip44_padding_length n"
  shows "nip44_padded_length (n - 1) = n"
proof (cases "n \<le> 256")
  case True
  then have "32 \<le> n" "32 dvd n" using assms by (simp_all add: valid_small)
  then obtain q where q: "n = 32 * q" "1 \<le> q" by (auto elim!: dvdE)
  then have "n - 1 - 1 = 32 * (q - 1) + 30" by (simp add: algebra_simps)
  then have "(n - 1 - 1) div 32 = q - 1" by simp
  then show ?thesis using q True padded_small [of "n - 1"] by simp
next
  case False
  moreover have "n \<le> 65536" using assms by (simp add: is_valid_nip44_padding_length_def nip44_sizes split: if_splits)
  ultimately show ?thesis using assms valid_padded_large by simp
qed

lemma valid_range: "is_valid_nip44_padding_length n \<Longrightarrow> 32 \<le> n \<and> n \<le> 65536"
  by (simp add: is_valid_nip44_padding_length_def nip44_sizes split: if_splits)

end
