(* ===== verification/Provider_Theorems.thy ===== *)
theory Provider_Theorems
  imports Provider_Verification Nip46_Padding
begin

text \<open>
  The properties of the provider contract and of response verification: capability sets, the digest that binds a response to its
  operation, and NIP-44 padding on both sides.
\<close>

section \<open>Capability sets\<close>

fun capability_index :: "MycProviderCapability \<Rightarrow> nat" where
  "capability_index CapDescribe = 0"
| "capability_index CapPublicIdentity = 1"
| "capability_index CapSignEvent = 2"
| "capability_index CapNip04Encrypt = 3"
| "capability_index CapNip04Decrypt = 4"
| "capability_index CapNip44Encrypt = 5"
| "capability_index CapNip44Decrypt = 6"

lemma capability_index_inject [simp]: "capability_index c = capability_index d \<longleftrightarrow> c = d"
  by (cases c; cases d) simp_all

lemma capability_index_less: "capability_index c < 8"
  by (cases c) simp_all

lemma capability_bit_index: "capability_bit c = push_bit (capability_index c) 1"
  by (cases c) simp_all

lemma contains_bit: "capability_set_contains s c \<longleftrightarrow> bit s (capability_index c)"
  using capability_index_less [of c]
  by (simp add: capability_set_contains_def capability_bit_index push_bit_eq_mult and_exp_eq_0_iff_not_bit)

lemma contains_or: "capability_set_contains (s OR capability_bit d) c \<longleftrightarrow> capability_set_contains s c \<or> c = d"
  using capability_index_less [of c]
  by (auto simp: contains_bit capability_bit_index bit_or_iff push_bit_eq_mult bit_exp_iff possible_bit_word)

lemma contains_zero: "\<not> capability_set_contains 0 c"
  by (simp add: contains_bit)

lemma collect_capabilities_exact:
  "collect_capabilities bits cs = Inr s \<longleftrightarrow> distinct cs \<and> (\<forall>c\<in>set cs. \<not> capability_set_contains bits c)
    \<and> s = foldl (\<lambda>b c. b OR capability_bit c) bits cs"
proof (induction cs arbitrary: bits)
  case (Cons c cs)
  then show ?case by (auto simp: contains_or simp flip: capability_set_contains_def)
qed auto

lemma foldl_contains: "capability_set_contains (foldl (\<lambda>b c. b OR capability_bit c) bits cs) d \<longleftrightarrow> capability_set_contains bits d \<or> d \<in> set cs"
  by (induction cs arbitrary: bits) (auto simp: contains_or)

lemma all_capabilities: "c \<in> set capability_ALL"
  by (cases c) (simp_all add: capability_ALL_def)

lemma distinct_capabilities: "distinct (cs :: MycProviderCapability list) \<Longrightarrow> length cs \<le> length capability_ALL"
proof -
  assume "distinct cs"
  then have "length cs = card (set cs)" by (simp add: distinct_card)
  also have "\<dots> \<le> card (set capability_ALL)" using all_capabilities by (intro card_mono) auto
  also have "\<dots> \<le> length capability_ALL" by (rule card_length)
  finally show ?thesis .
qed

text \<open>A set is built from a list without repetitions, holds its elements and iterates over them.\<close>

lemma capability_set_exact:
  "capability_set_new cs = Inr s \<longleftrightarrow> cs \<noteq> [] \<and> distinct cs \<and> s = foldl (\<lambda>b c. b OR capability_bit c) 0 cs"
  "capability_set_new cs = Inr s \<Longrightarrow> capability_set_contains s c \<longleftrightarrow> c \<in> set cs"
  "capability_set_new cs = Inr s \<Longrightarrow> set (capability_set_iter s) = set cs"
proof -
  show *: "capability_set_new cs = Inr s \<longleftrightarrow> cs \<noteq> [] \<and> distinct cs \<and> s = foldl (\<lambda>b c. b OR capability_bit c) 0 cs"
    using distinct_capabilities [of cs] by (auto simp: capability_set_new_def collect_capabilities_exact contains_zero)
  show c: "capability_set_contains s c \<longleftrightarrow> c \<in> set cs" if "capability_set_new cs = Inr s" for c
    using that * by (simp add: foldl_contains contains_zero)
  show "set (capability_set_iter s) = set cs" if "capability_set_new cs = Inr s"
    using c [OF that] all_capabilities by (auto simp: capability_set_iter_def)
qed

text \<open>A verified description offers every capability its role requires.\<close>

lemma described_capabilities:
  assumes "verify_describe binding identity version capabilities maximum = Inr (VerifiedDescribe i v s m)"
    and "capability_set_contains (pb_required_capabilities binding) c"
  shows "capability_set_contains s c"
proof -
  have "list_all (capability_set_contains s) (capability_set_iter (pb_required_capabilities binding))"
    using assms(1) by (auto simp: verify_describe_def r_bind_Inr_iff list_all_iff list_ex_iff split: if_splits)
  then show ?thesis using assms(2) all_capabilities by (auto simp: list_all_iff capability_set_iter_def)
qed

section \<open>The digest of an operation\<close>

lemma framed_inject:
  assumes "length a \<le> u64_max" "length b \<le> u64_max"
  shows "framed a @ x = framed b @ y \<longleftrightarrow> a = b \<and> x = y"
  using frame_inject [OF assms] assms by (simp add: framed_def min_def)

lemma length_str_bytes: "length (str_bytes s) = length s"
  by (simp add: str_bytes_def)

text \<open>The identifiers have 32 bytes, the deadline is a 64-bit number and the texts have machine lengths.\<close>

definition operation_sized :: "MycProviderOperation \<Rightarrow> bool" where
  "operation_sized op \<longleftrightarrow> length (po_operation_id op) = 32 \<and> length (po_correlation_id op) = 32 \<and> po_deadline op \<le> u64_max
     \<and> length (po_expected_identity op) \<le> u64_max
     \<and> (\<forall>peer. input_peer (po_input op) = Some peer \<longrightarrow> length peer \<le> u64_max)
     \<and> (\<forall>bs. input_bytes (po_input op) = Some bs \<longrightarrow> length bs \<le> u64_max)"

lemma names_inject [simp]:
  "role_as_str a = role_as_str b \<longleftrightarrow> a = b" "instance_as_str i = instance_as_str j \<longleftrightarrow> i = j"
  "kind_as_str k = kind_as_str l \<longleftrightarrow> k = l" "capability_as_str c = capability_as_str d \<longleftrightarrow> c = d"
  subgoal by (cases a; cases b) simp_all
  subgoal by (cases i; cases j) simp_all
  subgoal by (cases k; cases l) simp_all
  subgoal by (cases c; cases d) simp_all
  done

lemma names_short:
  "length (role_as_str a) \<le> u64_max" "length (instance_as_str i) \<le> u64_max" "length (kind_as_str k) \<le> u64_max"
  "length (capability_as_str c) \<le> u64_max"
  subgoal by (cases a) (simp_all add: u64_max_def)
  subgoal by (cases i) (simp_all add: u64_max_def)
  subgoal by (cases k) (simp_all add: u64_max_def)
  subgoal by (cases c) (simp_all add: u64_max_def)
  done

lemma input_determined:
  assumes "input_capability a = input_capability b" "(case input_peer a of None \<Rightarrow> [] | Some p \<Rightarrow> p) = (case input_peer b of None \<Rightarrow> [] | Some p \<Rightarrow> p)"
    and "(case input_bytes a of None \<Rightarrow> [] | Some p \<Rightarrow> p) = (case input_bytes b of None \<Rightarrow> [] | Some p \<Rightarrow> p)"
  shows "a = b"
proof -
  have "v = w" for v w :: MycProviderNip44Version by (cases v; cases w) simp
  then show ?thesis using assms by (cases a; cases b) auto
qed

lemma operation_preimage_inject:
  assumes a: "operation_sized a" and b: "operation_sized b" and eq: "operation_preimage a = operation_preimage b"
  shows "a = b"
proof -
  have len: "length (case input_peer (po_input x) of None \<Rightarrow> [] | Some p \<Rightarrow> p) \<le> u64_max"
    "length (case input_bytes (po_input x) of None \<Rightarrow> [] | Some p \<Rightarrow> p) \<le> u64_max" if "operation_sized x" for x
    using that by (auto simp: operation_sized_def split: option.splits)
  have deadline: "to_be_bytes 8 (po_deadline a) = to_be_bytes 8 (po_deadline b) \<longleftrightarrow> po_deadline a = po_deadline b"
    using a b by (intro to_be_bytes_inject) (simp_all add: operation_sized_def u64_max_def)
  have whole: "framed x = framed y \<longleftrightarrow> x = y" if "length x \<le> u64_max" "length y \<le> u64_max" for x y
    using framed_inject [OF that, of "[]" "[]"] by simp
  note size = a [unfolded operation_sized_def] b [unfolded operation_sized_def]
  have *: "po_role a = po_role b" "po_instance a = po_instance b" "po_provider a = po_provider b"
    "po_operation_id a = po_operation_id b" "po_correlation_id a = po_correlation_id b" "po_deadline a = po_deadline b"
    "po_expected_identity a = po_expected_identity b" "input_capability (po_input a) = input_capability (po_input b)"
    "(case input_peer (po_input a) of None \<Rightarrow> [] | Some p \<Rightarrow> p) = (case input_peer (po_input b) of None \<Rightarrow> [] | Some p \<Rightarrow> p)"
    "(case input_bytes (po_input a) of None \<Rightarrow> [] | Some p \<Rightarrow> p) = (case input_bytes (po_input b) of None \<Rightarrow> [] | Some p \<Rightarrow> p)"
    using eq size len [OF a] len [OF b]
    by (simp_all add: operation_preimage_def framed_inject whole deadline str_bytes_inject names_short length_str_bytes)
  then show ?thesis using input_determined [OF *(8-10)] by simp
qed

section \<open>Padding\<close>

lemma padded_le: "1 \<le> m \<Longrightarrow> m \<le> 65536 \<Longrightarrow> nip44_padded_length m \<le> 65536"
  using padded_valid valid_range by blast

lemma bit_length_le: "n < 2 ^ k \<Longrightarrow> bit_length n \<le> k"
proof (rule ccontr)
  assume n: "n < 2 ^ k" and "\<not> bit_length n \<le> k"
  then have k: "k \<le> bit_length n - 1" "0 < n" by (auto simp: bit_length.simps [of n] split: if_splits)
  then have "(2 :: nat) ^ k \<le> 2 ^ (bit_length n - 1)" by (intro power_increasing) simp_all
  then show False using bit_length_lower [OF k(2)] n by linarith
qed

lemma nip44_padding_length_eq:
  assumes "1 \<le> m" "m \<le> MYC_PROVIDER_NIP44_PLAINTEXT_MAX_BYTES"
  shows "nip44_padding_length m = Some (nip44_padded_length m)"
proof (cases "m \<le> 32")
  case True
  then show ?thesis using assms by (simp add: nip44_padding_length_def nip44_padded_length_def)
next
  case False
  let ?p = "2 ^ bit_length (m - 1) :: nat"
  have m: "m \<le> 65536" using assms(2) by (simp add: provider_limits)
  then have "bit_length (m - 1) \<le> 16" using assms(1) by (intro bit_length_le) simp
  then have "?p \<le> 2 ^ 16" by (intro power_increasing) simp_all
  then have next_power: "checked_next_power_of_two m = Some ?p" by (simp add: checked_next_power_of_two_def u64_max_def)
  define chunk where "chunk = (if ?p \<le> 256 then 32 else ?p div 8)"
  have padded: "nip44_padded_length m = chunk * ((m - 1) div chunk + 1)"
    using False by (simp add: nip44_padded_length_def Let_def chunk_def)
  have "(m - 1) div chunk + 1 \<le> 65536" using m assms(1) div_le_dividend [of "m - 1" chunk] by linarith
  moreover have "chunk * ((m - 1) div chunk + 1) \<le> 65536" using padded padded_le [OF assms(1) m] by simp
  moreover have "nip44_padding_length m = Option.bind (checked_sub m 1) (\<lambda>below.
      Option.bind (checked_add_u64 (below div chunk) 1) (\<lambda>chunks. checked_mul_u64 chunk chunks))"
    unfolding nip44_padding_length_def chunk_def Let_def using assms False next_power by (simp only: bind.bind_lunit) simp
  ultimately show ?thesis
    using assms(1) padded by (simp add: checked_sub_def checked_add_u64_def checked_mul_u64_def u64_max_def)
qed

lemma padding_top: "65408 \<le> m \<Longrightarrow> m \<le> 65536 \<Longrightarrow> nip44_padded_length m = 65536"
proof -
  assume m: "65408 \<le> m" "m \<le> 65536"
  have "bit_length (m - 1) = Suc 15" using m by (intro bit_length_unique) simp_all
  moreover have "(m - 1) div 8192 = 7" using m by (intro div_nat_eqI) simp_all
  ultimately show ?thesis using m by (simp add: nip44_padded_length_def)
qed

lemma response_padding_eq: "response_padding_valid n = is_valid_nip44_padding_length n"
  by (simp add: response_padding_valid_def is_valid_nip44_padding_length_def nip44_sizes Let_def cong: option.case_cong)

section \<open>Properties\<close>

text \<open>
  The padding checks and the padding computation, written independently in two modules, agree: a length is accepted in an
  inbound envelope, and in a response, if and only if it is the padded length of some plaintext that the provider may encrypt.
\<close>

theorem nip44_padding_exact:
  "(is_valid_nip44_padding_length n \<longleftrightarrow> (\<exists>m. nip44_padding_length m = Some n)) \<and> (response_padding_valid n \<longleftrightarrow> (\<exists>m. nip44_padding_length m = Some n))"
proof -
  have "is_valid_nip44_padding_length n" if "nip44_padding_length m = Some n" for m
  proof -
    have m: "1 \<le> m" "m \<le> MYC_PROVIDER_NIP44_PLAINTEXT_MAX_BYTES" using that by (auto simp: nip44_padding_length_def split: if_splits)
    then show ?thesis using that padded_valid [of m] nip44_padding_length_eq [OF m] by (simp add: provider_limits)
  qed
  moreover have "\<exists>m. nip44_padding_length m = Some n" if valid: "is_valid_nip44_padding_length n"
  proof (cases "n - 1 \<le> 65408")
    case True
    then show ?thesis
      using valid_padded [OF valid] valid_range [OF valid] nip44_padding_length_eq [of "n - 1"]
      by (intro exI [of _ "n - 1"]) (simp add: provider_limits le_diff_conv2)
  next
    case False
    then have "n - 1 \<le> 65536" "65408 \<le> n - 1" using valid_range [OF valid] by auto
    then have "n = 65536" using valid_padded [OF valid] padding_top [of "n - 1"] by simp
    then show ?thesis using nip44_padding_length_eq [of 65408] padding_top [of 65408] by (auto simp: provider_limits)
  qed
  ultimately show ?thesis using response_padding_eq by blast
qed

text \<open>
  What the provider encrypts passes the inbound check: a NIP-44 response verified against the length of its plaintext is a
  valid envelope, and its decoded size is 67 bytes more than the padded plaintext.
\<close>

theorem encrypted_response_is_envelope:
  assumes "verify_nip44_ciphertext ec payload (Some len) version = Inr padded"
  shows "\<exists>rendered decoded. str_from_utf8 payload = Some rendered \<and> verify_nip44_envelope ec rendered = Inr ()
    \<and> base64_decode ec rendered = Some decoded \<and> nip44_padding_length len = Some padded \<and> length decoded = 67 + padded"
proof -
  obtain rendered where rendered: "str_from_utf8 payload = Some rendered" by (cases "str_from_utf8 payload") (use assms in \<open>simp_all add: verify_nip44_ciphertext_def\<close>)
  obtain decoded where d: "base64_decode ec rendered = Some decoded" "base64_encode ec decoded = rendered"
    by (cases "base64_decode ec rendered")
      (use assms in \<open>auto simp: verify_nip44_ciphertext_def response_canonical_base64_def rendered split: if_split_asm\<close>)
  have r: "take 1 decoded = [2]" "99 \<le> length decoded" "padded = length decoded - 67"
    "Option.bind (nip44_padding_length len) (checked_add_u64 67) = Some (length decoded)"
    using assms d rendered
    by (cases version; cases "Option.bind (nip44_padding_length len) (checked_add_u64 67)";
      simp add: verify_nip44_ciphertext_def response_canonical_base64_def NIP44_V2_FIXED_PAYLOAD_BYTES_def NIP44_V2_VERSION_def checked_sub_def
        split: if_split_asm)+
  then have p: "nip44_padding_length len = Some padded" "length decoded = 67 + padded"
    by (auto simp: bind_eq_Some_conv)
  then have "is_valid_nip44_padding_length padded"
    using padded_valid [of len] nip44_padding_length_eq [of len]
    by (cases "len = 0 \<or> MYC_PROVIDER_NIP44_PLAINTEXT_MAX_BYTES < len") (auto simp: provider_limits nip44_padding_length_def)
  then have "verify_nip44_envelope ec rendered = Inr ()"
    using r(1) p(2) d by (simp add: verify_nip44_envelope_def decode_canonical_base64_def nip44_sizes NIP44_VERSION_V2_def checked_sub_def)
  then show ?thesis using rendered d p by blast
qed

definition px_events :: event_crates where
  "px_events = \<lparr>canonical_event = (\<lambda>_. None), nostr_event_parse = (\<lambda>_. None), verify_id = (\<lambda>_. False), verify_signature = (\<lambda>_. False),
     base64_decode = (\<lambda>s. if s = ''A'' then Some (2 # replicate 98 0) else None), base64_encode = (\<lambda>_. ''A''),
     request_message_parse = (\<lambda>_. None), RPC_KIND = 24133\<rparr>"

theorem encrypted_response_is_envelope_witness:
  "verify_nip44_envelope px_events ''A'' = Inr () \<and> nip44_padding_length 1 = Some 32"
proof -
  have letter: "str_from_utf8 [65] = Some ''A''"
    by (simp add: str_from_utf8_def from_utf8_def char_of_def bit_0)
  have "verify_nip44_ciphertext px_events [65] (Some 1) ProviderV2 = Inr 32"
    unfolding verify_nip44_ciphertext_def letter
    by (simp add: response_canonical_base64_def px_events_def NIP44_V2_FIXED_PAYLOAD_BYTES_def NIP44_V2_VERSION_def
      nip44_padding_length_def provider_limits checked_sub_def checked_add_u64_def u64_max_def)
  from encrypted_response_is_envelope [OF this] show ?thesis by (auto simp: letter)
qed

end
