(* ===== verification/Request_Invariant.thy ===== *)
theory Request_Invariant
  imports Request_State Challenge_Progress
begin

text \<open>
  The invariant of the request authority: every stored request has the identities its content derives, one entry for its
  logical identity and one for its first event; every entry belongs to a stored request and repeats its digest; and every
  replay counted for a request is counted for exactly one event. Under it every reader returns the stored record.
\<close>

section \<open>Values\<close>

definition dedup_key :: "dedup_row \<Rightarrow> string \<times> bytes" where
  "dedup_key d = (dd_dedup_kind d, dd_identity_sha256 d)"

definition signer_request_ok :: "crates \<Rightarrow> MycSignerRequest \<Rightarrow> bool" where
  "signer_request_ok cr r \<longleftrightarrow>
     client_public_key_new cr (sr_client_public_key r) = Inr (sr_client_public_key r)
     \<and> request_id_new (sr_request_id r) = Inr (sr_request_id r)
     \<and> length (sr_event_id r) = 32 \<and> length (sr_request_digest r) = 32 \<and> length (sr_operation_nonce r) = 32
     \<and> sr_request_identity r = derive_request_identity (sha256 cr) (sr_client_public_key r) (sr_request_id r)
     \<and> received_at_new (sr_received_at r) = Inr (sr_received_at r)"

definition request_derived :: "crates \<Rightarrow> request_row \<Rightarrow> bool" where
  "request_derived cr q \<longleftrightarrow>
     request_id_new (q_request_id q) = Inr (q_request_id q)
     \<and> q_request_identity_sha256 q = derive_request_identity (sha256 cr) (q_client_public_key q) (q_request_id q)
     \<and> q_operation_id q = derive_operation_id (sha256 cr) (q_request_identity_sha256 q) (q_operation_nonce q)
     \<and> q_correlation_id q = derive_digest (sha256 cr) CORRELATION_ID_DOMAIN (q_operation_id q)"

definition entry_of :: "request_row \<Rightarrow> dedup_row \<Rightarrow> bool" where
  "entry_of q d \<longleftrightarrow> dedup_key d = (''request'', q_request_identity_sha256 q)"

definition belongs_to :: "dedup_row \<Rightarrow> request_row \<Rightarrow> bool" where
  "belongs_to d q \<longleftrightarrow> q_operation_id q = dd_operation_id d \<and> dd_request_sha256 d = q_request_sha256 q
     \<and> (dd_dedup_kind d = ''request'' \<longrightarrow> dd_identity_sha256 d = q_request_identity_sha256 q
          \<and> dd_first_seen_at_unix_ms d = q_received_at_unix_ms q)"

text \<open>How often the events of an operation were seen.\<close>

definition sightings :: "bytes \<Rightarrow> dedup_row \<Rightarrow> int" where
  "sightings op d = (if dd_dedup_kind d = ''event'' \<and> dd_operation_id d = op then dd_replay_count d + 1 else 0)"

definition events_seen :: "bytes \<Rightarrow> dedup_row list \<Rightarrow> int" where
  "events_seen op t = sum_list (map (sightings op) t)"

definition dedup_shape :: "crates \<Rightarrow> request_row list \<Rightarrow> dedup_row list \<Rightarrow> bool" where
  "dedup_shape cr qs t \<longleftrightarrow>
     distinct (map dedup_key t) \<and> distinct (map q_request_identity_sha256 qs)
     \<and> (\<forall>q\<in>set qs. request_derived cr q \<and> (\<exists>d\<in>set t. entry_of q d)
          \<and> (\<exists>d\<in>set t. dedup_key d = (''event'', q_first_event_id q) \<and> dd_operation_id d = q_operation_id q))
     \<and> (\<forall>d\<in>set t. nip46_request_dedup_check d \<and> (\<exists>q\<in>set qs. belongs_to d q))"

definition replays_accounted :: "dedup_row list \<Rightarrow> bool" where
  "replays_accounted t \<longleftrightarrow> (\<forall>d\<in>set t. dd_dedup_kind d = ''request'' \<longrightarrow> dd_replay_count d + 1 = events_seen (dd_operation_id d) t)"

definition dedup_inv :: "crates \<Rightarrow> request_row list \<Rightarrow> dedup_row list \<Rightarrow> bool" where
  "dedup_inv cr qs t \<longleftrightarrow> dedup_shape cr qs t \<and> replays_accounted t"

definition request_inv :: "crates \<Rightarrow> request_db \<Rightarrow> bool" where
  "request_inv cr db \<longleftrightarrow> connection_inv cr (rq_connections db) \<and> dedup_inv cr (rq_requests db) (rq_dedup db)"

lemma dedup_invD:
  assumes "dedup_inv cr qs t"
  shows "distinct (map dedup_key t)" "distinct (map q_request_identity_sha256 qs)"
    and "\<And>q. q \<in> set qs \<Longrightarrow> request_derived cr q" "\<And>q. q \<in> set qs \<Longrightarrow> \<exists>d\<in>set t. entry_of q d"
    and "\<And>q. q \<in> set qs \<Longrightarrow> \<exists>d\<in>set t. dedup_key d = (''event'', q_first_event_id q) \<and> dd_operation_id d = q_operation_id q"
    and "\<And>d. d \<in> set t \<Longrightarrow> nip46_request_dedup_check d" "\<And>d. d \<in> set t \<Longrightarrow> \<exists>q\<in>set qs. belongs_to d q"
    and "\<And>d. d \<in> set t \<Longrightarrow> dd_dedup_kind d = ''request'' \<Longrightarrow> dd_replay_count d + 1 = events_seen (dd_operation_id d) t"
  using assms by (simp_all add: dedup_inv_def dedup_shape_def replays_accounted_def)

lemma request_invD:
  assumes "request_inv cr db"
  shows "connection_inv cr (rq_connections db)" "dedup_inv cr (rq_requests db) (rq_dedup db)"
    and "\<And>q. q \<in> set (rq_requests db) \<Longrightarrow> nip46_requests_check q"
      "\<And>q. q \<in> set (rq_requests db) \<Longrightarrow> client_public_key_new cr (q_client_public_key q) = Inr (q_client_public_key q)"
      "distinct (map q_operation_id (rq_requests db))"
  using assms connection_invD(3,4) [of cr "rq_connections db"] by (auto simp: request_inv_def request_ok_def)

lemma request_id_new_Inr: "request_id_new s = Inr x \<Longrightarrow> x = s \<and> 1 \<le> length s \<and> length s \<le> 128"
  by (cases s) (auto simp: request_id_new_def MYC_NIP46_REQUEST_ID_MAX_UTF8_BYTES_def split: if_splits)

lemma received_at_new_Inr: "received_at_new t = Inr x \<longleftrightarrow> x = t \<and> 1 \<le> t \<and> t \<le> i64_max"
  by (auto simp: received_at_new_def i64_of_nat_def)

lemma method_length: "1 \<le> length (method_as_str m) \<and> length (method_as_str m) \<le> 64"
  by (cases m) auto

lemma requests_check_method: "nip46_requests_check q \<Longrightarrow> \<exists>m. q_method q = method_as_str m"
  using method_as_str.simps unfolding nip46_requests_check_def by (elim conjE insertE emptyE) metis+

section \<open>Reading\<close>

definition record_of :: "request_row \<Rightarrow> dedup_row \<Rightarrow> MycSignerRequestRecord" where
  "record_of q d = \<lparr>srr_operation_id = q_operation_id q, srr_correlation_id = q_correlation_id q,
     srr_client_public_key = q_client_public_key q, srr_request_id = q_request_id q, srr_first_event_id = q_first_event_id q,
     srr_method = the (method_parse (q_method q)), srr_request_digest = q_request_sha256 q,
     srr_received_at = nat (q_received_at_unix_ms q), srr_replay_count = nat (dd_replay_count d),
     srr_conflict_count = nat (dd_conflict_count d), srr_last_seen_at = nat (dd_last_seen_at_unix_ms d)\<rparr>"

lemma digest_column_ok: "length b = 32 \<Longrightarrow> exact_digest (digest_column b) = Inr b"
  by (simp add: digest_column_def)

lemma bounded_time_ok: "sql_time v \<Longrightarrow> bounded_time (integer_column 1 v) = Inr (nat v)"
  by (auto simp: bounded_time_def integer_column_def only_if_def sql_time_def received_at_new_def i64_of_nat_def u64_of_int_def int_width_defs)

lemma bounded_count_ok: "0 \<le> v \<Longrightarrow> v \<le> sql_int_max \<Longrightarrow> bounded_count (integer_column 0 v) = Inr (nat v)"
  by (auto simp: bounded_count_def integer_column_def only_if_def u64_of_int_def int_width_defs)

lemma request_entry_unique:
  assumes inv: "request_inv cr db" and q: "q \<in> set (rq_requests db)" "q' \<in> set (rq_requests db)"
  shows "q_operation_id q = q_operation_id q' \<Longrightarrow> q = q'" "q_request_identity_sha256 q = q_request_identity_sha256 q' \<Longrightarrow> q = q'"
  using unique_by_key [OF request_invD(5) [OF inv] q] unique_by_key [OF dedup_invD(2) [OF request_invD(2) [OF inv]] q] by blast+

lemma entry_identity: "entry_of q d \<Longrightarrow> belongs_to d q' \<Longrightarrow> q_request_identity_sha256 q' = q_request_identity_sha256 q"
  by (auto simp: belongs_to_def entry_of_def dedup_key_def)

lemma request_entry_belongs:
  assumes inv: "request_inv cr db" and q: "q \<in> set (rq_requests db)" and e: "e \<in> set (rq_dedup db)" "entry_of q e"
  shows "belongs_to e q"
proof -
  obtain q' where q': "q' \<in> set (rq_requests db)" "belongs_to e q'" using dedup_invD(7) [OF request_invD(2) [OF inv] e(1)] by blast
  have "q' = q" by (rule request_entry_unique(2) [OF inv q'(1) q entry_identity [OF e(2) q'(2)]])
  with q'(2) show ?thesis by (rule subst [where P = "belongs_to e", rotated])
qed

lemma parse_record_ok:
  assumes inv: "request_inv cr db" and sel: "selected \<in> set (rq_dedup db)" "dd_dedup_kind selected = dedup_kind_as_str kind"
    and q: "q \<in> set (rq_requests db)" "belongs_to selected q" and d: "d \<in> set (rq_dedup db)" "entry_of q d"
  shows "parse_record cr (selected, q, d) kind (dd_identity_sha256 selected) = Inr (record_of q d)"
proof -
  note D = dedup_invD [OF request_invD(2) [OF inv]]
  have bd: "belongs_to d q" by (rule request_entry_belongs [OF inv q(1) d])
  have ck: "nip46_requests_check q" "nip46_request_dedup_check d" "nip46_request_dedup_check selected"
    using request_invD(3) [OF inv q(1)] D(6) d(1) sel(1) by blast+
  obtain m where m: "q_method q = method_as_str m" using requests_check_method [OF ck(1)] by blast
  have id: "kind = DedupRequest \<Longrightarrow> dd_identity_sha256 selected = q_request_identity_sha256 q"
    using q(2) sel(2) by (simp add: belongs_to_def)
  have der: "request_derived cr q" by (rule D(3) [OF q(1)])
  have seen: "\<not> nat (dd_last_seen_at_unix_ms d) < nat (q_received_at_unix_ms q)"
    using ck bd d(2) by (auto simp: nip46_request_dedup_check_def belongs_to_def entry_of_def dedup_key_def)
  have last: "sql_time (dd_last_seen_at_unix_ms d)" using ck(2) by (auto simp: nip46_request_dedup_check_def sql_time_def)
  have txtc: "client_column cr (q_client_public_key q) = Inr (q_client_public_key q)"
    by (rule client_column_ok [OF request_invD(4) [OF inv q(1)]])
  have dig: "exact_digest (digest_column (q_operation_id q)) = Inr (q_operation_id q)"
    "exact_digest (digest_column (q_correlation_id q)) = Inr (q_correlation_id q)"
    "exact_digest (digest_column (q_operation_nonce q)) = Inr (q_operation_nonce q)"
    "exact_digest (digest_column (q_request_identity_sha256 q)) = Inr (q_request_identity_sha256 q)"
    "exact_digest (digest_column (q_request_sha256 q)) = Inr (q_request_sha256 q)"
    "exact_digest (digest_column (q_first_event_id q)) = Inr (q_first_event_id q)"
    using ck(1) by (simp_all add: nip46_requests_check_def digest_column_ok)
  have same: "dd_request_sha256 selected = q_request_sha256 q" "dd_request_sha256 d = q_request_sha256 q"
    "dd_operation_id d = q_operation_id q"
    using q(2) bd by (simp_all add: belongs_to_def)
  have len: "1 \<le> length (q_request_id q) \<and> length (q_request_id q) \<le> 128"
    "1 \<le> length (q_method q) \<and> length (q_method q) \<le> 64" "sql_time (q_received_at_unix_ms q)"
    using ck(1) method_length [of m] m by (simp_all add: nip46_requests_check_def)
  have cnt: "0 \<le> dd_replay_count d" "dd_replay_count d \<le> sql_int_max" "0 \<le> dd_conflict_count d" "dd_conflict_count d \<le> sql_int_max"
    using ck(2) by (simp_all add: nip46_request_dedup_check_def)
  have ids: "request_id_new (q_request_id q) = Inr (q_request_id q)"
    "derive_request_identity (sha256 cr) (q_client_public_key q) (q_request_id q) = q_request_identity_sha256 q"
    "derive_operation_id (sha256 cr) (q_request_identity_sha256 q) (q_operation_nonce q) = q_operation_id q"
    "derive_digest (sha256 cr) CORRELATION_ID_DOMAIN (q_operation_id q) = q_correlation_id q"
    using der by (simp_all add: request_derived_def)
  have t: "connection_text (only_if (1 \<le> length (q_request_id q) \<and> length (q_request_id q) \<le> 128) (q_request_id q)) = Inr (q_request_id q)"
    "connection_text (only_if (1 \<le> length (q_method q) \<and> length (q_method q) \<le> 64) (q_method q)) = Inr (q_method q)"
    using len by (simp_all add: connection_text_def only_if_def)
  have "map_err (\<lambda>_. Binding) (request_id_new (q_request_id q)) = Inr (q_request_id q)" by (simp add: ids(1))
  note rules = txtc dig same t this ids(2,3,4) bounded_time_ok [OF len(3)] bounded_time_ok [OF last] bounded_count_ok [OF cnt(1,2)]
    bounded_count_ok [OF cnt(3,4)]
  show ?thesis
    unfolding parse_record_def prod.case rules r_bind_simps
    using id seen m by (auto simp: rules r_bind_simps signer_method.parse_as_str record_of_def)
qed

lemma read_by_dedup_Some:
  assumes inv: "request_inv cr db" and sel: "selected \<in> set (rq_dedup db)" "dedup_key selected = (dedup_kind_as_str kind, identity)"
    and q: "q \<in> set (rq_requests db)" "belongs_to selected q" and d: "d \<in> set (rq_dedup db)" "entry_of q d"
  shows "read_by_dedup cr db kind identity = Inr (Some (record_of q d))"
proof -
  note D = dedup_invD [OF request_invD(2) [OF inv]]
  have one: "filter (\<lambda>x. dedup_key x = dedup_key y) (rq_dedup db) = [y]" if "y \<in> set (rq_dedup db)" for y
    using filter_unique [OF D(1) that] .
  have "filter (\<lambda>x. dd_dedup_kind x = dedup_kind_as_str kind \<and> dd_identity_sha256 x = identity) (rq_dedup db) = [selected]"
    using one [OF sel(1)] sel(2) by (simp add: dedup_key_def)
  moreover have "filter (\<lambda>x. q_operation_id x = dd_operation_id selected) (rq_requests db) = [q]"
    using filter_unique [OF request_invD(5) [OF inv] q(1)] q(2) by (simp add: belongs_to_def)
  moreover have "filter (\<lambda>x. dd_dedup_kind x = ''request'' \<and> dd_identity_sha256 x = q_request_identity_sha256 q) (rq_dedup db) = [d]"
    using one [OF d(1)] d(2) by (simp add: entry_of_def dedup_key_def)
  ultimately have "dedup_join db kind identity = [(selected, q, d)]" by (simp add: dedup_join_def)
  then show ?thesis
    using parse_record_ok [OF inv sel(1) _ q d, of kind] sel(2) by (simp add: read_by_dedup_def dedup_key_def)
qed

lemma read_by_dedup_None:
  assumes "\<And>d. d \<in> set (rq_dedup db) \<Longrightarrow> dedup_key d \<noteq> (dedup_kind_as_str kind, identity)"
  shows "read_by_dedup cr db kind identity = Inr None"
proof -
  have "filter (\<lambda>x. dd_dedup_kind x = dedup_kind_as_str kind \<and> dd_identity_sha256 x = identity) (rq_dedup db) = []"
    using assms by (auto simp: filter_empty_conv dedup_key_def)
  then show ?thesis by (simp add: read_by_dedup_def dedup_join_def)
qed

lemma entry_exists:
  assumes inv: "request_inv cr db" and d: "d \<in> set (rq_dedup db)"
  obtains q e where "q \<in> set (rq_requests db)" "belongs_to d q" "e \<in> set (rq_dedup db)" "entry_of q e"
    "dd_operation_id e = q_operation_id q"
proof -
  note D = dedup_invD [OF request_invD(2) [OF inv]]
  obtain q where q: "q \<in> set (rq_requests db)" "belongs_to d q" using D(7) [OF d] by blast
  obtain e where e: "e \<in> set (rq_dedup db)" "entry_of q e" using D(4) [OF q(1)] by blast
  have "belongs_to e q" by (rule request_entry_belongs [OF inv q(1) e])
  then show ?thesis using that q e by (simp add: belongs_to_def)
qed

end
