(* ===== verification/Request_Admission.thy ===== *)
theory Request_Admission
  imports Request_Invariant
begin

text \<open>
  What the admission of a request does, exactly: five effects, each with the database it leaves and the answer it gives,
  and the proof that the operation succeeds if and only if one of them applies. Each effect keeps the invariant.
\<close>

section \<open>Effects on the table\<close>

definition new_dedup :: "DedupKind \<Rightarrow> bytes \<Rightarrow> bytes \<Rightarrow> bytes \<Rightarrow> nat \<Rightarrow> dedup_row" where
  "new_dedup kind identity request_digest operation_id received_at =
     \<lparr>dd_dedup_kind = dedup_kind_as_str kind, dd_identity_sha256 = identity, dd_request_sha256 = request_digest,
       dd_operation_id = operation_id, dd_replay_count = 0, dd_conflict_count = 0,
       dd_first_seen_at_unix_ms = int received_at, dd_last_seen_at_unix_ms = int received_at\<rparr>"

lemma dedup_shape_insert:
  assumes "dedup_shape cr qs t" and "dedup_insert_legal qs t d" and "q \<in> set qs" "belongs_to d q"
  shows "dedup_shape cr qs (t @ [d])"
  using assms unfolding dedup_shape_def dedup_insert_legal_def list_all_iff
  by (auto simp: dedup_key_def)

lemma dedup_shape_swap:
  assumes shape: "dedup_shape cr qs t" and d: "d \<in> set t" "nip46_request_dedup_check d'"
    and same: "dedup_key d' = dedup_key d" "dd_request_sha256 d' = dd_request_sha256 d" "dd_operation_id d' = dd_operation_id d"
      "dd_first_seen_at_unix_ms d' = dd_first_seen_at_unix_ms d"
  shows "dedup_shape cr qs (swap_row d d' t)"
proof -
  have keep: "\<exists>x\<in>set (swap_row d d' t). P (dedup_key x) (dd_operation_id x)" if "x \<in> set t" "P (dedup_key x) (dd_operation_id x)" for P x
  proof (rule bexI [where x = "if x = d then d' else x"])
    show "P (dedup_key (if x = d then d' else x)) (dd_operation_id (if x = d then d' else x))" using that(2) same by auto
    show "(if x = d then d' else x) \<in> set (swap_row d d' t)" using that(1) by (auto simp: in_swap_row)
  qed
  have bel: "belongs_to d' q \<longleftrightarrow> belongs_to d q" for q using same by (simp add: belongs_to_def dedup_key_def)
  have "\<exists>x\<in>set (swap_row d d' t). entry_of q x" if "q \<in> set qs" for q
    using shape that keep [of _ "\<lambda>k _. k = (''request'', q_request_identity_sha256 q)"] unfolding dedup_shape_def entry_of_def by blast
  moreover have "\<exists>x\<in>set (swap_row d d' t). dedup_key x = (''event'', q_first_event_id q) \<and> dd_operation_id x = q_operation_id q"
    if "q \<in> set qs" for q
    using shape that keep [of _ "\<lambda>k op. k = (''event'', q_first_event_id q) \<and> op = q_operation_id q"] unfolding dedup_shape_def by blast
  moreover have "nip46_request_dedup_check x \<and> (\<exists>q\<in>set qs. belongs_to x q)" if "x \<in> set (swap_row d d' t)" for x
    using shape that d bel unfolding dedup_shape_def in_swap_row by blast
  ultimately show ?thesis using shape swap_row_keys [of dedup_key, OF same(1), of t] unfolding dedup_shape_def by simp
qed

lemma sum_list_swap:
  fixes w :: "'a \<Rightarrow> int"
  assumes "distinct t" "d \<in> set t"
  shows "sum_list (map w (swap_row d d' t)) = sum_list (map w t) - w d + w d'"
  using assms
proof (induction t)
  case (Cons x t)
  show ?case
  proof (cases "x = d")
    case True
    then have "swap_row d d' t = t" using Cons.prems(1) by (auto simp: swap_row_def intro!: map_idI)
    with True show ?thesis by (simp add: swap_row_def)
  next
    case False
    with Cons show ?thesis by (simp add: swap_row_def)
  qed
qed simp

lemma events_seen_swap:
  "distinct (map dedup_key t) \<Longrightarrow> d \<in> set t
    \<Longrightarrow> events_seen op (swap_row d d' t) = events_seen op t - sightings op d + sightings op d'"
  unfolding events_seen_def by (rule sum_list_swap) (simp_all add: distinct_map)

lemma events_seen_append [simp]: "events_seen op (t @ u) = events_seen op t + events_seen op u"
  "events_seen op [d] = sightings op d" "events_seen op (d # u) = sightings op d + events_seen op u" "events_seen op [] = 0"
  by (simp_all add: events_seen_def)

lemma sightings_le: "\<forall>d\<in>set t. 0 \<le> dd_replay_count d \<Longrightarrow> d \<in> set t \<Longrightarrow> sightings op d \<le> events_seen op t"
proof (induction t)
  case (Cons x t)
  have pos: "0 \<le> sightings op y" if "0 \<le> dd_replay_count y" for y using that by (simp add: sightings_def)
  have "0 \<le> events_seen op t" unfolding events_seen_def using Cons.prems(1) by (intro sum_list_nonneg) (auto intro: pos)
  then show ?case using Cons pos [of x] by (cases "d = x") fastforce+
qed simp

lemma events_seen_none: "(\<And>d. d \<in> set t \<Longrightarrow> dd_operation_id d \<noteq> op) \<Longrightarrow> events_seen op t = 0"
  unfolding events_seen_def by (induction t) (auto simp: sightings_def)

lemma conflict_swap_inv:
  assumes inv: "dedup_inv cr qs t" and d: "d \<in> set t" and check: "nip46_request_dedup_check (record_conflict_set at d)"
  shows "dedup_inv cr qs (swap_row d (record_conflict_set at d) t)"
proof -
  note D = dedup_invD [OF inv]
  let ?t = "swap_row d (record_conflict_set at d) t"
  have "dedup_shape cr qs ?t"
    using inv by (intro dedup_shape_swap [OF _ d check]) (simp_all add: dedup_inv_def record_conflict_set_def dedup_key_def)
  moreover have "events_seen op ?t = events_seen op t" for op
    using events_seen_swap [OF D(1) d] by (simp add: record_conflict_set_def sightings_def)
  then have "replays_accounted ?t"
    using D(8) d by (auto simp: replays_accounted_def in_swap_row record_conflict_set_def)
  ultimately show ?thesis by (simp add: dedup_inv_def)
qed

text \<open>A replay counts once for the logical request and once for its event.\<close>

lemma replay_swap_inv:
  assumes shape: "dedup_shape cr qs t" and lg: "lg \<in> set t" "dd_dedup_kind lg = ''request''"
    and check: "nip46_request_dedup_check (record_replay_set at lg)"
    and counted: "\<And>d. d \<in> set t \<Longrightarrow> dd_dedup_kind d = ''request'' \<Longrightarrow>
      events_seen (dd_operation_id d) t = dd_replay_count d + 1 + (if d = lg then 1 else 0)"
  shows "dedup_inv cr qs (swap_row lg (record_replay_set at lg) t)"
proof -
  let ?t = "swap_row lg (record_replay_set at lg) t"
  have "dedup_shape cr qs ?t"
    by (rule dedup_shape_swap [OF shape lg(1) check]) (simp_all add: record_replay_set_def dedup_key_def)
  moreover have "distinct (map dedup_key t)" using shape by (simp add: dedup_shape_def)
  then have "events_seen op ?t = events_seen op t" for op
    using events_seen_swap [OF _ lg(1)] lg(2) by (simp add: record_replay_set_def sightings_def)
  then have "replays_accounted ?t"
    using counted lg by (auto simp: replays_accounted_def in_swap_row record_replay_set_def)
  ultimately show ?thesis by (simp add: dedup_inv_def)
qed

lemma request_entries_eq:
  assumes "request_inv cr db" and "d \<in> set (rq_dedup db)" "e \<in> set (rq_dedup db)" "dd_dedup_kind d = ''request''" "dd_dedup_kind e = ''request''"
    "dd_operation_id d = dd_operation_id e"
  shows "d = e"
proof -
  note D = dedup_invD [OF request_invD(2) [OF assms(1)]]
  obtain p q where p: "p \<in> set (rq_requests db)" "belongs_to d p" and q: "q \<in> set (rq_requests db)" "belongs_to e q"
    using D(7) assms(2,3) by meson
  have "p = q" by (rule request_entry_unique(1) [OF assms(1) p(1) q(1)]) (use p(2) q(2) assms(6) in \<open>simp add: belongs_to_def\<close>)
  then have "dedup_key d = dedup_key e" using p(2) q(2) assms(4,5) by (simp add: belongs_to_def dedup_key_def)
  then show ?thesis using unique_by_key [OF D(1) assms(2,3)] by blast
qed

section \<open>Statements\<close>

lemma signer_request_okD:
  assumes "signer_request_ok cr r"
  shows "1 \<le> sr_received_at r" "sr_received_at r \<le> i64_max" "length (sr_event_id r) = 32" "length (sr_request_digest r) = 32"
    "length (sr_operation_nonce r) = 32" "client_public_key_new cr (sr_client_public_key r) = Inr (sr_client_public_key r)"
    "request_id_new (sr_request_id r) = Inr (sr_request_id r)"
    "sr_request_identity r = derive_request_identity (sha256 cr) (sr_client_public_key r) (sr_request_id r)"
  using assms by (simp_all add: signer_request_ok_def received_at_new_Inr)

lemma insert_dedup_eq:
  "insert_dedup db kind identity digest op 0 at =
     (if dedup_insert_legal (rq_requests db) (rq_dedup db) (new_dedup kind identity digest op at)
      then Inr (db\<lparr>rq_dedup := rq_dedup db @ [new_dedup kind identity digest op at]\<rparr>) else Inl Storage)"
  by (simp add: insert_dedup_def new_dedup_def sql_insert_def connection_execute_one_def connection_require_one_def)

lemma new_dedup_legal:
  assumes "1 \<le> at" "at \<le> i64_max" "length identity = 32" "length digest = 32" "length op = 32" and "q \<in> set qs" "q_operation_id q = op"
    and "\<And>d. d \<in> set t \<Longrightarrow> dedup_key d \<noteq> (dedup_kind_as_str kind, identity)"
  shows "dedup_insert_legal qs t (new_dedup kind identity digest op at)"
  using assms by (cases kind) (auto simp: dedup_insert_legal_def nip46_request_dedup_check_def new_dedup_def sql_time_def int_width_defs
    list_all_iff list_ex_iff dedup_key_def)

lemma counter_checks:
  assumes "nip46_request_dedup_check d" "at \<le> i64_max"
  shows "dd_replay_count d < sql_int_max \<Longrightarrow> nip46_request_dedup_check (record_replay_set at d) \<and> dedup_update_legal d (record_replay_set at d)"
    and "dd_conflict_count d < sql_int_max \<Longrightarrow> nip46_request_dedup_check (record_conflict_set at d) \<and> dedup_update_legal d (record_conflict_set at d)"
  using assms by (auto simp: nip46_request_dedup_check_def dedup_update_legal_def nip46_request_dedup_guard_update_def record_replay_set_def
    record_conflict_set_def int_width_defs)

lemma update_counter_ready:
  assumes dist: "distinct (map dedup_key (rq_dedup db))" and d: "d \<in> set (rq_dedup db)" "dedup_key d = (dedup_kind_as_str kind, identity)"
    and legal: "counter d < sql_int_max" "dedup_update_legal d (assign at d)"
  shows "update_counter db assign counter kind identity at = Inr (db\<lparr>rq_dedup := swap_row d (assign at d) (rq_dedup db)\<rparr>)"
proof -
  let ?whr = "\<lambda>d. dd_dedup_kind d = dedup_kind_as_str kind \<and> dd_identity_sha256 d = identity \<and> counter d < sql_int_max"
  have "sql_update ?whr (assign at) dedup_update_legal (rq_dedup db) = Some (swap_row d (assign at d) (rq_dedup db), 1)"
    using d legal by (intro sql_update_ready [OF dist]) (auto simp: dedup_key_def)
  then show ?thesis by (simp add: update_counter_def connection_execute_one_def connection_require_one_def)
qed

lemma update_counter_exhausted:
  assumes dist: "distinct (map dedup_key (rq_dedup db))" and d: "d \<in> set (rq_dedup db)" "dedup_key d = (dedup_kind_as_str kind, identity)"
    and full: "\<not> counter d < sql_int_max"
  shows "update_counter db assign counter kind identity at = Inl Storage"
proof -
  let ?whr = "\<lambda>d. dd_dedup_kind d = dedup_kind_as_str kind \<and> dd_identity_sha256 d = identity \<and> counter d < sql_int_max"
  have "\<not> ?whr x" if "x \<in> set (rq_dedup db)" for x
    using unique_by_key [OF dist that d(1)] d(2) full by (auto simp: dedup_key_def)
  then have "filter ?whr (rq_dedup db) = []" by (auto simp: filter_empty_conv)
  then show ?thesis
    by (auto simp: update_counter_def connection_execute_one_def connection_require_one_def sql_update_def)
qed

section \<open>The five effects\<close>

definition same_request :: "request_row \<Rightarrow> MycSignerRequest \<Rightarrow> bool" where
  "same_request q r \<longleftrightarrow> q_client_public_key q = sr_client_public_key r \<and> q_request_id q = sr_request_id r
     \<and> q_method q = method_as_str (sr_method r) \<and> q_request_sha256 q = sr_request_digest r"

definition request_entry :: "crates \<Rightarrow> MycSignerRequest \<Rightarrow> dedup_row" where
  "request_entry cr r = new_dedup DedupRequest (sr_request_identity r) (sr_request_digest r) (derived_operation_id (sha256 cr) r) (sr_received_at r)"

definition event_entry :: "bytes \<Rightarrow> MycSignerRequest \<Rightarrow> dedup_row" where
  "event_entry op r = new_dedup DedupEvent (sr_event_id r) (sr_request_digest r) op (sr_received_at r)"

definition unseen :: "request_db \<Rightarrow> DedupKind \<Rightarrow> bytes \<Rightarrow> bool" where
  "unseen db kind identity \<longleftrightarrow> (\<forall>d\<in>set (rq_dedup db). dedup_key d \<noteq> (dedup_kind_as_str kind, identity))"

definition seen_as :: "request_db \<Rightarrow> DedupKind \<Rightarrow> bytes \<Rightarrow> dedup_row \<Rightarrow> bool" where
  "seen_as db kind identity d \<longleftrightarrow> d \<in> set (rq_dedup db) \<and> dedup_key d = (dedup_kind_as_str kind, identity)"

text \<open>The logical request \<open>q\<close> of an admission, with its entry \<open>lg\<close>.\<close>

definition known_request :: "request_db \<Rightarrow> MycSignerRequest \<Rightarrow> request_row \<Rightarrow> dedup_row \<Rightarrow> bool" where
  "known_request db r q lg \<longleftrightarrow> q \<in> set (rq_requests db) \<and> seen_as db DedupRequest (sr_request_identity r) lg \<and> entry_of q lg"

inductive request_effect ::
    "crates \<Rightarrow> MycSignerRequest \<Rightarrow> request_db \<Rightarrow> MycSignerRequestAdmission \<Rightarrow> request_db \<Rightarrow> bool" for cr r db where
  fresh: "unseen db DedupRequest (sr_request_identity r) \<Longrightarrow> unseen db DedupEvent (sr_event_id r)
    \<Longrightarrow> request_insert_legal (rq_requests db) (new_request_row (sha256 cr) r)
    \<Longrightarrow> request_effect cr r db (RequestAdmitted (record_of (new_request_row (sha256 cr) r) (request_entry cr r)))
      \<lparr>rq_connections = store_request (new_request_row (sha256 cr) r) (rq_connections db),
        rq_dedup = rq_dedup db @ [request_entry cr r, event_entry (derived_operation_id (sha256 cr) r) r]\<rparr>"
| carried: "known_request db r q lg \<Longrightarrow> same_request q r \<Longrightarrow> unseen db DedupEvent (sr_event_id r) \<Longrightarrow> dd_replay_count lg < sql_int_max
    \<Longrightarrow> request_effect cr r db (RequestExactReplay (record_of q (record_replay_set (sr_received_at r) lg)))
      (db\<lparr>rq_dedup := swap_row lg (record_replay_set (sr_received_at r) lg) (rq_dedup db @ [event_entry (q_operation_id q) r])\<rparr>)"
| repeated: "known_request db r q lg \<Longrightarrow> same_request q r \<Longrightarrow> seen_as db DedupEvent (sr_event_id r) e \<Longrightarrow> dd_operation_id e = q_operation_id q
    \<Longrightarrow> dd_replay_count lg < sql_int_max
    \<Longrightarrow> request_effect cr r db (RequestExactReplay (record_of q (record_replay_set (sr_received_at r) lg)))
      (db\<lparr>rq_dedup := swap_row lg (record_replay_set (sr_received_at r) lg)
        (swap_row e (record_replay_set (sr_received_at r) e) (rq_dedup db))\<rparr>)"
| conflicting: "known_request db r q lg
    \<Longrightarrow> \<not> same_request q r \<or> (\<exists>e. seen_as db DedupEvent (sr_event_id r) e \<and> dd_operation_id e \<noteq> q_operation_id q)
    \<Longrightarrow> dd_conflict_count lg < sql_int_max
    \<Longrightarrow> request_effect cr r db (RequestConflictingReuse (record_of q (record_conflict_set (sr_received_at r) lg)))
      (db\<lparr>rq_dedup := swap_row lg (record_conflict_set (sr_received_at r) lg) (rq_dedup db)\<rparr>)"
| stolen: "unseen db DedupRequest (sr_request_identity r) \<Longrightarrow> seen_as db DedupEvent (sr_event_id r) e
    \<Longrightarrow> q \<in> set (rq_requests db) \<Longrightarrow> belongs_to e q \<Longrightarrow> lg \<in> set (rq_dedup db) \<Longrightarrow> entry_of q lg \<Longrightarrow> dd_conflict_count e < sql_int_max
    \<Longrightarrow> request_effect cr r db (RequestConflictingReuse (record_of q lg))
      (db\<lparr>rq_dedup := swap_row e (record_conflict_set (sr_received_at r) e) (rq_dedup db)\<rparr>)"

lemma stored_connection_inv:
  assumes "connection_inv cr db" and "request_insert_legal (n_requests db) q" "client_public_key_new cr (q_client_public_key q) = Inr (q_client_public_key q)"
  shows "connection_inv cr (store_request q db)"
  unfolding store_request_def by (rule connection_effect_inv [OF connection_effect.request [OF assms(2,3)] assms(1)])

lemma request_invI:
  "connection_inv cr (rq_connections db) \<Longrightarrow> dedup_inv cr (rq_requests db) (rq_dedup db) \<Longrightarrow> request_inv cr db"
  by (simp add: request_inv_def)

lemma fresh_inv:
  assumes inv: "request_inv cr db" and ok: "signer_request_ok cr r"
    and new: "unseen db DedupRequest (sr_request_identity r)" "unseen db DedupEvent (sr_event_id r)"
    and legal: "request_insert_legal (rq_requests db) (new_request_row (sha256 cr) r)"
  shows "request_inv cr \<lparr>rq_connections = store_request (new_request_row (sha256 cr) r) (rq_connections db),
        rq_dedup = rq_dedup db @ [request_entry cr r, event_entry (derived_operation_id (sha256 cr) r) r]\<rparr>" (is "request_inv cr ?db")
proof (rule request_invI)
  let ?q = "new_request_row (sha256 cr) r" and ?t = "rq_dedup db" and ?op = "derived_operation_id (sha256 cr) r"
  let ?lg = "request_entry cr r" and ?ev = "event_entry (derived_operation_id (sha256 cr) r) r"
  note O = signer_request_okD [OF ok] and D = dedup_invD [OF request_invD(2) [OF inv]]
  show "connection_inv cr (rq_connections ?db)"
    using stored_connection_inv [OF request_invD(1) [OF inv] legal] O(6) by (simp add: new_request_row_def)
  have q: "nip46_requests_check ?q" "\<And>x. x \<in> set (rq_requests db) \<Longrightarrow> q_operation_id x \<noteq> ?op \<and> q_request_identity_sha256 x \<noteq> sr_request_identity r"
    using legal by (auto simp: request_insert_legal_def list_all_iff new_request_row_def)
  have len: "length (sr_request_identity r) = 32" "length ?op = 32" using q(1) by (simp_all add: nip46_requests_check_def new_request_row_def)
  have old: "dd_operation_id d \<noteq> ?op" if "d \<in> set ?t" for d using D(7) [OF that] q(2) by (auto simp: belongs_to_def)
  have der: "request_derived cr ?q"
    using O(7,8) by (simp add: request_derived_def new_request_row_def derived_operation_id_def derived_correlation_id_def)
  have legal1: "dedup_insert_legal [?q] ?t ?lg" unfolding request_entry_def
    using new(1) O len by (intro new_dedup_legal [where q = ?q]) (auto simp: unseen_def new_request_row_def)
  have legal2: "dedup_insert_legal [?q] (?t @ [?lg]) ?ev" unfolding event_entry_def
    using new(2) O len by (intro new_dedup_legal [where q = ?q]) (auto simp: unseen_def new_request_row_def request_entry_def new_dedup_def dedup_key_def)
  have bel: "belongs_to ?lg ?q" "belongs_to ?ev ?q" "entry_of ?q ?lg" "dedup_key ?ev = (''event'', q_first_event_id ?q)"
    by (simp_all add: belongs_to_def entry_of_def dedup_key_def request_entry_def event_entry_def new_dedup_def new_request_row_def)
  have keys: "distinct (map dedup_key (?t @ [?lg, ?ev]))"
    using D(1) legal1 legal2 by (auto simp: dedup_insert_legal_def list_all_iff dedup_key_def)
  have "distinct (map q_request_identity_sha256 (rq_requests db @ [?q]))"
    using D(2) q(2) by (fastforce simp: new_request_row_def)
  moreover have "nip46_request_dedup_check ?lg" "nip46_request_dedup_check ?ev" using legal1 legal2 by (simp_all add: dedup_insert_legal_def)
  ultimately have "dedup_shape cr (rq_requests db @ [?q]) (?t @ [?lg, ?ev])"
    using keys D(3-7) der bel unfolding dedup_shape_def by (auto simp: event_entry_def new_dedup_def new_request_row_def)
  moreover have "dd_replay_count d + 1 = events_seen (dd_operation_id d) (?t @ [?lg, ?ev])"
    if d: "d \<in> set (?t @ [?lg, ?ev])" "dd_dedup_kind d = ''request''" for d
  proof (cases "d \<in> set ?t")
    case True
    then show ?thesis using D(8) [OF True d(2)] old [OF True]
      by (simp add: sightings_def request_entry_def event_entry_def new_dedup_def)
  next
    case False
    then have "d = ?lg" using d by (auto simp: event_entry_def new_dedup_def)
    moreover have "events_seen ?op ?t = 0" by (rule events_seen_none [OF old])
    ultimately show ?thesis by (simp add: sightings_def request_entry_def event_entry_def new_dedup_def)
  qed
  then have "replays_accounted (?t @ [?lg, ?ev])" unfolding replays_accounted_def by blast
  ultimately show "dedup_inv cr (rq_requests ?db) (rq_dedup ?db)" by (simp add: dedup_inv_def store_request_def)
qed

lemma known_requestD:
  assumes inv: "request_inv cr db" and k: "known_request db r q lg"
  shows "q \<in> set (rq_requests db)" "lg \<in> set (rq_dedup db)" "dedup_key lg = (dedup_kind_as_str DedupRequest, sr_request_identity r)"
    "entry_of q lg" "belongs_to lg q" "dd_dedup_kind lg = ''request''" "nip46_request_dedup_check lg" "dd_operation_id lg = q_operation_id q"
    "q_request_identity_sha256 q = sr_request_identity r"
    "dd_replay_count lg + 1 = events_seen (q_operation_id q) (rq_dedup db)"
proof -
  show *: "q \<in> set (rq_requests db)" "lg \<in> set (rq_dedup db)" "dedup_key lg = (dedup_kind_as_str DedupRequest, sr_request_identity r)" "entry_of q lg"
    using k by (simp_all add: known_request_def seen_as_def)
  show b: "belongs_to lg q" by (rule request_entry_belongs [OF inv *(1,2,4)])
  show r: "dd_dedup_kind lg = ''request''" "dd_operation_id lg = q_operation_id q" "q_request_identity_sha256 q = sr_request_identity r"
    using * b by (auto simp: entry_of_def dedup_key_def belongs_to_def)
  note D = dedup_invD [OF request_invD(2) [OF inv]]
  show "nip46_request_dedup_check lg" by (rule D(6) [OF *(2)])
  show "dd_replay_count lg + 1 = events_seen (q_operation_id q) (rq_dedup db)" using D(8) [OF *(2) r(1)] r(2) by simp
qed

lemma event_replay_bound:
  assumes inv: "request_inv cr db" and k: "known_request db r q lg" and e: "e \<in> set (rq_dedup db)" "dd_dedup_kind e = ''event''"
    "dd_operation_id e = q_operation_id q"
  shows "dd_replay_count e \<le> dd_replay_count lg"
proof -
  note D = dedup_invD [OF request_invD(2) [OF inv]]
  have "\<forall>d\<in>set (rq_dedup db). 0 \<le> dd_replay_count d" using D(6) by (simp add: nip46_request_dedup_check_def)
  from sightings_le [OF this e(1), of "q_operation_id q"] show ?thesis
    using known_requestD(10) [OF inv k] e by (simp add: sightings_def)
qed

text \<open>Only the entry of \<open>q\<close> counts the events of \<open>q\<close>.\<close>

lemma entry_of_operation:
  assumes inv: "request_inv cr db" and k: "known_request db r q lg" and d: "d \<in> set (rq_dedup db)" "dd_dedup_kind d = ''request''"
  shows "dd_operation_id d = q_operation_id q \<longleftrightarrow> d = lg"
proof
  note K = known_requestD [OF inv k]
  show "dd_operation_id d = q_operation_id q \<Longrightarrow> d = lg" using request_entries_eq [OF inv d(1) K(2) d(2) K(6)] K(8) by simp
  show "d = lg \<Longrightarrow> dd_operation_id d = q_operation_id q" using K(8) by simp
qed

lemma carried_inv:
  assumes inv: "request_inv cr db" and ok: "signer_request_ok cr r" and k: "known_request db r q lg" and same: "same_request q r"
    and new: "unseen db DedupEvent (sr_event_id r)" and room: "dd_replay_count lg < sql_int_max"
  shows "dedup_insert_legal (rq_requests db) (rq_dedup db) (event_entry (q_operation_id q) r)"
    and "distinct (map dedup_key (rq_dedup db @ [event_entry (q_operation_id q) r]))"
    and "dedup_inv cr (rq_requests db) (swap_row lg (record_replay_set (sr_received_at r) lg) (rq_dedup db @ [event_entry (q_operation_id q) r]))"
proof -
  let ?t = "rq_dedup db" and ?ev = "event_entry (q_operation_id q) r"
  note O = signer_request_okD [OF ok] and D = dedup_invD [OF request_invD(2) [OF inv]] and K = known_requestD [OF inv k]
  have "length (q_operation_id q) = 32" using request_invD(3) [OF inv K(1)] by (simp add: nip46_requests_check_def)
  then show legal: "dedup_insert_legal (rq_requests db) ?t ?ev"
    unfolding event_entry_def using new O K(1) by (intro new_dedup_legal) (auto simp: unseen_def)
  have bel: "belongs_to ?ev q" using same by (simp add: belongs_to_def event_entry_def new_dedup_def same_request_def)
  have shape: "dedup_shape cr (rq_requests db) (?t @ [?ev])"
    using request_invD(2) [OF inv] by (intro dedup_shape_insert [OF _ legal K(1) bel]) (simp add: dedup_inv_def)
  then show "distinct (map dedup_key (?t @ [?ev]))" by (simp add: dedup_shape_def)
  have check: "nip46_request_dedup_check (record_replay_set (sr_received_at r) lg)"
    using counter_checks(1) [OF K(7) O(2) room] by blast
  have ev: "dd_dedup_kind ?ev = ''event''" "sightings op ?ev = (if op = q_operation_id q then 1 else 0)" for op
    by (auto simp: sightings_def event_entry_def new_dedup_def)
  show "dedup_inv cr (rq_requests db) (swap_row lg (record_replay_set (sr_received_at r) lg) (?t @ [?ev]))"
  proof (rule replay_swap_inv [OF shape _ K(6) check])
    show "lg \<in> set (?t @ [?ev])" using K(2) by simp
    fix d assume d: "d \<in> set (?t @ [?ev])" "dd_dedup_kind d = ''request''"
    then have "d \<in> set ?t" using ev(1) by auto
    then show "events_seen (dd_operation_id d) (?t @ [?ev]) = dd_replay_count d + 1 + (if d = lg then 1 else 0)"
      using D(8) [OF _ d(2)] entry_of_operation [OF inv k _ d(2)] ev(2) by simp
  qed
qed

lemma repeated_inv:
  assumes inv: "request_inv cr db" and ok: "signer_request_ok cr r" and k: "known_request db r q lg"
    and e: "seen_as db DedupEvent (sr_event_id r) e" "dd_operation_id e = q_operation_id q" and room: "dd_replay_count lg < sql_int_max"
  shows "dedup_update_legal e (record_replay_set (sr_received_at r) e)" "dd_replay_count e < sql_int_max"
    and "lg \<in> set (swap_row e (record_replay_set (sr_received_at r) e) (rq_dedup db))"
    and "distinct (map dedup_key (swap_row e (record_replay_set (sr_received_at r) e) (rq_dedup db)))"
    and "dedup_inv cr (rq_requests db) (swap_row lg (record_replay_set (sr_received_at r) lg)
        (swap_row e (record_replay_set (sr_received_at r) e) (rq_dedup db)))"
proof -
  let ?t = "rq_dedup db" and ?e = "record_replay_set (sr_received_at r) e"
  note O = signer_request_okD [OF ok] and D = dedup_invD [OF request_invD(2) [OF inv]] and K = known_requestD [OF inv k]
  have e': "e \<in> set ?t" "dd_dedup_kind e = ''event''" using e(1) by (simp_all add: seen_as_def dedup_key_def)
  show r: "dd_replay_count e < sql_int_max" using event_replay_bound [OF inv k e' e(2)] room by simp
  note E = counter_checks(1) [OF D(6) [OF e'(1)] O(2) r]
  show "dedup_update_legal e ?e" using E by blast
  show lg: "lg \<in> set (swap_row e ?e ?t)" using K(2,6) e'(2) by (auto simp: in_swap_row)
  have shape: "dedup_shape cr (rq_requests db) (swap_row e ?e ?t)"
    using request_invD(2) [OF inv] E by (intro dedup_shape_swap [OF _ e'(1)]) (simp_all add: dedup_inv_def record_replay_set_def dedup_key_def)
  then show "distinct (map dedup_key (swap_row e ?e ?t))" by (simp add: dedup_shape_def)
  have check: "nip46_request_dedup_check (record_replay_set (sr_received_at r) lg)"
    using counter_checks(1) [OF K(7) O(2) room] by blast
  have seen: "events_seen op (swap_row e ?e ?t) = events_seen op ?t + (if op = q_operation_id q then 1 else 0)" for op
    using events_seen_swap [OF D(1) e'(1)] e'(2) e(2) by (auto simp: sightings_def record_replay_set_def)
  show "dedup_inv cr (rq_requests db) (swap_row lg (record_replay_set (sr_received_at r) lg) (swap_row e ?e ?t))"
  proof (rule replay_swap_inv [OF shape lg K(6) check])
    fix d assume d: "d \<in> set (swap_row e ?e ?t)" "dd_dedup_kind d = ''request''"
    then have "d \<in> set ?t" using e'(2) by (auto simp: in_swap_row record_replay_set_def)
    then show "events_seen (dd_operation_id d) (swap_row e ?e ?t) = dd_replay_count d + 1 + (if d = lg then 1 else 0)"
      using D(8) [OF _ d(2)] entry_of_operation [OF inv k _ d(2)] seen by simp
  qed
qed

lemma conflict_inv:
  assumes inv: "request_inv cr db" and ok: "signer_request_ok cr r" and d: "d \<in> set (rq_dedup db)" "dd_conflict_count d < sql_int_max"
  shows "dedup_update_legal d (record_conflict_set (sr_received_at r) d)"
    and "dedup_inv cr (rq_requests db) (swap_row d (record_conflict_set (sr_received_at r) d) (rq_dedup db))"
proof -
  note C = counter_checks(2) [OF dedup_invD(6) [OF request_invD(2) [OF inv] d(1)] signer_request_okD(2) [OF ok] d(2)]
  show "dedup_update_legal d (record_conflict_set (sr_received_at r) d)" using C by blast
  show "dedup_inv cr (rq_requests db) (swap_row d (record_conflict_set (sr_received_at r) d) (rq_dedup db))"
    using C by (intro conflict_swap_inv [OF request_invD(2) [OF inv] d(1)]) blast
qed

lemma request_effect_inv:
  assumes "request_effect cr r db a db'" and inv: "request_inv cr db" and ok: "signer_request_ok cr r"
  shows "request_inv cr db'"
  using assms(1)
proof cases
  case fresh
  then show ?thesis using fresh_inv [OF inv ok] by blast
next
  case (carried q lg)
  then show ?thesis using carried_inv(3) [OF inv ok] request_invD(1) [OF inv] by (simp add: request_inv_def)
next
  case (repeated q lg e)
  then show ?thesis using repeated_inv(5) [OF inv ok] request_invD(1) [OF inv] by (simp add: request_inv_def)
next
  case (conflicting q lg)
  then show ?thesis using conflict_inv(2) [OF inv ok] known_requestD(2) [OF inv] request_invD(1) [OF inv] by (simp add: request_inv_def)
next
  case (stolen e q lg)
  then show ?thesis using conflict_inv(2) [OF inv ok] request_invD(1) [OF inv] by (simp add: request_inv_def seen_as_def)
qed

section \<open>The operation is its effects\<close>

lemma exact_request_record_of:
  assumes "nip46_requests_check q"
  shows "exact_request (record_of q d) r \<longleftrightarrow> same_request q r"
proof -
  obtain m where m: "q_method q = method_as_str m" using requests_check_method [OF assms] by blast
  then have "the (method_parse (q_method q)) = sr_method r \<longleftrightarrow> q_method q = method_as_str (sr_method r)"
    by (simp add: signer_method.parse_as_str signer_method.as_str_inj)
  then show ?thesis by (simp add: exact_request_def record_of_def same_request_def)
qed

lemma read_known:
  assumes inv: "request_inv cr db" and k: "known_request db r q lg"
  shows "read_by_dedup cr db DedupRequest (sr_request_identity r) = Inr (Some (record_of q lg))"
  using known_requestD [OF inv k] by (intro read_by_dedup_Some [OF inv, where selected = lg])

lemma read_unseen: "unseen db kind identity \<Longrightarrow> read_by_dedup cr db kind identity = Inr None"
  by (rule read_by_dedup_None) (simp add: unseen_def)

lemma read_outcome_known:
  assumes "request_inv cr db" "known_request db r q lg"
  shows "read_outcome cr db DedupRequest (sr_request_identity r) f = Inr (f (record_of q lg))"
  using read_known [OF assms] by (simp add: read_outcome_def)

lemma read_seen:
  assumes inv: "request_inv cr db" and e: "seen_as db kind identity e"
  obtains q lg where "q \<in> set (rq_requests db)" "belongs_to e q" "lg \<in> set (rq_dedup db)" "entry_of q lg"
    "read_by_dedup cr db kind identity = Inr (Some (record_of q lg))"
proof -
  have e': "e \<in> set (rq_dedup db)" "dedup_key e = (dedup_kind_as_str kind, identity)" using e by (simp_all add: seen_as_def)
  obtain q lg where "q \<in> set (rq_requests db)" "belongs_to e q" "lg \<in> set (rq_dedup db)" "entry_of q lg"
    using entry_exists [OF inv e'(1)] by metis
  then show ?thesis using that read_by_dedup_Some [OF inv e'] by blast
qed

lemma known_cases:
  assumes inv: "request_inv cr db"
  obtains "unseen db DedupRequest (sr_request_identity r)" | q lg where "known_request db r q lg"
proof (cases "unseen db DedupRequest (sr_request_identity r)")
  case False
  then obtain lg where lg: "seen_as db DedupRequest (sr_request_identity r) lg" by (auto simp: unseen_def seen_as_def)
  then obtain q where q: "q \<in> set (rq_requests db)" "belongs_to lg q" using read_seen [OF inv lg] by metis
  then have "entry_of q lg" using lg by (auto simp: seen_as_def belongs_to_def entry_of_def dedup_key_def)
  then show ?thesis using that(2) lg q by (simp add: known_request_def)
qed (use that(1) in blast)

lemma conflicting_request_eq:
  assumes inv: "request_inv cr db" and ok: "signer_request_ok cr r" and k: "known_request db r q lg"
  shows "conflicting_request cr db r = (if dd_conflict_count lg < sql_int_max
     then Inr (RequestConflictingReuse (record_of q (record_conflict_set (sr_received_at r) lg)),
       db\<lparr>rq_dedup := swap_row lg (record_conflict_set (sr_received_at r) lg) (rq_dedup db)\<rparr>) else Inl Storage)"
proof (cases "dd_conflict_count lg < sql_int_max")
  case True
  let ?lg = "record_conflict_set (sr_received_at r) lg"
  let ?db = "db\<lparr>rq_dedup := swap_row lg ?lg (rq_dedup db)\<rparr>"
  note K = known_requestD [OF inv k] and C = conflict_inv [OF inv ok known_requestD(2) [OF inv k] True]
  have 1: "record_conflict db DedupRequest (sr_request_identity r) (sr_received_at r) = Inr ?db"
    unfolding record_conflict_def
    by (rule update_counter_ready [OF dedup_invD(1) [OF request_invD(2) [OF inv]] K(2,3)]) (use True C(1) in simp_all)
  have "request_inv cr ?db" using C(2) request_invD(1) [OF inv] by (simp add: request_inv_def)
  moreover have "known_request ?db r q ?lg"
    using K by (auto simp: known_request_def seen_as_def in_swap_row record_conflict_set_def dedup_key_def entry_of_def)
  ultimately show ?thesis using 1 True read_outcome_known by (simp add: conflicting_request_def)
next
  case False
  note K = known_requestD [OF inv k]
  have "record_conflict db DedupRequest (sr_request_identity r) (sr_received_at r) = Inl Storage"
    unfolding record_conflict_def
    by (rule update_counter_exhausted [OF dedup_invD(1) [OF request_invD(2) [OF inv]] K(2,3)]) (use False in simp)
  then show ?thesis using False by (simp add: conflicting_request_def)
qed

text \<open>The second half of a replay, on a table where the event is already counted.\<close>

lemma replay_request_eq:
  fixes r :: MycSignerRequest and db :: request_db
  assumes lg: "lg \<in> set t" "dedup_key lg = (dedup_kind_as_str DedupRequest, sr_request_identity r)" "entry_of q lg" "nip46_request_dedup_check lg"
    and q: "q \<in> set (rq_requests db)" and t: "distinct (map dedup_key t)" "sr_received_at r \<le> i64_max"
    and conn: "connection_inv cr (rq_connections db)"
    and inv: "dd_replay_count lg < sql_int_max \<Longrightarrow> dedup_inv cr (rq_requests db) (swap_row lg (record_replay_set (sr_received_at r) lg) t)"
  shows "r_bind (record_replay (db\<lparr>rq_dedup := t\<rparr>) DedupRequest (sr_request_identity r) (sr_received_at r)) (\<lambda>db2.
      r_bind (read_outcome cr db2 DedupRequest (sr_request_identity r) RequestExactReplay) (\<lambda>outcome. Inr (outcome, db2)))
    = (if dd_replay_count lg < sql_int_max
       then Inr (RequestExactReplay (record_of q (record_replay_set (sr_received_at r) lg)),
         db\<lparr>rq_dedup := swap_row lg (record_replay_set (sr_received_at r) lg) t\<rparr>) else Inl Storage)"
proof (cases "dd_replay_count lg < sql_int_max")
  case True
  let ?lg = "record_replay_set (sr_received_at r) lg"
  let ?db = "db\<lparr>rq_dedup := swap_row lg ?lg t\<rparr>"
  have 1: "record_replay (db\<lparr>rq_dedup := t\<rparr>) DedupRequest (sr_request_identity r) (sr_received_at r) = Inr ?db"
    unfolding record_replay_def
    by (subst update_counter_ready [of _ lg]) (use lg t True counter_checks(1) [OF lg(4) t(2) True] in simp_all)
  have "request_inv cr ?db" using inv [OF True] conn by (simp add: request_inv_def)
  moreover have "known_request ?db r q ?lg"
    using lg q by (auto simp: known_request_def seen_as_def in_swap_row record_replay_set_def dedup_key_def entry_of_def)
  ultimately show ?thesis using 1 True read_outcome_known by simp
next
  case False
  have "record_replay (db\<lparr>rq_dedup := t\<rparr>) DedupRequest (sr_request_identity r) (sr_received_at r) = Inl Storage"
    unfolding record_replay_def by (rule update_counter_exhausted [of _ lg]) (use lg t False in simp_all)
  then show ?thesis using False by simp
qed

lemma admit_fresh:
  assumes inv: "request_inv cr db" and ok: "signer_request_ok cr r"
    and new: "unseen db DedupRequest (sr_request_identity r)" "unseen db DedupEvent (sr_event_id r)"
  shows "admit_request cr db r = (if request_insert_legal (rq_requests db) (new_request_row (sha256 cr) r)
     then Inr (RequestAdmitted (record_of (new_request_row (sha256 cr) r) (request_entry cr r)),
       \<lparr>rq_connections = store_request (new_request_row (sha256 cr) r) (rq_connections db),
         rq_dedup = rq_dedup db @ [request_entry cr r, event_entry (derived_operation_id (sha256 cr) r) r]\<rparr>) else Inl Storage)"
proof -
  let ?q = "new_request_row (sha256 cr) r" and ?op = "derived_operation_id (sha256 cr) r"
  let ?lg = "request_entry cr r" and ?ev = "event_entry (derived_operation_id (sha256 cr) r) r"
  let ?db = "\<lparr>rq_connections = store_request ?q (rq_connections db), rq_dedup = rq_dedup db @ [?lg, ?ev]\<rparr>"
  have adm: "admit_request cr db r = insert_new_request cr db r" by (simp add: admit_request_def read_unseen new)
  show ?thesis
  proof (cases "request_insert_legal (rq_requests db) ?q")
    case True
    let ?db1 = "db\<lparr>rq_connections := store_request ?q (rq_connections db)\<rparr>"
    let ?db2 = "?db1\<lparr>rq_dedup := rq_dedup db @ [?lg]\<rparr>"
    note O = signer_request_okD [OF ok] and F = fresh_inv [OF inv ok new True]
    have len: "length (sr_request_identity r) = 32" "length ?op = 32"
      using True by (simp_all add: request_insert_legal_def nip46_requests_check_def new_request_row_def)
    have q: "?q \<in> set (rq_requests ?db1)" "q_operation_id ?q = ?op" by (simp_all add: store_request_def new_request_row_def)
    have 1: "connection_execute_one (insert_request db ?q) = Inr ?db1"
      using True by (simp add: connection_execute_one_def insert_request_def sql_insert_def connection_require_one_def)
    have 2: "insert_dedup ?db1 DedupRequest (sr_request_identity r) (sr_request_digest r) ?op 0 (sr_received_at r) = Inr ?db2"
      unfolding insert_dedup_eq request_entry_def using new(1) new_dedup_legal [OF O(1,2) len(1) O(4) len(2) q] by (simp add: unseen_def)
    have "dedup_insert_legal (rq_requests ?db2) (rq_dedup ?db2) ?ev"
      unfolding event_entry_def using new(2) q
      by (intro new_dedup_legal [OF O(1,2,3,4) len(2), where q = ?q]) (auto simp: unseen_def request_entry_def new_dedup_def dedup_key_def)
    then have 3: "insert_dedup ?db2 DedupEvent (sr_event_id r) (sr_request_digest r) ?op 0 (sr_received_at r) = Inr ?db"
      unfolding insert_dedup_eq by (simp add: event_entry_def)
    have "known_request ?db r ?q ?lg"
      by (simp add: known_request_def seen_as_def store_request_def request_entry_def entry_of_def dedup_key_def new_dedup_def new_request_row_def)
    then have 4: "read_outcome cr ?db DedupRequest (sr_request_identity r) RequestAdmitted = Inr (RequestAdmitted (record_of ?q ?lg))"
      by (rule read_outcome_known [OF F])
    show ?thesis using True unfolding adm insert_new_request_def Let_def 1 r_bind_simps 2 3 4 by simp
  next
    case False
    then show ?thesis unfolding adm
      by (simp add: insert_new_request_def Let_def connection_execute_one_def insert_request_def sql_insert_def)
  qed
qed

lemma admit_carried:
  assumes inv: "request_inv cr db" and ok: "signer_request_ok cr r" and k: "known_request db r q lg" and same: "same_request q r"
    and new: "unseen db DedupEvent (sr_event_id r)"
  shows "admit_request cr db r = (if dd_replay_count lg < sql_int_max
     then Inr (RequestExactReplay (record_of q (record_replay_set (sr_received_at r) lg)),
       db\<lparr>rq_dedup := swap_row lg (record_replay_set (sr_received_at r) lg) (rq_dedup db @ [event_entry (q_operation_id q) r])\<rparr>)
     else Inl Storage)"
proof -
  let ?ev = "event_entry (q_operation_id q) r"
  note O = signer_request_okD [OF ok] and K = known_requestD [OF inv k] and D = dedup_invD [OF request_invD(2) [OF inv]]
  have len: "length (q_operation_id q) = 32" using request_invD(3) [OF inv K(1)] by (simp add: nip46_requests_check_def)
  have legal: "dedup_insert_legal (rq_requests db) (rq_dedup db) ?ev"
    unfolding event_entry_def using new K(1) by (intro new_dedup_legal [OF O(1,2,3,4) len]) (auto simp: unseen_def)
  have keys: "distinct (map dedup_key (rq_dedup db @ [?ev]))" using D(1) legal by (auto simp: dedup_insert_legal_def list_all_iff dedup_key_def)
  have ins: "insert_dedup db DedupEvent (sr_event_id r) (sr_request_digest r) (srr_operation_id (record_of q lg)) 0 (sr_received_at r)
      = Inr (db\<lparr>rq_dedup := rq_dedup db @ [?ev]\<rparr>)"
    using legal unfolding insert_dedup_eq by (simp add: event_entry_def record_of_def)
  have ex: "exact_request (record_of q lg) r" using same exact_request_record_of [OF request_invD(3) [OF inv K(1)]] by simp
  have lg: "lg \<in> set (rq_dedup db @ [?ev])" using K(2) by simp
  note replay_request_eq [OF lg K(3,4,7,1) keys O(2) request_invD(1) [OF inv] carried_inv(3) [OF inv ok k same new]]
  then show ?thesis by (simp add: admit_request_def read_known [OF inv k] read_unseen [OF new] ex Let_def ins)
qed

lemma event_operation:
  assumes inv: "request_inv cr db" and e: "seen_as db DedupEvent ev e"
  obtains x where "read_by_dedup cr db DedupEvent ev = Inr (Some x)" "srr_operation_id x = dd_operation_id e"
  using read_seen [OF inv e] by (metis belongs_to_def MycSignerRequestRecord.select_convs(1) record_of_def)

lemma admit_repeated:
  assumes inv: "request_inv cr db" and ok: "signer_request_ok cr r" and k: "known_request db r q lg" and same: "same_request q r"
    and e: "seen_as db DedupEvent (sr_event_id r) e" "dd_operation_id e = q_operation_id q"
  shows "admit_request cr db r = (if dd_replay_count lg < sql_int_max
     then Inr (RequestExactReplay (record_of q (record_replay_set (sr_received_at r) lg)),
       db\<lparr>rq_dedup := swap_row lg (record_replay_set (sr_received_at r) lg)
         (swap_row e (record_replay_set (sr_received_at r) e) (rq_dedup db))\<rparr>)
     else Inl Storage)"
proof -
  let ?e = "record_replay_set (sr_received_at r) e"
  let ?t = "swap_row e ?e (rq_dedup db)"
  note O = signer_request_okD [OF ok] and K = known_requestD [OF inv k] and D = dedup_invD [OF request_invD(2) [OF inv]]
  have e': "e \<in> set (rq_dedup db)" "dedup_key e = (dedup_kind_as_str DedupEvent, sr_event_id r)" using e(1) by (simp_all add: seen_as_def)
  have ex: "exact_request (record_of q lg) r" using same exact_request_record_of [OF request_invD(3) [OF inv K(1)]] by simp
  obtain x where x: "read_by_dedup cr db DedupEvent (sr_event_id r) = Inr (Some x)" "srr_operation_id x = dd_operation_id e"
    by (rule event_operation [OF inv e(1)])
  have lgs: "lg \<in> set ?t" using K(2,6) e' by (auto simp: in_swap_row dedup_key_def)
  have "dedup_key ?e = dedup_key e" by (simp add: record_replay_set_def dedup_key_def)
  then have keys: "distinct (map dedup_key ?t)" using D(1) swap_row_keys [of dedup_key ?e e "rq_dedup db"] by simp
  have adm: "admit_request cr db r = r_bind (record_replay db DedupEvent (sr_event_id r) (sr_received_at r)) (\<lambda>db1.
      r_bind (record_replay db1 DedupRequest (sr_request_identity r) (sr_received_at r)) (\<lambda>db2.
      r_bind (read_outcome cr db2 DedupRequest (sr_request_identity r) RequestExactReplay) (\<lambda>outcome. Inr (outcome, db2))))"
    using e(2) x(2) by (simp add: admit_request_def read_known [OF inv k] x(1) ex Let_def) (simp add: record_of_def)
  show ?thesis
  proof (cases "dd_replay_count e < sql_int_max")
    case True
    have 1: "record_replay db DedupEvent (sr_event_id r) (sr_received_at r) = Inr (db\<lparr>rq_dedup := ?t\<rparr>)"
      unfolding record_replay_def
      by (rule update_counter_ready [OF D(1) e']) (use True counter_checks(1) [OF D(6) [OF e'(1)] O(2) True] in simp_all)
    note replay_request_eq [OF lgs K(3,4,7,1) keys O(2) request_invD(1) [OF inv] repeated_inv(5) [OF inv ok k e]]
    then show ?thesis unfolding adm 1 r_bind_simps .
  next
    case False
    have "record_replay db DedupEvent (sr_event_id r) (sr_received_at r) = Inl Storage"
      unfolding record_replay_def by (rule update_counter_exhausted [OF D(1) e']) (use False in simp)
    moreover have "\<not> dd_replay_count lg < sql_int_max"
      using event_replay_bound [OF inv k e'(1) _ e(2)] e'(2) False by (simp add: dedup_key_def)
    ultimately show ?thesis unfolding adm by simp
  qed
qed

lemma admit_conflicting:
  assumes inv: "request_inv cr db" and ok: "signer_request_ok cr r" and k: "known_request db r q lg"
    and other: "\<not> same_request q r \<or> (\<exists>e. seen_as db DedupEvent (sr_event_id r) e \<and> dd_operation_id e \<noteq> q_operation_id q)"
  shows "admit_request cr db r = conflicting_request cr db r"
proof -
  note K = known_requestD [OF inv k]
  have ex: "exact_request (record_of q lg) r \<longleftrightarrow> same_request q r"
    by (rule exact_request_record_of [OF request_invD(3) [OF inv K(1)]])
  show ?thesis
  proof (cases "same_request q r")
    case True
    then obtain e where e: "seen_as db DedupEvent (sr_event_id r) e" "dd_operation_id e \<noteq> q_operation_id q" using other by blast
    obtain x where x: "read_by_dedup cr db DedupEvent (sr_event_id r) = Inr (Some x)" "srr_operation_id x = dd_operation_id e"
      by (rule event_operation [OF inv e(1)])
    have "srr_operation_id x \<noteq> srr_operation_id (record_of q lg)" using x(2) e(2) by (simp add: record_of_def)
    then show ?thesis using True ex by (simp add: admit_request_def read_known [OF inv k] x(1) Let_def)
  next
    case False
    obtain found where "read_by_dedup cr db DedupEvent (sr_event_id r) = Inr found"
    proof (cases "unseen db DedupEvent (sr_event_id r)")
      case True
      then show thesis using that read_unseen by blast
    next
      case False
      then obtain e where "seen_as db DedupEvent (sr_event_id r) e" by (auto simp: unseen_def seen_as_def)
      then show thesis using that event_operation [OF inv] by metis
    qed
    then show ?thesis using False ex by (simp add: admit_request_def read_known [OF inv k])
  qed
qed

lemma admit_stolen:
  assumes inv: "request_inv cr db" and ok: "signer_request_ok cr r" and new: "unseen db DedupRequest (sr_request_identity r)"
    and e: "seen_as db DedupEvent (sr_event_id r) e" and q: "q \<in> set (rq_requests db)" "belongs_to e q"
    and lg: "lg \<in> set (rq_dedup db)" "entry_of q lg"
  shows "admit_request cr db r = (if dd_conflict_count e < sql_int_max
     then Inr (RequestConflictingReuse (record_of q lg), db\<lparr>rq_dedup := swap_row e (record_conflict_set (sr_received_at r) e) (rq_dedup db)\<rparr>)
     else Inl Storage)"
proof -
  let ?e = "record_conflict_set (sr_received_at r) e"
  let ?db = "db\<lparr>rq_dedup := swap_row e ?e (rq_dedup db)\<rparr>"
  note D = dedup_invD [OF request_invD(2) [OF inv]]
  have e': "e \<in> set (rq_dedup db)" "dedup_key e = (dedup_kind_as_str DedupEvent, sr_event_id r)" using e by (simp_all add: seen_as_def)
  have adm: "admit_request cr db r = r_bind (record_conflict db DedupEvent (sr_event_id r) (sr_received_at r)) (\<lambda>db1.
      r_bind (read_by_dedup cr db1 DedupEvent (sr_event_id r)) (\<lambda>found.
      r_bind (ok_or Binding found) (\<lambda>found_record. Inr (RequestConflictingReuse found_record, db1))))"
    by (simp add: admit_request_def read_unseen [OF new] read_by_dedup_Some [OF inv e' q lg])
  show ?thesis
  proof (cases "dd_conflict_count e < sql_int_max")
    case True
    note C = conflict_inv [OF inv ok e'(1) True]
    have 1: "record_conflict db DedupEvent (sr_event_id r) (sr_received_at r) = Inr ?db"
      unfolding record_conflict_def by (rule update_counter_ready [OF D(1) e']) (use True C(1) in simp_all)
    have inv': "request_inv cr ?db" using C(2) request_invD(1) [OF inv] by (simp add: request_inv_def)
    have "lg \<noteq> e" using lg(2) e'(2) by (auto simp: entry_of_def)
    then have "read_by_dedup cr ?db DedupEvent (sr_event_id r) = Inr (Some (record_of q lg))"
      using e' q lg by (intro read_by_dedup_Some [OF inv', where selected = ?e])
        (auto simp: in_swap_row record_conflict_set_def dedup_key_def belongs_to_def)
    then show ?thesis using True unfolding adm 1 r_bind_simps by simp
  next
    case False
    have "record_conflict db DedupEvent (sr_event_id r) (sr_received_at r) = Inl Storage"
      unfolding record_conflict_def by (rule update_counter_exhausted [OF D(1) e']) (use False in simp)
    then show ?thesis using False unfolding adm by simp
  qed
qed

lemma admit_request_effect:
  assumes inv: "request_inv cr db" and ok: "signer_request_ok cr r"
  shows "admit_request cr db r = Inr (a, db') \<longleftrightarrow> request_effect cr r db a db'"
proof
  assume eff: "request_effect cr r db a db'"
  then show "admit_request cr db r = Inr (a, db')"
  proof cases
    case fresh
    then show ?thesis using admit_fresh [OF inv ok] by simp
  next
    case (carried q lg)
    then show ?thesis using admit_carried [OF inv ok] by simp
  next
    case (repeated q lg e)
    then show ?thesis using admit_repeated [OF inv ok] by simp
  next
    case (conflicting q lg)
    then show ?thesis using admit_conflicting [OF inv ok conflicting(3,4)] conflicting_request_eq [OF inv ok conflicting(3)] by simp
  next
    case (stolen e q lg)
    then show ?thesis using admit_stolen [OF inv ok] by simp
  qed
next
  assume run: "admit_request cr db r = Inr (a, db')"
  consider (new) "unseen db DedupRequest (sr_request_identity r)" | (known) q lg where "known_request db r q lg"
    using known_cases [OF inv] by metis
  then show "request_effect cr r db a db'"
  proof cases
    case new
    show ?thesis
    proof (cases "unseen db DedupEvent (sr_event_id r)")
      case True
      then show ?thesis using run admit_fresh [OF inv ok new True] request_effect.fresh [OF new True, of cr] by (auto split: if_splits)
    next
      case False
      then obtain e where e: "seen_as db DedupEvent (sr_event_id r) e" by (auto simp: unseen_def seen_as_def)
      then obtain q lg where q: "q \<in> set (rq_requests db)" "belongs_to e q" "lg \<in> set (rq_dedup db)" "entry_of q lg"
        using read_seen [OF inv] by metis
      then show ?thesis using run admit_stolen [OF inv ok new e q] request_effect.stolen [OF new e q, of cr] by (auto split: if_splits)
    qed
  next
    case (known q lg)
    show ?thesis
    proof (cases "\<not> same_request q r \<or> (\<exists>e. seen_as db DedupEvent (sr_event_id r) e \<and> dd_operation_id e \<noteq> q_operation_id q)")
      case True
      then show ?thesis
        using run admit_conflicting [OF inv ok known True] conflicting_request_eq [OF inv ok known] request_effect.conflicting [OF known True, of cr]
        by (auto split: if_splits)
    next
      case False
      then have same: "same_request q r" by blast
      show ?thesis
      proof (cases "unseen db DedupEvent (sr_event_id r)")
        case True
        then show ?thesis using run admit_carried [OF inv ok known same True] request_effect.carried [OF known same True, of cr] by (auto split: if_splits)
      next
        case unseen: False
        then obtain e where e: "seen_as db DedupEvent (sr_event_id r) e" by (auto simp: unseen_def seen_as_def)
        then have "dd_operation_id e = q_operation_id q" using False by blast
        then show ?thesis using run admit_repeated [OF inv ok known same e] request_effect.repeated [OF known same e, of cr] by (auto split: if_splits)
      qed
    qed
  qed
qed

section \<open>The system\<close>

text \<open>
  A step of the request authority is an admission; every other operation of the database leaves the stored requests and
  their entries alone.
\<close>

inductive request_step :: "crates \<Rightarrow> request_db \<Rightarrow> request_db \<Rightarrow> bool" for cr where
  admission: "signer_request_ok cr r \<Longrightarrow> admit_signer_request cr expected db r = Inr (a, db') \<Longrightarrow> request_step cr db db'"
| other: "connection_step cr (rq_connections db) c \<Longrightarrow> n_requests c = rq_requests db \<Longrightarrow> request_step cr db (db\<lparr>rq_connections := c\<rparr>)"

definition request_init :: "request_db \<Rightarrow> bool" where
  "request_init db \<longleftrightarrow> connection_init (rq_connections db) \<and> rq_dedup db = []"

definition request_reachable :: "crates \<Rightarrow> request_db \<Rightarrow> bool" where
  "request_reachable cr db \<longleftrightarrow> (\<exists>db0. request_init db0 \<and> (request_step cr)\<^sup>*\<^sup>* db0 db)"

lemma admit_signer_request_Inr:
  "admit_signer_request cr expected db r = Inr x \<longleftrightarrow>
     governance_verify_metadata (n_gov (rq_connections db)) expected = Inr () \<and> admit_request cr db r = Inr x"
  by (auto simp: admit_signer_request_def r_bind_Inr_iff)

interpretation request: invariant_system request_init "request_step cr" "request_inv cr" for cr
proof
  fix db assume init: "request_init db"
  then have "connection_inv cr (rq_connections db)" using connection.init_inv by (simp add: request_init_def)
  then show "request_inv cr db"
    using init by (simp add: request_inv_def request_init_def connection_init_def dedup_inv_def dedup_shape_def replays_accounted_def)
next
  fix db db' assume inv: "request_inv cr db" and "request_step cr db db'"
  from this(2) show "request_inv cr db'"
  proof cases
    case (admission r expected a)
    then show ?thesis using request_effect_inv [OF _ inv] admit_request_effect [OF inv] admit_signer_request_Inr by blast
  next
    case (other c)
    then show ?thesis using connection.step_inv inv by (auto simp: request_inv_def)
  qed
qed

lemma request_reachable_inv: "request_reachable cr db \<Longrightarrow> request_inv cr db"
  unfolding request_reachable_def using request.reached_inv by blast

text \<open>The connection tables of a run of the request authority are a run of the connection authority.\<close>

lemma request_effect_connections:
  assumes "request_effect cr r db a db'" and "signer_request_ok cr r"
  shows "(connection_step cr)\<^sup>*\<^sup>* (rq_connections db) (rq_connections db')"
  using assms(1)
proof cases
  case fresh
  have "connection_step cr (rq_connections db) (store_request (new_request_row (sha256 cr) r) (rq_connections db))"
    unfolding store_request_def using fresh(5) signer_request_okD(6) [OF assms(2)]
    by (intro connection_step.stored) (simp_all add: new_request_row_def)
  then show ?thesis using fresh(2) by simp
qed simp_all

lemma request_steps_connections:
  assumes "(request_step cr)\<^sup>*\<^sup>* db db'" and "request_inv cr db"
  shows "(connection_step cr)\<^sup>*\<^sup>* (rq_connections db) (rq_connections db')"
proof (rule request.steps_preserve [OF assms, of "\<lambda>u v. (connection_step cr)\<^sup>*\<^sup>* (rq_connections u) (rq_connections v)"])
  fix u v assume inv: "request_inv cr u" and "request_step cr u v"
  from this(2) show "(connection_step cr)\<^sup>*\<^sup>* (rq_connections u) (rq_connections v)"
  proof cases
    case (admission r expected a)
    then show ?thesis using request_effect_connections admit_request_effect [OF inv] admit_signer_request_Inr by blast
  qed auto
qed auto

end
