(* ===== verification/Request_Ledger.thy ===== *)
theory Request_Ledger
  imports Request_Admission
begin

text \<open>
  What the request authority promises: a ledger of the logical requests and the events that were admitted. An admission
  is judged against the ledger alone and enters it; the tables refine it, and it only grows.
\<close>

section \<open>The ledger\<close>

record logical_request =
  lr_operation :: bytes
  lr_client :: string
  lr_request_id :: string
  lr_method :: string
  lr_digest :: bytes

type_synonym ledger = "(bytes \<rightharpoonup> logical_request) \<times> (bytes \<rightharpoonup> bytes)"

datatype verdict = NewRequest | ReplayOf bytes | ConflictWith bytes

definition same_logical :: "logical_request \<Rightarrow> MycSignerRequest \<Rightarrow> bool" where
  "same_logical l r \<longleftrightarrow> lr_client l = sr_client_public_key r \<and> lr_request_id l = sr_request_id r
     \<and> lr_method l = method_as_str (sr_method r) \<and> lr_digest l = sr_request_digest r"

definition judge :: "ledger \<Rightarrow> MycSignerRequest \<Rightarrow> verdict" where
  "judge g r = (case fst g (sr_request_identity r) of
     Some l \<Rightarrow> if same_logical l r \<and> snd g (sr_event_id r) \<in> {None, Some (lr_operation l)} then ReplayOf (lr_operation l)
       else ConflictWith (lr_operation l)
   | None \<Rightarrow> (case snd g (sr_event_id r) of None \<Rightarrow> NewRequest | Some op \<Rightarrow> ConflictWith op))"

definition logical_new :: "(bytes \<Rightarrow> bytes) \<Rightarrow> MycSignerRequest \<Rightarrow> logical_request" where
  "logical_new sha r = \<lparr>lr_operation = derived_operation_id sha r, lr_client = sr_client_public_key r, lr_request_id = sr_request_id r,
     lr_method = method_as_str (sr_method r), lr_digest = sr_request_digest r\<rparr>"

definition enter :: "(bytes \<Rightarrow> bytes) \<Rightarrow> ledger \<Rightarrow> MycSignerRequest \<Rightarrow> ledger" where
  "enter sha g r = (case judge g r of
     NewRequest \<Rightarrow> ((fst g)(sr_request_identity r \<mapsto> logical_new sha r), (snd g)(sr_event_id r \<mapsto> derived_operation_id sha r))
   | ReplayOf op \<Rightarrow> (fst g, (snd g)(sr_event_id r \<mapsto> op))
   | ConflictWith op \<Rightarrow> g)"

fun verdict_of :: "MycSignerRequestAdmission \<Rightarrow> verdict" where
  "verdict_of (RequestAdmitted r) = NewRequest"
| "verdict_of (RequestExactReplay r) = ReplayOf (srr_operation_id r)"
| "verdict_of (RequestConflictingReuse r) = ConflictWith (srr_operation_id r)"

definition logical_of :: "request_row \<Rightarrow> logical_request" where
  "logical_of q = \<lparr>lr_operation = q_operation_id q, lr_client = q_client_public_key q, lr_request_id = q_request_id q,
     lr_method = q_method q, lr_digest = q_request_sha256 q\<rparr>"

definition event_bindings :: "dedup_row list \<Rightarrow> (bytes \<times> bytes) list" where
  "event_bindings t = map (\<lambda>d. (dd_identity_sha256 d, dd_operation_id d)) (filter (\<lambda>d. dd_dedup_kind d = ''event'') t)"

definition ledger_of :: "request_db \<Rightarrow> ledger" where
  "ledger_of db = (map_of (map (\<lambda>q. (q_request_identity_sha256 q, logical_of q)) (rq_requests db)), map_of (event_bindings (rq_dedup db)))"

section \<open>The tables refine the ledger\<close>

lemma event_bindings_swap:
  assumes "dedup_key d' = dedup_key d" "dd_operation_id d' = dd_operation_id d"
  shows "event_bindings (swap_row d d' t) = event_bindings t"
proof -
  have "filter (\<lambda>x. dd_dedup_kind x = ''event'') (swap_row d d' t) = swap_row d d' (filter (\<lambda>x. dd_dedup_kind x = ''event'') t)"
    using assms(1) by (intro filter_swap_row) (simp add: dedup_key_def)
  then show ?thesis
    using assms swap_row_keys [of "\<lambda>d. (dd_identity_sha256 d, dd_operation_id d)" d' d] by (simp add: event_bindings_def dedup_key_def)
qed

lemma event_bindings_append [simp]: "event_bindings (t @ u) = event_bindings t @ event_bindings u"
  "event_bindings [] = []"
  "event_bindings (d # u) = (if dd_dedup_kind d = ''event'' then [(dd_identity_sha256 d, dd_operation_id d)] else []) @ event_bindings u"
  by (simp_all add: event_bindings_def)

lemma counter_set_keeps [simp]:
  "event_bindings (swap_row d (record_replay_set at d) t) = event_bindings t"
  "event_bindings (swap_row d (record_conflict_set at d) t) = event_bindings t"
  by (rule event_bindings_swap, simp_all add: dedup_key_def record_replay_set_def record_conflict_set_def)+

lemma ledger_unseen:
  assumes inv: "request_inv cr db"
  shows "unseen db DedupRequest i \<Longrightarrow> fst (ledger_of db) i = None"
    and "unseen db DedupEvent e \<Longrightarrow> snd (ledger_of db) e = None"
proof -
  note D = dedup_invD [OF request_invD(2) [OF inv]]
  show "fst (ledger_of db) i = None" if "unseen db DedupRequest i"
    using D(4) that by (force simp: ledger_of_def map_of_eq_None_iff unseen_def entry_of_def)
  show "snd (ledger_of db) e = None" if "unseen db DedupEvent e"
    using that by (auto simp: ledger_of_def map_of_eq_None_iff unseen_def event_bindings_def dedup_key_def)
qed

lemma ledger_known:
  assumes inv: "request_inv cr db" and k: "known_request db r q lg"
  shows "fst (ledger_of db) (sr_request_identity r) = Some (logical_of q)"
proof -
  note K = known_requestD [OF inv k] and D = dedup_invD [OF request_invD(2) [OF inv]]
  have "distinct (map fst (map (\<lambda>q. (q_request_identity_sha256 q, logical_of q)) (rq_requests db)))" using D(2) by (simp add: comp_def)
  then show ?thesis using K(1,9) unfolding ledger_of_def fst_conv
    by (intro map_of_is_SomeI) force+
qed

lemma event_keys_distinct: "distinct (map dedup_key t) \<Longrightarrow> distinct (map fst (event_bindings t))"
  by (induction t) (auto simp: event_bindings_def dedup_key_def image_iff)

lemma ledger_seen:
  assumes inv: "request_inv cr db" and e: "seen_as db DedupEvent i e"
  shows "snd (ledger_of db) i = Some (dd_operation_id e)"
proof -
  have "(i, dd_operation_id e) \<in> set (event_bindings (rq_dedup db))"
    using e by (force simp: seen_as_def event_bindings_def dedup_key_def)
  then show ?thesis unfolding ledger_of_def snd_conv
    using event_keys_distinct [OF dedup_invD(1) [OF request_invD(2) [OF inv]]] by (intro map_of_is_SomeI)
qed

lemma same_logical_of: "same_logical (logical_of q) r \<longleftrightarrow> same_request q r"
  by (simp add: same_logical_def logical_of_def same_request_def)

lemma logical_of_operation: "lr_operation (logical_of q) = q_operation_id q"
  by (simp add: logical_of_def)

lemma ledger_fold: "ledger_of db' = (fst (ledger_of db), snd (ledger_of db))"
  if "rq_requests db' = rq_requests db" "event_bindings (rq_dedup db') = event_bindings (rq_dedup db)"
  using that by (simp add: ledger_of_def)

lemma effect_refines:
  assumes eff: "request_effect cr r db a db'" and inv: "request_inv cr db"
  shows "verdict_of a = judge (ledger_of db) r" "ledger_of db' = enter (sha256 cr) (ledger_of db) r"
proof -
  have "verdict_of a = judge (ledger_of db) r \<and> ledger_of db' = enter (sha256 cr) (ledger_of db) r"
    using eff
  proof cases
    case fresh
    note U = ledger_unseen(1) [OF inv fresh(3)] ledger_unseen(2) [OF inv fresh(4)]
    have J: "judge (ledger_of db) r = NewRequest" using U by (simp add: judge_def)
    have "logical_of (new_request_row (sha256 cr) r) = logical_new (sha256 cr) r"
      by (simp add: logical_of_def logical_new_def new_request_row_def)
    then have "ledger_of db' = enter (sha256 cr) (ledger_of db) r"
      using U fresh(2) unfolding enter_def J
      by (simp add: ledger_of_def store_request_def request_entry_def event_entry_def new_dedup_def map_add_def fun_eq_iff new_request_row_def
        split: option.splits)
    then show ?thesis using J fresh(1) by simp
  next
    case (carried q lg)
    note L = ledger_known [OF inv carried(3)] ledger_unseen(2) [OF inv carried(5)]
    have J: "judge (ledger_of db) r = ReplayOf (q_operation_id q)"
      using L carried(4) by (simp add: judge_def same_logical_of logical_of_operation)
    have "ledger_of db' = enter (sha256 cr) (ledger_of db) r"
      using L(2) carried(2) unfolding enter_def J
      by (simp add: ledger_of_def event_entry_def new_dedup_def map_add_def fun_eq_iff split: option.splits)
    then show ?thesis using J carried(1) by (simp add: record_of_def)
  next
    case (repeated q lg e)
    note L = ledger_known [OF inv repeated(3)] ledger_seen [OF inv repeated(5)]
    have J: "judge (ledger_of db) r = ReplayOf (q_operation_id q)"
      using L repeated(4,6) by (simp add: judge_def same_logical_of logical_of_operation)
    have "ledger_of db' = (fst (ledger_of db), snd (ledger_of db))" unfolding repeated(2) by (rule ledger_fold) simp_all
    then have "ledger_of db' = enter (sha256 cr) (ledger_of db) r"
      using L(2) repeated(6) unfolding enter_def J by (auto simp: fun_upd_idem)
    then show ?thesis using J repeated(1) by (simp add: record_of_def)
  next
    case (conflicting q lg)
    note L = ledger_known [OF inv conflicting(3)]
    have "snd (ledger_of db) (sr_event_id r) \<notin> {None, Some (q_operation_id q)}" if "same_request q r"
      using that conflicting(4) ledger_seen [OF inv] by auto
    then have J: "judge (ledger_of db) r = ConflictWith (q_operation_id q)"
      using L by (auto simp: judge_def same_logical_of logical_of_operation)
    have "ledger_of db' = (fst (ledger_of db), snd (ledger_of db))" unfolding conflicting(2) by (rule ledger_fold) simp_all
    then show ?thesis using J conflicting(1) by (simp add: enter_def record_of_def)
  next
    case (stolen e q lg)
    have J: "judge (ledger_of db) r = ConflictWith (q_operation_id q)"
      using ledger_unseen(1) [OF inv stolen(3)] ledger_seen [OF inv stolen(4)] stolen(6) by (simp add: judge_def belongs_to_def)
    have "ledger_of db' = (fst (ledger_of db), snd (ledger_of db))" unfolding stolen(2) by (rule ledger_fold) simp_all
    then show ?thesis using J stolen(1) by (simp add: enter_def record_of_def)
  qed
  then show "verdict_of a = judge (ledger_of db) r" "ledger_of db' = enter (sha256 cr) (ledger_of db) r" by blast+
qed

section \<open>The ledger along a run\<close>

definition ledger_extends :: "request_db \<Rightarrow> request_db \<Rightarrow> bool" where
  "ledger_extends u v \<longleftrightarrow> set (rq_requests u) \<subseteq> set (rq_requests v)
     \<and> fst (ledger_of u) \<subseteq>\<^sub>m fst (ledger_of v) \<and> snd (ledger_of u) \<subseteq>\<^sub>m snd (ledger_of v)"

lemma enter_extends: "fst g \<subseteq>\<^sub>m fst (enter sha g r) \<and> snd g \<subseteq>\<^sub>m snd (enter sha g r)"
proof (cases "judge g r")
  case NewRequest
  then have "fst g (sr_request_identity r) = None" "snd g (sr_event_id r) = None"
    by (auto simp: judge_def split: option.splits if_splits)
  then show ?thesis using NewRequest by (auto simp: enter_def map_le_def)
next
  case (ReplayOf op)
  then have "snd g (sr_event_id r) \<in> {None, Some op}" by (auto simp: judge_def split: option.splits if_splits)
  then show ?thesis using ReplayOf by (auto simp: enter_def map_le_def)
next
  case (ConflictWith op)
  then show ?thesis by (simp add: enter_def)
qed

lemma effect_extends:
  assumes "request_effect cr r db a db'" "request_inv cr db"
  shows "ledger_extends db db'"
proof -
  have "set (rq_requests db) \<subseteq> set (rq_requests db')" using assms(1) by cases (auto simp: store_request_def)
  then show ?thesis using effect_refines(2) [OF assms] enter_extends unfolding ledger_extends_def by metis
qed

lemma run_extends:
  assumes "(request_step cr)\<^sup>*\<^sup>* db db'" and "request_inv cr db"
  shows "ledger_extends db db'"
proof (rule request.steps_preserve [OF assms, of ledger_extends])
  fix u v assume inv: "request_inv cr u" and "request_step cr u v"
  from this(2) show "ledger_extends u v"
  proof cases
    case (admission r expected a)
    then show ?thesis using effect_extends [OF _ inv] admit_request_effect [OF inv] admit_signer_request_Inr by blast
  next
    case (other c)
    then show ?thesis by (simp add: ledger_extends_def ledger_of_def)
  qed
qed (auto simp: ledger_extends_def intro: map_le_trans)

lemma effect_record:
  assumes "request_effect cr r db a db'" "request_inv cr db"
  obtains q lg where "q \<in> set (rq_requests db')" "request_admission_record a = record_of q lg" "srr_operation_id (request_admission_record a) = q_operation_id q"
  using assms(1)
proof cases
  case fresh
  then show ?thesis by (intro that [of "new_request_row (sha256 cr) r"]) (simp_all add: store_request_def record_of_def)
next
  case (carried q lg)
  then show ?thesis using known_requestD(1) [OF assms(2)] by (intro that [of q]) (simp_all add: record_of_def)
next
  case (repeated q lg e)
  then show ?thesis using known_requestD(1) [OF assms(2)] by (intro that [of q]) (simp_all add: record_of_def)
next
  case (conflicting q lg)
  then show ?thesis using known_requestD(1) [OF assms(2)] by (intro that [of q]) (simp_all add: record_of_def)
next
  case (stolen e q lg)
  then show ?thesis by (intro that [of q]) (simp_all add: record_of_def)
qed

text \<open>What an accepted request leaves in the ledger.\<close>

lemma accepted_entered:
  assumes eff: "request_effect cr r db a db'" and inv: "request_inv cr db" and a: "a = RequestAdmitted rec \<or> a = RequestExactReplay rec"
  shows "\<exists>l. fst (ledger_of db') (sr_request_identity r) = Some l \<and> snd (ledger_of db') (sr_event_id r) = Some (lr_operation l)
    \<and> same_logical l r \<and> lr_operation l = srr_operation_id rec"
proof -
  note R = effect_refines [OF eff inv]
  show ?thesis
  proof (cases "a = RequestAdmitted rec")
    case True
    then have J: "judge (ledger_of db) r = NewRequest" using R(1) by simp
    have "srr_operation_id rec = derived_operation_id (sha256 cr) r"
      using eff True by cases (auto simp: record_of_def new_request_row_def)
    then show ?thesis unfolding R(2) enter_def J by (simp add: logical_new_def same_logical_def)
  next
    case False
    then have J: "judge (ledger_of db) r = ReplayOf (srr_operation_id rec)" using R(1) a by simp
    then show ?thesis unfolding R(2) enter_def by (auto simp: judge_def split: option.splits if_splits)
  qed
qed

lemma client_key_hex:
  assumes "client_public_key_new cr k = Inr k"
  shows "length k = 64 \<and> lower_hex k"
proof -
  have "is_ascii_digit c \<or> (CHR ''a'' \<le> c \<and> c \<le> CHR ''f'')" if "is_ascii_hexdigit c" "\<not> is_ascii_uppercase c" for c
    using that by (auto simp: is_ascii_hexdigit_def is_ascii_uppercase_def less_eq_char_def)
  then show ?thesis using assms by (auto simp: client_public_key_new_def lower_hex_def list_all_iff list_ex_iff split: if_splits)
qed

lemma new_request_legal:
  assumes inv: "request_inv cr db" and ok: "signer_request_ok cr r" and new: "unseen db DedupRequest (sr_request_identity r)"
    and hash: "\<And>x. length (sha256 cr x) = 32"
    and fresh: "\<And>q. q \<in> set (rq_requests db) \<Longrightarrow> q_request_identity_sha256 q \<noteq> sr_request_identity r \<Longrightarrow>
      q_operation_id q \<noteq> derived_operation_id (sha256 cr) r \<and> q_correlation_id q \<noteq> derived_correlation_id (sha256 cr) r"
  shows "request_insert_legal (rq_requests db) (new_request_row (sha256 cr) r)"
proof -
  note O = signer_request_okD [OF ok]
  have "q_request_identity_sha256 q \<noteq> sr_request_identity r" if "q \<in> set (rq_requests db)" for q
    using dedup_invD(4) [OF request_invD(2) [OF inv] that] new by (auto simp: unseen_def entry_of_def)
  moreover have "length (sr_client_public_key r) = 64 \<and> lower_hex (sr_client_public_key r)"
    using O(6) client_key_hex by blast
  moreover have "1 \<le> length (sr_request_id r) \<and> length (sr_request_id r) \<le> 128" using request_id_new_Inr [OF O(7)] by simp
  moreover have "method_as_str m \<in> {''connect'', ''get_public_key'', ''get_session_capability'', ''sign_event'', ''nip04_encrypt'',
         ''nip04_decrypt'', ''nip44_encrypt'', ''nip44_decrypt'', ''ping'', ''switch_relays'', ''logout''}" for m by (cases m) simp_all
  ultimately show ?thesis
    using fresh O hash unfolding request_insert_legal_def nip46_requests_check_def new_request_row_def list_all_iff
    by (auto simp: derived_operation_id_def derive_operation_id_def derived_correlation_id_def derive_digest_def derive_request_identity_def
      sql_time_def int_width_defs)
qed

lemma known_admitted:
  assumes inv: "request_inv cr db" and ok: "signer_request_ok cr r" and k: "known_request db r q lg"
    and room: "dd_replay_count lg < sql_int_max" "dd_conflict_count lg < sql_int_max"
  shows "\<exists>a db'. admit_request cr db r = Inr (a, db')"
proof (cases "\<not> same_request q r \<or> (\<exists>e. seen_as db DedupEvent (sr_event_id r) e \<and> dd_operation_id e \<noteq> q_operation_id q)")
  case True
  then show ?thesis using admit_conflicting [OF inv ok k True] conflicting_request_eq [OF inv ok k] room by simp
next
  case False
  show ?thesis
  proof (cases "unseen db DedupEvent (sr_event_id r)")
    case True
    then show ?thesis using admit_carried [OF inv ok k _ True] False room by simp
  next
    case unseen: False
    then obtain e where e: "seen_as db DedupEvent (sr_event_id r) e" by (auto simp: unseen_def seen_as_def)
    then show ?thesis using admit_repeated [OF inv ok k _ e] False room by auto
  qed
qed

end
