(* ===== verification/Request_Theorems.thy ===== *)
theory Request_Theorems
  imports Request_Ledger Connection_Example
begin

text \<open>
  The properties of the request authority, and a concrete admission with its replay for their witnesses.
\<close>

section \<open>A concrete admission\<close>

definition rx_request :: "byte \<Rightarrow> byte \<Rightarrow> nat \<Rightarrow> MycSignerRequest" where
  "rx_request event nonce at = signer_request_new cx_sha cx_key ''id'' (cx_id event) MethodSignEvent (cx_id 77) (cx_id nonce) at"

definition rx_db0 :: request_db where "rx_db0 = \<lparr>rq_connections = cx_db0, rq_dedup = []\<rparr>"

definition rx_row :: request_row where "rx_row = new_request_row cx_sha (rx_request 1 2 1000)"

definition rx_db1 :: request_db where
  "rx_db1 = \<lparr>rq_connections = store_request rx_row cx_db0,
     rq_dedup = [request_entry cx_crates (rx_request 1 2 1000), event_entry (derived_operation_id cx_sha (rx_request 1 2 1000)) (rx_request 1 2 1000)]\<rparr>"

lemma rx_request_ok: "1 \<le> at \<Longrightarrow> at \<le> i64_max \<Longrightarrow> signer_request_ok cx_crates (rx_request event nonce at)"
  by (simp add: signer_request_ok_def rx_request_def signer_request_new_def received_at_new_Inr request_id_new_def str_chars_def
    MYC_NIP46_REQUEST_ID_MAX_UTF8_BYTES_def trim_chars_def char_is_whitespace_def char_is_control_def)

lemma rx_init: "request_init rx_db0"
  by (simp add: request_init_def rx_db0_def connection_init_def cx_db0_def governance_init_def cx_g0_def)

lemma rx_inv0: "request_inv cx_crates rx_db0"
  by (rule request.init_inv [OF rx_init])

lemma rx_request_fields: "sr_request_identity (rx_request event nonce at) = cx_id 121" "sr_event_id (rx_request event nonce at) = cx_id event"
  "derived_operation_id cx_sha (rx_request event nonce at) = cx_id 96" "derived_correlation_id cx_sha (rx_request event nonce at) = cx_id 66"
  "sr_received_at (rx_request event nonce at) = at" "sr_request_digest (rx_request event nonce at) = cx_id 77"
  by (simp_all add: rx_request_def signer_request_new_def derived_operation_id_def derived_correlation_id_def derive_operation_id_def derive_digest_def
    derive_request_identity_def length_prefixed_def cx_sha_def cx_key_def str_bytes_def REQUEST_IDENTITY_DOMAIN_def OPERATION_ID_DOMAIN_def
    CORRELATION_ID_DOMAIN_def)

lemma rx_row_fields: "q_operation_id rx_row = cx_id 96" "q_request_identity_sha256 rx_row = cx_id 121" "q_request_sha256 rx_row = cx_id 77"
  "q_first_event_id rx_row = cx_id 1" "q_correlation_id rx_row = cx_id 66"
  by (simp_all add: rx_row_def new_request_row_def rx_request_fields)

lemma rx_fresh: "request_effect cx_crates (rx_request 1 2 1000) rx_db0
    (RequestAdmitted (record_of rx_row (request_entry cx_crates (rx_request 1 2 1000)))) rx_db1"
proof -
  have row: "nip46_requests_check rx_row"
    by (simp add: nip46_requests_check_def rx_row_def new_request_row_def rx_request_fields sql_time_def)
      (simp add: rx_request_def signer_request_new_def)
  have "request_effect cx_crates (rx_request 1 2 1000) rx_db0
      (RequestAdmitted (record_of (new_request_row (sha256 cx_crates) (rx_request 1 2 1000)) (request_entry cx_crates (rx_request 1 2 1000))))
      \<lparr>rq_connections = store_request (new_request_row (sha256 cx_crates) (rx_request 1 2 1000)) (rq_connections rx_db0),
        rq_dedup = rq_dedup rx_db0 @ [request_entry cx_crates (rx_request 1 2 1000),
          event_entry (derived_operation_id (sha256 cx_crates) (rx_request 1 2 1000)) (rx_request 1 2 1000)]\<rparr>"
    by (rule request_effect.fresh)
      (use row in \<open>simp_all add: unseen_def rx_db0_def cx_db0_def request_insert_legal_def rx_row_def\<close>)
  then show ?thesis by (simp add: rx_db1_def rx_row_def rx_db0_def)
qed

lemma rx_verify: "governance_verify_metadata (n_gov (rq_connections rx_db0)) cx_metadata = Inr ()"
    "governance_verify_metadata (n_gov (rq_connections rx_db1)) cx_metadata = Inr ()"
  by (rule cx_verify, simp add: rx_db0_def rx_db1_def cx_db0_def store_request_def cx_g0_def)+

lemma rx_admitted: "admit_signer_request cx_crates cx_metadata rx_db0 (rx_request 1 2 1000)
    = Inr (RequestAdmitted (record_of rx_row (request_entry cx_crates (rx_request 1 2 1000))), rx_db1)"
  using admit_request_effect [OF rx_inv0 rx_request_ok] rx_fresh rx_verify(1) by (simp add: admit_signer_request_Inr int_width_defs)

lemma rx_reach: "request_reachable cx_crates rx_db0" "request_reachable cx_crates rx_db1"
proof -
  show "request_reachable cx_crates rx_db0" using rx_init unfolding request_reachable_def by blast
  have "request_step cx_crates rx_db0 rx_db1"
    by (rule request_step.admission [OF rx_request_ok rx_admitted]) (simp_all add: int_width_defs)
  then show "request_reachable cx_crates rx_db1" using rx_init unfolding request_reachable_def by blast
qed

text \<open>The same request in another signed event, with another nonce.\<close>

lemma rx_known: "known_request rx_db1 (rx_request event nonce at) rx_row (request_entry cx_crates (rx_request 1 2 1000))"
  by (simp add: known_request_def seen_as_def rx_db1_def store_request_def entry_of_def dedup_key_def request_entry_def new_dedup_def
    rx_request_fields rx_row_fields)

lemma rx_same: "same_request rx_row (rx_request event nonce at)"
  by (simp add: same_request_def rx_row_def new_request_row_def rx_request_def signer_request_new_def)

lemma rx_carried: "admit_signer_request cx_crates cx_metadata rx_db1 (rx_request 3 4 2000)
    = Inr (RequestExactReplay (record_of rx_row (record_replay_set 2000 (request_entry cx_crates (rx_request 1 2 1000)))),
        rx_db1\<lparr>rq_dedup := swap_row (request_entry cx_crates (rx_request 1 2 1000)) (record_replay_set 2000 (request_entry cx_crates (rx_request 1 2 1000)))
          (rq_dedup rx_db1 @ [event_entry (cx_id 96) (rx_request 3 4 2000)])\<rparr>)"
proof -
  have new: "unseen rx_db1 DedupEvent (sr_event_id (rx_request 3 4 2000))"
    by (simp add: unseen_def rx_db1_def dedup_key_def request_entry_def event_entry_def new_dedup_def rx_request_fields)
  have room: "dd_replay_count (request_entry cx_crates (rx_request 1 2 1000)) < sql_int_max" by (simp add: request_entry_def new_dedup_def)
  show ?thesis
    using admit_request_effect [OF request_reachable_inv [OF rx_reach(2)] rx_request_ok, of 2000 3 4]
      request_effect.carried [OF rx_known rx_same new room] rx_verify(2)
    by (simp add: admit_signer_request_Inr int_width_defs rx_request_fields rx_row_fields)
qed

section \<open>Properties\<close>

text \<open>
  C34. In every reachable state each stored request carries the identities its content derives, has exactly one entry for
  its logical identity and an entry for its first event; every entry belongs to a stored request and repeats its digest;
  the replays counted for a request are the sightings of its events after the first; and the connection tables are
  reachable in the connection authority.
\<close>

theorem request_invariant:
  assumes "request_reachable cr db"
  shows "connection_reachable cr (rq_connections db)
    \<and> (\<forall>q\<in>set (rq_requests db).
        q_request_identity_sha256 q = derive_request_identity (sha256 cr) (q_client_public_key q) (q_request_id q)
        \<and> q_operation_id q = derive_operation_id (sha256 cr) (q_request_identity_sha256 q) (q_operation_nonce q)
        \<and> (\<exists>!d. d \<in> set (rq_dedup db) \<and> entry_of q d)
        \<and> (\<exists>d\<in>set (rq_dedup db). dedup_key d = (''event'', q_first_event_id q) \<and> dd_operation_id d = q_operation_id q))
    \<and> (\<forall>d\<in>set (rq_dedup db). \<exists>q\<in>set (rq_requests db). belongs_to d q
        \<and> (dd_dedup_kind d = ''request'' \<longrightarrow> dd_replay_count d + 1 = events_seen (q_operation_id q) (rq_dedup db)))"
proof (intro conjI ballI)
  have inv: "request_inv cr db" by (rule request_reachable_inv [OF assms])
  note D = dedup_invD [OF request_invD(2) [OF inv]]
  obtain db0 where db0: "request_init db0" "(request_step cr)\<^sup>*\<^sup>* db0 db" using assms by (auto simp: request_reachable_def)
  have "connection_init (rq_connections db0)" using db0(1) by (simp add: request_init_def)
  then show "connection_reachable cr (rq_connections db)"
    using request_steps_connections [OF db0(2) request.init_inv [OF db0(1)]] unfolding connection_reachable_def by blast
  fix q assume q: "q \<in> set (rq_requests db)"
  show "\<exists>!d. d \<in> set (rq_dedup db) \<and> entry_of q d"
    using D(4) [OF q] unique_by_key [OF D(1)] unfolding entry_of_def by metis
  show "\<exists>d\<in>set (rq_dedup db). dedup_key d = (''event'', q_first_event_id q) \<and> dd_operation_id d = q_operation_id q" by (rule D(5) [OF q])
  show "q_request_identity_sha256 q = derive_request_identity (sha256 cr) (q_client_public_key q) (q_request_id q)"
    "q_operation_id q = derive_operation_id (sha256 cr) (q_request_identity_sha256 q) (q_operation_nonce q)"
    using D(3) [OF q] unfolding request_derived_def by blast+
next
  fix d assume d: "d \<in> set (rq_dedup db)"
  note D = dedup_invD [OF request_invD(2) [OF request_reachable_inv [OF assms]]]
  obtain q where q: "q \<in> set (rq_requests db)" "belongs_to d q" using D(7) [OF d] by blast
  then show "\<exists>q\<in>set (rq_requests db). belongs_to d q
      \<and> (dd_dedup_kind d = ''request'' \<longrightarrow> dd_replay_count d + 1 = events_seen (q_operation_id q) (rq_dedup db))"
    using D(8) [OF d] by (intro bexI [OF _ q(1)]) (simp add: belongs_to_def)
qed

theorem request_invariant_witness:
  "connection_reachable cx_crates (rq_connections rx_db1) \<and> rx_row \<in> set (rq_requests rx_db1)
   \<and> (\<exists>!d. d \<in> set (rq_dedup rx_db1) \<and> entry_of rx_row d)"
proof -
  have "rx_row \<in> set (rq_requests rx_db1)" by (simp add: rx_db1_def store_request_def)
  then show ?thesis using request_invariant [OF rx_reach(2)] by blast
qed

text \<open>
  C35. Admission refines the ledger: in every reachable state a request that is admitted is answered as the ledger of
  logical requests and events judges it, and leaves the tables that represent the ledger with the request entered.
\<close>

theorem admission_refines_ledger:
  assumes "request_reachable cr db" and "signer_request_ok cr r" and "admit_signer_request cr expected db r = Inr (a, db')"
  shows "verdict_of a = judge (ledger_of db) r \<and> ledger_of db' = enter (sha256 cr) (ledger_of db) r"
proof -
  have inv: "request_inv cr db" by (rule request_reachable_inv [OF assms(1)])
  have "request_effect cr r db a db'" using assms(3) admit_request_effect [OF inv assms(2)] by (simp add: admit_signer_request_Inr)
  then show ?thesis using effect_refines [OF _ inv] by blast
qed

theorem admission_refines_ledger_witness:
  "judge (ledger_of rx_db1) (rx_request 3 4 2000) = ReplayOf (cx_id 96)"
  using admission_refines_ledger [OF rx_reach(2) rx_request_ok rx_carried]
  by (simp add: record_of_def rx_row_fields int_width_defs)

text \<open>
  C36. An admission is decided: in a reachable state whose binding is the expected one, every valid request is answered,
  if the hash gives 32 bytes, no other request holds the identifiers derived for a new one, and no counter is exhausted.
\<close>

theorem request_admission_decided:
  assumes reach: "request_reachable cr db" and ok: "signer_request_ok cr r"
    and binding: "governance_verify_metadata (n_gov (rq_connections db)) expected = Inr ()"
    and hash: "\<And>x. length (sha256 cr x) = 32"
    and fresh: "\<And>q. q \<in> set (rq_requests db) \<Longrightarrow> q_request_identity_sha256 q \<noteq> sr_request_identity r \<Longrightarrow>
      q_operation_id q \<noteq> derived_operation_id (sha256 cr) r \<and> q_correlation_id q \<noteq> derived_correlation_id (sha256 cr) r"
    and room: "\<And>d. d \<in> set (rq_dedup db) \<Longrightarrow> dd_replay_count d < sql_int_max \<and> dd_conflict_count d < sql_int_max"
  shows "\<exists>a db'. admit_signer_request cr expected db r = Inr (a, db')"
proof -
  have inv: "request_inv cr db" by (rule request_reachable_inv [OF reach])
  have "\<exists>a db'. admit_request cr db r = Inr (a, db')"
  proof (rule known_cases [OF inv, of r])
    assume new: "unseen db DedupRequest (sr_request_identity r)"
    show ?thesis
    proof (cases "unseen db DedupEvent (sr_event_id r)")
      case True
      have "request_insert_legal (rq_requests db) (new_request_row (sha256 cr) r)"
        by (rule new_request_legal [OF inv ok new hash fresh])
      then show ?thesis using admit_fresh [OF inv ok new True] by simp
    next
      case False
      then obtain e where e: "seen_as db DedupEvent (sr_event_id r) e" by (auto simp: unseen_def seen_as_def)
      then obtain q lg where q: "q \<in> set (rq_requests db)" "belongs_to e q" "lg \<in> set (rq_dedup db)" "entry_of q lg"
        using read_seen [OF inv] by metis
      have "dd_conflict_count e < sql_int_max" using room e by (simp add: seen_as_def)
      then show ?thesis using admit_stolen [OF inv ok new e q] by simp
    qed
  next
    fix q lg assume k: "known_request db r q lg"
    have lg: "dd_replay_count lg < sql_int_max" "dd_conflict_count lg < sql_int_max" using room [OF known_requestD(2) [OF inv k]] by blast+
    show ?thesis using known_admitted [OF inv ok k lg] .
  qed
  then show ?thesis using binding by (simp add: admit_signer_request_Inr)
qed

theorem request_admission_decided_witness:
  "\<exists>a db'. admit_signer_request cx_crates cx_metadata rx_db1 (rx_request 1 5 3000) = Inr (a, db')"
proof (rule request_admission_decided [OF rx_reach(2) rx_request_ok rx_verify(2)])
  show "q_operation_id q \<noteq> derived_operation_id (sha256 cx_crates) (rx_request 1 5 3000)
      \<and> q_correlation_id q \<noteq> derived_correlation_id (sha256 cx_crates) (rx_request 1 5 3000)"
    if "q \<in> set (rq_requests rx_db1)" "q_request_identity_sha256 q \<noteq> sr_request_identity (rx_request 1 5 3000)" for q
    using that by (simp add: rx_db1_def store_request_def cx_db0_def rx_request_fields rx_row_fields)
  show "dd_replay_count d < sql_int_max \<and> dd_conflict_count d < sql_int_max" if "d \<in> set (rq_dedup rx_db1)" for d
    using that by (auto simp: rx_db1_def request_entry_def event_entry_def new_dedup_def)
qed (simp_all add: int_width_defs)

text \<open>
  C37. A request is one operation for ever: once an admission has accepted a request or recognised its replay, any later
  admission of the same request in the same event, after any run, whatever its nonce and time, that returns is an exact
  replay of the same operation, with the same correlation, first event, method and time of receipt.
\<close>

theorem replay_keeps_operation:
  assumes "request_reachable cr db" and "signer_request_ok cr r" and "admit_signer_request cr expected db r = Inr (a, db1)"
    and "a = RequestAdmitted rec \<or> a = RequestExactReplay rec"
    and "(request_step cr)\<^sup>*\<^sup>* db1 db2" and "signer_request_ok cr r'"
    and "sr_client_public_key r' = sr_client_public_key r" "sr_request_id r' = sr_request_id r" "sr_event_id r' = sr_event_id r"
      "sr_method r' = sr_method r" "sr_request_digest r' = sr_request_digest r"
    and "admit_signer_request cr expected' db2 r' = Inr (b, db3)"
  shows "\<exists>rec'. b = RequestExactReplay rec' \<and> srr_operation_id rec' = srr_operation_id rec
    \<and> srr_correlation_id rec' = srr_correlation_id rec \<and> srr_first_event_id rec' = srr_first_event_id rec
    \<and> srr_method rec' = srr_method rec \<and> srr_received_at rec' = srr_received_at rec"
proof -
  have inv: "request_inv cr db" by (rule request_reachable_inv [OF assms(1)])
  have eff: "request_effect cr r db a db1" using assms(3) admit_request_effect [OF inv assms(2)] by (simp add: admit_signer_request_Inr)
  have inv1: "request_inv cr db1" by (rule request_effect_inv [OF eff inv assms(2)])
  have inv2: "request_inv cr db2" by (rule request.steps_inv [OF assms(5) inv1])
  have eff2: "request_effect cr r' db2 b db3" using assms(12) admit_request_effect [OF inv2 assms(6)] by (simp add: admit_signer_request_Inr)
  obtain l where l: "fst (ledger_of db1) (sr_request_identity r) = Some l" "snd (ledger_of db1) (sr_event_id r) = Some (lr_operation l)"
    "same_logical l r" "lr_operation l = srr_operation_id rec"
    using accepted_entered [OF eff inv assms(4)] by blast
  have same: "sr_request_identity r' = sr_request_identity r" "same_logical l r'"
    using assms(2,6,7-11) l(3) by (simp_all add: signer_request_ok_def same_logical_def)
  have later: "fst (ledger_of db2) (sr_request_identity r) = Some l" "snd (ledger_of db2) (sr_event_id r) = Some (lr_operation l)"
    using run_extends [OF assms(5) inv1] l(1,2) unfolding ledger_extends_def map_le_def by (metis domI)+
  then have "judge (ledger_of db2) r' = ReplayOf (srr_operation_id rec)" using same l(4) assms(9) by (simp add: judge_def)
  then have "verdict_of b = ReplayOf (srr_operation_id rec)" using effect_refines(1) [OF eff2 inv2] by simp
  then obtain rec' where b: "b = RequestExactReplay rec'" "srr_operation_id rec' = srr_operation_id rec" by (cases b) simp_all
  have inv3: "request_inv cr db3" by (rule request_effect_inv [OF eff2 inv2 assms(6)])
  obtain q lg where q: "q \<in> set (rq_requests db1)" "rec = record_of q lg" "srr_operation_id rec = q_operation_id q"
    using effect_record [OF eff inv] assms(4) by (metis request_admission_record.simps(1,2))
  obtain q' lg' where q': "q' \<in> set (rq_requests db3)" "rec' = record_of q' lg'" "srr_operation_id rec' = q_operation_id q'"
    using effect_record [OF eff2 inv2] b(1) by (metis request_admission_record.simps(2))
  have "q \<in> set (rq_requests db3)"
    using q(1) run_extends [OF assms(5) inv1] effect_extends [OF eff2 inv2] unfolding ledger_extends_def by blast
  then have "q' = q" using request_entry_unique(1) [OF inv3 q'(1)] q(3) q'(3) b(2) by simp
  then show ?thesis using b q(2) q'(2) by (simp add: record_of_def)
qed

theorem replay_keeps_operation_witness:
  "\<exists>rec' db3. admit_signer_request cx_crates cx_metadata rx_db1 (rx_request 1 5 3000) = Inr (RequestExactReplay rec', db3)
     \<and> srr_operation_id rec' = cx_id 96"
proof -
  let ?rec = "record_of rx_row (request_entry cx_crates (rx_request 1 2 1000))"
  obtain b db3 where run: "admit_signer_request cx_crates cx_metadata rx_db1 (rx_request 1 5 3000) = Inr (b, db3)"
    using known_admitted [OF request_reachable_inv [OF rx_reach(2)] rx_request_ok rx_known] rx_verify(2)
    by (fastforce simp: admit_signer_request_Inr request_entry_def new_dedup_def int_width_defs)
  have "\<exists>rec'. b = RequestExactReplay rec' \<and> srr_operation_id rec' = srr_operation_id ?rec
    \<and> srr_correlation_id rec' = srr_correlation_id ?rec \<and> srr_first_event_id rec' = srr_first_event_id ?rec
    \<and> srr_method rec' = srr_method ?rec \<and> srr_received_at rec' = srr_received_at ?rec"
    by (rule replay_keeps_operation [OF rx_reach(1) rx_request_ok rx_admitted disjI1 [OF refl] rtranclp.rtrancl_refl rx_request_ok])
      (use run in \<open>simp_all add: int_width_defs rx_request_def signer_request_new_def\<close>)
  then show ?thesis using run by (auto simp: record_of_def rx_row_fields)
qed

end
