(* ===== verification/Nip46_Work_Theorems.thy ===== *)
theory Nip46_Work_Theorems
  imports Nip46_Work Provider_Theorems Request_Theorems Connection_Theorems
begin

text \<open>
  The properties of the way of a request from a signed event to provider work, over the request ledger and the connection tables.
\<close>

section \<open>Steps that succeed\<close>

lemma verified_event:
  assumes "verify_myc_nip46_event cr ec bounded transport observed_at policy = Inr event"
  obtains source where "nostr_event_parse ec (be_original bounded) = Some source" "ve_event_id event = ne_id source"
    "ve_client_public_key event = ne_pubkey_hex source" "client_public_key_new cr (ne_pubkey_hex source) = Inr (ne_pubkey_hex source)"
    "ve_receiver_public_key event = pb_expected_identity transport" "ve_encrypted_content event = be_encrypted_content bounded"
proof -
  have "k = v" if "client_public_key_new cr v = Inr k" for k v
    using that by (auto simp: client_public_key_new_def r_bind_Inr_iff split: if_split_asm)
  with assms show ?thesis
    by (auto simp: verify_myc_nip46_event_def Let_def r_bind_Inr_iff intro: that split: if_split_asm)
qed

lemma completed_work:
  assumes "complete_decrypt_work sha ec js cl work response limits = Inr replay"
  obtains plaintext bounded request where "matches_operation sha response (dw_operation work)" "protected_payload response = Some plaintext"
    "admit_myc_nip46_request js cl limits plaintext = Inr bounded" "verify_myc_nip46_request ec cl bounded = Inr request"
    "bind_myc_nip46_replay sha (dw_event work) request = Inr replay"
  using assms unfolding complete_decrypt_work_def Let_def
  by (auto simp: r_bind_Inr_iff split: if_split_asm)

lemma prepared_work:
  assumes "prepare_myc_nip46_decrypt_work cr event transport deadline = Inr work"
  obtains input where "dw_event work = event" "po_deadline (dw_operation work) = deadline" "po_input (dw_operation work) = input"
    "po_expected_identity (dw_operation work) = ve_receiver_public_key event" "po_role (dw_operation work) = RoleTransport"
    "input_peer input = Some (ve_client_public_key event)" "input_bytes input = Some (str_bytes (ve_encrypted_content event))"
    "input_capability input = (case ve_encryption_context event of Nip04 \<Rightarrow> CapNip04Decrypt | Nip44V2 \<Rightarrow> CapNip44Decrypt)"
proof -
  have "k = v" if "public_identity_new cr v = Inr k" for k v
    using that by (auto simp: public_identity_new_def r_bind_Inr_iff split: if_split_asm)
  moreover have "b = c" if "copy_input c e = Inr b" for b c e using that by (auto simp: copy_input_def split: if_split_asm)
  ultimately show ?thesis using assms
    by (cases "ve_encryption_context event")
      (auto simp: prepare_myc_nip46_decrypt_work_def Let_def r_bind_Inr_iff input_nip04_decrypt_def input_nip44_decrypt_def
        provider_operation_new_def intro!: that split: if_split_asm)
qed

lemma prepared_request:
  assumes "prepare_myc_nip46_request sha ec replay nonce received_at = Inr prepared"
  obtains m where "method_parse (vr_method (rb_request replay)) = Some m"
    "pr_signer_request prepared = signer_request_new sha (ve_client_public_key (rb_event replay)) (vr_request_id (rb_request replay))
       (ve_event_id (rb_event replay)) m (rb_request_digest replay) nonce received_at"
  using assms by (auto simp: prepare_myc_nip46_request_def r_bind_Inr_iff split: if_split_asm)

lemma verified_request_id: "verify_myc_nip46_request ec cl bounded = Inr request \<Longrightarrow> request_id_new (vr_request_id request) = Inr (vr_request_id request)"
  by (auto simp: verify_myc_nip46_request_def r_bind_Inr_iff request_id_new_def split: if_split_asm)

lemma call_binding: "verify_call_binding kind binding op observed_at = Inr () \<Longrightarrow> observed_at \<le> po_deadline op"
  by (auto simp: verify_call_binding_def split: if_split_asm)

text \<open>A response of the encrypted-file provider or of the local signer that passed verification.\<close>

definition response_verified ::
    "(bytes \<Rightarrow> bytes) \<Rightarrow> event_crates \<Rightarrow> provider_crates \<Rightarrow> MycProviderBinding \<Rightarrow> MycProviderOperation \<Rightarrow> nat \<Rightarrow> MycVerifiedProviderResponse \<Rightarrow> bool" where
  "response_verified sha ec pc binding op observed_at response \<longleftrightarrow>
     (\<exists>result. verify_encrypted_provider_response sha ec pc binding op observed_at result = Inr response)
     \<or> (\<exists>parts. verify_response sha ec pc binding op observed_at parts = Inr response)"

lemma response_verifiedD:
  assumes "response_verified sha ec pc binding op observed_at response"
  shows "vp_operation_binding response = binding_digest sha op" "observed_at \<le> po_deadline op"
proof -
  have "vp_operation_binding response = binding_digest sha op \<and> observed_at \<le> po_deadline op"
    using assms unfolding response_verified_def
    by (auto simp: verify_encrypted_provider_response_def verify_response_def verified_response_def r_bind_Inr_iff call_binding split: if_split_asm)
  then show "vp_operation_binding response = binding_digest sha op" "observed_at \<le> po_deadline op" by blast+
qed

section \<open>A concrete request\<close>

text \<open>An event with a NIP-44 envelope, the transport that decrypts it, and the request in the plaintext.\<close>

definition wx_identity :: string where "wx_identity = replicate 64 (CHR ''b'')"

definition wx_message :: request_message where
  "wx_message = \<lparr>rm_request_id = Some ''id'', rm_method = ''connect'', rm_canonical = Some [1], rm_request = ReqConnect wx_identity None []\<rparr>"

definition wx_fields :: canonical_fields where
  "wx_fields = \<lparr>cf_id = ''e'', cf_pubkey = cx_key, cf_created_at = 100, cf_kind = 24133, cf_content = ''A'', cf_sig = ''s''\<rparr>"

definition wx_source :: nostr_event where
  "wx_source = \<lparr>ne_id = cx_id 9, ne_id_hex = ''e'', ne_pubkey_hex = cx_key, ne_sig = ''s'', ne_created_at = 100, ne_kind = 24133,
     ne_tags = [[''p'', wx_identity]], ne_content = ''A''\<rparr>"

definition wx_events :: event_crates where
  "wx_events = \<lparr>canonical_event = (\<lambda>_. Some wx_fields), nostr_event_parse = (\<lambda>_. Some wx_source), verify_id = (\<lambda>_. True),
     verify_signature = (\<lambda>_. True), base64_decode = (\<lambda>s. if s = ''A'' then Some (2 # replicate 98 0) else None),
     base64_encode = (\<lambda>_. ''A''), request_message_parse = (\<lambda>_. Some wx_message), RPC_KIND = 24133\<rparr>"

definition wx_provider :: provider_crates where
  "wx_provider = \<lparr>hex_encode = (\<lambda>_. []), hex_decode = (\<lambda>_. Some [1]), unsigned_parse = (\<lambda>_. None), unsigned_to_vec = (\<lambda>_. None),
     unsigned_verify_id = (\<lambda>_. False), unsigned_id = (\<lambda>_. []), signed_parse = (\<lambda>_. None), signed_to_vec = (\<lambda>_. None), signed_verify = (\<lambda>_. False)\<rparr>"

definition wx_json :: json_crate where
  "wx_json = \<lparr>json_event = (\<lambda>_. None), json_request = (\<lambda>_. Some \<lparr>rr_id = [34, 97, 34], rr_method = [34, 97, 34], rr_params = [91, 93]\<rparr>),
     json_elements = (\<lambda>_. Some []), json_seq_error = (\<lambda>_ _. []), json_u64 = (\<lambda>_. None), json_string = (\<lambda>_. None)\<rparr>"

definition wx_connect :: connect_limits where
  "wx_connect = \<lparr>REQUEST_ID_MAX_BYTES = 64, REQUEST_PARAM_COUNT_MAX = 8, REQUEST_PARAM_MAX_BYTES = 64, REQUEST_PARAMS_MAX_BYTES = 64,
     METHOD_MAX_BYTES = 64\<rparr>"

definition wx_limits :: MycNip46AdmissionLimits where
  "wx_limits = \<lparr>event_wire_bytes = 64, event_content_bytes = 64, event_tag_count = 1, event_tag_total_elements = 2,
     event_tag_element_bytes = 64, event_tag_total_bytes = 128, decrypted_plaintext_bytes = 64\<rparr>"

definition wx_binding :: "MycProviderRole \<Rightarrow> MycProviderBinding" where
  "wx_binding role = \<lparr>pb_role = role, pb_instance = instance_from role, pb_kind = KindEncryptedFile, pb_expected_identity = wx_identity,
     pb_required_capabilities = capabilities_for_role role, pb_location = EncryptedFileAt ''/e'' ''c''\<rparr>"

definition wx_bounded :: MycBoundedNip46Event where
  "wx_bounded = \<lparr>be_original = [1], be_encrypted_content = ''A'', be_tag_count = 1, be_tag_element_count = 2, be_tag_bytes = 65\<rparr>"

definition wx_event :: MycVerifiedNip46Event where
  "wx_event = \<lparr>ve_original = [1], ve_encrypted_content = ''A'', ve_event_id = cx_id 9, ve_client_public_key = cx_key,
     ve_receiver_public_key = wx_identity, ve_authored_at_unix_seconds = 100, ve_encryption_context = Nip44V2\<rparr>"

definition wx_operation :: MycProviderOperation where
  "wx_operation = \<lparr>po_role = RoleTransport, po_instance = InstanceTransport, po_provider = KindEncryptedFile,
     po_operation_id = derive_decrypt_identity cx_sha DECRYPT_OPERATION_ID_DOMAIN (cx_id 9),
     po_correlation_id = derive_decrypt_identity cx_sha DECRYPT_CORRELATION_ID_DOMAIN (cx_id 9),
     po_deadline = 1000, po_expected_identity = wx_identity, po_input = InputNip44Decrypt cx_key ProviderV2 (str_bytes ''A'')\<rparr>"

definition wx_work :: MycNip46DecryptWork where "wx_work = \<lparr>dw_event = wx_event, dw_operation = wx_operation\<rparr>"

definition wx_response :: MycVerifiedProviderResponse where
  "wx_response = verified_response cx_sha wx_operation (VerifiedProtected [1] (Some ProviderV2))"

definition wx_replay :: MycReplayBoundNip46Request where
  "wx_replay = \<lparr>rb_event = wx_event, rb_request = \<lparr>vr_request_id = ''id'', vr_method = ''connect'', vr_canonical_request = [1],
       vr_parameter_count = 0, vr_parameter_bytes = 0\<rparr>,
     rb_connection_identity = derive_connection_identity cx_sha wx_identity cx_key, rb_request_identity = derive_request_identity cx_sha cx_key ''id'',
     rb_request_digest = cx_sha (REQUEST_DIGEST_DOMAIN @ to_be_bytes 8 1 @ [1])\<rparr>"

lemma wx_capability: "capability_set_contains (capabilities_for_role role) CapNip44Decrypt \<longleftrightarrow> role \<noteq> RoleDiscovery"
  "capability_set_contains (capabilities_for_role role) CapNip44Encrypt \<longleftrightarrow> role \<noteq> RoleDiscovery"
  by (cases role; simp add: capabilities_for_role_def Let_def contains_or contains_bit bit_or_iff capability_bit_index push_bit_eq_mult bit_exp_iff)+

lemma wx_key: "client_public_key_new cx_crates cx_key = Inr cx_key" "public_identity_new cx_crates cx_key = Inr cx_key"
  by (simp_all add: client_public_key_new_def public_identity_new_def cx_key_def cx_crates_def list_ex_iff is_ascii_hexdigit_def is_ascii_uppercase_def
    is_ascii_digit_def)

lemma wx_decoded: "base64_decode wx_events ''A'' = Some (2 # replicate 98 0)" "base64_encode wx_events bs = ''A''"
  by (simp_all add: wx_events_def)

lemma wx_padding: "is_valid_nip44_padding_length 32" by (simp add: is_valid_nip44_padding_length_def nip44_sizes)

lemma wx_verified: "verify_myc_nip46_event cx_crates wx_events wx_bounded (wx_binding RoleTransport) 100
    \<lparr>maximum_past_seconds = 10, maximum_future_seconds = 10\<rparr> = Inr wx_event"
proof -
  have "verify_encryption_context wx_events ''A'' = Inr Nip44V2"
    using wx_padding
    by (simp add: verify_encryption_context_def str_contains_def verify_nip44_envelope_def decode_canonical_base64_def wx_decoded NIP44_VERSION_V2_def
      nip44_sizes checked_sub_def)
  moreover have "verify_authored_time 100 100 \<lparr>maximum_past_seconds = 10, maximum_future_seconds = 10\<rparr> = Inr ()"
    by (simp add: verify_authored_time_def saturating_add_u64_def u64_max_def)
  moreover have "cx_key \<noteq> wx_identity" by (simp add: cx_key_def wx_identity_def)
  ultimately show ?thesis
    using wx_key(1)
    by (simp add: verify_myc_nip46_event_def wx_bounded_def wx_fields_def wx_source_def event_is_canonical_def wx_event_def wx_binding_def)
      (simp add: wx_events_def wx_fields_def wx_source_def)
qed

lemma wx_prepared: "prepare_myc_nip46_decrypt_work cx_crates wx_event (wx_binding RoleTransport) 1000 = Inr wx_work"
proof -
  have "input_nip44_decrypt cx_key ProviderV2 (str_bytes ''A'') = Inr (InputNip44Decrypt cx_key ProviderV2 (str_bytes ''A''))"
    by (simp add: input_nip44_decrypt_def copy_input_def provider_limits str_bytes_def)
  then show ?thesis
    using wx_key(2) wx_capability(1) [of RoleTransport]
    by (simp add: prepare_myc_nip46_decrypt_work_def wx_binding_def wx_event_def wx_work_def wx_operation_def provider_operation_new_def)
qed

lemma wx_answered: "verify_encrypted_provider_response cx_sha wx_events wx_provider (wx_binding RoleTransport) wx_operation 500
    (GotNip44Decrypt cx_key 2 ''01'') = Inr wx_response"
proof -
  have "str_from_utf8 (str_bytes ''A'') = Some ''A''"
    by (simp add: str_from_utf8_def from_utf8_def str_bytes_def of_char_def char_of_def bit_0)
  then have "verify_nip44_ciphertext wx_events (str_bytes ''A'') None ProviderV2 = Inr 32"
    using wx_padding
    by (simp add: verify_nip44_ciphertext_def response_canonical_base64_def wx_decoded NIP44_V2_FIXED_PAYLOAD_BYTES_def NIP44_V2_VERSION_def
      checked_sub_def response_padding_eq)
  then have "verify_nip44_decrypt_result wx_events wx_operation [1] = Inr (VerifiedProtected [1] (Some ProviderV2))"
    by (simp add: verify_nip44_decrypt_result_def wx_operation_def provider_limits)
  moreover have "decode_payload wx_provider ''01'' = Inr [1]" by (simp add: decode_payload_def wx_provider_def provider_limits)
  ultimately have "verify_result wx_events wx_provider (wx_binding RoleTransport) wx_operation CapNip44Decrypt (GotNip44Decrypt cx_key 2 ''01'')
      = Inr (VerifiedProtected [1] (Some ProviderV2))"
    by (simp add: verify_peer_def) (simp add: wx_operation_def)
  then show ?thesis
    using wx_capability(1) [of RoleTransport]
    by (simp add: verify_encrypted_provider_response_def verify_call_binding_def wx_response_def)
      (simp add: wx_operation_def wx_binding_def)
qed

lemma wx_completed: "complete_decrypt_work cx_sha wx_events wx_json wx_connect wx_work wx_response wx_limits = Inr wx_replay"
proof -
  have "decoded_json_string_utf8_bytes [34, 97, 34] = Some 1"
    by (simp add: decoded_json_string_utf8_bytes_def byte_at_def scan_loop.simps scan_step_def Let_def checked_add_u64_def u64_max_def)
  then have "admit_myc_nip46_request wx_json wx_connect wx_limits [1]
      = Inr \<lparr>br_plaintext = [1], br_request_id_bytes = 1, br_method_bytes = 1, br_parameter_count = 0, br_parameter_bytes = 0\<rparr>"
    by (simp add: admit_myc_nip46_request_def wx_limits_def wx_json_def wx_connect_def from_utf8_def validate_bounded_string_def measure_parameters_def)
  moreover have "request_id_new ''id'' = Inr ''id''"
    by (simp add: request_id_new_def str_chars_def MYC_NIP46_REQUEST_ID_MAX_UTF8_BYTES_def trim_chars_def char_is_whitespace_def char_is_control_def)
  then have "verify_myc_nip46_request wx_events wx_connect
      \<lparr>br_plaintext = [1], br_request_id_bytes = 1, br_method_bytes = 1, br_parameter_count = 0, br_parameter_bytes = 0\<rparr> = Inr (rb_request wx_replay)"
    by (simp add: verify_myc_nip46_request_def wx_events_def wx_message_def wx_connect_def wx_replay_def)
  moreover have "bind_myc_nip46_replay cx_sha wx_event (rb_request wx_replay) = Inr wx_replay"
    by (simp add: bind_myc_nip46_replay_def for_canonical_request_def MYC_NIP46_CANONICAL_REQUEST_MAX_BYTES_def wx_replay_def wx_event_def Let_def)
  ultimately show ?thesis
    by (simp add: complete_decrypt_work_def wx_work_def wx_response_def verified_response_def matches_operation_def protected_payload_def
      response_nip44_version_def) (simp add: wx_operation_def)
qed

lemma wx_record: "matches_request (sha256 cx_crates) (record_of rx_row (request_entry cx_crates (rx_request 1 2 1000))) (rx_request 1 2 1000)"
  "srr_received_at (record_of rx_row (request_entry cx_crates (rx_request 1 2 1000))) = 1000"
proof -
  have "sr_method (rx_request 1 2 1000) = MethodSignEvent" by (simp add: rx_request_def signer_request_new_def)
  then show "matches_request (sha256 cx_crates) (record_of rx_row (request_entry cx_crates (rx_request 1 2 1000))) (rx_request 1 2 1000)"
    by (simp add: matches_request_def record_of_def rx_row_def new_request_row_def cx_crates_def method_parse_def)
  show "srr_received_at (record_of rx_row (request_entry cx_crates (rx_request 1 2 1000))) = 1000"
    by (simp add: record_of_def rx_row_def new_request_row_def rx_request_fields)
qed

section \<open>Properties\<close>

text \<open>
  C3. A decryption is completed only with the answer to its own question: the verified response that completes the work was
  given, before its deadline, to exactly the operation of the work, which asked the transport identity that received the event
  to decrypt the content of that event from the client that signed it. The binding digest covers every field of an operation.
\<close>

theorem decryption_completed_by_own_response:
  assumes "prepare_myc_nip46_decrypt_work cr event transport deadline = Inr work"
    and "response_verified (sha256 cr) ec pc binding op observed_at response"
    and "complete_decrypt_work (sha256 cr) ec js cl work response limits = Inr replay"
    and "operation_sized op" "operation_sized (dw_operation work)" "inj_on (sha256 cr) {operation_preimage op, operation_preimage (dw_operation work)}"
  shows "op = dw_operation work \<and> observed_at \<le> deadline \<and> rb_event replay = event
    \<and> po_role op = RoleTransport \<and> po_expected_identity op = ve_receiver_public_key event
    \<and> input_peer (po_input op) = Some (ve_client_public_key event) \<and> input_bytes (po_input op) = Some (str_bytes (ve_encrypted_content event))"
proof -
  obtain input where w: "dw_event work = event" "po_deadline (dw_operation work) = deadline" "po_input (dw_operation work) = input"
    "po_expected_identity (dw_operation work) = ve_receiver_public_key event" "po_role (dw_operation work) = RoleTransport"
    "input_peer input = Some (ve_client_public_key event)" "input_bytes input = Some (str_bytes (ve_encrypted_content event))"
    by (rule prepared_work [OF assms(1)]) blast
  obtain request where c: "matches_operation (sha256 cr) response (dw_operation work)"
    "bind_myc_nip46_replay (sha256 cr) (dw_event work) request = Inr replay" using completed_work [OF assms(3)] by metis
  note V = response_verifiedD [OF assms(2)]
  have "sha256 cr (operation_preimage op) = sha256 cr (operation_preimage (dw_operation work))"
    using c(1) V(1) by (simp add: matches_operation_def binding_digest_def)
  then have "operation_preimage op = operation_preimage (dw_operation work)" by (rule inj_onD [OF assms(6)]) blast+
  then have "op = dw_operation work" using operation_preimage_inject [OF assms(4,5)] by blast
  moreover have "rb_event replay = dw_event work"
    using c(2) by (auto simp: bind_myc_nip46_replay_def Let_def r_bind_Inr_iff)
  ultimately show ?thesis using w V(2) by auto
qed

theorem decryption_completed_by_own_response_witness:
  "rb_event wx_replay = wx_event \<and> input_peer (po_input wx_operation) = Some cx_key \<and> input_bytes (po_input wx_operation) = Some (str_bytes ''A'')"
proof -
  have "operation_sized wx_operation"
    by (simp add: operation_sized_def wx_operation_def derive_decrypt_identity_def cx_sha_def cx_key_def wx_identity_def length_str_bytes u64_max_def)
  moreover have "response_verified (sha256 cx_crates) wx_events wx_provider (wx_binding RoleTransport) wx_operation 500 wx_response"
    using wx_answered by (auto simp: response_verified_def cx_crates_def)
  moreover have "complete_decrypt_work (sha256 cx_crates) wx_events wx_json wx_connect wx_work wx_response wx_limits = Inr wx_replay"
    using wx_completed by (simp add: cx_crates_def)
  ultimately show ?thesis
    using decryption_completed_by_own_response [OF wx_prepared, of wx_events wx_provider "wx_binding RoleTransport" wx_operation 500 wx_response]
    by (simp add: wx_work_def wx_event_def)
qed

text \<open>
  A request that passes verification, decryption and preparation is valid input for the durable admission: the signer
  request has a canonical client key and request identifier, identifiers and digest of full size and the derived request
  identity, and it belongs to the client and the event that were verified. The hash and the event identifiers have 32 bytes.
\<close>

theorem prepared_request_admissible:
  assumes "verify_myc_nip46_event cr ec bounded binding observed_at policy = Inr event"
    and "prepare_myc_nip46_decrypt_work cr event transport deadline = Inr work"
    and "complete_decrypt_work (sha256 cr) ec js cl work response limits = Inr replay"
    and "prepare_myc_nip46_request (sha256 cr) ec replay nonce received_at = Inr prepared"
    and "\<forall>x. length (sha256 cr x) = 32" "\<forall>raw e. nostr_event_parse ec raw = Some e \<longrightarrow> length (ne_id e) = 32"
    and "length nonce = 32" "received_at_new received_at = Inr received_at"
  shows "signer_request_ok cr (pr_signer_request prepared)
    \<and> sr_client_public_key (pr_signer_request prepared) = ve_client_public_key event
    \<and> sr_event_id (pr_signer_request prepared) = ve_event_id event \<and> sr_received_at (pr_signer_request prepared) = received_at"
proof -
  obtain source where e: "nostr_event_parse ec (be_original bounded) = Some source" "ve_event_id event = ne_id source"
    "client_public_key_new cr (ve_client_public_key event) = Inr (ve_client_public_key event)"
    using verified_event [OF assms(1)] by metis
  obtain b request where c: "verify_myc_nip46_request ec cl b = Inr request" "bind_myc_nip46_replay (sha256 cr) (dw_event work) request = Inr replay"
    using completed_work [OF assms(3)] by metis
  have "dw_event work = event" using prepared_work [OF assms(2)] by metis
  then have r: "rb_event replay = event" "rb_request replay = request" "length (rb_request_digest replay) = 32"
    using c(2) assms(5) by (auto simp: bind_myc_nip46_replay_def Let_def r_bind_Inr_iff for_canonical_request_def split: if_split_asm)
  obtain m where p: "pr_signer_request prepared = signer_request_new (sha256 cr) (ve_client_public_key (rb_event replay))
      (vr_request_id (rb_request replay)) (ve_event_id (rb_event replay)) m (rb_request_digest replay) nonce received_at"
    using prepared_request [OF assms(4)] by metis
  show ?thesis
    using e c r assms(6-8) verified_request_id [OF c(1)] unfolding p by (simp add: signer_request_new_def signer_request_ok_def)
qed

theorem prepared_request_admissible_witness:
  "\<exists>prepared. prepare_myc_nip46_request cx_sha wx_events wx_replay (cx_id 4) 1000 = Inr prepared \<and> signer_request_ok cx_crates (pr_signer_request prepared)"
proof -
  have sha: "sha256 cx_crates = cx_sha" by (simp add: cx_crates_def)
  obtain prepared where p: "prepare_myc_nip46_request cx_sha wx_events wx_replay (cx_id 4) 1000 = Inr prepared"
    by (simp add: prepare_myc_nip46_request_def wx_replay_def wx_events_def wx_message_def method_parse_def)
  have "\<forall>raw e. nostr_event_parse wx_events raw = Some e \<longrightarrow> length (ne_id e) = 32" by (simp add: wx_events_def wx_source_def)
  moreover have "received_at_new 1000 = Inr 1000" by (simp add: received_at_new_Inr int_width_defs)
  moreover have "\<forall>x. length (sha256 cx_crates x) = 32" by (simp add: sha cx_sha_def)
  ultimately have "signer_request_ok cx_crates (pr_signer_request prepared)"
    using prepared_request_admissible [OF wx_verified wx_prepared wx_completed [folded sha] p [folded sha]] by simp
  then show ?thesis using p by blast
qed

text \<open>
  C2. Work is prepared for a new request only: with the record that the durable admission returned, and an operation
  identifier that no stored request has, preparation succeeds only if the admission entered the request as new. A replay or
  a conflict returns the record of the earlier request, which does not match, so no operation runs twice for one request.
\<close>

theorem work_only_for_new_request:
  assumes "request_reachable cr db" and "signer_request_ok cr (pr_signer_request prepared)"
    and "admit_signer_request cr expected db (pr_signer_request prepared) = Inr (admission, db')"
    and "\<forall>q\<in>set (rq_requests db). q_operation_id q \<noteq> derived_operation_id (sha256 cr) (pr_signer_request prepared)"
    and "prepare_myc_nip46_work cr pc required prepared (request_admission_record admission) connection providers observed_at deadline = Inr work"
  shows "admission = RequestAdmitted (mw_request work) \<and> judge (ledger_of db) (pr_signer_request prepared) = NewRequest"
proof -
  have inv: "request_inv cr db" by (rule request_reachable_inv [OF assms(1)])
  have eff: "request_effect cr (pr_signer_request prepared) db admission db'"
    using assms(3) admit_request_effect [OF inv assms(2)] by (simp add: admit_signer_request_Inr)
  have match: "srr_operation_id (request_admission_record admission) = derived_operation_id (sha256 cr) (pr_signer_request prepared)"
    using assms(5) by (auto simp: prepare_myc_nip46_work_def Let_def matches_request_def split: if_split_asm)
  have "mw_request work = request_admission_record admission"
    using assms(5) by (auto simp: prepare_myc_nip46_work_def prepare_connect_work_def Let_def r_bind_Inr_iff split: if_split_asm Request.split_asm)
  moreover have "\<exists>rec. admission = RequestAdmitted rec"
    using eff
  proof cases
    case (stolen e q lg)
    then show ?thesis using match assms(4) by (auto simp: record_of_def)
  qed (use match assms(4) known_requestD(1) [OF inv] in \<open>auto simp: record_of_def\<close>)
  ultimately show ?thesis using effect_refines(1) [OF eff inv] by auto
qed

theorem work_only_for_new_request_witness:
  "\<exists>prepared work. pr_signer_request prepared = rx_request 1 2 1000
    \<and> prepare_myc_nip46_work cx_crates wx_provider (\<lambda>_. None) prepared (record_of rx_row (request_entry cx_crates (rx_request 1 2 1000))) None
      [wx_binding RoleTransport] 1000 None = Inr work
    \<and> judge (ledger_of rx_db0) (rx_request 1 2 1000) = NewRequest"
proof -
  let ?p = "\<lparr>pr_signer_request = rx_request 1 2 1000, pr_request = ReqConnect wx_identity None [], pr_encryption_context = Nip44V2\<rparr>"
  let ?admitted = "record_of rx_row (request_entry cx_crates (rx_request 1 2 1000))"
  obtain work where w: "prepare_myc_nip46_work cx_crates wx_provider (\<lambda>_. None) ?p ?admitted None [wx_binding RoleTransport] 1000 None = Inr work"
    using wx_record by (simp add: prepare_myc_nip46_work_def prepare_connect_work_def transport_binding_def contract_binding_def wx_binding_def connect_permissions_def
      permission_set_new_def Let_def)
  have "judge (ledger_of rx_db0) (pr_signer_request ?p) = NewRequest"
    using work_only_for_new_request [OF rx_reach(1), of ?p cx_metadata "RequestAdmitted ?admitted" rx_db1 wx_provider "\<lambda>_. None" None
      "[wx_binding RoleTransport]" 1000 None work] rx_request_ok [of 1000 1 2] rx_admitted w
    by (simp add: rx_db0_def cx_db0_def int_width_defs)
  then show ?thesis using w by (intro exI [of _ ?p] exI [of _ work]) simp
qed

text \<open>The capability that a request needs of the user's provider.\<close>

fun request_capability :: "Request \<Rightarrow> MycProviderCapability option" where
  "request_capability (ReqSignEvent _) = Some CapSignEvent"
| "request_capability (ReqNip04Encrypt _ _) = Some CapNip04Encrypt"
| "request_capability (ReqNip04Decrypt _ _) = Some CapNip04Decrypt"
| "request_capability (ReqNip44Encrypt _ _) = Some CapNip44Encrypt"
| "request_capability (ReqNip44Decrypt _ _) = Some CapNip44Decrypt"
| "request_capability _ = None"

lemma inputs_capability:
  "input_sign_event e = Inr x \<Longrightarrow> input_capability x = CapSignEvent"
  "input_nip04_encrypt p t = Inr x \<Longrightarrow> input_capability x = CapNip04Encrypt"
  "input_nip04_decrypt p t = Inr x \<Longrightarrow> input_capability x = CapNip04Decrypt"
  "input_nip44_encrypt p v t = Inr x \<Longrightarrow> input_capability x = CapNip44Encrypt"
  "input_nip44_decrypt p v t = Inr x \<Longrightarrow> input_capability x = CapNip44Decrypt"
  by (auto simp: input_sign_event_def input_nip04_encrypt_def input_nip04_decrypt_def input_nip44_encrypt_def input_nip44_decrypt_def r_bind_Inr_iff
    split: if_split_asm)

lemma provider_work_Inr:
  assumes "provider_work providers admitted observed_at deadline input = Inr payload"
  obtains op x where "payload = WorkProvider op" "input = Inr x" "po_input op = x" "po_role op = RoleUser"
    "po_operation_id op = srr_operation_id admitted" "po_correlation_id op = srr_correlation_id admitted" "observed_at < po_deadline op"
proof -
  have "pb_role b = RoleUser" if "contract_binding providers RoleUser = Some b" for b
    using that by (auto simp: contract_binding_def find_Some_iff)
  then show ?thesis using assms
    by (auto simp: provider_work_def user_binding_def provider_operation_new_def r_bind_Inr_iff intro!: that split: if_split_asm)
qed

lemma request_payload_provider:
  assumes "request_payload cr pc request providers admitted observed_at deadline = Inr (WorkProvider op)"
  shows "po_role op = RoleUser \<and> po_operation_id op = srr_operation_id admitted \<and> po_correlation_id op = srr_correlation_id admitted
    \<and> observed_at < po_deadline op \<and> request_capability request = Some (input_capability (po_input op))"
proof -
  have "\<exists>input. provider_work providers admitted observed_at deadline input = Inr (WorkProvider op)
    \<and> (\<forall>x. input = Inr x \<longrightarrow> request_capability request = Some (input_capability x))"
  proof (cases request)
    case (ReqSignEvent event)
    then obtain x where "provider_work providers admitted observed_at deadline (Inr x) = Inr (WorkProvider op)"
      "sign_event_input pc event providers = Inr x" using assms by (auto simp: request_payload_def r_bind_Inr_iff)
    moreover from this(2) have "input_capability x = CapSignEvent"
      by (auto simp: sign_event_input_def r_bind_Inr_iff inputs_capability split: if_split_asm)
    ultimately show ?thesis using ReqSignEvent by (intro exI [of _ "Inr x"]) simp
  qed (use assms in \<open>auto simp: request_payload_def Let_def r_bind_Inr_iff inputs_capability split: if_split_asm\<close>)
  then show ?thesis by (auto elim!: provider_work_Inr)
qed

text \<open>
  C1. No provider operation without a decision: when work for a stored connection holds a provider operation, the connection
  has exactly one admission decision and it is allowed, by trust or by the operator; the request comes from its client; its
  authorization has not run out; the permission the request requires is granted; and the operation asks the user's provider,
  before its deadline, for what the request names, under the identifiers of the admitted request.
\<close>

theorem provider_work_authorized:
  assumes "connection_reachable cr db" "read_connection cr db i = Inr connection"
    and "prepare_myc_nip46_work cr pc required prepared admitted (Some connection) providers observed_at deadline = Inr work"
    and "work_provider_operation work = Some op"
  shows "(\<exists>d. filter (\<lambda>d. d_connection_id d = Some i \<and> d_challenge_id d = None) (n_decisions db) = [d]
      \<and> d_decision d = ''allowed'' \<and> d_reason_code d \<in> {''trusted_client'', ''operator_approved''})
    \<and> cr_client_public_key connection = sr_client_public_key (pr_signer_request prepared)
    \<and> (case cr_authorized_until connection of None \<Rightarrow> True | Some until \<Rightarrow> observed_at \<le> until)
    \<and> (case required (pr_request prepared) of None \<Rightarrow> True
       | Some rendered \<Rightarrow> \<exists>p. permission_parse rendered = Some p \<and> p \<in> set (ps_permissions (cr_granted_permissions connection)))
    \<and> po_role op = RoleUser \<and> po_operation_id op = srr_operation_id admitted \<and> po_correlation_id op = srr_correlation_id admitted
    \<and> observed_at < po_deadline op \<and> request_capability (pr_request prepared) = Some (input_capability (po_input op))"
proof -
  have inv: "connection_inv cr db" using assms(1) by (rule connection_reachable_inv)
  obtain c where c: "c \<in> set (n_connections db)" "c_connection_id c = i" "connection = connection_record cr (n_permissions db) c"
    using read_connection_Inr [OF inv assms(2)] by metis
  have ok: "connection_ok cr (n_permissions db) c" by (rule connection_invD(5) [OF inv c(1)])
  have W: "cr_client_public_key connection = sr_client_public_key (pr_signer_request prepared)" "cr_status connection = ConnectionActive"
    "case cr_authorized_until connection of None \<Rightarrow> True | Some until \<Rightarrow> observed_at \<le> until"
    "permission_check required (pr_request prepared) connection = Inr ()"
    "request_payload cr pc (pr_request prepared) providers admitted observed_at deadline = Inr (WorkProvider op)"
    using assms(3,4)
    by (auto simp: prepare_myc_nip46_work_def prepare_connect_work_def work_provider_operation_def Let_def r_bind_Inr_iff not_less
      split: if_split_asm Request.split_asm option.splits Nip46WorkPayload.split_asm)
  have "c_status c = ''active''"
    using W(2) c(3) connection_status_cases [of c] ok
    by (auto simp: connection_record_def connection_ok_def connections_check_def)
  then have "\<exists>d. filter (\<lambda>d. d_connection_id d = Some i \<and> d_challenge_id d = None) (n_decisions db) = [d]
      \<and> d_decision d = ''allowed'' \<and> d_reason_code d \<in> {''trusted_client'', ''operator_approved''}"
    using positive_decision [OF inv c(1)] c(2) by blast
  moreover have "case required (pr_request prepared) of None \<Rightarrow> True
       | Some rendered \<Rightarrow> \<exists>p. permission_parse rendered = Some p \<and> p \<in> set (ps_permissions (cr_granted_permissions connection))"
  proof -
    have "permission_set_ok (sha256 cr) (cr_granted_permissions connection)" using ok seal_ok c(3) by (auto simp: connection_ok_def connection_record_def)
    then have "sorted (ps_permissions (cr_granted_permissions connection))" by (simp add: permission_set_ok_def)
    then show ?thesis using W(4)
      by (auto simp: permission_check_def protocol_permission_def permission_set_contains_def binary_search_ok_sorted r_bind_Inr_iff
        split: option.splits if_split_asm)
  qed
  ultimately show ?thesis using W(1,3) request_payload_provider [OF W(5)] by blast
qed

theorem provider_work_authorized_witness:
  "\<exists>prepared admitted work op. prepare_myc_nip46_work cx_crates wx_provider (\<lambda>_. None) prepared admitted
      (Some (connection_record cx_crates (n_permissions cx_db6) cx_active)) [wx_binding RoleUser] 3200 (Some 4000) = Inr work
    \<and> work_provider_operation work = Some op \<and> po_role op = RoleUser \<and> input_capability (po_input op) = CapNip44Encrypt"
proof -
  let ?r = "rx_request 1 2 1000"
  let ?p = "\<lparr>pr_signer_request = ?r, pr_request = ReqNip44Encrypt cx_key ''m'', pr_encryption_context = Nip44V2\<rparr>"
  let ?admitted = "record_of rx_row (request_entry cx_crates ?r)"
  let ?c = "connection_record cx_crates (n_permissions cx_db6) cx_active"
  have client: "sr_client_public_key ?r = cx_key" by (simp add: rx_request_def signer_request_new_def)
  have c: "cr_client_public_key ?c = cx_key" "cr_status ?c = ConnectionActive" "cr_authorized_until ?c = Some 3500"
    by (simp_all add: connection_record_def cx_active_fields connection_status_parse_def)
  have "input_nip44_encrypt cx_key ProviderV2 (str_bytes ''m'') = Inr (InputNip44Encrypt cx_key ProviderV2 (str_bytes ''m''))"
    by (simp add: input_nip44_encrypt_def copy_input_def provider_limits str_bytes_def)
  then obtain op where payload: "request_payload cx_crates wx_provider (ReqNip44Encrypt cx_key ''m'') [wx_binding RoleUser] ?admitted 3200 (Some 4000) = Inr (WorkProvider op)"
    using wx_key(2) wx_capability(2) [of RoleUser]
    by (simp add: request_payload_def provider_identity_def provider_work_def user_binding_def contract_binding_def wx_binding_def provider_operation_new_def)
  define work where "work = \<lparr>mw_request = ?admitted, mw_connection = Some ?c, mw_method = sr_method ?r, mw_encryption_context = Nip44V2, mw_payload = WorkProvider op\<rparr>"
  have w: "prepare_myc_nip46_work cx_crates wx_provider (\<lambda>_. None) ?p ?admitted (Some ?c) [wx_binding RoleUser] 3200 (Some 4000) = Inr work"
    using wx_record c payload client by (simp add: prepare_myc_nip46_work_def permission_check_def work_def Let_def)
  have op: "work_provider_operation work = Some op" by (simp add: work_def work_provider_operation_def)
  have "read_connection cx_crates cx_db6 (c_connection_id cx_active) = Inr ?c"
    by (rule read_connection_inv [OF connection_reachable_inv [OF cx_reach6]]) (simp add: cx_db6_simps)
  from provider_work_authorized [OF cx_reach6 this w op] show ?thesis using w op by (intro exI [of _ ?p] exI [of _ ?admitted] exI [of _ work] exI [of _ op]) simp
qed

end
