(* ===== verification/Completion_State.thy ===== *)
theory Completion_State
  imports Nip46_Work Delivery_State
begin

text \<open>
  The durable completion of an admitted request (\<^verbatim>\<open>src/src/state_completion.rs\<close>) with its table
  \<open>nip46_operation_commits\<close> (\<^verbatim>\<open>src/src/state_catalog.rs\<close>): the request that binds work, decision and provider result,
  and the body of the transaction that records it and ends a session on logout.
\<close>

section \<open>Values\<close>

datatype MycNip46SessionEffect = EffectNone | EffectConnectionAdmitted | EffectConnectionRevoked

fun session_effect_as_str :: "MycNip46SessionEffect \<Rightarrow> string" where
  "session_effect_as_str EffectNone = ''none''"
| "session_effect_as_str EffectConnectionAdmitted = ''connection_admitted''"
| "session_effect_as_str EffectConnectionRevoked = ''connection_revoked''"

definition session_effect_parse :: "string \<Rightarrow> MycNip46SessionEffect option" where
  "session_effect_parse value = (if value = ''none'' then Some EffectNone
     else if value = ''connection_admitted'' then Some EffectConnectionAdmitted
     else if value = ''connection_revoked'' then Some EffectConnectionRevoked else None)"

interpretation session_effect: spelling session_effect_as_str session_effect_parse
  by (rule spelling.intro, rename_tac x, case_tac x) (auto simp: session_effect_parse_def split: if_splits)

datatype MycNip46CommitErrorKind = CommitInvalidBinding | CommitInvalidTime

record MycNip46CommitRequest =
  cq_request :: MycSignerRequestRecord
  cq_connection_id :: "bytes option"
  cq_connection_generation :: "nat option"
  cq_connect_decision :: "MycConnectionDecision option"
  cq_session_effect :: MycNip46SessionEffect
  cq_provider_operation_id :: "bytes option"
  cq_artifact :: "bytes option"
  cq_artifact_sha256 :: "bytes option"
  cq_reason_code :: string
  cq_completed_at :: nat

record MycNip46CommitRecord =
  ncr_operation_id :: bytes
  ncr_correlation_id :: bytes
  ncr_method :: MycSignerRequestMethod
  ncr_connection_id :: "bytes option"
  ncr_session_effect :: MycNip46SessionEffect
  ncr_artifact_sha256 :: "bytes option"
  ncr_completed_at :: nat

datatype MycNip46CommitAdmission = OperationCommitted MycNip46CommitRecord | OperationExactReplay MycNip46CommitRecord

fun commit_admission_record :: "MycNip46CommitAdmission \<Rightarrow> MycNip46CommitRecord" where
  "commit_admission_record (OperationCommitted x) = x"
| "commit_admission_record (OperationExactReplay x) = x"

section \<open>Binding work to its result\<close>

record BoundProviderResult =
  bp_operation_id :: "bytes option"
  bp_artifact :: "bytes option"
  bp_artifact_sha256 :: "bytes option"

text \<open>The response is the answer to exactly this operation.\<close>

definition response_answers :: "(bytes \<Rightarrow> bytes) \<Rightarrow> MycVerifiedProviderResponse \<Rightarrow> MycProviderOperation \<Rightarrow> bool" where
  "response_answers sha response operation \<longleftrightarrow>
     vp_operation_id response = po_operation_id operation \<and> vp_correlation_id response = po_correlation_id operation
     \<and> vp_instance response = po_instance operation \<and> vp_role response = po_role operation
     \<and> vp_capability response = input_capability (po_input operation) \<and> matches_operation sha response operation"

definition bind_provider_result ::
    "(bytes \<Rightarrow> bytes) \<Rightarrow> MycNip46Work \<Rightarrow> MycVerifiedProviderResponse option \<Rightarrow> (MycNip46CommitErrorKind, BoundProviderResult) result" where
  "bind_provider_result sha work response = (case work_provider_operation work of
     None \<Rightarrow> if response \<noteq> None then Inl CommitInvalidBinding
       else Inr \<lparr>bp_operation_id = None, bp_artifact = None, bp_artifact_sha256 = None\<rparr>
   | Some operation \<Rightarrow>
       r_bind (ok_or CommitInvalidBinding response) (\<lambda>answer.
       if \<not> response_answers sha answer operation then Inl CommitInvalidBinding else
       let artifact = signed_event_bytes answer in
       if (case artifact of None \<Rightarrow> False | Some bs \<Rightarrow> bs = [] \<or> MYC_PROVIDER_OUTPUT_MAX_BYTES < length bs)
       then Inl CommitInvalidBinding
       else Inr \<lparr>bp_operation_id = Some (po_operation_id operation), bp_artifact = artifact,
         bp_artifact_sha256 = map_option sha artifact\<rparr>))"

text \<open>
  The match on the kind of work: the connection the completion is bound to, the terminal decision of a connect request,
  the session effect and the reason. The decision is \<open>Allowed\<close> or \<open>Denied\<close> after the guard.
\<close>

definition connect_binding ::
    "MycNip46Work \<Rightarrow> MycConnectionDecisionRecord \<Rightarrow> nat
      \<Rightarrow> (MycNip46CommitErrorKind, MycConnectionRecord option \<times> MycConnectionDecision option \<times> MycNip46SessionEffect \<times> string) result" where
  "connect_binding work decision completed_at =
     (if cd_operation_id decision \<noteq> srr_operation_id (mw_request work)
         \<or> cd_decision decision \<notin> {DecisionAllowed, DecisionDenied} then Inl CommitInvalidBinding
      else if completed_at < cd_decided_at decision then Inl CommitInvalidTime
      else if cd_decision decision = DecisionAllowed
      then (if (case cd_connection decision of None \<Rightarrow> True | Some c \<Rightarrow> cr_status c \<noteq> ConnectionActive) then Inl CommitInvalidBinding
        else Inr (cd_connection decision, Some (cd_decision decision), EffectConnectionAdmitted, ''connection_admitted''))
      else if cd_connection decision \<noteq> None then Inl CommitInvalidBinding
      else Inr (cd_connection decision, Some (cd_decision decision), EffectNone, ''connection_denied''))"

definition session_binding ::
    "MycNip46Work \<Rightarrow> MycConnectionDecisionRecord option \<Rightarrow> MycVerifiedProviderResponse option \<Rightarrow> nat
      \<Rightarrow> (MycNip46CommitErrorKind, MycConnectionRecord option \<times> MycConnectionDecision option \<times> MycNip46SessionEffect \<times> string) result" where
  "session_binding work connect_decision provider_response completed_at = (case work_kind work of
     KindConnect \<Rightarrow> if provider_response \<noteq> None then Inl CommitInvalidBinding
       else r_bind (ok_or CommitInvalidBinding connect_decision) (\<lambda>decision. connect_binding work decision completed_at)
   | KindLocal \<Rightarrow> if connect_decision \<noteq> None \<or> provider_response \<noteq> None then Inl CommitInvalidBinding
       else if mw_method work = MethodLogout then Inr (mw_connection work, None, EffectConnectionRevoked, ''session_revoked'')
       else Inr (mw_connection work, None, EffectNone, ''completed'')
   | KindProvider \<Rightarrow> if connect_decision \<noteq> None then Inl CommitInvalidBinding
       else Inr (mw_connection work, None, EffectNone, ''completed''))"

definition commit_request_new ::
    "(bytes \<Rightarrow> bytes) \<Rightarrow> MycNip46Work \<Rightarrow> MycConnectionDecisionRecord option \<Rightarrow> MycVerifiedProviderResponse option \<Rightarrow> nat
      \<Rightarrow> (MycNip46CommitErrorKind, MycNip46CommitRequest) result" where
  "commit_request_new sha work connect_decision provider_response completed_at =
     (if completed_at < srr_received_at (mw_request work)
         \<or> (case mw_connection work of None \<Rightarrow> False | Some c \<Rightarrow> completed_at < cr_updated_at c) then Inl CommitInvalidTime else
     r_bind (session_binding work connect_decision provider_response completed_at) (\<lambda>(connection, decision, effect, reason).
     r_bind (bind_provider_result sha work provider_response) (\<lambda>provider.
     Inr \<lparr>cq_request = mw_request work, cq_connection_id = map_option cr_id connection,
       cq_connection_generation = map_option cr_policy_generation connection, cq_connect_decision = decision,
       cq_session_effect = effect, cq_provider_operation_id = bp_operation_id provider, cq_artifact = bp_artifact provider,
       cq_artifact_sha256 = bp_artifact_sha256 provider, cq_reason_code = reason, cq_completed_at = completed_at\<rparr>)))"

section \<open>The table\<close>

record commit_row =
  oc_operation_id :: bytes
  oc_correlation_id :: bytes
  oc_method :: string
  oc_connection_id :: "bytes option"
  oc_session_effect :: string
  oc_provider_operation_id :: "bytes option"
  oc_provider_artifact_kind :: string
  oc_provider_artifact_sha256 :: "bytes option"
  oc_provider_artifact :: "bytes option"
  oc_outcome :: string
  oc_reason_code :: string
  oc_completed_at_unix_ms :: int

text \<open>The methods that a provider executes, in the table's CHECK.\<close>

definition provider_methods :: "string list" where
  "provider_methods = [''sign_event'', ''nip04_encrypt'', ''nip04_decrypt'', ''nip44_encrypt'', ''nip44_decrypt'']"

definition nip46_operation_commits_check :: "commit_row \<Rightarrow> bool" where
  "nip46_operation_commits_check r \<longleftrightarrow>
     length (oc_operation_id r) = 32 \<and> length (oc_correlation_id r) = 32
     \<and> oc_method r \<in> {''connect'', ''get_public_key'', ''get_session_capability'', ''sign_event'', ''nip04_encrypt'',
         ''nip04_decrypt'', ''nip44_encrypt'', ''nip44_decrypt'', ''ping'', ''switch_relays'', ''logout''}
     \<and> (case oc_connection_id r of None \<Rightarrow> True | Some c \<Rightarrow> length c = 32)
     \<and> oc_session_effect r \<in> {''none'', ''connection_admitted'', ''connection_revoked''}
     \<and> (case oc_provider_operation_id r of None \<Rightarrow> True | Some p \<Rightarrow> length p = 32)
     \<and> oc_provider_artifact_kind r \<in> {''none'', ''signed_event''}
     \<and> (case oc_provider_artifact_sha256 r of None \<Rightarrow> True | Some d \<Rightarrow> length d = 32)
     \<and> (case oc_provider_artifact r of None \<Rightarrow> True | Some a \<Rightarrow> 1 \<le> length a \<and> length a \<le> 1048576)
     \<and> oc_outcome r = ''succeeded''
     \<and> oc_reason_code r \<in> {''completed'', ''connection_admitted'', ''connection_denied'', ''session_revoked''}
     \<and> sql_time (oc_completed_at_unix_ms r)
     \<and> ((oc_method r = ''connect'' \<and> oc_session_effect r = ''connection_admitted'' \<and> oc_connection_id r \<noteq> None
            \<and> oc_reason_code r = ''connection_admitted'')
        \<or> (oc_method r = ''connect'' \<and> oc_session_effect r = ''none'' \<and> oc_connection_id r = None
            \<and> oc_reason_code r = ''connection_denied'')
        \<or> (oc_method r = ''logout'' \<and> oc_session_effect r = ''connection_revoked'' \<and> oc_connection_id r \<noteq> None
            \<and> oc_reason_code r = ''session_revoked'')
        \<or> (oc_method r \<notin> {''connect'', ''logout''} \<and> oc_session_effect r = ''none'' \<and> oc_connection_id r \<noteq> None
            \<and> oc_reason_code r = ''completed''))
     \<and> ((oc_method r \<in> set provider_methods \<and> oc_provider_operation_id r \<noteq> None)
        \<or> (oc_method r \<notin> set provider_methods \<and> oc_provider_operation_id r = None))
     \<and> ((oc_method r = ''sign_event'' \<and> oc_provider_artifact_kind r = ''signed_event''
            \<and> oc_provider_artifact_sha256 r \<noteq> None \<and> oc_provider_artifact r \<noteq> None)
        \<or> (oc_method r \<noteq> ''sign_event'' \<and> oc_provider_artifact_kind r = ''none''
            \<and> oc_provider_artifact_sha256 r = None \<and> oc_provider_artifact r = None))"

text \<open>
  The tables that a completion touches. Rows of \<open>nip46_operation_commits\<close> are never updated or deleted (its triggers).
\<close>

record completion_db =
  cm_connections :: connection_db
  cm_commits :: "commit_row list"

definition commit_insert_legal :: "connection_db \<Rightarrow> commit_row list \<Rightarrow> commit_row \<Rightarrow> bool" where
  "commit_insert_legal db t r \<longleftrightarrow> nip46_operation_commits_check r
     \<and> list_ex (\<lambda>q. q_operation_id q = oc_operation_id r) (n_requests db)
     \<and> (case oc_connection_id r of None \<Rightarrow> True | Some c \<Rightarrow> list_ex (\<lambda>x. c_connection_id x = c) (n_connections db))
     \<and> list_all (\<lambda>x. oc_operation_id x \<noteq> oc_operation_id r \<and> oc_correlation_id x \<noteq> oc_correlation_id r
          \<and> (oc_provider_operation_id r = None \<or> oc_provider_operation_id x \<noteq> oc_provider_operation_id r)) t"

definition insert_commit_sql :: "completion_db \<Rightarrow> commit_row \<Rightarrow> (completion_db \<times> nat) option" where
  "insert_commit_sql db r = map_option (\<lambda>(t, n). (db\<lparr>cm_commits := t\<rparr>, n))
     (sql_insert (commit_insert_legal (cm_connections db)) r (cm_commits db))"

section \<open>Columns\<close>

definition exact_bytes :: "bytes option \<Rightarrow> (OperationError, bytes) result" where
  "exact_bytes column = r_bind (ok_or Binding column) (\<lambda>b. if length b = 32 then Inr b else Inl Binding)"

text \<open>The type column of the statement tells a NULL of the table from an ill-sized value.\<close>

definition optional_exact_bytes :: "bytes option \<Rightarrow> (OperationError, bytes option) result" where
  "optional_exact_bytes column = (case column of None \<Rightarrow> Inr None
     | Some b \<Rightarrow> r_bind (exact_bytes (only_if (length b = 32) b)) (\<lambda>x. Inr (Some x)))"

definition optional_bounded_blob :: "bytes option \<Rightarrow> (OperationError, bytes option) result" where
  "optional_bounded_blob column = (case column of None \<Rightarrow> Inr None
     | Some b \<Rightarrow> r_bind (ok_or Binding (only_if (1 \<le> length b \<and> length b \<le> 1048576) b)) (\<lambda>x.
         if x \<noteq> [] \<and> length x \<le> MYC_PROVIDER_OUTPUT_MAX_BYTES then Inr (Some x) else Inl Binding))"

definition completion_text :: "string option \<Rightarrow> (OperationError, string) result" where
  "completion_text column = ok_or Binding column"

definition positive_i64 :: "int \<Rightarrow> (OperationError, nat) result" where
  "positive_i64 column = r_bind (ok_or Binding (u64_of_int column)) (\<lambda>value. if value \<noteq> 0 then Inr value else Inl Binding)"

definition completion_i64 :: "nat \<Rightarrow> (OperationError, int) result" where
  "completion_i64 value = ok_or Binding (i64_of_nat value)"

section \<open>The transaction body\<close>

definition verify_request :: "completion_db \<Rightarrow> MycNip46CommitRequest \<Rightarrow> (OperationError, unit) result" where
  "verify_request db request =
     (case take 2 (filter (\<lambda>q. q_operation_id q = srr_operation_id (cq_request request)) (n_requests (cm_connections db))) of
        [row] \<Rightarrow>
          r_bind (exact_bytes (only_if (length (q_correlation_id row) = 32) (q_correlation_id row))) (\<lambda>correlation.
          r_bind (completion_text (only_if (1 \<le> length (q_method row) \<and> length (q_method row) \<le> 32) (q_method row))) (\<lambda>request_method.
          r_bind (positive_i64 (q_received_at_unix_ms row)) (\<lambda>received_at.
          ensure Binding (correlation = srr_correlation_id (cq_request request)
            \<and> request_method = method_as_str (srr_method (cq_request request))
            \<and> received_at = srr_received_at (cq_request request) \<and> received_at \<le> cq_completed_at request))))
      | _ \<Rightarrow> Inl Binding)"

definition verify_connect_decision :: "completion_db \<Rightarrow> MycNip46CommitRequest \<Rightarrow> (OperationError, unit) result" where
  "verify_connect_decision db request = (case cq_connect_decision request of
     None \<Rightarrow> Inr ()
   | Some expected_decision \<Rightarrow>
     (case take 2 (filter (\<lambda>d. d_operation_id d = srr_operation_id (cq_request request)) (n_decisions (cm_connections db))) of
        [row] \<Rightarrow>
          r_bind (completion_text (only_if (length (d_decision row) \<le> 32) (d_decision row))) (\<lambda>decision.
          r_bind (optional_exact_bytes (d_connection_id row)) (\<lambda>connection.
          r_bind (case expected_decision of DecisionAllowed \<Rightarrow> Inr ''allowed'' | DecisionDenied \<Rightarrow> Inr ''denied''
              | _ \<Rightarrow> Inl Binding) (\<lambda>expected_text.
          ensure Binding (decision = expected_text \<and> connection = cq_connection_id request))))
      | _ \<Rightarrow> Inl Binding))"

definition revoke_session_where :: "bytes \<Rightarrow> int \<Rightarrow> connection_row \<Rightarrow> bool" where
  "revoke_session_where connection_id policy_generation r \<longleftrightarrow>
     c_connection_id r = connection_id \<and> c_status r = ''active'' \<and> c_policy_generation r = policy_generation"

definition revoke_session_set :: "int \<Rightarrow> connection_row \<Rightarrow> connection_row" where
  "revoke_session_set completed_at r =
     r\<lparr>c_status := ''expired'', c_updated_at_unix_ms := completed_at, c_authorized_until_unix_ms := None\<rparr>"

definition completion_require_one :: "nat \<Rightarrow> (OperationError, unit) result" where
  "completion_require_one rows = ensure Storage (rows = 1)"

definition completion_execute_one :: "('d \<times> nat) option \<Rightarrow> (OperationError, 'd) result" where
  "completion_execute_one st = r_bind (ok_or Storage st) (\<lambda>(db, n). r_bind (completion_require_one n) (\<lambda>_. Inr db))"

definition revoke_session_sql :: "completion_db \<Rightarrow> bytes \<Rightarrow> int \<Rightarrow> int \<Rightarrow> (completion_db \<times> nat) option" where
  "revoke_session_sql db connection_id policy_generation completed_at =
     map_option (\<lambda>(t, n). (db\<lparr>cm_connections := (cm_connections db)\<lparr>n_connections := t\<rparr>\<rparr>, n))
       (sql_update (revoke_session_where connection_id policy_generation) (revoke_session_set completed_at)
         connection_update_legal (n_connections (cm_connections db)))"

definition verify_or_apply_session_effect ::
    "completion_db \<Rightarrow> MycNip46CommitRequest \<Rightarrow> (OperationError, completion_db) result" where
  "verify_or_apply_session_effect db request = (case cq_connection_id request of
     None \<Rightarrow> r_bind (ensure Binding (cq_connection_generation request = None \<and> cq_session_effect request = EffectNone)) (\<lambda>_. Inr db)
   | Some connection_id \<Rightarrow>
     r_bind (ok_or Binding (cq_connection_generation request)) (\<lambda>generation.
     case take 2 (filter (\<lambda>c. c_connection_id c = connection_id) (n_connections (cm_connections db))) of
       [row] \<Rightarrow>
         r_bind (completion_text (only_if (length (c_status row) \<le> 16) (c_status row))) (\<lambda>status.
         r_bind (positive_i64 (c_policy_generation row)) (\<lambda>actual_generation.
         r_bind (positive_i64 (c_updated_at_unix_ms row)) (\<lambda>updated_at.
         if actual_generation \<noteq> generation \<or> cq_completed_at request < updated_at then Inl Binding else
         case cq_session_effect request of
           EffectConnectionRevoked \<Rightarrow>
             if status \<noteq> ''active'' then Inl Binding else
             r_bind (completion_i64 (cq_completed_at request)) (\<lambda>completed_at.
             r_bind (completion_i64 generation) (\<lambda>generation_column.
             completion_execute_one (revoke_session_sql db connection_id generation_column completed_at)))
         | _ \<Rightarrow> r_bind (ensure Binding (status = ''active'')) (\<lambda>_. Inr db))))
     | _ \<Rightarrow> Inl Binding))"

definition artifact_kind :: "bytes option \<Rightarrow> string" where
  "artifact_kind artifact = (if artifact \<noteq> None then ''signed_event'' else ''none'')"

definition read_commit :: "completion_db \<Rightarrow> MycNip46CommitRequest \<Rightarrow> (OperationError, MycNip46CommitRecord option) result" where
  "read_commit db request =
     (case take 2 (filter (\<lambda>r. oc_operation_id r = srr_operation_id (cq_request request)) (cm_commits db)) of
        [] \<Rightarrow> Inr None
      | [row] \<Rightarrow>
          r_bind (exact_bytes (only_if (length (oc_correlation_id row) = 32) (oc_correlation_id row))) (\<lambda>correlation.
          r_bind (r_bind (completion_text (only_if (1 \<le> length (oc_method row) \<and> length (oc_method row) \<le> 32) (oc_method row)))
            (\<lambda>value. ok_or Binding (method_parse value))) (\<lambda>request_method.
          r_bind (optional_exact_bytes (oc_connection_id row)) (\<lambda>connection.
          r_bind (r_bind (completion_text (only_if (length (oc_session_effect row) \<le> 32) (oc_session_effect row)))
            (\<lambda>value. ok_or Binding (session_effect_parse value))) (\<lambda>session_effect.
          r_bind (optional_exact_bytes (oc_provider_operation_id row)) (\<lambda>provider_operation.
          r_bind (completion_text (only_if (length (oc_provider_artifact_kind row) \<le> 16) (oc_provider_artifact_kind row))) (\<lambda>kind.
          r_bind (optional_exact_bytes (oc_provider_artifact_sha256 row)) (\<lambda>artifact_digest.
          r_bind (optional_bounded_blob (oc_provider_artifact row)) (\<lambda>artifact.
          r_bind (completion_text (only_if (length (oc_reason_code row) \<le> 32) (oc_reason_code row))) (\<lambda>reason.
          r_bind (completion_text (only_if (length (oc_outcome row) \<le> 16) (oc_outcome row))) (\<lambda>outcome.
          r_bind (positive_i64 (oc_completed_at_unix_ms row)) (\<lambda>completed_at.
          if \<not> (correlation = srr_correlation_id (cq_request request) \<and> request_method = srr_method (cq_request request)
               \<and> connection = cq_connection_id request \<and> session_effect = cq_session_effect request
               \<and> provider_operation = cq_provider_operation_id request \<and> artifact_digest = cq_artifact_sha256 request
               \<and> artifact = cq_artifact request \<and> kind = artifact_kind (cq_artifact request)
               \<and> reason = cq_reason_code request \<and> outcome = ''succeeded'' \<and> completed_at = cq_completed_at request)
          then Inl Binding
          else Inr (Some \<lparr>ncr_operation_id = srr_operation_id (cq_request request),
            ncr_correlation_id = srr_correlation_id (cq_request request), ncr_method = request_method,
            ncr_connection_id = cq_connection_id request, ncr_session_effect = session_effect,
            ncr_artifact_sha256 = artifact_digest, ncr_completed_at = cq_completed_at request\<rparr>))))))))))))
      | _ \<Rightarrow> Inl Binding)"

definition new_commit_row :: "MycNip46CommitRequest \<Rightarrow> int \<Rightarrow> commit_row" where
  "new_commit_row request completed_at =
     \<lparr>oc_operation_id = srr_operation_id (cq_request request), oc_correlation_id = srr_correlation_id (cq_request request),
       oc_method = method_as_str (srr_method (cq_request request)), oc_connection_id = cq_connection_id request,
       oc_session_effect = session_effect_as_str (cq_session_effect request),
       oc_provider_operation_id = cq_provider_operation_id request,
       oc_provider_artifact_kind = artifact_kind (cq_artifact request),
       oc_provider_artifact_sha256 = cq_artifact_sha256 request, oc_provider_artifact = cq_artifact request,
       oc_outcome = ''succeeded'', oc_reason_code = cq_reason_code request, oc_completed_at_unix_ms = completed_at\<rparr>"

definition commit_operation ::
    "completion_db \<Rightarrow> MycNip46CommitRequest \<Rightarrow> (OperationError, MycNip46CommitAdmission \<times> completion_db) result" where
  "commit_operation db request =
     r_bind (verify_request db request) (\<lambda>_.
     r_bind (read_commit db request) (\<lambda>existing.
     case existing of Some found \<Rightarrow> Inr (OperationExactReplay found, db) | None \<Rightarrow>
     r_bind (verify_connect_decision db request) (\<lambda>_.
     r_bind (verify_or_apply_session_effect db request) (\<lambda>db1.
     r_bind (completion_i64 (cq_completed_at request)) (\<lambda>completed_at.
     r_bind (completion_execute_one (insert_commit_sql db1 (new_commit_row request completed_at))) (\<lambda>db2.
     r_bind (read_commit db2 request) (\<lambda>stored.
     r_bind (ok_or Binding stored) (\<lambda>committed. Inr (OperationCommitted committed, db2)))))))))"

end
