(* ===== verification/Response_State.thy ===== *)
theory Response_State
  imports Completion_State
begin

text \<open>
  The response authority (\<^verbatim>\<open>src/src/state_response.rs\<close>): the completion of a request, the exact signed response and the
  delivery job of that response are committed in one transaction, the response that announces a pending approval in
  another. The tables \<open>nip46_signed_responses\<close> and \<open>nip46_pending_responses\<close> are those of the catalog
  (\<^verbatim>\<open>src/src/state_catalog.rs\<close>). Decoding, encoding and verification of an event are third-party code
  (\<open>provider_crates\<close>), SHA-256 is the parameter \<open>sha\<close>.
\<close>

definition NIP46_RPC_KIND :: nat where "NIP46_RPC_KIND = 24133"

datatype MycNip46ResponseCommitErrorKind = ResponseInvalidBinding | ResponseInvalid | ResponseInvalidTime

section \<open>The response event\<close>

definition validate_response_event ::
    "provider_crates \<Rightarrow> bytes \<Rightarrow> string \<Rightarrow> string option \<Rightarrow> (MycNip46ResponseCommitErrorKind, nostr_event) result" where
  "validate_response_event pc content client_public_key expected_responder =
     (if content = [] \<or> MYC_PROVIDER_OUTPUT_MAX_BYTES < length content then Inl ResponseInvalid else
     r_bind (ok_or ResponseInvalid (signed_parse pc content)) (\<lambda>event.
     r_bind (ok_or ResponseInvalid (signed_to_vec pc event)) (\<lambda>canonical.
     if canonical \<noteq> content \<or> ne_kind event \<noteq> NIP46_RPC_KIND \<or> ne_content event = []
        \<or> ne_tags event \<noteq> [[''p'', client_public_key]]
        \<or> (case expected_responder of None \<Rightarrow> False | Some expected \<Rightarrow> ne_pubkey_hex event \<noteq> expected)
        \<or> \<not> signed_verify pc event
     then Inl ResponseInvalid else Inr event)))"

section \<open>Requests\<close>

record MycNip46ResponseCommitRequest =
  rcq_completion :: MycNip46CommitRequest
  rcq_response_provider_operation_id :: bytes
  rcq_response_event_id :: bytes
  rcq_response_digest :: bytes
  rcq_response_bytes :: bytes
  rcq_authored_at_unix_s :: nat
  rcq_committed_at :: nat

definition authored_after :: "nat \<Rightarrow> nat \<Rightarrow> bool" where
  "authored_after authored_at_unix_s committed_at =
     (case checked_mul_u64 authored_at_unix_s 1000 of None \<Rightarrow> True | Some authored_ms \<Rightarrow> committed_at < authored_ms)"

definition response_commit_request_new ::
    "(bytes \<Rightarrow> bytes) \<Rightarrow> provider_crates \<Rightarrow> MycNip46CommitRequest \<Rightarrow> MycProviderOperation \<Rightarrow> MycVerifiedProviderResponse \<Rightarrow> nat
      \<Rightarrow> (MycNip46ResponseCommitErrorKind, MycNip46ResponseCommitRequest) result" where
  "response_commit_request_new sha pc completion operation response committed_at =
     (if po_role operation \<noteq> RoleTransport \<or> input_capability (po_input operation) \<noteq> CapSignEvent
         \<or> \<not> response_answers sha response operation
         \<or> po_operation_id operation = srr_operation_id (cq_request completion)
      then Inl ResponseInvalidBinding else
     r_bind (ok_or ResponseInvalid (signed_event_bytes response)) (\<lambda>content.
     r_bind (validate_response_event pc content (srr_client_public_key (cq_request completion))
       (Some (po_expected_identity operation))) (\<lambda>event.
     if committed_at < cq_completed_at completion \<or> authored_after (ne_created_at event) committed_at
     then Inl ResponseInvalidTime
     else Inr \<lparr>rcq_completion = completion, rcq_response_provider_operation_id = po_operation_id operation,
       rcq_response_event_id = ne_id event, rcq_response_digest = sha content, rcq_response_bytes = content,
       rcq_authored_at_unix_s = ne_created_at event, rcq_committed_at = committed_at\<rparr>)))"

record MycNip46PendingResponseCommitRequest =
  pcq_operation_id :: bytes
  pcq_connection_id :: bytes
  pcq_policy_generation :: nat
  pcq_client_public_key :: string
  pcq_decided_at_unix_ms :: nat
  pcq_response_provider_operation_id :: bytes
  pcq_response_event_id :: bytes
  pcq_response_digest :: bytes
  pcq_response_bytes :: bytes
  pcq_authored_at_unix_s :: nat
  pcq_committed_at :: nat

definition pending_response_commit_request_new ::
    "(bytes \<Rightarrow> bytes) \<Rightarrow> provider_crates \<Rightarrow> MycNip46Work \<Rightarrow> MycConnectionDecisionRecord \<Rightarrow> MycProviderOperation
      \<Rightarrow> MycVerifiedProviderResponse \<Rightarrow> nat \<Rightarrow> (MycNip46ResponseCommitErrorKind, MycNip46PendingResponseCommitRequest) result" where
  "pending_response_commit_request_new sha pc work decision operation response committed_at =
     r_bind (ok_or ResponseInvalidBinding (cd_connection decision)) (\<lambda>connection.
     if work_kind work \<noteq> KindConnect \<or> mw_method work \<noteq> MethodConnect
        \<or> cd_operation_id decision \<noteq> srr_operation_id (mw_request work)
        \<or> cd_decision decision \<noteq> DecisionPendingApproval
        \<or> cd_policy_generation decision \<noteq> cr_policy_generation connection
        \<or> cr_status connection \<noteq> ConnectionPending
        \<or> cr_client_public_key connection \<noteq> srr_client_public_key (mw_request work)
        \<or> po_role operation \<noteq> RoleTransport \<or> input_capability (po_input operation) \<noteq> CapSignEvent
        \<or> \<not> response_answers sha response operation
        \<or> po_operation_id operation = srr_operation_id (mw_request work)
     then Inl ResponseInvalidBinding else
     r_bind (ok_or ResponseInvalid (signed_event_bytes response)) (\<lambda>content.
     r_bind (validate_response_event pc content (srr_client_public_key (mw_request work))
       (Some (po_expected_identity operation))) (\<lambda>event.
     if committed_at < cd_decided_at decision \<or> authored_after (ne_created_at event) committed_at
     then Inl ResponseInvalidTime
     else Inr \<lparr>pcq_operation_id = srr_operation_id (mw_request work), pcq_connection_id = cr_id connection,
       pcq_policy_generation = cr_policy_generation connection, pcq_client_public_key = cr_client_public_key connection,
       pcq_decided_at_unix_ms = cd_decided_at decision,
       pcq_response_provider_operation_id = po_operation_id operation, pcq_response_event_id = ne_id event,
       pcq_response_digest = sha content, pcq_response_bytes = content, pcq_authored_at_unix_s = ne_created_at event,
       pcq_committed_at = committed_at\<rparr>)))"

section \<open>The tables\<close>

record response_row =
  rp_operation_id :: bytes
  rp_response_provider_operation_id :: bytes
  rp_response_event_id :: bytes
  rp_response_sha256 :: bytes
  rp_response_bytes :: bytes
  rp_authored_at_unix_s :: int
  rp_committed_at_unix_ms :: int

record pending_row =
  pn_operation_id :: bytes
  pn_connection_id :: bytes
  pn_response_kind :: string
  pn_response_provider_operation_id :: bytes
  pn_response_event_id :: bytes
  pn_response_sha256 :: bytes
  pn_response_bytes :: bytes
  pn_authored_at_unix_s :: int
  pn_committed_at_unix_ms :: int

text \<open>
  The tables of the response authority. \<open>nip46_requests\<close> is one table, kept whole in the connection tables and by its keys
  in the delivery tables. Rows of the two response tables are never updated or deleted (their triggers).
\<close>

record response_db =
  rd_completion :: completion_db
  rd_delivery :: delivery_db
  rd_responses :: "response_row list"
  rd_pending :: "pending_row list"

abbreviation rd_connections :: "response_db \<Rightarrow> connection_db" where
  "rd_connections db \<equiv> cm_connections (rd_completion db)"

definition nip46_signed_responses_check :: "response_row \<Rightarrow> bool" where
  "nip46_signed_responses_check r \<longleftrightarrow>
     length (rp_operation_id r) = 32 \<and> length (rp_response_provider_operation_id r) = 32
     \<and> length (rp_response_event_id r) = 32 \<and> length (rp_response_sha256 r) = 32
     \<and> 1 \<le> length (rp_response_bytes r) \<and> length (rp_response_bytes r) \<le> 1048576
     \<and> sql_time (rp_authored_at_unix_s r) \<and> sql_time (rp_committed_at_unix_ms r)"

definition nip46_signed_responses_guard_pending_insert :: "pending_row list \<Rightarrow> response_row \<Rightarrow> bool" where
  "nip46_signed_responses_guard_pending_insert ps new \<longleftrightarrow> list_ex (\<lambda>p. pn_operation_id p = rp_operation_id new
     \<or> pn_response_provider_operation_id p = rp_response_provider_operation_id new
     \<or> pn_response_event_id p = rp_response_event_id new) ps"

definition nip46_pending_responses_check :: "pending_row \<Rightarrow> bool" where
  "nip46_pending_responses_check r \<longleftrightarrow>
     length (pn_operation_id r) = 32 \<and> length (pn_connection_id r) = 32 \<and> pn_response_kind r = ''pending_approval''
     \<and> length (pn_response_provider_operation_id r) = 32 \<and> length (pn_response_event_id r) = 32
     \<and> length (pn_response_sha256 r) = 32
     \<and> 1 \<le> length (pn_response_bytes r) \<and> length (pn_response_bytes r) \<le> 1048576
     \<and> sql_time (pn_authored_at_unix_s r) \<and> sql_time (pn_committed_at_unix_ms r)"

text \<open>The join of decision, connection and request that both the trigger and the reader of a pending approval use.\<close>

definition pending_join :: "connection_db \<Rightarrow> bytes \<Rightarrow> (decision_row \<times> connection_row \<times> request_row) list" where
  "pending_join db operation_id =
     [(d, c, q). d \<leftarrow> filter (\<lambda>d. d_operation_id d = operation_id) (n_decisions db),
        c \<leftarrow> filter (\<lambda>c. d_connection_id d = Some (c_connection_id c)) (n_connections db),
        q \<leftarrow> filter (\<lambda>q. q_operation_id q = d_operation_id d \<and> c_client_public_key c = q_client_public_key q
          \<and> c_policy_generation c = d_policy_generation d
          \<and> c_requested_permissions_sha256 c = d_requested_permissions_sha256 d \<and> q_method q = ''connect'') (n_requests db)]"

definition nip46_pending_responses_guard_insert :: "connection_db \<Rightarrow> response_row list \<Rightarrow> pending_row \<Rightarrow> bool" where
  "nip46_pending_responses_guard_insert db rs new \<longleftrightarrow>
     \<not> list_ex (\<lambda>(d, c, q). d_connection_id d = Some (pn_connection_id new) \<and> d_decision d = ''pending_approval''
          \<and> d_reason_code d = ''explicit_approval_required'' \<and> c_status c = ''pending'') (pending_join db (pn_operation_id new))
     \<or> list_ex (\<lambda>r. rp_operation_id r = pn_operation_id new
          \<or> rp_response_provider_operation_id r = pn_response_provider_operation_id new
          \<or> rp_response_event_id r = pn_response_event_id new) rs"

definition response_insert_legal :: "response_db \<Rightarrow> response_row list \<Rightarrow> response_row \<Rightarrow> bool" where
  "response_insert_legal db t r \<longleftrightarrow>
     \<not> nip46_signed_responses_guard_pending_insert (rd_pending db) r \<and> nip46_signed_responses_check r
     \<and> list_ex (\<lambda>x. oc_operation_id x = rp_operation_id r) (cm_commits (rd_completion db))
     \<and> list_all (\<lambda>x. rp_operation_id x \<noteq> rp_operation_id r
          \<and> rp_response_provider_operation_id x \<noteq> rp_response_provider_operation_id r
          \<and> rp_response_event_id x \<noteq> rp_response_event_id r) t"

definition pending_insert_legal :: "response_db \<Rightarrow> pending_row list \<Rightarrow> pending_row \<Rightarrow> bool" where
  "pending_insert_legal db t r \<longleftrightarrow>
     \<not> nip46_pending_responses_guard_insert (rd_connections db) (rd_responses db) r \<and> nip46_pending_responses_check r
     \<and> list_ex (\<lambda>q. q_operation_id q = pn_operation_id r) (n_requests (rd_connections db))
     \<and> list_ex (\<lambda>c. c_connection_id c = pn_connection_id r) (n_connections (rd_connections db))
     \<and> list_all (\<lambda>x. pn_operation_id x \<noteq> pn_operation_id r
          \<and> pn_response_provider_operation_id x \<noteq> pn_response_provider_operation_id r
          \<and> pn_response_event_id x \<noteq> pn_response_event_id r) t"

definition insert_response_sql :: "response_db \<Rightarrow> response_row \<Rightarrow> (response_db \<times> nat) option" where
  "insert_response_sql db r = map_option (\<lambda>(t, n). (db\<lparr>rd_responses := t\<rparr>, n))
     (sql_insert (response_insert_legal db) r (rd_responses db))"

definition insert_pending_response_sql :: "response_db \<Rightarrow> pending_row \<Rightarrow> (response_db \<times> nat) option" where
  "insert_pending_response_sql db r = map_option (\<lambda>(t, n). (db\<lparr>rd_pending := t\<rparr>, n))
     (sql_insert (pending_insert_legal db) r (rd_pending db))"

section \<open>Reading a response\<close>

datatype ResponseAuthorityKind = AuthorityTerminal | AuthorityPendingApproval

definition authority_kind_parse :: "string \<Rightarrow> ResponseAuthorityKind option" where
  "authority_kind_parse value = (if value = ''terminal'' then Some AuthorityTerminal
     else if value = ''pending_approval'' then Some AuthorityPendingApproval else None)"

record MycNip46ResponseRecord =
  nrr_authority_kind :: ResponseAuthorityKind
  nrr_operation_id :: bytes
  nrr_response_provider_operation_id :: bytes
  nrr_response_event_id :: bytes
  nrr_response_digest :: bytes
  nrr_response_bytes :: bytes
  nrr_authored_at_unix_s :: nat
  nrr_committed_at :: nat
  nrr_delivery_job :: MycDeliveryJobRecord

text \<open>\<open>response_authority\<close>: the UNION ALL of the two tables, each row with its kind.\<close>

definition pending_as_response :: "pending_row \<Rightarrow> response_row" where
  "pending_as_response p =
     \<lparr>rp_operation_id = pn_operation_id p, rp_response_provider_operation_id = pn_response_provider_operation_id p,
       rp_response_event_id = pn_response_event_id p, rp_response_sha256 = pn_response_sha256 p,
       rp_response_bytes = pn_response_bytes p, rp_authored_at_unix_s = pn_authored_at_unix_s p,
       rp_committed_at_unix_ms = pn_committed_at_unix_ms p\<rparr>"

definition response_authority :: "response_db \<Rightarrow> (string \<times> response_row) list" where
  "response_authority db = map (\<lambda>r. (''terminal'', r)) (rd_responses db)
     @ map (\<lambda>p. (pn_response_kind p, pending_as_response p)) (rd_pending db)"

definition responses_by_operation :: "response_db \<Rightarrow> bytes \<Rightarrow> ((string \<times> response_row) \<times> request_row \<times> job_row) list" where
  "responses_by_operation db operation_id =
     [(r, q, j). r \<leftarrow> filter (\<lambda>r. rp_operation_id (snd r) = operation_id) (response_authority db),
        q \<leftarrow> filter (\<lambda>q. q_operation_id q = rp_operation_id (snd r)) (n_requests (rd_connections db)),
        j \<leftarrow> filter (\<lambda>j. j_source_kind j = ''signer_response'' \<and> j_source_id j = rp_operation_id (snd r))
          (delivery_jobs (rd_delivery db))]"

definition responses_by_job :: "response_db \<Rightarrow> bytes \<Rightarrow> ((string \<times> response_row) \<times> request_row \<times> job_row) list" where
  "responses_by_job db job_id =
     [(r, q, j). j \<leftarrow> filter (\<lambda>j. j_job_id j = job_id \<and> j_source_kind j = ''signer_response'') (delivery_jobs (rd_delivery db)),
        r \<leftarrow> filter (\<lambda>r. rp_operation_id (snd r) = j_source_id j) (response_authority db),
        q \<leftarrow> filter (\<lambda>q. q_operation_id q = rp_operation_id (snd r)) (n_requests (rd_connections db))]"

definition response_bounded_text :: "string option \<Rightarrow> nat \<Rightarrow> (OperationError, string) result" where
  "response_bounded_text column maximum_bytes =
     ok_or Binding (Option.bind column (\<lambda>value. only_if (value \<noteq> [] \<and> length value \<le> maximum_bytes) value))"

definition response_blob32 :: "bytes \<Rightarrow> (OperationError, bytes) result" where
  "response_blob32 column = r_bind (ok_or Binding (only_if (length column = 32) column)) (\<lambda>b. if length b = 32 then Inr b else Inl Binding)"

definition read_response ::
    "(bytes \<Rightarrow> bytes) \<Rightarrow> provider_crates \<Rightarrow> response_db \<Rightarrow> ((string \<times> response_row) \<times> request_row \<times> job_row) list
      \<Rightarrow> (OperationError, MycNip46ResponseRecord option) result" where
  "read_response sha pc db rows = (case take 2 rows of
     [] \<Rightarrow> Inr None
   | [((kind, row), q, j)] \<Rightarrow>
       r_bind (r_bind (response_bounded_text (only_if (length kind \<le> 16) kind) 16)
         (\<lambda>value. ok_or Binding (authority_kind_parse value))) (\<lambda>authority_kind.
       r_bind (response_blob32 (rp_operation_id row)) (\<lambda>operation_id.
       r_bind (response_blob32 (rp_response_provider_operation_id row)) (\<lambda>response_provider_operation_id.
       r_bind (response_blob32 (rp_response_event_id row)) (\<lambda>response_event_id.
       r_bind (response_blob32 (rp_response_sha256 row)) (\<lambda>response_digest.
       r_bind (ok_or Binding (only_if (1 \<le> length (rp_response_bytes row) \<and> length (rp_response_bytes row) \<le> 1048576)
         (rp_response_bytes row))) (\<lambda>response_bytes.
       r_bind (positive_i64 (rp_authored_at_unix_s row)) (\<lambda>authored_at_unix_s.
       r_bind (r_bind (positive_i64 (rp_committed_at_unix_ms row)) (\<lambda>value. map_err (\<lambda>_. Binding) (time_new value))) (\<lambda>committed_at.
       r_bind (ok_or Binding (only_if (length (q_client_public_key q) = 64) (q_client_public_key q))) (\<lambda>client_public_key.
       r_bind (response_blob32 (j_job_id j)) (\<lambda>job_id.
       r_bind (map_err (\<lambda>_. Binding) (validate_response_event pc response_bytes client_public_key None)) (\<lambda>event.
       if sha response_bytes \<noteq> response_digest \<or> ne_id event \<noteq> response_event_id \<or> ne_created_at event \<noteq> authored_at_unix_s
       then Inl Binding else
       r_bind (r_bind (read_job (rd_delivery db) job_id) (ok_or Binding)) (\<lambda>delivery_job.
       if job_operation_id delivery_job \<noteq> Some operation_id \<or> jr_artifact_digest delivery_job \<noteq> response_digest
          \<or> jr_created_at delivery_job \<noteq> committed_at
       then Inl Binding
       else Inr (Some \<lparr>nrr_authority_kind = authority_kind, nrr_operation_id = operation_id,
         nrr_response_provider_operation_id = response_provider_operation_id, nrr_response_event_id = response_event_id,
         nrr_response_digest = response_digest, nrr_response_bytes = response_bytes,
         nrr_authored_at_unix_s = authored_at_unix_s, nrr_committed_at = committed_at,
         nrr_delivery_job = delivery_job\<rparr>)))))))))))))
   | _ \<Rightarrow> Inl Binding)"

definition read_response_by_operation ::
    "(bytes \<Rightarrow> bytes) \<Rightarrow> provider_crates \<Rightarrow> response_db \<Rightarrow> bytes \<Rightarrow> (OperationError, MycNip46ResponseRecord option) result" where
  "read_response_by_operation sha pc db operation_id = read_response sha pc db (responses_by_operation db operation_id)"

definition read_response_by_job ::
    "(bytes \<Rightarrow> bytes) \<Rightarrow> provider_crates \<Rightarrow> response_db \<Rightarrow> bytes \<Rightarrow> (OperationError, MycNip46ResponseRecord option) result" where
  "read_response_by_job sha pc db job_id = read_response sha pc db (responses_by_job db job_id)"

definition verify_response_for_delivery_job ::
    "(bytes \<Rightarrow> bytes) \<Rightarrow> provider_crates \<Rightarrow> response_db \<Rightarrow> bytes \<Rightarrow> (OperationError, unit) result" where
  "verify_response_for_delivery_job sha pc db job_id =
     r_bind (read_response_by_job sha pc db job_id) (\<lambda>found. ok_or Binding (map_option (\<lambda>_. ()) found))"

section \<open>Committing a response\<close>

record MycNip46ResponseCommitRecord =
  rcr_completion :: MycNip46CommitRecord
  rcr_response :: MycNip46ResponseRecord

datatype MycNip46ResponseCommitAdmission = ResponseCommitted MycNip46ResponseCommitRecord
  | ResponseExactReplay MycNip46ResponseCommitRecord

fun response_admission_record :: "MycNip46ResponseCommitAdmission \<Rightarrow> MycNip46ResponseCommitRecord" where
  "response_admission_record (ResponseCommitted x) = x"
| "response_admission_record (ResponseExactReplay x) = x"

definition exact_response :: "MycNip46ResponseRecord \<Rightarrow> MycNip46ResponseCommitRequest \<Rightarrow> (OperationError, unit) result" where
  "exact_response response request = ensure Binding
     (nrr_authority_kind response = AuthorityTerminal
     \<and> nrr_operation_id response = srr_operation_id (cq_request (rcq_completion request))
     \<and> nrr_response_provider_operation_id response = rcq_response_provider_operation_id request
     \<and> nrr_response_event_id response = rcq_response_event_id request
     \<and> nrr_response_digest response = rcq_response_digest request
     \<and> nrr_response_bytes response = rcq_response_bytes request
     \<and> nrr_authored_at_unix_s response = rcq_authored_at_unix_s request
     \<and> nrr_committed_at response = rcq_committed_at request)"

definition exact_pending_response ::
    "MycNip46ResponseRecord \<Rightarrow> MycNip46PendingResponseCommitRequest \<Rightarrow> (OperationError, unit) result" where
  "exact_pending_response response request = ensure Binding
     (nrr_authority_kind response = AuthorityPendingApproval
     \<and> nrr_operation_id response = pcq_operation_id request
     \<and> nrr_response_provider_operation_id response = pcq_response_provider_operation_id request
     \<and> nrr_response_event_id response = pcq_response_event_id request
     \<and> nrr_response_digest response = pcq_response_digest request
     \<and> nrr_response_bytes response = pcq_response_bytes request
     \<and> nrr_authored_at_unix_s response = pcq_authored_at_unix_s request
     \<and> nrr_committed_at response = pcq_committed_at request)"

definition new_response_row :: "MycNip46ResponseCommitRequest \<Rightarrow> response_row" where
  "new_response_row request =
     \<lparr>rp_operation_id = srr_operation_id (cq_request (rcq_completion request)),
       rp_response_provider_operation_id = rcq_response_provider_operation_id request,
       rp_response_event_id = rcq_response_event_id request, rp_response_sha256 = rcq_response_digest request,
       rp_response_bytes = rcq_response_bytes request, rp_authored_at_unix_s = int (rcq_authored_at_unix_s request),
       rp_committed_at_unix_ms = int (rcq_committed_at request)\<rparr>"

definition insert_response :: "response_db \<Rightarrow> MycNip46ResponseCommitRequest \<Rightarrow> (OperationError, response_db) result" where
  "insert_response db request =
     r_bind (completion_i64 (rcq_authored_at_unix_s request)) (\<lambda>_.
     r_bind (completion_i64 (rcq_committed_at request)) (\<lambda>_.
     completion_execute_one (insert_response_sql db (new_response_row request))))"

definition new_pending_row :: "MycNip46PendingResponseCommitRequest \<Rightarrow> pending_row" where
  "new_pending_row request =
     \<lparr>pn_operation_id = pcq_operation_id request, pn_connection_id = pcq_connection_id request,
       pn_response_kind = ''pending_approval'', pn_response_provider_operation_id = pcq_response_provider_operation_id request,
       pn_response_event_id = pcq_response_event_id request, pn_response_sha256 = pcq_response_digest request,
       pn_response_bytes = pcq_response_bytes request, pn_authored_at_unix_s = int (pcq_authored_at_unix_s request),
       pn_committed_at_unix_ms = int (pcq_committed_at request)\<rparr>"

definition insert_pending_response ::
    "response_db \<Rightarrow> MycNip46PendingResponseCommitRequest \<Rightarrow> (OperationError, response_db) result" where
  "insert_pending_response db request =
     r_bind (completion_i64 (pcq_authored_at_unix_s request)) (\<lambda>_.
     r_bind (completion_i64 (pcq_committed_at request)) (\<lambda>_.
     completion_execute_one (insert_pending_response_sql db (new_pending_row request))))"

definition require_pending_binding ::
    "response_db \<Rightarrow> MycNip46PendingResponseCommitRequest \<Rightarrow> (OperationError, unit) result" where
  "require_pending_binding db request =
     (let rows = take 2 (pending_join (rd_connections db) (pcq_operation_id request))
      in if length rows \<noteq> 1 then Inl Binding else
     case hd rows of (d, c, q) \<Rightarrow>
     r_bind (ok_or Binding (Option.bind (d_connection_id d) (\<lambda>b. only_if (length b = 32) b))) (\<lambda>connection_id.
     r_bind (positive_i64 (d_policy_generation d)) (\<lambda>policy_generation.
     r_bind (positive_i64 (d_decided_at_unix_ms d)) (\<lambda>decided_at_unix_ms.
     r_bind (response_bounded_text (only_if (length (d_decision d) \<le> 32) (d_decision d)) 32) (\<lambda>decision.
     r_bind (response_bounded_text (only_if (length (d_reason_code d) \<le> 32) (d_reason_code d)) 32) (\<lambda>reason_code.
     r_bind (response_bounded_text (only_if (length (c_status c) \<le> 16) (c_status c)) 16) (\<lambda>connection_status.
     r_bind (response_bounded_text (only_if (length (c_client_public_key c) = 64) (c_client_public_key c)) 64) (\<lambda>client_public_key.
     ensure Binding (connection_id = pcq_connection_id request \<and> policy_generation = pcq_policy_generation request
       \<and> decided_at_unix_ms = pcq_decided_at_unix_ms request \<and> decision = ''pending_approval''
       \<and> reason_code = ''explicit_approval_required'' \<and> connection_status = ''pending''
       \<and> client_public_key = pcq_client_public_key request)))))))))"

text \<open>Running a part of the transaction on its tables.\<close>

definition on_completion ::
    "response_db \<Rightarrow> (OperationError, 'a \<times> completion_db) result \<Rightarrow> (OperationError, 'a \<times> response_db) result" where
  "on_completion db run = r_bind run (\<lambda>(x, c). Inr (x, db\<lparr>rd_completion := c\<rparr>))"

definition on_delivery ::
    "response_db \<Rightarrow> (OperationError, 'a \<times> delivery_db) result \<Rightarrow> (OperationError, 'a \<times> response_db) result" where
  "on_delivery db run = r_bind run (\<lambda>(x, d). Inr (x, db\<lparr>rd_delivery := d\<rparr>))"

text \<open>The delivery job of a response is created in the same transaction and must be new.\<close>

definition create_response_job ::
    "(bytes \<Rightarrow> bytes) \<Rightarrow> MycDeliveryPolicies \<Rightarrow> response_db \<Rightarrow> bytes \<Rightarrow> bytes \<Rightarrow> nat \<Rightarrow> (OperationError, response_db) result" where
  "create_response_job sha policy db operation_id digest committed_at =
     r_bind (on_delivery db (create_job sha (rd_delivery db) (source_signer_response operation_id) digest committed_at policy))
       (\<lambda>(delivery, db'). case delivery of Created _ \<Rightarrow> Inr db' | _ \<Rightarrow> Inl Binding)"

definition require_response ::
    "(bytes \<Rightarrow> bytes) \<Rightarrow> provider_crates \<Rightarrow> response_db \<Rightarrow> bytes \<Rightarrow> (OperationError, MycNip46ResponseRecord) result" where
  "require_response sha pc db operation_id = r_bind (read_response_by_operation sha pc db operation_id) (ok_or Binding)"

definition commit_nip46_response ::
    "(bytes \<Rightarrow> bytes) \<Rightarrow> provider_crates \<Rightarrow> PersistedMetadata \<Rightarrow> MycDeliveryPolicies \<Rightarrow> response_db \<Rightarrow> MycNip46ResponseCommitRequest
      \<Rightarrow> (OperationError, MycNip46ResponseCommitAdmission \<times> response_db) result" where
  "commit_nip46_response sha pc expected policy db request =
     (let operation_id = srr_operation_id (cq_request (rcq_completion request)) in
     r_bind (verify_metadata (rd_delivery db) expected) (\<lambda>_.
     r_bind (on_completion db (commit_operation (rd_completion db) (rcq_completion request))) (\<lambda>(admission, db1).
     case admission of
       OperationExactReplay completion \<Rightarrow>
         r_bind (require_response sha pc db1 operation_id) (\<lambda>response.
         r_bind (exact_response response request) (\<lambda>_.
         Inr (ResponseExactReplay \<lparr>rcr_completion = completion, rcr_response = response\<rparr>, db1)))
     | OperationCommitted completion \<Rightarrow>
         r_bind (insert_response db1 request) (\<lambda>db2.
         r_bind (create_response_job sha policy db2 operation_id (rcq_response_digest request) (rcq_committed_at request)) (\<lambda>db3.
         r_bind (require_response sha pc db3 operation_id) (\<lambda>response.
         r_bind (exact_response response request) (\<lambda>_.
         Inr (ResponseCommitted \<lparr>rcr_completion = completion, rcr_response = response\<rparr>, db3))))))))"

definition commit_nip46_pending_response ::
    "(bytes \<Rightarrow> bytes) \<Rightarrow> provider_crates \<Rightarrow> PersistedMetadata \<Rightarrow> MycDeliveryPolicies \<Rightarrow> response_db \<Rightarrow> MycNip46PendingResponseCommitRequest
      \<Rightarrow> (OperationError, MycNip46ResponseRecord \<times> response_db) result" where
  "commit_nip46_pending_response sha pc expected policy db request =
     r_bind (verify_metadata (rd_delivery db) expected) (\<lambda>_.
     r_bind (require_pending_binding db request) (\<lambda>_.
     r_bind (read_response_by_operation sha pc db (pcq_operation_id request)) (\<lambda>existing.
     case existing of
       Some response \<Rightarrow> r_bind (exact_pending_response response request) (\<lambda>_. Inr (response, db))
     | None \<Rightarrow>
         r_bind (insert_pending_response db request) (\<lambda>db1.
         r_bind (create_response_job sha policy db1 (pcq_operation_id request) (pcq_response_digest request) (pcq_committed_at request)) (\<lambda>db2.
         r_bind (require_response sha pc db2 (pcq_operation_id request)) (\<lambda>response.
         r_bind (exact_pending_response response request) (\<lambda>_. Inr (response, db2))))))))"

definition read_nip46_response ::
    "(bytes \<Rightarrow> bytes) \<Rightarrow> provider_crates \<Rightarrow> PersistedMetadata \<Rightarrow> response_db \<Rightarrow> bytes
      \<Rightarrow> (OperationError, MycNip46ResponseRecord option) result" where
  "read_nip46_response sha pc expected db job_id =
     r_bind (verify_metadata (rd_delivery db) expected) (\<lambda>_. read_response_by_job sha pc db job_id)"

definition read_nip46_response_by_operation ::
    "(bytes \<Rightarrow> bytes) \<Rightarrow> provider_crates \<Rightarrow> PersistedMetadata \<Rightarrow> response_db \<Rightarrow> bytes
      \<Rightarrow> (OperationError, MycNip46ResponseRecord option) result" where
  "read_nip46_response_by_operation sha pc expected db operation_id =
     r_bind (verify_metadata (rd_delivery db) expected) (\<lambda>_. read_response_by_operation sha pc db operation_id)"

section \<open>The bytes that the delivery worker reads\<close>

text \<open>
  The reads of \<open>read_exact_event\<close> (\<^verbatim>\<open>src/src/delivery_worker.rs\<close>): a signer response comes from the response authority, and only
  when its record names the same job; the document of a discovery job comes from \<open>read_discovery_document\<close>, which stands for
  the discovery authority. It is what the worker's \<open>stored\<close> returns for a job; the digest check follows in \<open>read_exact_event\<close>.
\<close>

definition retained_bytes ::
    "(bytes \<Rightarrow> bytes) \<Rightarrow> provider_crates \<Rightarrow> PersistedMetadata \<Rightarrow> (bytes \<Rightarrow> (OperationError, bytes option) result) \<Rightarrow> response_db
      \<Rightarrow> MycDeliveryJobRecord \<Rightarrow> (OperationError, bytes option) result" where
  "retained_bytes sha pc expected read_discovery_document db job = (case src_kind (jr_source job) of
     SignerResponse \<Rightarrow> r_bind (read_nip46_response sha pc expected db (jr_id job)) (\<lambda>found.
       Inr (Option.bind found (\<lambda>r. only_if (jr_id (nrr_delivery_job r) = jr_id job) (nrr_response_bytes r))))
   | DiscoveryHandler \<Rightarrow> read_discovery_document (jr_id job))"

end
