(* ===== verification/Response_Effects.thy ===== *)
theory Response_Effects
  imports Response_State Connection_Lifecycle Delivery_Progress
begin

text \<open>
  What a completion and a response commit that return have done (\<^verbatim>\<open>src/src/state_completion.rs\<close>,
  \<^verbatim>\<open>src/src/state_response.rs\<close>): the rows they found, the rows they appended, and the record they read back.
\<close>

section \<open>Columns and single rows\<close>

lemma take_2_single: "take 2 xs = [x] \<longleftrightarrow> xs = [x]"
  by (cases xs; cases "tl xs") auto

lemma filter_singleD: "filter P xs = [x] \<Longrightarrow> x \<in> set xs \<and> P x"
  by (drule arg_cong [where f = set]) auto

lemma at_most_one_cases:
  obtains (none) "xs = []" | (one) x where "xs = [x]" | (more) x y zs where "xs = x # y # zs"
  by (cases xs; cases "tl xs") auto

lemma exact_bytes_Inr [simp]: "exact_bytes (only_if p b) = Inr x \<longleftrightarrow> x = b \<and> p \<and> length b = 32"
  by (auto simp: exact_bytes_def r_bind_Inr_iff only_if_def)

lemma optional_exact_bytes_Inr [simp]:
  "optional_exact_bytes c = Inr r \<longleftrightarrow> r = c \<and> (\<forall>b. c = Some b \<longrightarrow> length b = 32)"
  by (cases c) (auto simp: optional_exact_bytes_def r_bind_Inr_iff)

lemma optional_bounded_blob_Inr [simp]:
  "optional_bounded_blob c = Inr r \<longleftrightarrow> r = c \<and> (\<forall>b. c = Some b \<longrightarrow> 1 \<le> length b \<and> length b \<le> 1048576)"
  by (cases c) (auto simp: optional_bounded_blob_def r_bind_Inr_iff MYC_PROVIDER_OUTPUT_MAX_BYTES_def split: if_splits)

lemma completion_text_Inr [simp]: "completion_text (only_if p s) = Inr x \<longleftrightarrow> x = s \<and> p"
  by (auto simp: completion_text_def)

lemma response_bounded_text_Inr [simp]:
  "response_bounded_text (only_if p s) n = Inr x \<longleftrightarrow> x = s \<and> p \<and> s \<noteq> [] \<and> length s \<le> n"
  by (auto simp: response_bounded_text_def only_if_def split: bind_splits)

lemma response_blob32_Inr [simp]: "response_blob32 b = Inr x \<longleftrightarrow> x = b \<and> length b = 32"
  by (auto simp: response_blob32_def r_bind_Inr_iff only_if_def)

lemma positive_i64_Inr [simp]: "positive_i64 v = Inr n \<longleftrightarrow> v = int n \<and> 0 < n \<and> n \<le> u64_max"
  by (auto simp: positive_i64_def r_bind_Inr_iff split: if_splits)

lemma completion_i64_Inr [simp]: "completion_i64 n = Inr v \<longleftrightarrow> v = int n \<and> n \<le> i64_max"
  by (simp add: completion_i64_def)

lemma completion_execute_one_Inr: "completion_execute_one st = Inr db \<longleftrightarrow> st = Some (db, 1)"
  by (auto simp: completion_execute_one_def completion_require_one_def r_bind_Inr_iff split: prod.splits)

section \<open>The completion\<close>

definition commit_record :: "MycNip46CommitRequest \<Rightarrow> MycNip46CommitRecord" where
  "commit_record rq = \<lparr>ncr_operation_id = srr_operation_id (cq_request rq), ncr_correlation_id = srr_correlation_id (cq_request rq),
     ncr_method = srr_method (cq_request rq), ncr_connection_id = cq_connection_id rq, ncr_session_effect = cq_session_effect rq,
     ncr_artifact_sha256 = cq_artifact_sha256 rq, ncr_completed_at = cq_completed_at rq\<rparr>"

abbreviation stored_commit :: "MycNip46CommitRequest \<Rightarrow> commit_row" where
  "stored_commit rq \<equiv> new_commit_row rq (int (cq_completed_at rq))"

text \<open>The columns of the row that the reader accepts.\<close>

definition commit_readable :: "MycNip46CommitRequest \<Rightarrow> bool" where
  "commit_readable rq \<longleftrightarrow> length (srr_correlation_id (cq_request rq)) = 32
     \<and> (\<forall>c. cq_connection_id rq = Some c \<longrightarrow> length c = 32) \<and> (\<forall>p. cq_provider_operation_id rq = Some p \<longrightarrow> length p = 32)
     \<and> (\<forall>d. cq_artifact_sha256 rq = Some d \<longrightarrow> length d = 32)
     \<and> (\<forall>a. cq_artifact rq = Some a \<longrightarrow> 1 \<le> length a \<and> length a \<le> 1048576)
     \<and> length (cq_reason_code rq) \<le> 32 \<and> 0 < cq_completed_at rq \<and> cq_completed_at rq \<le> u64_max"

lemma commit_method_length: "1 \<le> length (method_as_str m) \<and> length (method_as_str m) \<le> 32"
  by (cases m) simp_all

lemma session_effect_length: "length (session_effect_as_str e) \<le> 32"
  by (cases e) simp_all

lemma artifact_kind_length: "length (artifact_kind a) \<le> 16"
  by (simp add: artifact_kind_def)

lemma read_commit_Some:
  "read_commit db rq = Inr (Some r) \<longleftrightarrow>
     filter (\<lambda>r. oc_operation_id r = srr_operation_id (cq_request rq)) (cm_commits db) = [stored_commit rq]
     \<and> commit_readable rq \<and> r = commit_record rq"
proof -
  let ?rows = "filter (\<lambda>r. oc_operation_id r = srr_operation_id (cq_request rq)) (cm_commits db)"
  have row: "row = stored_commit rq" if "oc_operation_id row = srr_operation_id (cq_request rq)"
    "oc_correlation_id row = srr_correlation_id (cq_request rq)" "oc_method row = method_as_str (srr_method (cq_request rq))"
    "oc_connection_id row = cq_connection_id rq" "oc_session_effect row = session_effect_as_str (cq_session_effect rq)"
    "oc_provider_operation_id row = cq_provider_operation_id rq" "oc_provider_artifact_sha256 row = cq_artifact_sha256 rq"
    "oc_provider_artifact row = cq_artifact rq" "oc_provider_artifact_kind row = artifact_kind (cq_artifact rq)"
    "oc_reason_code row = cq_reason_code rq" "oc_outcome row = ''succeeded''" "oc_completed_at_unix_ms row = int (cq_completed_at rq)" for row
    using that by (cases row) (simp add: new_commit_row_def)
  show ?thesis
  proof (cases ?rows rule: at_most_one_cases)
    case (one row)
    then have op: "oc_operation_id row = srr_operation_id (cq_request rq)" by (blast dest: filter_singleD)
    show ?thesis
    proof
      assume "read_commit db rq = Inr (Some r)"
      then show "?rows = [stored_commit rq] \<and> commit_readable rq \<and> r = commit_record rq"
        using op unfolding read_commit_def one
        by (auto simp: r_bind_Inr_iff signer_method.parse_Some_iff session_effect.parse_Some_iff commit_readable_def
          commit_record_def one intro!: row split: if_splits)
    next
      assume "?rows = [stored_commit rq] \<and> commit_readable rq \<and> r = commit_record rq"
      then show "read_commit db rq = Inr (Some r)"
        using commit_method_length session_effect_length artifact_kind_length unfolding read_commit_def
        by (simp add: r_bind_Inr_iff signer_method.parse_as_str session_effect.parse_as_str commit_readable_def new_commit_row_def
          commit_record_def)
    qed
  qed (simp_all add: read_commit_def)
qed

lemma read_commit_None:
  "read_commit db rq = Inr None \<longleftrightarrow> filter (\<lambda>r. oc_operation_id r = srr_operation_id (cq_request rq)) (cm_commits db) = []"
proof -
  let ?rows = "filter (\<lambda>r. oc_operation_id r = srr_operation_id (cq_request rq)) (cm_commits db)"
  show ?thesis by (cases ?rows rule: at_most_one_cases) (auto simp: read_commit_def r_bind_Inr_iff split: if_splits)
qed

lemma verify_request_Inr:
  "verify_request db rq = Inr u \<longleftrightarrow>
     (\<exists>q. filter (\<lambda>q. q_operation_id q = srr_operation_id (cq_request rq)) (n_requests (cm_connections db)) = [q]
        \<and> q_correlation_id q = srr_correlation_id (cq_request rq) \<and> length (q_correlation_id q) = 32
        \<and> q_method q = method_as_str (srr_method (cq_request rq))
        \<and> q_received_at_unix_ms q = int (srr_received_at (cq_request rq)) \<and> 0 < srr_received_at (cq_request rq)
        \<and> srr_received_at (cq_request rq) \<le> u64_max \<and> srr_received_at (cq_request rq) \<le> cq_completed_at rq)"
proof -
  let ?rows = "filter (\<lambda>q. q_operation_id q = srr_operation_id (cq_request rq)) (n_requests (cm_connections db))"
  show ?thesis by (cases ?rows rule: at_most_one_cases) (use commit_method_length in \<open>auto simp: verify_request_def r_bind_Inr_iff\<close>)
qed

lemma revoke_set_expires: "revoke_session_set t = expire_connection_set t"
  by (simp add: fun_eq_iff revoke_session_set_def expire_connection_set_def)

text \<open>The connection that a completion relies on: active, of the generation of the work, not younger than the completion.\<close>

definition session_row :: "completion_db \<Rightarrow> MycNip46CommitRequest \<Rightarrow> connection_row \<Rightarrow> bool" where
  "session_row db rq c \<longleftrightarrow>
     filter (\<lambda>x. c_connection_id x = c_connection_id c) (n_connections (cm_connections db)) = [c]
     \<and> cq_connection_id rq = Some (c_connection_id c) \<and> c_status c = ''active''
     \<and> cq_connection_generation rq = Some (nat (c_policy_generation c)) \<and> 0 < c_policy_generation c
     \<and> c_updated_at_unix_ms c \<le> int (cq_completed_at rq)"

lemma session_row_in: "session_row db rq c \<Longrightarrow> c \<in> set (n_connections (cm_connections db))"
  unfolding session_row_def by (blast dest: filter_singleD)

lemma session_row_bound: "session_row db rq c \<Longrightarrow> cq_connection_id rq = Some (c_connection_id c)"
  by (simp add: session_row_def)

lemma revoke_sql_Inr:
  assumes "filter (\<lambda>x. c_connection_id x = i) (n_connections (cm_connections db)) = [c]" and "c_status c = ''active''"
    and "c_policy_generation c = g"
    and "completion_execute_one (revoke_session_sql db i g t) = Inr db'"
  shows "connection_update_legal c (expire_connection_set t c)"
    and "db' = db\<lparr>cm_connections := (cm_connections db)\<lparr>n_connections := swap_row c (expire_connection_set t c) (n_connections (cm_connections db))\<rparr>\<rparr>"
proof -
  let ?t = "n_connections (cm_connections db)" and ?w = "revoke_session_where i g"
  have c: "c \<in> set ?t" "c_connection_id c = i" using filter_singleD [OF assms(1)] by simp_all
  have w: "?w c" using assms(2,3) c(2) by (simp add: revoke_session_where_def)
  have only: "x = c" if "x \<in> set ?t" "?w x" for x
  proof -
    have "x \<in> set (filter (\<lambda>x. c_connection_id x = i) ?t)" using that by (simp add: revoke_session_where_def)
    then show ?thesis unfolding assms(1) by simp
  qed
  from assms(4) obtain t' where u: "sql_update ?w (revoke_session_set t) connection_update_legal ?t = Some (t', 1)"
    and db': "db' = db\<lparr>cm_connections := (cm_connections db)\<lparr>n_connections := t'\<rparr>\<rparr>"
    by (auto simp: completion_execute_one_Inr revoke_session_sql_def)
  note S = sql_update_SomeD [OF u]
  show "connection_update_legal c (expire_connection_set t c)" using S(3) [OF c(1) w] by (simp add: revoke_set_expires)
  have "map (upd_row ?w (revoke_session_set t)) ?t = swap_row c (expire_connection_set t c) ?t"
    unfolding swap_row_def
  proof (rule map_cong [OF refl])
    fix x assume "x \<in> set ?t"
    then show "upd_row ?w (revoke_session_set t) x = (if x = c then expire_connection_set t c else x)"
      using only [of x] w by (cases "?w x") (auto simp: upd_row_def revoke_set_expires)
  qed
  then show "db' = db\<lparr>cm_connections := (cm_connections db)\<lparr>n_connections := swap_row c (expire_connection_set t c) (n_connections (cm_connections db))\<rparr>\<rparr>"
    unfolding db' S(1) by simp
qed

lemma session_effect_Inr:
  assumes "verify_or_apply_session_effect db rq = Inr db'"
  obtains (unbound) "cq_connection_id rq = None" "cq_connection_generation rq = None" "cq_session_effect rq = EffectNone" "db' = db"
  | (kept) c where "session_row db rq c" "cq_session_effect rq \<noteq> EffectConnectionRevoked" "db' = db"
  | (revoked) c where "session_row db rq c" "cq_session_effect rq = EffectConnectionRevoked"
      "connection_update_legal c (expire_connection_set (int (cq_completed_at rq)) c)"
      "db' = db\<lparr>cm_connections := expired_db (cm_connections db) c (cq_completed_at rq)\<rparr>"
proof (cases "cq_connection_id rq")
  case None
  with assms show thesis by (intro unbound) (auto simp: verify_or_apply_session_effect_def r_bind_Inr_iff)
next
  case (Some i)
  let ?rows = "filter (\<lambda>c. c_connection_id c = i) (n_connections (cm_connections db))"
  from assms Some obtain g where g: "cq_connection_generation rq = Some g"
    by (auto simp: verify_or_apply_session_effect_def r_bind_Inr_iff)
  have "\<exists>c. ?rows = [c]"
    using assms Some g by (cases ?rows rule: at_most_one_cases) (auto simp: verify_or_apply_session_effect_def)
  then obtain c where rows: "?rows = [c]" ..
  then have i: "c_connection_id c = i" by (blast dest: filter_singleD)
  from assms Some g rows have facts: "c_status c = ''active''" "c_policy_generation c = int g" "0 < g"
    "c_updated_at_unix_ms c \<le> int (cq_completed_at rq)"
    by (auto simp: verify_or_apply_session_effect_def r_bind_Inr_iff split: if_splits MycNip46SessionEffect.splits)
  then have s: "session_row db rq c" using rows i Some g by (simp add: session_row_def)
  show thesis
  proof (cases "cq_session_effect rq = EffectConnectionRevoked")
    case True
    then have e: "completion_execute_one (revoke_session_sql db i (int g) (int (cq_completed_at rq))) = Inr db'"
      using assms Some g rows facts by (auto simp: verify_or_apply_session_effect_def r_bind_Inr_iff split: if_splits)
    from revoke_sql_Inr [OF rows facts(1,2) e] s True show thesis by (intro revoked) (simp_all add: expired_db_def)
  next
    case False
    then have "db' = db" using assms Some g rows
      by (auto simp: verify_or_apply_session_effect_def r_bind_Inr_iff split: if_splits MycNip46SessionEffect.splits)
    with s False show thesis by (intro kept)
  qed
qed

text \<open>The connection tables after a completion.\<close>

definition session_after :: "connection_db \<Rightarrow> MycNip46CommitRequest \<Rightarrow> connection_db \<Rightarrow> bool" where
  "session_after db rq db' \<longleftrightarrow> (if cq_session_effect rq = EffectConnectionRevoked
     then \<exists>c\<in>set (n_connections db). cq_connection_id rq = Some (c_connection_id c)
        \<and> connection_update_legal c (expire_connection_set (int (cq_completed_at rq)) c)
        \<and> db' = expired_db db c (cq_completed_at rq)
     else db' = db)"

lemma commit_operation_Inr:
  assumes "commit_operation db rq = Inr (a, db')"
  obtains (replay) "a = OperationExactReplay (commit_record rq)" "db' = db" "verify_request db rq = Inr ()"
      "read_commit db rq = Inr (Some (commit_record rq))"
  | (committed) connections where "a = OperationCommitted (commit_record rq)" "verify_request db rq = Inr ()"
      "read_commit db rq = Inr None" "verify_connect_decision db rq = Inr ()"
      "cq_connection_id rq = None \<and> cq_session_effect rq = EffectNone \<or> (\<exists>c. session_row db rq c)"
      "session_after (cm_connections db) rq connections" "commit_insert_legal connections (cm_commits db) (stored_commit rq)"
      "db' = \<lparr>cm_connections = connections, cm_commits = cm_commits db @ [stored_commit rq]\<rparr>"
      "read_commit db' rq = Inr (Some (commit_record rq))"
proof -
  from assms obtain existing where v: "verify_request db rq = Inr ()" and ex: "read_commit db rq = Inr existing"
    by (auto simp: commit_operation_def r_bind_Inr_iff)
  show thesis
  proof (cases existing)
    case (Some found)
    then have "found = commit_record rq" using ex by (simp add: read_commit_Some)
    with assms v ex Some show thesis by (intro replay) (auto simp: commit_operation_def)
  next
    case None
    from assms v ex None obtain db1 stored where d: "verify_connect_decision db rq = Inr ()"
      and e: "verify_or_apply_session_effect db rq = Inr db1"
      and w: "completion_execute_one (insert_commit_sql db1 (stored_commit rq)) = Inr db'"
      and r: "read_commit db' rq = Inr (Some stored)" "a = OperationCommitted stored"
      by (auto simp: commit_operation_def r_bind_Inr_iff)
    have stored: "stored = commit_record rq" using r(1) by (simp add: read_commit_Some)
    from e have after: "session_after (cm_connections db) rq (cm_connections db1) \<and> cm_commits db1 = cm_commits db"
      and row: "cq_connection_id rq = None \<and> cq_session_effect rq = EffectNone \<or> (\<exists>c. session_row db rq c)"
      by (cases rule: session_effect_Inr; auto simp: session_after_def dest: session_row_in session_row_bound)+
    from w have "commit_insert_legal (cm_connections db1) (cm_commits db) (stored_commit rq)"
      "db' = db1\<lparr>cm_commits := cm_commits db @ [stored_commit rq]\<rparr>"
      using after by (auto simp: completion_execute_one_Inr insert_commit_sql_def)
    with v ex None d row after r stored show thesis by (intro committed [of "cm_connections db1"]) (simp_all)
  qed
qed

section \<open>Reading a response\<close>

definition response_record :: "ResponseAuthorityKind \<Rightarrow> response_row \<Rightarrow> MycDeliveryJobRecord \<Rightarrow> MycNip46ResponseRecord" where
  "response_record kind r job = \<lparr>nrr_authority_kind = kind, nrr_operation_id = rp_operation_id r,
     nrr_response_provider_operation_id = rp_response_provider_operation_id r, nrr_response_event_id = rp_response_event_id r,
     nrr_response_digest = rp_response_sha256 r, nrr_response_bytes = rp_response_bytes r,
     nrr_authored_at_unix_s = nat (rp_authored_at_unix_s r), nrr_committed_at = nat (rp_committed_at_unix_ms r),
     nrr_delivery_job = job\<rparr>"

text \<open>The stored bytes are the verified event that the row names, addressed to the client.\<close>

definition retained_event :: "(bytes \<Rightarrow> bytes) \<Rightarrow> provider_crates \<Rightarrow> string \<Rightarrow> response_row \<Rightarrow> bool" where
  "retained_event sha pc client r \<longleftrightarrow> sha (rp_response_bytes r) = rp_response_sha256 r
     \<and> (\<exists>event. validate_response_event pc (rp_response_bytes r) client None = Inr event
          \<and> ne_id event = rp_response_event_id r \<and> int (ne_created_at event) = rp_authored_at_unix_s r)"

lemma authority_kind_length: "authority_kind_parse kind = Some k \<Longrightarrow> kind \<noteq> [] \<and> length kind \<le> 16"
  by (auto simp: authority_kind_parse_def split: if_splits)

lemma positive_i64_sql: "sql_time v \<Longrightarrow> positive_i64 v = Inr (nat v)"
  by (simp add: sql_time_def int_width_defs nat_le_iff)

lemma time_new_sql: "sql_time v \<Longrightarrow> time_new (nat v) = Inr (nat v)"
  using time_col_nat [of v] by (auto simp: sql_time_def time_col_def r_bind_Inr_iff)

lemma read_response_single:
  assumes "nip46_signed_responses_check r"
  shows "read_response sha pc db [((kind, r), q, j)] = Inr x \<longleftrightarrow>
    (\<exists>k job. authority_kind_parse kind = Some k \<and> length (q_client_public_key q) = 64 \<and> length (j_job_id j) = 32
       \<and> retained_event sha pc (q_client_public_key q) r
       \<and> read_job (rd_delivery db) (j_job_id j) = Inr (Some job) \<and> job_operation_id job = Some (rp_operation_id r)
       \<and> jr_artifact_digest job = rp_response_sha256 r \<and> int (jr_created_at job) = rp_committed_at_unix_ms r
       \<and> x = Some (response_record k r job))"
proof -
  note C = assms [unfolded nip46_signed_responses_check_def]
  have t: "positive_i64 (rp_authored_at_unix_s r) = Inr (nat (rp_authored_at_unix_s r))"
    "positive_i64 (rp_committed_at_unix_ms r) = Inr (nat (rp_committed_at_unix_ms r))"
    "time_new (nat (rp_committed_at_unix_ms r)) = Inr (nat (rp_committed_at_unix_ms r))"
    using C positive_i64_sql time_new_sql by blast+
  have n: "int m = rp_authored_at_unix_s r \<longleftrightarrow> m = nat (rp_authored_at_unix_s r)"
    "int m = rp_committed_at_unix_ms r \<longleftrightarrow> m = nat (rp_committed_at_unix_ms r)" for m
    using C by (auto simp: sql_time_def)
  have c: "response_blob32 (rp_operation_id r) = Inr (rp_operation_id r)"
    "response_blob32 (rp_response_provider_operation_id r) = Inr (rp_response_provider_operation_id r)"
    "response_blob32 (rp_response_event_id r) = Inr (rp_response_event_id r)"
    "response_blob32 (rp_response_sha256 r) = Inr (rp_response_sha256 r)"
    "ok_or Binding (only_if (1 \<le> length (rp_response_bytes r) \<and> length (rp_response_bytes r) \<le> 1048576) (rp_response_bytes r))
      = Inr (rp_response_bytes r)"
    using C by (simp_all add: only_if_def)
  have k: "r_bind (response_bounded_text (only_if (length kind \<le> 16) kind) 16) (\<lambda>value. ok_or Binding (authority_kind_parse value)) = Inr k
    \<longleftrightarrow> authority_kind_parse kind = Some k" for k
    using authority_kind_length by (auto simp: r_bind_Inr_iff)
  show ?thesis
    unfolding read_response_def
    by (simp only: c t take_2_single list.case prod.case r_bind_simps take_Cons_numeral take_Nil list.simps)
       (use authority_kind_length [of kind] in
         \<open>auto simp: r_bind_Inr_iff k [simplified r_bind_Inr_iff] n retained_event_def response_record_def split: if_splits\<close>)
qed

lemma read_response_Some_rows:
  assumes "read_response sha pc db rows = Inr (Some x)"
  obtains kind r q j where "rows = [((kind, r), q, j)]"
  using assms by (cases rows rule: at_most_one_cases) (auto simp: read_response_def)

section \<open>Committing a response\<close>

abbreviation rcq_operation_id :: "MycNip46ResponseCommitRequest \<Rightarrow> bytes" where
  "rcq_operation_id rq \<equiv> srr_operation_id (cq_request (rcq_completion rq))"

text \<open>The delivery job of an answer and its targets.\<close>

definition answer_job :: "(bytes \<Rightarrow> bytes) \<Rightarrow> MycDeliveryPolicies \<Rightarrow> bytes \<Rightarrow> bytes \<Rightarrow> nat \<Rightarrow> job_row" where
  "answer_job sha policy op digest at = new_job_row (derive_job_id sha (source_signer_response op) digest)
     (source_signer_response op) digest at policy"

definition with_answer_job ::
    "(bytes \<Rightarrow> bytes) \<Rightarrow> MycDeliveryPolicies \<Rightarrow> bytes \<Rightarrow> bytes \<Rightarrow> nat \<Rightarrow> delivery_db \<Rightarrow> delivery_db" where
  "with_answer_job sha policy op digest at d = created_db d (answer_job sha policy op digest at)
     (created_rows (derive_job_id sha (source_signer_response op) digest) 0 (dp_targets policy) at)"

lemma create_response_job_Inr:
  assumes "create_response_job sha policy db op digest at = Inr db'"
  shows "db' = db\<lparr>rd_delivery := with_answer_job sha policy op digest at (rd_delivery db)\<rparr>"
    and "job_insert_legal (rd_delivery db) (delivery_jobs (rd_delivery db)) (answer_job sha policy op digest at)"
    and "\<exists>job. create_job sha (rd_delivery db) (source_signer_response op) digest at policy
       = Inr (Created job, with_answer_job sha policy op digest at (rd_delivery db))"
proof -
  from assms obtain adm d where adm: "create_job sha (rd_delivery db) (source_signer_response op) digest at policy = Inr (adm, d)"
    by (auto simp: create_response_job_def on_delivery_def r_bind_Inr_iff)
  with assms obtain job where run: "create_job sha (rd_delivery db) (source_signer_response op) digest at policy = Inr (Created job, d)"
    and db': "db' = db\<lparr>rd_delivery := d\<rparr>"
    by (cases adm) (auto simp: create_response_job_def on_delivery_def)
  from run have e: "job_insert_legal (rd_delivery db) (delivery_jobs (rd_delivery db)) (answer_job sha policy op digest at)
      \<and> d = with_answer_job sha policy op digest at (rd_delivery db)"
    by (cases rule: create_job_effect) (simp_all add: answer_job_def with_answer_job_def)
  from e db' show "db' = db\<lparr>rd_delivery := with_answer_job sha policy op digest at (rd_delivery db)\<rparr>" by simp
  from e show "job_insert_legal (rd_delivery db) (delivery_jobs (rd_delivery db)) (answer_job sha policy op digest at)" ..
  from e run show "\<exists>job. create_job sha (rd_delivery db) (source_signer_response op) digest at policy
       = Inr (Created job, with_answer_job sha policy op digest at (rd_delivery db))" by blast
qed

text \<open>The database after a new response.\<close>

definition answered_db ::
    "(bytes \<Rightarrow> bytes) \<Rightarrow> MycDeliveryPolicies \<Rightarrow> MycNip46ResponseCommitRequest \<Rightarrow> connection_db \<Rightarrow> response_db \<Rightarrow> response_db" where
  "answered_db sha policy rq connections db =
     \<lparr>rd_completion = \<lparr>cm_connections = connections,
         cm_commits = cm_commits (rd_completion db) @ [stored_commit (rcq_completion rq)]\<rparr>,
       rd_delivery = with_answer_job sha policy (rcq_operation_id rq) (rcq_response_digest rq) (rcq_committed_at rq) (rd_delivery db),
       rd_responses = rd_responses db @ [new_response_row rq], rd_pending = rd_pending db\<rparr>"

definition response_fits :: "MycNip46ResponseRecord \<Rightarrow> MycNip46ResponseCommitRequest \<Rightarrow> bool" where
  "response_fits r rq \<longleftrightarrow> r = response_record AuthorityTerminal (new_response_row rq) (nrr_delivery_job r)"

lemma exact_response_fits: "exact_response r rq = Inr u \<longleftrightarrow> response_fits r rq"
  by (cases r) (auto simp: exact_response_def response_fits_def response_record_def new_response_row_def)

lemma commit_response_Inr:
  assumes "commit_nip46_response sha pc expected policy db rq = Inr (a, db')"
  obtains (replay) response where "a = ResponseExactReplay \<lparr>rcr_completion = commit_record (rcq_completion rq), rcr_response = response\<rparr>"
      "db' = db" "verify_metadata (rd_delivery db) expected = Inr ()" "verify_request (rd_completion db) (rcq_completion rq) = Inr ()"
      "read_commit (rd_completion db) (rcq_completion rq) = Inr (Some (commit_record (rcq_completion rq)))"
      "require_response sha pc db (rcq_operation_id rq) = Inr response" "response_fits response rq"
  | (answered) response connections where
      "a = ResponseCommitted \<lparr>rcr_completion = commit_record (rcq_completion rq), rcr_response = response\<rparr>"
      "verify_metadata (rd_delivery db) expected = Inr ()" "verify_request (rd_completion db) (rcq_completion rq) = Inr ()"
      "read_commit (rd_completion db) (rcq_completion rq) = Inr None"
      "verify_connect_decision (rd_completion db) (rcq_completion rq) = Inr ()"
      "cq_connection_id (rcq_completion rq) = None \<and> cq_session_effect (rcq_completion rq) = EffectNone
        \<or> (\<exists>c. session_row (rd_completion db) (rcq_completion rq) c)"
      "session_after (rd_connections db) (rcq_completion rq) connections"
      "commit_insert_legal connections (cm_commits (rd_completion db)) (stored_commit (rcq_completion rq))"
      "db' = answered_db sha policy rq connections db"
      "response_insert_legal (db\<lparr>rd_completion := rd_completion db'\<rparr>) (rd_responses db) (new_response_row rq)"
      "job_insert_legal (rd_delivery db) (delivery_jobs (rd_delivery db))
        (answer_job sha policy (rcq_operation_id rq) (rcq_response_digest rq) (rcq_committed_at rq))"
      "\<exists>job. create_job sha (rd_delivery db) (source_signer_response (rcq_operation_id rq)) (rcq_response_digest rq)
        (rcq_committed_at rq) policy = Inr (Created job, rd_delivery db')"
      "require_response sha pc db' (rcq_operation_id rq) = Inr response" "response_fits response rq"
      "read_commit (rd_completion db') (rcq_completion rq) = Inr (Some (commit_record (rcq_completion rq)))"
proof -
  let ?c = "rcq_completion rq"
  from assms obtain adm c1 where meta: "verify_metadata (rd_delivery db) expected = Inr ()"
    and c: "commit_operation (rd_completion db) ?c = Inr (adm, c1)"
    by (auto simp: commit_nip46_response_def on_completion_def Let_def r_bind_Inr_iff)
  from c show thesis
  proof (cases rule: commit_operation_Inr)
    case replay
    with assms c meta obtain response where "require_response sha pc db (rcq_operation_id rq) = Inr response"
      "exact_response response rq = Inr ()" "a = ResponseExactReplay \<lparr>rcr_completion = commit_record ?c, rcr_response = response\<rparr>" "db' = db"
      by (auto simp: commit_nip46_response_def on_completion_def Let_def r_bind_Inr_iff)
    with replay meta show thesis by (intro that(1)) (auto simp: exact_response_fits)
  next
    case (committed connections)
    let ?db1 = "db\<lparr>rd_completion := c1\<rparr>"
    from assms c meta committed(1) obtain db2 response where ins: "insert_response ?db1 rq = Inr db2"
      and job: "create_response_job sha policy db2 (rcq_operation_id rq) (rcq_response_digest rq) (rcq_committed_at rq) = Inr db'"
      and r: "require_response sha pc db' (rcq_operation_id rq) = Inr response" "exact_response response rq = Inr ()"
        "a = ResponseCommitted \<lparr>rcr_completion = commit_record ?c, rcr_response = response\<rparr>"
      by (auto simp: commit_nip46_response_def on_completion_def Let_def r_bind_Inr_iff)
    from ins have ins': "response_insert_legal ?db1 (rd_responses db) (new_response_row rq)"
      "db2 = ?db1\<lparr>rd_responses := rd_responses db @ [new_response_row rq]\<rparr>"
      by (auto simp: insert_response_def insert_response_sql_def completion_execute_one_Inr r_bind_Inr_iff)
    note J = create_response_job_Inr [OF job]
    have db': "db' = answered_db sha policy rq connections db"
      unfolding J(1) ins'(2) committed(8) by (simp add: answered_db_def)
    have d: "rd_completion db' = c1" "rd_delivery db' = with_answer_job sha policy (rcq_operation_id rq) (rcq_response_digest rq)
        (rcq_committed_at rq) (rd_delivery db)" "rd_delivery db2 = rd_delivery db"
      unfolding J(1) ins'(2) by simp_all
    show thesis
      by (rule that(2) [OF r(3) meta committed(2-7) db'])
         (use ins'(1) J(2,3) r(1,2) committed(9) d in \<open>simp_all add: exact_response_fits\<close>)
  qed
qed

text \<open>The database after the announcement of a pending approval.\<close>

definition announced_db ::
    "(bytes \<Rightarrow> bytes) \<Rightarrow> MycDeliveryPolicies \<Rightarrow> MycNip46PendingResponseCommitRequest \<Rightarrow> response_db \<Rightarrow> response_db" where
  "announced_db sha policy rq db = db\<lparr>rd_delivery := with_answer_job sha policy (pcq_operation_id rq) (pcq_response_digest rq)
       (pcq_committed_at rq) (rd_delivery db), rd_pending := rd_pending db @ [new_pending_row rq]\<rparr>"

definition announcement_fits :: "MycNip46ResponseRecord \<Rightarrow> MycNip46PendingResponseCommitRequest \<Rightarrow> bool" where
  "announcement_fits r rq \<longleftrightarrow> r = response_record AuthorityPendingApproval (pending_as_response (new_pending_row rq)) (nrr_delivery_job r)"

lemma exact_pending_response_fits: "exact_pending_response r rq = Inr u \<longleftrightarrow> announcement_fits r rq"
  by (cases r) (auto simp: exact_pending_response_def announcement_fits_def response_record_def new_pending_row_def pending_as_response_def)

lemma commit_pending_Inr:
  assumes "commit_nip46_pending_response sha pc expected policy db rq = Inr (response, db')"
  obtains (replay) "db' = db" "verify_metadata (rd_delivery db) expected = Inr ()" "require_pending_binding db rq = Inr ()"
      "read_response_by_operation sha pc db (pcq_operation_id rq) = Inr (Some response)" "announcement_fits response rq"
  | (announced) "verify_metadata (rd_delivery db) expected = Inr ()" "require_pending_binding db rq = Inr ()"
      "read_response_by_operation sha pc db (pcq_operation_id rq) = Inr None" "db' = announced_db sha policy rq db"
      "pending_insert_legal db (rd_pending db) (new_pending_row rq)"
      "job_insert_legal (rd_delivery db) (delivery_jobs (rd_delivery db))
        (answer_job sha policy (pcq_operation_id rq) (pcq_response_digest rq) (pcq_committed_at rq))"
      "\<exists>job. create_job sha (rd_delivery db) (source_signer_response (pcq_operation_id rq)) (pcq_response_digest rq)
        (pcq_committed_at rq) policy = Inr (Created job, rd_delivery db')"
      "require_response sha pc db' (pcq_operation_id rq) = Inr response" "announcement_fits response rq"
proof -
  from assms obtain existing where meta: "verify_metadata (rd_delivery db) expected = Inr ()"
    and bind: "require_pending_binding db rq = Inr ()"
    and ex: "read_response_by_operation sha pc db (pcq_operation_id rq) = Inr existing"
    by (auto simp: commit_nip46_pending_response_def r_bind_Inr_iff)
  show thesis
  proof (cases existing)
    case (Some r)
    with assms meta bind ex show thesis
      by (intro that(1)) (auto simp: commit_nip46_pending_response_def r_bind_Inr_iff exact_pending_response_fits)
  next
    case None
    with assms meta bind ex obtain db1 where ins: "insert_pending_response db rq = Inr db1"
      and job: "create_response_job sha policy db1 (pcq_operation_id rq) (pcq_response_digest rq) (pcq_committed_at rq) = Inr db'"
      and r: "require_response sha pc db' (pcq_operation_id rq) = Inr response" "exact_pending_response response rq = Inr ()"
      by (auto simp: commit_nip46_pending_response_def r_bind_Inr_iff)
    from ins have ins': "pending_insert_legal db (rd_pending db) (new_pending_row rq)"
      "db1 = db\<lparr>rd_pending := rd_pending db @ [new_pending_row rq]\<rparr>"
      by (auto simp: insert_pending_response_def insert_pending_response_sql_def completion_execute_one_Inr r_bind_Inr_iff)
    note J = create_response_job_Inr [OF job]
    have db': "db' = announced_db sha policy rq db" unfolding J(1) ins'(2) by (simp add: announced_db_def)
    have d: "rd_delivery db' = with_answer_job sha policy (pcq_operation_id rq) (pcq_response_digest rq)
        (pcq_committed_at rq) (rd_delivery db)" "rd_delivery db1 = rd_delivery db"
      unfolding J(1) ins'(2) by simp_all
    show thesis
      by (rule that(2) [OF meta bind _ db' ins'(1)])
         (use ex None J(2,3) r d in \<open>simp_all add: exact_pending_response_fits\<close>)
  qed
qed

end
