(* ===== verification/Response_System.thy ===== *)
theory Response_System
  imports Response_Effects
begin

text \<open>
  The response authority as a transition system over the connection tables, the outbox and its own tables. Its steps are
  its two transactions and the steps of the two components it is composed with; every job of kind \<open>signer_response\<close> comes
  from its transactions. The invariant ties completions, responses, requests and delivery jobs together.
\<close>

section \<open>The outbox beside the response authority\<close>

text \<open>
  The delivery transactions of the other components: the worker, recovery, and discovery, which creates jobs of its own
  kind and owns its generations; the configuration change appends bindings.
\<close>

inductive outbox_step :: "(bytes \<Rightarrow> bytes) \<Rightarrow> delivery_db \<Rightarrow> delivery_db \<Rightarrow> bool" for sha where
  claim: "claim_target sha d jid relay nonce at = Inr (claim, d') \<Longrightarrow> outbox_step sha d d'"
| submit: "mark_submitted d jid relay aid at = Inr (attempt, d') \<Longrightarrow> outbox_step sha d d'"
| outcome: "record_outcome d jid relay aid outcome jitter at = Inr (job, d') \<Longrightarrow> outbox_step sha d d'"
| expire: "recover_expired d jid relay aid jitter at = Inr (job, d') \<Longrightarrow> outbox_step sha d d'"
| publish: "policies_valid policy \<Longrightarrow> relays_valid policy \<Longrightarrow> src_kind source = DiscoveryHandler \<Longrightarrow>
    create_job sha d source artifact at policy = Inr (admission, d') \<Longrightarrow> outbox_step sha d d'"
| configure: "outbox_step sha d (d\<lparr>config_bindings := bindings, desired_generation_ids := generations\<rparr>)"

lemma outbox_delivery_step: "outbox_step sha d d' \<Longrightarrow> delivery_step sha d d'"
proof (induction rule: outbox_step.induct)
  case (configure d generations bindings)
  have "d\<lparr>config_bindings := bindings, desired_generation_ids := generations\<rparr> = d\<lparr>config_bindings := bindings,
    request_operation_ids := request_operation_ids d, desired_generation_ids := generations\<rparr>" by simp
  then show ?case using delivery_step.other by metis
qed (auto intro: delivery_step.intros)

definition signer_jobs :: "delivery_db \<Rightarrow> _" where
  "signer_jobs d = filter (\<lambda>k. fst (snd k) = ''signer_response'') (map job_identity (delivery_jobs d))"

lemma signer_jobs_same: "map job_identity (delivery_jobs d') = map job_identity (delivery_jobs d) \<Longrightarrow> signer_jobs d' = signer_jobs d"
  by (simp add: signer_jobs_def)

lemma signer_job_image:
  assumes "signer_jobs d' = signer_jobs d" and "j \<in> set (delivery_jobs d)" and "j_source_kind j = ''signer_response''"
  shows "\<exists>j'\<in>set (delivery_jobs d'). job_identity j' = job_identity j"
proof -
  have "job_identity j \<in> set (signer_jobs d)" using assms(2,3) by (auto simp: signer_jobs_def job_identity_def)
  then have "job_identity j \<in> job_identity ` set (delivery_jobs d')" unfolding assms(1) [symmetric] by (auto simp: signer_jobs_def)
  then show ?thesis by force
qed

lemma settles_jobs:
  assumes inv: "tables_inv d" and s: "settles d j t a terminal reason jitter at r d'"
  shows "map job_identity (delivery_jobs d') = map job_identity (delivery_jobs d)"
    and "request_operation_ids d' = request_operation_ids d"
proof -
  from s obtain d1 where res: "resolve_attempt_and_target d (job_record j (targets_of d (j_job_id j)))
      (target_record t) (attempt_record a) (ar_status (attempt_record a)) terminal reason jitter at = Inr d1"
    and fin: "finalize_job_if_terminal d1 (j_job_id j) at = Inr (r, d')"
    by (auto simp: settles_def elim: r_bind_InrE)
  obtain ts next_at where tab1: "tables_inv d1"
    and d1: "d1 = Delivery_Steps.resolved_db d (j_job_id j) (t_target_index t) (a_attempt_id a) (a_status a)
       (attempt_status_as_str terminal) (int at) reason ts (map_option int next_at)"
    using resolve_effect [OF inv _ refl _ _ _ _ _ res] s unfolding settles_def by metis
  have jobs1: "delivery_jobs d1 = delivery_jobs d" "request_operation_ids d1 = request_operation_ids d"
    unfolding d1 Delivery_Steps.resolved_db_def updated_db_def by simp_all
  from tab1 fin have "map job_identity (delivery_jobs d') = map job_identity (delivery_jobs d1)
      \<and> request_operation_ids d' = request_operation_ids d1"
    by (cases rule: finalize_job_Inr) (simp_all add: finalized_db_def comp_def job_final_upd.key_upd_row)
  with jobs1 show "map job_identity (delivery_jobs d') = map job_identity (delivery_jobs d)"
    "request_operation_ids d' = request_operation_ids d" by simp_all
qed

lemma outbox_step_jobs:
  assumes inv: "delivery_inv d" and step: "outbox_step sha d d'"
  shows "signer_jobs d' = signer_jobs d \<and> request_operation_ids d' = request_operation_ids d"
proof -
  have tab: "tables_inv d" using inv by (rule delivery_inv_tables)
  from step show ?thesis
  proof cases
    case (claim jid relay nonce at c)
    from tab claim show ?thesis
      by (cases rule: claim_target_claims)
         (auto simp: claimed_db_def comp_def job_active_upd.key_upd_row intro!: signer_jobs_same)
  next
    case (submit jid relay aid at attempt)
    from tab submit show ?thesis
      by (cases rule: mark_submitted_effect) (auto simp: submitted_db_def updated_db_def signer_jobs_def)
  next
    case (outcome jid relay aid outcome jitter at job)
    from tab outcome show ?thesis
      by (cases rule: record_outcome_effect) (auto dest: settles_jobs [OF tab] intro!: signer_jobs_same)
  next
    case (expire jid relay aid jitter at job)
    from tab expire show ?thesis
      by (cases rule: recover_expired_effect) (auto dest: settles_jobs [OF tab] intro!: signer_jobs_same)
  next
    case (publish policy source artifact at admission)
    from publish(4) show ?thesis
      by (cases rule: create_job_effect)
         (auto simp: created_db_def signer_jobs_def new_job_row_def job_identity_def publish(3))
  next
    case (configure generations bindings)
    then show ?thesis by (simp add: signer_jobs_def)
  qed
qed

section \<open>The connection tables beside the response authority\<close>

lemma connection_effect_requests: "connection_effect cr db db' \<Longrightarrow> \<exists>qs. n_requests db' = n_requests db @ qs"
  by (induction rule: connection_effect.induct)
     (auto simp: admitted_db_def approved_db_def denied_db_def expired_db_def challenged_db_def Challenge_Effects.resolved_db_def ended_db_def)

text \<open>A connection that has expired stays so.\<close>

definition expired_kept :: "connection_db \<Rightarrow> connection_db \<Rightarrow> bool" where
  "expired_kept db db' \<longleftrightarrow> (\<forall>c\<in>set (n_connections db). c_status c = ''expired'' \<longrightarrow>
     (\<exists>c'\<in>set (n_connections db'). c_connection_id c' = c_connection_id c \<and> c_status c' = ''expired''))"

lemma evolve_expired_kept: "connections_evolve db db' \<Longrightarrow> expired_kept db db'"
  by (fastforce simp: connections_evolve_def expired_kept_def connection_evolves_def same_connection_def status_after_def)

lemma session_after_effect:
  assumes "connection_inv cr db" and "session_after db rq db'"
  shows "connection_effect cr db db'"
proof (cases "cq_session_effect rq = EffectConnectionRevoked")
  case True
  with assms(2) obtain c where c: "c \<in> set (n_connections db)"
    "connection_update_legal c (expire_connection_set (int (cq_completed_at rq)) c)" "db' = expired_db db c (cq_completed_at rq)"
    by (auto simp: session_after_def)
  have "db' = (expired_db db c (cq_completed_at rq))\<lparr>n_gov := n_gov db\<rparr>" unfolding c(3) by (simp add: expired_db_def)
  with connection_effect.expired [OF c(1,2) gov_run_refl, of cr] show ?thesis by simp
next
  case False
  then have "db' = db\<lparr>n_gov := n_gov db\<rparr>" using assms(2) by (simp add: session_after_def)
  then show ?thesis using connection_effect.quiet [OF gov_run_refl, of cr db] by simp
qed

lemma session_after_requests: "session_after db rq db' \<Longrightarrow> n_requests db' = n_requests db"
  by (auto simp: session_after_def expired_db_def split: if_splits)

section \<open>The invariant\<close>

abbreviation answer_ids :: "response_db \<Rightarrow> bytes list" where
  "answer_ids db \<equiv> map (\<lambda>a. rp_operation_id (snd a)) (response_authority db)"

definition answered :: "crates \<Rightarrow> provider_crates \<Rightarrow> request_row list \<Rightarrow> job_row list \<Rightarrow> string \<times> response_row \<Rightarrow> bool" where
  "answered cr pc qs js a \<longleftrightarrow> authority_kind_parse (fst a) \<noteq> None \<and> nip46_signed_responses_check (snd a)
     \<and> (\<exists>q\<in>set qs. q_operation_id q = rp_operation_id (snd a) \<and> retained_event (sha256 cr) pc (q_client_public_key q) (snd a))
     \<and> (\<exists>j\<in>set js. j_source_kind j = ''signer_response'' \<and> j_source_id j = rp_operation_id (snd a)
          \<and> j_artifact_sha256 j = rp_response_sha256 (snd a) \<and> j_created_at_unix_ms j = rp_committed_at_unix_ms (snd a))"

definition commit_ok :: "connection_db \<Rightarrow> commit_row \<Rightarrow> bool" where
  "commit_ok db x \<longleftrightarrow> nip46_operation_commits_check x \<and> oc_operation_id x \<in> q_operation_id ` set (n_requests db)
     \<and> (oc_session_effect x = ''connection_revoked'' \<longrightarrow>
          (\<exists>c\<in>set (n_connections db). oc_connection_id x = Some (c_connection_id c) \<and> c_status c = ''expired''))"

definition response_inv :: "crates \<Rightarrow> provider_crates \<Rightarrow> response_db \<Rightarrow> bool" where
  "response_inv cr pc db \<longleftrightarrow>
     connection_inv cr (rd_connections db) \<and> delivery_inv (rd_delivery db)
     \<and> request_operation_ids (rd_delivery db) = map q_operation_id (n_requests (rd_connections db))
     \<and> distinct (answer_ids db)
     \<and> (\<forall>a\<in>set (response_authority db). answered cr pc (n_requests (rd_connections db)) (delivery_jobs (rd_delivery db)) a)
     \<and> (\<forall>j\<in>set (delivery_jobs (rd_delivery db)). j_source_kind j = ''signer_response'' \<longrightarrow> j_source_id j \<in> set (answer_ids db))
     \<and> map oc_operation_id (cm_commits (rd_completion db)) = map rp_operation_id (rd_responses db)
     \<and> (\<forall>x\<in>set (cm_commits (rd_completion db)). commit_ok (rd_connections db) x)"

lemma response_invD:
  assumes "response_inv cr pc db"
  shows "connection_inv cr (rd_connections db)" and "delivery_inv (rd_delivery db)"
    and "request_operation_ids (rd_delivery db) = map q_operation_id (n_requests (rd_connections db))"
    and "distinct (answer_ids db)"
    and "\<And>a. a \<in> set (response_authority db) \<Longrightarrow> answered cr pc (n_requests (rd_connections db)) (delivery_jobs (rd_delivery db)) a"
    and "\<And>j. j \<in> set (delivery_jobs (rd_delivery db)) \<Longrightarrow> j_source_kind j = ''signer_response'' \<Longrightarrow> j_source_id j \<in> set (answer_ids db)"
    and "map oc_operation_id (cm_commits (rd_completion db)) = map rp_operation_id (rd_responses db)"
    and "\<And>x. x \<in> set (cm_commits (rd_completion db)) \<Longrightarrow> commit_ok (rd_connections db) x"
  using assms by (simp_all add: response_inv_def)

lemma answered_mono:
  assumes "answered cr pc qs js a" and "set qs \<subseteq> set qs'"
    and "\<And>j. j \<in> set js \<Longrightarrow> j_source_kind j = ''signer_response'' \<Longrightarrow> \<exists>j'\<in>set js'. job_identity j' = job_identity j"
  shows "answered cr pc qs' js' a"
proof -
  from assms(1) obtain j where j: "j \<in> set js" "j_source_kind j = ''signer_response''" "j_source_id j = rp_operation_id (snd a)"
    "j_artifact_sha256 j = rp_response_sha256 (snd a)" "j_created_at_unix_ms j = rp_committed_at_unix_ms (snd a)"
    by (auto simp: answered_def)
  from assms(3) [OF j(1,2)] obtain j' where "j' \<in> set js'" "job_identity j' = job_identity j" by blast
  with j have "\<exists>j\<in>set js'. j_source_kind j = ''signer_response'' \<and> j_source_id j = rp_operation_id (snd a)
      \<and> j_artifact_sha256 j = rp_response_sha256 (snd a) \<and> j_created_at_unix_ms j = rp_committed_at_unix_ms (snd a)"
    by (auto simp: job_identity_def)
  with assms(1,2) show ?thesis unfolding answered_def by blast
qed

lemma commit_ok_mono:
  assumes "commit_ok db x" and "set (n_requests db) \<subseteq> set (n_requests db')" and "expired_kept db db'"
  shows "commit_ok db' x"
  unfolding commit_ok_def
proof (intro conjI impI)
  show "nip46_operation_commits_check x" "oc_operation_id x \<in> q_operation_id ` set (n_requests db')"
    using assms(1,2) by (auto simp: commit_ok_def)
  assume "oc_session_effect x = ''connection_revoked''"
  with assms(1) obtain c where c: "c \<in> set (n_connections db)" "oc_connection_id x = Some (c_connection_id c)" "c_status c = ''expired''"
    by (auto simp: commit_ok_def)
  from assms(3) c(1,3) obtain c' where "c' \<in> set (n_connections db')" "c_connection_id c' = c_connection_id c" "c_status c' = ''expired''"
    by (auto simp: expired_kept_def)
  with c(2) show "\<exists>c\<in>set (n_connections db'). oc_connection_id x = Some (c_connection_id c) \<and> c_status c = ''expired''"
    by (intro bexI [of _ c']) simp_all
qed

text \<open>The tables of the response authority stay, the others move as their components let them.\<close>

lemma response_inv_frame:
  assumes inv: "response_inv cr pc db" and c: "connection_inv cr c" and d: "delivery_inv d"
    and ids: "request_operation_ids d = map q_operation_id (n_requests c)"
    and qs: "n_requests c = n_requests (rd_connections db) @ qs" and ex: "expired_kept (rd_connections db) c"
    and js: "signer_jobs d = signer_jobs (rd_delivery db)"
  shows "response_inv cr pc (db\<lparr>rd_completion := (rd_completion db)\<lparr>cm_connections := c\<rparr>, rd_delivery := d\<rparr>)"
proof -
  let ?db = "db\<lparr>rd_completion := (rd_completion db)\<lparr>cm_connections := c\<rparr>, rd_delivery := d\<rparr>"
  note I = response_invD [OF inv]
  have auth: "response_authority ?db = response_authority db" by (simp add: response_authority_def)
  have "answered cr pc (n_requests c) (delivery_jobs d) a" if "a \<in> set (response_authority db)" for a
    using I(5) [OF that] by (rule answered_mono) (use qs signer_job_image [OF js] in auto)
  moreover have "j_source_id j \<in> set (answer_ids db)" if j: "j \<in> set (delivery_jobs d)" "j_source_kind j = ''signer_response''" for j
  proof -
    obtain k where "k \<in> set (delivery_jobs (rd_delivery db))" "job_identity k = job_identity j"
      using signer_job_image [OF js [symmetric] j] by blast
    with I(6) [of k] j(2) show ?thesis by (simp add: job_identity_def)
  qed
  moreover have "commit_ok c x" if "x \<in> set (cm_commits (rd_completion db))" for x
    using I(8) [OF that] by (rule commit_ok_mono) (use qs ex in auto)
  ultimately show ?thesis using I(4,7) c d ids unfolding response_inv_def auth by simp
qed

section \<open>What a read response shows\<close>

lemma responses_by_operation_in:
  "((k, r), q, j) \<in> set (responses_by_operation db op) \<longleftrightarrow> (k, r) \<in> set (response_authority db) \<and> rp_operation_id r = op
     \<and> q \<in> set (n_requests (rd_connections db)) \<and> q_operation_id q = op
     \<and> j \<in> set (delivery_jobs (rd_delivery db)) \<and> j_source_kind j = ''signer_response'' \<and> j_source_id j = op"
  by (auto simp: responses_by_operation_def)

lemma required_answered:
  assumes tab: "tables_inv (rd_delivery db)" and check: "\<And>a. a \<in> set (response_authority db) \<Longrightarrow> nip46_signed_responses_check (snd a)"
    and run: "require_response (sha256 cr) pc db op = Inr x"
  shows "\<exists>a\<in>set (response_authority db). rp_operation_id (snd a) = op
    \<and> answered cr pc (n_requests (rd_connections db)) (delivery_jobs (rd_delivery db)) a"
proof -
  from run have "read_response (sha256 cr) pc db (responses_by_operation db op) = Inr (Some x)"
    by (auto simp: require_response_def read_response_by_operation_def r_bind_Inr_iff)
  moreover then obtain kind r q j where rows: "responses_by_operation db op = [((kind, r), q, j)]"
    by (rule read_response_Some_rows)
  ultimately have read: "read_response (sha256 cr) pc db [((kind, r), q, j)] = Inr (Some x)" by simp
  have "((kind, r), q, j) \<in> set (responses_by_operation db op)" by (simp add: rows)
  then have in_db: "(kind, r) \<in> set (response_authority db)" "rp_operation_id r = op" "q \<in> set (n_requests (rd_connections db))"
    "q_operation_id q = op" "j \<in> set (delivery_jobs (rd_delivery db))" "j_source_kind j = ''signer_response''" "j_source_id j = op"
    unfolding responses_by_operation_in by blast+
  have ck: "nip46_signed_responses_check r" using check [OF in_db(1)] by simp
  from read obtain k job where f: "authority_kind_parse kind = Some k" "retained_event (sha256 cr) pc (q_client_public_key q) r"
    "read_job (rd_delivery db) (j_job_id j) = Inr (Some job)" "jr_artifact_digest job = rp_response_sha256 r"
    "int (jr_created_at job) = rp_committed_at_unix_ms r"
    unfolding read_response_single [OF ck] by blast
  have job: "job = job_record j (targets_of (rd_delivery db) (j_job_id j))"
    using f(3) read_job_present(1) [OF tab in_db(5)] by simp
  have "1 \<le> j_created_at_unix_ms j" using delivery_jobs_checkD [OF job_inv_coreD(1) [OF tables_invD(7) [OF tab in_db(5)]]] by simp
  then have "j_created_at_unix_ms j = rp_committed_at_unix_ms r" "j_artifact_sha256 j = rp_response_sha256 r"
    using f(4,5) by (simp_all add: job job_record_def)
  with in_db f(1,2) ck show ?thesis by (intro bexI [of _ "(kind, r)"]) (auto simp: answered_def)
qed

section \<open>A new answer\<close>

lemma with_answer_job_fields:
  "delivery_jobs (with_answer_job sha policy op digest at d) = delivery_jobs d @ [answer_job sha policy op digest at]"
  "request_operation_ids (with_answer_job sha policy op digest at d) = request_operation_ids d"
  "config_bindings (with_answer_job sha policy op digest at d) = config_bindings d"
  by (simp_all add: with_answer_job_def created_db_def)

lemma answer_job_fields:
  "j_source_kind (answer_job sha policy op digest at) = ''signer_response''" "j_source_id (answer_job sha policy op digest at) = op"
  "j_artifact_sha256 (answer_job sha policy op digest at) = digest" "j_created_at_unix_ms (answer_job sha policy op digest at) = int at"
  by (simp_all add: answer_job_def new_job_row_def source_signer_response_def)

text \<open>One more row in the response authority, one more job in the outbox.\<close>

lemma answer_added_inv:
  assumes inv: "response_inv cr pc db" and c: "connection_inv cr (rd_connections db')" and d: "delivery_inv (rd_delivery db')"
    and qs: "n_requests (rd_connections db') = n_requests (rd_connections db)" and ex: "expired_kept (rd_connections db) (rd_connections db')"
    and js: "rd_delivery db' = with_answer_job (sha256 cr) policy op digest at (rd_delivery db)"
    and rows: "set (response_authority db') = insert new (set (response_authority db))" "rp_operation_id (snd new) = op"
    and dist: "distinct (answer_ids db')" and check: "nip46_signed_responses_check (snd new)"
    and read: "require_response (sha256 cr) pc db' op = Inr response"
    and commits: "map oc_operation_id (cm_commits (rd_completion db')) = map rp_operation_id (rd_responses db')"
      "\<And>x. x \<in> set (cm_commits (rd_completion db')) \<Longrightarrow> x \<in> set (cm_commits (rd_completion db)) \<or> commit_ok (rd_connections db') x"
  shows "response_inv cr pc db'"
proof -
  note I = response_invD [OF inv]
  let ?ans = "answered cr pc (n_requests (rd_connections db')) (delivery_jobs (rd_delivery db'))"
  have old: "?ans a" if "a \<in> set (response_authority db)" for a
    using I(5) [OF that] by (rule answered_mono) (auto simp: qs js with_answer_job_fields)
  have "nip46_signed_responses_check (snd a)" if "a \<in> set (response_authority db')" for a
    by (cases "a = new") (use that rows(1) check old [of a] in \<open>simp_all add: answered_def\<close>)
  from required_answered [OF delivery_inv_tables [OF d] this read] obtain a where
    a: "a \<in> set (response_authority db')" "rp_operation_id (snd a) = op" "?ans a" by blast
  have new: "new \<in> set (response_authority db')" by (simp add: rows(1))
  have "a = new" using distinct_key_eq [OF dist a(1) new] a(2) rows(2) by simp
  with a(3) have all: "?ans b" if "b \<in> set (response_authority db')" for b
    using that rows(1) old [of b] by (cases "b = new") simp_all
  have jobs: "j_source_id j \<in> set (answer_ids db')"
    if j: "j \<in> set (delivery_jobs (rd_delivery db'))" "j_source_kind j = ''signer_response''" for j
  proof (cases "j \<in> set (delivery_jobs (rd_delivery db))")
    case True
    with I(6) j(2) rows(1) show ?thesis by auto
  next
    case False
    with j(1) have "j_source_id j = op" by (auto simp: js with_answer_job_fields answer_job_fields)
    with new rows(2) show ?thesis by force
  qed
  have "commit_ok (rd_connections db') x" if "x \<in> set (cm_commits (rd_completion db'))" for x
    using commits(2) [OF that] commit_ok_mono [OF I(8) _ ex] qs by auto
  with c d dist all jobs commits(1) I(3) show ?thesis
    unfolding response_inv_def by (simp add: qs js with_answer_job_fields)
qed

lemma response_authority_split:
  "set (response_authority db) = (\<lambda>r. (''terminal'', r)) ` set (rd_responses db)
     \<union> (\<lambda>p. (pn_response_kind p, pending_as_response p)) ` set (rd_pending db)"
  by (simp add: response_authority_def)

lemma answer_ids_split: "answer_ids db = map rp_operation_id (rd_responses db) @ map pn_operation_id (rd_pending db)"
  by (simp add: response_authority_def pending_as_response_def)

lemma commit_response_inv:
  assumes inv: "response_inv cr pc db" and pol: "policies_valid policy" "relays_valid policy"
    and run: "commit_nip46_response (sha256 cr) pc expected policy db rq = Inr (a, db')"
  shows "response_inv cr pc db'"
  using run
proof (cases rule: commit_response_Inr)
  case replay
  with inv show ?thesis by simp
next
  case (answered response connections)
  note I = response_invD [OF inv]
  let ?c = "rcq_completion rq" and ?new = "(''terminal'', new_response_row rq)"
  have fields: "rd_connections db' = connections" "cm_commits (rd_completion db') = cm_commits (rd_completion db) @ [stored_commit ?c]"
    "rd_responses db' = rd_responses db @ [new_response_row rq]" "rd_pending db' = rd_pending db"
    "rd_delivery db' = with_answer_job (sha256 cr) policy (rcq_operation_id rq) (rcq_response_digest rq) (rcq_committed_at rq) (rd_delivery db)"
    by (simp_all add: answered(9) answered_db_def)
  note legal = answered(10) [unfolded response_insert_legal_def]
  have eff: "connection_effect cr (rd_connections db) connections" using session_after_effect [OF I(1) answered(7)] .
  have ci: "connection_inv cr connections" using connection_effect_inv [OF eff I(1)] .
  from answered(12) obtain job where "create_job (sha256 cr) (rd_delivery db) (source_signer_response (rcq_operation_id rq))
      (rcq_response_digest rq) (rcq_committed_at rq) policy = Inr (Created job, rd_delivery db')" by blast
  from create_job_inv [OF I(2) this pol] have di: "delivery_inv (rd_delivery db')" .
  have op: "rp_operation_id (new_response_row rq) = rcq_operation_id rq" by (simp add: new_response_row_def)
  have fresh: "rcq_operation_id rq \<notin> set (answer_ids db)"
    using legal by (auto simp: answer_ids_split op list_all_iff list_ex_iff nip46_signed_responses_guard_pending_insert_def)
  have ok: "commit_ok connections (stored_commit ?c)"
    unfolding commit_ok_def
  proof (intro conjI impI)
    show "nip46_operation_commits_check (stored_commit ?c)" using answered(8) by (simp add: commit_insert_legal_def)
    have "\<exists>q\<in>set (n_requests connections). q_operation_id q = oc_operation_id (stored_commit ?c)"
      using answered(8) by (simp add: commit_insert_legal_def list_ex_iff)
    then show "oc_operation_id (stored_commit ?c) \<in> q_operation_id ` set (n_requests connections)" by force
    assume "oc_session_effect (stored_commit ?c) = ''connection_revoked''"
    then have "cq_session_effect ?c = EffectConnectionRevoked" by (cases "cq_session_effect ?c") (simp_all add: new_commit_row_def)
    with answered(7) obtain c where "c \<in> set (n_connections (rd_connections db))" "cq_connection_id ?c = Some (c_connection_id c)"
      "connections = expired_db (rd_connections db) c (cq_completed_at ?c)" by (auto simp: session_after_def)
    then show "\<exists>c\<in>set (n_connections connections). oc_connection_id (stored_commit ?c) = Some (c_connection_id c) \<and> c_status c = ''expired''"
      by (intro bexI [of _ "expire_connection_set (int (cq_completed_at ?c)) c"])
         (auto simp: expired_db_def in_swap_row new_commit_row_def expire_connection_set_def)
  qed
  show ?thesis
  proof (rule answer_added_inv [OF inv, where new = ?new and op = "rcq_operation_id rq"])
    show "expired_kept (rd_connections db) (rd_connections db')"
      unfolding fields using connection_effect_evolves [OF eff I(1)] by (rule evolve_expired_kept)
    show "distinct (answer_ids db')" using I(4) fresh by (auto simp: answer_ids_split fields op)
    show "nip46_signed_responses_check (snd ?new)" using legal by simp
    show "map oc_operation_id (cm_commits (rd_completion db')) = map rp_operation_id (rd_responses db')"
      using I(7) by (simp add: fields op new_commit_row_def)
  qed (use ci di ok answered(13) session_after_requests [OF answered(7)] op in \<open>auto simp: fields response_authority_split\<close>)
qed

lemma commit_pending_inv:
  assumes inv: "response_inv cr pc db" and pol: "policies_valid policy" "relays_valid policy"
    and run: "commit_nip46_pending_response (sha256 cr) pc expected policy db rq = Inr (response, db')"
  shows "response_inv cr pc db'"
  using run
proof (cases rule: commit_pending_Inr)
  case replay
  with inv show ?thesis by simp
next
  case announced
  note I = response_invD [OF inv]
  let ?new = "(''pending_approval'', pending_as_response (new_pending_row rq))"
  have fields: "rd_completion db' = rd_completion db" "rd_responses db' = rd_responses db"
    "rd_pending db' = rd_pending db @ [new_pending_row rq]"
    "rd_delivery db' = with_answer_job (sha256 cr) policy (pcq_operation_id rq) (pcq_response_digest rq) (pcq_committed_at rq) (rd_delivery db)"
    by (simp_all add: announced(4) announced_db_def)
  note legal = announced(5) [unfolded pending_insert_legal_def]
  from announced(7) obtain job where "create_job (sha256 cr) (rd_delivery db) (source_signer_response (pcq_operation_id rq))
      (pcq_response_digest rq) (pcq_committed_at rq) policy = Inr (Created job, rd_delivery db')" by blast
  from create_job_inv [OF I(2) this pol] have di: "delivery_inv (rd_delivery db')" .
  have op: "pn_operation_id (new_pending_row rq) = pcq_operation_id rq"
    "rp_operation_id (pending_as_response (new_pending_row rq)) = pcq_operation_id rq"
    "pn_response_kind (new_pending_row rq) = ''pending_approval''"
    by (simp_all add: new_pending_row_def pending_as_response_def)
  have fresh: "pcq_operation_id rq \<notin> set (answer_ids db)"
    using legal by (auto simp: answer_ids_split op list_all_iff list_ex_iff nip46_pending_responses_guard_insert_def)
  show ?thesis
  proof (rule answer_added_inv [OF inv, where new = ?new and op = "pcq_operation_id rq"])
    show "distinct (answer_ids db')" using I(4) fresh by (auto simp: answer_ids_split fields op)
    show "nip46_signed_responses_check (snd ?new)"
      using legal by (simp add: nip46_pending_responses_check_def nip46_signed_responses_check_def pending_as_response_def)
    show "expired_kept (rd_connections db) (rd_connections db')" unfolding fields expired_kept_def by blast
  qed (use I(1,7) di announced(8) op in \<open>auto simp: fields response_authority_split\<close>)
qed

section \<open>Steps\<close>

definition with_connections :: "connection_db \<Rightarrow> response_db \<Rightarrow> response_db" where
  "with_connections c db = db\<lparr>rd_completion := (rd_completion db)\<lparr>cm_connections := c\<rparr>,
     rd_delivery := (rd_delivery db)\<lparr>request_operation_ids := map q_operation_id (n_requests c)\<rparr>\<rparr>"

inductive response_step :: "crates \<Rightarrow> provider_crates \<Rightarrow> response_db \<Rightarrow> response_db \<Rightarrow> bool" for cr pc where
  respond: "policies_valid policy \<Longrightarrow> relays_valid policy
    \<Longrightarrow> commit_nip46_response (sha256 cr) pc expected policy db rq = Inr (a, db') \<Longrightarrow> response_step cr pc db db'"
| announce: "policies_valid policy \<Longrightarrow> relays_valid policy
    \<Longrightarrow> commit_nip46_pending_response (sha256 cr) pc expected policy db prq = Inr (r, db') \<Longrightarrow> response_step cr pc db db'"
| connection: "connection_step cr (rd_connections db) c \<Longrightarrow> response_step cr pc db (with_connections c db)"
| outbox: "outbox_step (sha256 cr) (rd_delivery db) d \<Longrightarrow> response_step cr pc db (db\<lparr>rd_delivery := d\<rparr>)"

definition response_init :: "response_db \<Rightarrow> bool" where
  "response_init db \<longleftrightarrow> connection_init (rd_connections db) \<and> delivery_init (rd_delivery db)
     \<and> request_operation_ids (rd_delivery db) = [] \<and> cm_commits (rd_completion db) = [] \<and> rd_responses db = [] \<and> rd_pending db = []"

definition response_reachable :: "crates \<Rightarrow> provider_crates \<Rightarrow> response_db \<Rightarrow> bool" where
  "response_reachable cr pc db \<longleftrightarrow> (\<exists>db0. response_init db0 \<and> (response_step cr pc)\<^sup>*\<^sup>* db0 db)"

lemma response_step_inv:
  assumes inv: "response_inv cr pc db" and step: "response_step cr pc db db'"
  shows "response_inv cr pc db'"
  using step
proof cases
  case (respond policy expected rq a)
  then show ?thesis using commit_response_inv [OF inv] by blast
next
  case (announce policy expected prq r)
  then show ?thesis using commit_pending_inv [OF inv] by blast
next
  case (connection c)
  note I = response_invD [OF inv]
  have eff: "connection_effect cr (rd_connections db) c" using connection_step_effect [OF connection(2) I(1)] .
  obtain qs where qs: "n_requests c = n_requests (rd_connections db) @ qs" using connection_effect_requests [OF eff] by blast
  let ?d = "(rd_delivery db)\<lparr>request_operation_ids := map q_operation_id (n_requests c)\<rparr>"
  have "?d = (rd_delivery db)\<lparr>config_bindings := config_bindings (rd_delivery db),
    request_operation_ids := map q_operation_id (n_requests c), desired_generation_ids := desired_generation_ids (rd_delivery db)\<rparr>" by simp
  then have "delivery_inv ?d" using I(2) delivery_inv_other by metis
  moreover have "signer_jobs ?d = signer_jobs (rd_delivery db)" by (simp add: signer_jobs_def)
  ultimately show ?thesis unfolding connection(1) with_connections_def
    using response_inv_frame [OF inv connection_effect_inv [OF eff I(1)] _ _ qs evolve_expired_kept [OF connection_effect_evolves [OF eff I(1)]]]
    by simp
next
  case (outbox d)
  note I = response_invD [OF inv]
  have d: "delivery_inv d" using delivery_step_inv [OF I(2) outbox_delivery_step [OF outbox(2)]] .
  note j = outbox_step_jobs [OF I(2) outbox(2)]
  have "response_inv cr pc (db\<lparr>rd_completion := (rd_completion db)\<lparr>cm_connections := rd_connections db\<rparr>, rd_delivery := d\<rparr>)"
    by (rule response_inv_frame [OF inv I(1) d, where qs = "[]"]) (use j I(3) in \<open>auto simp: expired_kept_def\<close>)
  then show ?thesis unfolding outbox(1) by simp
qed

interpretation response: invariant_system response_init "response_step cr pc" "response_inv cr pc" for cr pc
proof
  fix db assume i: "response_init db"
  then have "connection_inv cr (rd_connections db)" "delivery_inv (rd_delivery db)"
    using connection.init_inv delivery_inv_init by (auto simp: response_init_def)
  with i show "response_inv cr pc db"
    by (simp add: response_inv_def response_init_def response_authority_def connection_init_def delivery_init_def)
next
  fix db db' assume "response_inv cr pc db" "response_step cr pc db db'"
  then show "response_inv cr pc db'" by (rule response_step_inv)
qed

lemma response_reachable_inv: "response_reachable cr pc db \<Longrightarrow> response_inv cr pc db"
  unfolding response_reachable_def using response.reached_inv by blast

end
