(* ===== verification/Response_Example.thy ===== *)
theory Response_Example
  imports Response_System Connection_Example Delivery_Example
begin

text \<open>
  Two concrete runs of the response authority, used by the witnesses of its properties: on the connection of the example of
  the connection authority, a logout request is answered; and while that connection is pending, the approval is announced.
  The provider crates accept one event.
\<close>

section \<open>The state before an answer\<close>

text \<open>The connection tables as they are, nothing answered yet.\<close>

definition unanswered :: "binding_row list \<Rightarrow> connection_db \<Rightarrow> response_db" where
  "unanswered bindings c = \<lparr>rd_completion = \<lparr>cm_connections = c, cm_commits = []\<rparr>,
     rd_delivery = \<lparr>config_bindings = bindings, request_operation_ids = map q_operation_id (n_requests c),
       desired_generation_ids = [], delivery_jobs = [], delivery_targets = [], delivery_attempts = []\<rparr>,
     rd_responses = [], rd_pending = []\<rparr>"

lemma unanswered_run: "(connection_step cr)\<^sup>*\<^sup>* c c' \<Longrightarrow> (response_step cr pc)\<^sup>*\<^sup>* (unanswered bs c) (unanswered bs c')"
proof (induction rule: rtranclp_induct)
  case (step x y)
  have "response_step cr pc (unanswered bs x) (with_connections y (unanswered bs x))"
    by (rule response_step.connection) (simp add: step(2) unanswered_def)
  moreover have "with_connections y (unanswered bs x) = unanswered bs y" by (simp add: with_connections_def unanswered_def)
  ultimately show ?case using step(3) by simp
qed simp

lemma unanswered_reachable: "connection_reachable cr c \<Longrightarrow> response_reachable cr pc (unanswered bs c)"
  unfolding connection_reachable_def response_reachable_def
  using unanswered_run [of cr _ c pc bs]
  by (force simp: response_init_def unanswered_def connection_init_def delivery_init_def)

lemma response_reachable_step: "response_reachable cr pc db \<Longrightarrow> response_step cr pc db db' \<Longrightarrow> response_reachable cr pc db'"
  unfolding response_reachable_def by (meson rtranclp.rtrancl_into_rtrancl)

definition ax_event :: nostr_event where
  "ax_event = \<lparr>ne_id = cx_id 60, ne_id_hex = [], ne_pubkey_hex = cx_key, ne_sig = [], ne_created_at = 2,
     ne_kind = 24133, ne_tags = [[''p'', cx_key]], ne_content = ''c''\<rparr>"

definition ax_provider :: provider_crates where
  "ax_provider = \<lparr>hex_encode = (\<lambda>_. []), hex_decode = (\<lambda>_. None), unsigned_parse = (\<lambda>_. None), unsigned_to_vec = (\<lambda>_. None),
     unsigned_verify_id = (\<lambda>_. False), unsigned_id = (\<lambda>_. []), signed_parse = (\<lambda>_. Some ax_event),
     signed_to_vec = (\<lambda>_. Some [1]), signed_verify = (\<lambda>_. True)\<rparr>"

lemma ax_validate: "validate_response_event ax_provider [1] cx_key expected = Inr ax_event" if "expected \<in> {None, Some cx_key}"
  using that by (auto simp: validate_response_event_def ax_provider_def MYC_PROVIDER_OUTPUT_MAX_BYTES_def)
    (simp_all add: ax_event_def NIP46_RPC_KIND_def)

lemma ax_sha: "cx_sha [1] = cx_id 1"
  by (simp add: cx_sha_def)

lemma ax_verify: "config_bindings d = [cx_binding] \<Longrightarrow> verify_metadata d cx_metadata = Inr ()"
  using cx_verify [of cx_g0] by (simp add: verify_metadata_def governance_verify_metadata_def cx_g0_def)

lemma ax_policy: "policies_valid ex_policy" "relays_valid ex_policy"
  by (simp_all add: ex_policy_def policies_valid_def relays_valid_def ex_relay)

lemma ax_job:
  assumes "op \<in> set (map q_operation_id (n_requests c))" and "length op = 32" and "at = 3200"
  shows "\<exists>job. create_job cx_sha (rd_delivery (unanswered bs c)) (source_signer_response op) (cx_id 1) at ex_policy
    = Inr (Created job, with_answer_job cx_sha ex_policy op (cx_id 1) at (rd_delivery (unanswered bs c)))"
proof -
  let ?d = "rd_delivery (unanswered bs c)"
  have inv: "delivery_inv ?d" by (rule delivery_inv_init) (simp add: delivery_init_def unanswered_def)
  have ok: "create_input_ok cx_sha ?d (source_signer_response op) (cx_id 1) at ex_policy"
    using assms ax_policy by (simp add: create_input_ok_def source_signer_response_def unanswered_def active_job_count_def valid_time_def
      int_width_defs derive_job_id_def) (simp add: ex_policy_def)
  show ?thesis unfolding with_answer_job_def answer_job_def using create_job_ready [OF inv ok refl refl refl] by blast
qed

section \<open>A logout is answered\<close>

definition ax_connections :: connection_db where "ax_connections = cx_store (cx_request 2 ''logout'') cx_db3"

lemma ax_connections_simps: "n_requests ax_connections = [cx_request 1 ''connect'', cx_request 2 ''logout'']"
  "n_connections ax_connections = [cx_active]" "n_decisions ax_connections = [cx_allowed]"
  by (simp_all add: ax_connections_def cx_store_def cx_db3_simps)

lemma ax_connections_reach: "connection_reachable cx_crates ax_connections"
proof -
  have "connection_step cx_crates cx_db3 (cx_db3\<lparr>n_gov := (n_gov cx_db3)\<lparr>g_requests := g_requests (n_gov cx_db3) @ [request_key (cx_request 2 ''logout'')]\<rparr>,
      n_requests := n_requests cx_db3 @ [cx_request 2 ''logout'']\<rparr>)"
    by (rule connection_step.stored) (simp_all add: request_insert_legal_def cx_db3_simps nip46_requests_check_def cx_request_def sql_time_def)
  then show ?thesis using connection_reachable_step [OF cx_reach3] by (simp add: ax_connections_def cx_store_def)
qed

definition ax_db :: response_db where "ax_db = unanswered [cx_binding] ax_connections"

lemma ax_reach: "response_reachable cx_crates ax_provider ax_db"
  unfolding ax_db_def by (rule unanswered_reachable [OF ax_connections_reach])

definition ax_completion :: MycNip46CommitRequest where
  "ax_completion = \<lparr>cq_request = \<lparr>srr_operation_id = cx_id 2, srr_correlation_id = cx_id 2, srr_client_public_key = cx_key,
       srr_request_id = ''r'', srr_first_event_id = cx_id 2, srr_method = MethodLogout, srr_request_digest = cx_id 2,
       srr_received_at = 1000, srr_replay_count = 0, srr_conflict_count = 0, srr_last_seen_at = 1000\<rparr>,
     cq_connection_id = Some (cx_id 123), cq_connection_generation = Some 1, cq_connect_decision = None,
     cq_session_effect = EffectConnectionRevoked, cq_provider_operation_id = None, cq_artifact = None, cq_artifact_sha256 = None,
     cq_reason_code = ''session_revoked'', cq_completed_at = 3100\<rparr>"

definition ax_request :: MycNip46ResponseCommitRequest where
  "ax_request = \<lparr>rcq_completion = ax_completion, rcq_response_provider_operation_id = cx_id 50, rcq_response_event_id = cx_id 60,
     rcq_response_digest = cx_id 1, rcq_response_bytes = [1], rcq_authored_at_unix_s = 2, rcq_committed_at = 3200\<rparr>"

definition ax_ended :: connection_db where "ax_ended = expired_db ax_connections cx_active 3100"

lemma ax_legal: "connection_update_legal cx_active (expire_connection_set 3100 cx_active)"
proof -
  have "connections_check cx_active"
    using connection_invD(5) [OF connection_reachable_inv [OF ax_connections_reach], of cx_active]
    by (simp add: ax_connections_simps connection_ok_def)
  then show ?thesis
    by (auto simp: connection_update_legal_def connections_guard_update_def connections_check_def expire_connection_set_def
      cx_active_fields)
qed

lemma ax_operation:
  "commit_operation (rd_completion ax_db) ax_completion
     = Inr (OperationCommitted (commit_record ax_completion), \<lparr>cm_connections = ax_ended, cm_commits = [stored_commit ax_completion]\<rparr>)"
proof -
  let ?c = "rd_completion ax_db" and ?d = "\<lparr>cm_connections = ax_ended, cm_commits = []\<rparr>"
  let ?e = "\<lparr>cm_connections = ax_ended, cm_commits = [stored_commit ax_completion]\<rparr>"
  have c: "?c = \<lparr>cm_connections = ax_connections, cm_commits = []\<rparr>" by (simp add: ax_db_def unanswered_def)
  have v: "verify_request ?c ax_completion = Inr ()" "read_commit ?c ax_completion = Inr None"
    "verify_connect_decision ?c ax_completion = Inr ()"
    by (simp_all add: verify_request_Inr read_commit_None c ax_connections_simps cx_request_def ax_completion_def int_width_defs
      verify_connect_decision_def)
  have "sql_update (revoke_session_where (cx_id 123) 1) (revoke_session_set 3100) connection_update_legal [cx_active]
      = Some ([expire_connection_set 3100 cx_active], 1)"
    using ax_legal by (simp add: sql_update_def revoke_session_where_def cx_active_fields upd_row_def revoke_set_expires)
  then have e: "verify_or_apply_session_effect ?c ax_completion = Inr ?d"
    by (simp add: verify_or_apply_session_effect_def c ax_connections_simps cx_active_fields ax_completion_def
      completion_execute_one_Inr revoke_session_sql_def r_bind_Inr_iff int_width_defs ax_ended_def expired_db_def swap_row_def)
  have "commit_insert_legal ax_ended [] (stored_commit ax_completion)"
    by (simp add: commit_insert_legal_def nip46_operation_commits_check_def new_commit_row_def ax_completion_def artifact_kind_def
      sql_time_def provider_methods_def ax_ended_def expired_db_def ax_connections_simps cx_request_def swap_row_def
      expire_connection_set_def cx_active_fields)
  then have i: "completion_execute_one (insert_commit_sql ?d (stored_commit ax_completion)) = Inr ?e"
    by (simp add: completion_execute_one_Inr insert_commit_sql_def sql_insert_def)
  have r: "read_commit ?e ax_completion = Inr (Some (commit_record ax_completion))"
    by (simp add: read_commit_Some new_commit_row_def) (simp add: commit_readable_def ax_completion_def int_width_defs)
  have t: "completion_i64 (cq_completed_at ax_completion) = Inr (int (cq_completed_at ax_completion))"
    by (simp add: ax_completion_def int_width_defs)
  show ?thesis by (simp add: commit_operation_def v e t i r)
qed

text \<open>Reading back an answer that has just been added.\<close>

lemma ax_read:
  assumes job: "\<exists>job. create_job cx_sha (rd_delivery (unanswered bs c)) (source_signer_response op) (cx_id 1) 3200 ex_policy
      = Inr (Created job, rd_delivery db)"
    and d: "rd_delivery db = with_answer_job cx_sha ex_policy op (cx_id 1) 3200 (rd_delivery (unanswered bs c))"
    and row: "response_authority db = [(kind, r)]" "nip46_signed_responses_check r" "rp_operation_id r = op"
      "rp_response_sha256 r = cx_id 1" "rp_committed_at_unix_ms r = 3200" "authority_kind_parse kind = Some k"
    and q: "filter (\<lambda>q. q_operation_id q = op) (n_requests (rd_connections db)) = [q]" "q_client_public_key q = cx_key"
    and ev: "retained_event cx_sha ax_provider cx_key r"
  obtains job where "require_response cx_sha ax_provider db op = Inr (response_record k r job)"
proof -
  have inv: "delivery_inv (rd_delivery (unanswered bs c))" by (rule delivery_inv_init) (simp add: delivery_init_def unanswered_def)
  from job create_job_inv [OF inv _ ax_policy] have tab: "tables_inv (rd_delivery db)" by (blast intro: delivery_inv_tables)
  let ?j = "answer_job cx_sha ex_policy op (cx_id 1) 3200"
  have j: "delivery_jobs (rd_delivery db) = [?j]" by (simp add: d with_answer_job_fields unanswered_def)
  then have jin: "?j \<in> set (delivery_jobs (rd_delivery db))" by simp
  have rows: "responses_by_operation db op = [((kind, r), q, ?j)]"
    by (simp add: responses_by_operation_def row(1,3) q(1) j answer_job_fields)
  let ?job = "job_record ?j (targets_of (rd_delivery db) (j_job_id ?j))"
  have "length (j_job_id ?j) = 32" by (simp add: answer_job_def new_job_row_def derive_job_id_def)
  moreover have "job_operation_id ?job = Some op" "jr_artifact_digest ?job = cx_id 1" "jr_created_at ?job = 3200"
    by (simp_all add: job_record_def job_operation_id_def answer_job_fields source_kind_parse_def)
  ultimately have "read_response cx_sha ax_provider db [((kind, r), q, ?j)] = Inr (Some (response_record k r ?job))"
    unfolding read_response_single [OF row(2)] using row(3-6) q(2) ev read_job_present(1) [OF tab jin] by simp
  then show thesis using that by (simp add: require_response_def read_response_by_operation_def rows)
qed

definition ax_answered :: response_db where "ax_answered = answered_db cx_sha ex_policy ax_request ax_ended ax_db"

lemma ax_op: "srr_operation_id (cq_request ax_completion) = cx_id 2" "rcq_completion ax_request = ax_completion"
  by (simp_all add: ax_request_def ax_completion_def)

lemma ax_committed:
  obtains response where "commit_nip46_response cx_sha ax_provider cx_metadata ex_policy ax_db ax_request
    = Inr (ResponseCommitted \<lparr>rcr_completion = commit_record ax_completion, rcr_response = response\<rparr>, ax_answered)"
proof -
  let ?c = "\<lparr>cm_connections = ax_ended, cm_commits = [stored_commit ax_completion]\<rparr>" and ?r = "new_response_row ax_request"
  let ?db1 = "ax_db\<lparr>rd_completion := ?c\<rparr>" and ?db2 = "ax_db\<lparr>rd_completion := ?c, rd_responses := [?r]\<rparr>"
  have empty: "rd_responses ax_db = []" "rd_pending ax_db = []" by (simp_all add: ax_db_def unanswered_def)
  have ck: "nip46_signed_responses_check ?r"
    by (simp add: nip46_signed_responses_check_def new_response_row_def ax_request_def sql_time_def ax_completion_def)
  have "response_insert_legal ?db1 [] ?r"
    by (simp add: response_insert_legal_def empty nip46_signed_responses_guard_pending_insert_def ck)
       (simp add: new_response_row_def new_commit_row_def ax_op)
  then have ins: "insert_response ?db1 ax_request = Inr ?db2"
    by (simp add: insert_response_def r_bind_Inr_iff completion_execute_one_Inr insert_response_sql_def sql_insert_def empty)
       (simp add: ax_request_def int_width_defs)
  obtain job where job: "create_job cx_sha (rd_delivery ax_db) (source_signer_response (cx_id 2)) (cx_id 1) 3200 ex_policy
    = Inr (Created job, with_answer_job cx_sha ex_policy (cx_id 2) (cx_id 1) 3200 (rd_delivery ax_db))"
    using ax_job [of "cx_id 2" ax_connections 3200 "[cx_binding]"] by (auto simp: ax_connections_simps cx_request_def ax_db_def)
  have answered: "ax_answered = ?db2\<lparr>rd_delivery := with_answer_job cx_sha ex_policy (cx_id 2) (cx_id 1) 3200 (rd_delivery ax_db)\<rparr>"
    unfolding ax_answered_def answered_db_def ax_op by (simp add: ax_db_def unanswered_def ax_request_def)
  have cr: "create_response_job cx_sha ex_policy ?db2 (cx_id 2) (cx_id 1) 3200 = Inr ax_answered"
    unfolding create_response_job_def on_delivery_def answered by (simp add: job)
  have ev: "retained_event cx_sha ax_provider cx_key ?r"
    using ax_validate [of None] by (simp add: retained_event_def new_response_row_def ax_request_def ax_sha) (simp add: ax_event_def)
  obtain out where r: "require_response cx_sha ax_provider ax_answered (cx_id 2) = Inr (response_record AuthorityTerminal ?r out)"
  proof (rule ax_read [of "[cx_binding]" ax_connections "cx_id 2" ax_answered "''terminal''" ?r AuthorityTerminal "cx_request 2 ''logout''"])
    show "response_authority ax_answered = [(''terminal'', ?r)]" by (simp add: answered response_authority_def empty)
    show "filter (\<lambda>q. q_operation_id q = cx_id 2) (n_requests (rd_connections ax_answered)) = [cx_request 2 ''logout'']"
      by (simp add: answered ax_ended_def expired_db_def ax_connections_simps) (simp add: cx_request_def)
  qed (use job ck ev in \<open>simp_all add: ax_db_def answered\<close>,
       simp_all add: new_response_row_def ax_op authority_kind_parse_def cx_request_def, simp_all add: ax_request_def)
  have fits: "exact_response (response_record AuthorityTerminal ?r out) ax_request = Inr ()"
    by (simp add: exact_response_fits response_fits_def response_record_def)
  have v: "verify_metadata (rd_delivery ax_db) cx_metadata = Inr ()" by (rule ax_verify) (simp add: ax_db_def unanswered_def)
  have f: "rcq_response_digest ax_request = cx_id 1" "rcq_committed_at ax_request = 3200" by (simp_all add: ax_request_def)
  have "commit_nip46_response cx_sha ax_provider cx_metadata ex_policy ax_db ax_request
    = Inr (ResponseCommitted \<lparr>rcr_completion = commit_record ax_completion, rcr_response = response_record AuthorityTerminal ?r out\<rparr>, ax_answered)"
    unfolding commit_nip46_response_def Let_def on_completion_def ax_op f
    using ax_op(1) by (simp add: v ax_operation ins [simplified ax_op] cr r fits ax_op)
  then show thesis by (rule that)
qed

lemma ax_answered_step: "response_step cx_crates ax_provider ax_db ax_answered"
proof -
  obtain response where "commit_nip46_response cx_sha ax_provider cx_metadata ex_policy ax_db ax_request
    = Inr (ResponseCommitted \<lparr>rcr_completion = commit_record ax_completion, rcr_response = response\<rparr>, ax_answered)"
    by (rule ax_committed)
  then show ?thesis using response_step.respond [OF ax_policy, of cx_crates ax_provider cx_metadata ax_db ax_request] by simp
qed

lemma ax_answered_reach: "response_reachable cx_crates ax_provider ax_answered"
  using response_reachable_step [OF ax_reach ax_answered_step] .

lemma ax_answered_simps: "rd_connections ax_answered = ax_ended" "cm_commits (rd_completion ax_answered) = [stored_commit ax_completion]"
  "rd_responses ax_answered = [new_response_row ax_request]" "config_bindings (rd_delivery ax_answered) = [cx_binding]"
  "delivery_jobs (rd_delivery ax_answered) = [answer_job cx_sha ex_policy (cx_id 2) (cx_id 1) 3200]"
  by (simp_all add: ax_answered_def answered_db_def ax_op with_answer_job_fields ax_db_def unanswered_def) (simp add: ax_request_def)

text \<open>The same commit once more.\<close>

lemma ax_replayed:
  obtains r where "commit_nip46_response cx_sha ax_provider cx_metadata ex_policy ax_answered ax_request = Inr (ResponseExactReplay r, ax_answered)"
proof -
  obtain response where run: "commit_nip46_response cx_sha ax_provider cx_metadata ex_policy ax_db ax_request
    = Inr (ResponseCommitted \<lparr>rcr_completion = commit_record ax_completion, rcr_response = response\<rparr>, ax_answered)"
    by (rule ax_committed)
  have v: "verify_metadata (rd_delivery ax_answered) cx_metadata = Inr ()" by (rule ax_verify) (simp add: ax_answered_simps)
  have q: "verify_request (rd_completion ax_answered) ax_completion = Inr ()"
    by (simp add: verify_request_Inr ax_answered_simps ax_ended_def expired_db_def ax_connections_simps cx_request_def ax_completion_def int_width_defs)
  from run obtain r where r: "read_commit (rd_completion ax_answered) ax_completion = Inr (Some (commit_record ax_completion))"
    "require_response cx_sha ax_provider ax_answered (cx_id 2) = Inr r" "response_fits r ax_request"
    by (cases rule: commit_response_Inr) (auto simp: ax_op)
  have "exact_response r ax_request = Inr ()" using r(3) by (simp add: exact_response_fits)
  then show thesis
    by (intro that [of "\<lparr>rcr_completion = commit_record ax_completion, rcr_response = r\<rparr>"])
       (simp add: commit_nip46_response_def Let_def on_completion_def commit_operation_def v q ax_op r(1,2))
qed

section \<open>A pending approval is announced\<close>

definition ax_pending :: response_db where "ax_pending = unanswered [cx_binding] cx_db2"

definition ax_announcement :: MycNip46PendingResponseCommitRequest where
  "ax_announcement = \<lparr>pcq_operation_id = cx_id 1, pcq_connection_id = cx_id 123, pcq_policy_generation = 1,
     pcq_client_public_key = cx_key, pcq_decided_at_unix_ms = 2000, pcq_response_provider_operation_id = cx_id 50,
     pcq_response_event_id = cx_id 60, pcq_response_digest = cx_id 1, pcq_response_bytes = [1], pcq_authored_at_unix_s = 2,
     pcq_committed_at = 3200\<rparr>"

definition ax_announced :: response_db where "ax_announced = announced_db cx_sha ex_policy ax_announcement ax_pending"

lemma ax_join: "pending_join cx_db2 (cx_id 1) = [(cx_decision, cx_connection, cx_request 1 ''connect'')]"
proof -
  have "c_policy_generation cx_connection = d_policy_generation cx_decision"
    "c_requested_permissions_sha256 cx_connection = d_requested_permissions_sha256 cx_decision"
    by (simp_all add: cx_connection_def cx_decision_def new_connection_def new_admission_decision_def)
  then show ?thesis
    by (simp add: pending_join_def cx_db2_simps cx_connection_fields) (simp add: cx_request_def)
qed

lemma ax_announcement_committed:
  obtains response where "commit_nip46_pending_response cx_sha ax_provider cx_metadata ex_policy ax_pending ax_announcement = Inr (response, ax_announced)"
proof -
  let ?p = "new_pending_row ax_announcement" and ?r = "pending_as_response (new_pending_row ax_announcement)"
  let ?db1 = "ax_pending\<lparr>rd_pending := [?p]\<rparr>"
  have f: "pcq_operation_id ax_announcement = cx_id 1" "pcq_response_digest ax_announcement = cx_id 1" "pcq_committed_at ax_announcement = 3200"
    by (simp_all add: ax_announcement_def)
  have st: "rd_connections ax_pending = cx_db2" "rd_responses ax_pending = []" "rd_pending ax_pending = []"
    "rd_delivery ax_pending = rd_delivery (unanswered [cx_binding] cx_db2)"
    by (simp_all add: ax_pending_def unanswered_def)
  have gen: "d_policy_generation cx_decision = 1" by (simp add: cx_decision_def new_admission_decision_def cx_admission_def)
  have b: "require_pending_binding ax_pending ax_announcement = Inr ()"
    by (simp add: require_pending_binding_def Let_def f(1) st ax_join r_bind_Inr_iff cx_connection_fields gen int_width_defs)
       (simp add: ax_announcement_def cx_key_def)
  have none: "read_response_by_operation cx_sha ax_provider ax_pending (cx_id 1) = Inr None"
    by (simp add: read_response_by_operation_def responses_by_operation_def response_authority_def st read_response_def)
  have "nip46_pending_responses_check ?p" by (simp add: nip46_pending_responses_check_def new_pending_row_def ax_announcement_def sql_time_def)
  moreover have "\<not> nip46_pending_responses_guard_insert cx_db2 [] ?p"
    by (simp add: nip46_pending_responses_guard_insert_def new_pending_row_def f ax_join cx_connection_fields) (simp add: ax_announcement_def)
  ultimately have legal: "pending_insert_legal ax_pending [] ?p"
    by (simp add: pending_insert_legal_def st) (simp add: cx_db2_simps new_pending_row_def ax_announcement_def cx_connection_fields, simp add: cx_request_def)
  then have ins: "insert_pending_response ax_pending ax_announcement = Inr ?db1"
    by (simp add: insert_pending_response_def r_bind_Inr_iff completion_execute_one_Inr insert_pending_response_sql_def sql_insert_def st)
       (simp add: ax_announcement_def int_width_defs)
  obtain job where job: "create_job cx_sha (rd_delivery ax_pending) (source_signer_response (cx_id 1)) (cx_id 1) 3200 ex_policy
    = Inr (Created job, with_answer_job cx_sha ex_policy (cx_id 1) (cx_id 1) 3200 (rd_delivery ax_pending))"
    using ax_job [of "cx_id 1" cx_db2 3200 "[cx_binding]"] by (auto simp: cx_db2_simps cx_request_def st)
  have announced: "ax_announced = ?db1\<lparr>rd_delivery := with_answer_job cx_sha ex_policy (cx_id 1) (cx_id 1) 3200 (rd_delivery ax_pending)\<rparr>"
    by (simp add: ax_announced_def announced_db_def f st)
  have cr: "create_response_job cx_sha ex_policy ?db1 (cx_id 1) (cx_id 1) 3200 = Inr ax_announced"
    unfolding create_response_job_def on_delivery_def announced by (simp add: job)
  have ck: "nip46_signed_responses_check ?r"
    using legal by (simp add: pending_insert_legal_def nip46_pending_responses_check_def nip46_signed_responses_check_def pending_as_response_def)
  have ev: "retained_event cx_sha ax_provider cx_key ?r"
    using ax_validate [of None] by (simp add: retained_event_def pending_as_response_def new_pending_row_def ax_announcement_def ax_sha)
      (simp add: ax_event_def)
  obtain out where r: "require_response cx_sha ax_provider ax_announced (cx_id 1) = Inr (response_record AuthorityPendingApproval ?r out)"
  proof (rule ax_read [of "[cx_binding]" cx_db2 "cx_id 1" ax_announced "''pending_approval''" ?r AuthorityPendingApproval "cx_request 1 ''connect''"])
    show "response_authority ax_announced = [(''pending_approval'', ?r)]"
      by (simp add: announced response_authority_def st) (simp add: new_pending_row_def)
    show "filter (\<lambda>q. q_operation_id q = cx_id 1) (n_requests (rd_connections ax_announced)) = [cx_request 1 ''connect'']"
      by (simp add: announced st cx_db2_simps) (simp add: cx_request_def)
  qed (use job ck ev in \<open>simp_all add: st announced\<close>,
       simp_all add: pending_as_response_def new_pending_row_def f authority_kind_parse_def cx_request_def)
  have fits: "exact_pending_response (response_record AuthorityPendingApproval ?r out) ax_announcement = Inr ()"
    by (simp add: exact_pending_response_fits announcement_fits_def response_record_def)
  have v: "verify_metadata (rd_delivery ax_pending) cx_metadata = Inr ()" by (rule ax_verify) (simp add: ax_pending_def unanswered_def)
  show thesis
    by (rule that [of "response_record AuthorityPendingApproval ?r out"])
       (simp add: commit_nip46_pending_response_def v b none f ins cr r fits)
qed

lemma ax_announced_reach: "response_reachable cx_crates ax_provider ax_announced"
proof -
  obtain response where "commit_nip46_pending_response cx_sha ax_provider cx_metadata ex_policy ax_pending ax_announcement = Inr (response, ax_announced)"
    by (rule ax_announcement_committed)
  then have "response_step cx_crates ax_provider ax_pending ax_announced"
    using response_step.announce [OF ax_policy, of cx_crates ax_provider cx_metadata ax_pending ax_announcement] by simp
  then show ?thesis
    unfolding ax_pending_def using response_reachable_step [OF unanswered_reachable [OF cx_reach2]] by blast
qed

lemma ax_announced_pending: "new_pending_row ax_announcement \<in> set (rd_pending ax_announced)"
  by (simp add: ax_announced_def announced_db_def)

end
