(* ===== verification/Response_Theorems.thy ===== *)
theory Response_Theorems
  imports Response_Example Delivery_Worker
begin

text \<open>
  Properties of the response authority (\<^verbatim>\<open>src/src/state_completion.rs\<close>, \<^verbatim>\<open>src/src/state_response.rs\<close>): one answer for each
  request, the exact bytes for every job of the outbox, replays, and the end of a session on logout.
\<close>

section \<open>Reading an answer\<close>

lemma answered_rows:
  assumes inv: "response_inv cr pc db" and a: "a \<in> set (response_authority db)"
  obtains q j where "responses_by_operation db (rp_operation_id (snd a)) = [(a, q, j)]"
    and "responses_by_job db (j_job_id j) = [(a, q, j)]"
    and "q \<in> set (n_requests (rd_connections db))" and "j \<in> set (delivery_jobs (rd_delivery db))"
    and "j_source_kind j = ''signer_response''" and "j_source_id j = rp_operation_id (snd a)"
    and "j_artifact_sha256 j = rp_response_sha256 (snd a)" and "j_created_at_unix_ms j = rp_committed_at_unix_ms (snd a)"
    and "q_operation_id q = rp_operation_id (snd a)" and "retained_event (sha256 cr) pc (q_client_public_key q) (snd a)"
proof -
  note I = response_invD [OF inv]
  have tab: "tables_inv (rd_delivery db)" using I(2) by (rule delivery_inv_tables)
  from I(5) [OF a] obtain q j where q: "q \<in> set (n_requests (rd_connections db))" "q_operation_id q = rp_operation_id (snd a)"
      "retained_event (sha256 cr) pc (q_client_public_key q) (snd a)"
    and j: "j \<in> set (delivery_jobs (rd_delivery db))" "j_source_kind j = ''signer_response''" "j_source_id j = rp_operation_id (snd a)"
      "j_artifact_sha256 j = rp_response_sha256 (snd a)" "j_created_at_unix_ms j = rp_committed_at_unix_ms (snd a)"
    by (auto simp: answered_def)
  have fa: "filter (\<lambda>r. rp_operation_id (snd r) = rp_operation_id (snd a)) (response_authority db) = [a]"
    using filter_unique [OF I(4) a] .
  have fq: "filter (\<lambda>x. q_operation_id x = rp_operation_id (snd a)) (n_requests (rd_connections db)) = [q]"
    using filter_unique [OF connection_invD(4) [OF I(1)] q(1)] q(2) by simp
  have fj: "filter (\<lambda>x. j_source_kind x = ''signer_response'' \<and> j_source_id x = rp_operation_id (snd a)) (delivery_jobs (rd_delivery db)) = [j]"
    using filter_unique [OF tables_invD(2) [OF tab] j(1)] j(2,3) by simp
  have fk: "filter (\<lambda>x. j_job_id x = j_job_id j \<and> j_source_kind x = ''signer_response'') (delivery_jobs (rd_delivery db)) = [j]"
    using filter_unique_conj [OF tables_invD(1) [OF tab] j(1), of "\<lambda>x. j_source_kind x = ''signer_response''"] j(2) by simp
  show thesis
    by (rule that [OF _ _ q(1) j(1-5) q(2,3)]) (simp_all add: responses_by_operation_def responses_by_job_def fa fq fj fk j(3))
qed

lemma answered_read:
  assumes inv: "response_inv cr pc db" and a: "a \<in> set (response_authority db)"
  obtains k q j where "authority_kind_parse (fst a) = Some k"
    and "read_response_by_operation (sha256 cr) pc db (rp_operation_id (snd a))
      = Inr (Some (response_record k (snd a) (job_record j (targets_of (rd_delivery db) (j_job_id j)))))"
    and "read_response_by_job (sha256 cr) pc db (j_job_id j)
      = Inr (Some (response_record k (snd a) (job_record j (targets_of (rd_delivery db) (j_job_id j)))))"
    and "q \<in> set (n_requests (rd_connections db))" and "j \<in> set (delivery_jobs (rd_delivery db))"
    and "j_source_kind j = ''signer_response''" and "j_source_id j = rp_operation_id (snd a)"
    and "j_artifact_sha256 j = rp_response_sha256 (snd a)"
    and "q_operation_id q = rp_operation_id (snd a)" and "retained_event (sha256 cr) pc (q_client_public_key q) (snd a)"
proof -
  note I = response_invD [OF inv]
  have tab: "tables_inv (rd_delivery db)" using I(2) by (rule delivery_inv_tables)
  obtain q j where rows: "responses_by_operation db (rp_operation_id (snd a)) = [(a, q, j)]" "responses_by_job db (j_job_id j) = [(a, q, j)]"
    and R: "q \<in> set (n_requests (rd_connections db))" "j \<in> set (delivery_jobs (rd_delivery db))"
      "j_source_kind j = ''signer_response''" "j_source_id j = rp_operation_id (snd a)" "j_artifact_sha256 j = rp_response_sha256 (snd a)"
      "j_created_at_unix_ms j = rp_committed_at_unix_ms (snd a)" "q_operation_id q = rp_operation_id (snd a)"
      "retained_event (sha256 cr) pc (q_client_public_key q) (snd a)"
    by (rule answered_rows [OF inv a])
  from I(5) [OF a] obtain k where ck: "nip46_signed_responses_check (snd a)" and k: "authority_kind_parse (fst a) = Some k"
    by (auto simp: answered_def)
  note J = delivery_jobs_checkD [OF job_inv_coreD(1) [OF tables_invD(7) [OF tab R(2)]]]
  have key: "length (q_client_public_key q) = 64" using connection_invD(3) [OF I(1) R(1)] by (simp add: request_ok_def nip46_requests_check_def)
  let ?job = "job_record j (targets_of (rd_delivery db) (j_job_id j))"
  have job: "job_operation_id ?job = Some (rp_operation_id (snd a))" "jr_artifact_digest ?job = rp_response_sha256 (snd a)"
    "int (jr_created_at ?job) = rp_committed_at_unix_ms (snd a)"
    using R(3-6) J by (simp_all add: job_operation_id_def job_record_def source_kind_parse_def)
  have "read_response (sha256 cr) pc db [((fst a, snd a), q, j)] = Inr (Some (response_record k (snd a) ?job))"
    unfolding read_response_single [OF ck] using k key J(1) R(8) read_job_present(1) [OF tab R(2)] job by blast
  then have "read_response (sha256 cr) pc db [(a, q, j)] = Inr (Some (response_record k (snd a) ?job))" by simp
  with rows k R show thesis by (intro that [of k j q]) (simp_all add: read_response_by_operation_def read_response_by_job_def)
qed

text \<open>What the reader returns is the row of the operation.\<close>

lemma required_row:
  assumes inv: "response_inv cr pc db" and run: "require_response (sha256 cr) pc db op = Inr x"
  obtains a k j where "a \<in> set (response_authority db)" and "rp_operation_id (snd a) = op" and "authority_kind_parse (fst a) = Some k"
    and "x = response_record k (snd a) (job_record j (targets_of (rd_delivery db) (j_job_id j)))"
    and "j \<in> set (delivery_jobs (rd_delivery db))" and "j_source_kind j = ''signer_response''" and "j_source_id j = op"
proof -
  have "nip46_signed_responses_check (snd a)" if "a \<in> set (response_authority db)" for a
    using response_invD(5) [OF inv that] by (simp add: answered_def)
  from required_answered [OF delivery_inv_tables [OF response_invD(2) [OF inv]] this run]
  obtain a where a: "a \<in> set (response_authority db)" "rp_operation_id (snd a) = op" by blast
  obtain k j where k: "authority_kind_parse (fst a) = Some k"
    and r: "read_response_by_operation (sha256 cr) pc db (rp_operation_id (snd a))
      = Inr (Some (response_record k (snd a) (job_record j (targets_of (rd_delivery db) (j_job_id j)))))"
    and j: "j \<in> set (delivery_jobs (rd_delivery db))" "j_source_kind j = ''signer_response''" "j_source_id j = rp_operation_id (snd a)"
    by (rule answered_read [OF inv a(1)])
  from run r a(2) have "x = response_record k (snd a) (job_record j (targets_of (rd_delivery db) (j_job_id j)))"
    by (simp add: require_response_def)
  with a k j show thesis by (intro that) simp_all
qed

section \<open>What a run keeps\<close>

definition response_grows :: "response_db \<Rightarrow> response_db \<Rightarrow> bool" where
  "response_grows db db' \<longleftrightarrow> set (cm_commits (rd_completion db)) \<subseteq> set (cm_commits (rd_completion db'))
     \<and> set (response_authority db) \<subseteq> set (response_authority db') \<and> set (rd_pending db) \<subseteq> set (rd_pending db')
     \<and> set (n_requests (rd_connections db)) \<subseteq> set (n_requests (rd_connections db'))
     \<and> set (signer_jobs (rd_delivery db)) \<subseteq> set (signer_jobs (rd_delivery db'))"

lemma response_step_grows:
  assumes inv: "response_inv cr pc db" and step: "response_step cr pc db db'"
  shows "response_grows db db'"
  using step
proof cases
  case (respond policy expected rq a)
  from respond(3) show ?thesis
  proof (cases rule: commit_response_Inr)
    case (answered response connections)
    then show ?thesis using session_after_requests [OF answered(7)]
      by (auto simp: response_grows_def answered_db_def response_authority_split signer_jobs_def with_answer_job_fields)
  qed (simp add: response_grows_def)
next
  case (announce policy expected prq r)
  from announce(3) show ?thesis
    by (cases rule: commit_pending_Inr)
       (auto simp: response_grows_def announced_db_def response_authority_split signer_jobs_def with_answer_job_fields)
next
  case (connection c)
  obtain qs where "n_requests c = n_requests (rd_connections db) @ qs"
    using connection_effect_requests [OF connection_step_effect [OF connection(2) response_invD(1) [OF inv]]] by blast
  then show ?thesis unfolding connection(1)
    by (auto simp: response_grows_def with_connections_def response_authority_split signer_jobs_def)
next
  case (outbox d)
  then show ?thesis using outbox_step_jobs [OF response_invD(2) [OF inv] outbox(2)]
    by (simp add: response_grows_def response_authority_split)
qed

lemma response_run_grows:
  assumes "(response_step cr pc)\<^sup>*\<^sup>* db db'" and "response_inv cr pc db"
  shows "response_inv cr pc db' \<and> response_grows db db'"
  using assms
proof (induction rule: rtranclp_induct)
  case (step x y)
  then show ?case using response_step_grows [OF _ step(2)] response_step_inv [OF _ step(2)] by (auto simp: response_grows_def)
qed (simp add: response_grows_def)

lemma response_reachable_run: "response_reachable cr pc db \<Longrightarrow> (response_step cr pc)\<^sup>*\<^sup>* db db' \<Longrightarrow> response_reachable cr pc db'"
  unfolding response_reachable_def by (meson rtranclp_trans)

text \<open>The answer of an operation is still read, from the same row, with the job of the same identifier.\<close>

lemma answer_kept:
  assumes inv: "response_inv cr pc db" and inv': "response_inv cr pc db'" and grows: "response_grows db db'"
    and run: "require_response (sha256 cr) pc db op = Inr x"
  obtains job where "require_response (sha256 cr) pc db' op = Inr (x\<lparr>nrr_delivery_job := job\<rparr>)" and "jr_id job = jr_id (nrr_delivery_job x)"
proof -
  obtain a k j where a: "a \<in> set (response_authority db)" "rp_operation_id (snd a) = op" "authority_kind_parse (fst a) = Some k"
    and x: "x = response_record k (snd a) (job_record j (targets_of (rd_delivery db) (j_job_id j)))"
    and j: "j \<in> set (delivery_jobs (rd_delivery db))" "j_source_kind j = ''signer_response''" "j_source_id j = op"
    by (rule required_row [OF inv run])
  have a': "a \<in> set (response_authority db')" using grows a(1) by (auto simp: response_grows_def)
  obtain k' j' where k': "authority_kind_parse (fst a) = Some k'"
    and r: "read_response_by_operation (sha256 cr) pc db' (rp_operation_id (snd a))
      = Inr (Some (response_record k' (snd a) (job_record j' (targets_of (rd_delivery db') (j_job_id j')))))"
    and j': "j' \<in> set (delivery_jobs (rd_delivery db'))" "j_source_kind j' = ''signer_response''" "j_source_id j' = rp_operation_id (snd a)"
    by (rule answered_read [OF inv' a'])
  have "job_identity j \<in> set (signer_jobs (rd_delivery db))" using j by (auto simp: signer_jobs_def job_identity_def)
  then have "job_identity j \<in> job_identity ` set (delivery_jobs (rd_delivery db'))"
    using grows by (auto simp: response_grows_def signer_jobs_def)
  then obtain i where i: "i \<in> set (delivery_jobs (rd_delivery db'))" "job_identity i = job_identity j" by force
  then have "i = j'" using distinct_key_eq [OF tables_invD(2) [OF delivery_inv_tables [OF response_invD(2) [OF inv']]] i(1) j'(1)]
    j j' a(2) by (simp add: job_identity_def)
  then have "j_job_id j' = j_job_id j" using i(2) by (simp add: job_identity_def)
  then show thesis using r a(2,3) k'
    by (intro that [of "job_record j' (targets_of (rd_delivery db') (j_job_id j'))"])
       (simp_all add: require_response_def x response_record_def job_record_def)
qed

lemma commit_kept:
  assumes inv': "response_inv cr pc db'" and grows: "response_grows db db'"
    and q: "verify_request (rd_completion db) rq = Inr ()" and c: "read_commit (rd_completion db) rq = Inr (Some x)"
  shows "verify_request (rd_completion db') rq = Inr ()" and "read_commit (rd_completion db') rq = Inr (Some x)"
proof -
  note I = response_invD [OF inv']
  from q obtain r where r: "filter (\<lambda>q. q_operation_id q = srr_operation_id (cq_request rq)) (n_requests (rd_connections db)) = [r]"
    and facts: "q_correlation_id r = srr_correlation_id (cq_request rq) \<and> length (q_correlation_id r) = 32
        \<and> q_method r = method_as_str (srr_method (cq_request rq))
        \<and> q_received_at_unix_ms r = int (srr_received_at (cq_request rq)) \<and> 0 < srr_received_at (cq_request rq)
        \<and> srr_received_at (cq_request rq) \<le> u64_max \<and> srr_received_at (cq_request rq) \<le> cq_completed_at rq"
    unfolding verify_request_Inr by blast
  from filter_singleD [OF r] grows have r': "r \<in> set (n_requests (rd_connections db'))" "q_operation_id r = srr_operation_id (cq_request rq)"
    by (auto simp: response_grows_def)
  show "verify_request (rd_completion db') rq = Inr ()"
    unfolding verify_request_Inr using filter_unique [OF connection_invD(4) [OF I(1)] r'(1)] r'(2) facts by auto
  from c have s: "filter (\<lambda>r. oc_operation_id r = srr_operation_id (cq_request rq)) (cm_commits (rd_completion db)) = [stored_commit rq]"
    and rest: "commit_readable rq \<and> x = commit_record rq" by (simp_all add: read_commit_Some)
  from filter_singleD [OF s] grows have s': "stored_commit rq \<in> set (cm_commits (rd_completion db'))" by (auto simp: response_grows_def)
  have "distinct (map oc_operation_id (cm_commits (rd_completion db')))" using I(4,7) by (simp add: answer_ids_split)
  from filter_unique [OF this s'] rest show "read_commit (rd_completion db') rq = Inr (Some x)"
    by (simp add: read_commit_Some new_commit_row_def)
qed

section \<open>Properties\<close>

text \<open>The bytes kept for an answer, and its only job.\<close>

lemma answer_exact:
  assumes inv: "response_inv cr pc db" and a: "(kind, r) \<in> set (response_authority db)"
  shows "sha256 cr (rp_response_bytes r) = rp_response_sha256 r
    \<and> (\<exists>q event. q \<in> set (n_requests (rd_connections db)) \<and> q_operation_id q = rp_operation_id r
        \<and> validate_response_event pc (rp_response_bytes r) (q_client_public_key q) None = Inr event
        \<and> ne_id event = rp_response_event_id r \<and> int (ne_created_at event) = rp_authored_at_unix_s r)
    \<and> (\<exists>j. filter (\<lambda>j. j_source_kind j = ''signer_response'' \<and> j_source_id j = rp_operation_id r) (delivery_jobs (rd_delivery db)) = [j]
        \<and> j_artifact_sha256 j = rp_response_sha256 r)"
proof -
  note I = response_invD [OF inv]
  from I(5) [OF a] obtain q j event where q: "q \<in> set (n_requests (rd_connections db))" "q_operation_id q = rp_operation_id r"
    and e: "sha256 cr (rp_response_bytes r) = rp_response_sha256 r"
      "validate_response_event pc (rp_response_bytes r) (q_client_public_key q) None = Inr event"
      "ne_id event = rp_response_event_id r" "int (ne_created_at event) = rp_authored_at_unix_s r"
    and j: "j \<in> set (delivery_jobs (rd_delivery db))" "j_source_kind j = ''signer_response''" "j_source_id j = rp_operation_id r"
      "j_artifact_sha256 j = rp_response_sha256 r"
    by (auto simp: answered_def retained_event_def)
  have "filter (\<lambda>j. j_source_kind j = ''signer_response'' \<and> j_source_id j = rp_operation_id r) (delivery_jobs (rd_delivery db)) = [j]"
    using filter_unique [OF tables_invD(2) [OF delivery_inv_tables [OF I(2)]] j(1)] j(2,3) by simp
  with q e j(4) show ?thesis by blast
qed

text \<open>
  C4. In every state that the response authority, the connection authority, the delivery worker, recovery and discovery can
  reach together: completions and terminal responses are the same operations in the same order, and no operation is answered
  twice, whether by a terminal response or by the announcement of a pending approval. The bytes kept for an answer hash to
  the stored digest and are a canonical, verified response event for the client of the stored request, and exactly one
  delivery job delivers that operation, under that digest. A completion that revoked a connection belongs to a connection
  that has expired.
\<close>

theorem response_invariant:
  assumes "response_reachable cr pc db"
  shows "map oc_operation_id (cm_commits (rd_completion db)) = map rp_operation_id (rd_responses db)
    \<and> distinct (map rp_operation_id (rd_responses db) @ map pn_operation_id (rd_pending db))
    \<and> (\<forall>(kind, r)\<in>set (response_authority db). sha256 cr (rp_response_bytes r) = rp_response_sha256 r
      \<and> (\<exists>q event. q \<in> set (n_requests (rd_connections db)) \<and> q_operation_id q = rp_operation_id r
          \<and> validate_response_event pc (rp_response_bytes r) (q_client_public_key q) None = Inr event
          \<and> ne_id event = rp_response_event_id r \<and> int (ne_created_at event) = rp_authored_at_unix_s r)
      \<and> (\<exists>j. filter (\<lambda>j. j_source_kind j = ''signer_response'' \<and> j_source_id j = rp_operation_id r) (delivery_jobs (rd_delivery db)) = [j]
          \<and> j_artifact_sha256 j = rp_response_sha256 r))
    \<and> (\<forall>x\<in>set (cm_commits (rd_completion db)). oc_session_effect x = ''connection_revoked'' \<longrightarrow>
      (\<exists>c\<in>set (n_connections (rd_connections db)). oc_connection_id x = Some (c_connection_id c) \<and> c_status c = ''expired''))"
proof -
  have inv: "response_inv cr pc db" using assms by (rule response_reachable_inv)
  note I = response_invD [OF inv]
  have "distinct (map rp_operation_id (rd_responses db) @ map pn_operation_id (rd_pending db))" using I(4) by (simp only: answer_ids_split)
  moreover have "\<forall>x\<in>set (cm_commits (rd_completion db)). oc_session_effect x = ''connection_revoked'' \<longrightarrow>
      (\<exists>c\<in>set (n_connections (rd_connections db)). oc_connection_id x = Some (c_connection_id c) \<and> c_status c = ''expired'')"
    using I(8) by (simp add: commit_ok_def)
  ultimately show ?thesis using I(7) answer_exact [OF inv] by blast
qed

theorem response_invariant_witness:
  "sha256 cx_crates [1] = cx_id 1 \<and> (\<exists>c\<in>set (n_connections ax_ended). c_connection_id c = cx_id 123 \<and> c_status c = ''expired'')"
proof -
  note R = response_invariant [OF ax_answered_reach]
  have "oc_session_effect (stored_commit ax_completion) = ''connection_revoked''" "oc_connection_id (stored_commit ax_completion) = Some (cx_id 123)"
    by (simp_all add: new_commit_row_def ax_completion_def)
  with R have "\<exists>c\<in>set (n_connections ax_ended). c_connection_id c = cx_id 123 \<and> c_status c = ''expired''"
    by (auto simp: ax_answered_simps)
  moreover have "sha256 cx_crates [1] = cx_id 1"
    using R by (simp add: response_authority_def ax_answered_simps) (simp add: new_response_row_def ax_request_def)
  ultimately show ?thesis by blast
qed

text \<open>
  C5. In a reachable state every delivery job of a signer response has its bytes: under the expected configuration binding
  the repository reads them back by the job's identifier without an error, recovery's verification of the job passes, and
  the worker, which checks that the record is the one of its job and that the digest fits, reads exactly these bytes.
\<close>

theorem signer_job_has_bytes:
  assumes "response_reachable cr pc db" and "verify_metadata (rd_delivery db) expected = Inr ()"
    and "j \<in> set (delivery_jobs (rd_delivery db))" and "j_source_kind j = ''signer_response''"
  shows "\<exists>r. read_nip46_response (sha256 cr) pc expected db (j_job_id j) = Inr (Some r)
    \<and> nrr_operation_id r = j_source_id j \<and> nrr_response_digest r = j_artifact_sha256 j
    \<and> nrr_delivery_job r = job_record j (targets_of (rd_delivery db) (j_job_id j))
    \<and> verify_response_for_delivery_job (sha256 cr) pc db (j_job_id j) = Inr ()
    \<and> retained_bytes (sha256 cr) pc expected discovery db (nrr_delivery_job r) = Inr (Some (nrr_response_bytes r))
    \<and> read_exact_event (sha256 cr) (retained_bytes (sha256 cr) pc expected discovery db (nrr_delivery_job r)) (nrr_delivery_job r)
        = Inr (nrr_response_bytes r)"
proof -
  have inv: "response_inv cr pc db" using assms(1) by (rule response_reachable_inv)
  note I = response_invD [OF inv]
  from I(6) [OF assms(3,4)] obtain a where a: "a \<in> set (response_authority db)" "rp_operation_id (snd a) = j_source_id j" by auto
  obtain k i and q :: request_row where read: "read_response_by_job (sha256 cr) pc db (j_job_id i)
      = Inr (Some (response_record k (snd a) (job_record i (targets_of (rd_delivery db) (j_job_id i)))))"
    and i: "i \<in> set (delivery_jobs (rd_delivery db))" "j_source_kind i = ''signer_response''" "j_source_id i = rp_operation_id (snd a)"
      "j_artifact_sha256 i = rp_response_sha256 (snd a)" and ev: "retained_event (sha256 cr) pc (q_client_public_key q) (snd a)"
    by (rule answered_read [OF inv a(1)])
  have "i = j" using distinct_key_eq [OF tables_invD(2) [OF delivery_inv_tables [OF I(2)]] i(1) assms(3)] i a(2) assms(4) by simp
  then show ?thesis
    using read i(4) ev a(2) assms(2)
    by (simp add: read_nip46_response_def verify_response_for_delivery_job_def response_record_def read_exact_event_def job_record_def
      retained_event_def retained_bytes_def source_kind_parse_def assms(4) only_if_def)
qed

theorem signer_job_has_bytes_witness:
  "\<exists>r. read_nip46_response cx_sha ax_provider cx_metadata ax_answered (j_job_id (answer_job cx_sha ex_policy (cx_id 2) (cx_id 1) 3200))
     = Inr (Some r) \<and> nrr_operation_id r = cx_id 2 \<and> nrr_response_digest r = cx_id 1"
  using signer_job_has_bytes [OF ax_answered_reach ax_verify, of "answer_job cx_sha ex_policy (cx_id 2) (cx_id 1) 3200"]
  by (auto simp: ax_answered_simps answer_job_fields)

text \<open>
  C6. A response is committed once and for ever. When the commit of a response has returned, whatever happens afterwards
  in all components, the same commit under the expected binding, with whatever delivery policy, changes nothing and
  returns an exact replay: the same completion and the same response, with the delivery job of the same identifier.
\<close>

theorem response_commit_replay:
  assumes "response_reachable cr pc db" and "policies_valid policy" and "relays_valid policy"
    and "commit_nip46_response (sha256 cr) pc expected policy db rq = Inr (a, db1)"
    and "(response_step cr pc)\<^sup>*\<^sup>* db1 db2" and "verify_metadata (rd_delivery db2) expected2 = Inr ()"
  shows "\<exists>job. commit_nip46_response (sha256 cr) pc expected2 policy2 db2 rq
      = Inr (ResponseExactReplay (response_admission_record a
          \<lparr>rcr_response := (rcr_response (response_admission_record a))\<lparr>nrr_delivery_job := job\<rparr>\<rparr>), db2)
    \<and> jr_id job = jr_id (nrr_delivery_job (rcr_response (response_admission_record a)))"
proof -
  let ?c = "rcq_completion rq"
  have inv: "response_inv cr pc db" using assms(1) by (rule response_reachable_inv)
  have inv1: "response_inv cr pc db1" using commit_response_inv [OF inv assms(2-4)] .
  obtain response where a: "response_admission_record a = \<lparr>rcr_completion = commit_record ?c, rcr_response = response\<rparr>"
    and q: "verify_request (rd_completion db1) ?c = Inr ()" and c: "read_commit (rd_completion db1) ?c = Inr (Some (commit_record ?c))"
    and r: "require_response (sha256 cr) pc db1 (rcq_operation_id rq) = Inr response" "response_fits response rq"
    using assms(4)
  proof (cases rule: commit_response_Inr)
    case (answered response connections)
    have "verify_request (rd_completion db1) ?c = Inr ()"
      using answered(3) session_after_requests [OF answered(7)] unfolding verify_request_Inr by (simp add: answered(9) answered_db_def)
    with answered that show thesis by simp
  qed (use that in simp)
  have inv2: "response_inv cr pc db2" and grows: "response_grows db1 db2" using response_run_grows [OF assms(5) inv1] by auto
  note C = commit_kept [OF inv2 grows q c]
  obtain job where job: "require_response (sha256 cr) pc db2 (rcq_operation_id rq) = Inr (response\<lparr>nrr_delivery_job := job\<rparr>)"
    "jr_id job = jr_id (nrr_delivery_job response)"
    by (rule answer_kept [OF inv1 inv2 grows r(1)])
  have "exact_response (response\<lparr>nrr_delivery_job := job\<rparr>) rq = Inr ()"
    using r(2) by (cases response) (simp add: exact_response_fits response_fits_def response_record_def)
  then have "commit_nip46_response (sha256 cr) pc expected2 policy2 db2 rq
      = Inr (ResponseExactReplay \<lparr>rcr_completion = commit_record ?c, rcr_response = response\<lparr>nrr_delivery_job := job\<rparr>\<rparr>, db2)"
    by (simp add: commit_nip46_response_def Let_def on_completion_def commit_operation_def assms(6) C job(1))
  with a job(2) show ?thesis by (intro exI [of _ job]) simp
qed

theorem response_commit_replay_witness:
  "\<exists>r. commit_nip46_response cx_sha ax_provider cx_metadata ex_policy ax_answered ax_request = Inr (ResponseExactReplay r, ax_answered)"
proof -
  obtain response where run: "commit_nip46_response cx_sha ax_provider cx_metadata ex_policy ax_db ax_request
    = Inr (ResponseCommitted \<lparr>rcr_completion = commit_record ax_completion, rcr_response = response\<rparr>, ax_answered)"
    by (rule ax_committed)
  have "verify_metadata (rd_delivery ax_answered) cx_metadata = Inr ()" by (rule ax_verify) (simp add: ax_answered_simps)
  from response_commit_replay [OF ax_reach ax_policy _ rtranclp.rtrancl_refl this, of cx_metadata ax_request _ ex_policy] run
  show ?thesis by fastforce
qed

text \<open>
  C7. The announcement of a pending approval is the final answer of its connect request: once it is stored, no later state
  lets a terminal response of the same operation be committed, whatever the operator decides.
\<close>

theorem pending_announcement_final:
  assumes "response_reachable cr pc db" and "p \<in> set (rd_pending db)" and "(response_step cr pc)\<^sup>*\<^sup>* db db'"
    and "srr_operation_id (cq_request (rcq_completion rq)) = pn_operation_id p"
  shows "\<exists>e. commit_nip46_response (sha256 cr) pc expected policy db' rq = Inl e"
proof (cases "commit_nip46_response (sha256 cr) pc expected policy db' rq")
  case (Inr out)
  obtain a db2 where run: "commit_nip46_response (sha256 cr) pc expected policy db' rq = Inr (a, db2)" using Inr by (cases out) simp
  have inv': "response_inv cr pc db'" and p: "p \<in> set (rd_pending db')"
    using response_run_grows [OF assms(3) response_reachable_inv [OF assms(1)]] assms(2) by (auto simp: response_grows_def)
  have no_response: "r \<notin> set (rd_responses db')" if "rp_operation_id r = pn_operation_id p" for r
    using response_invD(4) [OF inv'] p that unfolding answer_ids_split by (auto simp: image_iff)
  from run have False
  proof (cases rule: commit_response_Inr)
    case (replay response)
    from replay(5) have "stored_commit (rcq_completion rq) \<in> set (cm_commits (rd_completion db'))"
      by (auto simp: read_commit_Some dest: filter_singleD)
    then have "pn_operation_id p \<in> set (map oc_operation_id (cm_commits (rd_completion db')))"
      using assms(4) by (force simp: new_commit_row_def)
    then have "pn_operation_id p \<in> set (map rp_operation_id (rd_responses db'))" unfolding response_invD(7) [OF inv'] .
    then show False using no_response by auto
  next
    case (answered response connections)
    from answered(10) p assms(4) show False
      by (auto simp: response_insert_legal_def nip46_signed_responses_guard_pending_insert_def list_ex_iff new_response_row_def)
  qed
  then show ?thesis ..
qed blast

theorem pending_announcement_final_witness:
  "\<exists>e. commit_nip46_response cx_sha ax_provider cx_metadata ex_policy ax_announced
     (ax_request\<lparr>rcq_completion := ax_completion\<lparr>cq_request := (cq_request ax_completion)\<lparr>srr_operation_id := cx_id 1\<rparr>\<rparr>\<rparr>) = Inl e"
  using pending_announcement_final [OF ax_announced_reach ax_announced_pending rtranclp.rtrancl_refl]
  by (simp add: new_pending_row_def ax_announcement_def)

text \<open>
  C8. A committed logout ends the session for good: whatever happens afterwards in all components, the connection is
  expired, and a response commit that relies on it and returns is the replay of an answer given before; it changes nothing.
\<close>

theorem logout_ends_session:
  assumes "response_reachable cr pc db" and "policies_valid policy" and "relays_valid policy"
    and "commit_nip46_response (sha256 cr) pc expected policy db rq = Inr (a, db1)"
    and "cq_session_effect (rcq_completion rq) = EffectConnectionRevoked" and "(response_step cr pc)\<^sup>*\<^sup>* db1 db2"
    and "cq_connection_id (rcq_completion rq2) = cq_connection_id (rcq_completion rq)"
    and "commit_nip46_response (sha256 cr) pc expected2 policy2 db2 rq2 = Inr (b, db3)"
  shows "(\<exists>c\<in>set (n_connections (rd_connections db2)). cq_connection_id (rcq_completion rq) = Some (c_connection_id c) \<and> c_status c = ''expired'')
    \<and> (\<exists>r. b = ResponseExactReplay r) \<and> db3 = db2"
proof -
  have inv1: "response_inv cr pc db1" using commit_response_inv [OF response_reachable_inv [OF assms(1)] assms(2-4)] .
  have "read_commit (rd_completion db1) (rcq_completion rq) = Inr (Some (commit_record (rcq_completion rq)))"
    using assms(4) by (cases rule: commit_response_Inr) simp_all
  then have "stored_commit (rcq_completion rq) \<in> set (cm_commits (rd_completion db1))"
    by (auto simp: read_commit_Some dest: filter_singleD)
  moreover have inv2: "response_inv cr pc db2" and "response_grows db1 db2" using response_run_grows [OF assms(6) inv1] by auto
  ultimately have "stored_commit (rcq_completion rq) \<in> set (cm_commits (rd_completion db2))" by (auto simp: response_grows_def)
  from response_invD(8) [OF inv2 this] assms(5) obtain c where c: "c \<in> set (n_connections (rd_connections db2))"
      "cq_connection_id (rcq_completion rq) = Some (c_connection_id c)" "c_status c = ''expired''"
    by (auto simp: commit_ok_def new_commit_row_def)
  from assms(8) have "(\<exists>r. b = ResponseExactReplay r) \<and> db3 = db2"
  proof (cases rule: commit_response_Inr)
    case (answered response connections)
    from answered(6) assms(7) c(2) obtain e where e: "session_row (rd_completion db2) (rcq_completion rq2) e" by auto
    then have "e \<in> set (n_connections (rd_connections db2))" "c_connection_id e = c_connection_id c" "c_status e = ''active''"
      using session_row_in [OF e] session_row_bound [OF e] assms(7) c(2) by (simp_all add: session_row_def)
    with unique_by_key [OF connection_invD(6) [OF response_invD(1) [OF inv2]] c(1), of e] c(3) show ?thesis by simp
  qed simp
  with c show ?thesis by blast
qed

theorem logout_ends_session_witness:
  "\<exists>c\<in>set (n_connections ax_ended). c_connection_id c = cx_id 123 \<and> c_status c = ''expired''"
proof -
  obtain response where run: "commit_nip46_response cx_sha ax_provider cx_metadata ex_policy ax_db ax_request
    = Inr (ResponseCommitted \<lparr>rcr_completion = commit_record ax_completion, rcr_response = response\<rparr>, ax_answered)"
    by (rule ax_committed)
  obtain r where again: "commit_nip46_response cx_sha ax_provider cx_metadata ex_policy ax_answered ax_request = Inr (ResponseExactReplay r, ax_answered)"
    by (rule ax_replayed)
  have f: "cq_session_effect (rcq_completion ax_request) = EffectConnectionRevoked" "cq_connection_id (rcq_completion ax_request) = Some (cx_id 123)"
    by (simp_all add: ax_request_def ax_completion_def)
  note R = logout_ends_session [OF ax_reach ax_policy _ f(1) rtranclp.rtrancl_refl refl, unfolded cx_sha_crates, OF run again]
  from R f(2) show ?thesis by (auto simp: ax_answered_simps)
qed

text \<open>
  C9. A response commit that is not a replay does exactly this. The request is stored, was received before the completion
  and has no answer of either kind; a completion that is bound to a connection finds it active, of the generation of the
  work, and not changed after the completion. The completion and the exact response are appended, a new delivery job for
  the operation and the digest is added with its targets, a logout moves its one connection to expired, and nothing
  else changes. The returned record carries what the request asked for.
\<close>

theorem response_commit_exact:
  assumes "response_reachable cr pc db"
    and "commit_nip46_response (sha256 cr) pc expected policy db rq = Inr (ResponseCommitted x, db')"
  shows "(\<exists>q\<in>set (n_requests (rd_connections db)). q_operation_id q = rcq_operation_id rq
      \<and> q_correlation_id q = srr_correlation_id (cq_request (rcq_completion rq))
      \<and> q_method q = method_as_str (srr_method (cq_request (rcq_completion rq)))
      \<and> q_received_at_unix_ms q \<le> int (cq_completed_at (rcq_completion rq)))
    \<and> rcq_operation_id rq \<notin> rp_operation_id ` set (rd_responses db) \<union> pn_operation_id ` set (rd_pending db)
    \<and> (cq_connection_id (rcq_completion rq) = None \<and> rd_connections db' = rd_connections db
      \<or> (\<exists>c\<in>set (n_connections (rd_connections db)). cq_connection_id (rcq_completion rq) = Some (c_connection_id c)
          \<and> c_status c = ''active'' \<and> cq_connection_generation (rcq_completion rq) = Some (nat (c_policy_generation c))
          \<and> c_updated_at_unix_ms c \<le> int (cq_completed_at (rcq_completion rq))
          \<and> rd_connections db' = (if cq_session_effect (rcq_completion rq) = EffectConnectionRevoked
              then expired_db (rd_connections db) c (cq_completed_at (rcq_completion rq)) else rd_connections db)))
    \<and> db' = answered_db (sha256 cr) policy rq (rd_connections db') db
    \<and> (\<exists>job. x = \<lparr>rcr_completion = commit_record (rcq_completion rq),
        rcr_response = response_record AuthorityTerminal (new_response_row rq) job\<rparr>)"
  using assms(2)
proof (cases rule: commit_response_Inr)
  case (answered response connections)
  let ?c = "rcq_completion rq"
  have inv: "response_inv cr pc db" using assms(1) by (rule response_reachable_inv)
  have conn: "rd_connections db' = connections" by (simp add: answered(9) answered_db_def)
  from answered(3) obtain q where q: "filter (\<lambda>q. q_operation_id q = rcq_operation_id rq) (n_requests (rd_connections db)) = [q]"
    "q_correlation_id q = srr_correlation_id (cq_request ?c)" "q_method q = method_as_str (srr_method (cq_request ?c))"
    "q_received_at_unix_ms q = int (srr_received_at (cq_request ?c))" "srr_received_at (cq_request ?c) \<le> cq_completed_at ?c"
    unfolding verify_request_Inr by blast
  have "\<exists>q\<in>set (n_requests (rd_connections db)). q_operation_id q = rcq_operation_id rq
      \<and> q_correlation_id q = srr_correlation_id (cq_request ?c) \<and> q_method q = method_as_str (srr_method (cq_request ?c))
      \<and> q_received_at_unix_ms q \<le> int (cq_completed_at ?c)"
    using filter_singleD [OF q(1)] q(2-5) by (intro bexI [of _ q]) simp_all
  moreover have "rcq_operation_id rq \<notin> rp_operation_id ` set (rd_responses db) \<union> pn_operation_id ` set (rd_pending db)"
    using answered(10) by (auto simp: response_insert_legal_def nip46_signed_responses_guard_pending_insert_def list_all_iff list_ex_iff
      new_response_row_def)
  moreover have "cq_connection_id ?c = None \<and> connections = rd_connections db
      \<or> (\<exists>c\<in>set (n_connections (rd_connections db)). cq_connection_id ?c = Some (c_connection_id c) \<and> c_status c = ''active''
          \<and> cq_connection_generation ?c = Some (nat (c_policy_generation c)) \<and> c_updated_at_unix_ms c \<le> int (cq_completed_at ?c)
          \<and> connections = (if cq_session_effect ?c = EffectConnectionRevoked
              then expired_db (rd_connections db) c (cq_completed_at ?c) else rd_connections db))"
    using answered(6)
  proof
    assume "\<exists>c. session_row (rd_completion db) ?c c"
    then obtain c where c: "session_row (rd_completion db) ?c c" ..
    have "connections = expired_db (rd_connections db) c (cq_completed_at ?c)" if r: "cq_session_effect ?c = EffectConnectionRevoked"
    proof -
      from answered(7) r obtain e where e: "e \<in> set (n_connections (rd_connections db))" "cq_connection_id ?c = Some (c_connection_id e)"
        "connections = expired_db (rd_connections db) e (cq_completed_at ?c)" by (auto simp: session_after_def)
      moreover have "e = c" using unique_by_key [OF connection_invD(6) [OF response_invD(1) [OF inv]] e(1) session_row_in [OF c]]
        session_row_bound [OF c] e(2) by simp
      ultimately show ?thesis by simp
    qed
    moreover have "connections = rd_connections db" if "cq_session_effect ?c \<noteq> EffectConnectionRevoked"
      using answered(7) that by (simp add: session_after_def)
    ultimately show ?thesis using session_row_in [OF c] c
      by (intro disjI2 bexI [of _ c]) (simp_all add: session_row_def)
  qed (use answered(7) in \<open>simp add: session_after_def\<close>)
  moreover have "\<exists>job. x = \<lparr>rcr_completion = commit_record ?c, rcr_response = response_record AuthorityTerminal (new_response_row rq) job\<rparr>"
    using answered(1,14) by (auto simp: response_fits_def)
  ultimately show ?thesis using answered(9) conn by simp
qed simp

theorem response_commit_exact_witness:
  "\<exists>c\<in>set (n_connections ax_connections). c_connection_id c = cx_id 123 \<and> c_status c = ''active'' \<and> ax_ended = expired_db ax_connections c 3100"
proof -
  obtain response where run: "commit_nip46_response cx_sha ax_provider cx_metadata ex_policy ax_db ax_request
    = Inr (ResponseCommitted \<lparr>rcr_completion = commit_record ax_completion, rcr_response = response\<rparr>, ax_answered)"
    by (rule ax_committed)
  have f: "rcq_completion ax_request = ax_completion" "cq_connection_id ax_completion = Some (cx_id 123)" "cq_completed_at ax_completion = 3100"
    "cq_session_effect ax_completion = EffectConnectionRevoked" "rd_connections ax_db = ax_connections"
    by (simp_all add: ax_request_def ax_completion_def ax_db_def unanswered_def)
  from response_commit_exact [OF ax_reach, unfolded cx_sha_crates, OF run] show ?thesis
    unfolding f ax_answered_simps(1) by auto
qed

end
