(* ===== verification/Spec2Isabelle.thy ===== *)
theory Spec2Isabelle
  imports Delivery_Theorems Delivery_Worker Governance_Theorems Config_Theorems Nip46_Theorems Nip46_Work_Theorems
    Response_Theorems
begin

text \<open>
  \<^bold>\<open>A verification development for myc, a remote signer for the Nostr protocol (NIP-46).\<close>

  The program keeps all its authority in one SQLite database. Clients send encrypted requests over relays; a request is
  admitted, a connection is authorized by policy, by the operator or by a challenge, the answer is retained and handed to
  an outbox that delivers it to the configured relays. Every step is one transaction that first checks that the database
  is bound to the configuration the process was opened with. The correctness of the program is the correctness of these
  transactions, and they are what is modelled here: each is a function from the database to an error or to an answer
  with the new database, over tables whose CHECK constraints, keys and triggers are part of the model.

  \<^bold>\<open>Parts and theories\<close> (sources under \<^verbatim>\<open>src/src/\<close>)

  \<^item> \<open>Myc_Prelude\<close>: results with an error on the left, Rust's checked and saturating arithmetic, guarded INSERT and
    UPDATE, and three locales: \<open>spelling\<close> (the durable spelling of an enumeration and its parser), \<open>keyed_update\<close> (an
    UPDATE that keeps the key columns) and \<open>invariant_system\<close> (a transition system with an invariant; what every
    reachable state satisfies and what every run preserves is proved once, inside it).
  \<^item> \<open>State_Repository\<close>: the binding check of \<^verbatim>\<open>state_repository.rs\<close>, run first by every transaction.
  \<^item> \<open>Delivery_Types\<close>, \<open>Delivery_Schema\<close>, \<open>Delivery_State\<close>: values, tables and all operations of
    \<^verbatim>\<open>state_delivery.rs\<close>, the outbox (jobs, targets, leased attempts). \<open>Delivery_Invariant\<close>, \<open>Delivery_Steps\<close>,
    \<open>Delivery_Outcome\<close>, \<open>Delivery_Admission\<close>, \<open>Delivery_Progress\<close>, \<open>Delivery_System\<close>: the invariant, its preservation, the
    exact effect of each operation and when it succeeds, the transition system. \<open>Delivery_Recovery\<close>: restart recovery
    (\<^verbatim>\<open>state_recovery.rs\<close>). \<open>Delivery_Worker\<close>: the worker (\<^verbatim>\<open>delivery_worker.rs\<close>). \<open>Delivery_Theorems\<close> holds the properties.
  \<^item> \<open>Governance_State\<close>: audit trail, rate windows and compaction of \<^verbatim>\<open>state_governance.rs\<close> with their tables.
    \<open>Governance_Invariant\<close>, \<open>Governance_Windows\<close>, \<open>Governance_System\<close>, \<open>Governance_Limits\<close>, \<open>Governance_Trail\<close>: the
    invariant, the windows as a map, the transition system, limits along runs, the trail along runs.
    \<open>Governance_Theorems\<close> holds the properties.
  \<^item> \<open>Connection_Types\<close>, \<open>Nip46_Authorization\<close>, \<open>Connection_Schema\<close>, \<open>Connection_State\<close>, \<open>Connection_Operations\<close>: values,
    policies (\<^verbatim>\<open>nip46_authorization.rs\<close>), tables, readers and all operations of \<^verbatim>\<open>state_connection.rs\<close> that change state:
    admission, operator decision, expiry, revocation, challenges. They run the governance operations on the same database
    (\<open>n_gov\<close>). \<open>Connection_Invariant\<close>: the invariant and what the readers return under it. \<open>Connection_Effects\<close>,
    \<open>Challenge_Effects\<close>: what an operation that returns has done. \<open>Connection_Preservation\<close>: those effects keep the
    invariant. \<open>Connection_System\<close>: the steps of the whole component, classified by ten kinds of effect.
    \<open>Connection_Progress\<close>, \<open>Challenge_Progress\<close>: operations that must succeed. \<open>Connection_Lifecycle\<close>: the relation
    between two states of a run. \<open>Connection_Example\<close>: a run from a connect request to an authorized challenge.
    \<open>Connection_Theorems\<close> holds the properties.
  \<^item> \<open>Config_Apply\<close>: the offline configuration change of \<^verbatim>\<open>state_config.rs\<close> with the digest and identities of
    \<^verbatim>\<open>state_metadata.rs\<close>. It is where the components meet: \<open>state_db\<close> joins the binding history, the delivery tables and
    the connection tables. \<open>Config_Theorems\<close> holds its properties.
  \<^item> \<open>Request_State\<close>: \<^verbatim>\<open>state_request.rs\<close>, the durable admission of a request, with the deduplication table.
    \<open>Request_Invariant\<close>, \<open>Request_Admission\<close>: the invariant and the five effects an admission can have. \<open>Request_Ledger\<close>: an
    abstract ledger of requests and events that the tables refine. \<open>Request_Theorems\<close> holds the properties.
  \<^item> \<open>Nip46_Input\<close>: \<^verbatim>\<open>nip46_admission.rs\<close>, the bounded structural admission of bytes, with the UTF-8 check and the JSON string
    scanner. \<open>Nip46_Scanner\<close>, \<open>Nip46_Utf8\<close>, \<open>Nip46_Measure\<close>: the grammar of JSON strings and what the loops accept.
    \<open>Nip46_Verification\<close>: \<^verbatim>\<open>nip46_verification.rs\<close> and \<^verbatim>\<open>nip46_replay.rs\<close>; \<open>Nip46_Padding\<close>: NIP-44 padded lengths.
    \<open>Nip46_Theorems\<close> holds the properties.
  \<^item> \<open>Provider_Contract\<close>: \<^verbatim>\<open>provider_contract.rs\<close>, bindings, capability masks, bounded operations. \<open>Provider_Verification\<close>:
    \<^verbatim>\<open>provider_verification.rs\<close> and the wire types of \<^verbatim>\<open>provider_local_signer.rs\<close>. \<open>Provider_Theorems\<close> holds the properties.
  \<^item> \<open>Nip46_Work\<close>: \<^verbatim>\<open>nip46_work.rs\<close>, the way of a request from a verified event through decryption and durable admission to
    provider work. \<open>Nip46_Work_Theorems\<close>: its properties, over the request ledger and the connection tables.
  \<^item> \<open>Completion_State\<close>: \<^verbatim>\<open>state_completion.rs\<close>, the completion of a request bound to its work, its decision and its provider
    result, with the revocation of the session on logout. \<open>Response_State\<close>: \<^verbatim>\<open>state_response.rs\<close>, the one transaction that
    records the completion, the exact signed response and its delivery job, the announcement of a pending approval, and the
    readers of retained bytes. \<open>response_db\<close> joins the connection tables, the delivery tables and the three tables of this
    part. \<open>Response_Effects\<close>: what a commit that returns has done. \<open>Response_System\<close>: the composed transition system, whose steps
    are the two commits and the steps of connections and outbox, and its invariant. \<open>Response_Example\<close>: an answered logout
    and an announced approval. \<open>Response_Theorems\<close> holds the properties.

  \<^bold>\<open>State.\<close> A table is a list of rows in insertion order and a row a record with the columns of the catalog
  (\<^verbatim>\<open>state_catalog.rs\<close>). An INSERT is legal when the CHECK constraints, the foreign and unique keys and the triggers
  admit it, an UPDATE when every row it changes passes the constraints and the update trigger; a statement that is not
  legal fails, and the transaction with it. A failed transaction leaves no database: the \<open>Inl\<close> of its result carries none.
  The one place where the program reports an error after a commit (\<open>repository_authorize_challenge\<close>) returns both.

  \<^bold>\<open>Numbers.\<close> Unsigned integers are natural numbers, columns are integers; every conversion (\<open>i64_of_nat\<close>, \<open>u64_of_int\<close>,
  saturating arithmetic) and every place where a width matters is written out. Bytes are 8-bit words.

  \<^bold>\<open>Parameters.\<close> Code that is not part of the repository is an argument: \<open>sha256\<close>, the public key parser (\<open>key_hex\<close>,
  \<open>key_xonly\<close>) and the URL parser of the record \<open>crates\<close>, \<open>serde_json::to_vec\<close>, the JSON document as a function from
  pointers to values, the relay adapter and the discovery read of the worker (its signer read is \<open>retained_bytes\<close>); the JSON parser with the
  text of its errors (\<open>json_crate\<close>), the decoding and the checks of events, base64 and typed requests (\<open>event_crates\<close>), hex, unsigned and signed events (\<open>provider_crates\<close>), the
  limits of the connect crate (\<open>connect_limits\<close>). What is assumed of them is a hypothesis of the property: digests and event
  identifiers of 32 bytes, no collision between the texts that two given requests or operations hash, and, where an
  operation must find a derived identifier unused, that no stored row has it.

  \<^bold>\<open>What the theorems show.\<close> C1 to C3: the way of a request. No provider operation without an allowed connection and the
  required permission, none twice for one request, no decryption completed by a foreign response. C4 to C9: answers. At most
  one answer for an operation, kept as the exact verified bytes, which every job of the outbox finds; a committed answer is
  replayed for ever, an announced approval is final, a logout ends its session, and a commit changes exactly what it should.
  C10 to C19: the outbox. Invariant, exact outcomes, numbered attempts, immutability of decided rows, progress, recovery,
  and that bytes reach a relay only after a durable submission. C20 to C26: governance. Invariant, a bound on admissions in
  any window, refinement of an abstract limiter, round trip of audits, exact compaction, pages that end. C27 to C30:
  connections. Invariant, life cycle along runs, no grant but by the one admission decision of the connection, no authorization out of time. C31 to
  C33: configuration changes. Complete revocation, one consistent step of the database, and the decisions an identity change
  orphans. C34 to C37: requests. Invariant, refinement of the ledger, every valid request is answered, a request stays one
  operation for ever. C38 to C40: input. The scanner accepts exactly JSON strings, given by a grammar with its own hexadecimal digits and scalar values, tags are measured exactly, replay
  classification compares the requests themselves. Properties with hypotheses have a witness on a concrete run. Further
  theorems (replays, work selection, the append-only trail, padding, lease windows, jitter bounds) stand beside them.

  \<^bold>\<open>Fuel and termination.\<close> All operations are total functions. Only the loop of a client that follows audit page cursors
  (\<open>read_all_pages\<close>) has fuel; one page per stored audit and one more suffice, which is part of its theorem. The loop of the
  JSON scanner ends because every step moves the index forward (\<open>scan_step_advances\<close>).

  \<^bold>\<open>Where the code falls short.\<close> Five theorems describe it: recovery refuses an expired last attempt
  (\<open>recovery_of_last_attempt_fails\<close>), a lowered limit locks a subject out (\<open>lowered_limit_locks_out\<close>), an identity
  change orphans pending decisions (\<open>identity_change_orphans_decisions\<close>), the admin approval is not held to the
  permission ceiling (\<open>admin_approval_ignores_ceiling\<close>), and malformed tags are reported as too many when the error text
  quotes the sentinel of that limit (\<open>quoted_sentinel_classified\<close>).

  \<^bold>\<open>Not modelled.\<close> Discovery (\<^verbatim>\<open>state_discovery.rs\<close>) and the journal of admin operations (\<^verbatim>\<open>state_admin.rs\<close>), further
  tables of the same kind; the paging of recovery over jobs, with its check of retained artifacts; the asynchronous loop
  that drives the steps of a request (\<^verbatim>\<open>runtime_nip46.rs\<close>); read-only summaries and pages for the admin interface; opening, locking and backing up the database
  file, sockets, signals, process start and the async runtime (input and output); TOML and command-line parsing and JSON wire
  formats (third-party parsers); key storage and cryptography (third-party). Concurrency between transactions is serialized
  by the database, so interleavings are sequences of transactions, which is what the step relations range over.
\<close>

end
